(* ===== verification/Prelude.thy ===== *)
theory Prelude
  imports Main "HOL-Library.Word" "HOL-Library.Multiset" "HOL-Library.List_Lexorder" "HOL-Library.Char_ord"
begin

text \<open>
  Shared vocabulary of the development: the Rust types the crates use (\<open>i64\<close>, \<open>u32\<close>,
  \<open>u64\<close>, \<open>usize\<close>, \<open>f64\<close>, \<open>String\<close>), \<open>Result\<close> as a sum, the checked additions, the
  comparison and classification of IEEE-754 doubles by their bit patterns, \<open>str::trim\<close> as it
  is used by every validator (\<open>value.trim().is_empty()\<close>), and the list loops that validators
  run: a check of every element, and a check for duplicates by inserting into a set.
\<close>

section \<open>Results\<close>

text \<open>
  \<open>Result<T, E>\<close> is the sum type with the error on the left. \<open>bindR\<close> is the \<open>?\<close> operator:
  the error returns at once, the value goes on.
\<close>

type_synonym ('e, 'a) result = "'e + 'a"

definition bindR :: "('e, 'a) result \<Rightarrow> ('a \<Rightarrow> ('e, 'b) result) \<Rightarrow> ('e, 'b) result" where
  "bindR r f = (case r of Inl e \<Rightarrow> Inl e | Inr v \<Rightarrow> f v)"

definition map_err :: "('e \<Rightarrow> 'f) \<Rightarrow> ('e, 'a) result \<Rightarrow> ('f, 'a) result" where
  "map_err g r = (case r of Inl e \<Rightarrow> Inl (g e) | Inr v \<Rightarrow> Inr v)"

definition is_ok :: "('e, 'a) result \<Rightarrow> bool" where
  "is_ok r \<longleftrightarrow> (case r of Inl _ \<Rightarrow> False | Inr _ \<Rightarrow> True)"

lemma bindR_simps [simp]:
  "bindR (Inl e) f = Inl e"
  "bindR (Inr v) f = f v"
  by (simp_all add: bindR_def)

lemma map_err_simps [simp]:
  "map_err g (Inl e) = Inl (g e)"
  "map_err g (Inr v) = Inr v"
  by (simp_all add: map_err_def)

lemma is_ok_simps [simp]: "is_ok (Inr v)" "\<not> is_ok (Inl e)"
  by (simp_all add: is_ok_def)

lemma bindR_eq_Inr: "bindR r f = Inr y \<longleftrightarrow> (\<exists>v. r = Inr v \<and> f v = Inr y)"
  by (cases r) auto

lemma bindR_InrE: "bindR r f = Inr y \<Longrightarrow> (\<And>v. r = Inr v \<Longrightarrow> f v = Inr y \<Longrightarrow> thesis) \<Longrightarrow> thesis"
  by (cases r) auto

lemma bindR_eq_Inl: "bindR r f = Inl e \<longleftrightarrow> r = Inl e \<or> (\<exists>v. r = Inr v \<and> f v = Inl e)"
  by (cases r) auto

lemma bindR_unit_eq_Inr: "bindR (r :: ('e, unit) result) f = Inr y \<longleftrightarrow> r = Inr () \<and> f () = Inr y"
  by (cases r) auto

lemma guard_eq_Inr: "(if b then Inl e else r) = Inr y \<longleftrightarrow> \<not> b \<and> r = Inr y"
  by simp

lemma map_err_eq_Inr [simp]: "map_err g r = Inr v \<longleftrightarrow> r = Inr v"
  by (cases r) auto

lemma unit_result_cases: "r \<noteq> Inr () \<Longrightarrow> \<exists>e. r = Inl e"
  by (cases r) auto

text \<open>Code that may also panic: \<open>None\<close> is the panic, and \<open>bindP\<close> the \<open>?\<close> operator there. \<open>expect\<close> on an
  \<open>Option\<close> is \<open>Option.bind\<close>.\<close>

definition bindP :: "('e, 'a) result option \<Rightarrow> ('a \<Rightarrow> ('e, 'b) result option) \<Rightarrow> ('e, 'b) result option" where
  "bindP r f = (case r of None \<Rightarrow> None | Some (Inl e) \<Rightarrow> Some (Inl e) | Some (Inr v) \<Rightarrow> f v)"

lemma bindP_Inr: "bindP r f = Some (Inr y) \<longleftrightarrow> (\<exists>v. r = Some (Inr v) \<and> f v = Some (Inr y))"
  by (auto simp: bindP_def split: option.splits sum.splits)

lemma bindP_InrE: "bindP r f = Some (Inr y) \<Longrightarrow> (\<And>v. r = Some (Inr v) \<Longrightarrow> f v = Some (Inr y) \<Longrightarrow> thesis) \<Longrightarrow> thesis"
  by (auto simp: bindP_Inr)

lemma bindP_simps [simp]:
  "bindP None f = None" "bindP (Some (Inl e)) f = Some (Inl e)" "bindP (Some (Inr v)) f = f v"
  by (simp_all add: bindP_def)

lemma bindP_returns: "r \<noteq> None \<Longrightarrow> (\<And>v. r = Some (Inr v) \<Longrightarrow> f v \<noteq> None) \<Longrightarrow> bindP r f \<noteq> None"
  by (auto simp: bindP_def split: option.splits sum.splits)

lemmas result_simps = bindR_eq_Inr guard_eq_Inr
lemmas unit_result_simps = bindR_unit_eq_Inr guard_eq_Inr

text \<open>A loop that checks every element and returns the first error.\<close>

primrec check_each :: "('a \<Rightarrow> ('e, unit) result) \<Rightarrow> 'a list \<Rightarrow> ('e, unit) result" where
  "check_each f [] = Inr ()"
| "check_each f (x # xs) = bindR (f x) (\<lambda>_. check_each f xs)"

lemma check_each_ok: "check_each f xs = Inr () \<longleftrightarrow> (\<forall>x \<in> set xs. f x = Inr ())"
  by (induction xs) (auto simp: bindR_eq_Inr)

lemma check_each_mset:
  "mset xs = mset ys \<Longrightarrow> check_each f xs = Inr () \<longleftrightarrow> check_each f ys = Inr ()"
  by (metis check_each_ok set_mset_mset)

section \<open>Integers\<close>

text \<open>
  \<open>i64\<close> is \<open>int\<close>, \<open>u32\<close>, \<open>u64\<close> and \<open>usize\<close> are \<open>nat\<close>; the range of the Rust type is written
  where the code can leave it (\<open>checked_add\<close>, \<open>checked_sub\<close>, the casts).
\<close>

type_synonym i64 = int
type_synonym u16 = nat
type_synonym u32 = nat
type_synonym u64 = nat
type_synonym usize = nat

definition i64_max :: int where "i64_max = 9223372036854775807"
definition i64_min :: int where "i64_min = - 9223372036854775808"
definition u16_max :: nat where "u16_max = 65535"
definition u32_max :: nat where "u32_max = 4294967295"
definition u64_max :: nat where "u64_max = 18446744073709551615"

definition checked_add_i64 :: "i64 \<Rightarrow> i64 \<Rightarrow> i64 option" where
  "checked_add_i64 a b = (if i64_min \<le> a + b \<and> a + b \<le> i64_max then Some (a + b) else None)"

definition checked_sub_i64 :: "i64 \<Rightarrow> i64 \<Rightarrow> i64 option" where
  "checked_sub_i64 a b = (if i64_min \<le> a - b \<and> a - b \<le> i64_max then Some (a - b) else None)"

definition checked_add_u32 :: "u32 \<Rightarrow> u32 \<Rightarrow> u32 option" where
  "checked_add_u32 a b = (if a + b \<le> u32_max then Some (a + b) else None)"

definition checked_add_u64 :: "u64 \<Rightarrow> u64 \<Rightarrow> u64 option" where
  "checked_add_u64 a b = (if a + b \<le> u64_max then Some (a + b) else None)"

lemmas checked_defs = checked_add_i64_def checked_sub_i64_def checked_add_u32_def checked_add_u64_def

lemma checked_add_i64_Some: "checked_add_i64 a b = Some c \<Longrightarrow> c = a + b"
  by (auto simp: checked_add_i64_def split: if_splits)

lemma checked_add_u32_Some: "checked_add_u32 a b = Some c \<Longrightarrow> c = a + b"
  by (auto simp: checked_add_u32_def split: if_splits)

lemma checked_add_u64_Some: "checked_add_u64 a b = Some c \<Longrightarrow> c = a + b \<and> c \<le> u64_max"
  by (auto simp: checked_add_u64_def split: if_splits)

section \<open>Doubles\<close>

text \<open>
  An \<open>f64\<close> is its bit pattern, so \<open>to_bits\<close> is the identity. \<open>f64_key\<close> orders the patterns that
  are not NaN as IEEE-754 does (both zeros have the key 0); the comparisons are false on a NaN.
\<close>

type_synonym f64 = "64 word"

definition f64_sign_bit :: nat where "f64_sign_bit = 9223372036854775808"
definition f64_inf_bits :: nat where "f64_inf_bits = 9218868437227405312"

definition f64_magnitude :: "f64 \<Rightarrow> nat" where
  "f64_magnitude x = (if unat x < f64_sign_bit then unat x else unat x - f64_sign_bit)"

definition f64_is_sign_negative :: "f64 \<Rightarrow> bool" where
  "f64_is_sign_negative x \<longleftrightarrow> f64_sign_bit \<le> unat x"

definition f64_is_finite :: "f64 \<Rightarrow> bool" where
  "f64_is_finite x \<longleftrightarrow> f64_magnitude x < f64_inf_bits"

definition f64_is_nan :: "f64 \<Rightarrow> bool" where
  "f64_is_nan x \<longleftrightarrow> f64_inf_bits < f64_magnitude x"

definition f64_key :: "f64 \<Rightarrow> int" where
  "f64_key x = (if f64_is_sign_negative x then - int (f64_magnitude x) else int (f64_magnitude x))"

definition f64_lt :: "f64 \<Rightarrow> f64 \<Rightarrow> bool" where
  "f64_lt x y \<longleftrightarrow> \<not> f64_is_nan x \<and> \<not> f64_is_nan y \<and> f64_key x < f64_key y"

definition f64_le :: "f64 \<Rightarrow> f64 \<Rightarrow> bool" where
  "f64_le x y \<longleftrightarrow> \<not> f64_is_nan x \<and> \<not> f64_is_nan y \<and> f64_key x \<le> f64_key y"

definition f64_zero :: f64 where "f64_zero = 0"
definition f64_one :: f64 where "f64_one = 4607182418800017408"

lemmas f64_defs = f64_sign_bit_def f64_inf_bits_def f64_magnitude_def f64_is_sign_negative_def
  f64_is_finite_def f64_is_nan_def f64_key_def f64_lt_def f64_le_def f64_zero_def f64_one_def

definition f64_positive :: "f64 \<Rightarrow> bool" where
  "f64_positive x \<longleftrightarrow> f64_is_finite x \<and> f64_lt f64_zero x"

definition f64_non_negative :: "f64 \<Rightarrow> bool" where
  "f64_non_negative x \<longleftrightarrow> f64_is_finite x \<and> f64_le f64_zero x"

lemma f64_finite_not_nan: "f64_is_finite x \<Longrightarrow> \<not> f64_is_nan x"
  by (simp add: f64_is_finite_def f64_is_nan_def)

lemma f64_zero_finite [simp]: "f64_is_finite f64_zero" "\<not> f64_is_nan f64_zero" "f64_key f64_zero = 0"
  by (simp_all add: f64_defs)

lemma f64_finite_total:
  "f64_is_finite x \<Longrightarrow> f64_is_finite y \<Longrightarrow> \<not> f64_lt x y \<longleftrightarrow> f64_le y x"
  by (auto simp: f64_lt_def f64_le_def dest: f64_finite_not_nan)

lemma f64_positive_non_negative: "f64_positive x \<Longrightarrow> f64_non_negative x"
  by (auto simp: f64_positive_def f64_non_negative_def f64_lt_def f64_le_def)

section \<open>Strings\<close>

text \<open>
  A \<open>String\<close> is its UTF-8 bytes, compared bytewise as Rust's \<open>Ord\<close> does. \<open>trim\<close> removes the
  characters with the Unicode property White\_Space; \<open>trim().is_empty()\<close> says that the string
  consists of their encodings only: one byte (U+0009 to U+000D, U+0020), two (U+0085, U+00A0) or
  three (U+1680, U+2000 to U+200A, U+2028, U+2029, U+202F, U+205F, U+3000).
\<close>

definition ws1 :: "nat \<Rightarrow> bool" where
  "ws1 a \<longleftrightarrow> 9 \<le> a \<and> a \<le> 13 \<or> a = 32"

definition ws2 :: "nat \<Rightarrow> nat \<Rightarrow> bool" where
  "ws2 a b \<longleftrightarrow> a = 194 \<and> (b = 133 \<or> b = 160)"

definition ws3 :: "nat \<Rightarrow> nat \<Rightarrow> nat \<Rightarrow> bool" where
  "ws3 a b c \<longleftrightarrow> a = 225 \<and> b = 154 \<and> c = 128
     \<or> a = 226 \<and> b = 128 \<and> (128 \<le> c \<and> c \<le> 138 \<or> c = 168 \<or> c = 169 \<or> c = 175)
     \<or> a = 226 \<and> b = 129 \<and> c = 159
     \<or> a = 227 \<and> b = 128 \<and> c = 128"

fun blank_bytes :: "nat list \<Rightarrow> bool" where
  "blank_bytes [] = True"
| "blank_bytes [a] = ws1 a"
| "blank_bytes [a, b] = (if ws1 a then blank_bytes [b] else ws2 a b)"
| "blank_bytes (a # b # c # r) =
     (if ws1 a then blank_bytes (b # c # r)
      else if ws2 a b then blank_bytes (c # r)
      else ws3 a b c \<and> blank_bytes r)"

definition trim_is_empty :: "string \<Rightarrow> bool" where
  "trim_is_empty s = blank_bytes (map of_char s)"

lemma trim_is_empty_Nil [simp]: "trim_is_empty []"
  by (simp add: trim_is_empty_def)

section \<open>Duplicate detection\<close>

text \<open>The loop \<open>for x in xs { if !seen.insert(x) { return Err } }\<close>.\<close>

primrec no_repeats :: "'a set \<Rightarrow> 'a list \<Rightarrow> bool" where
  "no_repeats seen [] = True"
| "no_repeats seen (x # xs) = (x \<notin> seen \<and> no_repeats (insert x seen) xs)"

lemma no_repeats_iff: "no_repeats seen xs \<longleftrightarrow> distinct xs \<and> set xs \<inter> seen = {}"
  by (induction xs arbitrary: seen) auto

lemma no_repeats_distinct [simp]: "no_repeats {} xs \<longleftrightarrow> distinct xs"
  by (simp add: no_repeats_iff)

text \<open>Strictly ascending neighbours, the negation of \<open>windows(2).any(|p| p[0] >= p[1])\<close>.\<close>

fun strictly_ascending :: "('a::linorder) list \<Rightarrow> bool" where
  "strictly_ascending (x # y # ys) = (x < y \<and> strictly_ascending (y # ys))"
| "strictly_ascending _ = True"

lemma strictly_ascending_iff: "strictly_ascending xs \<longleftrightarrow> sorted_wrt (<) xs"
proof (induction xs rule: strictly_ascending.induct)
  case (1 x y ys)
  then show ?case by (auto dest: less_trans)
qed simp_all

lemma strictly_ascending_sorted_distinct: "strictly_ascending xs \<longleftrightarrow> sorted xs \<and> distinct xs"
  by (simp add: strictly_ascending_iff strict_sorted_iff)

end
