(* ===== verification/Enums.thy ===== *)
theory Enums
  imports Prelude
begin

text \<open>
  The string enums of \<open>crates/types/src/enums.rs\<close>. Every enum is a datatype with the source's
  variants (\<open>RollbackMode::None\<close> is \<open>NoRollback\<close>, since \<open>None\<close> is taken) and a table of the
  wire strings, which is the argument of the macro \<open>string_enum!\<close>. The macro's
  \<open>as_str\<close> and \<open>from_str\<close> are functions of the table, their contract (the strings identify the
  variants, and everything else is refused) is the locale \<open>string_enum\<close>, and each enum's table
  is shown to meet it.
\<close>

section \<open>The macro \<open>string_enum!\<close>\<close>

datatype ParseEnumError = ParseEnumError (enum_name: string) (enum_value: string)

definition enum_as_str :: "('v \<times> string) list \<Rightarrow> 'v \<Rightarrow> string" where
  "enum_as_str table v = (case map_of table v of Some s \<Rightarrow> s | None \<Rightarrow> [])"

definition enum_from_str ::
  "string \<Rightarrow> ('v \<times> string) list \<Rightarrow> string \<Rightarrow> (ParseEnumError, 'v) result" where
  "enum_from_str name table s =
     (case find (\<lambda>p. snd p = s) table of
        Some p \<Rightarrow> Inr (fst p)
      | None \<Rightarrow> Inl (ParseEnumError name s))"

locale string_enum =
  fixes table :: "('v \<times> string) list"
  assumes every_variant: "v \<in> set (map fst table)"
    and variants_distinct: "distinct (map fst table)"
    and values_distinct: "distinct (map snd table)"
begin

lemma as_str_in_table: "(v, enum_as_str table v) \<in> set table"
proof -
  obtain s where s: "(v, s) \<in> set table" using every_variant by force
  then have "map_of table v = Some s" using variants_distinct by simp
  with s show ?thesis by (simp add: enum_as_str_def)
qed

lemma in_table_as_str: "(v, s) \<in> set table \<Longrightarrow> enum_as_str table v = s"
  using variants_distinct by (simp add: enum_as_str_def)

lemma same_value: "(v, s) \<in> set table \<Longrightarrow> (w, s) \<in> set table \<Longrightarrow> v = w"
  using values_distinct inj_onD [of snd "set table" "(v, s)" "(w, s)"] by (simp add: distinct_map)

lemma find_value: "find (\<lambda>p. snd p = s) table = Some p \<longleftrightarrow> p \<in> set table \<and> snd p = s"
proof
  assume "find (\<lambda>p. snd p = s) table = Some p"
  then show "p \<in> set table \<and> snd p = s" by (auto simp: find_Some_iff)
next
  assume p: "p \<in> set table \<and> snd p = s"
  then obtain q where q: "find (\<lambda>p. snd p = s) table = Some q"
    by (cases p, cases "find (\<lambda>p. snd p = s) table") (auto simp: find_None_iff)
  then have "q \<in> set table" "snd q = s" by (auto simp: find_Some_iff)
  with p same_value [of "fst p" s "fst q"] have "q = p" by (cases p, cases q) simp
  with q show "find (\<lambda>p. snd p = s) table = Some p" by simp
qed

lemma from_str_iff: "enum_from_str name table s = Inr v \<longleftrightarrow> enum_as_str table v = s"
proof
  assume "enum_from_str name table s = Inr v"
  then obtain p where "find (\<lambda>p. snd p = s) table = Some p" "fst p = v"
    by (auto simp: enum_from_str_def split: option.splits)
  then have "(v, s) \<in> set table" by (cases p) (simp add: find_value)
  then show "enum_as_str table v = s" by (rule in_table_as_str)
next
  assume "enum_as_str table v = s"
  then have "(v, s) \<in> set table" using as_str_in_table [of v] by simp
  then have "find (\<lambda>p. snd p = s) table = Some (v, s)" by (simp add: find_value)
  then show "enum_from_str name table s = Inr v" by (simp add: enum_from_str_def)
qed

lemma round_trip: "enum_from_str name table (enum_as_str table v) = Inr v"
  by (simp add: from_str_iff)

lemma as_str_inject: "enum_as_str table v = enum_as_str table w \<longleftrightarrow> v = w"
  by (metis round_trip sum.inject(2))

lemma from_str_unknown:
  assumes "s \<notin> range (enum_as_str table)"
  shows "enum_from_str name table s = Inl (ParseEnumError name s)"
proof (cases "find (\<lambda>p. snd p = s) table")
  case None
  then show ?thesis by (simp add: enum_from_str_def)
next
  case (Some p)
  then have "enum_from_str name table s = Inr (fst p)" by (simp add: enum_from_str_def)
  then have "enum_as_str table (fst p) = s" by (simp add: from_str_iff)
  with assms show ?thesis by blast
qed

end

section \<open>The enums\<close>

datatype ErrorCode =
    AccountSnapshotStale | SymbolMetadataStale | OrderSnapshotStale | TradeIntentExpired
    | TradeIntentTimeInvalid | DuplicateTradeIntent | DuplicateCommand
    | DuplicateIdempotencyConflict | InvalidHmac | AuthenticationFailed | SessionIdentityMismatch
    | CommandExpired | CommandDeliveryTimeout | CommandDeliveryUnconfirmed | CommandDeliveryFailed
    | CommandDispatchBackpressure | CommandInflightLimitReached | BrokerRejected | BrokerTimeout
    | InsufficientMargin | InvalidVolume | InvalidPrice | InvalidStops | TradeModeDisabled
    | ReconciliationFailed | ManualReconciliationRequired | SchemaValidationFailed | BadRequest
    | Unauthorized | Forbidden | NotFound | MethodNotAllowed | Conflict | IdempotencyKeyConflict
    | RateLimited | InternalError | ServiceUnavailable | MarketSnapshotStale | RiskInputInvalid
    | RiskLimitExceeded | ExposureLimitExceeded | PositionLimitExceeded | RiskReductionNotProvable
    | PendingExposureConflict | RiskEngineCircuitBreakerTriggered | RedisUnavailable
    | StateStoreUnavailable | ClockSkewDetected | TimeSyncUnhealthy | LongTermAuditWriteFailed
    | SecretRotationFailed | DeadletterCreated | UnknownType | SchemaMajorMismatch
    | MissingRequiredField | InvalidFieldType | DecodeFailed | WireFrameTooLarge
    | WireProtocolViolation

datatype TradeIntentAction =
    Buy | Sell | Close | Hold

datatype TradeIntentLegAction =
    Buy | Sell | Close

datatype AdjustedRiskLegAction =
    Buy | Sell

datatype PositionSide =
    Buy | Sell

datatype OrderType =
    Market | Limit | Stop | StopLimit

datatype OrderSnapshotStatus =
    Placed | PartiallyFilled | Filled | Cancelled | Rejected | Expired | Unknown

datatype SymbolTradeMode =
    Full | LongOnly | ShortOnly | CloseOnly | Disabled

datatype ExecutionAction =
    Buy | Sell | Close | Modify | Cancel

datatype FillingPolicy =
    Fok | Ioc | Return

datatype TimePolicy =
    Gtc | Day | Specified

datatype ExecutionEventStatus =
    Accepted | OrderSent | Rejected | Filled | PartiallyFilled | Failed | Expired | Cancelled

datatype ExecutionCommandStatus =
    Created | Dispatched | DeliveryUnconfirmed | DeliveryFailed | Reconciling
    | ManualReconciliationRequired | CommandReceived | Accepted | Rejected | OrderSent
    | PartiallyFilled | Filled | Failed | Expired | Cancelled

datatype SessionStatus =
    Active | Stale | Disconnected | Rejected

datatype ClockSyncStatus =
    Synced | Degraded | Unsynced

datatype WireInboxStatus =
    Received | Acked | Handled | Duplicate | Deadletter | Failed

datatype WireOutboxStatus =
    Pending | WriteStarted | Sent | Acked | Failed | Cancelled

datatype TradeIntentStatus =
    Accepted | RiskBlocked | Rejected | Duplicate | Expired | Cancelled

datatype ExecutionPlanMode =
    Sequential | Simultaneous | BestEffortAtomic

datatype ExecutionFailurePolicy =
    CancelAll | PartialFill | Retry

datatype RollbackMode =
    CloseFilled | NoRollback

datatype ExecutionPlanStatus =
    Pending | Reconciling | ManualReconciliationRequired | Partial | Completed | Failed | Expired
    | Cancelled

datatype ExecutionLegStatus =
    Pending | Sent | DeliveryUnconfirmed | Reconciling | ManualReconciliationRequired
    | CommandReceived | Accepted | Rejected | OrderSent | PartiallyFilled | Filled | Failed
    | Expired | Cancelled

datatype CommandDeliveryAttemptStatus =
    Pending | Sent | Acked | Backpressure | NoActiveSession | Failed | Unconfirmed | Cancelled

datatype SystemEventSeverity =
    Info | Warning | Error | Critical

datatype EventStreamTopic =
    MarketSnapshot | RiskSummary | ExecutionSummary | SystemEvent | DeadletterSummary

datatype OutboundSpoolStatus =
    Pending | Sent | Acked | Failed | Retrying | Deadletter

section \<open>Their wire strings\<close>

definition ErrorCode_table :: "(ErrorCode \<times> string) list" where
  "ErrorCode_table = [
    (ErrorCode.AccountSnapshotStale, ''ACCOUNT_SNAPSHOT_STALE'')
    , (ErrorCode.SymbolMetadataStale, ''SYMBOL_METADATA_STALE'')
    , (ErrorCode.OrderSnapshotStale, ''ORDER_SNAPSHOT_STALE'')
    , (ErrorCode.TradeIntentExpired, ''TRADE_INTENT_EXPIRED'')
    , (ErrorCode.TradeIntentTimeInvalid, ''TRADE_INTENT_TIME_INVALID'')
    , (ErrorCode.DuplicateTradeIntent, ''DUPLICATE_TRADE_INTENT'')
    , (ErrorCode.DuplicateCommand, ''DUPLICATE_COMMAND'')
    , (ErrorCode.DuplicateIdempotencyConflict, ''DUPLICATE_IDEMPOTENCY_CONFLICT'')
    , (ErrorCode.InvalidHmac, ''INVALID_HMAC'')
    , (ErrorCode.AuthenticationFailed, ''AUTHENTICATION_FAILED'')
    , (ErrorCode.SessionIdentityMismatch, ''SESSION_IDENTITY_MISMATCH'')
    , (ErrorCode.CommandExpired, ''COMMAND_EXPIRED'')
    , (ErrorCode.CommandDeliveryTimeout, ''COMMAND_DELIVERY_TIMEOUT'')
    , (ErrorCode.CommandDeliveryUnconfirmed, ''COMMAND_DELIVERY_UNCONFIRMED'')
    , (ErrorCode.CommandDeliveryFailed, ''COMMAND_DELIVERY_FAILED'')
    , (ErrorCode.CommandDispatchBackpressure, ''COMMAND_DISPATCH_BACKPRESSURE'')
    , (ErrorCode.CommandInflightLimitReached, ''COMMAND_INFLIGHT_LIMIT_REACHED'')
    , (ErrorCode.BrokerRejected, ''BROKER_REJECTED'')
    , (ErrorCode.BrokerTimeout, ''BROKER_TIMEOUT'')
    , (ErrorCode.InsufficientMargin, ''INSUFFICIENT_MARGIN'')
    , (ErrorCode.InvalidVolume, ''INVALID_VOLUME''), (ErrorCode.InvalidPrice, ''INVALID_PRICE'')
    , (ErrorCode.InvalidStops, ''INVALID_STOPS'')
    , (ErrorCode.TradeModeDisabled, ''TRADE_MODE_DISABLED'')
    , (ErrorCode.ReconciliationFailed, ''RECONCILIATION_FAILED'')
    , (ErrorCode.ManualReconciliationRequired, ''MANUAL_RECONCILIATION_REQUIRED'')
    , (ErrorCode.SchemaValidationFailed, ''SCHEMA_VALIDATION_FAILED'')
    , (ErrorCode.BadRequest, ''BAD_REQUEST''), (ErrorCode.Unauthorized, ''UNAUTHORIZED'')
    , (ErrorCode.Forbidden, ''FORBIDDEN''), (ErrorCode.NotFound, ''NOT_FOUND'')
    , (ErrorCode.MethodNotAllowed, ''METHOD_NOT_ALLOWED''), (ErrorCode.Conflict, ''CONFLICT'')
    , (ErrorCode.IdempotencyKeyConflict, ''IDEMPOTENCY_KEY_CONFLICT'')
    , (ErrorCode.RateLimited, ''RATE_LIMITED''), (ErrorCode.InternalError, ''INTERNAL_ERROR'')
    , (ErrorCode.ServiceUnavailable, ''SERVICE_UNAVAILABLE'')
    , (ErrorCode.MarketSnapshotStale, ''MARKET_SNAPSHOT_STALE'')
    , (ErrorCode.RiskInputInvalid, ''RISK_INPUT_INVALID'')
    , (ErrorCode.RiskLimitExceeded, ''RISK_LIMIT_EXCEEDED'')
    , (ErrorCode.ExposureLimitExceeded, ''EXPOSURE_LIMIT_EXCEEDED'')
    , (ErrorCode.PositionLimitExceeded, ''POSITION_LIMIT_EXCEEDED'')
    , (ErrorCode.RiskReductionNotProvable, ''RISK_REDUCTION_NOT_PROVABLE'')
    , (ErrorCode.PendingExposureConflict, ''PENDING_EXPOSURE_CONFLICT'')
    , (ErrorCode.RiskEngineCircuitBreakerTriggered, ''RISK_ENGINE_CIRCUIT_BREAKER_TRIGGERED'')
    , (ErrorCode.RedisUnavailable, ''REDIS_UNAVAILABLE'')
    , (ErrorCode.StateStoreUnavailable, ''STATE_STORE_UNAVAILABLE'')
    , (ErrorCode.ClockSkewDetected, ''CLOCK_SKEW_DETECTED'')
    , (ErrorCode.TimeSyncUnhealthy, ''TIME_SYNC_UNHEALTHY'')
    , (ErrorCode.LongTermAuditWriteFailed, ''LONG_TERM_AUDIT_WRITE_FAILED'')
    , (ErrorCode.SecretRotationFailed, ''SECRET_ROTATION_FAILED'')
    , (ErrorCode.DeadletterCreated, ''DEADLETTER_CREATED'')
    , (ErrorCode.UnknownType, ''UNKNOWN_TYPE'')
    , (ErrorCode.SchemaMajorMismatch, ''SCHEMA_MAJOR_MISMATCH'')
    , (ErrorCode.MissingRequiredField, ''MISSING_REQUIRED_FIELD'')
    , (ErrorCode.InvalidFieldType, ''INVALID_FIELD_TYPE'')
    , (ErrorCode.DecodeFailed, ''DECODE_FAILED'')
    , (ErrorCode.WireFrameTooLarge, ''WIRE_FRAME_TOO_LARGE'')
    , (ErrorCode.WireProtocolViolation, ''WIRE_PROTOCOL_VIOLATION'')]"

lemma ErrorCode_variants:
  "map fst ErrorCode_table = [
    ErrorCode.AccountSnapshotStale, ErrorCode.SymbolMetadataStale,
    ErrorCode.OrderSnapshotStale, ErrorCode.TradeIntentExpired,
    ErrorCode.TradeIntentTimeInvalid, ErrorCode.DuplicateTradeIntent,
    ErrorCode.DuplicateCommand, ErrorCode.DuplicateIdempotencyConflict, ErrorCode.InvalidHmac,
    ErrorCode.AuthenticationFailed, ErrorCode.SessionIdentityMismatch,
    ErrorCode.CommandExpired, ErrorCode.CommandDeliveryTimeout,
    ErrorCode.CommandDeliveryUnconfirmed, ErrorCode.CommandDeliveryFailed,
    ErrorCode.CommandDispatchBackpressure, ErrorCode.CommandInflightLimitReached,
    ErrorCode.BrokerRejected, ErrorCode.BrokerTimeout, ErrorCode.InsufficientMargin,
    ErrorCode.InvalidVolume, ErrorCode.InvalidPrice, ErrorCode.InvalidStops,
    ErrorCode.TradeModeDisabled, ErrorCode.ReconciliationFailed,
    ErrorCode.ManualReconciliationRequired, ErrorCode.SchemaValidationFailed,
    ErrorCode.BadRequest, ErrorCode.Unauthorized, ErrorCode.Forbidden, ErrorCode.NotFound,
    ErrorCode.MethodNotAllowed, ErrorCode.Conflict, ErrorCode.IdempotencyKeyConflict,
    ErrorCode.RateLimited, ErrorCode.InternalError, ErrorCode.ServiceUnavailable,
    ErrorCode.MarketSnapshotStale, ErrorCode.RiskInputInvalid, ErrorCode.RiskLimitExceeded,
    ErrorCode.ExposureLimitExceeded, ErrorCode.PositionLimitExceeded,
    ErrorCode.RiskReductionNotProvable, ErrorCode.PendingExposureConflict,
    ErrorCode.RiskEngineCircuitBreakerTriggered, ErrorCode.RedisUnavailable,
    ErrorCode.StateStoreUnavailable, ErrorCode.ClockSkewDetected, ErrorCode.TimeSyncUnhealthy,
    ErrorCode.LongTermAuditWriteFailed, ErrorCode.SecretRotationFailed,
    ErrorCode.DeadletterCreated, ErrorCode.UnknownType, ErrorCode.SchemaMajorMismatch,
    ErrorCode.MissingRequiredField, ErrorCode.InvalidFieldType, ErrorCode.DecodeFailed,
    ErrorCode.WireFrameTooLarge, ErrorCode.WireProtocolViolation]"
  by (simp add: ErrorCode_table_def)

interpretation ErrorCode: string_enum ErrorCode_table
proof
  show "v \<in> set (map fst ErrorCode_table)" for v
    unfolding ErrorCode_variants by (cases v) simp_all
  show "distinct (map fst ErrorCode_table)"
    unfolding ErrorCode_variants by simp
  show "distinct (map snd ErrorCode_table)" by code_simp
qed

definition TradeIntentAction_table :: "(TradeIntentAction \<times> string) list" where
  "TradeIntentAction_table = [
    (TradeIntentAction.Buy, ''BUY''), (TradeIntentAction.Sell, ''SELL'')
    , (TradeIntentAction.Close, ''CLOSE''), (TradeIntentAction.Hold, ''HOLD'')]"

interpretation TradeIntentAction: string_enum TradeIntentAction_table
  by (unfold_locales, case_tac v) (simp_all add: TradeIntentAction_table_def)

definition TradeIntentLegAction_table :: "(TradeIntentLegAction \<times> string) list" where
  "TradeIntentLegAction_table = [
    (TradeIntentLegAction.Buy, ''BUY''), (TradeIntentLegAction.Sell, ''SELL'')
    , (TradeIntentLegAction.Close, ''CLOSE'')]"

interpretation TradeIntentLegAction: string_enum TradeIntentLegAction_table
  by (unfold_locales, case_tac v) (simp_all add: TradeIntentLegAction_table_def)

definition AdjustedRiskLegAction_table :: "(AdjustedRiskLegAction \<times> string) list" where
  "AdjustedRiskLegAction_table = [
    (AdjustedRiskLegAction.Buy, ''BUY''), (AdjustedRiskLegAction.Sell, ''SELL'')]"

interpretation AdjustedRiskLegAction: string_enum AdjustedRiskLegAction_table
  by (unfold_locales, case_tac v) (simp_all add: AdjustedRiskLegAction_table_def)

definition PositionSide_table :: "(PositionSide \<times> string) list" where
  "PositionSide_table = [
    (PositionSide.Buy, ''BUY''), (PositionSide.Sell, ''SELL'')]"

interpretation PositionSide: string_enum PositionSide_table
  by (unfold_locales, case_tac v) (simp_all add: PositionSide_table_def)

definition OrderType_table :: "(OrderType \<times> string) list" where
  "OrderType_table = [
    (OrderType.Market, ''MARKET''), (OrderType.Limit, ''LIMIT''), (OrderType.Stop, ''STOP'')
    , (OrderType.StopLimit, ''STOP_LIMIT'')]"

interpretation OrderType: string_enum OrderType_table
  by (unfold_locales, case_tac v) (simp_all add: OrderType_table_def)

definition OrderSnapshotStatus_table :: "(OrderSnapshotStatus \<times> string) list" where
  "OrderSnapshotStatus_table = [
    (OrderSnapshotStatus.Placed, ''PLACED'')
    , (OrderSnapshotStatus.PartiallyFilled, ''PARTIALLY_FILLED'')
    , (OrderSnapshotStatus.Filled, ''FILLED''), (OrderSnapshotStatus.Cancelled, ''CANCELLED'')
    , (OrderSnapshotStatus.Rejected, ''REJECTED''), (OrderSnapshotStatus.Expired, ''EXPIRED'')
    , (OrderSnapshotStatus.Unknown, ''UNKNOWN'')]"

interpretation OrderSnapshotStatus: string_enum OrderSnapshotStatus_table
  by (unfold_locales, case_tac v) (simp_all add: OrderSnapshotStatus_table_def)

definition SymbolTradeMode_table :: "(SymbolTradeMode \<times> string) list" where
  "SymbolTradeMode_table = [
    (SymbolTradeMode.Full, ''FULL''), (SymbolTradeMode.LongOnly, ''LONG_ONLY'')
    , (SymbolTradeMode.ShortOnly, ''SHORT_ONLY''), (SymbolTradeMode.CloseOnly, ''CLOSE_ONLY'')
    , (SymbolTradeMode.Disabled, ''DISABLED'')]"

interpretation SymbolTradeMode: string_enum SymbolTradeMode_table
  by (unfold_locales, case_tac v) (simp_all add: SymbolTradeMode_table_def)

definition ExecutionAction_table :: "(ExecutionAction \<times> string) list" where
  "ExecutionAction_table = [
    (ExecutionAction.Buy, ''BUY''), (ExecutionAction.Sell, ''SELL'')
    , (ExecutionAction.Close, ''CLOSE''), (ExecutionAction.Modify, ''MODIFY'')
    , (ExecutionAction.Cancel, ''CANCEL'')]"

interpretation ExecutionAction: string_enum ExecutionAction_table
  by (unfold_locales, case_tac v) (simp_all add: ExecutionAction_table_def)

definition FillingPolicy_table :: "(FillingPolicy \<times> string) list" where
  "FillingPolicy_table = [
    (FillingPolicy.Fok, ''FOK''), (FillingPolicy.Ioc, ''IOC''), (FillingPolicy.Return, ''RETURN'')]"

interpretation FillingPolicy: string_enum FillingPolicy_table
  by (unfold_locales, case_tac v) (simp_all add: FillingPolicy_table_def)

definition TimePolicy_table :: "(TimePolicy \<times> string) list" where
  "TimePolicy_table = [
    (TimePolicy.Gtc, ''GTC''), (TimePolicy.Day, ''DAY''), (TimePolicy.Specified, ''SPECIFIED'')]"

interpretation TimePolicy: string_enum TimePolicy_table
  by (unfold_locales, case_tac v) (simp_all add: TimePolicy_table_def)

definition ExecutionEventStatus_table :: "(ExecutionEventStatus \<times> string) list" where
  "ExecutionEventStatus_table = [
    (ExecutionEventStatus.Accepted, ''ACCEPTED'')
    , (ExecutionEventStatus.OrderSent, ''ORDER_SENT'')
    , (ExecutionEventStatus.Rejected, ''REJECTED''), (ExecutionEventStatus.Filled, ''FILLED'')
    , (ExecutionEventStatus.PartiallyFilled, ''PARTIALLY_FILLED'')
    , (ExecutionEventStatus.Failed, ''FAILED''), (ExecutionEventStatus.Expired, ''EXPIRED'')
    , (ExecutionEventStatus.Cancelled, ''CANCELLED'')]"

interpretation ExecutionEventStatus: string_enum ExecutionEventStatus_table
  by (unfold_locales, case_tac v) (simp_all add: ExecutionEventStatus_table_def)

definition ExecutionCommandStatus_table :: "(ExecutionCommandStatus \<times> string) list" where
  "ExecutionCommandStatus_table = [
    (ExecutionCommandStatus.Created, ''CREATED'')
    , (ExecutionCommandStatus.Dispatched, ''DISPATCHED'')
    , (ExecutionCommandStatus.DeliveryUnconfirmed, ''DELIVERY_UNCONFIRMED'')
    , (ExecutionCommandStatus.DeliveryFailed, ''DELIVERY_FAILED'')
    , (ExecutionCommandStatus.Reconciling, ''RECONCILING'')
    , (ExecutionCommandStatus.ManualReconciliationRequired, ''MANUAL_RECONCILIATION_REQUIRED'')
    , (ExecutionCommandStatus.CommandReceived, ''COMMAND_RECEIVED'')
    , (ExecutionCommandStatus.Accepted, ''ACCEPTED'')
    , (ExecutionCommandStatus.Rejected, ''REJECTED'')
    , (ExecutionCommandStatus.OrderSent, ''ORDER_SENT'')
    , (ExecutionCommandStatus.PartiallyFilled, ''PARTIALLY_FILLED'')
    , (ExecutionCommandStatus.Filled, ''FILLED''), (ExecutionCommandStatus.Failed, ''FAILED'')
    , (ExecutionCommandStatus.Expired, ''EXPIRED'')
    , (ExecutionCommandStatus.Cancelled, ''CANCELLED'')]"

interpretation ExecutionCommandStatus: string_enum ExecutionCommandStatus_table
  by (unfold_locales, case_tac v) (simp_all add: ExecutionCommandStatus_table_def)

definition SessionStatus_table :: "(SessionStatus \<times> string) list" where
  "SessionStatus_table = [
    (SessionStatus.Active, ''ACTIVE''), (SessionStatus.Stale, ''STALE'')
    , (SessionStatus.Disconnected, ''DISCONNECTED''), (SessionStatus.Rejected, ''REJECTED'')]"

interpretation SessionStatus: string_enum SessionStatus_table
  by (unfold_locales, case_tac v) (simp_all add: SessionStatus_table_def)

definition ClockSyncStatus_table :: "(ClockSyncStatus \<times> string) list" where
  "ClockSyncStatus_table = [
    (ClockSyncStatus.Synced, ''SYNCED''), (ClockSyncStatus.Degraded, ''DEGRADED'')
    , (ClockSyncStatus.Unsynced, ''UNSYNCED'')]"

interpretation ClockSyncStatus: string_enum ClockSyncStatus_table
  by (unfold_locales, case_tac v) (simp_all add: ClockSyncStatus_table_def)

definition WireInboxStatus_table :: "(WireInboxStatus \<times> string) list" where
  "WireInboxStatus_table = [
    (WireInboxStatus.Received, ''RECEIVED''), (WireInboxStatus.Acked, ''ACKED'')
    , (WireInboxStatus.Handled, ''HANDLED''), (WireInboxStatus.Duplicate, ''DUPLICATE'')
    , (WireInboxStatus.Deadletter, ''DEADLETTER''), (WireInboxStatus.Failed, ''FAILED'')]"

interpretation WireInboxStatus: string_enum WireInboxStatus_table
  by (unfold_locales, case_tac v) (simp_all add: WireInboxStatus_table_def)

definition WireOutboxStatus_table :: "(WireOutboxStatus \<times> string) list" where
  "WireOutboxStatus_table = [
    (WireOutboxStatus.Pending, ''PENDING''), (WireOutboxStatus.WriteStarted, ''WRITE_STARTED'')
    , (WireOutboxStatus.Sent, ''SENT''), (WireOutboxStatus.Acked, ''ACKED'')
    , (WireOutboxStatus.Failed, ''FAILED''), (WireOutboxStatus.Cancelled, ''CANCELLED'')]"

interpretation WireOutboxStatus: string_enum WireOutboxStatus_table
  by (unfold_locales, case_tac v) (simp_all add: WireOutboxStatus_table_def)

definition TradeIntentStatus_table :: "(TradeIntentStatus \<times> string) list" where
  "TradeIntentStatus_table = [
    (TradeIntentStatus.Accepted, ''ACCEPTED''), (TradeIntentStatus.RiskBlocked, ''RISK_BLOCKED'')
    , (TradeIntentStatus.Rejected, ''REJECTED''), (TradeIntentStatus.Duplicate, ''DUPLICATE'')
    , (TradeIntentStatus.Expired, ''EXPIRED''), (TradeIntentStatus.Cancelled, ''CANCELLED'')]"

interpretation TradeIntentStatus: string_enum TradeIntentStatus_table
  by (unfold_locales, case_tac v) (simp_all add: TradeIntentStatus_table_def)

definition ExecutionPlanMode_table :: "(ExecutionPlanMode \<times> string) list" where
  "ExecutionPlanMode_table = [
    (ExecutionPlanMode.Sequential, ''sequential'')
    , (ExecutionPlanMode.Simultaneous, ''simultaneous'')
    , (ExecutionPlanMode.BestEffortAtomic, ''best_effort_atomic'')]"

interpretation ExecutionPlanMode: string_enum ExecutionPlanMode_table
  by (unfold_locales, case_tac v) (simp_all add: ExecutionPlanMode_table_def)

definition ExecutionFailurePolicy_table :: "(ExecutionFailurePolicy \<times> string) list" where
  "ExecutionFailurePolicy_table = [
    (ExecutionFailurePolicy.CancelAll, ''cancel_all'')
    , (ExecutionFailurePolicy.PartialFill, ''partial_fill'')
    , (ExecutionFailurePolicy.Retry, ''retry'')]"

interpretation ExecutionFailurePolicy: string_enum ExecutionFailurePolicy_table
  by (unfold_locales, case_tac v) (simp_all add: ExecutionFailurePolicy_table_def)

definition RollbackMode_table :: "(RollbackMode \<times> string) list" where
  "RollbackMode_table = [
    (RollbackMode.CloseFilled, ''close_filled''), (RollbackMode.NoRollback, ''none'')]"

interpretation RollbackMode: string_enum RollbackMode_table
  by (unfold_locales, case_tac v) (simp_all add: RollbackMode_table_def)

definition ExecutionPlanStatus_table :: "(ExecutionPlanStatus \<times> string) list" where
  "ExecutionPlanStatus_table = [
    (ExecutionPlanStatus.Pending, ''PENDING''), (ExecutionPlanStatus.Reconciling, ''RECONCILING'')
    , (ExecutionPlanStatus.ManualReconciliationRequired, ''MANUAL_RECONCILIATION_REQUIRED'')
    , (ExecutionPlanStatus.Partial, ''PARTIAL''), (ExecutionPlanStatus.Completed, ''COMPLETED'')
    , (ExecutionPlanStatus.Failed, ''FAILED''), (ExecutionPlanStatus.Expired, ''EXPIRED'')
    , (ExecutionPlanStatus.Cancelled, ''CANCELLED'')]"

interpretation ExecutionPlanStatus: string_enum ExecutionPlanStatus_table
  by (unfold_locales, case_tac v) (simp_all add: ExecutionPlanStatus_table_def)

definition ExecutionLegStatus_table :: "(ExecutionLegStatus \<times> string) list" where
  "ExecutionLegStatus_table = [
    (ExecutionLegStatus.Pending, ''PENDING''), (ExecutionLegStatus.Sent, ''SENT'')
    , (ExecutionLegStatus.DeliveryUnconfirmed, ''DELIVERY_UNCONFIRMED'')
    , (ExecutionLegStatus.Reconciling, ''RECONCILING'')
    , (ExecutionLegStatus.ManualReconciliationRequired, ''MANUAL_RECONCILIATION_REQUIRED'')
    , (ExecutionLegStatus.CommandReceived, ''COMMAND_RECEIVED'')
    , (ExecutionLegStatus.Accepted, ''ACCEPTED''), (ExecutionLegStatus.Rejected, ''REJECTED'')
    , (ExecutionLegStatus.OrderSent, ''ORDER_SENT'')
    , (ExecutionLegStatus.PartiallyFilled, ''PARTIALLY_FILLED'')
    , (ExecutionLegStatus.Filled, ''FILLED''), (ExecutionLegStatus.Failed, ''FAILED'')
    , (ExecutionLegStatus.Expired, ''EXPIRED''), (ExecutionLegStatus.Cancelled, ''CANCELLED'')]"

interpretation ExecutionLegStatus: string_enum ExecutionLegStatus_table
  by (unfold_locales, case_tac v) (simp_all add: ExecutionLegStatus_table_def)

definition CommandDeliveryAttemptStatus_table :: "(CommandDeliveryAttemptStatus \<times> string) list" where
  "CommandDeliveryAttemptStatus_table = [
    (CommandDeliveryAttemptStatus.Pending, ''PENDING'')
    , (CommandDeliveryAttemptStatus.Sent, ''SENT'')
    , (CommandDeliveryAttemptStatus.Acked, ''ACKED'')
    , (CommandDeliveryAttemptStatus.Backpressure, ''BACKPRESSURE'')
    , (CommandDeliveryAttemptStatus.NoActiveSession, ''NO_ACTIVE_SESSION'')
    , (CommandDeliveryAttemptStatus.Failed, ''FAILED'')
    , (CommandDeliveryAttemptStatus.Unconfirmed, ''UNCONFIRMED'')
    , (CommandDeliveryAttemptStatus.Cancelled, ''CANCELLED'')]"

interpretation CommandDeliveryAttemptStatus: string_enum CommandDeliveryAttemptStatus_table
  by (unfold_locales, case_tac v) (simp_all add: CommandDeliveryAttemptStatus_table_def)

definition SystemEventSeverity_table :: "(SystemEventSeverity \<times> string) list" where
  "SystemEventSeverity_table = [
    (SystemEventSeverity.Info, ''INFO''), (SystemEventSeverity.Warning, ''WARNING'')
    , (SystemEventSeverity.Error, ''ERROR''), (SystemEventSeverity.Critical, ''CRITICAL'')]"

interpretation SystemEventSeverity: string_enum SystemEventSeverity_table
  by (unfold_locales, case_tac v) (simp_all add: SystemEventSeverity_table_def)

definition EventStreamTopic_table :: "(EventStreamTopic \<times> string) list" where
  "EventStreamTopic_table = [
    (EventStreamTopic.MarketSnapshot, ''market.snapshot'')
    , (EventStreamTopic.RiskSummary, ''risk.summary'')
    , (EventStreamTopic.ExecutionSummary, ''execution.summary'')
    , (EventStreamTopic.SystemEvent, ''system.event'')
    , (EventStreamTopic.DeadletterSummary, ''deadletter.summary'')]"

interpretation EventStreamTopic: string_enum EventStreamTopic_table
  by (unfold_locales, case_tac v) (simp_all add: EventStreamTopic_table_def)

definition OutboundSpoolStatus_table :: "(OutboundSpoolStatus \<times> string) list" where
  "OutboundSpoolStatus_table = [
    (OutboundSpoolStatus.Pending, ''PENDING''), (OutboundSpoolStatus.Sent, ''SENT'')
    , (OutboundSpoolStatus.Acked, ''ACKED''), (OutboundSpoolStatus.Failed, ''FAILED'')
    , (OutboundSpoolStatus.Retrying, ''RETRYING'')
    , (OutboundSpoolStatus.Deadletter, ''DEADLETTER'')]"

interpretation OutboundSpoolStatus: string_enum OutboundSpoolStatus_table
  by (unfold_locales, case_tac v) (simp_all add: OutboundSpoolStatus_table_def)

section \<open>Error codes outside the central set\<close>

text \<open>
  \<open>ErrorCodeOrString\<close>: a broker's own code stays text; \<open>From<String>\<close> recognises a central one.
\<close>

datatype ErrorCodeOrString = Known ErrorCode | Other string

definition ErrorCode_as_str :: "ErrorCode \<Rightarrow> string" where
  "ErrorCode_as_str = enum_as_str ErrorCode_table"

definition ErrorCode_from_str :: "string \<Rightarrow> (ParseEnumError, ErrorCode) result" where
  "ErrorCode_from_str = enum_from_str ''ErrorCode'' ErrorCode_table"

definition ErrorCodeOrString_as_str :: "ErrorCodeOrString \<Rightarrow> string" where
  "ErrorCodeOrString_as_str e = (case e of Known c \<Rightarrow> ErrorCode_as_str c | Other s \<Rightarrow> s)"

definition ErrorCodeOrString_from :: "string \<Rightarrow> ErrorCodeOrString" where
  "ErrorCodeOrString_from s = (case ErrorCode_from_str s of Inl _ \<Rightarrow> Other s | Inr c \<Rightarrow> Known c)"

lemma ErrorCodeOrString_from_Known:
  "ErrorCodeOrString_from s = Known c \<longleftrightarrow> ErrorCode_as_str c = s"
proof (cases "ErrorCode_from_str s")
  case (Inl e)
  then have "ErrorCode_as_str c \<noteq> s" for c
    using ErrorCode.from_str_iff [of "''ErrorCode''" s c]
    by (simp add: ErrorCode_from_str_def ErrorCode_as_str_def)
  with Inl show ?thesis by (simp add: ErrorCodeOrString_from_def)
next
  case (Inr d)
  then have d: "ErrorCode_as_str d = s"
    using ErrorCode.from_str_iff [of "''ErrorCode''" s d]
    by (simp add: ErrorCode_from_str_def ErrorCode_as_str_def)
  then have "ErrorCode_as_str c = s \<longleftrightarrow> d = c"
    using ErrorCode.as_str_inject [of c d] by (auto simp: ErrorCode_as_str_def)
  with Inr show ?thesis by (simp add: ErrorCodeOrString_from_def)
qed

end
