(* ===== verification/Dto.thy ===== *)
theory Dto
  imports Enums
begin

text \<open>
  The data of \<open>crates/types/src/dto.rs\<close>, \<open>crates/types/src/ids.rs\<close> and of the payloads of
  \<open>crates/protocol/src/payload.rs\<close> that the modelled crates exchange, as records. A field keeps
  the source's name behind a prefix for its struct. The string newtypes of \<open>ids.rs\<close>
  (\<open>AccountId\<close>, \<open>CommandId\<close>, ...) are strings: they wrap one \<open>String\<close> and derive its equality
  and order.
\<close>

section \<open>Identifiers\<close>

type_synonym AccountId = string
type_synonym BrokerDealId = string
type_synonym BrokerOrderId = string
type_synonym CausationId = string
type_synonym ClientId = string
type_synonym CommandId = string
type_synonym CorrelationId = string
type_synonym DecisionId = string
type_synonym ExecutionId = string
type_synonym IdempotencyKey = string
type_synonym IntentId = string
type_synonym LegId = string
type_synonym MessageId = string
type_synonym PlanId = string
type_synonym PositionId = string
type_synonym PositionTicket = string
type_synonym RequestId = string
type_synonym RiskId = string
type_synonym SessionId = string
type_synonym StrategyId = string
type_synonym SymbolCode = string
type_synonym TerminalId = string
type_synonym TimeframeCode = string

definition single_leg_id :: "IntentId \<Rightarrow> LegId" where
  "single_leg_id intent_id = ''leg:'' @ intent_id @ '':0''"

section \<open>Snapshots\<close>

record MarketSnapshot =
  ms_symbol :: SymbolCode
  ms_broker_symbol :: "string option"
  ms_bid :: f64
  ms_ask :: f64
  ms_spread :: f64
  ms_observed_at :: i64

record SymbolMetadataSnapshot =
  sm_account_id :: AccountId
  sm_symbol :: SymbolCode
  sm_broker_symbol :: string
  sm_digits :: u32
  sm_point :: f64
  sm_tick_size :: f64
  sm_tick_value_loss :: f64
  sm_contract_size :: f64
  sm_volume_min :: f64
  sm_volume_max :: f64
  sm_volume_step :: f64
  sm_stops_level_points :: u32
  sm_freeze_level_points :: u32
  sm_margin_initial :: "f64 option"
  sm_margin_maintenance :: "f64 option"
  sm_trade_mode :: SymbolTradeMode
  sm_observed_at :: i64

record AccountSnapshot =
  acct_account_id :: AccountId
  acct_balance :: f64
  acct_equity :: f64
  acct_margin :: f64
  acct_free_margin :: f64
  acct_currency :: string
  acct_observed_at :: i64

record PositionSnapshot =
  pos_account_id :: AccountId
  pos_symbol :: SymbolCode
  pos_position_id :: PositionId
  pos_side :: PositionSide
  pos_lots :: f64
  pos_open_price :: f64
  pos_sl :: "f64 option"
  pos_tp :: "f64 option"
  pos_floating_pnl :: f64
  pos_observed_at :: i64

record OrderSnapshot =
  ord_account_id :: AccountId
  ord_terminal_id :: "TerminalId option"
  ord_client_id :: "ClientId option"
  ord_symbol :: SymbolCode
  ord_broker_symbol :: "string option"
  ord_broker_order_id :: BrokerOrderId
  ord_position_ticket :: "PositionTicket option"
  ord_command_id :: "CommandId option"
  ord_plan_id :: "PlanId option"
  ord_leg_id :: "LegId option"
  ord_idempotency_key :: "IdempotencyKey option"
  ord_side :: PositionSide
  ord_order_type :: OrderType
  ord_status :: OrderSnapshotStatus
  ord_requested_lots :: f64
  ord_filled_lots :: f64
  ord_remaining_lots :: f64
  ord_price :: "f64 option"
  ord_sl :: "f64 option"
  ord_tp :: "f64 option"
  ord_created_at :: "i64 option"
  ord_updated_at :: "i64 option"
  ord_observed_at :: i64

section \<open>Intents and risk results\<close>

record TradeIntentLeg =
  til_leg_id :: LegId
  til_symbol :: SymbolCode
  til_action :: TradeIntentLegAction
  til_ratio :: f64
  til_proposed_sl :: "f64 option"
  til_proposed_tp :: "f64 option"

record TradeIntent =
  ti_intent_id :: IntentId
  ti_decision_id :: DecisionId
  ti_strategy_id :: StrategyId
  ti_correlation_id :: CorrelationId
  ti_idempotency_key :: IdempotencyKey
  ti_account_id :: AccountId
  ti_symbol :: SymbolCode
  ti_timeframe :: TimeframeCode
  ti_action :: TradeIntentAction
  ti_confidence :: f64
  ti_reason :: string
  ti_proposed_risk_pct :: f64
  ti_proposed_sl :: "f64 option"
  ti_proposed_tp :: "f64 option"
  ti_proposed_legs :: "TradeIntentLeg list option"
  ti_decision_timestamp :: i64
  ti_signal_expires_at :: i64
  ti_requested_at :: i64

record RiskCapacity =
  rc_account_id :: AccountId
  rc_strategy_id :: StrategyId
  rc_observed_at :: i64
  rc_daily_realized_loss_pct :: f64
  rc_equity_drawdown_pct :: f64
  rc_remaining_account_risk_pct :: f64
  rc_remaining_portfolio_risk_pct :: f64
  rc_remaining_strategy_legs :: u32

record SizingCandidateProvenance =
  scp_leg_id :: LegId
  scp_symbol :: SymbolCode
  scp_action :: AdjustedRiskLegAction
  scp_ratio :: f64
  scp_worst_entry_price :: f64
  scp_stop_loss_price :: f64
  scp_estimated_cost_per_lot :: f64

record AdjustedRiskLeg =
  arl_leg_id :: LegId
  arl_symbol :: SymbolCode
  arl_action :: AdjustedRiskLegAction
  arl_lots :: f64
  arl_risk_amount :: f64
  arl_risk_pct :: f64
  arl_sizing_entry_price :: f64
  arl_approved_sl :: f64
  arl_loss_per_lot :: f64
  arl_reason :: "ErrorCodeOrString option"

record RiskResult =
  rr_risk_id :: RiskId
  rr_request_id :: RequestId
  rr_intent_id :: IntentId
  rr_account_id :: AccountId
  rr_risk_request_hash :: string
  rr_approved :: bool
  rr_reason :: ErrorCodeOrString
  rr_message :: "string option"
  rr_sizing_version :: "string option"
  rr_risk_base_amount :: "f64 option"
  rr_risk_budget_amount :: "f64 option"
  rr_adjusted_risk_pct :: "f64 option"
  rr_sizing_candidates :: "SizingCandidateProvenance list option"
  rr_adjusted_legs :: "AdjustedRiskLeg list option"
  rr_decision_id :: DecisionId
  rr_snapshot_age_ms :: i64
  rr_market_snapshot_age_ms :: i64
  rr_symbol_metadata_age_ms :: i64
  rr_capacity_age_ms :: i64
  rr_evaluated_at :: i64
  rr_valid_until :: i64

section \<open>Execution\<close>

record ExecutionCommand =
  ec_command_id :: CommandId
  ec_plan_id :: "PlanId option"
  ec_leg_id :: "LegId option"
  ec_strategy_id :: StrategyId
  ec_account_id :: AccountId
  ec_terminal_id :: "TerminalId option"
  ec_client_id :: "ClientId option"
  ec_symbol :: SymbolCode
  ec_broker_symbol :: "string option"
  ec_action :: ExecutionAction
  ec_order_type :: "OrderType option"
  ec_lots :: "f64 option"
  ec_price :: "f64 option"
  ec_sl :: "f64 option"
  ec_tp :: "f64 option"
  ec_deviation_points :: "i64 option"
  ec_magic :: i64
  ec_comment :: "string option"
  ec_position_ticket :: "PositionTicket option"
  ec_broker_order_id :: "BrokerOrderId option"
  ec_filling_policy :: "FillingPolicy option"
  ec_time_policy :: "TimePolicy option"
  ec_expiration_time :: "i64 option"
  ec_expires_at :: i64
  ec_idempotency_key :: IdempotencyKey
  ec_hmac :: string

record RollbackPolicy =
  rp_mode :: RollbackMode
  rp_max_retry_attempts :: "u32 option"

record ExecutionPolicy =
  epol_mode :: ExecutionPlanMode
  epol_failure_policy :: ExecutionFailurePolicy
  epol_timeout_ms :: i64
  epol_max_command_ttl_ms :: i64
  epol_rollback_policy :: "RollbackPolicy option"

record ExecutionLegDefinition =
  eld_leg_id :: LegId
  eld_symbol :: SymbolCode
  eld_action :: ExecutionAction
  eld_lots :: "f64 option"
  eld_sl :: "f64 option"
  eld_tp :: "f64 option"
  eld_ratio :: f64
  eld_dependency :: "LegId list"

record ExecutionLegState =
  els_status :: ExecutionLegStatus

record ExecutionLeg =
  leg_definition :: ExecutionLegDefinition
  leg_state :: ExecutionLegState

record ExecutionPlanDefinition =
  epd_plan_id :: PlanId
  epd_account_id :: AccountId
  epd_strategy_id :: StrategyId
  epd_mode :: ExecutionPlanMode
  epd_failure_policy :: ExecutionFailurePolicy
  epd_rollback_policy :: "RollbackPolicy option"

record ExecutionPlanState =
  eps_status :: ExecutionPlanStatus
  eps_filled_legs :: "LegId list"
  eps_failed_legs :: "LegId list"

record ExecutionPlan =
  plan_definition :: ExecutionPlanDefinition
  plan_legs :: "ExecutionLeg list"
  plan_state :: ExecutionPlanState

record ExecutionCommandState =
  cs_command_id :: CommandId
  cs_account_id :: AccountId
  cs_plan_id :: "PlanId option"
  cs_leg_id :: "LegId option"
  cs_status :: ExecutionCommandStatus
  cs_delivery_attempts :: u32
  cs_last_delivery_error :: "string option"
  cs_created_at :: i64
  cs_dispatched_at :: "i64 option"
  cs_command_received_at :: "i64 option"
  cs_reconciling_at :: "i64 option"
  cs_completed_at :: "i64 option"
  cs_updated_at :: i64

record ExecutionEvent =
  ev_execution_id :: ExecutionId
  ev_command_id :: CommandId
  ev_plan_id :: "PlanId option"
  ev_leg_id :: "LegId option"
  ev_account_id :: AccountId
  ev_terminal_id :: "TerminalId option"
  ev_client_id :: "ClientId option"
  ev_symbol :: SymbolCode
  ev_broker_symbol :: "string option"
  ev_status :: ExecutionEventStatus
  ev_broker_order_id :: "BrokerOrderId option"
  ev_broker_deal_id :: "BrokerDealId option"
  ev_position_ticket :: "PositionTicket option"
  ev_idempotency_key :: "IdempotencyKey option"
  ev_requested_lots :: "f64 option"
  ev_fill_price :: "f64 option"
  ev_filled_lots :: "f64 option"
  ev_remaining_lots :: "f64 option"
  ev_event_at :: i64
  ev_filled_at :: "i64 option"
  ev_broker_filled_at :: "i64 option"
  ev_error_code :: "ErrorCodeOrString option"
  ev_message :: "string option"

section \<open>Protocol payloads\<close>

datatype ProtocolReason = ProtocolOk | ProtocolErrorCode ErrorCode

datatype CommandInboxStatus = Recorded | Duplicate | Expired | Rejected

datatype ReconciliationReason =
    DeliveryUnconfirmed | ConnectionRestored | ManualRequest | StateStoreRestored

record CommandReceived =
  cr_command_id :: CommandId
  cr_idempotency_key :: IdempotencyKey
  cr_account_id :: AccountId
  cr_terminal_id :: "TerminalId option"
  cr_client_id :: "ClientId option"
  cr_received_at :: i64
  cr_inbox_status :: CommandInboxStatus
  cr_reason :: "ProtocolReason option"

record ReconciliationRequest =
  rreq_request_id :: RequestId
  rreq_account_id :: AccountId
  rreq_terminal_id :: "TerminalId option"
  rreq_client_id :: "ClientId option"
  rreq_reason :: ReconciliationReason
  rreq_command_ids :: "CommandId list option"
  rreq_since_server_time :: "i64 option"

record ReconciliationResult =
  rres_request_id :: RequestId
  rres_account_id :: AccountId
  rres_terminal_id :: "TerminalId option"
  rres_client_id :: "ClientId option"
  rres_observed_at :: i64
  rres_account :: "AccountSnapshot option"
  rres_positions :: "PositionSnapshot list"
  rres_orders :: "OrderSnapshot list"
  rres_symbol_metadata :: "SymbolMetadataSnapshot list"
  rres_unresolved_command_ids :: "CommandId list"

end
