(* ===== verification/Float64.thy ===== *)
theory Float64
  imports Complex_Main Prelude
begin

text \<open>
  Arithmetic on \<open>f64\<close> bit patterns as IEEE-754 binary64 defines it for \<open>+\<close>, \<open>*\<close> and \<open>/\<close>: the exact
  result, rounded to the nearest double, ties to the even pattern. The magnitudes (the patterns
  without the sign bit) are ordered like their values, so rounding down is a search over the bits of
  the pattern; the pattern of infinity stands for \<open>2 ^ 1024\<close>, where rounding overflows.
\<close>

section \<open>Values\<close>

definition mag_value :: "nat \<Rightarrow> rat" where
  "mag_value m =
     (let e = m div 2 ^ 52; frac = m mod 2 ^ 52
      in if e = 0 then of_nat (2 * frac) / 2 ^ 1075 else of_nat (2 ^ 52 + frac) * 2 ^ e / 2 ^ 1075)"

definition f64_value :: "f64 \<Rightarrow> rat" where
  "f64_value x = (if f64_is_sign_negative x then - mag_value (f64_magnitude x)
     else mag_value (f64_magnitude x))"

text \<open>The largest magnitude below infinity whose value does not exceed \<open>q\<close>.\<close>

definition mag_floor :: "rat \<Rightarrow> nat" where
  "mag_floor q = fold (\<lambda>i m. if m + 2 ^ i < f64_inf_bits \<and> mag_value (m + 2 ^ i) \<le> q then m + 2 ^ i else m)
     (rev [0..<63]) 0"

definition mag_round :: "rat \<Rightarrow> nat" where
  "mag_round q = (let m = mag_floor q; below = q - mag_value m; above = mag_value (m + 1) - q
     in if below < above then m else if above < below then m + 1 else if even m then m else m + 1)"

definition f64_pack :: "bool \<Rightarrow> nat \<Rightarrow> f64" where
  "f64_pack negative m = word_of_nat (if negative then m + f64_sign_bit else m)"

definition f64_nan :: f64 where "f64_nan = 9221120237041090560"

definition f64_of_rat :: "rat \<Rightarrow> f64" where
  "f64_of_rat q = f64_pack (q < 0) (mag_round \<bar>q\<bar>)"

section \<open>Operations\<close>

definition f64_is_infinite :: "f64 \<Rightarrow> bool" where
  "f64_is_infinite x \<longleftrightarrow> f64_magnitude x = f64_inf_bits"

definition f64_is_zero :: "f64 \<Rightarrow> bool" where
  "f64_is_zero x \<longleftrightarrow> f64_magnitude x = 0"

definition f64_mul :: "f64 \<Rightarrow> f64 \<Rightarrow> f64" where
  "f64_mul x y = (let sign = f64_is_sign_negative x \<noteq> f64_is_sign_negative y in
     if f64_is_nan x \<or> f64_is_nan y then f64_nan
     else if f64_is_infinite x \<or> f64_is_infinite y
       then if f64_is_zero x \<or> f64_is_zero y then f64_nan else f64_pack sign f64_inf_bits
     else f64_pack sign (mag_round (mag_value (f64_magnitude x) * mag_value (f64_magnitude y))))"

definition f64_div :: "f64 \<Rightarrow> f64 \<Rightarrow> f64" where
  "f64_div x y = (let sign = f64_is_sign_negative x \<noteq> f64_is_sign_negative y in
     if f64_is_nan x \<or> f64_is_nan y then f64_nan
     else if f64_is_infinite x
       then if f64_is_infinite y then f64_nan else f64_pack sign f64_inf_bits
     else if f64_is_infinite y then f64_pack sign 0
     else if f64_is_zero y
       then if f64_is_zero x then f64_nan else f64_pack sign f64_inf_bits
     else f64_pack sign (mag_round (mag_value (f64_magnitude x) / mag_value (f64_magnitude y))))"

definition f64_add :: "f64 \<Rightarrow> f64 \<Rightarrow> f64" where
  "f64_add x y =
     (if f64_is_nan x \<or> f64_is_nan y then f64_nan
      else if f64_is_infinite x
        then if f64_is_infinite y \<and> f64_is_sign_negative x \<noteq> f64_is_sign_negative y then f64_nan else x
      else if f64_is_infinite y then y
      else if f64_value x + f64_value y = 0
        then f64_pack (f64_is_sign_negative x \<and> f64_is_sign_negative y) 0
      else f64_of_rat (f64_value x + f64_value y))"

definition f64_eq :: "f64 \<Rightarrow> f64 \<Rightarrow> bool" where
  "f64_eq x y \<longleftrightarrow> \<not> f64_is_nan x \<and> \<not> f64_is_nan y \<and> f64_key x = f64_key y"

section \<open>Rounding is exact on doubles and nearest elsewhere\<close>

lemma mag_value_step: "mag_value m < mag_value (Suc m)"
proof (cases "m mod 2 ^ 52 = 2 ^ 52 - 1")
  case False
  have "m mod 2 ^ 52 < (2 ^ 52 :: nat)" by simp
  with False have "Suc m mod 2 ^ 52 = Suc (m mod 2 ^ 52)" "Suc m div 2 ^ 52 = m div 2 ^ 52"
    by (simp_all add: mod_Suc div_Suc)
  then show ?thesis by (simp add: mag_value_def Let_def divide_strict_right_mono)
next
  case True
  then have "Suc m mod 2 ^ 52 = 0" "Suc m div 2 ^ 52 = Suc (m div 2 ^ 52)"
    by (simp_all add: mod_Suc div_Suc)
  with True show ?thesis by (simp add: mag_value_def Let_def divide_strict_right_mono)
qed

lemma mag_value_mono: "m < n \<Longrightarrow> mag_value m < mag_value n"
  by (induction n) (auto simp: less_Suc_eq intro: less_trans mag_value_step)

lemma mag_value_le_iff [simp]: "mag_value m \<le> mag_value n \<longleftrightarrow> m \<le> n"
  by (metis leD leI mag_value_mono nless_le)

lemma mag_value_zero [simp]: "mag_value 0 = 0"
  by (simp add: mag_value_def)

lemma mag_value_nonneg [simp]: "0 \<le> mag_value m"
  by (metis mag_value_le_iff mag_value_zero zero_le)

text \<open>Searching a downward closed set of numbers bit by bit finds its largest element.\<close>

lemma bit_search:
  fixes P :: "nat \<Rightarrow> bool"
  assumes "\<And>m n. P n \<Longrightarrow> m \<le> n \<Longrightarrow> P m" and "P m" and "\<And>n. P n \<Longrightarrow> n < m + 2 ^ k"
  shows "P (fold (\<lambda>i m. if P (m + 2 ^ i) then m + 2 ^ i else m) (rev [0..<k]) m)
    \<and> (\<forall>n. P n \<longrightarrow> n \<le> fold (\<lambda>i m. if P (m + 2 ^ i) then m + 2 ^ i else m) (rev [0..<k]) m)"
  using assms(2,3)
proof (induction k arbitrary: m)
  case 0
  have "n \<le> m" if "P n" for n using 0(2) [OF that] by simp
  with 0(1) show ?case by simp
next
  case (Suc k)
  show ?case
  proof (cases "P (m + 2 ^ k)")
    case True
    have "n < m + 2 ^ k + 2 ^ k" if "P n" for n using Suc.prems(2) [OF that] by simp
    from Suc.IH [OF True this] True show ?thesis by simp
  next
    case False
    then have "n < m + 2 ^ k" if "P n" for n using assms(1) [OF that] by (meson not_le)
    from Suc.IH [OF Suc.prems(1) this] False show ?thesis by simp
  qed
qed

lemma mag_floor_greatest:
  assumes "0 \<le> q"
  shows "mag_floor q < f64_inf_bits \<and> mag_value (mag_floor q) \<le> q"
    and "n < f64_inf_bits \<Longrightarrow> mag_value n \<le> q \<Longrightarrow> n \<le> mag_floor q"
proof -
  let ?P = "\<lambda>m. m < f64_inf_bits \<and> mag_value m \<le> q"
  have "?P m" if "?P n" "m \<le> n" for m n
    using that by (meson le_less_trans mag_value_le_iff order_trans)
  moreover have "?P 0" using assms by (simp add: f64_inf_bits_def)
  moreover have "n < 0 + 2 ^ 63" if "?P n" for n using that by (simp add: f64_inf_bits_def)
  ultimately have "?P (mag_floor q) \<and> (\<forall>n. ?P n \<longrightarrow> n \<le> mag_floor q)"
    unfolding mag_floor_def by (rule bit_search)
  then show "mag_floor q < f64_inf_bits \<and> mag_value (mag_floor q) \<le> q"
    and "n < f64_inf_bits \<Longrightarrow> mag_value n \<le> q \<Longrightarrow> n \<le> mag_floor q" by auto
qed

lemma mag_round_exact [simp]:
  assumes "m < f64_inf_bits" shows "mag_round (mag_value m) = m"
proof -
  note greatest = mag_floor_greatest [OF mag_value_nonneg]
  have "mag_floor (mag_value m) = m"
    using greatest(1) [of m] greatest(2) [OF assms order_refl] by simp
  with mag_value_step [of m] show ?thesis by (simp add: mag_round_def Let_def)
qed

lemma mag_round_bounds:
  assumes "0 \<le> q" shows "mag_round q \<le> f64_inf_bits"
  using mag_floor_greatest(1) [OF assms] by (auto simp: mag_round_def Let_def)

text \<open>No other magnitude is nearer to the exact result, infinity counting as \<open>2 ^ 1024\<close>.\<close>

lemma mag_round_nearest:
  assumes "0 \<le> q" "n \<le> f64_inf_bits" "q \<le> mag_value f64_inf_bits"
  shows "\<bar>mag_value (mag_round q) - q\<bar> \<le> \<bar>mag_value n - q\<bar>"
proof -
  let ?m = "mag_floor q"
  have m: "?m < f64_inf_bits" "mag_value ?m \<le> q" using mag_floor_greatest(1) [OF assms(1)] by auto
  have above: "q \<le> mag_value (?m + 1)"
  proof (rule ccontr)
    assume "\<not> ?thesis"
    then have "mag_value (?m + 1) \<le> q" by simp
    with mag_floor_greatest(2) [OF assms(1), of "?m + 1"] have "\<not> ?m + 1 < f64_inf_bits" by auto
    with m have "?m + 1 = f64_inf_bits" by simp
    with assms(3) \<open>\<not> ?thesis\<close> show False by simp
  qed
  have split: "mag_value n \<le> mag_value ?m \<or> mag_value (?m + 1) \<le> mag_value n"
    by (simp add: Suc_le_eq) linarith
  have "mag_value (mag_round q) = mag_value ?m \<and> q - mag_value ?m \<le> mag_value (?m + 1) - q
    \<or> mag_value (mag_round q) = mag_value (?m + 1) \<and> mag_value (?m + 1) - q \<le> q - mag_value ?m"
    by (simp add: mag_round_def Let_def)
  with m above split show ?thesis by linarith
qed

section \<open>Packing\<close>

lemma f64_pack_fields:
  assumes "m < f64_sign_bit"
  shows "f64_magnitude (f64_pack negative m) = m" "f64_is_sign_negative (f64_pack negative m) = negative"
proof -
  have "unat (f64_pack negative m) = (if negative then m + f64_sign_bit else m)"
    using assms by (simp add: f64_pack_def unat_of_nat f64_sign_bit_def take_bit_eq_mod)
  with assms show "f64_magnitude (f64_pack negative m) = m" "f64_is_sign_negative (f64_pack negative m) = negative"
    by (auto simp: f64_magnitude_def f64_is_sign_negative_def)
qed

lemma f64_pack_self [simp]: "f64_pack (f64_is_sign_negative x) (f64_magnitude x) = x"
proof -
  have "f64_sign_bit \<le> unat x \<Longrightarrow> word_of_nat (unat x - f64_sign_bit + f64_sign_bit) = x" by simp
  then show ?thesis by (simp add: f64_pack_def f64_is_sign_negative_def f64_magnitude_def)
qed

lemma f64_of_rat_value:
  assumes "f64_is_finite x" "\<not> f64_is_zero x" shows "f64_of_rat (f64_value x) = x"
proof -
  have "0 < mag_value (f64_magnitude x)"
    using assms(2) mag_value_mono [of 0 "f64_magnitude x"] by (simp add: f64_is_zero_def)
  then have "(f64_value x < 0) = f64_is_sign_negative x" "\<bar>f64_value x\<bar> = mag_value (f64_magnitude x)"
    by (auto simp: f64_value_def)
  with assms(1) show ?thesis by (simp add: f64_of_rat_def f64_is_finite_def)
qed

end
