(* ===== verification/Risk_Result.thy ===== *)
theory Risk_Result
  imports Dto Float64
begin

text \<open>
  \<open>RiskResult::validate\<close> of \<open>crates/types/src/dto.rs\<close>: the invariants of a risk decision as an
  audit fact. The sums, products and percentages are computed on doubles, as in the code.
\<close>

section \<open>Field checks\<close>

record RiskResultValidationError =
  rve_field :: string
  rve_reason :: string

type_synonym 'a vresult = "(RiskResultValidationError, 'a) result"

definition result_error :: "string \<Rightarrow> string \<Rightarrow> 'a vresult" where
  "result_error field reason = Inl \<lparr>rve_field = field, rve_reason = reason\<rparr>"

definition validate_non_empty :: "string \<Rightarrow> string \<Rightarrow> unit vresult" where
  "validate_non_empty field value =
     (if trim_is_empty value then result_error field ''must not be empty'' else Inr ())"

definition lower_hex :: "char \<Rightarrow> bool" where
  "lower_hex c \<longleftrightarrow> (let b = (of_char c :: nat) in 48 \<le> b \<and> b \<le> 57 \<or> 97 \<le> b \<and> b \<le> 102)"

definition validate_sha256 :: "string \<Rightarrow> string \<Rightarrow> unit vresult" where
  "validate_sha256 field value =
     (if length value = 64 \<and> list_all lower_hex value then Inr ()
      else result_error field ''must be a 64-character lowercase SHA-256 hex digest'')"

definition validate_finite :: "string \<Rightarrow> f64 \<Rightarrow> f64 vresult" where
  "validate_finite field value =
     (if f64_is_finite value then Inr value else result_error field ''must be finite'')"

definition validate_positive_finite :: "string \<Rightarrow> f64 \<Rightarrow> f64 vresult" where
  "validate_positive_finite field value =
     bindR (validate_finite field value) (\<lambda>_.
     if f64_lt f64_zero value then Inr value else result_error field ''must be greater than zero'')"

text \<open>Within 128 patterns of each other: \<open>left.to_bits().abs_diff(right.to_bits()) <= 128\<close>.\<close>

definition approximately_equal :: "f64 \<Rightarrow> f64 \<Rightarrow> bool" where
  "approximately_equal left right =
     (if \<not> f64_is_finite left \<or> \<not> f64_is_finite right then False
      else if f64_eq left right then True
      else if f64_is_sign_negative left \<noteq> f64_is_sign_negative right then False
      else \<bar>int (unat left) - int (unat right)\<bar> \<le> 128)"

definition same_f64_bits :: "f64 \<Rightarrow> f64 \<Rightarrow> bool" where
  "same_f64_bits left right \<longleftrightarrow> f64_is_finite left \<and> f64_is_finite right \<and> left = right"

definition f64_hundred :: f64 where "f64_hundred = 4636737291354636288"

section \<open>Sizing\<close>

definition candidate_stop_is_valid :: "SizingCandidateProvenance \<Rightarrow> bool" where
  "candidate_stop_is_valid candidate = (case scp_action candidate of
     AdjustedRiskLegAction.Buy \<Rightarrow> f64_lt (scp_stop_loss_price candidate) (scp_worst_entry_price candidate)
   | AdjustedRiskLegAction.Sell \<Rightarrow> f64_lt (scp_worst_entry_price candidate) (scp_stop_loss_price candidate))"

primrec validate_candidates :: "LegId set \<Rightarrow> SizingCandidateProvenance list \<Rightarrow> unit vresult" where
  "validate_candidates candidate_ids [] = Inr ()"
| "validate_candidates candidate_ids (candidate # candidates) =
     bindR (validate_non_empty ''sizing_candidates[].leg_id'' (scp_leg_id candidate)) (\<lambda>_.
     bindR (validate_non_empty ''sizing_candidates[].symbol'' (scp_symbol candidate)) (\<lambda>_.
     if scp_leg_id candidate \<in> candidate_ids
       then result_error ''sizing_candidates[].leg_id''
         (''must be unique; duplicate '' @ scp_leg_id candidate)
     else bindR (validate_positive_finite ''sizing_candidates[].ratio'' (scp_ratio candidate)) (\<lambda>_.
     bindR (validate_positive_finite ''sizing_candidates[].worst_entry_price''
         (scp_worst_entry_price candidate)) (\<lambda>_.
     bindR (validate_positive_finite ''sizing_candidates[].stop_loss_price''
         (scp_stop_loss_price candidate)) (\<lambda>_.
     bindR (validate_finite ''sizing_candidates[].estimated_cost_per_lot''
         (scp_estimated_cost_per_lot candidate)) (\<lambda>_.
     if \<not> candidate_stop_is_valid candidate
       then result_error ''sizing_candidates[].stop_loss_price'' ''must be below BUY entry or above SELL entry''
     else validate_candidates (insert (scp_leg_id candidate) candidate_ids) candidates))))))"

definition validate_adjusted_leg ::
  "SizingCandidateProvenance list \<Rightarrow> f64 \<Rightarrow> AdjustedRiskLeg \<Rightarrow> unit vresult" where
  "validate_adjusted_leg candidates risk_base leg =
     bindR (validate_positive_finite ''adjusted_legs[].lots'' (arl_lots leg)) (\<lambda>_.
     bindR (validate_positive_finite ''adjusted_legs[].risk_amount'' (arl_risk_amount leg)) (\<lambda>_.
     bindR (validate_positive_finite ''adjusted_legs[].risk_pct'' (arl_risk_pct leg)) (\<lambda>_.
     bindR (validate_positive_finite ''adjusted_legs[].sizing_entry_price'' (arl_sizing_entry_price leg)) (\<lambda>_.
     bindR (validate_positive_finite ''adjusted_legs[].approved_sl'' (arl_approved_sl leg)) (\<lambda>_.
     bindR (validate_positive_finite ''adjusted_legs[].loss_per_lot'' (arl_loss_per_lot leg)) (\<lambda>_.
     if f64_lt f64_hundred (arl_risk_pct leg)
       then result_error ''adjusted_legs[].risk_pct'' ''must not exceed 100''
     else if (case arl_reason leg of None \<Rightarrow> False | Some r \<Rightarrow> ErrorCodeOrString_as_str r \<noteq> ''OK'')
       then result_error ''adjusted_legs[].reason'' ''must be absent or OK for an approved leg''
     else case find (\<lambda>candidate. scp_leg_id candidate = arl_leg_id leg) candidates of
       None \<Rightarrow> result_error ''adjusted_legs[].leg_id'' (''has no sizing candidate for '' @ arl_leg_id leg)
     | Some candidate \<Rightarrow>
         if scp_symbol candidate \<noteq> arl_symbol leg \<or> scp_action candidate \<noteq> arl_action leg
           then result_error ''adjusted_legs''
             (''identity for '' @ arl_leg_id leg @ '' must match its sizing candidate'')
         else if \<not> same_f64_bits (arl_sizing_entry_price leg) (scp_worst_entry_price candidate)
             \<or> \<not> same_f64_bits (arl_approved_sl leg) (scp_stop_loss_price candidate)
           then result_error ''adjusted_legs''
             (''entry and stop for '' @ arl_leg_id leg @ '' must match its sizing candidate'')
         else if \<not> approximately_equal (arl_risk_amount leg) (f64_mul (arl_lots leg) (arl_loss_per_lot leg))
           then result_error ''adjusted_legs[].risk_amount'' ''must equal lots * loss_per_lot''
         else if \<not> approximately_equal (arl_risk_pct leg)
             (f64_mul (f64_div (arl_risk_amount leg) risk_base) f64_hundred)
           then result_error ''adjusted_legs[].risk_pct'' ''must equal risk_amount / risk_base_amount * 100''
         else Inr ()))))))"

primrec validate_adjusted_legs ::
  "SizingCandidateProvenance list \<Rightarrow> f64 \<Rightarrow> LegId set \<Rightarrow> f64 \<Rightarrow> AdjustedRiskLeg list \<Rightarrow> f64 vresult" where
  "validate_adjusted_legs candidates risk_base adjusted_ids actual_risk [] = Inr actual_risk"
| "validate_adjusted_legs candidates risk_base adjusted_ids actual_risk (leg # legs) =
     bindR (validate_non_empty ''adjusted_legs[].leg_id'' (arl_leg_id leg)) (\<lambda>_.
     bindR (validate_non_empty ''adjusted_legs[].symbol'' (arl_symbol leg)) (\<lambda>_.
     if arl_leg_id leg \<in> adjusted_ids
       then result_error ''adjusted_legs[].leg_id'' (''must be unique; duplicate '' @ arl_leg_id leg)
     else bindR (validate_adjusted_leg candidates risk_base leg) (\<lambda>_.
     let actual_risk = f64_add actual_risk (arl_risk_amount leg) in
     if \<not> f64_is_finite actual_risk
       then result_error ''adjusted_legs[].risk_amount'' ''sum must remain finite''
     else validate_adjusted_legs candidates risk_base (insert (arl_leg_id leg) adjusted_ids) actual_risk legs)))"

definition validate_sizing_legs ::
  "SizingCandidateProvenance list \<Rightarrow> AdjustedRiskLeg list \<Rightarrow> f64 \<Rightarrow> f64 \<Rightarrow> f64 \<Rightarrow> unit vresult" where
  "validate_sizing_legs candidates adjusted_legs risk_base risk_budget adjusted_risk_pct =
     (if candidates = [] then result_error ''sizing_candidates'' ''must not be empty for an actionable approval''
      else if adjusted_legs = [] then result_error ''adjusted_legs'' ''must not be empty for an actionable approval''
      else if length candidates \<noteq> length adjusted_legs
        then result_error ''adjusted_legs'' ''must correspond one-to-one with sizing_candidates''
      else bindR (validate_candidates {} candidates) (\<lambda>_.
      bindR (validate_adjusted_legs candidates risk_base {} f64_zero adjusted_legs) (\<lambda>actual_risk.
      if f64_lt risk_budget actual_risk \<and> \<not> approximately_equal actual_risk risk_budget
        then result_error ''adjusted_legs[].risk_amount'' ''sum must not exceed risk_budget_amount''
      else if \<not> approximately_equal adjusted_risk_pct (f64_mul (f64_div actual_risk risk_base) f64_hundred)
        then result_error ''adjusted_risk_pct'' ''must equal total adjusted leg risk / risk_base_amount * 100''
      else Inr ())))"

section \<open>The whole result\<close>

definition validate_result_head :: "RiskResult \<Rightarrow> unit vresult" where
  "validate_result_head result =
     bindR (check_each (\<lambda>(field, value). validate_non_empty field value)
       [(''risk_id'', rr_risk_id result), (''request_id'', rr_request_id result),
        (''intent_id'', rr_intent_id result), (''account_id'', rr_account_id result),
        (''decision_id'', rr_decision_id result)]) (\<lambda>_.
     bindR (validate_sha256 ''risk_request_hash'' (rr_risk_request_hash result)) (\<lambda>_.
     bindR (check_each (\<lambda>(field, value). if value < 0 then result_error field ''must be non-negative'' else Inr ())
       [(''snapshot_age_ms'', rr_snapshot_age_ms result),
        (''symbol_metadata_age_ms'', rr_symbol_metadata_age_ms result),
        (''market_snapshot_age_ms'', rr_market_snapshot_age_ms result),
        (''capacity_age_ms'', rr_capacity_age_ms result),
        (''evaluated_at'', rr_evaluated_at result)]) (\<lambda>_.
     if rr_valid_until result < rr_evaluated_at result
       then result_error ''valid_until'' ''must not precede evaluated_at''
     else Inr ())))"

definition sizing_fields_present :: "RiskResult \<Rightarrow> bool list" where
  "sizing_fields_present result =
     [rr_sizing_version result \<noteq> None, rr_risk_base_amount result \<noteq> None,
      rr_risk_budget_amount result \<noteq> None, rr_adjusted_risk_pct result \<noteq> None,
      rr_sizing_candidates result \<noteq> None, rr_adjusted_legs result \<noteq> None]"

text \<open>\<open>None\<close> is a panic: each \<open>expect("checked above")\<close> panics when its field is absent.\<close>

definition validate_sizing :: "RiskResult \<Rightarrow> unit vresult option" where
  "validate_sizing result =
     Option.bind (rr_sizing_version result) (\<lambda>sizing_version.
     bindP (Some (validate_non_empty ''sizing_version'' sizing_version)) (\<lambda>_.
     Option.bind (rr_risk_base_amount result) (\<lambda>risk_base_amount.
     bindP (Some (validate_positive_finite ''risk_base_amount'' risk_base_amount)) (\<lambda>risk_base.
     Option.bind (rr_risk_budget_amount result) (\<lambda>risk_budget_amount.
     bindP (Some (validate_positive_finite ''risk_budget_amount'' risk_budget_amount)) (\<lambda>risk_budget.
     Option.bind (rr_adjusted_risk_pct result) (\<lambda>pct.
     bindP (Some (validate_positive_finite ''adjusted_risk_pct'' pct)) (\<lambda>adjusted_risk_pct.
     if f64_lt risk_base risk_budget
       then Some (result_error ''risk_budget_amount'' ''must not exceed risk_base_amount'')
     else if f64_lt f64_hundred adjusted_risk_pct
       then Some (result_error ''adjusted_risk_pct'' ''must not exceed 100'')
     else
     Option.bind (rr_sizing_candidates result) (\<lambda>candidates.
     Option.bind (rr_adjusted_legs result) (\<lambda>adjusted_legs.
     Some (validate_sizing_legs candidates adjusted_legs risk_base risk_budget adjusted_risk_pct)))))))))))"

definition RiskResult_validate :: "RiskResult \<Rightarrow> unit vresult option" where
  "RiskResult_validate result =
     bindP (Some (validate_result_head result)) (\<lambda>_.
     let has_any_sizing = list_ex id (sizing_fields_present result);
         has_all_sizing = list_all id (sizing_fields_present result) in
     if \<not> rr_approved result then
       if ErrorCodeOrString_as_str (rr_reason result) = ''OK''
         then Some (result_error ''reason'' ''must be an error code when approved is false'')
       else if (case rr_reason result of Known _ \<Rightarrow> False | Other _ \<Rightarrow> True)
         then Some (result_error ''reason'' ''must be a centrally managed error code when approved is false'')
       else if has_any_sizing
         then Some (result_error ''sizing'' ''must be absent when approved is false'')
       else Some (Inr ())
     else if ErrorCodeOrString_as_str (rr_reason result) \<noteq> ''OK''
       then Some (result_error ''reason'' ''must be OK when approved is true'')
     else if rr_valid_until result = rr_evaluated_at result
       then Some (result_error ''valid_until'' ''must follow evaluated_at when approved is true'')
     else if \<not> has_any_sizing then Some (Inr ())
     else if \<not> has_all_sizing
       then Some (result_error ''sizing'' ''must contain every sizing field or none of them'')
     else validate_sizing result)"

section \<open>No panic\<close>

text \<open>The fields that the sizing checks expect are there: the guard on \<open>has_all_sizing\<close> comes first.\<close>

lemma validate_sizing_returns:
  assumes "list_all id (sizing_fields_present result)"
  shows "validate_sizing result \<noteq> None"
proof -
  obtain version base budget pct candidates legs where
    "rr_sizing_version result = Some version" "rr_risk_base_amount result = Some base"
    "rr_risk_budget_amount result = Some budget" "rr_adjusted_risk_pct result = Some pct"
    "rr_sizing_candidates result = Some candidates" "rr_adjusted_legs result = Some legs"
    using assms by (auto simp: sizing_fields_present_def)
  then show ?thesis unfolding validate_sizing_def by (simp add: bindP_def split: sum.split)
qed

lemma RiskResult_validate_returns: "RiskResult_validate result \<noteq> None"
  unfolding RiskResult_validate_def Let_def
  by (rule bindP_returns) (simp_all add: validate_sizing_returns del: not_None_eq)

end
