(* ===== verification/Circuit_Breaker.thy ===== *)
theory Circuit_Breaker
  imports Prelude
begin

text \<open>
  The global hard-risk circuit breaker of \<open>crates/risk/src/circuit_breaker.rs\<close>: policy, state,
  the evidence and error values, and the transition function with all its handlers. The server
  time is an argument of every transition, as in the code.

  \<open>open\<close> calls \<open>expect\<close> on the first violation. A function that can reach such a panic returns
  an option, \<open>None\<close> being the panic; \<open>transition_shape\<close> shows that no request gets there. The
  \<open>i64\<close> differences of \<open>close\<close> are plain integers: when they are taken, the server time is not negative
  and not before \<open>half_opened_at_ms\<close>, so they fit for every state whose recorded times are not negative,
  as those that transitions and restores produce are.
\<close>

section \<open>Policy, status and state\<close>

type_synonym BasisPoints = u32

record CircuitBreakerPolicy =
  max_daily_realized_loss_bps :: BasisPoints
  max_equity_drawdown_bps :: BasisPoints
  max_consecutive_broker_rejections :: u32
  max_consecutive_command_failures :: u32
  max_time_sync_unhealthy_ms :: i64
  max_consecutive_snapshot_stale :: u32
  max_consecutive_symbol_metadata_stale :: u32
  half_open_observation_ms :: i64
  auto_reset :: bool

datatype CircuitBreakerStatus = Closed | Open | HalfOpen

primrec is_active :: "CircuitBreakerStatus \<Rightarrow> bool" where
  "is_active Closed = False"
| "is_active Open = True"
| "is_active HalfOpen = True"

datatype CircuitBreakerReason = Ok | DailyRealizedLossLimit | EquityDrawdownLimit
  | ConsecutiveBrokerRejections | ConsecutiveCommandFailures | ManualReconciliationRequired
  | StoreRecoveryReconciliationPending | TimeSyncUnhealthy | SnapshotStale | SymbolMetadataStale
  | ManualTrigger | HardRiskViolationDuringRecovery | SafetyInvariantViolation

datatype CircuitBreakerTriggerSource = RiskTelemetry | Broker | Execution | Reconciliation
  | StoreRecovery | Clock | SnapshotHealth | Operator string | SafetyInvariant

datatype RecoveryPrerequisite = AccountRefresh | PositionRefresh | OrderRefresh
  | SymbolMetadataRefresh | PendingCommandReconciliation | ClockHealth | StateStoreHealth

datatype TransitionRequestKind = Observe | EnterHalfOpen | Close | RecordBlockedIntentCount

datatype CircuitBreakerSnapshotTimestamp = TriggeredAt | IncidentEvidenceClearedAt | HalfOpenedAt
  | ResetAt

datatype CircuitBreakerSnapshotInvariant = RecoveryEpochExhausted | InitialStateHasIncidentData
  | IncidentStateMissingTrigger | TriggerPresentWithoutRecoveryEpoch | StatusReasonMismatch
  | ActiveStateHasResetData | ClosedStateMissingResetData | ResetIdentityIncomplete | ResetByBlank
  | HalfOpenRecoveryDataIncomplete | HalfOpenRecoveryDataOutsideHalfOpen | FingerprintEmpty
  | FingerprintDuplicateEvidence | FingerprintPrimaryReasonMismatch
  | FingerprintPrimarySourceMismatch | FingerprintAndEvidenceClearedCoexist
  | ActiveStateMissingFingerprintOrClearEvidence | TimestampNegative | TimestampOrderInvalid
  | TriggerSourceBlank | FingerprintTextBlank

datatype CircuitBreakerRestoreFailure = MissingSnapshot | CorruptPayload
  | UnsupportedSchemaVersion string
  | InvalidSnapshot CircuitBreakerSnapshotInvariant
  | SnapshotTimestampInFuture CircuitBreakerSnapshotTimestamp i64 i64
  | InvalidServerTime i64
  | StoreUnavailable

section \<open>Errors and their fingerprints\<close>

text \<open>
  Arguments are in the order of the struct-like variants: \<open>field\<close>, \<open>requirement\<close>;
  \<open>latest_transition_at_ms\<close>, \<open>server_now_ms\<close>; \<open>status\<close>, \<open>request\<close>; \<open>expected\<close>, \<open>observed\<close>.
\<close>

datatype CircuitBreakerError = InvalidPolicy string string
  | InvalidInput string string
  | ServerTimeRegressed i64 i64
  | InvalidTransition CircuitBreakerStatus TransitionRequestKind
  | RecoveryPrerequisitesMissing "RecoveryPrerequisite list"
  | RecoveryEpochMismatch u64 u64
  | RecoveryBlockedByViolations "CircuitBreakerReason list"
  | HalfOpenObservationNotComplete i64
  | AutomaticResetDisabled
  | ManualResetEvidenceMissing string
  | HalfOpenBaselineMissing
  | RecoveryEpochOverflow
  | DurableRestoreFailed CircuitBreakerRestoreFailure

datatype CircuitBreakerErrorFingerprint = InvalidPolicy string string
  | InvalidInput string string
  | ServerTimeRegressed i64 i64
  | InvalidTransition CircuitBreakerStatus TransitionRequestKind
  | RecoveryPrerequisitesMissing "RecoveryPrerequisite list"
  | RecoveryEpochMismatch u64 u64
  | RecoveryBlockedByViolations "CircuitBreakerReason list"
  | HalfOpenObservationNotComplete i64
  | AutomaticResetDisabled
  | ManualResetEvidenceMissing string
  | HalfOpenBaselineMissing
  | RecoveryEpochOverflow
  | DurableRestoreFailed CircuitBreakerRestoreFailure

primrec error_fingerprint :: "CircuitBreakerError \<Rightarrow> CircuitBreakerErrorFingerprint" where
  "error_fingerprint (CircuitBreakerError.InvalidPolicy field requirement) =
     CircuitBreakerErrorFingerprint.InvalidPolicy field requirement"
| "error_fingerprint (CircuitBreakerError.InvalidInput field requirement) =
     CircuitBreakerErrorFingerprint.InvalidInput field requirement"
| "error_fingerprint (CircuitBreakerError.ServerTimeRegressed latest now) =
     CircuitBreakerErrorFingerprint.ServerTimeRegressed latest now"
| "error_fingerprint (CircuitBreakerError.InvalidTransition status request) =
     CircuitBreakerErrorFingerprint.InvalidTransition status request"
| "error_fingerprint (CircuitBreakerError.RecoveryPrerequisitesMissing prerequisites) =
     CircuitBreakerErrorFingerprint.RecoveryPrerequisitesMissing prerequisites"
| "error_fingerprint (CircuitBreakerError.RecoveryEpochMismatch expected observed) =
     CircuitBreakerErrorFingerprint.RecoveryEpochMismatch expected observed"
| "error_fingerprint (CircuitBreakerError.RecoveryBlockedByViolations reasons) =
     CircuitBreakerErrorFingerprint.RecoveryBlockedByViolations reasons"
| "error_fingerprint (CircuitBreakerError.HalfOpenObservationNotComplete remaining) =
     CircuitBreakerErrorFingerprint.HalfOpenObservationNotComplete remaining"
| "error_fingerprint CircuitBreakerError.AutomaticResetDisabled =
     CircuitBreakerErrorFingerprint.AutomaticResetDisabled"
| "error_fingerprint (CircuitBreakerError.ManualResetEvidenceMissing field) =
     CircuitBreakerErrorFingerprint.ManualResetEvidenceMissing field"
| "error_fingerprint CircuitBreakerError.HalfOpenBaselineMissing =
     CircuitBreakerErrorFingerprint.HalfOpenBaselineMissing"
| "error_fingerprint CircuitBreakerError.RecoveryEpochOverflow =
     CircuitBreakerErrorFingerprint.RecoveryEpochOverflow"
| "error_fingerprint (CircuitBreakerError.DurableRestoreFailed failure) =
     CircuitBreakerErrorFingerprint.DurableRestoreFailed failure"

definition CircuitBreakerPolicy_validate ::
  "CircuitBreakerPolicy \<Rightarrow> (CircuitBreakerError, unit) result" where
  "CircuitBreakerPolicy_validate p =
     bindR (check_each (\<lambda>(field, value). if value = (0::i64)
         then Inl (CircuitBreakerError.InvalidPolicy field ''must be greater than zero'')
         else Inr ())
       [(''max_daily_realized_loss_bps'', int (max_daily_realized_loss_bps p)),
        (''max_equity_drawdown_bps'', int (max_equity_drawdown_bps p)),
        (''max_consecutive_broker_rejections'', int (max_consecutive_broker_rejections p)),
        (''max_consecutive_command_failures'', int (max_consecutive_command_failures p)),
        (''half_open_observation_ms'', half_open_observation_ms p)]) (\<lambda>_.
     if max_time_sync_unhealthy_ms p < 0
       then Inl (CircuitBreakerError.InvalidPolicy ''max_time_sync_unhealthy_ms'' ''must not be negative'')
     else Inr ())"

section \<open>Violations and incident evidence\<close>

datatype CircuitBreakerViolation = DailyRealizedLoss BasisPoints BasisPoints
  | DailyRealizedLossWorsened BasisPoints BasisPoints
  | EquityDrawdown BasisPoints BasisPoints
  | EquityDrawdownWorsened BasisPoints BasisPoints
  | ConsecutiveBrokerRejections u32 u32
  | ConsecutiveCommandFailures u32 u32
  | ManualReconciliationRequired u32
  | StoreRecoveryReconciliationPending
  | TimeSyncUnhealthy i64 i64
  | SnapshotStale u32 u32
  | SymbolMetadataStale u32 u32
  | ManualTrigger string string
  | HardRiskViolationDuringRecovery
  | SafetyInvariantViolation

datatype CircuitBreakerIncidentEvidence = DailyRealizedLoss BasisPoints BasisPoints
  | DailyRealizedLossWorsened BasisPoints BasisPoints
  | EquityDrawdown BasisPoints BasisPoints
  | EquityDrawdownWorsened BasisPoints BasisPoints
  | ConsecutiveBrokerRejections u32 u32
  | ConsecutiveCommandFailures u32 u32
  | ManualReconciliationRequired u32
  | StoreRecoveryReconciliationPending
  | TimeSyncUnhealthy "i64 option" i64
  | SnapshotStale u32 u32
  | SymbolMetadataStale u32 u32
  | ManualTrigger string string
  | HardRiskViolationDuringRecovery
  | SafetyInvariantViolation
  | SafetyInvariantError CircuitBreakerErrorFingerprint

type_synonym CircuitBreakerIncidentFingerprint = "CircuitBreakerIncidentEvidence list"

primrec violation_reason :: "CircuitBreakerViolation \<Rightarrow> CircuitBreakerReason" where
  "violation_reason (CircuitBreakerViolation.DailyRealizedLoss _ _) = DailyRealizedLossLimit"
| "violation_reason (CircuitBreakerViolation.DailyRealizedLossWorsened _ _) = DailyRealizedLossLimit"
| "violation_reason (CircuitBreakerViolation.EquityDrawdown _ _) = EquityDrawdownLimit"
| "violation_reason (CircuitBreakerViolation.EquityDrawdownWorsened _ _) = EquityDrawdownLimit"
| "violation_reason (CircuitBreakerViolation.ConsecutiveBrokerRejections _ _) =
     CircuitBreakerReason.ConsecutiveBrokerRejections"
| "violation_reason (CircuitBreakerViolation.ConsecutiveCommandFailures _ _) =
     CircuitBreakerReason.ConsecutiveCommandFailures"
| "violation_reason (CircuitBreakerViolation.ManualReconciliationRequired _) =
     CircuitBreakerReason.ManualReconciliationRequired"
| "violation_reason CircuitBreakerViolation.StoreRecoveryReconciliationPending =
     CircuitBreakerReason.StoreRecoveryReconciliationPending"
| "violation_reason (CircuitBreakerViolation.TimeSyncUnhealthy _ _) =
     CircuitBreakerReason.TimeSyncUnhealthy"
| "violation_reason (CircuitBreakerViolation.SnapshotStale _ _) = CircuitBreakerReason.SnapshotStale"
| "violation_reason (CircuitBreakerViolation.SymbolMetadataStale _ _) =
     CircuitBreakerReason.SymbolMetadataStale"
| "violation_reason (CircuitBreakerViolation.ManualTrigger _ _) = CircuitBreakerReason.ManualTrigger"
| "violation_reason CircuitBreakerViolation.HardRiskViolationDuringRecovery =
     CircuitBreakerReason.HardRiskViolationDuringRecovery"
| "violation_reason CircuitBreakerViolation.SafetyInvariantViolation =
     CircuitBreakerReason.SafetyInvariantViolation"

primrec violation_source :: "CircuitBreakerViolation \<Rightarrow> CircuitBreakerTriggerSource" where
  "violation_source (CircuitBreakerViolation.DailyRealizedLoss _ _) = RiskTelemetry"
| "violation_source (CircuitBreakerViolation.DailyRealizedLossWorsened _ _) = RiskTelemetry"
| "violation_source (CircuitBreakerViolation.EquityDrawdown _ _) = RiskTelemetry"
| "violation_source (CircuitBreakerViolation.EquityDrawdownWorsened _ _) = RiskTelemetry"
| "violation_source (CircuitBreakerViolation.ConsecutiveBrokerRejections _ _) = Broker"
| "violation_source (CircuitBreakerViolation.ConsecutiveCommandFailures _ _) = Execution"
| "violation_source CircuitBreakerViolation.HardRiskViolationDuringRecovery = Execution"
| "violation_source (CircuitBreakerViolation.ManualReconciliationRequired _) = Reconciliation"
| "violation_source CircuitBreakerViolation.StoreRecoveryReconciliationPending = StoreRecovery"
| "violation_source (CircuitBreakerViolation.TimeSyncUnhealthy _ _) = Clock"
| "violation_source (CircuitBreakerViolation.SnapshotStale _ _) = SnapshotHealth"
| "violation_source (CircuitBreakerViolation.SymbolMetadataStale _ _) = SnapshotHealth"
| "violation_source (CircuitBreakerViolation.ManualTrigger operator_id _) = Operator operator_id"
| "violation_source CircuitBreakerViolation.SafetyInvariantViolation = SafetyInvariant"

section \<open>Breaker state\<close>

record CircuitBreakerState =
  cb_recovery_epoch :: u64
  cb_status :: CircuitBreakerStatus
  cb_reason :: CircuitBreakerReason
  cb_triggered_at_ms :: "i64 option"
  cb_triggered_by :: "CircuitBreakerTriggerSource option"
  cb_last_incident_fingerprint :: "CircuitBreakerIncidentFingerprint option"
  cb_incident_evidence_cleared_at_ms :: "i64 option"
  cb_half_opened_at_ms :: "i64 option"
  cb_half_open_daily_loss_baseline_bps :: "BasisPoints option"
  cb_half_open_drawdown_baseline_bps :: "BasisPoints option"
  cb_reset_at_ms :: "i64 option"
  cb_reset_by :: "string option"
  cb_blocked_intent_count :: u64

definition CircuitBreakerState_new :: CircuitBreakerState where
  "CircuitBreakerState_new =
     \<lparr>cb_recovery_epoch = 0, cb_status = Closed, cb_reason = Ok, cb_triggered_at_ms = None,
      cb_triggered_by = None, cb_last_incident_fingerprint = None,
      cb_incident_evidence_cleared_at_ms = None, cb_half_opened_at_ms = None,
      cb_half_open_daily_loss_baseline_bps = None, cb_half_open_drawdown_baseline_bps = None,
      cb_reset_at_ms = None, cb_reset_by = None, cb_blocked_intent_count = 0\<rparr>"

datatype CircuitBreakerAction = RiskIncreasingTradeIntent | RiskIncreasingCommand
  | RiskReducingCommand | ReadState | IngestSnapshot | IngestExecutionEvent | Reconciliation
  | ManualReview | NoOpValidation

record CircuitBreakerGateDecision =
  gate_allowed :: bool
  gate_status :: CircuitBreakerStatus
  gate_blocked_reason :: "CircuitBreakerReason option"

definition authorize :: "CircuitBreakerState \<Rightarrow> CircuitBreakerAction \<Rightarrow> CircuitBreakerGateDecision" where
  "authorize state action = (let allowed = (case cb_status state of
         Closed \<Rightarrow> True
       | _ \<Rightarrow> (case action of RiskIncreasingTradeIntent \<Rightarrow> False | RiskIncreasingCommand \<Rightarrow> False
           | _ \<Rightarrow> True)) in
     \<lparr>gate_allowed = allowed, gate_status = cb_status state,
      gate_blocked_reason = (if allowed then None else Some (cb_reason state))\<rparr>)"

text \<open>\<open>into_iter().flatten().max()\<close> over the four timestamps.\<close>

primrec flatten_opts :: "'a option list \<Rightarrow> 'a list" where
  "flatten_opts [] = []"
| "flatten_opts (x # xs) = (case x of None \<Rightarrow> flatten_opts xs | Some v \<Rightarrow> v # flatten_opts xs)"

definition latest_transition_at_ms :: "CircuitBreakerState \<Rightarrow> i64 option" where
  "latest_transition_at_ms state =
     (case flatten_opts [cb_triggered_at_ms state, cb_incident_evidence_cleared_at_ms state,
         cb_half_opened_at_ms state, cb_reset_at_ms state] of
       [] \<Rightarrow> None
     | t # ts \<Rightarrow> Some (foldl max t ts))"

section \<open>Requests and outcomes\<close>

record ManualTrigger =
  mt_operator_id :: string
  mt_reason :: string

record CircuitBreakerInput =
  cbi_daily_realized_loss_bps :: BasisPoints
  cbi_equity_drawdown_bps :: BasisPoints
  cbi_consecutive_broker_rejections :: u32
  cbi_consecutive_command_failures :: u32
  cbi_manual_reconciliation_required_count :: u32
  cbi_store_recovery_reconciliation_pending :: bool
  cbi_time_sync_unhealthy_since_ms :: "i64 option"
  cbi_consecutive_snapshot_stale_count :: u32
  cbi_consecutive_symbol_metadata_stale_count :: u32
  cbi_manual_trigger :: "ManualTrigger option"

record HalfOpenReadiness =
  hor_recovery_epoch :: u64
  hor_account_refreshed_at_ms :: "i64 option"
  hor_positions_refreshed_at_ms :: "i64 option"
  hor_orders_refreshed_at_ms :: "i64 option"
  hor_symbol_metadata_refreshed_at_ms :: "i64 option"
  hor_pending_commands_reconciled_at_ms :: "i64 option"

record RecoveryHealth =
  rh_clock_healthy :: bool
  rh_state_store_healthy :: bool
  rh_new_hard_risk_violation :: bool
  rh_input :: CircuitBreakerInput

record ManualResetEvidence =
  mre_audit_event_id :: string
  mre_operator_id :: string
  mre_reason :: string
  mre_evidence :: string

datatype ResetAuthorization = Automatic | Operator ManualResetEvidence

datatype TransitionRequest = Observe CircuitBreakerInput
  | EnterHalfOpen HalfOpenReadiness CircuitBreakerInput
  | Close RecoveryHealth ResetAuthorization
  | RecordBlockedIntentCount u64

record ManualResetAuditRecord =
  mra_audit_event_id :: string
  mra_operator_id :: string
  mra_reason :: string
  mra_evidence :: string
  mra_before_state :: CircuitBreakerStatus
  mra_after_state :: CircuitBreakerStatus
  mra_recorded_at_ms :: i64

datatype CircuitBreakerTransition = NoChange | Opened | EnteredHalfOpen | Reopened | Closed
  | SafetyFallbackOpened | IncidentEvidenceCleared | BlockedIntentCountAdvanced

record CircuitBreakerOutcome =
  out_state :: CircuitBreakerState
  out_transition :: CircuitBreakerTransition
  out_violations :: "CircuitBreakerViolation list"
  out_error :: "CircuitBreakerError option"
  out_manual_reset_audit :: "ManualResetAuditRecord option"

definition outcome_unchanged :: "CircuitBreakerState \<Rightarrow> CircuitBreakerOutcome" where
  "outcome_unchanged state = \<lparr>out_state = state, out_transition = NoChange, out_violations = [],
     out_error = None, out_manual_reset_audit = None\<rparr>"

definition outcome_with_error :: "CircuitBreakerState \<Rightarrow> CircuitBreakerError \<Rightarrow> CircuitBreakerOutcome" where
  "outcome_with_error state error = \<lparr>out_state = state, out_transition = NoChange,
     out_violations = [], out_error = Some error, out_manual_reset_audit = None\<rparr>"


section \<open>Fingerprints and checks\<close>

primrec incident_evidence ::
  "CircuitBreakerInput option \<Rightarrow> CircuitBreakerViolation \<Rightarrow> CircuitBreakerIncidentEvidence" where
  "incident_evidence input (CircuitBreakerViolation.DailyRealizedLoss observed threshold) =
     CircuitBreakerIncidentEvidence.DailyRealizedLoss observed threshold"
| "incident_evidence input (CircuitBreakerViolation.DailyRealizedLossWorsened baseline observed) =
     CircuitBreakerIncidentEvidence.DailyRealizedLossWorsened baseline observed"
| "incident_evidence input (CircuitBreakerViolation.EquityDrawdown observed threshold) =
     CircuitBreakerIncidentEvidence.EquityDrawdown observed threshold"
| "incident_evidence input (CircuitBreakerViolation.EquityDrawdownWorsened baseline observed) =
     CircuitBreakerIncidentEvidence.EquityDrawdownWorsened baseline observed"
| "incident_evidence input (CircuitBreakerViolation.ConsecutiveBrokerRejections observed threshold) =
     CircuitBreakerIncidentEvidence.ConsecutiveBrokerRejections observed threshold"
| "incident_evidence input (CircuitBreakerViolation.ConsecutiveCommandFailures observed threshold) =
     CircuitBreakerIncidentEvidence.ConsecutiveCommandFailures observed threshold"
| "incident_evidence input (CircuitBreakerViolation.ManualReconciliationRequired n) =
     CircuitBreakerIncidentEvidence.ManualReconciliationRequired n"
| "incident_evidence input CircuitBreakerViolation.StoreRecoveryReconciliationPending =
     CircuitBreakerIncidentEvidence.StoreRecoveryReconciliationPending"
| "incident_evidence input (CircuitBreakerViolation.TimeSyncUnhealthy _ threshold) =
     CircuitBreakerIncidentEvidence.TimeSyncUnhealthy
       (Option.bind input cbi_time_sync_unhealthy_since_ms) threshold"
| "incident_evidence input (CircuitBreakerViolation.SnapshotStale n threshold) =
     CircuitBreakerIncidentEvidence.SnapshotStale n threshold"
| "incident_evidence input (CircuitBreakerViolation.SymbolMetadataStale n threshold) =
     CircuitBreakerIncidentEvidence.SymbolMetadataStale n threshold"
| "incident_evidence input (CircuitBreakerViolation.ManualTrigger operator_id reason) =
     CircuitBreakerIncidentEvidence.ManualTrigger operator_id reason"
| "incident_evidence input CircuitBreakerViolation.HardRiskViolationDuringRecovery =
     CircuitBreakerIncidentEvidence.HardRiskViolationDuringRecovery"
| "incident_evidence input CircuitBreakerViolation.SafetyInvariantViolation =
     CircuitBreakerIncidentEvidence.SafetyInvariantViolation"

definition incident_fingerprint ::
  "CircuitBreakerViolation list \<Rightarrow> CircuitBreakerInput option \<Rightarrow> CircuitBreakerIncidentFingerprint" where
  "incident_fingerprint violations input = map (incident_evidence input) violations"

definition validate_non_blank :: "string \<Rightarrow> string \<Rightarrow> (CircuitBreakerError, unit) result" where
  "validate_non_blank field value = (if trim_is_empty value
     then Inl (CircuitBreakerError.InvalidInput field ''must not be blank'') else Inr ())"

definition validate_manual_reset_evidence ::
  "ManualResetEvidence \<Rightarrow> (CircuitBreakerError, unit) result" where
  "validate_manual_reset_evidence evidence =
     check_each (\<lambda>(field, value). if trim_is_empty value
         then Inl (CircuitBreakerError.ManualResetEvidenceMissing field) else Inr ())
       [(''audit_event_id'', mre_audit_event_id evidence),
        (''operator_id'', mre_operator_id evidence),
        (''reason'', mre_reason evidence),
        (''evidence'', mre_evidence evidence)]"

text \<open>
  The time-sync branch of \<open>collect_violations\<close>: no violation, one violation, or the two errors.
\<close>

definition time_sync_violations ::
  "CircuitBreakerPolicy \<Rightarrow> CircuitBreakerInput \<Rightarrow> i64 \<Rightarrow>
   (CircuitBreakerError, CircuitBreakerViolation list) result" where
  "time_sync_violations policy input server_now_ms =
     (case cbi_time_sync_unhealthy_since_ms input of
        None \<Rightarrow> Inr []
      | Some unhealthy_since_ms \<Rightarrow>
          if unhealthy_since_ms < 0 \<or> unhealthy_since_ms > server_now_ms
            then Inl (CircuitBreakerError.InvalidInput ''time_sync_unhealthy_since_ms''
              ''must be between zero and server_now_ms'')
          else (case checked_sub_i64 server_now_ms unhealthy_since_ms of
              None \<Rightarrow> Inl (CircuitBreakerError.InvalidInput ''time_sync_unhealthy_since_ms''
                ''duration calculation must not overflow'')
            | Some unhealthy_for_ms \<Rightarrow>
                Inr (if unhealthy_for_ms > max_time_sync_unhealthy_ms policy
                  then [CircuitBreakerViolation.TimeSyncUnhealthy unhealthy_for_ms
                    (max_time_sync_unhealthy_ms policy)]
                  else [])))"

definition collect_violations ::
  "CircuitBreakerPolicy \<Rightarrow> CircuitBreakerInput \<Rightarrow> i64 \<Rightarrow>
   (CircuitBreakerError, CircuitBreakerViolation list) result" where
  "collect_violations policy input server_now_ms =
     bindR (case cbi_manual_trigger input of
         None \<Rightarrow> Inr ()
       | Some trigger \<Rightarrow>
           bindR (validate_non_blank ''manual_trigger.operator_id'' (mt_operator_id trigger)) (\<lambda>_.
           validate_non_blank ''manual_trigger.reason'' (mt_reason trigger))) (\<lambda>_.
     bindR (time_sync_violations policy input server_now_ms) (\<lambda>time_sync.
     Inr (
       (if cbi_daily_realized_loss_bps input \<ge> max_daily_realized_loss_bps policy
        then [CircuitBreakerViolation.DailyRealizedLoss (cbi_daily_realized_loss_bps input)
          (max_daily_realized_loss_bps policy)] else []) @
       (if cbi_equity_drawdown_bps input \<ge> max_equity_drawdown_bps policy
        then [CircuitBreakerViolation.EquityDrawdown (cbi_equity_drawdown_bps input)
          (max_equity_drawdown_bps policy)] else []) @
       (if cbi_consecutive_broker_rejections input \<ge> max_consecutive_broker_rejections policy
        then [CircuitBreakerViolation.ConsecutiveBrokerRejections
          (cbi_consecutive_broker_rejections input) (max_consecutive_broker_rejections policy)]
        else []) @
       (if cbi_consecutive_command_failures input \<ge> max_consecutive_command_failures policy
        then [CircuitBreakerViolation.ConsecutiveCommandFailures
          (cbi_consecutive_command_failures input) (max_consecutive_command_failures policy)]
        else []) @
       (if cbi_manual_reconciliation_required_count input > 0
        then [CircuitBreakerViolation.ManualReconciliationRequired
          (cbi_manual_reconciliation_required_count input)] else []) @
       (if cbi_store_recovery_reconciliation_pending input
        then [CircuitBreakerViolation.StoreRecoveryReconciliationPending] else []) @
       time_sync @
       (if cbi_consecutive_snapshot_stale_count input > max_consecutive_snapshot_stale policy
        then [CircuitBreakerViolation.SnapshotStale (cbi_consecutive_snapshot_stale_count input)
          (max_consecutive_snapshot_stale policy)] else []) @
       (if cbi_consecutive_symbol_metadata_stale_count input >
            max_consecutive_symbol_metadata_stale policy
        then [CircuitBreakerViolation.SymbolMetadataStale
          (cbi_consecutive_symbol_metadata_stale_count input)
          (max_consecutive_symbol_metadata_stale policy)] else []) @
       (case cbi_manual_trigger input of
          None \<Rightarrow> []
        | Some trigger \<Rightarrow>
            [CircuitBreakerViolation.ManualTrigger (mt_operator_id trigger) (mt_reason trigger)]))))"

primrec is_daily_realized_loss :: "CircuitBreakerViolation \<Rightarrow> bool" where
  "is_daily_realized_loss (CircuitBreakerViolation.DailyRealizedLoss _ _) = True"
| "is_daily_realized_loss (CircuitBreakerViolation.DailyRealizedLossWorsened _ _) = False"
| "is_daily_realized_loss (CircuitBreakerViolation.EquityDrawdown _ _) = False"
| "is_daily_realized_loss (CircuitBreakerViolation.EquityDrawdownWorsened _ _) = False"
| "is_daily_realized_loss (CircuitBreakerViolation.ConsecutiveBrokerRejections _ _) = False"
| "is_daily_realized_loss (CircuitBreakerViolation.ConsecutiveCommandFailures _ _) = False"
| "is_daily_realized_loss (CircuitBreakerViolation.ManualReconciliationRequired _) = False"
| "is_daily_realized_loss CircuitBreakerViolation.StoreRecoveryReconciliationPending = False"
| "is_daily_realized_loss (CircuitBreakerViolation.TimeSyncUnhealthy _ _) = False"
| "is_daily_realized_loss (CircuitBreakerViolation.SnapshotStale _ _) = False"
| "is_daily_realized_loss (CircuitBreakerViolation.SymbolMetadataStale _ _) = False"
| "is_daily_realized_loss (CircuitBreakerViolation.ManualTrigger _ _) = False"
| "is_daily_realized_loss CircuitBreakerViolation.HardRiskViolationDuringRecovery = False"
| "is_daily_realized_loss CircuitBreakerViolation.SafetyInvariantViolation = False"

primrec is_equity_drawdown :: "CircuitBreakerViolation \<Rightarrow> bool" where
  "is_equity_drawdown (CircuitBreakerViolation.DailyRealizedLoss _ _) = False"
| "is_equity_drawdown (CircuitBreakerViolation.DailyRealizedLossWorsened _ _) = False"
| "is_equity_drawdown (CircuitBreakerViolation.EquityDrawdown _ _) = True"
| "is_equity_drawdown (CircuitBreakerViolation.EquityDrawdownWorsened _ _) = False"
| "is_equity_drawdown (CircuitBreakerViolation.ConsecutiveBrokerRejections _ _) = False"
| "is_equity_drawdown (CircuitBreakerViolation.ConsecutiveCommandFailures _ _) = False"
| "is_equity_drawdown (CircuitBreakerViolation.ManualReconciliationRequired _) = False"
| "is_equity_drawdown CircuitBreakerViolation.StoreRecoveryReconciliationPending = False"
| "is_equity_drawdown (CircuitBreakerViolation.TimeSyncUnhealthy _ _) = False"
| "is_equity_drawdown (CircuitBreakerViolation.SnapshotStale _ _) = False"
| "is_equity_drawdown (CircuitBreakerViolation.SymbolMetadataStale _ _) = False"
| "is_equity_drawdown (CircuitBreakerViolation.ManualTrigger _ _) = False"
| "is_equity_drawdown CircuitBreakerViolation.HardRiskViolationDuringRecovery = False"
| "is_equity_drawdown CircuitBreakerViolation.SafetyInvariantViolation = False"

definition blocks_recovery :: "CircuitBreakerViolation \<Rightarrow> bool" where
  "blocks_recovery violation \<longleftrightarrow> \<not> (is_daily_realized_loss violation \<or> is_equity_drawdown violation)"

definition filter_half_open_violations ::
  "CircuitBreakerState \<Rightarrow> CircuitBreakerViolation list \<Rightarrow> CircuitBreakerInput \<Rightarrow>
   (CircuitBreakerError, CircuitBreakerViolation list) result" where
  "filter_half_open_violations state all_violations input =
     (case cb_half_open_daily_loss_baseline_bps state of
        None \<Rightarrow> Inl CircuitBreakerError.HalfOpenBaselineMissing
      | Some daily_baseline \<Rightarrow>
     (case cb_half_open_drawdown_baseline_bps state of
        None \<Rightarrow> Inl CircuitBreakerError.HalfOpenBaselineMissing
      | Some drawdown_baseline \<Rightarrow>
     Inr (
       (if cbi_daily_realized_loss_bps input > daily_baseline
        then [case find is_daily_realized_loss all_violations of
            Some violation \<Rightarrow> violation
          | None \<Rightarrow> CircuitBreakerViolation.DailyRealizedLossWorsened daily_baseline
              (cbi_daily_realized_loss_bps input)] else []) @
       (if cbi_equity_drawdown_bps input > drawdown_baseline
        then [case find is_equity_drawdown all_violations of
            Some violation \<Rightarrow> violation
          | None \<Rightarrow> CircuitBreakerViolation.EquityDrawdownWorsened drawdown_baseline
              (cbi_equity_drawdown_bps input)] else []) @
       filter blocks_recovery all_violations)))"

definition half_open_violations ::
  "CircuitBreakerPolicy \<Rightarrow> CircuitBreakerState \<Rightarrow> CircuitBreakerInput \<Rightarrow> i64 \<Rightarrow>
   (CircuitBreakerError, CircuitBreakerViolation list) result" where
  "half_open_violations policy state input server_now_ms =
     bindR (collect_violations policy input server_now_ms) (\<lambda>all.
     filter_half_open_violations state all input)"

text \<open>The loop over the five refresh timestamps, with the list \<open>missing\<close> built on the way.\<close>

primrec missing_prerequisites_loop ::
  "i64 \<Rightarrow> i64 \<Rightarrow> (string \<times> i64 option \<times> RecoveryPrerequisite) list \<Rightarrow>
   (CircuitBreakerError, RecoveryPrerequisite list) result" where
  "missing_prerequisites_loop triggered_at_ms server_now_ms [] = Inr []"
| "missing_prerequisites_loop triggered_at_ms server_now_ms (x # xs) =
     (case x of (field, observed_at_ms, prerequisite) \<Rightarrow>
     if (case observed_at_ms of None \<Rightarrow> False
         | Some observed \<Rightarrow> observed < 0 \<or> observed > server_now_ms)
       then Inl (CircuitBreakerError.InvalidInput field ''must be between zero and server_now_ms'')
     else bindR (missing_prerequisites_loop triggered_at_ms server_now_ms xs) (\<lambda>missing.
       Inr (if (case observed_at_ms of None \<Rightarrow> True | Some value \<Rightarrow> value < triggered_at_ms)
         then prerequisite # missing else missing)))"

definition missing_half_open_prerequisites ::
  "HalfOpenReadiness \<Rightarrow> i64 \<Rightarrow> i64 \<Rightarrow> (CircuitBreakerError, RecoveryPrerequisite list) result" where
  "missing_half_open_prerequisites readiness triggered_at_ms server_now_ms =
     missing_prerequisites_loop triggered_at_ms server_now_ms
       [(''readiness.account_refreshed_at_ms'', hor_account_refreshed_at_ms readiness, AccountRefresh),
        (''readiness.positions_refreshed_at_ms'', hor_positions_refreshed_at_ms readiness,
         PositionRefresh),
        (''readiness.orders_refreshed_at_ms'', hor_orders_refreshed_at_ms readiness, OrderRefresh),
        (''readiness.symbol_metadata_refreshed_at_ms'',
         hor_symbol_metadata_refreshed_at_ms readiness, SymbolMetadataRefresh),
        (''readiness.pending_commands_reconciled_at_ms'',
         hor_pending_commands_reconciled_at_ms readiness, PendingCommandReconciliation)]"

section \<open>Opening and falling back\<close>

definition fallback_at_ms :: "CircuitBreakerState \<Rightarrow> i64 \<Rightarrow> i64" where
  "fallback_at_ms state server_now_ms = (case latest_transition_at_ms state of
     None \<Rightarrow> max server_now_ms 0
   | Some latest \<Rightarrow> max latest (max server_now_ms 0))"

definition recovery_epoch_overflow :: "CircuitBreakerState \<Rightarrow> i64 \<Rightarrow> CircuitBreakerOutcome" where
  "recovery_epoch_overflow state server_now_ms =
     (let error = CircuitBreakerError.RecoveryEpochOverflow;
          fingerprint = [SafetyInvariantError (error_fingerprint error)];
          next = state\<lparr>cb_status := CircuitBreakerStatus.Open,
            cb_reason := CircuitBreakerReason.SafetyInvariantViolation,
            cb_triggered_at_ms := Some (fallback_at_ms state server_now_ms),
            cb_triggered_by := Some SafetyInvariant,
            cb_last_incident_fingerprint := Some fingerprint,
            cb_incident_evidence_cleared_at_ms := None,
            cb_half_opened_at_ms := None,
            cb_half_open_daily_loss_baseline_bps := None,
            cb_half_open_drawdown_baseline_bps := None,
            cb_reset_at_ms := None,
            cb_reset_by := None\<rparr>
      in \<lparr>out_state = next, out_transition = SafetyFallbackOpened,
          out_violations = [CircuitBreakerViolation.SafetyInvariantViolation],
          out_error = Some error, out_manual_reset_audit = None\<rparr>)"

definition open_breaker ::
  "CircuitBreakerState \<Rightarrow> CircuitBreakerViolation list \<Rightarrow> CircuitBreakerIncidentFingerprint \<Rightarrow> i64 \<Rightarrow>
   bool \<Rightarrow> CircuitBreakerOutcome option" where
  "open_breaker state violations fingerprint server_now_ms reopened =
     (case checked_add_u64 (cb_recovery_epoch state) 1 of
        None \<Rightarrow> Some (recovery_epoch_overflow state server_now_ms)
      | Some recovery_epoch \<Rightarrow>
     (case violations of
        [] \<Rightarrow> None
      | primary # _ \<Rightarrow>
     (let next = state\<lparr>cb_recovery_epoch := recovery_epoch,
            cb_status := CircuitBreakerStatus.Open,
            cb_reason := violation_reason primary,
            cb_triggered_at_ms := Some server_now_ms,
            cb_triggered_by := Some (violation_source primary),
            cb_last_incident_fingerprint := Some fingerprint,
            cb_incident_evidence_cleared_at_ms := None,
            cb_half_opened_at_ms := None,
            cb_half_open_daily_loss_baseline_bps := None,
            cb_half_open_drawdown_baseline_bps := None,
            cb_reset_at_ms := None,
            cb_reset_by := None\<rparr>
      in Some \<lparr>out_state = next, out_transition = (if reopened then Reopened else Opened),
          out_violations = violations, out_error = None, out_manual_reset_audit = None\<rparr>)))"

definition safety_fallback ::
  "CircuitBreakerState \<Rightarrow> i64 \<Rightarrow> CircuitBreakerError \<Rightarrow> CircuitBreakerOutcome option" where
  "safety_fallback state server_now_ms error =
     (let violations = [CircuitBreakerViolation.SafetyInvariantViolation];
          fingerprint = [SafetyInvariantError (error_fingerprint error)];
          at = fallback_at_ms state server_now_ms;
          finish = (\<lambda>outcome. if out_error outcome = Some CircuitBreakerError.RecoveryEpochOverflow
            then outcome
            else outcome\<lparr>out_transition := SafetyFallbackOpened, out_error := Some error\<rparr>)
      in if cb_status state = CircuitBreakerStatus.Open
         then if cb_last_incident_fingerprint state \<noteq> Some fingerprint
           then map_option finish (open_breaker state violations fingerprint at True)
           else Some \<lparr>out_state = state, out_transition = NoChange, out_violations = violations,
             out_error = Some error, out_manual_reset_audit = None\<rparr>
         else map_option finish (open_breaker state violations fingerprint at
           (cb_status state = CircuitBreakerStatus.HalfOpen)))"

section \<open>Handlers\<close>

definition observe_half_open ::
  "CircuitBreakerState \<Rightarrow> CircuitBreakerViolation list \<Rightarrow> CircuitBreakerInput \<Rightarrow> i64 \<Rightarrow>
   CircuitBreakerOutcome option" where
  "observe_half_open state all_violations input server_now_ms =
     (case filter_half_open_violations state all_violations input of
        Inl error \<Rightarrow> safety_fallback state server_now_ms error
      | Inr violations \<Rightarrow>
          if violations = [] then Some (outcome_unchanged state)
          else open_breaker state violations (incident_fingerprint violations (Some input))
            server_now_ms True)"

definition observe ::
  "CircuitBreakerPolicy \<Rightarrow> CircuitBreakerState \<Rightarrow> CircuitBreakerInput \<Rightarrow> i64 \<Rightarrow>
   CircuitBreakerOutcome option" where
  "observe policy state input server_now_ms =
     (case collect_violations policy input server_now_ms of
        Inl error \<Rightarrow> safety_fallback state server_now_ms error
      | Inr violations \<Rightarrow>
     (let fingerprint = incident_fingerprint violations (Some input);
          unchanged = Some ((outcome_unchanged state)\<lparr>out_violations := violations\<rparr>)
      in case cb_status state of
        CircuitBreakerStatus.Closed \<Rightarrow>
          if violations \<noteq> [] then open_breaker state violations fingerprint server_now_ms False
          else unchanged
      | CircuitBreakerStatus.HalfOpen \<Rightarrow> observe_half_open state violations input server_now_ms
      | CircuitBreakerStatus.Open \<Rightarrow>
          if violations \<noteq> [] then
            if cb_last_incident_fingerprint state = Some fingerprint then unchanged
            else open_breaker state violations fingerprint server_now_ms True
          else if cb_last_incident_fingerprint state \<noteq> None then
            Some \<lparr>out_state = state\<lparr>cb_last_incident_fingerprint := None,
                cb_incident_evidence_cleared_at_ms := Some server_now_ms\<rparr>,
              out_transition = IncidentEvidenceCleared, out_violations = violations,
              out_error = None, out_manual_reset_audit = None\<rparr>
          else unchanged))"

definition enter_half_open ::
  "CircuitBreakerPolicy \<Rightarrow> CircuitBreakerState \<Rightarrow> HalfOpenReadiness \<Rightarrow> CircuitBreakerInput \<Rightarrow> i64 \<Rightarrow>
   CircuitBreakerOutcome option" where
  "enter_half_open policy state readiness input server_now_ms =
     (if cb_status state = CircuitBreakerStatus.Closed then Some (outcome_unchanged state)
      else if cb_status state = CircuitBreakerStatus.HalfOpen
        then observe policy state input server_now_ms
      else case collect_violations policy input server_now_ms of
        Inl error \<Rightarrow> safety_fallback state server_now_ms error
      | Inr violations \<Rightarrow>
     (let fingerprint = incident_fingerprint violations (Some input);
          blocking_violations = filter blocks_recovery violations
      in if violations \<noteq> [] \<and> cb_last_incident_fingerprint state \<noteq> Some fingerprint
           then open_breaker state violations fingerprint server_now_ms True
         else if blocking_violations \<noteq> []
           then Some ((outcome_with_error state (CircuitBreakerError.RecoveryBlockedByViolations
             (map violation_reason blocking_violations)))\<lparr>out_violations := violations\<rparr>)
         else case cb_triggered_at_ms state of
           None \<Rightarrow> safety_fallback state server_now_ms
             (CircuitBreakerError.InvalidInput ''state.triggered_at_ms''
               ''must be present while the breaker is open'')
         | Some triggered_at_ms \<Rightarrow>
         if hor_recovery_epoch readiness \<noteq> cb_recovery_epoch state
           then Some (outcome_with_error state (CircuitBreakerError.RecoveryEpochMismatch
             (cb_recovery_epoch state) (hor_recovery_epoch readiness)))
         else case missing_half_open_prerequisites readiness triggered_at_ms server_now_ms of
           Inl error \<Rightarrow> safety_fallback state server_now_ms error
         | Inr missing \<Rightarrow>
         if missing \<noteq> []
           then Some (outcome_with_error state
             (CircuitBreakerError.RecoveryPrerequisitesMissing missing))
         else Some \<lparr>out_state = state\<lparr>cb_status := CircuitBreakerStatus.HalfOpen,
             cb_half_opened_at_ms := Some server_now_ms,
             cb_half_open_daily_loss_baseline_bps := Some (cbi_daily_realized_loss_bps input),
             cb_half_open_drawdown_baseline_bps := Some (cbi_equity_drawdown_bps input)\<rparr>,
           out_transition = EnteredHalfOpen, out_violations = violations, out_error = None,
           out_manual_reset_audit = None\<rparr>))"

text \<open>The match on the authorisation: who resets, and the audit record of a manual reset.\<close>

definition reset_identity ::
  "CircuitBreakerPolicy \<Rightarrow> ResetAuthorization \<Rightarrow> i64 \<Rightarrow>
   (CircuitBreakerError, string \<times> ManualResetAuditRecord option) result" where
  "reset_identity policy authorization server_now_ms = (case authorization of
     ResetAuthorization.Automatic \<Rightarrow>
       if auto_reset policy then Inr (''AUTOMATIC'', None)
       else Inl CircuitBreakerError.AutomaticResetDisabled
   | ResetAuthorization.Operator evidence \<Rightarrow>
       bindR (validate_manual_reset_evidence evidence) (\<lambda>_.
       Inr (mre_operator_id evidence, Some
         \<lparr>mra_audit_event_id = mre_audit_event_id evidence,
          mra_operator_id = mre_operator_id evidence,
          mra_reason = mre_reason evidence,
          mra_evidence = mre_evidence evidence,
          mra_before_state = CircuitBreakerStatus.HalfOpen,
          mra_after_state = CircuitBreakerStatus.Closed,
          mra_recorded_at_ms = server_now_ms\<rparr>)))"

definition close_breaker ::
  "CircuitBreakerPolicy \<Rightarrow> CircuitBreakerState \<Rightarrow> RecoveryHealth \<Rightarrow> ResetAuthorization \<Rightarrow> i64 \<Rightarrow>
   CircuitBreakerOutcome option" where
  "close_breaker policy state health authorization server_now_ms =
     (if cb_status state = CircuitBreakerStatus.Closed then Some (outcome_unchanged state)
      else if cb_status state \<noteq> CircuitBreakerStatus.HalfOpen
        then Some (outcome_with_error state
          (CircuitBreakerError.InvalidTransition (cb_status state) TransitionRequestKind.Close))
      else case half_open_violations policy state (rh_input health) server_now_ms of
        Inl error \<Rightarrow> safety_fallback state server_now_ms error
      | Inr half_open \<Rightarrow>
     (let violations = half_open @ (if rh_new_hard_risk_violation health
            then [CircuitBreakerViolation.HardRiskViolationDuringRecovery] else []);
          unhealthy = (if \<not> rh_clock_healthy health then [ClockHealth] else []) @
            (if \<not> rh_state_store_healthy health then [StateStoreHealth] else [])
      in if violations \<noteq> []
           then open_breaker state violations
             (incident_fingerprint violations (Some (rh_input health))) server_now_ms True
         else if unhealthy \<noteq> []
           then Some (outcome_with_error state
             (CircuitBreakerError.RecoveryPrerequisitesMissing unhealthy))
         else case cb_half_opened_at_ms state of
           None \<Rightarrow> safety_fallback state server_now_ms CircuitBreakerError.HalfOpenBaselineMissing
         | Some half_opened_at_ms \<Rightarrow>
         (let elapsed_ms = server_now_ms - half_opened_at_ms
          in if elapsed_ms < half_open_observation_ms policy
               then Some (outcome_with_error state
                 (CircuitBreakerError.HalfOpenObservationNotComplete
                   (half_open_observation_ms policy - elapsed_ms)))
             else case reset_identity policy authorization server_now_ms of
               Inl error \<Rightarrow> Some (outcome_with_error state error)
             | Inr (reset_by, manual_reset_audit) \<Rightarrow>
                 Some \<lparr>out_state = state\<lparr>cb_status := CircuitBreakerStatus.Closed,
                     cb_reason := CircuitBreakerReason.Ok,
                     cb_half_opened_at_ms := None,
                     cb_half_open_daily_loss_baseline_bps := None,
                     cb_half_open_drawdown_baseline_bps := None,
                     cb_reset_at_ms := Some server_now_ms,
                     cb_reset_by := Some reset_by\<rparr>,
                   out_transition = CircuitBreakerTransition.Closed, out_violations = [],
                   out_error = None, out_manual_reset_audit = manual_reset_audit\<rparr>)))"

definition record_blocked_intent_count ::
  "CircuitBreakerState \<Rightarrow> u64 \<Rightarrow> CircuitBreakerOutcome" where
  "record_blocked_intent_count state observed_total =
     (if observed_total \<le> cb_blocked_intent_count state then outcome_unchanged state
      else \<lparr>out_state = state\<lparr>cb_blocked_intent_count := observed_total\<rparr>,
        out_transition = BlockedIntentCountAdvanced, out_violations = [], out_error = None,
        out_manual_reset_audit = None\<rparr>)"

definition dispatch_request ::
  "CircuitBreakerPolicy \<Rightarrow> CircuitBreakerState \<Rightarrow> TransitionRequest \<Rightarrow> i64 \<Rightarrow>
   CircuitBreakerOutcome option" where
  "dispatch_request policy state request server_now_ms = (case request of
     TransitionRequest.Observe input \<Rightarrow> observe policy state input server_now_ms
   | TransitionRequest.EnterHalfOpen readiness input \<Rightarrow>
       enter_half_open policy state readiness input server_now_ms
   | TransitionRequest.Close health authorization \<Rightarrow>
       close_breaker policy state health authorization server_now_ms
   | TransitionRequest.RecordBlockedIntentCount observed_total \<Rightarrow>
       Some (record_blocked_intent_count state observed_total))"

definition transition ::
  "CircuitBreakerPolicy \<Rightarrow> CircuitBreakerState \<Rightarrow> TransitionRequest \<Rightarrow> i64 \<Rightarrow>
   CircuitBreakerOutcome option" where
  "transition policy state request server_now_ms =
     (if server_now_ms < 0
        then safety_fallback state server_now_ms
          (CircuitBreakerError.InvalidInput ''server_now_ms'' ''must not be negative'')
      else case CircuitBreakerPolicy_validate policy of
        Inl error \<Rightarrow> safety_fallback state server_now_ms error
      | Inr _ \<Rightarrow>
     (case latest_transition_at_ms state of
        Some latest \<Rightarrow>
          if server_now_ms < latest
            then safety_fallback state server_now_ms
              (CircuitBreakerError.ServerTimeRegressed latest server_now_ms)
          else dispatch_request policy state request server_now_ms
      | None \<Rightarrow> dispatch_request policy state request server_now_ms))"

end
