(* ===== verification/Ordered_Map.thy ===== *)
theory Ordered_Map
  imports Prelude
begin

text \<open>
  \<open>BTreeMap\<close> and \<open>BTreeSet\<close> as the crates use them: insertion, lookup and iteration in ascending key
  order. A map is its list of entries in iteration order. What the clients rely on is the locale
  \<open>ordered_map\<close>, interpreted for the entry lists as \<open>bt\<close>.
\<close>

section \<open>Model\<close>

type_synonym ('k, 'v) btree_map = "('k \<times> 'v) list"

fun bt_insert :: "('k::linorder) \<Rightarrow> 'v \<Rightarrow> ('k, 'v) btree_map \<Rightarrow> ('k, 'v) btree_map" where
  "bt_insert k v [] = [(k, v)]"
| "bt_insert k v ((j, w) # m) =
     (if k < j then (k, v) # (j, w) # m
      else if k = j then (k, v) # m
      else (j, w) # bt_insert k v m)"

definition bt_keys :: "('k, 'v) btree_map \<Rightarrow> 'k list" where
  "bt_keys m = map fst m"

definition bt_sorted :: "('k::linorder, 'v) btree_map \<Rightarrow> bool" where
  "bt_sorted m \<longleftrightarrow> sorted_wrt (<) (bt_keys m)"

text \<open>\<open>iter().cloned().collect::<BTreeSet<_>>()\<close>: the elements in ascending order, once each.\<close>

definition bt_set :: "('k::linorder) list \<Rightarrow> 'k list" where
  "bt_set xs = sort (remdups xs)"

section \<open>Contract\<close>

locale ordered_map =
  fixes empty :: 'm
    and update :: "('k::linorder) \<Rightarrow> 'v \<Rightarrow> 'm \<Rightarrow> 'm"
    and lookup :: "'m \<Rightarrow> 'k \<Rightarrow> 'v option"
    and keys :: "'m \<Rightarrow> 'k list"
    and inv :: "'m \<Rightarrow> bool"
  assumes inv_empty: "inv empty"
    and inv_update: "inv m \<Longrightarrow> inv (update k v m)"
    and lookup_empty: "lookup empty k = None"
    and lookup_update: "inv m \<Longrightarrow> lookup (update k v m) = (lookup m)(k \<mapsto> v)"
    and keys_ascending: "inv m \<Longrightarrow> strictly_ascending (keys m)"
    and keys_dom: "inv m \<Longrightarrow> set (keys m) = dom (lookup m)"
    and extensional: "inv m \<Longrightarrow> inv n \<Longrightarrow> lookup m = lookup n \<Longrightarrow> m = n"
begin

lemma keys_sorted_list: "inv m \<Longrightarrow> keys m = sorted_list_of_set (dom (lookup m))"
  using keys_ascending keys_dom
  by (metis sorted_list_of_set.idem_if_sorted_distinct strictly_ascending_sorted_distinct)

lemma inv_fold: "inv m \<Longrightarrow> inv (fold (\<lambda>x. update (key x) (val x)) xs m)"
  by (induction xs arbitrary: m) (auto intro: inv_update)

lemma lookup_fold:
  "inv m \<Longrightarrow> lookup (fold (\<lambda>x. update (key x) (val x)) xs m) =
   (lookup m) ++ map_of (map (\<lambda>x. (key x, val x)) (rev xs))"
  by (induction xs arbitrary: m) (simp_all add: inv_update lookup_update)

text \<open>Indexing by a key that does not repeat does not depend on the order of the items.\<close>

lemma fold_order:
  assumes "distinct (map key xs)" "mset xs = mset ys"
  shows "fold (\<lambda>x. update (key x) (val x)) xs empty = fold (\<lambda>x. update (key x) (val x)) ys empty"
proof (rule extensional)
  have ys: "distinct (map key ys)" "set ys = set xs"
    using assms by (metis mset_map mset_eq_imp_distinct_iff, metis set_mset_mset)
  have "map_of (map (\<lambda>x. (key x, val x)) (rev xs)) = map_of (map (\<lambda>x. (key x, val x)) (rev ys))"
    using assms(1) ys by (subst map_of_inject_set) (auto simp: comp_def simp flip: rev_map)
  then show "lookup (fold (\<lambda>x. update (key x) (val x)) xs empty) =
      lookup (fold (\<lambda>x. update (key x) (val x)) ys empty)"
    by (simp add: lookup_fold inv_empty)
qed (simp_all add: inv_fold inv_empty)

lemma keys_fold:
  "set (keys (fold (\<lambda>x. update (key x) (val x)) xs empty)) = key ` set xs"
  by (simp add: keys_dom inv_fold inv_empty lookup_fold lookup_empty dom_map_of_conv_image_fst
    image_image dom_def [of "lookup empty"])

end

section \<open>The entry lists meet the contract\<close>

lemma bt_keys_insert: "set (bt_keys (bt_insert k v m)) = insert k (set (bt_keys m))"
  by (induction k v m rule: bt_insert.induct) (auto simp: bt_keys_def)

lemma bt_sorted_insert: "bt_sorted m \<Longrightarrow> bt_sorted (bt_insert k v m)"
proof (induction k v m rule: bt_insert.induct)
  case (2 k v j w m)
  then show ?case
    using bt_keys_insert [of k v m] by (auto simp: bt_sorted_def bt_keys_def)
qed (simp add: bt_sorted_def bt_keys_def)

lemma bt_lookup_insert: "bt_sorted m \<Longrightarrow> map_of (bt_insert k v m) = (map_of m)(k \<mapsto> v)"
proof (induction k v m rule: bt_insert.induct)
  case (2 k v j w m)
  then have "bt_sorted m" by (simp add: bt_sorted_def bt_keys_def)
  with 2 show ?case by (auto simp: fun_eq_iff)
qed simp

lemma bt_extensional:
  assumes "bt_sorted m" "bt_sorted n" "map_of m = map_of n" shows "m = n"
proof -
  have m: "sorted (map fst m)" "distinct (map fst m)" and n: "sorted (map fst n)" "distinct (map fst n)"
    using assms by (auto simp: bt_sorted_def bt_keys_def strict_sorted_iff)
  have "set m = set n"
    using assms(3) m(2) n(2) by (metis map_of_inject_set)
  then show ?thesis
    using m n by (intro map_sorted_distinct_set_unique [of fst]) (auto simp: distinct_map)
qed

interpretation bt: ordered_map "[]" bt_insert map_of bt_keys bt_sorted
proof unfold_locales
  show "bt_sorted []" by (simp add: bt_sorted_def bt_keys_def)
  show "bt_sorted m \<Longrightarrow> bt_sorted (bt_insert k v m)" for m k v by (rule bt_sorted_insert)
  show "bt_sorted m \<Longrightarrow> map_of (bt_insert k v m) = (map_of m)(k \<mapsto> v)" for m k v by (rule bt_lookup_insert)
  show "bt_sorted m \<Longrightarrow> strictly_ascending (bt_keys m)" for m :: "('a, 'b) btree_map"
    by (simp add: bt_sorted_def strictly_ascending_iff)
  show "bt_sorted m \<Longrightarrow> set (bt_keys m) = dom (map_of m)" for m :: "('a, 'b) btree_map"
    by (simp add: bt_keys_def dom_map_of_conv_image_fst)
  show "bt_sorted m \<Longrightarrow> bt_sorted n \<Longrightarrow> map_of m = map_of n \<Longrightarrow> m = n" for m n :: "('a, 'b) btree_map"
    by (rule bt_extensional)
qed simp

lemma bt_set_simps [simp]: "set (bt_set xs) = set xs" "strictly_ascending (bt_set xs)"
  by (simp_all add: bt_set_def strictly_ascending_sorted_distinct)

lemma strictly_ascending_unique:
  "strictly_ascending xs \<Longrightarrow> strictly_ascending ys \<Longrightarrow> set xs = set ys \<Longrightarrow> xs = ys"
  by (simp add: strictly_ascending_sorted_distinct sorted_distinct_set_unique)

lemma bt_set_length: "length (bt_set xs) = length xs \<longleftrightarrow> distinct xs"
proof -
  have "length (bt_set xs) = card (set xs)"
    using distinct_card [of "bt_set xs"] bt_set_simps(2) [of xs]
    by (simp add: strictly_ascending_sorted_distinct)
  then show ?thesis by (metis card_distinct distinct_card)
qed

end
