(* ===== verification/Risk_Model.thy ===== *)
theory Risk_Model
  imports Risk_Result Circuit_Breaker Ordered_Map
begin

text \<open>
  The request of the risk engine (\<open>crates/risk/src/model.rs\<close>), the digest that binds a result to its
  request (\<open>risk_request_hash\<close> of \<open>evaluator.rs\<close>), and the arithmetic of the \<open>rust_decimal\<close> crate as a
  parameter: a record of the operations the evaluator calls. \<open>serde_json\<close>, \<open>sha2\<close> and \<open>hex\<close> are the
  parameters of the digest.
\<close>

section \<open>The request\<close>

datatype AgentReviewRecommendation = NoRecommendation | Skip | ReduceRisk | ManualReview

record AgentReview =
  ar_review_id :: string
  ar_score_adjustment :: f64
  ar_recommendation :: AgentReviewRecommendation
  ar_reason :: string

record StrategyDecision =
  sd_decision_id :: DecisionId
  sd_strategy_id :: StrategyId
  sd_symbol :: SymbolCode
  sd_timeframe :: TimeframeCode
  sd_action :: TradeIntentAction
  sd_confidence :: f64
  sd_reason :: string
  sd_proposed_risk_pct :: f64
  sd_proposed_sl :: "f64 option"
  sd_proposed_tp :: "f64 option"
  sd_timestamp :: i64
  sd_signal_expires_at :: i64

record PositionSizingCandidate =
  psc_leg_id :: LegId
  psc_symbol :: SymbolCode
  psc_action :: AdjustedRiskLegAction
  psc_ratio :: f64
  psc_worst_entry_price :: f64
  psc_stop_loss_price :: f64
  psc_estimated_cost_per_lot :: f64

record RiskPolicy =
  pol_position_sizing_version :: string
  pol_max_risk_per_trade_pct :: f64
  pol_max_daily_loss_pct :: f64
  pol_max_drawdown_pct :: f64
  pol_max_symbol_exposure_pct :: f64
  pol_max_total_exposure_pct :: f64
  pol_max_margin_usage_pct :: f64
  pol_require_stop_loss :: bool
  pol_reject_expired_signal :: bool
  pol_max_approval_ttl_ms :: i64
  pol_max_snapshot_age_ms :: i64
  pol_max_order_snapshot_age_ms :: i64
  pol_max_market_snapshot_age_ms :: i64
  pol_max_symbol_metadata_age_ms :: i64
  pol_max_capacity_age_ms :: i64
  pol_max_concurrent_positions :: u32
  pol_require_valid_symbol_metadata :: bool
  pol_reject_trade_mode_disabled :: bool

record StrategyRiskPolicy =
  srp_max_risk_per_trade_pct :: f64
  srp_max_concurrent_legs :: u32
  srp_require_stop_loss :: bool
  srp_signal_expiry_bars :: u32

record RiskStateWatermarks =
  wm_positions_observed_at :: i64
  wm_orders_observed_at :: i64
  wm_pending_commands_reconciled_at :: i64

record RiskMarketSnapshot =
  rms_account_id :: AccountId
  rms_snapshot :: MarketSnapshot

record RiskRequest =
  rq_request_id :: RequestId
  rq_risk_id :: RiskId
  rq_evaluated_at :: i64
  rq_decision :: StrategyDecision
  rq_intent :: TradeIntent
  rq_agent_review :: "AgentReview option"
  rq_account :: AccountSnapshot
  rq_positions :: "PositionSnapshot list"
  rq_orders :: "OrderSnapshot list"
  rq_symbol_metadata :: "SymbolMetadataSnapshot list"
  rq_pending_commands :: "ExecutionCommand list"
  rq_pending_command_states :: "ExecutionCommandState list"
  rq_policy :: RiskPolicy
  rq_strategy_policy :: StrategyRiskPolicy
  rq_markets :: "RiskMarketSnapshot list"
  rq_sizing_candidates :: "PositionSizingCandidate list"
  rq_state_watermarks :: RiskStateWatermarks
  rq_capacity :: RiskCapacity

section \<open>Decimals\<close>

text \<open>
  \<open>da_value\<close> is the number a \<open>Decimal\<close> stands for; \<open>Decimal\<close> compares by it (\<open>Ord\<close> and \<open>Eq\<close> ignore
  the scale). \<open>da_of_f64\<close> is \<open>value.to_string().parse::<Decimal>()\<close>, the four operations are the
  \<open>checked_\<close> ones, \<open>None\<close> being their overflow; the operator \<open>-\<close> panics where \<open>checked_sub\<close> is \<open>None\<close>.
\<close>

record 'd decimal_arith =
  da_value :: "'d \<Rightarrow> rat"
  da_of_f64 :: "f64 \<Rightarrow> 'd option"
  da_to_f64 :: "'d \<Rightarrow> f64 option"
  da_of_u32 :: "u32 \<Rightarrow> 'd"
  da_add :: "'d \<Rightarrow> 'd \<Rightarrow> 'd option"
  da_sub :: "'d \<Rightarrow> 'd \<Rightarrow> 'd option"
  da_mul :: "'d \<Rightarrow> 'd \<Rightarrow> 'd option"
  da_div :: "'d \<Rightarrow> 'd \<Rightarrow> 'd option"
  da_abs :: "'d \<Rightarrow> 'd"
  da_ceil :: "'d \<Rightarrow> 'd"
  da_floor :: "'d \<Rightarrow> 'd"
  da_min :: "'d \<Rightarrow> 'd \<Rightarrow> 'd"
  da_max :: "'d \<Rightarrow> 'd \<Rightarrow> 'd"
  da_zero :: 'd
  da_one :: 'd
  da_hundred :: 'd
  da_max_value :: 'd

definition dec_lt :: "'d decimal_arith \<Rightarrow> 'd \<Rightarrow> 'd \<Rightarrow> bool" where
  "dec_lt A x y \<longleftrightarrow> da_value A x < da_value A y"

definition dec_le :: "'d decimal_arith \<Rightarrow> 'd \<Rightarrow> 'd \<Rightarrow> bool" where
  "dec_le A x y \<longleftrightarrow> da_value A x \<le> da_value A y"

definition dec_eq :: "'d decimal_arith \<Rightarrow> 'd \<Rightarrow> 'd \<Rightarrow> bool" where
  "dec_eq A x y \<longleftrightarrow> da_value A x = da_value A y"

section \<open>The digest of a request\<close>

type_synonym octets = "nat list"

record request_hashing =
  rh_json :: "RiskRequest \<Rightarrow> octets option"
  rh_debug :: "RiskRequest \<Rightarrow> octets"
  rh_sha256 :: "octets \<Rightarrow> octets"
  rh_hex :: "octets \<Rightarrow> string"

definition u64_to_be_bytes :: "nat \<Rightarrow> octets" where
  "u64_to_be_bytes n = map (\<lambda>i. n div 256 ^ (7 - i) mod 256) [0..<8]"

definition hash_f64 :: "f64 \<Rightarrow> octets" where
  "hash_f64 value = u64_to_be_bytes (unat value)"

definition hash_optional_f64 :: "f64 option \<Rightarrow> octets" where
  "hash_optional_f64 value = (case value of Some v \<Rightarrow> 1 # hash_f64 v | None \<Rightarrow> [0])"

definition hash_intent_floats :: "RiskRequest \<Rightarrow> octets" where
  "hash_intent_floats request = (let decision = rq_decision request; intent = rq_intent request in
     hash_f64 (sd_confidence decision) @ hash_f64 (sd_proposed_risk_pct decision) @
     hash_optional_f64 (sd_proposed_sl decision) @ hash_optional_f64 (sd_proposed_tp decision) @
     hash_f64 (ti_confidence intent) @ hash_f64 (ti_proposed_risk_pct intent) @
     hash_optional_f64 (ti_proposed_sl intent) @ hash_optional_f64 (ti_proposed_tp intent) @
     (case ti_proposed_legs intent of None \<Rightarrow> []
      | Some legs \<Rightarrow> concat (map (\<lambda>leg. hash_f64 (til_ratio leg) @
          hash_optional_f64 (til_proposed_sl leg) @ hash_optional_f64 (til_proposed_tp leg)) legs)) @
     (case rq_agent_review request of None \<Rightarrow> [] | Some review \<Rightarrow> hash_f64 (ar_score_adjustment review)))"

definition hash_state_floats :: "RiskRequest \<Rightarrow> octets" where
  "hash_state_floats request = (let account = rq_account request in
     concat (map hash_f64 [acct_balance account, acct_equity account, acct_margin account,
       acct_free_margin account]) @
     concat (map (\<lambda>position. hash_f64 (pos_lots position) @ hash_f64 (pos_open_price position) @
       hash_optional_f64 (pos_sl position) @ hash_optional_f64 (pos_tp position) @
       hash_f64 (pos_floating_pnl position)) (rq_positions request)) @
     concat (map (\<lambda>order. hash_f64 (ord_requested_lots order) @ hash_f64 (ord_filled_lots order) @
       hash_f64 (ord_remaining_lots order) @ hash_optional_f64 (ord_price order) @
       hash_optional_f64 (ord_sl order) @ hash_optional_f64 (ord_tp order)) (rq_orders request)) @
     concat (map (\<lambda>metadata. concat (map hash_f64 [sm_point metadata, sm_tick_size metadata,
         sm_tick_value_loss metadata, sm_contract_size metadata, sm_volume_min metadata,
         sm_volume_max metadata, sm_volume_step metadata]) @
       hash_optional_f64 (sm_margin_initial metadata) @
       hash_optional_f64 (sm_margin_maintenance metadata)) (rq_symbol_metadata request)) @
     concat (map (\<lambda>command. hash_optional_f64 (ec_lots command) @ hash_optional_f64 (ec_price command) @
       hash_optional_f64 (ec_sl command) @ hash_optional_f64 (ec_tp command)) (rq_pending_commands request)))"

definition hash_limit_floats :: "RiskRequest \<Rightarrow> octets" where
  "hash_limit_floats request = (let policy = rq_policy request; capacity = rq_capacity request in
     concat (map hash_f64 [pol_max_risk_per_trade_pct policy, pol_max_daily_loss_pct policy,
       pol_max_drawdown_pct policy, pol_max_symbol_exposure_pct policy,
       pol_max_total_exposure_pct policy, pol_max_margin_usage_pct policy,
       srp_max_risk_per_trade_pct (rq_strategy_policy request)]) @
     concat (map (\<lambda>market. hash_f64 (ms_bid (rms_snapshot market)) @ hash_f64 (ms_ask (rms_snapshot market)) @
       hash_f64 (ms_spread (rms_snapshot market))) (rq_markets request)) @
     concat (map (\<lambda>candidate. hash_f64 (psc_ratio candidate) @ hash_f64 (psc_worst_entry_price candidate) @
       hash_f64 (psc_stop_loss_price candidate) @ hash_f64 (psc_estimated_cost_per_lot candidate))
       (rq_sizing_candidates request)) @
     concat (map hash_f64 [rc_daily_realized_loss_pct capacity, rc_equity_drawdown_pct capacity,
       rc_remaining_account_risk_pct capacity, rc_remaining_portfolio_risk_pct capacity]))"

definition hash_request_float_bits :: "RiskRequest \<Rightarrow> octets" where
  "hash_request_float_bits request =
     hash_intent_floats request @ hash_state_floats request @ hash_limit_floats request"

definition request_preimage :: "request_hashing \<Rightarrow> RiskRequest \<Rightarrow> octets" where
  "request_preimage H request =
     (let bytes = (case rh_json H request of Some json \<Rightarrow> json
        | None \<Rightarrow> map of_char ''NON_JSON_RISK_REQUEST:'' @ rh_debug H request)
      in map of_char ''sinan-risk-request.v1'' @ [0] @ u64_to_be_bytes (length bytes) @ bytes @
        hash_request_float_bits request)"

definition risk_request_hash :: "request_hashing \<Rightarrow> RiskRequest \<Rightarrow> string" where
  "risk_request_hash H request = rh_hex H (rh_sha256 H (request_preimage H request))"

end
