(* ===== verification/Wire.thy ===== *)
theory Wire
  imports Dto
begin

text \<open>
  Schema versions (\<open>crates/protocol/src/version.rs\<close>), message types and the envelope checks
  (\<open>crates/protocol/src/message.rs\<close>), and the acknowledgement payload
  (\<open>TransportAck\<close> in \<open>crates/protocol/src/payload.rs\<close>). \<open>serde_json::from_slice\<close> is a parameter of
  \<open>decode_wire_message\<close>.
\<close>

section \<open>Decimal numbers\<close>

text \<open>\<open>{}\<close> of a \<open>u16\<close>, and \<open>str::parse::<u16>\<close>: an optional plus sign, digits, no overflow.\<close>

definition digit_char :: "nat \<Rightarrow> char" where
  "digit_char n = char_of (48 + n)"

definition char_digit :: "char \<Rightarrow> nat option" where
  "char_digit c = (let n = of_char c :: nat in if 48 \<le> n \<and> n \<le> 57 then Some (n - 48) else None)"

fun show_decimal :: "nat \<Rightarrow> string" where
  "show_decimal n = (if n < 10 then [digit_char n] else show_decimal (n div 10) @ [digit_char (n mod 10)])"

declare show_decimal.simps [simp del]

primrec parse_digits :: "nat \<Rightarrow> string \<Rightarrow> nat option" where
  "parse_digits acc [] = Some acc"
| "parse_digits acc (c # cs) =
     (case char_digit c of
        None \<Rightarrow> None
      | Some d \<Rightarrow> if acc * 10 + d \<le> u16_max then parse_digits (acc * 10 + d) cs else None)"

definition parse_u16 :: "string \<Rightarrow> u16 option" where
  "parse_u16 s = (let digits = (case s of c # cs \<Rightarrow> if c = CHR ''+'' then cs else s | [] \<Rightarrow> [])
     in if digits = [] then None else parse_digits 0 digits)"

section \<open>Schema versions\<close>

datatype SchemaVersion = SchemaVersion (sv_major: u16) (sv_minor: u16)

datatype SchemaCompatibility = Exact | OlderMinor | HigherMinor

datatype SchemaVersionError = InvalidFormat string | MajorMismatch u16 u16

text \<open>The derived order: major first, then minor.\<close>

instantiation SchemaVersion :: linorder
begin

definition less_eq_SchemaVersion :: "SchemaVersion \<Rightarrow> SchemaVersion \<Rightarrow> bool" where
  "less_eq_SchemaVersion a b \<longleftrightarrow> sv_major a < sv_major b \<or> sv_major a = sv_major b \<and> sv_minor a \<le> sv_minor b"

definition less_SchemaVersion :: "SchemaVersion \<Rightarrow> SchemaVersion \<Rightarrow> bool" where
  "less_SchemaVersion a b \<longleftrightarrow> sv_major a < sv_major b \<or> sv_major a = sv_major b \<and> sv_minor a < sv_minor b"

instance
  by standard (auto simp: less_eq_SchemaVersion_def less_SchemaVersion_def intro: SchemaVersion.expand)

end

definition SUPPORTED_SCHEMA_VERSION :: SchemaVersion where
  "SUPPORTED_SCHEMA_VERSION = SchemaVersion 1 0"

definition compatibility_with ::
  "SchemaVersion \<Rightarrow> SchemaVersion \<Rightarrow> (SchemaVersionError, SchemaCompatibility) result" where
  "compatibility_with self supported =
     (if sv_major self \<noteq> sv_major supported
        then Inl (MajorMismatch (sv_major self) (sv_major supported))
      else Inr (if sv_minor self < sv_minor supported then OlderMinor
        else if sv_minor self = sv_minor supported then Exact else HigherMinor))"

definition SchemaVersion_to_string :: "SchemaVersion \<Rightarrow> string" where
  "SchemaVersion_to_string v = ''ecp.v'' @ show_decimal (sv_major v) @ ''.'' @ show_decimal (sv_minor v)"

definition strip_prefix :: "string \<Rightarrow> string \<Rightarrow> string option" where
  "strip_prefix pre s = (if take (length pre) s = pre then Some (drop (length pre) s) else None)"

definition split_once :: "char \<Rightarrow> string \<Rightarrow> (string \<times> string) option" where
  "split_once c s = (if List.member s c
     then Some (takeWhile (\<lambda>x. x \<noteq> c) s, tl (dropWhile (\<lambda>x. x \<noteq> c) s)) else None)"

definition SchemaVersion_from_str :: "string \<Rightarrow> (SchemaVersionError, SchemaVersion) result" where
  "SchemaVersion_from_str value =
     (case strip_prefix ''ecp.v'' value of
        None \<Rightarrow> Inl (InvalidFormat value)
      | Some version \<Rightarrow>
     (case split_once (CHR ''.'') version of
        None \<Rightarrow> Inl (InvalidFormat value)
      | Some (major, minor) \<Rightarrow>
          if major = [] \<or> minor = [] \<or> List.member minor (CHR ''.'') then Inl (InvalidFormat value)
          else (case parse_u16 major of
              None \<Rightarrow> Inl (InvalidFormat value)
            | Some major \<Rightarrow>
          (case parse_u16 minor of
              None \<Rightarrow> Inl (InvalidFormat value)
            | Some minor \<Rightarrow> Inr (SchemaVersion major minor)))))"

section \<open>Message types\<close>

datatype ExecutionClientMessageType = SessionHello | SessionAccepted | SessionRejected
  | TimeSyncRequest | TimeSyncResponse | Heartbeat | TransportAck | MarketTick | MarketBar
  | SymbolMetadata | AccountSnapshot | PositionSnapshot | OrderSnapshot | ExecutionCommand
  | CommandReceived | ExecutionEvent | ReconciliationRequest | ReconciliationResult | ProtocolError

primrec message_type_as_str :: "ExecutionClientMessageType \<Rightarrow> string" where
  "message_type_as_str SessionHello = ''session.hello''"
| "message_type_as_str SessionAccepted = ''session.accepted''"
| "message_type_as_str SessionRejected = ''session.rejected''"
| "message_type_as_str TimeSyncRequest = ''time.sync.request''"
| "message_type_as_str TimeSyncResponse = ''time.sync.response''"
| "message_type_as_str Heartbeat = ''heartbeat''"
| "message_type_as_str TransportAck = ''transport.ack''"
| "message_type_as_str MarketTick = ''market.tick''"
| "message_type_as_str MarketBar = ''market.bar''"
| "message_type_as_str SymbolMetadata = ''symbol.metadata''"
| "message_type_as_str AccountSnapshot = ''account.snapshot''"
| "message_type_as_str PositionSnapshot = ''position.snapshot''"
| "message_type_as_str OrderSnapshot = ''order.snapshot''"
| "message_type_as_str ExecutionCommand = ''execution.command''"
| "message_type_as_str CommandReceived = ''command.received''"
| "message_type_as_str ExecutionEvent = ''execution.event''"
| "message_type_as_str ReconciliationRequest = ''reconciliation.request''"
| "message_type_as_str ReconciliationResult = ''reconciliation.result''"
| "message_type_as_str ProtocolError = ''protocol.error''"

definition message_type_arms :: "(string \<times> ExecutionClientMessageType) list" where
  "message_type_arms = [(''session.hello'', SessionHello), (''session.accepted'', SessionAccepted),
     (''session.rejected'', SessionRejected), (''time.sync.request'', TimeSyncRequest),
     (''time.sync.response'', TimeSyncResponse), (''heartbeat'', Heartbeat),
     (''transport.ack'', TransportAck), (''market.tick'', MarketTick), (''market.bar'', MarketBar),
     (''symbol.metadata'', SymbolMetadata), (''account.snapshot'', AccountSnapshot),
     (''position.snapshot'', PositionSnapshot), (''order.snapshot'', OrderSnapshot),
     (''execution.command'', ExecutionCommand), (''command.received'', CommandReceived),
     (''execution.event'', ExecutionEvent), (''reconciliation.request'', ReconciliationRequest),
     (''reconciliation.result'', ReconciliationResult), (''protocol.error'', ProtocolError)]"

datatype UnknownMessageType = UnknownMessageType string

definition message_type_from_str :: "string \<Rightarrow> (UnknownMessageType, ExecutionClientMessageType) result" where
  "message_type_from_str value = (case map_of message_type_arms value of
     Some message_type \<Rightarrow> Inr message_type | None \<Rightarrow> Inl (UnknownMessageType value))"

section \<open>Envelope\<close>

record 'p WireMessage =
  wm_message_id :: MessageId
  wm_message_type :: ExecutionClientMessageType
  wm_schema_version :: string
  wm_client_id :: "ClientId option"
  wm_session_id :: "SessionId option"
  wm_correlation_id :: "CorrelationId option"
  wm_causation_id :: "CausationId option"
  wm_sent_at :: "i64 option"
  wm_sequence :: "u64 option"
  wm_payload :: 'p

datatype EnvelopeValidationError = MissingRequiredField string | EmptyOptionalField string
  | InvalidSequence | Schema SchemaVersionError

definition requires_session_and_sequence :: "ExecutionClientMessageType \<Rightarrow> bool" where
  "requires_session_and_sequence t \<longleftrightarrow> \<not> (t = SessionHello \<or> t = SessionRejected)"

definition requires_sent_at :: "ExecutionClientMessageType \<Rightarrow> bool" where
  "requires_sent_at t \<longleftrightarrow> \<not> (t = SessionHello \<or> t = TimeSyncRequest)"

definition validate_optional_identifier ::
  "string \<Rightarrow> string option \<Rightarrow> (EnvelopeValidationError, unit) result" where
  "validate_optional_identifier field value =
     (if (case value of None \<Rightarrow> False | Some v \<Rightarrow> trim_is_empty v)
      then Inl (EmptyOptionalField field) else Inr ())"

definition WireMessage_validate ::
  "'p WireMessage \<Rightarrow> SchemaVersion \<Rightarrow> (EnvelopeValidationError, SchemaCompatibility) result" where
  "WireMessage_validate m supported =
     (if trim_is_empty (wm_message_id m) then Inl (MissingRequiredField ''message_id'')
      else bindR (validate_optional_identifier ''client_id'' (wm_client_id m)) (\<lambda>_.
      bindR (validate_optional_identifier ''session_id'' (wm_session_id m)) (\<lambda>_.
      bindR (validate_optional_identifier ''correlation_id'' (wm_correlation_id m)) (\<lambda>_.
      bindR (validate_optional_identifier ''causation_id'' (wm_causation_id m)) (\<lambda>_.
      if requires_session_and_sequence (wm_message_type m) \<and> wm_session_id m = None
        then Inl (MissingRequiredField ''session_id'')
      else if requires_session_and_sequence (wm_message_type m) \<and> wm_sequence m = None
        then Inl (MissingRequiredField ''sequence'')
      else if requires_sent_at (wm_message_type m) \<and> wm_sent_at m = None
        then Inl (MissingRequiredField ''sent_at'')
      else if wm_sequence m = Some 0 then Inl InvalidSequence
      else bindR (map_err Schema (SchemaVersion_from_str (wm_schema_version m))) (\<lambda>received.
        map_err Schema (compatibility_with received supported)))))))"

datatype WireDecodeError = Decode | UnknownType UnknownMessageType
  | InvalidEnvelope EnvelopeValidationError

text \<open>\<open>probe\<close> reads the \<open>type\<close> field only; \<open>from_slice\<close> reads the whole message.\<close>

definition decode_wire_message ::
  "('b \<Rightarrow> string option) \<Rightarrow> ('b \<Rightarrow> 'p WireMessage option) \<Rightarrow> 'b \<Rightarrow> SchemaVersion \<Rightarrow>
   (WireDecodeError, 'p WireMessage) result" where
  "decode_wire_message probe from_slice bytes supported =
     (case probe bytes of
        None \<Rightarrow> Inl Decode
      | Some message_type \<Rightarrow>
          bindR (map_err UnknownType (message_type_from_str message_type)) (\<lambda>_.
          case from_slice bytes of
            None \<Rightarrow> Inl Decode
          | Some message \<Rightarrow>
              bindR (map_err InvalidEnvelope (WireMessage_validate message supported)) (\<lambda>_.
              Inr message)))"

section \<open>Acknowledgements\<close>

datatype TransportAckStatus = Accepted | Duplicate | Rejected

record TransportAck =
  ack_acked_message_id :: MessageId
  ack_acked_message_type :: ExecutionClientMessageType
  ack_status :: TransportAckStatus
  ack_reason :: "ProtocolReason option"
  ack_received_at :: i64

datatype PayloadValidationError = MissingRequiredField string

definition TransportAck_validate :: "TransportAck \<Rightarrow> (PayloadValidationError, unit) result" where
  "TransportAck_validate ack =
     (if trim_is_empty (ack_acked_message_id ack)
        then Inl (PayloadValidationError.MissingRequiredField ''acked_message_id'')
      else if ack_status ack = TransportAckStatus.Rejected \<and> ack_reason ack = None
        then Inl (PayloadValidationError.MissingRequiredField ''reason'')
      else Inr ())"

section \<open>Round trips\<close>

lemma digit_round_trip: "d < 10 \<Longrightarrow> char_digit (digit_char d) = Some d"
  by (simp add: char_digit_def digit_char_def)

lemma parse_digits_append:
  "parse_digits acc (xs @ ys) = Option.bind (parse_digits acc xs) (\<lambda>a. parse_digits a ys)"
  by (induction xs arbitrary: acc) (auto split: option.split)

lemma parse_show: "n \<le> u16_max \<Longrightarrow> parse_digits 0 (show_decimal n) = Some n"
proof (induction n rule: show_decimal.induct)
  case (1 n)
  show ?case
  proof (cases "n < 10")
    case True
    then show ?thesis using 1 by (simp add: show_decimal.simps digit_round_trip)
  next
    case False
    moreover have "n div 10 \<le> u16_max" using 1(2) by (meson div_le_dividend le_trans)
    ultimately show ?thesis
      using 1 by (simp add: show_decimal.simps [of n] parse_digits_append digit_round_trip)
  qed
qed

lemma show_decimal_digits: "c \<in> set (show_decimal n) \<Longrightarrow> \<exists>d < 10. c = digit_char d"
proof (induction n rule: show_decimal.induct)
  case (1 n)
  show ?case
  proof (cases "n < 10")
    case True
    then show ?thesis using "1.prems" by (auto simp: show_decimal.simps [of n])
  next
    case False
    then have "c \<in> set (show_decimal (n div 10)) \<or> c = digit_char (n mod 10)"
      using "1.prems" by (auto simp: show_decimal.simps [of n])
    moreover have "n mod 10 < 10" by simp
    ultimately show ?thesis using "1.IH" [OF False] by blast
  qed
qed

lemma show_decimal_not_Nil [simp]: "show_decimal n \<noteq> []"
  by (simp add: show_decimal.simps)

lemma digit_char_plain: "d < 10 \<Longrightarrow> digit_char d \<noteq> CHR ''.''" "d < 10 \<Longrightarrow> digit_char d \<noteq> CHR ''+''"
proof -
  have "char_digit (CHR ''.'') = None" "char_digit (CHR ''+'') = None" by code_simp+
  then show "d < 10 \<Longrightarrow> digit_char d \<noteq> CHR ''.''" "d < 10 \<Longrightarrow> digit_char d \<noteq> CHR ''+''"
    using digit_round_trip [of d] by auto
qed

lemma show_decimal_plain: "CHR ''.'' \<notin> set (show_decimal n)" "CHR ''+'' \<notin> set (show_decimal n)"
  using show_decimal_digits [of "CHR ''.''" n] show_decimal_digits [of "CHR ''+''" n] digit_char_plain
  by metis+

lemma parse_u16_show: "n \<le> u16_max \<Longrightarrow> parse_u16 (show_decimal n) = Some n"
  using show_decimal_plain(2) [of n]
  by (cases "show_decimal n") (auto simp: parse_u16_def parse_show simp flip: parse_show)

lemma split_once_first:
  assumes "c \<notin> set xs" shows "split_once c (xs @ c # ys) = Some (xs, ys)"
  using assms by (simp add: split_once_def takeWhile_append dropWhile_append)

lemma strip_prefix_append: "strip_prefix pre (pre @ s) = Some s"
  by (simp add: strip_prefix_def)

lemma parse_print_version:
  assumes "sv_major v \<le> u16_max" and "sv_minor v \<le> u16_max"
  shows "SchemaVersion_from_str (SchemaVersion_to_string v) = Inr v"
proof -
  have "strip_prefix ''ecp.v'' (SchemaVersion_to_string v) =
      Some (show_decimal (sv_major v) @ CHR ''.'' # show_decimal (sv_minor v))"
    using strip_prefix_append [of "''ecp.v''"] by (simp add: SchemaVersion_to_string_def)
  moreover note split_once_first [OF show_decimal_plain(1)]
  ultimately show ?thesis
    using assms show_decimal_plain(1) [of "sv_minor v"]
    by (simp add: SchemaVersion_from_str_def parse_u16_show)
qed

section \<open>Properties\<close>

text \<open>Printing and parsing a schema version are inverse. Every version with components in the
  range of \<open>u16\<close> is parsed back from its text \<open>ecp.v<major>.<minor>\<close>.\<close>

theorem schema_version_round_trip:
  assumes "sv_major v \<le> u16_max" and "sv_minor v \<le> u16_max"
  shows "SchemaVersion_from_str (SchemaVersion_to_string v) = Inr v"
  using assms by (rule parse_print_version)

theorem schema_version_round_trip_witness:
  "SchemaVersion_from_str (SchemaVersion_to_string (SchemaVersion 1 27)) = Inr (SchemaVersion 1 27)"
  by (rule schema_version_round_trip) (simp_all add: u16_max_def)

lemma message_type_arms_as_str: "map_of message_type_arms (message_type_as_str t) = Some t"
  by (cases t) (simp_all add: message_type_arms_def)

lemma message_type_arms_sound: "map_of message_type_arms s = Some t \<Longrightarrow> message_type_as_str t = s"
  by (auto simp: message_type_arms_def split: if_splits)

text \<open>The two tables of message types agree: a text parses to a type exactly when it is that
  type's wire name, and every other text is reported as unknown.\<close>

theorem message_type_from_str_iff:
  "(message_type_from_str s = Inr t \<longleftrightarrow> message_type_as_str t = s)
   \<and> (s \<notin> range message_type_as_str \<longleftrightarrow> message_type_from_str s = Inl (UnknownMessageType s))"
proof
  show iff: "message_type_from_str s = Inr t \<longleftrightarrow> message_type_as_str t = s" for t
    using message_type_arms_as_str [of t] message_type_arms_sound [of s t]
    by (auto simp: message_type_from_str_def split: option.splits)
  have "message_type_from_str s = Inl (UnknownMessageType s) \<longleftrightarrow> (\<forall>t. message_type_from_str s \<noteq> Inr t)"
    by (auto simp: message_type_from_str_def split: option.split)
  then show "s \<notin> range message_type_as_str \<longleftrightarrow> message_type_from_str s = Inl (UnknownMessageType s)"
    unfolding iff by auto
qed

text \<open>What an accepted envelope guarantees. A message passes \<open>WireMessage::validate\<close> exactly when
  its id and every identifier present is not blank, a session and a sequence accompany every type
  but \<open>session.hello\<close> and \<open>session.rejected\<close>, a send time accompanies every type but \<open>session.hello\<close>
  and \<open>time.sync.request\<close>, the sequence is not zero, and the schema version parses with the
  supported major version; the result is the comparison of the minor versions.\<close>

theorem envelope_accepted_iff:
  "WireMessage_validate m supported = Inr c \<longleftrightarrow>
     \<not> trim_is_empty (wm_message_id m)
   \<and> (\<forall>v. Some v \<in> {wm_client_id m, wm_session_id m, wm_correlation_id m, wm_causation_id m} \<longrightarrow>
        \<not> trim_is_empty v)
   \<and> (wm_message_type m \<notin> {SessionHello, SessionRejected} \<longrightarrow>
        wm_session_id m \<noteq> None \<and> wm_sequence m \<noteq> None)
   \<and> (wm_message_type m \<notin> {SessionHello, TimeSyncRequest} \<longrightarrow> wm_sent_at m \<noteq> None)
   \<and> wm_sequence m \<noteq> Some 0
   \<and> (\<exists>v. SchemaVersion_from_str (wm_schema_version m) = Inr v \<and> sv_major v = sv_major supported
        \<and> c = (if sv_minor v < sv_minor supported then OlderMinor
            else if sv_minor v = sv_minor supported then Exact else HigherMinor))"
proof -
  have opt: "validate_optional_identifier f x = Inr () \<longleftrightarrow> (\<forall>v. x = Some v \<longrightarrow> \<not> trim_is_empty v)" for f x
    by (simp add: validate_optional_identifier_def split: option.split)
  have compat: "compatibility_with v supported = Inr c \<longleftrightarrow> sv_major v = sv_major supported
      \<and> c = (if sv_minor v < sv_minor supported then OlderMinor
          else if sv_minor v = sv_minor supported then Exact else HigherMinor)" for v
    by (auto simp: compatibility_with_def)
  have all: "(\<forall>v. Some v \<in> {a, b, c, d} \<longrightarrow> P v) \<longleftrightarrow> (\<forall>v. a = Some v \<longrightarrow> P v)
      \<and> (\<forall>v. b = Some v \<longrightarrow> P v) \<and> (\<forall>v. c = Some v \<longrightarrow> P v) \<and> (\<forall>v. d = Some v \<longrightarrow> P v)"
    for a b c d and P :: "string \<Rightarrow> bool"
    by auto
  show ?thesis
    unfolding all
    by (simp add: WireMessage_validate_def unit_result_simps bindR_eq_Inr opt compat
        requires_session_and_sequence_def requires_sent_at_def) blast
qed

definition sample_message :: "unit WireMessage" where
  "sample_message = \<lparr>wm_message_id = ''m'', wm_message_type = Heartbeat,
     wm_schema_version = SchemaVersion_to_string SUPPORTED_SCHEMA_VERSION, wm_client_id = None,
     wm_session_id = Some ''s'', wm_correlation_id = None, wm_causation_id = None, wm_sent_at = Some 5,
     wm_sequence = Some 1, wm_payload = ()\<rparr>"

theorem envelope_accepted_iff_witness:
  "WireMessage_validate sample_message SUPPORTED_SCHEMA_VERSION = Inr Exact"
proof -
  have "\<not> trim_is_empty ''m''" "\<not> trim_is_empty ''s''" by code_simp+
  moreover have "SchemaVersion_from_str (SchemaVersion_to_string SUPPORTED_SCHEMA_VERSION) =
      Inr SUPPORTED_SCHEMA_VERSION"
    by (rule parse_print_version) (simp_all add: SUPPORTED_SCHEMA_VERSION_def u16_max_def)
  ultimately show ?thesis
    unfolding envelope_accepted_iff by (simp add: sample_message_def)
qed

end
