(* ===== verification/Signing.thy ===== *)
theory Signing
  imports Wire Risk_Result
begin

text \<open>
  The signature of execution commands (\<open>crates/protocol/src/signing.rs\<close>): the checks before signing,
  the canonical signing string of 25 percent-encoded fields, signing and verification. HMAC-SHA-256
  and the \<open>hex\<close> crate are parameters (\<open>signing_crypto\<close>), and so is the text of a floating-point
  \<open>serde_json\<close> number, which no field of a command reaches.
\<close>

section \<open>Errors\<close>

datatype SigningError = CommandMustSerializeAsObject | MissingRequiredField string
  | InvalidFieldType string | NonFiniteNumber string
  | MissingActionField ExecutionAction string | MissingCommandTarget ExecutionAction
  | MissingModification | LotsNotAlignedToVolumeStep f64 f64 | ScaledIntegerOverflow string
  | DecimalPrecisionExceeded string u32 | FixedDecimalChangesValue string | NonFiniteValue
  | PrecisionTooLarge u32 | InvalidVolumeStep | InvalidSecret | MissingHmac | InvalidHmacEncoding
  | HmacMismatch

type_synonym 'a sresult = "(SigningError, 'a) result"

section \<open>Doubles\<close>

definition f64_abs :: "f64 \<Rightarrow> f64" where
  "f64_abs x = f64_pack False (f64_magnitude x)"

definition f64_sub :: "f64 \<Rightarrow> f64 \<Rightarrow> f64" where
  "f64_sub x y = f64_add x (f64_pack (\<not> f64_is_sign_negative y) (f64_magnitude y))"

definition f64_max :: "f64 \<Rightarrow> f64 \<Rightarrow> f64" where
  "f64_max x y = (if f64_is_nan x then y else if f64_is_nan y then x else if f64_lt x y then y else x)"

text \<open>\<open>f64::round\<close>: to the nearest integer, halves away from zero. \<open>as i64\<close> truncates and saturates.\<close>

definition f64_round :: "f64 \<Rightarrow> f64" where
  "f64_round x = (if f64_is_finite x
     then f64_pack (f64_is_sign_negative x) (mag_round (of_int \<lfloor>mag_value (f64_magnitude x) + 1 / 2\<rfloor>)) else x)"

definition f64_as_i64 :: "f64 \<Rightarrow> i64" where
  "f64_as_i64 x = (if f64_is_nan x then 0 else
     let n = \<lfloor>mag_value (f64_magnitude x)\<rfloor> in
     max i64_min (min i64_max (if f64_is_sign_negative x then - n else n)))"

definition F64_EPSILON :: f64 where "F64_EPSILON = 4372995238176751616"
definition f64_eight :: f64 where "f64_eight = 4620693217682128896"
definition MAX_SAFE_SCALED_INTEGER :: f64 where "MAX_SAFE_SCALED_INTEGER = 4845873199050653695"

section \<open>Fixed decimals\<close>

definition MAX_DECIMAL_DIGITS :: u32 where "MAX_DECIMAL_DIGITS = 18"

definition validate_precision :: "u32 \<Rightarrow> unit sresult" where
  "validate_precision digits = (if MAX_DECIMAL_DIGITS < digits then Inl (PrecisionTooLarge digits) else Inr ())"

definition decimal_scale :: "u32 \<Rightarrow> i64 sresult" where
  "decimal_scale digits = bindR (validate_precision digits) (\<lambda>_.
     if 10 ^ digits \<le> i64_max then Inr (10 ^ digits) else Inl (PrecisionTooLarge digits))"

definition scaled_integer :: "f64 \<Rightarrow> u32 \<Rightarrow> string \<Rightarrow> i64 sresult" where
  "scaled_integer value digits field =
     (if \<not> f64_is_finite value then Inl (NonFiniteNumber field)
      else bindR (decimal_scale digits) (\<lambda>scale.
      let scaled = f64_mul value (f64_of_rat (of_int scale)) in
      if \<not> f64_is_finite scaled \<or> f64_lt MAX_SAFE_SCALED_INTEGER (f64_abs scaled)
        then Inl (ScaledIntegerOverflow field)
      else let nearest = f64_round scaled;
          tolerance = f64_mul (f64_mul F64_EPSILON (f64_max (f64_abs scaled) f64_one)) f64_eight in
      if f64_lt tolerance (f64_abs (f64_sub scaled nearest))
        then Inl (DecimalPrecisionExceeded field digits)
      else Inr (f64_as_i64 nearest)))"

primrec step_units :: "f64 \<Rightarrow> u32 list \<Rightarrow> (u32 \<times> i64) sresult" where
  "step_units step [] = Inl InvalidVolumeStep"
| "step_units step (digits # rest) = (case scaled_integer step digits ''volume_step'' of
     Inr units \<Rightarrow> if units > 0 then Inr (digits, units) else Inl InvalidVolumeStep
   | Inl error \<Rightarrow> (case error of DecimalPrecisionExceeded _ _ \<Rightarrow> step_units step rest | _ \<Rightarrow> Inl error))"

definition volume_step_units :: "f64 \<Rightarrow> (u32 \<times> i64) sresult" where
  "volume_step_units step =
     (if \<not> f64_is_finite step \<or> f64_le step f64_zero then Inl InvalidVolumeStep
      else step_units step [0..<MAX_DECIMAL_DIGITS + 1])"

text \<open>\<open>{value:.digits$}\<close>: the exact value rounded to \<open>digits\<close> places, ties to the even digit.\<close>

definition round_half_even :: "rat \<Rightarrow> nat" where
  "round_half_even q = (let n = nat \<lfloor>q\<rfloor>; rest = q - of_nat n in
     if rest < 1 / 2 then n else if 1 / 2 < rest then n + 1 else if even n then n else n + 1)"

definition show_padded :: "nat \<Rightarrow> nat \<Rightarrow> string" where
  "show_padded digits n = map (\<lambda>i. digit_char (n div 10 ^ (digits - 1 - i) mod 10)) [0..<digits]"

definition format_fixed_decimal :: "f64 \<Rightarrow> u32 \<Rightarrow> string sresult" where
  "format_fixed_decimal value digits =
     (if \<not> f64_is_finite value then Inl NonFiniteValue
      else bindR (validate_precision digits) (\<lambda>_.
      let n = round_half_even (mag_value (f64_magnitude value) * 10 ^ digits) in
      Inr ((if f64_is_sign_negative value then ''-'' else []) @ show_decimal (n div 10 ^ digits) @
        (if digits = 0 then [] else ''.'' @ show_padded digits (n mod 10 ^ digits)))))"

text \<open>\<open>str::parse::<f64>\<close> on an optional sign, digits, and an optional fraction: correctly rounded.\<close>

definition parse_nat :: "string \<Rightarrow> nat option" where
  "parse_nat s = (if s = [] then None
     else fold (\<lambda>c acc. case (acc, char_digit c) of (Some n, Some d) \<Rightarrow> Some (n * 10 + d) | _ \<Rightarrow> None) s (Some 0))"

definition parse_f64 :: "string \<Rightarrow> f64 option" where
  "parse_f64 s =
     (let negative = (case s of c # _ \<Rightarrow> c = CHR ''-'' | [] \<Rightarrow> False); body = (if negative then tl s else s) in
     case split_once (CHR ''.'') body of
       None \<Rightarrow> (case parse_nat body of None \<Rightarrow> None
         | Some n \<Rightarrow> Some (f64_pack negative (mag_round (of_nat n))))
     | Some (whole, fraction) \<Rightarrow> (case (parse_nat whole, parse_nat fraction) of
         (Some w, Some f) \<Rightarrow> Some (f64_pack negative
           (mag_round (of_nat (w * 10 ^ length fraction + f) / 10 ^ length fraction)))
       | _ \<Rightarrow> None))"

definition validate_fixed_decimal_round_trip :: "f64 \<Rightarrow> u32 \<Rightarrow> string \<Rightarrow> unit sresult" where
  "validate_fixed_decimal_round_trip value digits field =
     bindR (scaled_integer value digits field) (\<lambda>_.
     bindR (format_fixed_decimal value digits) (\<lambda>formatted.
     case parse_f64 formatted of
       None \<Rightarrow> Inl (FixedDecimalChangesValue field)
     | Some round_trip \<Rightarrow> if round_trip \<noteq> value then Inl (FixedDecimalChangesValue field) else Inr ()))"

section \<open>Signing formats\<close>

record VolumeStepConstraint =
  vsc_value :: f64
  vsc_units :: i64

record CommandSigningFormat =
  csf_price_digits :: u32
  csf_volume_digits :: u32
  csf_volume_step :: "VolumeStepConstraint option"

definition CommandSigningFormat_new :: "u32 \<Rightarrow> u32 \<Rightarrow> CommandSigningFormat" where
  "CommandSigningFormat_new price_digits volume_digits =
     \<lparr>csf_price_digits = price_digits, csf_volume_digits = volume_digits, csf_volume_step = None\<rparr>"

definition from_symbol_metadata :: "SymbolMetadataSnapshot \<Rightarrow> CommandSigningFormat sresult" where
  "from_symbol_metadata metadata =
     bindR (validate_precision (sm_digits metadata)) (\<lambda>_.
     bindR (volume_step_units (sm_volume_step metadata)) (\<lambda>(volume_digits, units).
     Inr \<lparr>csf_price_digits = sm_digits metadata, csf_volume_digits = volume_digits,
       csf_volume_step = Some \<lparr>vsc_value = sm_volume_step metadata, vsc_units = units\<rparr>\<rparr>))"

section \<open>Checks before signing\<close>

definition validate_finite_numbers :: "ExecutionCommand \<Rightarrow> unit sresult" where
  "validate_finite_numbers command = check_each (\<lambda>(field, value).
     case value of None \<Rightarrow> Inr () | Some x \<Rightarrow> if \<not> f64_is_finite x then Inl (NonFiniteNumber field) else Inr ())
     [(''lots'', ec_lots command), (''price'', ec_price command), (''sl'', ec_sl command), (''tp'', ec_tp command)]"

definition require_action_field :: "ExecutionAction \<Rightarrow> string \<Rightarrow> bool \<Rightarrow> unit sresult" where
  "require_action_field action field present =
     (if \<not> present then Inl (MissingActionField action field) else Inr ())"

definition validate_action_specific_fields :: "ExecutionCommand \<Rightarrow> unit sresult" where
  "validate_action_specific_fields command = (let action = ec_action command in
     if action = ExecutionAction.Buy \<or> action = ExecutionAction.Sell then
       bindR (require_action_field action ''lots'' (ec_lots command \<noteq> None)) (\<lambda>_.
       bindR (require_action_field action ''order_type'' (ec_order_type command \<noteq> None)) (\<lambda>_.
       if ec_order_type command \<in> {Some OrderType.Limit, Some OrderType.Stop, Some OrderType.StopLimit}
         then require_action_field action ''price'' (ec_price command \<noteq> None) else Inr ()))
     else if action = ExecutionAction.Modify then
       if ec_broker_order_id command = None \<and> ec_position_ticket command = None
         then Inl (MissingCommandTarget action)
       else if ec_sl command = None \<and> ec_tp command = None \<and> ec_price command = None
           \<and> ec_expiration_time command = None
         then Inl MissingModification
       else Inr ()
     else if action = ExecutionAction.Cancel then
       require_action_field action ''broker_order_id'' (ec_broker_order_id command \<noteq> None)
     else Inr ())"

text \<open>\<open>rem_euclid\<close> by the positive units of a step.\<close>

definition validate_lots_alignment :: "f64 option \<Rightarrow> CommandSigningFormat \<Rightarrow> unit sresult" where
  "validate_lots_alignment lots format = (case (lots, csf_volume_step format) of
     (Some lots, Some volume_step) \<Rightarrow>
       bindR (scaled_integer lots (csf_volume_digits format) ''lots'') (\<lambda>lots_units.
       if lots_units mod vsc_units volume_step \<noteq> 0
         then Inl (LotsNotAlignedToVolumeStep lots (vsc_value volume_step)) else Inr ())
   | _ \<Rightarrow> Inr ())"

definition validate_fixed_decimal_fields :: "ExecutionCommand \<Rightarrow> CommandSigningFormat \<Rightarrow> unit sresult" where
  "validate_fixed_decimal_fields command format =
     bindR (case ec_lots command of None \<Rightarrow> Inr ()
       | Some lots \<Rightarrow> validate_fixed_decimal_round_trip lots (csf_volume_digits format) ''lots'') (\<lambda>_.
     check_each (\<lambda>(field, value). case value of None \<Rightarrow> Inr ()
       | Some x \<Rightarrow> validate_fixed_decimal_round_trip x (csf_price_digits format) field)
       [(''price'', ec_price command), (''sl'', ec_sl command), (''tp'', ec_tp command)])"

definition validate_execution_command :: "ExecutionCommand \<Rightarrow> CommandSigningFormat \<Rightarrow> unit sresult" where
  "validate_execution_command command format =
     bindR (validate_precision (csf_price_digits format)) (\<lambda>_.
     bindR (validate_precision (csf_volume_digits format)) (\<lambda>_.
     bindR (validate_finite_numbers command) (\<lambda>_.
     bindR (validate_action_specific_fields command) (\<lambda>_.
     bindR (validate_lots_alignment (ec_lots command) format) (\<lambda>_.
     validate_fixed_decimal_fields command format)))))"

section \<open>The signing string\<close>

text \<open>
  \<open>serde_json::to_value\<close> of a command: the fields of the struct, the absent optional ones skipped.
\<close>

datatype json_value = JNull | JString string | JInt int | JFloat f64 | JOther

definition optional_entry :: "string \<Rightarrow> ('a \<Rightarrow> json_value) \<Rightarrow> 'a option \<Rightarrow> (string \<times> json_value) list" where
  "optional_entry field encode value = (case value of None \<Rightarrow> [] | Some v \<Rightarrow> [(field, encode v)])"

definition command_object :: "ExecutionCommand \<Rightarrow> (string \<times> json_value) list" where
  "command_object c =
     [(''command_id'', JString (ec_command_id c))] @
     optional_entry ''plan_id'' JString (ec_plan_id c) @ optional_entry ''leg_id'' JString (ec_leg_id c) @
     [(''strategy_id'', JString (ec_strategy_id c)), (''account_id'', JString (ec_account_id c))] @
     optional_entry ''terminal_id'' JString (ec_terminal_id c) @
     optional_entry ''client_id'' JString (ec_client_id c) @
     [(''symbol'', JString (ec_symbol c))] @
     optional_entry ''broker_symbol'' JString (ec_broker_symbol c) @
     [(''action'', JString (enum_as_str ExecutionAction_table (ec_action c)))] @
     optional_entry ''order_type'' (\<lambda>v. JString (enum_as_str OrderType_table v)) (ec_order_type c) @
     optional_entry ''lots'' JFloat (ec_lots c) @ optional_entry ''price'' JFloat (ec_price c) @
     optional_entry ''sl'' JFloat (ec_sl c) @ optional_entry ''tp'' JFloat (ec_tp c) @
     optional_entry ''deviation_points'' JInt (ec_deviation_points c) @
     [(''magic'', JInt (ec_magic c))] @
     optional_entry ''comment'' JString (ec_comment c) @
     optional_entry ''position_ticket'' JString (ec_position_ticket c) @
     optional_entry ''broker_order_id'' JString (ec_broker_order_id c) @
     optional_entry ''filling_policy'' (\<lambda>v. JString (enum_as_str FillingPolicy_table v)) (ec_filling_policy c) @
     optional_entry ''time_policy'' (\<lambda>v. JString (enum_as_str TimePolicy_table v)) (ec_time_policy c) @
     optional_entry ''expiration_time'' JInt (ec_expiration_time c) @
     [(''expires_at'', JInt (ec_expires_at c)), (''idempotency_key'', JString (ec_idempotency_key c)),
      (''hmac'', JString (ec_hmac c))]"

definition SIGNING_FIELDS :: "string list" where
  "SIGNING_FIELDS = [''command_id'', ''plan_id'', ''leg_id'', ''strategy_id'', ''account_id'', ''terminal_id'',
     ''client_id'', ''symbol'', ''broker_symbol'', ''action'', ''order_type'', ''lots'', ''price'', ''sl'', ''tp'',
     ''deviation_points'', ''magic'', ''comment'', ''position_ticket'', ''broker_order_id'', ''filling_policy'',
     ''time_policy'', ''expiration_time'', ''expires_at'', ''idempotency_key'']"

definition is_optional_field :: "string \<Rightarrow> bool" where
  "is_optional_field field = List.member [''plan_id'', ''leg_id'', ''terminal_id'', ''client_id'', ''broker_symbol'',
     ''order_type'', ''lots'', ''price'', ''sl'', ''tp'', ''deviation_points'', ''comment'', ''position_ticket'',
     ''broker_order_id'', ''filling_policy'', ''time_policy'', ''expiration_time''] field"

definition show_int :: "int \<Rightarrow> string" where
  "show_int i = (if i < 0 then ''-'' @ show_decimal (nat (- i)) else show_decimal (nat i))"

definition signing_field_value ::
  "(f64 \<Rightarrow> string) \<Rightarrow> (string \<times> json_value) list \<Rightarrow> string \<Rightarrow> CommandSigningFormat \<Rightarrow> string sresult" where
  "signing_field_value float_text object field format =
     (let absent = (if is_optional_field field then Inr [] else Inl (MissingRequiredField field));
          number = (\<lambda>text x.
            if field = ''lots'' then format_fixed_decimal x (csf_volume_digits format)
            else if field = ''price'' \<or> field = ''sl'' \<or> field = ''tp''
              then format_fixed_decimal x (csf_price_digits format)
            else Inr text) in
     case map_of object field of
       None \<Rightarrow> absent
     | Some JNull \<Rightarrow> absent
     | Some (JString text) \<Rightarrow> Inr text
     | Some (JInt i) \<Rightarrow> number (show_int i) (f64_of_rat (of_int i))
     | Some (JFloat x) \<Rightarrow> number (float_text x) x
     | Some JOther \<Rightarrow> Inl (InvalidFieldType field))"

definition unreserved :: "char \<Rightarrow> bool" where
  "unreserved c \<longleftrightarrow> (let b = (of_char c :: nat) in
     48 \<le> b \<and> b \<le> 57 \<or> 65 \<le> b \<and> b \<le> 90 \<or> 97 \<le> b \<and> b \<le> 122 \<or> b = 45 \<or> b = 46 \<or> b = 95 \<or> b = 126)"

definition HEX :: string where "HEX = ''0123456789ABCDEF''"

definition encode_byte :: "char \<Rightarrow> string" where
  "encode_byte c = (if unreserved c then [c]
     else let b = (of_char c :: nat) in [CHR ''%'', HEX ! (b div 16), HEX ! (b mod 16)])"

definition rfc3986_encode :: "string \<Rightarrow> string" where
  "rfc3986_encode text = concat (map encode_byte text)"

primrec join :: "string \<Rightarrow> string list \<Rightarrow> string" where
  "join sep [] = []"
| "join sep (x # xs) = (if xs = [] then x else x @ sep @ join sep xs)"

primrec signing_parts ::
  "(f64 \<Rightarrow> string) \<Rightarrow> (string \<times> json_value) list \<Rightarrow> CommandSigningFormat \<Rightarrow> string list \<Rightarrow> string list sresult" where
  "signing_parts float_text object format [] = Inr []"
| "signing_parts float_text object format (field # rest) =
     bindR (signing_field_value float_text object field format) (\<lambda>text.
     bindR (signing_parts float_text object format rest) (\<lambda>parts.
     Inr ((field @ ''='' @ rfc3986_encode text) # parts)))"

definition build_execution_command_signing_string ::
  "(f64 \<Rightarrow> string) \<Rightarrow> ExecutionCommand \<Rightarrow> CommandSigningFormat \<Rightarrow> string sresult" where
  "build_execution_command_signing_string float_text command format =
     bindR (validate_execution_command command format) (\<lambda>_.
     bindR (signing_parts float_text (command_object command) format SIGNING_FIELDS) (\<lambda>parts.
     Inr (join ''&'' parts)))"

section \<open>Signing and verification\<close>

record signing_crypto =
  sc_float_text :: "f64 \<Rightarrow> string"
  sc_accepts_key :: "nat list \<Rightarrow> bool"
  sc_hmac_sha256 :: "nat list \<Rightarrow> nat list \<Rightarrow> nat list"
  sc_hex_encode :: "nat list \<Rightarrow> string"
  sc_hex_decode :: "string \<Rightarrow> nat list option"

definition sign_execution_command ::
  "signing_crypto \<Rightarrow> ExecutionCommand \<Rightarrow> nat list \<Rightarrow> CommandSigningFormat \<Rightarrow> string sresult" where
  "sign_execution_command C command secret format =
     bindR (build_execution_command_signing_string (sc_float_text C) command format) (\<lambda>signing_string.
     if \<not> sc_accepts_key C secret then Inl InvalidSecret
     else Inr (sc_hex_encode C (sc_hmac_sha256 C secret (map of_char signing_string))))"

text \<open>\<open>verify_slice\<close> compares the whole digest with the given bytes.\<close>

definition verify_execution_command_hmac ::
  "signing_crypto \<Rightarrow> ExecutionCommand \<Rightarrow> nat list \<Rightarrow> CommandSigningFormat \<Rightarrow> unit sresult" where
  "verify_execution_command_hmac C command secret format =
     bindR (build_execution_command_signing_string (sc_float_text C) command format) (\<lambda>signing_string.
     if length (ec_hmac command) \<noteq> 64 \<or> \<not> list_all lower_hex (ec_hmac command) then Inl InvalidHmacEncoding
     else case sc_hex_decode C (ec_hmac command) of
       None \<Rightarrow> Inl InvalidHmacEncoding
     | Some expected \<Rightarrow>
         if \<not> sc_accepts_key C secret then Inl InvalidSecret
         else if sc_hmac_sha256 C secret (map of_char signing_string) \<noteq> expected then Inl HmacMismatch
         else Inr ())"

end
