(* ===== verification/Execution_State.thy ===== *)
theory Execution_State
  imports Dto
begin

text \<open>
  The command lifecycle of \<open>crates/execution/src/state.rs\<close>: the evidence a command accepts, the
  transition table, the validation of a stored state, and \<open>transition_command\<close>, which applies one
  piece of evidence. A lifecycle run is a sequence of accepted pieces of evidence from the initial
  state; the lemmas at the end are about every state such a run reaches.
\<close>

section \<open>Evidence, outcomes, errors\<close>

datatype CommandEvidence =
    Dispatched i64
  | DeliveryUnconfirmed i64 string
  | BeginReconciliation i64
  | RequireManualReconciliation i64
  | ReceivedRecorded CommandReceived
  | ReceivedDuplicateKnownSamePayload CommandReceived
  | ExecutionEvent ExecutionEvent
  | Expire i64
  | Cancel i64

datatype CommandTransitionOutcome =
    Applied (into_state: ExecutionCommandState)
  | Duplicate (into_state: ExecutionCommandState)

datatype CommandTransitionError =
    InvalidIdentity string
  | InvalidTimestamp string
  | InvalidEvidence string
  | InvalidTransition ExecutionCommandStatus ExecutionCommandStatus
  | VersionOverflow

section \<open>Validation\<close>

definition command_status_is_terminal :: "ExecutionCommandStatus \<Rightarrow> bool" where
  "command_status_is_terminal status \<longleftrightarrow>
     status \<in> {ExecutionCommandStatus.DeliveryFailed, ExecutionCommandStatus.Rejected,
       ExecutionCommandStatus.Filled, ExecutionCommandStatus.Failed,
       ExecutionCommandStatus.Expired, ExecutionCommandStatus.Cancelled}"

definition validate_command_identity ::
  "ExecutionCommand \<Rightarrow> (CommandTransitionError, unit) result" where
  "validate_command_identity command =
     bindR (check_each (\<lambda>(field, val). if trim_is_empty val then Inl (InvalidIdentity field) else Inr ())
       [(''command_id'', ec_command_id command),
        (''strategy_id'', ec_strategy_id command),
        (''account_id'', ec_account_id command),
        (''symbol'', ec_symbol command),
        (''idempotency_key'', ec_idempotency_key command),
        (''hmac'', ec_hmac command)])
     (\<lambda>_. if ec_leg_id command \<noteq> None \<and> ec_plan_id command = None
       then Inl (InvalidIdentity ''leg_id requires plan_id'') else Inr ())"

definition requires_dispatch :: "ExecutionCommandStatus \<Rightarrow> bool" where
  "requires_dispatch status \<longleftrightarrow>
     status \<in> {ExecutionCommandStatus.Dispatched, ExecutionCommandStatus.DeliveryUnconfirmed,
       ExecutionCommandStatus.Reconciling, ExecutionCommandStatus.ManualReconciliationRequired,
       ExecutionCommandStatus.CommandReceived, ExecutionCommandStatus.Accepted,
       ExecutionCommandStatus.Rejected, ExecutionCommandStatus.OrderSent,
       ExecutionCommandStatus.PartiallyFilled, ExecutionCommandStatus.Filled,
       ExecutionCommandStatus.Failed}"

definition check_lifecycle_timestamp ::
  "ExecutionCommandState \<Rightarrow> i64 option \<Rightarrow> (CommandTransitionError, unit) result" where
  "check_lifecycle_timestamp state timestamp =
     (case timestamp of
        None \<Rightarrow> Inr ()
      | Some t \<Rightarrow>
          if t < cs_created_at state \<or> cs_updated_at state < t
          then Inl (InvalidTimestamp ''lifecycle timestamp is outside state version bounds'')
          else Inr ())"

definition validate_command_state ::
  "ExecutionCommand \<Rightarrow> ExecutionCommandState \<Rightarrow> (CommandTransitionError, unit) result" where
  "validate_command_state command state =
     bindR (validate_command_identity command) (\<lambda>_.
     if cs_command_id state \<noteq> ec_command_id command \<or> cs_account_id state \<noteq> ec_account_id command
        \<or> cs_plan_id state \<noteq> ec_plan_id command \<or> cs_leg_id state \<noteq> ec_leg_id command
     then Inl (InvalidIdentity ''state does not belong to command'')
     else if cs_created_at state < 0 \<or> cs_updated_at state < cs_created_at state
     then Inl (InvalidTimestamp ''created_at/updated_at are inconsistent'')
     else if ec_expires_at command \<le> cs_created_at state
     then Inl (InvalidTimestamp ''command expiry must follow state creation'')
     else if command_status_is_terminal (cs_status state) \<noteq> (cs_completed_at state \<noteq> None)
     then Inl (InvalidTimestamp ''completed_at must exactly match terminal status'')
     else bindR (check_each (check_lifecycle_timestamp state)
       [cs_dispatched_at state, cs_command_received_at state, cs_reconciling_at state,
        cs_completed_at state]) (\<lambda>_.
     if cs_status state = ExecutionCommandStatus.Created
        \<and> (cs_delivery_attempts state \<noteq> 0 \<or> cs_dispatched_at state \<noteq> None
           \<or> cs_command_received_at state \<noteq> None \<or> cs_reconciling_at state \<noteq> None)
     then Inl (InvalidTimestamp ''CREATED state cannot contain later lifecycle evidence'')
     else if (cs_dispatched_at state \<noteq> None) \<noteq> (0 < cs_delivery_attempts state)
     then Inl (InvalidTimestamp ''delivery_attempts and dispatched_at must be present together'')
     else if requires_dispatch (cs_status state) \<and> cs_dispatched_at state = None
     then Inl (InvalidTimestamp ''command status requires dispatch evidence'')
     else if cs_status state = ExecutionCommandStatus.DeliveryUnconfirmed
        \<and> (case cs_last_delivery_error state of None \<Rightarrow> True | Some e \<Rightarrow> trim_is_empty e)
     then Inl (InvalidEvidence ''DELIVERY_UNCONFIRMED requires a delivery error'')
     else if cs_status state \<in> {ExecutionCommandStatus.Reconciling,
            ExecutionCommandStatus.ManualReconciliationRequired} \<and> cs_reconciling_at state = None
     then Inl (InvalidTimestamp ''reconciliation status requires reconciling_at'')
     else if cs_status state \<in> {ExecutionCommandStatus.CommandReceived,
            ExecutionCommandStatus.Accepted, ExecutionCommandStatus.Rejected}
        \<and> cs_command_received_at state = None
     then Inl (InvalidTimestamp ''command status requires command_received_at'')
     else Inr ()))"

definition latest_lifecycle_evidence_at :: "ExecutionCommandState \<Rightarrow> i64" where
  "latest_lifecycle_evidence_at state =
     fold (\<lambda>t acc. case t of None \<Rightarrow> acc | Some v \<Rightarrow> max acc v)
       [cs_dispatched_at state, cs_command_received_at state, cs_reconciling_at state,
        cs_completed_at state] (cs_created_at state)"

definition initial_command_state ::
  "ExecutionCommand \<Rightarrow> i64 \<Rightarrow> (CommandTransitionError, ExecutionCommandState) result" where
  "initial_command_state command created_at =
     bindR (validate_command_identity command) (\<lambda>_.
     if created_at < 0 \<or> ec_expires_at command \<le> created_at
     then Inl (InvalidTimestamp ''created_at must precede expires_at'')
     else
       let state = \<lparr>
         cs_command_id = ec_command_id command,
         cs_account_id = ec_account_id command,
         cs_plan_id = ec_plan_id command,
         cs_leg_id = ec_leg_id command,
         cs_status = ExecutionCommandStatus.Created,
         cs_delivery_attempts = 0,
         cs_last_delivery_error = None,
         cs_created_at = created_at,
         cs_dispatched_at = None,
         cs_command_received_at = None,
         cs_reconciling_at = None,
         cs_completed_at = None,
         cs_updated_at = created_at\<rparr>
       in bindR (validate_command_state command state) (\<lambda>_. Inr state))"

section \<open>Evidence checks\<close>

definition validate_before_expiry ::
  "ExecutionCommand \<Rightarrow> i64 \<Rightarrow> string \<Rightarrow> (CommandTransitionError, unit) result" where
  "validate_before_expiry command at reason =
     (if ec_expires_at command \<le> at then Inl (InvalidTimestamp reason) else Inr ())"

definition validate_receipt ::
  "ExecutionCommand \<Rightarrow> CommandReceived \<Rightarrow> CommandInboxStatus \<Rightarrow> (CommandTransitionError, unit) result"
where
  "validate_receipt command received expected =
     (if cr_inbox_status received \<noteq> expected
      then Inl (InvalidEvidence ''command receipt has the wrong inbox status'')
      else if cr_command_id received \<noteq> ec_command_id command
        \<or> cr_idempotency_key received \<noteq> ec_idempotency_key command
        \<or> cr_account_id received \<noteq> ec_account_id command
        \<or> cr_terminal_id received \<noteq> ec_terminal_id command
        \<or> cr_client_id received \<noteq> ec_client_id command
      then Inl (InvalidIdentity ''command receipt identity differs from command'')
      else Inr ())"

definition event_is_fill :: "ExecutionEventStatus \<Rightarrow> bool" where
  "event_is_fill status \<longleftrightarrow>
     status \<in> {ExecutionEventStatus.Filled, ExecutionEventStatus.PartiallyFilled}"

definition event_identity_differs :: "ExecutionCommand \<Rightarrow> ExecutionEvent \<Rightarrow> bool" where
  "event_identity_differs command event \<longleftrightarrow>
     trim_is_empty (ev_execution_id event)
     \<or> ev_event_at event < 0
     \<or> ev_command_id event \<noteq> ec_command_id command
     \<or> ev_plan_id event \<noteq> ec_plan_id command
     \<or> ev_leg_id event \<noteq> ec_leg_id command
     \<or> ev_account_id event \<noteq> ec_account_id command
     \<or> ev_terminal_id event \<noteq> ec_terminal_id command
     \<or> ev_client_id event \<noteq> ec_client_id command
     \<or> ev_symbol event \<noteq> ec_symbol command
     \<or> (case ev_broker_symbol event of None \<Rightarrow> False | Some s \<Rightarrow> Some s \<noteq> ec_broker_symbol command)
     \<or> (case ev_idempotency_key event of None \<Rightarrow> False | Some k \<Rightarrow> k \<noteq> ec_idempotency_key command)
     \<or> (case ev_requested_lots event of None \<Rightarrow> False | Some lots \<Rightarrow>
          (case ec_lots command of None \<Rightarrow> True | Some command_lots \<Rightarrow> lots \<noteq> command_lots))"

definition validate_execution_event ::
  "ExecutionCommand \<Rightarrow> ExecutionEvent \<Rightarrow> (CommandTransitionError, unit) result" where
  "validate_execution_event command event =
     (if event_identity_differs command event
      then Inl (InvalidIdentity ''execution event identity differs from command'')
      else if event_is_fill (ev_status event) \<noteq> (ev_filled_at event \<noteq> None)
      then Inl (InvalidEvidence ''filled_at must exactly match a fill status'')
      else if event_is_fill (ev_status event)
        \<and> (case ev_filled_lots event of None \<Rightarrow> True
           | Some lots \<Rightarrow> \<not> f64_is_finite lots \<or> f64_le lots f64_zero)
      then Inl (InvalidEvidence ''fill events require a positive filled_lots value'')
      else if (case ev_filled_at event of None \<Rightarrow> False
           | Some filled_at \<Rightarrow> filled_at < 0 \<or> ev_event_at event < filled_at)
      then Inl (InvalidTimestamp ''filled_at must not follow event_at'')
      else check_each (\<lambda>v. case v of None \<Rightarrow> Inr ()
             | Some x \<Rightarrow> if \<not> f64_is_finite x \<or> f64_lt x f64_zero
                 then Inl (InvalidEvidence
                   ''execution quantities and prices must be finite and non-negative'')
                 else Inr ())
           [ev_requested_lots event, ev_fill_price event, ev_filled_lots event,
            ev_remaining_lots event])"

primrec event_status :: "ExecutionEventStatus \<Rightarrow> ExecutionCommandStatus" where
  "event_status ExecutionEventStatus.Accepted = ExecutionCommandStatus.Accepted"
| "event_status ExecutionEventStatus.OrderSent = ExecutionCommandStatus.OrderSent"
| "event_status ExecutionEventStatus.Rejected = ExecutionCommandStatus.Rejected"
| "event_status ExecutionEventStatus.Filled = ExecutionCommandStatus.Filled"
| "event_status ExecutionEventStatus.PartiallyFilled = ExecutionCommandStatus.PartiallyFilled"
| "event_status ExecutionEventStatus.Failed = ExecutionCommandStatus.Failed"
| "event_status ExecutionEventStatus.Expired = ExecutionCommandStatus.Expired"
| "event_status ExecutionEventStatus.Cancelled = ExecutionCommandStatus.Cancelled"

definition evidence_target_unchecked ::
  "ExecutionCommand \<Rightarrow> CommandEvidence \<Rightarrow>
     (CommandTransitionError, ExecutionCommandStatus \<times> i64) result" where
  "evidence_target_unchecked command evidence =
     (case evidence of
        CommandEvidence.Dispatched at \<Rightarrow>
          bindR (validate_before_expiry command at
            ''dispatch cannot occur at or after expires_at'')
          (\<lambda>_. Inr (ExecutionCommandStatus.Dispatched, at))
      | CommandEvidence.DeliveryUnconfirmed at _ \<Rightarrow>
          Inr (ExecutionCommandStatus.DeliveryUnconfirmed, at)
      | BeginReconciliation at \<Rightarrow> Inr (ExecutionCommandStatus.Reconciling, at)
      | RequireManualReconciliation at \<Rightarrow>
          Inr (ExecutionCommandStatus.ManualReconciliationRequired, at)
      | ReceivedRecorded received \<Rightarrow>
          bindR (validate_receipt command received CommandInboxStatus.Recorded) (\<lambda>_.
          bindR (validate_before_expiry command (cr_received_at received)
            ''new command receipt cannot occur at or after expires_at'')
          (\<lambda>_. Inr (ExecutionCommandStatus.CommandReceived, cr_received_at received)))
      | ReceivedDuplicateKnownSamePayload received \<Rightarrow>
          bindR (validate_receipt command received CommandInboxStatus.Duplicate)
          (\<lambda>_. Inr (ExecutionCommandStatus.CommandReceived, cr_received_at received))
      | CommandEvidence.ExecutionEvent event \<Rightarrow>
          bindR (validate_execution_event command event)
          (\<lambda>_. Inr (event_status (ev_status event), ev_event_at event))
      | Expire at \<Rightarrow>
          if at < ec_expires_at command
          then Inl (InvalidTimestamp ''expiry evidence predates command.expires_at'')
          else Inr (ExecutionCommandStatus.Expired, at)
      | Cancel at \<Rightarrow> Inr (ExecutionCommandStatus.Cancelled, at))"

definition evidence_target ::
  "ExecutionCommand \<Rightarrow> CommandEvidence \<Rightarrow>
     (CommandTransitionError, ExecutionCommandStatus \<times> i64) result" where
  "evidence_target command evidence =
     bindR (evidence_target_unchecked command evidence) (\<lambda>r.
     if snd r < 0
     then Inl (InvalidTimestamp ''evidence timestamp must be non-negative'')
     else Inr r)"

section \<open>The transition table\<close>

primrec allowed_targets :: "ExecutionCommandStatus \<Rightarrow> ExecutionCommandStatus set" where
  "allowed_targets ExecutionCommandStatus.Created =
     {ExecutionCommandStatus.Dispatched, ExecutionCommandStatus.Expired,
      ExecutionCommandStatus.Cancelled}"
| "allowed_targets ExecutionCommandStatus.Dispatched =
     {ExecutionCommandStatus.CommandReceived, ExecutionCommandStatus.DeliveryUnconfirmed,
      ExecutionCommandStatus.Expired, ExecutionCommandStatus.Cancelled}"
| "allowed_targets ExecutionCommandStatus.DeliveryUnconfirmed =
     {ExecutionCommandStatus.Reconciling, ExecutionCommandStatus.CommandReceived,
      ExecutionCommandStatus.ManualReconciliationRequired, ExecutionCommandStatus.Expired,
      ExecutionCommandStatus.Failed}"
| "allowed_targets ExecutionCommandStatus.Reconciling =
     {ExecutionCommandStatus.CommandReceived, ExecutionCommandStatus.OrderSent,
      ExecutionCommandStatus.PartiallyFilled, ExecutionCommandStatus.Filled,
      ExecutionCommandStatus.ManualReconciliationRequired, ExecutionCommandStatus.Failed,
      ExecutionCommandStatus.Expired}"
| "allowed_targets ExecutionCommandStatus.ManualReconciliationRequired =
     {ExecutionCommandStatus.CommandReceived, ExecutionCommandStatus.OrderSent,
      ExecutionCommandStatus.PartiallyFilled, ExecutionCommandStatus.Filled,
      ExecutionCommandStatus.Failed, ExecutionCommandStatus.Expired,
      ExecutionCommandStatus.Cancelled}"
| "allowed_targets ExecutionCommandStatus.CommandReceived =
     {ExecutionCommandStatus.Accepted, ExecutionCommandStatus.Rejected,
      ExecutionCommandStatus.Cancelled, ExecutionCommandStatus.Expired}"
| "allowed_targets ExecutionCommandStatus.Accepted =
     {ExecutionCommandStatus.OrderSent, ExecutionCommandStatus.Rejected,
      ExecutionCommandStatus.Failed, ExecutionCommandStatus.Cancelled,
      ExecutionCommandStatus.Expired}"
| "allowed_targets ExecutionCommandStatus.OrderSent =
     {ExecutionCommandStatus.PartiallyFilled, ExecutionCommandStatus.Filled,
      ExecutionCommandStatus.Cancelled, ExecutionCommandStatus.Failed}"
| "allowed_targets ExecutionCommandStatus.PartiallyFilled =
     {ExecutionCommandStatus.Filled, ExecutionCommandStatus.Failed,
      ExecutionCommandStatus.Cancelled}"
| "allowed_targets ExecutionCommandStatus.DeliveryFailed = {}"
| "allowed_targets ExecutionCommandStatus.Rejected = {}"
| "allowed_targets ExecutionCommandStatus.Filled = {}"
| "allowed_targets ExecutionCommandStatus.Failed = {}"
| "allowed_targets ExecutionCommandStatus.Expired = {}"
| "allowed_targets ExecutionCommandStatus.Cancelled = {}"

definition transition_is_allowed :: "ExecutionCommandStatus \<Rightarrow> ExecutionCommandStatus \<Rightarrow> bool" where
  "transition_is_allowed source target \<longleftrightarrow> target \<in> allowed_targets source"

section \<open>Applying evidence\<close>

definition receipt_evidence :: "CommandEvidence \<Rightarrow> CommandReceived option" where
  "receipt_evidence evidence =
     (case evidence of
        ReceivedRecorded received \<Rightarrow> Some received
      | ReceivedDuplicateKnownSamePayload received \<Rightarrow> Some received
      | _ \<Rightarrow> None)"

definition bump_version ::
  "ExecutionCommandState \<Rightarrow> i64 \<Rightarrow> (CommandTransitionError, i64) result" where
  "bump_version state evidence_at =
     (case checked_add_i64 (cs_updated_at state) 1 of
        None \<Rightarrow> Inl VersionOverflow
      | Some v \<Rightarrow> Inr (max v evidence_at))"

definition keeps_late_receipt :: "ExecutionCommandStatus \<Rightarrow> bool" where
  "keeps_late_receipt status \<longleftrightarrow>
     status \<in> {ExecutionCommandStatus.Reconciling,
       ExecutionCommandStatus.ManualReconciliationRequired, ExecutionCommandStatus.Accepted,
       ExecutionCommandStatus.Rejected, ExecutionCommandStatus.OrderSent,
       ExecutionCommandStatus.PartiallyFilled, ExecutionCommandStatus.Filled,
       ExecutionCommandStatus.Failed}"

definition apply_receipt_evidence ::
  "ExecutionCommand \<Rightarrow> ExecutionCommandState \<Rightarrow> CommandReceived \<Rightarrow> ExecutionCommandStatus \<Rightarrow>
     (CommandTransitionError, CommandTransitionOutcome) result" where
  "apply_receipt_evidence command state received target =
     (if (case cs_dispatched_at state of None \<Rightarrow> False | Some d \<Rightarrow> cr_received_at received < d)
      then Inl (InvalidTimestamp ''command receipt predates dispatch'')
      else case cs_command_received_at state of
        Some recorded_at \<Rightarrow>
          if recorded_at \<noteq> cr_received_at received
          then Inl (InvalidEvidence ''command receipt timestamp differs from the recorded receipt'')
          else Inr (CommandTransitionOutcome.Duplicate state)
      | None \<Rightarrow>
          if transition_is_allowed (cs_status state) target
          then bindR (bump_version state (cr_received_at received)) (\<lambda>updated_at.
            let next = state\<lparr>cs_status := target,
                  cs_command_received_at := Some (cr_received_at received),
                  cs_updated_at := updated_at\<rparr>
            in bindR (validate_command_state command next) (\<lambda>_. Inr (Applied next)))
          else if keeps_late_receipt (cs_status state)
          then bindR (bump_version state (cr_received_at received)) (\<lambda>updated_at.
            let next = state\<lparr>cs_command_received_at := Some (cr_received_at received),
                  cs_updated_at := updated_at\<rparr>
            in bindR (validate_command_state command next) (\<lambda>_. Inr (Applied next)))
          else Inl (InvalidTransition (cs_status state) target))"

definition get_or_insert :: "'a option \<Rightarrow> 'a \<Rightarrow> 'a option" where
  "get_or_insert slot v = (case slot of None \<Rightarrow> Some v | Some w \<Rightarrow> Some w)"

definition record_evidence ::
  "ExecutionCommandState \<Rightarrow> CommandEvidence \<Rightarrow>
     (CommandTransitionError, ExecutionCommandState) result" where
  "record_evidence next evidence =
     (case evidence of
        CommandEvidence.Dispatched at \<Rightarrow>
          (case checked_add_u32 (cs_delivery_attempts next) 1 of
             None \<Rightarrow> Inl VersionOverflow
           | Some n \<Rightarrow> Inr (next\<lparr>cs_delivery_attempts := n, cs_dispatched_at := Some at,
               cs_last_delivery_error := None\<rparr>))
      | CommandEvidence.DeliveryUnconfirmed at e \<Rightarrow>
          if trim_is_empty e
          then Inl (InvalidEvidence ''delivery error must not be empty'')
          else Inr (next\<lparr>cs_last_delivery_error := Some e\<rparr>)
      | BeginReconciliation at \<Rightarrow>
          Inr (next\<lparr>cs_reconciling_at := get_or_insert (cs_reconciling_at next) at\<rparr>)
      | RequireManualReconciliation at \<Rightarrow>
          Inr (next\<lparr>cs_reconciling_at := get_or_insert (cs_reconciling_at next) at\<rparr>)
      | ReceivedRecorded received \<Rightarrow>
          Inr (next\<lparr>cs_command_received_at :=
            get_or_insert (cs_command_received_at next) (cr_received_at received)\<rparr>)
      | ReceivedDuplicateKnownSamePayload received \<Rightarrow>
          Inr (next\<lparr>cs_command_received_at :=
            get_or_insert (cs_command_received_at next) (cr_received_at received)\<rparr>)
      | _ \<Rightarrow> Inr next)"

definition fill_predates_creation :: "ExecutionCommandState \<Rightarrow> CommandEvidence \<Rightarrow> bool" where
  "fill_predates_creation state evidence \<longleftrightarrow>
     (case evidence of
        CommandEvidence.ExecutionEvent event \<Rightarrow>
          (case ev_filled_at event of None \<Rightarrow> False | Some f \<Rightarrow> f < cs_created_at state)
      | _ \<Rightarrow> False)"

definition is_local_end :: "CommandEvidence \<Rightarrow> bool" where
  "is_local_end evidence \<longleftrightarrow> (case evidence of Expire _ \<Rightarrow> True | Cancel _ \<Rightarrow> True | _ \<Rightarrow> False)"

definition apply_advancing_evidence ::
  "ExecutionCommand \<Rightarrow> ExecutionCommandState \<Rightarrow> CommandEvidence \<Rightarrow> ExecutionCommandStatus \<Rightarrow> i64 \<Rightarrow>
     (CommandTransitionError, CommandTransitionOutcome) result" where
  "apply_advancing_evidence command state evidence target evidence_at =
     bindR (bump_version state evidence_at) (\<lambda>updated_at.
     bindR (record_evidence (state\<lparr>cs_status := target, cs_updated_at := updated_at\<rparr>) evidence)
       (\<lambda>recorded.
     let next = (if command_status_is_terminal target
                 then recorded\<lparr>cs_completed_at := Some evidence_at\<rparr> else recorded)
     in bindR (validate_command_state command next) (\<lambda>_. Inr (Applied next))))"

definition transition_command ::
  "ExecutionCommand \<Rightarrow> ExecutionCommandState \<Rightarrow> CommandEvidence \<Rightarrow>
     (CommandTransitionError, CommandTransitionOutcome) result" where
  "transition_command command state evidence =
     bindR (validate_command_state command state) (\<lambda>_.
     bindR (evidence_target command evidence) (\<lambda>(target, evidence_at).
     if fill_predates_creation state evidence
     then Inl (InvalidTimestamp ''filled_at predates command creation'')
     else if evidence_at < cs_created_at state
     then Inl (InvalidTimestamp ''evidence predates command creation'')
     else case receipt_evidence evidence of
       Some received \<Rightarrow> apply_receipt_evidence command state received target
     | None \<Rightarrow>
       if evidence_at < latest_lifecycle_evidence_at state
       then Inl (InvalidTimestamp ''advancing evidence predates existing lifecycle evidence'')
       else if target = cs_status state
       then Inr (CommandTransitionOutcome.Duplicate state)
       else if is_local_end evidence \<and> cs_status state \<noteq> ExecutionCommandStatus.Created
       then Inl (InvalidEvidence ''local expiry/cancellation is only valid before dispatch'')
       else if \<not> transition_is_allowed (cs_status state) target
       then Inl (InvalidTransition (cs_status state) target)
       else apply_advancing_evidence command state evidence target evidence_at))"

section \<open>Valid states\<close>

text \<open>What \<open>validate_command_identity\<close> and \<open>validate_command_state\<close> accept, as predicates.\<close>

definition command_identity_ok :: "ExecutionCommand \<Rightarrow> bool" where
  "command_identity_ok command \<longleftrightarrow>
     \<not> trim_is_empty (ec_command_id command) \<and> \<not> trim_is_empty (ec_strategy_id command)
     \<and> \<not> trim_is_empty (ec_account_id command) \<and> \<not> trim_is_empty (ec_symbol command)
     \<and> \<not> trim_is_empty (ec_idempotency_key command) \<and> \<not> trim_is_empty (ec_hmac command)
     \<and> (ec_leg_id command = None \<or> ec_plan_id command \<noteq> None)"

definition timestamp_in_version :: "ExecutionCommandState \<Rightarrow> i64 option \<Rightarrow> bool" where
  "timestamp_in_version state timestamp \<longleftrightarrow>
     (case timestamp of None \<Rightarrow> True | Some t \<Rightarrow> cs_created_at state \<le> t \<and> t \<le> cs_updated_at state)"

definition belongs_to :: "ExecutionCommand \<Rightarrow> ExecutionCommandState \<Rightarrow> bool" where
  "belongs_to command state \<longleftrightarrow>
     cs_command_id state = ec_command_id command \<and> cs_account_id state = ec_account_id command
     \<and> cs_plan_id state = ec_plan_id command \<and> cs_leg_id state = ec_leg_id command"

definition evidence_fits_status :: "ExecutionCommandState \<Rightarrow> bool" where
  "evidence_fits_status state \<longleftrightarrow>
     (command_status_is_terminal (cs_status state) \<longleftrightarrow> cs_completed_at state \<noteq> None)
     \<and> (cs_status state = ExecutionCommandStatus.Created \<longrightarrow>
          cs_delivery_attempts state = 0 \<and> cs_dispatched_at state = None
          \<and> cs_command_received_at state = None \<and> cs_reconciling_at state = None)
     \<and> (cs_dispatched_at state \<noteq> None \<longleftrightarrow> 0 < cs_delivery_attempts state)
     \<and> (requires_dispatch (cs_status state) \<longrightarrow> cs_dispatched_at state \<noteq> None)
     \<and> (cs_status state = ExecutionCommandStatus.DeliveryUnconfirmed \<longrightarrow>
          (\<exists>e. cs_last_delivery_error state = Some e \<and> \<not> trim_is_empty e))
     \<and> (cs_status state \<in> {ExecutionCommandStatus.Reconciling,
          ExecutionCommandStatus.ManualReconciliationRequired} \<longrightarrow> cs_reconciling_at state \<noteq> None)
     \<and> (cs_status state \<in> {ExecutionCommandStatus.CommandReceived, ExecutionCommandStatus.Accepted,
          ExecutionCommandStatus.Rejected} \<longrightarrow> cs_command_received_at state \<noteq> None)"

lemma validate_command_identity_iff:
  "validate_command_identity command = Inr () \<longleftrightarrow> command_identity_ok command"
  by (auto simp: validate_command_identity_def command_identity_ok_def bindR_eq_Inr split: if_splits)

lemma check_lifecycle_timestamp_iff:
  "check_lifecycle_timestamp state timestamp = Inr () \<longleftrightarrow> timestamp_in_version state timestamp"
  by (auto simp: check_lifecycle_timestamp_def timestamp_in_version_def split: option.splits)

lemma validate_command_state_iff:
  "validate_command_state command state = Inr () \<longleftrightarrow>
     command_identity_ok command \<and> belongs_to command state
     \<and> 0 \<le> cs_created_at state \<and> cs_created_at state \<le> cs_updated_at state
     \<and> cs_created_at state < ec_expires_at command
     \<and> timestamp_in_version state (cs_dispatched_at state)
     \<and> timestamp_in_version state (cs_command_received_at state)
     \<and> timestamp_in_version state (cs_reconciling_at state)
     \<and> timestamp_in_version state (cs_completed_at state)
     \<and> evidence_fits_status state"
proof -
  have lde: "\<not> (case cs_last_delivery_error state of None \<Rightarrow> True | Some e \<Rightarrow> trim_is_empty e) \<longleftrightarrow>
      (\<exists>e. cs_last_delivery_error state = Some e \<and> \<not> trim_is_empty e)"
    by (cases "cs_last_delivery_error state") auto
  show ?thesis
    unfolding validate_command_state_def unit_result_simps validate_command_identity_iff
      evidence_fits_status_def belongs_to_def lde [symmetric] check_each.simps
      check_lifecycle_timestamp_iff
    by (simp only: simp_thms de_Morgan_disj de_Morgan_conj not_less not_le not_not imp_conv_disj
        conj_assoc conj_comms disj_assoc disj_comms)
qed

section \<open>The shape of an accepted step\<close>

lemma bump_version_ok:
  "bump_version state at = Inr u \<longleftrightarrow> u = max (cs_updated_at state + 1) at \<and>
     i64_min \<le> cs_updated_at state + 1 \<and> cs_updated_at state + 1 \<le> i64_max"
  by (auto simp: bump_version_def checked_add_i64_def)

lemma evidence_target_ok:
  "evidence_target command evidence = Inr (target, at) \<longleftrightarrow>
     evidence_target_unchecked command evidence = Inr (target, at) \<and> 0 \<le> at"
  by (auto simp: evidence_target_def result_simps)

lemma receipt_target:
  "receipt_evidence evidence = Some received \<Longrightarrow>
   evidence_target_unchecked command evidence = Inr (target, at) \<Longrightarrow>
   target = ExecutionCommandStatus.CommandReceived \<and> at = cr_received_at received"
  by (auto simp: receipt_evidence_def evidence_target_unchecked_def result_simps
      split: CommandEvidence.splits)

text \<open>
  An applied step is one of three: a receipt that advances the status, a late receipt that is
  recorded beside a stronger status, and advancing evidence.
\<close>

lemma transition_Applied_cases:
  assumes "transition_command command state evidence = Inr (Applied next)"
  obtains
    (receipt) received u where
      "receipt_evidence evidence = Some received"
      "cs_command_received_at state = None"
      "transition_is_allowed (cs_status state) ExecutionCommandStatus.CommandReceived"
      "bump_version state (cr_received_at received) = Inr u"
      "next = state\<lparr>cs_status := ExecutionCommandStatus.CommandReceived,
         cs_command_received_at := Some (cr_received_at received), cs_updated_at := u\<rparr>"
  | (late) received u where
      "receipt_evidence evidence = Some received"
      "cs_command_received_at state = None"
      "keeps_late_receipt (cs_status state)"
      "\<not> transition_is_allowed (cs_status state) ExecutionCommandStatus.CommandReceived"
      "bump_version state (cr_received_at received) = Inr u"
      "next = state\<lparr>cs_command_received_at := Some (cr_received_at received), cs_updated_at := u\<rparr>"
  | (advance) target at u recorded where
      "receipt_evidence evidence = None"
      "evidence_target command evidence = Inr (target, at)"
      "latest_lifecycle_evidence_at state \<le> at"
      "target \<noteq> cs_status state"
      "is_local_end evidence \<Longrightarrow> cs_status state = ExecutionCommandStatus.Created"
      "transition_is_allowed (cs_status state) target"
      "bump_version state at = Inr u"
      "record_evidence (state\<lparr>cs_status := target, cs_updated_at := u\<rparr>) evidence = Inr recorded"
      "next = (if command_status_is_terminal target
               then recorded\<lparr>cs_completed_at := Some at\<rparr> else recorded)"
proof -
  obtain target at where ta: "evidence_target command evidence = Inr (target, at)"
    and valid: "validate_command_state command state = Inr ()"
    using assms by (auto simp: transition_command_def result_simps)
  show thesis
  proof (cases "receipt_evidence evidence")
    case (Some received)
    then have target: "target = ExecutionCommandStatus.CommandReceived"
      using ta receipt_target by (metis evidence_target_ok)
    have "apply_receipt_evidence command state received target = Inr (Applied next)"
      using assms ta valid Some by (auto simp: transition_command_def split: if_splits)
    then show thesis
      using receipt [of received] late [of received] Some
      by (auto simp: apply_receipt_evidence_def target result_simps Let_def
          split: if_splits option.splits)
  next
    case None
    then have "apply_advancing_evidence command state evidence target at = Inr (Applied next)"
      and "latest_lifecycle_evidence_at state \<le> at" and "target \<noteq> cs_status state"
      and "is_local_end evidence \<longrightarrow> cs_status state = ExecutionCommandStatus.Created"
      and "transition_is_allowed (cs_status state) target"
      using assms ta valid by (auto simp: transition_command_def split: if_splits)
    then show thesis
      using advance [OF None ta] by (auto simp: apply_advancing_evidence_def result_simps Let_def)
  qed
qed

lemma transition_Applied_valid:
  "transition_command command state evidence = Inr (Applied next) \<Longrightarrow>
   validate_command_state command state = Inr () \<and> validate_command_state command next = Inr ()"
  by (auto simp: transition_command_def apply_receipt_evidence_def apply_advancing_evidence_def
      Let_def result_simps split: if_splits option.splits)

lemma transition_Duplicate_state:
  "transition_command command state evidence = Inr (CommandTransitionOutcome.Duplicate next) \<Longrightarrow>
   next = state"
  by (auto simp: transition_command_def apply_receipt_evidence_def apply_advancing_evidence_def
      Let_def result_simps split: if_splits option.splits)

text \<open>What recording the evidence writes, beside the status and the version.\<close>

lemma record_evidence_frame:
  "record_evidence state evidence = Inr recorded \<Longrightarrow>
   cs_status recorded = cs_status state \<and> cs_updated_at recorded = cs_updated_at state
   \<and> cs_created_at recorded = cs_created_at state \<and> cs_completed_at recorded = cs_completed_at state
   \<and> cs_command_id recorded = cs_command_id state \<and> cs_account_id recorded = cs_account_id state
   \<and> cs_plan_id recorded = cs_plan_id state \<and> cs_leg_id recorded = cs_leg_id state"
  by (auto simp: record_evidence_def split: CommandEvidence.splits option.splits if_splits)

lemma record_evidence_dispatch:
  "record_evidence state evidence = Inr recorded \<Longrightarrow>
   (\<exists>at. evidence = CommandEvidence.Dispatched at
      \<and> cs_delivery_attempts recorded = cs_delivery_attempts state + 1
      \<and> cs_dispatched_at recorded = Some at)
   \<or> (\<forall>at. evidence \<noteq> CommandEvidence.Dispatched at)
      \<and> cs_delivery_attempts recorded = cs_delivery_attempts state
      \<and> cs_dispatched_at recorded = cs_dispatched_at state"
  by (auto simp: record_evidence_def dest!: checked_add_u32_Some
      split: CommandEvidence.splits option.splits if_splits)

section \<open>Progress\<close>

primrec status_rank :: "ExecutionCommandStatus \<Rightarrow> nat" where
  "status_rank ExecutionCommandStatus.Created = 0"
| "status_rank ExecutionCommandStatus.Dispatched = 1"
| "status_rank ExecutionCommandStatus.DeliveryUnconfirmed = 2"
| "status_rank ExecutionCommandStatus.Reconciling = 3"
| "status_rank ExecutionCommandStatus.ManualReconciliationRequired = 4"
| "status_rank ExecutionCommandStatus.CommandReceived = 5"
| "status_rank ExecutionCommandStatus.Accepted = 6"
| "status_rank ExecutionCommandStatus.OrderSent = 7"
| "status_rank ExecutionCommandStatus.PartiallyFilled = 8"
| "status_rank ExecutionCommandStatus.DeliveryFailed = 9"
| "status_rank ExecutionCommandStatus.Rejected = 9"
| "status_rank ExecutionCommandStatus.Filled = 9"
| "status_rank ExecutionCommandStatus.Failed = 9"
| "status_rank ExecutionCommandStatus.Expired = 9"
| "status_rank ExecutionCommandStatus.Cancelled = 9"

lemma status_rank_bound: "status_rank status \<le> 9"
  by (cases status) simp_all

lemma allowed_rank: "transition_is_allowed source target \<Longrightarrow> status_rank source < status_rank target"
  by (cases source) (auto simp: transition_is_allowed_def)

lemma terminal_no_targets: "command_status_is_terminal source \<Longrightarrow> \<not> transition_is_allowed source target"
  by (auto simp: command_status_is_terminal_def transition_is_allowed_def)

definition lifecycle_progress :: "ExecutionCommandState \<Rightarrow> nat" where
  "lifecycle_progress state =
     status_rank (cs_status state) + (if cs_command_received_at state = None then 0 else 1)"

lemma lifecycle_progress_bound: "lifecycle_progress state \<le> 10"
  using status_rank_bound [of "cs_status state"] by (simp add: lifecycle_progress_def)

lemma record_evidence_receipt:
  "record_evidence state evidence = Inr recorded \<Longrightarrow> receipt_evidence evidence = None \<Longrightarrow>
   cs_command_received_at recorded = cs_command_received_at state"
  by (auto simp: record_evidence_def receipt_evidence_def
      split: CommandEvidence.splits option.splits if_splits)

lemma applied_progress:
  assumes "transition_command command state evidence = Inr (Applied next)"
  shows "lifecycle_progress state < lifecycle_progress next"
  using assms
proof (cases rule: transition_Applied_cases)
  case (receipt received u)
  then show ?thesis using allowed_rank [OF receipt(3)] by (simp add: lifecycle_progress_def)
next
  case (late received u)
  then show ?thesis by (simp add: lifecycle_progress_def)
next
  case (advance target at u recorded)
  then have "cs_status next = target" "cs_command_received_at next = cs_command_received_at state"
    using record_evidence_frame [OF advance(8)] record_evidence_receipt [OF advance(8,1)] by auto
  then show ?thesis using allowed_rank [OF advance(6)] by (simp add: lifecycle_progress_def)
qed

text \<open>
  A consumer folds evidence into the stored state: what is refused and what is a duplicate leaves
  the state as it is. \<open>run_evidence\<close> also counts the applied steps.
\<close>

fun run_evidence ::
  "ExecutionCommand \<Rightarrow> ExecutionCommandState \<Rightarrow> CommandEvidence list \<Rightarrow> ExecutionCommandState \<times> nat"
where
  "run_evidence command state [] = (state, 0)"
| "run_evidence command state (e # es) =
     (case transition_command command state e of
        Inr (Applied next) \<Rightarrow>
          (case run_evidence command next es of (s, n) \<Rightarrow> (s, Suc n))
      | _ \<Rightarrow> run_evidence command state es)"

lemma run_evidence_progress:
  "run_evidence command state es = (s, n) \<Longrightarrow> lifecycle_progress state + n \<le> lifecycle_progress s"
proof (induction es arbitrary: state s n)
  case Nil
  then show ?case by simp
next
  case (Cons e es)
  show ?case
  proof (cases "\<exists>next. transition_command command state e = Inr (Applied next)")
    case True
    then obtain "next" m where step: "transition_command command state e = Inr (Applied next)"
      and run: "run_evidence command next es = (s, m)" and n: "n = Suc m"
      using Cons.prems by (auto split: prod.splits)
    show ?thesis using Cons.IH [OF run] applied_progress [OF step] n by simp
  next
    case False
    then have "run_evidence command state es = (s, n)"
      using Cons.prems by (auto split: sum.splits CommandTransitionOutcome.splits)
    then show ?thesis by (rule Cons.IH)
  qed
qed

section \<open>Every state of a lifecycle\<close>

inductive lifecycle :: "ExecutionCommand \<Rightarrow> ExecutionCommandState \<Rightarrow> bool" for command where
  start: "initial_command_state command created_at = Inr state \<Longrightarrow> lifecycle command state"
| step: "lifecycle command state \<Longrightarrow>
     transition_command command state evidence = Inr (Applied next) \<Longrightarrow> lifecycle command next"

lemma initial_command_state_ok:
  assumes "initial_command_state command created_at = Inr state"
  shows "validate_command_state command state = Inr ()"
    and "cs_status state = ExecutionCommandStatus.Created" and "cs_delivery_attempts state = 0"
    and "cs_dispatched_at state = None" and "cs_created_at state = created_at"
  using assms by (auto simp: initial_command_state_def Let_def result_simps)

lemma lifecycle_valid: "lifecycle command state \<Longrightarrow> validate_command_state command state = Inr ()"
  by (induction rule: lifecycle.induct)
    (auto dest: initial_command_state_ok(1) transition_Applied_valid)

lemma event_status_not_delivery_failed [simp]:
  "event_status status \<noteq> ExecutionCommandStatus.DeliveryFailed"
  by (cases status) simp_all

lemma transition_target_not_delivery_failed:
  "evidence_target command evidence = Inr (target, at) \<Longrightarrow>
   target \<noteq> ExecutionCommandStatus.DeliveryFailed"
  by (auto simp: evidence_target_ok evidence_target_unchecked_def result_simps
      split: CommandEvidence.splits if_splits)

lemma dispatch_target:
  "evidence_target command (CommandEvidence.Dispatched t) = Inr (target, at) \<Longrightarrow>
   target = ExecutionCommandStatus.Dispatched \<and> at = t \<and> t < ec_expires_at command"
  by (auto simp: evidence_target_ok evidence_target_unchecked_def validate_before_expiry_def
      result_simps)

lemma only_created_dispatches:
  "transition_is_allowed source ExecutionCommandStatus.Dispatched \<Longrightarrow>
   source = ExecutionCommandStatus.Created"
  by (cases source) (auto simp: transition_is_allowed_def)

definition dispatch_inv :: "ExecutionCommand \<Rightarrow> ExecutionCommandState \<Rightarrow> bool" where
  "dispatch_inv command state \<longleftrightarrow>
     cs_status state \<noteq> ExecutionCommandStatus.DeliveryFailed \<and> cs_delivery_attempts state \<le> 1
     \<and> (\<forall>d. cs_dispatched_at state = Some d \<longrightarrow> d < ec_expires_at command)"

lemma dispatch_inv_step:
  assumes inv: "dispatch_inv command state"
    and step: "transition_command command state evidence = Inr (Applied next)"
  shows "dispatch_inv command next"
  using step
proof (cases rule: transition_Applied_cases)
  case (advance target at u recorded)
  have created: "cs_delivery_attempts state = 0" if "cs_status state = ExecutionCommandStatus.Created"
    using transition_Applied_valid [OF step] that
    by (auto simp: validate_command_state_iff evidence_fits_status_def)
  from record_evidence_dispatch [OF advance(8)] show ?thesis
  proof (elim disjE exE conjE)
    fix t assume e: "evidence = CommandEvidence.Dispatched t"
      and rec: "cs_delivery_attempts recorded =
          cs_delivery_attempts (state\<lparr>cs_status := target, cs_updated_at := u\<rparr>) + 1"
        "cs_dispatched_at recorded = Some t"
    from advance(2) e have "target = ExecutionCommandStatus.Dispatched" "t < ec_expires_at command"
      by (auto dest: dispatch_target)
    moreover have "cs_delivery_attempts state = 0"
      using only_created_dispatches advance(6) calculation(1) created by simp
    ultimately show ?thesis
      using rec advance(9) record_evidence_frame [OF advance(8)] by (auto simp: dispatch_inv_def)
  next
    assume "cs_delivery_attempts recorded =
          cs_delivery_attempts (state\<lparr>cs_status := target, cs_updated_at := u\<rparr>)"
      "cs_dispatched_at recorded = cs_dispatched_at (state\<lparr>cs_status := target, cs_updated_at := u\<rparr>)"
    then show ?thesis
      using inv advance(9) record_evidence_frame [OF advance(8)]
        transition_target_not_delivery_failed [OF advance(2)]
      by (auto simp: dispatch_inv_def)
  qed
qed (use inv in \<open>auto simp: dispatch_inv_def\<close>)

lemma dispatch_inv_start:
  "initial_command_state command created_at = Inr state \<Longrightarrow> dispatch_inv command state"
  by (auto simp: dispatch_inv_def dest: initial_command_state_ok)

lemma lifecycle_dispatch_inv: "lifecycle command state \<Longrightarrow> dispatch_inv command state"
  by (induction rule: lifecycle.induct) (blast intro: dispatch_inv_start dispatch_inv_step)+

section \<open>Replay\<close>

lemma latest_le_iff:
  "latest_lifecycle_evidence_at state \<le> t \<longleftrightarrow>
     cs_created_at state \<le> t
     \<and> (\<forall>v. cs_dispatched_at state = Some v \<longrightarrow> v \<le> t)
     \<and> (\<forall>v. cs_command_received_at state = Some v \<longrightarrow> v \<le> t)
     \<and> (\<forall>v. cs_reconciling_at state = Some v \<longrightarrow> v \<le> t)
     \<and> (\<forall>v. cs_completed_at state = Some v \<longrightarrow> v \<le> t)"
  by (auto simp: latest_lifecycle_evidence_at_def split: option.splits)

lemma record_evidence_latest:
  "record_evidence state evidence = Inr recorded \<Longrightarrow> receipt_evidence evidence = None \<Longrightarrow>
   evidence_target command evidence = Inr (target, at) \<Longrightarrow>
   latest_lifecycle_evidence_at state \<le> at \<Longrightarrow> latest_lifecycle_evidence_at recorded \<le> at"
  by (auto simp: record_evidence_def receipt_evidence_def evidence_target_ok latest_le_iff
      evidence_target_unchecked_def get_or_insert_def result_simps
      split: CommandEvidence.splits option.splits if_splits)

lemma transition_checked:
  assumes "validate_command_state command state = Inr ()"
    and "evidence_target command evidence = Inr (target, at)"
    and "\<not> fill_predates_creation state evidence" and "cs_created_at state \<le> at"
  shows "receipt_evidence evidence = Some received \<Longrightarrow>
      transition_command command state evidence =
        apply_receipt_evidence command state received target"
    and "receipt_evidence evidence = None \<Longrightarrow> latest_lifecycle_evidence_at state \<le> at \<Longrightarrow>
      target = cs_status state \<Longrightarrow>
      transition_command command state evidence = Inr (CommandTransitionOutcome.Duplicate state)"
  using assms by (simp_all add: transition_command_def)

lemma transition_advanceI:
  assumes "validate_command_state command state = Inr ()"
    and "evidence_target command evidence = Inr (target, at)"
    and "bump_version state at = Inr u"
    and "validate_command_state command next = Inr ()"
    and "\<not> fill_predates_creation state evidence" and "receipt_evidence evidence = None"
    and "cs_created_at state \<le> at" and "latest_lifecycle_evidence_at state \<le> at"
    and "target \<noteq> cs_status state"
    and "is_local_end evidence \<longrightarrow> cs_status state = ExecutionCommandStatus.Created"
    and "transition_is_allowed (cs_status state) target"
    and "record_evidence (state\<lparr>cs_status := target, cs_updated_at := u\<rparr>) evidence = Inr recorded"
    and "next = (if command_status_is_terminal target
                 then recorded\<lparr>cs_completed_at := Some at\<rparr> else recorded)"
  shows "transition_command command state evidence = Inr (Applied next)"
  using assms by (simp add: transition_command_def apply_advancing_evidence_def)

lemma transition_Applied_checks:
  assumes "transition_command command state evidence = Inr (Applied next)"
  obtains target at where "evidence_target command evidence = Inr (target, at)"
    "\<not> fill_predates_creation state evidence" "cs_created_at state \<le> at"
  using assms by (auto simp: transition_command_def result_simps split: if_splits)

lemma transition_Applied_frame:
  assumes "transition_command command state evidence = Inr (Applied next)"
  shows "cs_created_at next = cs_created_at state \<and> cs_command_id next = cs_command_id state
    \<and> cs_account_id next = cs_account_id state \<and> cs_plan_id next = cs_plan_id state
    \<and> cs_leg_id next = cs_leg_id state"
  using assms
  by (cases rule: transition_Applied_cases) (auto dest: record_evidence_frame)

lemma fill_predates_creation_cong:
  "cs_created_at a = cs_created_at b \<Longrightarrow>
   fill_predates_creation a evidence = fill_predates_creation b evidence"
  by (simp add: fill_predates_creation_def split: CommandEvidence.splits option.splits)

lemma receipt_not_before_dispatch:
  assumes "transition_command command state evidence = Inr (Applied next)"
    and "receipt_evidence evidence = Some received"
  shows "\<not> (case cs_dispatched_at state of None \<Rightarrow> False | Some d \<Rightarrow> cr_received_at received < d)"
  using assms
  by (auto simp: transition_command_def apply_receipt_evidence_def result_simps split: if_splits)

text \<open>C2: Replaying evidence that was applied is a duplicate. Whatever evidence a command's state
  accepted and applied, applying the same evidence to the resulting state changes nothing and is
  reported as \<open>Duplicate\<close>; no error, no second version.\<close>

theorem replay_duplicate:
  assumes step: "transition_command command state evidence = Inr (Applied next)"
  shows "transition_command command next evidence = Inr (CommandTransitionOutcome.Duplicate next)"
proof -
  obtain target at where checks: "evidence_target command evidence = Inr (target, at)"
    "\<not> fill_predates_creation next evidence" "cs_created_at next \<le> at"
    using step transition_Applied_frame [OF step] fill_predates_creation_cong
    by (metis transition_Applied_checks)
  note valid = conjunct2 [OF transition_Applied_valid [OF step]]
  from step show ?thesis
  proof (cases rule: transition_Applied_cases)
    case (receipt received u)
    with transition_checked(1) [OF valid checks receipt(1)] receipt_not_before_dispatch [OF step]
    show ?thesis by (simp add: apply_receipt_evidence_def)
  next
    case (late received u)
    with transition_checked(1) [OF valid checks late(1)] receipt_not_before_dispatch [OF step]
    show ?thesis by (simp add: apply_receipt_evidence_def)
  next
    case (advance target' at' u recorded)
    with checks have [simp]: "target' = target" "at' = at" by auto
    from advance(3) have "latest_lifecycle_evidence_at (state\<lparr>cs_status := target, cs_updated_at := u\<rparr>) \<le> at"
      by (simp add: latest_le_iff)
    with record_evidence_latest [OF advance(8,1) checks(1)]
    have "latest_lifecycle_evidence_at recorded \<le> at" by simp
    then have "latest_lifecycle_evidence_at next \<le> at" by (auto simp: advance(9) latest_le_iff)
    moreover have "target = cs_status next"
      using advance(9) record_evidence_frame [OF advance(8)] by auto
    ultimately show ?thesis using transition_checked(2) [OF valid checks advance(1)] by blast
  qed
qed

section \<open>A concrete lifecycle\<close>

definition sample_command :: ExecutionCommand where
  "sample_command = \<lparr>
     ec_command_id = ''cmd-1'', ec_plan_id = Some ''plan-1'', ec_leg_id = Some ''leg-1'',
     ec_strategy_id = ''trend'', ec_account_id = ''acct-1'', ec_terminal_id = Some ''mt5-1'',
     ec_client_id = Some ''ea-1'', ec_symbol = ''XAUUSD'', ec_broker_symbol = Some ''XAUUSD.r'',
     ec_action = ExecutionAction.Buy, ec_order_type = Some OrderType.Market,
     ec_lots = Some 4607182418800017408, ec_price = None, ec_sl = None, ec_tp = None,
     ec_deviation_points = None, ec_magic = 7, ec_comment = None, ec_position_ticket = None,
     ec_broker_order_id = None, ec_filling_policy = None, ec_time_policy = None,
     ec_expiration_time = None, ec_expires_at = 1000, ec_idempotency_key = ''idem-1'',
     ec_hmac = ''ab''\<rparr>"

definition sample_created :: ExecutionCommandState where
  "sample_created = \<lparr>
     cs_command_id = ''cmd-1'', cs_account_id = ''acct-1'', cs_plan_id = Some ''plan-1'',
     cs_leg_id = Some ''leg-1'', cs_status = ExecutionCommandStatus.Created,
     cs_delivery_attempts = 0, cs_last_delivery_error = None, cs_created_at = 100,
     cs_dispatched_at = None, cs_command_received_at = None, cs_reconciling_at = None,
     cs_completed_at = None, cs_updated_at = 100\<rparr>"

definition sample_dispatched :: ExecutionCommandState where
  "sample_dispatched = sample_created\<lparr>cs_status := ExecutionCommandStatus.Dispatched,
     cs_delivery_attempts := 1, cs_dispatched_at := Some 150, cs_updated_at := 150\<rparr>"

definition sample_receipt :: CommandReceived where
  "sample_receipt = \<lparr>cr_command_id = ''cmd-1'', cr_idempotency_key = ''idem-1'',
     cr_account_id = ''acct-1'', cr_terminal_id = Some ''mt5-1'', cr_client_id = Some ''ea-1'',
     cr_received_at = 160, cr_inbox_status = CommandInboxStatus.Recorded, cr_reason = None\<rparr>"

definition sample_received :: ExecutionCommandState where
  "sample_received = sample_dispatched\<lparr>cs_status := ExecutionCommandStatus.CommandReceived,
     cs_command_received_at := Some 160, cs_updated_at := 160\<rparr>"

definition sample_rejection :: ExecutionEvent where
  "sample_rejection = \<lparr>ev_execution_id = ''exec-1'', ev_command_id = ''cmd-1'',
     ev_plan_id = Some ''plan-1'', ev_leg_id = Some ''leg-1'', ev_account_id = ''acct-1'',
     ev_terminal_id = Some ''mt5-1'', ev_client_id = Some ''ea-1'', ev_symbol = ''XAUUSD'',
     ev_broker_symbol = None, ev_status = ExecutionEventStatus.Rejected,
     ev_broker_order_id = None, ev_broker_deal_id = None, ev_position_ticket = None,
     ev_idempotency_key = None, ev_requested_lots = None, ev_fill_price = None,
     ev_filled_lots = None, ev_remaining_lots = None, ev_event_at = 170, ev_filled_at = None,
     ev_broker_filled_at = None, ev_error_code = None, ev_message = None\<rparr>"

definition sample_rejected :: ExecutionCommandState where
  "sample_rejected = sample_received\<lparr>cs_status := ExecutionCommandStatus.Rejected,
     cs_completed_at := Some 170, cs_updated_at := 170\<rparr>"

lemma sample_command_ok: "command_identity_ok sample_command"
  by code_simp

lemmas sample_eval = sample_created_def sample_dispatched_def sample_received_def
  sample_rejected_def sample_rejection_def receipt_evidence_def fill_predates_creation_def
  is_local_end_def latest_lifecycle_evidence_at_def transition_is_allowed_def record_evidence_def
  checked_add_u32_def u32_max_def command_status_is_terminal_def

lemma sample_valid:
  "validate_command_state sample_command sample_created = Inr ()"
  "validate_command_state sample_command sample_dispatched = Inr ()"
  "validate_command_state sample_command sample_received = Inr ()"
  "validate_command_state sample_command sample_rejected = Inr ()"
  using sample_command_ok
  by (simp_all add: validate_command_state_iff belongs_to_def timestamp_in_version_def
      evidence_fits_status_def requires_dispatch_def sample_eval sample_command_def)

lemma sample_initial: "initial_command_state sample_command 100 = Inr sample_created"
proof -
  have identity: "validate_command_identity sample_command = Inr ()"
    by (simp add: validate_command_identity_iff sample_command_ok)
  have state: "\<lparr>cs_command_id = ec_command_id sample_command,
      cs_account_id = ec_account_id sample_command, cs_plan_id = ec_plan_id sample_command,
      cs_leg_id = ec_leg_id sample_command, cs_status = ExecutionCommandStatus.Created,
      cs_delivery_attempts = 0, cs_last_delivery_error = None, cs_created_at = 100,
      cs_dispatched_at = None, cs_command_received_at = None, cs_reconciling_at = None,
      cs_completed_at = None, cs_updated_at = 100\<rparr> = sample_created"
    and "\<not> ec_expires_at sample_command \<le> 100"
    by (simp_all add: sample_command_def sample_created_def)
  then show ?thesis by (simp add: initial_command_state_def identity state sample_valid)
qed

lemma sample_dispatch:
  "transition_command sample_command sample_created (CommandEvidence.Dispatched 150) =
     Inr (Applied sample_dispatched)"
proof (rule transition_advanceI [OF sample_valid(1)])
  show "evidence_target sample_command (CommandEvidence.Dispatched 150) =
      Inr (ExecutionCommandStatus.Dispatched, 150)"
    by code_simp
  show "bump_version sample_created 150 = Inr 150"
    by (simp add: bump_version_ok i64_min_def i64_max_def sample_created_def)
  show "validate_command_state sample_command sample_dispatched = Inr ()" by (rule sample_valid)
qed (simp add: sample_eval)+

lemma sample_receive:
  "transition_command sample_command sample_dispatched (ReceivedRecorded sample_receipt) =
     Inr (Applied sample_received)"
proof -
  have target: "evidence_target sample_command (ReceivedRecorded sample_receipt) =
      Inr (ExecutionCommandStatus.CommandReceived, 160)"
    by code_simp
  have "apply_receipt_evidence sample_command sample_dispatched sample_receipt
      ExecutionCommandStatus.CommandReceived = Inr (Applied sample_received)"
    using sample_valid(3)
    by (simp add: apply_receipt_evidence_def bump_version_def checked_add_i64_def i64_min_def
        i64_max_def transition_is_allowed_def sample_receipt_def sample_dispatched_def
        sample_created_def sample_received_def)
  then show ?thesis
    using transition_checked(1) [OF sample_valid(2) target, of sample_receipt]
    by (simp add: fill_predates_creation_def receipt_evidence_def sample_dispatched_def
        sample_created_def)
qed

lemma sample_reject:
  "transition_command sample_command sample_received (CommandEvidence.ExecutionEvent sample_rejection) =
     Inr (Applied sample_rejected)"
proof (rule transition_advanceI [OF sample_valid(3)])
  have "\<not> trim_is_empty ''exec-1''" by code_simp
  then show "evidence_target sample_command (CommandEvidence.ExecutionEvent sample_rejection) =
      Inr (ExecutionCommandStatus.Rejected, 170)"
    by (simp add: evidence_target_ok evidence_target_unchecked_def validate_execution_event_def
        event_identity_differs_def event_is_fill_def sample_rejection_def sample_command_def)
  show "bump_version sample_received 170 = Inr 170"
    by (simp add: bump_version_ok i64_min_def i64_max_def sample_eval)
  show "validate_command_state sample_command sample_rejected = Inr ()" by (rule sample_valid)
qed (simp add: sample_eval)+

lemma sample_lifecycle: "lifecycle sample_command sample_rejected"
  by (rule lifecycle.step [OF lifecycle.step [OF lifecycle.step [OF
        lifecycle.start [OF sample_initial] sample_dispatch] sample_receive] sample_reject])

section \<open>Properties\<close>

theorem replay_duplicate_witness:
  "transition_command sample_command sample_received (ReceivedRecorded sample_receipt) =
     Inr (CommandTransitionOutcome.Duplicate sample_received)"
  by (rule replay_duplicate [OF sample_receive])

text \<open>C3: A command's lifecycle is finite and bounded. However much evidence arrives, in whatever
  order, with refused and duplicate pieces in between, at most ten pieces are ever applied to a
  command's state.\<close>

theorem lifecycle_bounded: "snd (run_evidence command state evidence) \<le> 10"
proof -
  obtain s n where run: "run_evidence command state evidence = (s, n)"
    by (cases "run_evidence command state evidence")
  from run_evidence_progress [OF run] lifecycle_progress_bound [of s] run show ?thesis by simp
qed

text \<open>Every applied step moves the state's version (\<open>updated_at\<close>, the CAS token of the
  store) strictly forward, keeps the command's identity and creation time, and leaves a state that
  \<open>validate_command_state\<close> accepts.\<close>

theorem applied_advances_version:
  assumes step: "transition_command command state evidence = Inr (Applied next)"
  shows "cs_updated_at state < cs_updated_at next \<and> belongs_to command next
    \<and> cs_created_at next = cs_created_at state \<and> validate_command_state command next = Inr ()"
proof -
  have "cs_updated_at state < cs_updated_at next"
    using step
  proof (cases rule: transition_Applied_cases)
    case (advance target at u recorded)
    then have "cs_updated_at next = u" using record_evidence_frame [OF advance(8)] by auto
    with advance(7) show ?thesis by (simp add: bump_version_ok)
  qed (simp_all add: bump_version_ok)
  with transition_Applied_valid [OF step] transition_Applied_frame [OF step] show ?thesis
    by (simp add: validate_command_state_iff)
qed

theorem applied_advances_version_witness:
  "cs_updated_at sample_created < cs_updated_at sample_dispatched
   \<and> belongs_to sample_command sample_dispatched
   \<and> cs_created_at sample_dispatched = cs_created_at sample_created
   \<and> validate_command_state sample_command sample_dispatched = Inr ()"
  by (rule applied_advances_version [OF sample_dispatch])

text \<open>C6: A terminal state is final. Evidence for a command in a terminal status is refused, or it is a duplicate
  and the state stays as it is, or it is the first receipt of the command, checked against it, that comes late: then the
  receipt's time is recorded and the version moves on, and no other field of the state changes, not the status, the completion time, the
  delivery attempts, the delivery error or the reconciliation time.\<close>

theorem terminal_is_final:
  assumes terminal: "command_status_is_terminal (cs_status state)"
    and step: "transition_command command state evidence = Inr outcome"
  shows "outcome = CommandTransitionOutcome.Duplicate state
    \<or> (\<exists>received. receipt_evidence evidence = Some received \<and> cs_command_received_at state = None
        \<and> evidence_target command evidence = Inr (ExecutionCommandStatus.CommandReceived, cr_received_at received)
        \<and> outcome = Applied (state\<lparr>cs_command_received_at := Some (cr_received_at received),
            cs_updated_at := max (cs_updated_at state + 1) (cr_received_at received)\<rparr>))"
proof (cases outcome)
  case (Applied "next")
  with step have applied: "transition_command command state evidence = Inr (Applied next)" by simp
  then show ?thesis
  proof (cases rule: transition_Applied_cases)
    case (late received u)
    obtain target at where target: "evidence_target command evidence = Inr (target, at)"
      using applied by (auto simp: transition_command_def result_simps)
    have "target = ExecutionCommandStatus.CommandReceived \<and> at = cr_received_at received"
      using target late(1) by (auto simp: evidence_target_ok evidence_target_unchecked_def receipt_evidence_def result_simps
          split: CommandEvidence.splits if_splits)
    then show ?thesis using Applied late target by (simp add: bump_version_ok)
  qed (use terminal_no_targets [OF terminal] in auto)
next
  case (Duplicate "next")
  with step transition_Duplicate_state show ?thesis by auto
qed

definition sample_lost :: ExecutionCommandState where
  "sample_lost = sample_dispatched\<lparr>cs_status := ExecutionCommandStatus.Failed, cs_completed_at := Some 155,
     cs_updated_at := 155\<rparr>"

definition sample_lost_received :: ExecutionCommandState where
  "sample_lost_received = sample_lost\<lparr>cs_command_received_at := Some 160, cs_updated_at := 160\<rparr>"

lemma sample_late_receipt:
  "transition_command sample_command sample_lost (ReceivedRecorded sample_receipt) = Inr (Applied sample_lost_received)"
proof -
  have target: "evidence_target sample_command (ReceivedRecorded sample_receipt) =
      Inr (ExecutionCommandStatus.CommandReceived, 160)"
    by code_simp
  have valid: "validate_command_state sample_command sample_lost = Inr ()"
    "validate_command_state sample_command sample_lost_received = Inr ()"
    using sample_command_ok
    by (simp_all add: validate_command_state_iff belongs_to_def timestamp_in_version_def evidence_fits_status_def
        requires_dispatch_def sample_lost_def sample_lost_received_def sample_eval sample_command_def)
  have "apply_receipt_evidence sample_command sample_lost sample_receipt ExecutionCommandStatus.CommandReceived
      = Inr (Applied sample_lost_received)"
    using valid(2)
    by (simp add: apply_receipt_evidence_def bump_version_def checked_add_i64_def i64_min_def i64_max_def
        transition_is_allowed_def keeps_late_receipt_def sample_receipt_def sample_lost_def sample_lost_received_def
        sample_dispatched_def sample_created_def)
  then show ?thesis
    using transition_checked(1) [OF valid(1) target, of sample_receipt]
    by (simp add: fill_predates_creation_def receipt_evidence_def sample_lost_def sample_dispatched_def sample_created_def)
qed

theorem terminal_is_final_witness:
  "sample_lost_received = sample_lost\<lparr>cs_command_received_at := Some (cr_received_at sample_receipt),
     cs_updated_at := max (cs_updated_at sample_lost + 1) (cr_received_at sample_receipt)\<rparr>"
proof -
  have "command_status_is_terminal (cs_status sample_lost)"
    by (simp add: sample_lost_def command_status_is_terminal_def)
  from terminal_is_final [OF this sample_late_receipt] show ?thesis by (simp add: receipt_evidence_def)
qed

text \<open>C4: A command is dispatched at most once and before it expires: in every state a lifecycle reaches,
  \<open>delivery_attempts\<close> is at most one, and a recorded dispatch lies between the creation and the expiry.\<close>

theorem lifecycle_dispatched_once:
  assumes "lifecycle command state"
  shows "cs_delivery_attempts state \<le> 1
    \<and> (\<forall>d. cs_dispatched_at state = Some d \<longrightarrow>
         cs_created_at state \<le> d \<and> d < ec_expires_at command)"
  using lifecycle_dispatch_inv [OF assms] lifecycle_valid [OF assms]
  by (auto simp: dispatch_inv_def validate_command_state_iff timestamp_in_version_def)

theorem lifecycle_dispatched_once_witness:
  "cs_delivery_attempts sample_rejected \<le> 1 \<and> cs_dispatched_at sample_rejected = Some 150
   \<and> cs_created_at sample_rejected \<le> 150 \<and> 150 < ec_expires_at sample_command"
  using lifecycle_dispatched_once [OF sample_lifecycle] by (simp add: sample_eval)

text \<open>The architecture document lists \<open>DISPATCHED \<rightarrow> DELIVERY_FAILED\<close> among the transitions of a command
  (\<open>docs/quant_trading_7_layer_target_architecture.md\<close>, Execution State Transition Rules). The code has no evidence for it and the
  table of \<open>transition_is_allowed\<close> no such edge: no lifecycle reaches \<open>DELIVERY_FAILED\<close>.\<close>

theorem delivery_failed_unreachable:
  "lifecycle command state \<Longrightarrow> cs_status state \<noteq> ExecutionCommandStatus.DeliveryFailed"
  using lifecycle_dispatch_inv by (auto simp: dispatch_inv_def)

text \<open>C5: Broker facts come from execution events only. When an applied step moves a command to
  \<open>ACCEPTED\<close>, \<open>REJECTED\<close>, \<open>ORDER_SENT\<close>, \<open>PARTIALLY_FILLED\<close>, \<open>FILLED\<close> or \<open>FAILED\<close>, the evidence
  was an execution event with that status which passed validation against the command; delivery,
  receipt, reconciliation and local time evidence cannot do it.\<close>

theorem broker_status_needs_event:
  assumes step: "transition_command command state evidence = Inr (Applied next)"
    and changed: "cs_status next \<noteq> cs_status state"
    and broker: "cs_status next \<in> {ExecutionCommandStatus.Accepted, ExecutionCommandStatus.Rejected,
      ExecutionCommandStatus.OrderSent, ExecutionCommandStatus.PartiallyFilled,
      ExecutionCommandStatus.Filled, ExecutionCommandStatus.Failed}"
  shows "\<exists>event. evidence = CommandEvidence.ExecutionEvent event
    \<and> event_status (ev_status event) = cs_status next
    \<and> validate_execution_event command event = Inr ()"
  using step
proof (cases rule: transition_Applied_cases)
  case (advance target at u recorded)
  then have "cs_status next = target" using record_evidence_frame [OF advance(8)] by auto
  with broker advance(2) show ?thesis
    by (auto simp: evidence_target_ok evidence_target_unchecked_def result_simps
        split: CommandEvidence.splits if_splits)
qed (use changed broker in auto)

theorem broker_status_needs_event_witness:
  "\<exists>event. CommandEvidence.ExecutionEvent sample_rejection = CommandEvidence.ExecutionEvent event
    \<and> event_status (ev_status event) = cs_status sample_rejected
    \<and> validate_execution_event sample_command event = Inr ()"
  by (rule broker_status_needs_event [OF sample_reject]) (simp_all add: sample_eval)

end
