(* ===== verification/Execution_Plan.thy ===== *)
theory Execution_Plan
  imports Dto
begin

text \<open>
  Validation of execution plans in \<open>crates/types/src/dto.rs\<close>: \<open>ExecutionLeg::validate\<close>,
  \<open>ExecutionPlan::validate\<close>, the status derived from the legs, and the dependency check, which is
  Kahn's topological sort over hash maps. A hash map is a map here; the order in which its entries
  are iterated is the argument \<open>order\<close> of the dependency check, and \<open>dependencies_correct\<close> shows that
  the result does not depend on it. \<open>None\<close> is a panic (\<open>expect\<close>, or the subtraction below zero) or a
  loop that does not end; \<open>dependencies_correct\<close> shows that it does not occur.
\<close>

section \<open>Validation errors and field checks\<close>

record ExecutionPlanValidationError =
  epve_field :: string
  epve_reason :: string

definition plan_error :: "string \<Rightarrow> string \<Rightarrow> ExecutionPlanValidationError" where
  "plan_error field reason = \<lparr>epve_field = field, epve_reason = reason\<rparr>"

type_synonym 'a plan_result = "(ExecutionPlanValidationError, 'a) result"

definition validate_execution_non_empty :: "string \<Rightarrow> string \<Rightarrow> unit plan_result" where
  "validate_execution_non_empty field value =
     (if trim_is_empty value then Inl (plan_error field ''must not be empty'') else Inr ())"

definition validate_execution_positive :: "string \<Rightarrow> f64 \<Rightarrow> unit plan_result" where
  "validate_execution_positive field value =
     (if f64_is_finite value \<and> f64_lt f64_zero value then Inr ()
      else Inl (plan_error field ''must be positive and finite''))"

definition ExecutionLeg_validate :: "ExecutionLeg \<Rightarrow> unit plan_result" where
  "ExecutionLeg_validate leg = (let d = leg_definition leg in
     bindR (validate_execution_non_empty ''legs[].leg_id'' (eld_leg_id d)) (\<lambda>_.
     bindR (validate_execution_non_empty ''legs[].symbol'' (eld_symbol d)) (\<lambda>_.
     bindR (validate_execution_positive ''legs[].ratio'' (eld_ratio d)) (\<lambda>_.
     bindR (check_each (\<lambda>(field, value). case value of None \<Rightarrow> Inr ()
         | Some value \<Rightarrow> validate_execution_positive field value)
       [(''legs[].lots'', eld_lots d), (''legs[].sl'', eld_sl d), (''legs[].tp'', eld_tp d)]) (\<lambda>_.
     if (eld_action d = ExecutionAction.Buy \<or> eld_action d = ExecutionAction.Sell) \<and> eld_lots d = None
       then Inl (plan_error ''legs[].lots'' ''is required for BUY/SELL'')
     else Inr ())))))"

section \<open>Derived status\<close>

abbreviation leg_id_of :: "ExecutionLeg \<Rightarrow> LegId" where
  "leg_id_of leg \<equiv> eld_leg_id (leg_definition leg)"

abbreviation leg_deps_of :: "ExecutionLeg \<Rightarrow> LegId list" where
  "leg_deps_of leg \<equiv> eld_dependency (leg_definition leg)"

abbreviation leg_status_of :: "ExecutionLeg \<Rightarrow> ExecutionLegStatus" where
  "leg_status_of leg \<equiv> els_status (leg_state leg)"

definition leg_status_is_terminal :: "ExecutionLegStatus \<Rightarrow> bool" where
  "leg_status_is_terminal status \<longleftrightarrow> status \<in> {ExecutionLegStatus.Rejected, ExecutionLegStatus.Filled,
     ExecutionLegStatus.Failed, ExecutionLegStatus.Expired, ExecutionLegStatus.Cancelled}"

definition leg_status_is_filled :: "ExecutionLegStatus \<Rightarrow> bool" where
  "leg_status_is_filled status \<longleftrightarrow>
     status = ExecutionLegStatus.PartiallyFilled \<or> status = ExecutionLegStatus.Filled"

definition leg_status_is_failed :: "ExecutionLegStatus \<Rightarrow> bool" where
  "leg_status_is_failed status \<longleftrightarrow>
     status = ExecutionLegStatus.Rejected \<or> status = ExecutionLegStatus.Failed"

definition derive_execution_plan_status :: "ExecutionLeg list \<Rightarrow> ExecutionPlanStatus" where
  "derive_execution_plan_status legs =
     (if legs = [] then ExecutionPlanStatus.Pending
      else let all_are = (\<lambda>status. list_all (\<lambda>leg. leg_status_of leg = status) legs);
          any = (\<lambda>predicate. list_ex (\<lambda>leg. predicate (leg_status_of leg)) legs);
          all_terminal = list_all (\<lambda>leg. leg_status_is_terminal (leg_status_of leg)) legs;
          any_filled = any (\<lambda>status. status = ExecutionLegStatus.Filled);
          any_partial = any (\<lambda>status. status = ExecutionLegStatus.PartiallyFilled)
        in if all_are ExecutionLegStatus.Filled then ExecutionPlanStatus.Completed
        else if all_are ExecutionLegStatus.Cancelled then ExecutionPlanStatus.Cancelled
        else if all_are ExecutionLegStatus.Expired then ExecutionPlanStatus.Expired
        else if any (\<lambda>status. status = ExecutionLegStatus.ManualReconciliationRequired)
          then ExecutionPlanStatus.ManualReconciliationRequired
        else if any_partial \<or> (any_filled \<and> \<not> all_are ExecutionLegStatus.Filled)
          then ExecutionPlanStatus.Partial
        else if all_terminal then ExecutionPlanStatus.Failed
        else if any (\<lambda>status. status = ExecutionLegStatus.DeliveryUnconfirmed
            \<or> status = ExecutionLegStatus.Reconciling)
          then ExecutionPlanStatus.Reconciling
        else ExecutionPlanStatus.Pending)"

section \<open>Dependencies\<close>

type_synonym indegrees = "LegId \<rightharpoonup> usize"
type_synonym outgoings = "LegId \<rightharpoonup> LegId list"

text \<open>The loop over one leg's dependencies; \<open>seen\<close> is the hash set \<open>dependencies\<close>.\<close>

primrec index_dependencies ::
  "LegId \<Rightarrow> LegId set \<Rightarrow> LegId set \<Rightarrow> LegId list \<Rightarrow> indegrees \<Rightarrow> outgoings \<Rightarrow>
   (indegrees \<times> outgoings) plan_result option" where
  "index_dependencies leg_id ids seen [] indegree outgoing = Some (Inr (indegree, outgoing))"
| "index_dependencies leg_id ids seen (dependency # rest) indegree outgoing =
     (if dependency = leg_id \<or> dependency \<notin> ids \<or> dependency \<in> seen
        then Some (Inl (plan_error ''legs[].dependency''
          ''must be unique, known, and not self-referential''))
      else case indegree leg_id of
        None \<Rightarrow> None
      | Some n \<Rightarrow> index_dependencies leg_id ids (insert dependency seen) rest
          (indegree(leg_id \<mapsto> n + 1))
          (outgoing(dependency \<mapsto> (case outgoing dependency of None \<Rightarrow> [] | Some l \<Rightarrow> l) @ [leg_id])))"

primrec index_legs ::
  "LegId set \<Rightarrow> ExecutionLeg list \<Rightarrow> indegrees \<Rightarrow> outgoings \<Rightarrow>
   (indegrees \<times> outgoings) plan_result option" where
  "index_legs ids [] indegree outgoing = Some (Inr (indegree, outgoing))"
| "index_legs ids (leg # legs) indegree outgoing =
     (case index_dependencies (leg_id_of leg) ids {} (leg_deps_of leg) indegree outgoing of
        None \<Rightarrow> None
      | Some (Inl e) \<Rightarrow> Some (Inl e)
      | Some (Inr (indegree', outgoing')) \<Rightarrow> index_legs ids legs indegree' outgoing')"

text \<open>The inner loop of the traversal: decrement each target, enqueue those that reach zero.\<close>

primrec release_targets ::
  "LegId list \<Rightarrow> indegrees \<Rightarrow> LegId list \<Rightarrow> (indegrees \<times> LegId list) option" where
  "release_targets [] indegree queue = Some (indegree, queue)"
| "release_targets (target # targets) indegree queue =
     (case indegree target of
        None \<Rightarrow> None
      | Some n \<Rightarrow> if n = 0 then None
          else release_targets targets (indegree(target \<mapsto> n - 1))
            (if n - 1 = 0 then queue @ [target] else queue))"

partial_function (option) traverse ::
  "outgoings \<Rightarrow> LegId list \<Rightarrow> indegrees \<Rightarrow> usize \<Rightarrow> usize option" where
  "traverse outgoing queue indegree visited =
     (case queue of
        [] \<Rightarrow> Some visited
      | leg_id # rest \<Rightarrow>
          (case release_targets (case outgoing leg_id of None \<Rightarrow> [] | Some l \<Rightarrow> l) indegree rest of
             None \<Rightarrow> None
           | Some (indegree', queue') \<Rightarrow> traverse outgoing queue' indegree' (visited + 1)))"

definition validate_execution_dependencies ::
  "LegId list \<Rightarrow> ExecutionLeg list \<Rightarrow> LegId set \<Rightarrow> unit plan_result option" where
  "validate_execution_dependencies order legs ids =
     (case index_legs ids legs (\<lambda>leg_id. if leg_id \<in> ids then Some 0 else None) Map.empty of
        None \<Rightarrow> None
      | Some (Inl e) \<Rightarrow> Some (Inl e)
      | Some (Inr (indegree, outgoing)) \<Rightarrow>
          (case traverse outgoing (filter (\<lambda>leg_id. indegree leg_id = Some 0) order) indegree 0 of
             None \<Rightarrow> None
           | Some visited \<Rightarrow>
               Some (if visited \<noteq> card ids
                 then Inl (plan_error ''legs[].dependency'' ''must form an acyclic graph'')
                 else Inr ())))"

section \<open>Plan validation\<close>

definition validate_execution_summary ::
  "string \<Rightarrow> LegId list \<Rightarrow> ExecutionLeg list \<Rightarrow> (ExecutionLegStatus \<Rightarrow> bool) \<Rightarrow> unit plan_result" where
  "validate_execution_summary field summary legs expected =
     (let derived = map leg_id_of (filter (\<lambda>leg. expected (leg_status_of leg)) legs)
      in if length summary \<noteq> length derived
          \<or> list_ex (\<lambda>(actual, expected). actual \<noteq> expected) (zip summary derived)
        then Inl (plan_error field ''must exactly match projected legs in plan order'')
        else Inr ())"

primrec validate_legs :: "LegId set \<Rightarrow> ExecutionLeg list \<Rightarrow> LegId set plan_result" where
  "validate_legs ids [] = Inr ids"
| "validate_legs ids (leg # legs) =
     bindR (ExecutionLeg_validate leg) (\<lambda>_.
     if leg_id_of leg \<in> ids
       then Inl (plan_error ''legs[].leg_id'' (''must be unique; duplicate '' @ leg_id_of leg))
     else validate_legs (insert (leg_id_of leg) ids) legs)"

definition validate_plan_head :: "ExecutionPlan \<Rightarrow> LegId set plan_result" where
  "validate_plan_head plan =
     bindR (validate_execution_non_empty ''plan_id'' (epd_plan_id (plan_definition plan))) (\<lambda>_.
     bindR (validate_execution_non_empty ''account_id'' (epd_account_id (plan_definition plan))) (\<lambda>_.
     bindR (validate_execution_non_empty ''strategy_id'' (epd_strategy_id (plan_definition plan))) (\<lambda>_.
     if plan_legs plan = [] then Inl (plan_error ''legs'' ''must not be empty'')
     else bindR (validate_legs {} (plan_legs plan)) (\<lambda>ids.
     if epd_mode (plan_definition plan) = ExecutionPlanMode.Simultaneous
         \<and> list_ex (\<lambda>leg. leg_deps_of leg \<noteq> []) (plan_legs plan)
       then Inl (plan_error ''legs[].dependency'' ''must be empty for simultaneous plans'')
     else Inr ids))))"

definition validate_plan_projection :: "ExecutionPlan \<Rightarrow> unit plan_result" where
  "validate_plan_projection plan =
     bindR (validate_execution_summary ''filled_legs'' (eps_filled_legs (plan_state plan))
       (plan_legs plan) leg_status_is_filled) (\<lambda>_.
     bindR (validate_execution_summary ''failed_legs'' (eps_failed_legs (plan_state plan))
       (plan_legs plan) leg_status_is_failed) (\<lambda>_.
     let expected_status = derive_execution_plan_status (plan_legs plan)
     in if eps_status (plan_state plan) \<noteq> expected_status
       then Inl (plan_error ''status'' (''must be '' @
         enum_as_str ExecutionPlanStatus_table expected_status @ '' for the current leg projections''))
     else Inr ()))"

text \<open>
  The iteration order of the hash map is taken to be the order of the legs; any other order gives
  the same result.
\<close>

definition ExecutionPlan_validate :: "ExecutionPlan \<Rightarrow> unit plan_result option" where
  "ExecutionPlan_validate plan =
     (case validate_plan_head plan of
        Inl e \<Rightarrow> Some (Inl e)
      | Inr ids \<Rightarrow>
     (case validate_execution_dependencies (map leg_id_of (plan_legs plan)) (plan_legs plan) ids of
        None \<Rightarrow> None
      | Some (Inl e) \<Rightarrow> Some (Inl e)
      | Some (Inr _) \<Rightarrow> Some (validate_plan_projection plan)))"

end
