(* ===== verification/Builder.thy ===== *)
theory Builder
  imports Risk_Model Signing Execution_State Execution_Plan
begin

text \<open>
  The execution builder (\<open>crates/execution/src/builder.rs\<close>): from an approved risk result and the
  resolved legs to a plan, its signed commands and their initial states. A \<open>HashMap\<close> is a map; the
  order in which the topology check visits its entries is the argument \<open>order\<close>. \<open>None\<close> is a panic:
  the index operator of \<open>HashMap\<close> on a missing key, or a panic of the traversal.
\<close>

section \<open>Requests and outcomes\<close>

record ResolvedLegExecution =
  rle_leg_id :: LegId
  rle_dependency :: "LegId list"
  rle_command_id :: CommandId
  rle_idempotency_key :: IdempotencyKey
  rle_terminal_id :: "TerminalId option"
  rle_client_id :: "ClientId option"
  rle_order_type :: OrderType
  rle_price :: "f64 option"
  rle_deviation_points :: "i64 option"
  rle_magic :: i64
  rle_comment :: "string option"
  rle_filling_policy :: "FillingPolicy option"
  rle_time_policy :: "TimePolicy option"
  rle_expiration_time :: "i64 option"

record ExecutionBuildRequest =
  ebr_plan_id :: PlanId
  ebr_now_ms :: i64
  ebr_risk_request :: RiskRequest
  ebr_risk_result :: RiskResult
  ebr_policy :: ExecutionPolicy
  ebr_resolved_legs :: "ResolvedLegExecution list"
  ebr_signing_secret :: "nat list"

record ExecutionBundle =
  eb_plan :: ExecutionPlan
  eb_commands :: "ExecutionCommand list"
  eb_command_states :: "ExecutionCommandState list"

datatype ExecutionBuildOutcome = NoOp | Built ExecutionBundle

datatype ExecutionBuildError = InvalidInput string string | RiskNotApproved string
  | RequiresReRisk string | SigningFailed SigningError | InitialState CommandTransitionError

type_synonym 'a build = "(ExecutionBuildError, 'a) result option"

definition build_non_empty :: "string \<Rightarrow> string \<Rightarrow> (ExecutionBuildError, unit) result" where
  "build_non_empty field value =
     (if trim_is_empty value then Inl (InvalidInput field ''must not be empty'') else Inr ())"

definition optional_non_empty :: "string \<Rightarrow> string option \<Rightarrow> (ExecutionBuildError, unit) result" where
  "optional_non_empty field value =
     (if (case value of None \<Rightarrow> False | Some v \<Rightarrow> trim_is_empty v)
        then Inl (InvalidInput field ''must not be empty when present'') else Inr ())"

definition same_f64 :: "f64 \<Rightarrow> f64 \<Rightarrow> bool" where
  "same_f64 left right \<longleftrightarrow> f64_is_finite left \<and> f64_is_finite right \<and> left = right"

section \<open>Common checks\<close>

definition result_identity_differs :: "RiskRequest \<Rightarrow> RiskResult \<Rightarrow> bool" where
  "result_identity_differs request result \<longleftrightarrow>
     rr_risk_id result \<noteq> rq_risk_id request \<or> rr_request_id result \<noteq> rq_request_id request
   \<or> rr_intent_id result \<noteq> ti_intent_id (rq_intent request)
   \<or> rr_account_id result \<noteq> ti_account_id (rq_intent request)
   \<or> rr_decision_id result \<noteq> ti_decision_id (rq_intent request)
   \<or> rr_evaluated_at result \<noteq> rq_evaluated_at request"

definition validate_common ::
  "request_hashing \<Rightarrow> ExecutionBuildRequest \<Rightarrow> unit build" where
  "validate_common H request = (let policy = ebr_policy request; result = ebr_risk_result request;
       risk_request = ebr_risk_request request; now = ebr_now_ms request in
     bindP (Some (build_non_empty ''plan_id'' (ebr_plan_id request))) (\<lambda>_.
     if now < 0 then Some (Inl (InvalidInput ''now_ms'' ''must be a non-negative server timestamp''))
     else if epol_timeout_ms policy \<le> 0 \<or> epol_max_command_ttl_ms policy \<le> 0
       then Some (Inl (InvalidInput ''policy'' ''timeout_ms and max_command_ttl_ms must be positive''))
     else if (case epol_rollback_policy policy of None \<Rightarrow> None | Some p \<Rightarrow> rp_max_retry_attempts p) = Some 0
       then Some (Inl (InvalidInput ''rollback_policy.max_retry_attempts'' ''must be positive when present''))
     else if ebr_signing_secret request = [] then Some (Inl (InvalidInput ''signing_secret'' ''must not be empty''))
     else bindP (map_option (map_err (\<lambda>error. InvalidInput (rve_field error) (rve_reason error)))
       (RiskResult_validate result)) (\<lambda>_.
     if \<not> rr_approved result then Some (Inl (RiskNotApproved (ErrorCodeOrString_as_str (rr_reason result))))
     else if result_identity_differs risk_request result
       then Some (Inl (RequiresReRisk ''risk result identity does not match its request''))
     else if risk_request_hash H risk_request \<noteq> rr_risk_request_hash result
       then Some (Inl (RequiresReRisk ''risk request hash does not match the approval''))
     else if now < rr_evaluated_at result \<or> rr_valid_until result \<le> now
       then Some (Inl (RequiresReRisk ''risk approval is not currently valid''))
     else Some (Inr ()))))"

section \<open>Legs of the intent\<close>

record IntentLeg =
  il_leg_id :: LegId
  il_symbol :: SymbolCode
  il_action :: ExecutionAction
  il_ratio :: f64
  il_tp :: "f64 option"

primrec proposed_intent_legs :: "TradeIntentLeg list \<Rightarrow> (ExecutionBuildError, IntentLeg list) result" where
  "proposed_intent_legs [] = Inr []"
| "proposed_intent_legs (leg # legs) =
     bindR (case til_action leg of
         TradeIntentLegAction.Buy \<Rightarrow> Inr ExecutionAction.Buy
       | TradeIntentLegAction.Sell \<Rightarrow> Inr ExecutionAction.Sell
       | TradeIntentLegAction.Close \<Rightarrow>
           Inl (RiskNotApproved (''CLOSE leg '' @ til_leg_id leg @ '' is not executable in v1''))) (\<lambda>action.
     bindR (proposed_intent_legs legs) (\<lambda>rest.
     Inr (\<lparr>il_leg_id = til_leg_id leg, il_symbol = til_symbol leg, il_action = action,
       il_ratio = til_ratio leg, il_tp = til_proposed_tp leg\<rparr> # rest)))"

definition intent_legs :: "RiskRequest \<Rightarrow> (ExecutionBuildError, IntentLeg list) result" where
  "intent_legs request = (let intent = rq_intent request in
     case ti_proposed_legs intent of
       Some legs \<Rightarrow> proposed_intent_legs legs
     | None \<Rightarrow>
       bindR (case ti_action intent of
           TradeIntentAction.Buy \<Rightarrow> Inr ExecutionAction.Buy
         | TradeIntentAction.Sell \<Rightarrow> Inr ExecutionAction.Sell
         | _ \<Rightarrow> Inl (RiskNotApproved ''only BUY/SELL can produce an actionable plan'')) (\<lambda>action.
       case find (\<lambda>candidate. psc_leg_id candidate = single_leg_id (ti_intent_id intent))
           (rq_sizing_candidates request) of
         None \<Rightarrow> Inl (RequiresReRisk ''single leg candidate missing'')
       | Some candidate \<Rightarrow> Inr [\<lparr>il_leg_id = psc_leg_id candidate, il_symbol = ti_symbol intent,
           il_action = action, il_ratio = f64_one, il_tp = ti_proposed_tp intent\<rparr>]))"

section \<open>Topology\<close>

text \<open>The loop over one resolved leg's dependencies; \<open>seen\<close> is the set \<open>unique\<close>.\<close>

primrec topology_dependencies ::
  "LegId \<Rightarrow> LegId set \<Rightarrow> LegId set \<Rightarrow> LegId list \<Rightarrow> indegrees \<times> outgoings \<Rightarrow>
   (ExecutionBuildError, indegrees \<times> outgoings) result" where
  "topology_dependencies leg_id ids seen [] graph = Inr graph"
| "topology_dependencies leg_id ids seen (dependency # rest) graph =
     (if dependency = leg_id \<or> dependency \<notin> ids \<or> dependency \<in> seen
        then Inl (InvalidInput ''resolved_legs[].dependency''
          ''dependencies must be unique, known, and cannot reference the same leg'')
      else topology_dependencies leg_id ids (insert dependency seen) rest
        ((fst graph)(leg_id \<mapsto> (case fst graph leg_id of None \<Rightarrow> 0 | Some n \<Rightarrow> n) + 1),
         (snd graph)(dependency \<mapsto> (case snd graph dependency of None \<Rightarrow> [] | Some l \<Rightarrow> l) @ [leg_id])))"

primrec topology_legs ::
  "LegId set \<Rightarrow> ResolvedLegExecution list \<Rightarrow> indegrees \<times> outgoings \<Rightarrow>
   (ExecutionBuildError, indegrees \<times> outgoings) result" where
  "topology_legs ids [] graph = Inr graph"
| "topology_legs ids (leg # legs) graph =
     bindR (topology_dependencies (rle_leg_id leg) ids {} (rle_dependency leg) graph) (topology_legs ids legs)"

definition validate_topology ::
  "LegId list \<Rightarrow> ExecutionPlanMode \<Rightarrow> IntentLeg list \<Rightarrow> ResolvedLegExecution list \<Rightarrow> unit build" where
  "validate_topology order mode legs resolved = (let ids = set (map il_leg_id legs) in
     if card ids \<noteq> length legs
       then Some (Inl (InvalidInput ''legs[].leg_id'' ''must be globally unique within a plan''))
     else if mode = ExecutionPlanMode.Simultaneous \<and> list_ex (\<lambda>leg. rle_dependency leg \<noteq> []) resolved
       then Some (Inl (InvalidInput ''resolved_legs[].dependency'' ''simultaneous plans cannot contain dependencies''))
     else case topology_legs ids resolved (\<lambda>leg_id. if leg_id \<in> ids then Some 0 else None, Map.empty) of
       Inl error \<Rightarrow> Some (Inl error)
     | Inr (indegree, outgoing) \<Rightarrow>
         (case traverse outgoing (filter (\<lambda>leg_id. indegree leg_id = Some 0) order) indegree 0 of
            None \<Rightarrow> None
          | Some visited \<Rightarrow> Some (if visited \<noteq> card ids
              then Inl (InvalidInput ''resolved_legs[].dependency'' ''dependency graph must be acyclic'')
              else Inr ())))"

section \<open>Indexes\<close>

primrec index_by ::
  "('x \<Rightarrow> 'k) \<Rightarrow> ('x \<Rightarrow> 'e) \<Rightarrow> 'x list \<Rightarrow> ('k \<rightharpoonup> 'x) \<Rightarrow> ('e, 'k \<rightharpoonup> 'x) result" where
  "index_by key duplicate [] m = Inr m"
| "index_by key duplicate (x # xs) m =
     (if m (key x) \<noteq> None then Inl (duplicate x) else index_by key duplicate xs (m(key x \<mapsto> x)))"

definition index_adjusted_legs ::
  "RiskResult \<Rightarrow> IntentLeg list \<Rightarrow> (ExecutionBuildError, LegId \<rightharpoonup> AdjustedRiskLeg) result" where
  "index_adjusted_legs result legs = (case rr_adjusted_legs result of
     None \<Rightarrow> Inl (RiskNotApproved ''approved actionable result has no legs'')
   | Some adjusted \<Rightarrow>
       if length adjusted \<noteq> length legs
         then Inl (RequiresReRisk ''approved and intended leg counts differ'')
       else index_by arl_leg_id (\<lambda>leg. RequiresReRisk (''duplicate approved leg '' @ arl_leg_id leg))
         adjusted Map.empty)"

definition candidate_changed :: "SizingCandidateProvenance \<Rightarrow> PositionSizingCandidate \<Rightarrow> bool" where
  "candidate_changed bound candidate \<longleftrightarrow>
     scp_symbol bound \<noteq> psc_symbol candidate \<or> scp_action bound \<noteq> psc_action candidate
   \<or> \<not> same_f64 (scp_ratio bound) (psc_ratio candidate)
   \<or> \<not> same_f64 (scp_worst_entry_price bound) (psc_worst_entry_price candidate)
   \<or> \<not> same_f64 (scp_stop_loss_price bound) (psc_stop_loss_price candidate)
   \<or> \<not> same_f64 (scp_estimated_cost_per_lot bound) (psc_estimated_cost_per_lot candidate)"

definition validate_result_candidates ::
  "RiskRequest \<Rightarrow> RiskResult \<Rightarrow> (ExecutionBuildError, unit) result" where
  "validate_result_candidates request result = (case rr_sizing_candidates result of
     None \<Rightarrow> Inl (RiskNotApproved ''approved actionable result has no candidates'')
   | Some approved \<Rightarrow>
       if length approved \<noteq> length (rq_sizing_candidates request)
         then Inl (RequiresReRisk ''approved candidate set differs from risk request'')
       else check_each (\<lambda>candidate.
         case find (\<lambda>bound. scp_leg_id bound = psc_leg_id candidate) approved of
           None \<Rightarrow> Inl (RequiresReRisk (''candidate '' @ psc_leg_id candidate @ '' is not bound to the approval''))
         | Some bound \<Rightarrow> if candidate_changed bound candidate
             then Inl (RequiresReRisk (''candidate '' @ psc_leg_id candidate @ '' changed after approval''))
             else Inr ()) (rq_sizing_candidates request))"

primrec metadata_of_legs ::
  "AccountId \<Rightarrow> (SymbolCode \<rightharpoonup> SymbolMetadataSnapshot) \<Rightarrow> IntentLeg list \<Rightarrow> (LegId \<rightharpoonup> SymbolMetadataSnapshot) \<Rightarrow>
   (ExecutionBuildError, LegId \<rightharpoonup> SymbolMetadataSnapshot) result" where
  "metadata_of_legs account by_symbol [] m = Inr m"
| "metadata_of_legs account by_symbol (leg # legs) m = (case by_symbol (il_symbol leg) of
     None \<Rightarrow> Inl (RequiresReRisk (''metadata missing for '' @ il_symbol leg))
   | Some metadata \<Rightarrow>
       if sm_account_id metadata \<noteq> account \<or> trim_is_empty (sm_broker_symbol metadata)
         then Inl (RequiresReRisk (''metadata identity differs for '' @ il_symbol leg))
       else metadata_of_legs account by_symbol legs (m(il_leg_id leg \<mapsto> metadata)))"

definition index_metadata ::
  "RiskRequest \<Rightarrow> IntentLeg list \<Rightarrow> (ExecutionBuildError, LegId \<rightharpoonup> SymbolMetadataSnapshot) result" where
  "index_metadata request legs =
     bindR (index_by sm_symbol (\<lambda>metadata. RequiresReRisk (''duplicate metadata for '' @ sm_symbol metadata))
       (rq_symbol_metadata request) Map.empty) (\<lambda>by_symbol.
     metadata_of_legs (ti_account_id (rq_intent request)) by_symbol legs Map.empty)"

primrec index_resolved_legs ::
  "ResolvedLegExecution list \<Rightarrow> CommandId set \<Rightarrow> IdempotencyKey set \<Rightarrow> (LegId \<rightharpoonup> ResolvedLegExecution) \<Rightarrow>
   (ExecutionBuildError, LegId \<rightharpoonup> ResolvedLegExecution) result" where
  "index_resolved_legs [] command_ids keys m = Inr m"
| "index_resolved_legs (leg # legs) command_ids keys m =
     bindR (build_non_empty ''resolved_legs[].leg_id'' (rle_leg_id leg)) (\<lambda>_.
     bindR (build_non_empty ''resolved_legs[].command_id'' (rle_command_id leg)) (\<lambda>_.
     bindR (build_non_empty ''resolved_legs[].idempotency_key'' (rle_idempotency_key leg)) (\<lambda>_.
     bindR (optional_non_empty ''resolved_legs[].terminal_id'' (rle_terminal_id leg)) (\<lambda>_.
     bindR (optional_non_empty ''resolved_legs[].client_id'' (rle_client_id leg)) (\<lambda>_.
     if rle_command_id leg \<in> command_ids \<or> rle_idempotency_key leg \<in> keys \<or> m (rle_leg_id leg) \<noteq> None
       then Inl (InvalidInput ''resolved_legs'' ''leg, command, and idempotency identities must be unique'')
     else index_resolved_legs legs (insert (rle_command_id leg) command_ids)
       (insert (rle_idempotency_key leg) keys) (m(rle_leg_id leg \<mapsto> leg)))))))"

definition index_resolved ::
  "ResolvedLegExecution list \<Rightarrow> IntentLeg list \<Rightarrow> (ExecutionBuildError, LegId \<rightharpoonup> ResolvedLegExecution) result" where
  "index_resolved resolved legs =
     (if length resolved \<noteq> length legs
        then Inl (InvalidInput ''resolved_legs'' ''must correspond one-to-one with intended legs'')
      else index_resolved_legs resolved {} {} Map.empty)"

section \<open>One leg\<close>

definition positive_or :: "ExecutionBuildError \<Rightarrow> f64 \<Rightarrow> (ExecutionBuildError, unit) result" where
  "positive_or error value = (if \<not> f64_is_finite value \<or> f64_le value f64_zero then Inl error else Inr ())"

definition validate_entry_price ::
  "IntentLeg \<Rightarrow> AdjustedRiskLeg \<Rightarrow> ResolvedLegExecution \<Rightarrow> (ExecutionBuildError, unit) result" where
  "validate_entry_price intent approved resolved = (case rle_order_type resolved of
     OrderType.Market \<Rightarrow> if rle_price resolved \<noteq> None
       then Inl (InvalidInput ''resolved_legs[].price'' ''MARKET commands must not carry a price'') else Inr ()
   | _ \<Rightarrow> (case rle_price resolved of
       None \<Rightarrow> Inl (InvalidInput ''resolved_legs[].price'' ''non-MARKET commands require a price'')
     | Some price \<Rightarrow>
         bindR (positive_or (InvalidInput ''resolved_legs[].price'' ''must be positive and finite'') price) (\<lambda>_.
         if \<not> (case arl_action approved of
             AdjustedRiskLegAction.Buy \<Rightarrow> f64_le price (arl_sizing_entry_price approved)
           | AdjustedRiskLegAction.Sell \<Rightarrow> f64_le (arl_sizing_entry_price approved) price)
           then Inl (RequiresReRisk (''entry price for '' @ il_leg_id intent @
             '' exceeds the approved worst-entry bound''))
         else Inr ())))"

definition validate_leg_binding ::
  "IntentLeg \<Rightarrow> AdjustedRiskLeg \<Rightarrow> ResolvedLegExecution \<Rightarrow> SymbolMetadataSnapshot \<Rightarrow>
   (ExecutionBuildError, unit) result" where
  "validate_leg_binding intent approved resolved metadata =
     (let expected_action = (case arl_action approved of
          AdjustedRiskLegAction.Buy \<Rightarrow> ExecutionAction.Buy | AdjustedRiskLegAction.Sell \<Rightarrow> ExecutionAction.Sell) in
     if arl_leg_id approved \<noteq> il_leg_id intent \<or> arl_symbol approved \<noteq> il_symbol intent
         \<or> expected_action \<noteq> il_action intent \<or> rle_leg_id resolved \<noteq> il_leg_id intent
         \<or> sm_symbol metadata \<noteq> il_symbol intent
       then Inl (RequiresReRisk (''leg '' @ il_leg_id intent @ '' identity changed after approval''))
     else bindR (check_each (\<lambda>(field, value). positive_or (InvalidInput field ''must be positive and finite'') value)
       [(''lots'', arl_lots approved), (''approved_sl'', arl_approved_sl approved), (''ratio'', il_ratio intent)]) (\<lambda>_.
     bindR (case il_tp intent of None \<Rightarrow> Inr ()
       | Some tp \<Rightarrow> positive_or (InvalidInput ''tp'' ''must be positive and finite when present'') tp) (\<lambda>_.
     bindR (validate_entry_price intent approved resolved) (\<lambda>_.
     if (case rle_expiration_time resolved of None \<Rightarrow> False | Some expiration \<Rightarrow> expiration < 0)
         \<or> (case rle_deviation_points resolved of None \<Rightarrow> False | Some points \<Rightarrow> points < 0)
       then Inl (InvalidInput ''resolved_legs'' ''expiration_time and deviation_points must be non-negative'')
     else Inr ()))))"

definition unsigned_command ::
  "ExecutionBuildRequest \<Rightarrow> i64 \<Rightarrow> IntentLeg \<Rightarrow> AdjustedRiskLeg \<Rightarrow> ResolvedLegExecution \<Rightarrow>
   SymbolMetadataSnapshot \<Rightarrow> ExecutionCommand" where
  "unsigned_command request expires_at intent_leg approved resolved metadata =
     (let intent = rq_intent (ebr_risk_request request) in
     \<lparr>ec_command_id = rle_command_id resolved, ec_plan_id = Some (ebr_plan_id request),
      ec_leg_id = Some (il_leg_id intent_leg), ec_strategy_id = ti_strategy_id intent,
      ec_account_id = ti_account_id intent, ec_terminal_id = rle_terminal_id resolved,
      ec_client_id = rle_client_id resolved, ec_symbol = il_symbol intent_leg,
      ec_broker_symbol = Some (sm_broker_symbol metadata), ec_action = il_action intent_leg,
      ec_order_type = Some (rle_order_type resolved), ec_lots = Some (arl_lots approved),
      ec_price = rle_price resolved, ec_sl = Some (arl_approved_sl approved), ec_tp = il_tp intent_leg,
      ec_deviation_points = rle_deviation_points resolved, ec_magic = rle_magic resolved,
      ec_comment = rle_comment resolved, ec_position_ticket = None, ec_broker_order_id = None,
      ec_filling_policy = rle_filling_policy resolved, ec_time_policy = rle_time_policy resolved,
      ec_expiration_time = rle_expiration_time resolved, ec_expires_at = expires_at,
      ec_idempotency_key = rle_idempotency_key resolved, ec_hmac = []\<rparr>)"

definition pending_leg :: "IntentLeg \<Rightarrow> AdjustedRiskLeg \<Rightarrow> ResolvedLegExecution \<Rightarrow> ExecutionLeg" where
  "pending_leg intent_leg approved resolved =
     \<lparr>leg_definition = \<lparr>eld_leg_id = il_leg_id intent_leg, eld_symbol = il_symbol intent_leg,
        eld_action = il_action intent_leg, eld_lots = Some (arl_lots approved),
        eld_sl = Some (arl_approved_sl approved), eld_tp = il_tp intent_leg, eld_ratio = il_ratio intent_leg,
        eld_dependency = rle_dependency resolved\<rparr>,
      leg_state = \<lparr>els_status = ExecutionLegStatus.Pending\<rparr>\<rparr>"

definition build_leg ::
  "signing_crypto \<Rightarrow> ExecutionBuildRequest \<Rightarrow> i64 \<Rightarrow> (LegId \<rightharpoonup> AdjustedRiskLeg) \<Rightarrow>
   (LegId \<rightharpoonup> ResolvedLegExecution) \<Rightarrow> (LegId \<rightharpoonup> SymbolMetadataSnapshot) \<Rightarrow> IntentLeg \<Rightarrow>
   (ExecutionLeg \<times> ExecutionCommand \<times> ExecutionCommandState) build" where
  "build_leg C request expires_at adjusted resolved metadata intent_leg =
     (case (adjusted (il_leg_id intent_leg), resolved (il_leg_id intent_leg), metadata (il_leg_id intent_leg)) of
        (Some approved, Some resolved, Some metadata) \<Rightarrow> Some (
          bindR (validate_leg_binding intent_leg approved resolved metadata) (\<lambda>_.
          let command = unsigned_command request expires_at intent_leg approved resolved metadata in
          bindR (map_err SigningFailed (from_symbol_metadata metadata)) (\<lambda>format.
          bindR (map_err SigningFailed (sign_execution_command C command (ebr_signing_secret request) format)) (\<lambda>hmac.
          let command = command\<lparr>ec_hmac := hmac\<rparr> in
          bindR (map_err InitialState (initial_command_state command (ebr_now_ms request))) (\<lambda>state.
          Inr (pending_leg intent_leg approved resolved, command, state))))))
      | _ \<Rightarrow> None)"

primrec build_legs ::
  "(IntentLeg \<Rightarrow> (ExecutionLeg \<times> ExecutionCommand \<times> ExecutionCommandState) build) \<Rightarrow> IntentLeg list \<Rightarrow>
   (ExecutionLeg \<times> ExecutionCommand \<times> ExecutionCommandState) list build" where
  "build_legs build [] = Some (Inr [])"
| "build_legs build (leg # legs) =
     bindP (build leg) (\<lambda>built. bindP (build_legs build legs) (\<lambda>rest. Some (Inr (built # rest))))"

section \<open>The build\<close>

definition pending_plan :: "ExecutionBuildRequest \<Rightarrow> ExecutionLeg list \<Rightarrow> ExecutionPlan" where
  "pending_plan request legs = (let intent = rq_intent (ebr_risk_request request); policy = ebr_policy request in
     \<lparr>plan_definition = \<lparr>epd_plan_id = ebr_plan_id request, epd_account_id = ti_account_id intent,
        epd_strategy_id = ti_strategy_id intent, epd_mode = epol_mode policy,
        epd_failure_policy = epol_failure_policy policy, epd_rollback_policy = epol_rollback_policy policy\<rparr>,
      plan_legs = legs,
      plan_state = \<lparr>eps_status = ExecutionPlanStatus.Pending, eps_filled_legs = [], eps_failed_legs = []\<rparr>\<rparr>)"

definition command_expiry :: "ExecutionBuildRequest \<Rightarrow> (ExecutionBuildError, i64) result" where
  "command_expiry request =
     (case checked_add_i64 (ebr_now_ms request) (epol_max_command_ttl_ms (ebr_policy request)) of
        None \<Rightarrow> Inl (InvalidInput ''max_command_ttl_ms'' ''timestamp overflow'')
      | Some ttl_boundary \<Rightarrow>
          let expires_at = min (min (ti_signal_expires_at (rq_intent (ebr_risk_request request)))
            (rr_valid_until (ebr_risk_result request))) ttl_boundary in
          if expires_at \<le> ebr_now_ms request
            then Inl (RequiresReRisk ''approval has no remaining execution window'')
          else Inr expires_at)"

definition build_actionable ::
  "signing_crypto \<Rightarrow> LegId list \<Rightarrow> ExecutionBuildRequest \<Rightarrow> ExecutionBuildOutcome build" where
  "build_actionable C order request = (let risk_request = ebr_risk_request request; result = ebr_risk_result request in
     bindP (Some (intent_legs risk_request)) (\<lambda>legs.
     bindP (validate_topology order (epol_mode (ebr_policy request)) legs (ebr_resolved_legs request)) (\<lambda>_.
     bindP (Some (index_adjusted_legs result legs)) (\<lambda>adjusted.
     bindP (Some (validate_result_candidates risk_request result)) (\<lambda>_.
     bindP (Some (index_metadata risk_request legs)) (\<lambda>metadata.
     bindP (Some (index_resolved (ebr_resolved_legs request) legs)) (\<lambda>resolved.
     bindP (Some (command_expiry request)) (\<lambda>expires_at.
     bindP (build_legs (build_leg C request expires_at adjusted resolved metadata) legs) (\<lambda>built.
     let plan = pending_plan request (map fst built) in
     bindP (map_option (map_err (\<lambda>error. InvalidInput (epve_field error) (epve_reason error)))
       (ExecutionPlan_validate plan)) (\<lambda>_.
     Some (Inr (Built \<lparr>eb_plan = plan, eb_commands = map (fst \<circ> snd) built,
       eb_command_states = map (snd \<circ> snd) built\<rparr>))))))))))))"

definition build_execution ::
  "request_hashing \<Rightarrow> signing_crypto \<Rightarrow> LegId list \<Rightarrow> ExecutionBuildRequest \<Rightarrow> ExecutionBuildOutcome build" where
  "build_execution H C order request = bindP (validate_common H request) (\<lambda>_.
     case ti_action (rq_intent (ebr_risk_request request)) of
       TradeIntentAction.Hold \<Rightarrow>
         if ebr_resolved_legs request \<noteq> [] \<or> rr_adjusted_legs (ebr_risk_result request) \<noteq> None
           then Some (Inl (InvalidInput ''resolved_legs'' ''approved HOLD must remain a no-op''))
         else Some (Inr NoOp)
     | TradeIntentAction.Close \<Rightarrow>
         Some (Inl (RiskNotApproved ''v1 CLOSE lacks a provable target and close quantity''))
     | _ \<Rightarrow> build_actionable C order request)"

end
