(* ===== verification/Signing_Correct.thy ===== *)
theory Signing_Correct
  imports Signing
begin

text \<open>
  The signing string determines what is signed: percent-encoding, decimal numbers and the joined
  fields are injective; and a signature verifies against the command it was made for.
\<close>

section \<open>Percent-encoding\<close>

lemma hex_digits_distinct: "distinct HEX" "length HEX = 16" "CHR ''&'' \<notin> set HEX"
  by (simp_all add: HEX_def)

lemma hex_nth_eq: "i < 16 \<Longrightarrow> j < 16 \<Longrightarrow> HEX ! i = HEX ! j \<longleftrightarrow> i = j"
  using hex_digits_distinct by (simp add: nth_eq_iff_index_eq)

lemma of_char_bounds: "(of_char c :: nat) div 16 < 16" "(of_char c :: nat) mod 16 < 16"
  using less_mult_imp_div_less [of "of_char c" 16 16] by simp_all

lemma encode_byte_prefix:
  assumes "encode_byte c @ xs = encode_byte d @ ys" shows "c = d \<and> xs = ys"
proof -
  have percent: "\<not> unreserved (CHR ''%'')" by code_simp
  have "c = d" if "HEX ! (of_char c div 16) = HEX ! (of_char d div 16)" "HEX ! (of_char c mod 16) = HEX ! (of_char d mod 16)"
  proof -
    have "(of_char c :: nat) div 16 = of_char d div 16" "(of_char c :: nat) mod 16 = of_char d mod 16"
      using that hex_nth_eq of_char_bounds by blast+
    then have "(of_char c :: nat) = of_char d" by (metis div_mult_mod_eq)
    then show ?thesis by simp
  qed
  with assms percent show ?thesis by (auto simp: encode_byte_def Let_def split: if_splits)
qed

lemma encode_byte_not_Nil: "encode_byte c \<noteq> []"
  by (simp add: encode_byte_def Let_def)

lemma rfc3986_encode_inject: "rfc3986_encode xs = rfc3986_encode ys \<longleftrightarrow> xs = ys"
proof
  show "xs = ys" if "rfc3986_encode xs = rfc3986_encode ys"
    using that
  proof (induction xs arbitrary: ys)
    case Nil
    then show ?case using encode_byte_not_Nil by (cases ys) (auto simp: rfc3986_encode_def)
  next
    case (Cons x xs)
    then obtain y ys' where ys: "ys = y # ys'"
      using encode_byte_not_Nil by (cases ys) (auto simp: rfc3986_encode_def)
    from Cons.prems have "encode_byte x @ rfc3986_encode xs = encode_byte y @ rfc3986_encode ys'"
      by (simp add: ys rfc3986_encode_def)
    from encode_byte_prefix [OF this] Cons.IH ys show ?case by auto
  qed
qed simp

lemma encoded_plain: "CHR ''&'' \<notin> set (rfc3986_encode text)"
proof -
  have "CHR ''&'' \<notin> set (encode_byte c)" for c
  proof -
    have "\<not> unreserved (CHR ''&'')" by code_simp
    moreover have "HEX ! (of_char c div 16) \<noteq> CHR ''&''" "HEX ! (of_char c mod 16) \<noteq> CHR ''&''"
      using of_char_bounds [of c] hex_digits_distinct by (metis nth_mem)+
    ultimately show ?thesis by (auto simp: encode_byte_def Let_def split: if_splits)
  qed
  then show ?thesis by (auto simp: rfc3986_encode_def)
qed

lemma join_inject:
  assumes "length xs = length ys" "\<forall>x \<in> set (xs @ ys). c \<notin> set x" "join [c] xs = join [c] ys"
  shows "xs = ys"
  using assms
proof (induction xs ys rule: list_induct2)
  case (Cons x xs y ys)
  show ?case
  proof (cases "xs = []")
    case True
    with Cons show ?thesis by simp
  next
    case False
    with Cons.hyps have "ys \<noteq> []" by auto
    with False Cons.prems(2) have "x @ c # join [c] xs = y @ c # join [c] ys" by simp
    moreover from Cons.prems(1) have "c \<notin> set x" "c \<notin> set y" by auto
    ultimately have "x = y" "join [c] xs = join [c] ys" using split_once_first by (metis option.inject prod.inject)+
    with Cons show ?thesis by simp
  qed
qed simp

section \<open>Numbers\<close>

lemma parse_nat_show: "parse_nat (show_decimal n) = Some n"
proof -
  let ?step = "\<lambda>c acc. case (acc, char_digit c) of (Some n, Some d) \<Rightarrow> Some (n * 10 + d) | _ \<Rightarrow> None"
  have "fold ?step (show_decimal n) (Some 0) = Some n"
  proof (induction n rule: show_decimal.induct)
    case (1 n)
    show ?case
    proof (cases "n < 10")
      case True
      then show ?thesis by (simp add: show_decimal.simps [of n] digit_round_trip)
    next
      case False
      then have "show_decimal n = show_decimal (n div 10) @ [digit_char (n mod 10)]" by (simp add: show_decimal.simps [of n])
      with 1 False show ?thesis by (simp add: digit_round_trip)
    qed
  qed
  then show ?thesis by (simp add: parse_nat_def)
qed

lemma show_decimal_inject: "show_decimal m = show_decimal n \<longleftrightarrow> m = n"
  by (metis option.inject parse_nat_show)

lemma show_decimal_no_sign: "show_decimal n \<noteq> CHR ''-'' # s"
proof
  assume "show_decimal n = CHR ''-'' # s"
  then obtain d where "d < 10" "CHR ''-'' = digit_char d" using show_decimal_digits [of "CHR ''-''" n] by auto
  moreover have "char_digit (CHR ''-'') = None" by code_simp
  ultimately show False using digit_round_trip by (metis option.distinct(1))
qed

lemma show_int_inject: "show_int i = show_int j \<longleftrightarrow> i = j"
  using show_decimal_no_sign by (auto simp: show_int_def show_decimal_inject eq_nat_nat_iff) (metis show_decimal_no_sign)+

lemma show_int_not_Nil: "show_int i \<noteq> []"
  by (simp add: show_int_def)

lemma format_not_Nil: "format_fixed_decimal x digits = Inr s \<Longrightarrow> s \<noteq> []"
  by (auto simp: format_fixed_decimal_def Let_def result_simps split: if_splits)

lemma fixed_decimal_inject:
  assumes "validate_fixed_decimal_round_trip x digits field = Inr ()" "format_fixed_decimal x digits = Inr s"
    and "validate_fixed_decimal_round_trip y digits field' = Inr ()" "format_fixed_decimal y digits = Inr s"
  shows "x = y"
proof -
  have "parse_f64 s = Some x" if "validate_fixed_decimal_round_trip x digits field = Inr ()"
    "format_fixed_decimal x digits = Inr s" for x field
    using that by (auto simp: validate_fixed_decimal_round_trip_def result_simps split: option.splits if_splits)
  with assms show ?thesis by (metis option.inject)
qed

section \<open>Whole numbers\<close>

text \<open>A whole number of at most \<open>MAX_SAFE_SCALED_INTEGER\<close> is accepted without decimal places.\<close>

lemma f64_sub_self: "f64_is_finite x \<Longrightarrow> f64_sub x x = 0"
proof -
  assume x: "f64_is_finite x"
  let ?y = "f64_pack (\<not> f64_is_sign_negative x) (f64_magnitude x)"
  have m: "f64_magnitude x < f64_sign_bit" using x by (simp add: f64_is_finite_def f64_inf_bits_def f64_sign_bit_def)
  note fields = f64_pack_fields [OF m]
  have "f64_value x + f64_value ?y = 0" by (simp add: f64_value_def fields)
  moreover have "f64_pack False 0 = 0" by (simp add: f64_pack_def)
  ultimately show ?thesis using x
    by (simp add: f64_sub_def f64_add_def f64_is_nan_def f64_is_infinite_def f64_is_finite_def fields)
qed

lemma not_below_zero: "\<not> f64_is_sign_negative x \<Longrightarrow> \<not> f64_lt x 0"
  by (auto simp: f64_lt_def f64_key_def) (simp add: f64_magnitude_def f64_is_sign_negative_def)

lemma f64_mul_sign:
  assumes "\<not> f64_is_sign_negative x" "\<not> f64_is_sign_negative y" shows "\<not> f64_is_sign_negative (f64_mul x y)"
proof -
  have "mag_round (mag_value (f64_magnitude x) * mag_value (f64_magnitude y)) < f64_sign_bit"
    using mag_round_bounds [of "mag_value (f64_magnitude x) * mag_value (f64_magnitude y)"]
    by (simp add: f64_inf_bits_def f64_sign_bit_def)
  moreover have "\<not> f64_is_sign_negative f64_nan" "f64_inf_bits < f64_sign_bit" by (simp_all add: f64_defs f64_nan_def)
  ultimately show ?thesis using assms by (simp add: f64_mul_def f64_pack_fields)
qed

lemma whole_scaled_integer:
  assumes "f64_is_finite x" "\<not> f64_is_sign_negative x" "mag_value (f64_magnitude x) = of_nat n" "0 < n"
    and "\<not> f64_lt MAX_SAFE_SCALED_INTEGER x" "of_nat n \<le> i64_max"
  shows "scaled_integer x 0 field = Inr (int n)"
proof -
  have m: "f64_magnitude x < f64_inf_bits" "f64_magnitude x < f64_sign_bit"
    using assms(1) by (simp_all add: f64_is_finite_def f64_inf_bits_def f64_sign_bit_def)
  have pack: "f64_pack False (f64_magnitude x) = x" using f64_pack_self [of x] assms(2) by simp
  have one: "f64_of_rat 1 = f64_one"
  proof -
    have "f64_value f64_one = 1" by (simp add: f64_value_def mag_value_def f64_defs)
    moreover have "f64_is_finite f64_one" "\<not> f64_is_zero f64_one" by (simp_all add: f64_is_zero_def f64_defs)
    ultimately show ?thesis using f64_of_rat_value [of f64_one] by simp
  qed
  have unit_parts: "\<not> f64_is_nan f64_one" "\<not> f64_is_infinite f64_one" "\<not> f64_is_sign_negative f64_one"
    "mag_value (f64_magnitude f64_one) = 1"
    by (simp_all add: f64_is_infinite_def f64_defs mag_value_def)
  have round: "mag_round (of_nat n) = f64_magnitude x" using mag_round_exact [OF m(1)] assms(3) by simp
  have scaled: "f64_mul x f64_one = x"
    using m(1) assms(2) unit_parts pack round by (simp add: f64_mul_def f64_is_nan_def f64_is_infinite_def assms(3))
  have nearest: "f64_round x = x"
  proof -
    have "\<lfloor>of_nat n + 1 / 2 :: rat\<rfloor> = int n" by linarith
    then show ?thesis using assms(1,2) pack round by (simp add: f64_round_def assms(3))
  qed
  have "f64_as_i64 x = int n"
    using m(1) assms(2,6) by (simp add: f64_as_i64_def f64_is_nan_def assms(3) i64_min_def)
  moreover have "\<not> f64_lt (f64_mul (f64_mul F64_EPSILON (f64_max x f64_one)) f64_eight) 0"
  proof (intro not_below_zero f64_mul_sign)
    show "\<not> f64_is_sign_negative F64_EPSILON" "\<not> f64_is_sign_negative f64_eight"
      by (simp_all add: f64_defs F64_EPSILON_def f64_eight_def)
    show "\<not> f64_is_sign_negative (f64_max x f64_one)" using assms(2) unit_parts by (simp add: f64_max_def)
  qed
  moreover have "f64_abs 0 = 0" by (simp add: f64_abs_def f64_pack_def f64_magnitude_def f64_sign_bit_def)
  ultimately show ?thesis
    using assms(1,5) scaled nearest one
    by (simp add: scaled_integer_def decimal_scale_def validate_precision_def MAX_DECIMAL_DIGITS_def i64_max_def
      pack f64_sub_self) (simp add: f64_abs_def pack)
qed

lemma whole_round_trip:
  assumes "f64_is_finite x" "\<not> f64_is_sign_negative x" "mag_value (f64_magnitude x) = of_nat n" "0 < n"
    and "\<not> f64_lt MAX_SAFE_SCALED_INTEGER x" "of_nat n \<le> i64_max"
  shows "validate_fixed_decimal_round_trip x 0 field = Inr ()" "format_fixed_decimal x 0 = Inr (show_decimal n)"
proof -
  have "round_half_even (of_nat n) = n" by (simp add: round_half_even_def)
  then show format: "format_fixed_decimal x 0 = Inr (show_decimal n)"
    using assms(1,2) by (simp add: format_fixed_decimal_def validate_precision_def assms(3))
  have "f64_pack False (mag_round (of_nat n)) = x"
    using mag_round_exact [of "f64_magnitude x"] assms(1,3) f64_pack_self [of x] assms(2) by (simp add: f64_is_finite_def)
  moreover have "\<not> (case show_decimal n of c # _ \<Rightarrow> c = CHR ''-'' | [] \<Rightarrow> False)"
    using show_decimal_no_sign [of n] by (auto split: list.split)
  ultimately have "parse_f64 (show_decimal n) = Some x"
    using show_decimal_plain(1) [of n] by (simp add: parse_f64_def split_once_def parse_nat_show Let_def)
  with format whole_scaled_integer [OF assms] show "validate_fixed_decimal_round_trip x 0 field = Inr ()"
    by (simp add: validate_fixed_decimal_round_trip_def)
qed

section \<open>The signed fields\<close>

lemma map_of_optional_entry:
  "map_of (optional_entry name encode value @ rest) key =
     (if key = name then (case value of Some v \<Rightarrow> Some (encode v) | None \<Rightarrow> map_of rest key) else map_of rest key)"
  by (simp add: optional_entry_def split: option.split)

lemma command_object_lookup:
  "map_of (command_object c) ''command_id'' = Some (JString (ec_command_id c))"
  "map_of (command_object c) ''strategy_id'' = Some (JString (ec_strategy_id c))"
  "map_of (command_object c) ''account_id'' = Some (JString (ec_account_id c))"
  "map_of (command_object c) ''symbol'' = Some (JString (ec_symbol c))"
  "map_of (command_object c) ''idempotency_key'' = Some (JString (ec_idempotency_key c))"
  "map_of (command_object c) ''plan_id'' = map_option JString (ec_plan_id c)"
  "map_of (command_object c) ''leg_id'' = map_option JString (ec_leg_id c)"
  "map_of (command_object c) ''terminal_id'' = map_option JString (ec_terminal_id c)"
  "map_of (command_object c) ''client_id'' = map_option JString (ec_client_id c)"
  "map_of (command_object c) ''broker_symbol'' = map_option JString (ec_broker_symbol c)"
  "map_of (command_object c) ''comment'' = map_option JString (ec_comment c)"
  "map_of (command_object c) ''position_ticket'' = map_option JString (ec_position_ticket c)"
  "map_of (command_object c) ''broker_order_id'' = map_option JString (ec_broker_order_id c)"
  "map_of (command_object c) ''action'' = Some (JString (enum_as_str ExecutionAction_table (ec_action c)))"
  "map_of (command_object c) ''order_type'' = map_option (\<lambda>v. JString (enum_as_str OrderType_table v)) (ec_order_type c)"
  "map_of (command_object c) ''filling_policy'' = map_option (\<lambda>v. JString (enum_as_str FillingPolicy_table v)) (ec_filling_policy c)"
  "map_of (command_object c) ''time_policy'' = map_option (\<lambda>v. JString (enum_as_str TimePolicy_table v)) (ec_time_policy c)"
  "map_of (command_object c) ''lots'' = map_option JFloat (ec_lots c)"
  "map_of (command_object c) ''price'' = map_option JFloat (ec_price c)"
  "map_of (command_object c) ''sl'' = map_option JFloat (ec_sl c)"
  "map_of (command_object c) ''tp'' = map_option JFloat (ec_tp c)"
  "map_of (command_object c) ''deviation_points'' = map_option JInt (ec_deviation_points c)"
  "map_of (command_object c) ''expiration_time'' = map_option JInt (ec_expiration_time c)"
  "map_of (command_object c) ''magic'' = Some (JInt (ec_magic c))"
  "map_of (command_object c) ''expires_at'' = Some (JInt (ec_expires_at c))"
  by (simp_all add: command_object_def map_of_optional_entry del: map_of_append split: option.split)

text \<open>An absent optional text and an empty one are signed alike.\<close>

definition text_of :: "string option \<Rightarrow> string" where
  "text_of value = (case value of None \<Rightarrow> [] | Some text \<Rightarrow> text)"

lemma signing_parts_Inr:
  assumes "signing_parts float_text object format names = Inr parts"
  shows "\<exists>texts. list_all2 (\<lambda>name text. signing_field_value float_text object name format = Inr text) names texts
    \<and> parts = map2 (\<lambda>name text. name @ ''='' @ rfc3986_encode text) names texts"
  using assms
proof (induction names arbitrary: parts)
  case (Cons name names)
  then obtain t rest where first: "signing_field_value float_text object name format = Inr t"
    and rest: "signing_parts float_text object format names = Inr rest"
    and parts: "parts = (name @ ''='' @ rfc3986_encode t) # rest"
    by (auto simp: result_simps)
  from Cons.IH [OF rest] obtain texts where
    "list_all2 (\<lambda>name text. signing_field_value float_text object name format = Inr text) names texts"
    "rest = map2 (\<lambda>name text. name @ ''='' @ rfc3986_encode text) names texts" by blast
  with first parts show ?case by (intro exI [of _ "t # texts"]) simp
qed simp

lemma names_plain: "\<forall>name \<in> set SIGNING_FIELDS. CHR ''&'' \<notin> set name"
  by (simp add: SIGNING_FIELDS_def)

lemma map2_parts_inject:
  assumes "length texts = length names" "length texts' = length names"
    "map2 (\<lambda>name text. name @ ''='' @ rfc3986_encode text) names texts =
     map2 (\<lambda>name text. name @ ''='' @ rfc3986_encode text) names texts'"
  shows "texts = texts'"
  using assms
proof (induction names arbitrary: texts texts')
  case (Cons name names)
  then obtain t ts t' ts' where split: "texts = t # ts" "texts' = t' # ts'" "length ts = length names" "length ts' = length names"
    by (metis length_Suc_conv)
  with Cons.prems(3) have "rfc3986_encode t = rfc3986_encode t'"
    "map2 (\<lambda>name text. name @ ''='' @ rfc3986_encode text) names ts =
     map2 (\<lambda>name text. name @ ''='' @ rfc3986_encode text) names ts'" by simp_all
  with Cons.IH split show ?case by (simp add: rfc3986_encode_inject)
qed simp

lemma same_signing_string:
  assumes "build_execution_command_signing_string float_text c format = Inr s"
    "build_execution_command_signing_string float_text d format = Inr s"
  shows "\<forall>name \<in> set SIGNING_FIELDS. \<exists>text. signing_field_value float_text (command_object c) name format = Inr text
      \<and> signing_field_value float_text (command_object d) name format = Inr text"
proof -
  let ?parts = "map2 (\<lambda>name text. name @ ''='' @ rfc3986_encode text) SIGNING_FIELDS"
  have built: "\<exists>texts. list_all2 (\<lambda>name text. signing_field_value float_text (command_object c) name format = Inr text)
      SIGNING_FIELDS texts \<and> s = join ''&'' (?parts texts)"
    if "build_execution_command_signing_string float_text c format = Inr s" for c
    using that signing_parts_Inr unfolding build_execution_command_signing_string_def
    by (fastforce simp: result_simps)
  obtain texts texts' where texts: "list_all2 (\<lambda>name text. signing_field_value float_text (command_object c) name format = Inr text)
      SIGNING_FIELDS texts" "list_all2 (\<lambda>name text. signing_field_value float_text (command_object d) name format = Inr text)
      SIGNING_FIELDS texts'" "join ''&'' (?parts texts) = join ''&'' (?parts texts')"
    using built [OF assms(1)] built [OF assms(2)] by metis
  note lengths = list_all2_lengthD [OF texts(1)] list_all2_lengthD [OF texts(2)]
  have "?parts texts = ?parts texts'"
  proof (rule join_inject [OF _ _ texts(3)])
    have "CHR ''&'' \<notin> set x" if x: "x \<in> set (?parts ts)" for x ts
    proof -
      obtain name t where "(name, t) \<in> set (zip SIGNING_FIELDS ts)" and xt: "x = name @ ''='' @ rfc3986_encode t"
        using x unfolding set_map by (metis (mono_tags, lifting) case_prod_conv imageE surj_pair)
      from set_zip_leftD [OF this(1)] have "name \<in> set SIGNING_FIELDS" .
      with xt names_plain encoded_plain [of t] show ?thesis by simp
    qed
    then show "\<forall>x \<in> set (?parts texts @ ?parts texts'). CHR ''&'' \<notin> set x" unfolding set_append by blast
  qed (use lengths in simp)
  then have "texts = texts'" using map2_parts_inject lengths by metis
  show ?thesis
  proof
    fix name assume "name \<in> set SIGNING_FIELDS"
    then obtain i where "i < length SIGNING_FIELDS" "name = SIGNING_FIELDS ! i" by (auto simp: in_set_conv_nth)
    with list_all2_nthD [OF texts(1)] list_all2_nthD [OF texts(2)] \<open>texts = texts'\<close>
    show "\<exists>text. signing_field_value float_text (command_object c) name format = Inr text
        \<and> signing_field_value float_text (command_object d) name format = Inr text" by blast
  qed
qed

text \<open>What each kind of field says when the two texts agree.\<close>

lemma decimals_checked:
  assumes "build_execution_command_signing_string float_text c format = Inr s"
  shows "ec_lots c = Some x \<Longrightarrow> validate_fixed_decimal_round_trip x (csf_volume_digits format) ''lots'' = Inr ()"
    "ec_price c = Some x \<Longrightarrow> validate_fixed_decimal_round_trip x (csf_price_digits format) ''price'' = Inr ()"
    "ec_sl c = Some x \<Longrightarrow> validate_fixed_decimal_round_trip x (csf_price_digits format) ''sl'' = Inr ()"
    "ec_tp c = Some x \<Longrightarrow> validate_fixed_decimal_round_trip x (csf_price_digits format) ''tp'' = Inr ()"
proof -
  have "validate_fixed_decimal_fields c format = Inr ()"
    using assms by (auto simp: build_execution_command_signing_string_def validate_execution_command_def result_simps)
  then show "ec_lots c = Some x \<Longrightarrow> validate_fixed_decimal_round_trip x (csf_volume_digits format) ''lots'' = Inr ()"
    "ec_price c = Some x \<Longrightarrow> validate_fixed_decimal_round_trip x (csf_price_digits format) ''price'' = Inr ()"
    "ec_sl c = Some x \<Longrightarrow> validate_fixed_decimal_round_trip x (csf_price_digits format) ''sl'' = Inr ()"
    "ec_tp c = Some x \<Longrightarrow> validate_fixed_decimal_round_trip x (csf_price_digits format) ''tp'' = Inr ()"
    by (auto simp: validate_fixed_decimal_fields_def result_simps)
qed

lemma optional_decimal_inject:
  assumes "\<And>v. x = Some v \<Longrightarrow> validate_fixed_decimal_round_trip v digits field = Inr ()"
    "\<And>v. y = Some v \<Longrightarrow> validate_fixed_decimal_round_trip v digits field' = Inr ()"
    "\<exists>t. (case x of None \<Rightarrow> Inr [] | Some v \<Rightarrow> format_fixed_decimal v digits) = Inr t
      \<and> (case y of None \<Rightarrow> Inr [] | Some v \<Rightarrow> format_fixed_decimal v digits) = Inr t"
  shows "x = y"
proof -
  from assms(3) obtain t where t: "(case x of None \<Rightarrow> Inr [] | Some v \<Rightarrow> format_fixed_decimal v digits) = Inr t"
    "(case y of None \<Rightarrow> Inr [] | Some v \<Rightarrow> format_fixed_decimal v digits) = Inr t" by blast
  show ?thesis
  proof (cases "x = None \<or> y = None")
    case True
    with t format_not_Nil show ?thesis by (auto split: option.splits)
  next
    case False
    then obtain v w where "x = Some v" "y = Some w" by auto
    with assms t fixed_decimal_inject [of v digits field t w field'] show ?thesis by simp
  qed
qed

lemma field_texts:
  "signing_field_value ft (command_object c) ''lots'' format =
     (case ec_lots c of None \<Rightarrow> Inr [] | Some v \<Rightarrow> format_fixed_decimal v (csf_volume_digits format))"
  "signing_field_value ft (command_object c) ''price'' format =
     (case ec_price c of None \<Rightarrow> Inr [] | Some v \<Rightarrow> format_fixed_decimal v (csf_price_digits format))"
  "signing_field_value ft (command_object c) ''sl'' format =
     (case ec_sl c of None \<Rightarrow> Inr [] | Some v \<Rightarrow> format_fixed_decimal v (csf_price_digits format))"
  "signing_field_value ft (command_object c) ''tp'' format =
     (case ec_tp c of None \<Rightarrow> Inr [] | Some v \<Rightarrow> format_fixed_decimal v (csf_price_digits format))"
  "signing_field_value ft (command_object c) ''deviation_points'' format =
     Inr (case ec_deviation_points c of None \<Rightarrow> [] | Some i \<Rightarrow> show_int i)"
  "signing_field_value ft (command_object c) ''expiration_time'' format =
     Inr (case ec_expiration_time c of None \<Rightarrow> [] | Some i \<Rightarrow> show_int i)"
  "signing_field_value ft (command_object c) ''magic'' format = Inr (show_int (ec_magic c))"
  "signing_field_value ft (command_object c) ''expires_at'' format = Inr (show_int (ec_expires_at c))"
  "signing_field_value ft (command_object c) ''action'' format =
     Inr (enum_as_str ExecutionAction_table (ec_action c))"
  "signing_field_value ft (command_object c) ''order_type'' format =
     Inr (case ec_order_type c of None \<Rightarrow> [] | Some v \<Rightarrow> enum_as_str OrderType_table v)"
  "signing_field_value ft (command_object c) ''filling_policy'' format =
     Inr (case ec_filling_policy c of None \<Rightarrow> [] | Some v \<Rightarrow> enum_as_str FillingPolicy_table v)"
  "signing_field_value ft (command_object c) ''time_policy'' format =
     Inr (case ec_time_policy c of None \<Rightarrow> [] | Some v \<Rightarrow> enum_as_str TimePolicy_table v)"
  "signing_field_value ft (command_object c) ''command_id'' format = Inr (ec_command_id c)"
  "signing_field_value ft (command_object c) ''strategy_id'' format = Inr (ec_strategy_id c)"
  "signing_field_value ft (command_object c) ''account_id'' format = Inr (ec_account_id c)"
  "signing_field_value ft (command_object c) ''symbol'' format = Inr (ec_symbol c)"
  "signing_field_value ft (command_object c) ''idempotency_key'' format = Inr (ec_idempotency_key c)"
  "signing_field_value ft (command_object c) ''plan_id'' format = Inr (text_of (ec_plan_id c))"
  "signing_field_value ft (command_object c) ''leg_id'' format = Inr (text_of (ec_leg_id c))"
  "signing_field_value ft (command_object c) ''terminal_id'' format = Inr (text_of (ec_terminal_id c))"
  "signing_field_value ft (command_object c) ''client_id'' format = Inr (text_of (ec_client_id c))"
  "signing_field_value ft (command_object c) ''broker_symbol'' format = Inr (text_of (ec_broker_symbol c))"
  "signing_field_value ft (command_object c) ''comment'' format = Inr (text_of (ec_comment c))"
  "signing_field_value ft (command_object c) ''position_ticket'' format = Inr (text_of (ec_position_ticket c))"
  "signing_field_value ft (command_object c) ''broker_order_id'' format = Inr (text_of (ec_broker_order_id c))"
  by (simp_all add: signing_field_value_def command_object_lookup is_optional_field_def text_of_def
    split: option.split)

lemma optional_enum_inject:
  assumes "\<And>v w. f v = f w \<longleftrightarrow> v = w" "\<And>v. f v \<noteq> []"
    "(case x of None \<Rightarrow> [] | Some v \<Rightarrow> f v) = (case y of None \<Rightarrow> [] | Some v \<Rightarrow> f v)"
  shows "x = y"
  using assms by (cases x; cases y) (auto dest: sym)

lemma enum_texts_not_Nil:
  "enum_as_str OrderType_table v \<noteq> []" "enum_as_str FillingPolicy_table w \<noteq> []" "enum_as_str TimePolicy_table u \<noteq> []"
  subgoal by (cases v) (simp_all add: enum_as_str_def OrderType_table_def)
  subgoal by (cases w) (simp_all add: enum_as_str_def FillingPolicy_table_def)
  subgoal by (cases u) (simp_all add: enum_as_str_def TimePolicy_table_def)
  done

text \<open>C25: a signing string determines the command. Two commands that produce the same string under one
  format agree in every signed field, that is in all fields but the signature; an absent optional text
  and an empty one count as equal, since both are signed as the empty text.\<close>

theorem signing_string_binds_command:
  assumes "build_execution_command_signing_string float_text c format = Inr s"
    "build_execution_command_signing_string float_text d format = Inr s"
  shows "ec_command_id c = ec_command_id d \<and> ec_strategy_id c = ec_strategy_id d
    \<and> ec_account_id c = ec_account_id d \<and> ec_symbol c = ec_symbol d
    \<and> ec_idempotency_key c = ec_idempotency_key d
    \<and> text_of (ec_plan_id c) = text_of (ec_plan_id d)
    \<and> text_of (ec_leg_id c) = text_of (ec_leg_id d)
    \<and> text_of (ec_terminal_id c) = text_of (ec_terminal_id d)
    \<and> text_of (ec_client_id c) = text_of (ec_client_id d)
    \<and> text_of (ec_broker_symbol c) = text_of (ec_broker_symbol d)
    \<and> text_of (ec_comment c) = text_of (ec_comment d)
    \<and> text_of (ec_position_ticket c) = text_of (ec_position_ticket d)
    \<and> text_of (ec_broker_order_id c) = text_of (ec_broker_order_id d)
    \<and> ec_action c = ec_action d \<and> ec_order_type c = ec_order_type d
    \<and> ec_lots c = ec_lots d \<and> ec_price c = ec_price d \<and> ec_sl c = ec_sl d
    \<and> ec_tp c = ec_tp d \<and> ec_deviation_points c = ec_deviation_points d
    \<and> ec_magic c = ec_magic d \<and> ec_filling_policy c = ec_filling_policy d
    \<and> ec_time_policy c = ec_time_policy d \<and> ec_expiration_time c = ec_expiration_time d
    \<and> ec_expires_at c = ec_expires_at d"
proof -
  have same: "\<exists>t. signing_field_value float_text (command_object c) name format = Inr t
      \<and> signing_field_value float_text (command_object d) name format = Inr t" if "name \<in> set SIGNING_FIELDS" for name
    using same_signing_string [OF assms] that by blast
  then have all: "\<forall>name \<in> set SIGNING_FIELDS. signing_field_value float_text (command_object c) name format =
      signing_field_value float_text (command_object d) name format" by metis
  have lots: "ec_lots c = ec_lots d"
    by (rule optional_decimal_inject [OF decimals_checked(1) [OF assms(1)] decimals_checked(1) [OF assms(2)]])
      (use same [of "''lots''"] in \<open>simp_all add: SIGNING_FIELDS_def field_texts\<close>)
  have price: "ec_price c = ec_price d"
    by (rule optional_decimal_inject [OF decimals_checked(2) [OF assms(1)] decimals_checked(2) [OF assms(2)]])
      (use same [of "''price''"] in \<open>simp_all add: SIGNING_FIELDS_def field_texts\<close>)
  have sl: "ec_sl c = ec_sl d"
    by (rule optional_decimal_inject [OF decimals_checked(3) [OF assms(1)] decimals_checked(3) [OF assms(2)]])
      (use same [of "''sl''"] in \<open>simp_all add: SIGNING_FIELDS_def field_texts\<close>)
  have tp: "ec_tp c = ec_tp d"
    by (rule optional_decimal_inject [OF decimals_checked(4) [OF assms(1)] decimals_checked(4) [OF assms(2)]])
      (use same [of "''tp''"] in \<open>simp_all add: SIGNING_FIELDS_def field_texts\<close>)
  have order_type: "ec_order_type c = ec_order_type d"
    by (rule optional_enum_inject [of "enum_as_str OrderType_table", OF OrderType.as_str_inject enum_texts_not_Nil(1)])
      (use all in \<open>simp add: SIGNING_FIELDS_def field_texts\<close>)
  have filling_policy: "ec_filling_policy c = ec_filling_policy d"
    by (rule optional_enum_inject [of "enum_as_str FillingPolicy_table", OF FillingPolicy.as_str_inject enum_texts_not_Nil(2)])
      (use all in \<open>simp add: SIGNING_FIELDS_def field_texts\<close>)
  have time_policy: "ec_time_policy c = ec_time_policy d"
    by (rule optional_enum_inject [of "enum_as_str TimePolicy_table", OF TimePolicy.as_str_inject enum_texts_not_Nil(3)])
      (use all in \<open>simp add: SIGNING_FIELDS_def field_texts\<close>)
  have deviation_points: "ec_deviation_points c = ec_deviation_points d"
    by (rule optional_enum_inject [of "show_int", OF show_int_inject show_int_not_Nil])
      (use all in \<open>simp add: SIGNING_FIELDS_def field_texts\<close>)
  have expiration_time: "ec_expiration_time c = ec_expiration_time d"
    by (rule optional_enum_inject [of "show_int", OF show_int_inject show_int_not_Nil])
      (use all in \<open>simp add: SIGNING_FIELDS_def field_texts\<close>)
  show ?thesis
    using all lots price sl tp order_type filling_policy time_policy deviation_points expiration_time
    by (simp add: SIGNING_FIELDS_def field_texts show_int_inject ExecutionAction.as_str_inject)
qed

section \<open>A sample\<close>

definition sample_close :: "string option \<Rightarrow> string \<Rightarrow> ExecutionCommand" where
  "sample_close comment hmac = \<lparr>ec_command_id = ''c1'', ec_plan_id = None, ec_leg_id = None, ec_strategy_id = ''s'',
     ec_account_id = ''a'', ec_terminal_id = None, ec_client_id = None, ec_symbol = ''EUR&USD'', ec_broker_symbol = None,
     ec_action = ExecutionAction.Close, ec_order_type = None, ec_lots = None, ec_price = None, ec_sl = None,
     ec_tp = None, ec_deviation_points = None, ec_magic = -7, ec_comment = comment, ec_position_ticket = Some ''9'',
     ec_broker_order_id = None, ec_filling_policy = None, ec_time_policy = None, ec_expiration_time = None,
     ec_expires_at = 1000, ec_idempotency_key = ''k'', ec_hmac = hmac\<rparr>"

definition sample_crypto :: signing_crypto where
  "sample_crypto = \<lparr>sc_float_text = (\<lambda>_. []), sc_accepts_key = (\<lambda>_. True),
     sc_hmac_sha256 = (\<lambda>key message. replicate 64 48), sc_hex_encode = map char_of,
     sc_hex_decode = (\<lambda>s. Some (map of_char s))\<rparr>"

definition sample_format :: CommandSigningFormat where
  "sample_format = CommandSigningFormat_new 2 2"

lemma sample_close_checked: "validate_execution_command (sample_close comment hmac) sample_format = Inr ()"
  by (simp add: validate_execution_command_def sample_format_def CommandSigningFormat_new_def sample_close_def
    validate_precision_def MAX_DECIMAL_DIGITS_def validate_finite_numbers_def validate_action_specific_fields_def
    validate_lots_alignment_def validate_fixed_decimal_fields_def)

lemma sample_close_string:
  "\<exists>s. build_execution_command_signing_string ft (sample_close None h) sample_format = Inr s
    \<and> build_execution_command_signing_string ft (sample_close (Some []) h') sample_format = Inr s"
proof -
  have "signing_parts ft (command_object (sample_close None h)) sample_format SIGNING_FIELDS =
      signing_parts ft (command_object (sample_close (Some []) h')) sample_format SIGNING_FIELDS"
    by (simp add: SIGNING_FIELDS_def field_texts) (simp add: sample_close_def text_of_def)
  moreover have "\<exists>parts. signing_parts ft (command_object (sample_close None h)) sample_format SIGNING_FIELDS = Inr parts"
    by (simp add: SIGNING_FIELDS_def field_texts) (simp add: sample_close_def)
  ultimately show ?thesis
    by (auto simp: build_execution_command_signing_string_def sample_close_checked)
qed

theorem signing_string_binds_command_witness:
  "ec_expires_at (sample_close None ''x'') = ec_expires_at (sample_close (Some []) ''y'')
   \<and> text_of (ec_comment (sample_close None ''x'')) = text_of (ec_comment (sample_close (Some []) ''y''))"
proof -
  obtain s where "build_execution_command_signing_string (\<lambda>_. []) (sample_close None ''x'') sample_format = Inr s"
    "build_execution_command_signing_string (\<lambda>_. []) (sample_close (Some []) ''y'') sample_format = Inr s"
    using sample_close_string by blast
  from signing_string_binds_command [OF this] show ?thesis by blast
qed

section \<open>Signatures\<close>

text \<open>What the code relies on: the digest is written as 64 lowercase hexadecimal digits, and reading
  lowercase hexadecimal back is the inverse of writing it.\<close>

definition hex_laws :: "signing_crypto \<Rightarrow> bool" where
  "hex_laws C \<longleftrightarrow>
     (\<forall>key message. let digest = sc_hmac_sha256 C key message; written = sc_hex_encode C digest in
        length written = 64 \<and> list_all lower_hex written \<and> sc_hex_decode C written = Some digest)
   \<and> (\<forall>written bytes. list_all lower_hex written \<longrightarrow> sc_hex_decode C written = Some bytes \<longrightarrow>
        sc_hex_encode C bytes = written)"

lemma signing_parts_ignore_hmac:
  "signing_parts ft (command_object (c\<lparr>ec_hmac := h\<rparr>)) format SIGNING_FIELDS =
   signing_parts ft (command_object c) format SIGNING_FIELDS"
  by (simp add: SIGNING_FIELDS_def field_texts)

lemma validation_ignores_hmac:
  "validate_execution_command (c\<lparr>ec_hmac := h\<rparr>) format = validate_execution_command c format"
proof -
  have "validate_finite_numbers (c\<lparr>ec_hmac := h\<rparr>) = validate_finite_numbers c"
    "validate_fixed_decimal_fields (c\<lparr>ec_hmac := h\<rparr>) format = validate_fixed_decimal_fields c format"
    "validate_action_specific_fields (c\<lparr>ec_hmac := h\<rparr>) = validate_action_specific_fields c"
    by (simp_all add: validate_finite_numbers_def validate_fixed_decimal_fields_def
      validate_action_specific_fields_def Let_def cong: if_cong)
  then show ?thesis by (simp add: validate_execution_command_def)
qed

lemma verification_law:
  assumes "hex_laws C"
  shows "verify_execution_command_hmac C c secret format = Inr () \<longleftrightarrow>
      sign_execution_command C c secret format = Inr (ec_hmac c)"
proof (cases "build_execution_command_signing_string (sc_float_text C) c format")
  case (Inl e)
  then show ?thesis by (simp add: verify_execution_command_hmac_def sign_execution_command_def)
next
  case (Inr s)
  let ?digest = "sc_hmac_sha256 C secret (map of_char s)"
  have written: "length (sc_hex_encode C ?digest) = 64" "list_all lower_hex (sc_hex_encode C ?digest)"
    "sc_hex_decode C (sc_hex_encode C ?digest) = Some ?digest"
    using assms unfolding hex_laws_def Let_def by blast+
  have decoded: "sc_hex_encode C bytes = w" if "list_all lower_hex w" "sc_hex_decode C w = Some bytes" for w bytes
    using assms that unfolding hex_laws_def by blast
  show ?thesis
  proof
    assume "verify_execution_command_hmac C c secret format = Inr ()"
    then have "list_all lower_hex (ec_hmac c)" "sc_hex_decode C (ec_hmac c) = Some ?digest" "sc_accepts_key C secret"
      using Inr by (auto simp: verify_execution_command_hmac_def split: option.splits if_splits)
    with decoded Inr show "sign_execution_command C c secret format = Inr (ec_hmac c)"
      by (simp add: sign_execution_command_def)
  next
    assume "sign_execution_command C c secret format = Inr (ec_hmac c)"
    then have "sc_accepts_key C secret" "ec_hmac c = sc_hex_encode C ?digest"
      using Inr by (auto simp: sign_execution_command_def split: if_splits)
    with written Inr show "verify_execution_command_hmac C c secret format = Inr ()"
      by (simp add: verify_execution_command_hmac_def)
  qed
qed

text \<open>C26: verification accepts a command exactly when its signature field is the text that signing the
  command with the same secret and format produces; the field itself is not part of what is signed, so
  a command that has been given its signature verifies.\<close>

theorem verification_accepts_exactly_the_signature:
  assumes "hex_laws C"
  shows "(verify_execution_command_hmac C c secret format = Inr () \<longleftrightarrow>
      sign_execution_command C c secret format = Inr (ec_hmac c))
    \<and> sign_execution_command C (c\<lparr>ec_hmac := h\<rparr>) secret format = sign_execution_command C c secret format"
  using verification_law [OF assms]
  by (simp add: sign_execution_command_def build_execution_command_signing_string_def
    signing_parts_ignore_hmac validation_ignores_hmac)

lemma sample_crypto_laws: "hex_laws sample_crypto"
  by (auto simp: hex_laws_def sample_crypto_def lower_hex_def list_all_iff Let_def o_def)

lemma sample_signature: "sign_execution_command sample_crypto (sample_close None h) [1] sample_format = Inr (replicate 64 (CHR ''0''))"
proof -
  obtain s where "build_execution_command_signing_string (sc_float_text sample_crypto) (sample_close None h) sample_format = Inr s"
    using sample_close_string by blast
  moreover have "(char_of (48 :: nat) :: char) = CHR ''0''" by code_simp
  ultimately show ?thesis by (simp add: sign_execution_command_def sample_crypto_def)
qed

theorem verification_accepts_exactly_the_signature_witness:
  "verify_execution_command_hmac sample_crypto (sample_close None (replicate 64 (CHR ''0''))) [1] sample_format = Inr ()"
  using verification_accepts_exactly_the_signature
    [OF sample_crypto_laws, of "sample_close None (replicate 64 (CHR ''0''))" "[1]" sample_format]
    sample_signature [of "replicate 64 (CHR ''0'')"]
  by (simp add: sample_close_def)

end
