(* ===== verification/Execution_Plan_Correct.thy ===== *)
theory Execution_Plan_Correct
  imports Execution_Plan
begin

text \<open>
  Correctness of plan validation. The dependency check accepts exactly the plans whose dependencies
  are unique, known, not self-referential and acyclic, whatever the iteration order of the hash
  map; it never panics and always ends. From it: what a valid plan is (\<open>plan_valid_iff\<close>).
\<close>

section \<open>The dependency relation\<close>

definition deps_of :: "ExecutionLeg list \<Rightarrow> LegId \<Rightarrow> LegId set" where
  "deps_of legs l = {d. \<exists>leg \<in> set legs. leg_id_of leg = l \<and> d \<in> set (leg_deps_of leg)}"

definition dependency_rel :: "ExecutionLeg list \<Rightarrow> (LegId \<times> LegId) set" where
  "dependency_rel legs = {(d, l). d \<in> deps_of legs l}"

definition leg_deps_ok :: "LegId set \<Rightarrow> ExecutionLeg \<Rightarrow> bool" where
  "leg_deps_ok ids leg \<longleftrightarrow> distinct (leg_deps_of leg) \<and> set (leg_deps_of leg) \<subseteq> ids
     \<and> leg_id_of leg \<notin> set (leg_deps_of leg)"

definition graph_ok :: "ExecutionLeg list \<Rightarrow> bool" where
  "graph_ok legs \<longleftrightarrow> distinct (map leg_id_of legs)
     \<and> (\<forall>leg \<in> set legs. leg_deps_ok (set (map leg_id_of legs)) leg)"

abbreviation deps_error :: ExecutionPlanValidationError where
  "deps_error \<equiv> plan_error ''legs[].dependency'' ''must be unique, known, and not self-referential''"

abbreviation cycle_error :: ExecutionPlanValidationError where
  "cycle_error \<equiv> plan_error ''legs[].dependency'' ''must form an acyclic graph''"

definition out_list :: "outgoings \<Rightarrow> LegId \<Rightarrow> LegId list" where
  "out_list outgoing l = (case outgoing l of None \<Rightarrow> [] | Some ls \<Rightarrow> ls)"

lemma out_list_upd: "out_list (outgoing(d \<mapsto> ls)) e = (if e = d then ls else out_list outgoing e)"
  by (simp add: out_list_def)

section \<open>Indexing\<close>

lemma index_dependencies_ok:
  assumes "indegree l = Some n" "distinct ds" "set ds \<subseteq> ids" "l \<notin> set ds" "set ds \<inter> seen = {}"
  shows "\<exists>outgoing'. index_dependencies l ids seen ds indegree outgoing =
      Some (Inr (indegree(l \<mapsto> n + length ds), outgoing'))
    \<and> (\<forall>d. out_list outgoing' d = out_list outgoing d @ (if d \<in> set ds then [l] else []))"
  using assms
proof (induction ds arbitrary: seen indegree outgoing n)
  case Nil
  then show ?case by (auto simp: fun_upd_idem)
next
  case (Cons d ds)
  let ?out = "outgoing(d \<mapsto> out_list outgoing d @ [l])"
  have upd: "(indegree(l \<mapsto> n + 1)) l = Some (n + 1)" "distinct ds" "set ds \<subseteq> ids" "l \<notin> set ds"
    "set ds \<inter> insert d seen = {}"
    using Cons.prems by auto
  obtain outgoing' where IH: "index_dependencies l ids (insert d seen) ds (indegree(l \<mapsto> n + 1)) ?out =
      Some (Inr ((indegree(l \<mapsto> n + 1))(l \<mapsto> n + 1 + length ds), outgoing'))"
    "\<forall>e. out_list outgoing' e = out_list ?out e @ (if e \<in> set ds then [l] else [])"
    using Cons.IH [where indegree = "indegree(l \<mapsto> n + 1)", OF upd, where outgoing = ?out] by blast
  have d: "d \<noteq> l" "d \<in> ids" "d \<notin> seen" "d \<notin> set ds" using Cons.prems by auto
  have "index_dependencies l ids seen (d # ds) indegree outgoing =
      Some (Inr (indegree(l \<mapsto> n + length (d # ds)), outgoing'))"
    using IH(1) d Cons.prems(1) by (simp add: out_list_def)
  moreover have "\<forall>e. out_list outgoing' e = out_list outgoing e @ (if e \<in> set (d # ds) then [l] else [])"
    using IH(2) d by (simp add: out_list_upd)
  ultimately show ?case by blast
qed

lemma index_dependencies_bad:
  assumes "indegree l = Some n"
    and "\<not> (distinct ds \<and> set ds \<subseteq> ids \<and> l \<notin> set ds \<and> set ds \<inter> seen = {})"
  shows "index_dependencies l ids seen ds indegree outgoing = Some (Inl deps_error)"
  using assms
proof (induction ds arbitrary: seen indegree outgoing n)
  case (Cons d ds)
  show ?case
  proof (cases "d = l \<or> d \<notin> ids \<or> d \<in> seen")
    case False
    have "index_dependencies l ids (insert d seen) ds (indegree(l \<mapsto> n + 1))
        (outgoing(d \<mapsto> (case outgoing d of None \<Rightarrow> [] | Some x \<Rightarrow> x) @ [l])) = Some (Inl deps_error)"
      by (rule Cons.IH [where n = "n + 1"]) (use Cons.prems False in auto)
    then show ?thesis using False Cons.prems(1) by simp
  qed auto
qed simp

lemma index_legs_ok:
  assumes "\<forall>leg \<in> set legs. indegree (leg_id_of leg) \<noteq> None" "\<forall>leg \<in> set legs. leg_deps_ok ids leg"
  shows "\<exists>indegree' outgoing'. index_legs ids legs indegree outgoing = Some (Inr (indegree', outgoing'))
    \<and> (\<forall>l. indegree' l = map_option (\<lambda>n. n +
        (\<Sum>leg \<leftarrow> filter (\<lambda>leg. leg_id_of leg = l) legs. length (leg_deps_of leg))) (indegree l))
    \<and> (\<forall>d. out_list outgoing' d = out_list outgoing d @
        map leg_id_of (filter (\<lambda>leg. d \<in> set (leg_deps_of leg)) legs))"
  using assms
proof (induction legs arbitrary: indegree outgoing)
  case Nil
  then show ?case by (auto simp: option.map_ident)
next
  case (Cons leg legs)
  obtain n where n: "indegree (leg_id_of leg) = Some n" using Cons.prems by auto
  let ?ind = "indegree(leg_id_of leg \<mapsto> n + length (leg_deps_of leg))"
  obtain out1 where out1: "index_dependencies (leg_id_of leg) ids {} (leg_deps_of leg) indegree outgoing =
      Some (Inr (?ind, out1))"
    "\<forall>d. out_list out1 d = out_list outgoing d @ (if d \<in> set (leg_deps_of leg) then [leg_id_of leg] else [])"
    using index_dependencies_ok [where indegree = indegree and l = "leg_id_of leg" and n = n
        and ds = "leg_deps_of leg" and ids = ids and seen = "{}" and outgoing = outgoing] n Cons.prems
    by (auto simp: leg_deps_ok_def)
  have ready: "\<forall>leg \<in> set legs. ?ind (leg_id_of leg) \<noteq> None" "\<forall>leg \<in> set legs. leg_deps_ok ids leg"
    using Cons.prems by auto
  obtain ind2 out2 where step: "index_legs ids legs ?ind out1 = Some (Inr (ind2, out2))"
    "\<forall>l. ind2 l = map_option (\<lambda>n. n +
        (\<Sum>leg \<leftarrow> filter (\<lambda>leg. leg_id_of leg = l) legs. length (leg_deps_of leg))) (?ind l)"
    "\<forall>d. out_list out2 d = out_list out1 d @
        map leg_id_of (filter (\<lambda>leg. d \<in> set (leg_deps_of leg)) legs)"
    using Cons.IH [where indegree = ?ind, OF ready, where outgoing = out1] by blast
  have "\<forall>l. ind2 l = map_option (\<lambda>n. n +
      (\<Sum>leg \<leftarrow> filter (\<lambda>leg. leg_id_of leg = l) (leg # legs). length (leg_deps_of leg))) (indegree l)"
    using step(2) n by auto
  moreover have "\<forall>d. out_list out2 d = out_list outgoing d @
      map leg_id_of (filter (\<lambda>leg. d \<in> set (leg_deps_of leg)) (leg # legs))"
    using step(3) out1(2) by auto
  ultimately show ?case using out1(1) step(1) by auto
qed

lemma index_legs_bad:
  assumes "\<forall>leg \<in> set legs. indegree (leg_id_of leg) \<noteq> None" "\<not> (\<forall>leg \<in> set legs. leg_deps_ok ids leg)"
  shows "index_legs ids legs indegree outgoing = Some (Inl deps_error)"
  using assms
proof (induction legs arbitrary: indegree outgoing)
  case (Cons leg legs)
  obtain n where n: "indegree (leg_id_of leg) = Some n" using Cons.prems by auto
  show ?case
  proof (cases "leg_deps_ok ids leg")
    case True
    then obtain out1 where "index_dependencies (leg_id_of leg) ids {} (leg_deps_of leg) indegree outgoing =
        Some (Inr (indegree(leg_id_of leg \<mapsto> n + length (leg_deps_of leg)), out1))"
      using index_dependencies_ok [where indegree = indegree and l = "leg_id_of leg" and n = n
        and ds = "leg_deps_of leg" and ids = ids and seen = "{}" and outgoing = outgoing] n
      by (auto simp: leg_deps_ok_def)
    then show ?thesis using Cons True by auto
  next
    case False
    then show ?thesis
      using index_dependencies_bad [where indegree = indegree and l = "leg_id_of leg" and n = n
        and ds = "leg_deps_of leg" and ids = ids and seen = "{}" and outgoing = outgoing] n by (auto simp: leg_deps_ok_def)
  qed
qed simp

section \<open>Traversal\<close>

lemma release_targets_spec:
  assumes "distinct ts" "\<forall>t \<in> set ts. \<exists>n. indegree t = Some (Suc n)"
  shows "release_targets ts indegree queue =
    Some (\<lambda>l. if l \<in> set ts then map_option (\<lambda>n. n - 1) (indegree l) else indegree l,
      queue @ filter (\<lambda>t. indegree t = Some 1) ts)"
  using assms
proof (induction ts arbitrary: indegree queue)
  case (Cons t ts)
  obtain n where n: "indegree t = Some (Suc n)" using Cons.prems by auto
  have "release_targets ts (indegree(t \<mapsto> n)) (if n = 0 then queue @ [t] else queue) =
      Some (\<lambda>l. if l \<in> set ts then map_option (\<lambda>n. n - 1) ((indegree(t \<mapsto> n)) l) else (indegree(t \<mapsto> n)) l,
        (if n = 0 then queue @ [t] else queue) @ filter (\<lambda>t'. (indegree(t \<mapsto> n)) t' = Some 1) ts)"
    by (rule Cons.IH) (use Cons.prems in auto)
  moreover have "filter (\<lambda>t'. (indegree(t \<mapsto> n)) t' = Some 1) ts = filter (\<lambda>t. indegree t = Some 1) ts"
    using Cons.prems(1) by (intro filter_cong) auto
  moreover have "(\<lambda>l. if l \<in> set ts then map_option (\<lambda>n. n - 1) ((indegree(t \<mapsto> n)) l) else (indegree(t \<mapsto> n)) l) =
      (\<lambda>l. if l \<in> set (t # ts) then map_option (\<lambda>n. n - 1) (indegree l) else indegree l)"
    using Cons.prems(1) n by (intro ext) simp
  ultimately show ?case using n by simp
qed simp

lemma traverse_simps:
  "traverse outgoing [] indegree visited = Some visited"
  "traverse outgoing (x # rest) indegree visited =
     (case release_targets (out_list outgoing x) indegree rest of
        None \<Rightarrow> None
      | Some (indegree', queue') \<Rightarrow> traverse outgoing queue' indegree' (visited + 1))"
  by (simp_all add: traverse.simps out_list_def)

text \<open>
  \<open>popped\<close> are the legs popped so far, in order; every leg waits for its dependencies outside
  \<open>popped\<close>; the legs without any are in \<open>popped\<close> or in the queue.
\<close>

definition kahn_inv :: "ExecutionLeg list \<Rightarrow> LegId list \<Rightarrow> LegId list \<Rightarrow> indegrees \<Rightarrow> bool" where
  "kahn_inv legs popped queue indegree \<longleftrightarrow>
     distinct (popped @ queue) \<and> set (popped @ queue) \<subseteq> set (map leg_id_of legs)
   \<and> (\<forall>l \<in> set (map leg_id_of legs). indegree l = Some (card (deps_of legs l - set popped))
        \<and> (l \<in> set (popped @ queue) \<longleftrightarrow> deps_of legs l \<subseteq> set popped))
   \<and> (\<forall>i < length popped. deps_of legs (popped ! i) \<subseteq> set (take i popped))"

definition targets_of :: "ExecutionLeg list \<Rightarrow> LegId \<Rightarrow> LegId list" where
  "targets_of legs d = map leg_id_of (filter (\<lambda>leg. d \<in> set (leg_deps_of leg)) legs)"

lemma deps_of_finite [simp]: "finite (deps_of legs l)"
proof -
  have "deps_of legs l \<subseteq> \<Union> (set ` leg_deps_of ` set legs)" by (auto simp: deps_of_def)
  then show ?thesis by (rule finite_subset) simp
qed

lemma set_targets_of: "set (targets_of legs d) = {l. d \<in> deps_of legs l}"
  by (auto simp: targets_of_def deps_of_def)

lemma distinct_targets_of: "distinct (map leg_id_of legs) \<Longrightarrow> distinct (targets_of legs d)"
  by (simp add: targets_of_def distinct_map_filter)

lemma deps_of_ids: "d \<in> deps_of legs l \<Longrightarrow> l \<in> set (map leg_id_of legs)"
  by (auto simp: deps_of_def)

lemma kahn_inv_pop:
  assumes "kahn_inv legs popped (x # rest) indegree"
  shows "distinct (popped @ [x])" "x \<notin> set rest" "x \<notin> set popped" "deps_of legs x \<subseteq> set popped"
    "x \<in> set (map leg_id_of legs)"
proof -
  have "distinct (popped @ x # rest)" and ids: "set (popped @ x # rest) \<subseteq> set (map leg_id_of legs)"
    using assms unfolding kahn_inv_def by blast+
  then show "distinct (popped @ [x])" "x \<notin> set rest" "x \<notin> set popped" by auto
  show x: "x \<in> set (map leg_id_of legs)" using ids by simp
  have "x \<in> set (popped @ x # rest) \<longleftrightarrow> deps_of legs x \<subseteq> set popped"
    using assms x unfolding kahn_inv_def by blast
  then show "deps_of legs x \<subseteq> set popped" by simp
qed

lemma card_remove_dep:
  assumes "x \<in> deps_of legs l" "x \<notin> set popped"
  shows "card (deps_of legs l - set popped) = Suc (card (deps_of legs l - set (popped @ [x])))"
proof -
  have "deps_of legs l - set popped = insert x (deps_of legs l - set (popped @ [x]))" using assms by auto
  then have "card (deps_of legs l - set popped) = card (insert x (deps_of legs l - set (popped @ [x])))"
    by (rule arg_cong)
  also have "\<dots> = Suc (card (deps_of legs l - set (popped @ [x])))" by (rule card_insert_disjoint) auto
  finally show ?thesis .
qed

lemma kahn_step:
  assumes inv: "kahn_inv legs popped (x # rest) indegree" and d: "distinct (map leg_id_of legs)"
  defines "indegree' \<equiv> \<lambda>l. if l \<in> set (targets_of legs x) then map_option (\<lambda>n. n - 1) (indegree l) else indegree l"
    and "queue' \<equiv> rest @ filter (\<lambda>t. indegree t = Some 1) (targets_of legs x)"
  shows "release_targets (targets_of legs x) indegree rest = Some (indegree', queue')"
    and "kahn_inv legs (popped @ [x]) queue' indegree'"
proof -
  note x = kahn_inv_pop [OF inv]
  let ?N = "set (map leg_id_of legs)"
  have ind: "indegree l = Some (card (deps_of legs l - set popped))"
    and wait: "l \<in> set (popped @ x # rest) \<longleftrightarrow> deps_of legs l \<subseteq> set popped" if "l \<in> ?N" for l
    using inv that unfolding kahn_inv_def by blast+
  have target: "l \<in> ?N \<and> x \<in> deps_of legs l \<and>
      indegree l = Some (Suc (card (deps_of legs l - set (popped @ [x]))))" if "l \<in> set (targets_of legs x)" for l
    using that card_remove_dep [OF _ x(3)] ind deps_of_ids by (auto simp: set_targets_of)
  show "release_targets (targets_of legs x) indegree rest = Some (indegree', queue')"
    unfolding indegree'_def queue'_def
    by (rule release_targets_spec) (use distinct_targets_of [OF d] target in blast)+
  have released: "indegree t = Some 1 \<and> t \<in> set (targets_of legs x) \<longleftrightarrow>
      x \<in> deps_of legs t \<and> deps_of legs t \<subseteq> set (popped @ [x])" for t
  proof (cases "t \<in> set (targets_of legs x)")
    case True
    have "card (deps_of legs t - set (popped @ [x])) = 0 \<longleftrightarrow> deps_of legs t \<subseteq> set (popped @ [x])"
      by (auto simp: card_eq_0_iff)
    with target [OF True] True show ?thesis by (auto simp: set_targets_of)
  qed (simp add: set_targets_of)
  have new: "t \<notin> set (popped @ x # rest)" if "indegree t = Some 1" "t \<in> set (targets_of legs x)" for t
    using that wait [of t] target [of t] x(3) by auto
  show "kahn_inv legs (popped @ [x]) queue' indegree'"
    unfolding kahn_inv_def
  proof (intro conjI ballI allI impI)
    show "distinct ((popped @ [x]) @ queue')"
      using inv new distinct_targets_of [OF d, of x] by (auto simp: kahn_inv_def queue'_def)
    show "set ((popped @ [x]) @ queue') \<subseteq> ?N"
      using inv target by (auto simp: kahn_inv_def queue'_def)
  next
    fix l assume l: "l \<in> ?N"
    show "indegree' l = Some (card (deps_of legs l - set (popped @ [x])))"
    proof (cases "l \<in> set (targets_of legs x)")
      case True
      then show ?thesis using target [OF True] by (simp add: indegree'_def)
    next
      case False
      then have "deps_of legs l - set (popped @ [x]) = deps_of legs l - set popped" by (auto simp: set_targets_of)
      then show ?thesis using False ind [OF l] by (simp add: indegree'_def)
    qed
    have "l \<in> set ((popped @ [x]) @ queue') \<longleftrightarrow>
        l \<in> set (popped @ x # rest) \<or> (indegree l = Some 1 \<and> l \<in> set (targets_of legs x))"
      by (auto simp: queue'_def)
    also have "\<dots> \<longleftrightarrow> deps_of legs l \<subseteq> set (popped @ [x])"
      unfolding wait [OF l] released by auto
    finally show "l \<in> set ((popped @ [x]) @ queue') \<longleftrightarrow> deps_of legs l \<subseteq> set (popped @ [x])" .
  next
    fix i assume "i < length (popped @ [x])"
    then show "deps_of legs ((popped @ [x]) ! i) \<subseteq> set (take i (popped @ [x]))"
      using inv x(4) by (cases "i = length popped") (auto simp: kahn_inv_def nth_append)
  qed
qed

lemma traverse_finishes:
  assumes "kahn_inv legs popped queue indegree" "distinct (map leg_id_of legs)"
    and "\<forall>d. out_list outgoing d = targets_of legs d"
  shows "\<exists>final indegree'. traverse outgoing queue indegree (length popped) = Some (length final)
    \<and> kahn_inv legs final [] indegree'"
  using assms(1)
proof (induction "length legs - length popped" arbitrary: popped queue indegree rule: less_induct)
  case less
  show ?case
  proof (cases queue)
    case Nil
    then show ?thesis using less.prems by (auto simp: traverse_simps)
  next
    case (Cons x rest)
    note step = kahn_step [OF less.prems [unfolded Cons] assms(2)]
    have "length (popped @ [x]) \<le> length legs"
    proof -
      have "length (popped @ [x]) = card (set (popped @ [x]))"
        using kahn_inv_pop(1) [OF less.prems [unfolded Cons]] by (simp add: distinct_card)
      also have "\<dots> \<le> card (set (map leg_id_of legs))"
        using less.prems Cons by (intro card_mono) (auto simp: kahn_inv_def)
      also have "\<dots> \<le> length legs" using card_length [of "map leg_id_of legs"] by simp
      finally show ?thesis .
    qed
    then have "length legs - length (popped @ [x]) < length legs - length popped" by simp
    from less.hyps [OF this step(2)] show ?thesis
      using Cons step(1) assms(3) by (simp add: traverse_simps)
  qed
qed

section \<open>The dependency check decides acyclicity\<close>

lemma filter_key:
  assumes "distinct (map f xs)" "x \<in> set xs" shows "filter (\<lambda>y. f y = f x) xs = [x]"
  using assms
proof (induction xs)
  case (Cons y ys)
  show ?case
  proof (cases "x = y")
    case True
    then have "filter (\<lambda>z. f z = f x) ys = []" using Cons.prems by (auto simp: filter_empty_conv image_iff)
    then show ?thesis using True by simp
  next
    case False
    then have "f y \<noteq> f x" using Cons.prems by (auto simp: image_iff)
    then show ?thesis using Cons False by simp
  qed
qed simp

lemma indegree_is_card:
  assumes "graph_ok legs" "leg \<in> set legs"
  shows "(\<Sum>g \<leftarrow> filter (\<lambda>g. leg_id_of g = leg_id_of leg) legs. length (leg_deps_of g)) =
    card (deps_of legs (leg_id_of leg))"
proof -
  have one: "filter (\<lambda>g. leg_id_of g = leg_id_of leg) legs = [leg]"
    using filter_key [of leg_id_of legs leg] assms by (simp add: graph_ok_def)
  have "deps_of legs (leg_id_of leg) =
      (\<Union>g \<in> set (filter (\<lambda>g. leg_id_of g = leg_id_of leg) legs). set (leg_deps_of g))"
    by (auto simp: deps_of_def)
  then have "deps_of legs (leg_id_of leg) = set (leg_deps_of leg)" by (simp only: one) simp
  then show ?thesis
    using one assms by (simp add: distinct_card graph_ok_def leg_deps_ok_def)
qed

lemma kahn_inv_initial:
  assumes ok: "graph_ok legs" and order: "distinct order" "set order = set (map leg_id_of legs)"
    and ind: "\<forall>leg \<in> set legs. indegree (leg_id_of leg) = Some (card (deps_of legs (leg_id_of leg)))"
  shows "kahn_inv legs [] (filter (\<lambda>l. indegree l = Some 0) order) indegree"
  using order ind by (auto simp: kahn_inv_def)

lemma final_all_iff_acyclic:
  assumes inv: "kahn_inv legs final [] indegree" and ok: "graph_ok legs"
  shows "set final = set (map leg_id_of legs) \<longleftrightarrow> acyclic (dependency_rel legs)"
proof
  assume all: "set final = set (map leg_id_of legs)"
  have dist: "distinct final" using inv by (simp add: kahn_inv_def)
  define pos where "pos l = length (takeWhile (\<lambda>x. x \<noteq> l) final)" for l
  have pos: "pos (final ! i) = i" if "i < length final" for i
  proof -
    have "takeWhile (\<lambda>x. x \<noteq> final ! i) final = take i final"
      using that dist by (intro takeWhile_eq_take_P_nth) (auto simp: nth_eq_iff_index_eq)
    then show ?thesis using that by (simp add: pos_def)
  qed
  have "dependency_rel legs \<subseteq> measure pos"
  proof (clarsimp simp: dependency_rel_def)
    fix d l assume d: "d \<in> deps_of legs l"
    have "l \<in> set final" unfolding all by (rule deps_of_ids [OF d])
    then obtain i where i: "i < length final" "l = final ! i" by (auto simp: in_set_conv_nth)
    then have "d \<in> set (take i final)" using inv d by (auto simp: kahn_inv_def)
    then obtain j where "j < i" "d = final ! j" using i(1) by (auto simp: in_set_conv_nth)
    then show "pos d < pos l" using pos i by simp
  qed
  then show "acyclic (dependency_rel legs)" by (blast intro: wf_acyclic wf_subset wf_measure)
next
  assume acyclic: "acyclic (dependency_rel legs)"
  have known: "d \<in> set (map leg_id_of legs)" if "d \<in> deps_of legs l" for d l
    using that ok by (auto simp: deps_of_def graph_ok_def leg_deps_ok_def)
  have "dependency_rel legs \<subseteq> set (map leg_id_of legs) \<times> set (map leg_id_of legs)"
    using known deps_of_ids by (auto simp: dependency_rel_def simp del: set_map)
  then have "finite (dependency_rel legs)" by (rule finite_subset) simp
  then have wf: "wf (dependency_rel legs)" using acyclic by (rule finite_acyclic_wf)
  have "l \<in> set final" if "l \<in> set (map leg_id_of legs)" for l
    using wf that
  proof (induction l rule: wf_induct_rule)
    case (less l)
    then have "deps_of legs l \<subseteq> set final" using known by (auto simp: dependency_rel_def)
    then show ?case using inv less.prems by (auto simp: kahn_inv_def)
  qed
  then show "set final = set (map leg_id_of legs)" using inv by (auto simp: kahn_inv_def)
qed

lemma dependencies_correct:
  assumes dist: "distinct (map leg_id_of legs)"
    and order: "distinct order" "set order = set (map leg_id_of legs)"
  shows "validate_execution_dependencies order legs (set (map leg_id_of legs)) =
    Some (if \<not> graph_ok legs then Inl deps_error
      else if acyclic (dependency_rel legs) then Inr () else Inl cycle_error)"
proof -
  let ?N = "set (map leg_id_of legs)"
  let ?zero = "\<lambda>l. if l \<in> ?N then Some 0 else None"
  have known: "\<forall>leg \<in> set legs. ?zero (leg_id_of leg) \<noteq> None" by auto
  show ?thesis
  proof (cases "graph_ok legs")
    case False
    then have "\<not> (\<forall>leg \<in> set legs. leg_deps_ok ?N leg)" using dist by (simp add: graph_ok_def)
    from index_legs_bad [OF known this, of Map.empty] False show ?thesis
      by (simp add: validate_execution_dependencies_def)
  next
    case True
    then have "\<forall>leg \<in> set legs. leg_deps_ok ?N leg" by (simp add: graph_ok_def)
    from index_legs_ok [OF known this, of Map.empty] obtain indegree outgoing where
      idx: "index_legs ?N legs ?zero Map.empty = Some (Inr (indegree, outgoing))"
      and ind: "\<And>l. indegree l = map_option (\<lambda>n. n +
        (\<Sum>leg \<leftarrow> filter (\<lambda>leg. leg_id_of leg = l) legs. length (leg_deps_of leg))) (?zero l)"
      and out: "\<forall>d. out_list outgoing d = targets_of legs d"
      by (auto simp: out_list_def targets_of_def)
    have "\<forall>leg \<in> set legs. indegree (leg_id_of leg) = Some (card (deps_of legs (leg_id_of leg)))"
      using ind indegree_is_card [OF True] by simp
    from traverse_finishes [OF kahn_inv_initial [OF True order this] dist out] obtain final indegree' where
      run: "traverse outgoing (filter (\<lambda>l. indegree l = Some 0) order) indegree 0 = Some (length final)"
      and inv: "kahn_inv legs final [] indegree'"
      by auto
    have sub: "set final \<subseteq> ?N" and "length final = card (set final)"
      using inv by (auto simp: kahn_inv_def distinct_card)
    then have "length final = card ?N \<longleftrightarrow> set final = ?N"
      using card_subset_eq [OF _ sub] by auto
    then show ?thesis
      using True idx run final_all_iff_acyclic [OF inv True]
      by (simp add: validate_execution_dependencies_def)
  qed
qed

section \<open>Valid plans\<close>

lemma validate_legs_iff:
  "validate_legs ids legs = Inr ids' \<longleftrightarrow> (\<forall>leg \<in> set legs. ExecutionLeg_validate leg = Inr ())
     \<and> distinct (map leg_id_of legs) \<and> set (map leg_id_of legs) \<inter> ids = {}
     \<and> ids' = ids \<union> set (map leg_id_of legs)"
  by (induction legs arbitrary: ids) (auto simp: unit_result_simps)

definition summary_of :: "(ExecutionLegStatus \<Rightarrow> bool) \<Rightarrow> ExecutionLeg list \<Rightarrow> LegId list" where
  "summary_of expected legs = map leg_id_of (filter (\<lambda>leg. expected (leg_status_of leg)) legs)"

lemma validate_execution_summary_iff:
  "validate_execution_summary field summary legs expected = Inr () \<longleftrightarrow> summary = summary_of expected legs"
proof -
  have "list_ex (\<lambda>(a, b). a \<noteq> b) (zip xs ys) \<longleftrightarrow> xs \<noteq> ys" if "length xs = length ys" for xs ys :: "LegId list"
    using that by (induction xs ys rule: list_induct2) auto
  then show ?thesis
    by (auto simp: validate_execution_summary_def summary_of_def Let_def)
qed

definition plan_head_ok :: "ExecutionPlan \<Rightarrow> bool" where
  "plan_head_ok plan \<longleftrightarrow> \<not> trim_is_empty (epd_plan_id (plan_definition plan))
     \<and> \<not> trim_is_empty (epd_account_id (plan_definition plan))
     \<and> \<not> trim_is_empty (epd_strategy_id (plan_definition plan)) \<and> plan_legs plan \<noteq> []
     \<and> (\<forall>leg \<in> set (plan_legs plan). ExecutionLeg_validate leg = Inr ())
     \<and> distinct (map leg_id_of (plan_legs plan))
     \<and> (epd_mode (plan_definition plan) = ExecutionPlanMode.Simultaneous \<longrightarrow>
          (\<forall>leg \<in> set (plan_legs plan). leg_deps_of leg = []))"

lemma validate_plan_head_iff:
  "validate_plan_head plan = Inr ids \<longleftrightarrow> plan_head_ok plan \<and> ids = set (map leg_id_of (plan_legs plan))"
  unfolding validate_plan_head_def validate_execution_non_empty_def plan_head_ok_def
  by (simp add: result_simps validate_legs_iff list_ex_iff) blast

lemma validate_plan_projection_iff:
  "validate_plan_projection plan = Inr () \<longleftrightarrow>
     eps_filled_legs (plan_state plan) = summary_of leg_status_is_filled (plan_legs plan)
   \<and> eps_failed_legs (plan_state plan) = summary_of leg_status_is_failed (plan_legs plan)
   \<and> eps_status (plan_state plan) = derive_execution_plan_status (plan_legs plan)"
  by (simp add: validate_plan_projection_def unit_result_simps validate_execution_summary_iff Let_def)

definition dependencies_ok :: "ExecutionPlan \<Rightarrow> bool" where
  "dependencies_ok plan \<longleftrightarrow> (\<forall>leg \<in> set (plan_legs plan).
       leg_deps_ok (set (map leg_id_of (plan_legs plan))) leg) \<and> acyclic (dependency_rel (plan_legs plan))"

lemma ExecutionPlan_validate_cases:
  "ExecutionPlan_validate plan = Some
     (case validate_plan_head plan of
        Inl e \<Rightarrow> Inl e
      | Inr ids \<Rightarrow> if dependencies_ok plan then validate_plan_projection plan
          else Inl (if graph_ok (plan_legs plan) then cycle_error else deps_error))"
proof (cases "validate_plan_head plan")
  case (Inl e)
  then show ?thesis by (simp add: ExecutionPlan_validate_def)
next
  case (Inr ids)
  then have d: "distinct (map leg_id_of (plan_legs plan))" and ids: "ids = set (map leg_id_of (plan_legs plan))"
    by (auto simp: validate_plan_head_iff plan_head_ok_def)
  show ?thesis
    unfolding ExecutionPlan_validate_def Inr ids
    using dependencies_correct [OF d d refl] d
    by (simp add: dependencies_ok_def graph_ok_def)
qed

lemma plan_valid_iff:
  "ExecutionPlan_validate plan = Some (Inr ()) \<longleftrightarrow>
     plan_head_ok plan \<and> dependencies_ok plan \<and> validate_plan_projection plan = Inr ()"
proof (cases "validate_plan_head plan")
  case (Inl e)
  then have "\<not> plan_head_ok plan"
    using validate_plan_head_iff [of plan "set (map leg_id_of (plan_legs plan))"] by auto
  then show ?thesis using Inl by (simp add: ExecutionPlan_validate_cases)
next
  case (Inr ids)
  then have "plan_head_ok plan" by (simp add: validate_plan_head_iff)
  then show ?thesis using Inr by (simp add: ExecutionPlan_validate_cases)
qed

section \<open>Properties\<close>

definition sample_cycle :: "ExecutionLeg list" where
  "sample_cycle = map (\<lambda>(name, dep). \<lparr>leg_definition = \<lparr>eld_leg_id = name, eld_symbol = ''XAUUSD'',
     eld_action = ExecutionAction.Buy, eld_lots = Some f64_one, eld_sl = None, eld_tp = None,
     eld_ratio = f64_one, eld_dependency = [dep]\<rparr>,
     leg_state = \<lparr>els_status = ExecutionLegStatus.Pending\<rparr>\<rparr>) [(''x'', ''y''), (''y'', ''x'')]"

text \<open>C30: The dependency check is exact and independent of hash order. For legs with distinct ids
  and any iteration order of the hash map of leg ids, Kahn's traversal ends without a panic and
  accepts exactly when every dependency list is duplicate-free, known and not self-referential and
  the dependency relation is acyclic; otherwise it returns the error of the failing check.\<close>

theorem dependency_check_decides_acyclicity:
  assumes "distinct (map leg_id_of legs)"
    and "distinct order" and "set order = set (map leg_id_of legs)"
  shows "validate_execution_dependencies order legs (set (map leg_id_of legs)) =
    Some (if \<not> graph_ok legs then Inl deps_error
      else if acyclic (dependency_rel legs) then Inr () else Inl cycle_error)"
  using assms by (rule dependencies_correct)

theorem dependency_check_decides_acyclicity_witness:
  "validate_execution_dependencies [''y'', ''x''] sample_cycle (set (map leg_id_of sample_cycle)) =
     Some (Inl cycle_error)"
proof -
  have ok: "graph_ok sample_cycle" by (simp add: graph_ok_def leg_deps_ok_def sample_cycle_def)
  have "(''x'', ''y'') \<in> dependency_rel sample_cycle" "(''y'', ''x'') \<in> dependency_rel sample_cycle"
    by (simp_all add: dependency_rel_def deps_of_def sample_cycle_def)
  then have "(''x'', ''x'') \<in> (dependency_rel sample_cycle)\<^sup>+" by (blast intro: trancl_into_trancl)
  then have "\<not> acyclic (dependency_rel sample_cycle)" by (auto simp: acyclic_def)
  with ok dependency_check_decides_acyclicity [of sample_cycle "[''y'', ''x'']"] show ?thesis
    by (simp add: sample_cycle_def insert_commute)
qed

text \<open>Plan validation is total and exact. It never panics, and it accepts a plan exactly when its
  ids are not blank, its legs are individually valid with distinct ids (and without dependencies in
  a simultaneous plan), the dependencies are well formed and acyclic, and the stored status and the
  filled and failed summaries are those derived from the legs.\<close>

theorem plan_validation_exact:
  "(\<exists>r. ExecutionPlan_validate plan = Some r)
   \<and> (ExecutionPlan_validate plan = Some (Inr ()) \<longleftrightarrow>
       plan_head_ok plan \<and> dependencies_ok plan
     \<and> eps_filled_legs (plan_state plan) = summary_of leg_status_is_filled (plan_legs plan)
     \<and> eps_failed_legs (plan_state plan) = summary_of leg_status_is_failed (plan_legs plan)
     \<and> eps_status (plan_state plan) = derive_execution_plan_status (plan_legs plan))"
  by (simp add: plan_valid_iff validate_plan_projection_iff) (simp add: ExecutionPlan_validate_cases)

text \<open>The plan status says what the legs did. For a plan with legs, \<open>COMPLETED\<close> means exactly
  that every leg is filled; \<open>FAILED\<close> means that no leg holds a fill and every leg is terminal; and
  the order of the legs does not matter.\<close>

theorem derived_status_meaning:
  assumes "legs \<noteq> []" and "mset legs = mset legs'"
  shows "derive_execution_plan_status legs' = derive_execution_plan_status legs
    \<and> (derive_execution_plan_status legs = ExecutionPlanStatus.Completed \<longleftrightarrow>
         (\<forall>leg \<in> set legs. leg_status_of leg = ExecutionLegStatus.Filled))
    \<and> (derive_execution_plan_status legs = ExecutionPlanStatus.Failed \<longrightarrow>
         (\<forall>leg \<in> set legs. leg_status_is_terminal (leg_status_of leg)
            \<and> \<not> leg_status_is_filled (leg_status_of leg)))"
proof -
  have "set legs' = set legs" "legs' \<noteq> []" using assms by (metis set_mset_mset, auto)
  then have "derive_execution_plan_status legs' = derive_execution_plan_status legs"
    using assms(1) by (simp add: derive_execution_plan_status_def list_all_iff list_ex_iff)
  then show ?thesis
    using assms(1)
    by (auto simp: derive_execution_plan_status_def Let_def list_all_iff list_ex_iff
      leg_status_is_filled_def split: if_splits)
qed

theorem derived_status_meaning_witness:
  "derive_execution_plan_status (rev sample_cycle) = derive_execution_plan_status sample_cycle
   \<and> derive_execution_plan_status sample_cycle \<noteq> ExecutionPlanStatus.Completed"
  using derived_status_meaning [of sample_cycle "rev sample_cycle"]
  by (simp add: sample_cycle_def)

end
