(* ===== verification/Projector.thy ===== *)
theory Projector
  imports Execution_State Execution_Plan_Correct
begin

text \<open>
  The projector of \<open>crates/execution/src/projector.rs\<close>: a leg's status from its single command
  lifecycle and its execution events, a plan's status and summaries from its legs, and the recovery
  decision for partial plans. \<open>None\<close> is a panic of \<open>ExecutionPlan::validate\<close>, which does not occur.
\<close>

section \<open>Model\<close>

datatype ProjectionError = IdentityMismatch string | UnsupportedCommandCardinality
  | DeliveryFailedDeferred | EmptyPlan

datatype RecoveryDecision = NoRecovery | CloseFilled "LegId list" | LeavePartial | ManualReview

definition event_outside_leg ::
  "PlanId \<Rightarrow> AccountId \<Rightarrow> ExecutionLeg \<Rightarrow> ExecutionCommandState \<Rightarrow> ExecutionId set \<Rightarrow> ExecutionEvent \<Rightarrow> bool"
  where
  "event_outside_leg plan_id account_id leg command execution_ids event \<longleftrightarrow>
     trim_is_empty (ev_execution_id event)
   \<or> ev_execution_id event \<in> execution_ids
   \<or> ev_command_id event \<noteq> cs_command_id command
   \<or> ev_account_id event \<noteq> account_id
   \<or> ev_plan_id event \<noteq> Some plan_id
   \<or> ev_leg_id event \<noteq> cs_leg_id command
   \<or> ev_symbol event \<noteq> eld_symbol (leg_definition leg)
   \<or> ev_event_at event < cs_created_at command"

definition fill_lacks_evidence :: "ExecutionCommandState \<Rightarrow> ExecutionEvent \<Rightarrow> bool" where
  "fill_lacks_evidence command event \<longleftrightarrow>
     ev_filled_at event = None
   \<or> (case ev_filled_lots event of None \<Rightarrow> True
       | Some lots \<Rightarrow> \<not> f64_is_finite lots \<or> f64_le lots f64_zero)
   \<or> (case ev_filled_at event of None \<Rightarrow> False
       | Some filled_at \<Rightarrow> filled_at < cs_created_at command \<or> filled_at > ev_event_at event)"

definition event_has_invalid_number :: "ExecutionEvent \<Rightarrow> bool" where
  "event_has_invalid_number event \<longleftrightarrow>
     list_ex (\<lambda>value. case value of None \<Rightarrow> False
         | Some v \<Rightarrow> \<not> f64_is_finite v \<or> f64_lt v f64_zero)
       [ev_requested_lots event, ev_fill_price event, ev_filled_lots event, ev_remaining_lots event]"

text \<open>The loop over the events, with the set of ids and the two fill flags.\<close>

primrec scan_events ::
  "PlanId \<Rightarrow> AccountId \<Rightarrow> ExecutionLeg \<Rightarrow> ExecutionCommandState \<Rightarrow> ExecutionEvent list \<Rightarrow>
   ExecutionId set \<Rightarrow> bool \<Rightarrow> bool \<Rightarrow> (ProjectionError, bool \<times> bool) result" where
  "scan_events plan_id account_id leg command [] execution_ids has_partial_fill has_full_fill =
     Inr (has_partial_fill, has_full_fill)"
| "scan_events plan_id account_id leg command (event # events) execution_ids has_partial_fill has_full_fill =
     (if event_outside_leg plan_id account_id leg command execution_ids event
        then Inl (IdentityMismatch ''execution event does not belong to the projected leg command'')
      else let is_fill = (ev_status event = ExecutionEventStatus.PartiallyFilled
          \<or> ev_status event = ExecutionEventStatus.Filled)
      in if is_fill \<and> fill_lacks_evidence command event
        then Inl (IdentityMismatch ''fill event lacks positive exposure evidence'')
      else if \<not> is_fill \<and> ev_filled_at event \<noteq> None
        then Inl (IdentityMismatch ''non-fill event carries filled_at'')
      else if event_has_invalid_number event
        then Inl (IdentityMismatch ''execution event contains an invalid numeric value'')
      else scan_events plan_id account_id leg command events
        (insert (ev_execution_id event) execution_ids)
        (has_partial_fill \<or> ev_status event = ExecutionEventStatus.PartiallyFilled)
        (has_full_fill \<or> ev_status event = ExecutionEventStatus.Filled))"

primrec lifecycle_leg_status ::
  "ExecutionCommandStatus \<Rightarrow> (ProjectionError, ExecutionLegStatus) result" where
  "lifecycle_leg_status ExecutionCommandStatus.Created = Inr ExecutionLegStatus.Pending"
| "lifecycle_leg_status ExecutionCommandStatus.Dispatched = Inr ExecutionLegStatus.Sent"
| "lifecycle_leg_status ExecutionCommandStatus.DeliveryUnconfirmed =
     Inr ExecutionLegStatus.DeliveryUnconfirmed"
| "lifecycle_leg_status ExecutionCommandStatus.DeliveryFailed = Inl DeliveryFailedDeferred"
| "lifecycle_leg_status ExecutionCommandStatus.Reconciling = Inr ExecutionLegStatus.Reconciling"
| "lifecycle_leg_status ExecutionCommandStatus.ManualReconciliationRequired =
     Inr ExecutionLegStatus.ManualReconciliationRequired"
| "lifecycle_leg_status ExecutionCommandStatus.CommandReceived = Inr ExecutionLegStatus.CommandReceived"
| "lifecycle_leg_status ExecutionCommandStatus.Accepted = Inr ExecutionLegStatus.Accepted"
| "lifecycle_leg_status ExecutionCommandStatus.Rejected = Inr ExecutionLegStatus.Rejected"
| "lifecycle_leg_status ExecutionCommandStatus.OrderSent = Inr ExecutionLegStatus.OrderSent"
| "lifecycle_leg_status ExecutionCommandStatus.PartiallyFilled = Inr ExecutionLegStatus.PartiallyFilled"
| "lifecycle_leg_status ExecutionCommandStatus.Filled = Inr ExecutionLegStatus.Filled"
| "lifecycle_leg_status ExecutionCommandStatus.Failed = Inr ExecutionLegStatus.Failed"
| "lifecycle_leg_status ExecutionCommandStatus.Expired = Inr ExecutionLegStatus.Expired"
| "lifecycle_leg_status ExecutionCommandStatus.Cancelled = Inr ExecutionLegStatus.Cancelled"

definition project_leg ::
  "PlanId \<Rightarrow> AccountId \<Rightarrow> ExecutionLeg \<Rightarrow> ExecutionCommandState list \<Rightarrow> ExecutionEvent list \<Rightarrow>
   (ProjectionError, ExecutionLeg) result" where
  "project_leg plan_id account_id leg command_states events =
     (case command_states of
        [command] \<Rightarrow>
          if cs_account_id command \<noteq> account_id \<or> cs_plan_id command \<noteq> Some plan_id
              \<or> cs_leg_id command \<noteq> Some (leg_id_of leg)
            then Inl (IdentityMismatch
              ''command state account/plan/leg identity differs from the projected leg'')
          else bindR (scan_events plan_id account_id leg command events {} False False)
            (\<lambda>(has_partial_fill, has_full_fill).
          bindR (lifecycle_leg_status (cs_status command)) (\<lambda>lifecycle_status.
          let status = (if has_full_fill then ExecutionLegStatus.Filled
            else if has_partial_fill then ExecutionLegStatus.PartiallyFilled
            else lifecycle_status)
          in Inr (leg\<lparr>leg_state := (leg_state leg)\<lparr>els_status := status\<rparr>\<rparr>)))
      | _ \<Rightarrow> Inl UnsupportedCommandCardinality)"

primrec project_legs ::
  "PlanId \<Rightarrow> AccountId \<Rightarrow> ExecutionCommandState list \<Rightarrow> ExecutionEvent list \<Rightarrow> ExecutionLeg list \<Rightarrow>
   (ProjectionError, ExecutionLeg list) result" where
  "project_legs plan_id account_id command_states events [] = Inr []"
| "project_legs plan_id account_id command_states events (leg # legs) =
     bindR (project_leg plan_id account_id leg
         (filter (\<lambda>state. cs_leg_id state = Some (leg_id_of leg)) command_states)
         (filter (\<lambda>event. ev_leg_id event = Some (leg_id_of leg)) events)) (\<lambda>projected.
     bindR (project_legs plan_id account_id command_states events legs) (\<lambda>rest.
     Inr (projected # rest)))"

definition project_plan ::
  "ExecutionPlan \<Rightarrow> ExecutionCommandState list \<Rightarrow> ExecutionEvent list \<Rightarrow>
   (ProjectionError, ExecutionPlan) result option" where
  "project_plan plan command_states events =
     (let definition' = plan_definition plan
      in if plan_legs plan = [] then Some (Inl EmptyPlan)
      else if length command_states \<noteq> length (plan_legs plan)
        then Some (Inl UnsupportedCommandCardinality)
      else if list_ex (\<lambda>state. cs_account_id state \<noteq> epd_account_id definition'
          \<or> cs_plan_id state \<noteq> Some (epd_plan_id definition')) command_states
        then Some (Inl (IdentityMismatch ''command state account/plan identity differs from the plan''))
      else case project_legs (epd_plan_id definition') (epd_account_id definition') command_states events
          (plan_legs plan) of
        Inl e \<Rightarrow> Some (Inl e)
      | Inr legs \<Rightarrow>
          if list_ex (\<lambda>event. \<not> list_ex (\<lambda>leg. ev_leg_id event = Some (leg_id_of leg)) legs) events
            then Some (Inl (IdentityMismatch ''execution event references a leg outside the plan''))
          else let projected = plan\<lparr>plan_legs := legs,
              plan_state := \<lparr>eps_status = derive_execution_plan_status legs,
                eps_filled_legs = map leg_id_of (filter (\<lambda>leg. leg_status_is_filled (leg_status_of leg)) legs),
                eps_failed_legs = map leg_id_of (filter (\<lambda>leg. leg_status_is_failed (leg_status_of leg)) legs)\<rparr>\<rparr>
            in case ExecutionPlan_validate projected of
              None \<Rightarrow> None
            | Some (Inl _) \<Rightarrow> Some (Inl (IdentityMismatch ''projected plan is invalid''))
            | Some (Inr _) \<Rightarrow> Some (Inr projected))"

definition decide_recovery :: "ExecutionPlan \<Rightarrow> RecoveryDecision" where
  "decide_recovery plan =
     (if eps_status (plan_state plan) \<noteq> ExecutionPlanStatus.Partial then NoRecovery
      else case map_option rp_mode (epd_rollback_policy (plan_definition plan)) of
        Some RollbackMode.CloseFilled \<Rightarrow>
          if eps_filled_legs (plan_state plan) \<noteq> [] then CloseFilled (eps_filled_legs (plan_state plan))
          else ManualReview
      | Some RollbackMode.NoRollback \<Rightarrow> LeavePartial
      | None \<Rightarrow>
          if epd_failure_policy (plan_definition plan) = ExecutionFailurePolicy.PartialFill
          then LeavePartial else ManualReview)"

section \<open>Legs\<close>

lemma scan_events_Inr:
  "scan_events plan_id account_id leg command events ids p f = Inr (p', f') \<Longrightarrow>
   p' = (p \<or> (\<exists>event \<in> set events. ev_status event = ExecutionEventStatus.PartiallyFilled))
   \<and> f' = (f \<or> (\<exists>event \<in> set events. ev_status event = ExecutionEventStatus.Filled))"
proof (induction events arbitrary: ids p f)
  case (Cons event events)
  then have "scan_events plan_id account_id leg command events (insert (ev_execution_id event) ids)
      (p \<or> ev_status event = ExecutionEventStatus.PartiallyFilled)
      (f \<or> ev_status event = ExecutionEventStatus.Filled) = Inr (p', f')"
    by (simp add: Let_def split: if_splits)
  from Cons.IH [OF this] show ?case by (simp add: disj_assoc)
qed simp

lemma scan_events_leg:
  "leg_definition leg' = leg_definition leg \<Longrightarrow>
   scan_events plan_id account_id leg' command events ids p f =
   scan_events plan_id account_id leg command events ids p f"
  by (induction events arbitrary: ids p f) (simp_all add: event_outside_leg_def Let_def)

text \<open>Fills outrank the lifecycle: a fill event decides the status whatever the command's state is.\<close>

definition projected_status :: "ExecutionEvent list \<Rightarrow> ExecutionLegStatus \<Rightarrow> ExecutionLegStatus" where
  "projected_status events lifecycle_status =
     (if \<exists>event \<in> set events. ev_status event = ExecutionEventStatus.Filled then ExecutionLegStatus.Filled
      else if \<exists>event \<in> set events. ev_status event = ExecutionEventStatus.PartiallyFilled
        then ExecutionLegStatus.PartiallyFilled
      else lifecycle_status)"

lemma project_leg_Inr:
  assumes "project_leg plan_id account_id leg states events = Inr leg'"
  obtains command lifecycle_status where "states = [command]" "cs_leg_id command = Some (leg_id_of leg)"
    "lifecycle_leg_status (cs_status command) = Inr lifecycle_status"
    "leg' = leg\<lparr>leg_state := (leg_state leg)\<lparr>els_status := projected_status events lifecycle_status\<rparr>\<rparr>"
proof -
  obtain command where states: "states = [command]"
    using assms by (auto simp: project_leg_def split: list.splits)
  from assms obtain p f l where scan: "scan_events plan_id account_id leg command events {} False False = Inr (p, f)"
    and l: "lifecycle_leg_status (cs_status command) = Inr l" "cs_leg_id command = Some (leg_id_of leg)"
    and leg': "leg' = leg\<lparr>leg_state := (leg_state leg)\<lparr>els_status :=
      if f then ExecutionLegStatus.Filled else if p then ExecutionLegStatus.PartiallyFilled else l\<rparr>\<rparr>"
    unfolding states by (auto simp: project_leg_def bindR_eq_Inr Let_def split: if_splits)
  have "leg' = leg\<lparr>leg_state := (leg_state leg)\<lparr>els_status := projected_status events l\<rparr>\<rparr>"
    using leg' scan_events_Inr [OF scan] by (simp add: projected_status_def)
  then show thesis by (rule that [OF states l(2,1)])
qed

lemma project_leg_again:
  assumes "project_leg plan_id account_id leg states events = Inr leg'"
  shows "leg_definition leg' = leg_definition leg"
    and "project_leg plan_id account_id leg' states events = Inr leg'"
proof -
  show d: "leg_definition leg' = leg_definition leg"
    using assms by (elim project_leg_Inr) simp
  obtain command l where leg': "states = [command]" "lifecycle_leg_status (cs_status command) = Inr l"
      "leg' = leg\<lparr>leg_state := (leg_state leg)\<lparr>els_status := projected_status events l\<rparr>\<rparr>"
    using assms by (elim project_leg_Inr)
  have "project_leg plan_id account_id leg' states events =
      project_leg plan_id account_id leg states events"
    unfolding leg'(1) project_leg_def list.case scan_events_leg [OF d] d leg'(2)
    by (simp add: leg'(3) Let_def bindR_def split: sum.split)
  then show "project_leg plan_id account_id leg' states events = Inr leg'" using assms by simp
qed

section \<open>Plans\<close>

lemma project_legs_Inr:
  "project_legs plan_id account_id states events legs = Inr legs' \<longleftrightarrow>
   list_all2 (\<lambda>leg leg'. project_leg plan_id account_id leg
      (filter (\<lambda>state. cs_leg_id state = Some (leg_id_of leg)) states)
      (filter (\<lambda>event. ev_leg_id event = Some (leg_id_of leg)) events) = Inr leg') legs legs'"
  by (induction legs arbitrary: legs') (auto simp: bindR_eq_Inr list_all2_Cons1)

lemma project_legs_definitions:
  assumes "project_legs plan_id account_id states events legs = Inr legs'"
  shows "map leg_definition legs' = map leg_definition legs"
  using assms unfolding project_legs_Inr
  by (induction rule: list_all2_induct) (auto dest: project_leg_again(1))

lemma project_legs_again:
  assumes "project_legs plan_id account_id states events legs = Inr legs'"
  shows "project_legs plan_id account_id states events legs' = Inr legs'"
  using assms unfolding project_legs_Inr
proof (induction rule: list_all2_induct)
  case (Cons leg legs leg' legs')
  then show ?case using project_leg_again [OF Cons.hyps(1)] by simp
qed simp

definition projection_of :: "ExecutionPlan \<Rightarrow> ExecutionLeg list \<Rightarrow> ExecutionPlan" where
  "projection_of plan legs = plan\<lparr>plan_legs := legs,
     plan_state := \<lparr>eps_status = derive_execution_plan_status legs,
       eps_filled_legs = summary_of leg_status_is_filled legs,
       eps_failed_legs = summary_of leg_status_is_failed legs\<rparr>\<rparr>"

text \<open>What \<open>project_plan\<close> asks of its inputs.\<close>

definition projection_inputs_ok ::
  "ExecutionPlan \<Rightarrow> ExecutionCommandState list \<Rightarrow> ExecutionEvent list \<Rightarrow> ExecutionLeg list \<Rightarrow> bool" where
  "projection_inputs_ok plan states events legs \<longleftrightarrow>
     plan_legs plan \<noteq> [] \<and> length states = length (plan_legs plan)
   \<and> (\<forall>state \<in> set states. cs_account_id state = epd_account_id (plan_definition plan)
        \<and> cs_plan_id state = Some (epd_plan_id (plan_definition plan)))
   \<and> project_legs (epd_plan_id (plan_definition plan)) (epd_account_id (plan_definition plan))
        states events (plan_legs plan) = Inr legs
   \<and> (\<forall>event \<in> set events. \<exists>leg \<in> set legs. ev_leg_id event = Some (leg_id_of leg))"

lemma project_plan_Inr:
  "project_plan plan states events = Some (Inr projected) \<longleftrightarrow>
   (\<exists>legs. projection_inputs_ok plan states events legs \<and> projected = projection_of plan legs
      \<and> ExecutionPlan_validate projected = Some (Inr ()))"
  unfolding project_plan_def projection_inputs_ok_def projection_of_def summary_of_def
  by (auto simp: Let_def list_ex_iff split: sum.splits option.splits if_splits)

lemma project_plan_total: "\<exists>r. project_plan plan states events = Some r"
  by (auto simp: project_plan_def Let_def ExecutionPlan_validate_cases split: sum.split)

lemma projection_of_same [simp]:
  "plan_legs (projection_of plan legs) = legs"
  "plan_definition (projection_of plan legs) = plan_definition plan"
  "projection_of (projection_of plan legs) legs' = projection_of plan legs'"
  by (simp_all add: projection_of_def)

lemma projection_inputs_again:
  assumes "projection_inputs_ok plan states events legs"
  shows "projection_inputs_ok (projection_of plan legs) states events legs"
proof -
  have again: "project_legs (epd_plan_id (plan_definition plan)) (epd_account_id (plan_definition plan))
      states events legs = Inr legs"
    using assms project_legs_again by (auto simp: projection_inputs_ok_def)
  have "length legs = length (plan_legs plan)"
    using assms project_legs_definitions unfolding projection_inputs_ok_def by (metis length_map)
  then show ?thesis using assms again by (auto simp: projection_inputs_ok_def)
qed

section \<open>A sample plan\<close>

text \<open>A buy and a hedging sell; the buy is filled, the sell rejected.\<close>

definition sample_leg :: "string \<Rightarrow> ExecutionAction \<Rightarrow> ExecutionLegStatus \<Rightarrow> ExecutionLeg" where
  "sample_leg name action status = \<lparr>leg_definition = \<lparr>eld_leg_id = name, eld_symbol = ''XAUUSD'',
     eld_action = action, eld_lots = Some f64_one, eld_sl = None, eld_tp = None, eld_ratio = f64_one,
     eld_dependency = []\<rparr>, leg_state = \<lparr>els_status = status\<rparr>\<rparr>"

definition sample_legs :: "ExecutionLegStatus \<Rightarrow> ExecutionLegStatus \<Rightarrow> ExecutionLeg list" where
  "sample_legs st1 st2 = [sample_leg ''buy'' ExecutionAction.Buy st1, sample_leg ''sell'' ExecutionAction.Sell st2]"

definition sample_plan :: ExecutionPlan where
  "sample_plan = \<lparr>plan_definition = \<lparr>epd_plan_id = ''p'', epd_account_id = ''a'', epd_strategy_id = ''s'',
       epd_mode = ExecutionPlanMode.Simultaneous, epd_failure_policy = ExecutionFailurePolicy.PartialFill,
       epd_rollback_policy = Some \<lparr>rp_mode = RollbackMode.CloseFilled, rp_max_retry_attempts = None\<rparr>\<rparr>,
     plan_legs = sample_legs ExecutionLegStatus.Pending ExecutionLegStatus.Pending,
     plan_state = \<lparr>eps_status = ExecutionPlanStatus.Pending, eps_filled_legs = [], eps_failed_legs = []\<rparr>\<rparr>"

definition sample_state :: "string \<Rightarrow> string \<Rightarrow> ExecutionCommandStatus \<Rightarrow> ExecutionCommandState" where
  "sample_state cmd leg status = \<lparr>cs_command_id = cmd, cs_account_id = ''a'', cs_plan_id = Some ''p'',
     cs_leg_id = Some leg, cs_status = status, cs_delivery_attempts = 1, cs_last_delivery_error = None,
     cs_created_at = 10, cs_dispatched_at = Some 11, cs_command_received_at = None,
     cs_reconciling_at = None, cs_completed_at = None, cs_updated_at = 20\<rparr>"

definition sample_states :: "ExecutionCommandState list" where
  "sample_states = [sample_state ''c1'' ''buy'' ExecutionCommandStatus.Cancelled,
     sample_state ''c2'' ''sell'' ExecutionCommandStatus.Rejected]"

definition sample_fill :: ExecutionEvent where
  "sample_fill = \<lparr>ev_execution_id = ''e1'', ev_command_id = ''c1'', ev_plan_id = Some ''p'',
     ev_leg_id = Some ''buy'', ev_account_id = ''a'', ev_terminal_id = None, ev_client_id = None,
     ev_symbol = ''XAUUSD'', ev_broker_symbol = None, ev_status = ExecutionEventStatus.Filled,
     ev_broker_order_id = None, ev_broker_deal_id = None, ev_position_ticket = None,
     ev_idempotency_key = None, ev_requested_lots = None, ev_fill_price = None,
     ev_filled_lots = Some f64_one, ev_remaining_lots = None, ev_event_at = 30, ev_filled_at = Some 25,
     ev_broker_filled_at = None, ev_error_code = None, ev_message = None\<rparr>"

lemma sample_texts:
  "\<not> trim_is_empty ''p''" "\<not> trim_is_empty ''a''" "\<not> trim_is_empty ''s''" "\<not> trim_is_empty ''buy''"
  "\<not> trim_is_empty ''sell''" "\<not> trim_is_empty ''XAUUSD''" "\<not> trim_is_empty ''e1''"
  by code_simp+

lemma sample_one: "f64_is_finite f64_one" "f64_lt f64_zero f64_one" "\<not> f64_le f64_one f64_zero"
  "\<not> f64_lt f64_one f64_zero"
  by (simp_all add: f64_defs)

lemma sample_projected_legs:
  "project_legs ''p'' ''a'' sample_states [sample_fill] (plan_legs sample_plan) =
   Inr (sample_legs ExecutionLegStatus.Filled ExecutionLegStatus.Rejected)"
  by (simp add: sample_plan_def sample_legs_def sample_states_def sample_leg_def sample_state_def
    sample_fill_def project_leg_def event_outside_leg_def fill_lacks_evidence_def
    event_has_invalid_number_def sample_texts sample_one)

definition sample_projected :: ExecutionPlan where
  "sample_projected = projection_of sample_plan (sample_legs ExecutionLegStatus.Filled ExecutionLegStatus.Rejected)"

lemma sample_projected_valid: "ExecutionPlan_validate sample_projected = Some (Inr ())"
  unfolding plan_valid_iff
proof (intro conjI)
  let ?legs = "sample_legs ExecutionLegStatus.Filled ExecutionLegStatus.Rejected"
  have "\<forall>leg \<in> set ?legs. ExecutionLeg_validate leg = Inr ()"
    by (simp add: sample_legs_def sample_leg_def ExecutionLeg_validate_def validate_execution_non_empty_def
      validate_execution_positive_def sample_texts sample_one)
  then show "plan_head_ok sample_projected"
    by (simp add: plan_head_ok_def sample_projected_def)
      (simp add: sample_plan_def sample_legs_def sample_leg_def sample_texts)
  have "dependency_rel ?legs = {}"
    by (auto simp: dependency_rel_def deps_of_def sample_legs_def sample_leg_def)
  then show "dependencies_ok sample_projected"
    by (simp add: dependencies_ok_def sample_projected_def leg_deps_ok_def wf_acyclic)
      (simp add: sample_legs_def sample_leg_def)
  show "validate_plan_projection sample_projected = Inr ()"
    by (simp add: validate_plan_projection_iff sample_projected_def projection_of_def)
qed

lemma sample_projection: "project_plan sample_plan sample_states [sample_fill] = Some (Inr sample_projected)"
proof -
  let ?legs = "sample_legs ExecutionLegStatus.Filled ExecutionLegStatus.Rejected"
  have d: "epd_plan_id (plan_definition sample_plan) = ''p''" "epd_account_id (plan_definition sample_plan) = ''a''"
    by (simp_all add: sample_plan_def)
  have "projection_inputs_ok sample_plan sample_states [sample_fill] ?legs"
    unfolding projection_inputs_ok_def d sample_projected_legs
    by (simp add: sample_plan_def sample_states_def sample_state_def sample_legs_def sample_leg_def sample_fill_def)
  then show ?thesis
    using sample_projected_valid project_plan_Inr by (auto simp: sample_projected_def)
qed

section \<open>Properties\<close>

text \<open>Projection is a pure, idempotent function of commands and events. A projected plan keeps
  the plan's definition and every leg's definition in order, carries the status and the two
  summaries derived from its legs, passes \<open>ExecutionPlan::validate\<close>, and projecting it again with
  the same commands and events gives the same plan: the leg states of the input are irrelevant.\<close>

theorem projection_is_idempotent:
  assumes "project_plan plan states events = Some (Inr projected)"
  shows "plan_definition projected = plan_definition plan
    \<and> map leg_definition (plan_legs projected) = map leg_definition (plan_legs plan)
    \<and> eps_status (plan_state projected) = derive_execution_plan_status (plan_legs projected)
    \<and> ExecutionPlan_validate projected = Some (Inr ())
    \<and> project_plan projected states events = Some (Inr projected)"
proof -
  obtain legs where legs: "projection_inputs_ok plan states events legs" "projected = projection_of plan legs"
      "ExecutionPlan_validate projected = Some (Inr ())"
    using assms by (auto simp: project_plan_Inr)
  have "project_plan projected states events = Some (Inr projected)"
    unfolding project_plan_Inr using projection_inputs_again [OF legs(1)] legs(2,3) by auto
  moreover have "map leg_definition legs = map leg_definition (plan_legs plan)"
    using legs(1) project_legs_definitions by (auto simp: projection_inputs_ok_def)
  ultimately show ?thesis using legs by (simp add: projection_of_def)
qed

theorem projection_is_idempotent_witness:
  "project_plan sample_projected sample_states [sample_fill] = Some (Inr sample_projected)
   \<and> ExecutionPlan_validate sample_projected = Some (Inr ())"
  using projection_is_idempotent [OF sample_projection] by blast

text \<open>A fill is never lost. If the events of a projected plan contain a full fill of a leg, that
  leg is \<open>FILLED\<close> and listed in \<open>filled_legs\<close>, even when its command was cancelled, expired,
  rejected or failed; a partial fill without a full one makes it \<open>PARTIALLY_FILLED\<close>, listed as
  well.\<close>

theorem fills_outrank_lifecycle:
  assumes "project_plan plan states events = Some (Inr projected)"
    and "leg \<in> set (plan_legs projected)" and "event \<in> set events"
    and "ev_leg_id event = Some (leg_id_of leg)"
    and "ev_status event \<in> {ExecutionEventStatus.Filled, ExecutionEventStatus.PartiallyFilled}"
  shows "leg_id_of leg \<in> set (eps_filled_legs (plan_state projected))
    \<and> leg_status_of leg = (if \<exists>e \<in> set events. ev_leg_id e = Some (leg_id_of leg)
          \<and> ev_status e = ExecutionEventStatus.Filled
        then ExecutionLegStatus.Filled else ExecutionLegStatus.PartiallyFilled)"
proof -
  obtain legs where legs: "projection_inputs_ok plan states events legs" "projected = projection_of plan legs"
    using assms(1) by (auto simp: project_plan_Inr)
  have "project_legs (epd_plan_id (plan_definition plan)) (epd_account_id (plan_definition plan))
      states events legs = Inr legs"
    using legs(1) project_legs_again by (auto simp: projection_inputs_ok_def)
  then have "project_leg (epd_plan_id (plan_definition plan)) (epd_account_id (plan_definition plan)) leg
      (filter (\<lambda>state. cs_leg_id state = Some (leg_id_of leg)) states)
      (filter (\<lambda>event. ev_leg_id event = Some (leg_id_of leg)) events) = Inr leg"
    using assms(2) legs(2) unfolding project_legs_Inr by (auto simp: list_all2_same)
  then obtain l where l: "leg = leg\<lparr>leg_state := (leg_state leg)\<lparr>els_status := projected_status
      (filter (\<lambda>event. ev_leg_id event = Some (leg_id_of leg)) events) l\<rparr>\<rparr>"
    by (elim project_leg_Inr)
  then have st: "leg_status_of leg =
      projected_status (filter (\<lambda>event. ev_leg_id event = Some (leg_id_of leg)) events) l"
    by (metis ExecutionLeg.select_convs(2) ExecutionLeg.surjective ExecutionLeg.update_convs(2)
      ExecutionLegState.select_convs(1) ExecutionLegState.surjective ExecutionLegState.update_convs(1))
  have "leg_status_of leg = (if \<exists>e \<in> set events. ev_leg_id e = Some (leg_id_of leg)
          \<and> ev_status e = ExecutionEventStatus.Filled
        then ExecutionLegStatus.Filled else ExecutionLegStatus.PartiallyFilled)"
    using assms(3-5) unfolding st projected_status_def by auto
  moreover from this have "leg_status_is_filled (leg_status_of leg)"
    by (simp add: leg_status_is_filled_def)
  ultimately show ?thesis using assms(2) legs(2) by (auto simp: projection_of_def summary_of_def)
qed

theorem fills_outrank_lifecycle_witness:
  "''buy'' \<in> set (eps_filled_legs (plan_state sample_projected))"
proof -
  have leg: "sample_leg ''buy'' ExecutionAction.Buy ExecutionLegStatus.Filled \<in> set (plan_legs sample_projected)"
    by (simp add: sample_projected_def sample_legs_def)
  from fills_outrank_lifecycle [OF sample_projection leg, of sample_fill] show ?thesis
    by (simp add: sample_leg_def sample_fill_def)
qed

text \<open>C31: Recovery acts on exactly the exposed legs. For a projected plan whose status is
  \<open>PARTIAL\<close> some leg holds a fill, and the decision follows the rollback policy: close exactly the
  legs with a fill, leave the plan, or ask for review when no policy covers it; with
  \<open>CLOSE_FILLED\<close> the list is never empty. For any other status there is no recovery.\<close>

theorem recovery_covers_exposed_legs:
  assumes "project_plan plan states events = Some (Inr projected)"
  shows "(if eps_status (plan_state projected) \<noteq> ExecutionPlanStatus.Partial
      then decide_recovery projected = NoRecovery
      else eps_filled_legs (plan_state projected) \<noteq> []
        \<and> set (eps_filled_legs (plan_state projected)) =
            {leg_id_of leg |leg. leg \<in> set (plan_legs projected) \<and> leg_status_is_filled (leg_status_of leg)}
        \<and> decide_recovery projected =
          (case map_option rp_mode (epd_rollback_policy (plan_definition projected)) of
             Some RollbackMode.CloseFilled \<Rightarrow> CloseFilled (eps_filled_legs (plan_state projected))
           | Some RollbackMode.NoRollback \<Rightarrow> LeavePartial
           | None \<Rightarrow> if epd_failure_policy (plan_definition projected) = ExecutionFailurePolicy.PartialFill
               then LeavePartial else ManualReview))"
proof (cases "eps_status (plan_state projected) = ExecutionPlanStatus.Partial")
  case True
  obtain legs where legs: "projected = projection_of plan legs" using assms by (auto simp: project_plan_Inr)
  have "\<exists>leg \<in> set legs. leg_status_is_filled (leg_status_of leg)"
    using True legs
    by (auto simp: projection_of_def derive_execution_plan_status_def Let_def list_ex_iff
      leg_status_is_filled_def split: if_splits)
  then have ne: "eps_filled_legs (plan_state projected) \<noteq> []"
    using legs by (auto simp: projection_of_def summary_of_def filter_empty_conv)
  moreover have "set (eps_filled_legs (plan_state projected)) =
      {leg_id_of leg |leg. leg \<in> set (plan_legs projected) \<and> leg_status_is_filled (leg_status_of leg)}"
    using legs by (auto simp: projection_of_def summary_of_def)
  ultimately show ?thesis using True by (simp add: decide_recovery_def split: option.split RollbackMode.split)
qed (simp add: decide_recovery_def)

theorem recovery_covers_exposed_legs_witness:
  "decide_recovery sample_projected = CloseFilled [''buy'']"
  using recovery_covers_exposed_legs [OF sample_projection]
  by (simp add: sample_projected_def projection_of_def sample_plan_def sample_legs_def sample_leg_def
    derive_execution_plan_status_def summary_of_def leg_status_is_filled_def)

text \<open>Every command the lifecycle produces can be projected. The deferred error for
  \<open>DELIVERY_FAILED\<close> is never returned for a command state reached from creation by accepted
  evidence.\<close>

theorem lifecycle_states_project:
  assumes "lifecycle command state"
  shows "project_leg plan_id account_id leg [state] events \<noteq> Inl DeliveryFailedDeferred"
proof -
  have not_failed: "cs_status state \<noteq> ExecutionCommandStatus.DeliveryFailed"
    using lifecycle_dispatch_inv [OF assms] by (simp add: dispatch_inv_def)
  have scan: "scan_events plan_id account_id leg state evs ids p f \<noteq> Inl DeliveryFailedDeferred" for evs ids p f
    by (induction evs arbitrary: ids p f) (simp_all add: Let_def)
  show ?thesis
    using not_failed scan by (cases "cs_status state") (auto simp: project_leg_def bindR_eq_Inl Let_def)
qed

theorem lifecycle_states_project_witness:
  "project_leg ''p'' ''a'' (sample_leg ''buy'' ExecutionAction.Buy ExecutionLegStatus.Pending)
     [sample_rejected] [] \<noteq> Inl DeliveryFailedDeferred"
  by (rule lifecycle_states_project [OF sample_lifecycle])

end
