(* ===== verification/Builder_Correct.thy ===== *)
theory Builder_Correct
  imports Builder Signing_Correct Projector
begin

text \<open>
  Lemmas on the execution builder: what its indexes hold, what one built leg consists of, and the
  bundle it returns; and that a fresh bundle is a fixed point of the projector.
\<close>

section \<open>Panics and results\<close>

lemma build_legs_Inr:
  "build_legs build legs = Some (Inr built) \<longleftrightarrow> list_all2 (\<lambda>leg b. build leg = Some (Inr b)) legs built"
  by (induction legs arbitrary: built) (auto simp: bindP_Inr list_all2_Cons1)

section \<open>Indexes\<close>

lemma index_by_lookup:
  assumes "index_by key duplicate xs m = Inr n" "n k = Some x"
  shows "x \<in> set xs \<and> key x = k \<or> m k = Some x"
  using assms
proof (induction xs arbitrary: m)
  case (Cons y ys)
  then have "index_by key duplicate ys (m(key y \<mapsto> y)) = Inr n" by (simp split: if_splits)
  from Cons.IH [OF this Cons.prems(2)] show ?case by (auto split: if_splits)
qed simp

lemma metadata_of_legs_lookup:
  assumes "metadata_of_legs account by_symbol legs m = Inr n" "n k = Some x"
  shows "(\<exists>symbol. by_symbol symbol = Some x) \<or> m k = Some x"
  using assms
proof (induction legs arbitrary: m)
  case (Cons leg legs)
  then obtain metadata where "by_symbol (il_symbol leg) = Some metadata"
    "metadata_of_legs account by_symbol legs (m(il_leg_id leg \<mapsto> metadata)) = Inr n"
    by (auto split: option.splits if_splits)
  with Cons.IH [OF this(2) Cons.prems(2)] show ?case by (auto split: if_splits)
qed simp

lemma index_resolved_lookup:
  assumes "index_resolved_legs xs ids keys m = Inr n"
  shows "distinct (map rle_command_id xs) \<and> rle_command_id ` set xs \<inter> ids = {}
    \<and> distinct (map rle_idempotency_key xs) \<and> rle_idempotency_key ` set xs \<inter> keys = {}
    \<and> (\<forall>k x. n k = Some x \<longrightarrow> x \<in> set xs \<and> rle_leg_id x = k \<or> m k = Some x)"
  using assms
proof (induction xs arbitrary: ids keys m)
  case (Cons x xs)
  then have new: "rle_command_id x \<notin> ids" "rle_idempotency_key x \<notin> keys"
    and rest: "index_resolved_legs xs (insert (rle_command_id x) ids) (insert (rle_idempotency_key x) keys)
      (m(rle_leg_id x \<mapsto> x)) = Inr n"
    by (auto simp: result_simps)
  note IH = Cons.IH [OF rest]
  have "y \<in> set xs \<and> rle_leg_id y = k \<or> (if k = rle_leg_id x then Some x else m k) = Some y" if "n k = Some y" for k y
    using IH that by (metis (full_types) fun_upd_apply)
  then have "\<forall>k y. n k = Some y \<longrightarrow> y \<in> set (x # xs) \<and> rle_leg_id y = k \<or> m k = Some y"
    by (metis list.set_intros option.inject)
  with IH new show ?case by auto
qed simp

lemma distinct_through_index:
  assumes "distinct ids" "\<And>k. k \<in> set ids \<Longrightarrow> \<exists>x. index k = Some x \<and> x \<in> set xs \<and> key x = k"
    and "distinct (map f xs)"
  shows "distinct (map (\<lambda>k. f (the (index k))) ids)"
proof -
  have "inj_on (\<lambda>k. f (the (index k))) (set ids)"
  proof (rule inj_onI)
    fix j k assume "j \<in> set ids" "k \<in> set ids" "f (the (index j)) = f (the (index k))"
    with assms(2) [of j] assms(2) [of k] obtain x y where
      "x \<in> set xs" "y \<in> set xs" "key x = j" "key y = k" "f x = f y" by auto
    with assms(3) show "j = k" by (auto simp: distinct_map inj_on_def)
  qed
  with assms(1) show ?thesis by (simp add: distinct_map)
qed

section \<open>One leg\<close>

lemma build_leg_Inr:
  assumes "build_leg C request expires_at adjusted resolved metadata leg = Some (Inr (built, command, state))"
  obtains a r m format hmac where "adjusted (il_leg_id leg) = Some a" "resolved (il_leg_id leg) = Some r"
    "metadata (il_leg_id leg) = Some m" "validate_leg_binding leg a r m = Inr ()"
    "from_symbol_metadata m = Inr format"
    "sign_execution_command C (unsigned_command request expires_at leg a r m) (ebr_signing_secret request) format = Inr hmac"
    "command = (unsigned_command request expires_at leg a r m)\<lparr>ec_hmac := hmac\<rparr>"
    "initial_command_state command (ebr_now_ms request) = Inr state" "built = pending_leg leg a r"
proof -
  obtain a r m where found: "adjusted (il_leg_id leg) = Some a" "resolved (il_leg_id leg) = Some r"
    "metadata (il_leg_id leg) = Some m"
    using assms unfolding build_leg_def by (auto split: option.splits)
  from assms have "bindR (validate_leg_binding leg a r m) (\<lambda>_.
      let command = unsigned_command request expires_at leg a r m in
      bindR (map_err SigningFailed (from_symbol_metadata m)) (\<lambda>format.
      bindR (map_err SigningFailed (sign_execution_command C command (ebr_signing_secret request) format)) (\<lambda>hmac.
      let command = command\<lparr>ec_hmac := hmac\<rparr> in
      bindR (map_err InitialState (initial_command_state command (ebr_now_ms request))) (\<lambda>state.
      Inr (pending_leg leg a r, command, state))))) = Inr (built, command, state)"
    unfolding build_leg_def found prod.case option.case by (rule option.inject [THEN iffD1])
  then show thesis unfolding Let_def
    by (elim bindR_InrE; simp only: map_err_eq_Inr sum.inject prod.inject; elim conjE; hypsubst)
      (rule that [OF found]; simp)
qed

text \<open>What a built command carries of the approval it was built from.\<close>

definition action_of :: "AdjustedRiskLegAction \<Rightarrow> ExecutionAction" where
  "action_of action = (case action of AdjustedRiskLegAction.Buy \<Rightarrow> ExecutionAction.Buy
     | AdjustedRiskLegAction.Sell \<Rightarrow> ExecutionAction.Sell)"

definition carries_approval :: "ExecutionBuildRequest \<Rightarrow> AdjustedRiskLeg \<Rightarrow> ExecutionLeg \<Rightarrow> ExecutionCommand \<Rightarrow> bool" where
  "carries_approval request approved leg command \<longleftrightarrow>
     leg_id_of leg = arl_leg_id approved \<and> eld_symbol (leg_definition leg) = arl_symbol approved
   \<and> eld_lots (leg_definition leg) = Some (arl_lots approved) \<and> leg_status_of leg = ExecutionLegStatus.Pending
   \<and> ec_leg_id command = Some (arl_leg_id approved) \<and> ec_symbol command = arl_symbol approved
   \<and> ec_action command = action_of (arl_action approved)
   \<and> ec_lots command = Some (arl_lots approved) \<and> ec_sl command = Some (arl_approved_sl approved)
   \<and> (\<forall>price. ec_price command = Some price \<longrightarrow> (case arl_action approved of
        AdjustedRiskLegAction.Buy \<Rightarrow> f64_le price (arl_sizing_entry_price approved)
      | AdjustedRiskLegAction.Sell \<Rightarrow> f64_le (arl_sizing_entry_price approved) price))
   \<and> ec_plan_id command = Some (ebr_plan_id request)
   \<and> ec_account_id command = ti_account_id (rq_intent (ebr_risk_request request))
   \<and> ebr_now_ms request < ec_expires_at command
   \<and> ec_expires_at command \<le> ti_signal_expires_at (rq_intent (ebr_risk_request request))
   \<and> ec_expires_at command \<le> rr_valid_until (ebr_risk_result request)
   \<and> ec_expires_at command \<le> ebr_now_ms request + epol_max_command_ttl_ms (ebr_policy request)"

lemma leg_binding_facts:
  assumes "validate_leg_binding leg a r m = Inr ()"
  shows "arl_leg_id a = il_leg_id leg" "arl_symbol a = il_symbol leg" "action_of (arl_action a) = il_action leg"
    "rle_leg_id r = il_leg_id leg"
    "rle_price r = Some price \<Longrightarrow> (case arl_action a of
        AdjustedRiskLegAction.Buy \<Rightarrow> f64_le price (arl_sizing_entry_price a)
      | AdjustedRiskLegAction.Sell \<Rightarrow> f64_le (arl_sizing_entry_price a) price)"
proof -
  show "arl_leg_id a = il_leg_id leg" "arl_symbol a = il_symbol leg" "action_of (arl_action a) = il_action leg"
    "rle_leg_id r = il_leg_id leg"
    using assms by (auto simp: validate_leg_binding_def action_of_def split: if_splits)
  have "validate_entry_price leg a r = Inr ()"
    using assms by (auto simp: validate_leg_binding_def Let_def result_simps split: if_splits)
  then show "rle_price r = Some price \<Longrightarrow> (case arl_action a of
        AdjustedRiskLegAction.Buy \<Rightarrow> f64_le price (arl_sizing_entry_price a)
      | AdjustedRiskLegAction.Sell \<Rightarrow> f64_le (arl_sizing_entry_price a) price)"
    by (auto simp: validate_entry_price_def result_simps split: OrderType.splits if_splits)
qed

lemma command_expiry_bounds:
  assumes "command_expiry request = Inr expires_at"
  shows "ebr_now_ms request < expires_at" "expires_at \<le> ti_signal_expires_at (rq_intent (ebr_risk_request request))"
    "expires_at \<le> rr_valid_until (ebr_risk_result request)"
    "expires_at \<le> ebr_now_ms request + epol_max_command_ttl_ms (ebr_policy request)"
  using assms by (auto simp: command_expiry_def Let_def dest!: checked_add_i64_Some split: option.splits if_splits)

lemma built_leg_carries:
  assumes "build_leg C request expires_at adjusted resolved metadata leg = Some (Inr (built, command, state))"
    and "command_expiry request = Inr expires_at"
  shows "\<exists>approved. adjusted (il_leg_id leg) = Some approved \<and> carries_approval request approved built command"
  using assms(1)
proof (rule build_leg_Inr)
  fix a r m format hmac
  assume parts: "adjusted (il_leg_id leg) = Some a" "validate_leg_binding leg a r m = Inr ()"
    "command = (unsigned_command request expires_at leg a r m)\<lparr>ec_hmac := hmac\<rparr>" "built = pending_leg leg a r"
  note binding = leg_binding_facts [OF parts(2)] and bounds = command_expiry_bounds [OF assms(2)]
  have "carries_approval request a built command"
    unfolding carries_approval_def parts(3,4) using binding bounds
    by (simp add: unsigned_command_def pending_leg_def Let_def)
  with parts(1) show ?thesis by blast
qed

lemma built_leg_verifies:
  assumes "build_leg C request expires_at adjusted resolved metadata leg = Some (Inr (built, command, state))" "hex_laws C"
  shows "\<exists>m format. metadata (il_leg_id leg) = Some m \<and> from_symbol_metadata m = Inr format
    \<and> sign_execution_command C command (ebr_signing_secret request) format = Inr (ec_hmac command)"
  using assms(1)
proof (rule build_leg_Inr)
  fix a r m format hmac
  assume parts: "metadata (il_leg_id leg) = Some m" "from_symbol_metadata m = Inr format"
    "sign_execution_command C (unsigned_command request expires_at leg a r m) (ebr_signing_secret request) format = Inr hmac"
    "command = (unsigned_command request expires_at leg a r m)\<lparr>ec_hmac := hmac\<rparr>"
  have "sign_execution_command C command (ebr_signing_secret request) format = Inr (ec_hmac command)"
    unfolding parts(4) using parts(3)
    by (simp add: sign_execution_command_def build_execution_command_signing_string_def
      signing_parts_ignore_hmac validation_ignores_hmac)
  with parts show ?thesis by blast
qed

section \<open>Fresh bundles and the projector\<close>

text \<open>Legs whose commands have just been created, with one state each.\<close>

definition fresh_pair :: "PlanId \<Rightarrow> AccountId \<Rightarrow> ExecutionLeg \<Rightarrow> ExecutionCommandState \<Rightarrow> bool" where
  "fresh_pair plan_id account_id leg state \<longleftrightarrow>
     leg_status_of leg = ExecutionLegStatus.Pending \<and> cs_status state = ExecutionCommandStatus.Created
   \<and> cs_leg_id state = Some (leg_id_of leg) \<and> cs_plan_id state = Some plan_id \<and> cs_account_id state = account_id"

lemma fresh_leg_projects:
  assumes "fresh_pair plan_id account_id leg state"
  shows "project_leg plan_id account_id leg [state] [] = Inr leg"
  using assms by (cases leg; cases "leg_state leg") (simp add: project_leg_def fresh_pair_def)

lemma fresh_states_of_leg:
  assumes "list_all2 (fresh_pair plan_id account_id) legs states" "distinct (map leg_id_of legs)" "i < length legs"
  shows "filter (\<lambda>state. cs_leg_id state = Some (leg_id_of (legs ! i))) states = [states ! i]"
proof -
  have pairs: "cs_leg_id (states ! j) = Some (leg_id_of (legs ! j))" if "j < length legs" for j
    using list_all2_nthD [OF assms(1) that] by (simp add: fresh_pair_def)
  have "map cs_leg_id states = map (Some \<circ> leg_id_of) legs"
    using pairs list_all2_lengthD [OF assms(1)] by (intro nth_equalityI) simp_all
  then have "distinct (map cs_leg_id states)" using assms(2) by (simp add: distinct_map inj_on_def o_def)
  from filter_key [OF this, of "states ! i"] pairs [OF assms(3)] assms(3) list_all2_lengthD [OF assms(1)]
  show ?thesis by simp
qed

lemma fresh_plan_projects:
  assumes "ExecutionPlan_validate plan = Some (Inr ())"
    "list_all2 (fresh_pair (epd_plan_id (plan_definition plan)) (epd_account_id (plan_definition plan)))
       (plan_legs plan) states"
  shows "project_plan plan states [] = Some (Inr plan)"
proof -
  let ?legs = "plan_legs plan" and ?d = "plan_definition plan"
  from assms(1) have head: "plan_head_ok plan" and summary: "validate_plan_projection plan = Inr ()"
    by (simp_all add: plan_valid_iff)
  then have distinct: "distinct (map leg_id_of ?legs)" and legs: "?legs \<noteq> []" by (simp_all add: plan_head_ok_def)
  have "project_leg (epd_plan_id ?d) (epd_account_id ?d) (?legs ! i)
      (filter (\<lambda>state. cs_leg_id state = Some (leg_id_of (?legs ! i))) states) [] = Inr (?legs ! i)"
    if "i < length ?legs" for i
    using fresh_states_of_leg [OF assms(2) distinct that] fresh_leg_projects [OF list_all2_nthD [OF assms(2) that]]
    by simp
  then have "project_legs (epd_plan_id ?d) (epd_account_id ?d) states [] ?legs = Inr ?legs"
    unfolding project_legs_Inr by (simp add: list_all2_conv_all_nth)
  moreover have "\<forall>state \<in> set states. cs_account_id state = epd_account_id ?d \<and> cs_plan_id state = Some (epd_plan_id ?d)"
    using assms(2) by (auto simp: list_all2_conv_all_nth in_set_conv_nth fresh_pair_def)
  ultimately have "projection_inputs_ok plan states [] ?legs"
    using legs list_all2_lengthD [OF assms(2)] by (simp add: projection_inputs_ok_def)
  moreover have "projection_of plan ?legs = plan"
    using summary by (cases plan; cases "plan_state plan") (simp add: projection_of_def validate_plan_projection_iff)
  ultimately show ?thesis using assms(1) unfolding project_plan_Inr by metis
qed

lemma built_pair_fresh:
  assumes "build_leg C request expires_at adjusted resolved metadata leg = Some (Inr (built, command, state))"
  shows "fresh_pair (ebr_plan_id request) (ti_account_id (rq_intent (ebr_risk_request request))) built state"
  using assms
proof (rule build_leg_Inr)
  fix a r m format hmac
  assume "command = (unsigned_command request expires_at leg a r m)\<lparr>ec_hmac := hmac\<rparr>" "built = pending_leg leg a r"
    "initial_command_state command (ebr_now_ms request) = Inr state"
  then show ?thesis
    by (auto simp: fresh_pair_def pending_leg_def unsigned_command_def initial_command_state_def Let_def result_simps)
qed

end
