(* ===== verification/Risk_Evaluator.thy ===== *)
theory Risk_Evaluator
  imports Risk_Model
begin

text \<open>
  The risk engine of \<open>crates/risk/src/evaluator.rs\<close>: the checks an intent passes in the code's order,
  up to the prepared legs. A denial is \<open>Denied\<close>; \<open>Panicked\<close> is the panic of the operator \<open>-\<close> on
  \<open>Decimal\<close>. The later checks are in \<open>Risk_Checks\<close> and \<open>Risk_Sizing\<close>, the sizing and the
  evaluation in \<open>Risk_Approval\<close>.
\<close>

section \<open>Results\<close>

record Rejection =
  rej_code :: ErrorCode
  rej_message :: string

datatype evaluation_stop = Denied Rejection | Panicked

type_synonym 'a eresult = "(evaluation_stop, 'a) result"

definition deny :: "ErrorCode \<Rightarrow> string \<Rightarrow> 'a eresult" where
  "deny code message = Inl (Denied \<lparr>rej_code = code, rej_message = message\<rparr>)"

definition invalid :: "string \<Rightarrow> 'a eresult" where
  "invalid message = deny ErrorCode.RiskInputInvalid message"

definition arithmetic_overflow :: "'a eresult" where
  "arithmetic_overflow = deny ErrorCode.RiskInputInvalid ''decimal or integer arithmetic overflowed''"

definition checked :: "'a option \<Rightarrow> 'a eresult" where
  "checked value = (case value of Some v \<Rightarrow> Inr v | None \<Rightarrow> arithmetic_overflow)"

primrec try_fold :: "('x \<Rightarrow> 'a \<Rightarrow> ('e, 'a) result) \<Rightarrow> 'x list \<Rightarrow> 'a \<Rightarrow> ('e, 'a) result" where
  "try_fold f [] acc = Inr acc"
| "try_fold f (x # xs) acc = bindR (f x acc) (try_fold f xs)"

record AuditAges =
  aa_snapshot :: i64
  aa_market :: i64
  aa_metadata :: i64
  aa_capacity :: i64

definition saturating_sub_i64 :: "i64 \<Rightarrow> i64 \<Rightarrow> i64" where
  "saturating_sub_i64 a b = max i64_min (min i64_max (a - b))"

definition best_effort_age :: "i64 \<Rightarrow> i64 \<Rightarrow> i64" where
  "best_effort_age now observed_at = max (saturating_sub_i64 now observed_at) 0"

definition max_or_zero :: "i64 list \<Rightarrow> i64" where
  "max_or_zero xs = (case xs of [] \<Rightarrow> 0 | x # rest \<Rightarrow> fold max rest x)"

definition best_effort :: "RiskRequest \<Rightarrow> AuditAges" where
  "best_effort request = (let now = rq_evaluated_at request; marks = rq_state_watermarks request in
     \<lparr>aa_snapshot = fold (\<lambda>t acc. max acc (best_effort_age now t))
        ([wm_positions_observed_at marks, wm_orders_observed_at marks,
          wm_pending_commands_reconciled_at marks] @
         map pos_observed_at (rq_positions request) @ map ord_observed_at (rq_orders request))
        (best_effort_age now (acct_observed_at (rq_account request))),
      aa_market = max_or_zero (map (\<lambda>market. best_effort_age now (ms_observed_at (rms_snapshot market)))
        (rq_markets request)),
      aa_metadata = max_or_zero (map (\<lambda>metadata. best_effort_age now (sm_observed_at metadata))
        (rq_symbol_metadata request)),
      aa_capacity = best_effort_age now (rc_observed_at (rq_capacity request))\<rparr>)"

section \<open>Numbers\<close>

definition decimal :: "'d decimal_arith \<Rightarrow> string \<Rightarrow> f64 \<Rightarrow> 'd eresult" where
  "decimal A name value =
     (if \<not> f64_is_finite value then invalid (name @ '' must be finite'')
      else case da_of_f64 A value of Some d \<Rightarrow> Inr d
        | None \<Rightarrow> deny ErrorCode.RiskInputInvalid (name @ '' is out of range''))"

definition positive_optional_decimal :: "'d decimal_arith \<Rightarrow> string \<Rightarrow> f64 option \<Rightarrow> 'd eresult" where
  "positive_optional_decimal A name value = (case value of
     None \<Rightarrow> deny ErrorCode.RiskInputInvalid (name @ '' is required'')
   | Some v \<Rightarrow> bindR (decimal A name v) (\<lambda>d.
       if dec_le A d (da_zero A) then invalid (name @ '' must be greater than zero'') else Inr d))"

definition validate_percentage :: "'d decimal_arith \<Rightarrow> string \<Rightarrow> f64 \<Rightarrow> bool \<Rightarrow> unit eresult" where
  "validate_percentage A name value positive = bindR (decimal A name value) (\<lambda>d.
     if positive \<and> dec_le A d (da_zero A) \<or> \<not> positive \<and> dec_lt A d (da_zero A)
         \<or> dec_lt A (da_hundred A) d
       then invalid (name @ '' must be within the configured percentage-point range'')
     else Inr ())"

definition validate_non_negative_percentage :: "'d decimal_arith \<Rightarrow> string \<Rightarrow> f64 \<Rightarrow> unit eresult" where
  "validate_non_negative_percentage A name value = validate_percentage A name value False"

definition same_float :: "f64 \<Rightarrow> f64 \<Rightarrow> bool" where
  "same_float left right \<longleftrightarrow> f64_is_finite left \<and> f64_is_finite right \<and> left = right"

definition same_optional_float :: "f64 option \<Rightarrow> f64 option \<Rightarrow> bool" where
  "same_optional_float left right = (case (left, right) of
     (Some l, Some r) \<Rightarrow> same_float l r | (None, None) \<Rightarrow> True | _ \<Rightarrow> False)"

definition checked_age :: "i64 \<Rightarrow> i64 \<Rightarrow> i64 \<Rightarrow> ErrorCode \<Rightarrow> string \<Rightarrow> i64 eresult" where
  "checked_age now observed_at max_age code label = (case checked_sub_i64 now observed_at of
     None \<Rightarrow> deny code (label @ '' age arithmetic overflowed'')
   | Some age \<Rightarrow> if age < 0 \<or> max_age \<le> age then deny code (label @ '' is future-dated or stale'')
       else Inr age)"

definition time_boundary :: "i64 \<Rightarrow> i64 \<Rightarrow> i64 eresult" where
  "time_boundary observed_at max_age = (case checked_add_i64 observed_at max_age of
     None \<Rightarrow> deny ErrorCode.RiskInputInvalid ''freshness boundary overflow'' | Some boundary \<Rightarrow> Inr boundary)"

definition order_is_active :: "OrderSnapshotStatus \<Rightarrow> bool" where
  "order_is_active status \<longleftrightarrow> status = OrderSnapshotStatus.Placed
     \<or> status = OrderSnapshotStatus.PartiallyFilled \<or> status = OrderSnapshotStatus.Unknown"

definition command_state_is_terminal :: "ExecutionCommandStatus \<Rightarrow> bool" where
  "command_state_is_terminal status \<longleftrightarrow>
     status \<in> {ExecutionCommandStatus.DeliveryFailed, ExecutionCommandStatus.Rejected,
       ExecutionCommandStatus.Filled, ExecutionCommandStatus.Failed,
       ExecutionCommandStatus.Expired, ExecutionCommandStatus.Cancelled}"

definition increases_risk :: "ExecutionAction \<Rightarrow> bool" where
  "increases_risk action \<longleftrightarrow> action = ExecutionAction.Buy \<or> action = ExecutionAction.Sell"

section \<open>Identity, shape and time\<close>

record RiskEvaluationError =
  ree_field :: string
  ree_reason :: string

definition validate_result_identity :: "RiskRequest \<Rightarrow> (RiskEvaluationError, unit) result" where
  "validate_result_identity request = (let intent = rq_intent request in
     bindR (check_each (\<lambda>(field, value). if trim_is_empty value
         then Inl \<lparr>ree_field = field, ree_reason = ''must not be empty''\<rparr> else Inr ())
       [(''risk_id'', rq_risk_id request), (''request_id'', rq_request_id request),
        (''intent_id'', ti_intent_id intent), (''account_id'', ti_account_id intent),
        (''decision_id'', ti_decision_id intent)]) (\<lambda>_.
     if rq_evaluated_at request < 0
       then Inl \<lparr>ree_field = ''evaluated_at'', ree_reason = ''must be a non-negative server Unix timestamp''\<rparr>
     else Inr ()))"

definition decision_differs :: "StrategyDecision \<Rightarrow> TradeIntent \<Rightarrow> bool" where
  "decision_differs decision intent \<longleftrightarrow>
     sd_decision_id decision \<noteq> ti_decision_id intent
   \<or> sd_strategy_id decision \<noteq> ti_strategy_id intent
   \<or> sd_symbol decision \<noteq> ti_symbol intent
   \<or> sd_timeframe decision \<noteq> ti_timeframe intent
   \<or> sd_action decision \<noteq> ti_action intent
   \<or> \<not> same_float (sd_confidence decision) (ti_confidence intent)
   \<or> \<not> same_float (sd_proposed_risk_pct decision) (ti_proposed_risk_pct intent)
   \<or> \<not> same_optional_float (sd_proposed_sl decision) (ti_proposed_sl intent)
   \<or> \<not> same_optional_float (sd_proposed_tp decision) (ti_proposed_tp intent)
   \<or> sd_timestamp decision \<noteq> ti_decision_timestamp intent
   \<or> sd_signal_expires_at decision \<noteq> ti_signal_expires_at intent"

definition validate_request_identity :: "RiskRequest \<Rightarrow> unit eresult" where
  "validate_request_identity request = (let intent = rq_intent request; account = ti_account_id intent in
     if rq_evaluated_at request < 0
       then invalid ''evaluated_at must be a non-negative server Unix timestamp''
     else bindR (check_each (\<lambda>(name, value). if trim_is_empty value
         then invalid (name @ '' must not be empty'') else Inr ())
       [(''request_id'', rq_request_id request), (''risk_id'', rq_risk_id request),
        (''intent_id'', ti_intent_id intent), (''decision_id'', ti_decision_id intent),
        (''strategy_id'', ti_strategy_id intent), (''account_id'', ti_account_id intent),
        (''symbol'', ti_symbol intent), (''timeframe'', ti_timeframe intent),
        (''idempotency_key'', ti_idempotency_key intent)]) (\<lambda>_.
     if decision_differs (rq_decision request) intent
       then invalid ''StrategyDecision and TradeIntent identity or risk fields do not match''
     else if account \<noteq> acct_account_id (rq_account request)
       then invalid ''TradeIntent and AccountSnapshot account_id do not match''
     else if rc_account_id (rq_capacity request) \<noteq> account
         \<or> rc_strategy_id (rq_capacity request) \<noteq> ti_strategy_id intent
       then invalid ''RiskCapacity account_id or strategy_id does not match the intent''
     else bindR (check_each (\<lambda>position.
         if pos_account_id position \<noteq> account then invalid ''PositionSnapshot belongs to another account''
         else if trim_is_empty (pos_position_id position) \<or> trim_is_empty (pos_symbol position)
           then invalid ''PositionSnapshot identity must not be empty'' else Inr ())
         (rq_positions request)) (\<lambda>_.
     bindR (check_each (\<lambda>order.
         if ord_account_id order \<noteq> account then invalid ''OrderSnapshot belongs to another account''
         else if trim_is_empty (ord_broker_order_id order) \<or> trim_is_empty (ord_symbol order)
           then invalid ''OrderSnapshot identity must not be empty'' else Inr ())
         (rq_orders request)) (\<lambda>_.
     bindR (check_each (\<lambda>metadata. if sm_account_id metadata \<noteq> account
         then invalid ''SymbolMetadataSnapshot belongs to another account'' else Inr ())
         (rq_symbol_metadata request)) (\<lambda>_.
     bindR (check_each (\<lambda>market. if rms_account_id market \<noteq> account
         then invalid ''MarketSnapshot belongs to another account'' else Inr ())
         (rq_markets request)) (\<lambda>_.
     bindR (check_each (\<lambda>command. if ec_account_id command \<noteq> account
         then invalid ''ExecutionCommand belongs to another account'' else Inr ())
         (rq_pending_commands request)) (\<lambda>_.
     check_each (\<lambda>state. if cs_account_id state \<noteq> account
         then invalid ''ExecutionCommandState belongs to another account'' else Inr ())
         (rq_pending_command_states request))))))))"

definition validate_action_shape :: "RiskRequest \<Rightarrow> unit eresult" where
  "validate_action_shape request = (let intent = rq_intent request;
       legs = (case ti_proposed_legs intent of None \<Rightarrow> [] | Some legs \<Rightarrow> legs) in
     case ti_action intent of
       TradeIntentAction.Hold \<Rightarrow>
         if legs \<noteq> [] \<or> rq_sizing_candidates request \<noteq> []
           then invalid ''HOLD must not contain proposed legs or sizing candidates''
         else if \<not> f64_eq (ti_proposed_risk_pct intent) f64_zero
             \<or> ti_proposed_sl intent \<noteq> None \<or> ti_proposed_tp intent \<noteq> None
           then invalid ''HOLD must not contain executable risk or stop/target fields''
         else Inr ()
     | TradeIntentAction.Close \<Rightarrow>
         if rq_sizing_candidates request \<noteq> []
           then invalid ''CLOSE must not contain risk-increasing sizing candidates'' else Inr ()
     | _ \<Rightarrow>
         if ti_proposed_legs intent \<noteq> None \<and> legs = []
           then invalid ''proposed_legs must be omitted or non-empty'' else Inr ())"

definition validate_control_time :: "RiskRequest \<Rightarrow> unit eresult" where
  "validate_control_time request = (let intent = rq_intent request in
     if pol_max_approval_ttl_ms (rq_policy request) \<le> 0
       then invalid ''max_approval_ttl_ms must be greater than zero''
     else if sd_timestamp (rq_decision request) < 0 \<or> ti_decision_timestamp intent < 0
         \<or> ti_requested_at intent < 0 \<or> ti_requested_at intent < ti_decision_timestamp intent
         \<or> rq_evaluated_at request < ti_requested_at intent
         \<or> ti_signal_expires_at intent \<le> ti_requested_at intent
       then deny ErrorCode.TradeIntentTimeInvalid
         ''decision, request, evaluation, and expiry timestamps are inconsistent''
     else if ti_signal_expires_at intent \<le> rq_evaluated_at request
       then deny ErrorCode.TradeIntentExpired ''the trade intent signal has expired''
     else Inr ())"

definition hold_valid_until :: "RiskRequest \<Rightarrow> i64 eresult" where
  "hold_valid_until request =
     (case checked_add_i64 (rq_evaluated_at request) (pol_max_approval_ttl_ms (rq_policy request)) of
        None \<Rightarrow> deny ErrorCode.RiskInputInvalid ''approval TTL overflow''
      | Some ttl_boundary \<Rightarrow>
          let valid_until = min ttl_boundary (ti_signal_expires_at (rq_intent request)) in
          if valid_until \<le> rq_evaluated_at request
            then deny ErrorCode.TradeIntentExpired ''HOLD validation has no positive validity window''
          else Inr valid_until)"

definition validate_freshness_policy :: "RiskRequest \<Rightarrow> unit eresult" where
  "validate_freshness_policy request = (let policy = rq_policy request in
     check_each (\<lambda>(name, value). if value \<le> 0 then invalid (name @ '' must be greater than zero'') else Inr ())
       [(''max_snapshot_age_ms'', pol_max_snapshot_age_ms policy),
        (''max_order_snapshot_age_ms'', pol_max_order_snapshot_age_ms policy),
        (''max_market_snapshot_age_ms'', pol_max_market_snapshot_age_ms policy),
        (''max_symbol_metadata_age_ms'', pol_max_symbol_metadata_age_ms policy),
        (''max_capacity_age_ms'', pol_max_capacity_age_ms policy)])"

section \<open>Snapshots\<close>

definition required_symbols :: "RiskRequest \<Rightarrow> SymbolCode list" where
  "required_symbols request = bt_set
     ((case ti_proposed_legs (rq_intent request) of
         Some legs \<Rightarrow> map til_symbol legs | None \<Rightarrow> [ti_symbol (rq_intent request)]) @
      map pos_symbol (rq_positions request) @
      map ord_symbol (filter (\<lambda>order. order_is_active (ord_status order)) (rq_orders request)) @
      map ec_symbol (filter (\<lambda>command. increases_risk (ec_action command)
        \<and> list_all (\<lambda>state. \<not> command_state_is_terminal (cs_status state))
            (filter (\<lambda>state. cs_command_id state = ec_command_id command)
              (rq_pending_command_states request))) (rq_pending_commands request)))"

record SnapshotIndex =
  ix_metadata :: "(SymbolCode, SymbolMetadataSnapshot) btree_map"
  ix_markets :: "(SymbolCode, RiskMarketSnapshot) btree_map"

primrec index_unique ::
  "('x \<Rightarrow> 'k::linorder) \<Rightarrow> ('x \<Rightarrow> string) \<Rightarrow> 'x list \<Rightarrow> ('k, 'x) btree_map \<Rightarrow> ('k, 'x) btree_map eresult" where
  "index_unique key message [] m = Inr m"
| "index_unique key message (x # xs) m =
     (if map_of m (key x) \<noteq> None then invalid (message x)
      else index_unique key message xs (bt_insert (key x) x m))"

definition index_snapshots :: "RiskRequest \<Rightarrow> SymbolCode list \<Rightarrow> SnapshotIndex eresult" where
  "index_snapshots request required =
     bindR (index_unique sm_symbol
       (\<lambda>snapshot. ''multiple symbol metadata snapshots exist for '' @ sm_symbol snapshot)
       (rq_symbol_metadata request) []) (\<lambda>metadata.
     bindR (index_unique (\<lambda>market. ms_symbol (rms_snapshot market))
       (\<lambda>market. ''multiple market snapshots exist for '' @ ms_symbol (rms_snapshot market))
       (rq_markets request) []) (\<lambda>markets.
     bindR (check_each (\<lambda>symbol.
         if map_of metadata symbol = None
           then deny ErrorCode.SymbolMetadataStale (''symbol metadata is missing for '' @ symbol)
         else if map_of markets symbol = None
           then deny ErrorCode.MarketSnapshotStale (''market snapshot is missing for '' @ symbol)
         else Inr ()) required) (\<lambda>_.
     Inr \<lparr>ix_metadata = metadata, ix_markets = markets\<rparr>)))"

definition required_metadata :: "SnapshotIndex \<Rightarrow> SymbolCode \<Rightarrow> SymbolMetadataSnapshot eresult" where
  "required_metadata index symbol = (case map_of (ix_metadata index) symbol of
     Some metadata \<Rightarrow> Inr metadata
   | None \<Rightarrow> deny ErrorCode.SymbolMetadataStale (''metadata is missing for '' @ symbol))"

definition required_market :: "SnapshotIndex \<Rightarrow> SymbolCode \<Rightarrow> RiskMarketSnapshot eresult" where
  "required_market index symbol = (case map_of (ix_markets index) symbol of
     Some market \<Rightarrow> Inr market
   | None \<Rightarrow> deny ErrorCode.MarketSnapshotStale (''market is missing for '' @ symbol))"

definition oldest :: "i64 eresult \<Rightarrow> i64 \<Rightarrow> i64 eresult" where
  "oldest age acc = bindR age (\<lambda>a. Inr (max acc a))"

definition row_ages :: "RiskRequest \<Rightarrow> i64 \<Rightarrow> i64 eresult" where
  "row_ages request snapshot =
     (let now = rq_evaluated_at request; policy = rq_policy request; marks = rq_state_watermarks request in
     bindR (try_fold (\<lambda>position acc.
         if pos_observed_at position \<noteq> wm_positions_observed_at marks
           then deny ErrorCode.AccountSnapshotStale ''position rows must belong to the declared full-set snapshot''
         else oldest (checked_age now (pos_observed_at position) (pol_max_snapshot_age_ms policy)
           ErrorCode.AccountSnapshotStale ''position snapshot'') acc) (rq_positions request) snapshot)
       (try_fold (\<lambda>order acc.
         if ord_observed_at order \<noteq> wm_orders_observed_at marks
           then deny ErrorCode.OrderSnapshotStale ''order rows must belong to the declared full-set snapshot''
         else oldest (checked_age now (ord_observed_at order) (pol_max_order_snapshot_age_ms policy)
           ErrorCode.OrderSnapshotStale ''order snapshot'') acc) (rq_orders request)))"

definition symbol_ages :: "RiskRequest \<Rightarrow> SymbolCode list \<Rightarrow> SnapshotIndex \<Rightarrow> (i64 \<times> i64) eresult" where
  "symbol_ages request required index =
     (let now = rq_evaluated_at request; policy = rq_policy request in
     try_fold (\<lambda>symbol (market_age, metadata_age).
       bindR (case map_of (ix_markets index) symbol of Some market \<Rightarrow> Inr market
         | None \<Rightarrow> deny ErrorCode.MarketSnapshotStale (''market snapshot is missing for '' @ symbol)) (\<lambda>market.
       bindR (oldest (checked_age now (ms_observed_at (rms_snapshot market))
           (pol_max_market_snapshot_age_ms policy) ErrorCode.MarketSnapshotStale ''market snapshot'') market_age)
         (\<lambda>market_age.
       bindR (case map_of (ix_metadata index) symbol of Some metadata \<Rightarrow> Inr metadata
         | None \<Rightarrow> deny ErrorCode.SymbolMetadataStale (''symbol metadata is missing for '' @ symbol)) (\<lambda>metadata.
       bindR (oldest (checked_age now (sm_observed_at metadata)
           (pol_max_symbol_metadata_age_ms policy) ErrorCode.SymbolMetadataStale ''symbol metadata'') metadata_age)
         (\<lambda>metadata_age. Inr (market_age, metadata_age)))))) required (0, 0))"

definition validate_freshness ::
  "RiskRequest \<Rightarrow> SymbolCode list \<Rightarrow> SnapshotIndex \<Rightarrow> AuditAges eresult" where
  "validate_freshness request required index =
     (let now = rq_evaluated_at request; policy = rq_policy request; marks = rq_state_watermarks request;
          account_at = acct_observed_at (rq_account request);
          reconciled_at = wm_pending_commands_reconciled_at marks;
          positions_at = wm_positions_observed_at marks; orders_at = wm_orders_observed_at marks;
          capacity_at = rc_observed_at (rq_capacity request) in
     bindR (checked_age now account_at (pol_max_snapshot_age_ms policy) ErrorCode.AccountSnapshotStale
       ''account snapshot'') (\<lambda>snapshot.
     bindR (oldest (checked_age now positions_at (pol_max_snapshot_age_ms policy) ErrorCode.AccountSnapshotStale
       ''position full-set watermark'') snapshot) (\<lambda>snapshot.
     bindR (oldest (checked_age now orders_at (pol_max_order_snapshot_age_ms policy) ErrorCode.OrderSnapshotStale
       ''order full-set watermark'') snapshot) (\<lambda>snapshot.
     bindR (oldest (checked_age now reconciled_at (pol_max_order_snapshot_age_ms policy)
       ErrorCode.PendingExposureConflict ''pending-command reconciliation watermark'') snapshot) (\<lambda>snapshot.
     if account_at < reconciled_at \<or> positions_at < reconciled_at \<or> orders_at < reconciled_at
       then deny ErrorCode.PendingExposureConflict
         ''account, position, and order snapshots must not predate command reconciliation''
     else bindR (row_ages request snapshot) (\<lambda>snapshot.
     bindR (symbol_ages request required index) (\<lambda>(market_age, metadata_age).
     bindR (checked_age now capacity_at (pol_max_capacity_age_ms policy) ErrorCode.AccountSnapshotStale
       ''risk capacity'') (\<lambda>capacity.
     if capacity_at < max (max (max account_at positions_at) orders_at) reconciled_at
       then deny ErrorCode.PendingExposureConflict
         ''risk capacity must not predate account, position, order, or command evidence''
     else Inr \<lparr>aa_snapshot = snapshot, aa_market = market_age, aa_metadata = metadata_age,
       aa_capacity = capacity\<rparr>))))))))"

end
