(* ===== verification/Risk_Checks.thy ===== *)
theory Risk_Checks
  imports Risk_Evaluator
begin

text \<open>
  The checks of \<open>crates/risk/src/evaluator.rs\<close> that read numbers: policies and account, symbol data,
  and the preparation of the legs.
\<close>

section \<open>Policy and account\<close>

definition POSITION_SIZING_VERSION_V1 :: string where
  "POSITION_SIZING_VERSION_V1 = ''fixed-risk-at-stop.v1''"

definition f64_minus_one :: f64 where "f64_minus_one = 13830554455654793216"

definition validate_switches :: "RiskRequest \<Rightarrow> unit eresult" where
  "validate_switches request = (let policy = rq_policy request; strategy = rq_strategy_policy request in
     if pol_position_sizing_version policy \<noteq> POSITION_SIZING_VERSION_V1
       then invalid (''unsupported position_sizing_version '' @ pol_position_sizing_version policy @
         ''; expected '' @ POSITION_SIZING_VERSION_V1)
     else if \<not> pol_require_stop_loss policy \<or> \<not> pol_reject_expired_signal policy
         \<or> \<not> pol_require_valid_symbol_metadata policy \<or> \<not> pol_reject_trade_mode_disabled policy
         \<or> \<not> srp_require_stop_loss strategy
       then invalid ''v1 hard-risk policy switches must all remain enabled''
     else if pol_max_concurrent_positions policy = 0 \<or> srp_max_concurrent_legs strategy = 0
       then invalid ''concurrency limits must be greater than zero''
     else if srp_max_concurrent_legs strategy < rc_remaining_strategy_legs (rq_capacity request)
       then invalid ''remaining_strategy_legs exceeds the configured strategy limit''
     else if srp_signal_expiry_bars strategy = 0
       then invalid ''signal_expiry_bars must be greater than zero''
     else Inr ())"

definition validate_percentages :: "'d decimal_arith \<Rightarrow> RiskRequest \<Rightarrow> unit eresult" where
  "validate_percentages A request = (let policy = rq_policy request; capacity = rq_capacity request in
     bindR (check_each (\<lambda>(name, value). validate_percentage A name value True)
       [(''max_risk_per_trade_pct'', pol_max_risk_per_trade_pct policy),
        (''max_daily_loss_pct'', pol_max_daily_loss_pct policy),
        (''max_drawdown_pct'', pol_max_drawdown_pct policy),
        (''max_margin_usage_pct'', pol_max_margin_usage_pct policy),
        (''strategy.max_risk_per_trade_pct'', srp_max_risk_per_trade_pct (rq_strategy_policy request))]) (\<lambda>_.
     bindR (validate_non_negative_percentage A ''remaining_account_risk_pct''
       (rc_remaining_account_risk_pct capacity)) (\<lambda>_.
     bindR (validate_non_negative_percentage A ''remaining_portfolio_risk_pct''
       (rc_remaining_portfolio_risk_pct capacity)) (\<lambda>_.
     bindR (validate_percentage A ''proposed_risk_pct'' (ti_proposed_risk_pct (rq_intent request)) True) (\<lambda>_.
     bindR (check_each (\<lambda>(name, value). bindR (decimal A name value) (\<lambda>d.
         if dec_le A d (da_zero A) then invalid (name @ '' must be greater than zero'') else Inr ()))
       [(''max_symbol_exposure_pct'', pol_max_symbol_exposure_pct policy),
        (''max_total_exposure_pct'', pol_max_total_exposure_pct policy)]) (\<lambda>_.
     bindR (validate_non_negative_percentage A ''daily_realized_loss_pct''
       (rc_daily_realized_loss_pct capacity)) (\<lambda>_.
     validate_non_negative_percentage A ''equity_drawdown_pct'' (rc_equity_drawdown_pct capacity))))))))"

definition review_is_unusable :: "AgentReview \<Rightarrow> bool" where
  "review_is_unusable review \<longleftrightarrow> trim_is_empty (ar_review_id review)
     \<or> \<not> f64_is_finite (ar_score_adjustment review)
     \<or> \<not> (f64_le f64_minus_one (ar_score_adjustment review) \<and> f64_le (ar_score_adjustment review) f64_one)
     \<or> ar_recommendation review \<noteq> NoRecommendation"

definition validate_policy_and_inputs :: "'d decimal_arith \<Rightarrow> RiskRequest \<Rightarrow> 'd eresult" where
  "validate_policy_and_inputs A request = (let account = rq_account request; zero = da_zero A in
     bindR (validate_switches request) (\<lambda>_.
     bindR (validate_percentages A request) (\<lambda>_.
     bindR (decimal A ''confidence'' (ti_confidence (rq_intent request))) (\<lambda>confidence.
     if dec_lt A confidence zero \<or> dec_lt A (da_one A) confidence
       then invalid ''confidence must be between zero and one''
     else if (case rq_agent_review request of None \<Rightarrow> False | Some review \<Rightarrow> review_is_unusable review)
       then invalid ''agent review is incomplete or requests unsupported risk mutation''
     else if trim_is_empty (acct_currency account) then invalid ''account currency must not be empty''
     else bindR (decimal A ''account.balance'' (acct_balance account)) (\<lambda>balance.
     bindR (decimal A ''account.equity'' (acct_equity account)) (\<lambda>equity.
     bindR (decimal A ''account.margin'' (acct_margin account)) (\<lambda>margin.
     bindR (decimal A ''account.free_margin'' (acct_free_margin account)) (\<lambda>free_margin.
     if dec_lt A margin zero \<or> dec_lt A free_margin zero
       then invalid ''account margin and free_margin must be non-negative''
     else let risk_base = da_min A (da_max A balance zero) (da_max A equity zero) in
       if dec_le A risk_base zero
         then deny RiskLimitExceeded ''risk base is zero because balance or equity is not positive''
       else Inr risk_base))))))))"

section \<open>Symbols\<close>

definition validate_symbol_input ::
  "'d decimal_arith \<Rightarrow> SymbolCode \<Rightarrow> SymbolMetadataSnapshot \<Rightarrow> MarketSnapshot \<Rightarrow> unit eresult" where
  "validate_symbol_input A symbol metadata market = (let zero = da_zero A in
     if trim_is_empty (sm_broker_symbol metadata) then invalid (''broker_symbol is empty for '' @ symbol)
     else if (case ms_broker_symbol market of None \<Rightarrow> False | Some broker \<Rightarrow> broker \<noteq> sm_broker_symbol metadata)
       then invalid (''market and metadata broker_symbol differ for '' @ symbol)
     else bindR (decimal A ''metadata.point'' (sm_point metadata)) (\<lambda>point.
     bindR (decimal A ''metadata.tick_size'' (sm_tick_size metadata)) (\<lambda>tick_size.
     bindR (decimal A ''metadata.tick_value_loss'' (sm_tick_value_loss metadata)) (\<lambda>tick_value.
     bindR (decimal A ''metadata.contract_size'' (sm_contract_size metadata)) (\<lambda>contract_size.
     bindR (decimal A ''metadata.volume_min'' (sm_volume_min metadata)) (\<lambda>volume_min.
     bindR (decimal A ''metadata.volume_max'' (sm_volume_max metadata)) (\<lambda>volume_max.
     bindR (decimal A ''metadata.volume_step'' (sm_volume_step metadata)) (\<lambda>volume_step.
     if list_ex (\<lambda>d. dec_le A d zero)
           [point, tick_size, tick_value, contract_size, volume_min, volume_max, volume_step]
         \<or> dec_lt A volume_max volume_min \<or> dec_lt A volume_max volume_step
       then invalid (''invalid broker metadata constraints for '' @ symbol)
     else bindR (case sm_margin_initial metadata of
         None \<Rightarrow> deny RiskInputInvalid (''margin_initial is missing for '' @ symbol)
       | Some value \<Rightarrow> decimal A ''metadata.margin_initial'' value) (\<lambda>margin_initial.
     if dec_le A margin_initial zero then invalid (''margin_initial must be positive for '' @ symbol)
     else bindR (decimal A ''market.bid'' (ms_bid market)) (\<lambda>bid.
     bindR (decimal A ''market.ask'' (ms_ask market)) (\<lambda>ask.
     bindR (decimal A ''market.spread'' (ms_spread market)) (\<lambda>spread.
     if dec_le A bid zero \<or> dec_le A ask zero \<or> dec_lt A ask bid \<or> dec_lt A spread zero
       then invalid (''invalid market snapshot prices for '' @ symbol)
     else Inr ()))))))))))))"

definition validate_symbol_inputs ::
  "'d decimal_arith \<Rightarrow> SymbolCode list \<Rightarrow> SnapshotIndex \<Rightarrow> unit eresult" where
  "validate_symbol_inputs A required index = check_each (\<lambda>symbol.
     case map_of (ix_metadata index) symbol of
       None \<Rightarrow> deny ErrorCode.SymbolMetadataStale ''metadata missing''
     | Some metadata \<Rightarrow> (case map_of (ix_markets index) symbol of
         None \<Rightarrow> deny ErrorCode.MarketSnapshotStale ''market missing''
       | Some market \<Rightarrow> validate_symbol_input A symbol metadata (rms_snapshot market))) required"

definition notional_per_lot ::
  "'d decimal_arith \<Rightarrow> SymbolMetadataSnapshot \<Rightarrow> RiskMarketSnapshot \<Rightarrow> 'd option \<Rightarrow> 'd eresult" where
  "notional_per_lot A metadata market additional_price =
     bindR (decimal A ''market.bid'' (ms_bid (rms_snapshot market))) (\<lambda>bid.
     bindR (decimal A ''market.ask'' (ms_ask (rms_snapshot market))) (\<lambda>ask.
     let price = da_max A (da_abs A bid) (da_abs A ask);
         price = (case additional_price of None \<Rightarrow> price | Some extra \<Rightarrow> da_max A price (da_abs A extra)) in
     bindR (decimal A ''metadata.tick_size'' (sm_tick_size metadata)) (\<lambda>tick_size.
     bindR (decimal A ''metadata.tick_value_loss'' (sm_tick_value_loss metadata)) (\<lambda>tick_value.
     checked (case da_div A price tick_size of None \<Rightarrow> None
       | Some ticks \<Rightarrow> (case da_mul A (da_ceil A ticks) tick_value of None \<Rightarrow> None
         | Some value \<Rightarrow> if dec_lt A (da_zero A) value then Some value else None))))))"

section \<open>Legs\<close>

record ExpectedLeg =
  el_leg_id :: LegId
  el_symbol :: SymbolCode
  el_action :: AdjustedRiskLegAction
  el_ratio :: f64
  el_stop :: "f64 option"

record 'd PreparedLeg =
  pl_provenance :: SizingCandidateProvenance
  pl_ratio :: 'd
  pl_entry :: 'd
  pl_stop :: 'd
  pl_loss_per_lot :: 'd
  pl_notional_per_lot :: 'd
  pl_margin_per_lot :: 'd
  pl_volume_min :: 'd
  pl_volume_max :: 'd
  pl_volume_step :: 'd

primrec index_candidates ::
  "PositionSizingCandidate list \<Rightarrow> (LegId, PositionSizingCandidate) btree_map \<Rightarrow>
   (LegId, PositionSizingCandidate) btree_map eresult" where
  "index_candidates [] m = Inr m"
| "index_candidates (candidate # candidates) m =
     (if trim_is_empty (psc_leg_id candidate) \<or> trim_is_empty (psc_symbol candidate)
         \<or> map_of m (psc_leg_id candidate) \<noteq> None
       then invalid ''sizing candidate leg ids and symbols must be non-empty and unique''
      else index_candidates candidates (bt_insert (psc_leg_id candidate) candidate m))"

primrec proposed_expected_legs :: "LegId set \<Rightarrow> TradeIntentLeg list \<Rightarrow> ExpectedLeg list eresult" where
  "proposed_expected_legs seen [] = Inr []"
| "proposed_expected_legs seen (leg # legs) =
     (if til_leg_id leg \<in> seen then invalid (''duplicate proposed leg id '' @ til_leg_id leg)
      else bindR (case til_action leg of
          TradeIntentLegAction.Buy \<Rightarrow> Inr AdjustedRiskLegAction.Buy
        | TradeIntentLegAction.Sell \<Rightarrow> Inr AdjustedRiskLegAction.Sell
        | TradeIntentLegAction.Close \<Rightarrow> deny RiskReductionNotProvable
            (''CLOSE leg '' @ til_leg_id leg @ '' cannot prove its reduction amount'')) (\<lambda>action.
      bindR (proposed_expected_legs (insert (til_leg_id leg) seen) legs) (\<lambda>rest.
      Inr (\<lparr>el_leg_id = til_leg_id leg, el_symbol = til_symbol leg, el_action = action,
        el_ratio = til_ratio leg, el_stop = til_proposed_sl leg\<rparr> # rest))))"

definition expected_legs :: "RiskRequest \<Rightarrow> ExpectedLeg list eresult" where
  "expected_legs request = (let intent = rq_intent request in
     case ti_proposed_legs intent of
       Some legs \<Rightarrow> proposed_expected_legs {} legs
     | None \<Rightarrow> bindR (case ti_action intent of
           TradeIntentAction.Buy \<Rightarrow> Inr AdjustedRiskLegAction.Buy
         | TradeIntentAction.Sell \<Rightarrow> Inr AdjustedRiskLegAction.Sell
         | _ \<Rightarrow> invalid ''only BUY/SELL can reach actionable sizing'') (\<lambda>action.
         Inr [\<lparr>el_leg_id = single_leg_id (ti_intent_id intent), el_symbol = ti_symbol intent,
           el_action = action, el_ratio = f64_one, el_stop = ti_proposed_sl intent\<rparr>]))"

definition validate_trade_mode :: "AdjustedRiskLegAction \<Rightarrow> SymbolTradeMode \<Rightarrow> unit eresult" where
  "validate_trade_mode action mode = (let allowed = (case action of
       AdjustedRiskLegAction.Buy \<Rightarrow> mode = SymbolTradeMode.Full \<or> mode = SymbolTradeMode.LongOnly
     | AdjustedRiskLegAction.Sell \<Rightarrow> mode = SymbolTradeMode.Full \<or> mode = SymbolTradeMode.ShortOnly) in
     if allowed then Inr ()
     else deny ErrorCode.TradeModeDisabled (''trade mode '' @ enum_as_str SymbolTradeMode_table mode @
       '' does not permit '' @ enum_as_str AdjustedRiskLegAction_table action))"

text \<open>\<open>(entry - stop).abs()\<close>, in ticks rounded up, times the tick value plus the cost.\<close>

definition bounded_loss ::
  "'d decimal_arith \<Rightarrow> PositionSizingCandidate \<Rightarrow> SymbolMetadataSnapshot \<Rightarrow> 'd \<Rightarrow> 'd \<Rightarrow> 'd \<Rightarrow> 'd eresult" where
  "bounded_loss A candidate metadata entry stop cost =
     bindR (decimal A ''metadata.point'' (sm_point metadata)) (\<lambda>point.
     bindR (decimal A ''metadata.tick_size'' (sm_tick_size metadata)) (\<lambda>tick_size.
     bindR (decimal A ''metadata.tick_value_loss'' (sm_tick_value_loss metadata)) (\<lambda>tick_value.
     bindR (case da_sub A entry stop of None \<Rightarrow> Inl Panicked | Some d \<Rightarrow> Inr (da_abs A d)) (\<lambda>stop_distance.
     bindR (checked (da_mul A (da_of_u32 A (sm_stops_level_points metadata)) point)) (\<lambda>minimum_stop.
     if dec_lt A stop_distance minimum_stop
       then deny ErrorCode.InvalidStops (''stop distance violates stops_level for '' @ psc_leg_id candidate)
     else bindR (checked (da_div A stop_distance tick_size)) (\<lambda>ticks.
     let loss_ticks = da_ceil A ticks in
     bindR (checked (case da_mul A loss_ticks tick_value of None \<Rightarrow> None
       | Some value \<Rightarrow> da_add A value cost)) (\<lambda>loss_per_lot.
     if dec_le A loss_ticks (da_zero A) \<or> dec_le A loss_per_lot (da_zero A)
       then invalid (''loss cannot be bounded for '' @ psc_leg_id candidate)
     else Inr loss_per_lot)))))))"

definition candidate_provenance :: "PositionSizingCandidate \<Rightarrow> SizingCandidateProvenance" where
  "candidate_provenance candidate = \<lparr>scp_leg_id = psc_leg_id candidate, scp_symbol = psc_symbol candidate,
     scp_action = psc_action candidate, scp_ratio = psc_ratio candidate,
     scp_worst_entry_price = psc_worst_entry_price candidate,
     scp_stop_loss_price = psc_stop_loss_price candidate,
     scp_estimated_cost_per_lot = psc_estimated_cost_per_lot candidate\<rparr>"

text \<open>The part of one round that reads the symbol: direction, loss, notional and margin per lot.\<close>

definition price_leg ::
  "'d decimal_arith \<Rightarrow> SnapshotIndex \<Rightarrow> PositionSizingCandidate \<Rightarrow> 'd \<Rightarrow> 'd \<Rightarrow> 'd \<Rightarrow> 'd \<Rightarrow> 'd PreparedLeg eresult" where
  "price_leg A index candidate ratio entry stop cost =
     bindR (case map_of (ix_metadata index) (psc_symbol candidate) of Some metadata \<Rightarrow> Inr metadata
       | None \<Rightarrow> deny ErrorCode.SymbolMetadataStale ''candidate metadata missing'') (\<lambda>metadata.
     bindR (case map_of (ix_markets index) (psc_symbol candidate) of Some market \<Rightarrow> Inr market
       | None \<Rightarrow> deny ErrorCode.MarketSnapshotStale ''candidate market missing'') (\<lambda>market.
     bindR (validate_trade_mode (psc_action candidate) (sm_trade_mode metadata)) (\<lambda>_.
     bindR (decimal A ''market.bid'' (ms_bid (rms_snapshot market))) (\<lambda>bid.
     bindR (decimal A ''market.ask'' (ms_ask (rms_snapshot market))) (\<lambda>ask.
     if \<not> (case psc_action candidate of
         AdjustedRiskLegAction.Buy \<Rightarrow> dec_lt A stop entry \<and> dec_le A ask entry
       | AdjustedRiskLegAction.Sell \<Rightarrow> dec_lt A entry stop \<and> dec_le A entry bid)
       then deny ErrorCode.InvalidStops
         (''entry/stop direction or conservative entry is invalid for '' @ psc_leg_id candidate)
     else bindR (bounded_loss A candidate metadata entry stop cost) (\<lambda>loss_per_lot.
     bindR (notional_per_lot A metadata market (Some entry)) (\<lambda>notional.
     bindR (case sm_margin_initial metadata of
         None \<Rightarrow> deny RiskInputInvalid ''margin_initial is missing''
       | Some value \<Rightarrow> decimal A ''metadata.margin_initial'' value) (\<lambda>margin_per_lot.
     bindR (decimal A ''metadata.volume_min'' (sm_volume_min metadata)) (\<lambda>volume_min.
     bindR (decimal A ''metadata.volume_max'' (sm_volume_max metadata)) (\<lambda>volume_max.
     bindR (decimal A ''metadata.volume_step'' (sm_volume_step metadata)) (\<lambda>volume_step.
     Inr \<lparr>pl_provenance = candidate_provenance candidate, pl_ratio = ratio, pl_entry = entry,
       pl_stop = stop, pl_loss_per_lot = loss_per_lot, pl_notional_per_lot = notional,
       pl_margin_per_lot = margin_per_lot, pl_volume_min = volume_min, pl_volume_max = volume_max,
       pl_volume_step = volume_step\<rparr>)))))))))))"

definition prepare_leg ::
  "'d decimal_arith \<Rightarrow> RiskRequest \<Rightarrow> SnapshotIndex \<Rightarrow> (LegId, PositionSizingCandidate) btree_map \<Rightarrow>
   ExpectedLeg \<Rightarrow> 'd PreparedLeg eresult" where
  "prepare_leg A request index candidate_by_id expected = (let zero = da_zero A in
     bindR (case map_of candidate_by_id (el_leg_id expected) of Some candidate \<Rightarrow> Inr candidate
       | None \<Rightarrow> deny RiskInputInvalid (''sizing candidate is missing for '' @ el_leg_id expected)) (\<lambda>candidate.
     if psc_symbol candidate \<noteq> el_symbol expected \<or> psc_action candidate \<noteq> el_action expected
       then invalid (''candidate identity differs for '' @ el_leg_id expected)
     else bindR (decimal A ''candidate.ratio'' (psc_ratio candidate)) (\<lambda>ratio.
     bindR (decimal A ''proposed leg ratio'' (el_ratio expected)) (\<lambda>expected_ratio.
     if dec_le A ratio zero \<or> \<not> dec_eq A ratio expected_ratio
       then invalid (''candidate ratio differs for '' @ el_leg_id expected)
     else if ti_proposed_legs (rq_intent request) = None \<and> \<not> dec_eq A ratio (da_one A)
       then invalid ''single-leg ratio must equal one''
     else bindR (case el_stop expected of Some value \<Rightarrow> Inr value
       | None \<Rightarrow> deny RiskInputInvalid ''stop loss is required'') (\<lambda>expected_stop.
     bindR (decimal A ''proposed stop loss'' expected_stop) (\<lambda>expected_stop.
     bindR (decimal A ''candidate.worst_entry_price'' (psc_worst_entry_price candidate)) (\<lambda>entry.
     bindR (decimal A ''candidate.stop_loss_price'' (psc_stop_loss_price candidate)) (\<lambda>stop.
     bindR (decimal A ''candidate.estimated_cost_per_lot'' (psc_estimated_cost_per_lot candidate)) (\<lambda>cost.
     if dec_le A entry zero \<or> dec_le A stop zero \<or> \<not> dec_eq A stop expected_stop
       then invalid (''invalid or mismatched stop for '' @ el_leg_id expected)
     else price_leg A index candidate ratio entry stop (da_max A cost zero))))))))))"

primrec map_result :: "('x \<Rightarrow> ('e, 'y) result) \<Rightarrow> 'x list \<Rightarrow> ('e, 'y list) result" where
  "map_result f [] = Inr []"
| "map_result f (x # xs) = bindR (f x) (\<lambda>y. bindR (map_result f xs) (\<lambda>ys. Inr (y # ys)))"

definition prepare_legs ::
  "'d decimal_arith \<Rightarrow> RiskRequest \<Rightarrow> SnapshotIndex \<Rightarrow> 'd PreparedLeg list eresult" where
  "prepare_legs A request index =
     bindR (index_candidates (rq_sizing_candidates request) []) (\<lambda>candidate_by_id.
     bindR (expected_legs request) (\<lambda>expected.
     if length expected \<noteq> length candidate_by_id
       then invalid ''sizing candidates must correspond one-to-one with proposed legs''
     else map_result (prepare_leg A request index candidate_by_id) (sort_key el_leg_id expected)))"

end
