(* ===== verification/Risk_Sizing.thy ===== *)
theory Risk_Sizing
  imports Risk_Checks
begin

text \<open>
  The second half of \<open>crates/risk/src/evaluator.rs\<close>: capacity, pending commands, exposure and
  concurrency, and the validity window. \<open>Risk_Approval\<close> has \<open>size_and_cap\<close> and \<open>evaluate\<close>.
\<close>

section \<open>Capacity, pending commands, exposure\<close>

definition validate_loss_capacity :: "'d decimal_arith \<Rightarrow> RiskRequest \<Rightarrow> unit eresult" where
  "validate_loss_capacity A request = (let capacity = rq_capacity request; policy = rq_policy request in
     bindR (decimal A ''daily_realized_loss_pct'' (rc_daily_realized_loss_pct capacity)) (\<lambda>daily.
     bindR (decimal A ''equity_drawdown_pct'' (rc_equity_drawdown_pct capacity)) (\<lambda>drawdown.
     bindR (decimal A ''max_daily_loss_pct'' (pol_max_daily_loss_pct policy)) (\<lambda>max_daily.
     if dec_le A max_daily daily
       then deny RiskLimitExceeded ''daily realized loss reached the configured limit''
     else bindR (decimal A ''max_drawdown_pct'' (pol_max_drawdown_pct policy)) (\<lambda>max_drawdown.
     if dec_le A max_drawdown drawdown
       then deny RiskLimitExceeded ''equity drawdown reached the configured limit''
     else if f64_le (rc_remaining_account_risk_pct capacity) f64_zero
         \<or> f64_le (rc_remaining_portfolio_risk_pct capacity) f64_zero
       then deny RiskLimitExceeded ''no account or portfolio risk capacity remains''
     else Inr ())))))"

definition validate_command_state_time :: "RiskRequest \<Rightarrow> ExecutionCommandState \<Rightarrow> unit eresult" where
  "validate_command_state_time request state =
     (if command_state_is_terminal (cs_status state) \<noteq> (cs_completed_at state \<noteq> None)
        then invalid (''command state '' @ cs_command_id state @
          '' completed_at does not match terminal status'')
      else if cs_created_at state < 0 \<or> cs_updated_at state < cs_created_at state
          \<or> wm_pending_commands_reconciled_at (rq_state_watermarks request) < cs_updated_at state
        then deny ErrorCode.PendingExposureConflict (''command state '' @ cs_command_id state @
          '' is not covered by reconciliation'')
      else check_each (\<lambda>timestamp. if timestamp < cs_created_at state \<or> cs_updated_at state < timestamp
          then invalid (''command state '' @ cs_command_id state @ '' has an invalid lifecycle timestamp'')
          else Inr ())
        (flatten_opts [cs_dispatched_at state, cs_command_received_at state, cs_reconciling_at state,
          cs_completed_at state]))"

definition optional_decimal :: "'d decimal_arith \<Rightarrow> string \<Rightarrow> f64 option \<Rightarrow> 'd option eresult" where
  "optional_decimal A name value = (case value of None \<Rightarrow> Inr None
     | Some v \<Rightarrow> bindR (decimal A name v) (\<lambda>d. Inr (Some d)))"

definition validate_active_command :: "'d decimal_arith \<Rightarrow> ExecutionCommand \<Rightarrow> unit eresult" where
  "validate_active_command A command = (let zero = da_zero A in
     if trim_is_empty (ec_command_id command) \<or> trim_is_empty (ec_strategy_id command)
         \<or> trim_is_empty (ec_symbol command) \<or> trim_is_empty (ec_idempotency_key command)
         \<or> trim_is_empty (ec_hmac command)
       then invalid ''active command identity and HMAC fields must not be empty''
     else if increases_risk (ec_action command) then
       bindR (positive_optional_decimal A ''command.lots'' (ec_lots command)) (\<lambda>_.
       bindR (case ec_order_type command of Some order_type \<Rightarrow> Inr order_type
         | None \<Rightarrow> deny RiskInputInvalid ''active BUY/SELL order_type is required'') (\<lambda>order_type.
       bindR (optional_decimal A ''command.price'' (ec_price command)) (\<lambda>price.
       if (case price of None \<Rightarrow> False | Some d \<Rightarrow> dec_le A d zero)
           \<or> order_type \<noteq> OrderType.Market \<and> price = None
         then invalid ''active pending-order price is missing or invalid''
       else Inr ())))
     else case ec_action command of
       ExecutionAction.Close \<Rightarrow>
         if ec_position_ticket command = None
           then invalid ''active CLOSE command must identify its target position''
         else bindR (optional_decimal A ''command.lots'' (ec_lots command)) (\<lambda>lots.
           if (case lots of None \<Rightarrow> False | Some d \<Rightarrow> dec_le A d zero)
             then invalid ''active CLOSE lots must be positive when present'' else Inr ())
     | ExecutionAction.Modify \<Rightarrow>
         if ec_position_ticket command = None \<and> ec_broker_order_id command = None
           then invalid ''active MODIFY command must identify an order or position''
         else if ec_sl command = None \<and> ec_tp command = None \<and> ec_price command = None
             \<and> ec_expiration_time command = None
           then invalid ''active MODIFY command has no modified field''
         else Inr ()
     | _ \<Rightarrow>
         if ec_broker_order_id command = None
           then invalid ''active CANCEL command must identify a broker order'' else Inr ())"

type_synonym active_command = "ExecutionCommand \<times> ExecutionCommandState"

definition active_step ::
  "'d decimal_arith \<Rightarrow> RiskRequest \<Rightarrow> (CommandId, ExecutionCommandState) btree_map \<Rightarrow>
   CommandId \<times> ExecutionCommand \<Rightarrow> active_command list \<Rightarrow> active_command list eresult" where
  "active_step A request states entry active = (let command_id = fst entry; command = snd entry in
     bindR (case map_of states command_id of Some state \<Rightarrow> Inr state
       | None \<Rightarrow> deny RiskInputInvalid (''state is missing for pending command '' @ command_id)) (\<lambda>state.
     if cs_command_id state \<noteq> ec_command_id command \<or> cs_account_id state \<noteq> ec_account_id command
         \<or> cs_plan_id state \<noteq> ec_plan_id command \<or> cs_leg_id state \<noteq> ec_leg_id command
       then invalid (''command state identity differs for '' @ command_id)
     else bindR (validate_command_state_time request state) (\<lambda>_.
     if command_state_is_terminal (cs_status state) then Inr active
     else bindR (validate_active_command A command) (\<lambda>_.
     if ec_expires_at command \<le> rq_evaluated_at request
       then deny ErrorCode.PendingExposureConflict
         (''non-terminal command '' @ command_id @ '' is expired and unreconciled'')
     else Inr (active @ [(command, state)])))))"

definition active_pending_commands :: "'d decimal_arith \<Rightarrow> RiskRequest \<Rightarrow> active_command list eresult" where
  "active_pending_commands A request =
     bindR (index_unique ec_command_id (\<lambda>command. ''duplicate command '' @ ec_command_id command)
       (rq_pending_commands request) []) (\<lambda>commands.
     bindR (index_unique cs_command_id (\<lambda>state. ''duplicate command state '' @ cs_command_id state)
       (rq_pending_command_states request) []) (\<lambda>states.
     if length commands \<noteq> length states
       then invalid ''pending commands and states must correspond one-to-one''
     else try_fold (active_step A request states) commands []))"

definition validate_broker_symbol ::
  "string \<Rightarrow> string option \<Rightarrow> SymbolMetadataSnapshot \<Rightarrow> unit eresult" where
  "validate_broker_symbol label broker_symbol metadata =
     (if (case broker_symbol of None \<Rightarrow> False | Some symbol \<Rightarrow> symbol \<noteq> sm_broker_symbol metadata)
        then invalid (label @ '' broker_symbol does not match symbol metadata for '' @ sm_symbol metadata)
      else Inr ())"

definition validate_order :: "'d decimal_arith \<Rightarrow> OrderSnapshot \<Rightarrow> 'd eresult" where
  "validate_order A order = (let zero = da_zero A in
     bindR (decimal A ''order.requested_lots'' (ord_requested_lots order)) (\<lambda>requested.
     bindR (decimal A ''order.filled_lots'' (ord_filled_lots order)) (\<lambda>filled.
     bindR (decimal A ''order.remaining_lots'' (ord_remaining_lots order)) (\<lambda>remaining.
     bindR (checked (da_add A filled remaining)) (\<lambda>total.
     if dec_le A requested zero \<or> dec_lt A filled zero \<or> dec_le A remaining zero
         \<or> dec_lt A requested filled \<or> dec_lt A requested remaining \<or> \<not> dec_eq A total requested
       then invalid (''invalid order lots for '' @ ord_broker_order_id order)
     else if ord_status order = OrderSnapshotStatus.Placed \<and> \<not> dec_eq A filled zero
       then invalid (''PLACED order '' @ ord_broker_order_id order @ '' must not have filled lots'')
     else if ord_status order = OrderSnapshotStatus.PartiallyFilled \<and> dec_le A filled zero
       then invalid (''PARTIALLY_FILLED order '' @ ord_broker_order_id order @ '' must have filled lots'')
     else bindR (optional_decimal A ''order.price'' (ord_price order)) (\<lambda>price.
     if (case price of None \<Rightarrow> False | Some d \<Rightarrow> dec_le A d zero)
         \<or> ord_order_type order \<noteq> OrderType.Market \<and> price = None
       then invalid (''order '' @ ord_broker_order_id order @ '' has an invalid or missing price'')
     else Inr remaining))))))"

definition validate_pending_exposure ::
  "'d decimal_arith \<Rightarrow> RiskRequest \<Rightarrow> SnapshotIndex \<Rightarrow> 'd PreparedLeg list \<Rightarrow> active_command list \<Rightarrow> unit eresult" where
  "validate_pending_exposure A request index legs active_commands =
     (let new_symbols = map (\<lambda>leg. scp_symbol (pl_provenance leg)) legs in
     case find (\<lambda>(command, _). ec_action command = ExecutionAction.Modify) active_commands of
       Some (command, _) \<Rightarrow> deny ErrorCode.PendingExposureConflict
         (''pending MODIFY command '' @ ec_command_id command @ '' has no v1 risk-reduction proof'')
     | None \<Rightarrow>
     bindR (check_each (\<lambda>order.
         if \<not> order_is_active (ord_status order) then Inr ()
         else if ord_status order = OrderSnapshotStatus.Unknown
           then deny ErrorCode.PendingExposureConflict
             (''order '' @ ord_broker_order_id order @ '' has unknown broker status and exposure'')
         else bindR (required_metadata index (ord_symbol order)) (\<lambda>metadata.
           bindR (validate_broker_symbol ''active order'' (ord_broker_symbol order) metadata) (\<lambda>_.
           bindR (validate_order A order) (\<lambda>remaining.
           if dec_lt A (da_zero A) remaining \<and> ord_symbol order \<in> set new_symbols
             then deny ErrorCode.PendingExposureConflict (''open order '' @ ord_broker_order_id order @
               '' already exposes '' @ ord_symbol order)
           else Inr ())))) (rq_orders request)) (\<lambda>_.
     check_each (\<lambda>(command, _).
         if \<not> increases_risk (ec_action command) then Inr ()
         else bindR (required_metadata index (ec_symbol command)) (\<lambda>metadata.
           bindR (validate_broker_symbol ''active command'' (ec_broker_symbol command) metadata) (\<lambda>_.
           if ec_symbol command \<in> set new_symbols
             then deny ErrorCode.PendingExposureConflict (''pending command '' @ ec_command_id command @
               '' already exposes '' @ ec_symbol command)
           else Inr ()))) active_commands))"

text \<open>Lengths of vectors in memory: the \<open>checked_add\<close> of \<open>usize\<close> is bounded by \<open>usize_max\<close>.\<close>

definition usize_max :: nat where "usize_max = 18446744073709551615"

definition checked_add_usize :: "nat \<Rightarrow> nat \<Rightarrow> nat option" where
  "checked_add_usize a b = (if a + b \<le> usize_max then Some (a + b) else None)"

definition validate_concurrency ::
  "RiskRequest \<Rightarrow> 'd PreparedLeg list \<Rightarrow> active_command list \<Rightarrow> unit eresult" where
  "validate_concurrency request legs active_commands =
     (let active_orders = length (filter (\<lambda>order. order_is_active (ord_status order)
            \<and> f64_lt f64_zero (ord_remaining_lots order)) (rq_orders request));
          active_risk_commands = length (filter (\<lambda>(command, _). increases_risk (ec_action command))
            active_commands) in
     bindR (checked (case checked_add_usize (length (rq_positions request)) active_orders of None \<Rightarrow> None
       | Some n \<Rightarrow> (case checked_add_usize n active_risk_commands of None \<Rightarrow> None
         | Some n \<Rightarrow> checked_add_usize n (length legs)))) (\<lambda>prospective.
     if pol_max_concurrent_positions (rq_policy request) < prospective
       then deny PositionLimitExceeded ''prospective account position count exceeds policy''
     else if rc_remaining_strategy_legs (rq_capacity request) < length legs
       then deny PositionLimitExceeded
         ''new legs exceed the trusted assembler's remaining strategy capacity''
     else Inr ()))"

section \<open>The validity window\<close>

definition earliest :: "i64 eresult \<Rightarrow> i64 \<Rightarrow> i64 eresult" where
  "earliest boundary acc = bindR boundary (\<lambda>b. Inr (min acc b))"

definition approval_valid_until ::
  "RiskRequest \<Rightarrow> SymbolCode list \<Rightarrow> SnapshotIndex \<Rightarrow> i64 eresult" where
  "approval_valid_until request required index =
     (let policy = rq_policy request; marks = rq_state_watermarks request in
     bindR (time_boundary (rq_evaluated_at request) (pol_max_approval_ttl_ms policy)) (\<lambda>ttl_boundary.
     bindR (try_fold (\<lambda>(observed_at, max_age). earliest (time_boundary observed_at max_age))
       ([(acct_observed_at (rq_account request), pol_max_snapshot_age_ms policy),
         (wm_positions_observed_at marks, pol_max_snapshot_age_ms policy),
         (wm_orders_observed_at marks, pol_max_order_snapshot_age_ms policy),
         (wm_pending_commands_reconciled_at marks, pol_max_order_snapshot_age_ms policy),
         (rc_observed_at (rq_capacity request), pol_max_capacity_age_ms policy)] @
        map (\<lambda>position. (pos_observed_at position, pol_max_snapshot_age_ms policy)) (rq_positions request) @
        map (\<lambda>order. (ord_observed_at order, pol_max_order_snapshot_age_ms policy)) (rq_orders request))
       (min (ti_signal_expires_at (rq_intent request)) ttl_boundary)) (\<lambda>valid_until.
     bindR (try_fold (\<lambda>symbol acc.
         bindR (required_market index symbol) (\<lambda>market.
         bindR (earliest (time_boundary (ms_observed_at (rms_snapshot market))
           (pol_max_market_snapshot_age_ms policy)) acc) (\<lambda>acc.
         bindR (required_metadata index symbol) (\<lambda>metadata.
         earliest (time_boundary (sm_observed_at metadata)
           (pol_max_symbol_metadata_age_ms policy)) acc)))) required valid_until) (\<lambda>valid_until.
     if valid_until \<le> rq_evaluated_at request
       then deny RiskInputInvalid ''approval validity window is empty''
     else Inr valid_until))))"

end
