(* ===== verification/Risk_Approval.thy ===== *)
theory Risk_Approval
  imports Risk_Sizing
begin

text \<open>
  \<open>size_and_cap\<close> and \<open>evaluate\<close> of \<open>crates/risk/src/evaluator.rs\<close>. One scale sizes all the legs; it
  starts from the risk budget and is lowered by the volume, exposure and margin caps; the lots are
  floored to the broker's step, and the final amounts are checked against every cap again.
\<close>

section \<open>Helpers\<close>

datatype ScaleLimiter = RiskBudget | Volume | Exposure | Margin

definition cap_scale ::
  "'d decimal_arith \<Rightarrow> 'd \<Rightarrow> ScaleLimiter \<Rightarrow> 'd \<times> ScaleLimiter \<Rightarrow> 'd \<times> ScaleLimiter" where
  "cap_scale A candidate candidate_limiter current =
     (if dec_lt A candidate (fst current) then (candidate, candidate_limiter) else current)"

definition rejection_for_limiter :: "ScaleLimiter \<Rightarrow> 'a eresult" where
  "rejection_for_limiter limiter = (case limiter of
     Exposure \<Rightarrow> deny ExposureLimitExceeded ''exposure cap floors at least one required leg below volume_min''
   | Margin \<Rightarrow> deny InsufficientMargin ''margin cap floors at least one required leg below volume_min''
   | _ \<Rightarrow> deny InvalidVolume ''global scale floors at least one required leg below volume_min'')"

definition add_amount ::
  "'d decimal_arith \<Rightarrow> SymbolCode \<Rightarrow> 'd \<Rightarrow> (SymbolCode, 'd) btree_map \<Rightarrow> (SymbolCode, 'd) btree_map eresult" where
  "add_amount A symbol amount amounts =
     bindR (checked (da_add A (case map_of amounts symbol of Some current \<Rightarrow> current | None \<Rightarrow> da_zero A)
       amount)) (\<lambda>sum_so_far. Inr (bt_insert symbol sum_so_far amounts))"

definition checked_sum :: "'d decimal_arith \<Rightarrow> 'd list \<Rightarrow> 'd eresult" where
  "checked_sum A values = try_fold (\<lambda>value sum_so_far. checked (da_add A sum_so_far value)) values (da_zero A)"

definition floor_to_step :: "'d decimal_arith \<Rightarrow> 'd \<Rightarrow> 'd \<Rightarrow> 'd eresult" where
  "floor_to_step A value step =
     (if dec_lt A value (da_zero A) \<or> dec_le A step (da_zero A)
        then invalid ''volume and volume_step must be valid positive decimals''
      else checked (case da_div A value step of None \<Rightarrow> None
        | Some units \<Rightarrow> da_mul A (da_floor A units) step))"

definition decimal_to_f64 :: "'d decimal_arith \<Rightarrow> 'd \<Rightarrow> f64 option" where
  "decimal_to_f64 A value = (case da_to_f64 A value of None \<Rightarrow> None
     | Some x \<Rightarrow> if f64_is_finite x then Some x else None)"

definition required_f64 :: "'d decimal_arith \<Rightarrow> 'd \<Rightarrow> f64 eresult" where
  "required_f64 A value = (case decimal_to_f64 A value of Some x \<Rightarrow> Inr x
     | None \<Rightarrow> deny RiskInputInvalid ''decimal result cannot be represented as a finite f64 audit value'')"

definition normalize_executable_lots :: "'d decimal_arith \<Rightarrow> 'd \<Rightarrow> 'd \<Rightarrow> ('d \<times> f64) eresult" where
  "normalize_executable_lots A lots volume_step =
     (let refuse = deny InvalidVolume ''f64 executable lots would round up or violate volume_step'' in
     bindR (required_f64 A lots) (\<lambda>executable.
     bindR (decimal A ''executable lots'' executable) (\<lambda>round_trip.
     if dec_le A round_trip (da_zero A) \<or> dec_lt A lots round_trip then refuse
     else bindR (floor_to_step A round_trip volume_step) (\<lambda>floored.
     if \<not> dec_eq A floored round_trip then refuse else Inr (round_trip, executable)))))"

definition percent_of :: "'d decimal_arith \<Rightarrow> 'd \<Rightarrow> string \<Rightarrow> f64 \<Rightarrow> 'd eresult" where
  "percent_of A base name pct = bindR (decimal A name pct) (\<lambda>p.
     checked (case da_mul A base p of None \<Rightarrow> None | Some value \<Rightarrow> da_div A value (da_hundred A)))"

definition share_of :: "'d decimal_arith \<Rightarrow> 'd \<Rightarrow> 'd \<Rightarrow> 'd eresult" where
  "share_of A amount base =
     checked (case da_div A amount base of None \<Rightarrow> None | Some value \<Rightarrow> da_mul A value (da_hundred A))"

section \<open>Existing exposure and margin\<close>

definition validate_position :: "'d decimal_arith \<Rightarrow> PositionSnapshot \<Rightarrow> 'd eresult" where
  "validate_position A position =
     bindR (decimal A ''position.lots'' (pos_lots position)) (\<lambda>lots.
     bindR (decimal A ''position.open_price'' (pos_open_price position)) (\<lambda>open_price.
     bindR (decimal A ''position.floating_pnl'' (pos_floating_pnl position)) (\<lambda>_.
     if dec_le A lots (da_zero A) \<or> dec_le A open_price (da_zero A)
       then invalid (''invalid position '' @ pos_position_id position)
     else bindR (optional_decimal A ''position.sl'' (pos_sl position)) (\<lambda>_.
     bindR (optional_decimal A ''position.tp'' (pos_tp position)) (\<lambda>_. Inr lots)))))"

definition add_exposure ::
  "'d decimal_arith \<Rightarrow> SnapshotIndex \<Rightarrow> SymbolCode \<Rightarrow> 'd \<Rightarrow> 'd option eresult \<Rightarrow>
   (SymbolCode, 'd) btree_map \<Rightarrow> (SymbolCode, 'd) btree_map eresult" where
  "add_exposure A index symbol lots price_of exposure =
     bindR (required_metadata index symbol) (\<lambda>metadata.
     bindR (required_market index symbol) (\<lambda>market.
     bindR price_of (\<lambda>price.
     bindR (notional_per_lot A metadata market price) (\<lambda>per_lot.
     bindR (checked (da_mul A lots per_lot)) (\<lambda>amount.
     add_amount A symbol amount exposure)))))"

definition existing_exposure ::
  "'d decimal_arith \<Rightarrow> RiskRequest \<Rightarrow> SnapshotIndex \<Rightarrow> active_command list \<Rightarrow>
   (SymbolCode, 'd) btree_map eresult" where
  "existing_exposure A request index active_commands =
     bindR (try_fold (\<lambda>position exposure.
         bindR (validate_position A position) (\<lambda>lots.
         add_exposure A index (pos_symbol position) lots
           (optional_decimal A ''position.open_price'' (Some (pos_open_price position))) exposure))
       (rq_positions request) []) (\<lambda>exposure.
     bindR (try_fold (\<lambda>order exposure.
         if \<not> order_is_active (ord_status order) then Inr exposure
         else bindR (validate_order A order) (\<lambda>lots.
           if dec_eq A lots (da_zero A) then Inr exposure
           else add_exposure A index (ord_symbol order) lots
             (optional_decimal A ''order.price'' (ord_price order)) exposure))
       (rq_orders request) exposure) (\<lambda>exposure.
     try_fold (\<lambda>(command, _) exposure.
         if \<not> increases_risk (ec_action command) then Inr exposure
         else bindR (positive_optional_decimal A ''command.lots'' (ec_lots command)) (\<lambda>lots.
           add_exposure A index (ec_symbol command) lots
             (optional_decimal A ''command.price'' (ec_price command)) exposure))
       active_commands exposure))"

definition add_margin :: "'d decimal_arith \<Rightarrow> SnapshotIndex \<Rightarrow> SymbolCode \<Rightarrow> 'd \<Rightarrow> 'd \<Rightarrow> 'd eresult" where
  "add_margin A index symbol lots sum_so_far =
     bindR (required_metadata index symbol) (\<lambda>metadata.
     bindR (positive_optional_decimal A ''metadata.margin_initial'' (sm_margin_initial metadata)) (\<lambda>margin.
     bindR (checked (da_mul A lots margin)) (\<lambda>amount.
     checked (da_add A sum_so_far amount))))"

definition pending_margin ::
  "'d decimal_arith \<Rightarrow> RiskRequest \<Rightarrow> SnapshotIndex \<Rightarrow> active_command list \<Rightarrow> 'd eresult" where
  "pending_margin A request index active_commands =
     bindR (try_fold (\<lambda>order sum_so_far.
         if \<not> order_is_active (ord_status order) then Inr sum_so_far
         else bindR (validate_order A order) (\<lambda>lots. add_margin A index (ord_symbol order) lots sum_so_far))
       (rq_orders request) (da_zero A))
     (try_fold (\<lambda>(command, _) sum_so_far.
         if \<not> increases_risk (ec_action command) then Inr sum_so_far
         else bindR (positive_optional_decimal A ''command.lots'' (ec_lots command)) (\<lambda>lots.
           add_margin A index (ec_symbol command) lots sum_so_far)) active_commands)"

section \<open>The scale\<close>

definition approved_pct :: "'d decimal_arith \<Rightarrow> RiskRequest \<Rightarrow> 'd eresult" where
  "approved_pct A request = (let capacity = rq_capacity request in
     bindR (map_result (\<lambda>(name, value). decimal A name value)
       [(''proposed_risk_pct'', ti_proposed_risk_pct (rq_intent request)),
        (''max_risk_per_trade_pct'', pol_max_risk_per_trade_pct (rq_policy request)),
        (''strategy.max_risk_per_trade_pct'', srp_max_risk_per_trade_pct (rq_strategy_policy request)),
        (''remaining_account_risk_pct'', rc_remaining_account_risk_pct capacity),
        (''remaining_portfolio_risk_pct'', rc_remaining_portfolio_risk_pct capacity)]) (\<lambda>pcts.
     case pcts of
       [] \<Rightarrow> deny RiskInputInvalid ''risk cap is missing''
     | first # rest \<Rightarrow> let approved = foldl (\<lambda>m x. if dec_lt A x m then x else m) first rest in
         if dec_le A approved (da_zero A)
           then deny RiskLimitExceeded ''approved risk percentage is not positive'' else Inr approved))"

definition budget_scale ::
  "'d decimal_arith \<Rightarrow> 'd PreparedLeg list \<Rightarrow> 'd \<Rightarrow> 'd eresult" where
  "budget_scale A legs risk_budget = (let zero = da_zero A in
     bindR (try_fold (\<lambda>leg weighted. bindR (checked (da_mul A (pl_ratio leg) (pl_loss_per_lot leg))) (\<lambda>loss.
         checked (da_add A weighted loss))) legs zero) (\<lambda>weighted_loss.
     if dec_le A weighted_loss zero \<or> dec_le A risk_budget zero
       then deny RiskLimitExceeded ''risk budget or bounded loss is not positive''
     else checked (da_div A risk_budget weighted_loss)))"

definition volume_scale ::
  "'d decimal_arith \<Rightarrow> 'd PreparedLeg list \<Rightarrow> 'd \<times> ScaleLimiter \<Rightarrow> ('d \<times> ScaleLimiter) eresult" where
  "volume_scale A legs = try_fold (\<lambda>leg current.
     bindR (checked (da_div A (pl_volume_max leg) (pl_ratio leg))) (\<lambda>maximum_scale.
     Inr (cap_scale A maximum_scale Volume current))) legs"

definition exposure_scale ::
  "'d decimal_arith \<Rightarrow> 'd PreparedLeg list \<Rightarrow> (SymbolCode, 'd) btree_map \<Rightarrow> 'd \<Rightarrow> 'd \<Rightarrow>
   'd \<times> ScaleLimiter \<Rightarrow> ('d \<times> ScaleLimiter) eresult" where
  "exposure_scale A legs existing symbol_cap total_cap current = (let zero = da_zero A in
     bindR (try_fold (\<lambda>leg amounts. bindR (checked (da_mul A (pl_ratio leg) (pl_notional_per_lot leg)))
         (\<lambda>amount. add_amount A (scp_symbol (pl_provenance leg)) amount amounts)) legs []) (\<lambda>new_exposure.
     bindR (try_fold (\<lambda>(symbol, coefficient) current.
         bindR (checked (da_sub A symbol_cap
           (case map_of existing symbol of Some amount \<Rightarrow> amount | None \<Rightarrow> zero))) (\<lambda>available.
         if dec_le A available zero
           then deny ExposureLimitExceeded (''existing exposure consumes the symbol cap for '' @ symbol)
         else bindR (checked (da_div A available coefficient)) (\<lambda>maximum_scale.
           Inr (cap_scale A maximum_scale Exposure current)))) new_exposure current) (\<lambda>current.
     bindR (checked_sum A (map snd existing)) (\<lambda>existing_total.
     bindR (checked_sum A (map snd new_exposure)) (\<lambda>new_total_coefficient.
     bindR (checked (da_sub A total_cap existing_total)) (\<lambda>total_available.
     if dec_le A total_available zero
       then deny ExposureLimitExceeded ''existing exposure consumes the total exposure cap''
     else bindR (checked (da_div A total_available new_total_coefficient)) (\<lambda>maximum_scale.
       Inr (cap_scale A maximum_scale Exposure current))))))))"

definition margin_scale ::
  "'d decimal_arith \<Rightarrow> 'd PreparedLeg list \<Rightarrow> 'd \<Rightarrow> 'd \<Rightarrow> 'd \<Rightarrow> 'd \<Rightarrow>
   'd \<times> ScaleLimiter \<Rightarrow> ('d \<times> ScaleLimiter) eresult" where
  "margin_scale A legs pending free_margin account_margin margin_cap current = (let zero = da_zero A in
     bindR (checked (da_sub A free_margin pending)) (\<lambda>free_available.
     bindR (checked (case da_sub A margin_cap account_margin of None \<Rightarrow> None
       | Some value \<Rightarrow> da_sub A value pending)) (\<lambda>usage_available.
     if dec_le A free_available zero \<or> dec_le A usage_available zero
       then deny InsufficientMargin ''pending margin consumes available margin capacity''
     else bindR (checked_sum A (map (\<lambda>leg. case da_mul A (pl_ratio leg) (pl_margin_per_lot leg) of
         Some value \<Rightarrow> value | None \<Rightarrow> da_max_value A) legs)) (\<lambda>margin_coefficient.
     if dec_eq A margin_coefficient (da_max_value A) \<or> dec_le A margin_coefficient zero
       then invalid ''new margin coefficient is invalid''
     else bindR (checked (da_div A (da_min A free_available usage_available) margin_coefficient)) (\<lambda>scale.
       Inr (cap_scale A scale Margin current))))))"

section \<open>Lots and final amounts\<close>

record 'd SizedLeg =
  sz_leg :: "'d PreparedLeg"
  sz_lots :: 'd
  sz_executable_lots :: f64
  sz_risk_amount :: 'd

record 'd sizing_totals =
  st_sized :: "'d SizedLeg list"
  st_actual_risk :: 'd
  st_final_exposure :: "(SymbolCode, 'd) btree_map"
  st_new_margin :: 'd

definition size_leg ::
  "'d decimal_arith \<Rightarrow> 'd \<Rightarrow> ScaleLimiter \<Rightarrow> 'd PreparedLeg \<Rightarrow> 'd sizing_totals \<Rightarrow> 'd sizing_totals eresult" where
  "size_leg A scale limiter leg totals =
     bindR (checked (da_mul A scale (pl_ratio leg))) (\<lambda>raw_lots.
     bindR (floor_to_step A raw_lots (pl_volume_step leg)) (\<lambda>lots.
     bindR (normalize_executable_lots A lots (pl_volume_step leg)) (\<lambda>(lots, executable_lots).
     if dec_lt A lots (pl_volume_min leg) then rejection_for_limiter limiter
     else let refuse = deny InvalidVolume (''final lots violate broker volume constraints for '' @
         scp_leg_id (pl_provenance leg)) in
     if dec_lt A (pl_volume_max leg) lots then refuse
     else bindR (floor_to_step A lots (pl_volume_step leg)) (\<lambda>floored.
     if \<not> dec_eq A floored lots then refuse
     else bindR (checked (da_mul A lots (pl_loss_per_lot leg))) (\<lambda>risk_amount.
     bindR (checked (da_add A (st_actual_risk totals) risk_amount)) (\<lambda>actual_risk.
     bindR (checked (da_mul A lots (pl_notional_per_lot leg))) (\<lambda>notional.
     bindR (add_amount A (scp_symbol (pl_provenance leg)) notional (st_final_exposure totals)) (\<lambda>final_exposure.
     bindR (checked (da_mul A lots (pl_margin_per_lot leg))) (\<lambda>margin.
     bindR (checked (da_add A (st_new_margin totals) margin)) (\<lambda>new_margin.
     Inr \<lparr>st_sized = st_sized totals @ [\<lparr>sz_leg = leg, sz_lots = lots,
         sz_executable_lots = executable_lots, sz_risk_amount = risk_amount\<rparr>],
       st_actual_risk = actual_risk, st_final_exposure = final_exposure, st_new_margin = new_margin\<rparr>))))))))))"

definition validate_final ::
  "'d decimal_arith \<Rightarrow> 'd sizing_totals \<Rightarrow> 'd \<Rightarrow> 'd \<Rightarrow> 'd \<Rightarrow> 'd \<Rightarrow> 'd \<Rightarrow> 'd \<Rightarrow> 'd \<Rightarrow> unit eresult" where
  "validate_final A totals risk_budget symbol_cap total_cap pending free_margin account_margin margin_cap =
     (if dec_lt A risk_budget (st_actual_risk totals)
        then deny RiskLimitExceeded ''final step-normalized risk exceeds its budget''
      else let refuse = deny ExposureLimitExceeded ''final exposure exceeds a hard cap'' in
      if list_ex (\<lambda>value. dec_lt A symbol_cap value) (map snd (st_final_exposure totals)) then refuse
      else bindR (checked_sum A (map snd (st_final_exposure totals))) (\<lambda>final_total.
      if dec_lt A total_cap final_total then refuse
      else bindR (checked (da_add A pending (st_new_margin totals))) (\<lambda>incremental_margin.
      let refuse = deny InsufficientMargin ''final lots exceed free-margin or usage capacity'' in
      if dec_lt A free_margin incremental_margin then refuse
      else bindR (checked (da_add A account_margin incremental_margin)) (\<lambda>used.
      if dec_lt A margin_cap used then refuse else Inr ()))))"

definition audit_leg :: "'d decimal_arith \<Rightarrow> 'd \<Rightarrow> 'd SizedLeg \<Rightarrow> AdjustedRiskLeg eresult" where
  "audit_leg A risk_base sized = (let leg = sz_leg sized in
     bindR (share_of A (sz_risk_amount sized) risk_base) (\<lambda>risk_pct.
     bindR (required_f64 A (sz_risk_amount sized)) (\<lambda>risk_amount.
     bindR (required_f64 A risk_pct) (\<lambda>risk_pct.
     bindR (required_f64 A (pl_entry leg)) (\<lambda>entry.
     bindR (required_f64 A (pl_stop leg)) (\<lambda>stop.
     bindR (required_f64 A (pl_loss_per_lot leg)) (\<lambda>loss_per_lot.
     Inr \<lparr>arl_leg_id = scp_leg_id (pl_provenance leg), arl_symbol = scp_symbol (pl_provenance leg),
       arl_action = scp_action (pl_provenance leg), arl_lots = sz_executable_lots sized,
       arl_risk_amount = risk_amount, arl_risk_pct = risk_pct, arl_sizing_entry_price = entry,
       arl_approved_sl = stop, arl_loss_per_lot = loss_per_lot,
       arl_reason = Some (ErrorCodeOrString_from ''OK'')\<rparr>)))))))"

record 'd ActionableApproval =
  aap_sizing_version :: string
  aap_risk_base :: 'd
  aap_risk_budget :: 'd
  aap_actual_risk_pct :: 'd
  aap_candidates :: "SizingCandidateProvenance list"
  aap_legs :: "AdjustedRiskLeg list"
  aap_ages :: AuditAges
  aap_valid_until :: i64

definition size_and_cap ::
  "'d decimal_arith \<Rightarrow> RiskRequest \<Rightarrow> SnapshotIndex \<Rightarrow> 'd PreparedLeg list \<Rightarrow> active_command list \<Rightarrow>
   'd \<Rightarrow> AuditAges \<Rightarrow> i64 \<Rightarrow> 'd ActionableApproval eresult" where
  "size_and_cap A request index legs active_commands risk_base ages valid_until =
     (let policy = rq_policy request; account = rq_account request in
     bindR (approved_pct A request) (\<lambda>pct.
     bindR (checked (case da_mul A risk_base pct of None \<Rightarrow> None
       | Some value \<Rightarrow> da_div A value (da_hundred A))) (\<lambda>risk_budget.
     bindR (budget_scale A legs risk_budget) (\<lambda>scale.
     bindR (volume_scale A legs (scale, RiskBudget)) (\<lambda>current.
     bindR (existing_exposure A request index active_commands) (\<lambda>existing.
     bindR (percent_of A risk_base ''max_symbol_exposure_pct'' (pol_max_symbol_exposure_pct policy)) (\<lambda>symbol_cap.
     bindR (percent_of A risk_base ''max_total_exposure_pct'' (pol_max_total_exposure_pct policy)) (\<lambda>total_cap.
     bindR (exposure_scale A legs existing symbol_cap total_cap current) (\<lambda>current.
     bindR (pending_margin A request index active_commands) (\<lambda>pending.
     bindR (decimal A ''account.free_margin'' (acct_free_margin account)) (\<lambda>free_margin.
     bindR (decimal A ''account.margin'' (acct_margin account)) (\<lambda>account_margin.
     bindR (percent_of A risk_base ''max_margin_usage_pct'' (pol_max_margin_usage_pct policy)) (\<lambda>margin_cap.
     bindR (margin_scale A legs pending free_margin account_margin margin_cap current) (\<lambda>(scale, limiter).
     if dec_le A scale (da_zero A) then rejection_for_limiter limiter
     else bindR (try_fold (size_leg A scale limiter) legs \<lparr>st_sized = [], st_actual_risk = da_zero A,
         st_final_exposure = existing, st_new_margin = da_zero A\<rparr>) (\<lambda>totals.
     bindR (validate_final A totals risk_budget symbol_cap total_cap pending free_margin account_margin
         margin_cap) (\<lambda>_.
     bindR (share_of A (st_actual_risk totals) risk_base) (\<lambda>actual_risk_pct.
     bindR (map_result (audit_leg A risk_base) (st_sized totals)) (\<lambda>adjusted_legs.
     Inr \<lparr>aap_sizing_version = pol_position_sizing_version policy, aap_risk_base = risk_base,
       aap_risk_budget = risk_budget, aap_actual_risk_pct = actual_risk_pct,
       aap_candidates = map (\<lambda>sized. pl_provenance (sz_leg sized)) (st_sized totals),
       aap_legs = adjusted_legs, aap_ages = ages, aap_valid_until = valid_until\<rparr>))))))))))))))))))"

section \<open>Evaluation\<close>

datatype 'd Approval = NoOp i64 | Actionable "'d ActionableApproval"

definition evaluate_inner ::
  "'d decimal_arith \<Rightarrow> RiskRequest \<Rightarrow> CircuitBreakerState \<Rightarrow> 'd Approval eresult" where
  "evaluate_inner A request breaker =
     bindR (validate_request_identity request) (\<lambda>_.
     bindR (validate_action_shape request) (\<lambda>_.
     case ti_action (rq_intent request) of
       TradeIntentAction.Hold \<Rightarrow>
         bindR (validate_control_time request) (\<lambda>_.
         bindR (hold_valid_until request) (\<lambda>valid_until. Inr (NoOp valid_until)))
     | TradeIntentAction.Close \<Rightarrow> deny RiskReductionNotProvable
         ''CLOSE has no target position and close lots in the v1 TradeIntent contract''
     | _ \<Rightarrow>
       if \<not> gate_allowed (authorize breaker RiskIncreasingTradeIntent)
         then deny RiskEngineCircuitBreakerTriggered
           ''the global circuit breaker blocks risk-increasing intents''
       else bindR (validate_control_time request) (\<lambda>_.
       bindR (validate_freshness_policy request) (\<lambda>_.
       let required = required_symbols request in
       bindR (index_snapshots request required) (\<lambda>index.
       bindR (validate_freshness request required index) (\<lambda>ages.
       bindR (validate_policy_and_inputs A request) (\<lambda>risk_base.
       bindR (validate_symbol_inputs A required index) (\<lambda>_.
       bindR (prepare_legs A request index) (\<lambda>prepared.
       bindR (validate_loss_capacity A request) (\<lambda>_.
       bindR (active_pending_commands A request) (\<lambda>active_commands.
       bindR (validate_pending_exposure A request index prepared active_commands) (\<lambda>_.
       bindR (validate_concurrency request prepared active_commands) (\<lambda>_.
       bindR (approval_valid_until request required index) (\<lambda>valid_until.
       bindR (size_and_cap A request index prepared active_commands risk_base ages valid_until) (\<lambda>approval.
       Inr (Actionable approval))))))))))))))))"

definition result_frame :: "RiskRequest \<Rightarrow> string \<Rightarrow> RiskResult" where
  "result_frame request request_hash =
     \<lparr>rr_risk_id = rq_risk_id request, rr_request_id = rq_request_id request,
      rr_intent_id = ti_intent_id (rq_intent request), rr_account_id = ti_account_id (rq_intent request),
      rr_risk_request_hash = request_hash, rr_approved = True,
      rr_reason = ErrorCodeOrString_from ''OK'', rr_message = None, rr_sizing_version = None,
      rr_risk_base_amount = None, rr_risk_budget_amount = None, rr_adjusted_risk_pct = None,
      rr_sizing_candidates = None, rr_adjusted_legs = None,
      rr_decision_id = ti_decision_id (rq_intent request), rr_snapshot_age_ms = 0,
      rr_market_snapshot_age_ms = 0, rr_symbol_metadata_age_ms = 0, rr_capacity_age_ms = 0,
      rr_evaluated_at = rq_evaluated_at request, rr_valid_until = rq_evaluated_at request\<rparr>"

definition with_ages :: "AuditAges \<Rightarrow> RiskResult \<Rightarrow> RiskResult" where
  "with_ages ages result = result\<lparr>rr_snapshot_age_ms := aa_snapshot ages,
     rr_market_snapshot_age_ms := aa_market ages, rr_symbol_metadata_age_ms := aa_metadata ages,
     rr_capacity_age_ms := aa_capacity ages\<rparr>"

definition rejected_result :: "RiskRequest \<Rightarrow> string \<Rightarrow> AuditAges \<Rightarrow> Rejection \<Rightarrow> RiskResult" where
  "rejected_result request request_hash ages rejection =
     (let evaluated_at = max (rq_evaluated_at request) 0 in
     with_ages ages (result_frame request request_hash)\<lparr>rr_approved := False,
       rr_reason := Known (rej_code rejection), rr_message := Some (rej_message rejection),
       rr_evaluated_at := evaluated_at, rr_valid_until := evaluated_at\<rparr>)"

definition approved_result :: "'d decimal_arith \<Rightarrow> RiskRequest \<Rightarrow> string \<Rightarrow> 'd Approval \<Rightarrow> RiskResult" where
  "approved_result A request request_hash approval = (case approval of
     NoOp valid_until \<Rightarrow> (result_frame request request_hash)\<lparr>rr_valid_until := valid_until\<rparr>
   | Actionable a \<Rightarrow> with_ages (aap_ages a) (result_frame request request_hash)
       \<lparr>rr_sizing_version := Some (aap_sizing_version a),
        rr_risk_base_amount := decimal_to_f64 A (aap_risk_base a),
        rr_risk_budget_amount := decimal_to_f64 A (aap_risk_budget a),
        rr_adjusted_risk_pct := decimal_to_f64 A (aap_actual_risk_pct a),
        rr_sizing_candidates := Some (aap_candidates a), rr_adjusted_legs := Some (aap_legs a),
        rr_valid_until := aap_valid_until a\<rparr>)"

text \<open>\<open>None\<close> is a panic.\<close>

definition evaluate ::
  "'d decimal_arith \<Rightarrow> request_hashing \<Rightarrow> RiskRequest \<Rightarrow> CircuitBreakerState \<Rightarrow>
   (RiskEvaluationError, RiskResult) result option" where
  "evaluate A H request breaker = (case validate_result_identity request of
     Inl error \<Rightarrow> Some (Inl error)
   | Inr _ \<Rightarrow>
       let request_hash = risk_request_hash H request; ages = best_effort request in
       case (case evaluate_inner A request breaker of
           Inr approval \<Rightarrow> Some (approved_result A request request_hash approval)
         | Inl (Denied rejection) \<Rightarrow> Some (rejected_result request request_hash ages rejection)
         | Inl Panicked \<Rightarrow> None) of
         None \<Rightarrow> None
       | Some result \<Rightarrow> (case RiskResult_validate result of
             None \<Rightarrow> None
           | Some (Inr _) \<Rightarrow> Some (Inr result)
           | Some (Inl error) \<Rightarrow>
               if rr_approved result then
                 let rejected = rejected_result request request_hash ages
                   \<lparr>rej_code = RiskInputInvalid, rej_message = ''invalid evaluator output at '' @
                     rve_field error @ '': '' @ rve_reason error\<rparr> in
                 (case RiskResult_validate rejected of
                    None \<Rightarrow> None
                  | Some (Inl fallback_error) \<Rightarrow> Some (Inl \<lparr>ree_field = rve_field fallback_error,
                      ree_reason = ''invalid fail-closed RiskResult: '' @ rve_reason fallback_error\<rparr>)
                  | Some (Inr _) \<Rightarrow> Some (Inr rejected))
               else Some (Inl \<lparr>ree_field = rve_field error, ree_reason = rve_reason error\<rparr>)))"

end
