(* ===== verification/Risk_Correct.thy ===== *)
theory Risk_Correct
  imports Risk_Approval
begin

text \<open>
  Lemmas on the risk engine: the loops over results, the absence of panics, the shape of an
  approval, its validity window, and the amounts that the sizing has checked.
\<close>

section \<open>Loops over results\<close>

named_theorems no_panic

definition total_result :: "'a eresult \<Rightarrow> bool" where
  "total_result r \<longleftrightarrow> r \<noteq> Inl Panicked"

lemma total_resultI [no_panic]:
  "total_result (Inr v)" "total_result (deny code message)" "total_result (invalid message)"
  "total_result (checked value)"
  by (auto simp: total_result_def deny_def invalid_def checked_def arithmetic_overflow_def split: option.splits)

lemma total_bind [no_panic]:
  "total_result r \<Longrightarrow> (\<And>v. r = Inr v \<Longrightarrow> total_result (f v)) \<Longrightarrow> total_result (bindR r f)"
  by (cases r) (auto simp: total_result_def)

lemma total_if [no_panic]:
  "(b \<Longrightarrow> total_result r) \<Longrightarrow> (\<not> b \<Longrightarrow> total_result s) \<Longrightarrow> total_result (if b then r else s)"
  by simp

lemma total_option [no_panic]:
  "total_result r \<Longrightarrow> (\<And>v. x = Some v \<Longrightarrow> total_result (f v)) \<Longrightarrow> total_result (case x of None \<Rightarrow> r | Some v \<Rightarrow> f v)"
  by (cases x) auto

lemma total_prod [no_panic]:
  "(\<And>a b. p = (a, b) \<Longrightarrow> total_result (f a b)) \<Longrightarrow> total_result (case p of (a, b) \<Rightarrow> f a b)"
  by (cases p) auto

lemma total_prod_fun [no_panic]:
  "(\<And>a b. p = (a, b) \<Longrightarrow> total_result (f a b c)) \<Longrightarrow> total_result ((case p of (a, b) \<Rightarrow> f a b) c)"
  by (cases p) auto

lemma total_list [no_panic]:
  "total_result r \<Longrightarrow> (\<And>y ys. xs = y # ys \<Longrightarrow> total_result (f y ys)) \<Longrightarrow>
   total_result (case xs of [] \<Rightarrow> r | y # ys \<Rightarrow> f y ys)"
  by (cases xs) auto

lemma total_let [no_panic]: "total_result (f x) \<Longrightarrow> total_result (Let x f)"
  by simp

lemma total_check_each [no_panic]:
  "(\<And>x. x \<in> set xs \<Longrightarrow> total_result (f x)) \<Longrightarrow> total_result (check_each f xs)"
  by (induction xs) (auto intro!: no_panic)

lemma total_try_fold [no_panic]:
  "(\<And>x acc. x \<in> set xs \<Longrightarrow> total_result (f x acc)) \<Longrightarrow> total_result (try_fold f xs acc)"
  by (induction xs arbitrary: acc) (auto intro!: no_panic)

lemma total_map_result [no_panic]:
  "(\<And>x. x \<in> set xs \<Longrightarrow> total_result (f x)) \<Longrightarrow> total_result (map_result f xs)"
  by (induction xs) (auto intro!: no_panic)

lemma total_index_unique [no_panic]: "total_result (index_unique key message xs m)"
  by (induction xs arbitrary: m) (auto intro!: no_panic)

lemma total_index_candidates [no_panic]: "total_result (index_candidates xs m)"
  by (induction xs arbitrary: m) (auto intro!: no_panic)

lemma total_proposed_expected_legs [no_panic]: "total_result (proposed_expected_legs seen legs)"
  by (induction legs arbitrary: seen) (auto intro!: no_panic split: TradeIntentLegAction.split)

lemma try_fold_least:
  assumes "try_fold (\<lambda>x. earliest (g x)) xs acc = Inr v"
  shows "v \<le> acc \<and> (\<forall>x \<in> set xs. \<exists>b. g x = Inr b \<and> v \<le> b)"
  using assms by (induction xs arbitrary: acc) (fastforce simp: result_simps earliest_def)+

lemma map_result_Inr: "map_result f xs = Inr ys \<longleftrightarrow> list_all2 (\<lambda>x y. f x = Inr y) xs ys"
  by (induction xs arbitrary: ys) (auto simp: result_simps list_all2_Cons1)

lemma index_unique_lookup:
  assumes "index_unique key message xs m = Inr n" "bt_sorted m"
  shows "bt_sorted n \<and> (\<forall>x \<in> set xs. map_of n (key x) = Some x)
    \<and> (\<forall>k. map_of m k \<noteq> None \<longrightarrow> map_of n k = map_of m k)"
  using assms
proof (induction xs arbitrary: m)
  case (Cons x xs)
  from Cons.prems have new: "map_of m (key x) = None"
    and rest: "index_unique key message xs (bt_insert (key x) x m) = Inr n"
    by (simp_all add: invalid_def deny_def split: if_splits)
  have look: "map_of (bt_insert (key x) x m) = (map_of m)(key x \<mapsto> x)"
    using Cons.prems(2) by (rule bt_lookup_insert)
  note IH = Cons.IH [OF rest bt_sorted_insert [OF Cons.prems(2)]]
  have keep: "map_of n k = (if k = key x then Some x else map_of m k)"
    if "k = key x \<or> map_of m k \<noteq> None" for k
    using IH that look by (cases "k = key x") auto
  show ?case using IH keep new by (auto simp: all_conj_distrib)
qed simp

section \<open>Panics\<close>

text \<open>
  The only operator that can panic is \<open>entry - stop\<close>, on two positive decimals. \<open>rust_decimal\<close> keeps
  96-bit magnitudes and a sign: the difference of two positive decimals has no larger magnitude than
  one of them, so it is representable.
\<close>

definition positive_subtraction_total :: "'d decimal_arith \<Rightarrow> bool" where
  "positive_subtraction_total A \<longleftrightarrow>
     (\<forall>x y. dec_lt A (da_zero A) x \<longrightarrow> dec_lt A (da_zero A) y \<longrightarrow> da_sub A x y \<noteq> None)"

lemma total_numbers [no_panic]:
  "total_result (decimal A name x)" "total_result (positive_optional_decimal A name y)"
  "total_result (optional_decimal A name y)" "total_result (validate_percentage A name x p)"
  "total_result (validate_non_negative_percentage A name x)"
  unfolding decimal_def positive_optional_decimal_def optional_decimal_def validate_percentage_def
    validate_non_negative_percentage_def
  by (intro no_panic)+

lemma total_times [no_panic]:
  "total_result (checked_age now t max_age code label)" "total_result (time_boundary t max_age)"
  "total_result age \<Longrightarrow> total_result (oldest age acc)"
  "total_result age \<Longrightarrow> total_result (earliest age acc)"
  unfolding checked_age_def time_boundary_def oldest_def earliest_def by (intro no_panic; assumption?)+

lemma total_request [no_panic]:
  "total_result (validate_request_identity request)" "total_result (validate_control_time request)"
  "total_result (hold_valid_until request)" "total_result (validate_freshness_policy request)"
  "total_result (validate_switches request)"
  unfolding validate_request_identity_def validate_control_time_def hold_valid_until_def
    validate_freshness_policy_def validate_switches_def
  by (intro no_panic)+

lemma total_shape [no_panic]: "total_result (validate_action_shape request)"
  by (cases "ti_action (rq_intent request)")
    (simp_all add: validate_action_shape_def total_resultI Let_def)

lemma total_snapshots [no_panic]:
  "total_result (index_snapshots request required)" "total_result (required_metadata index symbol)"
  "total_result (required_market index symbol)" "total_result (validate_freshness request required index)"
  unfolding index_snapshots_def required_metadata_def required_market_def validate_freshness_def
    row_ages_def symbol_ages_def
  by (intro no_panic)+

lemma total_inputs [no_panic]:
  "total_result (validate_percentages A request)" "total_result (validate_policy_and_inputs A request)"
  "total_result (validate_symbol_input A symbol metadata market)"
  "total_result (validate_symbol_inputs A required index)"
  "total_result (notional_per_lot A metadata rms price)" "total_result (validate_trade_mode action mode)"
  unfolding validate_percentages_def validate_policy_and_inputs_def validate_symbol_input_def
    validate_symbol_inputs_def notional_per_lot_def validate_trade_mode_def
  by (intro no_panic)+

lemma total_expected_legs [no_panic]: "total_result (expected_legs request)"
  unfolding expected_legs_def Let_def
  by (intro no_panic) (cases "ti_action (rq_intent request)"; simp add: total_resultI)

lemma total_bounded_loss:
  assumes "positive_subtraction_total A" "dec_lt A (da_zero A) entry" "dec_lt A (da_zero A) stop"
  shows "total_result (bounded_loss A candidate metadata entry stop cost)"
proof -
  obtain d where "da_sub A entry stop = Some d"
    using assms unfolding positive_subtraction_total_def by blast
  then show ?thesis unfolding bounded_loss_def Let_def by (simp only: option.case) (intro no_panic)
qed

lemma total_prepare_legs:
  assumes "positive_subtraction_total A"
  shows "total_result (prepare_legs A request index)"
  unfolding prepare_legs_def prepare_leg_def price_leg_def Let_def
  by (intro no_panic total_bounded_loss assms) (auto simp: dec_lt_def dec_le_def)

lemma total_pending [no_panic]:
  "total_result (validate_loss_capacity A request)" "total_result (validate_command_state_time request state)"
  "total_result (validate_order A order)" "total_result (validate_broker_symbol label broker metadata)"
  "total_result (validate_concurrency request legs active)"
  "total_result (approval_valid_until request required index)"
  unfolding validate_loss_capacity_def validate_command_state_time_def validate_order_def
    validate_broker_symbol_def validate_concurrency_def approval_valid_until_def
  by (intro no_panic)+

lemma total_active_command [no_panic]: "total_result (validate_active_command A command)"
  unfolding validate_active_command_def Let_def
  by (cases "ec_action command"; simp only: ExecutionAction.case; intro no_panic)

lemma total_active [no_panic]:
  "total_result (active_pending_commands A request)"
  "total_result (validate_pending_exposure A request index legs active)"
  unfolding active_pending_commands_def active_step_def validate_pending_exposure_def
  by (intro no_panic)+

lemma total_limiter [no_panic]: "total_result (rejection_for_limiter limiter)"
  unfolding rejection_for_limiter_def by (cases limiter) (simp_all add: total_resultI)

lemma total_size_and_cap [no_panic]:
  "total_result (size_and_cap A request index legs active risk_base ages valid_until)"
  unfolding size_and_cap_def approved_pct_def budget_scale_def volume_scale_def exposure_scale_def
    margin_scale_def existing_exposure_def pending_margin_def validate_position_def add_exposure_def
    add_margin_def size_leg_def validate_final_def audit_leg_def share_of_def percent_of_def
    floor_to_step_def normalize_executable_lots_def required_f64_def add_amount_def checked_sum_def
  by (intro no_panic)

lemma total_evaluate_inner:
  assumes "positive_subtraction_total A"
  shows "total_result (evaluate_inner A request breaker)"
  unfolding evaluate_inner_def
  by (cases "ti_action (rq_intent request)"; simp only: TradeIntentAction.case;
    intro no_panic total_prepare_legs assms)

section \<open>Outcomes\<close>

lemma evaluate_outcome:
  assumes "evaluate A H request breaker = Some (Inr r)"
  shows "RiskResult_validate r = Some (Inr ())"
    and "(\<exists>approval. evaluate_inner A request breaker = Inr approval
            \<and> r = approved_result A request (risk_request_hash H request) approval)
       \<or> (\<exists>rejection. r = rejected_result request (risk_request_hash H request) (best_effort request) rejection)"
  using assms
  by (auto simp: evaluate_def Let_def split: sum.splits evaluation_stop.splits option.splits if_splits)

lemma result_identity:
  "rr_approved (rejected_result request hash ages rejection) = False"
  "rr_approved (approved_result A request hash approval)"
  "\<And>result. result \<in> {rejected_result request hash ages rejection, approved_result A request hash approval} \<Longrightarrow>
     rr_risk_id result = rq_risk_id request \<and> rr_request_id result = rq_request_id request
   \<and> rr_intent_id result = ti_intent_id (rq_intent request)
   \<and> rr_account_id result = ti_account_id (rq_intent request)
   \<and> rr_decision_id result = ti_decision_id (rq_intent request)
   \<and> rr_risk_request_hash result = hash"
  by (auto simp: rejected_result_def approved_result_def result_frame_def with_ages_def Let_def
    split: Approval.splits)

lemma evaluate_approved:
  assumes "evaluate A H request breaker = Some (Inr r)" "rr_approved r"
  obtains approval where "evaluate_inner A request breaker = Inr approval"
    "r = approved_result A request (risk_request_hash H request) approval"
  using evaluate_outcome(2) [OF assms(1)] assms(2) result_identity(1) by metis

lemma guard_InrE: "(if b then deny code message else r) = Inr y \<Longrightarrow> (\<not> b \<Longrightarrow> r = Inr y \<Longrightarrow> thesis) \<Longrightarrow> thesis"
  by (auto simp: deny_def split: if_splits)

lemma limiter_not_Inr [simp]: "rejection_for_limiter limiter \<noteq> Inr v"
  by (cases limiter) (simp_all add: rejection_for_limiter_def deny_def)

lemma size_and_cap_parts:
  assumes "size_and_cap A request index legs active base ages until = Inr a"
  obtains pct budget existing symbol_cap total_cap pending free_margin account_margin margin_cap scale limiter totals
  where "approved_pct A request = Inr pct"
    "checked (case da_mul A base pct of None \<Rightarrow> None | Some value \<Rightarrow> da_div A value (da_hundred A)) = Inr budget"
    "existing_exposure A request index active = Inr existing"
    "percent_of A base ''max_symbol_exposure_pct'' (pol_max_symbol_exposure_pct (rq_policy request)) = Inr symbol_cap"
    "percent_of A base ''max_total_exposure_pct'' (pol_max_total_exposure_pct (rq_policy request)) = Inr total_cap"
    "pending_margin A request index active = Inr pending"
    "decimal A ''account.free_margin'' (acct_free_margin (rq_account request)) = Inr free_margin"
    "decimal A ''account.margin'' (acct_margin (rq_account request)) = Inr account_margin"
    "percent_of A base ''max_margin_usage_pct'' (pol_max_margin_usage_pct (rq_policy request)) = Inr margin_cap"
    "try_fold (size_leg A scale limiter) legs \<lparr>st_sized = [], st_actual_risk = da_zero A,
         st_final_exposure = existing, st_new_margin = da_zero A\<rparr> = Inr totals"
    "validate_final A totals budget symbol_cap total_cap pending free_margin account_margin margin_cap = Inr ()"
    "share_of A (st_actual_risk totals) base = Inr (aap_actual_risk_pct a)"
    "map_result (audit_leg A base) (st_sized totals) = Inr (aap_legs a)"
    "aap_risk_base a = base" "aap_risk_budget a = budget" "aap_ages a = ages" "aap_valid_until a = until"
    "aap_candidates a = map (\<lambda>sized. pl_provenance (sz_leg sized)) (st_sized totals)"
    "aap_sizing_version a = pol_position_sizing_version (rq_policy request)"
proof -
  show thesis
    using assms unfolding size_and_cap_def Let_def
    apply (elim bindR_InrE)
    apply (rename_tac pct budget s1 current existing symbol_cap total_cap current' pending free account cap pair)
    apply (case_tac pair)
    apply (simp only: prod.case split: if_splits)
     apply simp
    apply (elim bindR_InrE)
    apply (erule (9) that; simp only: sum.inject; elim subst; simp)
    done
qed

text \<open>The checks an actionable approval has passed.\<close>

lemma actionable_checks:
  assumes "evaluate_inner A request breaker = Inr approval" "ti_action (rq_intent request) \<noteq> TradeIntentAction.Hold"
  obtains a index ages base legs active until where
    "Actionable a = approval" "ti_action (rq_intent request) \<noteq> TradeIntentAction.Close"
    "gate_allowed (authorize breaker RiskIncreasingTradeIntent)" "validate_control_time request = Inr ()"
    "index_snapshots request (required_symbols request) = Inr index"
    "validate_freshness request (required_symbols request) index = Inr ages"
    "validate_policy_and_inputs A request = Inr base" "prepare_legs A request index = Inr legs"
    "validate_loss_capacity A request = Inr ()"
    "active_pending_commands A request = Inr active"
    "validate_pending_exposure A request index legs active = Inr ()"
    "validate_concurrency request legs active = Inr ()"
    "approval_valid_until request (required_symbols request) index = Inr until"
    "size_and_cap A request index legs active base ages until = Inr a"
proof -
  have action: "ti_action (rq_intent request) \<in> {TradeIntentAction.Buy, TradeIntentAction.Sell}"
    using assms by (cases "ti_action (rq_intent request)") (auto simp: evaluate_inner_def result_simps deny_def)
  have branch: "(case ti_action (rq_intent request) of TradeIntentAction.Hold \<Rightarrow> x
      | TradeIntentAction.Close \<Rightarrow> y | _ \<Rightarrow> z) = z" for x y z :: "'a Approval eresult"
    using action by (cases "ti_action (rq_intent request)") auto
  show thesis
    using assms(1) unfolding evaluate_inner_def Let_def branch
    apply (elim bindR_InrE guard_InrE)
    apply (simp only: sum.inject old.unit.exhaust not_not)
    apply (rule that; (assumption | simp only:)?)
    using action by auto
qed

lemma hold_checks:
  assumes "evaluate_inner A request breaker = Inr approval" "ti_action (rq_intent request) = TradeIntentAction.Hold"
  obtains until where "approval = NoOp until" "validate_control_time request = Inr ()"
    "hold_valid_until request = Inr until"
  using assms by (auto simp: evaluate_inner_def result_simps)

section \<open>The validity window\<close>

text \<open>The evidence of an actionable decision: when each fact was observed and how long it is fresh.\<close>

definition decision_evidence :: "RiskRequest \<Rightarrow> (i64 \<times> i64) list" where
  "decision_evidence request = (let policy = rq_policy request; marks = rq_state_watermarks request;
       required = set (required_symbols request) in
     [(acct_observed_at (rq_account request), pol_max_snapshot_age_ms policy),
      (wm_positions_observed_at marks, pol_max_snapshot_age_ms policy),
      (wm_orders_observed_at marks, pol_max_order_snapshot_age_ms policy),
      (wm_pending_commands_reconciled_at marks, pol_max_order_snapshot_age_ms policy),
      (rc_observed_at (rq_capacity request), pol_max_capacity_age_ms policy)] @
     map (\<lambda>position. (pos_observed_at position, pol_max_snapshot_age_ms policy)) (rq_positions request) @
     map (\<lambda>order. (ord_observed_at order, pol_max_order_snapshot_age_ms policy)) (rq_orders request) @
     map (\<lambda>market. (ms_observed_at (rms_snapshot market), pol_max_market_snapshot_age_ms policy))
       (filter (\<lambda>market. ms_symbol (rms_snapshot market) \<in> required) (rq_markets request)) @
     map (\<lambda>metadata. (sm_observed_at metadata, pol_max_symbol_metadata_age_ms policy))
       (filter (\<lambda>metadata. sm_symbol metadata \<in> required) (rq_symbol_metadata request)))"

lemma time_boundary_Inr: "time_boundary t max_age = Inr b \<Longrightarrow> b = t + max_age"
  by (auto simp: time_boundary_def deny_def split: option.splits dest: checked_add_i64_Some)

lemma index_snapshots_lookup:
  assumes "index_snapshots request required = Inr index"
  shows "\<forall>market \<in> set (rq_markets request). map_of (ix_markets index) (ms_symbol (rms_snapshot market)) = Some market"
    "\<forall>metadata \<in> set (rq_symbol_metadata request). map_of (ix_metadata index) (sm_symbol metadata) = Some metadata"
proof -
  obtain metadata markets where "index_unique sm_symbol
       (\<lambda>snapshot. ''multiple symbol metadata snapshots exist for '' @ sm_symbol snapshot)
       (rq_symbol_metadata request) [] = Inr metadata"
     "index_unique (\<lambda>market. ms_symbol (rms_snapshot market))
       (\<lambda>market. ''multiple market snapshots exist for '' @ ms_symbol (rms_snapshot market))
       (rq_markets request) [] = Inr markets" "index = \<lparr>ix_metadata = metadata, ix_markets = markets\<rparr>"
    using assms unfolding index_snapshots_def by (elim bindR_InrE) auto
  moreover have "bt_sorted []" by (simp add: bt_sorted_def bt_keys_def)
  ultimately show "\<forall>market \<in> set (rq_markets request).
      map_of (ix_markets index) (ms_symbol (rms_snapshot market)) = Some market"
    "\<forall>metadata \<in> set (rq_symbol_metadata request). map_of (ix_metadata index) (sm_symbol metadata) = Some metadata"
    by (auto dest: index_unique_lookup)
qed

lemma symbol_boundaries:
  assumes "try_fold (\<lambda>symbol acc.
      bindR (required_market index symbol) (\<lambda>market.
      bindR (earliest (time_boundary (ms_observed_at (rms_snapshot market)) market_age) acc) (\<lambda>acc.
      bindR (required_metadata index symbol) (\<lambda>metadata.
      earliest (time_boundary (sm_observed_at metadata) metadata_age) acc)))) symbols acc = Inr v"
  shows "v \<le> acc \<and> (\<forall>symbol \<in> set symbols. \<exists>market metadata.
      map_of (ix_markets index) symbol = Some market \<and> v \<le> ms_observed_at (rms_snapshot market) + market_age
    \<and> map_of (ix_metadata index) symbol = Some metadata \<and> v \<le> sm_observed_at metadata + metadata_age)"
  using assms
proof (induction symbols arbitrary: acc)
  case (Cons symbol symbols)
  from Cons.prems obtain market metadata m n where
    step: "map_of (ix_markets index) symbol = Some market" "map_of (ix_metadata index) symbol = Some metadata"
      "m = ms_observed_at (rms_snapshot market) + market_age" "n = sm_observed_at metadata + metadata_age"
    and rest: "try_fold (\<lambda>symbol acc.
      bindR (required_market index symbol) (\<lambda>market.
      bindR (earliest (time_boundary (ms_observed_at (rms_snapshot market)) market_age) acc) (\<lambda>acc.
      bindR (required_metadata index symbol) (\<lambda>metadata.
      earliest (time_boundary (sm_observed_at metadata) metadata_age) acc)))) symbols (min (min acc m) n) = Inr v"
    by (auto simp: result_simps earliest_def required_market_def required_metadata_def deny_def
      split: option.splits dest!: time_boundary_Inr)
  from Cons.IH [OF rest] step show ?case by auto
qed simp

lemma approval_window:
  assumes "index_snapshots request (required_symbols request) = Inr index"
    "approval_valid_until request (required_symbols request) index = Inr until"
  shows "rq_evaluated_at request < until" "until \<le> ti_signal_expires_at (rq_intent request)"
    "until \<le> rq_evaluated_at request + pol_max_approval_ttl_ms (rq_policy request)"
    "\<forall>(observed_at, max_age) \<in> set (decision_evidence request). until \<le> observed_at + max_age"
proof -
  let ?rows = "[(acct_observed_at (rq_account request), pol_max_snapshot_age_ms (rq_policy request)),
      (wm_positions_observed_at (rq_state_watermarks request), pol_max_snapshot_age_ms (rq_policy request)),
      (wm_orders_observed_at (rq_state_watermarks request), pol_max_order_snapshot_age_ms (rq_policy request)),
      (wm_pending_commands_reconciled_at (rq_state_watermarks request), pol_max_order_snapshot_age_ms (rq_policy request)),
      (rc_observed_at (rq_capacity request), pol_max_capacity_age_ms (rq_policy request))] @
     map (\<lambda>position. (pos_observed_at position, pol_max_snapshot_age_ms (rq_policy request))) (rq_positions request) @
     map (\<lambda>order. (ord_observed_at order, pol_max_order_snapshot_age_ms (rq_policy request))) (rq_orders request)"
  obtain ttl v where ttl: "time_boundary (rq_evaluated_at request) (pol_max_approval_ttl_ms (rq_policy request)) = Inr ttl"
    and rows: "try_fold (\<lambda>x. earliest (case x of (observed_at, max_age) \<Rightarrow> time_boundary observed_at max_age)) ?rows
        (min (ti_signal_expires_at (rq_intent request)) ttl) = Inr v"
    and symbols: "try_fold (\<lambda>symbol acc.
         bindR (required_market index symbol) (\<lambda>market.
         bindR (earliest (time_boundary (ms_observed_at (rms_snapshot market))
           (pol_max_market_snapshot_age_ms (rq_policy request))) acc) (\<lambda>acc.
         bindR (required_metadata index symbol) (\<lambda>metadata.
         earliest (time_boundary (sm_observed_at metadata)
           (pol_max_symbol_metadata_age_ms (rq_policy request))) acc)))) (required_symbols request) v = Inr until"
    and later: "rq_evaluated_at request < until"
    using assms(2) unfolding approval_valid_until_def Let_def
    by (elim bindR_InrE guard_InrE) (simp add: split_beta' case_prod_beta)
  note least = try_fold_least [OF rows]
  note symbol = symbol_boundaries [OF symbols]
  note found = index_snapshots_lookup [OF assms(1)]
  have row: "until \<le> observed_at + max_age" if "(observed_at, max_age) \<in> set ?rows" for observed_at max_age
    using least symbol that by (fastforce dest: time_boundary_Inr)
  show "rq_evaluated_at request < until" by (fact later)
  show "until \<le> ti_signal_expires_at (rq_intent request)"
    "until \<le> rq_evaluated_at request + pol_max_approval_ttl_ms (rq_policy request)"
    using least symbol time_boundary_Inr [OF ttl] by auto
  show "\<forall>(observed_at, max_age) \<in> set (decision_evidence request). until \<le> observed_at + max_age"
    using row symbol found unfolding decision_evidence_def Let_def
    by (auto simp del: set_simps) (fastforce)+
qed

lemma checked_age_Inr: "checked_age now t max_age code label = Inr age \<Longrightarrow> t \<le> now \<and> now < t + max_age"
  by (auto simp: checked_age_def deny_def checked_sub_i64_def split: option.splits if_splits)

lemma oldest_Inr: "oldest age acc = Inr v \<Longrightarrow> \<exists>a. age = Inr a"
  by (auto simp: oldest_def result_simps)

lemma try_fold_each:
  "try_fold f xs acc = Inr v \<Longrightarrow> x \<in> set xs \<Longrightarrow> \<exists>a b. f x a = Inr b"
  by (induction xs arbitrary: acc) (auto simp: result_simps)

lemma symbol_not_future:
  assumes "symbol_ages request symbols index = Inr v" "symbol \<in> set symbols"
  shows "\<exists>market. map_of (ix_markets index) symbol = Some market
      \<and> ms_observed_at (rms_snapshot market) \<le> rq_evaluated_at request"
    and "\<exists>metadata. map_of (ix_metadata index) symbol = Some metadata
      \<and> sm_observed_at metadata \<le> rq_evaluated_at request"
  using try_fold_each [OF assms(1) [unfolded symbol_ages_def Let_def] assms(2)]
  by (auto simp: result_simps deny_def split: option.splits dest!: oldest_Inr checked_age_Inr)

lemma evidence_not_future:
  assumes "index_snapshots request (required_symbols request) = Inr index"
    "validate_freshness request (required_symbols request) index = Inr ages"
  shows "\<forall>(observed_at, max_age) \<in> set (decision_evidence request). observed_at \<le> rq_evaluated_at request"
proof -
  obtain snapshot s v where rows: "row_ages request snapshot = Inr s"
    and symbols: "symbol_ages request (required_symbols request) index = Inr v"
    and marks: "acct_observed_at (rq_account request) \<le> rq_evaluated_at request"
      "wm_positions_observed_at (rq_state_watermarks request) \<le> rq_evaluated_at request"
      "wm_orders_observed_at (rq_state_watermarks request) \<le> rq_evaluated_at request"
      "wm_pending_commands_reconciled_at (rq_state_watermarks request) \<le> rq_evaluated_at request"
      "rc_observed_at (rq_capacity request) \<le> rq_evaluated_at request"
    using assms(2) unfolding validate_freshness_def Let_def
    by (elim bindR_InrE guard_InrE) (auto simp: result_simps split: prod.splits
      dest!: oldest_Inr checked_age_Inr elim!: guard_InrE)
  have row: "\<forall>position \<in> set (rq_positions request). pos_observed_at position \<le> rq_evaluated_at request"
    "\<forall>order \<in> set (rq_orders request). ord_observed_at order \<le> rq_evaluated_at request"
    using rows unfolding row_ages_def Let_def
    by (elim bindR_InrE; auto simp: deny_def split: if_splits dest!: try_fold_each oldest_Inr checked_age_Inr)+
  note symbol = symbol_not_future [OF symbols] and found = index_snapshots_lookup [OF assms(1)]
  show ?thesis using marks row symbol found unfolding decision_evidence_def Let_def
    by (auto simp del: set_simps) (fastforce)+
qed

section \<open>The sized amounts\<close>

text \<open>
  The amounts of a decision, recomputed from the lots of its legs: the sum of \<open>lots * rate\<close>, and the
  exposure per symbol on top of what exists.
\<close>

definition weighted_total ::
  "'d decimal_arith \<Rightarrow> ('d PreparedLeg \<Rightarrow> 'd) \<Rightarrow> 'd PreparedLeg list \<Rightarrow> 'd list \<Rightarrow> 'd \<Rightarrow> 'd eresult" where
  "weighted_total A rate legs lots = try_fold (\<lambda>(leg, l) acc.
     bindR (checked (da_mul A l (rate leg))) (\<lambda>amount. checked (da_add A acc amount))) (zip legs lots)"

definition exposure_after ::
  "'d decimal_arith \<Rightarrow> 'd PreparedLeg list \<Rightarrow> 'd list \<Rightarrow> (SymbolCode, 'd) btree_map \<Rightarrow>
   (SymbolCode, 'd) btree_map eresult" where
  "exposure_after A legs lots = try_fold (\<lambda>(leg, l) exposure.
     bindR (checked (da_mul A l (pl_notional_per_lot leg))) (\<lambda>amount.
     add_amount A (scp_symbol (pl_provenance leg)) amount exposure)) (zip legs lots)"

text \<open>The lots of one leg: the double of the result, read back, is on the broker's grid and in range.\<close>

definition lots_fit :: "'d decimal_arith \<Rightarrow> 'd PreparedLeg \<Rightarrow> 'd \<Rightarrow> f64 \<Rightarrow> bool" where
  "lots_fit A leg l executable \<longleftrightarrow>
     decimal A ''executable lots'' executable = Inr l \<and> dec_lt A (da_zero A) l
   \<and> dec_le A (pl_volume_min leg) l \<and> dec_le A l (pl_volume_max leg)
   \<and> (\<exists>floored. floor_to_step A l (pl_volume_step leg) = Inr floored \<and> dec_eq A floored l)"

lemma limiter_guardE:
  "(if b then rejection_for_limiter limiter else r) = Inr y \<Longrightarrow> (\<not> b \<Longrightarrow> r = Inr y \<Longrightarrow> thesis) \<Longrightarrow> thesis"
  by (auto split: if_splits)

lemma normalize_Inr:
  assumes "normalize_executable_lots A lots step = Inr (l, executable)"
  shows "decimal A ''executable lots'' executable = Inr l" "dec_lt A (da_zero A) l"
  using assms unfolding normalize_executable_lots_def Let_def
  by (elim bindR_InrE guard_InrE; auto simp: dec_lt_def dec_le_def)+

lemma size_leg_Inr:
  assumes "size_leg A scale limiter leg totals = Inr totals'"
  obtains sized where "st_sized totals' = st_sized totals @ [sized]" "sz_leg sized = leg"
    "lots_fit A leg (sz_lots sized) (sz_executable_lots sized)"
    "da_mul A (sz_lots sized) (pl_loss_per_lot leg) = Some (sz_risk_amount sized)"
    "bindR (checked (da_mul A (sz_lots sized) (pl_loss_per_lot leg))) (\<lambda>amount.
       checked (da_add A (st_actual_risk totals) amount)) = Inr (st_actual_risk totals')"
    "bindR (checked (da_mul A (sz_lots sized) (pl_notional_per_lot leg))) (\<lambda>amount.
       add_amount A (scp_symbol (pl_provenance leg)) amount (st_final_exposure totals))
     = Inr (st_final_exposure totals')"
    "bindR (checked (da_mul A (sz_lots sized) (pl_margin_per_lot leg))) (\<lambda>amount.
       checked (da_add A (st_new_margin totals) amount)) = Inr (st_new_margin totals')"
proof -
  have checked_Some: "checked x = Inr y \<Longrightarrow> x = Some y" for x :: "'a option" and y
    by (auto simp: checked_def arithmetic_overflow_def deny_def split: option.splits)
  obtain raw l executable floored risk actual notional final margin new where
    normal: "normalize_executable_lots A raw (pl_volume_step leg) = Inr (l, executable)"
    and range: "\<not> dec_lt A l (pl_volume_min leg)" "\<not> dec_lt A (pl_volume_max leg) l"
      "floor_to_step A l (pl_volume_step leg) = Inr floored" "\<not> \<not> dec_eq A floored l"
    and amounts: "checked (da_mul A l (pl_loss_per_lot leg)) = Inr risk"
      "checked (da_add A (st_actual_risk totals) risk) = Inr actual"
      "checked (da_mul A l (pl_notional_per_lot leg)) = Inr notional"
      "add_amount A (scp_symbol (pl_provenance leg)) notional (st_final_exposure totals) = Inr final"
      "checked (da_mul A l (pl_margin_per_lot leg)) = Inr margin"
      "checked (da_add A (st_new_margin totals) margin) = Inr new"
    and result: "\<lparr>st_sized = st_sized totals @ [\<lparr>sz_leg = leg, sz_lots = l,
         sz_executable_lots = executable, sz_risk_amount = risk\<rparr>],
       st_actual_risk = actual, st_final_exposure = final, st_new_margin = new\<rparr> = totals'"
    using assms unfolding size_leg_def Let_def
    by (elim bindR_InrE) (simp only: split_paired_all prod.case,
      elim limiter_guardE guard_InrE bindR_InrE, simp only: sum.inject, blast)
  show thesis
    by (rule that [of "\<lparr>sz_leg = leg, sz_lots = l, sz_executable_lots = executable, sz_risk_amount = risk\<rparr>"])
      (use normalize_Inr [OF normal] range amounts checked_Some [OF amounts(1)] in
        \<open>auto simp: result [symmetric] lots_fit_def dec_lt_def dec_le_def\<close>)
qed

lemma size_legs_Inr:
  assumes "try_fold (size_leg A scale limiter) legs totals = Inr totals'"
  shows "\<exists>sized. st_sized totals' = st_sized totals @ sized \<and> map sz_leg sized = legs
    \<and> list_all (\<lambda>s. lots_fit A (sz_leg s) (sz_lots s) (sz_executable_lots s)
        \<and> da_mul A (sz_lots s) (pl_loss_per_lot (sz_leg s)) = Some (sz_risk_amount s)) sized
    \<and> weighted_total A pl_loss_per_lot legs (map sz_lots sized) (st_actual_risk totals) = Inr (st_actual_risk totals')
    \<and> exposure_after A legs (map sz_lots sized) (st_final_exposure totals) = Inr (st_final_exposure totals')
    \<and> weighted_total A pl_margin_per_lot legs (map sz_lots sized) (st_new_margin totals) = Inr (st_new_margin totals')"
  using assms
proof (induction legs arbitrary: totals)
  case Nil
  then show ?case by (simp add: weighted_total_def exposure_after_def)
next
  case (Cons leg legs)
  then obtain mid where mid: "size_leg A scale limiter leg totals = Inr mid"
    and rest: "try_fold (size_leg A scale limiter) legs mid = Inr totals'"
    by (auto simp: result_simps)
  from size_leg_Inr [OF mid] obtain s where s: "st_sized mid = st_sized totals @ [s]" "sz_leg s = leg"
    "lots_fit A leg (sz_lots s) (sz_executable_lots s)"
    "da_mul A (sz_lots s) (pl_loss_per_lot leg) = Some (sz_risk_amount s)"
    "bindR (checked (da_mul A (sz_lots s) (pl_loss_per_lot leg))) (\<lambda>amount.
       checked (da_add A (st_actual_risk totals) amount)) = Inr (st_actual_risk mid)"
    "bindR (checked (da_mul A (sz_lots s) (pl_notional_per_lot leg))) (\<lambda>amount.
       add_amount A (scp_symbol (pl_provenance leg)) amount (st_final_exposure totals)) = Inr (st_final_exposure mid)"
    "bindR (checked (da_mul A (sz_lots s) (pl_margin_per_lot leg))) (\<lambda>amount.
       checked (da_add A (st_new_margin totals) amount)) = Inr (st_new_margin mid)"
    by metis
  from Cons.IH [OF rest] obtain sized where IH: "st_sized totals' = st_sized mid @ sized" "map sz_leg sized = legs"
    "list_all (\<lambda>s. lots_fit A (sz_leg s) (sz_lots s) (sz_executable_lots s)
        \<and> da_mul A (sz_lots s) (pl_loss_per_lot (sz_leg s)) = Some (sz_risk_amount s)) sized"
    "weighted_total A pl_loss_per_lot legs (map sz_lots sized) (st_actual_risk mid) = Inr (st_actual_risk totals')"
    "exposure_after A legs (map sz_lots sized) (st_final_exposure mid) = Inr (st_final_exposure totals')"
    "weighted_total A pl_margin_per_lot legs (map sz_lots sized) (st_new_margin mid) = Inr (st_new_margin totals')"
    by blast
  have "weighted_total A rate (leg # legs) (l # lots) acc =
      bindR (bindR (checked (da_mul A l (rate leg))) (\<lambda>amount. checked (da_add A acc amount)))
        (weighted_total A rate legs lots)" for rate l lots acc
    by (simp add: weighted_total_def)
  moreover have "exposure_after A (leg # legs) (l # lots) acc =
      bindR (bindR (checked (da_mul A l (pl_notional_per_lot leg))) (\<lambda>amount.
        add_amount A (scp_symbol (pl_provenance leg)) amount acc)) (exposure_after A legs lots)" for l lots acc
    by (simp add: exposure_after_def)
  ultimately show ?case using s IH by (intro exI [of _ "s # sized"]) simp
qed

section \<open>The limits\<close>

definition risk_limits :: "RiskRequest \<Rightarrow> (string \<times> f64) list" where
  "risk_limits request =
     [(''proposed_risk_pct'', ti_proposed_risk_pct (rq_intent request)),
      (''max_risk_per_trade_pct'', pol_max_risk_per_trade_pct (rq_policy request)),
      (''strategy.max_risk_per_trade_pct'', srp_max_risk_per_trade_pct (rq_strategy_policy request)),
      (''remaining_account_risk_pct'', rc_remaining_account_risk_pct (rq_capacity request)),
      (''remaining_portfolio_risk_pct'', rc_remaining_portfolio_risk_pct (rq_capacity request))]"

lemma foldl_min:
  "dec_le A (foldl (\<lambda>m x. if dec_lt A x m then x else m) first rest) first
   \<and> (\<forall>x \<in> set rest. dec_le A (foldl (\<lambda>m x. if dec_lt A x m then x else m) first rest) x)"
proof (induction rest arbitrary: first)
  case (Cons y rest)
  let ?m = "if dec_lt A y first then y else first"
  have "dec_le A ?m first" "dec_le A ?m y" by (auto simp: dec_lt_def dec_le_def)
  moreover note Cons.IH [of ?m]
  ultimately show ?case unfolding dec_le_def by (auto intro: order_trans)
qed (simp add: dec_le_def)

lemma approved_pct_bounded:
  assumes "approved_pct A request = Inr pct"
  shows "dec_lt A (da_zero A) pct"
    "\<forall>(name, value) \<in> set (risk_limits request). \<exists>limit. decimal A name value = Inr limit \<and> dec_le A pct limit"
proof -
  obtain pcts where pcts: "map_result (\<lambda>(name, value). decimal A name value) (risk_limits request) = Inr pcts"
    and pick: "(case pcts of [] \<Rightarrow> deny RiskInputInvalid ''risk cap is missing''
     | first # rest \<Rightarrow> let approved = foldl (\<lambda>m x. if dec_lt A x m then x else m) first rest in
         if dec_le A approved (da_zero A)
           then deny RiskLimitExceeded ''approved risk percentage is not positive'' else Inr approved) = Inr pct"
    using assms unfolding approved_pct_def risk_limits_def Let_def by (elim bindR_InrE) blast
  then obtain first rest where split: "pcts = first # rest" by (cases pcts) (auto simp: deny_def)
  with pick have pct: "pct = foldl (\<lambda>m x. if dec_lt A x m then x else m) first rest" "\<not> dec_le A pct (da_zero A)"
    by (auto simp: Let_def deny_def split: if_splits)
  then show "dec_lt A (da_zero A) pct" by (simp add: dec_lt_def dec_le_def)
  from pct(1) split foldl_min [of A first rest] have least: "\<forall>x \<in> set pcts. dec_le A pct x" by simp
  show "\<forall>(name, value) \<in> set (risk_limits request). \<exists>limit. decimal A name value = Inr limit \<and> dec_le A pct limit"
  proof clarify
    fix name "value" assume "(name, value) \<in> set (risk_limits request)"
    with pcts [unfolded map_result_Inr] obtain limit where "limit \<in> set pcts" "decimal A name value = Inr limit"
      by (metis (mono_tags, lifting) case_prod_conv in_set_conv_nth list_all2_conv_all_nth nth_mem)
    with least show "\<exists>limit. decimal A name value = Inr limit \<and> dec_le A pct limit" by blast
  qed
qed

text \<open>
  What the sizing promises for the lots of the legs: the risk at the stops stays within the base times
  a percentage no larger than any limit, and exposure and margin stay within the policy's caps.
\<close>

definition risk_within_budget ::
  "'d decimal_arith \<Rightarrow> RiskRequest \<Rightarrow> 'd PreparedLeg list \<Rightarrow> 'd \<Rightarrow> 'd list \<Rightarrow> bool" where
  "risk_within_budget A request legs base lots \<longleftrightarrow> (\<exists>pct scaled budget risk.
     dec_lt A (da_zero A) pct
   \<and> (\<forall>(name, value) \<in> set (risk_limits request). \<exists>limit. decimal A name value = Inr limit \<and> dec_le A pct limit)
   \<and> da_mul A base pct = Some scaled \<and> da_div A scaled (da_hundred A) = Some budget
   \<and> weighted_total A pl_loss_per_lot legs lots (da_zero A) = Inr risk \<and> dec_le A risk budget)"

definition exposure_within_caps ::
  "'d decimal_arith \<Rightarrow> RiskRequest \<Rightarrow> SnapshotIndex \<Rightarrow> 'd PreparedLeg list \<Rightarrow> active_command list \<Rightarrow> 'd \<Rightarrow>
   'd list \<Rightarrow> bool" where
  "exposure_within_caps A request index legs active base lots \<longleftrightarrow> (\<exists>existing final symbol_cap total_cap sum_after.
     existing_exposure A request index active = Inr existing
   \<and> exposure_after A legs lots existing = Inr final
   \<and> percent_of A base ''max_symbol_exposure_pct'' (pol_max_symbol_exposure_pct (rq_policy request)) = Inr symbol_cap
   \<and> (\<forall>(symbol, amount) \<in> set final. dec_le A amount symbol_cap)
   \<and> percent_of A base ''max_total_exposure_pct'' (pol_max_total_exposure_pct (rq_policy request)) = Inr total_cap
   \<and> checked_sum A (map snd final) = Inr sum_after \<and> dec_le A sum_after total_cap)"

definition margin_within_caps ::
  "'d decimal_arith \<Rightarrow> RiskRequest \<Rightarrow> SnapshotIndex \<Rightarrow> 'd PreparedLeg list \<Rightarrow> active_command list \<Rightarrow> 'd \<Rightarrow>
   'd list \<Rightarrow> bool" where
  "margin_within_caps A request index legs active base lots \<longleftrightarrow> (\<exists>pending added incremental free_margin held used margin_cap.
     pending_margin A request index active = Inr pending
   \<and> weighted_total A pl_margin_per_lot legs lots (da_zero A) = Inr added
   \<and> da_add A pending added = Some incremental
   \<and> decimal A ''account.free_margin'' (acct_free_margin (rq_account request)) = Inr free_margin
   \<and> dec_le A incremental free_margin
   \<and> decimal A ''account.margin'' (acct_margin (rq_account request)) = Inr held
   \<and> da_add A held incremental = Some used
   \<and> percent_of A base ''max_margin_usage_pct'' (pol_max_margin_usage_pct (rq_policy request)) = Inr margin_cap
   \<and> dec_le A used margin_cap)"

lemma checked_Some [simp]: "checked (Some v) = Inr v"
  by (simp add: checked_def)

lemma checked_Inr [simp]: "checked x = Inr y \<longleftrightarrow> x = Some y"
  by (auto simp: checked_def arithmetic_overflow_def deny_def split: option.splits)

lemma audit_leg_Inr:
  "audit_leg A base sized = Inr leg \<Longrightarrow> arl_lots leg = sz_executable_lots sized
   \<and> arl_leg_id leg = scp_leg_id (pl_provenance (sz_leg sized))
   \<and> arl_symbol leg = scp_symbol (pl_provenance (sz_leg sized))
   \<and> arl_action leg = scp_action (pl_provenance (sz_leg sized))"
  unfolding audit_leg_def Let_def by (elim bindR_InrE) auto

lemma size_and_cap_limits:
  assumes "size_and_cap A request index legs active base ages until = Inr a"
  shows "\<exists>lots. list_all2 (\<lambda>(leg, l) out. lots_fit A leg l (arl_lots out)
       \<and> arl_leg_id out = scp_leg_id (pl_provenance leg) \<and> arl_symbol out = scp_symbol (pl_provenance leg)
       \<and> arl_action out = scp_action (pl_provenance leg)) (zip legs lots) (aap_legs a)
    \<and> length lots = length legs
    \<and> risk_within_budget A request legs base lots
    \<and> exposure_within_caps A request index legs active base lots
    \<and> margin_within_caps A request index legs active base lots"
proof -
  obtain pct budget existing symbol_cap total_cap pending free_margin account_margin margin_cap scale limiter totals
    where parts: "approved_pct A request = Inr pct"
    "checked (case da_mul A base pct of None \<Rightarrow> None | Some value \<Rightarrow> da_div A value (da_hundred A)) = Inr budget"
    "existing_exposure A request index active = Inr existing"
    "percent_of A base ''max_symbol_exposure_pct'' (pol_max_symbol_exposure_pct (rq_policy request)) = Inr symbol_cap"
    "percent_of A base ''max_total_exposure_pct'' (pol_max_total_exposure_pct (rq_policy request)) = Inr total_cap"
    "pending_margin A request index active = Inr pending"
    "decimal A ''account.free_margin'' (acct_free_margin (rq_account request)) = Inr free_margin"
    "decimal A ''account.margin'' (acct_margin (rq_account request)) = Inr account_margin"
    "percent_of A base ''max_margin_usage_pct'' (pol_max_margin_usage_pct (rq_policy request)) = Inr margin_cap"
    and fold: "try_fold (size_leg A scale limiter) legs \<lparr>st_sized = [], st_actual_risk = da_zero A,
         st_final_exposure = existing, st_new_margin = da_zero A\<rparr> = Inr totals"
    and final: "validate_final A totals budget symbol_cap total_cap pending free_margin account_margin margin_cap = Inr ()"
    and audit: "map_result (audit_leg A base) (st_sized totals) = Inr (aap_legs a)"
    using assms by (rule size_and_cap_parts)
  from size_legs_Inr [OF fold] obtain sized where sized: "st_sized totals = sized" "map sz_leg sized = legs"
    "list_all (\<lambda>s. lots_fit A (sz_leg s) (sz_lots s) (sz_executable_lots s)) sized"
    "weighted_total A pl_loss_per_lot legs (map sz_lots sized) (da_zero A) = Inr (st_actual_risk totals)"
    "exposure_after A legs (map sz_lots sized) existing = Inr (st_final_exposure totals)"
    "weighted_total A pl_margin_per_lot legs (map sz_lots sized) (da_zero A) = Inr (st_new_margin totals)"
    by (auto simp: list_all_iff)
  let ?lots = "map sz_lots sized"
  obtain sum_after incremental used where checks: "dec_le A (st_actual_risk totals) budget"
    "\<forall>(symbol, amount) \<in> set (st_final_exposure totals). dec_le A amount symbol_cap"
    "checked_sum A (map snd (st_final_exposure totals)) = Inr sum_after" "dec_le A sum_after total_cap"
    "da_add A pending (st_new_margin totals) = Some incremental" "dec_le A incremental free_margin"
    "da_add A account_margin incremental = Some used" "dec_le A used margin_cap"
    using final unfolding validate_final_def Let_def
    by (elim guard_InrE bindR_InrE) (fastforce simp: dec_lt_def dec_le_def list_ex_iff not_less)
  have "risk_within_budget A request legs base ?lots"
    unfolding risk_within_budget_def using approved_pct_bounded [OF parts(1)] parts(2) sized(4) checks(1)
    by (auto split: option.splits)
  moreover have "exposure_within_caps A request index legs active base ?lots"
    unfolding exposure_within_caps_def using parts(3-5) sized(5) checks(2-4) by blast
  moreover have "margin_within_caps A request index legs active base ?lots"
    unfolding margin_within_caps_def using parts(6-9) sized(6) checks(5-8) by blast
  moreover have "list_all2 (\<lambda>(leg, l) out. lots_fit A leg l (arl_lots out)
       \<and> arl_leg_id out = scp_leg_id (pl_provenance leg) \<and> arl_symbol out = scp_symbol (pl_provenance leg)
       \<and> arl_action out = scp_action (pl_provenance leg)) (zip legs ?lots) (aap_legs a)"
    using audit [unfolded map_result_Inr sized(1)] sized(3)
    by (auto simp: list_all2_conv_all_nth list_all_length sized(2) [symmetric] dest!: audit_leg_Inr)
  ultimately show ?thesis using arg_cong [OF sized(2), of length] by (intro exI [of _ ?lots]) simp
qed

end
