(* ===== verification/Risk_Properties.thy ===== *)
theory Risk_Properties
  imports Risk_Correct
begin

text \<open>
  The properties of the risk engine, and a sample request: one SELL leg that uses the whole budget,
  evaluated with exact rational arithmetic in the place of \<open>rust_decimal\<close>.
\<close>

section \<open>A sample request\<close>

definition f64_two :: f64 where "f64_two = 4611686018427387904"

definition exact_decimals :: "rat decimal_arith" where
  "exact_decimals = \<lparr>da_value = (\<lambda>x. x), da_of_f64 = (\<lambda>x. Some (f64_value x)),
     da_to_f64 = (\<lambda>x. Some (f64_of_rat x)), da_of_u32 = of_nat,
     da_add = (\<lambda>x y. Some (x + y)), da_sub = (\<lambda>x y. Some (x - y)), da_mul = (\<lambda>x y. Some (x * y)),
     da_div = (\<lambda>x y. if y = 0 then None else Some (x / y)), da_abs = abs,
     da_ceil = (\<lambda>x. of_int \<lceil>x\<rceil>), da_floor = (\<lambda>x. of_int \<lfloor>x\<rfloor>), da_min = min, da_max = max,
     da_zero = 0, da_one = 1, da_hundred = 100, da_max_value = 79228162514264337593543950335\<rparr>"

definition sample_hashing :: request_hashing where
  "sample_hashing = \<lparr>rh_json = (\<lambda>_. None), rh_debug = (\<lambda>_. []), rh_sha256 = (\<lambda>_. replicate 32 0),
     rh_hex = (\<lambda>bytes. concat (map (\<lambda>_. ''00'') bytes))\<rparr>"

definition sample_risk_intent :: TradeIntent where
  "sample_risk_intent = \<lparr>ti_intent_id = ''i'', ti_decision_id = ''d'', ti_strategy_id = ''s'',
     ti_correlation_id = ''c'', ti_idempotency_key = ''k'', ti_account_id = ''a'', ti_symbol = ''X'',
     ti_timeframe = ''M5'', ti_action = TradeIntentAction.Sell, ti_confidence = f64_one, ti_reason = '''',
     ti_proposed_risk_pct = f64_hundred, ti_proposed_sl = Some f64_two, ti_proposed_tp = None,
     ti_proposed_legs = None, ti_decision_timestamp = 100, ti_signal_expires_at = 1000, ti_requested_at = 100\<rparr>"

definition sample_decision :: StrategyDecision where
  "sample_decision = \<lparr>sd_decision_id = ''d'', sd_strategy_id = ''s'', sd_symbol = ''X'', sd_timeframe = ''M5'',
     sd_action = TradeIntentAction.Sell, sd_confidence = f64_one, sd_reason = '''', sd_proposed_risk_pct = f64_hundred,
     sd_proposed_sl = Some f64_two, sd_proposed_tp = None, sd_timestamp = 100, sd_signal_expires_at = 1000\<rparr>"

definition sample_risk_policy :: RiskPolicy where
  "sample_risk_policy = \<lparr>pol_position_sizing_version = POSITION_SIZING_VERSION_V1,
     pol_max_risk_per_trade_pct = f64_hundred, pol_max_daily_loss_pct = f64_hundred,
     pol_max_drawdown_pct = f64_hundred, pol_max_symbol_exposure_pct = f64_hundred,
     pol_max_total_exposure_pct = f64_hundred, pol_max_margin_usage_pct = f64_hundred,
     pol_require_stop_loss = True, pol_reject_expired_signal = True, pol_max_approval_ttl_ms = 500,
     pol_max_snapshot_age_ms = 50, pol_max_order_snapshot_age_ms = 50, pol_max_market_snapshot_age_ms = 50,
     pol_max_symbol_metadata_age_ms = 50, pol_max_capacity_age_ms = 50, pol_max_concurrent_positions = 1,
     pol_require_valid_symbol_metadata = True, pol_reject_trade_mode_disabled = True\<rparr>"

definition sample_metadata :: SymbolMetadataSnapshot where
  "sample_metadata = \<lparr>sm_account_id = ''a'', sm_symbol = ''X'', sm_broker_symbol = ''X'', sm_digits = 0,
     sm_point = f64_one, sm_tick_size = f64_one, sm_tick_value_loss = f64_one, sm_contract_size = f64_one,
     sm_volume_min = f64_one, sm_volume_max = f64_one, sm_volume_step = f64_one,
     sm_stops_level_points = 0, sm_freeze_level_points = 0, sm_margin_initial = Some f64_one,
     sm_margin_maintenance = None, sm_trade_mode = SymbolTradeMode.Full, sm_observed_at = 100\<rparr>"

definition sample_market :: RiskMarketSnapshot where
  "sample_market = \<lparr>rms_account_id = ''a'', rms_snapshot = \<lparr>ms_symbol = ''X'', ms_broker_symbol = None,
     ms_bid = f64_one, ms_ask = f64_one, ms_spread = f64_zero, ms_observed_at = 100\<rparr>\<rparr>"

definition sample_candidate :: PositionSizingCandidate where
  "sample_candidate = \<lparr>psc_leg_id = single_leg_id ''i'', psc_symbol = ''X'', psc_action = AdjustedRiskLegAction.Sell,
     psc_ratio = f64_one, psc_worst_entry_price = f64_one, psc_stop_loss_price = f64_two,
     psc_estimated_cost_per_lot = f64_zero\<rparr>"

definition sample_risk_request :: RiskRequest where
  "sample_risk_request = \<lparr>rq_request_id = ''r'', rq_risk_id = ''k'', rq_evaluated_at = 110,
     rq_decision = sample_decision, rq_intent = sample_risk_intent, rq_agent_review = None,
     rq_account = \<lparr>acct_account_id = ''a'', acct_balance = f64_one, acct_equity = f64_one,
       acct_margin = f64_zero, acct_free_margin = f64_one, acct_currency = ''USD'', acct_observed_at = 100\<rparr>,
     rq_positions = [], rq_orders = [], rq_symbol_metadata = [sample_metadata], rq_pending_commands = [],
     rq_pending_command_states = [], rq_policy = sample_risk_policy,
     rq_strategy_policy = \<lparr>srp_max_risk_per_trade_pct = f64_hundred, srp_max_concurrent_legs = 1,
       srp_require_stop_loss = True, srp_signal_expiry_bars = 1\<rparr>,
     rq_markets = [sample_market], rq_sizing_candidates = [sample_candidate],
     rq_state_watermarks = \<lparr>wm_positions_observed_at = 100, wm_orders_observed_at = 100,
       wm_pending_commands_reconciled_at = 100\<rparr>,
     rq_capacity = \<lparr>rc_account_id = ''a'', rc_strategy_id = ''s'', rc_observed_at = 100,
       rc_daily_realized_loss_pct = f64_zero, rc_equity_drawdown_pct = f64_zero,
       rc_remaining_account_risk_pct = f64_hundred, rc_remaining_portfolio_risk_pct = f64_hundred,
       rc_remaining_strategy_legs = 1\<rparr>\<rparr>"

lemmas sample_risk_defs = sample_risk_request_def sample_risk_intent_def sample_decision_def
  sample_risk_policy_def sample_metadata_def sample_market_def sample_candidate_def

lemma sample_values [simp]:
  "f64_value f64_zero = 0" "f64_value f64_one = 1" "f64_value f64_two = 2" "f64_value f64_hundred = 100"
  by (simp_all add: f64_value_def mag_value_def f64_defs f64_two_def f64_hundred_def)

lemma sample_finite [simp]:
  "f64_is_finite f64_one" "f64_is_finite f64_two" "f64_is_finite f64_hundred"
  by (simp_all add: f64_defs f64_two_def f64_hundred_def)

lemma sample_nonzero: "\<not> f64_is_zero f64_one" "\<not> f64_is_zero f64_two" "\<not> f64_is_zero f64_hundred"
  by (simp_all add: f64_is_zero_def f64_defs f64_two_def f64_hundred_def)

lemma sample_of_rat [simp]:
  "f64_of_rat 1 = f64_one" "f64_of_rat 2 = f64_two" "f64_of_rat 100 = f64_hundred"
  using f64_of_rat_value [OF _ sample_nonzero(1)] f64_of_rat_value [OF _ sample_nonzero(2)]
    f64_of_rat_value [OF _ sample_nonzero(3)] by simp_all

lemma sample_order [simp]:
  "f64_lt f64_zero f64_one" "f64_lt f64_zero f64_two" "f64_lt f64_zero f64_hundred" "f64_lt f64_one f64_two"
  "\<not> f64_lt f64_one f64_one" "\<not> f64_lt f64_hundred f64_hundred" "\<not> f64_le f64_hundred f64_zero"
  by (simp_all add: f64_defs f64_two_def f64_hundred_def)

lemma sample_strings [simp]:
  "\<not> trim_is_empty ''i''" "\<not> trim_is_empty ''d''" "\<not> trim_is_empty ''s''" "\<not> trim_is_empty ''k''"
  "\<not> trim_is_empty ''a''" "\<not> trim_is_empty ''X''" "\<not> trim_is_empty ''M5''" "\<not> trim_is_empty ''r''"
  "\<not> trim_is_empty ''USD''" "\<not> trim_is_empty (single_leg_id ''i'')" "\<not> trim_is_empty POSITION_SIZING_VERSION_V1"
  by code_simp+

definition sample_prepared_leg :: "rat PreparedLeg" where
  "sample_prepared_leg = \<lparr>pl_provenance = candidate_provenance sample_candidate, pl_ratio = 1, pl_entry = 1,
     pl_stop = 2, pl_loss_per_lot = 1, pl_notional_per_lot = 1, pl_margin_per_lot = 1, pl_volume_min = 1,
     pl_volume_max = 1, pl_volume_step = 1\<rparr>"

definition sample_index :: SnapshotIndex where
  "sample_index = \<lparr>ix_metadata = [(''X'', sample_metadata)], ix_markets = [(''X'', sample_market)]\<rparr>"

definition sample_ages :: AuditAges where
  "sample_ages = \<lparr>aa_snapshot = 10, aa_market = 10, aa_metadata = 10, aa_capacity = 10\<rparr>"

lemma decimal_exact [simp]: "f64_is_finite x \<Longrightarrow> decimal exact_decimals name x = Inr (f64_value x)"
  by (simp add: decimal_def exact_decimals_def)

lemma exact_order [simp]:
  "dec_lt exact_decimals x y \<longleftrightarrow> x < y" "dec_le exact_decimals x y \<longleftrightarrow> x \<le> y" "dec_eq exact_decimals x y \<longleftrightarrow> x = y"
  by (simp_all add: dec_lt_def dec_le_def dec_eq_def exact_decimals_def)

lemma exact_ops [simp]:
  "da_add exact_decimals x y = Some (x + y)" "da_sub exact_decimals x y = Some (x - y)"
  "da_mul exact_decimals x y = Some (x * y)" "y \<noteq> 0 \<Longrightarrow> da_div exact_decimals x y = Some (x / y)"
  "da_abs exact_decimals x = \<bar>x\<bar>" "da_ceil exact_decimals x = of_int \<lceil>x\<rceil>"
  "da_floor exact_decimals x = of_int \<lfloor>x\<rfloor>" "da_min exact_decimals x y = min x y"
  "da_max exact_decimals x y = max x y" "da_zero exact_decimals = 0" "da_one exact_decimals = 1"
  "da_hundred exact_decimals = 100" "da_max_value exact_decimals = 79228162514264337593543950335"
  "da_of_u32 exact_decimals n = of_nat n" "da_to_f64 exact_decimals x = Some (f64_of_rat x)"
  by (simp_all add: exact_decimals_def)

lemma sample_required: "required_symbols sample_risk_request = [''X'']"
  by (simp add: required_symbols_def sample_risk_defs bt_set_def)

lemma sample_index_ok: "index_snapshots sample_risk_request [''X''] = Inr sample_index"
  by (simp add: index_snapshots_def sample_risk_defs sample_index_def)

lemma sample_checks:
  "validate_request_identity sample_risk_request = Inr ()" "validate_action_shape sample_risk_request = Inr ()"
  "validate_control_time sample_risk_request = Inr ()" "validate_freshness_policy sample_risk_request = Inr ()"
  "validate_freshness sample_risk_request [''X''] sample_index = Inr sample_ages"
  "validate_loss_capacity exact_decimals sample_risk_request = Inr ()"
  "active_pending_commands exact_decimals sample_risk_request = Inr []"
  "validate_pending_exposure exact_decimals sample_risk_request sample_index [sample_prepared_leg] [] = Inr ()"
  "validate_concurrency sample_risk_request [sample_prepared_leg] [] = Inr ()"
  "approval_valid_until sample_risk_request [''X''] sample_index = Inr 150"
  subgoal by (simp add: validate_request_identity_def sample_risk_defs decision_differs_def same_float_def
    same_optional_float_def Let_def)
  subgoal by (simp add: validate_action_shape_def sample_risk_defs Let_def)
  subgoal by (simp add: validate_control_time_def sample_risk_defs Let_def)
  subgoal by (simp add: validate_freshness_policy_def sample_risk_defs Let_def)
  subgoal by (simp add: validate_freshness_def row_ages_def symbol_ages_def sample_risk_defs sample_index_def
    sample_ages_def checked_age_def oldest_def checked_sub_i64_def i64_min_def i64_max_def Let_def)
  subgoal by (simp add: validate_loss_capacity_def sample_risk_defs Let_def)
  subgoal by (simp add: active_pending_commands_def sample_risk_defs Let_def)
  subgoal by (simp add: validate_pending_exposure_def sample_risk_defs Let_def)
  subgoal by (simp add: validate_concurrency_def sample_risk_defs checked_add_usize_def usize_max_def Let_def)
  subgoal by (simp add: approval_valid_until_def sample_risk_defs sample_index_def time_boundary_def earliest_def
    required_market_def required_metadata_def checked_add_i64_def i64_min_def i64_max_def Let_def)
  done

lemma sample_policy_inputs: "validate_policy_and_inputs exact_decimals sample_risk_request = Inr 1"
  by (simp add: validate_policy_and_inputs_def validate_switches_def validate_percentages_def
    validate_percentage_def validate_non_negative_percentage_def sample_risk_defs Let_def)

lemma sample_symbol_inputs: "validate_symbol_inputs exact_decimals [''X''] sample_index = Inr ()"
  by (simp add: validate_symbol_inputs_def validate_symbol_input_def sample_index_def sample_risk_defs Let_def)

lemma sample_prepare: "prepare_legs exact_decimals sample_risk_request sample_index = Inr [sample_prepared_leg]"
  by (simp add: prepare_legs_def expected_legs_def prepare_leg_def price_leg_def validate_trade_mode_def
    bounded_loss_def notional_per_lot_def sample_index_def sample_risk_defs sample_prepared_leg_def Let_def)

definition sample_adjusted_leg :: AdjustedRiskLeg where
  "sample_adjusted_leg = \<lparr>arl_leg_id = single_leg_id ''i'', arl_symbol = ''X'',
     arl_action = AdjustedRiskLegAction.Sell, arl_lots = f64_one, arl_risk_amount = f64_one,
     arl_risk_pct = f64_hundred, arl_sizing_entry_price = f64_one, arl_approved_sl = f64_two,
     arl_loss_per_lot = f64_one, arl_reason = Some (ErrorCodeOrString_from ''OK'')\<rparr>"

definition sample_approval :: "rat ActionableApproval" where
  "sample_approval = \<lparr>aap_sizing_version = POSITION_SIZING_VERSION_V1, aap_risk_base = 1, aap_risk_budget = 1,
     aap_actual_risk_pct = 100, aap_candidates = [candidate_provenance sample_candidate],
     aap_legs = [sample_adjusted_leg], aap_ages = sample_ages, aap_valid_until = 150\<rparr>"

lemma sample_scale:
  "approved_pct exact_decimals sample_risk_request = Inr 100"
  "budget_scale exact_decimals [sample_prepared_leg] 1 = Inr 1"
  "volume_scale exact_decimals [sample_prepared_leg] (1, RiskBudget) = Inr (1, RiskBudget)"
  "existing_exposure exact_decimals sample_risk_request sample_index [] = Inr []"
  "exposure_scale exact_decimals [sample_prepared_leg] [] 1 1 (1, RiskBudget) = Inr (1, RiskBudget)"
  "pending_margin exact_decimals sample_risk_request sample_index [] = Inr 0"
  "margin_scale exact_decimals [sample_prepared_leg] 0 1 0 1 (1, RiskBudget) = Inr (1, RiskBudget)"
  subgoal by (simp add: approved_pct_def sample_risk_defs Let_def)
  subgoal by (simp add: budget_scale_def sample_prepared_leg_def Let_def)
  subgoal by (simp add: volume_scale_def cap_scale_def sample_prepared_leg_def Let_def)
  subgoal by (simp add: existing_exposure_def sample_risk_defs Let_def)
  subgoal by (simp add: exposure_scale_def cap_scale_def sample_prepared_leg_def add_amount_def checked_sum_def Let_def)
  subgoal by (simp add: pending_margin_def sample_risk_defs Let_def)
  subgoal by (simp add: margin_scale_def cap_scale_def sample_prepared_leg_def checked_sum_def Let_def)
  done

lemma sample_floor: "floor_to_step exact_decimals 1 1 = Inr 1"
  by (simp add: floor_to_step_def)

lemma sample_required_f64:
  "required_f64 exact_decimals 1 = Inr f64_one" "required_f64 exact_decimals 2 = Inr f64_two"
  "required_f64 exact_decimals 100 = Inr f64_hundred"
  by (simp_all add: required_f64_def decimal_to_f64_def)

lemma sample_size:
  "size_and_cap exact_decimals sample_risk_request sample_index [sample_prepared_leg] [] 1 sample_ages 150 = Inr sample_approval"
proof -
  let ?totals = "\<lparr>st_sized = [\<lparr>sz_leg = sample_prepared_leg, sz_lots = 1, sz_executable_lots = f64_one,
      sz_risk_amount = 1\<rparr>], st_actual_risk = 1, st_final_exposure = [(''X'', 1)], st_new_margin = 1\<rparr> :: rat sizing_totals"
  have size: "size_leg exact_decimals 1 RiskBudget sample_prepared_leg \<lparr>st_sized = [], st_actual_risk = 0,
      st_final_exposure = [], st_new_margin = 0\<rparr> = Inr ?totals"
    by (simp add: size_leg_def sample_prepared_leg_def normalize_executable_lots_def sample_floor sample_required_f64
      add_amount_def candidate_provenance_def sample_candidate_def Let_def)
  have "map_result (audit_leg exact_decimals 1) (st_sized ?totals) = Inr [sample_adjusted_leg]"
    by (simp add: audit_leg_def share_of_def sample_prepared_leg_def sample_adjusted_leg_def candidate_provenance_def
      sample_required_f64 sample_candidate_def Let_def)
  moreover have "validate_final exact_decimals ?totals 1 1 1 0 1 0 1 = Inr ()"
    by (simp add: validate_final_def checked_sum_def)
  moreover have "percent_of exact_decimals 1 name f64_hundred = Inr 1" for name
    by (simp add: percent_of_def)
  moreover have "share_of exact_decimals 1 1 = Inr 100" by (simp add: share_of_def)
  moreover note sample_scale [unfolded sample_risk_request_def sample_risk_policy_def]
  ultimately show ?thesis
    by (simp add: size_and_cap_def sample_scale size sample_risk_request_def sample_risk_policy_def
      sample_approval_def Let_def) (simp add: sample_prepared_leg_def)
qed

lemma sample_evaluate_inner:
  "evaluate_inner exact_decimals sample_risk_request CircuitBreakerState_new = Inr (Actionable sample_approval)"
proof -
  have action: "ti_action (rq_intent sample_risk_request) = TradeIntentAction.Sell"
    by (simp add: sample_risk_defs)
  show ?thesis
    by (simp add: evaluate_inner_def action authorize_def CircuitBreakerState_new_def sample_required
      sample_index_ok sample_checks sample_policy_inputs sample_symbol_inputs sample_prepare sample_size)
qed

definition sample_result :: RiskResult where
  "sample_result = approved_result exact_decimals sample_risk_request (replicate 64 (CHR ''0''))
     (Actionable sample_approval)"

lemma sample_hash: "risk_request_hash sample_hashing request = replicate 64 (CHR ''0'')"
  by (simp add: risk_request_hash_def sample_hashing_def numeral_eq_Suc)

lemma sample_magnitudes:
  "mag_value (f64_magnitude f64_one) = 1" "mag_value (f64_magnitude f64_hundred) = 100"
  "\<not> f64_is_sign_negative f64_one" "\<not> f64_is_sign_negative f64_hundred"
  using sample_values by (simp_all add: f64_value_def f64_defs f64_hundred_def split: if_splits)

lemma sample_arithmetic [simp]:
  "f64_mul f64_one f64_one = f64_one" "f64_div f64_one f64_one = f64_one"
  "f64_mul f64_one f64_hundred = f64_hundred" "f64_add f64_zero f64_one = f64_one"
proof -
  have regular: "\<not> f64_is_nan x \<and> \<not> f64_is_infinite x \<and> \<not> f64_is_zero x \<and> mag_round (mag_value (f64_magnitude x)) = f64_magnitude x"
    if "x = f64_one \<or> x = f64_hundred" for x
    using that by (auto simp: f64_is_infinite_def f64_is_zero_def f64_defs f64_hundred_def)
  have "mag_round 1 = f64_magnitude f64_one" "mag_round 100 = f64_magnitude f64_hundred"
    using regular [of f64_one] regular [of f64_hundred] by (simp_all add: sample_magnitudes)
  with regular [of f64_one] regular [of f64_hundred] f64_pack_self [of f64_one] f64_pack_self [of f64_hundred]
  show "f64_mul f64_one f64_one = f64_one" "f64_div f64_one f64_one = f64_one"
    "f64_mul f64_one f64_hundred = f64_hundred"
    by (simp_all add: f64_mul_def f64_div_def sample_magnitudes)
  show "f64_add f64_zero f64_one = f64_one"
    using regular [of f64_one] by (simp add: f64_add_def f64_is_infinite_def f64_zero_def f64_magnitude_def
      f64_inf_bits_def f64_is_nan_def f64_sign_bit_def) (simp flip: f64_zero_def)
qed

lemma sample_result_valid: "RiskResult_validate sample_result = Some (Inr ())"
proof -
  have same: "approximately_equal x x" if "f64_is_finite x" for x
    using that by (simp add: approximately_equal_def f64_eq_def f64_finite_not_nan)
  have ok: "ErrorCodeOrString_as_str (ErrorCodeOrString_from ''OK'') = ''OK''" by code_simp
  have head: "validate_result_head sample_result = Inr ()"
  proof -
    have "list_all lower_hex (replicate 64 (CHR ''0''))" by (simp add: list_all_iff lower_hex_def)
    then show ?thesis
      by (simp add: validate_result_head_def sample_result_def approved_result_def with_ages_def result_frame_def
        sample_approval_def sample_ages_def sample_risk_defs validate_non_empty_def validate_sha256_def)
  qed
  have sizing: "validate_sizing sample_result = Some (Inr ())"
    by (simp add: validate_sizing_def sample_result_def approved_result_def with_ages_def result_frame_def
      sample_approval_def validate_non_empty_def validate_positive_finite_def validate_finite_def
      decimal_to_f64_def validate_sizing_legs_def candidate_provenance_def sample_candidate_def
      candidate_stop_is_valid_def validate_adjusted_leg_def sample_adjusted_leg_def ok same same_f64_bits_def)
  have "rr_approved sample_result" "rr_reason sample_result = ErrorCodeOrString_from ''OK''"
    "rr_valid_until sample_result = 150" "rr_evaluated_at sample_result = 110"
    "list_all id (sizing_fields_present sample_result)"
    by (simp_all add: sample_result_def approved_result_def with_ages_def result_frame_def sizing_fields_present_def
      sample_approval_def decimal_to_f64_def sample_risk_request_def)
  with head sizing ok show ?thesis by (simp add: RiskResult_validate_def)
qed

lemma sample_evaluate:
  "evaluate exact_decimals sample_hashing sample_risk_request CircuitBreakerState_new = Some (Inr sample_result)"
proof -
  have "validate_result_identity sample_risk_request = Inr ()"
    by (simp add: validate_result_identity_def sample_risk_defs)
  then show ?thesis
    by (simp add: evaluate_def sample_evaluate_inner sample_hash sample_result_valid flip: sample_result_def)
qed

lemma sample_approved: "rr_approved sample_result" "ti_action (rq_intent sample_risk_request) = TradeIntentAction.Sell"
  by (simp_all add: sample_result_def result_identity sample_risk_defs)

lemma exact_subtraction: "positive_subtraction_total exact_decimals"
  by (simp add: positive_subtraction_total_def)

section \<open>Properties\<close>

text \<open>C23: the evaluator never panics. Whatever the request and the breaker, \<open>evaluate\<close> returns an error or
  a result, provided that \<open>rust_decimal\<close> can subtract two positive decimals: no arithmetic of the evaluation and
  no \<open>expect\<close> of the validation of its result, or of the fail-closed one, panics.
\<close>

theorem evaluate_never_panics:
  assumes "positive_subtraction_total A"
  shows "evaluate A H request breaker \<noteq> None"
proof -
  have "evaluate_inner A request breaker \<noteq> Inl Panicked"
    using total_evaluate_inner [OF assms] by (simp add: total_result_def)
  then show ?thesis
    by (auto simp: evaluate_def Let_def RiskResult_validate_returns split: sum.splits evaluation_stop.splits option.splits)
qed

theorem evaluate_never_panics_witness:
  "evaluate exact_decimals sample_hashing sample_risk_request CircuitBreakerState_new \<noteq> None"
  by (rule evaluate_never_panics [OF exact_subtraction])

text \<open>C22: every result the evaluator returns passes \<open>RiskResult::validate\<close> and carries the ids of the
  request and the hash of the whole request; an approval in it follows from \<open>evaluate_inner\<close>.
\<close>

theorem risk_result_valid_and_bound:
  assumes "evaluate A H request breaker = Some (Inr r)"
  shows "RiskResult_validate r = Some (Inr ())
    \<and> rr_risk_id r = rq_risk_id request \<and> rr_request_id r = rq_request_id request
    \<and> rr_intent_id r = ti_intent_id (rq_intent request) \<and> rr_account_id r = ti_account_id (rq_intent request)
    \<and> rr_decision_id r = ti_decision_id (rq_intent request)
    \<and> rr_risk_request_hash r = risk_request_hash H request
    \<and> (rr_approved r \<longleftrightarrow> (\<exists>approval. evaluate_inner A request breaker = Inr approval
         \<and> r = approved_result A request (risk_request_hash H request) approval))"
  using evaluate_outcome [OF assms] result_identity by (metis insertCI)

theorem risk_result_valid_and_bound_witness:
  "RiskResult_validate sample_result = Some (Inr ())
   \<and> rr_risk_request_hash sample_result = risk_request_hash sample_hashing sample_risk_request"
  using risk_result_valid_and_bound [OF sample_evaluate] by simp

text \<open>An approval that is not a HOLD needs a closed circuit breaker, and a CLOSE is never approved: while
  the breaker is OPEN or HALF_OPEN no risk-increasing intent is approved, whatever its numbers.
\<close>

theorem approval_needs_closed_breaker:
  assumes "evaluate A H request breaker = Some (Inr r)" "rr_approved r"
  shows "ti_action (rq_intent request) = TradeIntentAction.Hold
    \<or> ti_action (rq_intent request) \<noteq> TradeIntentAction.Close \<and> cb_status breaker = CircuitBreakerStatus.Closed"
proof (cases "ti_action (rq_intent request) = TradeIntentAction.Hold")
  case False
  from evaluate_approved [OF assms] obtain approval where "evaluate_inner A request breaker = Inr approval" .
  from actionable_checks [OF this False] have "ti_action (rq_intent request) \<noteq> TradeIntentAction.Close
    \<and> gate_allowed (authorize breaker RiskIncreasingTradeIntent)" by metis
  then show ?thesis by (cases "cb_status breaker") (simp_all add: authorize_def)
qed simp

theorem approval_needs_closed_breaker_witness:
  "cb_status CircuitBreakerState_new = CircuitBreakerStatus.Closed"
  using approval_needs_closed_breaker [OF sample_evaluate sample_approved(1)] sample_approved(2) by simp

text \<open>C21: the validity window of an approval is not empty, ends no later than the signal and the approval
  TTL, and, for an intent other than HOLD, no later than the moment at which the first piece of evidence
  (account, positions, orders, command reconciliation, capacity, and the market and metadata of every
  symbol involved) becomes stale; no evidence is dated after the evaluation.
\<close>

theorem approval_expires_with_evidence:
  assumes "evaluate A H request breaker = Some (Inr r)" "rr_approved r"
  shows "rr_evaluated_at r = rq_evaluated_at request \<and> rq_evaluated_at request < rr_valid_until r
    \<and> rr_valid_until r \<le> ti_signal_expires_at (rq_intent request)
    \<and> rr_valid_until r \<le> rq_evaluated_at request + pol_max_approval_ttl_ms (rq_policy request)
    \<and> (ti_action (rq_intent request) = TradeIntentAction.Hold \<or>
       (\<forall>(observed_at, max_age) \<in> set (decision_evidence request).
          observed_at \<le> rq_evaluated_at request \<and> rr_valid_until r \<le> observed_at + max_age))"
proof -
  from evaluate_approved [OF assms] obtain approval where inner: "evaluate_inner A request breaker = Inr approval"
    and r: "r = approved_result A request (risk_request_hash H request) approval" .
  have evaluated: "rr_evaluated_at r = rq_evaluated_at request"
    by (auto simp: r approved_result_def with_ages_def result_frame_def split: Approval.splits)
  show ?thesis
  proof (cases "ti_action (rq_intent request) = TradeIntentAction.Hold")
    case True
    from hold_checks [OF inner True] obtain until where "approval = NoOp until" "hold_valid_until request = Inr until" .
    with evaluated True show ?thesis
      by (auto simp: r approved_result_def result_frame_def hold_valid_until_def Let_def deny_def
        dest!: checked_add_i64_Some split: option.splits if_splits)
  next
    case False
    from actionable_checks [OF inner False] obtain a index ages base legs active until where
      parts: "Actionable a = approval" "index_snapshots request (required_symbols request) = Inr index"
      "validate_freshness request (required_symbols request) index = Inr ages"
      "approval_valid_until request (required_symbols request) index = Inr until"
      "size_and_cap A request index legs active base ages until = Inr a" by metis
    from size_and_cap_parts [OF parts(5)] have "aap_valid_until a = until" by metis
    with parts(1) have "rr_valid_until r = until" by (auto simp: r approved_result_def with_ages_def)
    with evaluated approval_window [OF parts(2,4)] evidence_not_future [OF parts(2,3)]
    show ?thesis by auto
  qed
qed

theorem approval_expires_with_evidence_witness:
  "rr_evaluated_at sample_result < rr_valid_until sample_result
   \<and> rr_valid_until sample_result \<le> ti_signal_expires_at (rq_intent sample_risk_request)"
  using approval_expires_with_evidence [OF sample_evaluate sample_approved(1)] by simp

text \<open>C20: the sizing of an approval respects every limit. The adjusted legs correspond one to one, in order,
  to the prepared legs; the lots written into the result, read back as decimals, are positive, within
  the broker's volume range and on its step; the loss at the stops is within the risk base times a
  percentage that no limit (proposal, policy, strategy, account, portfolio) undercuts; and exposure per
  symbol, total exposure, free margin and margin usage stay within their caps with what exists counted in.
\<close>

theorem approved_sizing_respects_limits:
  assumes "evaluate A H request breaker = Some (Inr r)" "rr_approved r"
    "ti_action (rq_intent request) \<noteq> TradeIntentAction.Hold"
  shows "\<exists>index base legs active lots outs.
      index_snapshots request (required_symbols request) = Inr index
    \<and> validate_policy_and_inputs A request = Inr base \<and> prepare_legs A request index = Inr legs
    \<and> active_pending_commands A request = Inr active \<and> rr_adjusted_legs r = Some outs
    \<and> length lots = length legs
    \<and> list_all2 (\<lambda>(leg, l) out. lots_fit A leg l (arl_lots out)
         \<and> arl_leg_id out = scp_leg_id (pl_provenance leg) \<and> arl_symbol out = scp_symbol (pl_provenance leg)
         \<and> arl_action out = scp_action (pl_provenance leg)) (zip legs lots) outs
    \<and> risk_within_budget A request legs base lots
    \<and> exposure_within_caps A request index legs active base lots
    \<and> margin_within_caps A request index legs active base lots"
proof -
  from evaluate_approved [OF assms(1,2)] obtain approval where
    inner: "evaluate_inner A request breaker = Inr approval"
    and r: "r = approved_result A request (risk_request_hash H request) approval" .
  from actionable_checks [OF inner assms(3)] obtain a index ages base legs active until where
    parts: "Actionable a = approval" "index_snapshots request (required_symbols request) = Inr index"
    "validate_policy_and_inputs A request = Inr base" "prepare_legs A request index = Inr legs"
    "active_pending_commands A request = Inr active"
    "size_and_cap A request index legs active base ages until = Inr a" by metis
  have "rr_adjusted_legs r = Some (aap_legs a)"
    using parts(1) by (auto simp: r approved_result_def with_ages_def)
  moreover from size_and_cap_limits [OF parts(6)] obtain lots where
    "list_all2 (\<lambda>(leg, l) out. lots_fit A leg l (arl_lots out)
         \<and> arl_leg_id out = scp_leg_id (pl_provenance leg) \<and> arl_symbol out = scp_symbol (pl_provenance leg)
         \<and> arl_action out = scp_action (pl_provenance leg)) (zip legs lots) (aap_legs a)"
    "length lots = length legs" "risk_within_budget A request legs base lots"
    "exposure_within_caps A request index legs active base lots"
    "margin_within_caps A request index legs active base lots" by blast
  ultimately show ?thesis using parts(2-5) by blast
qed

theorem approved_sizing_respects_limits_witness:
  "\<exists>lots. risk_within_budget exact_decimals sample_risk_request [sample_prepared_leg] 1 lots
     \<and> margin_within_caps exact_decimals sample_risk_request sample_index [sample_prepared_leg] [] 1 lots"
  using approved_sizing_respects_limits [OF sample_evaluate sample_approved(1)] sample_approved(2)
  by (auto simp: sample_required sample_index_ok sample_policy_inputs sample_prepare sample_checks)

end
