(* ===== verification/Builder_Properties.thy ===== *)
theory Builder_Properties
  imports Builder_Correct Risk_Properties
begin

text \<open>
  The properties of the execution builder, across the risk result it starts from, the signature, the
  command lifecycle and the projector.
\<close>

section \<open>The bundle\<close>

lemma built_parts:
  assumes "build_execution H C order request = Some (Inr (Built bundle))"
  obtains legs u adjusted metadata resolved expires_at built where
    "validate_common H request = Some (Inr ())" "intent_legs (ebr_risk_request request) = Inr legs"
    "validate_topology order (epol_mode (ebr_policy request)) legs (ebr_resolved_legs request) = Some (Inr u)"
    "index_adjusted_legs (ebr_risk_result request) legs = Inr adjusted"
    "index_metadata (ebr_risk_request request) legs = Inr metadata"
    "index_resolved (ebr_resolved_legs request) legs = Inr resolved" "command_expiry request = Inr expires_at"
    "list_all2 (\<lambda>leg b. build_leg C request expires_at adjusted resolved metadata leg = Some (Inr b)) legs built"
    "ExecutionPlan_validate (pending_plan request (map fst built)) = Some (Inr ())"
    "bundle = \<lparr>eb_plan = pending_plan request (map fst built), eb_commands = map (fst \<circ> snd) built,
       eb_command_states = map (snd \<circ> snd) built\<rparr>"
proof -
  have common: "validate_common H request = Some (Inr ())" and actionable: "build_actionable C order request = Some (Inr (Built bundle))"
    using assms by (auto simp: build_execution_def bindP_Inr split: TradeIntentAction.splits if_splits)
  have valid: "ExecutionPlan_validate plan = Some (Inr ())"
    if "map_option (map_err f) (ExecutionPlan_validate plan) = Some (Inr v)" for f plan v
    using that by auto
  show thesis using actionable unfolding build_actionable_def Let_def
    apply (elim bindP_InrE)
    apply (simp only: option.inject sum.inject ExecutionBuildOutcome.inject build_legs_Inr)
    apply (rule that [OF common], assumption+, erule valid, erule sym)
    done
qed

lemma common_facts:
  assumes "validate_common H request = Some (Inr ())"
  shows "RiskResult_validate (ebr_risk_result request) = Some (Inr ())" "rr_approved (ebr_risk_result request)"
    "rr_risk_request_hash (ebr_risk_result request) = risk_request_hash H (ebr_risk_request request)"
    "rr_evaluated_at (ebr_risk_result request) \<le> ebr_now_ms request"
    "ebr_now_ms request < rr_valid_until (ebr_risk_result request)"
  using assms by (auto simp: validate_common_def Let_def bindP_Inr split: if_splits)

lemma topology_distinct:
  assumes "validate_topology order mode legs resolved = Some (Inr u)" shows "distinct (map il_leg_id legs)"
  using assms card_distinct [of "map il_leg_id legs"] by (auto simp: validate_topology_def Let_def split: if_splits)

lemma list_all2_map_eq:
  "list_all2 P xs ys \<Longrightarrow> (\<And>x y. P x y \<Longrightarrow> f x = g y) \<Longrightarrow> map f xs = map g ys"
  by (induction rule: list_all2_induct) auto

lemma built_identities_distinct:
  assumes "index_resolved resolved_legs legs = Inr resolved" "distinct (map il_leg_id legs)"
    "list_all2 (\<lambda>leg b. build_leg C request expires_at adjusted resolved metadata leg = Some (Inr b)) legs built"
  shows "distinct (map (ec_command_id \<circ> fst \<circ> snd) built)" "distinct (map (ec_idempotency_key \<circ> fst \<circ> snd) built)"
proof -
  have "index_resolved_legs resolved_legs {} {} Map.empty = Inr resolved"
    using assms(1) by (simp add: index_resolved_def split: if_splits)
  note index = index_resolved_lookup [OF this]
  have built: "\<exists>r. resolved (il_leg_id leg) = Some r \<and> ec_command_id (fst (snd b)) = rle_command_id r
      \<and> ec_idempotency_key (fst (snd b)) = rle_idempotency_key r"
    if "build_leg C request expires_at adjusted resolved metadata leg = Some (Inr b)" for leg b
  proof (cases b)
    case (fields leg' command state)
    from that [unfolded fields] show ?thesis
      by (rule build_leg_Inr) (auto simp: fields unsigned_command_def Let_def)
  qed
  have known: "\<exists>r. resolved k = Some r \<and> r \<in> set resolved_legs \<and> rle_leg_id r = k" if "k \<in> set (map il_leg_id legs)" for k
  proof -
    from that obtain i where "i < length legs" "k = il_leg_id (legs ! i)" by (auto simp: in_set_conv_nth)
    with built list_all2_nthD [OF assms(3)] obtain r where "resolved k = Some r" by blast
    with index show ?thesis by fastforce
  qed
  have ids: "map (ec_command_id \<circ> fst \<circ> snd) built = map (\<lambda>k. rle_command_id (the (resolved k))) (map il_leg_id legs)"
    "map (ec_idempotency_key \<circ> fst \<circ> snd) built = map (\<lambda>k. rle_idempotency_key (the (resolved k))) (map il_leg_id legs)"
    using built unfolding map_map
    by (intro list_all2_map_eq [OF assms(3), THEN sym]; fastforce)+
  show "distinct (map (ec_command_id \<circ> fst \<circ> snd) built)" "distinct (map (ec_idempotency_key \<circ> fst \<circ> snd) built)"
    unfolding ids using index by (intro distinct_through_index [OF assms(2) known]; simp)+
qed

text \<open>C24: what the builder returns is bound to the approval it was given. The risk result is valid,
  approved, current, and carries the hash of the very request; the plan passes its own validation;
  command ids and idempotency keys are pairwise distinct; leg, command and state correspond one to one,
  each command has the lots, stop, symbol and direction of an approved leg, a price no worse than the
  approved worst entry, and an expiry after now and no later than the signal, the approval and the
  command TTL; the states are the initial states; and every signature verifies under the request's
  secret and a format taken from the request's symbol metadata.\<close>

theorem built_bundle_bound_to_approval:
  assumes "hex_laws C" "build_execution H C order request = Some (Inr (Built bundle))"
  shows "RiskResult_validate (ebr_risk_result request) = Some (Inr ()) \<and> rr_approved (ebr_risk_result request)
    \<and> rr_risk_request_hash (ebr_risk_result request) = risk_request_hash H (ebr_risk_request request)
    \<and> rr_evaluated_at (ebr_risk_result request) \<le> ebr_now_ms request
    \<and> ebr_now_ms request < rr_valid_until (ebr_risk_result request)
    \<and> ExecutionPlan_validate (eb_plan bundle) = Some (Inr ())
    \<and> distinct (map ec_command_id (eb_commands bundle)) \<and> distinct (map ec_idempotency_key (eb_commands bundle))
    \<and> list_all2 (\<lambda>leg command. (\<exists>adjusted approved. rr_adjusted_legs (ebr_risk_result request) = Some adjusted
          \<and> approved \<in> set adjusted \<and> carries_approval request approved leg command)
        \<and> (\<exists>m format. m \<in> set (rq_symbol_metadata (ebr_risk_request request)) \<and> from_symbol_metadata m = Inr format
          \<and> verify_execution_command_hmac C command (ebr_signing_secret request) format = Inr ()))
        (plan_legs (eb_plan bundle)) (eb_commands bundle)
    \<and> list_all2 (\<lambda>command state. initial_command_state command (ebr_now_ms request) = Inr state)
        (eb_commands bundle) (eb_command_states bundle)"
proof -
  obtain legs u adjusted metadata resolved expires_at built where
    common: "validate_common H request = Some (Inr ())"
    and topology: "validate_topology order (epol_mode (ebr_policy request)) legs (ebr_resolved_legs request) = Some (Inr u)"
    and adjusted: "index_adjusted_legs (ebr_risk_result request) legs = Inr adjusted"
    and metadata: "index_metadata (ebr_risk_request request) legs = Inr metadata"
    and resolved: "index_resolved (ebr_resolved_legs request) legs = Inr resolved"
    and expiry: "command_expiry request = Inr expires_at"
    and built: "list_all2 (\<lambda>leg b. build_leg C request expires_at adjusted resolved metadata leg = Some (Inr b)) legs built"
    and plan: "ExecutionPlan_validate (pending_plan request (map fst built)) = Some (Inr ())"
    and returned: "bundle = \<lparr>eb_plan = pending_plan request (map fst built), eb_commands = map (fst \<circ> snd) built,
       eb_command_states = map (snd \<circ> snd) built\<rparr>"
    using assms(2) by (rule built_parts)
  have approved: "\<exists>legs. rr_adjusted_legs (ebr_risk_result request) = Some legs \<and> a \<in> set legs" if "adjusted k = Some a" for k a
    using adjusted that by (auto simp: index_adjusted_legs_def split: option.splits if_splits dest: index_by_lookup)
  have known: "m \<in> set (rq_symbol_metadata (ebr_risk_request request))" if "metadata k = Some m" for k m
  proof -
    obtain by_symbol where "metadata_of_legs (ti_account_id (rq_intent (ebr_risk_request request))) by_symbol legs Map.empty = Inr metadata"
      and index: "index_by sm_symbol (\<lambda>m. RequiresReRisk (''duplicate metadata for '' @ sm_symbol m))
        (rq_symbol_metadata (ebr_risk_request request)) Map.empty = Inr by_symbol"
      using metadata unfolding index_metadata_def by (elim bindR_InrE)
    with metadata_of_legs_lookup [OF this(1) that] obtain symbol where "by_symbol symbol = Some m" by auto
    from index_by_lookup [OF index this] show ?thesis by simp
  qed
  have each: "(\<exists>adjusted approved. rr_adjusted_legs (ebr_risk_result request) = Some adjusted
          \<and> approved \<in> set adjusted \<and> carries_approval request approved (fst b) (fst (snd b)))
        \<and> (\<exists>m format. m \<in> set (rq_symbol_metadata (ebr_risk_request request)) \<and> from_symbol_metadata m = Inr format
          \<and> sign_execution_command C (fst (snd b)) (ebr_signing_secret request) format = Inr (ec_hmac (fst (snd b))))
        \<and> initial_command_state (fst (snd b)) (ebr_now_ms request) = Inr (snd (snd b))"
    if "b \<in> set built" for b
  proof -
    from that obtain i where "i < length built" "b = built ! i" by (auto simp: in_set_conv_nth)
    with list_all2_nthD2 [OF built] obtain leg where
      leg: "build_leg C request expires_at adjusted resolved metadata leg = Some (Inr b)" by blast
    obtain l c s where b: "b = (l, c, s)" by (cases b)
    have "initial_command_state c (ebr_now_ms request) = Inr s" using leg [unfolded b] by (rule build_leg_Inr)
    moreover obtain a where "adjusted (il_leg_id leg) = Some a" "carries_approval request a l c"
      using built_leg_carries [OF leg [unfolded b] expiry] by blast
    moreover obtain m format where "metadata (il_leg_id leg) = Some m" "from_symbol_metadata m = Inr format"
      "sign_execution_command C c (ebr_signing_secret request) format = Inr (ec_hmac c)"
      using built_leg_verifies [OF leg [unfolded b] assms(1)] by blast
    ultimately show ?thesis using approved known unfolding b fst_conv snd_conv by blast
  qed
  note sound = verification_law [OF assms(1)]
  show ?thesis
    using common_facts [OF common] plan built_identities_distinct [OF resolved topology_distinct [OF topology] built] each sound
    by (simp add: returned pending_plan_def list_all2_map1 list_all2_map2 list.rel_refl_strong comp_def Let_def)
qed

text \<open>C27: a fresh bundle is a fixed point of the projector: projecting the built plan from the states of
  its commands, before any event, gives back exactly the plan the builder returned.\<close>

theorem fresh_bundle_projects_to_itself:
  assumes "build_execution H C order request = Some (Inr (Built bundle))"
  shows "project_plan (eb_plan bundle) (eb_command_states bundle) [] = Some (Inr (eb_plan bundle))"
  using assms
proof (rule built_parts)
  fix legs adjusted metadata resolved expires_at built
  assume built: "list_all2 (\<lambda>leg b. build_leg C request expires_at adjusted resolved metadata leg = Some (Inr b)) legs built"
    and plan: "ExecutionPlan_validate (pending_plan request (map fst built)) = Some (Inr ())"
    and returned: "bundle = \<lparr>eb_plan = pending_plan request (map fst built), eb_commands = map (fst \<circ> snd) built,
       eb_command_states = map (snd \<circ> snd) built\<rparr>"
  have "fresh_pair (ebr_plan_id request) (ti_account_id (rq_intent (ebr_risk_request request))) (fst b) (snd (snd b))"
    if "b \<in> set built" for b
  proof -
    from that obtain i where "i < length built" "b = built ! i" by (auto simp: in_set_conv_nth)
    with list_all2_nthD2 [OF built] obtain leg where
      "build_leg C request expires_at adjusted resolved metadata leg = Some (Inr b)" by blast
    then show ?thesis using built_pair_fresh by (cases b) auto
  qed
  with plan show ?thesis unfolding returned
    by (simp, intro fresh_plan_projects)
      (simp_all add: pending_plan_def Let_def list_all2_map1 list_all2_map2 list.rel_refl_strong)
qed

section \<open>A sample build\<close>

definition sample_resolved :: "LegId \<Rightarrow> ResolvedLegExecution" where
  "sample_resolved name = \<lparr>rle_leg_id = name, rle_dependency = [], rle_command_id = ''a'', rle_idempotency_key = ''k'',
     rle_terminal_id = None, rle_client_id = None, rle_order_type = OrderType.Market, rle_price = None,
     rle_deviation_points = None, rle_magic = 7, rle_comment = None, rle_filling_policy = None,
     rle_time_policy = None, rle_expiration_time = None\<rparr>"

definition sample_build :: "LegId \<Rightarrow> ExecutionBuildRequest" where
  "sample_build name = \<lparr>ebr_plan_id = ''d'', ebr_now_ms = 120, ebr_risk_request = sample_risk_request,
     ebr_risk_result = sample_result, ebr_policy = \<lparr>epol_mode = ExecutionPlanMode.Simultaneous,
       epol_failure_policy = ExecutionFailurePolicy.CancelAll, epol_timeout_ms = 10, epol_max_command_ttl_ms = 20,
       epol_rollback_policy = None\<rparr>,
     ebr_resolved_legs = [sample_resolved name], ebr_signing_secret = [1]\<rparr>"

definition sample_intent_leg :: IntentLeg where
  "sample_intent_leg = \<lparr>il_leg_id = single_leg_id ''i'', il_symbol = ''X'', il_action = ExecutionAction.Sell,
     il_ratio = f64_one, il_tp = None\<rparr>"

lemma sample_result_fields:
  "rr_approved sample_result" "rr_adjusted_legs sample_result = Some [sample_adjusted_leg]"
  "rr_sizing_candidates sample_result = Some [candidate_provenance sample_candidate]"
  "rr_evaluated_at sample_result = 110" "rr_valid_until sample_result = 150"
  "rr_risk_request_hash sample_result = replicate 64 (CHR ''0'')"
  "\<not> result_identity_differs sample_risk_request sample_result"
  by (simp_all add: sample_result_def approved_result_def with_ages_def result_frame_def sample_approval_def
    result_identity_differs_def sample_risk_request_def)

lemma sample_common: "validate_common sample_hashing (sample_build name) = Some (Inr ())"
  by (simp add: validate_common_def sample_build_def build_non_empty_def sample_result_valid sample_result_fields sample_hash)

lemma sample_legs_of_intent: "intent_legs sample_risk_request = Inr [sample_intent_leg]"
  by (simp add: intent_legs_def sample_risk_defs sample_intent_leg_def)

lemma sample_topology:
  "validate_topology [single_leg_id ''i''] ExecutionPlanMode.Simultaneous [sample_intent_leg] [sample_resolved name] = Some (Inr ())"
  by (simp add: validate_topology_def sample_intent_leg_def sample_resolved_def traverse.simps [of _ "[]"]
    traverse.simps [of _ "[single_leg_id ''i'']"])

lemma sample_indexes:
  "index_adjusted_legs sample_result [sample_intent_leg] = Inr [single_leg_id ''i'' \<mapsto> sample_adjusted_leg]"
  "validate_result_candidates sample_risk_request sample_result = Inr ()"
  "index_metadata sample_risk_request [sample_intent_leg] = Inr [single_leg_id ''i'' \<mapsto> sample_metadata]"
  "\<not> trim_is_empty name \<Longrightarrow> index_resolved [sample_resolved name] [sample_intent_leg] = Inr [name \<mapsto> sample_resolved name]"
  "command_expiry (sample_build name) = Inr 140"
  subgoal by (simp add: index_adjusted_legs_def sample_result_fields sample_adjusted_leg_def)
  subgoal by (simp add: validate_result_candidates_def sample_result_fields sample_risk_request_def sample_candidate_def
    candidate_provenance_def candidate_changed_def same_f64_def)
  subgoal by (simp add: index_metadata_def sample_risk_defs sample_intent_leg_def)
  subgoal by (simp add: index_resolved_def sample_resolved_def build_non_empty_def optional_non_empty_def)
  subgoal by (simp add: command_expiry_def sample_build_def checked_add_i64_def i64_min_def i64_max_def
    sample_result_fields sample_risk_request_def sample_risk_intent_def)
  done

text \<open>C39: a resolved leg that names no leg of the intent makes the builder panic. The leg ids of
  \<open>resolved_legs\<close> are counted and checked for uniqueness, but not compared with the intended legs
  before \<open>resolved[&intent_leg.leg_id]\<close> indexes the map with an id that is not there.\<close>

theorem unknown_resolved_leg_panics:
  "build_execution sample_hashing C [single_leg_id ''i''] (sample_build ''X'') = None"
proof -
  have "single_leg_id ''i'' \<noteq> ''X''" by (simp add: single_leg_id_def)
  then have "build_leg C (sample_build ''X'') 140 [single_leg_id ''i'' \<mapsto> sample_adjusted_leg] [''X'' \<mapsto> sample_resolved ''X'']
      [single_leg_id ''i'' \<mapsto> sample_metadata] sample_intent_leg = None"
    by (simp add: build_leg_def sample_intent_leg_def)
  moreover have "ti_action (rq_intent (ebr_risk_request (sample_build name))) = TradeIntentAction.Sell" for name
    by (simp add: sample_build_def sample_risk_defs)
  ultimately show ?thesis
    by (simp add: build_execution_def bindP_def sample_common build_actionable_def sample_indexes Let_def)
      (simp add: sample_build_def sample_legs_of_intent sample_topology sample_indexes bindP_def)
qed

text \<open>The same request with the right leg is built.\<close>

abbreviation sample_leg_id :: LegId where
  "sample_leg_id \<equiv> single_leg_id ''i''"

definition sample_signing_format :: CommandSigningFormat where
  "sample_signing_format = \<lparr>csf_price_digits = 0, csf_volume_digits = 0,
     csf_volume_step = Some \<lparr>vsc_value = f64_one, vsc_units = 1\<rparr>\<rparr>"

definition sample_built_command :: ExecutionCommand where
  "sample_built_command = unsigned_command (sample_build sample_leg_id) 140 sample_intent_leg sample_adjusted_leg
     (sample_resolved sample_leg_id) sample_metadata"

lemma sample_whole:
  "scaled_integer f64_one 0 field = Inr 1" "validate_fixed_decimal_round_trip f64_one 0 field = Inr ()"
  "validate_fixed_decimal_round_trip f64_two 0 field = Inr ()" "format_fixed_decimal f64_one 0 = Inr (show_decimal 1)"
  "format_fixed_decimal f64_two 0 = Inr (show_decimal 2)"
proof -
  have one: "f64_is_finite f64_one" "\<not> f64_is_sign_negative f64_one" "mag_value (f64_magnitude f64_one) = of_nat 1"
    "\<not> f64_lt MAX_SAFE_SCALED_INTEGER f64_one"
    using sample_magnitudes by (simp_all add: MAX_SAFE_SCALED_INTEGER_def f64_defs)
  have two: "f64_is_finite f64_two" "\<not> f64_is_sign_negative f64_two" "mag_value (f64_magnitude f64_two) = of_nat 2"
    "\<not> f64_lt MAX_SAFE_SCALED_INTEGER f64_two"
    using sample_values(3) by (simp_all add: f64_value_def MAX_SAFE_SCALED_INTEGER_def f64_defs f64_two_def split: if_splits)
  show "scaled_integer f64_one 0 field = Inr 1" using whole_scaled_integer [OF one(1,2,3) _ one(4)] by (simp add: i64_max_def)
  show "validate_fixed_decimal_round_trip f64_one 0 field = Inr ()" "format_fixed_decimal f64_one 0 = Inr (show_decimal 1)"
    using whole_round_trip [OF one(1,2,3) _ one(4)] by (simp_all add: i64_max_def)
  show "validate_fixed_decimal_round_trip f64_two 0 field = Inr ()" "format_fixed_decimal f64_two 0 = Inr (show_decimal 2)"
    using whole_round_trip [OF two(1,2,3) _ two(4)] by (simp_all add: i64_max_def)
qed

lemma sample_format_ok: "from_symbol_metadata sample_metadata = Inr sample_signing_format"
proof -
  have "\<not> f64_le f64_one f64_zero" by (simp add: f64_defs)
  then have "volume_step_units f64_one = Inr (0, 1)"
    by (simp add: volume_step_units_def upt_conv_Cons sample_whole MAX_DECIMAL_DIGITS_def)
  then show ?thesis
    by (simp add: from_symbol_metadata_def sample_metadata_def sample_signing_format_def validate_precision_def)
qed

lemma sample_command_fields:
  "ec_lots sample_built_command = Some f64_one" "ec_price sample_built_command = None"
  "ec_sl sample_built_command = Some f64_two" "ec_tp sample_built_command = None"
  "ec_action sample_built_command = ExecutionAction.Sell" "ec_order_type sample_built_command = Some OrderType.Market"
  by (simp_all add: sample_built_command_def unsigned_command_def sample_adjusted_leg_def sample_resolved_def
    sample_intent_leg_def Let_def)

lemma sample_command_checked: "validate_execution_command sample_built_command sample_signing_format = Inr ()"
  by (simp add: validate_execution_command_def validate_precision_def validate_finite_numbers_def sample_command_fields
    validate_action_specific_fields_def require_action_field_def validate_lots_alignment_def
    validate_fixed_decimal_fields_def sample_signing_format_def sample_whole)

lemma sample_command_signed:
  "sign_execution_command sample_crypto sample_built_command [1] sample_signing_format = Inr (replicate 64 (CHR ''0''))"
proof -
  have "\<exists>parts. signing_parts ft (command_object sample_built_command) sample_signing_format SIGNING_FIELDS = Inr parts" for ft
    by (simp add: SIGNING_FIELDS_def field_texts sample_command_fields sample_signing_format_def sample_whole)
  then obtain parts where "signing_parts (\<lambda>_. []) (command_object sample_built_command) sample_signing_format SIGNING_FIELDS = Inr parts"
    by blast
  moreover have "(char_of (48 :: nat) :: char) = CHR ''0''" by code_simp
  ultimately show ?thesis
    by (simp add: sign_execution_command_def build_execution_command_signing_string_def sample_command_checked
      sample_crypto_def)
qed

definition sample_built :: "ExecutionLeg \<times> ExecutionCommand \<times> ExecutionCommandState" where
  "sample_built = (pending_leg sample_intent_leg sample_adjusted_leg (sample_resolved sample_leg_id),
     sample_built_command\<lparr>ec_hmac := replicate 64 (CHR ''0'')\<rparr>,
     \<lparr>cs_command_id = ''a'', cs_account_id = ''a'', cs_plan_id = Some ''d'', cs_leg_id = Some sample_leg_id,
      cs_status = ExecutionCommandStatus.Created, cs_delivery_attempts = 0, cs_last_delivery_error = None,
      cs_created_at = 120, cs_dispatched_at = None, cs_command_received_at = None, cs_reconciling_at = None,
      cs_completed_at = None, cs_updated_at = 120\<rparr>)"

lemma sample_initial_state:
  "initial_command_state (sample_built_command\<lparr>ec_hmac := replicate 64 (CHR ''0'')\<rparr>) 120 = Inr (snd (snd sample_built))"
proof -
  have digits: "\<not> trim_is_empty (replicate 64 (CHR ''0''))" by (simp add: numeral_eq_Suc trim_is_empty_def ws1_def ws2_def ws3_def)
  then have identity: "validate_command_identity (sample_built_command\<lparr>ec_hmac := replicate 64 (CHR ''0'')\<rparr>) = Inr ()"
    by (simp add: validate_command_identity_def sample_built_command_def unsigned_command_def sample_resolved_def
      sample_build_def sample_risk_defs sample_intent_leg_def Let_def)
  then show ?thesis
    by (simp add: initial_command_state_def validate_command_state_def sample_built_def check_lifecycle_timestamp_def
      command_status_is_terminal_def requires_dispatch_def sample_built_command_def unsigned_command_def
      sample_resolved_def sample_build_def sample_risk_defs sample_intent_leg_def Let_def)
qed

lemma sample_build_leg:
  "build_leg sample_crypto (sample_build sample_leg_id) 140 [sample_leg_id \<mapsto> sample_adjusted_leg]
     [sample_leg_id \<mapsto> sample_resolved sample_leg_id] [sample_leg_id \<mapsto> sample_metadata] sample_intent_leg
   = Some (Inr sample_built)"
proof -
  have "\<not> f64_le f64_one f64_zero" "\<not> f64_le f64_two f64_zero" by (simp_all add: f64_defs f64_two_def)
  then have "validate_leg_binding sample_intent_leg sample_adjusted_leg (sample_resolved sample_leg_id) sample_metadata = Inr ()"
    by (simp add: validate_leg_binding_def sample_intent_leg_def sample_adjusted_leg_def sample_resolved_def
      sample_metadata_def positive_or_def validate_entry_price_def)
  moreover have "il_leg_id sample_intent_leg = sample_leg_id" "ebr_signing_secret (sample_build name) = [1]"
    "ebr_now_ms (sample_build name) = 120" for name
    by (simp_all add: sample_intent_leg_def sample_build_def)
  ultimately show ?thesis
    by (simp add: build_leg_def sample_format_ok sample_command_signed sample_initial_state Let_def
      flip: sample_built_command_def del: One_nat_def) (simp add: sample_built_def)
qed

definition sample_bundle :: ExecutionBundle where
  "sample_bundle = \<lparr>eb_plan = pending_plan (sample_build sample_leg_id) [fst sample_built],
     eb_commands = [fst (snd sample_built)], eb_command_states = [snd (snd sample_built)]\<rparr>"

lemma sample_bundle_plan: "ExecutionPlan_validate (eb_plan sample_bundle) = Some (Inr ())"
proof -
  let ?leg = "pending_leg sample_intent_leg sample_adjusted_leg (sample_resolved sample_leg_id)"
  have legs: "plan_legs (eb_plan sample_bundle) = [?leg]" "eps_filled_legs (plan_state (eb_plan sample_bundle)) = []"
    "eps_failed_legs (plan_state (eb_plan sample_bundle)) = []"
    "eps_status (plan_state (eb_plan sample_bundle)) = ExecutionPlanStatus.Pending"
    by (simp_all add: sample_bundle_def pending_plan_def sample_built_def Let_def)
  have leg: "leg_deps_of ?leg = []" "leg_status_of ?leg = ExecutionLegStatus.Pending"
    by (simp_all add: pending_leg_def sample_resolved_def)
  have "ExecutionLeg_validate ?leg = Inr ()"
    by (simp add: ExecutionLeg_validate_def validate_execution_non_empty_def pending_leg_def sample_intent_leg_def
      sample_adjusted_leg_def sample_resolved_def validate_execution_positive_def f64_defs f64_two_def)
  then have "plan_head_ok (eb_plan sample_bundle)"
    by (simp add: plan_head_ok_def legs leg)
      (simp add: sample_bundle_def pending_plan_def sample_build_def sample_risk_defs Let_def)
  moreover have "dependency_rel [?leg] = {}" by (simp add: dependency_rel_def deps_of_def leg)
  then have "dependencies_ok (eb_plan sample_bundle)"
    by (simp add: dependencies_ok_def legs leg_deps_ok_def leg wf_acyclic)
  moreover have "validate_plan_projection (eb_plan sample_bundle) = Inr ()"
    by (simp add: validate_plan_projection_iff legs leg summary_of_def derive_execution_plan_status_def
      leg_status_is_failed_def leg_status_is_filled_def leg_status_is_terminal_def Let_def)
  ultimately show ?thesis by (simp add: plan_valid_iff)
qed

lemma sample_build_ok:
  "build_execution sample_hashing sample_crypto [sample_leg_id] (sample_build sample_leg_id) = Some (Inr (Built sample_bundle))"
proof -
  have "ti_action (rq_intent (ebr_risk_request (sample_build name))) = TradeIntentAction.Sell"
    "ebr_resolved_legs (sample_build name) = [sample_resolved name]" "ebr_risk_request (sample_build name) = sample_risk_request"
    "ebr_risk_result (sample_build name) = sample_result"
    "epol_mode (ebr_policy (sample_build name)) = ExecutionPlanMode.Simultaneous" for name
    by (simp_all add: sample_build_def sample_risk_defs)
  moreover have "\<not> trim_is_empty sample_leg_id" by (simp add: single_leg_id_def trim_is_empty_def ws1_def ws2_def ws3_def)
  moreover note sample_bundle_plan [unfolded sample_bundle_def ExecutionBundle.simps]
  ultimately show ?thesis
    by (simp add: build_execution_def bindP_def sample_common build_actionable_def sample_indexes Let_def
      sample_legs_of_intent sample_topology sample_build_leg sample_bundle_def)
qed

theorem built_bundle_bound_to_approval_witness:
  "RiskResult_validate sample_result = Some (Inr ()) \<and> rr_approved sample_result
   \<and> ExecutionPlan_validate (eb_plan sample_bundle) = Some (Inr ())
   \<and> list_all2 (\<lambda>command state. initial_command_state command 120 = Inr state)
       (eb_commands sample_bundle) (eb_command_states sample_bundle)"
  using built_bundle_bound_to_approval [OF sample_crypto_laws sample_build_ok] by (simp add: sample_build_def)

theorem fresh_bundle_projects_to_itself_witness:
  "project_plan (eb_plan sample_bundle) (eb_command_states sample_bundle) [] = Some (Inr (eb_plan sample_bundle))"
  by (rule fresh_bundle_projects_to_itself [OF sample_build_ok])

end
