(* ===== verification/Circuit_Breaker_Restore.thy ===== *)
theory Circuit_Breaker_Restore
  imports Circuit_Breaker
begin

text \<open>
  Durable snapshots of the circuit breaker: \<open>durable_snapshot_v1\<close>, the validation of a restored
  state and the fail-closed fallbacks. \<open>serde_json::from_str\<close> is a parameter of
  \<open>restore_circuit_breaker_snapshot\<close>; it returns \<open>None\<close> for its error. \<open>unreachable!\<close> is \<open>None\<close>.
\<close>

section \<open>Evidence of a restored state\<close>

primrec incident_evidence_reason :: "CircuitBreakerIncidentEvidence \<Rightarrow> CircuitBreakerReason" where
  "incident_evidence_reason (CircuitBreakerIncidentEvidence.DailyRealizedLoss _ _) =
     DailyRealizedLossLimit"
| "incident_evidence_reason (CircuitBreakerIncidentEvidence.DailyRealizedLossWorsened _ _) =
     DailyRealizedLossLimit"
| "incident_evidence_reason (CircuitBreakerIncidentEvidence.EquityDrawdown _ _) = EquityDrawdownLimit"
| "incident_evidence_reason (CircuitBreakerIncidentEvidence.EquityDrawdownWorsened _ _) =
     EquityDrawdownLimit"
| "incident_evidence_reason (CircuitBreakerIncidentEvidence.ConsecutiveBrokerRejections _ _) =
     CircuitBreakerReason.ConsecutiveBrokerRejections"
| "incident_evidence_reason (CircuitBreakerIncidentEvidence.ConsecutiveCommandFailures _ _) =
     CircuitBreakerReason.ConsecutiveCommandFailures"
| "incident_evidence_reason (CircuitBreakerIncidentEvidence.ManualReconciliationRequired _) =
     CircuitBreakerReason.ManualReconciliationRequired"
| "incident_evidence_reason CircuitBreakerIncidentEvidence.StoreRecoveryReconciliationPending =
     CircuitBreakerReason.StoreRecoveryReconciliationPending"
| "incident_evidence_reason (CircuitBreakerIncidentEvidence.TimeSyncUnhealthy _ _) =
     CircuitBreakerReason.TimeSyncUnhealthy"
| "incident_evidence_reason (CircuitBreakerIncidentEvidence.SnapshotStale _ _) =
     CircuitBreakerReason.SnapshotStale"
| "incident_evidence_reason (CircuitBreakerIncidentEvidence.SymbolMetadataStale _ _) =
     CircuitBreakerReason.SymbolMetadataStale"
| "incident_evidence_reason (CircuitBreakerIncidentEvidence.ManualTrigger _ _) =
     CircuitBreakerReason.ManualTrigger"
| "incident_evidence_reason CircuitBreakerIncidentEvidence.HardRiskViolationDuringRecovery =
     CircuitBreakerReason.HardRiskViolationDuringRecovery"
| "incident_evidence_reason CircuitBreakerIncidentEvidence.SafetyInvariantViolation =
     CircuitBreakerReason.SafetyInvariantViolation"
| "incident_evidence_reason (SafetyInvariantError _) =
     CircuitBreakerReason.SafetyInvariantViolation"

primrec incident_evidence_source :: "CircuitBreakerIncidentEvidence \<Rightarrow> CircuitBreakerTriggerSource" where
  "incident_evidence_source (CircuitBreakerIncidentEvidence.DailyRealizedLoss _ _) = RiskTelemetry"
| "incident_evidence_source (CircuitBreakerIncidentEvidence.DailyRealizedLossWorsened _ _) =
     RiskTelemetry"
| "incident_evidence_source (CircuitBreakerIncidentEvidence.EquityDrawdown _ _) = RiskTelemetry"
| "incident_evidence_source (CircuitBreakerIncidentEvidence.EquityDrawdownWorsened _ _) =
     RiskTelemetry"
| "incident_evidence_source (CircuitBreakerIncidentEvidence.ConsecutiveBrokerRejections _ _) = Broker"
| "incident_evidence_source (CircuitBreakerIncidentEvidence.ConsecutiveCommandFailures _ _) =
     Execution"
| "incident_evidence_source CircuitBreakerIncidentEvidence.HardRiskViolationDuringRecovery =
     Execution"
| "incident_evidence_source (CircuitBreakerIncidentEvidence.ManualReconciliationRequired _) =
     CircuitBreakerTriggerSource.Reconciliation"
| "incident_evidence_source CircuitBreakerIncidentEvidence.StoreRecoveryReconciliationPending =
     StoreRecovery"
| "incident_evidence_source (CircuitBreakerIncidentEvidence.TimeSyncUnhealthy _ _) = Clock"
| "incident_evidence_source (CircuitBreakerIncidentEvidence.SnapshotStale _ _) = SnapshotHealth"
| "incident_evidence_source (CircuitBreakerIncidentEvidence.SymbolMetadataStale _ _) = SnapshotHealth"
| "incident_evidence_source (CircuitBreakerIncidentEvidence.ManualTrigger operator_id _) =
     CircuitBreakerTriggerSource.Operator operator_id"
| "incident_evidence_source CircuitBreakerIncidentEvidence.SafetyInvariantViolation = SafetyInvariant"
| "incident_evidence_source (SafetyInvariantError _) = SafetyInvariant"

definition error_fingerprint_has_blank_text :: "CircuitBreakerErrorFingerprint \<Rightarrow> bool" where
  "error_fingerprint_has_blank_text error = (case error of
     CircuitBreakerErrorFingerprint.InvalidPolicy field requirement \<Rightarrow>
       trim_is_empty field \<or> trim_is_empty requirement
   | CircuitBreakerErrorFingerprint.InvalidInput field requirement \<Rightarrow>
       trim_is_empty field \<or> trim_is_empty requirement
   | CircuitBreakerErrorFingerprint.ManualResetEvidenceMissing field \<Rightarrow> trim_is_empty field
   | _ \<Rightarrow> False)"

definition incident_evidence_has_blank_text :: "CircuitBreakerIncidentEvidence \<Rightarrow> bool" where
  "incident_evidence_has_blank_text evidence = (case evidence of
     CircuitBreakerIncidentEvidence.ManualTrigger operator_id reason \<Rightarrow>
       trim_is_empty operator_id \<or> trim_is_empty reason
   | SafetyInvariantError error \<Rightarrow> error_fingerprint_has_blank_text error
   | _ \<Rightarrow> False)"

section \<open>Validation of a restored state\<close>

text \<open>
  \<open>validate_restored_state\<close> in the order of the code, one definition per group of checks:
  timestamps, trigger identity, status and reset identity, the match on the status, the incident
  fingerprint, the order of the timestamps.
\<close>

definition restored_timestamps ::
  "CircuitBreakerState \<Rightarrow> i64 \<Rightarrow> (CircuitBreakerRestoreFailure, unit) result" where
  "restored_timestamps state server_now_ms =
     check_each (\<lambda>(field, timestamp). case timestamp of
         None \<Rightarrow> Inr ()
       | Some timestamp_ms \<Rightarrow>
           if timestamp_ms < 0 then Inl (InvalidSnapshot TimestampNegative)
           else if timestamp_ms > server_now_ms
             then Inl (SnapshotTimestampInFuture field timestamp_ms server_now_ms)
           else Inr ())
       [(TriggeredAt, cb_triggered_at_ms state),
        (IncidentEvidenceClearedAt, cb_incident_evidence_cleared_at_ms state),
        (HalfOpenedAt, cb_half_opened_at_ms state),
        (ResetAt, cb_reset_at_ms state)]"

definition restored_trigger ::
  "CircuitBreakerState \<Rightarrow> (CircuitBreakerRestoreFailure, unit) result" where
  "restored_trigger state =
     (if (cb_triggered_at_ms state \<noteq> None) \<noteq> (cb_triggered_by state \<noteq> None)
        then Inl (InvalidSnapshot IncidentStateMissingTrigger)
      else if cb_recovery_epoch state = 0 \<and> cb_triggered_at_ms state \<noteq> None
        then Inl (InvalidSnapshot TriggerPresentWithoutRecoveryEpoch)
      else if cb_recovery_epoch state > 0 \<and> cb_triggered_at_ms state = None
        then Inl (InvalidSnapshot IncidentStateMissingTrigger)
      else Inr ())"

definition restored_reset ::
  "CircuitBreakerState \<Rightarrow> (CircuitBreakerRestoreFailure, unit) result" where
  "restored_reset state =
     (if (cb_status state = CircuitBreakerStatus.Closed) \<noteq> (cb_reason state = CircuitBreakerReason.Ok)
        then Inl (InvalidSnapshot StatusReasonMismatch)
      else if (cb_reset_at_ms state \<noteq> None) \<noteq> (cb_reset_by state \<noteq> None)
        then Inl (InvalidSnapshot ResetIdentityIncomplete)
      else if (case cb_reset_by state of None \<Rightarrow> False | Some reset_by \<Rightarrow> trim_is_empty reset_by)
        then Inl (InvalidSnapshot ResetByBlank)
      else Inr ())"

definition restored_status ::
  "CircuitBreakerState \<Rightarrow> (CircuitBreakerRestoreFailure, unit) result" where
  "restored_status state =
     (let reset_pair_present = (cb_reset_at_ms state \<noteq> None \<and> cb_reset_by state \<noteq> None);
          half_open_fields = [cb_half_opened_at_ms state \<noteq> None,
            cb_half_open_daily_loss_baseline_bps state \<noteq> None,
            cb_half_open_drawdown_baseline_bps state \<noteq> None]
      in case cb_status state of
        CircuitBreakerStatus.Closed \<Rightarrow>
          if list_ex (\<lambda>present. present) half_open_fields
            then Inl (InvalidSnapshot HalfOpenRecoveryDataOutsideHalfOpen)
          else if cb_recovery_epoch state = 0 then
            if cb_triggered_at_ms state \<noteq> None \<or> cb_last_incident_fingerprint state \<noteq> None
                \<or> cb_incident_evidence_cleared_at_ms state \<noteq> None \<or> reset_pair_present
              then Inl (InvalidSnapshot InitialStateHasIncidentData)
            else Inr ()
          else if \<not> reset_pair_present then Inl (InvalidSnapshot ClosedStateMissingResetData)
          else Inr ()
      | CircuitBreakerStatus.Open \<Rightarrow>
          if reset_pair_present then Inl (InvalidSnapshot ActiveStateHasResetData)
          else if list_ex (\<lambda>present. present) half_open_fields
            then Inl (InvalidSnapshot HalfOpenRecoveryDataOutsideHalfOpen)
          else Inr ()
      | CircuitBreakerStatus.HalfOpen \<Rightarrow>
          if reset_pair_present then Inl (InvalidSnapshot ActiveStateHasResetData)
          else if list_ex (\<lambda>present. \<not> present) half_open_fields
            then Inl (InvalidSnapshot HalfOpenRecoveryDataIncomplete)
          else Inr ())"

text \<open>The loop over the fingerprint: \<open>before\<close> is the slice \<open>fingerprint.0[..index]\<close>.\<close>

primrec fingerprint_loop ::
  "CircuitBreakerIncidentEvidence list \<Rightarrow> CircuitBreakerIncidentEvidence list \<Rightarrow>
   (CircuitBreakerRestoreFailure, unit) result" where
  "fingerprint_loop before [] = Inr ()"
| "fingerprint_loop before (evidence # rest) =
     (if List.member before evidence then Inl (InvalidSnapshot FingerprintDuplicateEvidence)
      else if incident_evidence_has_blank_text evidence then Inl (InvalidSnapshot FingerprintTextBlank)
      else fingerprint_loop (before @ [evidence]) rest)"

definition restored_fingerprint ::
  "CircuitBreakerState \<Rightarrow> (CircuitBreakerRestoreFailure, unit) result" where
  "restored_fingerprint state =
     (if cb_last_incident_fingerprint state \<noteq> None \<and> cb_incident_evidence_cleared_at_ms state \<noteq> None
        then Inl (InvalidSnapshot FingerprintAndEvidenceClearedCoexist)
      else if is_active (cb_status state) \<and> cb_last_incident_fingerprint state = None
          \<and> cb_incident_evidence_cleared_at_ms state = None
        then Inl (InvalidSnapshot ActiveStateMissingFingerprintOrClearEvidence)
      else if (case cb_triggered_by state of
          Some (CircuitBreakerTriggerSource.Operator operator_id) \<Rightarrow> trim_is_empty operator_id
        | _ \<Rightarrow> False)
        then Inl (InvalidSnapshot TriggerSourceBlank)
      else case cb_last_incident_fingerprint state of
        None \<Rightarrow> Inr ()
      | Some [] \<Rightarrow> Inl (InvalidSnapshot FingerprintEmpty)
      | Some (primary # rest) \<Rightarrow>
          bindR (fingerprint_loop [] (primary # rest)) (\<lambda>_.
          if is_active (cb_status state) then
            if incident_evidence_reason primary \<noteq> cb_reason state
              then Inl (InvalidSnapshot FingerprintPrimaryReasonMismatch)
            else if cb_triggered_by state \<noteq> Some (incident_evidence_source primary)
              then Inl (InvalidSnapshot FingerprintPrimarySourceMismatch)
            else Inr ()
          else Inr ()))"

definition restored_order ::
  "CircuitBreakerState \<Rightarrow> (CircuitBreakerRestoreFailure, unit) result" where
  "restored_order state =
     bindR (case cb_triggered_at_ms state of
         None \<Rightarrow> Inr ()
       | Some triggered_at_ms \<Rightarrow>
           check_each (\<lambda>later. if later < triggered_at_ms
               then Inl (InvalidSnapshot TimestampOrderInvalid) else Inr ())
             (flatten_opts [cb_incident_evidence_cleared_at_ms state, cb_half_opened_at_ms state,
               cb_reset_at_ms state])) (\<lambda>_.
     bindR (case (cb_incident_evidence_cleared_at_ms state, cb_half_opened_at_ms state) of
         (Some cleared_at_ms, Some half_opened_at_ms) \<Rightarrow>
           if half_opened_at_ms < cleared_at_ms
             then Inl (InvalidSnapshot TimestampOrderInvalid) else Inr ()
       | _ \<Rightarrow> Inr ()) (\<lambda>_.
     case (cb_incident_evidence_cleared_at_ms state, cb_reset_at_ms state) of
         (Some cleared_at_ms, Some reset_at_ms) \<Rightarrow>
           if reset_at_ms < cleared_at_ms
             then Inl (InvalidSnapshot TimestampOrderInvalid) else Inr ()
       | _ \<Rightarrow> Inr ()))"

definition validate_restored_state ::
  "CircuitBreakerState \<Rightarrow> i64 \<Rightarrow> (CircuitBreakerRestoreFailure, unit) result" where
  "validate_restored_state state server_now_ms =
     (if cb_recovery_epoch state = u64_max then Inl (InvalidSnapshot RecoveryEpochExhausted)
      else bindR (restored_timestamps state server_now_ms) (\<lambda>_.
      bindR (restored_trigger state) (\<lambda>_.
      bindR (restored_reset state) (\<lambda>_.
      bindR (restored_status state) (\<lambda>_.
      bindR (restored_fingerprint state) (\<lambda>_.
      restored_order state))))))"

section \<open>Snapshots and restore\<close>

record CircuitBreakerSnapshotV1 =
  snap_schema_version :: string
  snap_recovery_epoch :: u64
  snap_status :: CircuitBreakerStatus
  snap_reason :: CircuitBreakerReason
  snap_triggered_at_ms :: "i64 option"
  snap_triggered_by :: "CircuitBreakerTriggerSource option"
  snap_last_incident_fingerprint :: "CircuitBreakerIncidentFingerprint option"
  snap_incident_evidence_cleared_at_ms :: "i64 option"
  snap_half_opened_at_ms :: "i64 option"
  snap_half_open_daily_loss_baseline_bps :: "BasisPoints option"
  snap_half_open_drawdown_baseline_bps :: "BasisPoints option"
  snap_reset_at_ms :: "i64 option"
  snap_reset_by :: "string option"
  snap_blocked_intent_count :: u64

definition CIRCUIT_BREAKER_SNAPSHOT_SCHEMA_VERSION_V1 :: string where
  "CIRCUIT_BREAKER_SNAPSHOT_SCHEMA_VERSION_V1 = ''circuit-breaker-state.v1''"

definition durable_snapshot_v1 :: "CircuitBreakerState \<Rightarrow> CircuitBreakerSnapshotV1" where
  "durable_snapshot_v1 state =
     \<lparr>snap_schema_version = CIRCUIT_BREAKER_SNAPSHOT_SCHEMA_VERSION_V1,
      snap_recovery_epoch = cb_recovery_epoch state,
      snap_status = cb_status state,
      snap_reason = cb_reason state,
      snap_triggered_at_ms = cb_triggered_at_ms state,
      snap_triggered_by = cb_triggered_by state,
      snap_last_incident_fingerprint = cb_last_incident_fingerprint state,
      snap_incident_evidence_cleared_at_ms = cb_incident_evidence_cleared_at_ms state,
      snap_half_opened_at_ms = cb_half_opened_at_ms state,
      snap_half_open_daily_loss_baseline_bps = cb_half_open_daily_loss_baseline_bps state,
      snap_half_open_drawdown_baseline_bps = cb_half_open_drawdown_baseline_bps state,
      snap_reset_at_ms = cb_reset_at_ms state,
      snap_reset_by = cb_reset_by state,
      snap_blocked_intent_count = cb_blocked_intent_count state\<rparr>"

definition snapshot_state :: "CircuitBreakerSnapshotV1 \<Rightarrow> CircuitBreakerState" where
  "snapshot_state snapshot =
     \<lparr>cb_recovery_epoch = snap_recovery_epoch snapshot,
      cb_status = snap_status snapshot,
      cb_reason = snap_reason snapshot,
      cb_triggered_at_ms = snap_triggered_at_ms snapshot,
      cb_triggered_by = snap_triggered_by snapshot,
      cb_last_incident_fingerprint = snap_last_incident_fingerprint snapshot,
      cb_incident_evidence_cleared_at_ms = snap_incident_evidence_cleared_at_ms snapshot,
      cb_half_opened_at_ms = snap_half_opened_at_ms snapshot,
      cb_half_open_daily_loss_baseline_bps = snap_half_open_daily_loss_baseline_bps snapshot,
      cb_half_open_drawdown_baseline_bps = snap_half_open_drawdown_baseline_bps snapshot,
      cb_reset_at_ms = snap_reset_at_ms snapshot,
      cb_reset_by = snap_reset_by snapshot,
      cb_blocked_intent_count = snap_blocked_intent_count snapshot\<rparr>"

record CircuitBreakerRecoveryEpochExhausted =
  ree_last_recovery_epoch :: u64
  ree_restore_failure :: CircuitBreakerRestoreFailure
  ree_outcome :: CircuitBreakerOutcome

definition fail_closed_circuit_breaker_restore_after_epoch ::
  "CircuitBreakerRestoreFailure \<Rightarrow> i64 \<Rightarrow> u64 \<Rightarrow>
   (CircuitBreakerRecoveryEpochExhausted, CircuitBreakerOutcome) result option" where
  "fail_closed_circuit_breaker_restore_after_epoch failure server_now_ms last_recovery_epoch =
     (let previous = CircuitBreakerState_new\<lparr>cb_recovery_epoch := last_recovery_epoch\<rparr>
      in case checked_add_u64 last_recovery_epoch 1 of
        None \<Rightarrow> Some (Inl \<lparr>ree_last_recovery_epoch = last_recovery_epoch,
          ree_restore_failure = failure,
          ree_outcome = recovery_epoch_overflow previous server_now_ms\<rparr>)
      | Some next_recovery_epoch \<Rightarrow>
          (case safety_fallback previous server_now_ms
              (CircuitBreakerError.DurableRestoreFailed failure) of
            None \<Rightarrow> None
          | Some outcome \<Rightarrow>
              if cb_recovery_epoch (out_state outcome) = next_recovery_epoch
              then Some (Inr outcome) else None))"

definition fail_closed_circuit_breaker_restore ::
  "CircuitBreakerRestoreFailure \<Rightarrow> i64 \<Rightarrow> CircuitBreakerOutcome option" where
  "fail_closed_circuit_breaker_restore failure server_now_ms =
     (case fail_closed_circuit_breaker_restore_after_epoch failure server_now_ms 0 of
        None \<Rightarrow> None
      | Some (Inl _) \<Rightarrow> None
      | Some (Inr outcome) \<Rightarrow> Some outcome)"

definition restore_circuit_breaker_snapshot_v1 ::
  "CircuitBreakerSnapshotV1 \<Rightarrow> i64 \<Rightarrow> CircuitBreakerOutcome option" where
  "restore_circuit_breaker_snapshot_v1 snapshot server_now_ms =
     (if server_now_ms < 0
        then fail_closed_circuit_breaker_restore (InvalidServerTime server_now_ms) server_now_ms
      else if snap_schema_version snapshot \<noteq> CIRCUIT_BREAKER_SNAPSHOT_SCHEMA_VERSION_V1
        then fail_closed_circuit_breaker_restore
          (UnsupportedSchemaVersion (snap_schema_version snapshot)) server_now_ms
      else (let state = snapshot_state snapshot
        in case validate_restored_state state server_now_ms of
          Inl failure \<Rightarrow> fail_closed_circuit_breaker_restore failure server_now_ms
        | Inr _ \<Rightarrow> Some (outcome_unchanged state)))"

definition restore_circuit_breaker_snapshot ::
  "(string \<Rightarrow> CircuitBreakerSnapshotV1 option) \<Rightarrow> string option \<Rightarrow> i64 \<Rightarrow>
   CircuitBreakerOutcome option" where
  "restore_circuit_breaker_snapshot from_str snapshot_json server_now_ms =
     (if server_now_ms < 0
        then fail_closed_circuit_breaker_restore (InvalidServerTime server_now_ms) server_now_ms
      else case snapshot_json of
        None \<Rightarrow> fail_closed_circuit_breaker_restore MissingSnapshot server_now_ms
      | Some json \<Rightarrow>
          (case from_str json of
            None \<Rightarrow> fail_closed_circuit_breaker_restore CorruptPayload server_now_ms
          | Some snapshot \<Rightarrow> restore_circuit_breaker_snapshot_v1 snapshot server_now_ms))"

end
