(* ===== verification/Circuit_Breaker_Safety.thy ===== *)
theory Circuit_Breaker_Safety
  imports Circuit_Breaker_Restore
begin

text \<open>
  The lemmas behind the circuit breaker's guarantees: the violations of one observation are
  reported in order and without repetition, every outcome of \<open>transition\<close> has one of six shapes
  (\<open>outcome_shape\<close>, \<open>transition_shape\<close>), the validator of restored states is characterised
  (\<open>validate_restored_state_iff\<close>), every transition keeps \<open>breaker_inv\<close>, and a failed restore opens
  the breaker.
\<close>

section \<open>Evidence collected from an input\<close>

text \<open>The violations of one observation come in the order of the variants, each at most once.\<close>

primrec violation_rank :: "CircuitBreakerViolation \<Rightarrow> nat" where
  "violation_rank (CircuitBreakerViolation.DailyRealizedLoss _ _) = 0"
| "violation_rank (CircuitBreakerViolation.DailyRealizedLossWorsened _ _) = 1"
| "violation_rank (CircuitBreakerViolation.EquityDrawdown _ _) = 2"
| "violation_rank (CircuitBreakerViolation.EquityDrawdownWorsened _ _) = 3"
| "violation_rank (CircuitBreakerViolation.ConsecutiveBrokerRejections _ _) = 4"
| "violation_rank (CircuitBreakerViolation.ConsecutiveCommandFailures _ _) = 5"
| "violation_rank (CircuitBreakerViolation.ManualReconciliationRequired _) = 6"
| "violation_rank CircuitBreakerViolation.StoreRecoveryReconciliationPending = 7"
| "violation_rank (CircuitBreakerViolation.TimeSyncUnhealthy _ _) = 8"
| "violation_rank (CircuitBreakerViolation.SnapshotStale _ _) = 9"
| "violation_rank (CircuitBreakerViolation.SymbolMetadataStale _ _) = 10"
| "violation_rank (CircuitBreakerViolation.ManualTrigger _ _) = 11"
| "violation_rank CircuitBreakerViolation.HardRiskViolationDuringRecovery = 12"
| "violation_rank CircuitBreakerViolation.SafetyInvariantViolation = 13"

definition evidence_rank :: "CircuitBreakerIncidentEvidence \<Rightarrow> nat" where
  "evidence_rank e = (case e of
     CircuitBreakerIncidentEvidence.DailyRealizedLoss _ _ \<Rightarrow> 0
   | CircuitBreakerIncidentEvidence.DailyRealizedLossWorsened _ _ \<Rightarrow> 1
   | CircuitBreakerIncidentEvidence.EquityDrawdown _ _ \<Rightarrow> 2
   | CircuitBreakerIncidentEvidence.EquityDrawdownWorsened _ _ \<Rightarrow> 3
   | CircuitBreakerIncidentEvidence.ConsecutiveBrokerRejections _ _ \<Rightarrow> 4
   | CircuitBreakerIncidentEvidence.ConsecutiveCommandFailures _ _ \<Rightarrow> 5
   | CircuitBreakerIncidentEvidence.ManualReconciliationRequired _ \<Rightarrow> 6
   | CircuitBreakerIncidentEvidence.StoreRecoveryReconciliationPending \<Rightarrow> 7
   | CircuitBreakerIncidentEvidence.TimeSyncUnhealthy _ _ \<Rightarrow> 8
   | CircuitBreakerIncidentEvidence.SnapshotStale _ _ \<Rightarrow> 9
   | CircuitBreakerIncidentEvidence.SymbolMetadataStale _ _ \<Rightarrow> 10
   | CircuitBreakerIncidentEvidence.ManualTrigger _ _ \<Rightarrow> 11
   | CircuitBreakerIncidentEvidence.HardRiskViolationDuringRecovery \<Rightarrow> 12
   | CircuitBreakerIncidentEvidence.SafetyInvariantViolation \<Rightarrow> 13
   | SafetyInvariantError _ \<Rightarrow> 14)"

lemma evidence_of_violation [simp]:
  "evidence_rank (incident_evidence input v) = violation_rank v"
  "incident_evidence_reason (incident_evidence input v) = violation_reason v"
  "incident_evidence_source (incident_evidence input v) = violation_source v"
  by (cases v; simp add: evidence_rank_def)+

definition ranked :: "CircuitBreakerViolation list \<Rightarrow> bool" where
  "ranked vs = sorted_wrt (<) (map violation_rank vs)"

definition violation_has_blank_text :: "CircuitBreakerViolation \<Rightarrow> bool" where
  "violation_has_blank_text v = (case v of
     CircuitBreakerViolation.ManualTrigger operator_id reason \<Rightarrow>
       trim_is_empty operator_id \<or> trim_is_empty reason
   | _ \<Rightarrow> False)"

lemma evidence_blank [simp]:
  "incident_evidence_has_blank_text (incident_evidence input v) = violation_has_blank_text v"
  by (cases v) (simp_all add: incident_evidence_has_blank_text_def violation_has_blank_text_def)

lemma ranked_distinct_evidence:
  assumes "ranked vs" shows "distinct (incident_fingerprint vs input)"
proof -
  have "distinct (map evidence_rank (incident_fingerprint vs input))"
    using assms by (simp add: ranked_def incident_fingerprint_def comp_def strict_sorted_iff)
  then show ?thesis by (simp add: distinct_map)
qed

text \<open>The evidence that goes into a state: well formed, and its first entry names reason and source.\<close>

definition fingerprint_ok :: "CircuitBreakerIncidentFingerprint \<Rightarrow> bool" where
  "fingerprint_ok fp \<longleftrightarrow> fp \<noteq> [] \<and> distinct fp \<and> (\<forall>e \<in> set fp. \<not> incident_evidence_has_blank_text e)"

definition reported :: "CircuitBreakerViolation list \<Rightarrow> bool" where
  "reported vs \<longleftrightarrow> ranked vs \<and> (\<forall>v \<in> set vs. \<not> violation_has_blank_text v \<and> violation_rank v \<le> 12)"

lemma reported_fingerprint:
  "reported vs \<Longrightarrow> vs \<noteq> [] \<Longrightarrow> fingerprint_ok (incident_fingerprint vs input)"
  by (simp add: reported_def fingerprint_ok_def ranked_distinct_evidence)
    (simp add: incident_fingerprint_def)

lemma time_sync_reported:
  assumes "time_sync_violations policy input now = Inr vs"
  shows "vs = [] \<or> (\<exists>d t. vs = [CircuitBreakerViolation.TimeSyncUnhealthy d t])"
  using assms
  by (auto simp: time_sync_violations_def split: option.splits if_splits)

text \<open>A list with one guarded entry, without a case split.\<close>

lemma guarded_entry:
  "(\<forall>v \<in> set (if b then [x] else []). P v) \<longleftrightarrow> (b \<longrightarrow> P x)"
  "map f (if b then [x] else []) = (if b then [f x] else [])"
  "sorted_wrt R (if b then [x] else []) = True"
  by (cases b; simp)+

lemma collect_reported:
  assumes "collect_violations policy input now = Inr vs"
  shows "reported vs" and "\<forall>v \<in> set vs. violation_rank v \<in> {0, 2} \<union> {4..11}"
proof -
  obtain ts where ts: "time_sync_violations policy input now = Inr ts"
    using assms by (auto simp: collect_violations_def bindR_eq_Inr)
  have trigger: "\<not> trim_is_empty (mt_operator_id t) \<and> \<not> trim_is_empty (mt_reason t)"
    if "cbi_manual_trigger input = Some t" for t
    using assms that
    by (auto simp: collect_violations_def result_simps validate_non_blank_def split: option.splits)
  obtain b x y where ts_eq: "ts = (if b then [CircuitBreakerViolation.TimeSyncUnhealthy x y] else [])"
    using time_sync_reported [OF ts] by metis
  have m: "(case cbi_manual_trigger input of None \<Rightarrow> [] | Some trigger \<Rightarrow>
      [CircuitBreakerViolation.ManualTrigger (mt_operator_id trigger) (mt_reason trigger)]) =
      (if cbi_manual_trigger input \<noteq> None
       then [CircuitBreakerViolation.ManualTrigger (mt_operator_id (the (cbi_manual_trigger input)))
         (mt_reason (the (cbi_manual_trigger input)))] else [])"
    by (simp split: option.split)
  have said: "cbi_manual_trigger input \<noteq> None \<longrightarrow>
      \<not> trim_is_empty (mt_operator_id (the (cbi_manual_trigger input)))
      \<and> \<not> trim_is_empty (mt_reason (the (cbi_manual_trigger input)))"
    using trigger by auto
  note vs = assms [unfolded collect_violations_def ts m ts_eq bindR_eq_Inr sum.inject ex_simps simp_thms,
      THEN conjunct2, symmetric]
  show "reported vs" and "\<forall>v \<in> set vs. violation_rank v \<in> {0, 2} \<union> {4..11}"
    unfolding vs reported_def ranked_def
    by (simp_all add: sorted_wrt_append guarded_entry ball_Un violation_has_blank_text_def said
      split del: if_split)
qed

lemma found_rank:
  "is_daily_realized_loss v \<Longrightarrow> violation_rank v = 0 \<and> \<not> violation_has_blank_text v"
  "is_equity_drawdown v \<Longrightarrow> violation_rank v = 2 \<and> \<not> violation_has_blank_text v"
  "blocks_recovery v \<Longrightarrow> violation_rank v \<in> {0, 2} \<union> {4..11} \<Longrightarrow> violation_rank v \<in> {4..11}"
  by (cases v; simp add: violation_has_blank_text_def blocks_recovery_def)+

lemma filter_half_open_reported:
  assumes f: "filter_half_open_violations state all input = Inr vs"
    and c: "collect_violations policy input now = Inr all"
  shows "reported vs" and "\<forall>v \<in> set vs. violation_rank v \<le> 11"
proof -
  note all = collect_reported [OF c]
  have late: "violation_rank v \<in> {4..11}" if "v \<in> set all" "blocks_recovery v" for v
    using that all(2) found_rank(3) by blast
  have sorted: "sorted_wrt (<) (map violation_rank (filter blocks_recovery all))"
    using all(1) by (simp add: reported_def ranked_def sorted_wrt_map sorted_wrt_filter)
  obtain d q where "cb_half_open_daily_loss_baseline_bps state = Some d"
    "cb_half_open_drawdown_baseline_bps state = Some q"
    using f by (auto simp: filter_half_open_violations_def split: option.splits)
  note fdef = f [unfolded filter_half_open_violations_def this option.case sum.inject]
  define a where "a = (case find is_daily_realized_loss all of Some v \<Rightarrow> v
    | None \<Rightarrow> CircuitBreakerViolation.DailyRealizedLossWorsened d (cbi_daily_realized_loss_bps input))"
  define b where "b = (case find is_equity_drawdown all of Some v \<Rightarrow> v
    | None \<Rightarrow> CircuitBreakerViolation.EquityDrawdownWorsened q (cbi_equity_drawdown_bps input))"
  have a: "violation_rank a \<le> 1" "\<not> violation_has_blank_text a"
    using found_rank(1) by (auto simp: a_def violation_has_blank_text_def find_Some_iff split: option.splits)
  have b: "violation_rank b \<in> {2, 3}" "\<not> violation_has_blank_text b"
    using found_rank(2) by (auto simp: b_def violation_has_blank_text_def find_Some_iff split: option.splits)
  have rest: "4 \<le> violation_rank v \<and> violation_rank v \<le> 11 \<and> \<not> violation_has_blank_text v"
    if "v \<in> set (filter blocks_recovery all)" for v
    using that late [of v] all(1) by (auto simp: reported_def)
  show "reported vs" and "\<forall>v \<in> set vs. violation_rank v \<le> 11"
    unfolding fdef [symmetric] a_def [symmetric] b_def [symmetric] reported_def ranked_def
    using a b rest sorted
    by (fastforce simp: sorted_wrt_append)+
qed

lemma half_open_reported:
  assumes "half_open_violations policy state input now = Inr vs"
  shows "reported (vs @ (if hard then [CircuitBreakerViolation.HardRiskViolationDuringRecovery] else []))"
proof -
  obtain all where "collect_violations policy input now = Inr all"
    "filter_half_open_violations state all input = Inr vs"
    using assms by (auto simp: half_open_violations_def bindR_eq_Inr)
  note r = filter_half_open_reported [OF this(2,1)]
  then show ?thesis
    by (auto simp: reported_def ranked_def sorted_wrt_append violation_has_blank_text_def
      less_Suc_eq_le intro: le_less_trans)
qed

section \<open>The outcomes of a transition\<close>

text \<open>\<open>open\<close> and \<open>recovery_epoch_overflow\<close> write the same fields.\<close>

definition tripped_state ::
  "CircuitBreakerState \<Rightarrow> u64 \<Rightarrow> CircuitBreakerIncidentFingerprint \<Rightarrow> i64 \<Rightarrow> CircuitBreakerState" where
  "tripped_state state epoch fp at = state\<lparr>cb_recovery_epoch := epoch,
     cb_status := CircuitBreakerStatus.Open,
     cb_reason := incident_evidence_reason (hd fp),
     cb_triggered_at_ms := Some at,
     cb_triggered_by := Some (incident_evidence_source (hd fp)),
     cb_last_incident_fingerprint := Some fp,
     cb_incident_evidence_cleared_at_ms := None,
     cb_half_opened_at_ms := None,
     cb_half_open_daily_loss_baseline_bps := None,
     cb_half_open_drawdown_baseline_bps := None,
     cb_reset_at_ms := None,
     cb_reset_by := None\<rparr>"

definition next_epoch :: "u64 \<Rightarrow> u64" where
  "next_epoch epoch = (if epoch + 1 \<le> u64_max then epoch + 1 else epoch)"

definition not_before :: "CircuitBreakerState \<Rightarrow> i64 \<Rightarrow> bool" where
  "not_before state at \<longleftrightarrow> 0 \<le> at \<and> (\<forall>t. latest_transition_at_ms state = Some t \<longrightarrow> t \<le> at)"

text \<open>
  The shapes of an outcome. \<open>tripped\<close> covers every incident, the safety fallbacks included.
\<close>

inductive outcome_shape ::
  "CircuitBreakerPolicy \<Rightarrow> CircuitBreakerState \<Rightarrow> TransitionRequest \<Rightarrow> i64 \<Rightarrow> CircuitBreakerOutcome \<Rightarrow> bool"
  for policy state request now where
  kept: "out_state out = state \<Longrightarrow> out_transition out = NoChange \<Longrightarrow>
    out_manual_reset_audit out = None \<Longrightarrow>
    (out_error out \<noteq> None \<longrightarrow> is_active (cb_status state)) \<Longrightarrow>
    (cb_status state = CircuitBreakerStatus.Closed \<longrightarrow> out_violations out = []) \<Longrightarrow>
    outcome_shape policy state request now out"
| tripped: "out_state out = tripped_state state (next_epoch (cb_recovery_epoch state)) fp at \<Longrightarrow>
    fingerprint_ok fp \<Longrightarrow> not_before state at \<Longrightarrow>
    out_transition out \<in> {Opened, Reopened, SafetyFallbackOpened} \<Longrightarrow>
    out_violations out \<noteq> [] \<Longrightarrow> out_manual_reset_audit out = None \<Longrightarrow>
    outcome_shape policy state request now out"
| cleared: "cb_status state = CircuitBreakerStatus.Open \<Longrightarrow> not_before state now \<Longrightarrow>
    cb_last_incident_fingerprint state \<noteq> None \<Longrightarrow>
    out = \<lparr>out_state = state\<lparr>cb_last_incident_fingerprint := None,
        cb_incident_evidence_cleared_at_ms := Some now\<rparr>,
      out_transition = IncidentEvidenceCleared, out_violations = [], out_error = None,
      out_manual_reset_audit = None\<rparr> \<Longrightarrow>
    outcome_shape policy state request now out"
| half_opened: "cb_status state = CircuitBreakerStatus.Open \<Longrightarrow> not_before state now \<Longrightarrow>
    request = TransitionRequest.EnterHalfOpen readiness input \<Longrightarrow>
    hor_recovery_epoch readiness = cb_recovery_epoch state \<Longrightarrow>
    cb_triggered_at_ms state = Some triggered_at \<Longrightarrow>
    missing_half_open_prerequisites readiness triggered_at now = Inr [] \<Longrightarrow>
    collect_violations policy input now = Inr vs \<Longrightarrow> \<forall>v \<in> set vs. \<not> blocks_recovery v \<Longrightarrow>
    out = \<lparr>out_state = state\<lparr>cb_status := CircuitBreakerStatus.HalfOpen,
        cb_half_opened_at_ms := Some now,
        cb_half_open_daily_loss_baseline_bps := Some (cbi_daily_realized_loss_bps input),
        cb_half_open_drawdown_baseline_bps := Some (cbi_equity_drawdown_bps input)\<rparr>,
      out_transition = EnteredHalfOpen, out_violations = vs, out_error = None,
      out_manual_reset_audit = None\<rparr> \<Longrightarrow>
    outcome_shape policy state request now out"
| closed: "cb_status state = CircuitBreakerStatus.HalfOpen \<Longrightarrow> not_before state now \<Longrightarrow>
    CircuitBreakerPolicy_validate policy = Inr () \<Longrightarrow>
    request = TransitionRequest.Close health authorization \<Longrightarrow>
    half_open_violations policy state (rh_input health) now = Inr [] \<Longrightarrow>
    \<not> rh_new_hard_risk_violation health \<Longrightarrow> rh_clock_healthy health \<Longrightarrow>
    rh_state_store_healthy health \<Longrightarrow> cb_half_opened_at_ms state = Some half_opened_at \<Longrightarrow>
    half_open_observation_ms policy \<le> now - half_opened_at \<Longrightarrow>
    reset_identity policy authorization now = Inr (reset_by, audit) \<Longrightarrow>
    out = \<lparr>out_state = state\<lparr>cb_status := CircuitBreakerStatus.Closed,
        cb_reason := CircuitBreakerReason.Ok, cb_half_opened_at_ms := None,
        cb_half_open_daily_loss_baseline_bps := None, cb_half_open_drawdown_baseline_bps := None,
        cb_reset_at_ms := Some now, cb_reset_by := Some reset_by\<rparr>,
      out_transition = CircuitBreakerTransition.Closed, out_violations = [], out_error = None,
      out_manual_reset_audit = audit\<rparr> \<Longrightarrow>
    outcome_shape policy state request now out"
| counted: "request = TransitionRequest.RecordBlockedIntentCount observed \<Longrightarrow>
    cb_blocked_intent_count state < observed \<Longrightarrow>
    out = \<lparr>out_state = state\<lparr>cb_blocked_intent_count := observed\<rparr>,
      out_transition = BlockedIntentCountAdvanced, out_violations = [], out_error = None,
      out_manual_reset_audit = None\<rparr> \<Longrightarrow>
    outcome_shape policy state request now out"

lemma fallback_not_before: "not_before state (fallback_at_ms state now)"
  by (auto simp: not_before_def fallback_at_ms_def le_max_iff_disj split: option.split)

lemma open_breaker_shape:
  assumes "not_before state at" "reported vs" "vs \<noteq> []"
  shows "\<exists>out. open_breaker state vs (incident_fingerprint vs input) at reopened = Some out
    \<and> outcome_shape policy state request now out
    \<and> out_state out = tripped_state state (next_epoch (cb_recovery_epoch state))
        (if cb_recovery_epoch state + 1 \<le> u64_max then incident_fingerprint vs input
         else [SafetyInvariantError CircuitBreakerErrorFingerprint.RecoveryEpochOverflow])
        (if cb_recovery_epoch state + 1 \<le> u64_max then at else fallback_at_ms state at)"
proof (cases "cb_recovery_epoch state + 1 \<le> u64_max")
  case True
  obtain v rest where vs: "vs = v # rest" using assms(3) by (cases vs) auto
  let ?fp = "incident_fingerprint vs input"
  have fp: "fingerprint_ok ?fp" using reported_fingerprint [OF assms(2,3)] .
  have hd: "hd ?fp = incident_evidence input v" by (simp add: vs incident_fingerprint_def)
  show ?thesis
    using True fp assms(1) hd vs
    by (auto simp: open_breaker_def checked_add_u64_def tripped_state_def next_epoch_def
      intro!: outcome_shape.tripped [where fp = ?fp and at = at])
next
  case False
  let ?fp = "[SafetyInvariantError CircuitBreakerErrorFingerprint.RecoveryEpochOverflow]"
  have fp: "fingerprint_ok ?fp"
    by (simp add: fingerprint_ok_def incident_evidence_has_blank_text_def
      error_fingerprint_has_blank_text_def)
  show ?thesis
    using False fp fallback_not_before [of state at]
    by (auto simp: open_breaker_def checked_add_u64_def tripped_state_def next_epoch_def
      recovery_epoch_overflow_def intro!: outcome_shape.tripped [where fp = ?fp])
qed

text \<open>Errors that reach \<open>safety_fallback\<close> carry the messages of the code.\<close>

definition fallback_error :: "CircuitBreakerError \<Rightarrow> bool" where
  "fallback_error error \<longleftrightarrow> \<not> error_fingerprint_has_blank_text (error_fingerprint error)"

lemma safety_fallback_shape:
  assumes "fallback_error error"
  shows "\<exists>out. safety_fallback state at error = Some out \<and> outcome_shape policy state request now out
    \<and> out_error out \<noteq> None \<and> cb_status (out_state out) = CircuitBreakerStatus.Open
    \<and> out_violations out = [CircuitBreakerViolation.SafetyInvariantViolation]"
proof -
  let ?fp = "[SafetyInvariantError (error_fingerprint error)]"
  have fp: "fingerprint_ok ?fp"
    using assms by (simp add: fingerprint_ok_def incident_evidence_has_blank_text_def fallback_error_def)
  have overflow_fp: "fingerprint_ok [SafetyInvariantError CircuitBreakerErrorFingerprint.RecoveryEpochOverflow]"
    by (simp add: fingerprint_ok_def incident_evidence_has_blank_text_def
      error_fingerprint_has_blank_text_def)
  show ?thesis
  proof (cases "cb_status state = CircuitBreakerStatus.Open \<and> cb_last_incident_fingerprint state = Some ?fp")
    case True
    then show ?thesis
      by (auto simp: safety_fallback_def intro!: outcome_shape.kept)
  next
    case False
    show ?thesis
    proof (cases "cb_recovery_epoch state + 1 \<le> u64_max")
      case True
      show ?thesis
        using False True fp fallback_not_before [of state at]
        by (auto simp: safety_fallback_def open_breaker_def checked_add_u64_def Let_def
          tripped_state_def next_epoch_def intro!: outcome_shape.tripped [where fp = ?fp])
    next
      case epoch: False
      show ?thesis
        using False epoch overflow_fp fallback_not_before [of state "fallback_at_ms state at"]
        by (auto simp: safety_fallback_def open_breaker_def checked_add_u64_def Let_def
          tripped_state_def next_epoch_def recovery_epoch_overflow_def
          intro!: outcome_shape.tripped
            [where fp = "[SafetyInvariantError CircuitBreakerErrorFingerprint.RecoveryEpochOverflow]"])
    qed
  qed
qed

lemma blank_code_texts:
  "\<not> trim_is_empty ''must not be blank''" "\<not> trim_is_empty ''must be between zero and server_now_ms''"
  "\<not> trim_is_empty ''duration calculation must not overflow''" "\<not> trim_is_empty ''must not be negative''"
  "\<not> trim_is_empty ''must be greater than zero''"
  "\<not> trim_is_empty ''must be present while the breaker is open''"
  "\<not> trim_is_empty ''manual_trigger.operator_id''" "\<not> trim_is_empty ''manual_trigger.reason''"
  "\<not> trim_is_empty ''time_sync_unhealthy_since_ms''" "\<not> trim_is_empty ''server_now_ms''"
  "\<not> trim_is_empty ''state.triggered_at_ms''" "\<not> trim_is_empty ''max_time_sync_unhealthy_ms''"
  "\<not> trim_is_empty ''max_daily_realized_loss_bps''" "\<not> trim_is_empty ''max_equity_drawdown_bps''"
  "\<not> trim_is_empty ''max_consecutive_broker_rejections''"
  "\<not> trim_is_empty ''max_consecutive_command_failures''"
  "\<not> trim_is_empty ''half_open_observation_ms''"
  "\<not> trim_is_empty ''readiness.account_refreshed_at_ms''"
  "\<not> trim_is_empty ''readiness.positions_refreshed_at_ms''"
  "\<not> trim_is_empty ''readiness.orders_refreshed_at_ms''"
  "\<not> trim_is_empty ''readiness.symbol_metadata_refreshed_at_ms''"
  "\<not> trim_is_empty ''readiness.pending_commands_reconciled_at_ms''"
  "\<not> trim_is_empty ''AUTOMATIC''"
  by code_simp+

lemma fallback_error_simps:
  "fallback_error (CircuitBreakerError.InvalidInput f r) \<longleftrightarrow> \<not> trim_is_empty f \<and> \<not> trim_is_empty r"
  "fallback_error (CircuitBreakerError.InvalidPolicy f r) \<longleftrightarrow> \<not> trim_is_empty f \<and> \<not> trim_is_empty r"
  "fallback_error (CircuitBreakerError.ServerTimeRegressed a b)"
  "fallback_error CircuitBreakerError.HalfOpenBaselineMissing"
  "fallback_error (CircuitBreakerError.DurableRestoreFailed failure)"
  by (simp_all add: fallback_error_def error_fingerprint_has_blank_text_def)

lemmas fallback_errors = fallback_error_simps blank_code_texts

lemma collect_error: "collect_violations policy input now = Inl e \<Longrightarrow> fallback_error e"
  by (auto simp: collect_violations_def time_sync_violations_def validate_non_blank_def bindR_eq_Inl
    fallback_errors simp del: trim_is_empty_Nil split: option.splits if_splits)

lemma filter_half_open_error:
  "filter_half_open_violations state all input = Inl e \<Longrightarrow> fallback_error e"
  by (auto simp: filter_half_open_violations_def fallback_errors split: option.splits)

lemma half_open_error: "half_open_violations policy state input now = Inl e \<Longrightarrow> fallback_error e"
  by (auto simp: half_open_violations_def bindR_eq_Inl dest: collect_error filter_half_open_error)

lemma missing_loop_error:
  "missing_prerequisites_loop triggered now xs = Inl e \<Longrightarrow>
   \<forall>(field, _) \<in> set xs. \<not> trim_is_empty field \<Longrightarrow> fallback_error e"
  by (induction xs) (auto simp: bindR_eq_Inl fallback_errors split: prod.splits if_splits option.splits)

lemma missing_error: "missing_half_open_prerequisites readiness triggered now = Inl e \<Longrightarrow> fallback_error e"
  unfolding missing_half_open_prerequisites_def
  by (erule missing_loop_error) (simp add: blank_code_texts)

lemma policy_error: "CircuitBreakerPolicy_validate policy = Inl e \<Longrightarrow> fallback_error e"
  by (auto simp: CircuitBreakerPolicy_validate_def bindR_eq_Inl fallback_errors split: if_splits)

lemma observe_half_open_shape:
  assumes "not_before state now" "collect_violations policy input now = Inr all"
    and "is_active (cb_status state)"
  shows "\<exists>out. observe_half_open state all input now = Some out \<and> outcome_shape policy state request now out"
proof (cases "filter_half_open_violations state all input")
  case (Inl e)
  then show ?thesis
    using safety_fallback_shape [OF filter_half_open_error [OF Inl], of state now policy request now] by (auto simp: observe_half_open_def)
next
  case (Inr vs)
  show ?thesis
  proof (cases "vs = []")
    case True
    then show ?thesis using Inr assms(3)
      by (auto simp: observe_half_open_def outcome_unchanged_def intro!: outcome_shape.kept)
  next
    case False
    then show ?thesis
      using Inr open_breaker_shape [OF assms(1) filter_half_open_reported(1) [OF Inr assms(2)] False,
          of "Some input" True policy request now]
      by (auto simp: observe_half_open_def)
  qed
qed

lemma observe_shape:
  assumes "not_before state now"
  shows "\<exists>out. observe policy state input now = Some out \<and> outcome_shape policy state request now out"
proof (cases "collect_violations policy input now")
  case (Inl e)
  then show ?thesis
    using safety_fallback_shape [OF collect_error [OF Inl], of state now policy request now] by (auto simp: observe_def)
next
  case (Inr vs)
  have trip: "\<exists>out. open_breaker state vs (incident_fingerprint vs (Some input)) now reopened = Some out
      \<and> outcome_shape policy state request now out" if "vs \<noteq> []" for reopened
    using open_breaker_shape [OF assms collect_reported(1) [OF Inr] that] by blast
  show ?thesis
  proof (cases "cb_status state")
    case Closed
    then show ?thesis using Inr trip
      by (cases "vs = []") (auto simp: observe_def outcome_unchanged_def intro!: outcome_shape.kept)
  next
    case HalfOpen
    then show ?thesis
      using Inr observe_half_open_shape [OF assms Inr, of request] by (simp add: observe_def)
  next
    case Open
    show ?thesis
    proof (cases "vs = []")
      case True
      then show ?thesis using Inr Open assms
        by (cases "cb_last_incident_fingerprint state")
          (auto simp: observe_def outcome_unchanged_def intro: outcome_shape.kept outcome_shape.cleared)
    next
      case False
      then show ?thesis using Inr Open trip [OF False, of True]
        by (auto simp: observe_def outcome_unchanged_def Let_def intro!: outcome_shape.kept)
    qed
  qed
qed

lemma enter_half_open_shape:
  assumes nb: "not_before state now"
    and request_def: "request = TransitionRequest.EnterHalfOpen readiness input"
  shows "\<exists>out. enter_half_open policy state readiness input now = Some out
    \<and> outcome_shape policy state request now out"
proof (cases "cb_status state")
  case Closed
  then show ?thesis
    by (auto simp: enter_half_open_def outcome_unchanged_def intro!: outcome_shape.kept)
next
  case HalfOpen
  then show ?thesis using observe_shape [OF nb] by (simp add: enter_half_open_def)
next
  case Open
  have stay: "outcome_shape policy state request now
      ((outcome_with_error state e)\<lparr>out_violations := us\<rparr>)" for e us
    using Open by (auto simp: outcome_with_error_def intro!: outcome_shape.kept)
  have stay': "outcome_shape policy state request now (outcome_with_error state e)" for e
    using Open by (auto simp: outcome_with_error_def intro!: outcome_shape.kept)
  have fallback: "\<exists>out. safety_fallback state now e = Some out \<and> outcome_shape policy state request now out"
    if "fallback_error e" for e
    using safety_fallback_shape [OF that] by blast
  show ?thesis
  proof (cases "collect_violations policy input now")
    case (Inl e)
    then show ?thesis using Open fallback [OF collect_error [OF Inl]] by (simp add: enter_half_open_def)
  next
    case (Inr vs)
    have trip: "\<exists>out. open_breaker state vs (incident_fingerprint vs (Some input)) now True = Some out
        \<and> outcome_shape policy state request now out" if "vs \<noteq> []"
      using open_breaker_shape [OF nb collect_reported(1) [OF Inr] that] by blast
    note goal = enter_half_open_def Open Inr Let_def
    consider (new) "vs \<noteq> []" "cb_last_incident_fingerprint state \<noteq> Some (incident_fingerprint vs (Some input))"
      | (blocked) "vs = [] \<or> cb_last_incident_fingerprint state = Some (incident_fingerprint vs (Some input))"
          "filter blocks_recovery vs \<noteq> []"
      | (ready) "vs = [] \<or> cb_last_incident_fingerprint state = Some (incident_fingerprint vs (Some input))"
          "filter blocks_recovery vs = []"
      by blast
    then show ?thesis
    proof cases
      case new
      then show ?thesis using trip by (simp add: goal)
    next
      case blocked
      then show ?thesis using stay by (auto simp: goal)
    next
      case ready
      show ?thesis
      proof (cases "cb_triggered_at_ms state")
        case None
        have "\<exists>out. safety_fallback state now (CircuitBreakerError.InvalidInput ''state.triggered_at_ms''
            ''must be present while the breaker is open'') = Some out
            \<and> outcome_shape policy state request now out"
          by (rule fallback) (simp add: fallback_errors)
        then show ?thesis using ready None by (auto simp: goal)
      next
        case (Some triggered)
        show ?thesis
        proof (cases "missing_half_open_prerequisites readiness triggered now")
          case (Inl e)
          then show ?thesis
            using ready Some stay' fallback [OF missing_error [OF Inl]] by (auto simp: goal)
        next
          case (Inr missing)
          then show ?thesis
            using ready Some stay' Open nb \<open>collect_violations policy input now = Inr vs\<close>
            by (auto simp: goal request_def filter_empty_conv intro!: outcome_shape.half_opened)
        qed
      qed
    qed
  qed
qed

lemma close_breaker_shape:
  assumes nb: "not_before state now" and policy: "CircuitBreakerPolicy_validate policy = Inr ()"
    and request_def: "request = TransitionRequest.Close health authorization"
  shows "\<exists>out. close_breaker policy state health authorization now = Some out
    \<and> outcome_shape policy state request now out"
proof (cases "cb_status state")
  case Closed
  then show ?thesis
    by (auto simp: close_breaker_def outcome_unchanged_def intro!: outcome_shape.kept)
next
  case Open
  then show ?thesis
    by (auto simp: close_breaker_def outcome_with_error_def intro!: outcome_shape.kept)
next
  case HalfOpen
  have stay: "outcome_shape policy state request now (outcome_with_error state e)" for e
    using HalfOpen by (auto simp: outcome_with_error_def intro!: outcome_shape.kept)
  have fallback: "\<exists>out. safety_fallback state now e = Some out \<and> outcome_shape policy state request now out"
    if "fallback_error e" for e
    using safety_fallback_shape [OF that] by blast
  show ?thesis
  proof (cases "half_open_violations policy state (rh_input health) now")
    case (Inl e)
    then show ?thesis using HalfOpen fallback [OF half_open_error [OF Inl]] by (simp add: close_breaker_def)
  next
    case (Inr vs)
    define us where "us = vs @ (if rh_new_hard_risk_violation health
      then [CircuitBreakerViolation.HardRiskViolationDuringRecovery] else [])"
    have trip: "\<exists>out. open_breaker state us (incident_fingerprint us (Some (rh_input health))) now True = Some out
        \<and> outcome_shape policy state request now out" if "us \<noteq> []"
      using open_breaker_shape [OF nb half_open_reported [OF Inr, of "rh_new_hard_risk_violation health", folded us_def] that] by blast
    note goal = close_breaker_def HalfOpen Inr us_def [symmetric]
    show ?thesis
    proof (cases "us \<noteq> [] \<or> \<not> rh_clock_healthy health \<or> \<not> rh_state_store_healthy health")
      case True
      then show ?thesis using trip stay by (auto simp: goal Let_def)
    next
      case False
      show ?thesis
      proof (cases "cb_half_opened_at_ms state")
        case None
        then show ?thesis
          using False fallback [OF fallback_errors(4)] by (auto simp: goal Let_def)
      next
        case (Some since)
        show ?thesis
        proof (cases "now - since < half_open_observation_ms policy")
          case True
          then show ?thesis using False Some stay by (auto simp: goal Let_def)
        next
          case elapsed: False
          show ?thesis
          proof (cases "reset_identity policy authorization now")
            case (Inl e)
            then show ?thesis using False Some elapsed stay by (auto simp: goal Let_def)
          next
            case (Inr id)
            moreover have "vs = []" "\<not> rh_new_hard_risk_violation health"
              using False by (auto simp: us_def split: if_splits)
            ultimately show ?thesis
              using False Some elapsed nb policy HalfOpen \<open>half_open_violations _ _ _ _ = Inr vs\<close>
              by (cases id) (auto simp: goal Let_def request_def not_less intro!: outcome_shape.closed)
          qed
        qed
      qed
    qed
  qed
qed

lemma transition_shape:
  "\<exists>out. transition policy state request now = Some out \<and> outcome_shape policy state request now out"
proof -
  have fallback: "\<exists>out. safety_fallback state now e = Some out \<and> outcome_shape policy state request now out"
    if "fallback_error e" for e
    using safety_fallback_shape [OF that] by blast
  consider (time) "now < 0" | (policy) e where "0 \<le> now" "CircuitBreakerPolicy_validate policy = Inl e"
    | (regressed) latest where "0 \<le> now" "CircuitBreakerPolicy_validate policy = Inr ()"
        "latest_transition_at_ms state = Some latest" "now < latest"
    | (fine) "not_before state now" "CircuitBreakerPolicy_validate policy = Inr ()"
    by (cases "CircuitBreakerPolicy_validate policy"; cases "latest_transition_at_ms state")
      (auto simp: not_before_def not_less[symmetric])
  then show ?thesis
  proof cases
    case time
    have "fallback_error (CircuitBreakerError.InvalidInput ''server_now_ms'' ''must not be negative'')"
      by (simp add: fallback_errors)
    then show ?thesis using time fallback by (simp add: transition_def)
  next
    case (policy e)
    then show ?thesis using fallback [OF policy_error] by (simp add: transition_def)
  next
    case regressed
    then show ?thesis using fallback [OF fallback_errors(3)] by (simp add: transition_def)
  next
    case fine
    have "\<exists>out. dispatch_request policy state request now = Some out
        \<and> outcome_shape policy state request now out"
    proof (cases request)
      case (Observe input)
      then show ?thesis using observe_shape [OF fine(1)] by (simp add: dispatch_request_def)
    next
      case (EnterHalfOpen readiness input)
      then show ?thesis using enter_half_open_shape [OF fine(1)] by (simp add: dispatch_request_def)
    next
      case (Close health authorization)
      then show ?thesis using close_breaker_shape [OF fine] by (simp add: dispatch_request_def)
    next
      case (RecordBlockedIntentCount observed)
      then show ?thesis
        by (auto simp: dispatch_request_def record_blocked_intent_count_def outcome_unchanged_def
          intro: outcome_shape.kept outcome_shape.counted)
    qed
    moreover have "transition policy state request now = dispatch_request policy state request now"
      using fine by (auto simp: transition_def not_before_def split: option.split)
    ultimately show ?thesis by simp
  qed
qed

lemma transition_Some_shape:
  "transition policy state request now = Some out \<Longrightarrow> outcome_shape policy state request now out"
  using transition_shape [of policy state request now] by auto

section \<open>Well-formed states\<close>

definition timestamps_ok :: "CircuitBreakerState \<Rightarrow> bool" where
  "timestamps_ok state \<longleftrightarrow>
     (\<forall>t \<in> set (flatten_opts [cb_triggered_at_ms state, cb_incident_evidence_cleared_at_ms state,
       cb_half_opened_at_ms state, cb_reset_at_ms state]). 0 \<le> t)"

definition snapshot_ok :: "CircuitBreakerState \<Rightarrow> bool" where
  "snapshot_ok state \<longleftrightarrow> timestamps_ok state \<and> restored_trigger state = Inr ()
     \<and> restored_reset state = Inr () \<and> restored_status state = Inr ()
     \<and> restored_fingerprint state = Inr () \<and> restored_order state = Inr ()"

text \<open>The validator accepts an active state of epoch 0; a state the breaker produced is never that.\<close>

definition breaker_inv :: "CircuitBreakerState \<Rightarrow> bool" where
  "breaker_inv state \<longleftrightarrow> snapshot_ok state \<and> (is_active (cb_status state) \<longrightarrow> 0 < cb_recovery_epoch state)"

lemma set_flatten_opts [simp]: "set (flatten_opts xs) = {t. Some t \<in> set xs}"
  by (induction xs) (auto split: option.splits)

declare flatten_opts.simps(2) [simp del]

lemma foldl_max_le: "foldl max t ts \<le> u \<longleftrightarrow> t \<le> u \<and> (\<forall>x \<in> set ts. x \<le> (u::int))"
  by (induction ts arbitrary: t) auto

lemma latest_le:
  "(\<forall>t. latest_transition_at_ms state = Some t \<longrightarrow> t \<le> at) \<longleftrightarrow>
   (\<forall>t. Some t \<in> {cb_triggered_at_ms state, cb_incident_evidence_cleared_at_ms state,
     cb_half_opened_at_ms state, cb_reset_at_ms state} \<longrightarrow> t \<le> at)"
proof -
  define xs where "xs = [cb_triggered_at_ms state, cb_incident_evidence_cleared_at_ms state,
    cb_half_opened_at_ms state, cb_reset_at_ms state]"
  have "(\<forall>t. latest_transition_at_ms state = Some t \<longrightarrow> t \<le> at) \<longleftrightarrow> (\<forall>t \<in> set (flatten_opts xs). t \<le> at)"
    unfolding latest_transition_at_ms_def xs_def [symmetric]
    by (auto simp: foldl_max_le simp del: set_flatten_opts split: list.split)
  then show ?thesis by (simp add: xs_def)
qed

lemma restored_timestamps_iff:
  "restored_timestamps state now = Inr () \<longleftrightarrow>
   timestamps_ok state \<and> (\<forall>t. latest_transition_at_ms state = Some t \<longrightarrow> t \<le> now)"
  by (auto simp: restored_timestamps_def latest_le timestamps_ok_def check_each_ok unit_result_simps
    not_less split: option.splits if_splits)

lemma validate_restored_state_iff:
  "validate_restored_state state now = Inr () \<longleftrightarrow>
   cb_recovery_epoch state \<noteq> u64_max \<and> snapshot_ok state
   \<and> (\<forall>t. latest_transition_at_ms state = Some t \<longrightarrow> t \<le> now)"
  by (auto simp: validate_restored_state_def unit_result_simps snapshot_ok_def restored_timestamps_iff)

lemma fingerprint_loop_iff:
  "fingerprint_loop before fp = Inr () \<longleftrightarrow> distinct fp \<and> set fp \<inter> set before = {}
     \<and> (\<forall>e \<in> set fp. \<not> incident_evidence_has_blank_text e)"
  by (induction fp arbitrary: before) auto

lemma restored_fingerprint_iff:
  "restored_fingerprint state = Inr () \<longleftrightarrow>
     (cb_last_incident_fingerprint state = None \<or> cb_incident_evidence_cleared_at_ms state = None)
   \<and> (is_active (cb_status state) \<longrightarrow>
        cb_last_incident_fingerprint state \<noteq> None \<or> cb_incident_evidence_cleared_at_ms state \<noteq> None)
   \<and> (\<forall>id. cb_triggered_by state = Some (CircuitBreakerTriggerSource.Operator id) \<longrightarrow> \<not> trim_is_empty id)
   \<and> (\<forall>fp. cb_last_incident_fingerprint state = Some fp \<longrightarrow> fingerprint_ok fp
        \<and> (is_active (cb_status state) \<longrightarrow> incident_evidence_reason (hd fp) = cb_reason state
             \<and> cb_triggered_by state = Some (incident_evidence_source (hd fp))))"
  unfolding restored_fingerprint_def fingerprint_ok_def
  by (auto simp: unit_result_simps fingerprint_loop_iff
    split: option.splits list.splits if_splits CircuitBreakerTriggerSource.splits)

lemma restored_status_iff:
  "restored_status state = Inr () \<longleftrightarrow> (let reset = cb_reset_at_ms state \<noteq> None \<and> cb_reset_by state \<noteq> None in
   (case cb_status state of
      CircuitBreakerStatus.HalfOpen \<Rightarrow> \<not> reset \<and> cb_half_opened_at_ms state \<noteq> None
        \<and> cb_half_open_daily_loss_baseline_bps state \<noteq> None \<and> cb_half_open_drawdown_baseline_bps state \<noteq> None
    | status \<Rightarrow> cb_half_opened_at_ms state = None \<and> cb_half_open_daily_loss_baseline_bps state = None
        \<and> cb_half_open_drawdown_baseline_bps state = None
        \<and> (if status = CircuitBreakerStatus.Open then \<not> reset
           else if cb_recovery_epoch state = 0 then \<not> reset \<and> cb_triggered_at_ms state = None
             \<and> cb_last_incident_fingerprint state = None \<and> cb_incident_evidence_cleared_at_ms state = None
           else reset)))"
  by (cases "cb_status state") (auto simp: restored_status_def Let_def)

lemma restored_order_iff:
  "restored_order state = Inr () \<longleftrightarrow>
     (\<forall>t u. cb_triggered_at_ms state = Some t \<longrightarrow>
        Some u \<in> {cb_incident_evidence_cleared_at_ms state, cb_half_opened_at_ms state, cb_reset_at_ms state}
        \<longrightarrow> t \<le> u)
   \<and> (\<forall>t u. cb_incident_evidence_cleared_at_ms state = Some t \<longrightarrow>
        Some u \<in> {cb_half_opened_at_ms state, cb_reset_at_ms state} \<longrightarrow> t \<le> u)"
  by (auto simp: restored_order_def unit_result_simps check_each_ok not_less split: option.splits)

lemma restored_trigger_iff:
  "restored_trigger state = Inr () \<longleftrightarrow>
     (cb_triggered_at_ms state = None \<longleftrightarrow> cb_triggered_by state = None)
   \<and> (cb_triggered_at_ms state = None \<longleftrightarrow> cb_recovery_epoch state = 0)"
  by (auto simp: restored_trigger_def)

lemma restored_reset_iff:
  "restored_reset state = Inr () \<longleftrightarrow>
     (cb_status state = CircuitBreakerStatus.Closed \<longleftrightarrow> cb_reason state = CircuitBreakerReason.Ok)
   \<and> (cb_reset_at_ms state = None \<longleftrightarrow> cb_reset_by state = None)
   \<and> (\<forall>r. cb_reset_by state = Some r \<longrightarrow> \<not> trim_is_empty r)"
  by (auto simp: restored_reset_def split: option.splits)

lemmas snapshot_ok_defs = snapshot_ok_def timestamps_ok_def restored_trigger_iff restored_reset_iff
  restored_status_iff restored_fingerprint_iff restored_order_iff

lemma named_source_not_blank:
  "\<not> incident_evidence_has_blank_text e \<Longrightarrow>
   incident_evidence_source e = CircuitBreakerTriggerSource.Operator name \<Longrightarrow> \<not> trim_is_empty name"
  by (cases e) (auto simp: incident_evidence_has_blank_text_def)

lemma reason_not_ok: "incident_evidence_reason e \<noteq> CircuitBreakerReason.Ok"
  by (cases e) auto

lemma tripped_ok:
  assumes "fingerprint_ok fp" "0 \<le> at" "0 < epoch"
  shows "snapshot_ok (tripped_state state epoch fp at)"
proof -
  have "\<not> incident_evidence_has_blank_text (hd fp)"
    using assms(1) by (simp add: fingerprint_ok_def)
  with assms show ?thesis
    using named_source_not_blank [of "hd fp"]
    by (simp add: snapshot_ok_defs tripped_state_def reason_not_ok)
qed

lemma next_epoch_bounds: "epoch \<le> next_epoch epoch" "0 < next_epoch epoch"
  by (auto simp: next_epoch_def u64_max_def)

lemma breaker_inv_new: "breaker_inv CircuitBreakerState_new"
  by (simp add: breaker_inv_def snapshot_ok_defs CircuitBreakerState_new_def)

lemma reset_identity_not_blank:
  "reset_identity policy authorization now = Inr (by_whom, audit) \<Longrightarrow> \<not> trim_is_empty by_whom"
  by (auto simp: reset_identity_def validate_manual_reset_evidence_def result_simps unit_result_simps
    blank_code_texts split: ResetAuthorization.splits if_splits)

lemma snapshot_okE:
  assumes "snapshot_ok state"
  obtains "timestamps_ok state" "restored_trigger state = Inr ()" "restored_reset state = Inr ()"
    "restored_status state = Inr ()" "restored_fingerprint state = Inr ()" "restored_order state = Inr ()"
  using assms by (simp add: snapshot_ok_def)

lemma cleared_ok:
  assumes inv: "snapshot_ok state" and status: "cb_status state = CircuitBreakerStatus.Open"
    and nb: "not_before state now"
  shows "snapshot_ok (state\<lparr>cb_last_incident_fingerprint := None,
    cb_incident_evidence_cleared_at_ms := Some now\<rparr>)" (is "snapshot_ok ?s")
  using inv
proof (rule snapshot_okE)
  assume parts: "timestamps_ok state" "restored_trigger state = Inr ()" "restored_reset state = Inr ()"
    "restored_status state = Inr ()" "restored_fingerprint state = Inr ()" "restored_order state = Inr ()"
  have "timestamps_ok ?s" using parts(1) nb by (auto simp: timestamps_ok_def not_before_def)
  moreover have "restored_trigger ?s = Inr ()" using parts(2) by (auto simp: restored_trigger_iff)
  moreover have "restored_reset ?s = Inr ()" using parts(3) by (simp add: restored_reset_iff)
  moreover have "restored_status ?s = Inr ()" using parts(4) status by (simp add: restored_status_iff)
  moreover have "restored_fingerprint ?s = Inr ()"
    using parts(5) status by (simp add: restored_fingerprint_iff)
  moreover have "restored_order ?s = Inr ()"
    using parts(4) status parts(3) nb by (auto simp: restored_order_iff restored_status_iff restored_reset_iff
      not_before_def latest_le)
  ultimately show ?thesis by (simp only: snapshot_ok_def)
qed

lemma half_opened_ok:
  assumes inv: "snapshot_ok state" and status: "cb_status state = CircuitBreakerStatus.Open"
    and nb: "not_before state now"
  shows "snapshot_ok (state\<lparr>cb_status := CircuitBreakerStatus.HalfOpen,
    cb_half_opened_at_ms := Some now, cb_half_open_daily_loss_baseline_bps := Some daily,
    cb_half_open_drawdown_baseline_bps := Some drawdown\<rparr>)" (is "snapshot_ok ?s")
  using inv
proof (rule snapshot_okE)
  assume parts: "timestamps_ok state" "restored_trigger state = Inr ()" "restored_reset state = Inr ()"
    "restored_status state = Inr ()" "restored_fingerprint state = Inr ()" "restored_order state = Inr ()"
  have "timestamps_ok ?s" using parts(1) nb by (auto simp: timestamps_ok_def not_before_def)
  moreover have "restored_trigger ?s = Inr ()" using parts(2) by (auto simp: restored_trigger_iff)
  moreover have "restored_reset ?s = Inr ()" using parts(3) status by (simp add: restored_reset_iff)
  moreover have "restored_status ?s = Inr ()" using parts(4) status by (simp add: restored_status_iff)
  moreover have "restored_fingerprint ?s = Inr ()"
    using parts(5) status by (simp add: restored_fingerprint_iff)
  moreover have "restored_order ?s = Inr ()"
    using parts(6) nb by (auto simp: restored_order_iff not_before_def latest_le)
  ultimately show ?thesis by (simp only: snapshot_ok_def)
qed

lemma closed_ok:
  assumes inv: "snapshot_ok state" and status: "cb_status state = CircuitBreakerStatus.HalfOpen"
    and nb: "not_before state now" and named: "\<not> trim_is_empty by_whom"
    and epoch: "0 < cb_recovery_epoch state"
  shows "snapshot_ok (state\<lparr>cb_status := CircuitBreakerStatus.Closed,
    cb_reason := CircuitBreakerReason.Ok, cb_half_opened_at_ms := None,
    cb_half_open_daily_loss_baseline_bps := None, cb_half_open_drawdown_baseline_bps := None,
    cb_reset_at_ms := Some now, cb_reset_by := Some by_whom\<rparr>)" (is "snapshot_ok ?s")
  using inv
proof (rule snapshot_okE)
  assume parts: "timestamps_ok state" "restored_trigger state = Inr ()" "restored_reset state = Inr ()"
    "restored_status state = Inr ()" "restored_fingerprint state = Inr ()" "restored_order state = Inr ()"
  have "timestamps_ok ?s" using parts(1) nb by (auto simp: timestamps_ok_def not_before_def)
  moreover have "restored_trigger ?s = Inr ()" using parts(2) by (auto simp: restored_trigger_iff)
  moreover have "restored_reset ?s = Inr ()" using named by (simp add: restored_reset_iff)
  moreover have "restored_status ?s = Inr ()" using epoch by (simp add: restored_status_iff)
  moreover have "restored_fingerprint ?s = Inr ()"
    using parts(5) status by (simp add: restored_fingerprint_iff)
  moreover have "restored_order ?s = Inr ()"
    using parts(6) nb by (auto simp: restored_order_iff not_before_def latest_le)
  ultimately show ?thesis by (simp only: snapshot_ok_def)
qed

lemma counted_ok: "snapshot_ok (state\<lparr>cb_blocked_intent_count := n\<rparr>) = snapshot_ok state"
proof -
  let ?s = "state\<lparr>cb_blocked_intent_count := n\<rparr>"
  have "timestamps_ok ?s = timestamps_ok state" "restored_trigger ?s = restored_trigger state"
    "restored_reset ?s = restored_reset state" "restored_status ?s = restored_status state"
    "restored_fingerprint ?s = restored_fingerprint state" "restored_order ?s = restored_order state"
    by (simp_all add: timestamps_ok_def restored_trigger_def restored_reset_def restored_status_def
      restored_fingerprint_def restored_order_def
      cong: CircuitBreakerStatus.case_cong option.case_cong list.case_cong if_cong)
  then show ?thesis by (simp only: snapshot_ok_def)
qed

lemma transition_inv:
  assumes "transition policy state request now = Some out" "breaker_inv state"
  shows "breaker_inv (out_state out)"
proof -
  have ok: "snapshot_ok state" and epoch: "is_active (cb_status state) \<longrightarrow> 0 < cb_recovery_epoch state"
    using assms(2) by (simp_all add: breaker_inv_def)
  from transition_Some_shape [OF assms(1)] show ?thesis
  proof cases
    case kept
    then show ?thesis using assms(2) by simp
  next
    case (tripped fp at)
    then show ?thesis using tripped_ok next_epoch_bounds
      by (simp add: breaker_inv_def not_before_def) (simp add: tripped_state_def)
  next
    case cleared
    then show ?thesis using cleared_ok [OF ok] epoch by (simp add: breaker_inv_def)
  next
    case half_opened
    then show ?thesis using half_opened_ok [OF ok] epoch by (simp add: breaker_inv_def)
  next
    case closed
    then show ?thesis using closed_ok [OF ok] reset_identity_not_blank epoch
      by (simp add: breaker_inv_def)
  next
    case counted
    then show ?thesis using assms(2) by (simp add: breaker_inv_def counted_ok)
  qed
qed

section \<open>Restore\<close>

lemma snapshot_state_durable [simp]: "snapshot_state (durable_snapshot_v1 state) = state"
  by (simp add: snapshot_state_def durable_snapshot_v1_def)

lemma restore_fallback_shape:
  "\<exists>out fp. fail_closed_circuit_breaker_restore_after_epoch failure now epoch =
       Some (if epoch + 1 \<le> u64_max then Inr out
         else Inl \<lparr>ree_last_recovery_epoch = epoch, ree_restore_failure = failure, ree_outcome = out\<rparr>)
     \<and> out_state out = tripped_state (CircuitBreakerState_new\<lparr>cb_recovery_epoch := epoch\<rparr>)
         (next_epoch epoch) fp (max now 0)
     \<and> fingerprint_ok fp \<and> out_error out \<noteq> None \<and> out_transition out = SafetyFallbackOpened
     \<and> (epoch + 1 \<le> u64_max \<longrightarrow> out_error out = Some (CircuitBreakerError.DurableRestoreFailed failure))
     \<and> cb_reason (out_state out) = CircuitBreakerReason.SafetyInvariantViolation"
proof -
  let ?new = "CircuitBreakerState_new\<lparr>cb_recovery_epoch := epoch\<rparr>"
  have latest: "latest_transition_at_ms ?new = None"
    by (simp add: latest_transition_at_ms_def CircuitBreakerState_new_def flatten_opts.simps)
  have fp: "fingerprint_ok [SafetyInvariantError e]" if "\<not> error_fingerprint_has_blank_text e" for e
    using that by (simp add: fingerprint_ok_def incident_evidence_has_blank_text_def)
  show ?thesis
  proof (cases "epoch + 1 \<le> u64_max")
    case True
    then show ?thesis
      using latest fp [of "CircuitBreakerErrorFingerprint.DurableRestoreFailed failure"]
      by (auto simp: fail_closed_circuit_breaker_restore_after_epoch_def checked_add_u64_def
        safety_fallback_def open_breaker_def fallback_at_ms_def tripped_state_def next_epoch_def
        error_fingerprint_has_blank_text_def CircuitBreakerState_new_def
        intro!: exI [of _ "[SafetyInvariantError (CircuitBreakerErrorFingerprint.DurableRestoreFailed failure)]"])
  next
    case False
    then show ?thesis
      using latest fp [of CircuitBreakerErrorFingerprint.RecoveryEpochOverflow]
      by (auto simp: fail_closed_circuit_breaker_restore_after_epoch_def checked_add_u64_def
        recovery_epoch_overflow_def fallback_at_ms_def tripped_state_def next_epoch_def
        error_fingerprint_has_blank_text_def CircuitBreakerState_new_def
        intro!: exI [of _ "[SafetyInvariantError CircuitBreakerErrorFingerprint.RecoveryEpochOverflow]"])
  qed
qed

lemma fail_closed_shape:
  "\<exists>out fp. fail_closed_circuit_breaker_restore failure now = Some out
     \<and> out_state out = tripped_state CircuitBreakerState_new 1 fp (max now 0)
     \<and> fingerprint_ok fp \<and> out_error out = Some (CircuitBreakerError.DurableRestoreFailed failure)
     \<and> cb_reason (out_state out) = CircuitBreakerReason.SafetyInvariantViolation"
proof -
  have "CircuitBreakerState_new\<lparr>cb_recovery_epoch := 0\<rparr> = CircuitBreakerState_new"
    by (simp add: CircuitBreakerState_new_def)
  then show ?thesis
    using restore_fallback_shape [of failure now 0]
    by (auto simp: fail_closed_circuit_breaker_restore_def next_epoch_def u64_max_def)
qed

lemma restore_v1_cases:
  "(\<exists>failure. restore_circuit_breaker_snapshot_v1 snapshot now =
      fail_closed_circuit_breaker_restore failure now)
   \<or> (0 \<le> now \<and> validate_restored_state (snapshot_state snapshot) now = Inr ()
      \<and> restore_circuit_breaker_snapshot_v1 snapshot now = Some (outcome_unchanged (snapshot_state snapshot)))"
  by (auto simp: restore_circuit_breaker_snapshot_v1_def Let_def split: sum.splits)

end
