(* ===== verification/Circuit_Breaker_Properties.thy ===== *)
theory Circuit_Breaker_Properties
  imports Circuit_Breaker_Safety
begin

text \<open>
  The circuit breaker as its callers rely on it: a three-state machine with a recovery epoch
  (\<open>abs_step\<close>, refined by every transition), the contract \<open>recovery_machine\<close> of a step relation with
  a status and an epoch, the reachable states, and the breaker's properties.
\<close>

section \<open>Abstract machine and contract\<close>

inductive abs_step :: "CircuitBreakerStatus \<times> u64 \<Rightarrow> CircuitBreakerStatus \<times> u64 \<Rightarrow> bool" where
  stay: "abs_step (st, e) (st, e)"
| trip: "e < u64_max \<Longrightarrow> abs_step (st, e) (CircuitBreakerStatus.Open, e + 1)"
| exhausted: "u64_max \<le> e \<Longrightarrow> abs_step (st, e) (CircuitBreakerStatus.Open, e)"
| probe: "abs_step (CircuitBreakerStatus.Open, e) (CircuitBreakerStatus.HalfOpen, e)"
| reset: "abs_step (CircuitBreakerStatus.HalfOpen, e) (CircuitBreakerStatus.Closed, e)"

inductive_cases abs_stepE: "abs_step (st, e) (st', e')"

definition abs_state :: "CircuitBreakerState \<Rightarrow> CircuitBreakerStatus \<times> u64" where
  "abs_state state = (cb_status state, cb_recovery_epoch state)"

lemma abs_step_tripped:
  "cb_status state' = CircuitBreakerStatus.Open \<Longrightarrow>
   cb_recovery_epoch state' = next_epoch (cb_recovery_epoch state) \<Longrightarrow>
   abs_step (abs_state state) (abs_state state')"
  using abs_step.trip [of "cb_recovery_epoch state"] abs_step.exhausted [of "cb_recovery_epoch state"]
  by (auto simp: abs_state_def next_epoch_def)

lemma transition_abs_step:
  assumes "transition policy state request now = Some out"
  shows "abs_step (abs_state state) (abs_state (out_state out))"
  using transition_Some_shape [OF assms]
proof cases
  case (tripped fp at)
  then show ?thesis by (intro abs_step_tripped) (simp_all add: tripped_state_def)
qed (auto simp: abs_state_def intro: abs_step.intros)

locale recovery_machine =
  fixes step :: "'s \<Rightarrow> 's \<Rightarrow> bool"
    and status :: "'s \<Rightarrow> CircuitBreakerStatus"
    and epoch :: "'s \<Rightarrow> nat"
  assumes epoch_mono: "step s t \<Longrightarrow> epoch s \<le> epoch t"
    and closes_from_half_open: "step s t \<Longrightarrow> status s \<noteq> CircuitBreakerStatus.Closed \<Longrightarrow>
      status t = CircuitBreakerStatus.Closed \<Longrightarrow> status s = CircuitBreakerStatus.HalfOpen \<and> epoch t = epoch s"
    and half_opens_from_open: "step s t \<Longrightarrow> status s \<noteq> CircuitBreakerStatus.HalfOpen \<Longrightarrow>
      status t = CircuitBreakerStatus.HalfOpen \<Longrightarrow> status s = CircuitBreakerStatus.Open \<and> epoch t = epoch s"
begin

lemma run_epoch_mono: "step\<^sup>*\<^sup>* s t \<Longrightarrow> epoch s \<le> epoch t"
  by (induction rule: rtranclp_induct) (auto dest: epoch_mono)

lemma run_half_open:
  assumes "step\<^sup>*\<^sup>* s t" "status s \<noteq> CircuitBreakerStatus.HalfOpen" "status t = CircuitBreakerStatus.HalfOpen"
  shows "\<exists>u v. step\<^sup>*\<^sup>* s u \<and> status u = CircuitBreakerStatus.Open \<and> step u v
    \<and> status v = CircuitBreakerStatus.HalfOpen \<and> epoch v = epoch u \<and> step\<^sup>*\<^sup>* v t"
  using assms
proof (induction rule: rtranclp_induct)
  case (step t t')
  show ?case
  proof (cases "status t = CircuitBreakerStatus.HalfOpen")
    case True
    then obtain u v where uv: "step\<^sup>*\<^sup>* s u" "status u = CircuitBreakerStatus.Open" "step u v"
        "status v = CircuitBreakerStatus.HalfOpen" "epoch v = epoch u" "step\<^sup>*\<^sup>* v t"
      using step.IH step.prems by blast
    have "step\<^sup>*\<^sup>* v t'" using uv(6) step.hyps(2) by (rule rtranclp.rtrancl_into_rtrancl)
    with uv show ?thesis by blast
  next
    case False
    then show ?thesis using step half_opens_from_open by blast
  qed
qed simp

lemma run_closing:
  assumes "step\<^sup>*\<^sup>* s t" "status s \<noteq> CircuitBreakerStatus.Closed" "status t = CircuitBreakerStatus.Closed"
  shows "\<exists>u v. step\<^sup>*\<^sup>* s u \<and> status u = CircuitBreakerStatus.HalfOpen \<and> step u v
    \<and> status v = CircuitBreakerStatus.Closed \<and> epoch v = epoch u \<and> step\<^sup>*\<^sup>* v t"
  using assms
proof (induction rule: rtranclp_induct)
  case (step t t')
  show ?case
  proof (cases "status t = CircuitBreakerStatus.Closed")
    case True
    then obtain u v where uv: "step\<^sup>*\<^sup>* s u" "status u = CircuitBreakerStatus.HalfOpen" "step u v"
        "status v = CircuitBreakerStatus.Closed" "epoch v = epoch u" "step\<^sup>*\<^sup>* v t"
      using step.IH step.prems by blast
    have "step\<^sup>*\<^sup>* v t'" using uv(6) step.hyps(2) by (rule rtranclp.rtrancl_into_rtrancl)
    with uv show ?thesis by blast
  next
    case False
    then show ?thesis using step closes_from_half_open by blast
  qed
qed simp

lemma open_run_closes_in_order:
  assumes run: "step\<^sup>*\<^sup>* s t" and "status s = CircuitBreakerStatus.Open"
    and "status t = CircuitBreakerStatus.Closed"
  shows "\<exists>a b c d. step\<^sup>*\<^sup>* s a \<and> status a = CircuitBreakerStatus.Open \<and> step a b
    \<and> status b = CircuitBreakerStatus.HalfOpen \<and> step\<^sup>*\<^sup>* b c
    \<and> status c = CircuitBreakerStatus.HalfOpen \<and> step c d \<and> status d = CircuitBreakerStatus.Closed
    \<and> step\<^sup>*\<^sup>* d t \<and> epoch s \<le> epoch d"
proof -
  obtain c d where c: "step\<^sup>*\<^sup>* s c" "status c = CircuitBreakerStatus.HalfOpen" "step c d"
      "status d = CircuitBreakerStatus.Closed" "epoch d = epoch c" "step\<^sup>*\<^sup>* d t"
    using run_closing [OF run] assms by auto
  obtain a b where "step\<^sup>*\<^sup>* s a" "status a = CircuitBreakerStatus.Open" "step a b"
      "status b = CircuitBreakerStatus.HalfOpen" "step\<^sup>*\<^sup>* b c"
    using run_half_open [OF c(1)] c(2) assms(2) by auto
  then show ?thesis using c run_epoch_mono [OF c(1)] by metis
qed

end

text \<open>One request under any policy at any time, valid or not.\<close>

definition breaker_step :: "CircuitBreakerState \<Rightarrow> CircuitBreakerState \<Rightarrow> bool" where
  "breaker_step state state' \<longleftrightarrow>
     (\<exists>policy request now out. transition policy state request now = Some out \<and> state' = out_state out)"

lemma breaker_step_abs: "breaker_step s t \<Longrightarrow> abs_step (abs_state s) (abs_state t)"
  by (auto simp: breaker_step_def dest: transition_abs_step)

interpretation breaker: recovery_machine breaker_step cb_status cb_recovery_epoch
  by unfold_locales (auto dest!: breaker_step_abs simp: abs_state_def elim!: abs_stepE)

section \<open>Reachable states\<close>

text \<open>
  The states of a deployment: the initial state, requests, restarts that restore the snapshot the
  breaker wrote, and the fallbacks of a restore that failed after a known epoch.
\<close>

inductive breaker_reachable :: "CircuitBreakerState \<Rightarrow> bool" where
  initial: "breaker_reachable CircuitBreakerState_new"
| request: "breaker_reachable state \<Longrightarrow> transition policy state request now = Some out \<Longrightarrow>
    breaker_reachable (out_state out)"
| restart: "breaker_reachable state \<Longrightarrow>
    restore_circuit_breaker_snapshot_v1 (durable_snapshot_v1 state) now = Some out \<Longrightarrow>
    breaker_reachable (out_state out)"
| lost: "fail_closed_circuit_breaker_restore_after_epoch failure now epoch = Some (Inr out) \<Longrightarrow>
    breaker_reachable (out_state out)"
| lost_exhausted: "fail_closed_circuit_breaker_restore_after_epoch failure now epoch = Some (Inl e) \<Longrightarrow>
    breaker_reachable (out_state (ree_outcome e))"

lemma tripped_breaker_inv:
  "fingerprint_ok fp \<Longrightarrow> 0 \<le> at \<Longrightarrow> 0 < epoch \<Longrightarrow> breaker_inv (tripped_state state epoch fp at)"
  using tripped_ok by (simp add: breaker_inv_def) (simp add: tripped_state_def)

lemma fallback_inv:
  "fail_closed_circuit_breaker_restore failure now = Some out \<Longrightarrow> breaker_inv (out_state out)"
  using fail_closed_shape [of failure now] tripped_breaker_inv by fastforce

lemma after_epoch_inv:
  assumes "fail_closed_circuit_breaker_restore_after_epoch failure now epoch = Some r"
  shows "breaker_inv (out_state (case r of Inl e \<Rightarrow> ree_outcome e | Inr out \<Rightarrow> out))"
  using restore_fallback_shape [of failure now epoch] assms
    tripped_breaker_inv [OF _ _ next_epoch_bounds(2), of _ "max now 0"]
  by (auto split: if_splits)

lemma breaker_reachable_inv: "breaker_reachable state \<Longrightarrow> breaker_inv state"
proof (induction rule: breaker_reachable.induct)
  case (restart state now out)
  then show ?case
    using restore_v1_cases [of "durable_snapshot_v1 state" now] fallback_inv
    by (auto simp: outcome_unchanged_def)
next
  case (lost failure now epoch out)
  then show ?case using after_epoch_inv by fastforce
next
  case (lost_exhausted failure now epoch e)
  then show ?case using after_epoch_inv by fastforce
qed (auto intro: breaker_inv_new transition_inv)

section \<open>A sample run\<close>

text \<open>A daily loss of 700 bps opens the breaker at 100, it is probed at 200 and closed at 1300.\<close>

definition sample_policy :: CircuitBreakerPolicy where
  "sample_policy = \<lparr>max_daily_realized_loss_bps = 500, max_equity_drawdown_bps = 1000,
     max_consecutive_broker_rejections = 3, max_consecutive_command_failures = 3,
     max_time_sync_unhealthy_ms = 50, max_consecutive_snapshot_stale = 2,
     max_consecutive_symbol_metadata_stale = 2, half_open_observation_ms = 1000, auto_reset = True\<rparr>"

definition sample_input :: "BasisPoints \<Rightarrow> CircuitBreakerInput" where
  "sample_input loss = \<lparr>cbi_daily_realized_loss_bps = loss, cbi_equity_drawdown_bps = 0,
     cbi_consecutive_broker_rejections = 0, cbi_consecutive_command_failures = 0,
     cbi_manual_reconciliation_required_count = 0, cbi_store_recovery_reconciliation_pending = False,
     cbi_time_sync_unhealthy_since_ms = None, cbi_consecutive_snapshot_stale_count = 0,
     cbi_consecutive_symbol_metadata_stale_count = 0, cbi_manual_trigger = None\<rparr>"

definition sample_open :: CircuitBreakerState where
  "sample_open = CircuitBreakerState_new\<lparr>cb_recovery_epoch := 1, cb_status := CircuitBreakerStatus.Open,
     cb_reason := DailyRealizedLossLimit, cb_triggered_at_ms := Some 100,
     cb_triggered_by := Some RiskTelemetry,
     cb_last_incident_fingerprint := Some [CircuitBreakerIncidentEvidence.DailyRealizedLoss 700 500]\<rparr>"

definition sample_readiness :: HalfOpenReadiness where
  "sample_readiness = \<lparr>hor_recovery_epoch = 1, hor_account_refreshed_at_ms = Some 150,
     hor_positions_refreshed_at_ms = Some 150, hor_orders_refreshed_at_ms = Some 150,
     hor_symbol_metadata_refreshed_at_ms = Some 150, hor_pending_commands_reconciled_at_ms = Some 150\<rparr>"

definition sample_half_open :: CircuitBreakerState where
  "sample_half_open = sample_open\<lparr>cb_status := CircuitBreakerStatus.HalfOpen,
     cb_half_opened_at_ms := Some 200, cb_half_open_daily_loss_baseline_bps := Some 700,
     cb_half_open_drawdown_baseline_bps := Some 0\<rparr>"

definition sample_health :: RecoveryHealth where
  "sample_health = \<lparr>rh_clock_healthy = True, rh_state_store_healthy = True,
     rh_new_hard_risk_violation = False, rh_input = sample_input 700\<rparr>"

definition sample_closed :: CircuitBreakerState where
  "sample_closed = sample_half_open\<lparr>cb_status := CircuitBreakerStatus.Closed,
     cb_reason := CircuitBreakerReason.Ok, cb_half_opened_at_ms := None,
     cb_half_open_daily_loss_baseline_bps := None, cb_half_open_drawdown_baseline_bps := None,
     cb_reset_at_ms := Some 1300, cb_reset_by := Some ''AUTOMATIC''\<rparr>"

lemmas sample_defs = sample_policy_def sample_input_def sample_open_def sample_readiness_def
  sample_half_open_def sample_health_def sample_closed_def CircuitBreakerState_new_def

lemma sample_policy_ok: "CircuitBreakerPolicy_validate sample_policy = Inr ()"
  by (simp add: CircuitBreakerPolicy_validate_def sample_policy_def)

lemma sample_collect:
  "collect_violations sample_policy (sample_input 700) now =
     Inr [CircuitBreakerViolation.DailyRealizedLoss 700 500]"
  "collect_violations sample_policy (sample_input 0) now = Inr []"
  by (simp_all add: collect_violations_def time_sync_violations_def sample_policy_def sample_input_def)

lemma sample_latest:
  "latest_transition_at_ms CircuitBreakerState_new = None"
  "latest_transition_at_ms sample_open = Some 100"
  "latest_transition_at_ms sample_half_open = Some 200"
  "latest_transition_at_ms sample_closed = Some 1300"
  by (simp_all add: latest_transition_at_ms_def sample_defs flatten_opts.simps)

lemma sample_opens:
  "transition sample_policy CircuitBreakerState_new (TransitionRequest.Observe (sample_input 700)) 100 =
   Some \<lparr>out_state = sample_open, out_transition = Opened,
     out_violations = [CircuitBreakerViolation.DailyRealizedLoss 700 500], out_error = None,
     out_manual_reset_audit = None\<rparr>"
  by (simp add: transition_def sample_policy_ok sample_latest dispatch_request_def observe_def sample_collect)
    (simp add: open_breaker_def checked_add_u64_def u64_max_def incident_fingerprint_def sample_open_def
      CircuitBreakerState_new_def)

lemma sample_probes:
  "transition sample_policy sample_open
     (TransitionRequest.EnterHalfOpen sample_readiness (sample_input 700)) 200 =
   Some \<lparr>out_state = sample_half_open, out_transition = EnteredHalfOpen,
     out_violations = [CircuitBreakerViolation.DailyRealizedLoss 700 500], out_error = None,
     out_manual_reset_audit = None\<rparr>"
  by (simp add: transition_def sample_policy_ok sample_latest dispatch_request_def enter_half_open_def
      sample_collect)
    (simp add: incident_fingerprint_def blocks_recovery_def missing_half_open_prerequisites_def
      sample_defs)

lemma sample_half_open_violations:
  "half_open_violations sample_policy sample_half_open (sample_input 700) now = Inr []"
  by (simp add: half_open_violations_def sample_collect)
    (simp add: filter_half_open_violations_def sample_defs blocks_recovery_def)

lemma sample_closes:
  "transition sample_policy sample_half_open
     (TransitionRequest.Close sample_health ResetAuthorization.Automatic) 1300 =
   Some \<lparr>out_state = sample_closed, out_transition = CircuitBreakerTransition.Closed,
     out_violations = [], out_error = None, out_manual_reset_audit = None\<rparr>"
proof -
  have "rh_input sample_health = sample_input 700" by (simp add: sample_health_def)
  then show ?thesis
    by (simp add: transition_def sample_policy_ok sample_latest dispatch_request_def close_breaker_def
        sample_half_open_violations)
      (simp add: reset_identity_def sample_defs)
qed

lemma sample_reachable: "breaker_reachable sample_open" "breaker_reachable sample_half_open"
  "breaker_reachable sample_closed"
proof -
  show *: "breaker_reachable sample_open"
    using breaker_reachable.request [OF breaker_reachable.initial sample_opens] by simp
  show **: "breaker_reachable sample_half_open"
    using breaker_reachable.request [OF * sample_probes] by simp
  show "breaker_reachable sample_closed"
    using breaker_reachable.request [OF ** sample_closes] by simp
qed

section \<open>Polling\<close>

lemma time_sync_stable:
  assumes ts: "time_sync_violations policy input now = Inr ts"
    and seen: "cbi_time_sync_unhealthy_since_ms input = None \<or> ts \<noteq> []"
    and later: "now \<le> later" "later \<le> i64_max"
  shows "\<exists>ts'. time_sync_violations policy input later = Inr ts'
    \<and> incident_fingerprint ts' (Some input) = incident_fingerprint ts (Some input)"
proof (cases "cbi_time_sync_unhealthy_since_ms input")
  case None
  then show ?thesis using ts by (simp add: time_sync_violations_def)
next
  case (Some since)
  with ts seen have "0 \<le> since" "since \<le> now" "now - since > max_time_sync_unhealthy_ms policy"
    "ts = [CircuitBreakerViolation.TimeSyncUnhealthy (now - since) (max_time_sync_unhealthy_ms policy)]"
    by (auto simp: time_sync_violations_def checked_sub_i64_def split: if_splits)
  then show ?thesis
    using Some later
    by (auto simp: time_sync_violations_def checked_sub_i64_def incident_fingerprint_def i64_min_def)
qed

lemma collect_stable:
  assumes c: "collect_violations policy input now = Inr vs"
    and seen: "cbi_time_sync_unhealthy_since_ms input = None \<or> time_sync_violations policy input now \<noteq> Inr []"
    and later: "now \<le> later" "later \<le> i64_max"
  shows "\<exists>vs'. collect_violations policy input later = Inr vs'
    \<and> incident_fingerprint vs' (Some input) = incident_fingerprint vs (Some input)"
proof -
  obtain ts where ts: "time_sync_violations policy input now = Inr ts"
    using c by (auto simp: collect_violations_def bindR_eq_Inr)
  then obtain ts' where ts': "time_sync_violations policy input later = Inr ts'"
    "incident_fingerprint ts' (Some input) = incident_fingerprint ts (Some input)"
    using time_sync_stable [OF ts _ later] seen by auto
  show ?thesis
    using c ts ts' unfolding collect_violations_def bindR_eq_Inr incident_fingerprint_def map_append
    by (auto simp: incident_fingerprint_def simp del: if_split)
qed

lemma transition_fine:
  "CircuitBreakerPolicy_validate policy = Inr () \<Longrightarrow> not_before state now \<Longrightarrow>
   transition policy state request now = dispatch_request policy state request now"
  by (auto simp: transition_def not_before_def split: option.split)

lemma observe_opens:
  assumes "collect_violations policy input now = Inr vs" "vs \<noteq> []"
    and "cb_status state = CircuitBreakerStatus.Closed" "cb_recovery_epoch state < u64_max"
  shows "observe policy state input now = Some \<lparr>out_state = tripped_state state (cb_recovery_epoch state + 1)
      (incident_fingerprint vs (Some input)) now, out_transition = Opened, out_violations = vs,
      out_error = None, out_manual_reset_audit = None\<rparr>"
  using assms
  by (cases vs) (simp_all add: observe_def open_breaker_def checked_add_u64_def tripped_state_def
    incident_fingerprint_def)

lemma tripped_latest: "latest_transition_at_ms (tripped_state state epoch fp at) = Some at"
  by (simp add: latest_transition_at_ms_def tripped_state_def flatten_opts.simps)

section \<open>Properties\<close>

text \<open>C17: Fail closed. Every request, under any policy, valid or not, and at any server time, returns
  an outcome (the \<open>expect\<close> in \<open>open\<close> is never reached), and an outcome that carries an error leaves
  the breaker \<open>OPEN\<close> or \<open>HALF_OPEN\<close>: no error path ends in \<open>CLOSED\<close>.\<close>

theorem breaker_fails_closed:
  "\<exists>out. transition policy state request now = Some out
     \<and> (out_error out \<noteq> None \<longrightarrow> is_active (cb_status (out_state out)))"
proof -
  obtain out where out: "transition policy state request now = Some out"
      "outcome_shape policy state request now out"
    using transition_shape by blast
  from out(2) have "out_error out \<noteq> None \<longrightarrow> is_active (cb_status (out_state out))"
    by cases (auto simp: tripped_state_def)
  with out(1) show ?thesis by blast
qed

theorem breaker_fails_closed_witness:
  "\<exists>out. transition sample_policy CircuitBreakerState_new
       (TransitionRequest.Observe (sample_input 0)) (- 1) = Some out
     \<and> out_error out \<noteq> None \<and> is_active (cb_status (out_state out))"
proof -
  obtain out where out: "transition sample_policy CircuitBreakerState_new
      (TransitionRequest.Observe (sample_input 0)) (- 1) = Some out"
    "out_error out \<noteq> None \<longrightarrow> is_active (cb_status (out_state out))"
    using breaker_fails_closed by blast
  moreover have "out_error out \<noteq> None"
    using out(1) safety_fallback_shape [of "CircuitBreakerError.InvalidInput ''server_now_ms'' ''must not be negative''"
      CircuitBreakerState_new "- 1"]
    by (auto simp: transition_def fallback_errors)
  ultimately show ?thesis by blast
qed

text \<open>C1: The only way back to \<open>CLOSED\<close>. If a request takes an active breaker to \<open>CLOSED\<close>, the
  breaker was \<open>HALF_OPEN\<close>, the request was \<open>Close\<close>, the fresh input shows no violation beyond the
  half-open baselines and no new hard-risk violation, clock and store are healthy, the observation
  window has elapsed, and the reset is either automatic under a policy that allows it or by an
  operator whose four evidence fields are present and who is recorded in the audit.\<close>

theorem breaker_closes_only_after_recovery:
  assumes "transition policy state request now = Some out"
    and "cb_status state \<noteq> CircuitBreakerStatus.Closed"
    and "cb_status (out_state out) = CircuitBreakerStatus.Closed"
  shows "cb_status state = CircuitBreakerStatus.HalfOpen
    \<and> (\<exists>health authorization since. request = TransitionRequest.Close health authorization
      \<and> half_open_violations policy state (rh_input health) now = Inr []
      \<and> \<not> rh_new_hard_risk_violation health \<and> rh_clock_healthy health \<and> rh_state_store_healthy health
      \<and> cb_half_opened_at_ms state = Some since \<and> since + half_open_observation_ms policy \<le> now
      \<and> (case authorization of
           ResetAuthorization.Automatic \<Rightarrow>
             auto_reset policy \<and> cb_reset_by (out_state out) = Some ''AUTOMATIC''
         | ResetAuthorization.Operator evidence \<Rightarrow>
             validate_manual_reset_evidence evidence = Inr ()
             \<and> cb_reset_by (out_state out) = Some (mre_operator_id evidence)
             \<and> map_option mra_operator_id (out_manual_reset_audit out) = Some (mre_operator_id evidence)))"
  using transition_Some_shape [OF assms(1)]
proof cases
  case (closed health authorization since by_whom audit)
  then show ?thesis
    by (cases authorization) (auto simp: reset_identity_def unit_result_simps split: if_splits)
qed (use assms in \<open>auto simp: tripped_state_def\<close>)

theorem breaker_closes_only_after_recovery_witness:
  "cb_status sample_half_open = CircuitBreakerStatus.HalfOpen
   \<and> half_open_violations sample_policy sample_half_open (rh_input sample_health) 1300 = Inr []
   \<and> rh_clock_healthy sample_health \<and> (200::int) + half_open_observation_ms sample_policy \<le> 1300
   \<and> auto_reset sample_policy"
  using breaker_closes_only_after_recovery [OF sample_closes]
  by (simp add: sample_half_open_def sample_closed_def)

text \<open>C18: The breaker refines a three-state machine with an epoch. Every transition, errors
  included, keeps status and epoch, trips to \<open>OPEN\<close> with the next epoch (or the same one when
  \<open>u64::MAX\<close> is reached), goes from \<open>OPEN\<close> to \<open>HALF_OPEN\<close>, or from \<open>HALF_OPEN\<close> to \<open>CLOSED\<close>.\<close>

theorem breaker_refines_abstract_machine:
  assumes "transition policy state request now = Some out"
  shows "abs_step (abs_state state) (abs_state (out_state out))"
  by (rule transition_abs_step [OF assms])

theorem breaker_refines_abstract_machine_witness:
  "abs_step (abs_state sample_half_open) (abs_state sample_closed)"
  using breaker_refines_abstract_machine [OF sample_closes] by simp

text \<open>Recovery takes every stage. A run of requests that starts in an \<open>OPEN\<close> state and ends in a
  \<open>CLOSED\<close> one contains a step from \<open>OPEN\<close> to \<open>HALF_OPEN\<close> and, after it, a step from \<open>HALF_OPEN\<close> to
  \<open>CLOSED\<close>, and the epoch never goes back on the way.\<close>

theorem open_breaker_recovers_in_stages:
  assumes "breaker_step\<^sup>*\<^sup>* s t" and "cb_status s = CircuitBreakerStatus.Open"
    and "cb_status t = CircuitBreakerStatus.Closed"
  shows "\<exists>a b c d. breaker_step\<^sup>*\<^sup>* s a \<and> cb_status a = CircuitBreakerStatus.Open \<and> breaker_step a b
    \<and> cb_status b = CircuitBreakerStatus.HalfOpen \<and> breaker_step\<^sup>*\<^sup>* b c
    \<and> cb_status c = CircuitBreakerStatus.HalfOpen \<and> breaker_step c d
    \<and> cb_status d = CircuitBreakerStatus.Closed \<and> breaker_step\<^sup>*\<^sup>* d t
    \<and> cb_recovery_epoch s \<le> cb_recovery_epoch d"
  using assms by (rule breaker.open_run_closes_in_order)

theorem open_breaker_recovers_in_stages_witness:
  "\<exists>a b c d. breaker_step\<^sup>*\<^sup>* sample_open a \<and> cb_status a = CircuitBreakerStatus.Open \<and> breaker_step a b
    \<and> cb_status b = CircuitBreakerStatus.HalfOpen \<and> breaker_step\<^sup>*\<^sup>* b c
    \<and> cb_status c = CircuitBreakerStatus.HalfOpen \<and> breaker_step c d
    \<and> cb_status d = CircuitBreakerStatus.Closed \<and> breaker_step\<^sup>*\<^sup>* d sample_closed
    \<and> cb_recovery_epoch sample_open \<le> cb_recovery_epoch d"
proof (rule open_breaker_recovers_in_stages)
  have "breaker_step sample_open sample_half_open" "breaker_step sample_half_open sample_closed"
    using sample_probes sample_closes by (force simp: breaker_step_def)+
  then show "breaker_step\<^sup>*\<^sup>* sample_open sample_closed" by simp
qed (simp_all add: sample_open_def sample_closed_def)

text \<open>C19: Snapshots are lossless. For every reachable state whose epoch has a successor, restoring
  its durable snapshot at any server time not before its latest transition yields exactly that
  state, with no error and no transition.\<close>

theorem durable_snapshot_round_trip:
  assumes "breaker_reachable state" and "cb_recovery_epoch state \<noteq> u64_max" and "0 \<le> now"
    and "\<forall>t. latest_transition_at_ms state = Some t \<longrightarrow> t \<le> now"
  shows "restore_circuit_breaker_snapshot_v1 (durable_snapshot_v1 state) now =
    Some (outcome_unchanged state)"
proof -
  have "validate_restored_state state now = Inr ()"
    using breaker_reachable_inv [OF assms(1)] assms(2-)
    by (simp add: validate_restored_state_iff breaker_inv_def)
  then show ?thesis
    using assms(3) by (simp add: restore_circuit_breaker_snapshot_v1_def)
      (simp add: durable_snapshot_v1_def)
qed

theorem durable_snapshot_round_trip_witness:
  "restore_circuit_breaker_snapshot_v1 (durable_snapshot_v1 sample_half_open) 250 =
    Some (outcome_unchanged sample_half_open)"
proof (rule durable_snapshot_round_trip [OF sample_reachable(2)])
  show "cb_recovery_epoch sample_half_open \<noteq> u64_max" by (simp add: sample_defs u64_max_def)
qed (simp_all add: sample_latest)

text \<open>A hard-risk violation opens the breaker and blocks new risk. Observing an input with a
  violation while \<open>CLOSED\<close> opens it in the next epoch with the first violation as reason; from then
  on exactly the two risk-increasing actions are refused, with that reason.\<close>

theorem violation_opens_and_blocks:
  assumes "CircuitBreakerPolicy_validate policy = Inr ()" and "not_before state now"
    and "cb_status state = CircuitBreakerStatus.Closed" and "cb_recovery_epoch state < u64_max"
    and "collect_violations policy input now = Inr (v # vs)"
  shows "\<exists>out. transition policy state (TransitionRequest.Observe input) now = Some out
    \<and> out_transition out = Opened \<and> out_violations out = v # vs
    \<and> cb_status (out_state out) = CircuitBreakerStatus.Open
    \<and> cb_recovery_epoch (out_state out) = cb_recovery_epoch state + 1
    \<and> cb_triggered_at_ms (out_state out) = Some now
    \<and> (\<forall>action. gate_blocked_reason (authorize (out_state out) action) =
         (if action = RiskIncreasingTradeIntent \<or> action = RiskIncreasingCommand
          then Some (violation_reason v) else None)
       \<and> gate_allowed (authorize (out_state out) action) =
          (action \<noteq> RiskIncreasingTradeIntent \<and> action \<noteq> RiskIncreasingCommand))"
  using observe_opens [OF assms(5) _ assms(3,4)] transition_fine [OF assms(1,2)]
  by (auto simp: dispatch_request_def tripped_state_def authorize_def incident_fingerprint_def
    split: CircuitBreakerAction.splits)

theorem violation_opens_and_blocks_witness:
  "\<exists>out. transition sample_policy CircuitBreakerState_new (TransitionRequest.Observe (sample_input 700)) 100
      = Some out \<and> cb_status (out_state out) = CircuitBreakerStatus.Open
    \<and> \<not> gate_allowed (authorize (out_state out) RiskIncreasingCommand)
    \<and> gate_allowed (authorize (out_state out) RiskReducingCommand)"
proof -
  have "not_before CircuitBreakerState_new 100" by (simp add: not_before_def sample_latest)
  from violation_opens_and_blocks [OF sample_policy_ok this _ _ sample_collect(1)] show ?thesis
    by (fastforce simp: CircuitBreakerState_new_def u64_max_def)
qed

text \<open>Polling the same fault is idempotent. After an input opened the breaker, observing the same
  input again at any later time changes nothing: same state, same epoch, no transition, even though
  the duration of an unhealthy clock has grown. (An input whose clock fault had not yet passed its
  threshold is excluded: passing it is a new violation.)\<close>

theorem polling_same_fault_is_idempotent:
  assumes policy: "CircuitBreakerPolicy_validate policy = Inr ()" and start: "not_before state now"
    and closed: "cb_status state = CircuitBreakerStatus.Closed" "cb_recovery_epoch state < u64_max"
    and fault: "collect_violations policy input now = Inr vs" "vs \<noteq> []"
    and seen: "cbi_time_sync_unhealthy_since_ms input = None \<or> time_sync_violations policy input now \<noteq> Inr []"
    and later: "now \<le> later" "later \<le> i64_max"
    and opened: "transition policy state (TransitionRequest.Observe input) now = Some out"
  shows "\<exists>again. transition policy (out_state out) (TransitionRequest.Observe input) later = Some again
    \<and> out_state again = out_state out \<and> out_transition again = NoChange \<and> out_error again = None"
proof -
  let ?s = "tripped_state state (cb_recovery_epoch state + 1) (incident_fingerprint vs (Some input)) now"
  obtain vs' where vs': "collect_violations policy input later = Inr vs'"
      "incident_fingerprint vs' (Some input) = incident_fingerprint vs (Some input)"
    using collect_stable [OF fault(1) seen later] by blast
  have s: "out_state out = ?s"
    using opened observe_opens [OF fault closed]
    by (auto simp: transition_fine [OF policy start] dispatch_request_def)
  have "not_before ?s later" using start later by (simp add: not_before_def tripped_latest)
  then have "transition policy ?s (TransitionRequest.Observe input) later = observe policy ?s input later"
    by (simp add: transition_fine [OF policy] dispatch_request_def)
  moreover have "vs' \<noteq> []" using vs'(2) fault(2) by (auto simp: incident_fingerprint_def)
  ultimately show ?thesis
    using vs' s by (auto simp: observe_def tripped_state_def outcome_unchanged_def Let_def)
qed

theorem polling_same_fault_is_idempotent_witness:
  "\<exists>again. transition sample_policy sample_open (TransitionRequest.Observe (sample_input 700)) 5000 = Some again
    \<and> out_state again = sample_open \<and> out_transition again = NoChange"
proof -
  have start: "not_before CircuitBreakerState_new 100" by (simp add: not_before_def sample_latest)
  show ?thesis
    using polling_same_fault_is_idempotent [OF sample_policy_ok start _ _ sample_collect(1) _ _ _ _ sample_opens,
      of 5000]
    by (auto simp: CircuitBreakerState_new_def u64_max_def i64_max_def sample_input_def)
qed

text \<open>A restart never comes up \<open>CLOSED\<close> by accident. Whatever the stored text is and however it
  parses, restoring returns an outcome: either the parsed state itself, which passed every check of
  the validator, or a fresh \<open>OPEN\<close> incident of epoch 1 whose error names the failure. When a row with
  a known epoch cannot be restored, the fallback is \<open>OPEN\<close> in the following epoch, and at
  \<open>u64::MAX\<close> it is \<open>OPEN\<close> with the epoch unchanged and reported as exhausted.\<close>

theorem restore_fails_closed:
  "(\<exists>out. restore_circuit_breaker_snapshot from_str stored now = Some out
     \<and> ((out_error out = None \<and> (\<exists>json snapshot. stored = Some json \<and> from_str json = Some snapshot
            \<and> out_state out = snapshot_state snapshot
            \<and> validate_restored_state (snapshot_state snapshot) now = Inr ()))
        \<or> (cb_status (out_state out) = CircuitBreakerStatus.Open \<and> cb_recovery_epoch (out_state out) = 1
            \<and> (\<exists>failure. out_error out = Some (CircuitBreakerError.DurableRestoreFailed failure)))))
   \<and> (\<exists>out. fail_closed_circuit_breaker_restore_after_epoch failure now epoch =
         Some (if epoch < u64_max then Inr out else Inl \<lparr>ree_last_recovery_epoch = epoch,
           ree_restore_failure = failure, ree_outcome = out\<rparr>)
       \<and> cb_status (out_state out) = CircuitBreakerStatus.Open
       \<and> cb_recovery_epoch (out_state out) = (if epoch < u64_max then epoch + 1 else epoch))"
proof
  have closed: "\<exists>out. fail_closed_circuit_breaker_restore failure now = Some out
      \<and> cb_status (out_state out) = CircuitBreakerStatus.Open \<and> cb_recovery_epoch (out_state out) = 1
      \<and> (\<exists>failure. out_error out = Some (CircuitBreakerError.DurableRestoreFailed failure))" for failure
    using fail_closed_shape [of failure now] by (auto simp: tripped_state_def)
  have v1: "\<exists>out. restore_circuit_breaker_snapshot_v1 snapshot now = Some out
      \<and> ((out_error out = None \<and> out_state out = snapshot_state snapshot
          \<and> validate_restored_state (snapshot_state snapshot) now = Inr ())
        \<or> (cb_status (out_state out) = CircuitBreakerStatus.Open \<and> cb_recovery_epoch (out_state out) = 1
          \<and> (\<exists>failure. out_error out = Some (CircuitBreakerError.DurableRestoreFailed failure))))" for snapshot
    using restore_v1_cases [of snapshot now]
  proof (elim disjE exE)
    fix failure
    assume "restore_circuit_breaker_snapshot_v1 snapshot now = fail_closed_circuit_breaker_restore failure now"
    then show ?thesis using closed [of failure] by auto
  qed (auto simp: outcome_unchanged_def)
  show "\<exists>out. restore_circuit_breaker_snapshot from_str stored now = Some out
     \<and> ((out_error out = None \<and> (\<exists>json snapshot. stored = Some json \<and> from_str json = Some snapshot
            \<and> out_state out = snapshot_state snapshot
            \<and> validate_restored_state (snapshot_state snapshot) now = Inr ()))
        \<or> (cb_status (out_state out) = CircuitBreakerStatus.Open \<and> cb_recovery_epoch (out_state out) = 1
            \<and> (\<exists>failure. out_error out = Some (CircuitBreakerError.DurableRestoreFailed failure))))"
    using closed [of "InvalidServerTime now"] closed [of MissingSnapshot] closed [of CorruptPayload] v1
    by (fastforce simp: restore_circuit_breaker_snapshot_def split: option.splits)
  show "\<exists>out. fail_closed_circuit_breaker_restore_after_epoch failure now epoch =
         Some (if epoch < u64_max then Inr out else Inl \<lparr>ree_last_recovery_epoch = epoch,
           ree_restore_failure = failure, ree_outcome = out\<rparr>)
       \<and> cb_status (out_state out) = CircuitBreakerStatus.Open
       \<and> cb_recovery_epoch (out_state out) = (if epoch < u64_max then epoch + 1 else epoch)"
    using restore_fallback_shape [of failure now epoch]
    by (auto simp: tripped_state_def next_epoch_def Suc_le_eq)
qed

section \<open>Gaps\<close>

text \<open>
  \<open>CircuitBreakerPolicy::validate\<close> tests the five fields that "must be greater than zero" with
  \<open>value == 0\<close>. Four of them come from \<open>u32\<close>; \<open>half_open_observation_ms\<close> is an \<open>i64\<close>.
\<close>

definition gap_policy :: CircuitBreakerPolicy where
  "gap_policy = sample_policy\<lparr>half_open_observation_ms := - 1\<rparr>"

text \<open>C38: A negative observation window is accepted. The policy with
  \<open>half_open_observation_ms = -1\<close> passes validation although the requirement in its error text is
  "must be greater than zero", and under it a breaker that became \<open>HALF_OPEN\<close> at time 200 is closed
  by a \<open>Close\<close> request at the same time 200, with no observation at all.\<close>

theorem negative_observation_window_closes_at_once:
  "half_open_observation_ms gap_policy < 0 \<and> CircuitBreakerPolicy_validate gap_policy = Inr ()
   \<and> cb_half_opened_at_ms sample_half_open = Some 200
   \<and> (\<exists>out. transition gap_policy sample_half_open
        (TransitionRequest.Close sample_health ResetAuthorization.Automatic) 200 = Some out
      \<and> cb_status (out_state out) = CircuitBreakerStatus.Closed \<and> out_error out = None)"
proof -
  have valid: "CircuitBreakerPolicy_validate gap_policy = Inr ()"
    by (simp add: CircuitBreakerPolicy_validate_def gap_policy_def sample_policy_def)
  have "collect_violations gap_policy (sample_input 700) 200 =
      Inr [CircuitBreakerViolation.DailyRealizedLoss 700 500]"
    by (simp add: collect_violations_def time_sync_violations_def gap_policy_def sample_policy_def
      sample_input_def)
  then have violations: "half_open_violations gap_policy sample_half_open (sample_input 700) 200 = Inr []"
    by (simp add: half_open_violations_def)
      (simp add: filter_half_open_violations_def sample_defs blocks_recovery_def)
  have input: "rh_input sample_health = sample_input 700" by (simp add: sample_health_def)
  have "\<exists>out. transition gap_policy sample_half_open
        (TransitionRequest.Close sample_health ResetAuthorization.Automatic) 200 = Some out
      \<and> cb_status (out_state out) = CircuitBreakerStatus.Closed \<and> out_error out = None"
    by (simp add: transition_def valid sample_latest dispatch_request_def close_breaker_def input violations)
      (simp add: reset_identity_def sample_defs gap_policy_def)
  with valid show ?thesis by (simp add: gap_policy_def sample_half_open_def)
qed

definition gap_state :: CircuitBreakerState where
  "gap_state = CircuitBreakerState_new\<lparr>cb_status := CircuitBreakerStatus.Open,
     cb_reason := DailyRealizedLossLimit, cb_incident_evidence_cleared_at_ms := Some 5\<rparr>"

text \<open>C40: The validator of restored states accepts an incident without a trigger. A snapshot that is
  \<open>OPEN\<close> at epoch 0, with no trigger time, no trigger source and only a cleared-at time, passes every
  check, although \<open>IncidentStateMissingTrigger\<close> exists to reject it and no reachable state is active
  at epoch 0.\<close>

theorem restored_active_state_may_lack_trigger:
  "validate_restored_state gap_state 5 = Inr () \<and> is_active (cb_status gap_state)
   \<and> cb_recovery_epoch gap_state = 0 \<and> cb_triggered_at_ms gap_state = None
   \<and> \<not> breaker_reachable gap_state"
proof -
  have "\<not> breaker_inv gap_state" by (simp add: breaker_inv_def gap_state_def CircuitBreakerState_new_def)
  then have "\<not> breaker_reachable gap_state" using breaker_reachable_inv by blast
  moreover have "validate_restored_state gap_state 5 = Inr ()"
    by (simp add: validate_restored_state_def restored_timestamps_def restored_trigger_def
      restored_reset_def restored_status_def restored_fingerprint_def restored_order_def gap_state_def
      CircuitBreakerState_new_def u64_max_def flatten_opts.simps)
  ultimately show ?thesis by (simp add: gap_state_def CircuitBreakerState_new_def)
qed

end
