(* ===== verification/Framing.thy ===== *)
theory Framing
  imports Prelude
begin

text \<open>
  The native TCP framing of \<open>crates/protocol/src/framing.rs\<close>: a four-byte big-endian length, then
  the payload. The decoder keeps its buffer across calls of \<open>feed\<close>; the model returns the result
  and the decoder after the call. \<open>None\<close> is a panic (a \<open>usize\<close> subtraction below zero) or a loop
  that does not end; \<open>feed_is_run\<close> shows that it does not occur for a decoder that \<open>feed\<close> produced.
\<close>

section \<open>Model\<close>

type_synonym byte = "8 word"

datatype FrameEncodeError = WireProtocolViolation | FrameTooLarge usize usize | LengthOverflow

datatype FrameDecodeError = Poisoned | WireProtocolViolation | FrameTooLarge usize usize
  | Decode

definition u32_to_be_bytes :: "u32 \<Rightarrow> byte list" where
  "u32_to_be_bytes n = [of_nat (n div 16777216 mod 256), of_nat (n div 65536 mod 256),
     of_nat (n div 256 mod 256), of_nat (n mod 256)]"

definition u32_from_be_bytes :: "byte list \<Rightarrow> u32" where
  "u32_from_be_bytes bs = foldl (\<lambda>n b. n * 256 + unat b) 0 bs"

definition encode_native_tcp_frame :: "byte list \<Rightarrow> usize \<Rightarrow> (FrameEncodeError, byte list) result" where
  "encode_native_tcp_frame payload max_frame_bytes =
     (if payload = [] then Inl FrameEncodeError.WireProtocolViolation
      else if length payload > max_frame_bytes
        then Inl (FrameEncodeError.FrameTooLarge (length payload) max_frame_bytes)
      else if length payload > u32_max then Inl LengthOverflow
      else Inr (u32_to_be_bytes (length payload) @ payload))"

record NativeTcpFrameDecoder =
  dec_max_frame_bytes :: usize
  dec_buffer :: "byte list"
  dec_expected_payload_len :: "usize option"
  dec_poisoned :: bool

definition NativeTcpFrameDecoder_new :: "usize \<Rightarrow> NativeTcpFrameDecoder" where
  "NativeTcpFrameDecoder_new max_frame_bytes = \<lparr>dec_max_frame_bytes = max_frame_bytes,
     dec_buffer = [], dec_expected_payload_len = None, dec_poisoned = False\<rparr>"

definition buffered_bytes :: "NativeTcpFrameDecoder \<Rightarrow> usize" where
  "buffered_bytes d = length (dec_buffer d)"

definition has_pending_frame :: "NativeTcpFrameDecoder \<Rightarrow> bool" where
  "has_pending_frame d \<longleftrightarrow> dec_buffer d \<noteq> [] \<or> dec_expected_payload_len d \<noteq> None"

definition clear_decoder :: "NativeTcpFrameDecoder \<Rightarrow> NativeTcpFrameDecoder" where
  "clear_decoder d = d\<lparr>dec_buffer := [], dec_expected_payload_len := None, dec_poisoned := False\<rparr>"

type_synonym feed_outcome = "(FrameDecodeError, byte list list) result \<times> NativeTcpFrameDecoder"

partial_function (option) feed_loop ::
  "NativeTcpFrameDecoder \<Rightarrow> byte list \<Rightarrow> byte list list \<Rightarrow> feed_outcome option" where
  "feed_loop d input frames =
     (if input = [] then Some (Inr frames, d)
      else case dec_expected_payload_len d of
        Some expected_payload_len \<Rightarrow>
          if expected_payload_len < length (dec_buffer d) then None
          else let needed = expected_payload_len - length (dec_buffer d);
              taken = min needed (length input);
              buffer = dec_buffer d @ take taken input
            in if length buffer = expected_payload_len
              then feed_loop (d\<lparr>dec_buffer := [], dec_expected_payload_len := None\<rparr>) (drop taken input)
                (frames @ [buffer])
              else feed_loop (d\<lparr>dec_buffer := buffer\<rparr>) (drop taken input) frames
      | None \<Rightarrow>
          if 4 < length (dec_buffer d) then None
          else let needed = 4 - length (dec_buffer d);
              taken = min needed (length input);
              buffer = dec_buffer d @ take taken input
            in if length buffer < 4
              then feed_loop (d\<lparr>dec_buffer := buffer\<rparr>) (drop taken input) frames
              else let frame_length = u32_from_be_bytes (take 4 buffer)
              in if frame_length = 0
                then Some (Inl FrameDecodeError.WireProtocolViolation,
                  d\<lparr>dec_buffer := buffer, dec_poisoned := True\<rparr>)
              else if frame_length > dec_max_frame_bytes d
                then Some (Inl (FrameDecodeError.FrameTooLarge frame_length (dec_max_frame_bytes d)),
                  d\<lparr>dec_buffer := buffer, dec_poisoned := True\<rparr>)
              else feed_loop (d\<lparr>dec_buffer := [], dec_expected_payload_len := Some frame_length\<rparr>)
                (drop taken input) frames)"

definition feed :: "NativeTcpFrameDecoder \<Rightarrow> byte list \<Rightarrow> feed_outcome option" where
  "feed d bytes = (if dec_poisoned d then Some (Inl Poisoned, d) else feed_loop d bytes [])"

text \<open>\<open>serde_json::from_slice\<close> is the parameter \<open>from_slice\<close>.\<close>

primrec decode_frames :: "(byte list \<Rightarrow> 'v option) \<Rightarrow> byte list list \<Rightarrow> 'v list option" where
  "decode_frames from_slice [] = Some []"
| "decode_frames from_slice (frame # frames) =
     (case from_slice frame of
        None \<Rightarrow> None
      | Some value \<Rightarrow> map_option ((#) value) (decode_frames from_slice frames))"

definition feed_json ::
  "(byte list \<Rightarrow> 'v option) \<Rightarrow> NativeTcpFrameDecoder \<Rightarrow> byte list \<Rightarrow>
   ((FrameDecodeError, 'v list) result \<times> NativeTcpFrameDecoder) option" where
  "feed_json from_slice d bytes =
     (case feed d bytes of
        None \<Rightarrow> None
      | Some (Inl e, d') \<Rightarrow> Some (Inl e, d')
      | Some (Inr frames, d') \<Rightarrow>
          (case decode_frames from_slice frames of
             None \<Rightarrow> Some (Inl Decode, d'\<lparr>dec_poisoned := True\<rparr>)
           | Some values \<Rightarrow> Some (Inr values, d')))"

section \<open>One byte at a time\<close>

text \<open>
  The reference decoder consumes one byte per step. \<open>feed\<close>, which takes as much of the input as it
  can use, computes the same.
\<close>

definition byte_step ::
  "NativeTcpFrameDecoder \<Rightarrow> byte \<Rightarrow> (FrameDecodeError, byte list list) result \<times> NativeTcpFrameDecoder" where
  "byte_step d b = (let buffer = dec_buffer d @ [b] in
     case dec_expected_payload_len d of
       Some n \<Rightarrow>
         if length buffer = n then (Inr [buffer], d\<lparr>dec_buffer := [], dec_expected_payload_len := None\<rparr>)
         else (Inr [], d\<lparr>dec_buffer := buffer\<rparr>)
     | None \<Rightarrow>
         if length buffer < 4 then (Inr [], d\<lparr>dec_buffer := buffer\<rparr>)
         else if u32_from_be_bytes buffer = 0
           then (Inl FrameDecodeError.WireProtocolViolation, d\<lparr>dec_buffer := buffer, dec_poisoned := True\<rparr>)
         else if u32_from_be_bytes buffer > dec_max_frame_bytes d
           then (Inl (FrameDecodeError.FrameTooLarge (u32_from_be_bytes buffer) (dec_max_frame_bytes d)),
             d\<lparr>dec_buffer := buffer, dec_poisoned := True\<rparr>)
         else (Inr [], d\<lparr>dec_buffer := [], dec_expected_payload_len := Some (u32_from_be_bytes buffer)\<rparr>))"

primrec run :: "NativeTcpFrameDecoder \<Rightarrow> byte list \<Rightarrow> byte list list \<Rightarrow> feed_outcome" where
  "run d [] frames = (Inr frames, d)"
| "run d (b # bs) frames =
     (case byte_step d b of
        (Inl e, d') \<Rightarrow> (Inl e, d')
      | (Inr emitted, d') \<Rightarrow> run d' bs (frames @ emitted))"

definition decoder_ok :: "NativeTcpFrameDecoder \<Rightarrow> bool" where
  "decoder_ok d \<longleftrightarrow> \<not> dec_poisoned d \<and>
     (case dec_expected_payload_len d of
        Some n \<Rightarrow> length (dec_buffer d) < n \<and> n \<le> dec_max_frame_bytes d
      | None \<Rightarrow> length (dec_buffer d) < 4)"

lemma byte_step_ok:
  assumes "decoder_ok d" "byte_step d b = (Inr emitted, d')"
  shows "decoder_ok d'" and "dec_max_frame_bytes d' = dec_max_frame_bytes d"
  using assms by (auto simp: byte_step_def decoder_ok_def Let_def split: option.splits if_splits)

lemma feed_loop_Nil: "feed_loop d [] frames = Some (Inr frames, d)"
  by (simp add: feed_loop.simps)

text \<open>A byte that does not complete the prefix or the payload can be buffered first.\<close>

lemma feed_loop_grow:
  assumes "Suc (length (dec_buffer d)) < (case dec_expected_payload_len d of Some n \<Rightarrow> n | None \<Rightarrow> 4)"
  shows "feed_loop d (b # bs) frames = feed_loop (d\<lparr>dec_buffer := dec_buffer d @ [b]\<rparr>) bs frames"
proof (cases bs)
  case Nil
  then show ?thesis
    using assms
    by (subst feed_loop.simps)
      (cases "dec_expected_payload_len d"; simp add: Let_def feed_loop_Nil min_absorb2)
next
  case (Cons c cs)
  define n where "n = (case dec_expected_payload_len d of Some n \<Rightarrow> n | None \<Rightarrow> 4)"
  obtain m where m: "n - length (dec_buffer d) = Suc m" "n - Suc (length (dec_buffer d)) = m"
      "Suc (length (dec_buffer d) + m) = n"
    using assms unfolding n_def [symmetric] by (cases "n - length (dec_buffer d)") auto
  have taken: "take (min (Suc m) (length (b # bs))) (b # bs) = b # take (min m (length bs)) bs"
    "drop (min (Suc m) (length (b # bs))) (b # bs) = drop (min m (length bs)) bs"
    by simp_all
  have "feed_loop d (b # bs) frames = (case dec_expected_payload_len d of
      Some _ \<Rightarrow> let buffer = dec_buffer d @ b # take (min m (length bs)) bs in
        if length buffer = n
        then feed_loop (d\<lparr>dec_buffer := [], dec_expected_payload_len := None\<rparr>)
          (drop (min m (length bs)) bs) (frames @ [buffer])
        else feed_loop (d\<lparr>dec_buffer := buffer\<rparr>) (drop (min m (length bs)) bs) frames
    | None \<Rightarrow> let buffer = dec_buffer d @ b # take (min m (length bs)) bs in
        if length buffer < 4 then feed_loop (d\<lparr>dec_buffer := buffer\<rparr>) (drop (min m (length bs)) bs) frames
        else let frame_length = u32_from_be_bytes (take 4 buffer) in
          if frame_length = 0 then Some (Inl FrameDecodeError.WireProtocolViolation,
              d\<lparr>dec_buffer := buffer, dec_poisoned := True\<rparr>)
          else if frame_length > dec_max_frame_bytes d
            then Some (Inl (FrameDecodeError.FrameTooLarge frame_length (dec_max_frame_bytes d)),
              d\<lparr>dec_buffer := buffer, dec_poisoned := True\<rparr>)
          else feed_loop (d\<lparr>dec_buffer := [], dec_expected_payload_len := Some frame_length\<rparr>)
            (drop (min m (length bs)) bs) frames)" (is "_ = ?rhs")
    using assms m taken unfolding n_def
    by (subst feed_loop.simps) (cases "dec_expected_payload_len d"; simp add: Let_def)
  moreover have "feed_loop (d\<lparr>dec_buffer := dec_buffer d @ [b]\<rparr>) bs frames = ?rhs"
    using assms m Cons unfolding n_def
    by (subst feed_loop.simps) (cases "dec_expected_payload_len d"; simp add: Let_def)
  ultimately show ?thesis by simp
qed

lemma feed_loop_byte:
  assumes "decoder_ok d"
  shows "feed_loop d (b # bs) frames = (case byte_step d b of
      (Inl e, d') \<Rightarrow> Some (Inl e, d') | (Inr emitted, d') \<Rightarrow> feed_loop d' bs (frames @ emitted))"
proof (cases "Suc (length (dec_buffer d)) < (case dec_expected_payload_len d of Some n \<Rightarrow> n | None \<Rightarrow> 4)")
  case True
  then show ?thesis
    using feed_loop_grow [OF True] by (auto simp: byte_step_def Let_def split: option.splits)
next
  case False
  define n where "n = (case dec_expected_payload_len d of Some n \<Rightarrow> n | None \<Rightarrow> 4)"
  have n: "n - length (dec_buffer d) = 1" "length (dec_buffer d) < n" "Suc (length (dec_buffer d)) = n"
    using False assms unfolding n_def by (auto simp: decoder_ok_def split: option.splits)
  show ?thesis
    using n unfolding n_def
    by (subst feed_loop.simps)
      (cases "dec_expected_payload_len d"; simp add: byte_step_def Let_def)
qed

lemma feed_loop_is_run: "decoder_ok d \<Longrightarrow> feed_loop d bs frames = Some (run d bs frames)"
proof (induction bs arbitrary: d frames)
  case (Cons b bs)
  then show ?case
    by (auto simp: feed_loop_byte dest: byte_step_ok split: prod.split sum.split)
qed (simp add: feed_loop_Nil)

lemma feed_is_run: "decoder_ok d \<Longrightarrow> feed d bs = Some (run d bs [])"
  by (simp add: feed_def feed_loop_is_run) (simp add: decoder_ok_def)

section \<open>Chunks\<close>

lemma run_append:
  "run d (xs @ ys) frames = (case run d xs frames of
     (Inl e, d') \<Rightarrow> (Inl e, d') | (Inr frames', d') \<Rightarrow> run d' ys frames')"
  by (induction xs arbitrary: d frames) (auto split: prod.splits sum.splits)

lemma run_frames:
  "run d xs frames = (case run d xs [] of
     (Inl e, d') \<Rightarrow> (Inl e, d') | (Inr emitted, d') \<Rightarrow> (Inr (frames @ emitted), d'))"
proof (induction xs arbitrary: d frames)
  case (Cons x xs)
  show ?case
  proof (cases "byte_step d x")
    case (Pair r d')
    show ?thesis
      using Cons.IH [of d' "frames @ projr r"] Cons.IH [of d' "projr r"] Pair
      by (cases r; cases "run d' xs []") (auto split: sum.splits)
  qed
qed simp

lemma run_ok:
  "decoder_ok d \<Longrightarrow> run d xs frames = (Inr frames', d') \<Longrightarrow>
   decoder_ok d' \<and> dec_max_frame_bytes d' = dec_max_frame_bytes d"
proof (induction xs arbitrary: d frames)
  case (Cons x xs)
  obtain emitted e where step: "byte_step d x = (Inr emitted, e)" "run e xs (frames @ emitted) = (Inr frames', d')"
    using Cons.prems(2) by (auto split: prod.splits sum.splits)
  note e = byte_step_ok [OF Cons.prems(1) step(1)]
  show ?case using Cons.IH [OF e(1) step(2)] e(2) by simp
qed simp

text \<open>Feeding a stream in chunks until the first error.\<close>

primrec feed_all :: "NativeTcpFrameDecoder \<Rightarrow> byte list list \<Rightarrow> feed_outcome option" where
  "feed_all d [] = Some (Inr [], d)"
| "feed_all d (chunk # chunks) =
     (case feed d chunk of
        None \<Rightarrow> None
      | Some (Inl e, d') \<Rightarrow> Some (Inl e, d')
      | Some (Inr frames, d') \<Rightarrow>
          (case feed_all d' chunks of
             None \<Rightarrow> None
           | Some (Inl e, d'') \<Rightarrow> Some (Inl e, d'')
           | Some (Inr frames', d'') \<Rightarrow> Some (Inr (frames @ frames'), d'')))"

lemma feed_all_is_run: "decoder_ok d \<Longrightarrow> feed_all d chunks = Some (run d (concat chunks) [])"
proof (induction chunks arbitrary: d)
  case (Cons chunk chunks)
  obtain r d' where r: "run d chunk [] = (r, d')" by fastforce
  show ?case
  proof (cases r)
    case (Inl e)
    then show ?thesis using r Cons.prems by (simp add: feed_is_run run_append)
  next
    case (Inr frames)
    then have "decoder_ok d'" using run_ok [OF Cons.prems] r by auto
    then show ?thesis
      using r Inr Cons.prems Cons.IH [of d'] run_frames [of d' "concat chunks" frames]
      by (simp add: feed_is_run run_append split: prod.splits sum.splits)
  qed
qed simp

section \<open>Encoding and decoding\<close>

lemma be_bytes_round_trip:
  assumes "n \<le> u32_max" shows "u32_from_be_bytes (u32_to_be_bytes n) = n"
proof -
  have "unat (of_nat (k mod 256) :: byte) = k mod 256" for k :: nat
    by (simp add: unat_of_nat)
  then have "u32_from_be_bytes (u32_to_be_bytes n) =
      ((n div 16777216 mod 256 * 256 + n div 65536 mod 256) * 256 + n div 256 mod 256) * 256 + n mod 256"
    by (simp add: u32_from_be_bytes_def u32_to_be_bytes_def)
  also have "\<dots> = n"
  proof -
    have "n div 65536 = n div 256 div 256" "n div 16777216 = n div 256 div 256 div 256"
      by (simp_all flip: div_mult2_eq)
    moreover have "n div 256 div 256 div 256 < 256"
      using assms by (simp add: u32_max_def flip: div_mult2_eq)
    ultimately show ?thesis by (simp add: div_mult_mod_eq)
  qed
  finally show ?thesis .
qed

abbreviation idle :: "NativeTcpFrameDecoder \<Rightarrow> bool" where
  "idle d \<equiv> dec_buffer d = [] \<and> dec_expected_payload_len d = None \<and> \<not> dec_poisoned d"

lemma run_prefix:
  assumes "idle d" "0 < n" "n \<le> dec_max_frame_bytes d" "n \<le> u32_max"
  shows "run d (u32_to_be_bytes n) frames = (Inr frames, d\<lparr>dec_expected_payload_len := Some n\<rparr>)"
proof -
  obtain a b c e where bytes: "u32_to_be_bytes n = [a, b, c, e]" by (simp add: u32_to_be_bytes_def)
  have "u32_from_be_bytes [a, b, c, e] = n" using be_bytes_round_trip [OF assms(4)] bytes by simp
  then show ?thesis using assms(1-3) unfolding bytes by (simp add: byte_step_def)
qed

lemma run_payload:
  assumes "dec_expected_payload_len d = Some n" "length (dec_buffer d) + length p = n" "p \<noteq> []"
  shows "run d p frames = (Inr (frames @ [dec_buffer d @ p]),
    d\<lparr>dec_buffer := [], dec_expected_payload_len := None\<rparr>)"
  using assms
proof (induction p arbitrary: d)
  case (Cons x p)
  show ?case
  proof (cases "p = []")
    case True
    then show ?thesis using Cons.prems by (simp add: byte_step_def)
  next
    case False
    then have "Suc (length (dec_buffer d)) \<noteq> n" using Cons.prems by auto
    then show ?thesis
      using Cons.IH [of "d\<lparr>dec_buffer := dec_buffer d @ [x]\<rparr>"] Cons.prems False
      by (simp add: byte_step_def)
  qed
qed simp

lemma run_frame:
  assumes "idle d" "encode_native_tcp_frame payload (dec_max_frame_bytes d) = Inr frame"
  shows "run d frame frames = (Inr (frames @ [payload]), d)"
proof -
  have p: "payload \<noteq> []" "length payload \<le> dec_max_frame_bytes d" "length payload \<le> u32_max"
    "frame = u32_to_be_bytes (length payload) @ payload"
    using assms(2) by (auto simp: encode_native_tcp_frame_def split: if_splits)
  have "run d frame frames = run (d\<lparr>dec_expected_payload_len := Some (length payload)\<rparr>) payload frames"
    unfolding p(4) run_append using run_prefix [OF assms(1) _ p(2,3)] p(1) by simp
  also have "\<dots> = (Inr (frames @ [payload]), d)"
    using run_payload [of "d\<lparr>dec_expected_payload_len := Some (length payload)\<rparr>" "length payload" payload frames]
      p(1) assms(1) by simp
  finally show ?thesis .
qed

primrec encode_all :: "usize \<Rightarrow> byte list list \<Rightarrow> (FrameEncodeError, byte list) result" where
  "encode_all m [] = Inr []"
| "encode_all m (payload # payloads) =
     bindR (encode_native_tcp_frame payload m) (\<lambda>frame.
     bindR (encode_all m payloads) (\<lambda>stream. Inr (frame @ stream)))"

lemma run_stream:
  "idle d \<Longrightarrow> encode_all (dec_max_frame_bytes d) payloads = Inr stream \<Longrightarrow>
   run d stream frames = (Inr (frames @ payloads), d)"
  by (induction payloads arbitrary: stream frames) (auto simp: bindR_eq_Inr run_append run_frame)

lemma new_ok: "decoder_ok (NativeTcpFrameDecoder_new m)" "idle (NativeTcpFrameDecoder_new m)"
  "dec_max_frame_bytes (NativeTcpFrameDecoder_new m) = m"
  by (simp_all add: decoder_ok_def NativeTcpFrameDecoder_new_def)

section \<open>Reachable decoders\<close>

inductive decoder_reachable :: "usize \<Rightarrow> NativeTcpFrameDecoder \<Rightarrow> bool" for m where
  new: "decoder_reachable m (NativeTcpFrameDecoder_new m)"
| feed: "decoder_reachable m d \<Longrightarrow> feed d bytes = Some (r, d') \<Longrightarrow> decoder_reachable m d'"
| decode_failed: "decoder_reachable m d \<Longrightarrow> feed d bytes = Some (Inr frames, d') \<Longrightarrow>
    decoder_reachable m (d'\<lparr>dec_poisoned := True\<rparr>)"
| clear: "decoder_reachable m d \<Longrightarrow> decoder_reachable m (clear_decoder d)"

definition decoder_inv :: "usize \<Rightarrow> NativeTcpFrameDecoder \<Rightarrow> bool" where
  "decoder_inv m d \<longleftrightarrow> dec_max_frame_bytes d = m \<and> length (dec_buffer d) \<le> max 4 m
     \<and> (dec_poisoned d \<or> decoder_ok d)"

lemma decoder_ok_bound: "decoder_ok d \<Longrightarrow> length (dec_buffer d) \<le> max 4 (dec_max_frame_bytes d)"
  by (auto simp: decoder_ok_def split: option.splits)

lemma byte_step_poison:
  "decoder_ok d \<Longrightarrow> byte_step d b = (Inl e, d') \<Longrightarrow>
   dec_poisoned d' \<and> length (dec_buffer d') \<le> 4 \<and> dec_max_frame_bytes d' = dec_max_frame_bytes d"
  by (auto simp: byte_step_def decoder_ok_def Let_def split: option.splits if_splits)

lemma run_poison:
  "decoder_ok d \<Longrightarrow> run d bs frames = (Inl e, d') \<Longrightarrow>
   dec_poisoned d' \<and> length (dec_buffer d') \<le> 4 \<and> dec_max_frame_bytes d' = dec_max_frame_bytes d"
proof (induction bs arbitrary: d frames)
  case (Cons b bs)
  show ?case
  proof (cases "byte_step d b")
    case (Pair r d1)
    show ?thesis
    proof (cases r)
      case (Inl e')
      then show ?thesis using byte_step_poison [OF Cons.prems(1)] Pair Cons.prems(2) by auto
    next
      case (Inr emitted)
      then have "decoder_ok d1" "dec_max_frame_bytes d1 = dec_max_frame_bytes d"
        using byte_step_ok [OF Cons.prems(1)] Pair by auto
      then show ?thesis using Cons.IH [of d1 "frames @ emitted"] Cons.prems(2) Pair Inr by auto
    qed
  qed
qed simp

lemma feed_inv:
  assumes "decoder_inv m d" "feed d bytes = Some (r, d')"
  shows "decoder_inv m d'"
proof (cases "dec_poisoned d")
  case True
  then show ?thesis using assms by (simp add: feed_def)
next
  case False
  then have ok: "decoder_ok d" and m: "dec_max_frame_bytes d = m" using assms by (auto simp: decoder_inv_def)
  then have run: "run d bytes [] = (r, d')" using assms(2) by (simp add: feed_is_run)
  show ?thesis
  proof (cases r)
    case (Inl e)
    then show ?thesis using run_poison [OF ok, of bytes "[]" e d'] run m by (simp add: decoder_inv_def le_max_iff_disj)
  next
    case (Inr frames)
    then have "decoder_ok d'" "dec_max_frame_bytes d' = m" using run_ok [OF ok] run m by auto
    then show ?thesis using decoder_ok_bound [of d'] by (simp add: decoder_inv_def)
  qed
qed

lemma decoder_reachable_inv: "decoder_reachable m d \<Longrightarrow> decoder_inv m d"
proof (induction rule: decoder_reachable.induct)
  case new
  then show ?case by (simp add: decoder_inv_def new_ok)
next
  case (feed d bytes r d')
  then show ?case by (blast intro: feed_inv)
next
  case (decode_failed d bytes frames d')
  then show ?case using feed_inv [of m d bytes "Inr frames" d'] by (simp add: decoder_inv_def)
next
  case (clear d)
  then show ?case by (simp add: decoder_inv_def clear_decoder_def decoder_ok_def)
qed

section \<open>Properties\<close>

text \<open>C37: Frames survive the wire. Encode any payloads that the encoder accepts, concatenate the
  frames, cut the stream into chunks anywhere, and feed the chunks to a fresh decoder with the same
  limit: it returns exactly the payloads, in order, and is idle again.\<close>

theorem frame_stream_round_trip:
  assumes "encode_all m payloads = Inr stream" and "concat chunks = stream"
  shows "feed_all (NativeTcpFrameDecoder_new m) chunks = Some (Inr payloads, NativeTcpFrameDecoder_new m)"
  using assms run_stream [OF new_ok(2), of m payloads stream "[]"]
  by (simp add: feed_all_is_run [OF new_ok(1)] new_ok(3))

theorem frame_stream_round_trip_witness:
  "feed_all (NativeTcpFrameDecoder_new 8) [[0, 0], [0, 2, 7], [9, 0, 0, 0, 1], [5]] =
     Some (Inr [[7, 9], [5]], NativeTcpFrameDecoder_new 8)"
  by (rule frame_stream_round_trip [where stream = "[0, 0, 0, 2, 7, 9, 0, 0, 0, 1, 5]"])
    (simp_all add: encode_native_tcp_frame_def u32_to_be_bytes_def u32_max_def)

text \<open>The decoder does not see read boundaries. For any decoder between reads, two ways of
  cutting the same bytes into chunks give the same frames, the same error if the stream is bad, and
  the same decoder afterwards, and feeding always returns.\<close>

theorem feeding_ignores_chunk_boundaries:
  assumes "decoder_ok d" and "concat chunks = concat chunks'"
  shows "feed_all d chunks = feed_all d chunks' \<and> (\<exists>outcome. feed_all d chunks = Some outcome)"
  using assms by (simp add: feed_all_is_run)

theorem feeding_ignores_chunk_boundaries_witness:
  "feed_all (NativeTcpFrameDecoder_new 1) [[0, 0, 0, 1, 5, 0], [0, 0, 9]] =
   feed_all (NativeTcpFrameDecoder_new 1) [[0], [0, 0, 1, 5, 0, 0, 0, 9]]"
  using feeding_ignores_chunk_boundaries [OF new_ok(1),
      of "[[0, 0, 0, 1, 5, 0], [0, 0, 9]]" "[[0], [0, 0, 1, 5, 0, 0, 0, 9]]"]
  by simp

text \<open>The decoder is bounded and stays poisoned. Whatever bytes a peer sends, a decoder reached
  from a fresh one by reads, failed decodes and clears buffers at most \<open>max(4, max_frame_bytes)\<close>
  bytes, \<open>feed\<close> always returns, and once poisoned it refuses every further byte unchanged.\<close>

theorem decoder_is_bounded:
  assumes "decoder_reachable m d"
  shows "buffered_bytes d \<le> max 4 m \<and> (\<exists>outcome. feed d bytes = Some outcome)
    \<and> (dec_poisoned d \<longrightarrow> feed d bytes = Some (Inl Poisoned, d))"
proof (cases "dec_poisoned d")
  case True
  then show ?thesis
    using decoder_reachable_inv [OF assms] by (simp add: decoder_inv_def buffered_bytes_def feed_def)
next
  case False
  then show ?thesis
    using decoder_reachable_inv [OF assms] by (simp add: decoder_inv_def buffered_bytes_def feed_is_run)
qed

theorem decoder_is_bounded_witness:
  "buffered_bytes ((NativeTcpFrameDecoder_new 8)\<lparr>dec_poisoned := True\<rparr>) \<le> max 4 8
   \<and> feed ((NativeTcpFrameDecoder_new 8)\<lparr>dec_poisoned := True\<rparr>) [1] =
       Some (Inl Poisoned, (NativeTcpFrameDecoder_new 8)\<lparr>dec_poisoned := True\<rparr>)"
proof -
  have "feed (NativeTcpFrameDecoder_new 8) [] = Some (Inr [], NativeTcpFrameDecoder_new 8)"
    by (simp add: feed_is_run [OF new_ok(1)])
  from decoder_reachable.decode_failed [OF decoder_reachable.new this]
  show ?thesis using decoder_is_bounded [of 8 "(NativeTcpFrameDecoder_new 8)\<lparr>dec_poisoned := True\<rparr>" "[1]"]
    by simp
qed

end
