(* ===== verification/Reconciliation.thy ===== *)
theory Reconciliation
  imports Execution_State Ordered_Map "HOL-Library.Product_Lexorder"
begin

text \<open>
  The reconciliation crate (\<open>crates/reconciliation/src\<close>): request planning (\<open>request.rs\<close>),
  validation of requests, command scopes, results and events (\<open>validation.rs\<close>), evaluation of a
  result and the two escalations (\<open>evaluation.rs\<close>). \<open>findings.push\<close> and \<open>pending.insert\<close> are lists and
  flags that the loop bodies return.
\<close>

section \<open>Data\<close>

record ReconciliationRequestInput =
  rri_request_id :: RequestId
  rri_account_id :: AccountId
  rri_terminal_id :: "TerminalId option"
  rri_client_id :: "ClientId option"
  rri_reason :: ReconciliationReason
  rri_command_ids :: "CommandId list option"
  rri_since_server_time :: "i64 option"
  rri_requested_at :: i64

record ReconciliationRequestContext =
  rctx_request :: ReconciliationRequest
  rctx_requested_at :: i64

record ReconciliationCommand =
  rc_command :: ExecutionCommand
  rc_state :: ExecutionCommandState

record ReconciliationCommandTransition =
  rct_command_id :: CommandId
  rct_expected_status :: ExecutionCommandStatus
  rct_expected_updated_at :: i64
  rct_outcome :: CommandTransitionOutcome

record ReconciliationRequestPlan =
  rrp_context :: ReconciliationRequestContext
  rrp_command_transitions :: "ReconciliationCommandTransition list"

datatype ReconciliationDisposition = Completed | PendingEvidence | ManualRequired

datatype ReconciliationFinding =
    ClientReportedUnresolved CommandId
  | ClientReportedUnresolvedDespiteAuthoritativeState CommandId ExecutionCommandStatus
  | CommandAlreadyRequiresManualReconciliation CommandId
  | UnknownCommandReportedUnresolved CommandId
  | UnknownCommandObservedInOrderSnapshot CommandId "BrokerOrderId list"
  | MissingAuthoritativeExecutionEvidence CommandId "BrokerOrderId list"
  | ExecutionProjectionPending CommandId ExecutionEventStatus
  | MultipleOrderSnapshotsForCommand CommandId "BrokerOrderId list"
  | OrderIdentityConflict CommandId BrokerOrderId string
  | SnapshotConflictsWithExecutionEvent CommandId BrokerOrderId ExecutionEventStatus OrderSnapshotStatus
  | ReconciliationResultMissing i64

record ReconciliationEvaluation =
  reval_request_id :: RequestId
  reval_account_id :: AccountId
  reval_observed_at :: "i64 option"
  reval_disposition :: ReconciliationDisposition
  reval_command_ids :: "CommandId list"
  reval_findings :: "ReconciliationFinding list"

record ManualEscalationEvidence =
  mee_request_id :: RequestId
  mee_escalated_at :: i64
  mee_reason :: string

record ManualReconciliationEscalation =
  mresc_evidence :: ManualEscalationEvidence
  mresc_evaluation :: ReconciliationEvaluation
  mresc_command_transitions :: "ReconciliationCommandTransition list"

record EvaluatedReconciliationResult =
  err_result :: ReconciliationResult
  err_evaluation :: ReconciliationEvaluation

datatype ReconciliationError =
    InvalidRequest string string
  | InvalidContext string string
  | InvalidResult string string
  | InvalidManualEscalation string string
  | CommandTransition CommandId CommandTransitionError

type_synonym 'a rresult = "(ReconciliationError, 'a) result"

primrec CommandTransitionError_to_string :: "CommandTransitionError \<Rightarrow> string" where
  "CommandTransitionError_to_string (InvalidIdentity field) =
     ''invalid command lifecycle identity at '' @ field"
| "CommandTransitionError_to_string (InvalidTimestamp field) =
     ''invalid command lifecycle timestamp: '' @ field"
| "CommandTransitionError_to_string (InvalidEvidence field) =
     ''invalid command evidence: '' @ field"
| "CommandTransitionError_to_string (InvalidTransition from_status to_status) =
     ''command transition '' @ enum_as_str ExecutionCommandStatus_table from_status @ '' -> '' @
     enum_as_str ExecutionCommandStatus_table to_status @ '' is not allowed''"
| "CommandTransitionError_to_string VersionOverflow = ''command lifecycle version overflow''"

section \<open>Field checks\<close>

definition require_request_text :: "string \<Rightarrow> string \<Rightarrow> unit rresult" where
  "require_request_text field value =
     (if trim_is_empty value then Inl (InvalidRequest field ''must not be empty'') else Inr ())"

definition require_result_text :: "string \<Rightarrow> string \<Rightarrow> unit rresult" where
  "require_result_text field value =
     (if trim_is_empty value then Inl (InvalidResult field ''must not be empty'') else Inr ())"

definition require_result_finite :: "string \<Rightarrow> f64 \<Rightarrow> unit rresult" where
  "require_result_finite field value =
     (if f64_is_finite value then Inr () else Inl (InvalidResult field ''must be finite''))"

definition require_result_non_negative :: "string \<Rightarrow> f64 \<Rightarrow> unit rresult" where
  "require_result_non_negative field value =
     (if f64_is_finite value \<and> f64_le f64_zero value then Inr ()
      else Inl (InvalidResult field ''must be finite and non-negative''))"

definition require_result_positive :: "string \<Rightarrow> f64 \<Rightarrow> unit rresult" where
  "require_result_positive field value =
     (if f64_is_finite value \<and> f64_lt f64_zero value then Inr ()
      else Inl (InvalidResult field ''must be finite and positive''))"

definition validate_optional_positive :: "string \<Rightarrow> f64 option \<Rightarrow> unit rresult" where
  "validate_optional_positive field value =
     (case value of None \<Rightarrow> Inr () | Some v \<Rightarrow> require_result_positive field v)"

definition validate_route_constraint :: "string \<Rightarrow> string option \<Rightarrow> string option \<Rightarrow> unit rresult" where
  "validate_route_constraint field requested actual =
     (if requested \<noteq> None \<and> requested \<noteq> actual
        then Inl (InvalidContext field ''does not match the constrained request route'')
      else Inr ())"

section \<open>Requests and command scopes\<close>

definition validate_request_context :: "ReconciliationRequestContext \<Rightarrow> unit rresult" where
  "validate_request_context ctx = (let request = rctx_request ctx in
     bindR (require_request_text ''request_id'' (rreq_request_id request)) (\<lambda>_.
     bindR (require_request_text ''account_id'' (rreq_account_id request)) (\<lambda>_.
     bindR (case rreq_terminal_id request of None \<Rightarrow> Inr ()
         | Some terminal_id \<Rightarrow> require_request_text ''terminal_id'' terminal_id) (\<lambda>_.
     bindR (case rreq_client_id request of None \<Rightarrow> Inr ()
         | Some client_id \<Rightarrow> require_request_text ''client_id'' client_id) (\<lambda>_.
     if rctx_requested_at ctx < 0
       then Inl (InvalidRequest ''requested_at'' ''must be a non-negative server-time timestamp'')
     else bindR (case rreq_since_server_time request of None \<Rightarrow> Inr ()
         | Some since \<Rightarrow> if since < 0 \<or> since > rctx_requested_at ctx
             then Inl (InvalidRequest ''since_server_time''
               ''must be non-negative and not later than requested_at'')
             else Inr ()) (\<lambda>_.
     case rreq_command_ids request of
       None \<Rightarrow> Inr ()
     | Some command_ids \<Rightarrow>
         if command_ids = [] then Inl (InvalidRequest ''command_ids''
           ''Some scope must not be empty; use None for account-wide scope'')
         else bindR (check_each (require_request_text ''command_ids[]'') command_ids) (\<lambda>_.
         if \<not> strictly_ascending command_ids then Inl (InvalidRequest ''command_ids''
           ''must be unique and sorted in ascending command_id order'')
         else Inr ())))))))"

definition build_reconciliation_request ::
  "ReconciliationRequestInput \<Rightarrow> ReconciliationRequestContext rresult" where
  "build_reconciliation_request input =
     bindR (case rri_command_ids input of
         None \<Rightarrow> Inr None
       | Some command_ids \<Rightarrow>
           if command_ids = [] then Inl (InvalidRequest ''command_ids''
             ''Some scope must not be empty; use None for account-wide scope'')
           else let unique = bt_set command_ids in
             if length unique \<noteq> length command_ids
               then Inl (InvalidRequest ''command_ids'' ''must not contain duplicates'')
             else Inr (Some unique)) (\<lambda>command_ids.
     let ctx = \<lparr>rctx_request = \<lparr>rreq_request_id = rri_request_id input,
           rreq_account_id = rri_account_id input, rreq_terminal_id = rri_terminal_id input,
           rreq_client_id = rri_client_id input, rreq_reason = rri_reason input,
           rreq_command_ids = command_ids, rreq_since_server_time = rri_since_server_time input\<rparr>,
         rctx_requested_at = rri_requested_at input\<rparr>
     in bindR (validate_request_context ctx) (\<lambda>_. Inr ctx))"

definition validate_scope_item ::
  "ReconciliationRequestContext \<Rightarrow> i64 \<Rightarrow> ReconciliationCommand \<Rightarrow> unit rresult" where
  "validate_scope_item ctx upper_time_bound item =
     (let command = rc_command item; request = rctx_request ctx in
     bindR (map_err (\<lambda>error. InvalidContext ''commands[].state''
         (''command '' @ ec_command_id command @ '' is invalid: '' @
          CommandTransitionError_to_string error))
       (validate_command_state command (rc_state item))) (\<lambda>_.
     if ec_account_id command \<noteq> rreq_account_id request
       then Inl (InvalidContext ''commands[].account_id''
         (''command '' @ ec_command_id command @ '' is outside request account '' @
          rreq_account_id request))
     else bindR (validate_route_constraint ''commands[].terminal_id'' (rreq_terminal_id request)
         (ec_terminal_id command)) (\<lambda>_.
     bindR (validate_route_constraint ''commands[].client_id'' (rreq_client_id request)
         (ec_client_id command)) (\<lambda>_.
     if cs_updated_at (rc_state item) > upper_time_bound
       then Inl (InvalidContext ''commands[].state.updated_at''
         (''command '' @ ec_command_id command @ '' state is newer than the evaluation boundary''))
     else Inr ()))))"

primrec index_commands ::
  "ReconciliationRequestContext \<Rightarrow> i64 \<Rightarrow> ReconciliationCommand list \<Rightarrow>
   (CommandId, ReconciliationCommand) btree_map \<Rightarrow>
   (CommandId, ReconciliationCommand) btree_map rresult" where
  "index_commands ctx upper_time_bound [] indexed = Inr indexed"
| "index_commands ctx upper_time_bound (item # items) indexed =
     bindR (validate_scope_item ctx upper_time_bound item) (\<lambda>_.
     let command_id = ec_command_id (rc_command item) in
     if map_of indexed command_id \<noteq> None
       then Inl (InvalidContext ''commands[].command_id'' (''duplicate command '' @ command_id))
     else index_commands ctx upper_time_bound items (bt_insert command_id item indexed))"

definition validate_command_scope ::
  "ReconciliationRequestContext \<Rightarrow> ReconciliationCommand list \<Rightarrow> i64 \<Rightarrow>
   (CommandId, ReconciliationCommand) btree_map rresult" where
  "validate_command_scope ctx commands upper_time_bound =
     bindR (validate_request_context ctx) (\<lambda>_.
     if upper_time_bound < rctx_requested_at ctx
       then Inl (InvalidContext ''upper_time_bound'' ''must not predate requested_at'')
     else bindR (index_commands ctx upper_time_bound commands []) (\<lambda>indexed.
     case rreq_command_ids (rctx_request ctx) of
       None \<Rightarrow> Inr indexed
     | Some scoped_ids \<Rightarrow>
         if bt_keys indexed \<noteq> scoped_ids
           then Inl (InvalidContext ''commands'' ''must contain exactly the targeted request command_ids'')
         else Inr indexed))"

section \<open>Results\<close>

primrec validate_unique ::
  "('a \<Rightarrow> unit rresult) \<Rightarrow> ('a \<Rightarrow> string) \<Rightarrow> (string \<Rightarrow> ReconciliationError) \<Rightarrow> ('a \<Rightarrow> unit rresult) \<Rightarrow>
   string set \<Rightarrow> 'a list \<Rightarrow> unit rresult" where
  "validate_unique before key duplicate after keys [] = Inr ()"
| "validate_unique before key duplicate after keys (x # xs) =
     bindR (before x) (\<lambda>_.
     if key x \<in> keys then Inl (duplicate (key x))
     else bindR (after x) (\<lambda>_.
     validate_unique before key duplicate after (insert (key x) keys) xs))"

definition full_set_identity :: "string \<Rightarrow> bool \<Rightarrow> unit rresult" where
  "full_set_identity field matches = (if \<not> matches
     then Inl (InvalidResult field
       ''account_id and observed_at must match the result full-set identity'') else Inr ())"

definition validate_positions :: "ReconciliationResult \<Rightarrow> unit rresult" where
  "validate_positions result = validate_unique
     (\<lambda>position. bindR (full_set_identity ''positions[]''
         (pos_account_id position = rres_account_id result \<and>
          pos_observed_at position = rres_observed_at result)) (\<lambda>_.
       bindR (require_result_text ''positions[].position_id'' (pos_position_id position)) (\<lambda>_.
       require_result_text ''positions[].symbol'' (pos_symbol position))))
     pos_position_id
     (\<lambda>position_id. InvalidResult ''positions[].position_id'' (''duplicate position '' @ position_id))
     (\<lambda>position. bindR (require_result_positive ''positions[].lots'' (pos_lots position)) (\<lambda>_.
       bindR (require_result_positive ''positions[].open_price'' (pos_open_price position)) (\<lambda>_.
       bindR (require_result_finite ''positions[].floating_pnl'' (pos_floating_pnl position)) (\<lambda>_.
       bindR (validate_optional_positive ''positions[].sl'' (pos_sl position)) (\<lambda>_.
       validate_optional_positive ''positions[].tp'' (pos_tp position))))))
     {} (rres_positions result)"

definition validate_order_times :: "OrderSnapshot \<Rightarrow> i64 \<Rightarrow> unit rresult" where
  "validate_order_times order observed_at =
     bindR (check_each (\<lambda>(field, value). if (case value of None \<Rightarrow> False
           | Some v \<Rightarrow> v < 0 \<or> v > observed_at)
         then Inl (InvalidResult field ''must be a non-negative timestamp not later than observed_at'')
         else Inr ())
       [(''orders[].created_at'', ord_created_at order), (''orders[].updated_at'', ord_updated_at order)]) (\<lambda>_.
     if (case (ord_created_at order, ord_updated_at order) of
         (Some created, Some updated) \<Rightarrow> updated < created | _ \<Rightarrow> False)
       then Inl (InvalidResult ''orders[].updated_at'' ''must not predate created_at'')
     else Inr ())"

definition validate_orders :: "ReconciliationResult \<Rightarrow> unit rresult" where
  "validate_orders result = validate_unique
     (\<lambda>order. bindR (full_set_identity ''orders[]''
         (ord_account_id order = rres_account_id result \<and>
          ord_observed_at order = rres_observed_at result)) (\<lambda>_.
       bindR (require_result_text ''orders[].broker_order_id'' (ord_broker_order_id order)) (\<lambda>_.
       bindR (require_result_text ''orders[].symbol'' (ord_symbol order)) (\<lambda>_.
       bindR (case ord_broker_symbol order of None \<Rightarrow> Inr ()
           | Some value \<Rightarrow> require_result_text ''orders[].broker_symbol'' value) (\<lambda>_.
       check_each (\<lambda>(field, value). case value of None \<Rightarrow> Inr ()
           | Some v \<Rightarrow> require_result_text field v)
         [(''orders[].command_id'', ord_command_id order), (''orders[].plan_id'', ord_plan_id order),
          (''orders[].leg_id'', ord_leg_id order),
          (''orders[].idempotency_key'', ord_idempotency_key order)])))))
     ord_broker_order_id
     (\<lambda>broker_order_id. InvalidResult ''orders[].broker_order_id''
       (''duplicate broker order '' @ broker_order_id))
     (\<lambda>order. bindR (require_result_positive ''orders[].requested_lots'' (ord_requested_lots order)) (\<lambda>_.
       bindR (require_result_non_negative ''orders[].filled_lots'' (ord_filled_lots order)) (\<lambda>_.
       bindR (require_result_non_negative ''orders[].remaining_lots'' (ord_remaining_lots order)) (\<lambda>_.
       if f64_lt (ord_requested_lots order) (ord_filled_lots order)
           \<or> f64_lt (ord_requested_lots order) (ord_remaining_lots order)
         then Inl (InvalidResult ''orders[].lots''
           ''filled_lots and remaining_lots must not exceed requested_lots'')
       else bindR (validate_optional_positive ''orders[].price'' (ord_price order)) (\<lambda>_.
       bindR (validate_optional_positive ''orders[].sl'' (ord_sl order)) (\<lambda>_.
       bindR (validate_optional_positive ''orders[].tp'' (ord_tp order)) (\<lambda>_.
       validate_order_times order (rres_observed_at result))))))))
     {} (rres_orders result)"

definition validate_metadata_numbers :: "SymbolMetadataSnapshot \<Rightarrow> unit rresult" where
  "validate_metadata_numbers metadata =
     bindR (check_each (\<lambda>(field, value). require_result_positive field value)
       [(''symbol_metadata[].point'', sm_point metadata),
        (''symbol_metadata[].tick_size'', sm_tick_size metadata),
        (''symbol_metadata[].tick_value_loss'', sm_tick_value_loss metadata),
        (''symbol_metadata[].contract_size'', sm_contract_size metadata),
        (''symbol_metadata[].volume_min'', sm_volume_min metadata),
        (''symbol_metadata[].volume_max'', sm_volume_max metadata),
        (''symbol_metadata[].volume_step'', sm_volume_step metadata)]) (\<lambda>_.
     if f64_lt (sm_volume_max metadata) (sm_volume_min metadata)
       then Inl (InvalidResult ''symbol_metadata[].volume_min'' ''must not exceed volume_max'')
     else bindR (validate_optional_positive ''symbol_metadata[].margin_initial''
         (sm_margin_initial metadata)) (\<lambda>_.
       validate_optional_positive ''symbol_metadata[].margin_maintenance''
         (sm_margin_maintenance metadata)))"

definition validate_symbol_metadata :: "ReconciliationResult \<Rightarrow> unit rresult" where
  "validate_symbol_metadata result = validate_unique
     (\<lambda>metadata. bindR (full_set_identity ''symbol_metadata[]''
         (sm_account_id metadata = rres_account_id result \<and>
          sm_observed_at metadata = rres_observed_at result)) (\<lambda>_.
       bindR (require_result_text ''symbol_metadata[].symbol'' (sm_symbol metadata)) (\<lambda>_.
       require_result_text ''symbol_metadata[].broker_symbol'' (sm_broker_symbol metadata))))
     sm_broker_symbol
     (\<lambda>broker_symbol. InvalidResult ''symbol_metadata[].broker_symbol''
       (''duplicate broker symbol '' @ broker_symbol))
     validate_metadata_numbers
     {} (rres_symbol_metadata result)"

definition validate_account :: "ReconciliationResult \<Rightarrow> unit rresult" where
  "validate_account result =
     (case rres_account result of
        None \<Rightarrow> Inr ()
      | Some account \<Rightarrow>
          bindR (full_set_identity ''account'' (acct_account_id account = rres_account_id result \<and>
            acct_observed_at account = rres_observed_at result)) (\<lambda>_.
          bindR (check_each (\<lambda>(field, value). require_result_finite field value)
            [(''account.balance'', acct_balance account), (''account.equity'', acct_equity account),
             (''account.margin'', acct_margin account),
             (''account.free_margin'', acct_free_margin account)]) (\<lambda>_.
          require_result_text ''account.currency'' (acct_currency account))))"

definition validate_result ::
  "ReconciliationRequestContext \<Rightarrow> ReconciliationResult \<Rightarrow> i64 \<Rightarrow> unit rresult" where
  "validate_result ctx result received_at = (let request = rctx_request ctx in
     bindR (validate_request_context ctx) (\<lambda>_.
     if rres_request_id result \<noteq> rreq_request_id request
       then Inl (InvalidResult ''request_id'' ''does not match the reconciliation request'')
     else if rres_account_id result \<noteq> rreq_account_id request
       then Inl (InvalidResult ''account_id'' ''does not match the reconciliation request'')
     else if rres_terminal_id result \<noteq> rreq_terminal_id request
       then Inl (InvalidResult ''terminal_id'' ''must exactly match the reconciliation request route'')
     else if rres_client_id result \<noteq> rreq_client_id request
       then Inl (InvalidResult ''client_id'' ''must exactly match the reconciliation request route'')
     else if rres_observed_at result < rctx_requested_at ctx \<or> rres_observed_at result > received_at
       then Inl (InvalidResult ''observed_at'' ''must be between requested_at and server received_at'')
     else bindR (validate_account result) (\<lambda>_.
     bindR (validate_positions result) (\<lambda>_.
     bindR (validate_orders result) (\<lambda>_.
     bindR (validate_symbol_metadata result) (\<lambda>_.
     bindR (validate_unique (require_result_text ''unresolved_command_ids[]'') (\<lambda>command_id. command_id)
       (\<lambda>command_id. InvalidResult ''unresolved_command_ids''
         (''contains duplicate command '' @ command_id)) (\<lambda>_. Inr ())
       {} (rres_unresolved_command_ids result)) (\<lambda>_.
     case rreq_command_ids request of
       None \<Rightarrow> Inr ()
     | Some scoped_ids \<Rightarrow>
         if list_ex (\<lambda>command_id. command_id \<notin> set scoped_ids) (rres_unresolved_command_ids result)
           then Inl (InvalidResult ''unresolved_command_ids''
             ''contains a command outside the targeted request scope'')
         else Inr ())))))))"

section \<open>Execution events\<close>

definition bt_push :: "('k::linorder) \<Rightarrow> 'v \<Rightarrow> ('k, 'v list) btree_map \<Rightarrow> ('k, 'v list) btree_map" where
  "bt_push k v m = bt_insert k ((case map_of m k of None \<Rightarrow> [] | Some vs \<Rightarrow> vs) @ [v]) m"

definition validate_event_item ::
  "(CommandId, ReconciliationCommand) btree_map \<Rightarrow> i64 \<Rightarrow> ExecutionEvent \<Rightarrow> unit rresult" where
  "validate_event_item commands received_at event =
     (case map_of commands (ev_command_id event) of
        None \<Rightarrow> Inl (InvalidContext ''execution_events[].command_id''
          (''event references unknown command '' @ ev_command_id event))
      | Some item \<Rightarrow>
     bindR (map_err (\<lambda>error. InvalidContext ''execution_events[]''
         (''event is invalid for command '' @ ec_command_id (rc_command item) @ '': '' @
          CommandTransitionError_to_string error))
       (validate_execution_event (rc_command item) event)) (\<lambda>_.
     if ev_event_at event < cs_created_at (rc_state item) \<or> ev_event_at event > received_at
       then Inl (InvalidContext ''execution_events[].event_at''
         (''event time is invalid for command '' @ ec_command_id (rc_command item)))
     else if (case ev_filled_at event of None \<Rightarrow> False
         | Some filled_at \<Rightarrow> filled_at < cs_created_at (rc_state item))
       then Inl (InvalidContext ''execution_events[].filled_at''
         (''fill timing is invalid for command '' @ ec_command_id (rc_command item)))
     else Inr ()))"

primrec group_events ::
  "(CommandId, ReconciliationCommand) btree_map \<Rightarrow> i64 \<Rightarrow> ExecutionEvent list \<Rightarrow> ExecutionId set \<Rightarrow>
   (CommandId, ExecutionEvent list) btree_map \<Rightarrow> (CommandId, ExecutionEvent list) btree_map rresult" where
  "group_events commands received_at [] execution_ids grouped = Inr grouped"
| "group_events commands received_at (event # events) execution_ids grouped =
     (if trim_is_empty (ev_execution_id event) \<or> ev_execution_id event \<in> execution_ids
        then Inl (InvalidContext ''execution_events[].execution_id'' ''must be non-empty and unique'')
      else bindR (validate_event_item commands received_at event) (\<lambda>_.
        group_events commands received_at events (insert (ev_execution_id event) execution_ids)
          (bt_push (ev_command_id event) event grouped)))"

definition validate_execution_events ::
  "(CommandId, ReconciliationCommand) btree_map \<Rightarrow> ExecutionEvent list \<Rightarrow> i64 \<Rightarrow>
   (CommandId, ExecutionEvent list) btree_map rresult" where
  "validate_execution_events commands events received_at =
     bindR (group_events commands received_at events {} []) (\<lambda>grouped.
     Inr (map (\<lambda>(command_id, events).
       (command_id, sort_key (\<lambda>event. (ev_event_at event, ev_execution_id event)) events)) grouped))"

section \<open>Planning a request\<close>

definition may_begin_reconciliation :: "ExecutionCommandStatus \<Rightarrow> bool" where
  "may_begin_reconciliation status \<longleftrightarrow>
     status = ExecutionCommandStatus.DeliveryUnconfirmed \<or> status = ExecutionCommandStatus.Reconciling"

definition may_require_manual :: "ExecutionCommandStatus \<Rightarrow> bool" where
  "may_require_manual status \<longleftrightarrow>
     status = ExecutionCommandStatus.DeliveryUnconfirmed \<or> status = ExecutionCommandStatus.Reconciling
   \<or> status = ExecutionCommandStatus.ManualReconciliationRequired"

definition command_transition ::
  "CommandId \<Rightarrow> ReconciliationCommand \<Rightarrow> CommandEvidence \<Rightarrow> ReconciliationCommandTransition rresult" where
  "command_transition command_id item evidence =
     bindR (map_err (CommandTransition command_id)
       (transition_command (rc_command item) (rc_state item) evidence)) (\<lambda>outcome.
     Inr \<lparr>rct_command_id = command_id, rct_expected_status = cs_status (rc_state item),
       rct_expected_updated_at = cs_updated_at (rc_state item), rct_outcome = outcome\<rparr>)"

text \<open>The loop over the commands: those whose status qualifies get a transition.\<close>

primrec derive_transitions ::
  "(ExecutionCommandStatus \<Rightarrow> bool) \<Rightarrow> CommandEvidence \<Rightarrow> (CommandId \<times> ReconciliationCommand) list \<Rightarrow>
   ReconciliationCommandTransition list rresult" where
  "derive_transitions qualifies evidence [] = Inr []"
| "derive_transitions qualifies evidence (entry # entries) =
     (if \<not> qualifies (cs_status (rc_state (snd entry)))
        then derive_transitions qualifies evidence entries
      else bindR (command_transition (fst entry) (snd entry) evidence) (\<lambda>t.
        bindR (derive_transitions qualifies evidence entries) (\<lambda>ts. Inr (t # ts))))"

definition plan_reconciliation_request ::
  "ReconciliationRequestInput \<Rightarrow> ReconciliationCommand list \<Rightarrow> ReconciliationRequestPlan rresult" where
  "plan_reconciliation_request input commands =
     bindR (build_reconciliation_request input) (\<lambda>ctx.
     bindR (validate_command_scope ctx commands (rctx_requested_at ctx)) (\<lambda>indexed.
     bindR (derive_transitions may_begin_reconciliation
       (CommandEvidence.BeginReconciliation (rctx_requested_at ctx)) indexed) (\<lambda>command_transitions.
     Inr \<lparr>rrp_context = ctx, rrp_command_transitions = command_transitions\<rparr>)))"

section \<open>Evaluating a result\<close>

definition canonicalize_result_sets :: "ReconciliationResult \<Rightarrow> ReconciliationResult" where
  "canonicalize_result_sets result = result\<lparr>
     rres_positions := sort_key pos_position_id (rres_positions result),
     rres_orders := sort_key ord_broker_order_id (rres_orders result),
     rres_symbol_metadata := sort_key (\<lambda>m. (sm_broker_symbol m, sm_symbol m)) (rres_symbol_metadata result),
     rres_unresolved_command_ids := sort (rres_unresolved_command_ids result)\<rparr>"

definition push_order ::
  "OrderSnapshot \<Rightarrow> (CommandId, OrderSnapshot list) btree_map \<Rightarrow> (CommandId, OrderSnapshot list) btree_map" where
  "push_order order indexed = (case ord_command_id order of
     None \<Rightarrow> indexed | Some command_id \<Rightarrow> bt_push command_id order indexed)"

definition index_orders_by_command ::
  "OrderSnapshot list \<Rightarrow> (CommandId, OrderSnapshot list) btree_map" where
  "index_orders_by_command orders =
     map (\<lambda>(command_id, orders). (command_id, sort_key ord_broker_order_id orders))
       (fold push_order orders [])"

definition route_component_may_match :: "string option \<Rightarrow> string option \<Rightarrow> bool" where
  "route_component_may_match requested observed \<longleftrightarrow>
     requested = None \<or> observed = None \<or> requested = observed"

definition order_may_belong_to_request_route ::
  "ReconciliationRequestContext \<Rightarrow> OrderSnapshot \<Rightarrow> bool" where
  "order_may_belong_to_request_route ctx order \<longleftrightarrow>
     route_component_may_match (rreq_terminal_id (rctx_request ctx)) (ord_terminal_id order)
   \<and> route_component_may_match (rreq_client_id (rctx_request ctx)) (ord_client_id order)"

definition order_identity_conflicts :: "OrderSnapshot \<Rightarrow> ExecutionCommand \<Rightarrow> string list" where
  "order_identity_conflicts order command =
     (if ord_symbol order \<noteq> ec_symbol command then [''symbol''] else []) @
     (if ord_broker_symbol order \<noteq> None \<and> ord_broker_symbol order \<noteq> ec_broker_symbol command
      then [''broker_symbol''] else []) @
     (if ord_plan_id order \<noteq> None \<and> ord_plan_id order \<noteq> ec_plan_id command then [''plan_id''] else []) @
     (if ord_leg_id order \<noteq> None \<and> ord_leg_id order \<noteq> ec_leg_id command then [''leg_id''] else []) @
     (if ord_idempotency_key order \<noteq> None \<and> ord_idempotency_key order \<noteq> Some (ec_idempotency_key command)
      then [''idempotency_key''] else []) @
     (if ord_terminal_id order \<noteq> None \<and> ord_terminal_id order \<noteq> ec_terminal_id command
      then [''terminal_id''] else []) @
     (if ord_client_id order \<noteq> None \<and> ord_client_id order \<noteq> ec_client_id command
      then [''client_id''] else []) @
     (if (case ec_lots command of None \<Rightarrow> False | Some lots \<Rightarrow> lots \<noteq> ord_requested_lots order)
      then [''requested_lots''] else []) @
     (if ec_action command = ExecutionAction.Buy \<and> ord_side order = PositionSide.Sell
         \<or> ec_action command = ExecutionAction.Sell \<and> ord_side order = PositionSide.Buy
      then [''side''] else [])"

definition snapshot_conflicts_with_event :: "ExecutionEventStatus \<Rightarrow> OrderSnapshotStatus \<Rightarrow> bool" where
  "snapshot_conflicts_with_event reported snapshot_status = (case reported of
     ExecutionEventStatus.Filled \<Rightarrow> snapshot_status \<noteq> OrderSnapshotStatus.Filled
   | ExecutionEventStatus.Rejected \<Rightarrow> snapshot_status \<noteq> OrderSnapshotStatus.Rejected
   | ExecutionEventStatus.Expired \<Rightarrow> snapshot_status \<noteq> OrderSnapshotStatus.Expired
   | ExecutionEventStatus.Cancelled \<Rightarrow> snapshot_status \<noteq> OrderSnapshotStatus.Cancelled
   | _ \<Rightarrow> False)"

definition inspect_order_observations ::
  "CommandId \<Rightarrow> ExecutionCommand \<Rightarrow> OrderSnapshot list \<Rightarrow> ExecutionEvent list \<Rightarrow> i64 \<Rightarrow>
   ReconciliationFinding list" where
  "inspect_order_observations command_id command orders events observed_at =
     (let latest = find (\<lambda>event. ev_event_at event \<le> observed_at) (rev events) in
     (if length orders > 1
      then [MultipleOrderSnapshotsForCommand command_id (map ord_broker_order_id orders)] else []) @
     concat (map (\<lambda>order.
       map (OrderIdentityConflict command_id (ord_broker_order_id order))
         (order_identity_conflicts order command) @
       (case latest of
          None \<Rightarrow> []
        | Some event \<Rightarrow>
            if snapshot_conflicts_with_event (ev_status event) (ord_status order)
            then [SnapshotConflictsWithExecutionEvent command_id (ord_broker_order_id order)
              (ev_status event) (ord_status order)]
            else [])) orders))"

definition event_supports_status :: "ExecutionEventStatus \<Rightarrow> ExecutionCommandStatus \<Rightarrow> bool" where
  "event_supports_status event status \<longleftrightarrow> (event, status) \<in>
     {(ExecutionEventStatus.Accepted, ExecutionCommandStatus.Accepted),
      (ExecutionEventStatus.OrderSent, ExecutionCommandStatus.OrderSent),
      (ExecutionEventStatus.Rejected, ExecutionCommandStatus.Rejected),
      (ExecutionEventStatus.PartiallyFilled, ExecutionCommandStatus.PartiallyFilled),
      (ExecutionEventStatus.Filled, ExecutionCommandStatus.Filled),
      (ExecutionEventStatus.Failed, ExecutionCommandStatus.Failed),
      (ExecutionEventStatus.Expired, ExecutionCommandStatus.Expired),
      (ExecutionEventStatus.Cancelled, ExecutionCommandStatus.Cancelled)}"

definition has_authoritative_delivery_evidence :: "ReconciliationCommand \<Rightarrow> ExecutionEvent list \<Rightarrow> bool" where
  "has_authoritative_delivery_evidence item events =
     (let state = rc_state item;
          supported = list_ex (\<lambda>event. event_supports_status (ev_status event) (cs_status state)) events
      in if cs_command_received_at state \<noteq> None then True
      else if cs_status state = ExecutionCommandStatus.Created
          \<or> cs_status state = ExecutionCommandStatus.DeliveryFailed then True
      else if cs_status state = ExecutionCommandStatus.Expired
          \<or> cs_status state = ExecutionCommandStatus.Cancelled
        then cs_dispatched_at state = None \<or> supported
      else supported)"

text \<open>One round of the main loop: the findings pushed and whether the command goes to \<open>pending\<close>.\<close>

definition evaluate_command ::
  "i64 \<Rightarrow> CommandId set \<Rightarrow> CommandId \<Rightarrow> ReconciliationCommand \<Rightarrow> OrderSnapshot list \<Rightarrow> ExecutionEvent list \<Rightarrow>
   ReconciliationFinding list \<times> bool" where
  "evaluate_command observed_at client_unresolved command_id item orders events =
     (let inspected = inspect_order_observations command_id (rc_command item) orders events observed_at;
          unresolved = command_id \<in> client_unresolved
      in if cs_status (rc_state item) = ExecutionCommandStatus.ManualReconciliationRequired
        then (inspected @ [CommandAlreadyRequiresManualReconciliation command_id] @
          (if unresolved then [ClientReportedUnresolved command_id] else []), True)
      else if has_authoritative_delivery_evidence item events
        then if unresolved
          then (inspected @ [ClientReportedUnresolvedDespiteAuthoritativeState command_id
            (cs_status (rc_state item))], True)
          else (inspected, False)
      else (inspected @
        (if unresolved then [ClientReportedUnresolved command_id] else []) @
        [MissingAuthoritativeExecutionEvidence command_id (sort (map ord_broker_order_id orders))] @
        (if events = [] then []
         else [ExecutionProjectionPending command_id (ev_status (last events))]), True))"

definition bt_get_list :: "('k, 'v list) btree_map \<Rightarrow> 'k \<Rightarrow> 'v list" where
  "bt_get_list m k = (case map_of m k of None \<Rightarrow> [] | Some vs \<Rightarrow> vs)"

text \<open>The account-wide part: orders and client reports about commands outside the scope.\<close>

definition unknown_orders ::
  "ReconciliationRequestContext \<Rightarrow> (CommandId, ReconciliationCommand) btree_map \<Rightarrow>
   (CommandId, OrderSnapshot list) btree_map \<Rightarrow> (CommandId \<times> OrderSnapshot list) list" where
  "unknown_orders ctx indexed orders_by_command =
     filter (\<lambda>(command_id, orders). map_of indexed command_id = None
       \<and> list_ex (order_may_belong_to_request_route ctx) orders) orders_by_command"

definition unknown_reports ::
  "(CommandId, ReconciliationCommand) btree_map \<Rightarrow> CommandId list \<Rightarrow> CommandId list" where
  "unknown_reports indexed client_unresolved =
     filter (\<lambda>command_id. map_of indexed command_id = None) client_unresolved"

definition evaluate_reconciliation_result ::
  "ReconciliationRequestContext \<Rightarrow> ReconciliationResult \<Rightarrow> ReconciliationCommand list \<Rightarrow>
   ExecutionEvent list \<Rightarrow> i64 \<Rightarrow> EvaluatedReconciliationResult rresult" where
  "evaluate_reconciliation_result ctx raw_result commands execution_events received_at =
     bindR (validate_result ctx raw_result received_at) (\<lambda>_.
     let result = canonicalize_result_sets raw_result in
     bindR (validate_command_scope ctx commands received_at) (\<lambda>indexed.
     bindR (validate_execution_events indexed execution_events received_at) (\<lambda>events_by_command.
     let orders_by_command = index_orders_by_command (rres_orders result);
         client_unresolved = bt_set (rres_unresolved_command_ids result);
         evaluated = map (\<lambda>(command_id, item). (command_id, evaluate_command (rres_observed_at result)
           (set client_unresolved) command_id item (bt_get_list orders_by_command command_id)
           (bt_get_list events_by_command command_id))) indexed;
         account_wide = rreq_command_ids (rctx_request ctx) = None;
         orders_unknown = (if account_wide then unknown_orders ctx indexed orders_by_command else []);
         reports_unknown = (if account_wide then unknown_reports indexed client_unresolved else []);
         findings = concat (map (\<lambda>(_, found, _). found) evaluated) @
           map (\<lambda>(command_id, orders). UnknownCommandObservedInOrderSnapshot command_id
             (map ord_broker_order_id (filter (order_may_belong_to_request_route ctx) orders)))
             orders_unknown @
           map UnknownCommandReportedUnresolved reports_unknown;
         pending = bt_set (map fst (filter (\<lambda>(_, _, is_pending). is_pending) evaluated) @
           map fst orders_unknown @ reports_unknown);
         disposition = (if pending \<noteq> [] then PendingEvidence else Completed)
     in Inr \<lparr>err_result = result, err_evaluation = \<lparr>reval_request_id = rres_request_id result,
         reval_account_id = rres_account_id result, reval_observed_at = Some (rres_observed_at result),
         reval_disposition = disposition, reval_command_ids = pending, reval_findings = findings\<rparr>\<rparr>)))"

section \<open>Escalation\<close>

primrec unknown_command_of :: "ReconciliationFinding \<Rightarrow> CommandId option" where
  "unknown_command_of (UnknownCommandReportedUnresolved command_id) = Some command_id"
| "unknown_command_of (UnknownCommandObservedInOrderSnapshot command_id _) = Some command_id"
| "unknown_command_of (ClientReportedUnresolved _) = None"
| "unknown_command_of (ClientReportedUnresolvedDespiteAuthoritativeState _ _) = None"
| "unknown_command_of (CommandAlreadyRequiresManualReconciliation _) = None"
| "unknown_command_of (MissingAuthoritativeExecutionEvidence _ _) = None"
| "unknown_command_of (ExecutionProjectionPending _ _) = None"
| "unknown_command_of (MultipleOrderSnapshotsForCommand _ _) = None"
| "unknown_command_of (OrderIdentityConflict _ _ _) = None"
| "unknown_command_of (SnapshotConflictsWithExecutionEvent _ _ _ _) = None"
| "unknown_command_of (ReconciliationResultMissing _) = None"

definition validate_escalation ::
  "ReconciliationRequestContext \<Rightarrow> ReconciliationEvaluation \<Rightarrow> ManualEscalationEvidence \<Rightarrow> unit rresult" where
  "validate_escalation ctx evaluation evidence = (let request = rctx_request ctx in
     bindR (validate_request_context ctx) (\<lambda>_.
     if mee_request_id evidence \<noteq> rreq_request_id request
         \<or> reval_request_id evaluation \<noteq> rreq_request_id request
         \<or> reval_account_id evaluation \<noteq> rreq_account_id request
       then Inl (InvalidManualEscalation ''request_id''
         ''evidence and evaluation must belong to the request context'')
     else if trim_is_empty (mee_reason evidence)
       then Inl (InvalidManualEscalation ''reason'' ''must not be empty'')
     else if mee_escalated_at evidence < rctx_requested_at ctx
         \<or> (case reval_observed_at evaluation of None \<Rightarrow> False
            | Some observed_at \<Rightarrow> mee_escalated_at evidence < observed_at)
       then Inl (InvalidManualEscalation ''escalated_at''
         ''must not predate the request or evaluated result'')
     else if reval_disposition evaluation \<noteq> PendingEvidence
       then Inl (InvalidManualEscalation ''evaluation.disposition''
         ''only a pending result evaluation can be escalated'')
     else if reval_observed_at evaluation = None
       then Inl (InvalidManualEscalation ''evaluation.observed_at''
         ''result escalation requires an observed result; use missing-result escalation otherwise'')
     else if reval_command_ids evaluation = [] \<or> \<not> strictly_ascending (reval_command_ids evaluation)
       then Inl (InvalidManualEscalation ''evaluation.command_ids''
         ''must be a non-empty unique sorted attention scope'')
     else Inr ()))"

definition escalate_manual_reconciliation ::
  "ReconciliationRequestContext \<Rightarrow> ReconciliationEvaluation \<Rightarrow> ReconciliationCommand list \<Rightarrow>
   ManualEscalationEvidence \<Rightarrow> ManualReconciliationEscalation rresult" where
  "escalate_manual_reconciliation ctx evaluation commands evidence =
     bindR (validate_escalation ctx evaluation evidence) (\<lambda>_.
     bindR (validate_command_scope ctx commands (mee_escalated_at evidence)) (\<lambda>indexed.
     if (case rreq_command_ids (rctx_request ctx) of
         None \<Rightarrow> False
       | Some targeted \<Rightarrow> list_ex (\<lambda>command_id. command_id \<notin> set targeted) (reval_command_ids evaluation))
       then Inl (InvalidManualEscalation ''evaluation.command_ids''
         ''contains a command outside the targeted request scope'')
     else let unknown_attention = bt_set (filter (\<lambda>command_id. map_of indexed command_id = None)
           (reval_command_ids evaluation));
         unknown_findings = bt_set (List.map_filter unknown_command_of (reval_findings evaluation))
       in if unknown_attention \<noteq> unknown_findings
         then Inl (InvalidManualEscalation ''evaluation.findings''
           ''unknown attention commands must have matching unknown-command findings'')
       else bindR (derive_transitions may_require_manual
           (CommandEvidence.RequireManualReconciliation (mee_escalated_at evidence))
           (List.map_filter (\<lambda>command_id. map_option (Pair command_id) (map_of indexed command_id))
             (reval_command_ids evaluation))) (\<lambda>command_transitions.
         Inr \<lparr>mresc_evidence = evidence,
           mresc_evaluation = evaluation\<lparr>reval_disposition := ManualRequired\<rparr>,
           mresc_command_transitions = command_transitions\<rparr>)))"

definition escalate_missing_reconciliation_result ::
  "ReconciliationRequestContext \<Rightarrow> ReconciliationCommand list \<Rightarrow> ManualEscalationEvidence \<Rightarrow>
   ManualReconciliationEscalation rresult" where
  "escalate_missing_reconciliation_result ctx commands evidence =
     bindR (validate_request_context ctx) (\<lambda>_.
     if mee_request_id evidence \<noteq> rreq_request_id (rctx_request ctx)
       then Inl (InvalidManualEscalation ''request_id'' ''evidence must belong to the request context'')
     else if trim_is_empty (mee_reason evidence)
       then Inl (InvalidManualEscalation ''reason'' ''must not be empty'')
     else if mee_escalated_at evidence < rctx_requested_at ctx
       then Inl (InvalidManualEscalation ''escalated_at'' ''must not predate the request'')
     else bindR (validate_command_scope ctx commands (mee_escalated_at evidence)) (\<lambda>indexed.
     bindR (derive_transitions may_require_manual
       (CommandEvidence.RequireManualReconciliation (mee_escalated_at evidence)) indexed)
       (\<lambda>command_transitions.
     Inr \<lparr>mresc_evidence = evidence,
       mresc_evaluation = \<lparr>reval_request_id = rreq_request_id (rctx_request ctx),
         reval_account_id = rreq_account_id (rctx_request ctx), reval_observed_at = None,
         reval_disposition = ManualRequired, reval_command_ids = bt_keys indexed,
         reval_findings = [ReconciliationResultMissing (mee_escalated_at evidence)]\<rparr>,
       mresc_command_transitions = command_transitions\<rparr>)))"

end
