(* ===== verification/Reconciliation_Correct.thy ===== *)
theory Reconciliation_Correct
  imports Reconciliation
begin

text \<open>
  Correctness of the reconciliation crate: what the indexing loops compute, when an evaluation is
  complete, that evaluation does not depend on the order of its inputs, that planning and escalation
  derive only forward lifecycle transitions, and that every pending evaluation can be escalated.
\<close>

section \<open>Indexing\<close>

abbreviation item_id :: "ReconciliationCommand \<Rightarrow> CommandId" where
  "item_id item \<equiv> ec_command_id (rc_command item)"

abbreviation bt_index :: "ReconciliationCommand list \<Rightarrow> (CommandId, ReconciliationCommand) btree_map" where
  "bt_index items \<equiv> fold (\<lambda>item. bt_insert (item_id item) item) items []"

lemma index_commands_iff:
  "bt_sorted m \<Longrightarrow> index_commands ctx bound items m = Inr m' \<longleftrightarrow>
     (\<forall>item \<in> set items. validate_scope_item ctx bound item = Inr ()) \<and> distinct (map item_id items)
   \<and> (\<forall>item \<in> set items. map_of m (item_id item) = None)
   \<and> m' = fold (\<lambda>item. bt_insert (item_id item) item) items m"
proof (induction items arbitrary: m)
  case (Cons item items)
  then show ?case
    using bt.lookup_update [OF Cons.prems, of "item_id item" item] bt_sorted_insert [OF Cons.prems]
    by (auto simp: Let_def unit_result_simps image_iff)
qed auto

lemma bt_index_facts:
  assumes "distinct (map item_id items)"
  shows "map_of (bt_index items) k = Some item \<longleftrightarrow> item \<in> set items \<and> item_id item = k"
    and "map_of (bt_index items) k = None \<longleftrightarrow> k \<notin> item_id ` set items"
    and "set (bt_index items) = (\<lambda>item. (item_id item, item)) ` set items"
    and "bt_sorted (bt_index items)"
proof -
  let ?entries = "map (\<lambda>item. (item_id item, item)) (rev items)"
  have lookup: "map_of (bt_index items) = map_of ?entries"
    using bt.lookup_fold [OF bt.inv_empty, of item_id "\<lambda>item. item" items] by simp
  have dist: "distinct (map fst ?entries)"
    using assms by (simp add: comp_def rev_map [symmetric])
  show sorted: "bt_sorted (bt_index items)"
    using bt.inv_fold [OF bt.inv_empty, of item_id "\<lambda>item. item" items] by simp
  show some: "map_of (bt_index items) k = Some item \<longleftrightarrow> item \<in> set items \<and> item_id item = k" for k item
    using map_of_eq_Some_iff [OF dist, of k item] lookup by auto
  show "map_of (bt_index items) k = None \<longleftrightarrow> k \<notin> item_id ` set items"
    by (simp add: lookup map_of_eq_None_iff image_image)
  have "distinct (map fst (bt_index items))"
    using sorted by (simp add: bt_sorted_def bt_keys_def strict_sorted_iff)
  then have "(k, item) \<in> set (bt_index items) \<longleftrightarrow> item \<in> set items \<and> item_id item = k" for k item
    using map_of_eq_Some_iff some by fastforce
  then show "set (bt_index items) = (\<lambda>item. (item_id item, item)) ` set items" by auto
qed

definition command_scope_ok ::
  "ReconciliationRequestContext \<Rightarrow> ReconciliationCommand list \<Rightarrow> i64 \<Rightarrow> bool" where
  "command_scope_ok ctx commands bound \<longleftrightarrow>
     validate_request_context ctx = Inr () \<and> rctx_requested_at ctx \<le> bound
   \<and> (\<forall>item \<in> set commands. validate_scope_item ctx bound item = Inr ())
   \<and> distinct (map item_id commands)
   \<and> (\<forall>scoped. rreq_command_ids (rctx_request ctx) = Some scoped \<longrightarrow> set scoped = item_id ` set commands)"

lemma bt_index_keys: "bt_keys (bt_index items) = bt_set (map item_id items)"
proof (rule strictly_ascending_unique)
  have "bt_sorted (bt_index items)"
    using bt.inv_fold [OF bt.inv_empty, of item_id "\<lambda>item. item" items] by simp
  then show "strictly_ascending (bt_keys (bt_index items))" by (rule bt.keys_ascending)
  show "set (bt_keys (bt_index items)) = set (bt_set (map item_id items))"
    using bt.keys_fold [of item_id "\<lambda>item. item" items] by simp
qed simp

lemma request_scope_ascending:
  "validate_request_context ctx = Inr () \<Longrightarrow> rreq_command_ids (rctx_request ctx) = Some scoped \<Longrightarrow>
   strictly_ascending scoped \<and> scoped \<noteq> []"
  by (auto simp: validate_request_context_def Let_def unit_result_simps)

lemma validate_command_scope_iff:
  "validate_command_scope ctx commands bound = Inr indexed \<longleftrightarrow>
     command_scope_ok ctx commands bound \<and> indexed = bt_index commands"
proof -
  have keys: "bt_keys (bt_index commands) = scoped \<longleftrightarrow> set scoped = item_id ` set commands"
    if "strictly_ascending scoped" for scoped
    using that strictly_ascending_unique [of "bt_set (map item_id commands)" scoped]
    by (auto simp: bt_index_keys)
  show ?thesis
    using keys request_scope_ascending [of ctx]
    by (cases "rreq_command_ids (rctx_request ctx)")
      (auto simp: validate_command_scope_def command_scope_ok_def result_simps bindR_unit_eq_Inr
        index_commands_iff [OF bt.inv_empty])
qed

section \<open>Grouping\<close>

lemma bt_get_list_push:
  "bt_sorted m \<Longrightarrow> bt_get_list (bt_push k v m) j = bt_get_list m j @ (if j = k then [v] else [])"
  by (auto simp: bt_push_def bt_get_list_def bt.lookup_update)

lemma bt_sorted_push: "bt_sorted m \<Longrightarrow> bt_sorted (bt_push k v m)"
  by (simp add: bt_push_def bt_sorted_insert)

lemma bt_keys_push: "set (bt_keys (bt_push k v m)) = insert k (set (bt_keys m))"
  by (simp add: bt_push_def bt_keys_insert)

lemma group_facts:
  fixes key :: "'v \<Rightarrow> 'k::linorder"
  assumes "bt_sorted m"
  shows "bt_sorted (fold (\<lambda>x. bt_push (key x) x) xs m)"
    and "bt_get_list (fold (\<lambda>x. bt_push (key x) x) xs m) k = bt_get_list m k @ filter (\<lambda>x. key x = k) xs"
    and "set (bt_keys (fold (\<lambda>x. bt_push (key x) x) xs m)) = set (bt_keys m) \<union> key ` set xs"
proof -
  show "bt_sorted (fold (\<lambda>x. bt_push (key x) x) xs m)"
    using assms by (induction xs arbitrary: m) (auto intro: bt_sorted_push)
  show "bt_get_list (fold (\<lambda>x. bt_push (key x) x) xs m) k = bt_get_list m k @ filter (\<lambda>x. key x = k) xs"
    using assms by (induction xs arbitrary: m) (auto simp: bt_get_list_push bt_sorted_push)
  show "set (bt_keys (fold (\<lambda>x. bt_push (key x) x) xs m)) = set (bt_keys m) \<union> key ` set xs"
    by (induction xs arbitrary: m) (auto simp: bt_keys_push)
qed

lemma bt_get_list_map:
  "f [] = [] \<Longrightarrow> bt_get_list (map (\<lambda>(k, vs). (k, f vs)) m) k = f (bt_get_list m k)"
  by (induction m) (auto simp: bt_get_list_def)

lemma group_events_iff:
  "group_events commands received_at events ids grouped = Inr out \<longleftrightarrow>
     (\<forall>event \<in> set events. \<not> trim_is_empty (ev_execution_id event)
        \<and> validate_event_item commands received_at event = Inr ())
   \<and> no_repeats ids (map ev_execution_id events)
   \<and> out = fold (\<lambda>event. bt_push (ev_command_id event) event) events grouped"
  by (induction events arbitrary: ids grouped) (auto simp: unit_result_simps)

text \<open>The events of one command in \<open>(event_at, execution_id)\<close> order.\<close>

definition command_events :: "ExecutionEvent list \<Rightarrow> CommandId \<Rightarrow> ExecutionEvent list" where
  "command_events events command_id =
     sort_key (\<lambda>event. (ev_event_at event, ev_execution_id event))
       (filter (\<lambda>event. ev_command_id event = command_id) events)"

definition execution_events_ok ::
  "(CommandId, ReconciliationCommand) btree_map \<Rightarrow> ExecutionEvent list \<Rightarrow> i64 \<Rightarrow> bool" where
  "execution_events_ok indexed events received_at \<longleftrightarrow>
     (\<forall>event \<in> set events. \<not> trim_is_empty (ev_execution_id event)
        \<and> validate_event_item indexed received_at event = Inr ())
   \<and> distinct (map ev_execution_id events)"

lemma validate_execution_events_iff:
  "(\<exists>grouped. validate_execution_events indexed events received_at = Inr grouped) \<longleftrightarrow>
     execution_events_ok indexed events received_at"
  "validate_execution_events indexed events received_at = Inr grouped \<Longrightarrow>
     bt_get_list grouped = command_events events"
  by (auto simp: validate_execution_events_def result_simps group_events_iff execution_events_ok_def
      fun_eq_iff command_events_def bt_get_list_map group_facts(2) [OF bt.inv_empty]
      bt_get_list_def [of "[]"])

text \<open>The orders of one command in \<open>broker_order_id\<close> order.\<close>

definition command_orders :: "OrderSnapshot list \<Rightarrow> CommandId \<Rightarrow> OrderSnapshot list" where
  "command_orders orders command_id =
     sort_key ord_broker_order_id (filter (\<lambda>order. ord_command_id order = Some command_id) orders)"

lemma push_orders_fold:
  "fold push_order orders m = fold (\<lambda>order. bt_push (the (ord_command_id order)) order)
     (filter (\<lambda>order. ord_command_id order \<noteq> None) orders) m"
  by (induction orders arbitrary: m) (auto simp: push_order_def)

lemma index_orders_facts:
  "bt_get_list (index_orders_by_command orders) = command_orders orders"
  "bt_sorted (index_orders_by_command orders)"
  "set (bt_keys (index_orders_by_command orders)) =
     {command_id. \<exists>order \<in> set orders. ord_command_id order = Some command_id}"
proof -
  let ?grouped = "fold push_order orders []"
  note facts = group_facts [OF bt.inv_empty,
    where key = "\<lambda>order. the (ord_command_id order)" and xs = "filter (\<lambda>order. ord_command_id order \<noteq> None) orders",
    folded push_orders_fold]
  have keys: "bt_keys (index_orders_by_command orders) = bt_keys ?grouped"
    by (simp add: index_orders_by_command_def bt_keys_def comp_def case_prod_unfold)
  have "filter (\<lambda>order. the (ord_command_id order) = k)
      (filter (\<lambda>order. ord_command_id order \<noteq> None) orders) =
    filter (\<lambda>order. ord_command_id order = Some k) orders" for k
    by (simp add: conj_commute, rule filter_cong) auto
  then show "bt_get_list (index_orders_by_command orders) = command_orders orders"
    by (simp add: fun_eq_iff index_orders_by_command_def bt_get_list_map facts(2) command_orders_def
        bt_get_list_def [of "[]"])
  show "bt_sorted (index_orders_by_command orders)"
    using facts(1) by (simp add: bt_sorted_def keys)
  show "set (bt_keys (index_orders_by_command orders)) =
     {command_id. \<exists>order \<in> set orders. ord_command_id order = Some command_id}"
    unfolding keys facts(3) by (auto simp: bt_keys_def image_iff) (metis option.sel option.discI)+
qed

section \<open>Evaluation as a function of the canonical inputs\<close>

lemma validate_unique_iff:
  "validate_unique before key duplicate after keys xs = Inr () \<longleftrightarrow>
     (\<forall>x \<in> set xs. before x = Inr () \<and> after x = Inr ()) \<and> no_repeats keys (map key xs)"
  by (induction xs arbitrary: keys) (auto simp: unit_result_simps)

lemma sort_key_order:
  "mset xs = mset ys \<Longrightarrow> inj_on f (set xs) \<Longrightarrow> sort_key f xs = sort_key f ys"
  by (rule sort_key_inj_key_eq) auto

lemma distinct_map_order:
  "mset xs = mset ys \<Longrightarrow> distinct (map f xs) \<longleftrightarrow> distinct (map f ys)"
  by (metis mset_eq_imp_distinct_iff mset_map)

text \<open>The body of the evaluation after validation, over the index and the grouped events.\<close>

definition evaluation_of ::
  "ReconciliationRequestContext \<Rightarrow> ReconciliationResult \<Rightarrow> (CommandId, ReconciliationCommand) btree_map \<Rightarrow>
   (CommandId \<Rightarrow> ExecutionEvent list) \<Rightarrow> EvaluatedReconciliationResult" where
  "evaluation_of ctx result indexed events_of =
     (let orders_by_command = index_orders_by_command (rres_orders result);
         client_unresolved = bt_set (rres_unresolved_command_ids result);
         evaluated = map (\<lambda>(command_id, item). (command_id, evaluate_command (rres_observed_at result)
           (set client_unresolved) command_id item (command_orders (rres_orders result) command_id)
           (events_of command_id))) indexed;
         account_wide = rreq_command_ids (rctx_request ctx) = None;
         orders_unknown = (if account_wide then unknown_orders ctx indexed orders_by_command else []);
         reports_unknown = (if account_wide then unknown_reports indexed client_unresolved else []);
         findings = concat (map (\<lambda>(_, found, _). found) evaluated) @
           map (\<lambda>(command_id, orders). UnknownCommandObservedInOrderSnapshot command_id
             (map ord_broker_order_id (filter (order_may_belong_to_request_route ctx) orders)))
             orders_unknown @
           map UnknownCommandReportedUnresolved reports_unknown;
         pending = bt_set (map fst (filter (\<lambda>(_, _, is_pending). is_pending) evaluated) @
           map fst orders_unknown @ reports_unknown)
      in \<lparr>err_result = result, err_evaluation = \<lparr>reval_request_id = rres_request_id result,
         reval_account_id = rres_account_id result, reval_observed_at = Some (rres_observed_at result),
         reval_disposition = (if pending \<noteq> [] then PendingEvidence else Completed),
         reval_command_ids = pending, reval_findings = findings\<rparr>\<rparr>)"

lemma evaluate_iff:
  "evaluate_reconciliation_result ctx result commands events received_at = Inr evaluated \<longleftrightarrow>
     validate_result ctx result received_at = Inr () \<and> command_scope_ok ctx commands received_at
   \<and> execution_events_ok (bt_index commands) events received_at
   \<and> evaluated = evaluation_of ctx (canonicalize_result_sets result) (bt_index commands)
       (command_events events)"
proof (cases "\<exists>grouped. validate_execution_events (bt_index commands) events received_at = Inr grouped")
  case True
  then obtain grouped where
    grouped: "validate_execution_events (bt_index commands) events received_at = Inr grouped" by blast
  then have ok: "execution_events_ok (bt_index commands) events received_at"
    using validate_execution_events_iff(1) by blast
  show ?thesis
    unfolding evaluate_reconciliation_result_def Let_def bindR_unit_eq_Inr bindR_eq_Inr
      validate_command_scope_iff evaluation_of_def index_orders_facts(1)
    using grouped ok validate_execution_events_iff(2) [OF grouped] by auto
next
  case False
  with validate_execution_events_iff(1) [of "bt_index commands" events received_at] show ?thesis
    unfolding evaluate_reconciliation_result_def Let_def bindR_unit_eq_Inr bindR_eq_Inr
      validate_command_scope_iff
    by blast
qed

section \<open>The attention scope\<close>

text \<open>
  A command is settled when Core's own records show what happened to it and the client does not
  dispute them; everything else needs attention.
\<close>

definition command_settled ::
  "ReconciliationResult \<Rightarrow> ExecutionEvent list \<Rightarrow> ReconciliationCommand \<Rightarrow> bool" where
  "command_settled result events item \<longleftrightarrow>
     cs_status (rc_state item) \<noteq> ExecutionCommandStatus.ManualReconciliationRequired
   \<and> has_authoritative_delivery_evidence item
       (filter (\<lambda>event. ev_command_id event = item_id item) events)
   \<and> item_id item \<notin> set (rres_unresolved_command_ids result)"

definition unknown_command ::
  "ReconciliationRequestContext \<Rightarrow> ReconciliationResult \<Rightarrow> ReconciliationCommand list \<Rightarrow> CommandId \<Rightarrow> bool" where
  "unknown_command ctx result commands command_id \<longleftrightarrow>
     rreq_command_ids (rctx_request ctx) = None \<and> command_id \<notin> item_id ` set commands
   \<and> (command_id \<in> set (rres_unresolved_command_ids result)
      \<or> (\<exists>order \<in> set (rres_orders result). ord_command_id order = Some command_id
           \<and> order_may_belong_to_request_route ctx order))"

definition needs_attention ::
  "ReconciliationRequestContext \<Rightarrow> ReconciliationResult \<Rightarrow> ReconciliationCommand list \<Rightarrow>
   ExecutionEvent list \<Rightarrow> CommandId \<Rightarrow> bool" where
  "needs_attention ctx result commands events command_id \<longleftrightarrow>
     (\<exists>item \<in> set commands. item_id item = command_id \<and> \<not> command_settled result events item)
   \<or> unknown_command ctx result commands command_id"

lemma evidence_depends_on_set:
  "set xs = set ys \<Longrightarrow>
   has_authoritative_delivery_evidence item xs = has_authoritative_delivery_evidence item ys"
  by (simp add: has_authoritative_delivery_evidence_def list_ex_iff)

lemma evaluate_command_pending:
  "snd (evaluate_command observed_at (set (rres_unresolved_command_ids result)) (item_id item) item orders
     (command_events events (item_id item))) \<longleftrightarrow> \<not> command_settled result events item"
  using evidence_depends_on_set [of "command_events events (item_id item)"
      "filter (\<lambda>event. ev_command_id event = item_id item) events" item]
  by (auto simp: evaluate_command_def command_settled_def command_events_def Let_def)

lemma canonical_facts [simp]:
  "set (rres_orders (canonicalize_result_sets result)) = set (rres_orders result)"
  "set (rres_unresolved_command_ids (canonicalize_result_sets result)) =
     set (rres_unresolved_command_ids result)"
  "rres_observed_at (canonicalize_result_sets result) = rres_observed_at result"
  "rres_request_id (canonicalize_result_sets result) = rres_request_id result"
  "rres_account_id (canonicalize_result_sets result) = rres_account_id result"
  by (simp_all add: canonicalize_result_sets_def)

lemma bt_entry_list: "bt_sorted m \<Longrightarrow> (k, vs) \<in> set m \<Longrightarrow> vs = bt_get_list m k"
  by (simp add: bt_get_list_def bt_sorted_def bt_keys_def strict_sorted_iff)

lemma unknown_orders_ids:
  assumes "distinct (map item_id commands)"
  shows "fst ` set (unknown_orders ctx (bt_index commands) (index_orders_by_command orders)) =
    {command_id. command_id \<notin> item_id ` set commands \<and> (\<exists>order \<in> set orders.
       ord_command_id order = Some command_id \<and> order_may_belong_to_request_route ctx order)}"
    (is "?lhs = ?rhs")
proof (rule set_eqI)
  fix command_id
  let ?m = "index_orders_by_command orders"
  have "command_id \<in> ?lhs \<longleftrightarrow> command_id \<in> set (bt_keys ?m) \<and> command_id \<notin> item_id ` set commands
      \<and> list_ex (order_may_belong_to_request_route ctx) (bt_get_list ?m command_id)"
    using bt_entry_list [OF index_orders_facts(2)]
    by (force simp: unknown_orders_def bt_index_facts(2) [OF assms] bt_keys_def)
  also have "\<dots> \<longleftrightarrow> command_id \<in> ?rhs"
    by (auto simp: index_orders_facts(1,3) command_orders_def list_ex_iff)
  finally show "command_id \<in> ?lhs \<longleftrightarrow> command_id \<in> ?rhs" .
qed

lemma flagged_ids:
  "fst ` set (filter (\<lambda>(_, _, flag). flag) (map (\<lambda>(k, item). (k, f k item)) entries)) =
   fst ` {entry \<in> set entries. snd (f (fst entry) (snd entry))}"
  by (induction entries) (simp_all add: case_prod_unfold, blast?)

lemma unknown_ids:
  assumes dist: "distinct (map item_id commands)"
  shows "fst ` set (if rreq_command_ids (rctx_request ctx) = None then unknown_orders ctx (bt_index commands)
        (index_orders_by_command (rres_orders (canonicalize_result_sets result))) else [])
      \<union> set (if rreq_command_ids (rctx_request ctx) = None then unknown_reports (bt_index commands)
        (bt_set (rres_unresolved_command_ids (canonicalize_result_sets result))) else []) =
    {command_id. unknown_command ctx result commands command_id}"
  using unknown_orders_ids [OF dist, of ctx "rres_orders (canonicalize_result_sets result)"]
    bt_index_facts(2) [OF dist]
  by (auto simp: unknown_command_def unknown_reports_def)

lemma evaluation_pending:
  assumes dist: "distinct (map item_id commands)"
  shows "set (reval_command_ids (err_evaluation (evaluation_of ctx (canonicalize_result_sets result)
      (bt_index commands) (command_events events)))) =
    {command_id. needs_attention ctx result commands events command_id}"
proof -
  let ?result = "canonicalize_result_sets result"
  let ?eval = "\<lambda>command_id item. evaluate_command (rres_observed_at result)
    (set (rres_unresolved_command_ids result)) command_id item
    (command_orders (rres_orders ?result) command_id) (command_events events command_id)"
  let ?unknown = "{command_id. unknown_command ctx result commands command_id}"
  have "fst ` {entry \<in> set (bt_index commands). snd (?eval (fst entry) (snd entry))} =
      item_id ` {item \<in> set commands. \<not> command_settled result events item}"
    by (auto simp: bt_index_facts(3) [OF dist] evaluate_command_pending image_iff)
  then have known: "fst ` set (filter (\<lambda>(_, _, flag). flag)
        (map (\<lambda>(command_id, item). (command_id, ?eval command_id item)) (bt_index commands))) =
      item_id ` {item \<in> set commands. \<not> command_settled result events item}"
    by (simp only: flagged_ids)
  note unknown = unknown_ids [OF dist, of ctx result]
  have "set (reval_command_ids (err_evaluation (evaluation_of ctx ?result (bt_index commands)
      (command_events events)))) =
    item_id ` {item \<in> set commands. \<not> command_settled result events item} \<union> ?unknown"
    by (simp only: evaluation_of_def Let_def EvaluatedReconciliationResult.simps
        ReconciliationEvaluation.simps bt_set_simps set_append set_map canonical_facts known unknown)
  then show ?thesis by (auto simp: needs_attention_def)
qed

section \<open>Order of the inputs\<close>

lemma command_events_order:
  assumes "mset events = mset events'" "distinct (map ev_execution_id events)"
  shows "command_events events = command_events events'"
proof
  fix command_id
  have "inj_on ev_execution_id (set events)" using assms(2) by (simp add: distinct_map)
  then have "inj_on (\<lambda>event. (ev_event_at event, ev_execution_id event))
      (set (filter (\<lambda>event. ev_command_id event = command_id) events))"
    by (auto simp: inj_on_def)
  then show "command_events events command_id = command_events events' command_id"
    unfolding command_events_def using assms(1) by (intro sort_key_order) simp_all
qed

text \<open>Two results with the same content, their lists in any order.\<close>

definition same_result :: "ReconciliationResult \<Rightarrow> ReconciliationResult \<Rightarrow> bool" where
  "same_result a b \<longleftrightarrow>
     mset (rres_positions a) = mset (rres_positions b) \<and> mset (rres_orders a) = mset (rres_orders b)
   \<and> mset (rres_symbol_metadata a) = mset (rres_symbol_metadata b)
   \<and> mset (rres_unresolved_command_ids a) = mset (rres_unresolved_command_ids b)
   \<and> b = a\<lparr>rres_positions := rres_positions b, rres_orders := rres_orders b,
       rres_symbol_metadata := rres_symbol_metadata b,
       rres_unresolved_command_ids := rres_unresolved_command_ids b\<rparr>"

lemma same_result_fields:
  assumes "same_result a b"
  shows "rres_request_id b = rres_request_id a" "rres_account_id b = rres_account_id a"
    "rres_terminal_id b = rres_terminal_id a" "rres_client_id b = rres_client_id a"
    "rres_observed_at b = rres_observed_at a" "rres_account b = rres_account a"
    "set (rres_positions b) = set (rres_positions a)" "set (rres_orders b) = set (rres_orders a)"
    "set (rres_symbol_metadata b) = set (rres_symbol_metadata a)"
    "set (rres_unresolved_command_ids b) = set (rres_unresolved_command_ids a)"
    "distinct (map f (rres_positions b)) = distinct (map f (rres_positions a))"
    "distinct (map g (rres_orders b)) = distinct (map g (rres_orders a))"
    "distinct (map h (rres_symbol_metadata b)) = distinct (map h (rres_symbol_metadata a))"
    "distinct (rres_unresolved_command_ids b) = distinct (rres_unresolved_command_ids a)"
proof -
  have eq: "b = a\<lparr>rres_positions := rres_positions b, rres_orders := rres_orders b,
       rres_symbol_metadata := rres_symbol_metadata b,
       rres_unresolved_command_ids := rres_unresolved_command_ids b\<rparr>"
    using assms by (simp add: same_result_def)
  show "rres_request_id b = rres_request_id a" "rres_account_id b = rres_account_id a"
    "rres_terminal_id b = rres_terminal_id a" "rres_client_id b = rres_client_id a"
    "rres_observed_at b = rres_observed_at a" "rres_account b = rres_account a"
    by (subst eq, simp)+
  have m: "mset (rres_positions b) = mset (rres_positions a)" "mset (rres_orders b) = mset (rres_orders a)"
    "mset (rres_symbol_metadata b) = mset (rres_symbol_metadata a)"
    "mset (rres_unresolved_command_ids b) = mset (rres_unresolved_command_ids a)"
    using assms by (simp_all add: same_result_def)
  show "set (rres_positions b) = set (rres_positions a)" "set (rres_orders b) = set (rres_orders a)"
    "set (rres_symbol_metadata b) = set (rres_symbol_metadata a)"
    "set (rres_unresolved_command_ids b) = set (rres_unresolved_command_ids a)"
    using m by (metis set_mset_mset)+
  show "distinct (map f (rres_positions b)) = distinct (map f (rres_positions a))"
    "distinct (map g (rres_orders b)) = distinct (map g (rres_orders a))"
    "distinct (map h (rres_symbol_metadata b)) = distinct (map h (rres_symbol_metadata a))"
    "distinct (rres_unresolved_command_ids b) = distinct (rres_unresolved_command_ids a)"
    by (rule distinct_map_order [OF m(1)] distinct_map_order [OF m(2)] distinct_map_order [OF m(3)]
        mset_eq_imp_distinct_iff [OF m(4)])+
qed

lemma validate_result_order:
  assumes "same_result a b"
  shows "validate_result ctx b received_at = Inr () \<longleftrightarrow> validate_result ctx a received_at = Inr ()"
proof -
  note fields = same_result_fields [OF assms]
  have "validate_account b = validate_account a" by (simp add: validate_account_def fields split: option.split)
  moreover have "validate_positions b = Inr () \<longleftrightarrow> validate_positions a = Inr ()"
    by (simp add: validate_positions_def validate_unique_iff fields)
  moreover have "validate_orders b = Inr () \<longleftrightarrow> validate_orders a = Inr ()"
    by (simp add: validate_orders_def validate_unique_iff fields)
  moreover have "validate_symbol_metadata b = Inr () \<longleftrightarrow> validate_symbol_metadata a = Inr ()"
    by (simp add: validate_symbol_metadata_def validate_unique_iff fields)
  ultimately show ?thesis
    by (simp add: validate_result_def Let_def unit_result_simps validate_unique_iff fields list_ex_iff
        split: option.split)
qed

lemma validate_result_keys:
  assumes "validate_result ctx a received_at = Inr ()"
  shows "inj_on pos_position_id (set (rres_positions a))" "inj_on ord_broker_order_id (set (rres_orders a))"
    "inj_on (\<lambda>m. (sm_broker_symbol m, sm_symbol m)) (set (rres_symbol_metadata a))"
proof -
  have keys: "distinct (map pos_position_id (rres_positions a))"
    "distinct (map ord_broker_order_id (rres_orders a))"
    "distinct (map sm_broker_symbol (rres_symbol_metadata a))"
    using assms
    by (simp_all add: validate_result_def Let_def unit_result_simps validate_unique_iff
        validate_positions_def validate_orders_def validate_symbol_metadata_def)
  from keys(1,2) show "inj_on pos_position_id (set (rres_positions a))"
    "inj_on ord_broker_order_id (set (rres_orders a))" by (simp_all add: distinct_map)
  from keys(3) show "inj_on (\<lambda>m. (sm_broker_symbol m, sm_symbol m)) (set (rres_symbol_metadata a))"
    by (auto simp: distinct_map inj_on_def)
qed

lemma canonical_order:
  assumes same: "same_result a b" and valid: "validate_result ctx a received_at = Inr ()"
  shows "canonicalize_result_sets b = canonicalize_result_sets a"
proof -
  have m: "mset (rres_positions a) = mset (rres_positions b)" "mset (rres_orders a) = mset (rres_orders b)"
    "mset (rres_symbol_metadata a) = mset (rres_symbol_metadata b)"
    "mset (rres_unresolved_command_ids a) = mset (rres_unresolved_command_ids b)"
    and eq: "b = a\<lparr>rres_positions := rres_positions b, rres_orders := rres_orders b,
       rres_symbol_metadata := rres_symbol_metadata b,
       rres_unresolved_command_ids := rres_unresolved_command_ids b\<rparr>"
    using same by (simp_all add: same_result_def)
  note keys = validate_result_keys [OF valid]
  show ?thesis
    unfolding canonicalize_result_sets_def
      sort_key_order [OF m(1) keys(1)] sort_key_order [OF m(2) keys(2)]
      sort_key_order [OF m(3) keys(3)] sort_key_order [OF m(4) inj_on_id2]
    by (subst eq) simp
qed

section \<open>Lifecycle transitions\<close>

lemma transition_reaches_target:
  assumes "transition_command command state evidence = Inr outcome" "receipt_evidence evidence = None"
    "evidence_target command evidence = Inr (target, at)"
  shows "cs_status (into_state outcome) = target
    \<and> validate_command_state command (into_state outcome) = Inr ()"
proof (cases outcome)
  case (Applied "next")
  with assms(1) have step: "transition_command command state evidence = Inr (Applied next)" by simp
  from step have "cs_status next = target"
    by (cases rule: transition_Applied_cases) (use assms record_evidence_frame in auto)
  with Applied transition_Applied_valid [OF step] show ?thesis by simp
next
  case (Duplicate "next")
  with assms show ?thesis
    by (auto simp: transition_command_def apply_advancing_evidence_def Let_def result_simps split: if_splits)
qed

lemma reconciliation_targets:
  assumes "0 \<le> at"
  shows "evidence_target command (CommandEvidence.BeginReconciliation at) =
      Inr (ExecutionCommandStatus.Reconciling, at)"
    and "evidence_target command (CommandEvidence.RequireManualReconciliation at) =
      Inr (ExecutionCommandStatus.ManualReconciliationRequired, at)"
  using assms by (simp_all add: evidence_target_ok evidence_target_unchecked_def)

lemma valid_state_latest:
  assumes "validate_command_state command state = Inr ()" "cs_updated_at state \<le> at"
  shows "latest_lifecycle_evidence_at state \<le> at" "cs_created_at state \<le> at" "0 \<le> at"
  using assms
  by (auto simp: latest_le_iff validate_command_state_iff timestamp_in_version_def)

lemma valid_after_reconciliation:
  assumes valid: "validate_command_state command state = Inr ()"
    and status: "cs_status state \<in> {ExecutionCommandStatus.DeliveryUnconfirmed,
      ExecutionCommandStatus.Reconciling}"
    and target: "target \<in> {ExecutionCommandStatus.Reconciling,
      ExecutionCommandStatus.ManualReconciliationRequired}"
    and at: "cs_created_at state \<le> at" "at \<le> u" "cs_updated_at state \<le> u"
  shows "validate_command_state command (state\<lparr>cs_status := target, cs_updated_at := u,
    cs_reconciling_at := get_or_insert (cs_reconciling_at state) at\<rparr>) = Inr ()"
    (is "validate_command_state command ?next = _")
proof -
  have v: "command_identity_ok command" "belongs_to command state" "0 \<le> cs_created_at state"
    "cs_created_at state \<le> cs_updated_at state" "cs_created_at state < ec_expires_at command"
    "timestamp_in_version state (cs_dispatched_at state)"
    "timestamp_in_version state (cs_command_received_at state)"
    "timestamp_in_version state (cs_reconciling_at state)"
    "timestamp_in_version state (cs_completed_at state)" "evidence_fits_status state"
    using valid by (simp_all add: validate_command_state_iff)
  have later: "timestamp_in_version state t \<Longrightarrow> timestamp_in_version ?next t" for t
    using at(3) by (auto simp: timestamp_in_version_def split: option.splits)
  have "timestamp_in_version ?next (cs_reconciling_at ?next)"
    using v(8) at by (cases "cs_reconciling_at state") (auto simp: timestamp_in_version_def get_or_insert_def)
  moreover have kinds: "\<not> command_status_is_terminal (cs_status state)" "requires_dispatch (cs_status state)"
    "\<not> command_status_is_terminal target"
    using status target by (auto simp: command_status_is_terminal_def requires_dispatch_def)
  have fits: "cs_completed_at state = None" "cs_dispatched_at state \<noteq> None" "0 < cs_delivery_attempts state"
    using v(10) kinds unfolding evidence_fits_status_def by blast+
  have "get_or_insert (cs_reconciling_at state) at \<noteq> None" by (simp add: get_or_insert_def split: option.split)
  with target kinds(3) fits have "evidence_fits_status ?next"
    by (elim insertE emptyE) (simp_all add: evidence_fits_status_def)
  moreover have "belongs_to command ?next" using v(2) by (simp add: belongs_to_def)
  ultimately show ?thesis
    using v(1,3,4,5) at later [OF v(6)] later [OF v(7)] later [OF v(9)]
    by (simp add: validate_command_state_iff)
qed

text \<open>
  A command under delivery uncertainty whose state is not newer than the evidence accepts
  reconciliation evidence: the step cannot fail.
\<close>

lemma uncertain_step:
  assumes valid: "validate_command_state command state = Inr ()" and "time": "cs_updated_at state \<le> at"
    and room: "at < i64_max"
    and kind: "evidence = CommandEvidence.BeginReconciliation at
        \<and> target = ExecutionCommandStatus.Reconciling \<and> may_begin_reconciliation (cs_status state)
      \<or> evidence = CommandEvidence.RequireManualReconciliation at
        \<and> target = ExecutionCommandStatus.ManualReconciliationRequired \<and> may_require_manual (cs_status state)"
  shows "\<exists>outcome. transition_command command state evidence = Inr outcome"
proof (cases "target = cs_status state")
  case True
  then have "transition_command command state evidence = Inr (CommandTransitionOutcome.Duplicate state)"
    using kind reconciliation_targets [of at command] valid_state_latest [OF valid "time"]
    by (intro transition_checked(2) [OF valid, of evidence target at])
      (auto simp: fill_predates_creation_def receipt_evidence_def)
  then show ?thesis by blast
next
  case False
  let ?u = "max (cs_updated_at state + 1) at"
  let ?next = "state\<lparr>cs_status := target, cs_updated_at := ?u,
    cs_reconciling_at := get_or_insert (cs_reconciling_at state) at\<rparr>"
  have status: "cs_status state \<in> {ExecutionCommandStatus.DeliveryUnconfirmed,
      ExecutionCommandStatus.Reconciling}"
    using kind False by (auto simp: may_begin_reconciliation_def may_require_manual_def)
  have "transition_command command state evidence = Inr (Applied ?next)"
  proof (rule transition_advanceI [OF valid, of evidence target at ?u])
    show "evidence_target command evidence = Inr (target, at)"
      using kind reconciliation_targets [of at command] valid_state_latest(3) [OF valid "time"] by auto
    show "bump_version state at = Inr ?u"
      using valid "time" room
      by (simp add: bump_version_ok validate_command_state_iff i64_min_def)
    show "validate_command_state command ?next = Inr ()"
    proof (rule valid_after_reconciliation [OF valid status])
      show "target \<in> {ExecutionCommandStatus.Reconciling,
          ExecutionCommandStatus.ManualReconciliationRequired}" using kind by auto
    qed (use valid_state_latest(2) [OF valid "time"] in auto)
    show "transition_is_allowed (cs_status state) target"
      using kind status False by (auto simp: transition_is_allowed_def)
    show "record_evidence (state\<lparr>cs_status := target, cs_updated_at := ?u\<rparr>) evidence = Inr ?next"
      using kind by (auto simp: record_evidence_def)
  qed (use kind False valid_state_latest [OF valid "time"] in
      \<open>auto simp: fill_predates_creation_def receipt_evidence_def is_local_end_def
        command_status_is_terminal_def\<close>)
  then show ?thesis by blast
qed

lemma derive_transitions_facts:
  "derive_transitions qualifies evidence entries = Inr transitions \<Longrightarrow>
     map rct_command_id transitions =
       map fst (filter (\<lambda>entry. qualifies (cs_status (rc_state (snd entry)))) entries)
   \<and> (\<forall>t \<in> set transitions. \<exists>entry \<in> set entries. qualifies (cs_status (rc_state (snd entry)))
        \<and> command_transition (fst entry) (snd entry) evidence = Inr t)"
proof (induction entries arbitrary: transitions)
  case (Cons entry entries)
  then show ?case
    by (cases "qualifies (cs_status (rc_state (snd entry)))")
      (fastforce simp: bindR_eq_Inr command_transition_def)+
qed simp

lemma derive_transitions_total:
  "(\<And>entry. entry \<in> set entries \<Longrightarrow> qualifies (cs_status (rc_state (snd entry))) \<Longrightarrow>
     \<exists>outcome. transition_command (rc_command (snd entry)) (rc_state (snd entry)) evidence = Inr outcome) \<Longrightarrow>
   \<exists>transitions. derive_transitions qualifies evidence entries = Inr transitions"
proof (induction entries)
  case (Cons entry entries)
  then obtain transitions where "derive_transitions qualifies evidence entries = Inr transitions" by auto
  with Cons.prems [of entry] show ?case by (fastforce simp: command_transition_def)
qed simp

section \<open>Planning and escalation\<close>

lemma validate_scope_item_iff:
  "validate_scope_item ctx bound item = Inr () \<longleftrightarrow>
     validate_command_state (rc_command item) (rc_state item) = Inr ()
   \<and> ec_account_id (rc_command item) = rreq_account_id (rctx_request ctx)
   \<and> validate_route_constraint ''commands[].terminal_id'' (rreq_terminal_id (rctx_request ctx))
       (ec_terminal_id (rc_command item)) = Inr ()
   \<and> validate_route_constraint ''commands[].client_id'' (rreq_client_id (rctx_request ctx))
       (ec_client_id (rc_command item)) = Inr ()
   \<and> cs_updated_at (rc_state item) \<le> bound"
  by (simp add: validate_scope_item_def Let_def unit_result_simps not_less)

lemma command_scope_later:
  "command_scope_ok ctx commands bound \<Longrightarrow> bound \<le> bound' \<Longrightarrow> command_scope_ok ctx commands bound'"
  by (auto simp: command_scope_ok_def validate_scope_item_iff)

lemma scope_transitions_total:
  assumes scope: "command_scope_ok ctx commands at" and room: "at < i64_max"
    and kind: "evidence = CommandEvidence.BeginReconciliation at \<and> qualifies = may_begin_reconciliation
      \<or> evidence = CommandEvidence.RequireManualReconciliation at \<and> qualifies = may_require_manual"
    and entries: "snd ` set entries \<subseteq> set commands"
  shows "\<exists>transitions. derive_transitions qualifies evidence entries = Inr transitions"
proof (rule derive_transitions_total)
  fix entry assume "entry \<in> set entries" and ok: "qualifies (cs_status (rc_state (snd entry)))"
  then have "validate_command_state (rc_command (snd entry)) (rc_state (snd entry)) = Inr ()"
    "cs_updated_at (rc_state (snd entry)) \<le> at"
    using scope entries by (auto simp: command_scope_ok_def validate_scope_item_iff)
  with uncertain_step [OF _ _ room] kind ok
  show "\<exists>outcome. transition_command (rc_command (snd entry)) (rc_state (snd entry)) evidence = Inr outcome"
    by blast
qed

lemma command_transition_facts:
  assumes "command_transition command_id item evidence = Inr t"
    and "receipt_evidence evidence = None" "evidence_target (rc_command item) evidence = Inr (target, at)"
  shows "rct_command_id t = command_id" "rct_expected_status t = cs_status (rc_state item)"
    "rct_expected_updated_at t = cs_updated_at (rc_state item)"
    "transition_command (rc_command item) (rc_state item) evidence = Inr (rct_outcome t)"
    "cs_status (into_state (rct_outcome t)) = target"
proof -
  show step: "transition_command (rc_command item) (rc_state item) evidence = Inr (rct_outcome t)"
    and "rct_command_id t = command_id" "rct_expected_status t = cs_status (rc_state item)"
    "rct_expected_updated_at t = cs_updated_at (rc_state item)"
    using assms(1) by (auto simp: command_transition_def bindR_eq_Inr)
  show "cs_status (into_state (rct_outcome t)) = target"
    using transition_reaches_target [OF step assms(2,3)] by simp
qed

lemma item_findings_known:
  "List.map_filter unknown_command_of (fst (evaluate_command observed_at unresolved command_id item orders events)) = []"
proof -
  have "List.map_filter unknown_command_of
      (inspect_order_observations command_id command orders events observed_at) = []" for command
    by (auto simp: map_filter_def inspect_order_observations_def Let_def filter_empty_conv)
  then show ?thesis by (simp add: evaluate_command_def Let_def map_filter_def)
qed

lemma map_filter_concat_Nil:
  "(\<And>xs. xs \<in> set xss \<Longrightarrow> List.map_filter f xs = []) \<Longrightarrow> List.map_filter f (concat xss) = []"
  by (induction xss) (simp_all add: map_filter_def)

lemma request_scope_valid_time: "command_scope_ok ctx commands bound \<Longrightarrow> 0 \<le> rctx_requested_at ctx"
  by (auto simp: command_scope_ok_def validate_request_context_def Let_def unit_result_simps)

lemma qualified_ids:
  assumes dist: "distinct (map item_id commands)"
  shows "map fst (filter (\<lambda>entry. qualifies (snd entry)) (bt_index commands)) =
    bt_set (map item_id (filter qualifies commands))"
proof (rule strictly_ascending_unique)
  have "sorted_wrt (<) (map fst (bt_index commands))"
    using bt_index_facts(4) [OF dist] by (simp add: bt_sorted_def bt_keys_def)
  then show "strictly_ascending (map fst (filter (\<lambda>entry. qualifies (snd entry)) (bt_index commands)))"
    by (simp add: strictly_ascending_iff sorted_wrt_map sorted_wrt_filter)
  show "set (map fst (filter (\<lambda>entry. qualifies (snd entry)) (bt_index commands))) =
      set (bt_set (map item_id (filter qualifies commands)))"
    by (auto simp: bt_index_facts(3) [OF dist] image_iff)
qed simp

text \<open>
  A derived transition of a command: guarded by the command's current status and version, produced by
  the command lifecycle from the given evidence, ending in the given status.
\<close>

definition guarded_transition ::
  "CommandEvidence \<Rightarrow> ExecutionCommandStatus \<Rightarrow> ReconciliationCommand \<Rightarrow>
   ReconciliationCommandTransition \<Rightarrow> bool" where
  "guarded_transition evidence target item t \<longleftrightarrow>
     rct_command_id t = item_id item \<and> rct_expected_status t = cs_status (rc_state item)
   \<and> rct_expected_updated_at t = cs_updated_at (rc_state item)
   \<and> transition_command (rc_command item) (rc_state item) evidence = Inr (rct_outcome t)
   \<and> cs_status (into_state (rct_outcome t)) = target"

lemma scope_transitions:
  assumes scope: "command_scope_ok ctx commands at" and room: "at < i64_max"
    and kind: "evidence = CommandEvidence.BeginReconciliation at \<and> qualifies = may_begin_reconciliation
        \<and> target = ExecutionCommandStatus.Reconciling
      \<or> evidence = CommandEvidence.RequireManualReconciliation at \<and> qualifies = may_require_manual
        \<and> target = ExecutionCommandStatus.ManualReconciliationRequired"
    and entries: "set entries \<subseteq> set (bt_index commands)"
  obtains ts where "derive_transitions qualifies evidence entries = Inr ts"
    "map rct_command_id ts = map fst (filter (\<lambda>entry. qualifies (cs_status (rc_state (snd entry)))) entries)"
    "\<And>t. t \<in> set ts \<Longrightarrow> \<exists>item \<in> set commands. guarded_transition evidence target item t"
proof -
  have dist: "distinct (map item_id commands)" using scope by (simp add: command_scope_ok_def)
  have sub: "set entries \<subseteq> (\<lambda>item. (item_id item, item)) ` set commands"
    using entries by (simp add: bt_index_facts(3) [OF dist])
  then have "snd ` set entries \<subseteq> set commands" by auto
  with kind obtain ts where ts: "derive_transitions qualifies evidence entries = Inr ts"
    using scope_transitions_total [OF scope room] by blast
  have "0 \<le> at" using request_scope_valid_time [OF scope] scope by (simp add: command_scope_ok_def)
  then have target: "evidence_target command evidence = Inr (target, at)" for command
    using kind reconciliation_targets [of at command] by auto
  have receipt: "receipt_evidence evidence = None" using kind by (auto simp: receipt_evidence_def)
  note facts = derive_transitions_facts [OF ts]
  have "\<exists>item \<in> set commands. guarded_transition evidence target item t" if "t \<in> set ts" for t
  proof -
    from that facts obtain entry where entry: "entry \<in> set entries"
      "command_transition (fst entry) (snd entry) evidence = Inr t" by blast
    then have "snd entry \<in> set commands" "fst entry = item_id (snd entry)" using sub by auto
    with command_transition_facts [OF entry(2) receipt target] show ?thesis
      unfolding guarded_transition_def by metis
  qed
  with that ts facts show ?thesis by blast
qed

section \<open>Escalating an evaluation\<close>

lemma evaluation_attention:
  assumes "evaluate_reconciliation_result ctx result commands events received_at = Inr evaluated"
  shows "set (reval_command_ids (err_evaluation evaluated)) =
      {command_id. needs_attention ctx result commands events command_id}"
    and "strictly_ascending (reval_command_ids (err_evaluation evaluated))"
    and "reval_disposition (err_evaluation evaluated) =
      (if reval_command_ids (err_evaluation evaluated) \<noteq> [] then PendingEvidence else Completed)"
    and "reval_observed_at (err_evaluation evaluated) = Some (rres_observed_at result)"
    and "reval_request_id (err_evaluation evaluated) = rres_request_id result"
    and "reval_account_id (err_evaluation evaluated) = rres_account_id result"
proof -
  let ?e = "evaluation_of ctx (canonicalize_result_sets result) (bt_index commands) (command_events events)"
  have e: "evaluated = ?e" and dist: "distinct (map item_id commands)"
    using assms by (simp_all add: evaluate_iff command_scope_ok_def)
  show "set (reval_command_ids (err_evaluation evaluated)) =
      {command_id. needs_attention ctx result commands events command_id}"
    unfolding e by (rule evaluation_pending [OF dist])
  show "strictly_ascending (reval_command_ids (err_evaluation evaluated))"
    "reval_disposition (err_evaluation evaluated) =
      (if reval_command_ids (err_evaluation evaluated) \<noteq> [] then PendingEvidence else Completed)"
    "reval_observed_at (err_evaluation evaluated) = Some (rres_observed_at result)"
    "reval_request_id (err_evaluation evaluated) = rres_request_id result"
    "reval_account_id (err_evaluation evaluated) = rres_account_id result"
    unfolding e by (simp_all add: evaluation_of_def Let_def)
qed

lemma known_attention:
  assumes "distinct (map item_id commands)" "item \<in> set commands"
  shows "needs_attention ctx result commands events (item_id item) \<longleftrightarrow> \<not> command_settled result events item"
  using assms by (auto simp: needs_attention_def unknown_command_def distinct_map inj_on_def)

lemma unknown_attention:
  assumes "distinct (map item_id commands)"
  shows "needs_attention ctx result commands events command_id \<and> map_of (bt_index commands) command_id = None \<longleftrightarrow>
    unknown_command ctx result commands command_id"
  by (auto simp: needs_attention_def unknown_command_def bt_index_facts(2) [OF assms])

lemma map_filter_parts:
  "List.map_filter f (xs @ ys) = List.map_filter f xs @ List.map_filter f ys"
  "List.map_filter unknown_command_of (map UnknownCommandReportedUnresolved ids) = ids"
  "List.map_filter unknown_command_of
     (map (\<lambda>(command_id, orders). UnknownCommandObservedInOrderSnapshot command_id (g orders)) entries) =
   map fst entries"
  by (simp_all add: map_filter_def comp_def case_prod_unfold)

lemma lookup_entries:
  "(c, v) \<in> set (List.map_filter (\<lambda>c. map_option (Pair c) (m c)) cs) \<longleftrightarrow> c \<in> set cs \<and> m c = Some v"
  by (induction cs) (auto simp: map_filter_def split: option.splits)

lemma evaluation_unknown_findings:
  assumes dist: "distinct (map item_id commands)"
  shows "set (List.map_filter unknown_command_of (reval_findings (err_evaluation (evaluation_of ctx
      (canonicalize_result_sets result) (bt_index commands) events_of)))) =
    {command_id. unknown_command ctx result commands command_id}"
proof -
  have known: "List.map_filter unknown_command_of (concat (map (\<lambda>(_, found, _). found)
      (map (\<lambda>(command_id, item). (command_id, evaluate_command observed_at unresolved command_id item
         (orders_of command_id) (events_of command_id))) entries))) = []"
    for observed_at unresolved orders_of entries
    by (rule map_filter_concat_Nil) (auto simp: item_findings_known case_prod_unfold)
  show ?thesis
    using unknown_ids [OF dist, of ctx result]
    by (simp only: evaluation_of_def Let_def EvaluatedReconciliationResult.simps
        ReconciliationEvaluation.simps map_filter_parts known append_Nil set_append set_map)
qed

lemma escalation_checks:
  assumes evaluated: "evaluate_reconciliation_result ctx result commands events received_at = Inr evaluated"
    and pending: "reval_disposition (err_evaluation evaluated) = PendingEvidence"
    and evidence: "mee_request_id evidence = rreq_request_id (rctx_request ctx)"
      "\<not> trim_is_empty (mee_reason evidence)" "received_at \<le> mee_escalated_at evidence"
  shows "escalate_manual_reconciliation ctx (err_evaluation evaluated) commands evidence =
    bindR (derive_transitions may_require_manual
        (CommandEvidence.RequireManualReconciliation (mee_escalated_at evidence))
        (List.map_filter (\<lambda>c. map_option (Pair c) (map_of (bt_index commands) c))
          (reval_command_ids (err_evaluation evaluated)))) (\<lambda>command_transitions.
      Inr \<lparr>mresc_evidence = evidence,
        mresc_evaluation = (err_evaluation evaluated)\<lparr>reval_disposition := ManualRequired\<rparr>,
        mresc_command_transitions = command_transitions\<rparr>)"
proof -
  let ?e = "err_evaluation evaluated"
  note att = evaluation_attention [OF evaluated]
  have valid: "validate_result ctx result received_at = Inr ()"
    and scope: "command_scope_ok ctx commands received_at"
    using evaluated by (simp_all add: evaluate_iff)
  then have dist: "distinct (map item_id commands)" by (simp add: command_scope_ok_def)
  have result: "rres_request_id result = rreq_request_id (rctx_request ctx)"
    "rres_account_id result = rreq_account_id (rctx_request ctx)"
    "validate_request_context ctx = Inr ()" "rctx_requested_at ctx \<le> rres_observed_at result"
    "rres_observed_at result \<le> received_at"
    using valid by (simp_all add: validate_result_def Let_def unit_result_simps not_less)
  have head: "validate_escalation ctx ?e evidence = Inr ()"
    using att result evidence pending by (auto simp: validate_escalation_def Let_def split: if_splits)
  have at: "validate_command_scope ctx commands (mee_escalated_at evidence) = Inr (bt_index commands)"
    using command_scope_later [OF scope evidence(3)] by (simp add: validate_command_scope_iff)
  have targeted: "\<not> (case rreq_command_ids (rctx_request ctx) of None \<Rightarrow> False
      | Some targeted \<Rightarrow> list_ex (\<lambda>c. c \<notin> set targeted) (reval_command_ids ?e))"
    using att(1) scope
    by (auto simp: list_ex_iff command_scope_ok_def needs_attention_def unknown_command_def split: option.split)
  have "bt_set (filter (\<lambda>c. map_of (bt_index commands) c = None) (reval_command_ids ?e)) =
      bt_set (List.map_filter unknown_command_of (reval_findings ?e))"
    using att(1) unknown_attention [OF dist] evaluation_unknown_findings [OF dist] evaluated
    by (intro strictly_ascending_unique) (auto simp: evaluate_iff)
  then show ?thesis
    unfolding escalate_manual_reconciliation_def head at bindR_simps using targeted by (simp add: Let_def)
qed

end
