(* ===== verification/Reconciliation_Properties.thy ===== *)
theory Reconciliation_Properties
  imports Reconciliation_Correct
begin

text \<open>
  The properties of the reconciliation crate, with a concrete run: one command whose delivery is
  unconfirmed, an account-wide request, a result that reports it and a foreign command as unresolved.
\<close>

section \<open>A concrete run\<close>

definition sample_unconfirmed :: ExecutionCommandState where
  "sample_unconfirmed = sample_dispatched\<lparr>cs_status := ExecutionCommandStatus.DeliveryUnconfirmed,
     cs_last_delivery_error := Some ''timeout'', cs_updated_at := 180\<rparr>"

definition sample_item :: ReconciliationCommand where
  "sample_item = \<lparr>rc_command = sample_command, rc_state = sample_unconfirmed\<rparr>"

definition sample_input :: ReconciliationRequestInput where
  "sample_input = \<lparr>rri_request_id = ''req-1'', rri_account_id = ''acct-1'', rri_terminal_id = None,
     rri_client_id = None, rri_reason = ReconciliationReason.ManualRequest, rri_command_ids = None,
     rri_since_server_time = None, rri_requested_at = 200\<rparr>"

definition sample_context :: ReconciliationRequestContext where
  "sample_context = \<lparr>rctx_request = \<lparr>rreq_request_id = ''req-1'', rreq_account_id = ''acct-1'',
       rreq_terminal_id = None, rreq_client_id = None, rreq_reason = ReconciliationReason.ManualRequest,
       rreq_command_ids = None, rreq_since_server_time = None\<rparr>,
     rctx_requested_at = 200\<rparr>"

definition sample_result :: "CommandId list \<Rightarrow> ReconciliationResult" where
  "sample_result unresolved = \<lparr>rres_request_id = ''req-1'', rres_account_id = ''acct-1'',
     rres_terminal_id = None, rres_client_id = None, rres_observed_at = 210, rres_account = None,
     rres_positions = [], rres_orders = [], rres_symbol_metadata = [],
     rres_unresolved_command_ids = unresolved\<rparr>"

definition sample_escalation :: ManualEscalationEvidence where
  "sample_escalation = \<lparr>mee_request_id = ''req-1'', mee_escalated_at = 300, mee_reason = ''operator''\<rparr>"

lemma request_texts: "\<not> trim_is_empty ''req-1''" "\<not> trim_is_empty ''acct-1''"
  "\<not> trim_is_empty ''cmd-1''" "\<not> trim_is_empty ''cmd-9''" "\<not> trim_is_empty ''operator''"
  "\<not> trim_is_empty ''timeout''"
  by code_simp+

lemma sample_request_ok: "validate_request_context sample_context = Inr ()"
  using request_texts
  by (simp add: validate_request_context_def sample_context_def require_request_text_def)

lemma sample_build: "build_reconciliation_request sample_input = Inr sample_context"
  using sample_request_ok
  by (simp add: build_reconciliation_request_def sample_input_def sample_context_def)

lemma sample_unconfirmed_valid: "validate_command_state sample_command sample_unconfirmed = Inr ()"
  using sample_command_ok request_texts
  by (simp add: validate_command_state_iff belongs_to_def timestamp_in_version_def
      evidence_fits_status_def requires_dispatch_def command_status_is_terminal_def
      sample_unconfirmed_def sample_dispatched_def sample_created_def sample_command_def)

lemma sample_scope:
  assumes "200 \<le> bound" shows "command_scope_ok sample_context [sample_item] bound"
  using assms sample_request_ok sample_unconfirmed_valid
  by (simp add: command_scope_ok_def validate_scope_item_iff validate_route_constraint_def sample_item_def)
    (simp add: sample_context_def sample_command_def sample_unconfirmed_def)

lemma sample_result_ok:
  "validate_result sample_context (sample_result [''cmd-9'', ''cmd-1'']) 220 = Inr ()"
  using sample_request_ok request_texts
  by (simp add: validate_result_def sample_result_def)
    (simp add: validate_account_def validate_positions_def validate_orders_def
      validate_symbol_metadata_def require_result_text_def sample_context_def)

lemma sample_evaluates: "\<exists>evaluated. evaluate_reconciliation_result sample_context
    (sample_result [''cmd-9'', ''cmd-1'']) [sample_item] [] 220 = Inr evaluated"
  using sample_result_ok sample_scope [of 220] by (simp add: evaluate_iff execution_events_ok_def)

lemma sample_needs_attention:
  "needs_attention sample_context (sample_result [''cmd-9'', ''cmd-1'']) [sample_item] [] c \<longleftrightarrow>
     c = ''cmd-1'' \<or> c = ''cmd-9''"
  by (auto simp: needs_attention_def unknown_command_def command_settled_def sample_item_def
      sample_result_def sample_context_def sample_command_def)

section \<open>Requests\<close>

text \<open>A built request has a canonical scope. An account-wide request stays account-wide; a
  targeted one is accepted only when its list of commands is non-empty and free of duplicates, and
  then carries the same commands in ascending order.\<close>

theorem request_scope_canonical:
  assumes "build_reconciliation_request input = Inr ctx"
  shows "rreq_command_ids (rctx_request ctx) = map_option sort (rri_command_ids input)
    \<and> (case rri_command_ids input of None \<Rightarrow> True | Some ids \<Rightarrow> ids \<noteq> [] \<and> distinct ids)
    \<and> validate_request_context ctx = Inr ()"
proof -
  have "bt_set ids = sort ids" if "distinct ids" for ids :: "CommandId list"
    using that by (simp add: bt_set_def distinct_remdups_id)
  then show ?thesis
    using assms
    by (cases "rri_command_ids input")
      (auto simp: build_reconciliation_request_def Let_def result_simps bt_set_length split: if_splits)
qed

theorem request_scope_canonical_witness:
  "rreq_command_ids (rctx_request sample_context) = map_option sort (rri_command_ids sample_input)
    \<and> (case rri_command_ids sample_input of None \<Rightarrow> True | Some ids \<Rightarrow> ids \<noteq> [] \<and> distinct ids)
    \<and> validate_request_context sample_context = Inr ()"
  by (rule request_scope_canonical [OF sample_build])

text \<open>Planning a request over a valid scope always succeeds. Exactly the commands whose delivery
  is unconfirmed or already reconciling get a transition, in ascending order, guarded by their
  current status and version, and each moves to \<open>RECONCILING\<close> through the command lifecycle; no
  other command is touched.\<close>

theorem plan_moves_uncertain_commands:
  assumes request: "build_reconciliation_request input = Inr ctx"
    and scope: "validate_command_scope ctx commands (rctx_requested_at ctx) = Inr indexed"
    and room: "rctx_requested_at ctx < i64_max"
  shows "\<exists>plan. plan_reconciliation_request input commands = Inr plan \<and> rrp_context plan = ctx
    \<and> map rct_command_id (rrp_command_transitions plan) = bt_set (map item_id
        (filter (\<lambda>item. may_begin_reconciliation (cs_status (rc_state item))) commands))
    \<and> (\<forall>t \<in> set (rrp_command_transitions plan). \<exists>item \<in> set commands.
         guarded_transition (CommandEvidence.BeginReconciliation (rctx_requested_at ctx))
           ExecutionCommandStatus.Reconciling item t)"
proof -
  let ?evidence = "CommandEvidence.BeginReconciliation (rctx_requested_at ctx)"
  have ok: "command_scope_ok ctx commands (rctx_requested_at ctx)" and indexed: "indexed = bt_index commands"
    using scope by (simp_all add: validate_command_scope_iff)
  then have dist: "distinct (map item_id commands)" by (simp add: command_scope_ok_def)
  obtain ts where ts: "derive_transitions may_begin_reconciliation ?evidence (bt_index commands) = Inr ts"
    "map rct_command_id ts = map fst (filter (\<lambda>entry.
       may_begin_reconciliation (cs_status (rc_state (snd entry)))) (bt_index commands))"
    "\<And>t. t \<in> set ts \<Longrightarrow> \<exists>item \<in> set commands.
       guarded_transition ?evidence ExecutionCommandStatus.Reconciling item t"
    by (rule scope_transitions [OF ok room, of ?evidence may_begin_reconciliation
          ExecutionCommandStatus.Reconciling "bt_index commands"]) auto
  from ts(1) have "plan_reconciliation_request input commands =
      Inr \<lparr>rrp_context = ctx, rrp_command_transitions = ts\<rparr>"
    using request scope indexed by (simp add: plan_reconciliation_request_def)
  moreover have "map rct_command_id ts = bt_set (map item_id
      (filter (\<lambda>item. may_begin_reconciliation (cs_status (rc_state item))) commands))"
    using ts(2) qualified_ids [OF dist, of "\<lambda>item. may_begin_reconciliation (cs_status (rc_state item))"]
    by simp
  ultimately show ?thesis using ts(3) by auto
qed

theorem plan_moves_uncertain_commands_witness:
  "\<exists>plan. plan_reconciliation_request sample_input [sample_item] = Inr plan \<and> rrp_context plan = sample_context
    \<and> map rct_command_id (rrp_command_transitions plan) = [''cmd-1'']"
proof -
  have scope: "validate_command_scope sample_context [sample_item] (rctx_requested_at sample_context) =
      Inr (bt_index [sample_item])"
    using sample_scope by (simp add: validate_command_scope_iff sample_context_def)
  have "rctx_requested_at sample_context < i64_max" by (simp add: sample_context_def i64_max_def)
  from plan_moves_uncertain_commands [OF sample_build scope this] show ?thesis
    by (auto simp: sample_item_def sample_unconfirmed_def sample_command_def
        may_begin_reconciliation_def bt_set_def)
qed

section \<open>Evaluation\<close>

text \<open>C28: The evaluation of a result names exactly the commands that need attention. These are the
  commands in scope that already require manual work, that Core's own records do not settle, or that
  the client disputes, and, for an account-wide request, the commands unknown to Core that the client
  reports or that an order on the route names. The list is ascending; the evaluation is \<open>Completed\<close>
  exactly when it is empty, and never \<open>ManualRequired\<close>.\<close>

theorem attention_scope_exact:
  assumes "evaluate_reconciliation_result ctx result commands events received_at = Inr evaluated"
  shows "(\<forall>c. c \<in> set (reval_command_ids (err_evaluation evaluated)) \<longleftrightarrow>
        needs_attention ctx result commands events c)
    \<and> strictly_ascending (reval_command_ids (err_evaluation evaluated))
    \<and> reval_disposition (err_evaluation evaluated) =
        (if \<exists>c. needs_attention ctx result commands events c then PendingEvidence else Completed)"
proof -
  note facts = evaluation_attention [OF assms]
  then have "reval_command_ids (err_evaluation evaluated) \<noteq> [] \<longleftrightarrow>
      (\<exists>c. needs_attention ctx result commands events c)"
    by (metis (mono_tags) Collect_empty_eq set_empty)
  with facts(1-3) show ?thesis by simp
qed

theorem attention_scope_exact_witness:
  "\<exists>evaluated. evaluate_reconciliation_result sample_context (sample_result [''cmd-9'', ''cmd-1''])
       [sample_item] [] 220 = Inr evaluated
     \<and> reval_command_ids (err_evaluation evaluated) = [''cmd-1'', ''cmd-9'']
     \<and> reval_disposition (err_evaluation evaluated) = PendingEvidence"
proof -
  obtain evaluated where e: "evaluate_reconciliation_result sample_context
      (sample_result [''cmd-9'', ''cmd-1'']) [sample_item] [] 220 = Inr evaluated"
    using sample_evaluates by blast
  note facts = attention_scope_exact [OF e, unfolded sample_needs_attention]
  have "strictly_ascending [''cmd-1'', ''cmd-9'']" by code_simp
  then have "reval_command_ids (err_evaluation evaluated) = [''cmd-1'', ''cmd-9'']"
    using facts by (intro strictly_ascending_unique) auto
  with e facts show ?thesis by auto
qed

text \<open>The evaluation does not depend on the order of its inputs. Handing the same commands, the
  same execution events and the same result contents over in another order gives the same evaluation:
  the same canonical result, the same findings in the same order, the same attention scope.\<close>

theorem evaluation_order_independent:
  assumes "evaluate_reconciliation_result ctx result commands events received_at = Inr evaluated"
    and "mset commands = mset commands'" and "mset events = mset events'" and "same_result result result'"
  shows "evaluate_reconciliation_result ctx result' commands' events' received_at = Inr evaluated"
proof -
  have valid: "validate_result ctx result received_at = Inr ()"
    and scope: "command_scope_ok ctx commands received_at"
    and events: "execution_events_ok (bt_index commands) events received_at"
    and e: "evaluated = evaluation_of ctx (canonicalize_result_sets result) (bt_index commands)
      (command_events events)"
    using assms(1) by (simp_all add: evaluate_iff)
  have dist: "distinct (map item_id commands)" using scope by (simp add: command_scope_ok_def)
  have sets: "set commands' = set commands" "set events' = set events"
    using assms(2,3) by (metis set_mset_mset)+
  have index: "bt_index commands' = bt_index commands"
    using bt.fold_order [OF dist assms(2), of "\<lambda>item. item"] by simp
  have "command_scope_ok ctx commands' received_at"
    using scope by (simp add: command_scope_ok_def sets distinct_map_order [OF assms(2) [symmetric]])
  moreover have "execution_events_ok (bt_index commands') events' received_at"
    using events by (simp add: execution_events_ok_def index sets distinct_map_order [OF assms(3) [symmetric]])
  moreover have "command_events events' = command_events events"
    using command_events_order [OF assms(3)] events by (simp add: execution_events_ok_def)
  ultimately show ?thesis
    using valid e validate_result_order [OF assms(4)] canonical_order [OF assms(4) valid] index
    by (simp add: evaluate_iff)
qed

theorem evaluation_order_independent_witness:
  "\<exists>evaluated. evaluate_reconciliation_result sample_context (sample_result [''cmd-9'', ''cmd-1''])
       [sample_item] [] 220 = Inr evaluated
     \<and> evaluate_reconciliation_result sample_context (sample_result [''cmd-1'', ''cmd-9''])
       [sample_item] [] 220 = Inr evaluated"
proof -
  have same: "same_result (sample_result [''cmd-9'', ''cmd-1'']) (sample_result [''cmd-1'', ''cmd-9''])"
    by (simp add: same_result_def sample_result_def)
  obtain evaluated where e: "evaluate_reconciliation_result sample_context
      (sample_result [''cmd-9'', ''cmd-1'']) [sample_item] [] 220 = Inr evaluated"
    using sample_evaluates by blast
  from evaluation_order_independent [OF e refl refl same] e show ?thesis by blast
qed

section \<open>Escalation\<close>

lemma filtered_keys:
  assumes "\<And>c item. (c, item) \<in> set entries \<longleftrightarrow> item \<in> A \<and> key item = c \<and> P item"
  shows "set (map fst (filter (\<lambda>entry. Q (snd entry)) entries)) =
    {key item | item. item \<in> A \<and> P item \<and> Q item}"
proof -
  have "set entries = (\<lambda>item. (key item, item)) ` {item \<in> A. P item}"
    using assms by auto
  then show ?thesis by (auto simp: image_iff)
qed

text \<open>C29: A pending evaluation can always be escalated. Over the commands it was computed from, with evidence that
  names the request, a reason and a time not before the result was received and below the greatest \<open>i64\<close> (so that the
  next version of a command fits), the escalation succeeds, keeps the attention
  scope and the findings, and turns the run to manual work. Exactly the attention commands whose
  delivery is uncertain move, through the command lifecycle, to \<open>MANUAL_RECONCILIATION_REQUIRED\<close>;
  a command that has advanced or ended is left alone.\<close>

theorem pending_evaluation_escalates:
  assumes evaluated: "evaluate_reconciliation_result ctx result commands events received_at = Inr evaluated"
    and pending: "reval_disposition (err_evaluation evaluated) = PendingEvidence"
    and evidence: "mee_request_id evidence = rreq_request_id (rctx_request ctx)"
      "\<not> trim_is_empty (mee_reason evidence)" "received_at \<le> mee_escalated_at evidence"
      "mee_escalated_at evidence < i64_max"
  shows "\<exists>escalation. escalate_manual_reconciliation ctx (err_evaluation evaluated) commands evidence =
        Inr escalation
    \<and> mresc_evaluation escalation = (err_evaluation evaluated)\<lparr>reval_disposition := ManualRequired\<rparr>
    \<and> set (map rct_command_id (mresc_command_transitions escalation)) =
        {item_id item | item. item \<in> set commands \<and> \<not> command_settled result events item
           \<and> may_require_manual (cs_status (rc_state item))}
    \<and> (\<forall>t \<in> set (mresc_command_transitions escalation). \<exists>item \<in> set commands.
         guarded_transition (CommandEvidence.RequireManualReconciliation (mee_escalated_at evidence))
           ExecutionCommandStatus.ManualReconciliationRequired item t)"
proof -
  let ?at = "mee_escalated_at evidence" and ?e = "err_evaluation evaluated"
  let ?evidence = "CommandEvidence.RequireManualReconciliation ?at"
  have scope: "command_scope_ok ctx commands ?at"
    using evaluated evidence(3) command_scope_later by (auto simp: evaluate_iff)
  have dist: "distinct (map item_id commands)" using scope by (simp add: command_scope_ok_def)
  let ?entries = "List.map_filter (\<lambda>c. map_option (Pair c) (map_of (bt_index commands) c)) (reval_command_ids ?e)"
  have "(c, item) \<in> set ?entries \<longleftrightarrow>
      needs_attention ctx result commands events c \<and> item \<in> set commands \<and> item_id item = c" for c item
    by (simp only: lookup_entries evaluation_attention(1) [OF evaluated] bt_index_facts(1) [OF dist] mem_Collect_eq)
  then have entries: "(c, item) \<in> set ?entries \<longleftrightarrow>
      item \<in> set commands \<and> item_id item = c \<and> \<not> command_settled result events item" for c item
    using known_attention [OF dist, of item ctx result events] by auto
  obtain ts where ts: "derive_transitions may_require_manual ?evidence ?entries = Inr ts"
    "map rct_command_id ts = map fst (filter (\<lambda>entry.
       may_require_manual (cs_status (rc_state (snd entry)))) ?entries)"
    "\<And>t. t \<in> set ts \<Longrightarrow> \<exists>item \<in> set commands.
       guarded_transition ?evidence ExecutionCommandStatus.ManualReconciliationRequired item t"
    by (rule scope_transitions [OF scope evidence(4), of ?evidence may_require_manual
          ExecutionCommandStatus.ManualReconciliationRequired ?entries])
      (use entries bt_index_facts(3) [OF dist] in auto)
  have "escalate_manual_reconciliation ctx ?e commands evidence = Inr \<lparr>mresc_evidence = evidence,
      mresc_evaluation = ?e\<lparr>reval_disposition := ManualRequired\<rparr>, mresc_command_transitions = ts\<rparr>"
    using escalation_checks [OF evaluated pending evidence(1,2,3)] ts(1) by simp
  moreover have "set (map rct_command_id ts) = {item_id item | item. item \<in> set commands
      \<and> \<not> command_settled result events item \<and> may_require_manual (cs_status (rc_state item))}"
    unfolding ts(2) by (rule filtered_keys [OF entries])
  ultimately show ?thesis using ts(3) by auto
qed

theorem pending_evaluation_escalates_witness:
  "\<exists>evaluated escalation. evaluate_reconciliation_result sample_context
       (sample_result [''cmd-9'', ''cmd-1'']) [sample_item] [] 220 = Inr evaluated
     \<and> escalate_manual_reconciliation sample_context (err_evaluation evaluated) [sample_item]
         sample_escalation = Inr escalation
     \<and> set (map rct_command_id (mresc_command_transitions escalation)) = {''cmd-1''}"
proof -
  obtain evaluated where e: "evaluate_reconciliation_result sample_context
      (sample_result [''cmd-9'', ''cmd-1'']) [sample_item] [] 220 = Inr evaluated"
    using sample_evaluates by blast
  have "reval_disposition (err_evaluation evaluated) = PendingEvidence"
    using evaluation_attention(1,3) [OF e] sample_needs_attention [of "''cmd-1''"] by auto
  from pending_evaluation_escalates [OF e this, of sample_escalation] request_texts
  obtain escalation where "escalate_manual_reconciliation sample_context (err_evaluation evaluated)
      [sample_item] sample_escalation = Inr escalation"
    "set (map rct_command_id (mresc_command_transitions escalation)) =
      {item_id item | item. item \<in> set [sample_item]
        \<and> \<not> command_settled (sample_result [''cmd-9'', ''cmd-1'']) [] item
        \<and> may_require_manual (cs_status (rc_state item))}"
    by (auto simp: sample_escalation_def sample_context_def i64_max_def)
  with e show ?thesis
    by (auto simp: sample_item_def sample_unconfirmed_def sample_command_def command_settled_def
        sample_result_def may_require_manual_def)
qed

text \<open>A request that is never answered can be escalated as well. With a reason and a time not
  before the request, over a valid scope, the escalation succeeds, puts every command of the scope in
  the attention list, and moves exactly those under delivery uncertainty to
  \<open>MANUAL_RECONCILIATION_REQUIRED\<close>.\<close>

theorem missing_result_escalates:
  assumes scope: "validate_command_scope ctx commands (mee_escalated_at evidence) = Inr indexed"
    and evidence: "mee_request_id evidence = rreq_request_id (rctx_request ctx)"
      "\<not> trim_is_empty (mee_reason evidence)" "mee_escalated_at evidence < i64_max"
  shows "\<exists>escalation. escalate_missing_reconciliation_result ctx commands evidence = Inr escalation
    \<and> reval_disposition (mresc_evaluation escalation) = ManualRequired
    \<and> reval_command_ids (mresc_evaluation escalation) = bt_set (map item_id commands)
    \<and> map rct_command_id (mresc_command_transitions escalation) = bt_set (map item_id
        (filter (\<lambda>item. may_require_manual (cs_status (rc_state item))) commands))
    \<and> (\<forall>t \<in> set (mresc_command_transitions escalation). \<exists>item \<in> set commands.
         guarded_transition (CommandEvidence.RequireManualReconciliation (mee_escalated_at evidence))
           ExecutionCommandStatus.ManualReconciliationRequired item t)"
proof -
  let ?evidence = "CommandEvidence.RequireManualReconciliation (mee_escalated_at evidence)"
  have ok: "command_scope_ok ctx commands (mee_escalated_at evidence)" and indexed: "indexed = bt_index commands"
    using scope by (simp_all add: validate_command_scope_iff)
  then have dist: "distinct (map item_id commands)" and request: "validate_request_context ctx = Inr ()"
    and "time": "rctx_requested_at ctx \<le> mee_escalated_at evidence"
    by (simp_all add: command_scope_ok_def)
  obtain ts where ts: "derive_transitions may_require_manual ?evidence (bt_index commands) = Inr ts"
    "map rct_command_id ts = map fst (filter (\<lambda>entry.
       may_require_manual (cs_status (rc_state (snd entry)))) (bt_index commands))"
    "\<And>t. t \<in> set ts \<Longrightarrow> \<exists>item \<in> set commands.
       guarded_transition ?evidence ExecutionCommandStatus.ManualReconciliationRequired item t"
    by (rule scope_transitions [OF ok evidence(3), of ?evidence may_require_manual
          ExecutionCommandStatus.ManualReconciliationRequired "bt_index commands"]) auto
  have "map rct_command_id ts = bt_set (map item_id
      (filter (\<lambda>item. may_require_manual (cs_status (rc_state item))) commands))"
    using ts(2) qualified_ids [OF dist, of "\<lambda>item. may_require_manual (cs_status (rc_state item))"]
    by simp
  with ts(1,3) show ?thesis
    using scope request "time" evidence indexed
    by (auto simp: escalate_missing_reconciliation_result_def bt_index_keys)
qed

theorem missing_result_escalates_witness:
  "\<exists>escalation. escalate_missing_reconciliation_result sample_context [sample_item] sample_escalation =
       Inr escalation
     \<and> reval_command_ids (mresc_evaluation escalation) = [''cmd-1'']
     \<and> map rct_command_id (mresc_command_transitions escalation) = [''cmd-1'']"
proof -
  have "validate_command_scope sample_context [sample_item] (mee_escalated_at sample_escalation) =
      Inr (bt_index [sample_item])"
    using sample_scope by (simp add: validate_command_scope_iff sample_escalation_def)
  from missing_result_escalates [OF this] request_texts show ?thesis
    by (auto simp: sample_escalation_def sample_context_def i64_max_def sample_item_def
        sample_unconfirmed_def sample_command_def may_require_manual_def bt_set_def)
qed

end
