(* ===== verification/Live_Sessions.thy ===== *)
theory Live_Sessions
  imports Wire
begin

text \<open>
  The live transports of the gateway (\<open>crates/gateway/src/registry.rs\<close>, with the frame and outcome types
  of \<open>sink.rs\<close>).

  A handle keeps a fence bit and the number of admitted writers in one atomic \<open>usize\<close>. Writers and
  fences race on it: \<open>handle_step\<close> is one atomic action of one thread, so a run is any interleaving of
  the compare-and-exchange loops of \<open>acquire_write\<close>, the drops of their permits and the fences. The
  value a thread has read is its program counter; \<open>compare_exchange_weak\<close> may fail at any time.

  The registry maps sessions to handles and routes to sessions. Handles are shared (\<open>Arc\<close>), so they
  live in a store of their own and a map holds their address; \<open>OutboundSink\<close> is a trait, of which the
  registry calls \<open>close\<close>, and the model records these calls.
\<close>

unbundle bit_operations_syntax

section \<open>The word of a handle\<close>

definition FENCED_BIT :: "64 word" where "FENCED_BIT = push_bit 63 1"
definition WRITER_MASK :: "64 word" where "WRITER_MASK = FENCED_BIT - 1"

definition is_fenced :: "64 word \<Rightarrow> bool" where
  "is_fenced state \<longleftrightarrow> state AND FENCED_BIT \<noteq> 0"

text \<open>\<open>fetch_or\<close>: the new word, and whether the sink is closed by this call.\<close>

definition fence :: "64 word \<Rightarrow> 64 word \<times> bool" where
  "fence previous = (previous OR FENCED_BIT, previous AND FENCED_BIT = 0)"

text \<open>One turn of the loop of \<open>acquire_write\<close> on the word it has read: \<open>None\<close> refuses, \<open>Some w\<close> is the
  new value of the exchange.\<close>

definition acquire_write :: "64 word \<Rightarrow> 64 word option" where
  "acquire_write current =
     (if current AND FENCED_BIT \<noteq> 0 then None
      else if current AND WRITER_MASK = WRITER_MASK then None
      else Some (current + 1))"

definition drop_permit :: "64 word \<Rightarrow> 64 word" where
  "drop_permit state = state - 1"

text \<open>The number of writers in a word.\<close>

definition writer_count :: "64 word \<Rightarrow> nat" where
  "writer_count state = unat (state AND WRITER_MASK)"

lemma writer_mask: "WRITER_MASK = mask 63"
  by (simp add: WRITER_MASK_def FENCED_BIT_def mask_eq_exp_minus_1 push_bit_of_1)

lemma bit_FENCED_BIT: "bit FENCED_BIT n \<longleftrightarrow> n = 63"
  unfolding FENCED_BIT_def by (simp only: push_bit_of_1 bit_exp_iff) (auto simp: possible_bit_def)

lemma is_fenced_bit: "is_fenced s \<longleftrightarrow> bit s 63"
  by (simp add: is_fenced_def FENCED_BIT_def bit_iff_and_push_bit_not_eq_0)

lemma word64_bound: "unat (s :: 64 word) < 2 ^ 64"
  by (rule less_le_trans [OF unsigned_less]) simp

lemma is_fenced_unat: "is_fenced s \<longleftrightarrow> 2 ^ 63 \<le> unat s"
proof -
  have "unat s div 2 ^ 63 < 2" using word64_bound [of s] by (simp add: less_mult_imp_div_less)
  then have "odd (unat s div 2 ^ 63) \<longleftrightarrow> unat s div 2 ^ 63 \<noteq> 0" by (auto simp: less_2_cases_iff)
  moreover have "bit s 63 \<longleftrightarrow> odd (unat s div 2 ^ 63)" by (simp only: bit_iff_odd [symmetric] bit_unsigned_iff) simp
  ultimately show ?thesis by (simp add: is_fenced_bit div_eq_0_iff not_less)
qed

lemma writer_count_mod: "writer_count s = unat s mod 2 ^ 63"
  unfolding writer_count_def writer_mask
  by (simp only: take_bit_eq_mask [symmetric] unsigned_take_bit_eq) (simp only: take_bit_eq_mod)

lemma word_split: "unat s = (if is_fenced s then 2 ^ 63 else 0) + writer_count s"
  using word64_bound [of s] by (simp add: is_fenced_unat writer_count_mod le_mod_geq)

lemma writer_count_bound: "writer_count s < 2 ^ 63"
  by (simp add: writer_count_mod)

lemma word_eqI: "is_fenced s = is_fenced t \<Longrightarrow> writer_count s = writer_count t \<Longrightarrow> s = t"
  using word_split [of s] word_split [of t] by (simp add: word_unat_eq_iff)

lemma fence_effect: "is_fenced (fst (fence s))" "writer_count (fst (fence s)) = writer_count s"
    "snd (fence s) \<longleftrightarrow> \<not> is_fenced s"
proof -
  show "is_fenced (fst (fence s))"
    by (simp add: fence_def is_fenced_bit bit_FENCED_BIT bit_or_iff)
  have "(s OR FENCED_BIT) AND WRITER_MASK = s AND WRITER_MASK"
    by (rule bit_eqI) (auto simp: writer_mask bit_FENCED_BIT bit_and_iff bit_or_iff bit_mask_iff)
  then show "writer_count (fst (fence s)) = writer_count s" by (simp add: fence_def writer_count_def)
  show "snd (fence s) \<longleftrightarrow> \<not> is_fenced s" by (simp add: fence_def is_fenced_def)
qed

lemma acquire_refused: "acquire_write s = None \<longleftrightarrow> is_fenced s \<or> writer_count s = 2 ^ 63 - 1"
proof -
  have "unat WRITER_MASK = 2 ^ 63 - 1" by (simp add: writer_mask mask_eq_exp_minus_1)
  then have "s AND WRITER_MASK = WRITER_MASK \<longleftrightarrow> writer_count s = 2 ^ 63 - 1"
    by (metis writer_count_def word_unat_eq_iff)
  then show ?thesis by (simp add: acquire_write_def is_fenced_def)
qed

lemma acquire_admitted:
  assumes "acquire_write s = Some w"
  shows "\<not> is_fenced s" "\<not> is_fenced w" "writer_count w = Suc (writer_count s)"
proof -
  from assms acquire_refused [of s] have free: "\<not> is_fenced s" "writer_count s \<noteq> 2 ^ 63 - 1" by auto
  with writer_count_bound [of s] have count: "writer_count s + 1 < 2 ^ 63" by linarith
  from assms have w: "w = s + 1" by (simp add: acquire_write_def split: if_splits)
  have "unat w = writer_count s + 1"
    using free count word_split [of s] unfolding w by (simp add: unat_word_ariths)
  with count show "\<not> is_fenced w" "writer_count w = Suc (writer_count s)"
    by (simp_all add: is_fenced_unat writer_count_mod)
  show "\<not> is_fenced s" by (rule free(1))
qed

lemma drop_effect:
  assumes "0 < writer_count s"
  shows "is_fenced (drop_permit s) = is_fenced s" "writer_count (drop_permit s) = writer_count s - 1"
proof -
  have "unat (s - 1) = unat s - 1"
    using assms word_split [of s] by (intro unat_minus_one) auto
  then have "unat (drop_permit s) = (if is_fenced s then 2 ^ 63 else 0) + (writer_count s - 1)"
    using assms word_split [of s] by (simp add: drop_permit_def)
  with writer_count_bound [of s] show "is_fenced (drop_permit s) = is_fenced s"
    "writer_count (drop_permit s) = writer_count s - 1"
    by (auto simp: is_fenced_unat [of "drop_permit s"] writer_count_mod [of "drop_permit s"])
qed

section \<open>Writers and fences in parallel\<close>

text \<open>Where a thread that calls \<open>write\<close> is: before the first load, in the loop with the word it last
  read, holding a permit, or refused.\<close>

datatype writer_pc = Idle | Trying "64 word" | Holding | Refused

record handle_run =
  hr_state :: "64 word"
  hr_pc :: "nat \<Rightarrow> writer_pc"
  hr_closes :: nat

inductive handle_step :: "handle_run \<Rightarrow> handle_run \<Rightarrow> bool" where
  load: "hr_pc r t = Idle \<Longrightarrow> handle_step r (r\<lparr>hr_pc := (hr_pc r)(t := Trying (hr_state r))\<rparr>)"
| refuse: "hr_pc r t = Trying current \<Longrightarrow> acquire_write current = None \<Longrightarrow>
    handle_step r (r\<lparr>hr_pc := (hr_pc r)(t := Refused)\<rparr>)"
| exchange: "hr_pc r t = Trying current \<Longrightarrow> acquire_write current = Some new \<Longrightarrow> hr_state r = current \<Longrightarrow>
    handle_step r (r\<lparr>hr_state := new, hr_pc := (hr_pc r)(t := Holding)\<rparr>)"
| retry: "hr_pc r t = Trying current \<Longrightarrow> acquire_write current = Some new \<Longrightarrow>
    handle_step r (r\<lparr>hr_pc := (hr_pc r)(t := Trying (hr_state r))\<rparr>)"
| release: "hr_pc r t = Holding \<Longrightarrow>
    handle_step r (r\<lparr>hr_state := drop_permit (hr_state r), hr_pc := (hr_pc r)(t := Idle)\<rparr>)"
| fenced: "fence (hr_state r) = (new, closes) \<Longrightarrow>
    handle_step r (r\<lparr>hr_state := new, hr_closes := hr_closes r + (if closes then 1 else 0)\<rparr>)"

inductive_cases handle_stepE: "handle_step r r'"

definition handle_new :: handle_run where
  "handle_new = \<lparr>hr_state = 0, hr_pc = (\<lambda>_. Idle), hr_closes = 0\<rparr>"

definition writers :: "handle_run \<Rightarrow> nat set" where
  "writers r = {t. hr_pc r t = Holding}"

definition handle_inv :: "handle_run \<Rightarrow> bool" where
  "handle_inv r \<longleftrightarrow> finite (writers r) \<and> writer_count (hr_state r) = card (writers r)
     \<and> hr_closes r = (if is_fenced (hr_state r) then 1 else 0)"

lemma writers_upd:
  "writers (r\<lparr>hr_pc := (hr_pc r)(t := pc)\<rparr>) = (if pc = Holding then insert t (writers r) else writers r - {t})"
  "writers (r\<lparr>hr_state := w\<rparr>) = writers r" "writers (r\<lparr>hr_closes := n\<rparr>) = writers r"
  by (auto simp: writers_def)

lemma writers_upd_state:
  "writers (r\<lparr>hr_state := w, hr_pc := (hr_pc r)(t := pc)\<rparr>) = (if pc = Holding then insert t (writers r) else writers r - {t})"
  by (auto simp: writers_def)

lemma handle_new_inv: "handle_inv handle_new"
  by (simp add: handle_inv_def handle_new_def writers_def is_fenced_unat writer_count_mod)

lemma not_writer: "hr_pc r t = Trying w \<Longrightarrow> t \<notin> writers r" "hr_pc r t = Idle \<Longrightarrow> t \<notin> writers r"
  by (simp_all add: writers_def)

lemma handle_step_inv:
  assumes "handle_step r r'" "handle_inv r" shows "handle_inv r'"
  using assms
proof (cases rule: handle_step.cases)
  case (exchange t current new)
  with assms(2) not_writer show ?thesis
    by (simp add: handle_inv_def writers_upd_state acquire_admitted)
next
  case (release t)
  then have "t \<in> writers r" by (simp add: writers_def)
  with assms(2) have "0 < writer_count (hr_state r)" by (auto simp: handle_inv_def card_gt_0_iff)
  with release assms(2) \<open>t \<in> writers r\<close> show ?thesis
    by (simp add: handle_inv_def writers_upd_state drop_effect)
next
  case (fenced new closes)
  then have "new = fst (fence (hr_state r))" "closes = snd (fence (hr_state r))" by simp_all
  with fenced(1) assms(2) show ?thesis
    by (simp add: handle_inv_def writers_def fence_effect)
qed (auto simp: handle_inv_def writers_upd dest: not_writer)

lemma handle_run_inv: "handle_step\<^sup>*\<^sup>* r r' \<Longrightarrow> handle_inv r \<Longrightarrow> handle_inv r'"
  by (induction rule: rtranclp_induct) (auto intro: handle_step_inv)

lemma fenced_step:
  assumes "handle_step r r'" "handle_inv r" "is_fenced (hr_state r)"
  shows "is_fenced (hr_state r') \<and> writers r' \<subseteq> writers r"
  using assms
proof (cases rule: handle_step.cases)
  case (exchange t current new)
  with assms(3) acquire_admitted(1) show ?thesis by blast
next
  case (release t)
  then have "t \<in> writers r" by (simp add: writers_def)
  with assms(2) have "0 < writer_count (hr_state r)" by (auto simp: handle_inv_def card_gt_0_iff)
  with release assms(3) show ?thesis by (auto simp: drop_effect writers_upd_state)
next
  case (fenced new closes)
  then have "new = fst (fence (hr_state r))" by simp
  with fenced(1) show ?thesis by (simp add: fence_effect writers_def)
qed (auto simp: writers_upd)

text \<open>C35: a fence is final, whatever the interleaving. From the creation of a handle, in every run of its
  writers and fences: the counter in the word is the number of writers that hold a permit, so it never
  runs into the fence bit; the sink is closed exactly once, by the first fence; and after a fence no
  write is admitted any more, the writers only leave.\<close>

theorem fence_stops_admission:
  assumes "handle_step\<^sup>*\<^sup>* handle_new r" "handle_step\<^sup>*\<^sup>* r r'"
  shows "finite (writers r) \<and> writer_count (hr_state r) = card (writers r)
    \<and> hr_closes r = (if is_fenced (hr_state r) then 1 else 0)
    \<and> (is_fenced (hr_state r) \<longrightarrow> is_fenced (hr_state r') \<and> writers r' \<subseteq> writers r \<and> hr_closes r' = 1)"
proof -
  have inv: "handle_inv r" using handle_run_inv [OF assms(1) handle_new_inv] .
  have "is_fenced (hr_state r') \<and> writers r' \<subseteq> writers r \<and> handle_inv r'" if "is_fenced (hr_state r)"
    using assms(2)
  proof (induction rule: rtranclp_induct)
    case base then show ?case using that inv by simp
  next
    case (step y z) then show ?case using fenced_step [OF step(2)] handle_step_inv [OF step(2)] by blast
  qed
  with inv show ?thesis by (simp add: handle_inv_def)
qed

text \<open>A run with two threads: the first is admitted, the handle is fenced while the second is in its loop.\<close>

definition sample_run :: handle_run where
  "sample_run = \<lparr>hr_state = FENCED_BIT + 1, hr_pc = (\<lambda>_. Idle)(1 := Trying 0, 0 := Holding), hr_closes = 1\<rparr>"

lemma sample_run_steps: "handle_step\<^sup>*\<^sup>* handle_new sample_run"
proof -
  let ?a = "handle_new\<lparr>hr_pc := (\<lambda>_. Idle)(0 := Trying 0)\<rparr>"
  let ?b = "?a\<lparr>hr_pc := (hr_pc ?a)(1 := Trying 0)\<rparr>"
  let ?c = "?b\<lparr>hr_state := 1, hr_pc := (hr_pc ?b)(0 := Holding)\<rparr>"
  have "handle_step handle_new ?a" using handle_step.load [of handle_new 0] by (simp add: handle_new_def)
  moreover have "handle_step ?a ?b" using handle_step.load [of ?a 1] by (simp add: handle_new_def)
  moreover have "acquire_write 0 = Some 1" by code_simp
  then have "handle_step ?b ?c" using handle_step.exchange [of ?b 0 0 1] by (simp add: handle_new_def)
  moreover have "fence 1 = (FENCED_BIT + 1, True)" by code_simp
  then have "handle_step ?c sample_run"
    using handle_step.fenced [of ?c "FENCED_BIT + 1" True] by (simp add: handle_new_def sample_run_def)
  ultimately show ?thesis by (meson rtranclp.rtrancl_into_rtrancl rtranclp.rtrancl_refl)
qed

theorem fence_stops_admission_witness:
  "writers sample_run = {0} \<and> writer_count (hr_state sample_run) = 1 \<and> hr_closes sample_run = 1"
proof -
  have writers: "writers sample_run = {0}" by (auto simp: sample_run_def writers_def)
  moreover have "writer_count (hr_state sample_run) = card (writers sample_run)"
    using fence_stops_admission [OF sample_run_steps rtranclp.rtrancl_refl] by blast
  ultimately show ?thesis by (simp add: sample_run_def)
qed

end
