(* ===== verification/Live_Registry.thy ===== *)
theory Live_Registry
  imports Live_Sessions
begin

text \<open>
  The registry of live sessions and the write path of a handle (\<open>crates/gateway/src/registry.rs\<close>). The
  lock of the registry makes each of its operations one step; the atomic words of the handles may
  change between and during them, but only by fences and by writers that come and go, which
  \<open>registry_step\<close> includes as steps of their own. \<open>clear\<close> visits the sessions in the order of a hash map,
  which is its argument.
\<close>

section \<open>Frames and outcomes\<close>

record OutboundFrame =
  of_session_id :: SessionId
  of_message_id :: MessageId
  of_sequence :: u64
  of_wire_bytes :: "8 word list"

datatype SinkWriteOutcome = Written | Backpressure usize | DefinitelyNotWritten string | Unconfirmed string

section \<open>State\<close>

record LiveSessionRoute =
  lsr_client_id :: ClientId
  lsr_account_id :: AccountId
  lsr_terminal_id :: "TerminalId option"

record LiveSessionHandle =
  lsh_session_id :: SessionId
  lsh_sink :: nat
  lsh_state :: "64 word"

text \<open>\<open>reg_handles\<close> is the store of the shared handles and \<open>reg_next\<close> its next address; \<open>reg_closed\<close> are
  the sinks on which \<open>close\<close> was called, the latest first.\<close>

record LiveSessionRegistry =
  reg_by_session :: "SessionId \<rightharpoonup> nat"
  reg_by_route :: "LiveSessionRoute \<rightharpoonup> SessionId"
  reg_handles :: "nat \<rightharpoonup> LiveSessionHandle"
  reg_next :: nat
  reg_closed :: "nat list"

definition LiveSessionHandle_new :: "SessionId \<Rightarrow> nat \<Rightarrow> LiveSessionHandle" where
  "LiveSessionHandle_new session_id sink = \<lparr>lsh_session_id = session_id, lsh_sink = sink, lsh_state = 0\<rparr>"

definition LiveSessionRegistry_new :: LiveSessionRegistry where
  "LiveSessionRegistry_new = \<lparr>reg_by_session = Map.empty, reg_by_route = Map.empty, reg_handles = Map.empty,
     reg_next = 0, reg_closed = []\<rparr>"

section \<open>Operations\<close>

definition fence_handle :: "nat \<Rightarrow> LiveSessionRegistry \<Rightarrow> LiveSessionRegistry" where
  "fence_handle h reg = (case reg_handles reg h of
     None \<Rightarrow> reg
   | Some handle \<Rightarrow> (case fence (lsh_state handle) of (state, closes) \<Rightarrow>
       reg\<lparr>reg_handles := (reg_handles reg)(h \<mapsto> handle\<lparr>lsh_state := state\<rparr>),
         reg_closed := (if closes then lsh_sink handle # reg_closed reg else reg_closed reg)\<rparr>))"

text \<open>\<open>write\<close> and \<open>skip\<close> of a handle; \<open>admitted\<close> is what \<open>acquire_write\<close> returned to the calling thread
  (\<open>Live_Sessions\<close>), \<open>sink_write\<close> the transport's answer. \<open>handle_skip\<close> says whether the sink is told.\<close>

definition handle_write :: "LiveSessionHandle \<Rightarrow> OutboundFrame \<Rightarrow> bool \<Rightarrow> (OutboundFrame \<Rightarrow> SinkWriteOutcome) \<Rightarrow> SinkWriteOutcome" where
  "handle_write handle frame admitted sink_write =
     (if of_session_id frame \<noteq> lsh_session_id handle
        then DefinitelyNotWritten ''outbound frame session differs from live transport epoch''
      else if \<not> admitted
        then DefinitelyNotWritten ''session transport was fenced before write admission''
      else sink_write frame)"

definition handle_skip :: "LiveSessionHandle \<Rightarrow> u64 \<Rightarrow> u64 option" where
  "handle_skip handle sequence = (if \<not> is_fenced (lsh_state handle) then Some sequence else None)"

definition fence_route :: "LiveSessionRoute \<Rightarrow> LiveSessionRegistry \<Rightarrow> SessionId option \<times> LiveSessionRegistry" where
  "fence_route route reg = (case reg_by_route reg route of
     None \<Rightarrow> (None, reg)
   | Some session_id \<Rightarrow> (case reg_by_session reg session_id of
       None \<Rightarrow> (None, reg)
     | Some h \<Rightarrow> (Some session_id, fence_handle h reg)))"

text \<open>\<open>by_session.remove(id)\<close>, and \<open>fence\<close> on the handle it returns.\<close>

definition remove_and_fence :: "SessionId \<Rightarrow> LiveSessionRegistry \<Rightarrow> LiveSessionRegistry" where
  "remove_and_fence session_id reg = (case reg_by_session reg session_id of
     None \<Rightarrow> reg
   | Some h \<Rightarrow> fence_handle h (reg\<lparr>reg_by_session := (reg_by_session reg)(session_id := None)\<rparr>))"

definition activate ::
  "LiveSessionRoute \<Rightarrow> SessionId \<Rightarrow> SessionId option \<Rightarrow> nat \<Rightarrow> LiveSessionRegistry \<Rightarrow> nat \<times> LiveSessionRegistry" where
  "activate route session_id replaced_session_id sink reg =
     (let reg = (case reg_by_route reg route of None \<Rightarrow> reg | Some existing_id \<Rightarrow> remove_and_fence existing_id reg);
          reg = (case replaced_session_id of None \<Rightarrow> reg | Some replaced_id \<Rightarrow> remove_and_fence replaced_id reg);
          h = reg_next reg
      in (h, reg\<lparr>reg_by_route := (reg_by_route reg)(route \<mapsto> session_id),
           reg_by_session := (reg_by_session reg)(session_id \<mapsto> h),
           reg_handles := (reg_handles reg)(h \<mapsto> LiveSessionHandle_new session_id sink),
           reg_next := Suc h\<rparr>))"

definition lookup_handle :: "SessionId \<Rightarrow> LiveSessionRegistry \<Rightarrow> nat option" where
  "lookup_handle session_id reg = reg_by_session reg session_id"

definition disconnect :: "SessionId \<Rightarrow> LiveSessionRegistry \<Rightarrow> bool \<times> LiveSessionRegistry" where
  "disconnect session_id reg = (case reg_by_session reg session_id of
     None \<Rightarrow> (False, reg)
   | Some h \<Rightarrow> (True, (remove_and_fence session_id reg)\<lparr>reg_by_route :=
       (\<lambda>route. if reg_by_route reg route = Some session_id then None else reg_by_route reg route)\<rparr>))"

definition clear :: "SessionId list \<Rightarrow> LiveSessionRegistry \<Rightarrow> LiveSessionRegistry" where
  "clear order reg = (fold (\<lambda>session_id reg. case reg_by_session reg session_id of
        None \<Rightarrow> reg | Some h \<Rightarrow> fence_handle h reg) order reg)
     \<lparr>reg_by_session := Map.empty, reg_by_route := Map.empty\<rparr>"

section \<open>The invariant\<close>

definition open_handle :: "LiveSessionRegistry \<Rightarrow> nat \<Rightarrow> bool" where
  "open_handle reg h \<longleftrightarrow> (\<exists>handle. reg_handles reg h = Some handle \<and> \<not> is_fenced (lsh_state handle))"

text \<open>A published session names its own handle; every handle that is not fenced is published, and under
  a route; no two routes share a session; a sink is closed when its handle is fenced.\<close>

definition registry_inv :: "LiveSessionRegistry \<Rightarrow> bool" where
  "registry_inv reg \<longleftrightarrow>
     (\<forall>s h. reg_by_session reg s = Some h \<longrightarrow> (\<exists>handle. reg_handles reg h = Some handle \<and> lsh_session_id handle = s))
   \<and> (\<forall>h handle. reg_handles reg h = Some handle \<longrightarrow> h < reg_next reg
        \<and> (is_fenced (lsh_state handle) \<or> reg_by_session reg (lsh_session_id handle) = Some h)
        \<and> (is_fenced (lsh_state handle) \<longrightarrow> lsh_sink handle \<in> set (reg_closed reg)))
   \<and> (\<forall>s. reg_by_session reg s \<noteq> None \<longrightarrow> (\<exists>route. reg_by_route reg route = Some s))
   \<and> (\<forall>r r' s. reg_by_route reg r = Some s \<longrightarrow> reg_by_route reg r' = Some s \<longrightarrow> r = r')"

text \<open>A session id is fresh for a route when it is not in use for another one.\<close>

definition fresh_for :: "LiveSessionRoute \<Rightarrow> SessionId \<Rightarrow> LiveSessionRegistry \<Rightarrow> bool" where
  "fresh_for route session_id reg \<longleftrightarrow> (\<forall>r. reg_by_route reg r = Some session_id \<longrightarrow> r = route)"

text \<open>What happens to a registry: its operations, with fresh session ids at activation; a fence through a
  shared handle; a writer's arrival or departure, which changes the count in a word and not its fence.\<close>

inductive registry_step :: "LiveSessionRegistry \<Rightarrow> LiveSessionRegistry \<Rightarrow> bool" where
  "registry_step reg (snd (fence_route route reg))"
| "fresh_for route session_id reg \<Longrightarrow> registry_step reg (snd (activate route session_id replaced sink reg))"
| "registry_step reg (snd (disconnect session_id reg))"
| "set order = dom (reg_by_session reg) \<Longrightarrow> registry_step reg (clear order reg)"
| "registry_step reg (fence_handle h reg)"
| "reg_handles reg h = Some handle \<Longrightarrow> is_fenced state = is_fenced (lsh_state handle) \<Longrightarrow>
     registry_step reg (reg\<lparr>reg_handles := (reg_handles reg)(h \<mapsto> handle\<lparr>lsh_state := state\<rparr>)\<rparr>)"

lemma fence_handle_frame:
  "reg_by_session (fence_handle h reg) = reg_by_session reg" "reg_by_route (fence_handle h reg) = reg_by_route reg"
  "reg_next (fence_handle h reg) = reg_next reg"
  by (simp_all add: fence_handle_def split: option.splits prod.splits)

lemma fence_handle_at:
  "reg_handles (fence_handle h reg) k = (case reg_handles reg k of None \<Rightarrow> None
     | Some handle \<Rightarrow> Some (if k = h then handle\<lparr>lsh_state := fst (fence (lsh_state handle))\<rparr> else handle))"
  by (simp add: fence_handle_def split: option.splits prod.splits)

lemma fence_handle_closed:
  "set (reg_closed (fence_handle h reg)) = (case reg_handles reg h of None \<Rightarrow> set (reg_closed reg)
     | Some handle \<Rightarrow> if is_fenced (lsh_state handle) then set (reg_closed reg) else insert (lsh_sink handle) (set (reg_closed reg)))"
  using fence_effect(3) by (auto simp: fence_handle_def case_prod_unfold split: option.splits)

lemma registry_new_inv: "registry_inv LiveSessionRegistry_new"
  by (simp add: registry_inv_def LiveSessionRegistry_new_def)

lemma registry_invD:
  assumes "registry_inv reg"
  shows "reg_by_session reg s = Some h \<Longrightarrow> \<exists>handle. reg_handles reg h = Some handle \<and> lsh_session_id handle = s"
    "reg_handles reg h = Some handle \<Longrightarrow> h < reg_next reg"
    "reg_handles reg h = Some handle \<Longrightarrow> \<not> is_fenced (lsh_state handle) \<Longrightarrow> reg_by_session reg (lsh_session_id handle) = Some h"
    "reg_handles reg h = Some handle \<Longrightarrow> is_fenced (lsh_state handle) \<Longrightarrow> lsh_sink handle \<in> set (reg_closed reg)"
    "reg_by_session reg s = Some h \<Longrightarrow> \<exists>route. reg_by_route reg route = Some s"
    "reg_by_route reg r = Some s \<Longrightarrow> reg_by_route reg r' = Some s \<Longrightarrow> r = r'"
  using assms unfolding registry_inv_def by blast+

lemma registry_invI:
  assumes "\<And>s h. reg_by_session reg s = Some h \<Longrightarrow> \<exists>handle. reg_handles reg h = Some handle \<and> lsh_session_id handle = s"
    "\<And>h handle. reg_handles reg h = Some handle \<Longrightarrow> h < reg_next reg"
    "\<And>h handle. reg_handles reg h = Some handle \<Longrightarrow> \<not> is_fenced (lsh_state handle) \<Longrightarrow> reg_by_session reg (lsh_session_id handle) = Some h"
    "\<And>h handle. reg_handles reg h = Some handle \<Longrightarrow> is_fenced (lsh_state handle) \<Longrightarrow> lsh_sink handle \<in> set (reg_closed reg)"
    "\<And>s h. reg_by_session reg s = Some h \<Longrightarrow> \<exists>route. reg_by_route reg route = Some s"
    "\<And>r r' s. reg_by_route reg r = Some s \<Longrightarrow> reg_by_route reg r' = Some s \<Longrightarrow> r = r'"
  shows "registry_inv reg"
  unfolding registry_inv_def using assms by blast

lemma fence_handle_Some:
  "reg_handles (fence_handle h reg) k = Some handle \<longleftrightarrow> (\<exists>old. reg_handles reg k = Some old
     \<and> handle = (if k = h then old\<lparr>lsh_state := fst (fence (lsh_state old))\<rparr> else old))"
  by (auto simp: fence_handle_at split: option.splits)

lemma fence_handle_sinks:
  assumes "reg_handles reg h = Some handle" shows "lsh_sink handle \<in> set (reg_closed (fence_handle h reg)) \<or> is_fenced (lsh_state handle)"
    and "set (reg_closed reg) \<subseteq> set (reg_closed (fence_handle h reg))"
  using assms by (auto simp: fence_handle_closed)

lemma fence_handle_keeps_sinks: "x \<in> set (reg_closed reg) \<Longrightarrow> x \<in> set (reg_closed (fence_handle h reg))"
  by (auto simp: fence_handle_closed split: option.splits)

text \<open>Removing a session and fencing its handle, and fencing alone, keep the invariant; so does taking
  route entries away from sessions that are not published.\<close>

lemma fence_handle_inv:
  assumes inv: "registry_inv reg" shows "registry_inv (fence_handle h reg)"
proof (rule registry_invI)
  fix s k assume "reg_by_session (fence_handle h reg) s = Some k"
  then have "reg_by_session reg s = Some k" by (simp add: fence_handle_frame)
  from registry_invD(1) [OF inv this] obtain old where "reg_handles reg k = Some old" "lsh_session_id old = s" by blast
  then show "\<exists>handle. reg_handles (fence_handle h reg) k = Some handle \<and> lsh_session_id handle = s"
    by (simp add: fence_handle_at)
next
  fix k handle assume "reg_handles (fence_handle h reg) k = Some handle" "is_fenced (lsh_state handle)"
  then show "lsh_sink handle \<in> set (reg_closed (fence_handle h reg))"
    using registry_invD(4) [OF inv, of k] fence_handle_keeps_sinks fence_handle_sinks(1) [of reg h]
    by (auto simp: fence_handle_Some split: if_splits)
qed (use registry_invD(2,3,5,6) [OF inv] fence_effect(1) in \<open>auto simp: fence_handle_frame fence_handle_Some split: if_splits\<close>)

lemma remove_and_fence_frame:
  "reg_by_route (remove_and_fence s reg) = reg_by_route reg" "reg_next (remove_and_fence s reg) = reg_next reg"
  "reg_by_session (remove_and_fence s reg) = (reg_by_session reg)(s := None)"
  by (auto simp: remove_and_fence_def fence_handle_frame split: option.splits)

lemma remove_and_fence_inv:
  assumes inv: "registry_inv reg" shows "registry_inv (remove_and_fence s reg)"
proof (cases "reg_by_session reg s")
  case (Some h)
  note fenced = fence_handle_inv [OF inv, of h]
  let ?reg = "fence_handle h reg"
  have reg: "remove_and_fence s reg = ?reg\<lparr>reg_by_session := (reg_by_session ?reg)(s := None)\<rparr>"
    by (simp add: remove_and_fence_def Some fence_handle_def split: option.splits prod.splits)
  have open_at: "lsh_session_id handle \<noteq> s" if "reg_handles ?reg k = Some handle" "\<not> is_fenced (lsh_state handle)" for k handle
  proof
    assume "lsh_session_id handle = s"
    with registry_invD(3) [OF fenced that] Some have "k = h" by (simp add: fence_handle_frame)
    with that show False by (auto simp: fence_handle_Some fence_effect(1))
  qed
  show ?thesis unfolding reg
    by (rule registry_invI)
      (use registry_invD [OF fenced] open_at in \<open>auto split: if_splits\<close>)
qed (simp add: remove_and_fence_def inv)

text \<open>The end of \<open>activate\<close>: a new handle is published under a session that is not, on a route whose old
  session is not published any more.\<close>

definition publish :: "LiveSessionRoute \<Rightarrow> SessionId \<Rightarrow> nat \<Rightarrow> LiveSessionRegistry \<Rightarrow> LiveSessionRegistry" where
  "publish route s sink base = base\<lparr>reg_by_route := (reg_by_route base)(route \<mapsto> s),
     reg_by_session := (reg_by_session base)(s \<mapsto> reg_next base),
     reg_handles := (reg_handles base)(reg_next base \<mapsto> LiveSessionHandle_new s sink), reg_next := Suc (reg_next base)\<rparr>"

lemma publish_inv:
  assumes inv: "registry_inv base" and new: "reg_by_session base s = None"
    and fresh: "fresh_for route s base" and gone: "\<And>e. reg_by_route base route = Some e \<Longrightarrow> reg_by_session base e = None"
  shows "registry_inv (publish route s sink base)"
proof -
  note facts = registry_invD [OF inv]
  have older: "h \<noteq> reg_next base" if "reg_handles base h = Some handle" for h handle
    using facts(2) [OF that] by simp
  show ?thesis
  proof (rule registry_invI)
    fix t h assume "reg_by_session (publish route s sink base) t = Some h"
    then consider "t = s" "h = reg_next base" | "t \<noteq> s" "reg_by_session base t = Some h"
      by (auto simp: publish_def split: if_splits)
    then show "\<exists>handle. reg_handles (publish route s sink base) h = Some handle \<and> lsh_session_id handle = t"
    proof cases
      case 2
      with facts(1) obtain handle where "reg_handles base h = Some handle" "lsh_session_id handle = t" by blast
      with older show ?thesis by (simp add: publish_def)
    qed (simp add: publish_def LiveSessionHandle_new_def)
  next
    fix h handle assume "reg_handles (publish route s sink base) h = Some handle"
    then consider (new) "h = reg_next base" "handle = LiveSessionHandle_new s sink" | (old) "h \<noteq> reg_next base" "reg_handles base h = Some handle"
      by (auto simp: publish_def split: if_splits)
    note handle = this
    show "h < reg_next (publish route s sink base)"
      using handle by cases (auto simp: publish_def dest: facts(2))
    show "reg_by_session (publish route s sink base) (lsh_session_id handle) = Some h" if "\<not> is_fenced (lsh_state handle)"
      using handle
    proof cases
      case old
      with that facts(3) new show ?thesis by (auto simp: publish_def)
    qed (simp add: publish_def LiveSessionHandle_new_def)
    show "lsh_sink handle \<in> set (reg_closed (publish route s sink base))" if "is_fenced (lsh_state handle)"
      using handle that by cases (auto simp: publish_def LiveSessionHandle_new_def is_fenced_unat dest: facts(4))
  next
    fix t h assume "reg_by_session (publish route s sink base) t = Some h"
    then consider "t = s" | "t \<noteq> s" "reg_by_session base t = Some h" by (auto simp: publish_def split: if_splits)
    then show "\<exists>r. reg_by_route (publish route s sink base) r = Some t"
    proof cases
      case 2
      with facts(5) obtain r where r: "reg_by_route base r = Some t" by blast
      with gone 2(2) have "r \<noteq> route" by auto
      with r show ?thesis by (auto simp: publish_def)
    qed (auto simp: publish_def)
  next
    fix r r' t assume "reg_by_route (publish route s sink base) r = Some t" "reg_by_route (publish route s sink base) r' = Some t"
    then show "r = r'" using facts(6) fresh by (auto simp: publish_def fresh_for_def split: if_splits)
  qed
qed

definition retire_route :: "LiveSessionRoute \<Rightarrow> SessionId option \<Rightarrow> LiveSessionRegistry \<Rightarrow> LiveSessionRegistry" where
  "retire_route route replaced reg =
     (let reg = (case reg_by_route reg route of None \<Rightarrow> reg | Some existing_id \<Rightarrow> remove_and_fence existing_id reg)
      in case replaced of None \<Rightarrow> reg | Some replaced_id \<Rightarrow> remove_and_fence replaced_id reg)"

lemma activate_eq: "activate route s replaced sink reg =
    (reg_next (retire_route route replaced reg), publish route s sink (retire_route route replaced reg))"
  by (simp add: activate_def retire_route_def publish_def Let_def)

lemma retire_route_facts:
  assumes "registry_inv reg"
  shows "registry_inv (retire_route route replaced reg)" "reg_by_route (retire_route route replaced reg) = reg_by_route reg"
    "reg_next (retire_route route replaced reg) = reg_next reg"
    "reg_by_route reg route = Some e \<Longrightarrow> reg_by_session (retire_route route replaced reg) e = None"
  using assms by (auto simp: retire_route_def remove_and_fence_frame remove_and_fence_inv Let_def split: option.splits)

lemma activate_inv:
  assumes inv: "registry_inv reg" and fresh: "fresh_for route s reg"
  shows "registry_inv (snd (activate route s replaced sink reg))"
proof -
  let ?base = "retire_route route replaced reg"
  note base = retire_route_facts [OF inv, where route = route and replaced = replaced]
  have "reg_by_session ?base s = None"
  proof (rule ccontr)
    assume live: "reg_by_session ?base s \<noteq> None"
    with registry_invD(5) [OF base(1)] obtain r where "reg_by_route reg r = Some s" unfolding base(2) by blast
    with fresh base(4) live show False by (auto simp: fresh_for_def)
  qed
  then show ?thesis unfolding activate_eq snd_conv
    by (rule publish_inv [OF base(1)]) (use fresh base(2,4) in \<open>auto simp: fresh_for_def\<close>)
qed

lemma disconnect_inv:
  assumes inv: "registry_inv reg" shows "registry_inv (snd (disconnect s reg))"
proof (cases "reg_by_session reg s")
  case (Some h)
  note facts = registry_invD [OF remove_and_fence_inv [OF inv, of s]]
  let ?reg = "(remove_and_fence s reg)\<lparr>reg_by_route := \<lambda>r. if reg_by_route reg r = Some s then None else reg_by_route reg r\<rparr>"
  have "registry_inv ?reg"
  proof (rule registry_invI)
    fix t k assume "reg_by_session ?reg t = Some k"
    then have "t \<noteq> s" "reg_by_session (remove_and_fence s reg) t = Some k" by (auto simp: remove_and_fence_frame split: if_splits)
    from facts(5) [OF this(2)] obtain r where "reg_by_route reg r = Some t" by (auto simp: remove_and_fence_frame)
    with \<open>t \<noteq> s\<close> show "\<exists>r. reg_by_route ?reg r = Some t" by (intro exI [of _ r]) simp
  next
    fix r r' t assume "reg_by_route ?reg r = Some t" "reg_by_route ?reg r' = Some t"
    then show "r = r'" using registry_invD(6) [OF inv] by (auto split: if_splits)
  qed (use facts(1,2,3,4) in simp_all)
  then show ?thesis by (simp add: disconnect_def Some)
qed (simp add: disconnect_def inv)

text \<open>\<open>clear\<close> fences every published handle before it forgets them.\<close>

definition visit :: "SessionId \<Rightarrow> LiveSessionRegistry \<Rightarrow> LiveSessionRegistry" where
  "visit s reg = (case reg_by_session reg s of None \<Rightarrow> reg | Some h \<Rightarrow> fence_handle h reg)"

lemma clear_eq: "clear order reg = (fold visit order reg)\<lparr>reg_by_session := Map.empty, reg_by_route := Map.empty\<rparr>"
  by (simp add: clear_def visit_def [abs_def])

lemma visit_facts:
  assumes "registry_inv reg"
  shows "registry_inv (visit s reg)" "reg_by_session (visit s reg) = reg_by_session reg"
    "reg_handles (visit s reg) h = Some handle \<Longrightarrow>
       \<exists>old. reg_handles reg h = Some old \<and> lsh_session_id handle = lsh_session_id old
         \<and> (is_fenced (lsh_state old) \<or> lsh_session_id old = s \<longrightarrow> is_fenced (lsh_state handle))"
  subgoal by (simp add: visit_def fence_handle_inv assms split: option.splits)
  subgoal by (simp add: visit_def fence_handle_frame split: option.splits)
  subgoal premises prems
  proof (cases "reg_by_session reg s")
    case None
    then have at: "reg_handles reg h = Some handle" using prems by (simp add: visit_def)
    moreover have "is_fenced (lsh_state handle)" if "lsh_session_id handle = s"
      using registry_invD(3) [OF assms at] that None by auto
    ultimately show ?thesis by blast
  next
    case (Some k)
    then have "reg_handles (fence_handle k reg) h = Some handle" using prems by (simp add: visit_def)
    then obtain old where old: "reg_handles reg h = Some old"
      and handle: "handle = (if h = k then old\<lparr>lsh_state := fst (fence (lsh_state old))\<rparr> else old)"
      by (auto simp: fence_handle_Some)
    have "is_fenced (lsh_state handle)" if "is_fenced (lsh_state old) \<or> lsh_session_id old = s"
    proof (cases "is_fenced (lsh_state old)")
      case False
      with that registry_invD(3) [OF assms old] Some have "h = k" by simp
      then show ?thesis by (simp add: handle fence_effect(1))
    qed (simp add: handle fence_effect(1))
    then show ?thesis using old handle by (intro exI [of _ old]) simp
  qed
  done

lemma fence_all:
  "registry_inv reg \<Longrightarrow> registry_inv (fold visit order reg) \<and> reg_by_session (fold visit order reg) = reg_by_session reg
    \<and> (\<forall>h handle. reg_handles (fold visit order reg) h = Some handle \<longrightarrow>
        (\<exists>old. reg_handles reg h = Some old \<and> lsh_session_id handle = lsh_session_id old
         \<and> (is_fenced (lsh_state old) \<or> lsh_session_id old \<in> set order \<longrightarrow> is_fenced (lsh_state handle))))"
proof (induction order arbitrary: reg)
  case (Cons s order)
  note step = visit_facts [OF Cons.prems, of s]
  note rest = Cons.IH [OF step(1)]
  have "\<exists>old. reg_handles reg h = Some old \<and> lsh_session_id handle = lsh_session_id old
      \<and> (is_fenced (lsh_state old) \<or> lsh_session_id old \<in> set (s # order) \<longrightarrow> is_fenced (lsh_state handle))"
    if "reg_handles (fold visit order (visit s reg)) h = Some handle" for h handle
  proof -
    from rest that obtain mid where mid: "reg_handles (visit s reg) h = Some mid" "lsh_session_id handle = lsh_session_id mid"
      "is_fenced (lsh_state mid) \<or> lsh_session_id mid \<in> set order \<longrightarrow> is_fenced (lsh_state handle)" by meson
    from step(3) [OF mid(1)] mid(2,3) show ?thesis by auto
  qed
  with rest step(2) show ?case by simp
qed simp

lemma clear_inv:
  assumes inv: "registry_inv reg" and order: "set order = dom (reg_by_session reg)"
  shows "registry_inv (clear order reg)" "\<not> open_handle (clear order reg) h"
proof -
  note all = fence_all [OF inv, of order]
  have fenced: "is_fenced (lsh_state handle)" if "reg_handles (fold visit order reg) h = Some handle" for h handle
  proof -
    from that all obtain old where "reg_handles reg h = Some old"
      "is_fenced (lsh_state old) \<or> lsh_session_id old \<in> set order \<longrightarrow> is_fenced (lsh_state handle)" by meson
    with registry_invD(3) [OF inv] order show ?thesis by blast
  qed
  show "registry_inv (clear order reg)" unfolding clear_eq
    by (rule registry_invI) (use fenced registry_invD(2,4) [of "fold visit order reg"] all in auto)
  show "\<not> open_handle (clear order reg) h" using fenced by (auto simp: clear_eq open_handle_def)
qed

lemma writer_change_inv:
  assumes inv: "registry_inv reg" and at: "reg_handles reg h = Some handle" and kept: "is_fenced state = is_fenced (lsh_state handle)"
  shows "registry_inv (reg\<lparr>reg_handles := (reg_handles reg)(h \<mapsto> handle\<lparr>lsh_state := state\<rparr>)\<rparr>)"
proof -
  note facts = registry_invD [OF inv]
  show ?thesis
  proof (rule registry_invI)
    fix s k assume "reg_by_session (reg\<lparr>reg_handles := (reg_handles reg)(h \<mapsto> handle\<lparr>lsh_state := state\<rparr>)\<rparr>) s = Some k"
    then obtain old where "reg_handles reg k = Some old" "lsh_session_id old = s" using facts(1) by auto
    with at show "\<exists>handle'. reg_handles (reg\<lparr>reg_handles := (reg_handles reg)(h \<mapsto> handle\<lparr>lsh_state := state\<rparr>)\<rparr>) k = Some handle'
        \<and> lsh_session_id handle' = s" by (cases "k = h") simp_all
  qed (use facts at kept in \<open>auto split: if_splits\<close>)
qed

lemma registry_step_inv: "registry_step reg reg' \<Longrightarrow> registry_inv reg \<Longrightarrow> registry_inv reg'"
proof (induction rule: registry_step.induct)
  case (1 reg route)
  then show ?case by (simp add: fence_route_def fence_handle_inv split: option.splits)
qed (simp_all add: activate_inv disconnect_inv clear_inv fence_handle_inv writer_change_inv)

lemma registry_run_inv: "registry_step\<^sup>*\<^sup>* LiveSessionRegistry_new reg \<Longrightarrow> registry_inv reg"
  by (induction rule: rtranclp_induct) (auto intro: registry_new_inv registry_step_inv)

section \<open>Properties\<close>

text \<open>The handle that a route leads to.\<close>

definition route_handle :: "LiveSessionRegistry \<Rightarrow> LiveSessionRoute \<Rightarrow> nat option" where
  "route_handle reg route = Option.bind (reg_by_route reg route) (reg_by_session reg)"

lemma route_handle_Some:
  "route_handle reg route = Some h \<longleftrightarrow> (\<exists>s. reg_by_route reg route = Some s \<and> reg_by_session reg s = Some h)"
  by (auto simp: route_handle_def bind_eq_Some_conv)

lemma activated_route:
  assumes inv: "registry_inv reg"
  shows "route_handle (snd (activate route s replaced sink reg)) route = Some (reg_next reg)"
    "open_handle (snd (activate route s replaced sink reg)) (reg_next reg)"
  using retire_route_facts(3) [OF inv, of route replaced]
  by (simp_all add: activate_eq publish_def route_handle_def open_handle_def LiveSessionHandle_new_def is_fenced_unat)

lemma open_handle_published:
  assumes "registry_inv reg" "open_handle reg h" shows "\<exists>!route. route_handle reg route = Some h"
proof -
  from assms(2) obtain handle where at: "reg_handles reg h = Some handle" "\<not> is_fenced (lsh_state handle)"
    by (auto simp: open_handle_def)
  from registry_invD(3) [OF assms(1) at] have pub: "reg_by_session reg (lsh_session_id handle) = Some h" .
  from registry_invD(5) [OF assms(1) pub] obtain route where "reg_by_route reg route = Some (lsh_session_id handle)" by blast
  with pub have "route_handle reg route = Some h" by (auto simp: route_handle_Some)
  moreover have "r = r'" if "route_handle reg r = Some h" "route_handle reg r' = Some h" for r r'
  proof -
    from that obtain s s' where "reg_by_route reg r = Some s" "reg_by_session reg s = Some h"
      "reg_by_route reg r' = Some s'" "reg_by_session reg s' = Some h" by (auto simp: route_handle_Some)
    moreover from this registry_invD(1) [OF assms(1)] at(1) have "s = s'" by (metis option.inject)
    ultimately show ?thesis using registry_invD(6) [OF assms(1)] by blast
  qed
  ultimately show ?thesis by blast
qed

text \<open>C34: at most one transport per route accepts writes. Whatever sequence of activations (with session
  ids that are not in use for another route), replacements, disconnects, startup fences and clears a
  registry went through, interleaved with writers and fences on the handles: every handle that is not
  fenced belongs to exactly one route, and a route leads to at most one handle; the sink of a fenced
  handle has been closed. After the next activation of a route its new handle is open, published
  and the only one of the route, and the one it replaces is fenced.\<close>

theorem one_open_handle_per_route:
  assumes "registry_step\<^sup>*\<^sup>* LiveSessionRegistry_new reg" "fresh_for route s reg"
    and act: "activate route s replaced sink reg = (new, reg')"
  shows "(\<forall>h. open_handle reg h \<longrightarrow> (\<exists>!r. route_handle reg r = Some h))
    \<and> (\<forall>h handle. reg_handles reg h = Some handle \<longrightarrow> open_handle reg h \<or> lsh_sink handle \<in> set (reg_closed reg))
    \<and> route_handle reg' route = Some new \<and> open_handle reg' new
    \<and> (\<forall>old. route_handle reg route = Some old \<longrightarrow> \<not> open_handle reg' old)"
proof -
  note inv = registry_run_inv [OF assms(1)]
  have inv': "registry_inv reg'" using activate_inv [OF inv assms(2)] act by (metis snd_conv)
  have new: "new = reg_next reg" using act retire_route_facts(3) [OF inv] by (auto simp: activate_eq)
  have fresh_route: "route_handle reg' route = Some new" "open_handle reg' new"
    using activated_route [OF inv, of route s replaced sink] act new by simp_all
  have "\<not> open_handle reg' old" if old: "route_handle reg route = Some old" for old
  proof
    assume open_old: "open_handle reg' old"
    from old obtain e where e: "reg_by_route reg route = Some e" "reg_by_session reg e = Some old"
      by (auto simp: route_handle_Some)
    with registry_invD(1,2) [OF inv] have "old < new" by (fastforce simp: new)
    from open_handle_published [OF inv' open_old] obtain r where r: "route_handle reg' r = Some old" by blast
    with fresh_route(1) \<open>old < new\<close> have "r \<noteq> route" by auto
    from r obtain s' where s': "reg_by_route reg' r = Some s'" "reg_by_session reg' s' = Some old"
      by (auto simp: route_handle_Some)
    let ?base = "retire_route route replaced reg"
    have pub: "reg' = publish route s sink ?base" using act by (simp add: activate_eq)
    from s' \<open>r \<noteq> route\<close> retire_route_facts(2) [OF inv] have "reg_by_route reg r = Some s'"
      by (simp add: pub publish_def)
    moreover from s'(2) \<open>old < new\<close> new retire_route_facts(3) [OF inv] have "reg_by_session ?base s' = Some old"
      by (auto simp: pub publish_def split: if_splits)
    then have "reg_by_session reg s' = Some old"
      by (auto simp: retire_route_def remove_and_fence_frame Let_def split: option.splits if_splits)
    ultimately have "s' = e" "reg_by_route reg r = Some e"
      using registry_invD(1) [OF inv] e(2) by (metis option.inject)+
    with registry_invD(6) [OF inv] e(1) \<open>r \<noteq> route\<close> show False by blast
  qed
  with inv fresh_route open_handle_published [OF inv] show ?thesis
    by (auto simp: open_handle_def dest: registry_invD(4))
qed

definition sample_route :: LiveSessionRoute where
  "sample_route = \<lparr>lsr_client_id = ''c'', lsr_account_id = ''a'', lsr_terminal_id = None\<rparr>"

definition sample_registry :: LiveSessionRegistry where
  "sample_registry = snd (activate sample_route ''s1'' None 7 LiveSessionRegistry_new)"

theorem one_open_handle_per_route_witness:
  "route_handle sample_registry sample_route = Some 0
   \<and> \<not> open_handle (snd (activate sample_route ''s2'' (Some ''s1'') 8 sample_registry)) 0"
proof -
  have "fresh_for sample_route ''s1'' LiveSessionRegistry_new" by (simp add: fresh_for_def LiveSessionRegistry_new_def)
  then have run: "registry_step\<^sup>*\<^sup>* LiveSessionRegistry_new sample_registry"
    unfolding sample_registry_def by (intro r_into_rtranclp registry_step.intros(2))
  have at: "route_handle sample_registry sample_route = Some 0"
    by (simp add: sample_registry_def activate_def LiveSessionRegistry_new_def route_handle_def)
  have "fresh_for sample_route ''s2'' sample_registry"
    by (simp add: sample_registry_def activate_def LiveSessionRegistry_new_def fresh_for_def)
  from one_open_handle_per_route [OF run this, of "Some ''s1''" 8] at show ?thesis
    by (metis prod.collapse)
qed

end
