(* ===== verification/Outbound_Writer.thy ===== *)
theory Outbound_Writer
  imports Live_Registry Ordered_Map
begin

text \<open>
  The ordered outbound writer of a transport (\<open>crates/gateway/src/writer.rs\<close>): senders admit writes
  against a semaphore and send them over a bounded channel; the one writer takes bootstrap writes
  first, puts the others into sequence order, and fails the connection closed on a gap that lasts too
  long, a duplicate, an overflow or backpressure.

  The state holds what the tasks share (the phase and the bootstrap queue under one lock, the channel,
  the semaphore) and what the writer owns. A write's one-shot channel is a number, and \<open>ow_outcomes\<close> what was
  sent on it; a value that is dropped without an answer sends \<open>DROPPED_ERROR\<close>, as \<open>Drop\<close> does. A sender
  is two steps, since the channel may be closed between its admission and its \<open>try_send\<close>; in between
  the write is in \<open>ow_inflight\<close>. A write returned by \<open>next\<close> is in \<open>ow_in_hand\<close> until the transport
  reports its result. \<open>next\<close> is a loop with an await; \<open>next_poll\<close> is its body up to the \<open>select!\<close>,
  \<open>next_select\<close> the rest, and \<open>Waiting\<close> says that the task is not ready. Time is an argument.
  The encoder of a deferred payload is the result it returns.

  Not in the model: the wake-ups (\<open>Notify\<close>), which only decide when a waiting task looks again.
\<close>

section \<open>Writes\<close>

datatype WriterPhase = Staging | Started | Closed

datatype QueuedPayload = Ready "8 word list" | Deferred "(string, 8 word list) result" | Materializing

record QueuedWrite =
  qw_sequence :: u64
  qw_payload :: QueuedPayload
  qw_skip :: bool
  qw_permit :: bool
  qw_completion :: nat

definition CLOSED_ERROR :: string where "CLOSED_ERROR = ''transport writer is closed''"
definition DROPPED_ERROR :: string where
  "DROPPED_ERROR = ''transport writer dropped before reporting a write result''"
definition MATERIALIZED_TWICE_ERROR :: string where
  "MATERIALIZED_TWICE_ERROR = ''deferred outbound payload was materialized more than once''"

definition materialize_wire_bytes :: "QueuedWrite \<Rightarrow> (string, 8 word list) result \<times> QueuedWrite" where
  "materialize_wire_bytes write = (case qw_payload write of
     Deferred encoded \<Rightarrow> (case encoded of
       Inr wire_bytes \<Rightarrow> (Inr wire_bytes, write\<lparr>qw_payload := Ready wire_bytes\<rparr>)
     | Inl error \<Rightarrow> (Inl error, write\<lparr>qw_payload := Materializing\<rparr>))
   | Ready wire_bytes \<Rightarrow> (Inr wire_bytes, write)
   | Materializing \<Rightarrow> (Inl MATERIALIZED_TWICE_ERROR, write))"

section \<open>State\<close>

record outbound_writer =
  ow_phase :: WriterPhase
  ow_bootstrap :: "QueuedWrite list"
  ow_queue :: "QueuedWrite list"
  ow_receiver_closed :: bool
  ow_senders :: bool
  ow_capacity :: usize
  ow_permits :: usize
  ow_closed :: bool
  ow_next_sequence :: u64
  ow_reordered :: "(u64, QueuedWrite) btree_map"
  ow_gap_timeout :: nat
  ow_gap_started :: "nat option"
  ow_inflight :: "QueuedWrite list"
  ow_in_hand :: "QueuedWrite list"
  ow_accepted :: "QueuedWrite list"
  ow_outcomes :: "nat \<rightharpoonup> SinkWriteOutcome"
  ow_next_completion :: nat

text \<open>\<open>QueuedOutboundSink::new\<close>; \<open>None\<close> is a failed assertion.\<close>

definition QueuedOutboundSink_new :: "usize \<Rightarrow> nat \<Rightarrow> outbound_writer option" where
  "QueuedOutboundSink_new queue_capacity sequence_gap_timeout =
     (if queue_capacity = 0 \<or> sequence_gap_timeout = 0 then None
      else Some \<lparr>ow_phase = Staging, ow_bootstrap = [], ow_queue = [], ow_receiver_closed = False, ow_senders = True,
        ow_capacity = queue_capacity, ow_permits = queue_capacity, ow_closed = False, ow_next_sequence = 1,
        ow_reordered = [], ow_gap_timeout = sequence_gap_timeout, ow_gap_started = None, ow_inflight = [],
        ow_in_hand = [], ow_accepted = [], ow_outcomes = Map.empty, ow_next_completion = 0\<rparr>)"

text \<open>\<open>QueuedWrite::complete\<close>: the outcome is sent and the permit released. Dropping a write is
  completing it with \<open>DROPPED_ERROR\<close>.\<close>

definition complete :: "SinkWriteOutcome \<Rightarrow> QueuedWrite \<Rightarrow> outbound_writer \<Rightarrow> outbound_writer" where
  "complete outcome write st =
     st\<lparr>ow_outcomes := (ow_outcomes st)(qw_completion write \<mapsto> outcome),
        ow_permits := ow_permits st + (if qw_permit write then 1 else 0)\<rparr>"

definition complete_all :: "SinkWriteOutcome \<Rightarrow> QueuedWrite list \<Rightarrow> outbound_writer \<Rightarrow> outbound_writer" where
  "complete_all outcome = fold (complete outcome)"

section \<open>The shared state\<close>

definition state_close :: "outbound_writer \<Rightarrow> outbound_writer" where
  "state_close st =
     (if ow_phase st = Closed then st
      else complete_all (DefinitelyNotWritten CLOSED_ERROR) (ow_bootstrap st)
        (st\<lparr>ow_phase := Closed, ow_bootstrap := []\<rparr>))"

definition start_writer :: "outbound_writer \<Rightarrow> bool \<times> outbound_writer" where
  "start_writer st = (if ow_phase st \<noteq> Staging then (False, st) else (True, st\<lparr>ow_phase := Started\<rparr>))"

definition QueuedWrite_new :: "u64 \<Rightarrow> QueuedPayload \<Rightarrow> bool \<Rightarrow> bool \<Rightarrow> outbound_writer \<Rightarrow> QueuedWrite \<times> outbound_writer" where
  "QueuedWrite_new sequence payload permit skip st =
     (\<lparr>qw_sequence = sequence, qw_payload = payload, qw_skip = skip, qw_permit = permit,
       qw_completion = ow_next_completion st\<rparr>,
      st\<lparr>ow_next_completion := Suc (ow_next_completion st)\<rparr>)"

definition stage_bootstrap_payload :: "QueuedPayload \<Rightarrow> outbound_writer \<Rightarrow> nat \<times> outbound_writer" where
  "stage_bootstrap_payload payload st = (case QueuedWrite_new 1 payload False False st of (request, st) \<Rightarrow>
     (qw_completion request,
      if ow_phase st \<noteq> Staging
        then complete (DefinitelyNotWritten ''bootstrap must be staged before the transport writer starts'') request st
      else st\<lparr>ow_bootstrap := ow_bootstrap st @ [request]\<rparr>))"

section \<open>Senders\<close>

text \<open>\<open>try_acquire_owned\<close>, and the write with its permit; \<open>None\<close> when no permit is left.\<close>

definition try_admit :: "u64 \<Rightarrow> QueuedPayload \<Rightarrow> bool \<Rightarrow> outbound_writer \<Rightarrow> (QueuedWrite \<times> outbound_writer) option" where
  "try_admit sequence payload skip st =
     (if ow_permits st = 0 then None
      else Some (QueuedWrite_new sequence payload True skip (st\<lparr>ow_permits := ow_permits st - 1\<rparr>)))"

datatype send_error = SendFull | SendClosed

definition try_send :: "QueuedWrite \<Rightarrow> outbound_writer \<Rightarrow> (send_error, outbound_writer) result" where
  "try_send request st =
     (if ow_receiver_closed st then Inl SendClosed
      else if ow_capacity st \<le> length (ow_queue st) then Inl SendFull
      else Inr (st\<lparr>ow_queue := ow_queue st @ [request]\<rparr>))"

text \<open>\<open>enqueue_payload\<close> up to \<open>try_send\<close>: a ready outcome, or the completion of a write in flight.\<close>

definition enqueue_admit ::
  "u64 \<Rightarrow> QueuedPayload \<Rightarrow> outbound_writer \<Rightarrow> (SinkWriteOutcome, nat) result \<times> outbound_writer" where
  "enqueue_admit sequence payload st =
     (if ow_phase st = Closed then (Inl (DefinitelyNotWritten CLOSED_ERROR), st)
      else case try_admit sequence payload False st of
        None \<Rightarrow> let st = state_close st in (Inl (Backpressure (ow_capacity st - ow_permits st)), st)
      | Some (request, st) \<Rightarrow> (Inr (qw_completion request), st\<lparr>ow_inflight := request # ow_inflight st\<rparr>))"

definition enqueue_send :: "QueuedWrite \<Rightarrow> outbound_writer \<Rightarrow> outbound_writer" where
  "enqueue_send request st = (let st = st\<lparr>ow_inflight := remove1 request (ow_inflight st)\<rparr> in
     case try_send request st of
       Inr st \<Rightarrow> st
     | Inl SendFull \<Rightarrow> state_close (complete (Backpressure (ow_capacity st)) request st)
     | Inl SendClosed \<Rightarrow> complete (DefinitelyNotWritten CLOSED_ERROR) request (state_close st))"

definition skip_admit :: "u64 \<Rightarrow> outbound_writer \<Rightarrow> outbound_writer" where
  "skip_admit sequence st =
     (if ow_phase st = Closed then st
      else case try_admit sequence (Ready []) True st of
        None \<Rightarrow> state_close st
      | Some (request, st) \<Rightarrow> st\<lparr>ow_inflight := request # ow_inflight st\<rparr>)"

definition skip_send :: "QueuedWrite \<Rightarrow> outbound_writer \<Rightarrow> outbound_writer" where
  "skip_send request st = (let st = st\<lparr>ow_inflight := remove1 request (ow_inflight st)\<rparr> in
     case try_send request st of
       Inr st \<Rightarrow> st
     | Inl _ \<Rightarrow> state_close (complete (DefinitelyNotWritten DROPPED_ERROR) request st))"

section \<open>The writer\<close>

definition fail_pending :: "string \<Rightarrow> outbound_writer \<Rightarrow> outbound_writer" where
  "fail_pending error st =
     (if ow_closed st then st
      else let outcome = DefinitelyNotWritten error in
        complete_all outcome (ow_queue st) (complete_all outcome (map snd (ow_reordered st))
          (st\<lparr>ow_closed := True, ow_receiver_closed := True, ow_reordered := [], ow_queue := []\<rparr>)))"

definition fail_closed :: "string \<Rightarrow> outbound_writer \<Rightarrow> outbound_writer" where
  "fail_closed error st = fail_pending error (state_close st)"

definition accept_expected :: "QueuedWrite \<Rightarrow> outbound_writer \<Rightarrow> QueuedWrite option \<times> outbound_writer" where
  "accept_expected request st =
     (if qw_sequence request \<noteq> ow_next_sequence st
        then (None, fail_closed CLOSED_ERROR (complete (DefinitelyNotWritten
          ''bootstrap or outbound sequence does not match the writer high-water mark'') request st))
      else case checked_add_u64 (ow_next_sequence st) 1 of
        None \<Rightarrow> (None, fail_closed CLOSED_ERROR
          (complete (DefinitelyNotWritten ''outbound sequence overflow'') request st))
      | Some sequence \<Rightarrow> (Some request,
          st\<lparr>ow_next_sequence := sequence, ow_gap_started := None, ow_accepted := ow_accepted st @ [request]\<rparr>))"

datatype turn = Return "QueuedWrite option" | Again | Waiting

text \<open>\<open>match self.accept_expected(request) { Some(request) if request.skip => continue, result => return result }\<close>:
  a skipped write is dropped, any other is handed to the transport.\<close>

definition accept_turn :: "QueuedWrite \<Rightarrow> outbound_writer \<Rightarrow> turn \<times> outbound_writer" where
  "accept_turn request st = (case accept_expected request st of
     (Some request, st) \<Rightarrow>
       if qw_skip request then (Again, complete (DefinitelyNotWritten DROPPED_ERROR) request st)
       else (Return (Some request), st\<lparr>ow_in_hand := request # ow_in_hand st\<rparr>)
   | (None, st) \<Rightarrow> (Return None, st))"

definition next_enter :: "outbound_writer \<Rightarrow> turn \<times> outbound_writer" where
  "next_enter st =
     (if ow_closed st then (Return None, st)
      else case ow_phase st of
        Staging \<Rightarrow> (Waiting, st)
      | Closed \<Rightarrow> (Return None, fail_pending CLOSED_ERROR st)
      | Started \<Rightarrow> (Again, st))"

definition reordered_remove :: "u64 \<Rightarrow> (u64, QueuedWrite) btree_map \<Rightarrow> (u64, QueuedWrite) btree_map" where
  "reordered_remove k m = filter (\<lambda>entry. fst entry \<noteq> k) m"

definition note_gap :: "nat \<Rightarrow> outbound_writer \<Rightarrow> outbound_writer" where
  "note_gap now st =
     (if ow_reordered st \<noteq> [] \<and> ow_gap_started st = None then st\<lparr>ow_gap_started := Some now\<rparr> else st)"

text \<open>\<open>pop_bootstrap_or_phase\<close> reads the queue and the phase under one lock; a closed phase has an empty
  queue.\<close>

definition next_poll :: "nat \<Rightarrow> outbound_writer \<Rightarrow> turn \<times> outbound_writer" where
  "next_poll now st =
     (let st = note_gap now st
      in if ow_phase st = Closed then (Return None, fail_pending CLOSED_ERROR st)
         else case ow_bootstrap st of
           request # bootstrap \<Rightarrow> accept_turn request (st\<lparr>ow_bootstrap := bootstrap\<rparr>)
         | [] \<Rightarrow> (case map_of (ow_reordered st) (ow_next_sequence st) of
             Some request \<Rightarrow> accept_turn request
               (st\<lparr>ow_reordered := reordered_remove (ow_next_sequence st) (ow_reordered st)\<rparr>)
           | None \<Rightarrow> (Waiting, st)))"

definition gap_expired :: "nat \<Rightarrow> outbound_writer \<Rightarrow> bool" where
  "gap_expired now st = (case ow_gap_started st of None \<Rightarrow> False | Some started \<Rightarrow> started + ow_gap_timeout st \<le> now)"

definition receive :: "QueuedWrite \<Rightarrow> outbound_writer \<Rightarrow> turn \<times> outbound_writer" where
  "receive request st =
     (if qw_sequence request = ow_next_sequence st then accept_turn request st
      else if qw_sequence request < ow_next_sequence st
          \<or> map_of (ow_reordered st) (qw_sequence request) \<noteq> None
          \<or> ow_capacity st \<le> length (ow_reordered st)
        then (Return None, fail_closed CLOSED_ERROR (complete (DefinitelyNotWritten
          ''outbound sequence is duplicated, stale, or exceeds the reorder bound'') request st))
      else (Again, st\<lparr>ow_reordered := bt_insert (qw_sequence request) request (ow_reordered st)\<rparr>))"

text \<open>The \<open>select!\<close> is biased: the check of the phase, the gap timer and \<open>receiver.recv()\<close> are polled in
  this order, and \<open>next_select\<close> takes one such round as one step. Another task may close the phase after
  the check and before the receive. Then the code receives from the closed state, and by
  \<open>receive_state_close\<close> that is \<open>next_select\<close> followed by the close; a write that is sent between the
  two is a write sent before them, for the check does not read the channel. So every interleaving
  inside a round is a run of these steps.\<close>

definition next_select :: "nat \<Rightarrow> outbound_writer \<Rightarrow> turn \<times> outbound_writer" where
  "next_select now st =
     (if ow_phase st = Closed then (Return None, fail_pending CLOSED_ERROR st)
      else if gap_expired now st
        then (Return None, fail_pending ''outbound sequence gap timed out'' (state_close st))
      else case ow_queue st of
        request # queue \<Rightarrow> receive request (st\<lparr>ow_queue := queue\<rparr>)
      | [] \<Rightarrow> if ow_receiver_closed st \<or> \<not> ow_senders st
          then (Return None, fail_pending CLOSED_ERROR (state_close st))
        else (Waiting, st))"

definition drop_writer :: "outbound_writer \<Rightarrow> outbound_writer" where
  "drop_writer st = fail_pending DROPPED_ERROR (state_close st)"

text \<open>The transport reports the result of a write in hand.\<close>

definition report :: "QueuedWrite \<Rightarrow> SinkWriteOutcome \<Rightarrow> outbound_writer \<Rightarrow> outbound_writer" where
  "report write outcome st = complete outcome write (st\<lparr>ow_in_hand := remove1 write (ow_in_hand st)\<rparr>)"

section \<open>Runs\<close>

text \<open>The \<open>select!\<close> comes after the poll of the same turn (\<open>next_poll_Waiting\<close>); the parts of the state in
  \<open>polled\<close> belong to the writer, so they hold while it waits.\<close>

definition polled :: "outbound_writer \<Rightarrow> bool" where
  "polled st \<longleftrightarrow> ow_bootstrap st = [] \<and> map_of (ow_reordered st) (ow_next_sequence st) = None
     \<and> (ow_reordered st \<noteq> [] \<longrightarrow> ow_gap_started st \<noteq> None)"

inductive writer_step :: "outbound_writer \<Rightarrow> outbound_writer \<Rightarrow> bool" where
  stage: "writer_step st (snd (stage_bootstrap_payload payload st))"
| start: "writer_step st (snd (start_writer st))"
| close: "writer_step st (state_close st)"
| admit: "writer_step st (snd (enqueue_admit sequence payload st))"
| send: "request \<in> set (ow_inflight st) \<Longrightarrow> \<not> qw_skip request \<Longrightarrow> writer_step st (enqueue_send request st)"
| admit_skip: "writer_step st (skip_admit sequence st)"
| send_skip: "request \<in> set (ow_inflight st) \<Longrightarrow> qw_skip request \<Longrightarrow> writer_step st (skip_send request st)"
| senders_gone: "ow_inflight st = [] \<Longrightarrow> writer_step st (st\<lparr>ow_senders := False\<rparr>)"
| enter: "writer_step st (snd (next_enter st))"
| poll: "\<not> ow_closed st \<Longrightarrow> ow_phase st \<noteq> Staging \<Longrightarrow> writer_step st (snd (next_poll now st))"
| select: "\<not> ow_closed st \<Longrightarrow> ow_phase st \<noteq> Staging \<Longrightarrow> polled st \<Longrightarrow> writer_step st (snd (next_select now st))"
| reported: "write \<in> set (ow_in_hand st) \<Longrightarrow> writer_step st (report write outcome st)"
| failed: "writer_step st (fail_closed error st)"
| dropped: "writer_step st (drop_writer st)"


section \<open>Conservation of writes\<close>

text \<open>The writes somewhere in the system, and those that hold a permit. \<open>balanced L st\<close> says that every
  write created so far either has its outcome or is in exactly one place, the local variables \<open>L\<close> of the
  running task included, and that the permits add up.\<close>

definition pending :: "outbound_writer \<Rightarrow> QueuedWrite multiset" where
  "pending st = mset (ow_bootstrap st) + mset (ow_queue st) + mset (map snd (ow_reordered st))
     + mset (ow_inflight st) + mset (ow_in_hand st)"

definition held :: "QueuedWrite multiset \<Rightarrow> nat" where
  "held M = size (filter_mset qw_permit M)"

definition balanced :: "QueuedWrite multiset \<Rightarrow> outbound_writer \<Rightarrow> bool" where
  "balanced L st \<longleftrightarrow>
     (\<forall>i. count (image_mset qw_completion (pending st + L)) i + (if ow_outcomes st i = None then 0 else 1)
        = (if i < ow_next_completion st then 1 else 0))
     \<and> ow_permits st + held (pending st + L) = ow_capacity st"

lemma held_simps [simp]: "held (add_mset w M) = held M + (if qw_permit w then 1 else 0)" "held {#} = 0"
    "held (M + N) = held M + held N"
  by (simp_all add: held_def)

lemma balanced_cong:
  assumes "pending st + L = pending st' + L'" "ow_outcomes st = ow_outcomes st'" "ow_next_completion st = ow_next_completion st'"
    "ow_permits st = ow_permits st'" "ow_capacity st = ow_capacity st'"
  shows "balanced L st \<longleftrightarrow> balanced L' st'"
  using assms by (simp add: balanced_def)

lemma complete_frame [simp]:
  "ow_phase (complete out w st) = ow_phase st" "ow_bootstrap (complete out w st) = ow_bootstrap st"
  "ow_queue (complete out w st) = ow_queue st" "ow_receiver_closed (complete out w st) = ow_receiver_closed st"
  "ow_closed (complete out w st) = ow_closed st" "ow_next_sequence (complete out w st) = ow_next_sequence st"
  "ow_reordered (complete out w st) = ow_reordered st" "ow_inflight (complete out w st) = ow_inflight st"
  "ow_in_hand (complete out w st) = ow_in_hand st" "ow_accepted (complete out w st) = ow_accepted st"
  "ow_capacity (complete out w st) = ow_capacity st" "pending (complete out w st) = pending st"
  "ow_next_completion (complete out w st) = ow_next_completion st" "ow_gap_started (complete out w st) = ow_gap_started st"
  by (simp_all add: complete_def pending_def)

lemma complete_all_frame [simp]:
  "ow_phase (complete_all out ws st) = ow_phase st" "ow_bootstrap (complete_all out ws st) = ow_bootstrap st"
  "ow_queue (complete_all out ws st) = ow_queue st" "ow_receiver_closed (complete_all out ws st) = ow_receiver_closed st"
  "ow_closed (complete_all out ws st) = ow_closed st" "ow_next_sequence (complete_all out ws st) = ow_next_sequence st"
  "ow_reordered (complete_all out ws st) = ow_reordered st" "ow_inflight (complete_all out ws st) = ow_inflight st"
  "ow_in_hand (complete_all out ws st) = ow_in_hand st" "ow_accepted (complete_all out ws st) = ow_accepted st"
  "ow_capacity (complete_all out ws st) = ow_capacity st" "pending (complete_all out ws st) = pending st"
  by (induction ws arbitrary: st) (simp_all add: complete_all_def)

lemma complete_balanced: "balanced (add_mset w L) st \<Longrightarrow> balanced L (complete out w st)"
proof -
  assume bal: "balanced (add_mset w L) st"
  let ?ids = "\<lambda>M. count (image_mset qw_completion (pending st + M))"
  have counts: "?ids (add_mset w L) i + (if ow_outcomes st i = None then 0 else 1) = (if i < ow_next_completion st then 1 else 0)" for i
    using bal by (simp add: balanced_def)
  have "?ids L i + (if ow_outcomes (complete out w st) i = None then 0 else 1) = (if i < ow_next_completion st then 1 else 0)" for i
    using counts [of i] by (auto simp: complete_def split: if_splits)
  then show ?thesis using bal by (simp add: balanced_def) (simp add: complete_def)
qed

lemma complete_all_balanced: "balanced (mset ws + L) st \<Longrightarrow> balanced L (complete_all out ws st)"
  by (induction ws arbitrary: st) (simp_all add: complete_all_def complete_balanced)

lemma complete_answers: "balanced (add_mset w L) st \<Longrightarrow> ow_outcomes st (qw_completion w) = None"
  by (auto simp: balanced_def dest!: spec [of _ "qw_completion w"] split: if_splits)

lemma complete_outcomes: "balanced (add_mset w L) st \<Longrightarrow> ow_outcomes st \<subseteq>\<^sub>m ow_outcomes (complete out w st)"
  using complete_answers by (fastforce simp: map_le_def complete_def)

lemma complete_all_outcomes: "balanced (mset ws + L) st \<Longrightarrow> ow_outcomes st \<subseteq>\<^sub>m ow_outcomes (complete_all out ws st)"
proof (induction ws arbitrary: st)
  case (Cons w ws)
  then have "balanced (add_mset w (mset ws + L)) st" by simp
  from complete_outcomes [OF this, of out] Cons.IH [OF complete_balanced [OF this, of out]] show ?case
    by (auto simp: complete_all_def intro: map_le_trans)
qed (simp add: complete_all_def)

text \<open>An operation is sound when it keeps the balance and no outcome is ever overwritten.\<close>

definition sound :: "QueuedWrite multiset \<Rightarrow> outbound_writer \<Rightarrow> QueuedWrite multiset \<Rightarrow> outbound_writer \<Rightarrow> bool" where
  "sound L st L' st' \<longleftrightarrow> balanced L' st' \<and> ow_outcomes st \<subseteq>\<^sub>m ow_outcomes st'"

lemma sound_trans: "sound L st L' st' \<Longrightarrow> (balanced L' st' \<Longrightarrow> sound L' st' L'' st'') \<Longrightarrow> sound L st L'' st''"
  by (auto simp: sound_def intro: map_le_trans)

lemma sound_complete: "balanced (add_mset w L) st \<Longrightarrow> sound (add_mset w L) st L (complete out w st)"
  by (simp add: sound_def complete_balanced complete_outcomes)

lemma sound_complete_all: "balanced (mset ws + L) st \<Longrightarrow> sound (mset ws + L) st L (complete_all out ws st)"
  by (simp add: sound_def complete_all_balanced complete_all_outcomes)

lemma sound_move:
  assumes "balanced L st" "pending st + L = pending st' + L'" "ow_outcomes st' = ow_outcomes st"
    "ow_next_completion st' = ow_next_completion st" "ow_permits st' = ow_permits st" "ow_capacity st' = ow_capacity st"
  shows "sound L st L' st'"
  using assms balanced_cong [of st L st' L'] by (simp add: sound_def)

lemma sound_close: "balanced L st \<Longrightarrow> sound L st L (state_close st)"
proof (cases "ow_phase st = Closed")
  case False
  assume bal: "balanced L st"
  let ?st = "st\<lparr>ow_phase := Closed, ow_bootstrap := []\<rparr>"
  have "sound L st (mset (ow_bootstrap st) + L) ?st"
    by (rule sound_move [OF bal]) (simp_all add: pending_def)
  then show ?thesis using False
    by (auto simp: state_close_def elim: sound_trans intro: sound_complete_all)
qed (simp add: state_close_def sound_def)

lemma sound_fail_pending: "balanced L st \<Longrightarrow> sound L st L (fail_pending error st)"
proof (cases "ow_closed st")
  case False
  assume bal: "balanced L st"
  let ?st = "st\<lparr>ow_closed := True, ow_receiver_closed := True, ow_reordered := [], ow_queue := []\<rparr>"
  let ?o = "DefinitelyNotWritten error"
  have "sound L st (mset (map snd (ow_reordered st)) + (mset (ow_queue st) + L)) ?st"
    by (rule sound_move [OF bal]) (simp_all add: pending_def)
  moreover have "sound (mset (map snd (ow_reordered st)) + (mset (ow_queue st) + L)) ?st (mset (ow_queue st) + L)
      (complete_all ?o (map snd (ow_reordered st)) ?st)" if "balanced (mset (map snd (ow_reordered st)) + (mset (ow_queue st) + L)) ?st"
    by (rule sound_complete_all [OF that])
  ultimately have "sound L st (mset (ow_queue st) + L) (complete_all ?o (map snd (ow_reordered st)) ?st)" by (rule sound_trans)
  then show ?thesis using False
    by (auto simp: fail_pending_def Let_def elim: sound_trans intro: sound_complete_all)
qed (simp add: fail_pending_def sound_def)

lemma sound_fail_closed: "balanced L st \<Longrightarrow> sound L st L (fail_closed error st)"
  unfolding fail_closed_def using sound_close sound_fail_pending by (metis sound_trans)

lemma sound_refuse: "balanced (add_mset w L) st \<Longrightarrow> sound (add_mset w L) st L (fail_closed error (complete out w st))"
  using sound_complete sound_fail_closed by (metis sound_trans)

lemma sound_accept_turn: "balanced (add_mset w L) st \<Longrightarrow> sound (add_mset w L) st L (snd (accept_turn w st))"
proof -
  assume bal: "balanced (add_mset w L) st"
  show ?thesis
  proof (cases "accept_expected w st")
    case (Pair result st')
    show ?thesis
    proof (cases result)
      case None
      with Pair bal show ?thesis
        by (auto simp: accept_turn_def accept_expected_def sound_refuse split: if_splits option.splits)
    next
      case (Some w')
      with Pair have st': "w' = w" "st' = st\<lparr>ow_next_sequence := ow_next_sequence st', ow_gap_started := None, ow_accepted := ow_accepted st @ [w]\<rparr>"
        by (auto simp: accept_expected_def split: if_splits option.splits)
      have moved: "sound (add_mset w L) st (add_mset w L) st'"
        by (rule sound_move [OF bal]) (subst st', simp add: pending_def)+
      then have "sound (add_mset w L) st L (complete (DefinitelyNotWritten DROPPED_ERROR) w st')"
        by (rule sound_trans) (rule sound_complete)
      moreover from moved have "sound (add_mset w L) st L (st'\<lparr>ow_in_hand := w # ow_in_hand st'\<rparr>)"
        by (rule sound_trans) (rule sound_move, simp_all add: pending_def)
      ultimately show ?thesis using Pair Some st'(1) by (simp add: accept_turn_def)
    qed
  qed
qed

lemma mset_reordered_remove:
  assumes "bt_sorted m" "map_of m k = Some w" shows "mset (map snd m) = add_mset w (mset (map snd (reordered_remove k m)))"
proof -
  have "distinct (map fst m)" using assms(1) by (simp add: bt_sorted_def bt_keys_def strict_sorted_iff)
  then show ?thesis using assms(2)
  proof (induction m)
    case (Cons e m)
    show ?case
    proof (cases "fst e = k")
      case True
      with Cons.prems(1) have "k \<notin> fst ` set m" by auto
      then have "\<forall>x \<in> set m. fst x \<noteq> k" by auto
      then have "filter (\<lambda>entry. fst entry \<noteq> k) m = m" by simp
      with True Cons.prems(2) show ?thesis by (cases e) (auto simp: reordered_remove_def)
    next
      case False
      with Cons show ?thesis by (cases e) (auto simp: reordered_remove_def)
    qed
  qed simp
qed

lemma mset_bt_insert: "map_of m k = None \<Longrightarrow> mset (map snd (bt_insert k w m)) = add_mset w (mset (map snd m))"
  by (induction k w m rule: bt_insert.induct) (auto split: if_splits)

lemma sound_receive:
  assumes bal: "balanced (add_mset w L) st" shows "sound (add_mset w L) st L (snd (receive w st))"
proof -
  have "sound (add_mset w L) st L (st\<lparr>ow_reordered := bt_insert (qw_sequence w) w (ow_reordered st)\<rparr>)"
    if "map_of (ow_reordered st) (qw_sequence w) = None"
    by (rule sound_move [OF bal]) (simp_all add: pending_def mset_bt_insert [OF that, simplified])
  then show ?thesis using sound_accept_turn [OF bal] sound_refuse [OF bal] by (simp add: receive_def)
qed

lemma note_gap_frame [simp]:
  "ow_phase (note_gap now st) = ow_phase st" "ow_bootstrap (note_gap now st) = ow_bootstrap st"
  "ow_reordered (note_gap now st) = ow_reordered st" "ow_next_sequence (note_gap now st) = ow_next_sequence st"
  "ow_accepted (note_gap now st) = ow_accepted st" "ow_closed (note_gap now st) = ow_closed st"
  "pending (note_gap now st) = pending st"
  by (simp_all add: note_gap_def pending_def)

lemma note_gap_started: "ow_reordered st \<noteq> [] \<Longrightarrow> ow_gap_started (note_gap now st) \<noteq> None"
  by (simp add: note_gap_def)

lemma sound_next_poll:
  assumes bal: "balanced L st" and sorted: "bt_sorted (ow_reordered st)"
  shows "sound L st L (snd (next_poll now st))"
proof -
  define s where "s = note_gap now st"
  have s: "sound L st L s" "bt_sorted (ow_reordered s)"
    using sorted by (auto simp: s_def note_gap_def pending_def intro!: sound_move [OF bal])
  then have bal': "balanced L s" by (simp add: sound_def)
  have "sound L s L (snd (accept_turn w (s\<lparr>ow_bootstrap := ws\<rparr>)))" if "ow_bootstrap s = w # ws" for w ws
    by (rule sound_trans [OF sound_move [OF bal', where L' = "add_mset w L" and st' = "s\<lparr>ow_bootstrap := ws\<rparr>"]])
      (simp_all add: pending_def that sound_accept_turn)
  moreover have "sound L s L (snd (accept_turn w (s\<lparr>ow_reordered := reordered_remove k (ow_reordered s)\<rparr>)))"
    if "map_of (ow_reordered s) k = Some w" for w k
    by (rule sound_trans [OF sound_move [OF bal', where L' = "add_mset w L" and
          st' = "s\<lparr>ow_reordered := reordered_remove k (ow_reordered s)\<rparr>"]])
      (simp_all add: pending_def mset_reordered_remove [OF s(2) that, simplified] sound_accept_turn)
  ultimately have "sound L s L (snd (next_poll now st))"
    unfolding next_poll_def Let_def s_def [symmetric] using sound_fail_pending [OF bal'] bal'
    by (simp add: sound_def split: list.splits option.splits)
  with s(1) show ?thesis by (rule sound_trans) 
qed

lemma sound_next_select:
  assumes bal: "balanced L st" shows "sound L st L (snd (next_select now st))"
proof -
  have "sound L st L (snd (receive w (st\<lparr>ow_queue := ws\<rparr>)))" if "ow_queue st = w # ws" for w ws
    by (rule sound_trans [OF sound_move [OF bal, where L' = "add_mset w L" and st' = "st\<lparr>ow_queue := ws\<rparr>"]])
      (simp_all add: pending_def that sound_receive)
  moreover have "sound L st L (fail_pending error (state_close st))" for error
    using sound_fail_closed [OF bal] by (simp add: fail_closed_def)
  moreover have "sound L st L st" using bal by (simp add: sound_def)
  ultimately show ?thesis using sound_fail_pending [OF bal]
    by (simp add: next_select_def split: list.splits)
qed

text \<open>A new write takes the next completion; with a permit when it is admitted.\<close>

lemma sound_new:
  assumes "balanced L st" and new: "QueuedWrite_new sequence payload permit skip st = (w, st')"
    and permit: "\<not> permit"
  shows "sound L st (add_mset w L) st'"
proof -
  from new have w: "qw_completion w = ow_next_completion st" "qw_permit w = permit"
    and st': "st' = st\<lparr>ow_next_completion := Suc (ow_next_completion st)\<rparr>" by (auto simp: QueuedWrite_new_def)
  have counts: "count (image_mset qw_completion (pending st + L)) i + (if ow_outcomes st i = None then 0 else 1) =
      (if i < ow_next_completion st then 1 else 0)" for i using assms(1) by (simp add: balanced_def)
  have "count (image_mset qw_completion (pending st + add_mset w L)) i + (if ow_outcomes st i = None then 0 else 1) =
      (if i < Suc (ow_next_completion st) then 1 else 0)" for i
    using counts [of i] w(1) by (auto split: if_splits)
  moreover have "pending st' = pending st" by (simp add: st' pending_def)
  ultimately show ?thesis using assms(1) permit w(2) by (simp add: sound_def balanced_def st')
qed

lemma sound_admit:
  assumes "balanced L st" and admit: "try_admit sequence payload skip st = Some (w, st')"
  shows "sound L st (add_mset w L) st'"
proof -
  from admit have w: "qw_completion w = ow_next_completion st" "qw_permit w" and free: "0 < ow_permits st"
    and st': "st' = st\<lparr>ow_permits := ow_permits st - 1, ow_next_completion := Suc (ow_next_completion st)\<rparr>"
    by (auto simp: try_admit_def QueuedWrite_new_def split: if_splits)
  have counts: "count (image_mset qw_completion (pending st + L)) i + (if ow_outcomes st i = None then 0 else 1) =
      (if i < ow_next_completion st then 1 else 0)" for i using assms(1) by (simp add: balanced_def)
  have "count (image_mset qw_completion (pending st + add_mset w L)) i + (if ow_outcomes st i = None then 0 else 1) =
      (if i < Suc (ow_next_completion st) then 1 else 0)" for i
    using counts [of i] w(1) by (auto split: if_splits)
  moreover have "pending st' = pending st" by (simp add: st' pending_def)
  ultimately show ?thesis using assms(1) w(2) free by (simp add: sound_def balanced_def st')
qed

section \<open>Order\<close>

definition entry_ok :: "u64 \<Rightarrow> u64 \<times> QueuedWrite \<Rightarrow> bool" where
  "entry_ok next entry \<longleftrightarrow> qw_sequence (snd entry) = fst entry \<and> 2 \<le> fst entry \<and> next \<le> fst entry \<and> qw_permit (snd entry)"

definition ordered :: "outbound_writer \<Rightarrow> bool" where
  "ordered st \<longleftrightarrow> bt_sorted (ow_reordered st)
     \<and> (\<forall>e \<in> set (ow_reordered st). entry_ok (ow_next_sequence st) e)
     \<and> map qw_sequence (ow_accepted st) = [1 ..< ow_next_sequence st] \<and> 1 \<le> ow_next_sequence st
     \<and> (\<forall>w \<in> set (ow_bootstrap st). qw_sequence w = 1)
     \<and> (\<forall>w \<in> set (ow_queue st) \<union> set (ow_inflight st). qw_permit w)
     \<and> (ow_phase st = Closed \<longrightarrow> ow_bootstrap st = [])
     \<and> (ow_closed st \<longrightarrow> ow_phase st = Closed \<and> ow_queue st = [] \<and> ow_reordered st = [] \<and> ow_receiver_closed st)
     \<and> (ow_receiver_closed st \<longrightarrow> ow_closed st)"

lemma state_close_frame [simp]:
  "ow_queue (state_close st) = ow_queue st" "ow_receiver_closed (state_close st) = ow_receiver_closed st"
  "ow_closed (state_close st) = ow_closed st" "ow_next_sequence (state_close st) = ow_next_sequence st"
  "ow_reordered (state_close st) = ow_reordered st" "ow_inflight (state_close st) = ow_inflight st"
  "ow_in_hand (state_close st) = ow_in_hand st" "ow_accepted (state_close st) = ow_accepted st"
  "ow_capacity (state_close st) = ow_capacity st" "ow_phase (state_close st) = Closed"
  by (simp_all add: state_close_def)

lemma state_close_bootstrap [simp]: "ow_bootstrap (state_close st) = (if ow_phase st = Closed then ow_bootstrap st else [])"
  by (simp add: state_close_def)

lemma fail_pending_frame [simp]:
  "ow_phase (fail_pending error st) = ow_phase st" "ow_bootstrap (fail_pending error st) = ow_bootstrap st"
  "ow_closed (fail_pending error st)" "ow_next_sequence (fail_pending error st) = ow_next_sequence st"
  "ow_inflight (fail_pending error st) = ow_inflight st" "ow_in_hand (fail_pending error st) = ow_in_hand st"
  "ow_accepted (fail_pending error st) = ow_accepted st" "ow_capacity (fail_pending error st) = ow_capacity st"
  "ow_queue (fail_pending error st) = (if ow_closed st then ow_queue st else [])"
  "ow_reordered (fail_pending error st) = (if ow_closed st then ow_reordered st else [])"
  "ow_receiver_closed (fail_pending error st) = (ow_closed st \<longrightarrow> ow_receiver_closed st)"
  by (simp_all add: fail_pending_def Let_def)

section \<open>A close inside a round of the select\<close>

lemma state_close_no_bootstrap:
  "ow_bootstrap st = [] \<Longrightarrow> state_close st = st\<lparr>ow_phase := Closed, ow_bootstrap := []\<rparr>"
  by (cases st) (simp add: state_close_def complete_all_def)

lemma state_close_Closed: "ow_phase st = Closed \<Longrightarrow> state_close st = st"
  by (simp add: state_close_def)

lemma fail_closed_no_bootstrap:
  "ow_bootstrap st = [] \<Longrightarrow> fail_closed error st = fail_pending error (st\<lparr>ow_phase := Closed, ow_bootstrap := []\<rparr>)"
  by (simp add: fail_closed_def state_close_no_bootstrap)

lemma state_close_fail_closed [simp]: "state_close (fail_closed error st) = fail_closed error st"
  by (simp add: fail_closed_def state_close_def)

text \<open>The phase plays no part in a receive, so a close before it and a close after it are the same.\<close>

lemma accept_turn_state_close:
  assumes "ow_bootstrap st = []"
  shows "accept_turn request (state_close st) = apsnd state_close (accept_turn request st)"
proof (cases "qw_sequence request = ow_next_sequence st \<and> checked_add_u64 (ow_next_sequence st) 1 \<noteq> None")
  case True
  then show ?thesis
    using assms by (auto simp: accept_turn_def accept_expected_def state_close_no_bootstrap complete_def)
next
  case False
  then show ?thesis
    using assms by (auto simp: accept_turn_def accept_expected_def)
      (simp_all add: fail_closed_no_bootstrap state_close_no_bootstrap complete_def)
qed

lemma receive_state_close:
  assumes "ow_bootstrap st = []"
  shows "receive request (state_close st) = apsnd state_close (receive request st)"
proof -
  have "fail_closed error (complete outcome request (state_close st)) = fail_closed error (complete outcome request st)"
    for error outcome
    using assms by (simp add: fail_closed_no_bootstrap state_close_no_bootstrap complete_def)
  then show ?thesis
    using assms by (simp add: receive_def accept_turn_state_close) (simp add: state_close_no_bootstrap)
qed

lemma bt_sorted_Nil [simp]: "bt_sorted []"
  by (rule bt.inv_empty)

lemma ordered_complete: "ordered (complete out w st) \<longleftrightarrow> ordered st"
  by (simp add: ordered_def)

lemma ordered_close: "ordered st \<Longrightarrow> ordered (state_close st)"
  by (simp add: ordered_def)

lemma ordered_fail_pending: "ordered st \<Longrightarrow> ow_phase st = Closed \<Longrightarrow> ordered (fail_pending error st)"
  by (auto simp: ordered_def)

lemma ordered_fail_closed: "ordered st \<Longrightarrow> ordered (fail_closed error st)"
  unfolding fail_closed_def by (intro ordered_fail_pending ordered_close) simp_all

lemma ordered_accept_turn:
  assumes "ordered st" "map_of (ow_reordered st) (ow_next_sequence st) = None"
  shows "ordered (snd (accept_turn w st))"
proof (cases "qw_sequence w = ow_next_sequence st \<and> checked_add_u64 (ow_next_sequence st) 1 = Some (ow_next_sequence st + 1)")
  case True
  let ?st = "st\<lparr>ow_next_sequence := ow_next_sequence st + 1, ow_gap_started := None, ow_accepted := ow_accepted st @ [w]\<rparr>"
  have "fst e \<noteq> ow_next_sequence st" if "e \<in> set (ow_reordered st)" for e
    using that assms(2) by (force simp: map_of_eq_None_iff)
  then have "entry_ok (ow_next_sequence st + 1) e" if "e \<in> set (ow_reordered st)" for e
    using that assms(1) by (fastforce simp: ordered_def entry_ok_def)
  then have st: "ordered ?st" using assms(1) True by (simp add: ordered_def)
  from True have acc: "accept_expected w st = (Some w, ?st)" by (simp add: accept_expected_def)
  have "ordered (?st\<lparr>ow_in_hand := ws\<rparr>)" for ws using st by (simp add: ordered_def)
  with acc st show ?thesis by (auto simp: accept_turn_def ordered_complete)
next
  case False
  then have "fst (accept_expected w st) = None" "ordered (snd (accept_expected w st))"
    using assms(1) checked_add_u64_Some [of "ow_next_sequence st" 1]
    by (auto simp: accept_expected_def ordered_fail_closed ordered_complete split: option.splits)
  then show ?thesis by (cases "accept_expected w st") (auto simp: accept_turn_def)
qed

lemma bt_insert_set: "map_of m k = None \<Longrightarrow> set (bt_insert k w m) = insert (k, w) (set m)"
  by (induction k w m rule: bt_insert.induct) (auto split: if_splits)

lemma ordered_receive:
  assumes "ordered st" "map_of (ow_reordered st) (ow_next_sequence st) = None" "qw_permit w" "\<not> ow_closed st"
  shows "ordered (snd (receive w st))"
proof -
  have "ordered (st\<lparr>ow_reordered := bt_insert (qw_sequence w) w (ow_reordered st)\<rparr>)"
    if "map_of (ow_reordered st) (qw_sequence w) = None" "ow_next_sequence st < qw_sequence w"
  proof -
    have "entry_ok (ow_next_sequence st) (qw_sequence w, w)" using that assms(1,3) by (simp add: ordered_def entry_ok_def)
    then show ?thesis using that assms by (auto simp: ordered_def bt_insert_set bt_sorted_insert)
  qed
  then show ?thesis using ordered_accept_turn [OF assms(1,2)] assms(1)
    by (auto simp: receive_def ordered_fail_closed ordered_complete)
qed

lemma reordered_remove_facts:
  assumes "bt_sorted m" shows "bt_sorted (reordered_remove k m)" "map_of (reordered_remove k m) k = None"
    "set (reordered_remove k m) \<subseteq> set m"
  using assms by (auto simp: reordered_remove_def bt_sorted_def bt_keys_def map_of_eq_None_iff
    simp flip: filter_map [of "\<lambda>j. j \<noteq> k" fst, unfolded comp_def] intro: sorted_wrt_filter)

lemma ordered_next_poll:
  assumes ord: "ordered st" and open_writer: "\<not> ow_closed st" shows "ordered (snd (next_poll now st))"
proof -
  define s where "s = note_gap now st"
  have s: "ordered s" "\<not> ow_closed s" using assms by (simp_all add: s_def note_gap_def ordered_def)
  have "ordered (snd (accept_turn w (s\<lparr>ow_bootstrap := ws\<rparr>)))" if "ow_bootstrap s = w # ws" for w ws
  proof (cases "ow_next_sequence s = 1")
    case True
    then have "map_of (ow_reordered s) (ow_next_sequence s) = None"
      using s(1) by (force simp: ordered_def entry_ok_def map_of_eq_None_iff)
    moreover have "ordered (s\<lparr>ow_bootstrap := ws\<rparr>)" using s(1) that by (auto simp: ordered_def)
    ultimately show ?thesis by (intro ordered_accept_turn) simp_all
  next
    case False
    then have "qw_sequence w \<noteq> ow_next_sequence s" using s(1) that by (simp add: ordered_def)
    moreover have "ordered (s\<lparr>ow_bootstrap := ws\<rparr>)" using s(1) that by (auto simp: ordered_def)
    ultimately show ?thesis
      by (simp add: accept_turn_def accept_expected_def ordered_fail_closed ordered_complete)
  qed
  moreover have "ordered (snd (accept_turn w (s\<lparr>ow_reordered := reordered_remove (ow_next_sequence s) (ow_reordered s)\<rparr>)))" for w
  proof (rule ordered_accept_turn)
    have "bt_sorted (ow_reordered s)" using s(1) by (simp add: ordered_def)
    note removed = reordered_remove_facts [OF this, of "ow_next_sequence s"]
    show "ordered (s\<lparr>ow_reordered := reordered_remove (ow_next_sequence s) (ow_reordered s)\<rparr>)"
      using s removed by (auto simp: ordered_def)
    show "map_of (ow_reordered (s\<lparr>ow_reordered := reordered_remove (ow_next_sequence s) (ow_reordered s)\<rparr>))
        (ow_next_sequence (s\<lparr>ow_reordered := reordered_remove (ow_next_sequence s) (ow_reordered s)\<rparr>)) = None"
      using removed(2) by simp
  qed
  ultimately show ?thesis unfolding next_poll_def Let_def s_def [symmetric] using s ordered_fail_pending
    by (auto split: list.splits option.splits)
qed

lemma ordered_next_select:
  assumes ord: "ordered st" and open_writer: "\<not> ow_closed st" and polled: "polled st"
  shows "ordered (snd (next_select now st))"
proof -
  have "ordered (snd (receive w (st\<lparr>ow_queue := ws\<rparr>)))" if "ow_queue st = w # ws" for w ws
  proof (rule ordered_receive)
    show "ordered (st\<lparr>ow_queue := ws\<rparr>)" using ord that open_writer by (auto simp: ordered_def)
    show "qw_permit w" using ord that by (simp add: ordered_def)
  qed (use polled open_writer in \<open>simp_all add: polled_def\<close>)
  then show ?thesis using ord ordered_fail_pending ordered_fail_closed [OF ord]
    by (auto simp: next_select_def fail_closed_def split: list.splits)
qed

section \<open>The invariant of a run\<close>

definition writer_inv :: "outbound_writer \<Rightarrow> bool" where
  "writer_inv st \<longleftrightarrow> balanced {#} st \<and> ordered st"

lemma remove1_pending:
  "w \<in> set (ow_inflight st) \<Longrightarrow> pending st = pending (st\<lparr>ow_inflight := remove1 w (ow_inflight st)\<rparr>) + {#w#}"
  "w \<in> set (ow_in_hand st) \<Longrightarrow> pending st = pending (st\<lparr>ow_in_hand := remove1 w (ow_in_hand st)\<rparr>) + {#w#}"
  by (simp_all add: pending_def)

lemma take_inflight:
  assumes "balanced {#} st" "w \<in> set (ow_inflight st)"
  shows "sound {#} st {#w#} (st\<lparr>ow_inflight := remove1 w (ow_inflight st)\<rparr>)"
  using remove1_pending(1) [OF assms(2)] by (intro sound_move [OF assms(1)]) simp_all

lemma sound_try_send:
  assumes "balanced {#w#} st" "try_send w st = Inr st'" shows "sound {#w#} st {#} st'"
  using assms(2) by (intro sound_move [OF assms(1)]) (auto simp: try_send_def pending_def split: if_splits)

lemma writer_step_sound:
  assumes "writer_step st st'" "writer_inv st" shows "sound {#} st {#} st'"
proof -
  from assms(2) have bal: "balanced {#} st" and sorted: "bt_sorted (ow_reordered st)"
    by (simp_all add: writer_inv_def ordered_def)
  have refl: "sound {#} st {#} st" using bal by (simp add: sound_def)
  from assms(1) show ?thesis
  proof cases
    case (stage payload)
    obtain w s where new: "QueuedWrite_new 1 payload False False st = (w, s)" by (cases "QueuedWrite_new 1 payload False False st")
    have moved: "sound {#} st {#w#} s" using sound_new [OF bal new] by simp
    moreover have "sound {#w#} s {#} (s\<lparr>ow_bootstrap := ow_bootstrap s @ [w]\<rparr>)" if "balanced {#w#} s"
      by (rule sound_move [OF that]) (simp_all add: pending_def)
    ultimately show ?thesis using sound_complete [of w "{#}" s]
      by (auto simp: stage stage_bootstrap_payload_def new simp del: One_nat_def intro: sound_trans)
  next
    case start
    have "sound {#} st {#} (st\<lparr>ow_phase := Started\<rparr>)" by (rule sound_move [OF bal]) (simp_all add: pending_def)
    then show ?thesis using refl by (simp add: start start_writer_def)
  next
    case (admit sequence payload)
    have "sound {#} st {#} (s\<lparr>ow_inflight := w # ow_inflight s\<rparr>)" if "try_admit sequence payload False st = Some (w, s)" for w s
      by (rule sound_trans [OF sound_admit [OF bal that]], rule sound_move) (simp_all add: pending_def)
    then show ?thesis using refl sound_close [OF bal]
      by (auto simp: admit enqueue_admit_def Let_def split: option.splits)
  next
    case (send request)
    let ?s = "st\<lparr>ow_inflight := remove1 request (ow_inflight st)\<rparr>"
    note taken = take_inflight [OF bal send(2)]
    then have bal': "balanced {#request#} ?s" by (simp add: sound_def)
    have "sound {#request#} ?s {#} (state_close (complete (Backpressure n) request ?s))" for n
      using sound_complete [OF bal'] sound_close by (metis sound_trans)
    moreover have "sound {#request#} ?s {#} (complete o' request (state_close ?s))" for o'
      using sound_close [OF bal'] sound_complete by (metis sound_trans)
    ultimately have "sound {#request#} ?s {#} st'"
      using sound_try_send [OF bal'] by (auto simp: send enqueue_send_def Let_def split: sum.splits send_error.splits)
    with taken show ?thesis by (rule sound_trans)
  next
    case (admit_skip sequence)
    have "sound {#} st {#} (s\<lparr>ow_inflight := w # ow_inflight s\<rparr>)" if "try_admit sequence (Ready []) True st = Some (w, s)" for w s
      by (rule sound_trans [OF sound_admit [OF bal that]], rule sound_move) (simp_all add: pending_def)
    then show ?thesis using refl sound_close [OF bal] by (auto simp: admit_skip skip_admit_def split: option.splits)
  next
    case (send_skip request)
    let ?s = "st\<lparr>ow_inflight := remove1 request (ow_inflight st)\<rparr>"
    note taken = take_inflight [OF bal send_skip(2)]
    then have bal': "balanced {#request#} ?s" by (simp add: sound_def)
    have "sound {#request#} ?s {#} (state_close (complete o' request ?s))" for o'
      using sound_complete [OF bal'] sound_close by (metis sound_trans)
    then have "sound {#request#} ?s {#} st'"
      using sound_try_send [OF bal'] by (auto simp: send_skip skip_send_def Let_def split: sum.splits)
    with taken show ?thesis by (rule sound_trans)
  next
    case senders_gone
    then show ?thesis by (simp, intro sound_move [OF bal]) (simp_all add: pending_def)
  next
    case enter
    then show ?thesis using refl sound_fail_pending [OF bal] by (simp add: next_enter_def split: WriterPhase.splits)
  next
    case (reported w outcome)
    let ?s = "st\<lparr>ow_in_hand := remove1 w (ow_in_hand st)\<rparr>"
    have "sound {#} st {#w#} ?s"
      using remove1_pending(2) [OF reported(2)] by (intro sound_move [OF bal]) simp_all
    then show ?thesis unfolding reported(1) report_def by (rule sound_trans) (rule sound_complete)
  qed (use sound_close [OF bal] sound_next_poll [OF bal sorted] sound_next_select [OF bal] sound_fail_closed [OF bal] in
    \<open>simp_all add: drop_writer_def fail_closed_def\<close>)
qed

lemma ordered_frame:
  "ordered (st\<lparr>ow_senders := b\<rparr>) = ordered st" "ordered (st\<lparr>ow_in_hand := ws\<rparr>) = ordered st"
  "ordered (st\<lparr>ow_permits := n\<rparr>) = ordered st" "ordered (st\<lparr>ow_next_completion := n\<rparr>) = ordered st"
  by (simp_all add: ordered_def)

lemma writer_step_ordered:
  assumes "writer_step st st'" "ordered st" shows "ordered st'"
proof -
  have sent: "ordered st'" if "try_send w (st\<lparr>ow_inflight := remove1 w (ow_inflight st)\<rparr>) = Inr st'" "w \<in> set (ow_inflight st)" for w st'
  proof -
    from that(1) have "st' = st\<lparr>ow_inflight := remove1 w (ow_inflight st), ow_queue := ow_queue st @ [w]\<rparr>" "\<not> ow_receiver_closed st"
      by (auto simp: try_send_def split: if_splits)
    moreover have "qw_permit w" "\<forall>x \<in> set (remove1 w (ow_inflight st)). qw_permit x"
      using that(2) assms(2) set_remove1_subset [of w "ow_inflight st"] by (auto simp: ordered_def)
    ultimately show ?thesis using assms(2) by (simp add: ordered_def) blast
  qed
  have taken: "ordered (st\<lparr>ow_inflight := remove1 w (ow_inflight st)\<rparr>)" for w
    using assms(2) set_remove1_subset [of w "ow_inflight st"] by (auto simp: ordered_def)
  have admitted: "ordered (s\<lparr>ow_inflight := w # ow_inflight s\<rparr>)" if "try_admit sequence payload skip st = Some (w, s)" for sequence payload skip w s
    using that assms(2) by (auto simp: try_admit_def QueuedWrite_new_def ordered_def split: if_splits)
  from assms(1) show ?thesis
  proof cases
    case (stage payload)
    then show ?thesis using assms(2)
      by (auto simp: stage_bootstrap_payload_def QueuedWrite_new_def ordered_complete ordered_def)
  next
    case start
    then show ?thesis using assms(2) by (auto simp: start_writer_def ordered_def)
  next
    case (admit sequence payload)
    then show ?thesis using assms(2) admitted
      by (auto simp: enqueue_admit_def Let_def ordered_close split: option.splits)
  next
    case (send request)
    then show ?thesis using sent taken
      by (auto simp: enqueue_send_def Let_def ordered_complete ordered_close split: sum.splits send_error.splits)
  next
    case (admit_skip sequence)
    then show ?thesis using assms(2) admitted by (auto simp: skip_admit_def ordered_close split: option.splits)
  next
    case (send_skip request)
    then show ?thesis using sent taken
      by (auto simp: skip_send_def Let_def ordered_complete ordered_close split: sum.splits)
  next
    case enter
    then show ?thesis using assms(2) ordered_fail_pending by (auto simp: next_enter_def split: WriterPhase.splits)
  next
    case (reported w outcome)
    then show ?thesis using assms(2) by (simp add: report_def ordered_complete ordered_frame)
  qed (use assms(2) ordered_next_poll ordered_next_select ordered_close ordered_fail_closed in
    \<open>auto simp: ordered_frame drop_writer_def simp flip: fail_closed_def\<close>)
qed

lemma writer_new_inv: "QueuedOutboundSink_new capacity timeout = Some st \<Longrightarrow> writer_inv st"
  by (auto simp: QueuedOutboundSink_new_def writer_inv_def balanced_def ordered_def pending_def split: if_splits)

lemma writer_run_inv: "writer_step\<^sup>*\<^sup>* st st' \<Longrightarrow> writer_inv st \<Longrightarrow> writer_inv st'"
proof (induction rule: rtranclp_induct)
  case (step y z)
  then show ?case using writer_step_sound [OF step(2)] writer_step_ordered [OF step(2)]
    by (simp add: writer_inv_def sound_def)
qed

section \<open>Properties\<close>

lemma accept_expected_accepted:
  "\<exists>ws. ow_accepted (snd (accept_expected w st)) = ow_accepted st @ ws"
  by (auto simp: accept_expected_def fail_closed_def split: option.splits)

lemma accept_turn_accepted: "\<exists>ws. ow_accepted (snd (accept_turn w st)) = ow_accepted st @ ws"
  using accept_expected_accepted [of w st] by (auto simp: accept_turn_def split: prod.splits option.splits)

lemma accept_turn_Return:
  "accept_turn w st = (Return (Some v), st') \<Longrightarrow>
   v = w \<and> qw_sequence w = ow_next_sequence st \<and> \<not> qw_skip w \<and> ow_accepted st' = ow_accepted st @ [w]"
  by (auto simp: accept_turn_def accept_expected_def split: prod.splits option.splits if_splits)

text \<open>What a turn can be: the end of a closed writer, one accepted write, or neither.\<close>

lemma next_poll_shape:
  obtains (closed) s where "ow_phase st = Closed" "next_poll now st = (Return None, fail_pending CLOSED_ERROR s)"
      "ow_phase s = Closed" "ow_accepted s = ow_accepted st"
  | (take) w s where "ow_phase st \<noteq> Closed" "next_poll now st = accept_turn w s" "ow_next_sequence s = ow_next_sequence st"
      "ow_accepted s = ow_accepted st"
  | (wait) s where "ow_phase st \<noteq> Closed" "next_poll now st = (Waiting, s)" "ow_accepted s = ow_accepted st" "polled s"
proof -
  define s where "s = note_gap now st"
  have s: "ow_phase s = ow_phase st" "ow_accepted s = ow_accepted st" "ow_next_sequence s = ow_next_sequence st"
    "ow_reordered s \<noteq> [] \<Longrightarrow> ow_gap_started s \<noteq> None" by (simp_all add: s_def note_gap_started)
  note poll = next_poll_def [of now st, unfolded Let_def, folded s_def]
  show thesis
  proof (cases "ow_phase s = Closed")
    case True
    with closed [of s] s poll show ?thesis by simp
  next
    case False
    note running = this
    show ?thesis
    proof (cases "ow_bootstrap s")
      case (Cons w ws)
      with take [of w "s\<lparr>ow_bootstrap := ws\<rparr>"] running s poll show ?thesis by simp
    next
      case Nil
      show ?thesis
      proof (cases "map_of (ow_reordered s) (ow_next_sequence s)")
        case None
        with wait [of s] Nil running s poll show ?thesis by (simp add: polled_def)
      next
        case (Some w)
        with take [of w "s\<lparr>ow_reordered := reordered_remove (ow_next_sequence s) (ow_reordered s)\<rparr>"] Nil running s poll
        show ?thesis by simp
      qed
    qed
  qed
qed

lemma receive_cases:
  "receive w st = accept_turn w st
   \<or> (\<exists>out. receive w st = (Return None, fail_pending CLOSED_ERROR (state_close (complete out w st))))
   \<or> receive w st = (Again, st\<lparr>ow_reordered := bt_insert (qw_sequence w) w (ow_reordered st)\<rparr>)"
  by (auto simp: receive_def fail_closed_def)

lemma next_select_shape:
  obtains (closed) error s where "next_select now st = (Return None, fail_pending error s)" "ow_phase s = Closed"
      "ow_accepted s = ow_accepted st"
  | (take) w s where "ow_phase st \<noteq> Closed" "next_select now st = accept_turn w s" "ow_next_sequence s = ow_next_sequence st"
      "ow_accepted s = ow_accepted st"
  | (other) r s where "ow_phase st \<noteq> Closed" "next_select now st = (r, s)" "r = Again \<or> r = Waiting" "ow_accepted s = ow_accepted st"
proof (cases "ow_phase st = Closed")
  case True
  then show ?thesis by (intro closed [of CLOSED_ERROR st]) (simp_all add: next_select_def)
next
  case False
  note running = this
  show ?thesis
  proof (cases "gap_expired now st")
    case True
    with running show ?thesis
      by (intro closed [of "''outbound sequence gap timed out''" "state_close st"]) (simp_all add: next_select_def)
  next
    case False
    note early = this
    show ?thesis
    proof (cases "ow_queue st")
      case Nil
      show ?thesis
      proof (cases "ow_receiver_closed st \<or> \<not> ow_senders st")
        case True
        with running early Nil show ?thesis by (intro closed [of CLOSED_ERROR "state_close st"]) (simp_all add: next_select_def)
      next
        case False
        with running early Nil show ?thesis by (intro other [of Waiting st]) (simp_all add: next_select_def)
      qed
    next
      case (Cons w ws)
      let ?s = "st\<lparr>ow_queue := ws\<rparr>"
      have select: "next_select now st = receive w ?s" using running early Cons by (simp add: next_select_def)
      from receive_cases [of w ?s] consider "receive w ?s = accept_turn w ?s"
        | out where "receive w ?s = (Return None, fail_pending CLOSED_ERROR (state_close (complete out w ?s)))"
        | "receive w ?s = (Again, ?s\<lparr>ow_reordered := bt_insert (qw_sequence w) w (ow_reordered ?s)\<rparr>)" by blast
      then show ?thesis
      proof cases
        case 1
        with running select show ?thesis by (intro take [of w ?s]) simp_all
      next
        case 2
        then show ?thesis unfolding select [symmetric] by (rule closed) simp_all
      next
        case 3
        then show ?thesis unfolding select [symmetric] by (rule other [OF running]) simp_all
      qed
    qed
  qed
qed

lemma next_Return:
  assumes "next_poll now st = (Return (Some w), st') \<or> next_select now st = (Return (Some w), st')"
  shows "qw_sequence w = ow_next_sequence st \<and> \<not> qw_skip w \<and> ow_accepted st' = ow_accepted st @ [w]"
  using assms
proof
  assume "next_poll now st = (Return (Some w), st')"
  then show ?thesis by (cases rule: next_poll_shape [of st now]) (auto dest: accept_turn_Return)
next
  assume "next_select now st = (Return (Some w), st')"
  then show ?thesis by (cases rule: next_select_shape [of now st]) (auto dest: accept_turn_Return)
qed

lemma next_accepted:
  "\<exists>ws. ow_accepted (snd (next_poll now st)) = ow_accepted st @ ws"
  "\<exists>ws. ow_accepted (snd (next_select now st)) = ow_accepted st @ ws"
  subgoal by (rule next_poll_shape [of st now]) (use accept_turn_accepted in \<open>auto, metis\<close>)
  subgoal by (rule next_select_shape [of now st]) (use accept_turn_accepted in \<open>auto, metis\<close>)
  done

lemma next_closed:
  assumes "ow_phase st = Closed"
  shows "ow_phase (snd (next_poll now st)) = Closed" "ow_accepted (snd (next_poll now st)) = ow_accepted st"
    "ow_phase (snd (next_select now st)) = Closed" "ow_accepted (snd (next_select now st)) = ow_accepted st"
  using assms by (simp_all add: next_poll_def next_select_def Let_def)

lemma try_admit_frame:
  "try_admit sequence payload skip st = Some (w, s) \<Longrightarrow> ow_accepted s = ow_accepted st \<and> ow_phase s = ow_phase st"
  by (auto simp: try_admit_def QueuedWrite_new_def split: if_splits)

lemma try_send_frame:
  "try_send w st = Inr s \<Longrightarrow> ow_accepted s = ow_accepted st \<and> ow_phase s = ow_phase st"
  by (auto simp: try_send_def split: if_splits)

lemma writer_step_accepted:
  assumes "writer_step st st'"
  shows "(\<exists>ws. ow_accepted st' = ow_accepted st @ ws) \<and> (ow_phase st = Closed \<longrightarrow> ow_phase st' = Closed \<and> ow_accepted st' = ow_accepted st)"
  using assms
proof cases
  case (admit sequence payload)
  then show ?thesis by (auto simp: enqueue_admit_def Let_def dest: try_admit_frame split: option.splits)
next
  case (send request)
  then show ?thesis by (auto simp: enqueue_send_def Let_def dest: try_send_frame split: sum.splits send_error.splits)
next
  case (admit_skip sequence)
  then show ?thesis by (auto simp: skip_admit_def dest: try_admit_frame split: option.splits)
next
  case (send_skip request)
  then show ?thesis by (auto simp: skip_send_def Let_def dest: try_send_frame split: sum.splits)
next
  case (poll now)
  then show ?thesis using next_accepted(1) [of now st] next_closed by simp
next
  case (select now)
  then show ?thesis using next_accepted(2) [of now st] next_closed by simp
qed (auto simp: stage_bootstrap_payload_def QueuedWrite_new_def start_writer_def next_enter_def report_def fail_closed_def
  drop_writer_def split: WriterPhase.splits)

lemma held_all: "\<forall>w \<in> set ws. qw_permit w \<Longrightarrow> held (mset ws) = length ws"
  by (induction ws) auto

lemma run_facts:
  assumes "QueuedOutboundSink_new capacity timeout = Some st0" "writer_step\<^sup>*\<^sup>* st0 st"
  shows "balanced {#} st" "ordered st"
  using writer_run_inv [OF assms(2) writer_new_inv [OF assms(1)]] by (simp_all add: writer_inv_def)

lemma permits_bound:
  assumes "balanced {#} st" "ordered st"
  shows "ow_permits st + length (ow_queue st) + length (ow_reordered st) + length (ow_inflight st) \<le> ow_capacity st"
proof -
  have "held (mset (ow_queue st)) = length (ow_queue st)" "held (mset (ow_inflight st)) = length (ow_inflight st)"
    using assms(2) by (auto simp: ordered_def intro!: held_all)
  moreover have "held (mset (map snd (ow_reordered st))) = length (map snd (ow_reordered st))"
    using assms(2) by (intro held_all) (auto simp: ordered_def entry_ok_def)
  ultimately show ?thesis using assms(1) by (simp add: balanced_def pending_def)
qed

text \<open>C32: the transport sees the writes in sequence, without gap or repetition. In every run of senders,
  writer and transport: the accepted writes carry the numbers 1, 2, 3, ... up to the writer's mark;
  what \<open>next\<close> returns is the write with exactly that mark, and not a skipped one; acceptance is never
  revoked; and once the writer is closed nothing is accepted any more.\<close>

theorem outbound_in_sequence:
  assumes "QueuedOutboundSink_new capacity timeout = Some st0" "writer_step\<^sup>*\<^sup>* st0 st" "writer_step st st'"
  shows "map qw_sequence (ow_accepted st) = [1 ..< ow_next_sequence st]
    \<and> (\<forall>now w s. next_poll now st = (Return (Some w), s) \<or> next_select now st = (Return (Some w), s) \<longrightarrow>
         qw_sequence w = ow_next_sequence st \<and> \<not> qw_skip w \<and> ow_accepted s = ow_accepted st @ [w])
    \<and> (\<exists>ws. ow_accepted st' = ow_accepted st @ ws)
    \<and> (ow_phase st = Closed \<longrightarrow> ow_phase st' = Closed \<and> ow_accepted st' = ow_accepted st)"
  using run_facts(2) [OF assms(1,2)] next_Return writer_step_accepted [OF assms(3)]
  by (simp add: ordered_def)

text \<open>C33: every write gets exactly one answer, in bounded space. In every run: an outcome that was sent
  never changes, and only writes that exist have one; when the writer has closed and no sender or
  transport holds a write, all have one. The queue and the reorder buffer together with the writes in
  flight and the free permits never exceed the capacity; so \<open>try_send\<close> never finds the channel full and a
  received write never meets a full reorder buffer.\<close>

theorem every_write_answered_once:
  assumes "QueuedOutboundSink_new capacity timeout = Some st0" "writer_step\<^sup>*\<^sup>* st0 st" "writer_step st st'"
  shows "ow_outcomes st \<subseteq>\<^sub>m ow_outcomes st' \<and> dom (ow_outcomes st) \<subseteq> {..< ow_next_completion st}
    \<and> (ow_closed st \<and> ow_inflight st = [] \<and> ow_in_hand st = [] \<longrightarrow> dom (ow_outcomes st) = {..< ow_next_completion st})
    \<and> ow_permits st + length (ow_queue st) + length (ow_reordered st) + length (ow_inflight st) \<le> ow_capacity st
    \<and> (\<forall>w \<in> set (ow_inflight st). try_send w st \<noteq> Inl SendFull)
    \<and> (ow_queue st \<noteq> [] \<longrightarrow> length (ow_reordered st) < ow_capacity st)"
proof -
  note run = run_facts [OF assms(1,2)]
  have inv: "writer_inv st" using run by (simp add: writer_inv_def)
  have sent: "ow_outcomes st \<subseteq>\<^sub>m ow_outcomes st'" using writer_step_sound [OF assms(3) inv] by (simp add: sound_def)
  have counts: "count (image_mset qw_completion (pending st)) i + (if ow_outcomes st i = None then 0 else 1)
      = (if i < ow_next_completion st then 1 else 0)" for i using run(1) by (simp add: balanced_def)
  have known: "i < ow_next_completion st" if "ow_outcomes st i = Some out" for i out
    using counts [of i] that by (simp split: if_splits)
  have all: "dom (ow_outcomes st) = {..< ow_next_completion st}" if "ow_closed st" "ow_inflight st = []" "ow_in_hand st = []"
  proof -
    have "pending st = {#}" using that run(2) by (simp add: pending_def ordered_def)
    then have "ow_outcomes st i \<noteq> None" if "i < ow_next_completion st" for i
      using counts [of i] that by (simp split: if_splits)
    then show ?thesis using known by auto
  qed
  note bound = permits_bound [OF run]
  have "try_send w st \<noteq> Inl SendFull" if "w \<in> set (ow_inflight st)" for w
  proof -
    from that have "0 < length (ow_inflight st)" by (cases "ow_inflight st") auto
    with bound have "length (ow_queue st) < ow_capacity st" by linarith
    then show ?thesis by (simp add: try_send_def)
  qed
  moreover have "length (ow_reordered st) < ow_capacity st" if "ow_queue st \<noteq> []"
    using bound that by (cases "ow_queue st") auto
  ultimately show ?thesis using sent known all bound by auto
qed

section \<open>A sample run\<close>

text \<open>Two writes arrive in the wrong order; the writer puts them in sequence.\<close>

definition sample_write :: "u64 \<Rightarrow> nat \<Rightarrow> QueuedWrite" where
  "sample_write sequence completion = \<lparr>qw_sequence = sequence, qw_payload = Ready [], qw_skip = False, qw_permit = True, qw_completion = completion\<rparr>"

definition sample_fresh :: outbound_writer where
  "sample_fresh = \<lparr>ow_phase = Staging, ow_bootstrap = [], ow_queue = [], ow_receiver_closed = False, ow_senders = True,
     ow_capacity = 2, ow_permits = 2, ow_closed = False, ow_next_sequence = 1, ow_reordered = [], ow_gap_timeout = 5,
     ow_gap_started = None, ow_inflight = [], ow_in_hand = [], ow_accepted = [], ow_outcomes = Map.empty, ow_next_completion = 0\<rparr>"

definition sample_queued :: outbound_writer where
  "sample_queued = sample_fresh\<lparr>ow_phase := Started, ow_queue := [sample_write 2 0, sample_write 1 1], ow_permits := 0, ow_next_completion := 2\<rparr>"

definition sample_sent :: outbound_writer where
  "sample_sent = sample_fresh\<lparr>ow_phase := Started, ow_permits := 0, ow_next_completion := 2, ow_next_sequence := 2,
     ow_reordered := [(2, sample_write 2 0)], ow_gap_started := None, ow_in_hand := [sample_write 1 1],
     ow_accepted := [sample_write 1 1]\<rparr>"

lemma sample_sends: "writer_step\<^sup>*\<^sup>* sample_fresh sample_queued"
proof -
  let ?a = "sample_fresh\<lparr>ow_phase := Started\<rparr>"
  let ?b = "?a\<lparr>ow_inflight := [sample_write 2 0], ow_permits := 1, ow_next_completion := 1\<rparr>"
  let ?c = "?b\<lparr>ow_inflight := [sample_write 1 1, sample_write 2 0], ow_permits := 0, ow_next_completion := 2\<rparr>"
  let ?d = "?c\<lparr>ow_inflight := [sample_write 1 1], ow_queue := [sample_write 2 0]\<rparr>"
  note eval = sample_fresh_def sample_write_def enqueue_admit_def try_admit_def QueuedWrite_new_def enqueue_send_def try_send_def
    start_writer_def sample_queued_def Let_def numeral_2_eq_2
  have "writer_step sample_fresh ?a" using writer_step.start [of sample_fresh] by (simp add: eval)
  moreover have "writer_step ?a ?b" using writer_step.admit [of ?a 2 "Ready []"] by (simp add: eval)
  moreover have "writer_step ?b ?c" using writer_step.admit [of ?b 1 "Ready []"] by (simp add: eval)
  moreover have "writer_step ?c ?d" using writer_step.send [of "sample_write 2 0" ?c] by (simp add: eval)
  moreover have "writer_step ?d sample_queued" using writer_step.send [of "sample_write 1 1" ?d] by (simp add: eval)
  ultimately show ?thesis by (meson rtranclp.rtrancl_into_rtrancl rtranclp.rtrancl_refl)
qed

lemma sample_takes: "writer_step\<^sup>*\<^sup>* sample_queued sample_sent" "polled sample_queued"
proof -
  let ?e = "sample_queued\<lparr>ow_queue := [sample_write 1 1], ow_reordered := [(2, sample_write 2 0)]\<rparr>"
  let ?f = "?e\<lparr>ow_gap_started := Some 1\<rparr>"
  note eval = sample_fresh_def sample_write_def sample_queued_def sample_sent_def next_select_def next_poll_def note_gap_def
    receive_def gap_expired_def accept_turn_def accept_expected_def checked_add_u64_def u64_max_def polled_def Let_def numeral_2_eq_2
  show polled: "polled sample_queued" by (simp add: eval)
  have "writer_step sample_queued ?e" using writer_step.select [of sample_queued 0] by (simp add: eval)
  moreover have "writer_step ?e ?f" using writer_step.poll [of ?e 1] by (simp add: eval)
  moreover have "writer_step ?f sample_sent" using writer_step.select [of ?f 2] by (simp add: eval)
  ultimately show "writer_step\<^sup>*\<^sup>* sample_queued sample_sent" by (meson rtranclp.rtrancl_into_rtrancl rtranclp.rtrancl_refl)
qed

lemma sample_new: "QueuedOutboundSink_new 2 5 = Some sample_fresh"
  by (simp add: QueuedOutboundSink_new_def sample_fresh_def)

theorem outbound_in_sequence_witness:
  "map qw_sequence (ow_accepted sample_sent) = [1 ..< ow_next_sequence sample_sent] \<and> ow_next_sequence sample_sent = 2"
proof -
  have "writer_step\<^sup>*\<^sup>* sample_fresh sample_sent" using sample_sends sample_takes(1) by (rule rtranclp_trans)
  from outbound_in_sequence [OF sample_new this writer_step.close] show ?thesis by (simp add: sample_sent_def)
qed

theorem every_write_answered_once_witness:
  "ow_permits sample_queued + length (ow_queue sample_queued) + length (ow_reordered sample_queued)
     + length (ow_inflight sample_queued) \<le> ow_capacity sample_queued \<and> length (ow_queue sample_queued) = 2"
  using every_write_answered_once [OF sample_new sample_sends writer_step.close] by (simp add: sample_queued_def)

end
