(* ===== verification/Store_Tx.thy ===== *)
theory Store_Tx
  imports Prelude
begin

text \<open>
  Transactions of the store (\<open>crates/store/src/connection.rs\<close>) and their errors
  (\<open>crates/store/src/error.rs\<close>). A write transaction holds SQLite's single writer from
  \<open>BEGIN IMMEDIATE\<close> on, so it runs alone: a function of the database that fails with an error or returns a value and
  the changed database. A transaction that fails is dropped, which rolls it back; \<open>run_write\<close> says so.
\<close>

section \<open>Errors\<close>

text \<open>What \<open>sqlx\<close> reports (a constraint, a trigger's \<open>RAISE\<close>) is \<open>Database\<close>, without its text.\<close>

datatype StoreError =
    IdentityConflict string string
  | ObservationConflict string string i64
  | NotFound string string
  | StaleWrite string string
  | InvalidRecord string string string
  | CorruptData string string string
  | SnapshotUnavailable string string
  | InvalidInteger string u64
  | InvalidSequence string
  | Initialization string
  | Serialization string
  | Database

definition corrupt :: "string \<Rightarrow> string \<Rightarrow> string \<Rightarrow> StoreError" where
  "corrupt entity key reason = CorruptData entity key reason"

definition conflict :: "string \<Rightarrow> string \<Rightarrow> StoreError" where
  "conflict entity key = IdentityConflict entity key"

definition is_corrupt :: "StoreError \<Rightarrow> bool" where
  "is_corrupt e \<longleftrightarrow> (case e of CorruptData _ _ _ \<Rightarrow> True | _ \<Rightarrow> False)"

datatype 'a WriteOutcome = Inserted 'a | Duplicate 'a

primrec into_record :: "'a WriteOutcome \<Rightarrow> 'a" where
  "into_record (Inserted record) = record"
| "into_record (Duplicate record) = record"

primrec was_inserted :: "'a WriteOutcome \<Rightarrow> bool" where
  "was_inserted (Inserted _) = True"
| "was_inserted (Duplicate _) = False"

section \<open>Transactions\<close>

type_synonym ('s, 'e, 'a) transaction = "'s \<Rightarrow> ('e, 'a \<times> 's) result"

type_synonym ('s, 'a) tx = "('s, StoreError, 'a) transaction"

definition returnT :: "'a \<Rightarrow> ('s, 'e, 'a) transaction" where
  "returnT a = (\<lambda>s. Inr (a, s))"

definition throwT :: "'e \<Rightarrow> ('s, 'e, 'a) transaction" where
  "throwT e = (\<lambda>s. Inl e)"

definition bindT :: "('s, 'e, 'a) transaction \<Rightarrow> ('a \<Rightarrow> ('s, 'e, 'b) transaction) \<Rightarrow> ('s, 'e, 'b) transaction" where
  "bindT m f = (\<lambda>s. case m s of Inl e \<Rightarrow> Inl e | Inr (a, s') \<Rightarrow> f a s')"

definition liftT :: "('e, 'a) result \<Rightarrow> ('s, 'e, 'a) transaction" where
  "liftT r = (\<lambda>s. case r of Inl e \<Rightarrow> Inl e | Inr a \<Rightarrow> Inr (a, s))"

definition readT :: "('s \<Rightarrow> 'a) \<Rightarrow> ('s, 'e, 'a) transaction" where
  "readT f = (\<lambda>s. Inr (f s, s))"

primrec for_eachT :: "('a \<Rightarrow> ('s, unit) tx) \<Rightarrow> 'a list \<Rightarrow> ('s, unit) tx" where
  "for_eachT f [] = returnT ()"
| "for_eachT f (x # xs) = bindT (f x) (\<lambda>_. for_eachT f xs)"

primrec mapT :: "('a \<Rightarrow> ('s, 'b) tx) \<Rightarrow> 'a list \<Rightarrow> ('s, 'b list) tx" where
  "mapT f [] = returnT []"
| "mapT f (x # xs) = bindT (f x) (\<lambda>y. bindT (mapT f xs) (\<lambda>ys. returnT (y # ys)))"

primrec foldT :: "('a \<Rightarrow> 'b \<Rightarrow> ('s, 'b) tx) \<Rightarrow> 'b \<Rightarrow> 'a list \<Rightarrow> ('s, 'b) tx" where
  "foldT f acc [] = returnT acc"
| "foldT f acc (x # xs) = bindT (f x acc) (\<lambda>acc'. foldT f acc' xs)"

text \<open>\<open>fetch_optional\<close> with the decoding of the row, and \<open>ok_or_else\<close> on its result.\<close>

definition fetchT :: "('s \<Rightarrow> 'r option) \<Rightarrow> ('r \<Rightarrow> (StoreError, 'a) result) \<Rightarrow> ('s, 'a option) tx" where
  "fetchT select decode = bindT (readT select) (\<lambda>row. case row of
     None \<Rightarrow> returnT None
   | Some r \<Rightarrow> bindT (liftT (decode r)) (\<lambda>x. returnT (Some x)))"

definition requiredT :: "StoreError \<Rightarrow> ('s, 'a option) tx \<Rightarrow> ('s, 'a) tx" where
  "requiredT e m = bindT m (\<lambda>v. case v of None \<Rightarrow> throwT e | Some x \<Rightarrow> returnT x)"

text \<open>\<open>begin_write\<close>, the body, \<open>commit\<close>; on an error the transaction is dropped without a commit.\<close>

definition run_write :: "('s, 'a) tx \<Rightarrow> 's \<Rightarrow> (StoreError, 'a) result \<times> 's" where
  "run_write m s = (case m s of Inl e \<Rightarrow> (Inl e, s) | Inr (a, s') \<Rightarrow> (Inr a, s'))"

section \<open>Rules\<close>

lemma tx_simps [simp]:
  "returnT a s = Inr (a, s)" "throwT e s = Inl e" "readT f s = Inr (f s, s)"
  "liftT (Inl e) s = Inl e" "liftT (Inr a) s = Inr (a, s)"
  by (simp_all add: returnT_def throwT_def readT_def liftT_def)

lemma bindT_simps [simp]:
  "bindT (returnT a) f = f a" "bindT (throwT e) f = throwT e"
  "bindT (liftT (Inr a)) f = f a" "bindT (liftT (Inl e)) f = throwT e"
  by (simp_all add: bindT_def returnT_def throwT_def liftT_def)

lemma bindT_readT [simp]: "bindT (readT f) g s = g (f s) s"
  by (simp add: bindT_def readT_def)

lemma bindT_apply: "bindT m f s = (case m s of Inl e \<Rightarrow> Inl e | Inr (a, s') \<Rightarrow> f a s')"
  by (simp add: bindT_def)

lemma bindT_Inr: "m s = Inr (a, s') \<Longrightarrow> bindT m f s = f a s'"
  by (simp add: bindT_def)

lemma bindT_Inl: "m s = Inl e \<Longrightarrow> bindT m f s = Inl e"
  by (simp add: bindT_def)

lemma bindT_eq_Inr: "bindT m f s = Inr r \<longleftrightarrow> (\<exists>a s'. m s = Inr (a, s') \<and> f a s' = Inr r)"
  by (auto simp: bindT_def split: sum.split prod.split)

lemma bindT_InrE:
  assumes "bindT m f s = Inr r"
  obtains a s' where "m s = Inr (a, s')" "f a s' = Inr r"
  using assms by (auto simp: bindT_eq_Inr)

lemma bindT_eq_Inl: "bindT m f s = Inl e \<longleftrightarrow> m s = Inl e \<or> (\<exists>a s'. m s = Inr (a, s') \<and> f a s' = Inl e)"
  by (auto simp: bindT_def split: sum.split prod.split)

lemma liftT_eq_Inr: "liftT r s = Inr (a, s') \<longleftrightarrow> r = Inr a \<and> s' = s"
  by (cases r) auto

lemma liftT_eq_Inl: "liftT r s = Inl e \<longleftrightarrow> r = Inl e"
  by (cases r) auto

lemma fetchT_eq_Inr:
  "fetchT select decode s = Inr (v, s') \<longleftrightarrow> s' = s \<and>
     (case select s of None \<Rightarrow> v = None | Some r \<Rightarrow> \<exists>x. decode r = Inr x \<and> v = Some x)"
  by (auto simp: fetchT_def bindT_eq_Inr liftT_eq_Inr split: option.splits)

lemma requiredT_eq_Inr: "requiredT e m s = Inr (x, s') \<longleftrightarrow> m s = Inr (Some x, s')"
  by (auto simp: requiredT_def bindT_eq_Inr split: option.splits)

lemma run_write_ok: "run_write m s = (Inr a, s') \<longleftrightarrow> m s = Inr (a, s')"
  by (auto simp: run_write_def split: sum.split prod.split)

lemma run_write_error: "run_write m s = (Inl e, s') \<Longrightarrow> s' = s"
  by (auto simp: run_write_def split: sum.splits prod.splits)

section \<open>Weakest preconditions\<close>

text \<open>
  \<open>wpT m Q s\<close>: from the state \<open>s\<close>, \<open>m\<close> returns a value and a state in \<open>Q\<close>, or fails, but not because
  what it read was corrupt.
\<close>

named_theorems wp

definition wpT :: "('s, 'a) tx \<Rightarrow> ('a \<Rightarrow> 's \<Rightarrow> bool) \<Rightarrow> 's \<Rightarrow> bool" where
  "wpT m Q s \<longleftrightarrow> (case m s of Inl e \<Rightarrow> \<not> is_corrupt e | Inr (a, s') \<Rightarrow> Q a s')"

lemma wpT_ok: "wpT m Q s \<Longrightarrow> m s = Inr (a, s') \<Longrightarrow> Q a s'"
  by (simp add: wpT_def)

lemma wpT_error: "wpT m Q s \<Longrightarrow> m s = Inl e \<Longrightarrow> \<not> is_corrupt e"
  by (simp add: wpT_def)

lemma wpT_I:
  assumes "\<And>a s'. m s = Inr (a, s') \<Longrightarrow> Q a s'" and "\<And>e. m s = Inl e \<Longrightarrow> \<not> is_corrupt e"
  shows "wpT m Q s"
  using assms by (auto simp: wpT_def split: sum.split prod.split)

lemma wpT_mono: "wpT m Q s \<Longrightarrow> (\<And>a s'. Q a s' \<Longrightarrow> Q' a s') \<Longrightarrow> wpT m Q' s"
  by (auto simp: wpT_def split: sum.splits prod.splits)

lemma wpT_bind: "wpT m Q s \<Longrightarrow> (\<And>a s'. Q a s' \<Longrightarrow> wpT (f a) R s') \<Longrightarrow> wpT (bindT m f) R s"
  by (cases "m s") (auto simp: wpT_def bindT_def)

lemma wpT_return [wp]: "Q a s \<Longrightarrow> wpT (returnT a) Q s"
  by (simp add: wpT_def)

lemma wpT_throw [wp]: "\<not> is_corrupt e \<Longrightarrow> wpT (throwT e) Q s"
  by (simp add: wpT_def)

lemma wpT_read [wp]: "Q (f s) s \<Longrightarrow> wpT (readT f) Q s"
  by (simp add: wpT_def)

lemma wpT_if [wp]: "(b \<Longrightarrow> wpT m Q s) \<Longrightarrow> (\<not> b \<Longrightarrow> wpT m' Q s) \<Longrightarrow> wpT (if b then m else m') Q s"
  by simp

lemma wpT_option [wp]:
  "(v = None \<Longrightarrow> wpT m Q s) \<Longrightarrow> (\<And>x. v = Some x \<Longrightarrow> wpT (f x) Q s) \<Longrightarrow>
   wpT (case v of None \<Rightarrow> m | Some x \<Rightarrow> f x) Q s"
  by (cases v) simp_all

lemma wpT_lift [wp]:
  "(\<And>a. r = Inr a \<Longrightarrow> Q a s) \<Longrightarrow> (\<And>e. r = Inl e \<Longrightarrow> \<not> is_corrupt e) \<Longrightarrow> wpT (liftT r) Q s"
  by (cases r) (simp_all add: wpT_def)

lemma wpT_bind_eq: "wpT (bindT m f) Q s \<longleftrightarrow> wpT m (\<lambda>a. wpT (f a) Q) s"
  by (cases "m s") (auto simp: wpT_def bindT_def)

lemma wpT_bindI [wp]: "wpT m (\<lambda>a. wpT (f a) Q) s \<Longrightarrow> wpT (bindT m f) Q s"
  by (rule wpT_bind)

lemma wpT_prod [wp]: "(\<And>a b. p = (a, b) \<Longrightarrow> wpT (f a b) Q s) \<Longrightarrow> wpT (case p of (a, b) \<Rightarrow> f a b) Q s"
  by (cases p) simp

lemma wpT_list [wp]:
  "(v = [] \<Longrightarrow> wpT m Q s) \<Longrightarrow> (\<And>x xs. v = x # xs \<Longrightarrow> wpT (f x xs) Q s) \<Longrightarrow>
   wpT (case v of [] \<Rightarrow> m | x # xs \<Rightarrow> f x xs) Q s"
  by (cases v) simp_all

lemma wpT_eq: "m s = Inr (a, s') \<Longrightarrow> Q a s' \<Longrightarrow> wpT m Q s"
  by (simp add: wpT_def)

lemma wpT_required:
  "wpT m (\<lambda>v s'. case v of None \<Rightarrow> \<not> is_corrupt e | Some x \<Rightarrow> Q x s') s \<Longrightarrow> wpT (requiredT e m) Q s"
  unfolding requiredT_def by (rule wpT_bindI, erule wpT_mono) (auto intro: wp split: option.splits)

text \<open>Loops whose invariant speaks of the elements that are left.\<close>

lemma wpT_for_each:
  assumes "\<And>x xs s. Inv (x # xs) s \<Longrightarrow> wpT (f x) (\<lambda>_. Inv xs) s"
  shows "Inv xs s \<Longrightarrow> wpT (for_eachT f xs) (\<lambda>_. Inv []) s"
proof (induction xs arbitrary: s)
  case (Cons x xs)
  show ?case unfolding for_eachT.simps by (rule wpT_bind [OF assms [OF Cons.prems] Cons.IH])
qed (simp add: wpT_def)

lemma wpT_map:
  assumes "\<And>x xs s. Inv (x # xs) s \<Longrightarrow> wpT (f x) (\<lambda>_. Inv xs) s"
  shows "Inv xs s \<Longrightarrow> wpT (mapT f xs) (\<lambda>_. Inv []) s"
proof (induction xs arbitrary: s)
  case (Cons x xs)
  show ?case unfolding mapT.simps
    by (rule wpT_bind [OF assms [OF Cons.prems] wpT_bind [OF Cons.IH wpT_return]])
qed (simp add: wpT_def)

lemma wpT_fold:
  assumes "\<And>x xs acc s. Inv (x # xs) s \<Longrightarrow> wpT (f x acc) (\<lambda>_. Inv xs) s"
  shows "Inv xs s \<Longrightarrow> wpT (foldT f acc xs) (\<lambda>_. Inv []) s"
proof (induction xs arbitrary: acc s)
  case (Cons x xs)
  show ?case unfolding foldT.simps by (rule wpT_bind [OF assms [OF Cons.prems] Cons.IH])
qed (simp add: wpT_def)

text \<open>Rows that decode to themselves are read as they are.\<close>

lemma decode_rows:
  assumes "\<And>r. r \<in> set rows \<Longrightarrow> decode r = Inr r"
  shows "mapT (\<lambda>r. liftT (decode r)) rows s = Inr (rows, s)"
  using assms by (induction rows) (auto simp: bindT_apply)

section \<open>Versioned tables\<close>

text \<open>
  Rows have a key and a revision. \<open>grows r r'\<close> says what may become of a row: a changed row has a higher
  revision, so a compare-and-set on the revision read before changes that row and no other.
\<close>

locale versioned_rows =
  fixes key :: "'r \<Rightarrow> 'k"
    and revision :: "'r \<Rightarrow> nat"
    and grows :: "'r \<Rightarrow> 'r \<Rightarrow> bool"
  assumes grows_refl: "grows r r"
    and grows_trans: "grows r r' \<Longrightarrow> grows r' r'' \<Longrightarrow> grows r r''"
    and grows_key: "grows r r' \<Longrightarrow> key r' = key r"
    and grows_revision: "grows r r' \<Longrightarrow> r' \<noteq> r \<Longrightarrow> revision r < revision r'"
begin

definition unique :: "'r list \<Rightarrow> bool" where
  "unique rows \<longleftrightarrow> distinct (map key rows)"

definition table_grows :: "'r list \<Rightarrow> 'r list \<Rightarrow> bool" where
  "table_grows rows rows' \<longleftrightarrow> (\<forall>r \<in> set rows. \<exists>r' \<in> set rows'. grows r r')"

definition put :: "'r \<Rightarrow> 'r list \<Rightarrow> 'r list" where
  "put r' rows = map (\<lambda>r. if key r = key r' then r' else r) rows"

lemma unique_inj: "unique rows \<Longrightarrow> r \<in> set rows \<Longrightarrow> r' \<in> set rows \<Longrightarrow> key r = key r' \<Longrightarrow> r = r'"
  by (auto simp: unique_def distinct_map dest: inj_onD)

lemma find_row: "unique rows \<Longrightarrow> find (\<lambda>r. key r = k) rows = Some r \<longleftrightarrow> r \<in> set rows \<and> key r = k"
  by (auto simp: find_Some_iff in_set_conv_nth unique_def distinct_conv_nth)

lemma find_row_None: "find (\<lambda>r. key r = k) rows = None \<longleftrightarrow> k \<notin> key ` set rows"
  by (auto simp: find_None_iff)

lemma table_grows_refl: "table_grows rows rows"
  by (auto simp: table_grows_def intro: grows_refl)

lemma table_grows_trans: "table_grows a b \<Longrightarrow> table_grows b c \<Longrightarrow> table_grows a c"
  unfolding table_grows_def by (meson grows_trans)

lemma table_grows_append: "table_grows rows (rows @ more)"
  by (auto simp: table_grows_def intro: grows_refl)

lemma unchanged_revision:
  assumes "table_grows rows rows'" "unique rows'" "r \<in> set rows" "r' \<in> set rows'"
    and "key r' = key r" "revision r' = revision r"
  shows "r' = r"
proof -
  obtain q where "q \<in> set rows'" "grows r q" using assms(1,3) by (auto simp: table_grows_def)
  then have "r' = q" using assms(2,4,5) grows_key unique_inj by metis
  then show ?thesis using \<open>grows r q\<close> assms(6) grows_revision by (metis less_irrefl)
qed

lemma keys_put [simp]: "map key (put r' rows) = map key rows"
  by (auto simp: put_def)

lemma unique_put [simp]: "unique (put r' rows) = unique rows"
  by (simp add: unique_def)

lemma set_put: "unique rows \<Longrightarrow> r \<in> set rows \<Longrightarrow> key r' = key r \<Longrightarrow> set (put r' rows) = insert r' (set rows - {r})"
  using unique_inj by (fastforce simp: put_def)

lemma table_grows_put: "unique rows \<Longrightarrow> r \<in> set rows \<Longrightarrow> grows r r' \<Longrightarrow> table_grows rows (put r' rows)"
  using grows_key [of r r'] by (auto simp: table_grows_def set_put intro: grows_refl)

lemma unique_append: "unique rows \<Longrightarrow> key r \<notin> key ` set rows \<Longrightarrow> unique (rows @ [r])"
  by (simp add: unique_def)

lemma update_where_put:
  assumes "unique rows" "r \<in> set rows" "key (f r) = key r"
  shows "map (\<lambda>q. if key q = key r \<and> revision q = revision r then f q else q) rows = put (f r) rows"
  unfolding put_def using assms unique_inj by (intro map_cong refl) force

end

end
