(* ===== verification/Canonical_Json.thy ===== *)
theory Canonical_Json
  imports Prelude "HOL-Library.Multiset"
begin

text \<open>
  Canonical JSON (\<open>crates/store/src/json.rs\<close>): the text that is stored and hashed has its object keys
  sorted at every depth. A \<open>serde_json::Value\<close> is a tree; its \<open>Map\<close> is the list of its entries, whose keys are
  distinct. The reader, the printer and SHA-256 are parameters (\<open>json_codec\<close>).
\<close>

datatype json_tree = VNull | VBool bool | VNumber string | VString string | VArray "json_tree list"
  | VObject "(string \<times> json_tree) list"

record CanonicalJson =
  cj_text :: string
  cj_sha256_hex :: string

record json_codec =
  jc_from_str :: "string \<Rightarrow> string + json_tree"
  jc_to_string :: "json_tree \<Rightarrow> string + string"
  jc_sha256 :: "string \<Rightarrow> string"

section \<open>Sorted keys\<close>

text \<open>\<open>Map::insert\<close>: the value of a key that is there is replaced in its place.\<close>

fun map_insert :: "string \<Rightarrow> 'v \<Rightarrow> (string \<times> 'v) list \<Rightarrow> (string \<times> 'v) list" where
  "map_insert k v [] = [(k, v)]"
| "map_insert k v ((k', v') # entries) = (if k' = k then (k, v) # entries else (k', v') # map_insert k v entries)"

lemma entry_size: "e \<in> set entries \<Longrightarrow> size (snd e) < Suc (size_list (size_prod (\<lambda>x. 0) size) entries)"
  by (induction entries) (auto simp: size_prod_def split: prod.splits)

function sort_object_keys :: "json_tree \<Rightarrow> json_tree" where
  "sort_object_keys VNull = VNull"
| "sort_object_keys (VBool b) = VBool b"
| "sort_object_keys (VNumber n) = VNumber n"
| "sort_object_keys (VString s) = VString s"
| "sort_object_keys (VArray values) = VArray (map sort_object_keys values)"
| "sort_object_keys (VObject entries) =
     VObject (fold (\<lambda>e sorted. map_insert (fst e) (sort_object_keys (snd e)) sorted) (sort_key fst entries) [])"
  by pat_completeness auto

termination sort_object_keys
  by (relation "measure size") (auto simp: entry_size less_Suc_eq_le size_list_estimation' intro: size_list_estimation')

definition json_from_value :: "'a json_codec_scheme \<Rightarrow> json_tree \<Rightarrow> (string, CanonicalJson) result" where
  "json_from_value C v =
     bindR (jc_to_string C (sort_object_keys v)) (\<lambda>text. Inr \<lparr>cj_text = text, cj_sha256_hex = jc_sha256 C text\<rparr>)"

definition json_parse :: "'a json_codec_scheme \<Rightarrow> string \<Rightarrow> (string, CanonicalJson) result" where
  "json_parse C text = bindR (jc_from_str C text) (json_from_value C)"

text \<open>A canonical value is one that its own text reads back to.\<close>

definition canonical :: "'a json_codec_scheme \<Rightarrow> CanonicalJson \<Rightarrow> bool" where
  "canonical C c \<longleftrightarrow> json_parse C (cj_text c) = Inr c"

section \<open>Keys in any order\<close>

text \<open>Objects have distinct keys.\<close>

fun json_ok :: "json_tree \<Rightarrow> bool" where
  "json_ok (VArray values) \<longleftrightarrow> (\<forall>v \<in> set values. json_ok v)"
| "json_ok (VObject entries) \<longleftrightarrow> distinct (map fst entries) \<and> (\<forall>e \<in> set entries. json_ok (snd e))"
| "json_ok _ \<longleftrightarrow> True"

lemma map_insert_new: "k \<notin> fst ` set entries \<Longrightarrow> map_insert k v entries = entries @ [(k, v)]"
  by (induction k v entries rule: map_insert.induct) auto

lemma sorted_object:
  assumes "distinct (map fst entries)"
  shows "sort_object_keys (VObject entries) = VObject (map (\<lambda>e. (fst e, sort_object_keys (snd e))) (sort_key fst entries))"
proof -
  have "fold (\<lambda>e sorted. map_insert (fst e) (f (snd e)) sorted) es acc = acc @ map (\<lambda>e. (fst e, f (snd e))) es"
    if "distinct (map fst es)" "fst ` set acc \<inter> fst ` set es = {}" for es acc and f :: "json_tree \<Rightarrow> json_tree"
    using that by (induction es arbitrary: acc) (auto simp: map_insert_new)
  moreover have "distinct (map fst (sort_key fst entries))"
    using assms by (simp add: distinct_map)
  ultimately show ?thesis by simp
qed

lemma sort_keeps_ok: "json_ok v \<Longrightarrow> json_ok (sort_object_keys v)"
proof (induction v rule: sort_object_keys.induct)
  case (6 entries)
  then have d: "distinct (map fst entries)" by simp
  show ?case using 6 d
    by (auto simp: sorted_object o_def distinct_map simp del: sort_object_keys.simps(6))
qed auto

lemma sort_key_sorted: "sorted (map f xs) \<Longrightarrow> sort_key f xs = xs"
  by (induction xs) (auto simp: insort_is_Cons)

lemma sort_object_keys_idem: "json_ok v \<Longrightarrow> sort_object_keys (sort_object_keys v) = sort_object_keys v"
proof (induction v rule: sort_object_keys.induct)
  case (6 entries)
  then have d: "distinct (map fst entries)" by simp
  let ?es = "map (\<lambda>e. (fst e, sort_object_keys (snd e))) (sort_key fst entries)"
  have "distinct (map fst ?es)" using d by (simp add: o_def distinct_map)
  moreover have "sort_key fst ?es = ?es" by (rule sort_key_sorted) (simp add: o_def sorted_sort_key)
  ultimately show ?case using 6 d by (auto simp: sorted_object simp del: sort_object_keys.simps(6))
qed auto

text \<open>The same JSON up to the order of keys.\<close>

inductive same_json :: "json_tree \<Rightarrow> json_tree \<Rightarrow> bool" where
  same_leaf: "same_json v v"
| same_array: "list_all2 same_json vs ws \<Longrightarrow> same_json (VArray vs) (VArray ws)"
| same_object: "list_all2 (\<lambda>e e'. fst e = fst e' \<and> same_json (snd e) (snd e')) es es' \<Longrightarrow> mset es' = mset es'' \<Longrightarrow>
    same_json (VObject es) (VObject es'')"

lemma map_sort_key: "(\<And>x. f (g x) = f x) \<Longrightarrow> map g (sort_key f xs) = sort_key f (map g xs)"
proof -
  assume f: "\<And>x. f (g x) = f x"
  have "map g (insort_key f x xs) = insort_key f (g x) (map g xs)" for x xs by (induction xs) (simp_all add: f)
  then show ?thesis by (induction xs) simp_all
qed

lemma sort_key_permuted:
  assumes "mset xs = mset ys" "distinct (map f xs)"
  shows "sort_key f xs = sort_key f ys"
proof (rule properties_for_sort_key)
  have "distinct (map f ys)" using assms by (metis distinct_map mset_eq_setD mset_eq_imp_distinct_iff)
  then have one: "filter (\<lambda>y. f k = f y) zs = [k]" if "mset zs = mset ys" "k \<in> set ys" for zs k
  proof -
    have "distinct (map f zs)" using that(1) \<open>distinct (map f ys)\<close> by (metis distinct_map mset_eq_setD mset_eq_imp_distinct_iff)
    moreover have "k \<in> set zs" using that by (metis set_mset_mset)
    ultimately show ?thesis by (induction zs) (auto simp: filter_empty_conv image_iff)
  qed
  show "filter (\<lambda>x. f k = f x) (sort_key f ys) = filter (\<lambda>x. f k = f x) xs" if "k \<in> set (sort_key f ys)" for k
    using one [of "sort_key f ys" k] one [of xs k] assms(1) that by simp
qed (simp_all add: assms(1))

lemma same_json_sorted: "same_json v w \<Longrightarrow> json_ok v \<Longrightarrow> sort_object_keys v = sort_object_keys w \<and> json_ok w"
proof (induction rule: same_json.induct)
  case (same_array vs ws)
  then have "list_all2 (\<lambda>v w. sort_object_keys v = sort_object_keys w \<and> json_ok w) vs ws"
    by (auto simp: list_all2_conv_all_nth)
  then show ?case by (auto simp: list_all2_conv_all_nth set_conv_nth intro: nth_equalityI)
next
  case (same_object es es' es'')
  let ?g = "\<lambda>e. (fst e, sort_object_keys (snd e))"
  have eq: "list_all2 (\<lambda>e e'. ?g e = ?g e' \<and> json_ok (snd e')) es es'"
    using same_object.IH same_object.prems by (auto simp: list_all2_conv_all_nth)
  then have g: "map ?g es = map ?g es'" by (auto simp: list_all2_conv_all_nth intro: nth_equalityI)
  have keys: "map fst es = map fst es'" using arg_cong [OF g, of "map fst"] by (simp add: o_def)
  then have d': "distinct (map fst es')" using same_object.prems by simp
  have ok': "\<forall>e \<in> set es'. json_ok (snd e)" using eq unfolding list_all2_conv_all_nth by (metis in_set_conv_nth)
  have d'': "distinct (map fst es'')" using d' same_object(2) by (metis distinct_map mset_eq_imp_distinct_iff mset_eq_setD)
  have "sort_key fst (map ?g es') = sort_key fst (map ?g es'')"
    by (rule sort_key_permuted) (use same_object(2) d' in \<open>simp_all add: o_def\<close>)
  then have "sort_object_keys (VObject es) = sort_object_keys (VObject es'')"
    using same_object.prems d'' g by (simp add: sorted_object map_sort_key del: sort_object_keys.simps(6))
  moreover have "json_ok (VObject es'')" using d'' ok' same_object(2) by (metis json_ok.simps(2) mset_eq_setD)
  ultimately show ?case by blast
qed simp

text \<open>Sorting changes the order of keys only, and a tree is determined by its sorted form up to that order.\<close>

fun keys_sorted :: "json_tree \<Rightarrow> bool" where
  "keys_sorted (VArray values) \<longleftrightarrow> (\<forall>v \<in> set values. keys_sorted v)"
| "keys_sorted (VObject entries) \<longleftrightarrow> sorted (map fst entries) \<and> (\<forall>e \<in> set entries. keys_sorted (snd e))"
| "keys_sorted _ \<longleftrightarrow> True"

lemma sort_sorts: "json_ok v \<Longrightarrow> keys_sorted (sort_object_keys v)"
proof (induction v rule: sort_object_keys.induct)
  case (6 entries)
  then have d: "distinct (map fst entries)" by simp
  have "sorted (map fst (sort_key fst entries))" by simp
  then show ?case using 6 d by (auto simp: sorted_object o_def simp del: sort_object_keys.simps(6))
qed auto

lemma sorted_entries_same:
  assumes d: "distinct (map fst es)" "distinct (map fst fs)"
    and eq: "sort_object_keys (VObject es) = sort_object_keys (VObject fs)"
    and IH: "\<And>e f. e \<in> set es \<Longrightarrow> f \<in> set fs \<Longrightarrow> sort_object_keys (snd e) = sort_object_keys (snd f) \<Longrightarrow> same_json (snd e) (snd f)"
  shows "same_json (VObject es) (VObject fs)"
proof -
  let ?P = "\<lambda>e f. fst e = fst f \<and> same_json (snd e) (snd f)" and ?g = "\<lambda>e. (fst e, sort_object_keys (snd e))"
  have g: "map ?g (sort_key fst es) = map ?g (sort_key fst fs)"
    using eq d by (simp add: sorted_object del: sort_object_keys.simps(6))
  have len: "length (sort_key fst es) = length (sort_key fst fs)" using arg_cong [OF g, of length] by simp
  have "?P (sort_key fst es ! i) (sort_key fst fs ! i)" if "i < length (sort_key fst es)" for i
  proof -
    have "?g (sort_key fst es ! i) = ?g (sort_key fst fs ! i)"
      using arg_cong [OF g, of "\<lambda>xs. xs ! i"] that len by simp
    moreover have "sort_key fst es ! i \<in> set es" "sort_key fst fs ! i \<in> set fs"
      using that len by (metis nth_mem set_sort)+
    ultimately show ?thesis using IH by simp
  qed
  then have all: "list_all2 ?P (sort_key fst es) (sort_key fst fs)" using len by (simp add: list_all2_conv_all_nth)
  obtain fs' where fs': "list_all2 ?P es fs'" "mset fs' = mset (sort_key fst fs)"
    using list_all2_reorder_left_invariance [OF all, of es] by auto
  then show ?thesis using same_object [of es fs' fs] by simp
qed

lemma sort_same: "json_ok v \<Longrightarrow> json_ok w \<Longrightarrow> sort_object_keys v = sort_object_keys w \<Longrightarrow> same_json v w"
proof (induction v arbitrary: w rule: sort_object_keys.induct)
  case (5 vs)
  obtain ws where w: "w = VArray ws" using 5(4) by (cases w) simp_all
  have "map sort_object_keys vs = map sort_object_keys ws" using 5(4) w by simp
  then have "list_all2 same_json vs ws" using 5(1,2,3) w
    by (auto simp: list_all2_conv_all_nth list_eq_iff_nth_eq)
  then show ?case using w by (simp add: same_array)
next
  case (6 es)
  obtain fs where w: "w = VObject fs" using 6(4) by (cases w) simp_all
  show ?case unfolding w
  proof (rule sorted_entries_same)
    fix e f assume "e \<in> set es" "f \<in> set fs" "sort_object_keys (snd e) = sort_object_keys (snd f)"
    then show "same_json (snd e) (snd f)" using 6(1) [of e "snd f"] 6(2,3) w by simp
  qed (use 6 w in \<open>auto simp del: sort_object_keys.simps(6)\<close>)
next
  case (1 w) then show ?case by (cases w) (auto intro: same_leaf)
next
  case (2 b w) then show ?case by (cases w) (auto intro: same_leaf)
next
  case (3 n w) then show ?case by (cases w) (auto intro: same_leaf)
next
  case (4 s w) then show ?case by (cases w) (auto intro: same_leaf)
qed

section \<open>Canonical text\<close>

definition sample_document :: json_tree where
  "sample_document = VObject [(''b'', VNull), (''a'', VNumber ''1'')]"

definition sample_sorted :: json_tree where
  "sample_sorted = VObject [(''a'', VNumber ''1''), (''b'', VNull)]"

definition sample_codec :: json_codec where
  "sample_codec = \<lparr>jc_from_str = (\<lambda>t. if t = ''{a:1,b:null}'' then Inr sample_sorted else Inl []),
     jc_to_string = (\<lambda>v. if v = sample_sorted then Inr ''{a:1,b:null}'' else Inl []),
     jc_sha256 = (\<lambda>t. replicate 64 CHR ''0'')\<rparr>"

text \<open>C16: Canonical JSON is a normal form of the document. For trees whose objects have distinct keys, \<open>sort_object_keys\<close> sorts
  the keys at every depth and keeps the document, and it maps two trees to the same tree exactly when they differ
  only in the order of their object keys, at any depth; so such trees have the same text and hash, whatever the printer. Nothing is
  assumed of the reader: a value passes the check of \<open>from_stored\<close> when its own text is read back as the same document, in any order of keys.\<close>

theorem canonical_json_normal_form:
  assumes "json_ok v" "json_ok w"
  shows "keys_sorted (sort_object_keys v) \<and> same_json v (sort_object_keys v)
    \<and> (sort_object_keys v = sort_object_keys w \<longleftrightarrow> same_json v w)
    \<and> (same_json v w \<longrightarrow> json_from_value C v = json_from_value C w)
    \<and> (\<forall>c. json_from_value C v = Inr c \<and> jc_from_str C (cj_text c) = Inr w \<and> same_json v w \<longrightarrow> canonical C c)"
proof -
  have sorted: "same_json v (sort_object_keys v)"
    by (rule sort_same) (simp_all add: assms(1) sort_keeps_ok sort_object_keys_idem)
  have exact: "sort_object_keys v = sort_object_keys w \<longleftrightarrow> same_json v w"
    using sort_same [OF assms] same_json_sorted [of v w] assms(1) by blast
  then have printed: "json_from_value C v = json_from_value C w" if "same_json v w"
    using that by (simp add: json_from_value_def)
  show ?thesis using sorted exact printed sort_sorts [OF assms(1)] by (auto simp: canonical_def json_parse_def)
qed

theorem canonical_json_normal_form_witness:
  "json_from_value sample_codec sample_document = json_from_value sample_codec sample_sorted
   \<and> keys_sorted (sort_object_keys sample_document)
   \<and> canonical sample_codec \<lparr>cj_text = ''{a:1,b:null}'', cj_sha256_hex = replicate 64 CHR ''0''\<rparr>"
proof -
  have ok: "json_ok sample_document" "json_ok sample_sorted" by (simp_all add: sample_document_def sample_sorted_def)
  have same: "same_json sample_document sample_sorted"
    unfolding sample_document_def sample_sorted_def
    by (rule same_object [of _ "[(''b'', VNull), (''a'', VNumber ''1'')]"]) (auto intro: same_leaf)
  note normal = canonical_json_normal_form [OF ok, of sample_codec]
  have "sort_object_keys sample_document = sample_sorted"
    by (simp add: sample_document_def sample_sorted_def sorted_object insort_key.simps less_list_code del: sort_object_keys.simps(6))
  then have made: "json_from_value sample_codec sample_document = Inr \<lparr>cj_text = ''{a:1,b:null}'', cj_sha256_hex = replicate 64 CHR ''0''\<rparr>"
    unfolding json_from_value_def by (simp add: sample_codec_def)
  have "jc_from_str sample_codec ''{a:1,b:null}'' = Inr sample_sorted" by (simp add: sample_codec_def)
  then show ?thesis using normal same made by auto
qed

end
