(* ===== verification/Delivery_Tables.thy ===== *)
theory Delivery_Tables
  imports Store_Tx Wire Canonical_Json "HOL-Library.Product_Lexorder" "HOL-Library.Option_ord"
begin

text \<open>
  The tables behind outbound delivery: the sessions of execution clients, the wire outbox and the
  delivery attempts, with the records of \<open>crates/store/src/model.rs\<close>, the decoding of rows of
  \<open>crates/store/src/repository.rs\<close>, and the effect of the \<open>INSERT\<close> and \<open>UPDATE\<close> statements under the
  constraints, unique indexes and triggers of the migrations V0002 and V0005. A table is the list of its
  rows. A row holds the fields of the decoded record: the text of an enum column decodes to its value
  (\<open>Enums\<close>), and an integer column to the \<open>u64\<close> it was cast from. Rows of \<open>execution_commands\<close> and
  \<open>reconciliation_runs\<close> are read only, by the columns the statements select.
\<close>

definition is_some_and :: "('a \<Rightarrow> bool) \<Rightarrow> 'a option \<Rightarrow> bool" where
  "is_some_and p v \<longleftrightarrow> (case v of None \<Rightarrow> False | Some x \<Rightarrow> p x)"

lemma is_some_and_simps [simp]: "\<not> is_some_and p None" "is_some_and p (Some x) = p x"
  by (simp_all add: is_some_and_def)

section \<open>Records\<close>

record NewWireOutbox =
  nwo_message_id :: MessageId
  nwo_session_id :: "SessionId option"
  nwo_message_type :: string
  nwo_sequence :: "u64 option"
  nwo_command_id :: "CommandId option"
  nwo_request_id :: "RequestId option"
  nwo_payload :: CanonicalJson
  nwo_status :: WireOutboxStatus
  nwo_created_at :: i64
  nwo_updated_at :: i64
  nwo_sent_at :: "i64 option"
  nwo_acked_at :: "i64 option"
  nwo_last_error :: "string option"

record StoredWireOutbox =
  wo_message_id :: MessageId
  wo_session_id :: "SessionId option"
  wo_message_type :: string
  wo_sequence :: "u64 option"
  wo_command_id :: "CommandId option"
  wo_request_id :: "RequestId option"
  wo_payload :: CanonicalJson
  wo_status :: WireOutboxStatus
  wo_revision :: u64
  wo_created_at :: i64
  wo_updated_at :: i64
  wo_sent_at :: "i64 option"
  wo_acked_at :: "i64 option"
  wo_last_error :: "string option"

record NewSessionRecord =
  ns_session_id :: SessionId
  ns_client_id :: ClientId
  ns_account_id :: AccountId
  ns_terminal_id :: "TerminalId option"
  ns_platform :: string
  ns_status :: SessionStatus
  ns_capabilities :: CanonicalJson
  ns_remote_addr :: "string option"
  ns_connected_at :: i64
  ns_last_heartbeat_at :: "i64 option"
  ns_last_time_sync_at :: "i64 option"
  ns_clock_sync_status :: "ClockSyncStatus option"
  ns_disconnected_at :: "i64 option"
  ns_max_inflight_commands :: u64
  ns_updated_at :: i64

record StoredSessionRecord =
  ss_session_id :: SessionId
  ss_client_id :: ClientId
  ss_account_id :: AccountId
  ss_terminal_id :: "TerminalId option"
  ss_platform :: string
  ss_status :: SessionStatus
  ss_capabilities :: CanonicalJson
  ss_remote_addr :: "string option"
  ss_connected_at :: i64
  ss_last_heartbeat_at :: "i64 option"
  ss_last_time_sync_at :: "i64 option"
  ss_clock_sync_status :: "ClockSyncStatus option"
  ss_disconnected_at :: "i64 option"
  ss_revision :: u64
  ss_updated_at :: i64
  ss_last_outbound_sequence :: u64
  ss_max_inflight_commands :: u64

datatype DeliverySubject = ExecutionCommand CommandId | ReconciliationRequest RequestId

primrec subject_command_id :: "DeliverySubject \<Rightarrow> CommandId option" where
  "subject_command_id (DeliverySubject.ExecutionCommand command_id) = Some command_id"
| "subject_command_id (DeliverySubject.ReconciliationRequest _) = None"

primrec subject_request_id :: "DeliverySubject \<Rightarrow> RequestId option" where
  "subject_request_id (DeliverySubject.ExecutionCommand _) = None"
| "subject_request_id (DeliverySubject.ReconciliationRequest request_id) = Some request_id"

definition is_command_subject :: "DeliverySubject \<Rightarrow> bool" where
  "is_command_subject subject \<longleftrightarrow> subject_command_id subject \<noteq> None"

record NewDeliveryAttempt =
  nda_attempt_id :: string
  nda_subject :: DeliverySubject
  nda_session_id :: "SessionId option"
  nda_message_id :: "MessageId option"
  nda_request_payload :: "CanonicalJson option"
  nda_status :: CommandDeliveryAttemptStatus
  nda_attempted_at :: i64
  nda_acked_at :: "i64 option"
  nda_error :: "string option"
  nda_updated_at :: i64

record StoredDeliveryAttempt =
  da_attempt_id :: string
  da_subject :: DeliverySubject
  da_session_id :: "SessionId option"
  da_message_id :: "MessageId option"
  da_request_payload :: "CanonicalJson option"
  da_status :: CommandDeliveryAttemptStatus
  da_attempted_at :: i64
  da_acked_at :: "i64 option"
  da_error :: "string option"
  da_revision :: u64
  da_updated_at :: i64

record command_row =
  cmd_command_id :: CommandId
  cmd_account_id :: AccountId
  cmd_client_id :: "ClientId option"
  cmd_terminal_id :: "TerminalId option"
  cmd_expires_at :: i64
  cmd_payload :: CanonicalJson

record run_row =
  run_request_id :: RequestId
  run_account_id :: AccountId
  run_client_id :: "ClientId option"
  run_terminal_id :: "TerminalId option"
  run_request_payload :: CanonicalJson

record delivery_db =
  db_sessions :: "StoredSessionRecord list"
  db_outbox :: "StoredWireOutbox list"
  db_attempts :: "StoredDeliveryAttempt list"
  db_commands :: "command_row list"
  db_runs :: "run_row list"

definition stored_session :: "NewSessionRecord \<Rightarrow> StoredSessionRecord" where
  "stored_session r = \<lparr>ss_session_id = ns_session_id r, ss_client_id = ns_client_id r,
     ss_account_id = ns_account_id r, ss_terminal_id = ns_terminal_id r, ss_platform = ns_platform r,
     ss_status = ns_status r, ss_capabilities = ns_capabilities r, ss_remote_addr = ns_remote_addr r,
     ss_connected_at = ns_connected_at r, ss_last_heartbeat_at = ns_last_heartbeat_at r,
     ss_last_time_sync_at = ns_last_time_sync_at r, ss_clock_sync_status = ns_clock_sync_status r,
     ss_disconnected_at = ns_disconnected_at r, ss_revision = 0, ss_updated_at = ns_updated_at r,
     ss_last_outbound_sequence = 1, ss_max_inflight_commands = ns_max_inflight_commands r\<rparr>"

definition stored_outbox :: "NewWireOutbox \<Rightarrow> StoredWireOutbox" where
  "stored_outbox m = \<lparr>wo_message_id = nwo_message_id m, wo_session_id = nwo_session_id m,
     wo_message_type = nwo_message_type m, wo_sequence = nwo_sequence m,
     wo_command_id = nwo_command_id m, wo_request_id = nwo_request_id m, wo_payload = nwo_payload m,
     wo_status = nwo_status m, wo_revision = 0, wo_created_at = nwo_created_at m,
     wo_updated_at = nwo_updated_at m, wo_sent_at = nwo_sent_at m, wo_acked_at = nwo_acked_at m,
     wo_last_error = nwo_last_error m\<rparr>"

text \<open>The row an \<open>INSERT\<close> of an attempt binds.\<close>

definition stored_attempt :: "NewDeliveryAttempt \<Rightarrow> StoredDeliveryAttempt" where
  "stored_attempt a = \<lparr>da_attempt_id = nda_attempt_id a, da_subject = nda_subject a,
     da_session_id = nda_session_id a, da_message_id = nda_message_id a,
     da_request_payload = nda_request_payload a, da_status = nda_status a,
     da_attempted_at = nda_attempted_at a, da_acked_at = nda_acked_at a, da_error = nda_error a,
     da_revision = 0, da_updated_at = nda_updated_at a\<rparr>"

section \<open>JSON\<close>

text \<open>
  What the store uses of \<open>serde_json\<close>, \<open>sha2\<close> and SQLite's \<open>json_valid\<close>, beside the reader, printer and
  hash of \<open>CanonicalJson\<close>: the decoders of \<open>decode_wire_message\<close> and of two payloads, and the text of errors.
\<close>

record store_json = json_codec +
  sj_probe :: "string \<Rightarrow> string option"
  sj_from_slice :: "string \<Rightarrow> json_tree WireMessage option"
  sj_command :: "json_tree \<Rightarrow> string + ExecutionCommand"
  sj_request :: "json_tree \<Rightarrow> string + ReconciliationRequest"
  sj_wire_error :: "WireDecodeError \<Rightarrow> string"
  sj_json_valid :: "string \<Rightarrow> bool"

definition from_stored :: "store_json \<Rightarrow> string \<Rightarrow> string \<Rightarrow> string \<Rightarrow> string \<Rightarrow> (StoreError, CanonicalJson) result"
where
  "from_stored J entity key payload stored_hash =
     bindR (map_err (\<lambda>e. corrupt entity key (''invalid payload_json: '' @ e)) (json_parse J payload)) (\<lambda>canonical.
       if cj_text canonical \<noteq> payload
         then Inl (corrupt entity key ''payload_json is not in canonical form'')
       else if cj_sha256_hex canonical \<noteq> stored_hash
         then Inl (corrupt entity key ''payload_hash does not match payload_json'')
       else Inr canonical)"

lemma from_stored_canonical [simp]:
  "canonical J c \<Longrightarrow> from_stored J entity key (cj_text c) (cj_sha256_hex c) = Inr c"
  by (simp add: canonical_def from_stored_def)

lemma from_stored_ok:
  "from_stored J entity key (cj_text c) (cj_sha256_hex c) = Inr d \<Longrightarrow> d = c \<and> canonical J c"
  by (auto simp: from_stored_def canonical_def bindR_eq_Inr split: if_splits)

section \<open>Decoding of rows\<close>

definition session_from_row :: "store_json \<Rightarrow> StoredSessionRecord \<Rightarrow> (StoreError, StoredSessionRecord) result" where
  "session_from_row J row = (let key = ss_session_id row; entity = ''execution_client_session'' in
     bindR (map_err (\<lambda>e. corrupt entity key (''invalid capabilities_json: '' @ e))
       (json_parse J (cj_text (ss_capabilities row)))) (\<lambda>capabilities.
     if cj_text capabilities \<noteq> cj_text (ss_capabilities row)
       then Inl (corrupt entity key ''capabilities_json is not in canonical form'')
     else let session = row\<lparr>ss_capabilities := capabilities\<rparr> in
       if ss_last_outbound_sequence session = 0
         then Inl (corrupt entity key ''last_outbound_sequence must be greater than zero'')
       else if ss_max_inflight_commands session = 0
         then Inl (corrupt entity key ''max_inflight_commands must be greater than zero'')
       else if ss_updated_at session < ss_connected_at session
         \<or> is_some_and (\<lambda>t. t < ss_connected_at session \<or> t > ss_updated_at session) (ss_last_heartbeat_at session)
         \<or> is_some_and (\<lambda>t. t < ss_connected_at session \<or> t > ss_updated_at session) (ss_last_time_sync_at session)
         \<or> ss_status session = SessionStatus.Active \<and> ss_disconnected_at session \<noteq> None
         \<or> ss_clock_sync_status session = Some ClockSyncStatus.Synced \<and> ss_last_time_sync_at session = None
         \<or> ss_last_time_sync_at session \<noteq> None \<and> ss_clock_sync_status session = None
         then Inl (corrupt entity key
           ''session timestamps, status, or clock-sync evidence are inconsistent'')
       else Inr session))"

text \<open>\<open>decode_wire_message::<Value>\<close> on the text of an envelope.\<close>

definition decode_envelope :: "store_json \<Rightarrow> CanonicalJson \<Rightarrow> (WireDecodeError, json_tree WireMessage) result" where
  "decode_envelope J payload =
     decode_wire_message (sj_probe J) (sj_from_slice J) (cj_text payload) SUPPORTED_SCHEMA_VERSION"

definition validate_stored_wire_outbox :: "store_json \<Rightarrow> StoredWireOutbox \<Rightarrow> (StoreError, unit) result" where
  "validate_stored_wire_outbox J message = (let key = wo_message_id message; bad = corrupt ''wire_outbox'' key in
     bindR (map_err (\<lambda>e. bad (sj_wire_error J e)) (decode_envelope J (wo_payload message))) (\<lambda>wire.
     if wm_message_id wire \<noteq> wo_message_id message
       \<or> message_type_as_str (wm_message_type wire) \<noteq> wo_message_type message
       \<or> wm_session_id wire \<noteq> wo_session_id message \<or> wm_sequence wire \<noteq> wo_sequence message
       then Inl (bad ''wire envelope identity does not match denormalized columns'')
     else bindR
       (if wm_message_type wire = ExecutionClientMessageType.ExecutionCommand then
          bindR (map_err (\<lambda>e. bad (''invalid execution.command payload: '' @ e)) (sj_command J (wm_payload wire)))
            (\<lambda>payload. if wo_command_id message \<noteq> Some (ec_command_id payload) \<or> wo_request_id message \<noteq> None
               then Inl (bad ''execution.command subject does not match payload'') else Inr ())
        else if wm_message_type wire = ExecutionClientMessageType.ReconciliationRequest then
          bindR (map_err (\<lambda>e. bad (''invalid reconciliation.request payload: '' @ e)) (sj_request J (wm_payload wire)))
            (\<lambda>payload. if wo_request_id message \<noteq> Some (rreq_request_id payload) \<or> wo_command_id message \<noteq> None
               then Inl (bad ''reconciliation.request subject does not match payload'') else Inr ())
        else if wo_command_id message \<noteq> None \<or> wo_request_id message \<noteq> None
          then Inl (bad ''message type must not carry a delivery subject'')
        else Inr ())
       (\<lambda>_. if wo_updated_at message < wo_created_at message
          then Inl (bad ''updated_at precedes created_at'') else Inr ())))"

definition wire_outbox_from_row :: "store_json \<Rightarrow> StoredWireOutbox \<Rightarrow> (StoreError, StoredWireOutbox) result" where
  "wire_outbox_from_row J row = (let key = wo_message_id row in
     bindR (from_stored J ''wire_outbox'' key (cj_text (wo_payload row)) (cj_sha256_hex (wo_payload row))) (\<lambda>payload.
     if wo_sequence row = Some 0 then Inl (corrupt ''wire_outbox'' key ''sequence must be greater than zero'')
     else let stored = row\<lparr>wo_payload := payload\<rparr> in
       bindR (validate_stored_wire_outbox J stored) (\<lambda>_. Inr stored)))"

text \<open>A subject is decoded from its two columns; a row with both or none is refused by the table's \<open>CHECK\<close>.\<close>

definition delivery_attempt_from_row :: "store_json \<Rightarrow> StoredDeliveryAttempt \<Rightarrow> (StoreError, StoredDeliveryAttempt) result"
where
  "delivery_attempt_from_row J row = (let key = da_attempt_id row; bad = corrupt ''command_delivery_attempt'' key in
     if da_updated_at row < da_attempted_at row
       \<or> (da_status row = CommandDeliveryAttemptStatus.Acked) \<noteq> (da_acked_at row \<noteq> None)
       then Inl (bad ''attempt timestamps do not match status'')
     else if da_status row = CommandDeliveryAttemptStatus.Acked \<and> \<not> is_command_subject (da_subject row)
       then Inl (bad ''ACKED is only valid for execution command receipt'')
     else if da_status row = CommandDeliveryAttemptStatus.Unconfirmed
       \<and> (case da_error row of None \<Rightarrow> True | Some e \<Rightarrow> trim_is_empty e)
       then Inl (bad ''UNCONFIRMED requires a non-empty error'')
     else case da_request_payload row of
       None \<Rightarrow> Inr row
     | Some payload \<Rightarrow>
         bindR (from_stored J ''command_delivery_attempt'' key (cj_text payload) (cj_sha256_hex payload))
           (\<lambda>p. Inr (row\<lparr>da_request_payload := Some p\<rparr>)))"

section \<open>Text in SQL\<close>

text \<open>
  \<open>trim(x)\<close> removes spaces only, and \<open>length\<close> counts the characters before a NUL. \<open>LIKE\<close> ignores the case of
  ASCII letters, \<open>_\<close> matches any one character (a byte and its UTF-8 continuation bytes) and a final
  \<open>%\<close> the rest: \<open>sql_like_prefix p\<close> is \<open>LIKE p || '%'\<close> for a \<open>p\<close> without \<open>%\<close>.
\<close>

definition sql_trim :: "string \<Rightarrow> string" where
  "sql_trim x = rev (dropWhile (\<lambda>c. c = CHR '' '') (rev (dropWhile (\<lambda>c. c = CHR '' '') x)))"

definition sql_not_blank :: "string \<Rightarrow> bool" where
  "sql_not_blank x \<longleftrightarrow> (case sql_trim x of [] \<Rightarrow> False | c # _ \<Rightarrow> c \<noteq> CHR 0x00)"

definition ascii_lower :: "char \<Rightarrow> nat" where
  "ascii_lower c = (let n = of_char c in if 65 \<le> n \<and> n \<le> (90 :: nat) then n + 32 else n)"

definition utf8_continuation :: "char \<Rightarrow> bool" where
  "utf8_continuation c \<longleftrightarrow> (let n = of_char c in 128 \<le> n \<and> n < (192 :: nat))"

fun sql_like_prefix :: "string \<Rightarrow> string \<Rightarrow> bool" where
  "sql_like_prefix [] x = True"
| "sql_like_prefix (p # ps) [] = False"
| "sql_like_prefix (p # ps) (c # cs) =
     (if p = CHR ''_'' then c \<noteq> CHR 0x00 \<and> sql_like_prefix ps (dropWhile utf8_continuation cs)
      else ascii_lower p = ascii_lower c \<and> sql_like_prefix ps cs)"

definition starts_with :: "string \<Rightarrow> string \<Rightarrow> bool" where
  "starts_with prefix x \<longleftrightarrow> take (length prefix) x = prefix"

definition sql_hash_text :: "string \<Rightarrow> bool" where
  "sql_hash_text h \<longleftrightarrow> length h = 64 \<and> list_all (\<lambda>c. c \<in> set ''0123456789abcdef'') h"

text \<open>\<open>MAX(base, COALESCE(x, base), ...)\<close>, the value of the triggers on times.\<close>

definition sql_max :: "i64 \<Rightarrow> i64 option list \<Rightarrow> i64" where
  "sql_max base xs = fold (\<lambda>x m. max m (case x of None \<Rightarrow> base | Some t \<Rightarrow> t)) xs base"

section \<open>Constraints and triggers\<close>

definition session_time :: "StoredSessionRecord \<Rightarrow> i64" where
  "session_time r = sql_max (ss_connected_at r)
     [ss_last_heartbeat_at r, ss_last_time_sync_at r, ss_disconnected_at r]"

definition session_platforms :: "string list" where
  "session_platforms = [''MT5'', ''BINANCE'', ''OKX'', ''IBKR'', ''PAPER'', ''BACKTEST'', ''EXCHANGE'']"

definition session_row_check :: "store_json \<Rightarrow> StoredSessionRecord \<Rightarrow> bool" where
  "session_row_check J r \<longleftrightarrow>
     ss_platform r \<in> set session_platforms \<and> sj_json_valid J (cj_text (ss_capabilities r))
     \<and> (ss_updated_at r = 0 \<or> session_time r \<le> ss_updated_at r)
     \<and> 0 < ss_last_outbound_sequence r \<and> (ss_revision r \<noteq> 0 \<or> ss_last_outbound_sequence r = 1)
     \<and> 0 < ss_max_inflight_commands r"

text \<open>\<open>trg_execution_client_sessions_cas\<close> lets an update pass.\<close>

definition session_cas :: "StoredSessionRecord \<Rightarrow> StoredSessionRecord \<Rightarrow> bool" where
  "session_cas old new \<longleftrightarrow>
     ss_revision old = 0 \<and> ss_revision new = 0 \<and> ss_updated_at old = 0 \<and> ss_updated_at new = session_time new
       \<and> ss_last_outbound_sequence new = ss_last_outbound_sequence old
     \<or> \<not> (ss_revision new \<noteq> ss_revision old + 1 \<or> ss_updated_at new < ss_updated_at old
       \<or> ss_updated_at new < session_time new \<or> ss_last_outbound_sequence new < ss_last_outbound_sequence old)"

text \<open>The unique index \<open>idx_active_session_identity\<close>.\<close>

definition active_identity :: "StoredSessionRecord \<Rightarrow> ClientId \<times> AccountId \<times> string" where
  "active_identity r = (ss_client_id r, ss_account_id r, case ss_terminal_id r of None \<Rightarrow> [] | Some t \<Rightarrow> t)"

definition session_conflict :: "StoredSessionRecord \<Rightarrow> StoredSessionRecord \<Rightarrow> bool" where
  "session_conflict r row \<longleftrightarrow> ss_session_id row = ss_session_id r
     \<or> ss_status r = SessionStatus.Active \<and> ss_status row = SessionStatus.Active
       \<and> active_identity row = active_identity r"

definition outbox_time :: "StoredWireOutbox \<Rightarrow> i64" where
  "outbox_time r = sql_max (wo_created_at r) [wo_sent_at r, wo_acked_at r]"

definition outbox_row_check :: "store_json \<Rightarrow> StoredWireOutbox \<Rightarrow> bool" where
  "outbox_row_check J r \<longleftrightarrow>
     wo_message_type r \<in> set (map fst message_type_arms) \<and> wo_sequence r \<noteq> Some 0
     \<and> sj_json_valid J (cj_text (wo_payload r)) \<and> sql_hash_text (cj_sha256_hex (wo_payload r))
     \<and> (wo_updated_at r = 0 \<or> outbox_time r \<le> wo_updated_at r)
     \<and> (case wo_sent_at r of None \<Rightarrow> True | Some t \<Rightarrow> wo_created_at r \<le> t)
     \<and> (case wo_acked_at r of None \<Rightarrow> True | Some t \<Rightarrow> is_some_and (\<lambda>u. u \<le> t) (wo_sent_at r))
     \<and> (wo_status r \<in> {WireOutboxStatus.Sent, WireOutboxStatus.Acked} \<longrightarrow> wo_sent_at r \<noteq> None)
     \<and> (wo_status r = WireOutboxStatus.Acked \<longleftrightarrow> wo_acked_at r \<noteq> None)
     \<and> (if wo_message_type r = ''execution.command''
          then wo_command_id r \<noteq> None \<and> wo_request_id r = None
        else if wo_message_type r = ''reconciliation.request''
          then wo_command_id r = None \<and> wo_request_id r \<noteq> None
        else wo_command_id r = None \<and> wo_request_id r = None)
     \<and> (wo_message_type r \<in> {''execution.command'', ''reconciliation.request''}
          \<longrightarrow> wo_session_id r \<noteq> None \<and> wo_sequence r \<noteq> None)"

definition outbox_cas :: "StoredWireOutbox \<Rightarrow> StoredWireOutbox \<Rightarrow> bool" where
  "outbox_cas old new \<longleftrightarrow>
     wo_revision old = 0 \<and> wo_revision new = 0 \<and> wo_updated_at old = 0 \<and> wo_updated_at new = outbox_time new
     \<or> \<not> (wo_revision new \<noteq> wo_revision old + 1 \<or> wo_updated_at new < wo_updated_at old
       \<or> wo_updated_at new < outbox_time new)"

definition outbox_conflict :: "StoredWireOutbox \<Rightarrow> StoredWireOutbox \<Rightarrow> bool" where
  "outbox_conflict r row \<longleftrightarrow> wo_message_id row = wo_message_id r
     \<or> wo_session_id r \<noteq> None \<and> wo_sequence r \<noteq> None
       \<and> wo_session_id row = wo_session_id r \<and> wo_sequence row = wo_sequence r"

definition attempt_time :: "StoredDeliveryAttempt \<Rightarrow> i64" where
  "attempt_time r = sql_max (da_attempted_at r) [da_acked_at r]"

definition bound_attempt_statuses :: "CommandDeliveryAttemptStatus list" where
  "bound_attempt_statuses = [CommandDeliveryAttemptStatus.Pending, CommandDeliveryAttemptStatus.Sent,
     CommandDeliveryAttemptStatus.Acked, CommandDeliveryAttemptStatus.Unconfirmed]"

definition attempt_row_check :: "store_json \<Rightarrow> StoredDeliveryAttempt \<Rightarrow> bool" where
  "attempt_row_check J r \<longleftrightarrow>
     (case da_request_payload r of None \<Rightarrow> True
      | Some p \<Rightarrow> sj_json_valid J (cj_text p) \<and> sql_hash_text (cj_sha256_hex p))
     \<and> (da_updated_at r = 0 \<or> attempt_time r \<le> da_updated_at r)
     \<and> (da_message_id r \<noteq> None \<longrightarrow> da_session_id r \<noteq> None)
     \<and> (da_status r \<in> set bound_attempt_statuses \<longrightarrow> da_session_id r \<noteq> None \<and> da_message_id r \<noteq> None)
     \<and> (da_status r = CommandDeliveryAttemptStatus.Acked \<longleftrightarrow> da_acked_at r \<noteq> None)
     \<and> (da_status r = CommandDeliveryAttemptStatus.Acked \<longrightarrow> is_command_subject (da_subject r))
     \<and> (da_status r = CommandDeliveryAttemptStatus.Unconfirmed \<longrightarrow> is_some_and sql_not_blank (da_error r))"

definition attempt_cas :: "StoredDeliveryAttempt \<Rightarrow> StoredDeliveryAttempt \<Rightarrow> bool" where
  "attempt_cas old new \<longleftrightarrow>
     da_revision old = 0 \<and> da_revision new = 0 \<and> da_updated_at old = 0 \<and> da_updated_at new = attempt_time new
     \<or> \<not> (da_revision new \<noteq> da_revision old + 1 \<or> da_updated_at new < da_updated_at old
       \<or> da_updated_at new < attempt_time new)"

text \<open>\<open>trg_command_delivery_attempts_outbox_binding_insert\<close>: the outbox row of the message is of the same session
  and subject.\<close>

definition attempt_bound_to :: "StoredDeliveryAttempt \<Rightarrow> StoredWireOutbox \<Rightarrow> bool" where
  "attempt_bound_to a row \<longleftrightarrow> da_message_id a = Some (wo_message_id row)
     \<and> da_session_id a \<noteq> None \<and> wo_session_id row = da_session_id a
     \<and> wo_command_id row = subject_command_id (da_subject a) \<and> wo_request_id row = subject_request_id (da_subject a)"

definition attempt_conflict :: "StoredDeliveryAttempt \<Rightarrow> StoredDeliveryAttempt \<Rightarrow> bool" where
  "attempt_conflict r row \<longleftrightarrow> da_attempt_id row = da_attempt_id r
     \<or> da_message_id r \<noteq> None \<and> da_message_id row = da_message_id r"

section \<open>Statements\<close>

text \<open>
  An \<open>INSERT ... ON CONFLICT DO NOTHING\<close> fails on a trigger or a \<open>CHECK\<close>, inserts nothing when a unique key
  is taken, and otherwise checks the foreign keys; \<open>True\<close> is one affected row. The trigger after an
  insertion replaces a zero \<open>updated_at\<close> by the latest time of the row.
\<close>

definition insert_session_row :: "store_json \<Rightarrow> StoredSessionRecord \<Rightarrow> (delivery_db, bool) tx" where
  "insert_session_row J r = (\<lambda>db.
     if ss_updated_at r \<noteq> 0 \<and> ss_updated_at r < session_time r \<or> \<not> session_row_check J r then Inl Database
     else if list_ex (session_conflict r) (db_sessions db) then Inr (False, db)
     else Inr (True, db\<lparr>db_sessions := db_sessions db @
       [if ss_updated_at r = 0 then r\<lparr>ss_updated_at := session_time r\<rparr> else r]\<rparr>))"

definition outbox_references :: "delivery_db \<Rightarrow> StoredWireOutbox \<Rightarrow> bool" where
  "outbox_references db r \<longleftrightarrow>
     (case wo_session_id r of None \<Rightarrow> True | Some i \<Rightarrow> list_ex (\<lambda>s. ss_session_id s = i) (db_sessions db))
     \<and> (case wo_command_id r of None \<Rightarrow> True | Some i \<Rightarrow> list_ex (\<lambda>c. cmd_command_id c = i) (db_commands db))
     \<and> (case wo_request_id r of None \<Rightarrow> True | Some i \<Rightarrow> list_ex (\<lambda>q. run_request_id q = i) (db_runs db))"

definition insert_outbox_row :: "store_json \<Rightarrow> StoredWireOutbox \<Rightarrow> (delivery_db, bool) tx" where
  "insert_outbox_row J r = (\<lambda>db.
     if wo_updated_at r \<noteq> 0 \<and> wo_updated_at r < outbox_time r \<or> \<not> outbox_row_check J r then Inl Database
     else if list_ex (outbox_conflict r) (db_outbox db) then Inr (False, db)
     else if \<not> outbox_references db r then Inl Database
     else Inr (True, db\<lparr>db_outbox := db_outbox db @
       [if wo_updated_at r = 0 then r\<lparr>wo_updated_at := outbox_time r\<rparr> else r]\<rparr>))"

definition attempt_references :: "delivery_db \<Rightarrow> StoredDeliveryAttempt \<Rightarrow> bool" where
  "attempt_references db r \<longleftrightarrow>
     (case da_subject r of
        DeliverySubject.ExecutionCommand i \<Rightarrow> list_ex (\<lambda>c. cmd_command_id c = i) (db_commands db)
      | DeliverySubject.ReconciliationRequest i \<Rightarrow> list_ex (\<lambda>q. run_request_id q = i) (db_runs db))
     \<and> (case da_session_id r of None \<Rightarrow> True | Some i \<Rightarrow> list_ex (\<lambda>s. ss_session_id s = i) (db_sessions db))
     \<and> (case da_message_id r of None \<Rightarrow> True | Some i \<Rightarrow> list_ex (\<lambda>m. wo_message_id m = i) (db_outbox db))"

definition insert_attempt_row :: "store_json \<Rightarrow> StoredDeliveryAttempt \<Rightarrow> (delivery_db, bool) tx" where
  "insert_attempt_row J r = (\<lambda>db.
     if da_updated_at r \<noteq> 0 \<and> da_updated_at r < attempt_time r
       \<or> da_message_id r \<noteq> None \<and> \<not> list_ex (attempt_bound_to r) (db_outbox db)
       \<or> \<not> attempt_row_check J r then Inl Database
     else if list_ex (attempt_conflict r) (db_attempts db) then Inr (False, db)
     else if \<not> attempt_references db r then Inl Database
     else Inr (True, db\<lparr>db_attempts := db_attempts db @
       [if da_updated_at r = 0 then r\<lparr>da_updated_at := attempt_time r\<rparr> else r]\<rparr>))"

text \<open>
  An \<open>UPDATE ... WHERE <primary key> = ? AND ...\<close> changes at most one row and says whether it did; it fails
  when the trigger or a \<open>CHECK\<close> refuses the new row. None of the statements sets a column that the
  immutability triggers guard, and none makes a session \<open>ACTIVE\<close>, so the unique indexes are not concerned.
\<close>

definition update_where :: "('r \<Rightarrow> bool) \<Rightarrow> ('r \<Rightarrow> 'r) \<Rightarrow> 'r list \<Rightarrow> 'r list" where
  "update_where p f rows = map (\<lambda>r. if p r then f r else r) rows"

definition update_session_row ::
  "store_json \<Rightarrow> (StoredSessionRecord \<Rightarrow> bool) \<Rightarrow> (StoredSessionRecord \<Rightarrow> StoredSessionRecord) \<Rightarrow> (delivery_db, bool) tx"
where
  "update_session_row J p f = (\<lambda>db.
     if \<not> list_all (\<lambda>r. p r \<longrightarrow> session_cas r (f r) \<and> session_row_check J (f r)) (db_sessions db) then Inl Database
     else Inr (list_ex p (db_sessions db), db\<lparr>db_sessions := update_where p f (db_sessions db)\<rparr>))"

definition update_outbox_row ::
  "store_json \<Rightarrow> (StoredWireOutbox \<Rightarrow> bool) \<Rightarrow> (StoredWireOutbox \<Rightarrow> StoredWireOutbox) \<Rightarrow> (delivery_db, bool) tx" where
  "update_outbox_row J p f = (\<lambda>db.
     if \<not> list_all (\<lambda>r. p r \<longrightarrow> outbox_cas r (f r) \<and> outbox_row_check J (f r)) (db_outbox db) then Inl Database
     else Inr (list_ex p (db_outbox db), db\<lparr>db_outbox := update_where p f (db_outbox db)\<rparr>))"

definition update_attempt_row ::
  "store_json \<Rightarrow> (StoredDeliveryAttempt \<Rightarrow> bool) \<Rightarrow> (StoredDeliveryAttempt \<Rightarrow> StoredDeliveryAttempt) \<Rightarrow> (delivery_db, bool) tx"
where
  "update_attempt_row J p f = (\<lambda>db.
     if \<not> list_all (\<lambda>r. p r \<longrightarrow> attempt_cas r (f r) \<and> attempt_row_check J (f r)) (db_attempts db) then Inl Database
     else Inr (list_ex p (db_attempts db), db\<lparr>db_attempts := update_where p f (db_attempts db)\<rparr>))"

end
