(* ===== verification/Delivery_Store.thy ===== *)
theory Delivery_Store
  imports Delivery_Tables
begin

text \<open>
  The durable operations of outbound delivery (\<open>crates/store/src/gateway_delivery.rs\<close>): sessions and their
  replacement, heartbeats and closing; the reservation of sequences; the outbox and its attempts from
  \<open>PENDING\<close> over the claim and the transport write to acknowledgement, timeout and the fence after a
  restart. Each operation is a transaction on the tables of \<open>Delivery_Tables\<close>, with the reads, guards and
  statements in the order of the code. \<open>ORDER BY\<close> sorts by the columns, \<open>NULL\<close> first.
\<close>

section \<open>Requests and outcomes\<close>

definition DELIVERY_ERROR_COMMAND_EXPIRED :: string where
  "DELIVERY_ERROR_COMMAND_EXPIRED = ''COMMAND_EXPIRED''"
definition DELIVERY_ERROR_SESSION_UNAVAILABLE :: string where
  "DELIVERY_ERROR_SESSION_UNAVAILABLE = ''SESSION_UNAVAILABLE''"
definition DELIVERY_ERROR_CLOCK_UNHEALTHY :: string where
  "DELIVERY_ERROR_CLOCK_UNHEALTHY = ''CLOCK_UNHEALTHY''"
definition TRANSPORT_ACK_REJECTED_PREFIX :: string where
  "TRANSPORT_ACK_REJECTED_PREFIX = ''TRANSPORT_ACK_REJECTED:''"

record SessionReplacement =
  srp_session :: StoredSessionRecord
  srp_replaced_session :: "StoredSessionRecord option"
  srp_unconfirmed_attempts :: "StoredDeliveryAttempt list"

record SessionHeartbeatUpdate =
  shu_session_id :: SessionId
  shu_expected_revision :: u64
  shu_heartbeat_at :: i64
  shu_clock_sync_status :: ClockSyncStatus
  shu_last_time_sync_at :: "i64 option"
  shu_updated_at :: i64

record SessionClockInvalidation =
  sci_session_id :: SessionId
  sci_expected_revision :: u64
  sci_updated_at :: i64

record SessionStatusUpdate =
  ssu_session_id :: SessionId
  ssu_expected_revision :: u64
  ssu_changed_at :: i64
  ssu_delivery_error :: string

record ExactSessionClose =
  esc_session_id :: SessionId
  esc_changed_at :: i64
  esc_delivery_error :: string

record SessionRouteQuery =
  srq_account_id :: AccountId
  srq_client_id :: "ClientId option"
  srq_terminal_id :: "TerminalId option"
  srq_fresh_after :: i64
  srq_require_synced_clock :: bool

datatype SessionRouteResolution = Ready StoredSessionRecord | NoActiveSession | Stale usize
  | ClockUnhealthy usize | Ambiguous usize

record ReserveOutboundSequence =
  ros_session_id :: SessionId
  ros_expected_revision :: u64
  ros_subject :: DeliverySubject
  ros_fresh_after :: i64
  ros_reserved_at :: i64

record OutboundReservation =
  or_session_id :: SessionId
  or_client_id :: ClientId
  or_account_id :: AccountId
  or_terminal_id :: "TerminalId option"
  or_session_revision :: u64
  or_sequence :: u64
  or_subject :: DeliverySubject

datatype SequenceReservation = Reserved OutboundReservation | SessionUnavailable | ClockUnhealthy | Expired
  | IdentityMismatch string | InflightLimit SessionId u64 u64

record ReserveControlOutboundSequence =
  rco_session_id :: SessionId
  rco_reserved_at :: i64

record ControlOutboundReservation =
  cor_session_id :: SessionId
  cor_client_id :: ClientId
  cor_account_id :: AccountId
  cor_terminal_id :: "TerminalId option"
  cor_session_revision :: u64
  cor_sequence :: u64

datatype ControlSequenceReservation = Reserved ControlOutboundReservation | SessionUnavailable

record NewReservedDelivery =
  nrd_reservation :: OutboundReservation
  nrd_attempt_id :: string
  nrd_message_id :: MessageId
  nrd_message_type :: string
  nrd_envelope :: CanonicalJson
  nrd_created_at :: i64

record StoredOutboundDelivery =
  sod_outbox :: StoredWireOutbox
  sod_attempt :: StoredDeliveryAttempt

datatype OutboxClaimOutcome = Claimed StoredOutboundDelivery | Expired StoredOutboundDelivery
  | SessionUnavailable StoredOutboundDelivery | ClockUnhealthy StoredOutboundDelivery

record ClaimWireOutbox =
  cwo_message_id :: MessageId
  cwo_expected_outbox_revision :: u64
  cwo_expected_attempt_revision :: u64
  cwo_fresh_after :: i64
  cwo_require_synced_clock :: bool
  cwo_claimed_at :: i64

record CompleteTransportWrite =
  ctw_message_id :: MessageId
  ctw_expected_outbox_revision :: u64
  ctw_expected_attempt_revision :: u64
  ctw_completed_at :: i64
  ctw_error :: "string option"

record TransportAckUpdate =
  tau_message_id :: MessageId
  tau_session_id :: SessionId
  tau_message_type :: string
  tau_status :: TransportAckStatus
  tau_reason :: "string option"
  tau_acked_at :: i64

record CommandReceivedAttemptUpdate =
  cra_source_message_id :: MessageId
  cra_session_id :: SessionId
  cra_command_id :: CommandId
  cra_received_at :: i64

record DeliveryAttemptTimeout =
  dat_attempt_id :: string
  dat_expected_revision :: u64
  dat_timed_out_at :: i64
  dat_error :: string

record SessionDisconnectOutcome =
  sdo_session :: StoredSessionRecord
  sdo_unconfirmed_attempts :: "StoredDeliveryAttempt list"

record DeliveryStartupFenceReport =
  dsf_sessions_staled :: u64
  dsf_outboxes_fenced :: u64
  dsf_attempts_unconfirmed :: u64
  dsf_attempts_cancelled :: u64
  dsf_attempts_rejected :: u64

datatype TransportWriteResult = Sent | Backpressure | Failed | Unconfirmed

section \<open>Helpers\<close>

definition u64_to_i64 :: "string \<Rightarrow> u64 \<Rightarrow> (StoreError, i64) result" where
  "u64_to_i64 field n = (if int n \<le> i64_max then Inr (int n) else Inl (InvalidInteger field n))"

definition checked_increment :: "string \<Rightarrow> u64 \<Rightarrow> (StoreError, u64) result" where
  "checked_increment field n = (case checked_add_u64 n 1 of
     None \<Rightarrow> Inl (InvalidInteger field n)
   | Some succ \<Rightarrow> bindR (u64_to_i64 field succ) (\<lambda>_. Inr succ))"

definition require_non_empty :: "string \<Rightarrow> string \<Rightarrow> (StoreError, unit) result" where
  "require_non_empty field v = (if trim_is_empty v
     then Inl (InvalidRecord ''gateway_delivery'' field (field @ '' must not be empty'')) else Inr ())"

definition stale_session :: "SessionId \<Rightarrow> StoreError" where
  "stale_session session_id = StaleWrite ''execution_client_session'' session_id"

definition stale_outbound :: "MessageId \<Rightarrow> StoreError" where
  "stale_outbound message_id = StaleWrite ''outbound_delivery'' message_id"

definition invalid_outbound :: "MessageId \<Rightarrow> string \<Rightarrow> StoreError" where
  "invalid_outbound message_id reason = InvalidRecord ''outbound_delivery'' message_id reason"

definition has_rejected_prefix :: "string option \<Rightarrow> bool" where
  "has_rejected_prefix e \<longleftrightarrow> is_some_and (starts_with TRANSPORT_ACK_REJECTED_PREFIX) e"

text \<open>\<open>COALESCE(last_error, '') LIKE 'TRANSPORT_ACK_REJECTED:%'\<close>.\<close>

definition like_rejected :: "string option \<Rightarrow> bool" where
  "like_rejected e \<longleftrightarrow> sql_like_prefix TRANSPORT_ACK_REJECTED_PREFIX (case e of None \<Rightarrow> [] | Some x \<Rightarrow> x)"

definition require_active_session_revision :: "StoredSessionRecord \<Rightarrow> u64 \<Rightarrow> (StoreError, unit) result" where
  "require_active_session_revision session expected_revision =
     (if ss_status session = SessionStatus.Active \<and> ss_revision session = expected_revision then Inr ()
      else Inl (stale_session (ss_session_id session)))"

definition require_monotonic_transition_time ::
  "StoredWireOutbox \<Rightarrow> StoredDeliveryAttempt \<Rightarrow> i64 \<Rightarrow> (StoreError, unit) result" where
  "require_monotonic_transition_time outbox attempt t =
     (if t < wo_updated_at outbox \<or> t < da_updated_at attempt then Inl (stale_outbound (wo_message_id outbox))
      else Inr ())"

definition last_seen :: "StoredSessionRecord \<Rightarrow> i64" where
  "last_seen session = (case ss_last_heartbeat_at session of None \<Rightarrow> ss_connected_at session | Some t \<Rightarrow> t)"

definition validate_new_active_session :: "NewSessionRecord \<Rightarrow> (StoreError, unit) result" where
  "validate_new_active_session session =
     (if ns_status session \<noteq> SessionStatus.Active \<or> ns_disconnected_at session \<noteq> None
        \<or> ns_max_inflight_commands session = 0 \<or> ns_updated_at session < ns_connected_at session
        \<or> is_some_and (\<lambda>t. t < ns_connected_at session \<or> t > ns_updated_at session) (ns_last_heartbeat_at session)
        \<or> is_some_and (\<lambda>t. t < ns_connected_at session \<or> t > ns_updated_at session) (ns_last_time_sync_at session)
        then Inl (InvalidRecord ''execution_client_session'' (ns_session_id session)
          ''invalid active session status, limit, or timestamps'')
      else if ns_clock_sync_status session = Some ClockSyncStatus.Synced \<and> ns_last_time_sync_at session = None
        \<or> ns_last_time_sync_at session \<noteq> None \<and> ns_clock_sync_status session = None
        then Inl (InvalidRecord ''execution_client_session'' (ns_session_id session)
          ''time-sync evidence is inconsistent with clock_sync_status'')
      else Inr ())"

definition same_registration :: "StoredSessionRecord \<Rightarrow> NewSessionRecord \<Rightarrow> bool" where
  "same_registration existing incoming \<longleftrightarrow>
     ss_session_id existing = ns_session_id incoming \<and> ss_client_id existing = ns_client_id incoming
     \<and> ss_account_id existing = ns_account_id incoming \<and> ss_terminal_id existing = ns_terminal_id incoming
     \<and> ss_platform existing = ns_platform incoming \<and> ss_capabilities existing = ns_capabilities incoming
     \<and> ss_remote_addr existing = ns_remote_addr incoming \<and> ss_connected_at existing = ns_connected_at incoming
     \<and> ss_max_inflight_commands existing = ns_max_inflight_commands incoming"

definition same_session_identity :: "StoredSessionRecord \<Rightarrow> NewSessionRecord \<Rightarrow> bool" where
  "same_session_identity existing incoming \<longleftrightarrow>
     ss_session_id existing = ns_session_id incoming \<and> ss_client_id existing = ns_client_id incoming
     \<and> ss_account_id existing = ns_account_id incoming \<and> ss_terminal_id existing = ns_terminal_id incoming
     \<and> ss_platform existing = ns_platform incoming \<and> ss_capabilities existing = ns_capabilities incoming
     \<and> ss_remote_addr existing = ns_remote_addr incoming \<and> ss_connected_at existing = ns_connected_at incoming
     \<and> ss_status existing = ns_status incoming \<and> ss_last_heartbeat_at existing = ns_last_heartbeat_at incoming
     \<and> ss_last_time_sync_at existing = ns_last_time_sync_at incoming
     \<and> ss_clock_sync_status existing = ns_clock_sync_status incoming
     \<and> ss_disconnected_at existing = ns_disconnected_at incoming \<and> ss_updated_at existing = ns_updated_at incoming
     \<and> ss_max_inflight_commands existing = ns_max_inflight_commands incoming"

definition same_wire_outbox_fact :: "StoredWireOutbox \<Rightarrow> NewWireOutbox \<Rightarrow> bool" where
  "same_wire_outbox_fact existing incoming \<longleftrightarrow>
     wo_message_id existing = nwo_message_id incoming \<and> wo_session_id existing = nwo_session_id incoming
     \<and> wo_message_type existing = nwo_message_type incoming \<and> wo_sequence existing = nwo_sequence incoming
     \<and> wo_command_id existing = nwo_command_id incoming \<and> wo_request_id existing = nwo_request_id incoming
     \<and> wo_payload existing = nwo_payload incoming"

definition same_attempt :: "StoredDeliveryAttempt \<Rightarrow> NewDeliveryAttempt \<Rightarrow> bool" where
  "same_attempt existing incoming \<longleftrightarrow>
     da_attempt_id existing = nda_attempt_id incoming \<and> da_subject existing = nda_subject incoming
     \<and> da_session_id existing = nda_session_id incoming \<and> da_message_id existing = nda_message_id incoming
     \<and> da_request_payload existing = nda_request_payload incoming \<and> da_status existing = nda_status incoming
     \<and> da_attempted_at existing = nda_attempted_at incoming \<and> da_acked_at existing = nda_acked_at incoming
     \<and> da_error existing = nda_error incoming \<and> da_updated_at existing = nda_updated_at incoming"

definition validate_new_attempt :: "NewDeliveryAttempt \<Rightarrow> (StoreError, unit) result" where
  "validate_new_attempt a = (let bad = InvalidRecord ''command_delivery_attempt'' (nda_attempt_id a) in
     bindR (require_non_empty ''delivery attempt_id'' (nda_attempt_id a)) (\<lambda>_.
     if nda_updated_at a < nda_attempted_at a
       \<or> (nda_status a = CommandDeliveryAttemptStatus.Acked) \<noteq> (nda_acked_at a \<noteq> None)
       then Inl (bad ''attempt timestamps do not match status'')
     else if nda_status a = CommandDeliveryAttemptStatus.Acked \<and> \<not> is_command_subject (nda_subject a)
       then Inl (bad ''ACKED is only valid for execution command receipt'')
     else if nda_status a = CommandDeliveryAttemptStatus.Unconfirmed
       \<and> (case nda_error a of None \<Rightarrow> True | Some e \<Rightarrow> trim_is_empty e)
       then Inl (bad ''UNCONFIRMED requires a non-empty error'')
     else if nda_message_id a \<noteq> None \<and> nda_session_id a = None
       then Inl (bad ''session_id and message_id must be present together'')
     else if nda_message_id a \<noteq> None \<and> nda_request_payload a \<noteq> None
       then Inl (bad ''outbox-bound attempts must not duplicate the request payload'')
     else if nda_message_id a = None \<and> nda_request_payload a = None
       then Inl (bad ''unbound delivery attempts require the rejected request payload'')
     else if nda_message_id a = None \<and> nda_status a \<in> set bound_attempt_statuses
       then Inl (bad ''delivery status requires an outbox binding'')
     else Inr ()))"

section \<open>Reads\<close>

definition fetch_session_by_id :: "store_json \<Rightarrow> SessionId \<Rightarrow> (delivery_db, StoredSessionRecord option) tx" where
  "fetch_session_by_id J session_id =
     fetchT (\<lambda>db. find (\<lambda>r. ss_session_id r = session_id) (db_sessions db)) (session_from_row J)"

definition required_session :: "store_json \<Rightarrow> SessionId \<Rightarrow> (delivery_db, StoredSessionRecord) tx" where
  "required_session J session_id =
     requiredT (StoreError.NotFound ''execution_client_session'' session_id) (fetch_session_by_id J session_id)"

definition fetch_wire_outbox_by_id :: "store_json \<Rightarrow> MessageId \<Rightarrow> (delivery_db, StoredWireOutbox option) tx" where
  "fetch_wire_outbox_by_id J message_id =
     fetchT (\<lambda>db. find (\<lambda>r. wo_message_id r = message_id) (db_outbox db)) (wire_outbox_from_row J)"

definition required_outbox :: "store_json \<Rightarrow> MessageId \<Rightarrow> (delivery_db, StoredWireOutbox) tx" where
  "required_outbox J message_id =
     requiredT (StoreError.NotFound ''wire_outbox'' message_id) (fetch_wire_outbox_by_id J message_id)"

text \<open>The envelope of a delivery carries the payload that its command or request was stored with.\<close>

definition parent_payload :: "store_json \<Rightarrow> string \<Rightarrow> string \<Rightarrow> (delivery_db \<Rightarrow> CanonicalJson option) \<Rightarrow> (delivery_db, CanonicalJson) tx"
where
  "parent_payload J entity key select =
     requiredT (StoreError.NotFound entity key)
       (fetchT select (\<lambda>p. from_stored J entity key (cj_text p) (cj_sha256_hex p)))"

definition validate_outbox_parent_payload :: "store_json \<Rightarrow> StoredWireOutbox \<Rightarrow> (delivery_db, unit) tx" where
  "validate_outbox_parent_payload J outbox = (let bad = corrupt ''wire_outbox'' (wo_message_id outbox) in
     bindT (liftT (map_err (\<lambda>e. bad (sj_wire_error J e)) (decode_envelope J (wo_payload outbox)))) (\<lambda>wire.
     bindT (liftT (map_err (\<lambda>e. bad (''wire payload cannot be canonicalized: '' @ e))
       (json_from_value J (wm_payload wire)))) (\<lambda>envelope_payload.
     let compare = (\<lambda>durable. if durable \<noteq> envelope_payload
           then throwT (conflict ''outbound_delivery_payload'' (wo_message_id outbox)) else returnT ())
     in (case (wo_command_id outbox, wo_request_id outbox) of
        (Some command_id, None) \<Rightarrow> bindT (parent_payload J ''execution_command'' command_id
          (\<lambda>db. map_option cmd_payload (find (\<lambda>c. cmd_command_id c = command_id) (db_commands db)))) compare
      | (None, Some request_id) \<Rightarrow> bindT (parent_payload J ''reconciliation_run'' request_id
          (\<lambda>db. map_option run_request_payload (find (\<lambda>q. run_request_id q = request_id) (db_runs db)))) compare
      | _ \<Rightarrow> returnT ()))))"

definition validate_stored_attempt :: "store_json \<Rightarrow> StoredDeliveryAttempt \<Rightarrow> (delivery_db, unit) tx" where
  "validate_stored_attempt J a = (let bad = corrupt ''command_delivery_attempt'' (da_attempt_id a) in
     case (da_session_id a, da_message_id a) of
       (Some session_id, Some message_id) \<Rightarrow>
         bindT (requiredT (bad ''referenced outbox is missing'') (fetch_wire_outbox_by_id J message_id)) (\<lambda>outbox.
         bindT (validate_outbox_parent_payload J outbox) (\<lambda>_.
         if wo_session_id outbox \<noteq> Some session_id \<or> wo_command_id outbox \<noteq> subject_command_id (da_subject a)
           \<or> wo_request_id outbox \<noteq> subject_request_id (da_subject a)
           then throwT (bad ''outbox session or subject binding does not match'') else returnT ()))
     | (_, None) \<Rightarrow>
         if da_status a \<in> set bound_attempt_statuses
           then throwT (bad ''delivery status requires an outbox binding'') else returnT ()
     | (None, Some _) \<Rightarrow> throwT (bad ''session_id and message_id must be present together''))"

text \<open>The decoding of one attempt row and its validation, as every read of an attempt does.\<close>

definition read_attempt :: "store_json \<Rightarrow> StoredDeliveryAttempt \<Rightarrow> (delivery_db, StoredDeliveryAttempt) tx" where
  "read_attempt J row = bindT (liftT (delivery_attempt_from_row J row)) (\<lambda>a.
     bindT (validate_stored_attempt J a) (\<lambda>_. returnT a))"

definition fetch_attempt_where :: "store_json \<Rightarrow> (StoredDeliveryAttempt \<Rightarrow> bool) \<Rightarrow> (delivery_db, StoredDeliveryAttempt option) tx"
where
  "fetch_attempt_where J p = bindT (readT (\<lambda>db. find p (db_attempts db))) (\<lambda>row. case row of
     None \<Rightarrow> returnT None
   | Some r \<Rightarrow> bindT (read_attempt J r) (\<lambda>a. returnT (Some a)))"

definition fetch_delivery_attempt_by_id :: "store_json \<Rightarrow> string \<Rightarrow> (delivery_db, StoredDeliveryAttempt option) tx" where
  "fetch_delivery_attempt_by_id J attempt_id = fetch_attempt_where J (\<lambda>r. da_attempt_id r = attempt_id)"

definition fetch_delivery_attempt_by_message :: "store_json \<Rightarrow> MessageId \<Rightarrow> (delivery_db, StoredDeliveryAttempt option) tx"
where
  "fetch_delivery_attempt_by_message J message_id = fetch_attempt_where J (\<lambda>r. da_message_id r = Some message_id)"

definition required_attempt_by_message :: "store_json \<Rightarrow> MessageId \<Rightarrow> (delivery_db, StoredDeliveryAttempt) tx" where
  "required_attempt_by_message J message_id =
     requiredT (StoreError.NotFound ''command_delivery_attempt'' (''message_id='' @ message_id))
       (fetch_delivery_attempt_by_message J message_id)"

definition parse_and_validate_attempt_rows ::
  "store_json \<Rightarrow> StoredDeliveryAttempt list \<Rightarrow> (delivery_db, StoredDeliveryAttempt list) tx" where
  "parse_and_validate_attempt_rows J rows = mapT (read_attempt J) rows"

definition required_outbound_delivery :: "store_json \<Rightarrow> MessageId \<Rightarrow> (delivery_db, StoredOutboundDelivery) tx" where
  "required_outbound_delivery J message_id =
     bindT (required_outbox J message_id) (\<lambda>outbox.
     bindT (required_attempt_by_message J message_id) (\<lambda>attempt.
     returnT \<lparr>sod_outbox = outbox, sod_attempt = attempt\<rparr>))"

definition fetch_outbound_delivery :: "store_json \<Rightarrow> MessageId \<Rightarrow> (delivery_db, StoredOutboundDelivery option) tx" where
  "fetch_outbound_delivery J message_id =
     bindT (fetch_wire_outbox_by_id J message_id) (\<lambda>found. case found of
       None \<Rightarrow> returnT None
     | Some outbox \<Rightarrow>
         bindT (validate_outbox_parent_payload J outbox) (\<lambda>_.
         bindT (requiredT (corrupt ''outbound_delivery'' message_id ''delivery outbox has no matching attempt'')
           (fetch_delivery_attempt_by_message J message_id)) (\<lambda>attempt.
         returnT (Some \<lparr>sod_outbox = outbox, sod_attempt = attempt\<rparr>))))"

definition list_pending_outbox :: "store_json \<Rightarrow> SessionId \<Rightarrow> nat \<Rightarrow> (delivery_db, StoredWireOutbox list) tx" where
  "list_pending_outbox J session_id limit =
     (if limit = 0 then throwT (StoreError.InvalidSequence ''list_pending_outbox.limit'')
      else bindT (readT (\<lambda>db. take limit (filter (\<lambda>r. wo_session_id r = Some session_id
          \<and> wo_status r = WireOutboxStatus.Pending)
          (sort_key (\<lambda>r. (wo_sequence r, wo_message_id r)) (db_outbox db)))))
        (\<lambda>rows. mapT (\<lambda>r. liftT (wire_outbox_from_row J r)) rows))"

definition list_session_delivery_attempts :: "store_json \<Rightarrow> SessionId \<Rightarrow> (delivery_db, StoredDeliveryAttempt list) tx" where
  "list_session_delivery_attempts J session_id =
     bindT (readT (\<lambda>db. filter (\<lambda>r. da_session_id r = Some session_id)
       (sort_key (\<lambda>r. (da_attempted_at r, da_attempt_id r)) (db_attempts db))))
     (parse_and_validate_attempt_rows J)"

end
