(* ===== verification/Delivery_Ops.thy ===== *)
theory Delivery_Ops
  imports Delivery_Store
begin

text \<open>
  The operations of \<open>crates/store/src/gateway_delivery.rs\<close> that change the tables, in the order of the code.
\<close>

section \<open>Compare-and-set updates\<close>

definition update_outbox_state ::
  "store_json \<Rightarrow> StoredWireOutbox \<Rightarrow> WireOutboxStatus \<Rightarrow> i64 \<Rightarrow> i64 option \<Rightarrow> i64 option \<Rightarrow> string option \<Rightarrow>
   (delivery_db, unit) tx" where
  "update_outbox_state J current status updated_at sent_at acked_at error =
     bindT (liftT (checked_increment ''wire_outbox.revision'' (wo_revision current))) (\<lambda>next_revision.
     bindT (liftT (u64_to_i64 ''wire_outbox.revision'' next_revision)) (\<lambda>_.
     bindT (liftT (u64_to_i64 ''wire_outbox.revision'' (wo_revision current))) (\<lambda>_.
     bindT (update_outbox_row J
       (\<lambda>r. wo_message_id r = wo_message_id current \<and> wo_revision r = wo_revision current)
       (\<lambda>r. r\<lparr>wo_status := status, wo_revision := next_revision, wo_updated_at := updated_at,
          wo_sent_at := sent_at, wo_acked_at := acked_at, wo_last_error := error\<rparr>)) (\<lambda>affected.
     if \<not> affected then throwT (stale_outbound (wo_message_id current)) else returnT ()))))"

definition update_attempt_state ::
  "store_json \<Rightarrow> StoredDeliveryAttempt \<Rightarrow> CommandDeliveryAttemptStatus \<Rightarrow> i64 \<Rightarrow> i64 option \<Rightarrow> string option \<Rightarrow>
   (delivery_db, unit) tx" where
  "update_attempt_state J current status updated_at acked_at error =
     bindT (liftT (checked_increment ''command_delivery_attempts.revision'' (da_revision current))) (\<lambda>next_revision.
     bindT (liftT (u64_to_i64 ''command_delivery_attempts.revision'' next_revision)) (\<lambda>_.
     bindT (liftT (u64_to_i64 ''command_delivery_attempts.revision'' (da_revision current))) (\<lambda>_.
     bindT (update_attempt_row J
       (\<lambda>r. da_attempt_id r = da_attempt_id current \<and> da_revision r = da_revision current)
       (\<lambda>r. r\<lparr>da_status := status, da_revision := next_revision, da_updated_at := updated_at,
          da_acked_at := acked_at, da_error := error\<rparr>)) (\<lambda>affected.
     if \<not> affected then throwT (StaleWrite ''command_delivery_attempt'' (da_attempt_id current)) else returnT ()))))"

text \<open>The update of an active session at a revision; \<open>change\<close> sets the columns besides the revision.\<close>

definition update_active_session ::
  "store_json \<Rightarrow> SessionId \<Rightarrow> u64 \<Rightarrow> u64 \<Rightarrow> (StoredSessionRecord \<Rightarrow> bool) \<Rightarrow>
   (StoredSessionRecord \<Rightarrow> StoredSessionRecord) \<Rightarrow> (delivery_db, unit) tx" where
  "update_active_session J session_id revision next_revision cond change =
     bindT (liftT (u64_to_i64 ''execution_client_sessions.revision'' next_revision)) (\<lambda>_.
     bindT (liftT (u64_to_i64 ''execution_client_sessions.revision'' revision)) (\<lambda>_.
     bindT (update_session_row J
       (\<lambda>r. ss_session_id r = session_id \<and> ss_status r = SessionStatus.Active \<and> ss_revision r = revision \<and> cond r)
       (\<lambda>r. (change r)\<lparr>ss_revision := next_revision\<rparr>)) (\<lambda>affected.
     if \<not> affected then throwT (stale_session session_id) else returnT ())))"

section \<open>Settling the attempts of a session\<close>

definition outbox_order :: "StoredWireOutbox \<Rightarrow> u64 option \<times> MessageId" where
  "outbox_order r = (wo_sequence r, wo_message_id r)"

text \<open>The message ids of the join of the outbox and the attempts of a session.\<close>

definition joined_messages ::
  "SessionId \<Rightarrow> (StoredWireOutbox \<Rightarrow> StoredDeliveryAttempt \<Rightarrow> bool) \<Rightarrow> delivery_db \<Rightarrow> MessageId list" where
  "joined_messages session_id cond db =
     concat (map (\<lambda>m. map (\<lambda>_. wo_message_id m)
       (filter (\<lambda>a. da_message_id a = Some (wo_message_id m) \<and> wo_session_id m = Some session_id \<and> cond m a)
         (db_attempts db)))
       (sort_key outbox_order (db_outbox db)))"

definition settle_rejected_attempt :: "store_json \<Rightarrow> i64 \<Rightarrow> MessageId \<Rightarrow> (delivery_db, unit) tx" where
  "settle_rejected_attempt J changed_at message_id =
     bindT (required_outbox J message_id) (\<lambda>outbox.
     bindT (required_attempt_by_message J message_id) (\<lambda>attempt.
     case wo_last_error outbox of
       None \<Rightarrow> throwT (corrupt ''outbound_delivery'' message_id ''transport-rejected outbox has no rejection reason'')
     | Some reason \<Rightarrow>
         if \<not> starts_with TRANSPORT_ACK_REJECTED_PREFIX reason
           then throwT (corrupt ''outbound_delivery'' message_id
             ''transport-rejected outbox has an invalid rejection reason'')
         else update_attempt_state J attempt CommandDeliveryAttemptStatus.Sent
           (max changed_at (da_updated_at attempt)) None None))"

definition settle_rejected_pending_attempts_on :: "store_json \<Rightarrow> SessionId \<Rightarrow> i64 \<Rightarrow> (delivery_db, u64) tx" where
  "settle_rejected_pending_attempts_on J session_id changed_at =
     bindT (readT (joined_messages session_id (\<lambda>m a. wo_status m = WireOutboxStatus.Failed
       \<and> da_status a = CommandDeliveryAttemptStatus.Pending \<and> like_rejected (wo_last_error m)))) (\<lambda>message_ids.
     bindT (for_eachT (settle_rejected_attempt J changed_at) message_ids) (\<lambda>_.
     returnT (length message_ids)))"

definition cancel_pending_delivery :: "store_json \<Rightarrow> i64 \<Rightarrow> string \<Rightarrow> MessageId \<Rightarrow> (delivery_db, unit) tx" where
  "cancel_pending_delivery J changed_at error message_id =
     bindT (required_outbox J message_id) (\<lambda>outbox.
     bindT (required_attempt_by_message J message_id) (\<lambda>attempt.
     bindT (liftT (require_monotonic_transition_time outbox attempt changed_at)) (\<lambda>_.
     bindT (update_outbox_state J outbox WireOutboxStatus.Cancelled changed_at None None (Some error)) (\<lambda>_.
     update_attempt_state J attempt CommandDeliveryAttemptStatus.Cancelled changed_at None (Some error)))))"

definition cancel_session_pending_deliveries_on ::
  "store_json \<Rightarrow> SessionId \<Rightarrow> i64 \<Rightarrow> string \<Rightarrow> (delivery_db, u64) tx" where
  "cancel_session_pending_deliveries_on J session_id changed_at error =
     bindT (readT (joined_messages session_id (\<lambda>m a. wo_status m = WireOutboxStatus.Pending
       \<and> da_status a = CommandDeliveryAttemptStatus.Pending))) (\<lambda>message_ids.
     bindT (for_eachT (cancel_pending_delivery J changed_at error) message_ids) (\<lambda>_.
     returnT (length message_ids)))"

text \<open>The attempts that may have reached the client: sent and not refused, or pending with a write begun.\<close>

definition in_doubt :: "delivery_db \<Rightarrow> StoredDeliveryAttempt \<Rightarrow> bool" where
  "in_doubt db a \<longleftrightarrow> list_ex (\<lambda>m. da_message_id a = Some (wo_message_id m) \<and>
     (da_status a = CommandDeliveryAttemptStatus.Sent \<and> wo_status m \<noteq> WireOutboxStatus.Failed
      \<or> da_status a = CommandDeliveryAttemptStatus.Pending \<and> wo_status m \<in>
          {WireOutboxStatus.WriteStarted, WireOutboxStatus.Sent, WireOutboxStatus.Acked})) (db_outbox db)"

definition unconfirm_attempt ::
  "store_json \<Rightarrow> i64 \<Rightarrow> string \<Rightarrow> StoredDeliveryAttempt \<Rightarrow> (delivery_db, StoredDeliveryAttempt) tx" where
  "unconfirm_attempt J changed_at error attempt =
     (if changed_at < da_updated_at attempt
        then throwT (StaleWrite ''command_delivery_attempt'' (da_attempt_id attempt))
      else bindT (update_attempt_state J attempt CommandDeliveryAttemptStatus.Unconfirmed changed_at None (Some error))
        (\<lambda>_. requiredT (corrupt ''command_delivery_attempt'' (da_attempt_id attempt) ''attempt disappeared'')
          (fetch_delivery_attempt_by_id J (da_attempt_id attempt))))"

definition unconfirm_session_attempts_on ::
  "store_json \<Rightarrow> SessionId \<Rightarrow> i64 \<Rightarrow> string \<Rightarrow> (delivery_db, StoredDeliveryAttempt list) tx" where
  "unconfirm_session_attempts_on J session_id changed_at error =
     bindT (readT (\<lambda>db. filter (\<lambda>a. da_session_id a = Some session_id \<and> in_doubt db a)
       (sort_key (\<lambda>a. (da_attempted_at a, da_attempt_id a)) (db_attempts db)))) (\<lambda>rows.
     bindT (parse_and_validate_attempt_rows J rows) (\<lambda>attempts.
     mapT (unconfirm_attempt J changed_at error) attempts))"

section \<open>Sessions\<close>

definition transition_session_status_on ::
  "store_json \<Rightarrow> StoredSessionRecord \<Rightarrow> SessionStatus \<Rightarrow> i64 \<Rightarrow> (delivery_db, unit) tx" where
  "transition_session_status_on J current status changed_at =
     bindT (liftT (checked_increment ''execution_client_sessions.revision'' (ss_revision current))) (\<lambda>next_revision.
     update_active_session J (ss_session_id current) (ss_revision current) next_revision (\<lambda>_. True)
       (\<lambda>r. r\<lparr>ss_status := status, ss_disconnected_at := Some changed_at, ss_updated_at := changed_at\<rparr>))"

definition insert_session_on :: "store_json \<Rightarrow> NewSessionRecord \<Rightarrow> (delivery_db, StoredSessionRecord WriteOutcome) tx"
where
  "insert_session_on J session =
     bindT (liftT (if ns_max_inflight_commands session = 0
       then Inl (StoreError.InvalidSequence ''execution_client_sessions.max_inflight_commands'')
       else bindR (u64_to_i64 ''execution_client_sessions.max_inflight_commands'' (ns_max_inflight_commands session))
         (\<lambda>_. Inr ()))) (\<lambda>_.
     bindT (insert_session_row J (stored_session session)) (\<lambda>inserted.
     if inserted then returnT (WriteOutcome.Inserted (stored_session session))
     else bindT (fetch_session_by_id J (ns_session_id session)) (\<lambda>found. case found of
       Some existing \<Rightarrow>
         if same_session_identity existing session then returnT (WriteOutcome.Duplicate existing)
         else throwT (conflict ''execution_client_session'' (''session_id='' @ ns_session_id session))
     | None \<Rightarrow> throwT (conflict ''execution_client_session''
         (''active identity client_id='' @ ns_client_id session @ '',account_id='' @ ns_account_id session @
          '',terminal_id='' @ (case ns_terminal_id session of None \<Rightarrow> [] | Some t \<Rightarrow> t))))))"

definition replace_existing_session ::
  "store_json \<Rightarrow> NewSessionRecord \<Rightarrow> StoredSessionRecord \<Rightarrow> (delivery_db, SessionReplacement) tx" where
  "replace_existing_session J session existing =
     bindT (settle_rejected_pending_attempts_on J (ss_session_id existing) (ns_updated_at session)) (\<lambda>_.
     bindT (cancel_session_pending_deliveries_on J (ss_session_id existing) (ns_updated_at session)
       ''SESSION_REPLACED'') (\<lambda>_.
     bindT (unconfirm_session_attempts_on J (ss_session_id existing) (ns_updated_at session)
       ''SESSION_REPLACED'') (\<lambda>unconfirmed_attempts.
     bindT (transition_session_status_on J existing SessionStatus.Stale (ns_updated_at session)) (\<lambda>_.
     bindT (requiredT (corrupt ''execution_client_session'' (ss_session_id existing) ''session disappeared'')
       (fetch_session_by_id J (ss_session_id existing))) (\<lambda>replaced_session.
     bindT (insert_session_on J session) (\<lambda>inserted.
     returnT \<lparr>srp_session = into_record inserted, srp_replaced_session = Some replaced_session,
       srp_unconfirmed_attempts = unconfirmed_attempts\<rparr>))))))"

definition replace_active_session_on :: "store_json \<Rightarrow> NewSessionRecord \<Rightarrow> (delivery_db, SessionReplacement) tx" where
  "replace_active_session_on J session =
     bindT (liftT (validate_new_active_session session)) (\<lambda>_.
     bindT (readT (\<lambda>db. filter (\<lambda>r. ss_client_id r = ns_client_id session \<and> ss_account_id r = ns_account_id session
       \<and> ss_terminal_id r = ns_terminal_id session \<and> ss_status r = SessionStatus.Active) (db_sessions db))) (\<lambda>rows.
     bindT (mapT (\<lambda>r. liftT (session_from_row J r)) rows) (\<lambda>active.
     if 1 < length active
       then throwT (corrupt ''execution_client_session'' (ns_account_id session)
         ''more than one active session has the same identity'')
     else case active of
       existing # _ \<Rightarrow>
         if ss_session_id existing = ns_session_id session then
           if same_registration existing session
             then returnT \<lparr>srp_session = existing, srp_replaced_session = None, srp_unconfirmed_attempts = []\<rparr>
           else throwT (conflict ''execution_client_session'' (''session_id='' @ ns_session_id session))
         else if ns_updated_at session < ss_updated_at existing
           then throwT (StaleWrite ''execution_client_session'' (ss_session_id existing))
         else
           replace_existing_session J session existing
     | [] \<Rightarrow>
         bindT (insert_session_on J session) (\<lambda>inserted.
         returnT \<lparr>srp_session = into_record inserted, srp_replaced_session = None,
           srp_unconfirmed_attempts = []\<rparr>))))"

definition update_session_heartbeat_on :: "store_json \<Rightarrow> SessionHeartbeatUpdate \<Rightarrow> (delivery_db, StoredSessionRecord) tx"
where
  "update_session_heartbeat_on J update =
     bindT (required_session J (shu_session_id update)) (\<lambda>current.
     bindT (liftT (require_active_session_revision current (shu_expected_revision update))) (\<lambda>_.
     if shu_updated_at update < ss_updated_at current \<or> shu_heartbeat_at update < ss_connected_at current
       \<or> is_some_and (\<lambda>last. shu_heartbeat_at update < last) (ss_last_heartbeat_at current)
       then throwT (stale_session (shu_session_id update))
     else
     bindT (case shu_last_time_sync_at update of
         Some synced_at \<Rightarrow>
           if synced_at < ss_connected_at current
             \<or> is_some_and (\<lambda>last. synced_at < last) (ss_last_time_sync_at current)
             then throwT (stale_session (shu_session_id update))
           else returnT (Some synced_at)
       | None \<Rightarrow> returnT (ss_last_time_sync_at current)) (\<lambda>last_time_sync_at.
     if shu_clock_sync_status update = ClockSyncStatus.Synced \<and> last_time_sync_at = None
       then throwT (InvalidRecord ''execution_client_session'' (shu_session_id update)
         ''SYNCED heartbeat requires time-sync evidence'')
     else
     bindT (liftT (checked_increment ''execution_client_sessions.revision'' (ss_revision current))) (\<lambda>next_revision.
     bindT (update_active_session J (shu_session_id update) (shu_expected_revision update) next_revision (\<lambda>_. True)
       (\<lambda>r. r\<lparr>ss_last_heartbeat_at := Some (shu_heartbeat_at update), ss_last_time_sync_at := last_time_sync_at,
          ss_clock_sync_status := Some (shu_clock_sync_status update), ss_updated_at := shu_updated_at update\<rparr>)) (\<lambda>_.
     required_session J (shu_session_id update))))))"

definition invalidate_session_clock_on :: "store_json \<Rightarrow> SessionClockInvalidation \<Rightarrow> (delivery_db, StoredSessionRecord) tx"
where
  "invalidate_session_clock_on J update =
     bindT (required_session J (sci_session_id update)) (\<lambda>current.
     bindT (liftT (require_active_session_revision current (sci_expected_revision update))) (\<lambda>_.
     if sci_updated_at update < ss_updated_at current then throwT (stale_session (sci_session_id update))
     else
     bindT (liftT (checked_increment ''execution_client_sessions.revision'' (ss_revision current))) (\<lambda>next_revision.
     bindT (update_active_session J (sci_session_id update) (sci_expected_revision update) next_revision (\<lambda>_. True)
       (\<lambda>r. r\<lparr>ss_clock_sync_status := Some ClockSyncStatus.Unsynced, ss_updated_at := sci_updated_at update\<rparr>)) (\<lambda>_.
     required_session J (sci_session_id update)))))"

text \<open>The common part of \<open>close_session_on\<close> and \<open>close_exact_session_on\<close>.\<close>

definition settle_and_close ::
  "store_json \<Rightarrow> StoredSessionRecord \<Rightarrow> SessionId \<Rightarrow> i64 \<Rightarrow> string \<Rightarrow> SessionStatus \<Rightarrow>
   (delivery_db, SessionDisconnectOutcome) tx" where
  "settle_and_close J current session_id changed_at delivery_error status =
     bindT (settle_rejected_pending_attempts_on J session_id changed_at) (\<lambda>_.
     bindT (unconfirm_session_attempts_on J session_id changed_at delivery_error) (\<lambda>unconfirmed_attempts.
     bindT (cancel_session_pending_deliveries_on J session_id changed_at delivery_error) (\<lambda>_.
     bindT (transition_session_status_on J current status changed_at) (\<lambda>_.
     bindT (required_session J session_id) (\<lambda>session.
     returnT \<lparr>sdo_session = session, sdo_unconfirmed_attempts = unconfirmed_attempts\<rparr>)))))"

definition close_session_on ::
  "store_json \<Rightarrow> SessionStatusUpdate \<Rightarrow> SessionStatus \<Rightarrow> (delivery_db, SessionDisconnectOutcome) tx" where
  "close_session_on J update status =
     bindT (liftT (require_non_empty ''session status delivery_error'' (ssu_delivery_error update))) (\<lambda>_.
     bindT (required_session J (ssu_session_id update)) (\<lambda>current.
     bindT (liftT (require_active_session_revision current (ssu_expected_revision update))) (\<lambda>_.
     if ssu_changed_at update < ss_updated_at current then throwT (stale_session (ssu_session_id update))
     else settle_and_close J current (ssu_session_id update) (ssu_changed_at update) (ssu_delivery_error update) status)))"

definition close_exact_session_on ::
  "store_json \<Rightarrow> ExactSessionClose \<Rightarrow> SessionStatus \<Rightarrow> (delivery_db, SessionDisconnectOutcome) tx" where
  "close_exact_session_on J update status =
     bindT (liftT (require_non_empty ''session status delivery_error'' (esc_delivery_error update))) (\<lambda>_.
     bindT (required_session J (esc_session_id update)) (\<lambda>current.
     if ss_status current \<noteq> SessionStatus.Active
       then returnT \<lparr>sdo_session = current, sdo_unconfirmed_attempts = []\<rparr>
     else settle_and_close J current (esc_session_id update) (max (esc_changed_at update) (ss_updated_at current))
       (esc_delivery_error update) status))"

text \<open>\<open>ORDER BY connected_at DESC, session_id\<close> does not matter: at most one candidate is looked at.\<close>

definition resolve_session_route_on :: "store_json \<Rightarrow> SessionRouteQuery \<Rightarrow> (delivery_db, SessionRouteResolution) tx" where
  "resolve_session_route_on J query =
     bindT (readT (\<lambda>db. filter (\<lambda>r. ss_account_id r = srq_account_id query
       \<and> (srq_client_id query = None \<or> srq_client_id query = Some (ss_client_id r))
       \<and> (srq_terminal_id query = None \<or> srq_terminal_id query = ss_terminal_id r)
       \<and> ss_status r = SessionStatus.Active)
       (sort_key (\<lambda>r. (- ss_connected_at r, ss_session_id r)) (db_sessions db)))) (\<lambda>rows.
     bindT (mapT (\<lambda>r. liftT (session_from_row J r)) rows) (\<lambda>candidates.
     if candidates = [] then returnT SessionRouteResolution.NoActiveSession
     else if 1 < length candidates then returnT (SessionRouteResolution.Ambiguous (length candidates))
     else let fresh = filter (\<lambda>s. srq_fresh_after query \<le> last_seen s) candidates in
       if fresh = [] then returnT (SessionRouteResolution.Stale (length candidates))
       else case filter (\<lambda>s. \<not> srq_require_synced_clock query
           \<or> ss_clock_sync_status s = Some ClockSyncStatus.Synced) fresh of
         [session] \<Rightarrow> returnT (SessionRouteResolution.Ready session)
       | [] \<Rightarrow> returnT (SessionRouteResolution.ClockUnhealthy 1)
       | ready \<Rightarrow> returnT (SessionRouteResolution.Ambiguous (length ready))))"

section \<open>Sequences\<close>

text \<open>The comparison of a subject's route with the session, common to commands and reconciliation runs.\<close>

definition route_mismatch ::
  "StoredSessionRecord \<Rightarrow> AccountId \<Rightarrow> ClientId option \<Rightarrow> TerminalId option \<Rightarrow> SequenceReservation option" where
  "route_mismatch session account_id client_id terminal_id =
     (if account_id \<noteq> ss_account_id session then Some (SequenceReservation.IdentityMismatch ''account_id'')
      else if is_some_and (\<lambda>v. v \<noteq> ss_client_id session) client_id
        then Some (SequenceReservation.IdentityMismatch ''client_id'')
      else if is_some_and (\<lambda>v. ss_terminal_id session \<noteq> Some v) terminal_id
        then Some (SequenceReservation.IdentityMismatch ''terminal_id'')
      else None)"

definition validate_subject_route ::
  "StoredSessionRecord \<Rightarrow> ReserveOutboundSequence \<Rightarrow> (delivery_db, SequenceReservation option) tx" where
  "validate_subject_route session request = (case ros_subject request of
     DeliverySubject.ExecutionCommand command_id \<Rightarrow>
       if ss_clock_sync_status session \<noteq> Some ClockSyncStatus.Synced
         then returnT (Some SequenceReservation.ClockUnhealthy)
       else bindT (requiredT (StoreError.NotFound ''execution_command'' command_id)
         (readT (\<lambda>db. find (\<lambda>c. cmd_command_id c = command_id) (db_commands db)))) (\<lambda>row.
         case route_mismatch session (cmd_account_id row) (cmd_client_id row) (cmd_terminal_id row) of
           Some rejection \<Rightarrow> returnT (Some rejection)
         | None \<Rightarrow> returnT (if cmd_expires_at row \<le> ros_reserved_at request
             then Some SequenceReservation.Expired else None))
   | DeliverySubject.ReconciliationRequest request_id \<Rightarrow>
       bindT (requiredT (StoreError.NotFound ''reconciliation_run'' request_id)
         (readT (\<lambda>db. find (\<lambda>q. run_request_id q = request_id) (db_runs db)))) (\<lambda>row.
         returnT (route_mismatch session (run_account_id row) (run_client_id row) (run_terminal_id row))))"

text \<open>The commands in flight: a \<open>LEFT JOIN\<close>, so an attempt without an outbox row counts.\<close>

definition inflight_commands :: "SessionId \<Rightarrow> delivery_db \<Rightarrow> u64" where
  "inflight_commands session_id db = length (filter (\<lambda>a.
     da_session_id a = Some session_id \<and> is_command_subject (da_subject a)
     \<and> da_status a \<in> {CommandDeliveryAttemptStatus.Pending, CommandDeliveryAttemptStatus.Sent,
         CommandDeliveryAttemptStatus.Unconfirmed}
     \<and> \<not> (case find (\<lambda>m. da_message_id a = Some (wo_message_id m)) (db_outbox db) of
           None \<Rightarrow> False
         | Some m \<Rightarrow> wo_status m = WireOutboxStatus.Failed \<and> like_rejected (wo_last_error m)))
     (db_attempts db))"

text \<open>The last part of both reservations: the next sequence and revision of the session, set together.\<close>

definition advance_sequence :: "store_json \<Rightarrow> StoredSessionRecord \<Rightarrow> i64 \<Rightarrow> (delivery_db, u64 \<times> u64) tx" where
  "advance_sequence J session reserved_at =
     bindT (liftT (checked_increment ''execution_client_sessions.last_outbound_sequence''
       (ss_last_outbound_sequence session))) (\<lambda>sequence.
     bindT (liftT (checked_increment ''execution_client_sessions.revision'' (ss_revision session))) (\<lambda>revision.
     bindT (liftT (u64_to_i64 ''execution_client_sessions.last_outbound_sequence'' sequence)) (\<lambda>_.
     bindT (liftT (u64_to_i64 ''execution_client_sessions.last_outbound_sequence''
       (ss_last_outbound_sequence session))) (\<lambda>_.
     bindT (update_active_session J (ss_session_id session) (ss_revision session) revision
       (\<lambda>r. ss_last_outbound_sequence r = ss_last_outbound_sequence session)
       (\<lambda>r. r\<lparr>ss_last_outbound_sequence := sequence, ss_updated_at := reserved_at\<rparr>)) (\<lambda>_.
     returnT (sequence, revision))))))"

definition reserve_outbound_sequence_on ::
  "store_json \<Rightarrow> ReserveOutboundSequence \<Rightarrow> (delivery_db, SequenceReservation) tx" where
  "reserve_outbound_sequence_on J request =
     bindT (required_session J (ros_session_id request)) (\<lambda>session.
     if ss_status session \<noteq> SessionStatus.Active \<or> ss_revision session \<noteq> ros_expected_revision request
       then returnT SequenceReservation.SessionUnavailable
     else if last_seen session < ros_fresh_after request then returnT SequenceReservation.SessionUnavailable
     else if ros_reserved_at request < ss_updated_at session then throwT (stale_session (ros_session_id request))
     else bindT (validate_subject_route session request) (\<lambda>rejection. case rejection of
       Some r \<Rightarrow> returnT r
     | None \<Rightarrow>
         bindT (readT (inflight_commands (ss_session_id session))) (\<lambda>inflight.
         if is_command_subject (ros_subject request) \<and> ss_max_inflight_commands session \<le> inflight
           then returnT (SequenceReservation.InflightLimit (ss_session_id session) inflight
             (ss_max_inflight_commands session))
         else bindT (advance_sequence J session (ros_reserved_at request)) (\<lambda>(sequence, revision).
         returnT (SequenceReservation.Reserved \<lparr>or_session_id = ss_session_id session,
           or_client_id = ss_client_id session, or_account_id = ss_account_id session,
           or_terminal_id = ss_terminal_id session, or_session_revision = revision, or_sequence = sequence,
           or_subject = ros_subject request\<rparr>)))))"

definition reserve_control_outbound_sequence_on ::
  "store_json \<Rightarrow> ReserveControlOutboundSequence \<Rightarrow> (delivery_db, ControlSequenceReservation) tx" where
  "reserve_control_outbound_sequence_on J request =
     bindT (fetch_session_by_id J (rco_session_id request)) (\<lambda>found. case found of
       None \<Rightarrow> returnT ControlSequenceReservation.SessionUnavailable
     | Some session \<Rightarrow>
         if ss_status session \<noteq> SessionStatus.Active then returnT ControlSequenceReservation.SessionUnavailable
         else if rco_reserved_at request < ss_updated_at session
           then throwT (stale_session (rco_session_id request))
         else bindT (advance_sequence J session (rco_reserved_at request)) (\<lambda>(sequence, revision).
         returnT (ControlSequenceReservation.Reserved \<lparr>cor_session_id = ss_session_id session,
           cor_client_id = ss_client_id session, cor_account_id = ss_account_id session,
           cor_terminal_id = ss_terminal_id session, cor_session_revision = revision, cor_sequence = sequence\<rparr>)))"

section \<open>Outbox and attempts\<close>

definition fetch_wire_outbox_conflicts :: "store_json \<Rightarrow> NewWireOutbox \<Rightarrow> (delivery_db, StoredWireOutbox list) tx" where
  "fetch_wire_outbox_conflicts J message =
     bindT (case (nwo_session_id message, nwo_sequence message) of
         (Some session_id, Some sequence) \<Rightarrow>
           if sequence = 0 then throwT (StoreError.InvalidSequence ''wire_outbox.sequence'')
           else bindT (liftT (u64_to_i64 ''wire_outbox.sequence'' sequence)) (\<lambda>_.
             readT (\<lambda>db. filter (\<lambda>r. wo_message_id r = nwo_message_id message
               \<or> wo_session_id r = Some session_id \<and> wo_sequence r = Some sequence) (db_outbox db)))
       | _ \<Rightarrow> readT (\<lambda>db. filter (\<lambda>r. wo_message_id r = nwo_message_id message) (db_outbox db)))
     (mapT (\<lambda>r. liftT (wire_outbox_from_row J r)))"

definition enqueue_wire_outbox_on :: "store_json \<Rightarrow> NewWireOutbox \<Rightarrow> (delivery_db, StoredWireOutbox WriteOutcome) tx" where
  "enqueue_wire_outbox_on J message =
     bindT (liftT (map_err (\<lambda>e. case e of CorruptData _ _ reason \<Rightarrow>
         InvalidRecord ''wire_outbox'' (nwo_message_id message) reason | other \<Rightarrow> other)
       (validate_stored_wire_outbox J (stored_outbox message)))) (\<lambda>_.
     bindT (liftT (case nwo_sequence message of
         None \<Rightarrow> Inr ()
       | Some n \<Rightarrow> if n = 0 then Inl (StoreError.InvalidSequence ''wire_outbox.sequence'')
           else bindR (u64_to_i64 ''wire_outbox.sequence'' n) (\<lambda>_. Inr ()))) (\<lambda>_.
     bindT (insert_outbox_row J (stored_outbox message)) (\<lambda>inserted.
     if inserted then returnT (WriteOutcome.Inserted (stored_outbox message))
     else bindT (fetch_wire_outbox_conflicts J message) (\<lambda>existing. case existing of
       [e] \<Rightarrow> if same_wire_outbox_fact e message then returnT (WriteOutcome.Duplicate e)
         else throwT (conflict ''wire_outbox'' (''message_id='' @ nwo_message_id message))
     | _ \<Rightarrow> throwT (conflict ''wire_outbox'' (''message_id='' @ nwo_message_id message))))))"

definition fetch_attempt_conflicts :: "store_json \<Rightarrow> NewDeliveryAttempt \<Rightarrow> (delivery_db, StoredDeliveryAttempt list) tx"
where
  "fetch_attempt_conflicts J attempt =
     bindT (readT (\<lambda>db. filter (\<lambda>r. da_attempt_id r = nda_attempt_id attempt
       \<or> nda_message_id attempt \<noteq> None \<and> da_message_id r = nda_message_id attempt) (db_attempts db)))
     (parse_and_validate_attempt_rows J)"

definition record_delivery_attempt_on ::
  "store_json \<Rightarrow> NewDeliveryAttempt \<Rightarrow> (delivery_db, StoredDeliveryAttempt WriteOutcome) tx" where
  "record_delivery_attempt_on J attempt =
     bindT (liftT (validate_new_attempt attempt)) (\<lambda>_.
     bindT (insert_attempt_row J (stored_attempt attempt)) (\<lambda>inserted.
     if inserted then
       bindT (requiredT (corrupt ''command_delivery_attempt'' (nda_attempt_id attempt)
         ''attempt disappeared after insert'') (fetch_delivery_attempt_by_id J (nda_attempt_id attempt)))
         (\<lambda>a. returnT (WriteOutcome.Inserted a))
     else bindT (fetch_attempt_conflicts J attempt) (\<lambda>existing. case existing of
       [e] \<Rightarrow> if same_attempt e attempt then returnT (WriteOutcome.Duplicate e)
         else throwT (conflict ''command_delivery_attempt'' (''attempt_id='' @ nda_attempt_id attempt))
     | _ \<Rightarrow> throwT (conflict ''command_delivery_attempt'' (''attempt_id='' @ nda_attempt_id attempt)))))"

text \<open>The text of the error below leaves out the quoted message type.\<close>

definition subject_message_type :: "DeliverySubject \<Rightarrow> string" where
  "subject_message_type subject = (case subject of
     DeliverySubject.ExecutionCommand _ \<Rightarrow> ''execution.command''
   | DeliverySubject.ReconciliationRequest _ \<Rightarrow> ''reconciliation.request'')"

definition reserved_outbox :: "NewReservedDelivery \<Rightarrow> NewWireOutbox" where
  "reserved_outbox delivery = \<lparr>nwo_message_id = nrd_message_id delivery,
     nwo_session_id = Some (or_session_id (nrd_reservation delivery)), nwo_message_type = nrd_message_type delivery,
     nwo_sequence = Some (or_sequence (nrd_reservation delivery)),
     nwo_command_id = subject_command_id (or_subject (nrd_reservation delivery)),
     nwo_request_id = subject_request_id (or_subject (nrd_reservation delivery)),
     nwo_payload = nrd_envelope delivery, nwo_status = WireOutboxStatus.Pending,
     nwo_created_at = nrd_created_at delivery, nwo_updated_at = nrd_created_at delivery,
     nwo_sent_at = None, nwo_acked_at = None, nwo_last_error = None\<rparr>"

definition reserved_attempt :: "NewReservedDelivery \<Rightarrow> NewDeliveryAttempt" where
  "reserved_attempt delivery = \<lparr>nda_attempt_id = nrd_attempt_id delivery,
     nda_subject = or_subject (nrd_reservation delivery),
     nda_session_id = Some (or_session_id (nrd_reservation delivery)),
     nda_message_id = Some (nrd_message_id delivery), nda_request_payload = None,
     nda_status = CommandDeliveryAttemptStatus.Pending, nda_attempted_at = nrd_created_at delivery,
     nda_acked_at = None, nda_error = None, nda_updated_at = nrd_created_at delivery\<rparr>"

definition enqueue_reserved_delivery_on ::
  "store_json \<Rightarrow> NewReservedDelivery \<Rightarrow> (delivery_db, StoredOutboundDelivery) tx" where
  "enqueue_reserved_delivery_on J delivery = (let reservation = nrd_reservation delivery in
     bindT (liftT (require_non_empty ''delivery attempt_id'' (nrd_attempt_id delivery))) (\<lambda>_.
     bindT (required_session J (or_session_id reservation)) (\<lambda>session.
     if ss_status session \<noteq> SessionStatus.Active \<or> ss_revision session \<noteq> or_session_revision reservation
       \<or> ss_last_outbound_sequence session \<noteq> or_sequence reservation
       \<or> nrd_created_at delivery < ss_updated_at session
       then throwT (StaleWrite ''outbound_reservation'' (or_session_id reservation))
     else if ss_client_id session \<noteq> or_client_id reservation \<or> ss_account_id session \<noteq> or_account_id reservation
       \<or> ss_terminal_id session \<noteq> or_terminal_id reservation
       then throwT (conflict ''outbound_reservation'' (or_session_id reservation))
     else if nrd_message_type delivery \<noteq> subject_message_type (or_subject reservation)
       then throwT (InvalidRecord ''outbound_delivery'' (nrd_message_id delivery)
         ''message_type does not match delivery subject'')
     else
     bindT (validate_outbox_parent_payload J (stored_outbox (reserved_outbox delivery))) (\<lambda>_.
     bindT (enqueue_wire_outbox_on J (reserved_outbox delivery)) (\<lambda>outbox_outcome.
     bindT (record_delivery_attempt_on J (reserved_attempt delivery)) (\<lambda>attempt_outcome.
     if was_inserted outbox_outcome \<noteq> was_inserted attempt_outcome
       then throwT (conflict ''outbound_delivery'' (wo_message_id (into_record outbox_outcome)))
     else returnT \<lparr>sod_outbox = into_record outbox_outcome, sod_attempt = into_record attempt_outcome\<rparr>))))))"

section \<open>Claim and transport write\<close>

definition cancel_claimed_delivery ::
  "store_json \<Rightarrow> StoredWireOutbox \<Rightarrow> StoredDeliveryAttempt \<Rightarrow> i64 \<Rightarrow> CommandDeliveryAttemptStatus \<Rightarrow> string \<Rightarrow>
   (delivery_db, StoredOutboundDelivery) tx" where
  "cancel_claimed_delivery J outbox attempt cancelled_at attempt_status reason =
     bindT (update_outbox_state J outbox WireOutboxStatus.Cancelled cancelled_at None None (Some reason)) (\<lambda>_.
     bindT (update_attempt_state J attempt attempt_status cancelled_at None (Some reason)) (\<lambda>_.
     required_outbound_delivery J (wo_message_id outbox)))"

definition claim_outbox_on :: "store_json \<Rightarrow> ClaimWireOutbox \<Rightarrow> (delivery_db, OutboxClaimOutcome) tx" where
  "claim_outbox_on J claim =
     bindT (required_outbox J (cwo_message_id claim)) (\<lambda>outbox.
     bindT (required_attempt_by_message J (cwo_message_id claim)) (\<lambda>attempt.
     case wo_session_id outbox of
       None \<Rightarrow> throwT (corrupt ''outbound_delivery'' (cwo_message_id claim) ''delivery outbox has no session'')
     | Some session_id \<Rightarrow>
     bindT (required_session J session_id) (\<lambda>session.
     if wo_status outbox \<noteq> WireOutboxStatus.Pending \<or> da_status attempt \<noteq> CommandDeliveryAttemptStatus.Pending
       \<or> wo_revision outbox \<noteq> cwo_expected_outbox_revision claim
       \<or> da_revision attempt \<noteq> cwo_expected_attempt_revision claim
       then throwT (stale_outbound (cwo_message_id claim))
     else
     bindT (liftT (require_monotonic_transition_time outbox attempt (cwo_claimed_at claim))) (\<lambda>_.
     if ss_status session \<noteq> SessionStatus.Active \<or> last_seen session < cwo_fresh_after claim then
       bindT (cancel_claimed_delivery J outbox attempt (cwo_claimed_at claim)
         CommandDeliveryAttemptStatus.NoActiveSession DELIVERY_ERROR_SESSION_UNAVAILABLE)
         (\<lambda>delivery. returnT (OutboxClaimOutcome.SessionUnavailable delivery))
     else if is_command_subject (da_subject attempt) \<and> \<not> cwo_require_synced_clock claim
       then throwT (invalid_outbound (cwo_message_id claim) ''execution command claim must require a synced clock'')
     else if cwo_require_synced_clock claim \<and> ss_clock_sync_status session \<noteq> Some ClockSyncStatus.Synced then
       bindT (cancel_claimed_delivery J outbox attempt (cwo_claimed_at claim)
         CommandDeliveryAttemptStatus.NoActiveSession DELIVERY_ERROR_CLOCK_UNHEALTHY)
         (\<lambda>delivery. returnT (OutboxClaimOutcome.ClockUnhealthy delivery))
     else
     bindT (case subject_command_id (da_subject attempt) of
         None \<Rightarrow> returnT False
       | Some command_id \<Rightarrow> bindT (requiredT (StoreError.NotFound ''execution_command'' command_id)
           (readT (\<lambda>db. find (\<lambda>c. cmd_command_id c = command_id) (db_commands db)))) (\<lambda>row.
           returnT (cmd_expires_at row \<le> cwo_claimed_at claim))) (\<lambda>expired.
     if expired then
       bindT (cancel_claimed_delivery J outbox attempt (cwo_claimed_at claim)
         CommandDeliveryAttemptStatus.Cancelled DELIVERY_ERROR_COMMAND_EXPIRED)
         (\<lambda>delivery. returnT (OutboxClaimOutcome.Expired delivery))
     else
     bindT (update_outbox_state J outbox WireOutboxStatus.WriteStarted (cwo_claimed_at claim) None None None) (\<lambda>_.
     bindT (update_attempt_state J attempt CommandDeliveryAttemptStatus.Pending (cwo_claimed_at claim) None None) (\<lambda>_.
     bindT (required_outbound_delivery J (cwo_message_id claim)) (\<lambda>delivery.
     returnT (OutboxClaimOutcome.Claimed delivery)))))))))"

definition transport_write_outcome ::
  "TransportWriteResult \<Rightarrow> i64 \<Rightarrow> WireOutboxStatus \<times> CommandDeliveryAttemptStatus \<times> i64 option" where
  "transport_write_outcome result completed_at = (case result of
     TransportWriteResult.Sent \<Rightarrow> (WireOutboxStatus.Sent, CommandDeliveryAttemptStatus.Sent, Some completed_at)
   | TransportWriteResult.Backpressure \<Rightarrow> (WireOutboxStatus.Failed, CommandDeliveryAttemptStatus.Backpressure, None)
   | TransportWriteResult.Failed \<Rightarrow> (WireOutboxStatus.Failed, CommandDeliveryAttemptStatus.Failed, None)
   | TransportWriteResult.Unconfirmed \<Rightarrow>
       (WireOutboxStatus.WriteStarted, CommandDeliveryAttemptStatus.Unconfirmed, None))"

definition validate_write_error :: "CompleteTransportWrite \<Rightarrow> TransportWriteResult \<Rightarrow> (StoreError, unit) result" where
  "validate_write_error completion result =
     (if result = TransportWriteResult.Sent then
        (if ctw_error completion \<noteq> None
           then Inl (invalid_outbound (ctw_message_id completion) ''sent write must not include error'') else Inr ())
      else require_non_empty ''transport write error'' (case ctw_error completion of None \<Rightarrow> [] | Some e \<Rightarrow> e))"

text \<open>The branch of \<open>finish_transport_write_on\<close> after the client has already answered: the transport
  acknowledgement or the receipt of the command arrived before the write was reported.\<close>

definition finish_answered_write ::
  "store_json \<Rightarrow> CompleteTransportWrite \<Rightarrow> StoredWireOutbox \<Rightarrow> StoredDeliveryAttempt \<Rightarrow>
   (delivery_db, StoredOutboundDelivery) tx" where
  "finish_answered_write J completion outbox attempt =
     (let transport_acked = (wo_status outbox = WireOutboxStatus.Acked) in
     if wo_status outbox \<notin> {WireOutboxStatus.WriteStarted, WireOutboxStatus.Sent, WireOutboxStatus.Acked,
         WireOutboxStatus.Failed}
       then throwT (stale_outbound (ctw_message_id completion))
     else
     bindT (if wo_status outbox = WireOutboxStatus.WriteStarted \<and> \<not> transport_acked
       then update_outbox_state J outbox WireOutboxStatus.Sent (max (ctw_completed_at completion) (wo_updated_at outbox))
         (Some (ctw_completed_at completion)) None None
       else returnT ()) (\<lambda>_.
     bindT (if da_status attempt = CommandDeliveryAttemptStatus.Pending
         \<or> transport_acked \<and> da_status attempt \<in>
             {CommandDeliveryAttemptStatus.Failed, CommandDeliveryAttemptStatus.Backpressure}
       then if da_status attempt = CommandDeliveryAttemptStatus.Pending
           \<and> da_revision attempt \<noteq> ctw_expected_attempt_revision completion
         then throwT (stale_outbound (ctw_message_id completion))
         else update_attempt_state J attempt CommandDeliveryAttemptStatus.Sent
           (max (ctw_completed_at completion) (da_updated_at attempt)) None None
       else returnT ()) (\<lambda>_.
     required_outbound_delivery J (ctw_message_id completion))))"

definition finish_transport_write_on ::
  "store_json \<Rightarrow> CompleteTransportWrite \<Rightarrow> TransportWriteResult \<Rightarrow> (delivery_db, StoredOutboundDelivery) tx" where
  "finish_transport_write_on J completion result =
     bindT (required_outbox J (ctw_message_id completion)) (\<lambda>outbox.
     bindT (required_attempt_by_message J (ctw_message_id completion)) (\<lambda>attempt.
     bindT (liftT (validate_write_error completion result)) (\<lambda>_.
     let transport_rejected = (wo_status outbox = WireOutboxStatus.Failed \<and> has_rejected_prefix (wo_last_error outbox)) in
     if transport_rejected \<and> da_status attempt = CommandDeliveryAttemptStatus.Pending then
       if da_revision attempt \<noteq> ctw_expected_attempt_revision completion
         then throwT (stale_outbound (ctw_message_id completion))
       else bindT (update_attempt_state J attempt CommandDeliveryAttemptStatus.Sent
           (max (ctw_completed_at completion) (da_updated_at attempt)) None None) (\<lambda>_.
         required_outbound_delivery J (ctw_message_id completion))
     else if da_status attempt = CommandDeliveryAttemptStatus.Unconfirmed
       \<or> wo_status outbox = WireOutboxStatus.Failed \<and> da_status attempt = CommandDeliveryAttemptStatus.Failed
       \<or> transport_rejected \<and> da_status attempt \<in>
           {CommandDeliveryAttemptStatus.Sent, CommandDeliveryAttemptStatus.Acked}
       then returnT \<lparr>sod_outbox = outbox, sod_attempt = attempt\<rparr>
     else if wo_status outbox = WireOutboxStatus.Acked \<or> da_status attempt = CommandDeliveryAttemptStatus.Acked
       then finish_answered_write J completion outbox attempt
     else if wo_status outbox \<noteq> WireOutboxStatus.WriteStarted
       \<or> da_status attempt \<noteq> CommandDeliveryAttemptStatus.Pending
       \<or> wo_revision outbox \<noteq> ctw_expected_outbox_revision completion
       \<or> da_revision attempt \<noteq> ctw_expected_attempt_revision completion
       then throwT (stale_outbound (ctw_message_id completion))
     else
     bindT (liftT (require_monotonic_transition_time outbox attempt (ctw_completed_at completion))) (\<lambda>_.
     case transport_write_outcome result (ctw_completed_at completion) of (outbox_status, attempt_status, sent_at) \<Rightarrow>
     bindT (update_outbox_state J outbox outbox_status (ctw_completed_at completion) sent_at None
       (ctw_error completion)) (\<lambda>_.
     bindT (update_attempt_state J attempt attempt_status (ctw_completed_at completion) None
       (ctw_error completion)) (\<lambda>_.
     required_outbound_delivery J (ctw_message_id completion)))))))"

section \<open>Answers of the client\<close>

definition acknowledgeable :: "StoredWireOutbox \<Rightarrow> bool" where
  "acknowledgeable outbox \<longleftrightarrow> wo_status outbox \<in>
     {WireOutboxStatus.WriteStarted, WireOutboxStatus.Sent, WireOutboxStatus.Failed}"

definition accept_transport_ack :: "store_json \<Rightarrow> TransportAckUpdate \<Rightarrow> StoredWireOutbox \<Rightarrow> (delivery_db, StoredWireOutbox) tx"
where
  "accept_transport_ack J update outbox =
     (if wo_status outbox = WireOutboxStatus.Acked then returnT outbox
      else if has_rejected_prefix (wo_last_error outbox)
        then throwT (conflict ''transport_ack'' (tau_message_id update))
      else if \<not> acknowledgeable outbox then throwT (stale_outbound (tau_message_id update))
      else
      let sent_at = (case wo_sent_at outbox of None \<Rightarrow> tau_acked_at update | Some t \<Rightarrow> t);
          acked_at = max (tau_acked_at update) sent_at in
      bindT (update_outbox_state J outbox WireOutboxStatus.Acked
        (max (max (tau_acked_at update) (wo_updated_at outbox)) acked_at) (Some sent_at) (Some acked_at) None) (\<lambda>_.
      required_outbox J (tau_message_id update)))"

definition reject_transport_ack :: "store_json \<Rightarrow> TransportAckUpdate \<Rightarrow> StoredWireOutbox \<Rightarrow> (delivery_db, StoredWireOutbox) tx"
where
  "reject_transport_ack J update outbox = (case tau_reason update of
     None \<Rightarrow> throwT (invalid_outbound (tau_message_id update) ''rejected transport ack requires reason'')
   | Some reason \<Rightarrow>
     bindT (liftT (require_non_empty ''transport ack rejection reason'' reason)) (\<lambda>_.
     let durable_reason = TRANSPORT_ACK_REJECTED_PREFIX @ reason in
     if wo_status outbox = WireOutboxStatus.Acked then throwT (conflict ''transport_ack'' (tau_message_id update))
     else if has_rejected_prefix (wo_last_error outbox) then
       if wo_last_error outbox = Some durable_reason then returnT outbox
       else throwT (conflict ''transport_ack'' (tau_message_id update))
     else if \<not> acknowledgeable outbox then throwT (stale_outbound (tau_message_id update))
     else
     bindT (update_outbox_state J outbox WireOutboxStatus.Failed (max (tau_acked_at update) (wo_updated_at outbox))
       (Some (case wo_sent_at outbox of None \<Rightarrow> tau_acked_at update | Some t \<Rightarrow> t)) None (Some durable_reason)) (\<lambda>_.
     required_outbox J (tau_message_id update))))"

definition record_transport_ack_on :: "store_json \<Rightarrow> TransportAckUpdate \<Rightarrow> (delivery_db, StoredWireOutbox) tx" where
  "record_transport_ack_on J update =
     bindT (required_outbox J (tau_message_id update)) (\<lambda>outbox.
     if wo_session_id outbox \<noteq> Some (tau_session_id update) \<or> wo_message_type outbox \<noteq> tau_message_type update
       then throwT (conflict ''transport_ack'' (tau_message_id update))
     else case tau_status update of
       TransportAckStatus.Rejected \<Rightarrow> reject_transport_ack J update outbox
     | _ \<Rightarrow> accept_transport_ack J update outbox)"

definition record_command_received_attempt_on ::
  "store_json \<Rightarrow> CommandReceivedAttemptUpdate \<Rightarrow> (delivery_db, StoredDeliveryAttempt) tx" where
  "record_command_received_attempt_on J update =
     bindT (required_attempt_by_message J (cra_source_message_id update)) (\<lambda>attempt.
     if da_session_id attempt \<noteq> Some (cra_session_id update)
       \<or> da_subject attempt \<noteq> DeliverySubject.ExecutionCommand (cra_command_id update)
       then throwT (conflict ''command_received_attempt'' (cra_source_message_id update))
     else if da_status attempt = CommandDeliveryAttemptStatus.Acked then returnT attempt
     else if da_status attempt \<notin> {CommandDeliveryAttemptStatus.Pending, CommandDeliveryAttemptStatus.Sent,
         CommandDeliveryAttemptStatus.Unconfirmed, CommandDeliveryAttemptStatus.Failed,
         CommandDeliveryAttemptStatus.Backpressure}
       then throwT (StaleWrite ''command_delivery_attempt'' (da_attempt_id attempt))
     else if cra_received_at update < da_attempted_at attempt
       then throwT (InvalidRecord ''command_received_attempt'' (cra_source_message_id update)
         ''received_at precedes attempted_at'')
     else
     bindT (update_attempt_state J attempt CommandDeliveryAttemptStatus.Acked
       (max (cra_received_at update) (da_updated_at attempt)) (Some (cra_received_at update)) None) (\<lambda>_.
     required_attempt_by_message J (cra_source_message_id update)))"

definition timeout_delivery_attempt_on ::
  "store_json \<Rightarrow> DeliveryAttemptTimeout \<Rightarrow> (delivery_db, StoredDeliveryAttempt) tx" where
  "timeout_delivery_attempt_on J timeout =
     bindT (liftT (require_non_empty ''delivery timeout error'' (dat_error timeout))) (\<lambda>_.
     bindT (requiredT (StoreError.NotFound ''command_delivery_attempt'' (dat_attempt_id timeout))
       (fetch_delivery_attempt_by_id J (dat_attempt_id timeout))) (\<lambda>attempt.
     if \<not> is_command_subject (da_subject attempt)
       then throwT (InvalidRecord ''command_delivery_attempt'' (dat_attempt_id timeout)
         ''command.received timeout only applies to execution commands'')
     else if da_status attempt \<in> {CommandDeliveryAttemptStatus.Unconfirmed, CommandDeliveryAttemptStatus.Acked}
       then returnT attempt
     else
     bindT (if da_status attempt = CommandDeliveryAttemptStatus.Sent then
         (case da_message_id attempt of
            None \<Rightarrow> throwT (corrupt ''command_delivery_attempt'' (da_attempt_id attempt)
              ''SENT attempt has no message_id'')
          | Some message_id \<Rightarrow> bindT (required_outbox J message_id) (\<lambda>outbox.
              returnT (wo_status outbox = WireOutboxStatus.Failed \<and> has_rejected_prefix (wo_last_error outbox))))
       else returnT False) (\<lambda>rejected.
     if rejected then returnT attempt
     else if da_status attempt \<noteq> CommandDeliveryAttemptStatus.Sent
       \<or> da_revision attempt \<noteq> dat_expected_revision timeout \<or> dat_timed_out_at timeout < da_updated_at attempt
       then throwT (StaleWrite ''command_delivery_attempt'' (da_attempt_id attempt))
     else
     bindT (update_attempt_state J attempt CommandDeliveryAttemptStatus.Unconfirmed (dat_timed_out_at timeout) None
       (Some (dat_error timeout))) (\<lambda>_.
     requiredT (corrupt ''command_delivery_attempt'' (dat_attempt_id timeout) ''attempt disappeared'')
       (fetch_delivery_attempt_by_id J (dat_attempt_id timeout))))))"

section \<open>The fence after a restart\<close>

definition add_counter :: "string \<Rightarrow> u64 \<Rightarrow> u64 \<Rightarrow> (StoreError, u64) result" where
  "add_counter field a b = (case checked_add_u64 a b of
     None \<Rightarrow> Inl (InvalidInteger field u64_max) | Some c \<Rightarrow> Inr c)"

text \<open>The counters are those of rejected, cancelled and unconfirmed attempts.\<close>

definition fence_session ::
  "store_json \<Rightarrow> i64 \<Rightarrow> string \<Rightarrow> StoredSessionRecord \<Rightarrow> u64 \<times> u64 \<times> u64 \<Rightarrow> (delivery_db, u64 \<times> u64 \<times> u64) tx" where
  "fence_session J fenced_at error session counters = (case counters of (rejected, cancelled, unconfirmed) \<Rightarrow>
     if fenced_at < ss_updated_at session then throwT (stale_session (ss_session_id session))
     else
     bindT (settle_rejected_pending_attempts_on J (ss_session_id session) fenced_at) (\<lambda>n.
     bindT (liftT (add_counter ''startup_fence.attempts_rejected'' rejected n)) (\<lambda>rejected'.
     bindT (cancel_session_pending_deliveries_on J (ss_session_id session) fenced_at error) (\<lambda>m.
     bindT (liftT (add_counter ''startup_fence.attempts_cancelled'' cancelled m)) (\<lambda>cancelled'.
     bindT (unconfirm_session_attempts_on J (ss_session_id session) fenced_at error) (\<lambda>newly_unconfirmed.
     bindT (liftT (add_counter ''startup_fence.attempts_unconfirmed'' unconfirmed (length newly_unconfirmed)))
       (\<lambda>unconfirmed'.
     bindT (transition_session_status_on J session SessionStatus.Stale fenced_at) (\<lambda>_.
     returnT (rejected', cancelled', unconfirmed')))))))))"

definition fence_outbox :: "store_json \<Rightarrow> i64 \<Rightarrow> string \<Rightarrow> MessageId \<Rightarrow> u64 \<Rightarrow> (delivery_db, u64) tx" where
  "fence_outbox J fenced_at error message_id unconfirmed =
     bindT (required_outbox J message_id) (\<lambda>outbox.
     if fenced_at < wo_updated_at outbox then throwT (stale_outbound message_id)
     else
     bindT (update_outbox_state J outbox WireOutboxStatus.WriteStarted fenced_at (wo_sent_at outbox)
       (wo_acked_at outbox) (Some error)) (\<lambda>_.
     bindT (fetch_delivery_attempt_by_message J message_id) (\<lambda>found. case found of
       None \<Rightarrow> returnT unconfirmed
     | Some attempt \<Rightarrow>
         if da_status attempt \<in> {CommandDeliveryAttemptStatus.Pending, CommandDeliveryAttemptStatus.Sent} then
           bindT (update_attempt_state J attempt CommandDeliveryAttemptStatus.Unconfirmed fenced_at None (Some error)) (\<lambda>_.
           liftT (add_counter ''startup_fence.attempts_unconfirmed'' unconfirmed 1))
         else returnT unconfirmed)))"

definition fence_interrupted_writes_on ::
  "store_json \<Rightarrow> i64 \<Rightarrow> string \<Rightarrow> (delivery_db, DeliveryStartupFenceReport) tx" where
  "fence_interrupted_writes_on J fenced_at error =
     bindT (liftT (require_non_empty ''startup fence error'' error)) (\<lambda>_.
     bindT (readT (\<lambda>db. filter (\<lambda>r. ss_status r = SessionStatus.Active)
       (sort_key (\<lambda>r. (ss_connected_at r, ss_session_id r)) (db_sessions db)))) (\<lambda>rows.
     bindT (mapT (\<lambda>r. liftT (session_from_row J r)) rows) (\<lambda>active_sessions.
     bindT (foldT (fence_session J fenced_at error) (0, 0, 0) active_sessions) (\<lambda>(rejected, cancelled, unconfirmed).
     bindT (readT (\<lambda>db. map wo_message_id (filter (\<lambda>r. wo_status r = WireOutboxStatus.WriteStarted)
       (sort_key (\<lambda>r. (wo_created_at r, wo_message_id r)) (db_outbox db))))) (\<lambda>message_ids.
     bindT (foldT (fence_outbox J fenced_at error) unconfirmed message_ids) (\<lambda>unconfirmed'.
     returnT \<lparr>dsf_sessions_staled = length active_sessions, dsf_outboxes_fenced = length message_ids,
       dsf_attempts_unconfirmed = unconfirmed', dsf_attempts_cancelled = cancelled,
       dsf_attempts_rejected = rejected\<rparr>))))))"

section \<open>Operations\<close>

text \<open>The transactions that the gateway and the processors run on these tables. A reservation and the
  enqueueing of its delivery are one transaction (\<open>gateway/src/outbound.rs\<close>); \<open>prepare\<close> builds the delivery from the
  reservation. Attempts are recorded on their own for deliveries that were refused, without a message.\<close>

datatype delivery_op =
    ReplaceSession NewSessionRecord
  | Heartbeat SessionHeartbeatUpdate
  | InvalidateClock SessionClockInvalidation
  | MarkStale SessionStatusUpdate
  | Disconnect SessionStatusUpdate
  | MarkExactStale ExactSessionClose
  | DisconnectExact ExactSessionClose
  | ReserveControl ReserveControlOutboundSequence
  | ReserveAndEnqueue ReserveOutboundSequence "OutboundReservation \<Rightarrow> NewReservedDelivery"
  | RecordAttempt NewDeliveryAttempt
  | ClaimOutbox ClaimWireOutbox
  | FinishWrite CompleteTransportWrite TransportWriteResult
  | RecordTransportAck TransportAckUpdate
  | RecordReceived CommandReceivedAttemptUpdate
  | TimeoutAttempt DeliveryAttemptTimeout
  | FenceInterruptedWrites i64 string

text \<open>The part of \<open>prepare_and_write\<close> that reserves and enqueues; on a refused reservation it goes on to record
  a rejection (\<open>RecordAttempt\<close>).\<close>

definition reserve_and_enqueue ::
  "store_json \<Rightarrow> ReserveOutboundSequence \<Rightarrow> (OutboundReservation \<Rightarrow> NewReservedDelivery) \<Rightarrow>
   (delivery_db, SequenceReservation) tx" where
  "reserve_and_enqueue J request prepare =
     bindT (reserve_outbound_sequence_on J request) (\<lambda>reservation. case reservation of
       SequenceReservation.Reserved r \<Rightarrow>
         bindT (enqueue_reserved_delivery_on J (prepare r)) (\<lambda>_. returnT reservation)
     | _ \<Rightarrow> returnT reservation)"

definition ignoring :: "('s, 'a) tx \<Rightarrow> ('s, unit) tx" where
  "ignoring m = bindT m (\<lambda>_. returnT ())"

definition run_op :: "store_json \<Rightarrow> delivery_op \<Rightarrow> (delivery_db, unit) tx" where
  "run_op J op = (case op of
     ReplaceSession session \<Rightarrow> ignoring (replace_active_session_on J session)
   | Heartbeat update \<Rightarrow> ignoring (update_session_heartbeat_on J update)
   | InvalidateClock update \<Rightarrow> ignoring (invalidate_session_clock_on J update)
   | MarkStale update \<Rightarrow> ignoring (close_session_on J update SessionStatus.Stale)
   | Disconnect update \<Rightarrow> ignoring (close_session_on J update SessionStatus.Disconnected)
   | MarkExactStale update \<Rightarrow> ignoring (close_exact_session_on J update SessionStatus.Stale)
   | DisconnectExact update \<Rightarrow> ignoring (close_exact_session_on J update SessionStatus.Disconnected)
   | ReserveControl request \<Rightarrow> ignoring (reserve_control_outbound_sequence_on J request)
   | ReserveAndEnqueue request prepare \<Rightarrow> ignoring (reserve_and_enqueue J request prepare)
   | RecordAttempt attempt \<Rightarrow> ignoring (record_delivery_attempt_on J attempt)
   | ClaimOutbox claim \<Rightarrow> ignoring (claim_outbox_on J claim)
   | FinishWrite completion result \<Rightarrow> ignoring (finish_transport_write_on J completion result)
   | RecordTransportAck update \<Rightarrow> ignoring (record_transport_ack_on J update)
   | RecordReceived update \<Rightarrow> ignoring (record_command_received_attempt_on J update)
   | TimeoutAttempt timeout \<Rightarrow> ignoring (timeout_delivery_attempt_on J timeout)
   | FenceInterruptedWrites fenced_at error \<Rightarrow> ignoring (fence_interrupted_writes_on J fenced_at error))"

end
