(* ===== verification/Delivery_Rows.thy ===== *)
theory Delivery_Rows
  imports Delivery_Ops
begin

text \<open>
  The life of single rows of the delivery tables: which changes of a session, an outbox row and an attempt
  the operations can make (\<open>session_grows\<close>, \<open>outbox_grows\<close>, \<open>attempt_grows\<close>, each an interpretation of
  \<open>versioned_rows\<close>), and the effect of a compare-and-set on the row that was read.
\<close>

section \<open>Growth\<close>

definition session_fixed :: "StoredSessionRecord \<Rightarrow> StoredSessionRecord \<Rightarrow> bool" where
  "session_fixed r r' \<longleftrightarrow> ss_session_id r' = ss_session_id r \<and> ss_client_id r' = ss_client_id r
     \<and> ss_account_id r' = ss_account_id r \<and> ss_terminal_id r' = ss_terminal_id r \<and> ss_platform r' = ss_platform r
     \<and> ss_capabilities r' = ss_capabilities r \<and> ss_remote_addr r' = ss_remote_addr r
     \<and> ss_connected_at r' = ss_connected_at r \<and> ss_max_inflight_commands r' = ss_max_inflight_commands r"

text \<open>Only an active session changes, and its sequence never goes back.\<close>

definition session_grows :: "StoredSessionRecord \<Rightarrow> StoredSessionRecord \<Rightarrow> bool" where
  "session_grows r r' \<longleftrightarrow> r' = r \<or> ss_status r = SessionStatus.Active \<and> session_fixed r r'
     \<and> ss_revision r < ss_revision r' \<and> ss_updated_at r \<le> ss_updated_at r'
     \<and> ss_last_outbound_sequence r \<le> ss_last_outbound_sequence r'"

primrec outbox_leads :: "WireOutboxStatus \<Rightarrow> WireOutboxStatus \<Rightarrow> bool" where
  "outbox_leads WireOutboxStatus.Pending = (\<lambda>s. s \<noteq> WireOutboxStatus.Pending)"
| "outbox_leads WireOutboxStatus.WriteStarted = (\<lambda>s. s \<noteq> WireOutboxStatus.Pending \<and> s \<noteq> WireOutboxStatus.Cancelled)"
| "outbox_leads WireOutboxStatus.Sent = (\<lambda>s. s = WireOutboxStatus.Acked \<or> s = WireOutboxStatus.Failed)"
| "outbox_leads WireOutboxStatus.Acked = (\<lambda>s. False)"
| "outbox_leads WireOutboxStatus.Failed = (\<lambda>s. s = WireOutboxStatus.Acked \<or> s = WireOutboxStatus.Failed)"
| "outbox_leads WireOutboxStatus.Cancelled = (\<lambda>s. False)"

definition outbox_fixed :: "StoredWireOutbox \<Rightarrow> StoredWireOutbox \<Rightarrow> bool" where
  "outbox_fixed m m' \<longleftrightarrow> wo_message_id m' = wo_message_id m \<and> wo_session_id m' = wo_session_id m
     \<and> wo_message_type m' = wo_message_type m \<and> wo_sequence m' = wo_sequence m
     \<and> wo_command_id m' = wo_command_id m \<and> wo_request_id m' = wo_request_id m
     \<and> wo_payload m' = wo_payload m \<and> wo_created_at m' = wo_created_at m"

definition outbox_grows :: "StoredWireOutbox \<Rightarrow> StoredWireOutbox \<Rightarrow> bool" where
  "outbox_grows m m' \<longleftrightarrow> m' = m \<or> outbox_fixed m m' \<and> wo_revision m < wo_revision m'
     \<and> wo_updated_at m \<le> wo_updated_at m' \<and> outbox_leads (wo_status m) (wo_status m')"

primrec attempt_leads :: "CommandDeliveryAttemptStatus \<Rightarrow> CommandDeliveryAttemptStatus \<Rightarrow> bool" where
  "attempt_leads CommandDeliveryAttemptStatus.Pending = (\<lambda>s. True)"
| "attempt_leads CommandDeliveryAttemptStatus.Sent =
     (\<lambda>s. s = CommandDeliveryAttemptStatus.Unconfirmed \<or> s = CommandDeliveryAttemptStatus.Acked)"
| "attempt_leads CommandDeliveryAttemptStatus.Acked = (\<lambda>s. False)"
| "attempt_leads CommandDeliveryAttemptStatus.Backpressure = (\<lambda>s. s = CommandDeliveryAttemptStatus.Sent
     \<or> s = CommandDeliveryAttemptStatus.Unconfirmed \<or> s = CommandDeliveryAttemptStatus.Acked)"
| "attempt_leads CommandDeliveryAttemptStatus.NoActiveSession = (\<lambda>s. False)"
| "attempt_leads CommandDeliveryAttemptStatus.Failed = (\<lambda>s. s = CommandDeliveryAttemptStatus.Sent
     \<or> s = CommandDeliveryAttemptStatus.Unconfirmed \<or> s = CommandDeliveryAttemptStatus.Acked)"
| "attempt_leads CommandDeliveryAttemptStatus.Unconfirmed = (\<lambda>s. s = CommandDeliveryAttemptStatus.Acked)"
| "attempt_leads CommandDeliveryAttemptStatus.Cancelled = (\<lambda>s. False)"

definition attempt_fixed :: "StoredDeliveryAttempt \<Rightarrow> StoredDeliveryAttempt \<Rightarrow> bool" where
  "attempt_fixed a a' \<longleftrightarrow> da_attempt_id a' = da_attempt_id a \<and> da_subject a' = da_subject a
     \<and> da_session_id a' = da_session_id a \<and> da_message_id a' = da_message_id a
     \<and> da_request_payload a' = da_request_payload a \<and> da_attempted_at a' = da_attempted_at a"

definition attempt_grows :: "StoredDeliveryAttempt \<Rightarrow> StoredDeliveryAttempt \<Rightarrow> bool" where
  "attempt_grows a a' \<longleftrightarrow> a' = a \<or> attempt_fixed a a' \<and> da_revision a < da_revision a'
     \<and> da_updated_at a \<le> da_updated_at a' \<and> attempt_leads (da_status a) (da_status a')"

lemma outbox_leads_trans: "outbox_leads s s' \<Longrightarrow> outbox_leads s' s'' \<Longrightarrow> outbox_leads s s''"
  by (cases s; cases s') auto

lemma attempt_leads_trans: "attempt_leads s s' \<Longrightarrow> attempt_leads s' s'' \<Longrightarrow> attempt_leads s s''"
  by (cases s; cases s') auto

interpretation ses: versioned_rows ss_session_id ss_revision session_grows
proof
  show "session_grows r r''" if "session_grows r r'" "session_grows r' r''" for r r' r''
    using that unfolding session_grows_def session_fixed_def by (elim disjE) auto
qed (auto simp: session_grows_def session_fixed_def)

interpretation outb: versioned_rows wo_message_id wo_revision outbox_grows
proof
  show "outbox_grows r r''" if "outbox_grows r r'" "outbox_grows r' r''" for r r' r''
    using that unfolding outbox_grows_def outbox_fixed_def
    by (elim disjE) (auto dest: outbox_leads_trans)
qed (auto simp: outbox_grows_def outbox_fixed_def)

interpretation att: versioned_rows da_attempt_id da_revision attempt_grows
proof
  show "attempt_grows r r''" if "attempt_grows r r'" "attempt_grows r' r''" for r r' r''
    using that unfolding attempt_grows_def attempt_fixed_def
    by (elim disjE) (auto dest: attempt_leads_trans)
qed (auto simp: attempt_grows_def attempt_fixed_def)

section \<open>Compare-and-set on the row that was read\<close>

lemma u64_to_i64_ok: "u64_to_i64 field n = Inr i \<longleftrightarrow> int n \<le> i64_max \<and> i = int n"
  by (auto simp: u64_to_i64_def)

lemma checked_increment_ok: "checked_increment field n = Inr k \<Longrightarrow> k = n + 1"
  by (auto simp: checked_increment_def bindR_eq_Inr dest: checked_add_u64_Some split: option.splits)

lemma not_corrupt [simp]:
  "\<not> is_corrupt (IdentityConflict e k)" "\<not> is_corrupt (StoreError.NotFound e k)" "\<not> is_corrupt (StaleWrite e k)"
  "\<not> is_corrupt (InvalidRecord e k r)" "\<not> is_corrupt (InvalidInteger e n)" "\<not> is_corrupt (StoreError.InvalidSequence e)"
  "\<not> is_corrupt Database" "\<not> is_corrupt (conflict e k)" "\<not> is_corrupt (stale_session i)"
  "\<not> is_corrupt (stale_outbound i)" "\<not> is_corrupt (invalid_outbound i r)"
  by (simp_all add: is_corrupt_def conflict_def stale_session_def stale_outbound_def invalid_outbound_def)

lemma u64_to_i64_error: "u64_to_i64 field n = Inl e \<Longrightarrow> \<not> is_corrupt e"
  by (auto simp: u64_to_i64_def split: if_splits)

lemma checked_increment_error: "checked_increment field n = Inl e \<Longrightarrow> \<not> is_corrupt e"
  by (auto simp: checked_increment_def bindR_eq_Inl u64_to_i64_error split: option.splits)

lemma require_non_empty_ok [simp]: "require_non_empty field v = Inr () \<longleftrightarrow> \<not> trim_is_empty v"
  by (simp add: require_non_empty_def)

lemma require_non_empty_error: "require_non_empty field v = Inl e \<Longrightarrow> \<not> is_corrupt e"
  by (auto simp: require_non_empty_def split: if_splits)

lemmas store_errors = u64_to_i64_error checked_increment_error require_non_empty_error

definition outbox_state :: "StoredWireOutbox \<Rightarrow> WireOutboxStatus \<Rightarrow> i64 \<Rightarrow> i64 option \<Rightarrow> i64 option \<Rightarrow> string option \<Rightarrow> StoredWireOutbox"
where
  "outbox_state m status updated_at sent_at acked_at error = m\<lparr>wo_status := status, wo_revision := wo_revision m + 1,
     wo_updated_at := updated_at, wo_sent_at := sent_at, wo_acked_at := acked_at, wo_last_error := error\<rparr>"

definition attempt_state :: "StoredDeliveryAttempt \<Rightarrow> CommandDeliveryAttemptStatus \<Rightarrow> i64 \<Rightarrow> i64 option \<Rightarrow> string option \<Rightarrow> StoredDeliveryAttempt"
where
  "attempt_state a status updated_at acked_at error = a\<lparr>da_status := status, da_revision := da_revision a + 1,
     da_updated_at := updated_at, da_acked_at := acked_at, da_error := error\<rparr>"

lemma update_where_unfold: "update_where p f rows = map (\<lambda>r. if p r then f r else r) rows"
  by (simp add: update_where_def)

lemma update_outbox_state_ok:
  assumes "outb.unique (db_outbox db)" "m \<in> set (db_outbox db)"
    and "update_outbox_state J m status t sa aa e db = Inr (u, db')"
  shows "db' = db\<lparr>db_outbox := outb.put (outbox_state m status t sa aa e) (db_outbox db)\<rparr>
    \<and> outbox_row_check J (outbox_state m status t sa aa e) \<and> wo_updated_at m \<le> t
    \<and> outbox_time (outbox_state m status t sa aa e) \<le> t"
proof -
  let ?f = "\<lambda>r. r\<lparr>wo_status := status, wo_revision := wo_revision m + 1, wo_updated_at := t,
    wo_sent_at := sa, wo_acked_at := aa, wo_last_error := e\<rparr>"
  let ?p = "\<lambda>r. wo_message_id r = wo_message_id m \<and> wo_revision r = wo_revision m"
  from assms(3) have 1: "update_outbox_row J ?p ?f db = Inr (True, db')"
    by (auto simp: update_outbox_state_def bindT_eq_Inr liftT_eq_Inr dest!: checked_increment_ok split: if_splits)
  then have "outbox_cas m (?f m)" "outbox_row_check J (?f m)"
    using assms(2) by (auto simp: update_outbox_row_def list_all_iff split: if_splits)
  moreover have "db' = db\<lparr>db_outbox := update_where ?p ?f (db_outbox db)\<rparr>"
    using 1 by (simp add: update_outbox_row_def split: if_splits)
  moreover have "update_where ?p ?f (db_outbox db) = outb.put (?f m) (db_outbox db)"
    unfolding update_where_unfold using assms by (intro outb.update_where_put) simp_all
  ultimately show ?thesis by (auto simp: outbox_cas_def outbox_state_def)
qed

lemma update_outbox_state_error: "update_outbox_state J m status t sa aa e db = Inl err \<Longrightarrow> \<not> is_corrupt err"
  by (auto simp: update_outbox_state_def update_outbox_row_def bindT_eq_Inl liftT_eq_Inl store_errors split: if_splits)

lemma update_attempt_state_ok:
  assumes "att.unique (db_attempts db)" "a \<in> set (db_attempts db)"
    and "update_attempt_state J a status t aa e db = Inr (u, db')"
  shows "db' = db\<lparr>db_attempts := att.put (attempt_state a status t aa e) (db_attempts db)\<rparr>
    \<and> attempt_row_check J (attempt_state a status t aa e) \<and> da_updated_at a \<le> t
    \<and> attempt_time (attempt_state a status t aa e) \<le> t"
proof -
  let ?f = "\<lambda>r. r\<lparr>da_status := status, da_revision := da_revision a + 1, da_updated_at := t,
    da_acked_at := aa, da_error := e\<rparr>"
  let ?p = "\<lambda>r. da_attempt_id r = da_attempt_id a \<and> da_revision r = da_revision a"
  from assms(3) have 1: "update_attempt_row J ?p ?f db = Inr (True, db')"
    by (auto simp: update_attempt_state_def bindT_eq_Inr liftT_eq_Inr dest!: checked_increment_ok split: if_splits)
  then have "attempt_cas a (?f a)" "attempt_row_check J (?f a)"
    using assms(2) by (auto simp: update_attempt_row_def list_all_iff split: if_splits)
  moreover have "db' = db\<lparr>db_attempts := update_where ?p ?f (db_attempts db)\<rparr>"
    using 1 by (simp add: update_attempt_row_def split: if_splits)
  moreover have "update_where ?p ?f (db_attempts db) = att.put (?f a) (db_attempts db)"
    unfolding update_where_unfold using assms by (intro att.update_where_put) simp_all
  ultimately show ?thesis by (auto simp: attempt_cas_def attempt_state_def)
qed

lemma update_attempt_state_error: "update_attempt_state J a status t aa e db = Inl err \<Longrightarrow> \<not> is_corrupt err"
  by (auto simp: update_attempt_state_def update_attempt_row_def bindT_eq_Inl liftT_eq_Inl store_errors split: if_splits)

lemma update_active_session_ok:
  assumes "ses.unique (db_sessions db)" "r \<in> set (db_sessions db)" "ss_session_id r = i"
    and "\<And>q. ss_session_id (change q) = ss_session_id q"
    and "update_active_session J i (ss_revision r) n cond change db = Inr (u, db')"
  shows "ss_status r = SessionStatus.Active \<and> cond r
    \<and> db' = db\<lparr>db_sessions := ses.put ((change r)\<lparr>ss_revision := n\<rparr>) (db_sessions db)\<rparr>
    \<and> session_cas r ((change r)\<lparr>ss_revision := n\<rparr>) \<and> session_row_check J ((change r)\<lparr>ss_revision := n\<rparr>)"
proof -
  let ?f = "\<lambda>q. (change q)\<lparr>ss_revision := n\<rparr>"
  let ?p = "\<lambda>q. ss_session_id q = i \<and> ss_status q = SessionStatus.Active \<and> ss_revision q = ss_revision r \<and> cond q"
  from assms(5) have 1: "update_session_row J ?p ?f db = Inr (True, db')"
    by (auto simp: update_active_session_def bindT_eq_Inr liftT_eq_Inr split: if_splits)
  then obtain q where "q \<in> set (db_sessions db)" "?p q"
    by (auto simp: update_session_row_def list_ex_iff split: if_splits)
  moreover from this have "q = r" using assms(1,2,3) ses.unique_inj by metis
  ultimately have r: "ss_status r = SessionStatus.Active" "cond r" by auto
  have "map (\<lambda>q. if ?p q then ?f q else q) (db_sessions db) = ses.put (?f r) (db_sessions db)"
    unfolding ses.put_def using assms(1,2,3,4) r ses.unique_inj by (intro map_cong refl) force
  then show ?thesis using 1 r assms(2,3)
    by (auto simp: update_session_row_def update_where_def list_all_iff split: if_splits)
qed

lemma update_active_session_error:
  "update_active_session J i v n cond change db = Inl e \<Longrightarrow> \<not> is_corrupt e"
  by (auto simp: update_active_session_def update_session_row_def bindT_eq_Inl liftT_eq_Inl store_errors
    split: if_splits)

end
