(* ===== verification/Delivery_Invariant.thy ===== *)
theory Delivery_Invariant
  imports Delivery_Rows
begin

text \<open>
  The invariant of the delivery tables. Every row decodes to itself, keys are unique, there is at most one
  active session per identity, an outbox row has a sequence that its session has already passed and that no
  other row of the session has, and each outbox row and its attempt are in matching states.
\<close>

section \<open>Rows that can be read\<close>

definition session_ok :: "store_json \<Rightarrow> StoredSessionRecord \<Rightarrow> bool" where
  "session_ok J r \<longleftrightarrow> canonical J (ss_capabilities r)
     \<and> 0 < ss_last_outbound_sequence r \<and> 0 < ss_max_inflight_commands r \<and> ss_connected_at r \<le> ss_updated_at r
     \<and> (\<forall>t \<in> set_option (ss_last_heartbeat_at r). ss_connected_at r \<le> t \<and> t \<le> ss_updated_at r)
     \<and> (\<forall>t \<in> set_option (ss_last_time_sync_at r). ss_connected_at r \<le> t \<and> t \<le> ss_updated_at r)
     \<and> (ss_status r = SessionStatus.Active \<longrightarrow> ss_disconnected_at r = None)
     \<and> (ss_clock_sync_status r = Some ClockSyncStatus.Synced \<longrightarrow> ss_last_time_sync_at r \<noteq> None)
     \<and> (ss_last_time_sync_at r \<noteq> None \<longrightarrow> ss_clock_sync_status r \<noteq> None)"

definition outbox_ok :: "store_json \<Rightarrow> StoredWireOutbox \<Rightarrow> bool" where
  "outbox_ok J m \<longleftrightarrow> canonical J (wo_payload m) \<and> wo_sequence m \<noteq> Some 0 \<and> validate_stored_wire_outbox J m = Inr ()"

definition attempt_ok :: "store_json \<Rightarrow> StoredDeliveryAttempt \<Rightarrow> bool" where
  "attempt_ok J a \<longleftrightarrow> da_attempted_at a \<le> da_updated_at a
     \<and> (da_status a = CommandDeliveryAttemptStatus.Acked \<longleftrightarrow> da_acked_at a \<noteq> None)
     \<and> (da_status a = CommandDeliveryAttemptStatus.Acked \<longrightarrow> is_command_subject (da_subject a))
     \<and> (da_status a = CommandDeliveryAttemptStatus.Unconfirmed \<longrightarrow> is_some_and (\<lambda>e. \<not> trim_is_empty e) (da_error a))
     \<and> (\<forall>p \<in> set_option (da_request_payload a). canonical J p)
     \<and> (da_status a \<in> set bound_attempt_statuses \<longrightarrow> da_message_id a \<noteq> None)
     \<and> (da_message_id a \<noteq> None \<longrightarrow> da_session_id a \<noteq> None)"

lemma session_from_row_ok [simp]: "session_ok J r \<Longrightarrow> session_from_row J r = Inr r"
  by (cases "ss_last_heartbeat_at r"; cases "ss_last_time_sync_at r")
    (auto simp: session_ok_def session_from_row_def canonical_def Let_def)

lemma wire_outbox_from_row_ok [simp]: "outbox_ok J m \<Longrightarrow> wire_outbox_from_row J m = Inr m"
  by (simp add: outbox_ok_def wire_outbox_from_row_def Let_def)

lemma delivery_attempt_from_row_ok [simp]: "attempt_ok J a \<Longrightarrow> delivery_attempt_from_row J a = Inr a"
  by (cases "da_request_payload a"; cases "da_error a")
    (auto simp: attempt_ok_def delivery_attempt_from_row_def Let_def not_less)

section \<open>The invariant\<close>

definition parent_ok :: "store_json \<Rightarrow> delivery_db \<Rightarrow> StoredWireOutbox \<Rightarrow> bool" where
  "parent_ok J db m \<longleftrightarrow> validate_outbox_parent_payload J m db = Inr ((), db)"

text \<open>The states of an outbox row and its attempt that occur together.\<close>

definition rejected_reason :: "string option \<Rightarrow> bool" where
  "rejected_reason e \<longleftrightarrow> is_some_and (\<lambda>x. starts_with TRANSPORT_ACK_REJECTED_PREFIX x
     \<and> \<not> trim_is_empty (drop (length TRANSPORT_ACK_REJECTED_PREFIX) x)) e"

lemma rejected_reason_prefix: "rejected_reason e \<Longrightarrow> has_rejected_prefix e"
  by (cases e) (simp_all add: rejected_reason_def has_rejected_prefix_def)

lemma rejected_reason_made: "\<not> trim_is_empty reason \<Longrightarrow> rejected_reason (Some (TRANSPORT_ACK_REJECTED_PREFIX @ reason))"
  by (simp add: rejected_reason_def starts_with_def)

primrec pair_states :: "WireOutboxStatus \<Rightarrow> string option \<Rightarrow> CommandDeliveryAttemptStatus \<Rightarrow> bool" where
  "pair_states WireOutboxStatus.Pending e s \<longleftrightarrow>
     s = CommandDeliveryAttemptStatus.Pending \<or> s = CommandDeliveryAttemptStatus.Acked"
| "pair_states WireOutboxStatus.WriteStarted e s \<longleftrightarrow>
     s = CommandDeliveryAttemptStatus.Pending \<or> s = CommandDeliveryAttemptStatus.Unconfirmed \<or> s = CommandDeliveryAttemptStatus.Acked"
| "pair_states WireOutboxStatus.Sent e s \<longleftrightarrow>
     s = CommandDeliveryAttemptStatus.Sent \<or> s = CommandDeliveryAttemptStatus.Unconfirmed \<or> s = CommandDeliveryAttemptStatus.Acked"
| "pair_states WireOutboxStatus.Acked e s \<longleftrightarrow>
     s \<noteq> CommandDeliveryAttemptStatus.NoActiveSession \<and> s \<noteq> CommandDeliveryAttemptStatus.Cancelled"
| "pair_states WireOutboxStatus.Failed e s \<longleftrightarrow>
     s \<noteq> CommandDeliveryAttemptStatus.NoActiveSession \<and> s \<noteq> CommandDeliveryAttemptStatus.Cancelled
     \<and> (s = CommandDeliveryAttemptStatus.Pending \<or> s = CommandDeliveryAttemptStatus.Sent \<longrightarrow> rejected_reason e)"
| "pair_states WireOutboxStatus.Cancelled e s \<longleftrightarrow>
     s = CommandDeliveryAttemptStatus.NoActiveSession \<or> s = CommandDeliveryAttemptStatus.Cancelled"

lemma pair_states_moves:
  "pair_states w e s \<Longrightarrow> s \<noteq> CommandDeliveryAttemptStatus.NoActiveSession \<Longrightarrow> s \<noteq> CommandDeliveryAttemptStatus.Cancelled \<Longrightarrow>
     pair_states w e CommandDeliveryAttemptStatus.Acked"
  "pair_states w e CommandDeliveryAttemptStatus.Sent \<Longrightarrow> pair_states w e CommandDeliveryAttemptStatus.Unconfirmed"
  by (cases w; auto)+

definition pair_ok :: "StoredWireOutbox \<Rightarrow> StoredDeliveryAttempt \<Rightarrow> bool" where
  "pair_ok m a \<longleftrightarrow> pair_states (wo_status m) (wo_last_error m) (da_status a)"

definition sequenced :: "delivery_db \<Rightarrow> StoredWireOutbox \<Rightarrow> bool" where
  "sequenced db m \<longleftrightarrow> (\<exists>r \<in> set (db_sessions db). \<exists>n. wo_session_id m = Some (ss_session_id r)
     \<and> wo_sequence m = Some n \<and> n \<le> ss_last_outbound_sequence r)"

definition sessions_inv :: "store_json \<Rightarrow> StoredSessionRecord list \<Rightarrow> bool" where
  "sessions_inv J S \<longleftrightarrow> ses.unique S \<and> (\<forall>r \<in> set S. session_ok J r)
     \<and> (\<forall>r \<in> set S. \<forall>r' \<in> set S. ss_status r = SessionStatus.Active \<and> ss_status r' = SessionStatus.Active
          \<and> active_identity r = active_identity r' \<longrightarrow> r = r')"

definition outbox_inv :: "store_json \<Rightarrow> delivery_db \<Rightarrow> bool" where
  "outbox_inv J db \<longleftrightarrow> (\<forall>m \<in> set (db_outbox db). outbox_ok J m \<and> parent_ok J db m \<and> sequenced db m
     \<and> (\<exists>a \<in> set (db_attempts db). da_message_id a = Some (wo_message_id m)))"

definition sequences_inv :: "StoredWireOutbox list \<Rightarrow> bool" where
  "sequences_inv M \<longleftrightarrow> outb.unique M \<and> (\<forall>m \<in> set M. \<forall>m' \<in> set M. wo_session_id m = wo_session_id m'
     \<and> wo_sequence m = wo_sequence m' \<longrightarrow> m = m')"

definition attempts_inv :: "store_json \<Rightarrow> StoredWireOutbox list \<Rightarrow> StoredDeliveryAttempt list \<Rightarrow> bool" where
  "attempts_inv J M A \<longleftrightarrow> (\<forall>a \<in> set A. attempt_ok J a \<and> (da_message_id a \<noteq> None \<longrightarrow>
     (\<exists>m \<in> set M. attempt_bound_to a m \<and> pair_ok m a)))"

definition messages_inv :: "StoredDeliveryAttempt list \<Rightarrow> bool" where
  "messages_inv A \<longleftrightarrow> att.unique A \<and> (\<forall>a \<in> set A. \<forall>a' \<in> set A. da_message_id a \<noteq> None
     \<and> da_message_id a = da_message_id a' \<longrightarrow> a = a')"

definition delivery_inv :: "store_json \<Rightarrow> delivery_db \<Rightarrow> bool" where
  "delivery_inv J db \<longleftrightarrow> sessions_inv J (db_sessions db) \<and> outbox_inv J db \<and> sequences_inv (db_outbox db)
     \<and> attempts_inv J (db_outbox db) (db_attempts db) \<and> messages_inv (db_attempts db)"

lemmas inv_defs = delivery_inv_def sessions_inv_def outbox_inv_def sequences_inv_def attempts_inv_def messages_inv_def

text \<open>What a transaction may do to the tables.\<close>

definition evolves :: "delivery_db \<Rightarrow> delivery_db \<Rightarrow> bool" where
  "evolves db db' \<longleftrightarrow> ses.table_grows (db_sessions db) (db_sessions db')
     \<and> outb.table_grows (db_outbox db) (db_outbox db') \<and> att.table_grows (db_attempts db) (db_attempts db')
     \<and> db_commands db' = db_commands db \<and> db_runs db' = db_runs db"

lemma evolves_refl [simp]: "evolves db db"
  by (simp add: evolves_def ses.table_grows_refl outb.table_grows_refl att.table_grows_refl)

lemma evolves_trans: "evolves a b \<Longrightarrow> evolves b c \<Longrightarrow> evolves a c"
  by (auto simp: evolves_def elim: ses.table_grows_trans outb.table_grows_trans att.table_grows_trans)

lemma invD:
  assumes "delivery_inv J db"
  shows inv_unique: "ses.unique (db_sessions db)" "outb.unique (db_outbox db)" "att.unique (db_attempts db)"
    and inv_session: "\<And>r. r \<in> set (db_sessions db) \<Longrightarrow> session_ok J r"
    and inv_outbox: "\<And>m. m \<in> set (db_outbox db) \<Longrightarrow> outbox_ok J m"
    and inv_parent: "\<And>m. m \<in> set (db_outbox db) \<Longrightarrow> parent_ok J db m"
    and inv_sequenced: "\<And>m. m \<in> set (db_outbox db) \<Longrightarrow> sequenced db m"
    and inv_attempted: "\<And>m. m \<in> set (db_outbox db) \<Longrightarrow> \<exists>a \<in> set (db_attempts db). da_message_id a = Some (wo_message_id m)"
    and inv_attempt: "\<And>a. a \<in> set (db_attempts db) \<Longrightarrow> attempt_ok J a"
  using assms by (simp_all add: inv_defs)

lemma inv_active:
  "delivery_inv J db \<Longrightarrow> r \<in> set (db_sessions db) \<Longrightarrow> r' \<in> set (db_sessions db) \<Longrightarrow>
   ss_status r = SessionStatus.Active \<Longrightarrow> ss_status r' = SessionStatus.Active \<Longrightarrow>
   active_identity r = active_identity r' \<Longrightarrow> r = r'"
  by (simp add: inv_defs)

lemma inv_sequence:
  "delivery_inv J db \<Longrightarrow> m \<in> set (db_outbox db) \<Longrightarrow> m' \<in> set (db_outbox db) \<Longrightarrow>
   wo_session_id m = wo_session_id m' \<Longrightarrow> wo_sequence m = wo_sequence m' \<Longrightarrow> m = m'"
  by (simp add: inv_defs)

lemma inv_bound:
  "delivery_inv J db \<Longrightarrow> a \<in> set (db_attempts db) \<Longrightarrow> da_message_id a = Some i \<Longrightarrow>
   \<exists>m \<in> set (db_outbox db). attempt_bound_to a m \<and> pair_ok m a"
  by (simp add: inv_defs)

lemma inv_message:
  "delivery_inv J db \<Longrightarrow> a \<in> set (db_attempts db) \<Longrightarrow> a' \<in> set (db_attempts db) \<Longrightarrow>
   da_message_id a = Some i \<Longrightarrow> da_message_id a' = Some i \<Longrightarrow> a = a'"
  by (simp add: inv_defs)

lemma outbox_by_id: "delivery_inv J db \<Longrightarrow> m \<in> set (db_outbox db) \<Longrightarrow> m' \<in> set (db_outbox db) \<Longrightarrow>
  wo_message_id m = wo_message_id m' \<Longrightarrow> m = m'"
  by (metis inv_unique(2) outb.unique_inj)

lemma bound_pair:
  assumes "delivery_inv J db" "a \<in> set (db_attempts db)" "m \<in> set (db_outbox db)"
    and "da_message_id a = Some (wo_message_id m)"
  shows "attempt_bound_to a m" "pair_ok m a"
proof -
  obtain m' where "m' \<in> set (db_outbox db)" "attempt_bound_to a m'" "pair_ok m' a"
    using inv_bound assms by blast
  moreover from this have "wo_message_id m' = wo_message_id m" using assms(4) by (simp add: attempt_bound_to_def)
  then have "m' = m" using outbox_by_id assms(1,3) calculation(1) by blast
  ultimately show "attempt_bound_to a m" "pair_ok m a" by auto
qed

section \<open>The parent of an outbox row\<close>

lemma parent_payload_eq_Inr:
  "parent_payload J entity key select db = Inr (p, db') \<longleftrightarrow>
     db' = db \<and> (\<exists>c. select db = Some c \<and> from_stored J entity key (cj_text c) (cj_sha256_hex c) = Inr p)"
  by (auto simp: parent_payload_def requiredT_eq_Inr fetchT_eq_Inr split: option.splits)

lemma validate_parent_state: "validate_outbox_parent_payload J m db = Inr (u, db') \<Longrightarrow> db' = db"
  unfolding validate_outbox_parent_payload_def Let_def
  by (auto simp: bindT_eq_Inr liftT_eq_Inr parent_payload_eq_Inr split: option.splits if_splits)

lemma parent_ok_iff: "parent_ok J db m \<longleftrightarrow> (\<exists>wire p. decode_envelope J (wo_payload m) = Inr wire
    \<and> json_from_value J (wm_payload wire) = Inr p
    \<and> (case (wo_command_id m, wo_request_id m) of
         (Some i, None) \<Rightarrow> (\<exists>c. find (\<lambda>c. cmd_command_id c = i) (db_commands db) = Some c
           \<and> from_stored J ''execution_command'' i (cj_text (cmd_payload c)) (cj_sha256_hex (cmd_payload c)) = Inr p)
       | (None, Some i) \<Rightarrow> (\<exists>q. find (\<lambda>q. run_request_id q = i) (db_runs db) = Some q
           \<and> from_stored J ''reconciliation_run'' i (cj_text (run_request_payload q))
             (cj_sha256_hex (run_request_payload q)) = Inr p)
       | _ \<Rightarrow> True))"
  unfolding parent_ok_def validate_outbox_parent_payload_def Let_def
  by (cases "wo_command_id m"; cases "wo_request_id m")
    (auto simp: bindT_eq_Inr liftT_eq_Inr parent_payload_eq_Inr split: if_splits)

lemma parent_ok_fixed:
  "outbox_fixed m m' \<Longrightarrow> db_commands db' = db_commands db \<Longrightarrow> db_runs db' = db_runs db \<Longrightarrow>
   parent_ok J db' m' \<longleftrightarrow> parent_ok J db m"
  unfolding parent_ok_iff by (simp add: outbox_fixed_def cong: option.case_cong)

lemma outbox_fixed_refl [simp]: "outbox_fixed m m"
  by (simp add: outbox_fixed_def)

lemma grows_fixed: "outbox_grows m m' \<Longrightarrow> outbox_fixed m m'" "attempt_grows a a' \<Longrightarrow> attempt_fixed a a'"
  "session_grows r r' \<Longrightarrow> session_fixed r r'"
  by (auto simp: outbox_grows_def attempt_grows_def attempt_fixed_def session_grows_def session_fixed_def)

section \<open>Reading\<close>

lemma find_outbox: "delivery_inv J db \<Longrightarrow> m \<in> set (db_outbox db) \<Longrightarrow>
  find (\<lambda>r. wo_message_id r = wo_message_id m) (db_outbox db) = Some m"
  by (simp add: outb.find_row inv_unique)

lemma find_in_set: "find p xs = Some x \<Longrightarrow> x \<in> set xs \<and> p x"
  by (auto simp: find_Some_iff)

lemma fetch_session_eq:
  "delivery_inv J db \<Longrightarrow> fetch_session_by_id J i db = Inr (find (\<lambda>r. ss_session_id r = i) (db_sessions db), db)"
  by (cases "find (\<lambda>r. ss_session_id r = i) (db_sessions db)")
    (auto simp: fetch_session_by_id_def fetchT_def bindT_apply inv_session dest: find_in_set)

lemma fetch_outbox_eq:
  "delivery_inv J db \<Longrightarrow> fetch_wire_outbox_by_id J i db = Inr (find (\<lambda>r. wo_message_id r = i) (db_outbox db), db)"
  by (cases "find (\<lambda>r. wo_message_id r = i) (db_outbox db)")
    (auto simp: fetch_wire_outbox_by_id_def fetchT_def bindT_apply inv_outbox dest: find_in_set)

lemma read_attempt_eq:
  assumes inv: "delivery_inv J db" and a: "a \<in> set (db_attempts db)"
  shows "read_attempt J a db = Inr (a, db)"
proof -
  have ok: "attempt_ok J a" using inv a by (rule inv_attempt)
  have "validate_stored_attempt J a db = Inr ((), db)"
  proof (cases "da_message_id a")
    case None
    then show ?thesis using ok
      by (cases "da_session_id a") (auto simp: validate_stored_attempt_def attempt_ok_def Let_def)
  next
    case (Some i)
    then obtain m where m: "m \<in> set (db_outbox db)" "attempt_bound_to a m" using inv_bound inv a by blast
    then obtain j where j: "da_session_id a = Some j" by (auto simp: attempt_bound_to_def)
    have "i = wo_message_id m" using m Some by (simp add: attempt_bound_to_def)
    then have "requiredT e (fetch_wire_outbox_by_id J i) db = Inr (m, db)" for e
      using m inv by (simp add: requiredT_eq_Inr fetch_outbox_eq find_outbox)
    moreover have "validate_outbox_parent_payload J m db = Inr ((), db)"
      using inv_parent [OF inv] m by (simp add: parent_ok_def)
    ultimately show ?thesis using m j Some
      by (simp add: validate_stored_attempt_def Let_def bindT_apply attempt_bound_to_def)
  qed
  then show ?thesis using ok by (simp add: read_attempt_def bindT_apply)
qed

lemma fetch_attempt_eq:
  "delivery_inv J db \<Longrightarrow> fetch_attempt_where J p db = Inr (find p (db_attempts db), db)"
  by (cases "find p (db_attempts db)")
    (auto simp: fetch_attempt_where_def bindT_apply read_attempt_eq dest: find_in_set)

lemma read_attempts_eq:
  "delivery_inv J db \<Longrightarrow> set rows \<subseteq> set (db_attempts db) \<Longrightarrow> parse_and_validate_attempt_rows J rows db = Inr (rows, db)"
  unfolding parse_and_validate_attempt_rows_def
  by (induction rows) (auto simp: bindT_apply read_attempt_eq)

lemma find_attempt:
  "delivery_inv J db \<Longrightarrow> a \<in> set (db_attempts db) \<Longrightarrow> da_message_id a = Some i \<Longrightarrow>
   find (\<lambda>r. da_message_id r = Some i) (db_attempts db) = Some a"
  by (cases "find (\<lambda>r. da_message_id r = Some i) (db_attempts db)")
    (auto simp: find_None_iff dest!: find_in_set dest: inv_message)

lemmas fetch_eqs = fetch_session_eq fetch_outbox_eq fetch_attempt_eq

lemma fetch_session_wp [wp]:
  assumes "delivery_inv J db"
    and "find (\<lambda>r. ss_session_id r = i) (db_sessions db) = None \<Longrightarrow> Q None db"
    and "\<And>r. r \<in> set (db_sessions db) \<Longrightarrow> ss_session_id r = i \<Longrightarrow> Q (Some r) db"
  shows "wpT (fetch_session_by_id J i) Q db"
  using assms by (cases "find (\<lambda>r. ss_session_id r = i) (db_sessions db)")
    (auto simp: wpT_def fetch_session_eq dest: find_in_set)

lemma required_session_wp [wp]:
  assumes "delivery_inv J db" and "\<And>r. r \<in> set (db_sessions db) \<Longrightarrow> ss_session_id r = i \<Longrightarrow> Q r db"
  shows "wpT (required_session J i) Q db"
  unfolding required_session_def by (intro wpT_required fetch_session_wp) (simp_all add: assms)

lemma fetch_outbox_wp [wp]:
  assumes "delivery_inv J db"
    and "find (\<lambda>r. wo_message_id r = i) (db_outbox db) = None \<Longrightarrow> Q None db"
    and "\<And>m. m \<in> set (db_outbox db) \<Longrightarrow> wo_message_id m = i \<Longrightarrow> Q (Some m) db"
  shows "wpT (fetch_wire_outbox_by_id J i) Q db"
  using assms by (cases "find (\<lambda>r. wo_message_id r = i) (db_outbox db)")
    (auto simp: wpT_def fetch_outbox_eq dest: find_in_set)

lemma required_outbox_wp [wp]:
  assumes "delivery_inv J db" and "\<And>m. m \<in> set (db_outbox db) \<Longrightarrow> wo_message_id m = i \<Longrightarrow> Q m db"
  shows "wpT (required_outbox J i) Q db"
  unfolding required_outbox_def by (intro wpT_required fetch_outbox_wp) (simp_all add: assms)

lemma fetch_attempt_where_wp:
  assumes "delivery_inv J db" and "find p (db_attempts db) = None \<Longrightarrow> Q None db"
    and "\<And>a. a \<in> set (db_attempts db) \<Longrightarrow> p a \<Longrightarrow> Q (Some a) db"
  shows "wpT (fetch_attempt_where J p) Q db"
  using assms by (cases "find p (db_attempts db)") (auto simp: wpT_def fetch_attempt_eq dest: find_in_set)

lemma fetch_attempt_by_message_wp [wp]:
  assumes "delivery_inv J db" and "find (\<lambda>r. da_message_id r = Some i) (db_attempts db) = None \<Longrightarrow> Q None db"
    and "\<And>a. a \<in> set (db_attempts db) \<Longrightarrow> da_message_id a = Some i \<Longrightarrow> Q (Some a) db"
  shows "wpT (fetch_delivery_attempt_by_message J i) Q db"
  unfolding fetch_delivery_attempt_by_message_def by (rule fetch_attempt_where_wp) (use assms in auto)

lemma required_attempt_wp [wp]:
  assumes "delivery_inv J db" and "\<And>a. a \<in> set (db_attempts db) \<Longrightarrow> da_message_id a = Some i \<Longrightarrow> Q a db"
  shows "wpT (required_attempt_by_message J i) Q db"
  unfolding required_attempt_by_message_def by (intro wpT_required fetch_attempt_by_message_wp) (simp_all add: assms)

lemma required_attempt_by_id_wp [wp]:
  assumes "delivery_inv J db"
    and "\<And>a. a \<in> set (db_attempts db) \<Longrightarrow> da_attempt_id a = i \<Longrightarrow> Q a db"
    and "is_corrupt e \<Longrightarrow> \<exists>a \<in> set (db_attempts db). da_attempt_id a = i"
  shows "wpT (requiredT e (fetch_delivery_attempt_by_id J i)) Q db"
  unfolding fetch_delivery_attempt_by_id_def
  by (intro wpT_required fetch_attempt_where_wp) (use assms in \<open>auto simp: find_None_iff\<close>)

lemma required_outbound_wp [wp]:
  assumes "delivery_inv J db"
    and "\<And>m a. m \<in> set (db_outbox db) \<Longrightarrow> wo_message_id m = i \<Longrightarrow> a \<in> set (db_attempts db) \<Longrightarrow>
      da_message_id a = Some i \<Longrightarrow> Q \<lparr>sod_outbox = m, sod_attempt = a\<rparr> db"
  shows "wpT (required_outbound_delivery J i) Q db"
  unfolding required_outbound_delivery_def by (intro wp assms)

section \<open>Changing rows\<close>

lemma inv_put_session:
  assumes inv: "delivery_inv J db" and r: "r \<in> set (db_sessions db)" and g: "session_grows r r'" and ok: "session_ok J r'"
    and live: "ss_status r' = SessionStatus.Active \<Longrightarrow> ss_status r = SessionStatus.Active"
  shows "delivery_inv J (db\<lparr>db_sessions := ses.put r' (db_sessions db)\<rparr>)"
    and "evolves db (db\<lparr>db_sessions := ses.put r' (db_sessions db)\<rparr>)"
proof -
  let ?db = "db\<lparr>db_sessions := ses.put r' (db_sessions db)\<rparr>"
  have f: "session_fixed r r'" using g by (rule grows_fixed)
  have S: "set (ses.put r' (db_sessions db)) = insert r' (set (db_sessions db) - {r})"
    using inv_unique(1) [OF inv] r f by (intro ses.set_put) (simp_all add: session_fixed_def)
  have ident: "active_identity r' = active_identity r" using f by (simp add: active_identity_def session_fixed_def)
  have act: "q = q'" if "q \<in> insert r' (set (db_sessions db) - {r})" "q' \<in> insert r' (set (db_sessions db) - {r})"
    "ss_status q = SessionStatus.Active" "ss_status q' = SessionStatus.Active" "active_identity q = active_identity q'" for q q'
    using that ident live r inv_active [OF inv] by (metis DiffE insertE singletonI)
  have seq: "sequenced ?db m" if m: "m \<in> set (db_outbox db)" for m
  proof -
    obtain q n where q: "q \<in> set (db_sessions db)" "wo_session_id m = Some (ss_session_id q)"
      "wo_sequence m = Some n" "n \<le> ss_last_outbound_sequence q"
      using inv_sequenced [OF inv m] by (auto simp: sequenced_def)
    show ?thesis
    proof (cases "q = r")
      case True
      then have "ss_session_id q = ss_session_id r'" "n \<le> ss_last_outbound_sequence r'"
        using q g f by (auto simp: session_grows_def session_fixed_def)
      then show ?thesis using q S by (auto simp: sequenced_def)
    next
      case False
      then show ?thesis using q S by (auto simp: sequenced_def)
    qed
  qed
  have par: "parent_ok J ?db m = parent_ok J db m" for m by (rule parent_ok_fixed) simp_all
  have "sessions_inv J (ses.put r' (db_sessions db))"
    unfolding sessions_inv_def S
    by (intro conjI ballI impI, simp add: inv_unique(1) [OF inv])
      (use ok inv_session [OF inv] in blast, elim conjE, rule act)
  moreover have "outbox_inv J ?db"
    unfolding outbox_inv_def using inv_outbox [OF inv] inv_parent [OF inv] inv_attempted [OF inv] seq par by simp
  ultimately show "delivery_inv J ?db" using inv by (simp add: delivery_inv_def)
  show "evolves db ?db"
    using inv_unique(1) [OF inv] r g
    by (simp add: evolves_def ses.table_grows_put outb.table_grows_refl att.table_grows_refl)
qed

definition put_pair :: "StoredWireOutbox \<Rightarrow> StoredDeliveryAttempt \<Rightarrow> delivery_db \<Rightarrow> delivery_db" where
  "put_pair m a db = db\<lparr>db_outbox := outb.put m (db_outbox db), db_attempts := att.put a (db_attempts db)\<rparr>"

lemma inv_put_pair:
  assumes inv: "delivery_inv J db" and m: "m \<in> set (db_outbox db)" and a: "a \<in> set (db_attempts db)"
    and ma: "da_message_id a = Some (wo_message_id m)"
    and gm: "outbox_grows m m'" and ga: "attempt_grows a a'"
    and om: "outbox_ok J m'" and oa: "attempt_ok J a'" and pair: "pair_ok m' a'"
  shows "delivery_inv J (put_pair m' a' db)" and "evolves db (put_pair m' a' db)"
proof -
  let ?db = "put_pair m' a' db"
  have fm: "outbox_fixed m m'" and fa: "attempt_fixed a a'" using gm ga by (auto intro: grows_fixed)
  have O: "set (db_outbox ?db) = insert m' (set (db_outbox db) - {m})"
    unfolding put_pair_def using inv_unique(2) [OF inv] m fm by (simp add: outb.set_put outbox_fixed_def)
  have A: "set (db_attempts ?db) = insert a' (set (db_attempts db) - {a})"
    unfolding put_pair_def using inv_unique(3) [OF inv] a fa by (simp add: att.set_put attempt_fixed_def)
  have rest: "db_sessions ?db = db_sessions db" "db_commands ?db = db_commands db" "db_runs ?db = db_runs db"
    by (simp_all add: put_pair_def)
  have uniq: "outb.unique (db_outbox ?db)" "att.unique (db_attempts ?db)"
    using inv_unique [OF inv] by (simp_all add: put_pair_def)
  have seq: "sequenced ?db q" if "sequenced db q" for q using that rest by (simp add: sequenced_def)
  have seq': "sequenced db m'" using inv_sequenced [OF inv m] fm by (simp add: sequenced_def outbox_fixed_def)
  have par: "parent_ok J ?db q = parent_ok J db q" for q by (rule parent_ok_fixed) (simp_all add: rest)
  have par': "parent_ok J db m'" using inv_parent [OF inv m] parent_ok_fixed [OF fm] by blast
  have outs: "\<forall>q \<in> set (db_outbox ?db). outbox_ok J q \<and> parent_ok J ?db q \<and> sequenced ?db q
      \<and> (\<exists>b \<in> set (db_attempts ?db). da_message_id b = Some (wo_message_id q))"
  proof
    fix q assume q: "q \<in> set (db_outbox ?db)"
    show "outbox_ok J q \<and> parent_ok J ?db q \<and> sequenced ?db q
      \<and> (\<exists>b \<in> set (db_attempts ?db). da_message_id b = Some (wo_message_id q))"
    proof (cases "q = m'")
      case True
      have "da_message_id a' = Some (wo_message_id m')" using fa fm ma by (simp add: attempt_fixed_def outbox_fixed_def)
      then show ?thesis using True om par par' seq seq' A by auto
    next
      case False
      then have q': "q \<in> set (db_outbox db)" "q \<noteq> m" using q O by auto
      obtain b where b: "b \<in> set (db_attempts db)" "da_message_id b = Some (wo_message_id q)"
        using inv_attempted [OF inv q'(1)] by blast
      have "b \<noteq> a" using b ma outbox_by_id [OF inv q'(1) m] q'(2) by auto
      then show ?thesis using b A q' inv_outbox [OF inv] inv_parent [OF inv] inv_sequenced [OF inv] par seq by auto
    qed
  qed
  have seqs: "q = q'" if "q \<in> insert m' (set (db_outbox db) - {m})" "q' \<in> insert m' (set (db_outbox db) - {m})"
    "wo_session_id q = wo_session_id q'" "wo_sequence q = wo_sequence q'" for q q'
    using that fm m inv_sequence [OF inv] unfolding outbox_fixed_def by (metis DiffE insertE singletonI)
  have bound: "\<exists>q \<in> set (db_outbox ?db). attempt_bound_to b q \<and> pair_ok q b"
    if b: "b \<in> set (db_attempts ?db)" "da_message_id b = Some i" for b i
  proof (cases "b = a'")
    case True
    have "attempt_bound_to a' m'" using bound_pair(1) [OF inv a m ma] fm fa
      by (simp add: attempt_bound_to_def outbox_fixed_def attempt_fixed_def)
    then show ?thesis using True O pair by auto
  next
    case False
    then have b': "b \<in> set (db_attempts db)" "b \<noteq> a" using b A by auto
    then obtain q where q: "q \<in> set (db_outbox db)" "attempt_bound_to b q" "pair_ok q b"
      using inv_bound [OF inv] b(2) by blast
    have "q \<noteq> m" using q b' b(2) ma a inv_message [OF inv] by (auto simp: attempt_bound_to_def)
    then show ?thesis using q O by auto
  qed
  have mess: "b = b'" if "b \<in> insert a' (set (db_attempts db) - {a})" "b' \<in> insert a' (set (db_attempts db) - {a})"
    "da_message_id b = Some i" "da_message_id b' = Some i" for b b' i
    using that fa a inv_message [OF inv] unfolding attempt_fixed_def by (metis DiffE insertE singletonI)
  have atts: "\<forall>b \<in> set (db_attempts ?db). attempt_ok J b" using A oa inv_attempt [OF inv] by auto
  have "outbox_inv J ?db" using outs by (simp add: outbox_inv_def)
  moreover have "attempts_inv J (db_outbox ?db) (db_attempts ?db)" unfolding attempts_inv_def using atts bound by blast
  moreover have "messages_inv (db_attempts ?db)" unfolding messages_inv_def A using uniq mess by (metis not_Some_eq)
  moreover have "sequences_inv (db_outbox ?db)" unfolding sequences_inv_def O using uniq seqs by blast
  moreover have "sessions_inv J (db_sessions ?db)" using inv by (simp add: rest delivery_inv_def)
  ultimately show "delivery_inv J ?db" by (simp add: delivery_inv_def)
  show "evolves db ?db"
    using inv_unique [OF inv] m a gm ga
    by (simp add: evolves_def put_pair_def outb.table_grows_put att.table_grows_put ses.table_grows_refl)
qed

section \<open>Updates of a delivery\<close>

lemma sql_max_base: "base \<le> sql_max base xs"
proof -
  have "m \<le> fold (\<lambda>x m. max m (case x of None \<Rightarrow> base | Some t \<Rightarrow> t)) xs m" for m
    by (induction xs arbitrary: m) (auto intro: order_trans [OF max.cobounded1])
  then show ?thesis by (simp add: sql_max_def)
qed

lemma outbox_ok_state:
  assumes "outbox_ok J m" "outbox_time (outbox_state m w t sa aa e) \<le> t"
  shows "outbox_ok J (outbox_state m w t sa aa e)"
proof -
  have "wo_created_at m \<le> t"
    using assms(2) order_trans [OF sql_max_base] by (fastforce simp: outbox_time_def outbox_state_def)
  moreover obtain wire where "decode_envelope J (wo_payload m) = Inr wire"
    using assms(1) by (auto simp: outbox_ok_def validate_stored_wire_outbox_def Let_def bindR_eq_Inr)
  ultimately show ?thesis using assms(1)
    by (cases "sj_command J (wm_payload wire)"; cases "sj_request J (wm_payload wire)")
      (auto simp: outbox_ok_def outbox_state_def validate_stored_wire_outbox_def Let_def split: if_splits)
qed

lemma attempt_ok_state:
  assumes "attempt_ok J a" "attempt_row_check J (attempt_state a s t aa e)" "attempt_time (attempt_state a s t aa e) \<le> t"
    and "s = CommandDeliveryAttemptStatus.Unconfirmed \<Longrightarrow> is_some_and (\<lambda>x. \<not> trim_is_empty x) e"
  shows "attempt_ok J (attempt_state a s t aa e)"
proof -
  have "da_attempted_at a \<le> t"
    using assms(3) order_trans [OF sql_max_base] by (fastforce simp: attempt_time_def attempt_state_def)
  then show ?thesis using assms by (auto simp: attempt_ok_def attempt_state_def attempt_row_check_def)
qed

lemma outbox_grows_state: "outbox_leads (wo_status m) w \<Longrightarrow> wo_updated_at m \<le> t \<Longrightarrow> outbox_grows m (outbox_state m w t sa aa e)"
  by (simp add: outbox_grows_def outbox_fixed_def outbox_state_def)

lemma attempt_grows_state: "attempt_leads (da_status a) s \<Longrightarrow> da_updated_at a \<le> t \<Longrightarrow> attempt_grows a (attempt_state a s t aa e)"
  by (simp add: attempt_grows_def attempt_fixed_def attempt_state_def)

lemma put_self: "outb.unique M \<Longrightarrow> m \<in> set M \<Longrightarrow> outb.put m M = M" "att.unique A \<Longrightarrow> a \<in> set A \<Longrightarrow> att.put a A = A"
  by (auto simp: outb.put_def att.put_def intro!: map_idI dest: outb.unique_inj att.unique_inj)

lemma update_outbox_wp:
  assumes inv: "delivery_inv J db" "m \<in> set (db_outbox db)" "a \<in> set (db_attempts db)"
      "da_message_id a = Some (wo_message_id m)"
    and "outbox_leads (wo_status m) w" "pair_states w e (da_status a)"
    and Q: "\<And>m'. m' = outbox_state m w t sa aa e \<Longrightarrow> delivery_inv J (put_pair m' a db) \<Longrightarrow> evolves db (put_pair m' a db) \<Longrightarrow>
      Q () (put_pair m' a db)"
  shows "wpT (update_outbox_state J m w t sa aa e) Q db"
proof (rule wpT_I)
  fix u db' assume "update_outbox_state J m w t sa aa e db = Inr (u, db')"
  note upd = update_outbox_state_ok [OF inv_unique(2) [OF inv(1)] inv(2) this]
  let ?m = "outbox_state m w t sa aa e"
  have "db' = put_pair ?m a db" using upd inv inv_unique(3) [OF inv(1)] by (simp add: put_pair_def put_self)
  moreover have "outbox_ok J ?m" using upd inv by (simp add: outbox_ok_state inv_outbox)
  moreover have "pair_ok ?m a" using assms(6) by (simp add: pair_ok_def outbox_state_def)
  moreover have "outbox_grows m ?m" using upd assms(5) by (simp add: outbox_grows_state)
  ultimately show "Q u db'"
    using inv_put_pair [OF inv(1,2,3,4) _ att.grows_refl, of ?m] Q inv_attempt [OF inv(1,3)] by simp
qed (rule update_outbox_state_error)

lemma update_attempt_wp:
  assumes inv: "delivery_inv J db" "m \<in> set (db_outbox db)" "a \<in> set (db_attempts db)"
      "da_message_id a = Some (wo_message_id m)"
    and "attempt_leads (da_status a) s" "pair_states (wo_status m) (wo_last_error m) s"
    and "s = CommandDeliveryAttemptStatus.Unconfirmed \<Longrightarrow> is_some_and (\<lambda>x. \<not> trim_is_empty x) e"
    and Q: "\<And>a'. a' = attempt_state a s t aa e \<Longrightarrow> delivery_inv J (put_pair m a' db) \<Longrightarrow> evolves db (put_pair m a' db) \<Longrightarrow>
      Q () (put_pair m a' db)"
  shows "wpT (update_attempt_state J a s t aa e) Q db"
proof (rule wpT_I)
  fix u db' assume "update_attempt_state J a s t aa e db = Inr (u, db')"
  note upd = update_attempt_state_ok [OF inv_unique(3) [OF inv(1)] inv(3) this]
  let ?a = "attempt_state a s t aa e"
  have "db' = put_pair m ?a db" using upd inv inv_unique(2) [OF inv(1)] by (simp add: put_pair_def put_self)
  moreover have "attempt_ok J ?a" using upd inv assms(7) by (intro attempt_ok_state) (simp_all add: inv_attempt)
  moreover have "pair_ok m ?a" using assms(6) by (simp add: pair_ok_def attempt_state_def)
  moreover have "attempt_grows a ?a" using upd assms(5) by (simp add: attempt_grows_state)
  ultimately show "Q u db'"
    using inv_put_pair [OF inv(1,2,3,4) outb.grows_refl, of ?a] Q inv_outbox [OF inv(1,2)] by simp
qed (rule update_attempt_state_error)

lemma update_pair_wp:
  assumes inv: "delivery_inv J db" "m \<in> set (db_outbox db)" "a \<in> set (db_attempts db)"
      "da_message_id a = Some (wo_message_id m)"
    and "outbox_leads (wo_status m) w" "attempt_leads (da_status a) s" "pair_states w e s"
    and "s = CommandDeliveryAttemptStatus.Unconfirmed \<Longrightarrow> is_some_and (\<lambda>x. \<not> trim_is_empty x) e'"
    and Q: "\<And>m' a'. m' = outbox_state m w t sa aa e \<Longrightarrow> a' = attempt_state a s t' aa' e' \<Longrightarrow>
      delivery_inv J (put_pair m' a' db) \<Longrightarrow> evolves db (put_pair m' a' db) \<Longrightarrow> Q () (put_pair m' a' db)"
  shows "wpT (bindT (update_outbox_state J m w t sa aa e) (\<lambda>_. update_attempt_state J a s t' aa' e')) Q db"
proof (rule wpT_I)
  let ?m = "outbox_state m w t sa aa e" and ?a = "attempt_state a s t' aa' e'"
  fix u db'
  assume "bindT (update_outbox_state J m w t sa aa e) (\<lambda>_. update_attempt_state J a s t' aa' e') db = Inr (u, db')"
  then obtain v db1 where 1: "update_outbox_state J m w t sa aa e db = Inr (v, db1)"
    and 2: "update_attempt_state J a s t' aa' e' db1 = Inr (u, db')" by (elim bindT_InrE)
  note o1 = update_outbox_state_ok [OF inv_unique(2) [OF inv(1)] inv(2) 1]
  have A: "db_attempts db1 = db_attempts db" using o1 by simp
  have o2: "db' = db1\<lparr>db_attempts := att.put ?a (db_attempts db)\<rparr>" "attempt_row_check J ?a"
    "da_updated_at a \<le> t'" "attempt_time ?a \<le> t'"
    using update_attempt_state_ok [OF _ _ 2] inv_unique(3) [OF inv(1)] inv(3) by (simp_all add: A)
  have "db' = put_pair ?m ?a db" using o1 o2 by (simp add: put_pair_def)
  moreover have "outbox_ok J ?m" using o1 inv by (simp add: outbox_ok_state inv_outbox)
  moreover have "attempt_ok J ?a" using o2 inv assms(8) by (intro attempt_ok_state) (simp_all add: inv_attempt)
  moreover have "pair_ok ?m ?a" using assms(7) by (simp add: pair_ok_def outbox_state_def attempt_state_def)
  moreover have "outbox_grows m ?m" "attempt_grows a ?a"
    using o1 o2 assms(5,6) by (simp_all add: outbox_grows_state attempt_grows_state)
  ultimately show "Q u db'" using inv_put_pair [OF inv(1,2,3,4), of ?m ?a] Q by simp
qed (auto simp: bindT_eq_Inl dest: update_outbox_state_error update_attempt_state_error)

lemma update_pair_bind_wp:
  assumes "delivery_inv J db" "m \<in> set (db_outbox db)" "a \<in> set (db_attempts db)"
      "da_message_id a = Some (wo_message_id m)"
    and "outbox_leads (wo_status m) w" "attempt_leads (da_status a) s" "pair_states w e s"
    and "s = CommandDeliveryAttemptStatus.Unconfirmed \<Longrightarrow> is_some_and (\<lambda>x. \<not> trim_is_empty x) e'"
    and "\<And>m' a'. m' = outbox_state m w t sa aa e \<Longrightarrow> a' = attempt_state a s t' aa' e' \<Longrightarrow>
      delivery_inv J (put_pair m' a' db) \<Longrightarrow> evolves db (put_pair m' a' db) \<Longrightarrow> wpT g Q (put_pair m' a' db)"
  shows "wpT (bindT (update_outbox_state J m w t sa aa e) (\<lambda>_. bindT (update_attempt_state J a s t' aa' e') (\<lambda>_. g))) Q db"
proof -
  have "wpT (bindT (bindT (update_outbox_state J m w t sa aa e) (\<lambda>_. update_attempt_state J a s t' aa' e')) (\<lambda>_. g)) Q db"
    by (rule wpT_bindI, rule update_pair_wp [OF assms(1-8)]) (auto intro: assms(9))
  moreover have "bindT (bindT (update_outbox_state J m w t sa aa e) (\<lambda>_. update_attempt_state J a s t' aa' e')) (\<lambda>_. g)
    = bindT (update_outbox_state J m w t sa aa e) (\<lambda>_. bindT (update_attempt_state J a s t' aa' e') (\<lambda>_. g))"
    by (auto simp: bindT_def fun_eq_iff split: sum.split prod.split)
  ultimately show ?thesis by simp
qed

lemma put_pair_rows:
  assumes "delivery_inv J db" "m \<in> set (db_outbox db)" "a \<in> set (db_attempts db)"
    and "wo_message_id m' = wo_message_id m" "da_attempt_id a' = da_attempt_id a"
  shows "set (db_outbox (put_pair m' a' db)) = insert m' (set (db_outbox db) - {m})"
    and "set (db_attempts (put_pair m' a' db)) = insert a' (set (db_attempts db) - {a})"
    and "db_sessions (put_pair m' a' db) = db_sessions db"
  using assms inv_unique [OF assms(1)] by (simp_all add: put_pair_def outb.set_put att.set_put)

lemma state_fields [simp]:
  "wo_message_id (outbox_state m w t sa aa e) = wo_message_id m" "wo_session_id (outbox_state m w t sa aa e) = wo_session_id m"
  "wo_status (outbox_state m w t sa aa e) = w" "wo_last_error (outbox_state m w t sa aa e) = e"
  "da_attempt_id (attempt_state a s t aa e) = da_attempt_id a" "da_message_id (attempt_state a s t aa e) = da_message_id a"
  "da_session_id (attempt_state a s t aa e) = da_session_id a" "da_status (attempt_state a s t aa e) = s"
  by (simp_all add: outbox_state_def attempt_state_def)

end
