(* ===== verification/Delivery_Settle.thy ===== *)
theory Delivery_Settle
  imports Delivery_Invariant
begin

text \<open>
  Closing a session: the three loops that settle its deliveries (a refused one counts as sent, one that may
  have reached the client becomes unconfirmed, one that was never written is cancelled), the change of the
  session's status, its replacement by a new session, and the fence after a restart. Each keeps the
  invariant, and together they leave no delivery of the session open.
\<close>

section \<open>Deliveries of a session in given states\<close>

definition joined :: "SessionId \<Rightarrow> (StoredWireOutbox \<Rightarrow> StoredDeliveryAttempt \<Rightarrow> bool) \<Rightarrow> delivery_db \<Rightarrow> MessageId \<Rightarrow> bool" where
  "joined sid cond db i \<longleftrightarrow> (\<exists>m \<in> set (db_outbox db). \<exists>a \<in> set (db_attempts db). wo_message_id m = i
     \<and> da_message_id a = Some i \<and> wo_session_id m = Some sid \<and> cond m a)"

lemma set_joined_messages: "set (joined_messages sid cond db) = {i. joined sid cond db i}"
  by (auto simp: joined_messages_def joined_def)

lemma length_le_1: "distinct xs \<Longrightarrow> (\<And>x y. x \<in> set xs \<Longrightarrow> y \<in> set xs \<Longrightarrow> x = y) \<Longrightarrow> length xs \<le> 1"
  by (metis card_le_Suc0_iff_eq distinct_card finite_set One_nat_def)

lemma distinct_joined_messages:
  assumes inv: "delivery_inv J db"
  shows "distinct (joined_messages sid cond db)"
proof -
  define A where "A m = filter (\<lambda>a. da_message_id a = Some (wo_message_id m) \<and> wo_session_id m = Some sid \<and> cond m a)
    (db_attempts db)" for m
  have one: "length (A m) \<le> 1" for m
  proof (rule length_le_1)
    have "distinct (db_attempts db)" using inv_unique(3) [OF inv] by (simp add: att.unique_def distinct_map)
    then show "distinct (A m)" by (simp add: A_def)
  qed (auto simp: A_def intro: inv_message [OF inv])
  have d: "distinct (map (\<lambda>_. i) (A m))" for m and i :: MessageId
    using one [of m] by (cases "A m") auto
  have "distinct (concat (map (\<lambda>m. map (\<lambda>_. wo_message_id m) (A m)) ms))"
    if "distinct (map wo_message_id ms)" for ms
    using that by (induction ms) (auto simp: d)
  moreover have "distinct (map wo_message_id (sort_key outbox_order (db_outbox db)))"
    using inv_unique(2) [OF inv] by (simp add: outb.unique_def distinct_map)
  ultimately show ?thesis by (simp add: joined_messages_def A_def)
qed

lemma joined_put_pair:
  assumes "delivery_inv J db" "m \<in> set (db_outbox db)" "a \<in> set (db_attempts db)" "da_message_id a = Some (wo_message_id m)"
    and "delivery_inv J (put_pair m' a' db)" "outbox_fixed m m'" "attempt_fixed a a'"
  shows "joined sid cond (put_pair m' a' db) j \<longleftrightarrow>
    (if j = wo_message_id m then wo_session_id m = Some sid \<and> cond m' a' else joined sid cond db j)"
proof -
  note rows = put_pair_rows [OF assms(1-3), of m' a']
  have f: "wo_message_id m' = wo_message_id m" "wo_session_id m' = wo_session_id m" "da_attempt_id a' = da_attempt_id a"
    "da_message_id a' = Some (wo_message_id m)"
    using assms(4,6,7) by (simp_all add: outbox_fixed_def attempt_fixed_def)
  have M: "m' \<in> set (db_outbox (put_pair m' a' db))" and A: "a' \<in> set (db_attempts (put_pair m' a' db))"
    using rows f by simp_all
  show ?thesis
  proof (cases "j = wo_message_id m")
    case True
    have "wo_session_id m = Some sid \<and> cond m' a'" if j: "joined sid cond (put_pair m' a' db) j"
    proof -
      obtain q b where q: "q \<in> set (db_outbox (put_pair m' a' db))" "b \<in> set (db_attempts (put_pair m' a' db))"
        "wo_message_id q = j" "da_message_id b = Some j" "wo_session_id q = Some sid" "cond q b"
        using j by (auto simp: joined_def)
      have "q = m'" by (rule outbox_by_id [OF assms(5) q(1) M]) (simp add: q True f)
      moreover have "b = a'" by (rule inv_message [OF assms(5) q(2) A q(4)]) (simp add: True f)
      ultimately show ?thesis using q f by simp
    qed
    moreover have "joined sid cond (put_pair m' a' db) j" if "wo_session_id m = Some sid" "cond m' a'"
      unfolding joined_def by (rule bexI [OF _ M], rule bexI [OF _ A]) (simp add: that f True)
    ultimately show ?thesis using True by auto
  next
    case False
    have "joined sid cond (put_pair m' a' db) j \<longleftrightarrow> (\<exists>q \<in> insert m' (set (db_outbox db) - {m}).
        \<exists>b \<in> insert a' (set (db_attempts db) - {a}). wo_message_id q = j \<and> da_message_id b = Some j
        \<and> wo_session_id q = Some sid \<and> cond q b)"
      unfolding joined_def using rows f by simp
    also have "\<dots> \<longleftrightarrow> joined sid cond db j"
      unfolding joined_def using False f assms(4) by (metis DiffI insertE insertI2 DiffE option.inject singletonD)
    finally show ?thesis using False by simp
  qed
qed

lemma rejected_is_like: "has_rejected_prefix e \<Longrightarrow> like_rejected e"
proof -
  have "sql_like_prefix TRANSPORT_ACK_REJECTED_PREFIX x" if "starts_with TRANSPORT_ACK_REJECTED_PREFIX x" for x
  proof -
    have "x = TRANSPORT_ACK_REJECTED_PREFIX @ drop (length TRANSPORT_ACK_REJECTED_PREFIX) x"
      using that by (metis append_take_drop_id starts_with_def)
    then obtain y where "x = TRANSPORT_ACK_REJECTED_PREFIX @ y" by blast
    then show ?thesis by (simp add: TRANSPORT_ACK_REJECTED_PREFIX_def utf8_continuation_def)
  qed
  then show "has_rejected_prefix e \<Longrightarrow> like_rejected e"
    by (cases e) (auto simp: has_rejected_prefix_def like_rejected_def)
qed

section \<open>The loops\<close>

text \<open>A refused delivery whose write was not yet reported; a delivery in the outbox; a delivery in doubt.\<close>

definition refused_pending :: "StoredWireOutbox \<Rightarrow> StoredDeliveryAttempt \<Rightarrow> bool" where
  "refused_pending m a \<longleftrightarrow> wo_status m = WireOutboxStatus.Failed \<and> da_status a = CommandDeliveryAttemptStatus.Pending"

definition unwritten :: "StoredWireOutbox \<Rightarrow> StoredDeliveryAttempt \<Rightarrow> bool" where
  "unwritten m a \<longleftrightarrow> wo_status m = WireOutboxStatus.Pending \<and> da_status a = CommandDeliveryAttemptStatus.Pending"

definition doubtful :: "StoredWireOutbox \<Rightarrow> StoredDeliveryAttempt \<Rightarrow> bool" where
  "doubtful m a \<longleftrightarrow> da_status a = CommandDeliveryAttemptStatus.Sent \<and> wo_status m \<noteq> WireOutboxStatus.Failed
     \<or> da_status a = CommandDeliveryAttemptStatus.Pending \<and> wo_status m \<in>
         {WireOutboxStatus.WriteStarted, WireOutboxStatus.Sent, WireOutboxStatus.Acked}"

definition none_joined :: "SessionId \<Rightarrow> (StoredWireOutbox \<Rightarrow> StoredDeliveryAttempt \<Rightarrow> bool) \<Rightarrow> delivery_db \<Rightarrow> bool" where
  "none_joined sid cond db \<longleftrightarrow> (\<forall>i. \<not> joined sid cond db i)"

lemmas settle_conds = refused_pending_def unwritten_def doubtful_def

text \<open>The invariant of the loops: the deliveries left are those in the state that the loop removes, and
  none is in a state that was removed before.\<close>

definition settling :: "store_json \<Rightarrow> delivery_db \<Rightarrow> SessionId \<Rightarrow> (StoredWireOutbox \<Rightarrow> StoredDeliveryAttempt \<Rightarrow> bool) \<Rightarrow>
    (StoredWireOutbox \<Rightarrow> StoredDeliveryAttempt \<Rightarrow> bool) \<Rightarrow> MessageId list \<Rightarrow> delivery_db \<Rightarrow> bool" where
  "settling J db0 sid cond before xs db \<longleftrightarrow> delivery_inv J db \<and> evolves db0 db \<and> db_sessions db = db_sessions db0
     \<and> distinct xs \<and> set xs = {i. joined sid cond db i} \<and> none_joined sid before db"

lemma settling_step:
  assumes "settling J db0 sid cond before (i # xs) db" "m \<in> set (db_outbox db)" "wo_message_id m = i"
    and "a \<in> set (db_attempts db)" "da_message_id a = Some i"
    and "delivery_inv J (put_pair m' a' db)" "evolves db (put_pair m' a' db)" "outbox_fixed m m'" "attempt_fixed a a'"
    and "\<not> cond m' a'" "\<not> before m' a'"
  shows "settling J db0 sid cond before xs (put_pair m' a' db)"
proof -
  have inv: "delivery_inv J db" using assms(1) by (simp add: settling_def)
  have j: "joined sid c (put_pair m' a' db) j \<longleftrightarrow> (if j = i then wo_session_id m = Some sid \<and> c m' a' else joined sid c db j)" for c j
    using joined_put_pair [OF inv assms(2,4) _ assms(6,8,9)] assms(3,5) by simp
  have "{k. joined sid cond (put_pair m' a' db) k} = {k. joined sid cond db k} - {i}" using assms(10) by (auto simp: j)
  moreover have "set xs = {k. joined sid cond db k} - {i}" using assms(1) by (auto simp: settling_def)
  moreover have "none_joined sid before (put_pair m' a' db)"
    using assms(1,11) by (auto simp: settling_def none_joined_def j)
  moreover have "evolves db0 (put_pair m' a' db)" "db_sessions (put_pair m' a' db) = db_sessions db0" "distinct xs"
    using assms(1,7) evolves_trans by (auto simp: settling_def put_pair_def)
  ultimately show ?thesis using assms(6) by (simp add: settling_def)
qed

lemma settling_row:
  assumes "settling J db0 sid cond before (i # xs) db" "m \<in> set (db_outbox db)" "wo_message_id m = i"
    and "a \<in> set (db_attempts db)" "da_message_id a = Some i"
  shows "cond m a" "wo_session_id m = Some sid" "delivery_inv J db"
proof -
  have inv: "delivery_inv J db" and "joined sid cond db i" using assms(1) by (auto simp: settling_def)
  then obtain q b where "q \<in> set (db_outbox db)" "b \<in> set (db_attempts db)" "wo_message_id q = i"
    "da_message_id b = Some i" "wo_session_id q = Some sid" "cond q b" by (auto simp: joined_def)
  moreover from this have "q = m" "b = a" using outbox_by_id [OF inv] inv_message [OF inv] assms by auto
  ultimately show "cond m a" "wo_session_id m = Some sid" "delivery_inv J db" using inv by auto
qed

lemma settling_start:
  "delivery_inv J db \<Longrightarrow> none_joined sid before db \<Longrightarrow> settling J db sid cond before (joined_messages sid cond db) db"
  by (simp add: settling_def distinct_joined_messages set_joined_messages)

lemma settling_end: "settling J db0 sid cond before [] db \<Longrightarrow> none_joined sid cond db"
  by (auto simp: settling_def none_joined_def)

lemma fixed_state [simp]: "outbox_fixed m (outbox_state m w t sa aa e)" "attempt_fixed a (attempt_state a s t aa e)"
  by (simp_all add: outbox_fixed_def attempt_fixed_def outbox_state_def attempt_state_def)

lemma attempt_fixed_refl [simp]: "attempt_fixed a a"
  by (simp add: attempt_fixed_def)

lemma settle_rejected_wp [wp]:
  assumes inv: "delivery_inv J db"
    and Q: "\<And>n db'. delivery_inv J db' \<Longrightarrow> evolves db db' \<Longrightarrow> db_sessions db' = db_sessions db \<Longrightarrow>
      none_joined sid refused_pending db' \<Longrightarrow> Q n db'"
  shows "wpT (settle_rejected_pending_attempts_on J sid t) Q db"
proof -
  let ?c = "\<lambda>m a. wo_status m = WireOutboxStatus.Failed \<and> da_status a = CommandDeliveryAttemptStatus.Pending
    \<and> like_rejected (wo_last_error m)"
  let ?b = "\<lambda>m a. refused_pending m a \<and> \<not> like_rejected (wo_last_error m)"
  have "none_joined sid ?b db"
    unfolding none_joined_def joined_def
  proof (clarify)
    fix m a assume "m \<in> set (db_outbox db)" "a \<in> set (db_attempts db)" "da_message_id a = Some (wo_message_id m)"
      "refused_pending m a" "\<not> like_rejected (wo_last_error m)"
    then show False using bound_pair(2) [OF inv] rejected_is_like rejected_reason_prefix
      by (fastforce simp: pair_ok_def refused_pending_def)
  qed
  then have start: "settling J db sid ?c ?b (joined_messages sid ?c db) db" using inv by (rule settling_start [rotated])
  have fin: "Q n db'" if "settling J db sid ?c ?b [] db'" for n db'
  proof (rule Q)
    show "none_joined sid refused_pending db'"
      using that settling_end [OF that] unfolding settling_def none_joined_def joined_def refused_pending_def by metis
  qed (use that in \<open>simp_all add: settling_def\<close>)
  have step: "wpT (settle_rejected_attempt J t i) (\<lambda>_. settling J db sid ?c ?b xs) s"
    if s: "settling J db sid ?c ?b (i # xs) s" for i xs s
    unfolding settle_rejected_attempt_def
  proof (intro wpT_bindI required_outbox_wp required_attempt_wp)
    show inv': "delivery_inv J s" "delivery_inv J s" using s by (simp_all add: settling_def)
    fix m a assume rows: "m \<in> set (db_outbox s)" "wo_message_id m = i" "a \<in> set (db_attempts s)" "da_message_id a = Some i"
    note st = settling_row [OF s rows]
    have "has_rejected_prefix (wo_last_error m)"
      using bound_pair(2) [OF inv'(1) rows(3,1)] rows st(1) by (simp add: pair_ok_def rejected_reason_prefix)
    then obtain reason where e: "wo_last_error m = Some reason" "starts_with TRANSPORT_ACK_REJECTED_PREFIX reason"
      by (cases "wo_last_error m") (auto simp: has_rejected_prefix_def)
    have "wpT (update_attempt_state J a CommandDeliveryAttemptStatus.Sent (max t (da_updated_at a)) None None)
      (\<lambda>_. settling J db sid ?c ?b xs) s"
    proof (rule update_attempt_wp [OF inv'(1) rows(1,3)])
      fix a' assume a': "a' = attempt_state a CommandDeliveryAttemptStatus.Sent (max t (da_updated_at a)) None None"
        "delivery_inv J (put_pair m a' s)" "evolves s (put_pair m a' s)"
      show "settling J db sid ?c ?b xs (put_pair m a' s)"
        by (rule settling_step [OF s rows a'(2,3)]) (simp_all add: a'(1) refused_pending_def)
    qed (use st rows bound_pair(2) [OF inv'(1) rows(3,1)] in \<open>simp_all add: pair_ok_def\<close>)
    then show "wpT (case wo_last_error m of
        None \<Rightarrow> throwT (corrupt ''outbound_delivery'' i ''transport-rejected outbox has no rejection reason'')
      | Some reason \<Rightarrow> if \<not> starts_with TRANSPORT_ACK_REJECTED_PREFIX reason
          then throwT (corrupt ''outbound_delivery'' i ''transport-rejected outbox has an invalid rejection reason'')
        else update_attempt_state J a CommandDeliveryAttemptStatus.Sent (max t (da_updated_at a)) None None)
      (\<lambda>_. settling J db sid ?c ?b xs) s" using e by simp
  qed
  show ?thesis
    unfolding settle_rejected_pending_attempts_on_def
    by (intro wpT_bindI wpT_read)
      (rule wpT_mono [OF wpT_for_each [where Inv = "settling J db sid ?c ?b", OF step start]], auto intro: wp fin)
qed

text \<open>Cancelling keeps what the other two loops have removed.\<close>

lemma cancel_pending_wp [wp]:
  assumes inv: "delivery_inv J db"
    and Q: "\<And>n db'. delivery_inv J db' \<Longrightarrow> evolves db db' \<Longrightarrow> db_sessions db' = db_sessions db \<Longrightarrow>
      none_joined sid unwritten db' \<Longrightarrow>
      (\<And>c. none_joined sid c db \<Longrightarrow> c = refused_pending \<or> c = doubtful \<Longrightarrow> none_joined sid c db') \<Longrightarrow> Q n db'"
  shows "wpT (cancel_session_pending_deliveries_on J sid t error) Q db"
proof -
  let ?b = "\<lambda>m a. (refused_pending m a \<and> none_joined sid refused_pending db)
    \<or> (doubtful m a \<and> none_joined sid doubtful db)"
  have cond: "(\<lambda>m a. wo_status m = WireOutboxStatus.Pending \<and> da_status a = CommandDeliveryAttemptStatus.Pending) = unwritten"
    by (simp add: fun_eq_iff unwritten_def)
  have start: "settling J db sid unwritten ?b (joined_messages sid unwritten db) db"
    by (rule settling_start [OF inv]) (auto simp: none_joined_def joined_def)
  have fin: "Q n db'" if s: "settling J db sid unwritten ?b [] db'" for n db'
  proof (rule Q)
    show "none_joined sid unwritten db'" using s by (rule settling_end)
    show "none_joined sid c db'" if "none_joined sid c db" "c = refused_pending \<or> c = doubtful" for c
      using s that unfolding settling_def none_joined_def joined_def by blast
  qed (use s in \<open>simp_all add: settling_def\<close>)
  have step: "wpT (cancel_pending_delivery J t error i) (\<lambda>_. settling J db sid unwritten ?b xs) s"
    if s: "settling J db sid unwritten ?b (i # xs) s" for i xs s
    unfolding cancel_pending_delivery_def
  proof (intro wpT_bindI required_outbox_wp required_attempt_wp wpT_lift)
    show inv': "delivery_inv J s" "delivery_inv J s" using s by (simp_all add: settling_def)
    fix m a assume rows: "m \<in> set (db_outbox s)" "wo_message_id m = i" "a \<in> set (db_attempts s)" "da_message_id a = Some i"
    note st = settling_row [OF s rows]
    show "\<not> is_corrupt e" if "require_monotonic_transition_time m a t = Inl e" for e
      using that by (auto simp: require_monotonic_transition_time_def split: if_splits)
    have "wpT (bindT (update_outbox_state J m WireOutboxStatus.Cancelled t None None (Some error))
        (\<lambda>_. update_attempt_state J a CommandDeliveryAttemptStatus.Cancelled t None (Some error)))
      (\<lambda>_. settling J db sid unwritten ?b xs) s"
    proof (rule update_pair_wp [OF inv'(1) rows(1,3)])
      fix m' a' assume new: "m' = outbox_state m WireOutboxStatus.Cancelled t None None (Some error)"
        "a' = attempt_state a CommandDeliveryAttemptStatus.Cancelled t None (Some error)"
        "delivery_inv J (put_pair m' a' s)" "evolves s (put_pair m' a' s)"
      show "settling J db sid unwritten ?b xs (put_pair m' a' s)"
        by (rule settling_step [OF s rows new(3,4)]) (simp_all add: new(1,2) settle_conds)
    qed (use st rows in \<open>simp_all add: unwritten_def\<close>)
    then show "wpT (update_outbox_state J m WireOutboxStatus.Cancelled t None None (Some error))
      (\<lambda>_. wpT (update_attempt_state J a CommandDeliveryAttemptStatus.Cancelled t None (Some error))
        (\<lambda>_. settling J db sid unwritten ?b xs)) s"
      by (simp add: wpT_bind_eq)
  qed
  show ?thesis
    unfolding cancel_session_pending_deliveries_on_def cond
    by (intro wpT_bindI wpT_read)
      (rule wpT_mono [OF wpT_for_each [where Inv = "settling J db sid unwritten ?b", OF step start]], auto intro: wp fin)
qed

section \<open>Attempts in doubt\<close>

lemma in_doubt_iff: "in_doubt db a \<longleftrightarrow> (\<exists>m \<in> set (db_outbox db). da_message_id a = Some (wo_message_id m) \<and> doubtful m a)"
  by (auto simp: in_doubt_def list_ex_iff doubtful_def)

definition doubting :: "store_json \<Rightarrow> delivery_db \<Rightarrow> SessionId \<Rightarrow> StoredDeliveryAttempt list \<Rightarrow> delivery_db \<Rightarrow> bool" where
  "doubting J db0 sid xs db \<longleftrightarrow> delivery_inv J db \<and> evolves db0 db \<and> db_sessions db = db_sessions db0
     \<and> set (db_outbox db) = set (db_outbox db0) \<and> distinct xs
     \<and> set xs = {a \<in> set (db_attempts db). da_session_id a = Some sid \<and> in_doubt db a}
     \<and> (\<forall>a \<in> set (db_attempts db). a \<in> set (db_attempts db0) \<or> da_status a = CommandDeliveryAttemptStatus.Unconfirmed)"

lemma doubting_step:
  assumes s: "doubting J db0 sid (a # xs) db" and m: "m \<in> set (db_outbox db)" "da_message_id a = Some (wo_message_id m)"
    and "delivery_inv J (put_pair m a' db)" "evolves db (put_pair m a' db)" "attempt_fixed a a'"
    and "da_status a' = CommandDeliveryAttemptStatus.Unconfirmed"
  shows "doubting J db0 sid xs (put_pair m a' db)"
proof -
  have inv: "delivery_inv J db" and a: "a \<in> set (db_attempts db)" using s by (auto simp: doubting_def)
  note rows = put_pair_rows [OF inv m(1) a, of m a']
  have O: "set (db_outbox (put_pair m a' db)) = set (db_outbox db)"
    using rows(1) m(1) assms(6) by (auto simp: attempt_fixed_def)
  have A: "set (db_attempts (put_pair m a' db)) = insert a' (set (db_attempts db) - {a})"
    using rows(2) assms(6) by (simp add: attempt_fixed_def)
  have d: "in_doubt (put_pair m a' db) b \<longleftrightarrow> in_doubt db b" for b by (simp add: in_doubt_iff O)
  have "\<not> in_doubt db a'" using assms(7) by (auto simp: in_doubt_iff doubtful_def)
  then have "{b \<in> set (db_attempts (put_pair m a' db)). da_session_id b = Some sid \<and> in_doubt (put_pair m a' db) b}
    = {b \<in> set (db_attempts db). da_session_id b = Some sid \<and> in_doubt db b} - {a}" by (auto simp: A d)
  moreover have "set xs = {b \<in> set (db_attempts db). da_session_id b = Some sid \<and> in_doubt db b} - {a}"
    using s by (auto simp: doubting_def)
  moreover have "evolves db0 (put_pair m a' db)" using s assms(5) evolves_trans by (auto simp: doubting_def)
  moreover have "db_sessions (put_pair m a' db) = db_sessions db0" using s by (simp add: doubting_def put_pair_def)
  ultimately show ?thesis using s assms(4,7) O A by (auto simp: doubting_def)
qed

lemma unconfirm_wp [wp]:
  assumes inv: "delivery_inv J db" and error: "\<not> trim_is_empty error"
    and Q: "\<And>v db'. delivery_inv J db' \<Longrightarrow> evolves db db' \<Longrightarrow> db_sessions db' = db_sessions db \<Longrightarrow>
      none_joined sid doubtful db' \<Longrightarrow>
      (\<And>c. none_joined sid c db \<Longrightarrow> c = refused_pending \<or> c = unwritten \<Longrightarrow> none_joined sid c db') \<Longrightarrow> Q v db'"
  shows "wpT (unconfirm_session_attempts_on J sid t error) Q db"
proof -
  define rows where "rows = filter (\<lambda>a. da_session_id a = Some sid \<and> in_doubt db a)
    (sort_key (\<lambda>a. (da_attempted_at a, da_attempt_id a)) (db_attempts db))"
  have "distinct (db_attempts db)" using inv_unique(3) [OF inv] by (simp add: att.unique_def distinct_map)
  then have start: "doubting J db sid rows db" using inv by (auto simp: doubting_def rows_def)
  have fin: "Q v db'" if s: "doubting J db sid [] db'" for v db'
  proof (rule Q)
    have inv': "delivery_inv J db'" using s by (simp add: doubting_def)
    show "none_joined sid doubtful db'"
      unfolding none_joined_def joined_def
    proof clarify
      fix m a assume *: "m \<in> set (db_outbox db')" "a \<in> set (db_attempts db')" "da_message_id a = Some (wo_message_id m)"
        "wo_session_id m = Some sid" "doubtful m a"
      then have "da_session_id a = Some sid" using bound_pair(1) [OF inv'] by (simp add: attempt_bound_to_def)
      moreover have "in_doubt db' a" using * by (auto simp: in_doubt_iff)
      ultimately show False using s *(2) by (auto simp: doubting_def)
    qed
    show "none_joined sid c db'" if "none_joined sid c db" "c = refused_pending \<or> c = unwritten" for c
      using s that unfolding doubting_def none_joined_def joined_def settle_conds
      by (metis CommandDeliveryAttemptStatus.distinct(11))
  qed (use s in \<open>simp_all add: doubting_def\<close>)
  have step: "wpT (unconfirm_attempt J t error a) (\<lambda>_. doubting J db sid xs) s"
    if s: "doubting J db sid (a # xs) s" for a xs s
  proof -
    have inv': "delivery_inv J s" and a: "a \<in> set (db_attempts s)" "in_doubt s a" using s by (auto simp: doubting_def)
    then obtain m where m: "m \<in> set (db_outbox s)" "da_message_id a = Some (wo_message_id m)" "doubtful m a"
      by (auto simp: in_doubt_iff)
    have p: "pair_ok m a" by (rule bound_pair(2) [OF inv' a(1) m(1,2)])
    show ?thesis
      unfolding unconfirm_attempt_def
    proof (intro wp update_attempt_wp [OF inv' m(1) a(1) m(2)])
      fix a' assume new: "a' = attempt_state a CommandDeliveryAttemptStatus.Unconfirmed t None (Some error)"
        "delivery_inv J (put_pair m a' s)" "evolves s (put_pair m a' s)"
      show "delivery_inv J (put_pair m a' s)" by fact
      show "doubting J db sid xs (put_pair m a' s)"
        by (rule doubting_step [OF s m(1,2) new(2,3)]) (simp_all add: new(1))
      show "\<exists>b \<in> set (db_attempts (put_pair m a' s)). da_attempt_id b = da_attempt_id a"
        using put_pair_rows(2) [OF inv' m(1) a(1), of m a'] new(1) by auto
    qed (use m(3) p error in \<open>auto simp: doubtful_def pair_ok_def dest: pair_states_moves\<close>)
  qed
  have "parse_and_validate_attempt_rows J rows db = Inr (rows, db)"
    by (rule read_attempts_eq [OF inv]) (auto simp: rows_def)
  then show ?thesis
    unfolding unconfirm_session_attempts_on_def rows_def [symmetric]
    by (intro wpT_bindI wpT_read)
      (simp add: rows_def [symmetric] wpT_def [of "parse_and_validate_attempt_rows J rows"],
       rule wpT_mono [OF wpT_map [where Inv = "doubting J db sid", OF step start]], auto intro: fin)
qed

section \<open>Sessions\<close>

lemma sql_max_mem: "Some t \<in> set xs \<Longrightarrow> t \<le> sql_max base xs"
proof -
  have mono: "m \<le> fold (\<lambda>x m. max m (case x of None \<Rightarrow> base | Some t \<Rightarrow> t)) xs m" for m xs
    by (induction xs arbitrary: m) (auto intro: order_trans [OF max.cobounded1])
  have "t \<le> fold (\<lambda>x m. max m (case x of None \<Rightarrow> base | Some t \<Rightarrow> t)) xs m" if "Some t \<in> set xs" for m
    using that by (induction xs arbitrary: m) (auto intro: order_trans [OF max.cobounded2 mono])
  then show "Some t \<in> set xs \<Longrightarrow> t \<le> sql_max base xs" by (simp add: sql_max_def)
qed

lemma session_cas_facts:
  assumes "session_cas r r'" "ss_revision r' = ss_revision r + 1"
  shows "ss_updated_at r \<le> ss_updated_at r'" "ss_last_outbound_sequence r \<le> ss_last_outbound_sequence r'"
    and "\<And>t. ss_last_heartbeat_at r' = Some t \<Longrightarrow> t \<le> ss_updated_at r'"
    and "\<And>t. ss_last_time_sync_at r' = Some t \<Longrightarrow> t \<le> ss_updated_at r'"
    and "ss_connected_at r' \<le> ss_updated_at r'"
proof -
  have t: "session_time r' \<le> ss_updated_at r'" using assms by (auto simp: session_cas_def)
  show "ss_updated_at r \<le> ss_updated_at r'" "ss_last_outbound_sequence r \<le> ss_last_outbound_sequence r'"
    using assms by (auto simp: session_cas_def)
  have mem: "u \<le> session_time r'" if "Some u \<in> {ss_last_heartbeat_at r', ss_last_time_sync_at r'}" for u
    unfolding session_time_def by (rule sql_max_mem) (use that in auto)
  show "u \<le> ss_updated_at r'" if "ss_last_heartbeat_at r' = Some u" for u
    using order_trans [OF mem t] that by simp
  show "u \<le> ss_updated_at r'" if "ss_last_time_sync_at r' = Some u" for u
    using order_trans [OF mem t] that by simp
  show "ss_connected_at r' \<le> ss_updated_at r'"
    using t sql_max_base [of "ss_connected_at r'"] by (auto simp: session_time_def intro: order_trans)
qed

text \<open>An update of the active session \<open>r\<close> to \<open>r'\<close>, which keeps its identity and its evidence in order.\<close>

lemma update_session_wp:
  assumes inv: "delivery_inv J db" and r: "r \<in> set (db_sessions db)" "ss_session_id r = i"
    and ch: "\<And>q. ss_session_id (change q) = ss_session_id q"
    and r': "r' = (change r)\<lparr>ss_revision := ss_revision r + 1\<rparr>" and fixed: "session_fixed r r'"
    and beat: "\<And>t. ss_last_heartbeat_at r' = Some t \<Longrightarrow> ss_connected_at r \<le> t"
    and sync: "\<And>t. ss_last_time_sync_at r' = Some t \<Longrightarrow> ss_connected_at r \<le> t"
    and live: "ss_status r' = SessionStatus.Active \<Longrightarrow> ss_disconnected_at r' = None"
    and clock: "ss_clock_sync_status r' = Some ClockSyncStatus.Synced \<Longrightarrow> ss_last_time_sync_at r' \<noteq> None"
      "ss_last_time_sync_at r' \<noteq> None \<Longrightarrow> ss_clock_sync_status r' \<noteq> None"
    and Q: "ss_status r = SessionStatus.Active \<Longrightarrow> cond r \<Longrightarrow>
      delivery_inv J (db\<lparr>db_sessions := ses.put r' (db_sessions db)\<rparr>) \<Longrightarrow>
      evolves db (db\<lparr>db_sessions := ses.put r' (db_sessions db)\<rparr>) \<Longrightarrow> Q () (db\<lparr>db_sessions := ses.put r' (db_sessions db)\<rparr>)"
  shows "wpT (update_active_session J i (ss_revision r) (ss_revision r + 1) cond change) Q db"
proof (rule wpT_I)
  fix u db' assume "update_active_session J i (ss_revision r) (ss_revision r + 1) cond change db = Inr (u, db')"
  note upd = update_active_session_ok [OF inv_unique(1) [OF inv] r ch this, folded r']
  have rev: "ss_revision r' = ss_revision r + 1" by (simp add: r')
  have upd': "session_cas r r'" "session_row_check J r'" using upd by simp_all
  note cas = session_cas_facts [OF upd'(1) rev]
  have ok: "session_ok J r" by (rule inv_session [OF inv r(1)])
  have "session_ok J r'"
    unfolding session_ok_def
  proof (intro conjI ballI impI)
    show "canonical J (ss_capabilities r')" "0 < ss_max_inflight_commands r'"
      using ok fixed by (simp_all add: session_ok_def session_fixed_def)
    show "0 < ss_last_outbound_sequence r'" using upd'(2) by (simp add: session_row_check_def)
  qed (use cas beat sync live clock fixed in \<open>simp_all add: session_fixed_def\<close>)
  moreover have "session_grows r r'" using upd cas fixed rev by (simp add: session_grows_def)
  ultimately show "Q u db'" using inv_put_session [OF inv r(1), of r'] upd Q by simp
qed (rule update_active_session_error)

lemma transition_session_wp [wp]:
  assumes inv: "delivery_inv J db" and r: "r \<in> set (db_sessions db)"
    and st: "status = SessionStatus.Stale \<or> status = SessionStatus.Disconnected"
    and Q: "\<And>r' db'. db' = db\<lparr>db_sessions := ses.put r' (db_sessions db)\<rparr> \<Longrightarrow> session_fixed r r' \<Longrightarrow> ss_status r' = status \<Longrightarrow>
      delivery_inv J db' \<Longrightarrow> evolves db db' \<Longrightarrow> Q () db'"
  shows "wpT (transition_session_status_on J r status t) Q db"
  unfolding transition_session_status_on_def
proof (intro wpT_bindI wpT_lift)
  fix n assume "checked_increment ''execution_client_sessions.revision'' (ss_revision r) = Inr n"
  then have n: "n = ss_revision r + 1" by (rule checked_increment_ok)
  have ok: "session_ok J r" by (rule inv_session [OF inv r])
  show "wpT (update_active_session J (ss_session_id r) (ss_revision r) n (\<lambda>_. True)
      (\<lambda>r. r\<lparr>ss_status := status, ss_disconnected_at := Some t, ss_updated_at := t\<rparr>)) Q db"
    unfolding n by (rule update_session_wp [OF inv r refl _ refl])
      (use ok st in \<open>auto simp: session_fixed_def session_ok_def intro: Q\<close>)
qed (rule checked_increment_error)

section \<open>Closing and replacing\<close>

definition session_settled :: "SessionId \<Rightarrow> delivery_db \<Rightarrow> bool" where
  "session_settled sid db \<longleftrightarrow> (\<forall>a \<in> set (db_attempts db). da_session_id a = Some sid \<longrightarrow>
     da_status a \<noteq> CommandDeliveryAttemptStatus.Pending
     \<and> (da_status a = CommandDeliveryAttemptStatus.Sent \<longrightarrow> (\<exists>m \<in> set (db_outbox db).
          da_message_id a = Some (wo_message_id m) \<and> wo_status m = WireOutboxStatus.Failed)))"

lemma settled_I:
  assumes inv: "delivery_inv J db" and none: "none_joined sid refused_pending db" "none_joined sid unwritten db"
    "none_joined sid doubtful db"
  shows "session_settled sid db"
  unfolding session_settled_def
proof (intro ballI impI)
  fix a assume a: "a \<in> set (db_attempts db)" "da_session_id a = Some sid"
  show "da_status a \<noteq> CommandDeliveryAttemptStatus.Pending \<and> (da_status a = CommandDeliveryAttemptStatus.Sent \<longrightarrow>
    (\<exists>m \<in> set (db_outbox db). da_message_id a = Some (wo_message_id m) \<and> wo_status m = WireOutboxStatus.Failed))"
  proof (cases "da_message_id a")
    case None
    then show ?thesis using inv_attempt [OF inv a(1)] by (auto simp: attempt_ok_def bound_attempt_statuses_def)
  next
    case (Some i)
    then obtain m where m: "m \<in> set (db_outbox db)" "attempt_bound_to a m" "pair_ok m a" using inv_bound [OF inv a(1)] by blast
    then have b: "da_message_id a = Some (wo_message_id m)" "wo_session_id m = Some sid"
      using a(2) by (simp_all add: attempt_bound_to_def)
    have "\<not> refused_pending m a" "\<not> unwritten m a" "\<not> doubtful m a"
      using none a(1) m(1) b unfolding none_joined_def joined_def by metis+
    then show ?thesis using m(1,3) b(1)
      by (cases "wo_status m") (auto simp: settle_conds pair_ok_def)
  qed
qed

lemma settled_sessions: "session_settled sid (db\<lparr>db_sessions := S\<rparr>) = session_settled sid db"
  by (simp add: session_settled_def)

lemma settle_and_close_wp [wp]:
  assumes inv: "delivery_inv J db" and r: "r \<in> set (db_sessions db)" "ss_session_id r = sid" and error: "\<not> trim_is_empty error"
    and st: "status = SessionStatus.Stale \<or> status = SessionStatus.Disconnected"
    and Q: "\<And>v db' r'. delivery_inv J db' \<Longrightarrow> evolves db db' \<Longrightarrow> session_settled sid db' \<Longrightarrow> sdo_session v = r' \<Longrightarrow>
      r' \<in> set (db_sessions db') \<Longrightarrow> ss_session_id r' = sid \<Longrightarrow> ss_status r' = status \<Longrightarrow> Q v db'"
  shows "wpT (settle_and_close J r sid t error status) Q db"
  unfolding settle_and_close_def
proof (intro wpT_bindI settle_rejected_wp [OF inv] unconfirm_wp cancel_pending_wp transition_session_wp error st)
  fix n db1 v db2 k db3 r' db4
  assume 1: "delivery_inv J db1" "evolves db db1" "db_sessions db1 = db_sessions db" "none_joined sid refused_pending db1"
    and 2: "delivery_inv J db2" "evolves db1 db2" "db_sessions db2 = db_sessions db1" "none_joined sid doubtful db2"
      "\<And>c. none_joined sid c db1 \<Longrightarrow> c = refused_pending \<or> c = unwritten \<Longrightarrow> none_joined sid c db2"
    and 3: "delivery_inv J db3" "evolves db2 db3" "db_sessions db3 = db_sessions db2" "none_joined sid unwritten db3"
      "\<And>c. none_joined sid c db2 \<Longrightarrow> c = refused_pending \<or> c = doubtful \<Longrightarrow> none_joined sid c db3"
    and 4: "db4 = db3\<lparr>db_sessions := ses.put r' (db_sessions db3)\<rparr>" "session_fixed r r'" "ss_status r' = status"
      "delivery_inv J db4" "evolves db3 db4"
  have "session_settled sid db3" using 1 2 3 by (intro settled_I [OF 3(1)]) simp_all
  then have settled: "session_settled sid db4" by (simp add: 4(1) settled_sessions)
  have ev: "evolves db db4" using 1(2) 2(2) 3(2) 4(5) evolves_trans by blast
  have "r \<in> set (db_sessions db3)" using r 1(3) 2(3) 3(3) by simp
  then have r': "r' \<in> set (db_sessions db4)" "ss_session_id r' = sid"
    using ses.set_put [OF inv_unique(1) [OF 3(1)], of r r'] 4(1,2) r(2) by (simp_all add: session_fixed_def)
  show "wpT (required_session J sid) (\<lambda>session. wpT (returnT \<lparr>sdo_session = session, sdo_unconfirmed_attempts = v\<rparr>) Q) db4"
  proof (intro required_session_wp [OF 4(4)] wpT_return)
    fix q assume "q \<in> set (db_sessions db4)" "ss_session_id q = sid"
    then have "q = r'" using r' ses.unique_inj [OF inv_unique(1) [OF 4(4)]] by metis
    then show "Q \<lparr>sdo_session = q, sdo_unconfirmed_attempts = v\<rparr> db4" using Q [OF 4(4) ev settled] r' 4(3) by simp
  qed
qed (use r in auto)

lemma require_active_error: "require_active_session_revision r n = Inl e \<Longrightarrow> \<not> is_corrupt e"
  by (auto simp: require_active_session_revision_def split: if_splits)

lemma require_active_ok: "require_active_session_revision r n = Inr u \<longleftrightarrow> ss_status r = SessionStatus.Active \<and> ss_revision r = n"
  by (auto simp: require_active_session_revision_def)

lemma close_session_wp [wp]:
  assumes inv: "delivery_inv J db" and st: "status = SessionStatus.Stale \<or> status = SessionStatus.Disconnected"
    and Q: "\<And>v db'. delivery_inv J db' \<Longrightarrow> evolves db db' \<Longrightarrow> session_settled (ssu_session_id u) db' \<Longrightarrow>
      sdo_session v \<in> set (db_sessions db') \<Longrightarrow> ss_session_id (sdo_session v) = ssu_session_id u \<Longrightarrow>
      ss_status (sdo_session v) = status \<Longrightarrow> Q v db'"
  shows "wpT (close_session_on J u status) Q db"
  unfolding close_session_on_def
  by (intro wpT_bindI wpT_lift wpT_if wpT_throw required_session_wp [OF inv] settle_and_close_wp [OF inv] st)
    (auto intro: Q dest: require_active_error require_non_empty_error)

lemma close_exact_wp [wp]:
  assumes inv: "delivery_inv J db" and st: "status = SessionStatus.Stale \<or> status = SessionStatus.Disconnected"
    and Q: "\<And>v db'. delivery_inv J db' \<Longrightarrow> evolves db db' \<Longrightarrow>
      db' = db \<and> ss_status (sdo_session v) \<noteq> SessionStatus.Active
      \<or> session_settled (esc_session_id u) db' \<and> ss_status (sdo_session v) = status \<Longrightarrow>
      sdo_session v \<in> set (db_sessions db') \<Longrightarrow> ss_session_id (sdo_session v) = esc_session_id u \<Longrightarrow> Q v db'"
  shows "wpT (close_exact_session_on J u status) Q db"
  unfolding close_exact_session_on_def
  by (intro wpT_bindI wpT_lift wpT_if wpT_return required_session_wp [OF inv] settle_and_close_wp [OF inv] st)
    (auto intro!: Q inv simp: st dest: require_non_empty_error)

end
