(* ===== verification/Delivery_Sessions.thy ===== *)
theory Delivery_Sessions
  imports Delivery_Settle
begin

text \<open>
  The operations on sessions keep the invariant of the delivery tables and only let rows grow: registration,
  replacement, heartbeats and clocks, and the fence after a restart, after which no session is active and no
  write is in progress.
\<close>

section \<open>Registration of sessions\<close>

lemma validate_new_session_error: "validate_new_active_session s = Inl e \<Longrightarrow> \<not> is_corrupt e"
  by (auto simp: validate_new_active_session_def split: if_splits)

lemma inv_add_session:
  assumes inv: "delivery_inv J db" and new: "ss_session_id r \<notin> ss_session_id ` set (db_sessions db)" and ok: "session_ok J r"
    and act: "\<And>q. q \<in> set (db_sessions db) \<Longrightarrow> ss_status q = SessionStatus.Active \<Longrightarrow> ss_status r = SessionStatus.Active \<Longrightarrow>
      active_identity q \<noteq> active_identity r"
  shows "delivery_inv J (db\<lparr>db_sessions := db_sessions db @ [r]\<rparr>)" "evolves db (db\<lparr>db_sessions := db_sessions db @ [r]\<rparr>)"
proof -
  let ?db = "db\<lparr>db_sessions := db_sessions db @ [r]\<rparr>"
  have "sessions_inv J (db_sessions db @ [r])"
    unfolding sessions_inv_def
  proof (intro conjI ballI impI)
    show "ses.unique (db_sessions db @ [r])" by (rule ses.unique_append [OF inv_unique(1) [OF inv] new])
    show "session_ok J q" if "q \<in> set (db_sessions db @ [r])" for q using that ok inv_session [OF inv] by auto
    show "q = q'" if "q \<in> set (db_sessions db @ [r])" "q' \<in> set (db_sessions db @ [r])"
      "ss_status q = SessionStatus.Active \<and> ss_status q' = SessionStatus.Active \<and> active_identity q = active_identity q'" for q q'
      using that inv_active [OF inv] act by (metis Un_iff empty_iff empty_set insert_iff list.set(2) set_append)
  qed
  moreover have "parent_ok J ?db m = parent_ok J db m" for m by (rule parent_ok_fixed) simp_all
  moreover have "sequenced ?db m" if "sequenced db m" for m using that by (auto simp: sequenced_def)
  ultimately show "delivery_inv J ?db" using inv by (simp add: delivery_inv_def outbox_inv_def)
  show "evolves db ?db"
    by (simp add: evolves_def ses.table_grows_append outb.table_grows_refl att.table_grows_refl)
qed

lemma stored_session_sel [simp]:
  "ss_session_id (stored_session s) = ns_session_id s" "ss_client_id (stored_session s) = ns_client_id s"
  "ss_account_id (stored_session s) = ns_account_id s" "ss_terminal_id (stored_session s) = ns_terminal_id s"
  "ss_status (stored_session s) = ns_status s" "ss_capabilities (stored_session s) = ns_capabilities s"
  "ss_connected_at (stored_session s) = ns_connected_at s"
  "ss_last_heartbeat_at (stored_session s) = ns_last_heartbeat_at s"
  "ss_last_time_sync_at (stored_session s) = ns_last_time_sync_at s"
  "ss_clock_sync_status (stored_session s) = ns_clock_sync_status s"
  "ss_disconnected_at (stored_session s) = ns_disconnected_at s" "ss_updated_at (stored_session s) = ns_updated_at s"
  "ss_last_outbound_sequence (stored_session s) = 1" "ss_max_inflight_commands (stored_session s) = ns_max_inflight_commands s"
  by (simp_all add: stored_session_def)

lemma insert_session_wp [wp]:
  assumes inv: "delivery_inv J db" and valid: "validate_new_active_session s = Inr ()" and can: "canonical J (ns_capabilities s)"
    and Q: "\<And>v db' r. delivery_inv J db' \<Longrightarrow> evolves db db' \<Longrightarrow> r \<in> set (db_sessions db') \<Longrightarrow>
      ss_session_id r = ns_session_id s \<Longrightarrow> ss_status r = SessionStatus.Active \<Longrightarrow> ss_client_id r = ns_client_id s \<Longrightarrow>
      ss_account_id r = ns_account_id s \<Longrightarrow> ss_terminal_id r = ns_terminal_id s \<Longrightarrow>
      db_outbox db' = db_outbox db \<Longrightarrow> db_attempts db' = db_attempts db \<Longrightarrow>
      set (db_sessions db) \<subseteq> set (db_sessions db') \<Longrightarrow> Q v db'"
  shows "wpT (insert_session_on J s) Q db"
proof -
  let ?r = "stored_session s"
  let ?r' = "if ss_updated_at ?r = 0 then ?r\<lparr>ss_updated_at := session_time ?r\<rparr> else ?r"
  have act: "ns_status s = SessionStatus.Active" and disc: "ns_disconnected_at s = None"
    using valid by (auto simp: validate_new_active_session_def split: if_splits)
  have fields: "ss_session_id ?r' = ns_session_id s" "ss_status ?r' = SessionStatus.Active" "ss_client_id ?r' = ns_client_id s"
    "ss_account_id ?r' = ns_account_id s" "ss_terminal_id ?r' = ns_terminal_id s" "active_identity ?r' = active_identity ?r"
    "ss_session_id ?r = ns_session_id s" "ss_status ?r = SessionStatus.Active"
    by (simp_all add: act active_identity_def)
  have ok: "session_ok J ?r'" if c: "session_row_check J ?r"
  proof -
    have v: "ns_connected_at s \<le> ns_updated_at s"
      "\<And>t. ns_last_heartbeat_at s = Some t \<Longrightarrow> ns_connected_at s \<le> t \<and> t \<le> ns_updated_at s"
      "\<And>t. ns_last_time_sync_at s = Some t \<Longrightarrow> ns_connected_at s \<le> t \<and> t \<le> ns_updated_at s"
      "ns_clock_sync_status s = Some ClockSyncStatus.Synced \<Longrightarrow> ns_last_time_sync_at s \<noteq> None"
      "ns_last_time_sync_at s \<noteq> None \<Longrightarrow> ns_clock_sync_status s \<noteq> None" "0 < ns_max_inflight_commands s"
      using valid by (auto simp: validate_new_active_session_def split: if_splits)
    have mem: "t \<le> session_time ?r" if "Some t \<in> {ns_last_heartbeat_at s, ns_last_time_sync_at s}" for t
      unfolding session_time_def by (rule sql_max_mem) (use that in auto)
    have base: "ns_connected_at s \<le> session_time ?r"
      using sql_max_base [of "ns_connected_at s"] by (simp add: session_time_def)
    show ?thesis
      unfolding session_ok_def using can v base mem disc
      by (cases "ns_updated_at s = 0"; cases "ns_last_heartbeat_at s"; cases "ns_last_time_sync_at s") auto
  qed
  show ?thesis
    unfolding insert_session_on_def
  proof (intro wpT_bindI wpT_lift)
    show "wpT (insert_session_row J ?r) (\<lambda>inserted. wpT (if inserted then returnT (WriteOutcome.Inserted ?r)
      else bindT (fetch_session_by_id J (ns_session_id s)) (\<lambda>found. case found of
       Some existing \<Rightarrow>
         if same_session_identity existing s then returnT (WriteOutcome.Duplicate existing)
         else throwT (conflict ''execution_client_session'' (''session_id='' @ ns_session_id s))
     | None \<Rightarrow> throwT (conflict ''execution_client_session''
         (''active identity client_id='' @ ns_client_id s @ '',account_id='' @ ns_account_id s @
          '',terminal_id='' @ (case ns_terminal_id s of None \<Rightarrow> [] | Some t \<Rightarrow> t))))) Q) db"
    proof (rule wpT_I)
      fix b db' assume ins: "insert_session_row J ?r db = Inr (b, db')"
      show "wpT (if b then returnT (WriteOutcome.Inserted ?r)
        else bindT (fetch_session_by_id J (ns_session_id s)) (\<lambda>found. case found of
         Some existing \<Rightarrow>
           if same_session_identity existing s then returnT (WriteOutcome.Duplicate existing)
           else throwT (conflict ''execution_client_session'' (''session_id='' @ ns_session_id s))
       | None \<Rightarrow> throwT (conflict ''execution_client_session''
           (''active identity client_id='' @ ns_client_id s @ '',account_id='' @ ns_account_id s @
            '',terminal_id='' @ (case ns_terminal_id s of None \<Rightarrow> [] | Some t \<Rightarrow> t))))) Q db'"
      proof (cases b)
        case True
        then have c: "session_row_check J ?r" "\<not> list_ex (session_conflict ?r) (db_sessions db)"
          and db': "db' = db\<lparr>db_sessions := db_sessions db @ [?r']\<rparr>"
          using ins by (auto simp: insert_session_row_def split: if_splits)
        have "ss_session_id ?r' \<notin> ss_session_id ` set (db_sessions db)"
          using c(2) by (auto simp: list_ex_iff session_conflict_def fields)
        moreover have "active_identity q \<noteq> active_identity ?r'" if "q \<in> set (db_sessions db)" "ss_status q = SessionStatus.Active" for q
          unfolding fields(6) using c(2) that fields(8) by (auto simp: list_ex_iff session_conflict_def)
        ultimately have "delivery_inv J db'" "evolves db db'" using inv_add_session [OF inv _ ok [OF c(1)]] db' by simp_all
        then have "Q (WriteOutcome.Inserted ?r) db'" by (rule Q [where r = ?r']) (use db' fields in \<open>simp_all add: subset_insertI\<close>)
        then show ?thesis using True by (simp add: wpT_return)
      next
        case False
        then have "db' = db" using ins by (auto simp: insert_session_row_def split: if_splits)
        then show ?thesis using False
          by (simp del: wpT_bind_eq) (intro wpT_bindI fetch_session_wp [OF inv],
            auto intro!: wp Q [OF inv] simp: same_session_identity_def act)
      qed
    qed (auto simp: insert_session_row_def split: if_splits)
  qed (auto simp: bindR_eq_Inl u64_to_i64_error split: if_splits)
qed

section \<open>Replacement, heartbeats and clocks\<close>

text \<open>After a replacement the new session is active, and the one it replaced is closed and settled.\<close>

definition replaced_by :: "NewSessionRecord \<Rightarrow> SessionReplacement \<Rightarrow> delivery_db \<Rightarrow> bool" where
  "replaced_by s v db \<longleftrightarrow>
     (\<exists>r \<in> set (db_sessions db). ss_session_id r = ns_session_id s \<and> ss_status r = SessionStatus.Active
        \<and> ss_client_id r = ns_client_id s \<and> ss_account_id r = ns_account_id s \<and> ss_terminal_id r = ns_terminal_id s)
     \<and> (\<forall>q \<in> set_option (srp_replaced_session v). q \<in> set (db_sessions db) \<and> ss_status q = SessionStatus.Stale
          \<and> session_settled (ss_session_id q) db)"

lemma settled_same: "db_outbox db' = db_outbox db \<Longrightarrow> db_attempts db' = db_attempts db \<Longrightarrow>
  session_settled sid db' = session_settled sid db"
  by (simp add: session_settled_def)

lemma replace_existing_wp [wp]:
  assumes inv: "delivery_inv J db" and valid: "validate_new_active_session s = Inr ()" and can: "canonical J (ns_capabilities s)"
    and r: "r \<in> set (db_sessions db)"
    and Q: "\<And>v db'. delivery_inv J db' \<Longrightarrow> evolves db db' \<Longrightarrow> replaced_by s v db' \<Longrightarrow> Q v db'"
  shows "wpT (replace_existing_session J s r) Q db"
proof -
  let ?sid = "ss_session_id r"
  have blank: "\<not> trim_is_empty ''SESSION_REPLACED''" by code_simp
  show ?thesis
    unfolding replace_existing_session_def
  proof (intro wpT_bindI settle_rejected_wp [OF inv] cancel_pending_wp unconfirm_wp [OF _ blank] transition_session_wp)
    fix n db1 k db2 v db3 r' db4
    assume 1: "delivery_inv J db1" "evolves db db1" "db_sessions db1 = db_sessions db" "none_joined ?sid refused_pending db1"
      and 2: "delivery_inv J db2" "evolves db1 db2" "db_sessions db2 = db_sessions db1" "none_joined ?sid unwritten db2"
        "\<And>c. none_joined ?sid c db1 \<Longrightarrow> c = refused_pending \<or> c = doubtful \<Longrightarrow> none_joined ?sid c db2"
      and 3: "delivery_inv J db3" "evolves db2 db3" "db_sessions db3 = db_sessions db2" "none_joined ?sid doubtful db3"
        "\<And>c. none_joined ?sid c db2 \<Longrightarrow> c = refused_pending \<or> c = unwritten \<Longrightarrow> none_joined ?sid c db3"
      and 4: "db4 = db3\<lparr>db_sessions := ses.put r' (db_sessions db3)\<rparr>" "session_fixed r r'" "ss_status r' = SessionStatus.Stale"
        "delivery_inv J db4" "evolves db3 db4"
    have "session_settled ?sid db3" using 1 2 3 by (intro settled_I [OF 3(1)]) simp_all
    then have settled: "session_settled ?sid db4" by (simp add: 4(1) settled_sessions)
    have ev: "evolves db db4" using 1(2) 2(2) 3(2) 4(5) evolves_trans by blast
    have "r \<in> set (db_sessions db3)" using r 1(3) 2(3) 3(3) by simp
    then have r': "r' \<in> set (db_sessions db4)" "ss_session_id r' = ?sid"
      using ses.set_put [OF inv_unique(1) [OF 3(1)], of r r'] 4(1,2) by (simp_all add: session_fixed_def)
    have same: "q = r'" if "q \<in> set (db_sessions db4)" "ss_session_id q = ?sid" for q
      using that r' ses.unique_inj [OF inv_unique(1) [OF 4(4)]] by metis
    show "wpT (requiredT (corrupt ''execution_client_session'' ?sid ''session disappeared'') (fetch_session_by_id J ?sid))
      (\<lambda>replaced. wpT (bindT (insert_session_on J s) (\<lambda>inserted. returnT \<lparr>srp_session = into_record inserted,
        srp_replaced_session = Some replaced, srp_unconfirmed_attempts = v\<rparr>)) Q) db4"
    proof (intro wpT_required fetch_session_wp [OF 4(4)])
      assume "find (\<lambda>q. ss_session_id q = ?sid) (db_sessions db4) = None"
      then show "case None of None \<Rightarrow> \<not> is_corrupt (corrupt ''execution_client_session'' ?sid ''session disappeared'')
        | Some replaced \<Rightarrow> wpT (bindT (insert_session_on J s) (\<lambda>inserted. returnT \<lparr>srp_session = into_record inserted,
        srp_replaced_session = Some replaced, srp_unconfirmed_attempts = v\<rparr>)) Q db4"
        using r' by (auto simp: find_None_iff)
    next
      fix q assume "q \<in> set (db_sessions db4)" "ss_session_id q = ?sid"
      then have q: "q = r'" by (rule same)
      have "wpT (bindT (insert_session_on J s) (\<lambda>inserted. returnT \<lparr>srp_session = into_record inserted,
        srp_replaced_session = Some q, srp_unconfirmed_attempts = v\<rparr>)) Q db4"
      proof (intro wpT_bindI insert_session_wp [OF 4(4) valid can] wpT_return Q)
        fix w db5 p assume 5: "delivery_inv J db5" "evolves db4 db5" "p \<in> set (db_sessions db5)"
          "ss_session_id p = ns_session_id s" "ss_status p = SessionStatus.Active" "ss_client_id p = ns_client_id s"
          "ss_account_id p = ns_account_id s" "ss_terminal_id p = ns_terminal_id s"
          "db_outbox db5 = db_outbox db4" "db_attempts db5 = db_attempts db4" "set (db_sessions db4) \<subseteq> set (db_sessions db5)"
        show "delivery_inv J db5" by fact
        show "evolves db db5" using ev 5(2) by (rule evolves_trans)
        show "replaced_by s \<lparr>srp_session = into_record w, srp_replaced_session = Some q, srp_unconfirmed_attempts = v\<rparr> db5"
          using 5 q r' settled 4(3) settled_same [OF 5(9,10)] by (auto simp: replaced_by_def)
      qed
      then show "case Some q of None \<Rightarrow> \<not> is_corrupt (corrupt ''execution_client_session'' ?sid ''session disappeared'')
        | Some replaced \<Rightarrow> wpT (bindT (insert_session_on J s) (\<lambda>inserted. returnT \<lparr>srp_session = into_record inserted,
        srp_replaced_session = Some replaced, srp_unconfirmed_attempts = v\<rparr>)) Q db4" by simp
    qed
  qed (use r in auto)
qed

lemma replace_session_wp [wp]:
  assumes inv: "delivery_inv J db" and can: "canonical J (ns_capabilities s)"
    and Q: "\<And>v db'. delivery_inv J db' \<Longrightarrow> evolves db db' \<Longrightarrow> replaced_by s v db' \<Longrightarrow> Q v db'"
  shows "wpT (replace_active_session_on J s) Q db"
proof -
  let ?rows = "filter (\<lambda>r. ss_client_id r = ns_client_id s \<and> ss_account_id r = ns_account_id s
    \<and> ss_terminal_id r = ns_terminal_id s \<and> ss_status r = SessionStatus.Active) (db_sessions db)"
  have "distinct (db_sessions db)" using inv_unique(1) [OF inv] by (simp add: ses.unique_def distinct_map)
  then have one: "length ?rows \<le> 1"
    by (intro length_le_1) (auto intro!: inv_active [OF inv] simp: active_identity_def)
  have decode: "wpT (mapT (\<lambda>r. liftT (session_from_row J r)) ?rows) R db" if "R ?rows db" for R
    by (rule wpT_eq [OF decode_rows]) (use inv_session [OF inv] that in auto)
  have row: "r \<in> set (db_sessions db) \<and> ss_client_id r = ns_client_id s \<and> ss_account_id r = ns_account_id s
    \<and> ss_terminal_id r = ns_terminal_id s \<and> ss_status r = SessionStatus.Active" if "?rows = r # rest" for r rest
    using that by (metis (mono_tags, lifting) list.set_intros(1) mem_Collect_eq set_filter)
  show ?thesis
    unfolding replace_active_session_on_def
    by (intro wpT_bindI wpT_lift wpT_read decode wpT_if wpT_list wpT_throw wpT_return
        replace_existing_wp [OF inv _ can] insert_session_wp [OF inv _ can] Q inv)
      (use one in \<open>auto simp: replaced_by_def dest!: row dest: validate_new_session_error\<close>)
qed

lemma heartbeat_wp [wp]:
  assumes inv: "delivery_inv J db" and Q: "\<And>v db'. delivery_inv J db' \<Longrightarrow> evolves db db' \<Longrightarrow> Q v db'"
  shows "wpT (update_session_heartbeat_on J u) Q db"
  unfolding update_session_heartbeat_on_def
proof (intro wpT_bindI required_session_wp [OF inv] wpT_lift wpT_if wpT_throw)
  fix r assume r: "r \<in> set (db_sessions db)" "ss_session_id r = shu_session_id u"
  fix w assume "require_active_session_revision r (shu_expected_revision u) = Inr w"
  then have rev: "shu_expected_revision u = ss_revision r" by (simp add: require_active_ok)
  assume times: "\<not> (shu_updated_at u < ss_updated_at r \<or> shu_heartbeat_at u < ss_connected_at r
    \<or> is_some_and (\<lambda>last. shu_heartbeat_at u < last) (ss_last_heartbeat_at r))"
  have ok: "session_ok J r" by (rule inv_session [OF inv r(1)])
  have go: "wpT (if shu_clock_sync_status u = ClockSyncStatus.Synced \<and> sync = None
      then throwT (InvalidRecord ''execution_client_session'' (shu_session_id u) ''SYNCED heartbeat requires time-sync evidence'')
      else bindT (liftT (checked_increment ''execution_client_sessions.revision'' (ss_revision r))) (\<lambda>next_revision.
        bindT (update_active_session J (shu_session_id u) (shu_expected_revision u) next_revision (\<lambda>_. True)
       (\<lambda>r. r\<lparr>ss_last_heartbeat_at := Some (shu_heartbeat_at u), ss_last_time_sync_at := sync,
          ss_clock_sync_status := Some (shu_clock_sync_status u), ss_updated_at := shu_updated_at u\<rparr>)) (\<lambda>_.
     required_session J (shu_session_id u)))) Q db"
    if "\<And>t. sync = Some t \<Longrightarrow> ss_connected_at r \<le> t" for sync
  proof (intro wpT_if wpT_throw wpT_bindI wpT_lift)
    fix n assume "checked_increment ''execution_client_sessions.revision'' (ss_revision r) = Inr n"
    then have n: "n = ss_revision r + 1" by (rule checked_increment_ok)
    assume "\<not> (shu_clock_sync_status u = ClockSyncStatus.Synced \<and> sync = None)"
    then show "wpT (update_active_session J (shu_session_id u) (shu_expected_revision u) n (\<lambda>_. True)
       (\<lambda>r. r\<lparr>ss_last_heartbeat_at := Some (shu_heartbeat_at u), ss_last_time_sync_at := sync,
          ss_clock_sync_status := Some (shu_clock_sync_status u), ss_updated_at := shu_updated_at u\<rparr>))
       (\<lambda>_. wpT (required_session J (shu_session_id u)) Q) db"
      unfolding n rev
      by (intro update_session_wp [OF inv r _ refl] required_session_wp Q)
        (use that times ok in \<open>auto simp: session_fixed_def session_ok_def\<close>)
  qed (auto dest: checked_increment_error)
  show "wpT (case shu_last_time_sync_at u of
      None \<Rightarrow> returnT (ss_last_time_sync_at r)
    | Some synced_at \<Rightarrow> if synced_at < ss_connected_at r \<or> is_some_and (\<lambda>last. synced_at < last) (ss_last_time_sync_at r)
        then throwT (stale_session (shu_session_id u)) else returnT (Some synced_at))
    (\<lambda>a. wpT (if shu_clock_sync_status u = ClockSyncStatus.Synced \<and> a = None
      then throwT (InvalidRecord ''execution_client_session'' (shu_session_id u) ''SYNCED heartbeat requires time-sync evidence'')
      else bindT (liftT (checked_increment ''execution_client_sessions.revision'' (ss_revision r))) (\<lambda>next_revision.
        bindT (update_active_session J (shu_session_id u) (shu_expected_revision u) next_revision (\<lambda>_. True)
       (\<lambda>r. r\<lparr>ss_last_heartbeat_at := Some (shu_heartbeat_at u), ss_last_time_sync_at := a,
          ss_clock_sync_status := Some (shu_clock_sync_status u), ss_updated_at := shu_updated_at u\<rparr>)) (\<lambda>_.
     required_session J (shu_session_id u)))) Q) db"
    by (intro wpT_option wpT_if wpT_throw wpT_return go) (use ok in \<open>auto simp: session_ok_def\<close>)
qed (auto dest: require_active_error)

lemma invalidate_clock_wp [wp]:
  assumes inv: "delivery_inv J db" and Q: "\<And>v db'. delivery_inv J db' \<Longrightarrow> evolves db db' \<Longrightarrow> Q v db'"
  shows "wpT (invalidate_session_clock_on J u) Q db"
  unfolding invalidate_session_clock_on_def
proof (intro wpT_bindI required_session_wp [OF inv] wpT_lift wpT_if wpT_throw)
  fix r assume r: "r \<in> set (db_sessions db)" "ss_session_id r = sci_session_id u"
  fix w n assume "require_active_session_revision r (sci_expected_revision u) = Inr w"
    "checked_increment ''execution_client_sessions.revision'' (ss_revision r) = Inr n"
  then have n: "sci_expected_revision u = ss_revision r" "n = ss_revision r + 1"
    by (auto simp: require_active_ok dest: checked_increment_ok)
  show "wpT (update_active_session J (sci_session_id u) (sci_expected_revision u) n (\<lambda>_. True)
      (\<lambda>r. r\<lparr>ss_clock_sync_status := Some ClockSyncStatus.Unsynced, ss_updated_at := sci_updated_at u\<rparr>))
    (\<lambda>_. wpT (required_session J (sci_session_id u)) Q) db"
    unfolding n by (intro update_session_wp [OF inv r _ refl] required_session_wp Q)
      (use inv_session [OF inv r(1)] in \<open>auto simp: session_fixed_def session_ok_def\<close>)
qed (auto dest: require_active_error checked_increment_error)

section \<open>The fence after a restart\<close>

definition active_rows :: "delivery_db \<Rightarrow> StoredSessionRecord set" where
  "active_rows db = {r \<in> set (db_sessions db). ss_status r = SessionStatus.Active}"

text \<open>No session is active, and no delivery waits for the end of a write that began before the restart.\<close>

definition write_open :: "StoredWireOutbox \<Rightarrow> StoredDeliveryAttempt \<Rightarrow> bool" where
  "write_open m a \<longleftrightarrow> da_message_id a = Some (wo_message_id m) \<and> wo_status m = WireOutboxStatus.WriteStarted
     \<and> da_status a \<in> {CommandDeliveryAttemptStatus.Pending, CommandDeliveryAttemptStatus.Sent}"

definition fenced :: "delivery_db \<Rightarrow> bool" where
  "fenced db \<longleftrightarrow> active_rows db = {} \<and> (\<forall>m \<in> set (db_outbox db). \<forall>a \<in> set (db_attempts db). \<not> write_open m a)"

definition fencing_sessions :: "store_json \<Rightarrow> delivery_db \<Rightarrow> StoredSessionRecord list \<Rightarrow> delivery_db \<Rightarrow> bool" where
  "fencing_sessions J db0 xs db \<longleftrightarrow> delivery_inv J db \<and> evolves db0 db \<and> distinct xs \<and> set xs = active_rows db"

definition fencing_outbox :: "store_json \<Rightarrow> delivery_db \<Rightarrow> MessageId list \<Rightarrow> delivery_db \<Rightarrow> bool" where
  "fencing_outbox J db0 xs db \<longleftrightarrow> delivery_inv J db \<and> evolves db0 db \<and> active_rows db = {}
     \<and> (\<forall>m \<in> set (db_outbox db). wo_message_id m \<in> set xs \<longrightarrow> wo_status m = WireOutboxStatus.WriteStarted)
     \<and> (\<forall>m \<in> set (db_outbox db). \<forall>a \<in> set (db_attempts db). write_open m a \<longrightarrow> wo_message_id m \<in> set xs)"

lemma add_counter_error: "add_counter field a b = Inl e \<Longrightarrow> \<not> is_corrupt e"
  by (auto simp: add_counter_def split: option.splits)

lemma fence_session_wp:
  assumes s: "fencing_sessions J db0 (r # xs) db" and error: "\<not> trim_is_empty error"
  shows "wpT (fence_session J t error r acc) (\<lambda>_. fencing_sessions J db0 xs) db"
proof -
  have inv: "delivery_inv J db" and r: "r \<in> set (db_sessions db)" using s by (auto simp: fencing_sessions_def active_rows_def)
  show ?thesis
    unfolding fence_session_def
  proof (intro wpT_prod wpT_if wpT_throw wpT_bindI wpT_lift settle_rejected_wp [OF inv] cancel_pending_wp
      unconfirm_wp [OF _ error] transition_session_wp wpT_return)
    fix db1 db2 db3 r' db4
    assume 1: "evolves db db1" "db_sessions db1 = db_sessions db"
      and 2: "evolves db1 db2" "db_sessions db2 = db_sessions db1"
      and 3: "delivery_inv J db3" "evolves db2 db3" "db_sessions db3 = db_sessions db2"
      and 4: "db4 = db3\<lparr>db_sessions := ses.put r' (db_sessions db3)\<rparr>" "session_fixed r r'"
        "ss_status r' = SessionStatus.Stale" "delivery_inv J db4" "evolves db3 db4"
    have S: "db_sessions db3 = db_sessions db" using 1 2 3 by simp
    then have "set (db_sessions db4) = insert r' (set (db_sessions db) - {r})"
      using ses.set_put [OF inv_unique(1) [OF 3(1)], of r r'] r 4(1,2) by (simp add: session_fixed_def)
    then have "active_rows db4 = active_rows db - {r}" using 4(3) by (auto simp: active_rows_def)
    moreover have "set xs = active_rows db - {r}" "distinct xs" using s by (auto simp: fencing_sessions_def)
    moreover have "evolves db db4" using 1(1) 2(1) 3(2) 4(5) evolves_trans by blast
    then have "evolves db0 db4" using s evolves_trans unfolding fencing_sessions_def by blast
    ultimately show "fencing_sessions J db0 xs db4" using 4(4) by (simp add: fencing_sessions_def)
  qed (use r in \<open>auto dest: add_counter_error\<close>)
qed

lemma fencing_outbox_step:
  assumes s: "fencing_outbox J db0 (i # xs) db" and m: "m \<in> set (db_outbox db)" "wo_message_id m = i"
    and a: "a \<in> set (db_attempts db)" "da_message_id a = Some i"
    and new: "delivery_inv J (put_pair m' a' db)" "evolves db (put_pair m' a' db)" "outbox_fixed m m'" "attempt_fixed a a'"
    and st: "wo_status m' = WireOutboxStatus.WriteStarted" "\<not> write_open m' a'"
  shows "fencing_outbox J db0 xs (put_pair m' a' db)"
proof -
  let ?db = "put_pair m' a' db"
  have inv: "delivery_inv J db" and ev: "evolves db0 db" using s by (simp_all add: fencing_outbox_def)
  have ids: "wo_message_id m' = i" "da_attempt_id a' = da_attempt_id a" "da_message_id a' = Some i"
    using m a new by (simp_all add: outbox_fixed_def attempt_fixed_def)
  note rows = put_pair_rows [OF inv m(1) a(1), of m' a']
  have O: "set (db_outbox ?db) = insert m' (set (db_outbox db) - {m})"
    and A: "set (db_attempts ?db) = insert a' (set (db_attempts db) - {a})" and S: "db_sessions ?db = db_sessions db"
    using rows ids m(2) by simp_all
  show ?thesis
    unfolding fencing_outbox_def
  proof (intro conjI ballI impI)
    show "delivery_inv J ?db" by fact
    show "evolves db0 ?db" using ev new(2) by (rule evolves_trans)
    show "active_rows ?db = {}" using s S by (simp add: fencing_outbox_def active_rows_def)
    show "wo_status q = WireOutboxStatus.WriteStarted" if "q \<in> set (db_outbox ?db)" "wo_message_id q \<in> set xs" for q
      using that s st(1) unfolding fencing_outbox_def O by auto
    show "wo_message_id q \<in> set xs" if q: "q \<in> set (db_outbox ?db)" "b \<in> set (db_attempts ?db)" "write_open q b" for q b
    proof (cases "q = m'")
      case True
      then have "b = a'" using q inv_message [OF new(1) q(2)] A ids by (auto simp: write_open_def)
      then show ?thesis using True q(3) st(2) by simp
    next
      case False
      then have q': "q \<in> set (db_outbox db)" "q \<noteq> m" using q(1) O by auto
      then have "wo_message_id q \<noteq> i" using outbox_by_id [OF inv q'(1) m(1)] m(2) by auto
      moreover from this have "b \<in> set (db_attempts db)" using q(2,3) A ids by (auto simp: write_open_def)
      ultimately show ?thesis using s q' q(3) by (auto simp: fencing_outbox_def)
    qed
  qed
qed

lemma fence_outbox_wp:
  assumes s: "fencing_outbox J db0 (i # xs) db" and error: "\<not> trim_is_empty error"
  shows "wpT (fence_outbox J t error i acc) (\<lambda>_. fencing_outbox J db0 xs) db"
  unfolding fence_outbox_def
proof (intro wpT_bindI wpT_if wpT_throw required_outbox_wp)
  show inv: "delivery_inv J db" using s by (simp add: fencing_outbox_def)
  fix m assume m: "m \<in> set (db_outbox db)" "wo_message_id m = i"
  then obtain a where a: "a \<in> set (db_attempts db)" "da_message_id a = Some (wo_message_id m)"
    using inv_attempted [OF inv] by blast
  have w: "wo_status m = WireOutboxStatus.WriteStarted" using s m by (auto simp: fencing_outbox_def)
  have pair: "pair_states WireOutboxStatus.WriteStarted e (da_status a)" for e
    using bound_pair(2) [OF inv a(1) m(1) a(2)] w by (simp add: pair_ok_def)
  let ?m = "outbox_state m WireOutboxStatus.WriteStarted t (wo_sent_at m) (wo_acked_at m) (Some error)"
  show "wpT (update_outbox_state J m WireOutboxStatus.WriteStarted t (wo_sent_at m) (wo_acked_at m) (Some error))
    (\<lambda>_. wpT (bindT (fetch_delivery_attempt_by_message J i) (\<lambda>found. case found of
       None \<Rightarrow> returnT acc
     | Some attempt \<Rightarrow>
         if da_status attempt \<in> {CommandDeliveryAttemptStatus.Pending, CommandDeliveryAttemptStatus.Sent} then
           bindT (update_attempt_state J attempt CommandDeliveryAttemptStatus.Unconfirmed t None (Some error)) (\<lambda>_.
           liftT (add_counter ''startup_fence.attempts_unconfirmed'' acc 1))
         else returnT acc)) (\<lambda>_. fencing_outbox J db0 xs)) db"
  proof (rule update_outbox_wp [OF inv m(1) a _ pair])
    let ?db = "put_pair ?m a db"
    fix m' assume "m' = ?m" and 1: "delivery_inv J (put_pair m' a db)" "evolves db (put_pair m' a db)"
    then have m': "m' = ?m" "m' \<in> set (db_outbox (put_pair m' a db))" "a \<in> set (db_attempts (put_pair m' a db))"
      using put_pair_rows(1,2) [OF inv m(1) a(1), of m' a] by auto
    have same: "b = a" if "b \<in> set (db_attempts (put_pair m' a db))" "da_message_id b = Some i" for b
      using inv_message [OF 1(1) that(1) m'(3) that(2)] a(2) m(2) by simp
    show "wpT (bindT (fetch_delivery_attempt_by_message J i) (\<lambda>found. case found of
       None \<Rightarrow> returnT acc
     | Some attempt \<Rightarrow>
         if da_status attempt \<in> {CommandDeliveryAttemptStatus.Pending, CommandDeliveryAttemptStatus.Sent} then
           bindT (update_attempt_state J attempt CommandDeliveryAttemptStatus.Unconfirmed t None (Some error)) (\<lambda>_.
           liftT (add_counter ''startup_fence.attempts_unconfirmed'' acc 1))
         else returnT acc)) (\<lambda>_. fencing_outbox J db0 xs) (put_pair m' a db)"
    proof (intro wpT_bindI fetch_attempt_by_message_wp [OF 1(1)] wpT_option wpT_if wpT_return wpT_lift)
      fix b c assume b: "b \<in> set (db_attempts (put_pair m' a db))" "da_message_id b = Some i" "Some b = Some c"
      then have c: "c = a" using same by simp
      show "fencing_outbox J db0 xs (put_pair m' a db)"
        if "da_status c \<notin> {CommandDeliveryAttemptStatus.Pending, CommandDeliveryAttemptStatus.Sent}"
        using that c m' a by (intro fencing_outbox_step [OF s m _ _ 1]) (auto simp: write_open_def m(2))
      show "wpT (update_attempt_state J c CommandDeliveryAttemptStatus.Unconfirmed t None (Some error))
        (\<lambda>_. wpT (liftT (add_counter ''startup_fence.attempts_unconfirmed'' acc 1)) (\<lambda>_. fencing_outbox J db0 xs))
        (put_pair m' a db)"
        if st: "da_status c \<in> {CommandDeliveryAttemptStatus.Pending, CommandDeliveryAttemptStatus.Sent}"
        unfolding c
      proof (intro update_attempt_wp [OF 1(1) m'(2,3)] wpT_lift)
        fix a' assume a': "a' = attempt_state a CommandDeliveryAttemptStatus.Unconfirmed t None (Some error)"
          "delivery_inv J (put_pair m' a' (put_pair m' a db))" "evolves (put_pair m' a db) (put_pair m' a' (put_pair m' a db))"
        have twice: "put_pair m' a' (put_pair m' a db) = put_pair m' a' db"
          using a' by (auto simp: put_pair_def outb.put_def att.put_def)
        show "fencing_outbox J db0 xs (put_pair m' a' (put_pair m' a db))"
          unfolding twice
          by (rule fencing_outbox_step [OF s m a(1) _ a'(2) [unfolded twice]])
            (use a a' m m' 1(2) evolves_trans twice in \<open>auto simp: write_open_def\<close>)
      qed (use st c m' a error in \<open>auto dest: add_counter_error\<close>)
    next
      assume none: "find (\<lambda>r. da_message_id r = Some i) (db_attempts (put_pair m' a db)) = None"
      then show "fencing_outbox J db0 xs (put_pair m' a db)" using m'(3) a(2) m(2) by (auto simp: find_None_iff)
    qed auto
  qed (simp add: w)
qed auto

lemma fence_wp [wp]:
  assumes inv: "delivery_inv J db"
    and Q: "\<And>v db'. delivery_inv J db' \<Longrightarrow> evolves db db' \<Longrightarrow> fenced db' \<Longrightarrow> Q v db'"
  shows "wpT (fence_interrupted_writes_on J t error) Q db"
proof (cases "trim_is_empty error")
  case True
  then have "fence_interrupted_writes_on J t error db
      = Inl (InvalidRecord ''gateway_delivery'' ''startup fence error'' (''startup fence error'' @ '' must not be empty''))"
    unfolding fence_interrupted_writes_on_def by (simp add: require_non_empty_def)
  then show ?thesis by (simp add: wpT_def)
next
  case False
  define rows where "rows = filter (\<lambda>r. ss_status r = SessionStatus.Active)
    (sort_key (\<lambda>r. (ss_connected_at r, ss_session_id r)) (db_sessions db))"
  have decode: "wpT (mapT (\<lambda>r. liftT (session_from_row J r)) rows) R db" if "R rows db" for R
    by (rule wpT_eq [OF decode_rows]) (use inv_session [OF inv] that in \<open>auto simp: rows_def\<close>)
  have "distinct (db_sessions db)" using inv_unique(1) [OF inv] by (simp add: ses.unique_def distinct_map)
  then have start: "fencing_sessions J db rows db" using inv by (auto simp: fencing_sessions_def rows_def active_rows_def)
  have outbox: "fencing_outbox J db (map wo_message_id (filter (\<lambda>r. wo_status r = WireOutboxStatus.WriteStarted)
      (sort_key (\<lambda>r. (wo_created_at r, wo_message_id r)) (db_outbox db1)))) db1" if "fencing_sessions J db [] db1" for db1
    using that outbox_by_id unfolding fencing_sessions_def fencing_outbox_def by (auto simp: write_open_def)
  have fin: "Q v db2" if "fencing_outbox J db [] db2" for v db2
    by (rule Q) (use that in \<open>auto simp: fencing_outbox_def fenced_def\<close>)
  show ?thesis
    unfolding fence_interrupted_writes_on_def
    apply (intro wpT_bindI wpT_lift wpT_read)
    unfolding rows_def [symmetric]
     apply (rule decode)
     apply (rule wpT_bindI, rule wpT_mono [OF wpT_fold [where Inv = "fencing_sessions J db", OF fence_session_wp start]])
      apply (simp_all add: False)
    apply (intro wpT_prod wpT_bindI wpT_read)
    apply (rule wpT_mono [OF wpT_fold [where Inv = "fencing_outbox J db", OF fence_outbox_wp outbox]])
       apply (auto simp: False intro: fin wpT_return dest: require_non_empty_error)
    done
qed

end
