(* ===== verification/Delivery_Flow.thy ===== *)
theory Delivery_Flow
  imports Delivery_Sessions
begin

text \<open>
  The life of a delivery keeps the invariant of the delivery tables: the reservation of a sequence, the
  enqueueing of the outbox row with its attempt, the claim, the end of the transport write, the answers of
  the client and the timeout. The command and reconciliation tables, which these operations read only,
  hold canonical payloads (\<open>parents_ok\<close>).
\<close>

section \<open>Sequences\<close>

text \<open>The session takes its next sequence; the one it had before and those it may have used are smaller.\<close>

definition sequence_taken :: "delivery_db \<Rightarrow> delivery_db \<Rightarrow> SessionId \<Rightarrow> u64 \<Rightarrow> bool" where
  "sequence_taken db db' sid n \<longleftrightarrow> (\<exists>r \<in> set (db_sessions db). \<exists>r' \<in> set (db_sessions db').
     ss_status r = SessionStatus.Active \<and> ss_session_id r = sid \<and> ss_session_id r' = sid
     \<and> n = ss_last_outbound_sequence r + 1 \<and> ss_last_outbound_sequence r' = n)"

lemma sequence_takenI: "r \<in> set (db_sessions db) \<Longrightarrow> r' \<in> set (db_sessions db') \<Longrightarrow> ss_status r = SessionStatus.Active \<Longrightarrow>
  r' = r\<lparr>ss_last_outbound_sequence := ss_last_outbound_sequence r + 1, ss_updated_at := t, ss_revision := ss_revision r + 1\<rparr> \<Longrightarrow>
  sequence_taken db db' (ss_session_id r) (ss_last_outbound_sequence r + 1)"
  unfolding sequence_taken_def by (rule bexI, rule bexI [of _ r']) simp_all

lemma advance_sequence_wp [wp]:
  assumes inv: "delivery_inv J db" and r: "r \<in> set (db_sessions db)"
    and Q: "\<And>r' db'. ss_status r = SessionStatus.Active \<Longrightarrow> delivery_inv J db' \<Longrightarrow> evolves db db' \<Longrightarrow>
      r' = r\<lparr>ss_last_outbound_sequence := ss_last_outbound_sequence r + 1, ss_updated_at := t, ss_revision := ss_revision r + 1\<rparr> \<Longrightarrow>
      db' = db\<lparr>db_sessions := ses.put r' (db_sessions db)\<rparr> \<Longrightarrow> r' \<in> set (db_sessions db') \<Longrightarrow>
      sequence_taken db db' (ss_session_id r) (ss_last_outbound_sequence r + 1) \<Longrightarrow> Q (ss_last_outbound_sequence r + 1, ss_revision r + 1) db'"
  shows "wpT (advance_sequence J r t) Q db"
  unfolding advance_sequence_def
proof (intro wpT_bindI wpT_lift)
  fix n k assume "checked_increment ''execution_client_sessions.last_outbound_sequence'' (ss_last_outbound_sequence r) = Inr n"
    "checked_increment ''execution_client_sessions.revision'' (ss_revision r) = Inr k"
  then have nk: "n = ss_last_outbound_sequence r + 1" "k = ss_revision r + 1" by (auto dest: checked_increment_ok)
  let ?r = "r\<lparr>ss_last_outbound_sequence := ss_last_outbound_sequence r + 1, ss_updated_at := t, ss_revision := ss_revision r + 1\<rparr>"
  have mem: "?r \<in> set (ses.put ?r (db_sessions db))"
    using ses.set_put [OF inv_unique(1) [OF inv] r, of ?r] by simp
  show "wpT (update_active_session J (ss_session_id r) (ss_revision r) k
      (\<lambda>q. ss_last_outbound_sequence q = ss_last_outbound_sequence r)
      (\<lambda>q. q\<lparr>ss_last_outbound_sequence := n, ss_updated_at := t\<rparr>)) (\<lambda>_. wpT (returnT (n, k)) Q) db"
    unfolding nk using inv_session [OF inv r]
    by (intro update_session_wp [OF inv r refl _ refl] wpT_return Q [where r' = ?r] sequence_takenI [OF r])
      (use mem in \<open>auto simp: session_fixed_def session_ok_def\<close>)
qed (auto dest: checked_increment_error u64_to_i64_error)

lemma reserve_control_wp [wp]:
  assumes inv: "delivery_inv J db" and Q: "\<And>v db'. delivery_inv J db' \<Longrightarrow> evolves db db' \<Longrightarrow>
      (\<And>c. v = ControlSequenceReservation.Reserved c \<Longrightarrow> sequence_taken db db' (cor_session_id c) (cor_sequence c)) \<Longrightarrow> Q v db'"
  shows "wpT (reserve_control_outbound_sequence_on J q) Q db"
  unfolding reserve_control_outbound_sequence_on_def
  by (intro wpT_bindI fetch_session_wp [OF inv] wpT_option wpT_return wpT_if wpT_throw advance_sequence_wp [OF inv]
      wpT_prod Q) (auto simp: inv)

text \<open>A reservation is of the active session and its next sequence.\<close>

definition reserved_for :: "ReserveOutboundSequence \<Rightarrow> OutboundReservation \<Rightarrow> StoredSessionRecord \<Rightarrow> StoredSessionRecord \<Rightarrow> bool" where
  "reserved_for request res r r' \<longleftrightarrow> ss_status r = SessionStatus.Active \<and> ss_session_id r = ros_session_id request
     \<and> ros_fresh_after request \<le> last_seen r
     \<and> r' = r\<lparr>ss_last_outbound_sequence := ss_last_outbound_sequence r + 1, ss_updated_at := ros_reserved_at request,
         ss_revision := ss_revision r + 1\<rparr>
     \<and> res = \<lparr>or_session_id = ss_session_id r, or_client_id = ss_client_id r, or_account_id = ss_account_id r,
         or_terminal_id = ss_terminal_id r, or_session_revision = ss_revision r + 1,
         or_sequence = ss_last_outbound_sequence r + 1, or_subject = ros_subject request\<rparr>"

lemma required_read_wp:
  assumes "\<And>x. f db = Some x \<Longrightarrow> Q x db" and "\<not> is_corrupt e"
  shows "wpT (requiredT e (readT f)) Q db"
  by (intro wpT_required wpT_read) (auto simp: assms split: option.split)

lemma validate_route_wp [wp]:
  assumes "\<And>v. v \<noteq> None \<Longrightarrow> (\<forall>res. v \<noteq> Some (SequenceReservation.Reserved res)) \<Longrightarrow> Q v db"
    and "(\<And>c. ros_subject request = DeliverySubject.ExecutionCommand c \<Longrightarrow> ss_clock_sync_status r = Some ClockSyncStatus.Synced
      \<and> (\<exists>row. find (\<lambda>q. cmd_command_id q = c) (db_commands db) = Some row \<and> ros_reserved_at request < cmd_expires_at row)) \<Longrightarrow> Q None db"
  shows "wpT (validate_subject_route r request) Q db"
proof -
  have no: "route_mismatch r a c t \<noteq> Some (SequenceReservation.Reserved res)" for a c t res
    by (simp add: route_mismatch_def)
  show ?thesis
  proof (cases "ros_subject request")
    case (ExecutionCommand c)
    then show ?thesis
      unfolding validate_subject_route_def
      by simp (intro conjI impI wpT_return wpT_bindI required_read_wp wpT_option,
        auto intro!: assms simp: no)
  next
    case (ReconciliationRequest i)
    then show ?thesis
      unfolding validate_subject_route_def
      by simp (intro wpT_bindI required_read_wp wpT_return, case_tac "route_mismatch r (run_account_id x) (run_client_id x) (run_terminal_id x)",
          auto intro!: assms simp: no)
  qed
qed

lemma reserve_outbound_wp [wp]:
  assumes inv: "delivery_inv J db"
    and same: "\<And>v. (\<forall>res. v \<noteq> SequenceReservation.Reserved res) \<Longrightarrow> Q v db"
    and Q: "\<And>res r r' db'. delivery_inv J db' \<Longrightarrow> evolves db db' \<Longrightarrow> r \<in> set (db_sessions db) \<Longrightarrow> r' \<in> set (db_sessions db') \<Longrightarrow>
      reserved_for request res r r' \<Longrightarrow> sequence_taken db db' (or_session_id res) (or_sequence res) \<Longrightarrow>
      db_outbox db' = db_outbox db \<Longrightarrow> db_attempts db' = db_attempts db \<Longrightarrow>
      Q (SequenceReservation.Reserved res) db'"
  shows "wpT (reserve_outbound_sequence_on J request) Q db"
  unfolding reserve_outbound_sequence_on_def
proof (intro wpT_bindI required_session_wp [OF inv] wpT_if wpT_throw wpT_return same validate_route_wp wpT_option wpT_read
    advance_sequence_wp [OF inv] wpT_prod)
  fix r r' db' and n k :: nat
  assume r: "r \<in> set (db_sessions db)" "ss_session_id r = ros_session_id request"
    "\<not> last_seen r < ros_fresh_after request" "ss_status r = SessionStatus.Active" "delivery_inv J db'" "evolves db db'"
    "r' = r\<lparr>ss_last_outbound_sequence := ss_last_outbound_sequence r + 1, ss_updated_at := ros_reserved_at request,
      ss_revision := ss_revision r + 1\<rparr>"
    "db' = db\<lparr>db_sessions := ses.put r' (db_sessions db)\<rparr>" "r' \<in> set (db_sessions db')"
    "sequence_taken db db' (ss_session_id r) (ss_last_outbound_sequence r + 1)"
    "(ss_last_outbound_sequence r + 1, ss_revision r + 1) = (n, k)" "None = (None :: SequenceReservation option)"
  show "Q (SequenceReservation.Reserved \<lparr>or_session_id = ss_session_id r, or_client_id = ss_client_id r,
    or_account_id = ss_account_id r, or_terminal_id = ss_terminal_id r, or_session_revision = k, or_sequence = n,
    or_subject = ros_subject request\<rparr>) db'"
    by (rule Q [OF r(5,6,1,9)]) (use r in \<open>auto simp: reserved_for_def\<close>)
qed auto

section \<open>Enqueueing\<close>

definition parents_ok :: "store_json \<Rightarrow> delivery_db \<Rightarrow> bool" where
  "parents_ok J db \<longleftrightarrow> (\<forall>c \<in> set (db_commands db). canonical J (cmd_payload c))
     \<and> (\<forall>q \<in> set (db_runs db). canonical J (run_request_payload q))"

lemma parents_evolve: "evolves db db' \<Longrightarrow> parents_ok J db' = parents_ok J db"
  by (simp add: parents_ok_def evolves_def)

text \<open>A delivery as the gateway prepares it: its envelope is canonical JSON of a wire message.\<close>

definition prepared_ok :: "store_json \<Rightarrow> NewReservedDelivery \<Rightarrow> bool" where
  "prepared_ok J d \<longleftrightarrow> canonical J (nrd_envelope d) \<and> (\<exists>wire p. decode_envelope J (nrd_envelope d) = Inr wire
     \<and> json_from_value J (wm_payload wire) = Inr p)"

lemma parent_payload_wp:
  assumes "\<And>c. select db = Some c \<Longrightarrow> canonical J c" "\<And>c. select db = Some c \<Longrightarrow> Q c db"
  shows "wpT (parent_payload J entity key select) Q db"
  unfolding parent_payload_def fetchT_def
  by (intro wpT_required wpT_bindI wpT_read wpT_option wpT_return wpT_lift) (use assms in auto)

lemma validate_parent_wp:
  assumes par: "parents_ok J db" and dec: "decode_envelope J (wo_payload m) = Inr wire" "json_from_value J (wm_payload wire) = Inr p"
    and Q: "parent_ok J db m \<Longrightarrow> Q () db"
  shows "wpT (validate_outbox_parent_payload J m) Q db"
proof -
  have "\<not> is_corrupt e" if "validate_outbox_parent_payload J m db = Inl e" for e
  proof -
    have "wpT (validate_outbox_parent_payload J m) (\<lambda>_ _. True) db"
      unfolding validate_outbox_parent_payload_def Let_def dec
      apply (intro wpT_bindI wpT_lift)
         apply (auto simp: dec split: option.split intro!: wpT_bindI parent_payload_wp wpT_return wpT_if wpT_throw)
      using par apply (auto simp: parents_ok_def dest: find_in_set)
      done
    then show ?thesis using that by (rule wpT_error)
  qed
  then show ?thesis
  proof (rule wpT_I [rotated])
    fix u s' assume v: "validate_outbox_parent_payload J m db = Inr (u, s')"
    moreover from v have "s' = db" by (rule validate_parent_state)
    ultimately show "Q u s'" using Q by (simp add: parent_ok_def)
  qed
qed

text \<open>A new outbox row and its attempt.\<close>

definition add_pair :: "StoredWireOutbox \<Rightarrow> StoredDeliveryAttempt \<Rightarrow> delivery_db \<Rightarrow> delivery_db" where
  "add_pair m a db = db\<lparr>db_outbox := db_outbox db @ [m], db_attempts := db_attempts db @ [a]\<rparr>"


lemma inv_add_pair:
  assumes inv: "delivery_inv J db" and bound: "attempt_bound_to a m" and pair: "pair_ok m a"
    and om: "outbox_ok J m" and par: "parent_ok J db m" and seq: "sequenced db m" and oa: "attempt_ok J a"
    and fm: "\<not> list_ex (outbox_conflict m) (db_outbox db)" and fa: "\<not> list_ex (attempt_conflict a) (db_attempts db)"
  shows "delivery_inv J (add_pair m a db)" and "evolves db (add_pair m a db)"
proof -
  let ?db = "add_pair m a db"
  have O: "db_outbox ?db = db_outbox db @ [m]" and A: "db_attempts ?db = db_attempts db @ [a]"
    and rest: "db_sessions ?db = db_sessions db" "db_commands ?db = db_commands db" "db_runs ?db = db_runs db"
    by (simp_all add: add_pair_def)
  have im: "wo_message_id m \<notin> wo_message_id ` set (db_outbox db)" and ia: "da_attempt_id a \<notin> da_attempt_id ` set (db_attempts db)"
    using fm fa by (auto simp: list_ex_iff outbox_conflict_def attempt_conflict_def)
  have ms: "\<not> (wo_session_id q = wo_session_id m \<and> wo_sequence q = wo_sequence m)" if "q \<in> set (db_outbox db)" for q
    using fm that seq by (auto simp: list_ex_iff outbox_conflict_def sequenced_def)
  have am: "da_message_id b \<noteq> da_message_id a" if "b \<in> set (db_attempts db)" for b
    using fa that bound by (auto simp: list_ex_iff attempt_conflict_def attempt_bound_to_def)
  have p: "parent_ok J ?db q = parent_ok J db q" for q by (rule parent_ok_fixed) (simp_all add: rest)
  have s: "sequenced ?db q = sequenced db q" for q by (simp add: sequenced_def rest)
  have "sequences_inv (db_outbox ?db)"
    unfolding sequences_inv_def O
  proof (intro conjI ballI impI)
    show "outb.unique (db_outbox db @ [m])" by (rule outb.unique_append [OF inv_unique(2) [OF inv] im])
    show "q = q'" if "q \<in> set (db_outbox db @ [m])" "q' \<in> set (db_outbox db @ [m])"
      "wo_session_id q = wo_session_id q' \<and> wo_sequence q = wo_sequence q'" for q q'
      using that ms inv_sequence [OF inv] by (metis Un_iff empty_iff empty_set insert_iff list.set(2) set_append)
  qed
  moreover have "messages_inv (db_attempts ?db)"
    unfolding messages_inv_def A
  proof (intro conjI ballI impI)
    show "att.unique (db_attempts db @ [a])" by (rule att.unique_append [OF inv_unique(3) [OF inv] ia])
    show "b = b'" if "b \<in> set (db_attempts db @ [a])" "b' \<in> set (db_attempts db @ [a])"
      "da_message_id b \<noteq> None \<and> da_message_id b = da_message_id b'" for b b'
      using that am inv_message [OF inv] by (metis Un_iff empty_iff empty_set insert_iff list.set(2) not_Some_eq set_append)
  qed
  moreover have "attempts_inv J (db_outbox ?db) (db_attempts ?db)"
    using inv oa bound pair by (auto simp: attempts_inv_def delivery_inv_def O A)
  moreover have "outbox_inv J ?db"
    using inv om par seq bound by (auto simp: outbox_inv_def delivery_inv_def O A p s attempt_bound_to_def)
  moreover have "sessions_inv J (db_sessions ?db)" using inv by (simp add: delivery_inv_def rest)
  ultimately show "delivery_inv J ?db" by (simp add: delivery_inv_def)
  show "evolves db ?db"
    by (simp add: evolves_def O A rest ses.table_grows_refl outb.table_grows_append att.table_grows_append)
qed

lemma inv_add_attempt:
  assumes inv: "delivery_inv J db" and oa: "attempt_ok J a" "da_message_id a = None"
    and fa: "\<not> list_ex (attempt_conflict a) (db_attempts db)"
  shows "delivery_inv J (db\<lparr>db_attempts := db_attempts db @ [a]\<rparr>)" and "evolves db (db\<lparr>db_attempts := db_attempts db @ [a]\<rparr>)"
proof -
  let ?db = "db\<lparr>db_attempts := db_attempts db @ [a]\<rparr>"
  have ia: "da_attempt_id a \<notin> da_attempt_id ` set (db_attempts db)" using fa by (auto simp: list_ex_iff attempt_conflict_def)
  have p: "parent_ok J ?db q = parent_ok J db q" for q by (rule parent_ok_fixed) simp_all
  have s: "sequenced ?db q = sequenced db q" for q by (simp add: sequenced_def)
  have "messages_inv (db_attempts db @ [a])"
    unfolding messages_inv_def
  proof (intro conjI ballI impI)
    show "att.unique (db_attempts db @ [a])" by (rule att.unique_append [OF inv_unique(3) [OF inv] ia])
    show "b = b'" if "b \<in> set (db_attempts db @ [a])" "b' \<in> set (db_attempts db @ [a])"
      "da_message_id b \<noteq> None \<and> da_message_id b = da_message_id b'" for b b'
      using that oa(2) inv_message [OF inv] by (metis Un_iff empty_iff empty_set insert_iff list.set(2) not_Some_eq set_append)
  qed
  then show "delivery_inv J ?db" using inv oa
    by (auto simp: delivery_inv_def attempts_inv_def outbox_inv_def p s)
  show "evolves db ?db" by (simp add: evolves_def ses.table_grows_refl outb.table_grows_refl att.table_grows_append)
qed

lemma validate_new_attempt_error: "validate_new_attempt a = Inl e \<Longrightarrow> \<not> is_corrupt e"
  by (auto simp: validate_new_attempt_def Let_def bindR_eq_Inl require_non_empty_error split: if_splits)

lemma stored_attempt_sel [simp]:
  "da_attempt_id (stored_attempt a) = nda_attempt_id a" "da_subject (stored_attempt a) = nda_subject a"
  "da_session_id (stored_attempt a) = nda_session_id a" "da_message_id (stored_attempt a) = nda_message_id a"
  "da_request_payload (stored_attempt a) = nda_request_payload a" "da_status (stored_attempt a) = nda_status a"
  "da_attempted_at (stored_attempt a) = nda_attempted_at a" "da_acked_at (stored_attempt a) = nda_acked_at a"
  "da_error (stored_attempt a) = nda_error a" "da_revision (stored_attempt a) = 0" "da_updated_at (stored_attempt a) = nda_updated_at a"
  by (simp_all add: stored_attempt_def)

text \<open>The row that an insertion leaves.\<close>

definition timed_attempt :: "StoredDeliveryAttempt \<Rightarrow> StoredDeliveryAttempt" where
  "timed_attempt a = (if da_updated_at a = 0 then a\<lparr>da_updated_at := attempt_time a\<rparr> else a)"

lemma timed_attempt_sel [simp]:
  "da_attempt_id (timed_attempt a) = da_attempt_id a" "da_subject (timed_attempt a) = da_subject a"
  "da_session_id (timed_attempt a) = da_session_id a" "da_message_id (timed_attempt a) = da_message_id a"
  "da_status (timed_attempt a) = da_status a" "attempt_conflict (timed_attempt a) = attempt_conflict a"
  by (auto simp: timed_attempt_def attempt_conflict_def fun_eq_iff)

lemma insert_attempt_ok:
  assumes "insert_attempt_row J a db = Inr (b, db')"
  shows "b = (\<not> list_ex (attempt_conflict a) (db_attempts db))"
    and "db' = (if b then db\<lparr>db_attempts := db_attempts db @ [timed_attempt a]\<rparr> else db)"
    and "attempt_row_check J a" and "da_message_id a \<noteq> None \<Longrightarrow> list_ex (attempt_bound_to a) (db_outbox db)"
  using assms by (auto simp: insert_attempt_row_def timed_attempt_def split: if_splits)

lemma insert_attempt_error: "insert_attempt_row J a db = Inl e \<Longrightarrow> \<not> is_corrupt e"
  by (auto simp: insert_attempt_row_def split: if_splits)

lemma new_attempt_ok:
  assumes v: "validate_new_attempt n = Inr ()" and can: "\<And>p. nda_request_payload n = Some p \<Longrightarrow> canonical J p"
  shows "attempt_ok J (timed_attempt (stored_attempt n))"
proof -
  have "nda_attempted_at n \<le> attempt_time (stored_attempt n)"
    using sql_max_base [of "nda_attempted_at n"] by (simp add: attempt_time_def)
  then show ?thesis using v can
    by (cases "nda_error n")
      (auto simp: attempt_ok_def timed_attempt_def validate_new_attempt_def Let_def bindR_eq_Inr split: if_splits)
qed


lemma record_attempt_cases:
  assumes reads: "\<And>b. b \<in> set (db_attempts db) \<Longrightarrow> read_attempt J b db = Inr (b, db)"
    and dup: "\<And>e. e \<in> set (db_attempts db) \<Longrightarrow> same_attempt e n \<Longrightarrow> Q (WriteOutcome.Duplicate e) db"
    and ins: "\<And>a db'. validate_new_attempt n = Inr () \<Longrightarrow> \<not> list_ex (attempt_conflict (stored_attempt n)) (db_attempts db) \<Longrightarrow>
      (nda_message_id n \<noteq> None \<Longrightarrow> list_ex (attempt_bound_to (stored_attempt n)) (db_outbox db)) \<Longrightarrow>
      a = timed_attempt (stored_attempt n) \<Longrightarrow> db' = db\<lparr>db_attempts := db_attempts db @ [a]\<rparr> \<Longrightarrow>
      delivery_inv J db' \<and> Q (WriteOutcome.Inserted a) db'"
  shows "wpT (record_delivery_attempt_on J n) Q db"
  unfolding record_delivery_attempt_on_def
proof (intro wpT_bindI wpT_lift)
  fix u assume "validate_new_attempt n = Inr u"
  then have valid: "validate_new_attempt n = Inr ()" by simp
  let ?k = "\<lambda>inserted. if inserted then
       bindT (requiredT (corrupt ''command_delivery_attempt'' (nda_attempt_id n)
         ''attempt disappeared after insert'') (fetch_delivery_attempt_by_id J (nda_attempt_id n)))
         (\<lambda>a. returnT (WriteOutcome.Inserted a))
     else bindT (fetch_attempt_conflicts J n) (\<lambda>existing. case existing of
       [e] \<Rightarrow> if same_attempt e n then returnT (WriteOutcome.Duplicate e)
         else throwT (conflict ''command_delivery_attempt'' (''attempt_id='' @ nda_attempt_id n))
     | _ \<Rightarrow> throwT (conflict ''command_delivery_attempt'' (''attempt_id='' @ nda_attempt_id n)))"
  show "wpT (insert_attempt_row J (stored_attempt n)) (\<lambda>a. wpT (?k a) Q) db"
  proof (rule wpT_I)
    fix b db' assume i: "insert_attempt_row J (stored_attempt n) db = Inr (b, db')"
    note row = insert_attempt_ok [OF i]
    show "wpT (?k b) Q db'"
    proof (cases b)
      case True
      let ?a = "timed_attempt (stored_attempt n)"
      have new: "delivery_inv J db'" "Q (WriteOutcome.Inserted ?a) db'" and mem: "?a \<in> set (db_attempts db')"
        using True row ins [OF valid] by auto
      have "wpT (requiredT (corrupt ''command_delivery_attempt'' (nda_attempt_id n) ''attempt disappeared after insert'')
        (fetch_delivery_attempt_by_id J (nda_attempt_id n))) (\<lambda>a. wpT (returnT (WriteOutcome.Inserted a)) Q) db'"
      proof (rule required_attempt_by_id_wp [OF new(1)])
        fix a assume "a \<in> set (db_attempts db')" "da_attempt_id a = nda_attempt_id n"
        then have "a = ?a" using mem by (intro att.unique_inj [OF inv_unique(3) [OF new(1)]]) simp_all
        then show "wpT (returnT (WriteOutcome.Inserted a)) Q db'" using new(2) by (simp add: wpT_return)
      qed (use mem in \<open>auto intro!: bexI [of _ ?a]\<close>)
      then show ?thesis using True by (simp add: wpT_bind_eq)
    next
      case False
      then have db': "db' = db" using row by auto
      have "mapT (read_attempt J) rows db = Inr (rows, db)" if "set rows \<subseteq> set (db_attempts db)" for rows
        using that by (induction rows) (auto simp: bindT_apply reads)
      then have read: "wpT (mapT (read_attempt J) rows) R db" if "set rows \<subseteq> set (db_attempts db)" "R rows db" for rows R
        using that by (simp add: wpT_def)
      have "wpT (bindT (fetch_attempt_conflicts J n) (\<lambda>existing. case existing of
           [e] \<Rightarrow> if same_attempt e n then returnT (WriteOutcome.Duplicate e)
             else throwT (conflict ''command_delivery_attempt'' (''attempt_id='' @ nda_attempt_id n))
         | _ \<Rightarrow> throwT (conflict ''command_delivery_attempt'' (''attempt_id='' @ nda_attempt_id n)))) Q db"
        unfolding fetch_attempt_conflicts_def parse_and_validate_attempt_rows_def
        by (intro wpT_bindI wpT_read read wpT_list wpT_if wpT_return wpT_throw dup) (auto dest: filter_eq_ConsD)
      then show ?thesis by (simp only: False db' if_False)
    qed
  qed (rule insert_attempt_error)
qed (auto dest: validate_new_attempt_error)

lemma record_unbound_wp [wp]:
  assumes inv: "delivery_inv J db" and n: "nda_message_id n = None" "\<And>p. nda_request_payload n = Some p \<Longrightarrow> canonical J p"
    and Q: "\<And>v db'. delivery_inv J db' \<Longrightarrow> evolves db db' \<Longrightarrow> Q v db'"
  shows "wpT (record_delivery_attempt_on J n) Q db"
proof (rule record_attempt_cases)
  show "read_attempt J b db = Inr (b, db)" if "b \<in> set (db_attempts db)" for b by (rule read_attempt_eq [OF inv that])
  show "Q (WriteOutcome.Duplicate e) db" for e by (rule Q [OF inv]) simp
  fix a db' assume new: "validate_new_attempt n = Inr ()" "\<not> list_ex (attempt_conflict (stored_attempt n)) (db_attempts db)"
    "a = timed_attempt (stored_attempt n)" "db' = db\<lparr>db_attempts := db_attempts db @ [a]\<rparr>"
  have "attempt_ok J a" unfolding new(3) by (rule new_attempt_ok [OF new(1) n(2)])
  then have "delivery_inv J db'" "evolves db db'"
    using inv_add_attempt [OF inv, of a] new n(1) by simp_all
  then show "delivery_inv J db' \<and> Q (WriteOutcome.Inserted a) db'" by (auto intro: Q)
qed

lemma stored_outbox_sel [simp]:
  "wo_message_id (stored_outbox m) = nwo_message_id m" "wo_session_id (stored_outbox m) = nwo_session_id m"
  "wo_message_type (stored_outbox m) = nwo_message_type m" "wo_sequence (stored_outbox m) = nwo_sequence m"
  "wo_command_id (stored_outbox m) = nwo_command_id m" "wo_request_id (stored_outbox m) = nwo_request_id m"
  "wo_payload (stored_outbox m) = nwo_payload m" "wo_status (stored_outbox m) = nwo_status m" "wo_revision (stored_outbox m) = 0"
  "wo_created_at (stored_outbox m) = nwo_created_at m" "wo_updated_at (stored_outbox m) = nwo_updated_at m"
  "wo_sent_at (stored_outbox m) = nwo_sent_at m" "wo_acked_at (stored_outbox m) = nwo_acked_at m"
  "wo_last_error (stored_outbox m) = nwo_last_error m"
  by (simp_all add: stored_outbox_def)

definition timed_outbox :: "StoredWireOutbox \<Rightarrow> StoredWireOutbox" where
  "timed_outbox m = (if wo_updated_at m = 0 then m\<lparr>wo_updated_at := outbox_time m\<rparr> else m)"

lemma outbox_rows_wp:
  assumes "delivery_inv J db" "set rows \<subseteq> set (db_outbox db)" "Q rows db"
  shows "wpT (mapT (\<lambda>r. liftT (wire_outbox_from_row J r)) rows) Q db"
  by (rule wpT_eq [OF decode_rows]) (use assms inv_outbox [OF assms(1)] in auto)

lemma invalid_not_corrupt:
  "map_err (\<lambda>e. case e of CorruptData _ _ reason \<Rightarrow> InvalidRecord a b reason | other \<Rightarrow> other) r = Inl e \<Longrightarrow> \<not> is_corrupt e"
  by (cases r) (auto simp: is_corrupt_def split: StoreError.splits)

lemma enqueue_outbox_cases:
  assumes inv: "delivery_inv J db"
    and dup: "\<And>e. e \<in> set (db_outbox db) \<Longrightarrow> same_wire_outbox_fact e n \<Longrightarrow> Q (WriteOutcome.Duplicate e) db"
    and ins: "validate_stored_wire_outbox J (stored_outbox n) = Inr () \<Longrightarrow> nwo_sequence n \<noteq> Some 0 \<Longrightarrow>
      \<not> list_ex (outbox_conflict (stored_outbox n)) (db_outbox db) \<Longrightarrow>
      Q (WriteOutcome.Inserted (stored_outbox n)) (db\<lparr>db_outbox := db_outbox db @ [timed_outbox (stored_outbox n)]\<rparr>)"
  shows "wpT (enqueue_wire_outbox_on J n) Q db"
  unfolding enqueue_wire_outbox_on_def
proof (intro wpT_bindI wpT_lift)
  fix u w assume v: "map_err (\<lambda>e. case e of CorruptData _ _ reason \<Rightarrow> InvalidRecord ''wire_outbox'' (nwo_message_id n) reason
      | other \<Rightarrow> other) (validate_stored_wire_outbox J (stored_outbox n)) = Inr u"
    and s: "(case nwo_sequence n of None \<Rightarrow> Inr () | Some n \<Rightarrow> if n = 0 then Inl (StoreError.InvalidSequence ''wire_outbox.sequence'')
      else bindR (u64_to_i64 ''wire_outbox.sequence'' n) (\<lambda>_. Inr ())) = Inr w"
  have valid: "validate_stored_wire_outbox J (stored_outbox n) = Inr ()" "nwo_sequence n \<noteq> Some 0"
    using v s by (cases "validate_stored_wire_outbox J (stored_outbox n)"; auto split: option.splits if_splits)+
  have conf: "wpT (fetch_wire_outbox_conflicts J n) R db"
    if "\<And>rows. set rows \<subseteq> set (db_outbox db) \<Longrightarrow> R rows db" for R
    unfolding fetch_wire_outbox_conflicts_def
    by (cases "nwo_session_id n"; cases "nwo_sequence n")
      (auto intro!: wpT_bindI wpT_read wpT_if wpT_throw wpT_lift outbox_rows_wp [OF inv] that dest: u64_to_i64_error)
  show "wpT (insert_outbox_row J (stored_outbox n)) (\<lambda>inserted. wpT
     (if inserted then returnT (WriteOutcome.Inserted (stored_outbox n))
     else bindT (fetch_wire_outbox_conflicts J n) (\<lambda>existing. case existing of
       [e] \<Rightarrow> if same_wire_outbox_fact e n then returnT (WriteOutcome.Duplicate e)
         else throwT (conflict ''wire_outbox'' (''message_id='' @ nwo_message_id n))
     | _ \<Rightarrow> throwT (conflict ''wire_outbox'' (''message_id='' @ nwo_message_id n)))) Q) db"
  proof (rule wpT_I)
    fix b db' assume i: "insert_outbox_row J (stored_outbox n) db = Inr (b, db')"
    then have row: "b = (\<not> list_ex (outbox_conflict (stored_outbox n)) (db_outbox db))"
      "db' = (if b then db\<lparr>db_outbox := db_outbox db @ [timed_outbox (stored_outbox n)]\<rparr> else db)"
      by (auto simp: insert_outbox_row_def timed_outbox_def split: if_splits)
    show "wpT (if b then returnT (WriteOutcome.Inserted (stored_outbox n))
     else bindT (fetch_wire_outbox_conflicts J n) (\<lambda>existing. case existing of
       [e] \<Rightarrow> if same_wire_outbox_fact e n then returnT (WriteOutcome.Duplicate e)
         else throwT (conflict ''wire_outbox'' (''message_id='' @ nwo_message_id n))
     | _ \<Rightarrow> throwT (conflict ''wire_outbox'' (''message_id='' @ nwo_message_id n)))) Q db'"
      by (intro wpT_if wpT_return)
        (use row ins valid in \<open>auto intro!: wpT_bindI conf wpT_list wpT_if wpT_return wpT_throw dup\<close>)
  qed (auto simp: insert_outbox_row_def split: if_splits)
qed (auto simp: bindR_eq_Inl split: option.splits if_splits dest: u64_to_i64_error invalid_not_corrupt)


lemma read_attempt_more_outbox:
  assumes inv: "delivery_inv J db" and a: "a \<in> set (db_attempts db)"
  shows "read_attempt J a (db\<lparr>db_outbox := db_outbox db @ M\<rparr>) = Inr (a, db\<lparr>db_outbox := db_outbox db @ M\<rparr>)"
proof -
  let ?db = "db\<lparr>db_outbox := db_outbox db @ M\<rparr>"
  have ok: "attempt_ok J a" using inv a by (rule inv_attempt)
  have "validate_stored_attempt J a ?db = Inr ((), ?db)"
  proof (cases "da_message_id a")
    case None
    then show ?thesis using ok
      by (cases "da_session_id a") (auto simp: validate_stored_attempt_def attempt_ok_def Let_def)
  next
    case (Some i)
    then obtain m where m: "m \<in> set (db_outbox db)" "attempt_bound_to a m" using inv_bound inv a by blast
    then obtain j where j: "da_session_id a = Some j" by (auto simp: attempt_bound_to_def)
    have i: "i = wo_message_id m" using m Some by (simp add: attempt_bound_to_def)
    have "find p (xs @ ys) = Some x" if "find p xs = Some x" for p xs ys and x :: StoredWireOutbox
      using that by (induction xs) (auto split: if_splits)
    then have "find (\<lambda>r. wo_message_id r = i) (db_outbox ?db) = Some m"
      unfolding i using find_outbox [OF inv m(1)] by simp
    then have "requiredT e (fetch_wire_outbox_by_id J i) ?db = Inr (m, ?db)" for e
      using inv_outbox [OF inv m(1)] by (simp add: requiredT_eq_Inr fetch_wire_outbox_by_id_def fetchT_eq_Inr)
    moreover have "validate_outbox_parent_payload J m ?db = Inr ((), ?db)"
      using inv_parent [OF inv m(1)] parent_ok_fixed [of m m ?db db J] by (simp add: parent_ok_def)
    ultimately show ?thesis using m j Some
      by (simp add: validate_stored_attempt_def Let_def bindT_apply attempt_bound_to_def)
  qed
  then show ?thesis using ok by (simp add: read_attempt_def bindT_apply)
qed

text \<open>The outbox row of a reservation.\<close>

definition delivered_as :: "OutboundReservation \<Rightarrow> delivery_db \<Rightarrow> StoredOutboundDelivery \<Rightarrow> bool" where
  "delivered_as res db v \<longleftrightarrow> sod_outbox v \<in> set (db_outbox db) \<and> sod_attempt v \<in> set (db_attempts db)
     \<and> da_message_id (sod_attempt v) = Some (wo_message_id (sod_outbox v))
     \<and> wo_session_id (sod_outbox v) = Some (or_session_id res) \<and> wo_sequence (sod_outbox v) = Some (or_sequence res)"

lemma enqueue_reserved_wp [wp]:
  assumes inv: "delivery_inv J db" and par: "parents_ok J db" and d: "prepared_ok J d"
    and Q: "\<And>v db'. delivery_inv J db' \<Longrightarrow> evolves db db' \<Longrightarrow> db_sessions db' = db_sessions db \<Longrightarrow>
      delivered_as (nrd_reservation d) db' v \<Longrightarrow> Q v db'"
  shows "wpT (enqueue_reserved_delivery_on J d) Q db"
proof -
  let ?res = "nrd_reservation d"
  let ?m = "stored_outbox (reserved_outbox d)" and ?a = "timed_attempt (stored_attempt (reserved_attempt d))"
  obtain wire p where dec: "canonical J (nrd_envelope d)" "decode_envelope J (wo_payload ?m) = Inr wire"
    "json_from_value J (wm_payload wire) = Inr p" using d by (auto simp: prepared_ok_def reserved_outbox_def)
  have timed: "timed_outbox ?m = ?m" by (simp add: timed_outbox_def outbox_time_def sql_max_def reserved_outbox_def)
  have bound: "attempt_bound_to ?a ?m" by (simp add: attempt_bound_to_def reserved_outbox_def reserved_attempt_def)
  have pair: "pair_ok ?m ?a" by (simp add: pair_ok_def reserved_outbox_def reserved_attempt_def)
  let ?k = "\<lambda>o1 o2. if was_inserted o1 \<noteq> was_inserted o2 then throwT (conflict ''outbound_delivery'' (wo_message_id (into_record o1)))
    else returnT \<lparr>sod_outbox = into_record o1, sod_attempt = into_record o2\<rparr>"
  have insert: "wpT (record_delivery_attempt_on J (reserved_attempt d)) (\<lambda>o2. wpT (?k (WriteOutcome.Inserted ?m) o2) Q)
      (db\<lparr>db_outbox := db_outbox db @ [timed_outbox ?m]\<rparr>)"
    if parent: "parent_ok J db ?m" and s: "s \<in> set (db_sessions db)" "ss_session_id s = or_session_id ?res"
        "ss_last_outbound_sequence s = or_sequence ?res"
      and ok: "validate_stored_wire_outbox J ?m = Inr ()" "nwo_sequence (reserved_outbox d) \<noteq> Some 0"
        "\<not> list_ex (outbox_conflict ?m) (db_outbox db)" for s
  proof (rule record_attempt_cases)
    show "read_attempt J b (db\<lparr>db_outbox := db_outbox db @ [timed_outbox ?m]\<rparr>)
        = Inr (b, db\<lparr>db_outbox := db_outbox db @ [timed_outbox ?m]\<rparr>)"
      if "b \<in> set (db_attempts (db\<lparr>db_outbox := db_outbox db @ [timed_outbox ?m]\<rparr>))" for b
      using that by (intro read_attempt_more_outbox [OF inv]) simp
    show "wpT (?k (WriteOutcome.Inserted ?m) (WriteOutcome.Duplicate e)) Q (db\<lparr>db_outbox := db_outbox db @ [timed_outbox ?m]\<rparr>)" for e
      by (simp add: wpT_throw)
    fix a db' assume new: "validate_new_attempt (reserved_attempt d) = Inr ()"
      "\<not> list_ex (attempt_conflict (stored_attempt (reserved_attempt d)))
        (db_attempts (db\<lparr>db_outbox := db_outbox db @ [timed_outbox ?m]\<rparr>))"
      "a = ?a" "db' = db\<lparr>db_outbox := db_outbox db @ [timed_outbox ?m]\<rparr>
        \<lparr>db_attempts := db_attempts (db\<lparr>db_outbox := db_outbox db @ [timed_outbox ?m]\<rparr>) @ [a]\<rparr>"
    have "attempt_ok J ?a" by (rule new_attempt_ok [OF new(1)]) (simp add: reserved_attempt_def)
    moreover have "outbox_ok J ?m" using ok dec(1) by (simp add: outbox_ok_def reserved_outbox_def)
    moreover have "sequenced db ?m" using s(1) s(2,3) [symmetric] by (auto simp: sequenced_def reserved_outbox_def)
    moreover have db': "db' = add_pair ?m ?a db" using new(3,4) by (simp add: add_pair_def timed)
    ultimately have "delivery_inv J db'" "evolves db db'" "db_sessions db' = db_sessions db"
      using inv_add_pair [OF inv bound pair _ parent _ _ ok(3)] new(2) by (simp_all add: add_pair_def)
    moreover have "delivered_as ?res db' \<lparr>sod_outbox = ?m, sod_attempt = ?a\<rparr>"
      by (simp add: delivered_as_def db' add_pair_def reserved_outbox_def reserved_attempt_def)
    ultimately show "delivery_inv J db' \<and> wpT (?k (WriteOutcome.Inserted ?m) (WriteOutcome.Inserted a)) Q db'"
      using new(3) by (simp add: wpT_return Q)
  qed
  have duplicate: "wpT (record_delivery_attempt_on J (reserved_attempt d)) (\<lambda>o2. wpT (?k (WriteOutcome.Duplicate e) o2) Q) db"
    if e: "e \<in> set (db_outbox db)" "same_wire_outbox_fact e (reserved_outbox d)" for e
  proof (rule record_attempt_cases)
    show "read_attempt J b db = Inr (b, db)" if "b \<in> set (db_attempts db)" for b by (rule read_attempt_eq [OF inv that])
    show "wpT (?k (WriteOutcome.Duplicate e) (WriteOutcome.Duplicate b)) Q db"
      if "b \<in> set (db_attempts db)" "same_attempt b (reserved_attempt d)" for b
    proof -
      have "delivered_as ?res db \<lparr>sod_outbox = e, sod_attempt = b\<rparr>"
        using e that by (simp add: delivered_as_def same_wire_outbox_fact_def same_attempt_def reserved_outbox_def reserved_attempt_def)
      then show ?thesis by (simp add: wpT_return Q inv)
    qed
    assume "\<not> list_ex (attempt_conflict (stored_attempt (reserved_attempt d))) (db_attempts db)"
    moreover obtain b where "b \<in> set (db_attempts db)" "da_message_id b = Some (nrd_message_id d)"
      using inv_attempted [OF inv e(1)] e(2) by (auto simp: same_wire_outbox_fact_def reserved_outbox_def)
    ultimately show "delivery_inv J db' \<and> wpT (?k (WriteOutcome.Duplicate e) (WriteOutcome.Inserted a)) Q db'" for a db'
      by (auto simp: list_ex_iff attempt_conflict_def reserved_attempt_def)
  qed
  show ?thesis
    unfolding enqueue_reserved_delivery_on_def Let_def
    by (intro wpT_bindI wpT_lift required_session_wp [OF inv] wpT_if wpT_throw validate_parent_wp [OF par dec(2,3)]
        enqueue_outbox_cases [OF inv] insert duplicate) (auto dest: require_non_empty_error)
qed


lemma sequence_unused:
  assumes "delivery_inv J db" "sequence_taken db db' sid n" "m \<in> set (db_outbox db)" "wo_session_id m = Some sid"
    "wo_sequence m = Some k"
  shows "k < n"
proof -
  obtain r where r: "r \<in> set (db_sessions db)" "ss_session_id r = sid" "n = ss_last_outbound_sequence r + 1"
    using assms(2) by (auto simp: sequence_taken_def)
  obtain q where q: "q \<in> set (db_sessions db)" "ss_session_id q = sid" "k \<le> ss_last_outbound_sequence q"
    using inv_sequenced [OF assms(1,3)] assms(4,5) by (auto simp: sequenced_def)
  have "q = r" using ses.unique_inj [OF inv_unique(1) [OF assms(1)] q(1) r(1)] q(2) r(2) by simp
  then show ?thesis using q(3) r(3) by simp
qed

lemma reserve_and_enqueue_wp [wp]:
  assumes inv: "delivery_inv J db" and par: "parents_ok J db"
    and d: "\<And>res. prepared_ok J (prepare res) \<and> nrd_reservation (prepare res) = res"
    and Q: "\<And>v db'. delivery_inv J db' \<Longrightarrow> evolves db db' \<Longrightarrow>
      (\<And>res. v = SequenceReservation.Reserved res \<Longrightarrow> sequence_taken db db' (or_session_id res) (or_sequence res)
        \<and> (\<exists>w. delivered_as res db' w)) \<Longrightarrow> Q v db'"
  shows "wpT (reserve_and_enqueue J request prepare) Q db"
  unfolding reserve_and_enqueue_def
proof (intro wpT_bindI reserve_outbound_wp [OF inv])
  show "wpT (case v of SequenceReservation.Reserved r \<Rightarrow> bindT (enqueue_reserved_delivery_on J (prepare r)) (\<lambda>_. returnT v)
    | _ \<Rightarrow> returnT v) Q db" if "\<forall>res. v \<noteq> SequenceReservation.Reserved res" for v
    using that by (cases v) (auto intro!: wpT_return Q inv)
next
  fix res :: OutboundReservation and r r' db1 assume 1: "delivery_inv J db1" "evolves db db1" "sequence_taken db db1 (or_session_id res) (or_sequence res)"
  have "wpT (bindT (enqueue_reserved_delivery_on J (prepare res)) (\<lambda>_. returnT (SequenceReservation.Reserved res))) Q db1"
  proof (intro wpT_bindI enqueue_reserved_wp [OF 1(1)] wpT_return Q)
    show "parents_ok J db1" using par by (simp add: parents_evolve [OF 1(2)])
    show "prepared_ok J (prepare res)" using d by blast
    fix v db2 assume 2: "delivery_inv J db2" "evolves db1 db2" "db_sessions db2 = db_sessions db1"
      "delivered_as (nrd_reservation (prepare res)) db2 v"
    show "delivery_inv J db2" by fact
    show "evolves db db2" using 1(2) 2(2) by (rule evolves_trans)
    fix res' assume "SequenceReservation.Reserved res = SequenceReservation.Reserved res'"
    then show "sequence_taken db db2 (or_session_id res') (or_sequence res') \<and> (\<exists>w. delivered_as res' db2 w)"
      using 1(3) 2(3,4) d by (auto simp: sequence_taken_def)
  qed
  then show "wpT (case SequenceReservation.Reserved res of
      SequenceReservation.Reserved r \<Rightarrow> bindT (enqueue_reserved_delivery_on J (prepare r)) (\<lambda>_. returnT (SequenceReservation.Reserved res))
    | _ \<Rightarrow> returnT (SequenceReservation.Reserved res)) Q db1" by simp
qed

end
