(* ===== verification/Delivery_Writes.thy ===== *)
theory Delivery_Writes
  imports Delivery_Flow
begin

text \<open>
  A delivery after it is in the outbox: the claim that begins the transport write, the end of the write, the
  transport acknowledgement, the receipt of the command and the timeout keep the invariant of the delivery
  tables; then every operation does (\<open>run_op_wp\<close>), and so does every run of operations.
\<close>

section \<open>Claims\<close>

lemma monotonic_time_error: "require_monotonic_transition_time m a t = Inl e \<Longrightarrow> \<not> is_corrupt e"
  by (auto simp: require_monotonic_transition_time_def split: if_splits)

text \<open>A delivery as it is read back after its two rows were changed.\<close>

lemma reread_pair_wp:
  assumes inv: "delivery_inv J db" and m: "m \<in> set (db_outbox db)" "wo_message_id m = i"
    and a: "a \<in> set (db_attempts db)" "da_message_id a = Some i"
    and new: "delivery_inv J (put_pair m' a' db)" "outbox_fixed m m'" "attempt_fixed a a'"
    and Q: "Q \<lparr>sod_outbox = m', sod_attempt = a'\<rparr> (put_pair m' a' db)"
  shows "wpT (required_outbound_delivery J i) Q (put_pair m' a' db)"
proof (rule required_outbound_wp [OF new(1)])
  note rows = put_pair_rows [OF inv m(1) a(1), of m' a']
  have mem: "m' \<in> set (db_outbox (put_pair m' a' db))" "a' \<in> set (db_attempts (put_pair m' a' db))"
    using rows new(2,3) by (simp_all add: outbox_fixed_def attempt_fixed_def)
  fix q b assume q: "q \<in> set (db_outbox (put_pair m' a' db))" "wo_message_id q = i"
    "b \<in> set (db_attempts (put_pair m' a' db))" "da_message_id b = Some i"
  have "q = m'" by (rule outbox_by_id [OF new(1) q(1) mem(1)]) (use q m new(2) in \<open>simp add: outbox_fixed_def\<close>)
  moreover have "b = a'" by (rule inv_message [OF new(1) q(3) mem(2) q(4)]) (use a new(3) in \<open>simp add: attempt_fixed_def\<close>)
  ultimately show "Q \<lparr>sod_outbox = q, sod_attempt = b\<rparr> (put_pair m' a' db)" using Q by simp
qed

lemma cancel_claimed_wp:
  assumes inv: "delivery_inv J db" and m: "m \<in> set (db_outbox db)" "wo_status m = WireOutboxStatus.Pending"
    and a: "a \<in> set (db_attempts db)" "da_message_id a = Some (wo_message_id m)" "da_status a = CommandDeliveryAttemptStatus.Pending"
    and s: "s = CommandDeliveryAttemptStatus.NoActiveSession \<or> s = CommandDeliveryAttemptStatus.Cancelled"
    and Q: "\<And>v db'. delivery_inv J db' \<Longrightarrow> evolves db db' \<Longrightarrow> sod_outbox v \<in> set (db_outbox db') \<Longrightarrow>
      wo_status (sod_outbox v) = WireOutboxStatus.Cancelled \<Longrightarrow> da_status (sod_attempt v) = s \<Longrightarrow> Q v db'"
  shows "wpT (cancel_claimed_delivery J m a t s reason) Q db"
  unfolding cancel_claimed_delivery_def
proof (rule update_pair_bind_wp [OF inv m(1) a(1,2)])
  fix m' a' assume new: "m' = outbox_state m WireOutboxStatus.Cancelled t None None (Some reason)"
    "a' = attempt_state a s t None (Some reason)" "delivery_inv J (put_pair m' a' db)" "evolves db (put_pair m' a' db)"
  have "m' \<in> set (db_outbox (put_pair m' a' db))" using put_pair_rows(1) [OF inv m(1) a(1), of m' a'] by (simp add: new(1,2))
  then have "Q \<lparr>sod_outbox = m', sod_attempt = a'\<rparr> (put_pair m' a' db)" by (intro Q [OF new(3,4)]) (simp_all add: new(1,2))
  then show "wpT (required_outbound_delivery J (wo_message_id m)) Q (put_pair m' a' db)"
    by (intro reread_pair_wp [OF inv m(1) refl a(1,2) new(3)]) (simp_all add: new(1,2))
qed (use m a s in \<open>auto\<close>)

text \<open>
  A claim begins the write of a pending delivery only for an active session that was seen lately; for a command also only
  with a synchronised clock and before the command expires. Otherwise it cancels the delivery.
\<close>

definition write_begun :: "ClaimWireOutbox \<Rightarrow> delivery_db \<Rightarrow> StoredOutboundDelivery \<Rightarrow> delivery_db \<Rightarrow> bool" where
  "write_begun claim db v db' \<longleftrightarrow> (\<exists>m \<in> set (db_outbox db). \<exists>a \<in> set (db_attempts db). \<exists>r \<in> set (db_sessions db).
     wo_message_id m = cwo_message_id claim \<and> da_message_id a = Some (cwo_message_id claim)
     \<and> wo_status m = WireOutboxStatus.Pending \<and> da_status a = CommandDeliveryAttemptStatus.Pending
     \<and> wo_session_id m = Some (ss_session_id r) \<and> ss_status r = SessionStatus.Active \<and> cwo_fresh_after claim \<le> last_seen r
     \<and> (\<forall>c \<in> set_option (subject_command_id (da_subject a)). ss_clock_sync_status r = Some ClockSyncStatus.Synced
          \<and> (\<exists>row \<in> set (db_commands db). cmd_command_id row = c \<and> cwo_claimed_at claim < cmd_expires_at row))
     \<and> sod_outbox v \<in> set (db_outbox db') \<and> wo_status (sod_outbox v) = WireOutboxStatus.WriteStarted
     \<and> wo_message_id (sod_outbox v) = cwo_message_id claim \<and> wo_sequence (sod_outbox v) = wo_sequence m)"

definition claim_answer :: "ClaimWireOutbox \<Rightarrow> delivery_db \<Rightarrow> OutboxClaimOutcome \<Rightarrow> delivery_db \<Rightarrow> bool" where
  "claim_answer claim db v db' \<longleftrightarrow> (case v of
     OutboxClaimOutcome.Claimed d \<Rightarrow> write_begun claim db d db'
   | OutboxClaimOutcome.Expired d \<Rightarrow> sod_outbox d \<in> set (db_outbox db')
       \<and> wo_status (sod_outbox d) = WireOutboxStatus.Cancelled \<and> da_status (sod_attempt d) = CommandDeliveryAttemptStatus.Cancelled
   | OutboxClaimOutcome.SessionUnavailable d \<Rightarrow> sod_outbox d \<in> set (db_outbox db')
       \<and> wo_status (sod_outbox d) = WireOutboxStatus.Cancelled \<and> da_status (sod_attempt d) = CommandDeliveryAttemptStatus.NoActiveSession
   | OutboxClaimOutcome.ClockUnhealthy d \<Rightarrow> sod_outbox d \<in> set (db_outbox db')
       \<and> wo_status (sod_outbox d) = WireOutboxStatus.Cancelled \<and> da_status (sod_attempt d) = CommandDeliveryAttemptStatus.NoActiveSession)"

lemma begin_write_wp:
  assumes inv: "delivery_inv J db" and m: "m \<in> set (db_outbox db)" "wo_message_id m = cwo_message_id claim"
      "wo_session_id m = Some i" "wo_status m = WireOutboxStatus.Pending"
    and a: "a \<in> set (db_attempts db)" "da_message_id a = Some (cwo_message_id claim)" "da_status a = CommandDeliveryAttemptStatus.Pending"
    and r: "r \<in> set (db_sessions db)" "ss_session_id r = i" "ss_status r = SessionStatus.Active" "cwo_fresh_after claim \<le> last_seen r"
    and cmd: "\<And>c. subject_command_id (da_subject a) = Some c \<Longrightarrow> ss_clock_sync_status r = Some ClockSyncStatus.Synced
      \<and> (\<exists>row \<in> set (db_commands db). cmd_command_id row = c \<and> cwo_claimed_at claim < cmd_expires_at row)"
    and Q: "\<And>v db'. delivery_inv J db' \<Longrightarrow> evolves db db' \<Longrightarrow> claim_answer claim db v db' \<Longrightarrow> Q v db'"
  shows "wpT (bindT (update_outbox_state J m WireOutboxStatus.WriteStarted (cwo_claimed_at claim) None None None) (\<lambda>_.
     bindT (update_attempt_state J a CommandDeliveryAttemptStatus.Pending (cwo_claimed_at claim) None None) (\<lambda>_.
     bindT (required_outbound_delivery J (cwo_message_id claim)) (\<lambda>delivery.
     returnT (OutboxClaimOutcome.Claimed delivery))))) Q db"
proof (rule update_pair_bind_wp [OF inv m(1) a(1)])
  fix m' a' assume new: "m' = outbox_state m WireOutboxStatus.WriteStarted (cwo_claimed_at claim) None None None"
    "a' = attempt_state a CommandDeliveryAttemptStatus.Pending (cwo_claimed_at claim) None None"
    "delivery_inv J (put_pair m' a' db)" "evolves db (put_pair m' a' db)"
  have mem: "m' \<in> set (db_outbox (put_pair m' a' db))" and m': "wo_status m' = WireOutboxStatus.WriteStarted"
    "wo_message_id m' = wo_message_id m" "wo_sequence m' = wo_sequence m" using put_pair_rows(1) [OF inv m(1) a(1), of m' a'] new(1,2) by (simp_all add: outbox_state_def)
  have "write_begun claim db \<lparr>sod_outbox = m', sod_attempt = a'\<rparr> (put_pair m' a' db)"
    unfolding write_begun_def
    by (rule bexI [OF _ m(1)], rule bexI [OF _ a(1)], rule bexI [OF _ r(1)])
      (use m a r cmd mem m' in auto)
  then show "wpT (bindT (required_outbound_delivery J (cwo_message_id claim)) (\<lambda>delivery.
     returnT (OutboxClaimOutcome.Claimed delivery))) Q (put_pair m' a' db)"
    by (intro wpT_bindI reread_pair_wp [OF inv m(1,2) a(1,2) new(3)] wpT_return Q)
      (use new in \<open>simp_all add: claim_answer_def\<close>)
qed (use m a in \<open>auto\<close>)

lemma claim_wp [wp]:
  assumes inv: "delivery_inv J db"
    and Q: "\<And>v db'. delivery_inv J db' \<Longrightarrow> evolves db db' \<Longrightarrow> claim_answer claim db v db' \<Longrightarrow> Q v db'"
  shows "wpT (claim_outbox_on J claim) Q db"
proof -
  have seq: "wo_session_id m \<noteq> None" if "m \<in> set (db_outbox db)" for m
    using inv_sequenced [OF inv that] by (auto simp: sequenced_def)
  note starts = wpT_bind_eq [THEN iffD1, OF begin_write_wp [OF inv _ _ _ _ _ _ _ _ _ _ _ _ Q]]
  show ?thesis
    unfolding claim_outbox_on_def
    apply (intro wpT_bindI required_outbox_wp [OF inv] required_attempt_wp [OF inv] wpT_option wpT_throw
        required_session_wp [OF inv] wpT_if wpT_lift wpT_return required_read_wp)
    subgoal by (simp add: seq)
    subgoal by simp
    subgoal by (rule cancel_claimed_wp [OF inv]) (auto intro!: wpT_return Q simp: claim_answer_def)
    subgoal by simp
    subgoal by (rule cancel_claimed_wp [OF inv]) (auto intro!: wpT_return Q simp: claim_answer_def)
    subgoal by simp
    subgoal by (rule starts) (auto simp: not_less)
    subgoal by (rule cancel_claimed_wp [OF inv]) (auto intro!: wpT_return Q simp: claim_answer_def)
    subgoal by (rule starts) (auto simp: not_less is_command_subject_def dest!: find_in_set)
    subgoal by simp
    subgoal by (rule monotonic_time_error)
    done
qed

section \<open>The end of a write\<close>

lemma update_attempt_reread_wp:
  assumes inv: "delivery_inv J db" and m: "m \<in> set (db_outbox db)" "wo_message_id m = i"
    and a: "a \<in> set (db_attempts db)" "da_message_id a = Some i"
    and st: "attempt_leads (da_status a) s" "pair_states (wo_status m) (wo_last_error m) s"
      "s = CommandDeliveryAttemptStatus.Unconfirmed \<Longrightarrow> is_some_and (\<lambda>x. \<not> trim_is_empty x) e"
    and Q: "\<And>v db'. delivery_inv J db' \<Longrightarrow> evolves db db' \<Longrightarrow> Q v db'"
  shows "wpT (update_attempt_state J a s t aa e) (\<lambda>_. wpT (required_outbound_delivery J i) Q) db"
  by (intro update_attempt_wp [OF inv m(1) a(1)] required_outbound_wp Q) (use a m st in auto)

lemma finish_answered_wp:
  assumes inv: "delivery_inv J db" and m: "m \<in> set (db_outbox db)" "wo_message_id m = ctw_message_id c"
    and a: "a \<in> set (db_attempts db)" "da_message_id a = Some (ctw_message_id c)"
    and answered: "wo_status m = WireOutboxStatus.Acked \<or> da_status a = CommandDeliveryAttemptStatus.Acked"
    and Q: "\<And>v db'. delivery_inv J db' \<Longrightarrow> evolves db db' \<Longrightarrow> Q v db'"
  shows "wpT (finish_answered_write J c m a) Q db"
proof -
  have ma: "da_message_id a = Some (wo_message_id m)" using m a by simp
  have p: "pair_ok m a" by (rule bound_pair(2) [OF inv a(1) m(1) ma])
  have own: "wpT (update_outbox_state J m WireOutboxStatus.Sent t (Some u) None None) R db"
    if "wo_status m = WireOutboxStatus.WriteStarted" "\<And>db'. delivery_inv J db' \<Longrightarrow> evolves db db' \<Longrightarrow> R () db'" for t u R
    by (rule update_outbox_wp [OF inv m(1) a(1) ma])
      (use that p answered in \<open>auto simp: pair_ok_def\<close>)
  show ?thesis
  proof (cases "wo_status m = WireOutboxStatus.WriteStarted")
    case True
    then have acked: "da_status a = CommandDeliveryAttemptStatus.Acked" using answered by simp
    show ?thesis
      unfolding finish_answered_write_def Let_def
      by (intro wpT_bindI wpT_if wpT_throw own) (use True acked in \<open>auto intro!: wpT_return required_outbound_wp Q\<close>)
  next
    case False
    then have "finish_answered_write J c m a = (if wo_status m \<notin> {WireOutboxStatus.WriteStarted, WireOutboxStatus.Sent,
        WireOutboxStatus.Acked, WireOutboxStatus.Failed} then throwT (stale_outbound (ctw_message_id c))
      else bindT (if da_status a = CommandDeliveryAttemptStatus.Pending \<or> wo_status m = WireOutboxStatus.Acked \<and> da_status a \<in>
             {CommandDeliveryAttemptStatus.Failed, CommandDeliveryAttemptStatus.Backpressure}
       then if da_status a = CommandDeliveryAttemptStatus.Pending \<and> da_revision a \<noteq> ctw_expected_attempt_revision c
         then throwT (stale_outbound (ctw_message_id c))
         else update_attempt_state J a CommandDeliveryAttemptStatus.Sent (max (ctw_completed_at c) (da_updated_at a)) None None
       else returnT ()) (\<lambda>_. required_outbound_delivery J (ctw_message_id c)))" (is "_ = ?f")
      by (simp add: finish_answered_write_def)
    moreover have "wpT ?f Q db"
      by (intro wpT_bindI wpT_if wpT_throw wpT_return update_attempt_reread_wp [OF inv m a] required_outbound_wp Q)
        (use False answered in \<open>auto simp: inv\<close>)
    ultimately show ?thesis by (simp only:)
  qed
qed

lemma write_error_ok: "validate_write_error c result = Inr u \<Longrightarrow> result \<noteq> TransportWriteResult.Sent \<Longrightarrow>
  is_some_and (\<lambda>x. \<not> trim_is_empty x) (ctw_error c)"
  by (cases "ctw_error c") (auto simp: validate_write_error_def require_non_empty_def trim_is_empty_def split: if_splits)

lemma write_error_error: "validate_write_error c result = Inl e \<Longrightarrow> \<not> is_corrupt e"
  by (auto simp: validate_write_error_def split: if_splits dest: require_non_empty_error)

lemma finish_write_wp [wp]:
  assumes inv: "delivery_inv J db" and Q: "\<And>v db'. delivery_inv J db' \<Longrightarrow> evolves db db' \<Longrightarrow> Q v db'"
  shows "wpT (finish_transport_write_on J c result) Q db"
  unfolding finish_transport_write_on_def Let_def
proof (intro wpT_bindI required_outbox_wp [OF inv] required_attempt_wp [OF inv] wpT_lift)
  fix m a u assume m: "m \<in> set (db_outbox db)" "wo_message_id m = ctw_message_id c"
    and a: "a \<in> set (db_attempts db)" "da_message_id a = Some (ctw_message_id c)" and v: "validate_write_error c result = Inr u"
  have ma: "da_message_id a = Some (wo_message_id m)" using m a by simp
  have p: "pair_ok m a" by (rule bound_pair(2) [OF inv a(1) m(1) ma])
  have err: "is_some_and (\<lambda>x. \<not> trim_is_empty x) (ctw_error c)" if "result = TransportWriteResult.Unconfirmed"
    using write_error_ok [OF v] that by simp
  have finish: "wpT (case transport_write_outcome result (ctw_completed_at c) of (w, s, sent_at) \<Rightarrow>
     bindT (update_outbox_state J m w (ctw_completed_at c) sent_at None (ctw_error c)) (\<lambda>_.
     bindT (update_attempt_state J a s (ctw_completed_at c) None (ctw_error c)) (\<lambda>_.
     required_outbound_delivery J (ctw_message_id c)))) Q db"
    if st: "wo_status m = WireOutboxStatus.WriteStarted" "da_status a = CommandDeliveryAttemptStatus.Pending"
  proof (rule wpT_prod, rule wpT_prod)
    fix w p s sent_at assume "transport_write_outcome result (ctw_completed_at c) = (w, p)" "p = (s, sent_at)"
    then have "outbox_leads (wo_status m) w" "attempt_leads (da_status a) s" "pair_states w (ctw_error c) s"
      "s = CommandDeliveryAttemptStatus.Unconfirmed \<Longrightarrow> is_some_and (\<lambda>x. \<not> trim_is_empty x) (ctw_error c)"
      using st err by (cases result; simp add: transport_write_outcome_def)+
    then show "wpT (bindT (update_outbox_state J m w (ctw_completed_at c) sent_at None (ctw_error c)) (\<lambda>_.
     bindT (update_attempt_state J a s (ctw_completed_at c) None (ctw_error c)) (\<lambda>_.
     required_outbound_delivery J (ctw_message_id c)))) Q db"
      by (intro update_pair_bind_wp [OF inv m(1) a(1) ma] required_outbound_wp Q)
  qed
  show "wpT (if (wo_status m = WireOutboxStatus.Failed \<and> has_rejected_prefix (wo_last_error m))
        \<and> da_status a = CommandDeliveryAttemptStatus.Pending then
       if da_revision a \<noteq> ctw_expected_attempt_revision c then throwT (stale_outbound (ctw_message_id c))
       else bindT (update_attempt_state J a CommandDeliveryAttemptStatus.Sent
           (max (ctw_completed_at c) (da_updated_at a)) None None) (\<lambda>_. required_outbound_delivery J (ctw_message_id c))
     else if da_status a = CommandDeliveryAttemptStatus.Unconfirmed
       \<or> wo_status m = WireOutboxStatus.Failed \<and> da_status a = CommandDeliveryAttemptStatus.Failed
       \<or> (wo_status m = WireOutboxStatus.Failed \<and> has_rejected_prefix (wo_last_error m)) \<and> da_status a \<in>
           {CommandDeliveryAttemptStatus.Sent, CommandDeliveryAttemptStatus.Acked}
       then returnT \<lparr>sod_outbox = m, sod_attempt = a\<rparr>
     else if wo_status m = WireOutboxStatus.Acked \<or> da_status a = CommandDeliveryAttemptStatus.Acked
       then finish_answered_write J c m a
     else if wo_status m \<noteq> WireOutboxStatus.WriteStarted \<or> da_status a \<noteq> CommandDeliveryAttemptStatus.Pending
       \<or> wo_revision m \<noteq> ctw_expected_outbox_revision c \<or> da_revision a \<noteq> ctw_expected_attempt_revision c
       then throwT (stale_outbound (ctw_message_id c))
     else bindT (liftT (require_monotonic_transition_time m a (ctw_completed_at c))) (\<lambda>_.
       case transport_write_outcome result (ctw_completed_at c) of (w, s, sent_at) \<Rightarrow>
       bindT (update_outbox_state J m w (ctw_completed_at c) sent_at None (ctw_error c)) (\<lambda>_.
       bindT (update_attempt_state J a s (ctw_completed_at c) None (ctw_error c)) (\<lambda>_.
       required_outbound_delivery J (ctw_message_id c))))) Q db"
    by (intro wpT_if wpT_throw wpT_return wpT_bindI wpT_lift update_attempt_reread_wp [OF inv m a] finish_answered_wp [OF inv m a]
        finish Q) (use inv p in \<open>auto simp: pair_ok_def dest: monotonic_time_error\<close>)
qed (rule write_error_error)


section \<open>Answers and timeouts\<close>

lemma transport_ack_wp [wp]:
  assumes inv: "delivery_inv J db" and Q: "\<And>v db'. delivery_inv J db' \<Longrightarrow> evolves db db' \<Longrightarrow> Q v db'"
  shows "wpT (record_transport_ack_on J u) Q db"
proof -
  have pair: "\<exists>a \<in> set (db_attempts db). da_message_id a = Some (wo_message_id m) \<and> pair_ok m a" if "m \<in> set (db_outbox db)" for m
    using inv_attempted [OF inv that] bound_pair(2) [OF inv _ that] by blast
  have upd: "wpT (update_outbox_state J m w t sa aa e) (\<lambda>_. wpT (required_outbox J i) Q) db"
    if m: "m \<in> set (db_outbox db)" and st: "acknowledgeable m"
      "w = WireOutboxStatus.Acked \<or> w = WireOutboxStatus.Failed \<and> rejected_reason e" for m w t sa aa e i
  proof -
    obtain a where a: "a \<in> set (db_attempts db)" "da_message_id a = Some (wo_message_id m)" "pair_ok m a" using pair [OF m] by blast
    then show ?thesis using st
      by (intro update_outbox_wp [OF inv m a(1,2)] required_outbox_wp Q)
        (auto simp: acknowledgeable_def pair_ok_def)
  qed
  have reason: "rejected_reason (Some (TRANSPORT_ACK_REJECTED_PREFIX @ reason))" if "require_non_empty k reason = Inr v" for k reason v
    using that by (intro rejected_reason_made) (auto simp: require_non_empty_def split: if_splits)
  have accept: "wpT (accept_transport_ack J u m) Q db" if "m \<in> set (db_outbox db)" for m
    unfolding accept_transport_ack_def Let_def
    by (intro wpT_if wpT_return wpT_throw wpT_bindI upd Q) (auto simp: inv that)
  have reject: "wpT (reject_transport_ack J u m) Q db" if "m \<in> set (db_outbox db)" for m
    unfolding reject_transport_ack_def Let_def
    by (intro wpT_option wpT_if wpT_return wpT_throw wpT_bindI wpT_lift upd Q) (auto simp: inv that reason dest: require_non_empty_error)
  show ?thesis
    unfolding record_transport_ack_on_def
    by (intro wpT_bindI required_outbox_wp [OF inv] wpT_if wpT_throw)
      (auto split: TransportAckStatus.split intro: accept reject)
qed

lemma bound_attempt:
  assumes "delivery_inv J db" "a \<in> set (db_attempts db)" "da_message_id a = Some i"
  obtains m where "m \<in> set (db_outbox db)" "da_message_id a = Some (wo_message_id m)" "pair_ok m a"
  using inv_bound [OF assms] by (auto simp: attempt_bound_to_def)

lemma received_wp [wp]:
  assumes inv: "delivery_inv J db" and Q: "\<And>v db'. delivery_inv J db' \<Longrightarrow> evolves db db' \<Longrightarrow> Q v db'"
  shows "wpT (record_command_received_attempt_on J u) Q db"
  unfolding record_command_received_attempt_on_def
proof (intro wpT_bindI required_attempt_wp [OF inv] wpT_if wpT_throw wpT_return)
  fix a assume a: "a \<in> set (db_attempts db)" "da_message_id a = Some (cra_source_message_id u)"
    and st: "\<not> da_status a \<notin> {CommandDeliveryAttemptStatus.Pending, CommandDeliveryAttemptStatus.Sent,
      CommandDeliveryAttemptStatus.Unconfirmed, CommandDeliveryAttemptStatus.Failed, CommandDeliveryAttemptStatus.Backpressure}"
  obtain m where m: "m \<in> set (db_outbox db)" "da_message_id a = Some (wo_message_id m)" "pair_ok m a"
    using bound_attempt [OF inv a] .
  show "wpT (update_attempt_state J a CommandDeliveryAttemptStatus.Acked (max (cra_received_at u) (da_updated_at a))
      (Some (cra_received_at u)) None) (\<lambda>_. wpT (required_attempt_by_message J (cra_source_message_id u)) Q) db"
    by (intro update_attempt_wp [OF inv m(1) a(1) m(2)] required_attempt_wp Q)
      (use st m(3) in \<open>auto simp: pair_ok_def intro: pair_states_moves(1)\<close>)
qed (auto intro: Q inv)

lemma timeout_wp [wp]:
  assumes inv: "delivery_inv J db" and Q: "\<And>v db'. delivery_inv J db' \<Longrightarrow> evolves db db' \<Longrightarrow> Q v db'"
  shows "wpT (timeout_delivery_attempt_on J u) Q db"
  unfolding timeout_delivery_attempt_on_def
proof (intro wpT_bindI wpT_lift required_attempt_by_id_wp [OF inv] wpT_if wpT_throw wpT_return wpT_option required_outbox_wp [OF inv])
  fix w a i assume e: "require_non_empty ''delivery timeout error'' (dat_error u) = Inr w"
    and a: "a \<in> set (db_attempts db)" "da_attempt_id a = dat_attempt_id u" "da_message_id a = Some i"
    and s: "da_status a = CommandDeliveryAttemptStatus.Sent"
  obtain m where m: "m \<in> set (db_outbox db)" "da_message_id a = Some (wo_message_id m)" "pair_ok m a"
    using bound_attempt [OF inv a(1,3)] .
  show "wpT (update_attempt_state J a CommandDeliveryAttemptStatus.Unconfirmed (dat_timed_out_at u) None (Some (dat_error u)))
    (\<lambda>_. wpT (requiredT (corrupt ''command_delivery_attempt'' (dat_attempt_id u) ''attempt disappeared'')
       (fetch_delivery_attempt_by_id J (dat_attempt_id u))) Q) db"
  proof (intro update_attempt_wp [OF inv m(1) a(1) m(2)] required_attempt_by_id_wp Q)
    fix a' assume "a' = attempt_state a CommandDeliveryAttemptStatus.Unconfirmed (dat_timed_out_at u) None (Some (dat_error u))"
    then show "\<exists>b \<in> set (db_attempts (put_pair m a' db)). da_attempt_id b = dat_attempt_id u"
      using put_pair_rows(2) [OF inv m(1) a(1), of m a'] a(2) by auto
  qed (use e s m(3) in \<open>auto simp: pair_ok_def require_non_empty_def split: if_splits dest: pair_states_moves(2)\<close>)
next
  fix a assume a: "a \<in> set (db_attempts db)" "da_status a = CommandDeliveryAttemptStatus.Sent" "da_message_id a = None"
  then show "\<not> is_corrupt (corrupt ''command_delivery_attempt'' (da_attempt_id a) ''SENT attempt has no message_id'')"
    using inv_attempt [OF inv a(1)] by (auto simp: attempt_ok_def bound_attempt_statuses_def)
qed (auto intro: Q inv dest: require_non_empty_error)


section \<open>Runs of operations\<close>

text \<open>
  What the callers of the store guarantee: the JSON they pass is canonical, a prepared delivery is of its
  reservation and carries a wire message, and an attempt recorded on its own has no message.
\<close>

definition op_ok :: "store_json \<Rightarrow> delivery_op \<Rightarrow> bool" where
  "op_ok J op \<longleftrightarrow> (case op of
     ReplaceSession session \<Rightarrow> canonical J (ns_capabilities session)
   | ReserveAndEnqueue request prepare \<Rightarrow> (\<forall>res. prepared_ok J (prepare res) \<and> nrd_reservation (prepare res) = res)
   | RecordAttempt attempt \<Rightarrow> nda_message_id attempt = None \<and> (\<forall>p \<in> set_option (nda_request_payload attempt). canonical J p)
   | _ \<Rightarrow> True)"

lemma ignoring_wp: "wpT m (\<lambda>_. Q ()) db \<Longrightarrow> wpT (ignoring m) Q db"
  unfolding ignoring_def by (rule wpT_bindI, erule wpT_mono) (rule wpT_return)

lemma run_op_wp:
  assumes inv: "delivery_inv J db" and par: "parents_ok J db" and op: "op_ok J op"
  shows "wpT (run_op J op) (\<lambda>_ db'. delivery_inv J db' \<and> evolves db db') db"
  using op
  by (cases op) (auto simp: run_op_def op_ok_def intro!: ignoring_wp replace_session_wp [OF inv] heartbeat_wp [OF inv]
    invalidate_clock_wp [OF inv] close_session_wp [OF inv] close_exact_wp [OF inv] reserve_control_wp [OF inv]
    reserve_and_enqueue_wp [OF inv par] record_unbound_wp [OF inv] claim_wp [OF inv] finish_write_wp [OF inv]
    transport_ack_wp [OF inv] received_wp [OF inv] timeout_wp [OF inv] fence_wp [OF inv])

text \<open>Operations of any kind and in any order, committed or rolled back.\<close>

inductive delivery_run :: "store_json \<Rightarrow> delivery_db \<Rightarrow> delivery_db \<Rightarrow> bool" for J db where
  run_start: "delivery_run J db db"
| run_step: "delivery_run J db db1 \<Longrightarrow> op_ok J op \<Longrightarrow> run_write (run_op J op) db1 = (answer, db2) \<Longrightarrow> delivery_run J db db2"

lemma run_write_keeps:
  assumes "delivery_inv J db" "parents_ok J db" "op_ok J op" "run_write (run_op J op) db = (answer, db')"
  shows "delivery_inv J db' \<and> evolves db db'"
  using run_op_wp [OF assms(1-3)] assms(1,4) by (cases "run_op J op db") (auto simp: wpT_def run_write_def)

lemma delivery_run_inv:
  assumes "delivery_run J db db'" "delivery_inv J db" "parents_ok J db"
  shows "delivery_inv J db' \<and> evolves db db' \<and> parents_ok J db'"
  using assms
proof (induction rule: delivery_run.induct)
  case run_start
  then show ?case by simp
next
  case (run_step db1 op answer db2)
  then have 1: "delivery_inv J db1" "evolves db db1" "parents_ok J db1" by simp_all
  have 2: "delivery_inv J db2 \<and> evolves db1 db2" by (rule run_write_keeps [OF 1(1,3) run_step.hyps(2,3)])
  then show ?case using 1 evolves_trans parents_evolve by blast
qed

end
