(* ===== verification/Delivery_Commits.thy ===== *)
theory Delivery_Commits
  imports Delivery_Writes
begin

text \<open>
  What the commit of a transaction shows. An inserted attempt is read back before the transaction ends, with the
  outbox row it is bound to, so a document that \<open>serde_json\<close> does not read back as it was printed (a number whose
  digits it reads as a neighbouring \<open>f64\<close>, a nesting beyond its limit) is never stored: the transaction fails. The lemmas
  here need no assumption on the reader. The second part is on names: an attempt that is bound to a message keeps the
  attempt id that the gateway makes from the message id.
\<close>

section \<open>What a committed transaction leaves\<close>

definition okT :: "('s, 'e, 'a) transaction \<Rightarrow> ('a \<Rightarrow> 's \<Rightarrow> bool) \<Rightarrow> 's \<Rightarrow> bool" where
  "okT m Q s \<longleftrightarrow> (\<forall>v s'. m s = Inr (v, s') \<longrightarrow> Q v s')"

named_theorems ok

lemma okT_I: "(\<And>v s'. m s = Inr (v, s') \<Longrightarrow> Q v s') \<Longrightarrow> okT m Q s"
  by (simp add: okT_def)

lemma okT_bind [ok]: "okT m (\<lambda>v. okT (f v) Q) s \<Longrightarrow> okT (bindT m f) Q s"
  by (auto simp: okT_def bindT_eq_Inr)

lemma okT_lift [ok]: "(\<And>v. r = Inr v \<Longrightarrow> Q v s) \<Longrightarrow> okT (liftT r) Q s"
  by (auto simp: okT_def liftT_eq_Inr)

lemma okT_return [ok]: "Q v s \<Longrightarrow> okT (returnT v) Q s"
  by (simp add: okT_def)

lemma okT_throw [ok]: "okT (throwT e) Q s"
  by (simp add: okT_def)

lemma okT_if [ok]: "(b \<Longrightarrow> okT m Q s) \<Longrightarrow> (\<not> b \<Longrightarrow> okT m' Q s) \<Longrightarrow> okT (if b then m else m') Q s"
  by simp

lemma okT_option [ok]:
  "(v = None \<Longrightarrow> okT m Q s) \<Longrightarrow> (\<And>x. v = Some x \<Longrightarrow> okT (f x) Q s) \<Longrightarrow> okT (case v of None \<Rightarrow> m | Some x \<Rightarrow> f x) Q s"
  by (cases v) simp_all

lemma okT_sum [ok]:
  "(\<And>x. v = Inl x \<Longrightarrow> okT (f x) Q s) \<Longrightarrow> (\<And>y. v = Inr y \<Longrightarrow> okT (g y) Q s) \<Longrightarrow>
   okT (case v of Inl x \<Rightarrow> f x | Inr y \<Rightarrow> g y) Q s"
  by (cases v) simp_all

lemma okT_mono: "okT m Q s \<Longrightarrow> (\<And>v s'. Q v s' \<Longrightarrow> R v s') \<Longrightarrow> okT m R s"
  by (auto simp: okT_def)

lemma okT_wp: "wpT m Q s \<Longrightarrow> okT m Q s"
  by (auto simp: okT_def wpT_def)

lemma okT_prod [ok]: "(\<And>x y. p = (x, y) \<Longrightarrow> okT (f x y) Q s) \<Longrightarrow> okT (case p of (x, y) \<Rightarrow> f x y) Q s"
  by (cases p) simp

lemma okT_any: "(\<And>v s'. okT (f v) Q s') \<Longrightarrow> okT (bindT m f) Q s"
  by (auto simp: okT_def bindT_eq_Inr)

section \<open>Rows that were read\<close>

lemma find_append: "find P (xs @ ys) = (case find P xs of None \<Rightarrow> find P ys | Some x \<Rightarrow> Some x)"
  by (induction xs) auto

lemma attempt_row_canonical:
  "delivery_attempt_from_row J a = Inr b \<Longrightarrow> da_request_payload a = Some p \<Longrightarrow> canonical J p"
  by (auto simp: delivery_attempt_from_row_def Let_def bindR_eq_Inr dest: from_stored_ok split: if_splits)

lemma outbox_row_canonical: "wire_outbox_from_row J m = Inr m' \<Longrightarrow> canonical J (wo_payload m)"
  by (auto simp: wire_outbox_from_row_def Let_def bindR_eq_Inr dest: from_stored_ok)

lemma attempt_row_same: "delivery_attempt_from_row J a = Inr b \<Longrightarrow> b = a"
  by (cases "da_request_payload a")
    (auto simp: delivery_attempt_from_row_def Let_def bindR_eq_Inr dest!: from_stored_ok split: if_splits)

lemma record_attempt_Inr:
  assumes "record_delivery_attempt_on J n db = Inr (v, db')"
  obtains (new) b db1 where "insert_attempt_row J (stored_attempt n) db = Inr (True, db1)" "v = WriteOutcome.Inserted b"
      "fetch_delivery_attempt_by_id J (nda_attempt_id n) db1 = Inr (Some b, db')"
    | (known) e db1 where "insert_attempt_row J (stored_attempt n) db = Inr (False, db1)" "v = WriteOutcome.Duplicate e"
      "fetch_attempt_conflicts J n db1 = Inr ([e], db')" "same_attempt e n"
proof -
  obtain k db1 where ins: "insert_attempt_row J (stored_attempt n) db = Inr (k, db1)"
    and rest: "(if k then bindT (requiredT (corrupt ''command_delivery_attempt'' (nda_attempt_id n)
         ''attempt disappeared after insert'') (fetch_delivery_attempt_by_id J (nda_attempt_id n)))
         (\<lambda>a. returnT (WriteOutcome.Inserted a))
     else bindT (fetch_attempt_conflicts J n) (\<lambda>existing. case existing of
       [e] \<Rightarrow> if same_attempt e n then returnT (WriteOutcome.Duplicate e)
         else throwT (conflict ''command_delivery_attempt'' (''attempt_id='' @ nda_attempt_id n))
     | _ \<Rightarrow> throwT (conflict ''command_delivery_attempt'' (''attempt_id='' @ nda_attempt_id n)))) db1 = Inr (v, db')"
    using assms unfolding record_delivery_attempt_on_def by (elim bindT_InrE) (simp add: liftT_eq_Inr)
  show thesis
  proof (cases k)
    case True
    then show thesis using new ins rest by (auto simp: bindT_eq_Inr requiredT_eq_Inr)
  next
    case False
    obtain found s where f: "fetch_attempt_conflicts J n db1 = Inr (found, s)"
      and k: "(case found of [e] \<Rightarrow> if same_attempt e n then returnT (WriteOutcome.Duplicate e)
         else throwT (conflict ''command_delivery_attempt'' (''attempt_id='' @ nda_attempt_id n))
       | _ \<Rightarrow> throwT (conflict ''command_delivery_attempt'' (''attempt_id='' @ nda_attempt_id n))) s = Inr (v, db')"
      using rest [unfolded if_not_P [OF False]] by (elim bindT_InrE)
    obtain e where "found = [e]" "same_attempt e n" "v = WriteOutcome.Duplicate e" "s = db'"
      using k by (cases found rule: list.exhaust; cases "tl found") (auto split: if_splits list.splits)
    then show thesis using known ins False f by simp
  qed
qed

lemma inserted_attempt_read:
  assumes "record_delivery_attempt_on J n db = Inr (WriteOutcome.Inserted b, db')"
  shows "\<not> list_ex (attempt_conflict (stored_attempt n)) (db_attempts db)"
    and "delivery_attempt_from_row J (timed_attempt (stored_attempt n)) = Inr b"
    and "\<exists>s. validate_stored_attempt J b (db\<lparr>db_attempts := db_attempts db @ [timed_attempt (stored_attempt n)]\<rparr>) = Inr ((), s)"
proof -
  let ?a = "timed_attempt (stored_attempt n)" and ?db = "db\<lparr>db_attempts := db_attempts db @ [timed_attempt (stored_attempt n)]\<rparr>"
  obtain db1 where ins: "insert_attempt_row J (stored_attempt n) db = Inr (True, db1)"
    and read: "fetch_delivery_attempt_by_id J (nda_attempt_id n) db1 = Inr (Some b, db')"
    using assms by (rule record_attempt_Inr) simp_all
  note row = insert_attempt_ok [OF ins]
  have db1: "db1 = ?db" using row(2) by simp
  show new: "\<not> list_ex (attempt_conflict (stored_attempt n)) (db_attempts db)" using row(1) by simp
  have "find (\<lambda>r. da_attempt_id r = nda_attempt_id n) (db_attempts db) = None"
    using new by (auto simp: find_None_iff list_ex_iff attempt_conflict_def)
  then have "find (\<lambda>r. da_attempt_id r = nda_attempt_id n) (db_attempts ?db) = Some ?a"
    by (simp add: find_append)
  then have "read_attempt J ?a ?db = Inr (b, db')"
    using read db1 by (auto simp: bindT_eq_Inr fetch_delivery_attempt_by_id_def fetch_attempt_where_def)
  then show "delivery_attempt_from_row J ?a = Inr b" "\<exists>s. validate_stored_attempt J b ?db = Inr ((), s)"
    by (auto simp: read_attempt_def bindT_eq_Inr liftT_eq_Inr)
qed

lemma duplicate_attempt_read:
  assumes "delivery_inv J db" "record_delivery_attempt_on J n db = Inr (WriteOutcome.Duplicate b, db')"
  shows "b \<in> set (db_attempts db)" "same_attempt b n"
proof -
  have read: "mapT (read_attempt J) rows db = Inr (rows, db)" if "set rows \<subseteq> set (db_attempts db)" for rows
    using that by (induction rows) (auto simp: bindT_apply read_attempt_eq [OF assms(1)])
  obtain db1 where ins: "insert_attempt_row J (stored_attempt n) db = Inr (False, db1)"
    and found: "fetch_attempt_conflicts J n db1 = Inr ([b], db')" and same: "same_attempt b n"
    using assms(2) by (rule record_attempt_Inr) simp_all
  show "same_attempt b n" by fact
  have "db1 = db" using insert_attempt_ok(2) [OF ins] by simp
  then show "b \<in> set (db_attempts db)"
    using found unfolding fetch_attempt_conflicts_def parse_and_validate_attempt_rows_def
    by (auto simp: read dest: filter_eq_ConsD)
qed

text \<open>A recorded rejection carries a request that reads back.\<close>

lemma recorded_canonical:
  assumes "delivery_inv J db" "record_delivery_attempt_on J n db = Inr (v, db')" "nda_request_payload n = Some p"
  shows "canonical J p"
proof (cases v)
  case (Inserted b)
  then show ?thesis using attempt_row_canonical [OF inserted_attempt_read(2) [of J n db b db'], of p] assms(2,3) by (simp add: timed_attempt_def stored_attempt_def)
next
  case (Duplicate b)
  then have "b \<in> set (db_attempts db)" "same_attempt b n" using duplicate_attempt_read [OF assms(1), of n b db'] assms(2) by auto
  then show ?thesis using inv_attempt [OF assms(1)] assms(3) by (auto simp: attempt_ok_def same_attempt_def)
qed

text \<open>An enqueued delivery carries an envelope that reads back.\<close>

lemma enqueued_prepared:
  assumes inv: "delivery_inv J db" and run: "enqueue_reserved_delivery_on J d db = Inr (v, db')"
  shows "prepared_ok J d"
proof -
  let ?m = "stored_outbox (reserved_outbox d)"
  obtain s db0 o1 db1 o2 db2 where parent: "validate_outbox_parent_payload J ?m s = Inr ((), db0)"
    and s: "s = db" and outb: "enqueue_wire_outbox_on J (reserved_outbox d) db0 = Inr (o1, db1)"
    and att: "record_delivery_attempt_on J (reserved_attempt d) db1 = Inr (o2, db2)" "was_inserted o1 = was_inserted o2"
    using run unfolding enqueue_reserved_delivery_on_def Let_def required_session_def fetch_session_by_id_def
    by (auto simp: bindT_eq_Inr liftT_eq_Inr requiredT_eq_Inr fetchT_eq_Inr split: if_splits option.splits)
  have same: "db0 = db" and dec: "\<exists>wire p. decode_envelope J (nrd_envelope d) = Inr wire \<and> json_from_value J (wm_payload wire) = Inr p"
    using parent s by (auto simp: validate_outbox_parent_payload_def Let_def bindT_eq_Inr liftT_eq_Inr map_err_eq_Inr parent_payload_def
        requiredT_eq_Inr fetchT_eq_Inr reserved_outbox_def split: option.splits if_splits)
  have "canonical J (nrd_envelope d)"
  proof (cases o1)
    case (Duplicate e)
    have "wpT (enqueue_wire_outbox_on J (reserved_outbox d))
      (\<lambda>v s. \<forall>e. v = WriteOutcome.Duplicate e \<longrightarrow> e \<in> set (db_outbox db) \<and> same_wire_outbox_fact e (reserved_outbox d)) db"
      by (rule enqueue_outbox_cases [OF inv]) auto
    then have "e \<in> set (db_outbox db)" "same_wire_outbox_fact e (reserved_outbox d)"
      using wpT_ok outb Duplicate same by fastforce+
    then show ?thesis using inv_outbox [OF inv, of e] by (auto simp: outbox_ok_def same_wire_outbox_fact_def reserved_outbox_def)
  next
    case (Inserted w)
    have "wpT (enqueue_wire_outbox_on J (reserved_outbox d))
      (\<lambda>v s. \<forall>w. v = WriteOutcome.Inserted w \<longrightarrow> s = db\<lparr>db_outbox := db_outbox db @ [timed_outbox ?m]\<rparr>
        \<and> \<not> list_ex (outbox_conflict ?m) (db_outbox db)) db"
      by (rule enqueue_outbox_cases [OF inv]) auto
    then have db1: "db1 = db\<lparr>db_outbox := db_outbox db @ [timed_outbox ?m]\<rparr>"
      and new: "\<not> list_ex (outbox_conflict ?m) (db_outbox db)"
      using wpT_ok outb Inserted same by fastforce+
    obtain b where "o2 = WriteOutcome.Inserted b" using att(2) Inserted by (cases o2) auto
    note read = inserted_attempt_read [OF att(1) [unfolded this]]
    have b: "b = timed_attempt (stored_attempt (reserved_attempt d))" using attempt_row_same [OF read(2)] .
    have "find (\<lambda>r. wo_message_id r = nrd_message_id d) (db_outbox db) = None"
      using new by (auto simp: find_None_iff list_ex_iff outbox_conflict_def reserved_outbox_def)
    then have "find (\<lambda>r. wo_message_id r = nrd_message_id d) (db_outbox db1) = Some (timed_outbox ?m)"
      by (auto simp: db1 find_append reserved_outbox_def timed_outbox_def)
    then obtain m' where "wire_outbox_from_row J (timed_outbox ?m) = Inr m'"
      using read(3) b by (auto simp: validate_stored_attempt_def Let_def reserved_attempt_def bindT_eq_Inr requiredT_eq_Inr
          fetch_wire_outbox_by_id_def fetchT_eq_Inr split: option.splits)
    from outbox_row_canonical [OF this] show ?thesis by (simp add: timed_outbox_def reserved_outbox_def split: if_splits)
  qed
  then show ?thesis using dec by (simp add: prepared_ok_def)
qed

section \<open>Answers are read from the store\<close>

text \<open>What a claim and the completion of a write return is what the tables hold when they commit.\<close>

lemma read_only:
  "fetch_wire_outbox_by_id J i s = Inr (v, s') \<Longrightarrow> s' = s" "validate_outbox_parent_payload J m s = Inr (u, s') \<Longrightarrow> s' = s"
  "validate_stored_attempt J a s = Inr (u, s') \<Longrightarrow> s' = s" "read_attempt J a s = Inr (b, s') \<Longrightarrow> s' = s"
  "fetch_attempt_where J p s = Inr (w, s') \<Longrightarrow> s' = s"
proof -
  show outb: "fetch_wire_outbox_by_id J i s = Inr (v, s') \<Longrightarrow> s' = s" for i v s s'
    by (simp add: fetch_wire_outbox_by_id_def fetchT_eq_Inr)
  show parent: "validate_outbox_parent_payload J m s = Inr (u, s') \<Longrightarrow> s' = s" for m s u s'
    by (auto simp: validate_outbox_parent_payload_def parent_payload_def Let_def bindT_eq_Inr liftT_eq_Inr requiredT_eq_Inr
        fetchT_eq_Inr split: option.splits if_splits)
  show valid: "validate_stored_attempt J a s = Inr (u, s') \<Longrightarrow> s' = s" for a s u s'
    by (auto simp: validate_stored_attempt_def Let_def bindT_eq_Inr requiredT_eq_Inr dest!: outb parent
        split: option.splits if_splits)
  show read: "read_attempt J a s = Inr (b, s') \<Longrightarrow> s' = s" for a b s s'
    by (auto simp: read_attempt_def bindT_eq_Inr liftT_eq_Inr dest: valid)
  show "fetch_attempt_where J p s = Inr (w, s') \<Longrightarrow> s' = s"
    by (auto simp: fetch_attempt_where_def bindT_eq_Inr dest: read split: option.splits)
qed

lemma required_read_only:
  "required_outbox J i s = Inr (m, s') \<Longrightarrow> s' = s \<and> wo_message_id m = i"
  "required_attempt_by_message J i s = Inr (a, s') \<Longrightarrow> s' = s"
proof -
  assume "required_outbox J i s = Inr (m, s')"
  then have "fetch_wire_outbox_by_id J i s = Inr (Some m, s')" by (simp add: required_outbox_def requiredT_eq_Inr)
  then show "s' = s \<and> wo_message_id m = i"
    by (auto simp: fetch_wire_outbox_by_id_def fetchT_eq_Inr wire_outbox_from_row_def Let_def bindR_eq_Inr find_Some_iff
        split: option.splits if_splits)
qed (auto simp: required_attempt_by_message_def requiredT_eq_Inr fetch_delivery_attempt_by_message_def dest: read_only)

definition rereads :: "store_json \<Rightarrow> MessageId \<Rightarrow> StoredOutboundDelivery \<Rightarrow> delivery_db \<Rightarrow> bool" where
  "rereads J i d s \<longleftrightarrow> required_outbound_delivery J i s = Inr (d, s)"

lemma reread_ok: "okT (required_outbound_delivery J i) (rereads J i) s"
proof (rule okT_I)
  fix d s' assume d: "required_outbound_delivery J i s = Inr (d, s')"
  then have "s' = s" unfolding required_outbound_delivery_def
    by (auto simp: bindT_eq_Inr dest!: required_read_only)
  then show "rereads J i d s'" using d by (simp add: rereads_def)
qed

lemma reread_bind:
  assumes "okT m (rereads J i) s" "\<And>d s'. rereads J i d s' \<Longrightarrow> okT (f d) Q s'"
  shows "okT (bindT m f) Q s"
  by (rule okT_bind, rule okT_mono [OF assms(1)]) (rule assms(2))

lemma cancel_rereads: "okT (cancel_claimed_delivery J m a t status e) (rereads J (wo_message_id m)) s"
  unfolding cancel_claimed_delivery_def by (intro okT_any reread_ok)

primrec claim_delivery :: "OutboxClaimOutcome \<Rightarrow> StoredOutboundDelivery" where
  "claim_delivery (OutboxClaimOutcome.Claimed d) = d"
| "claim_delivery (OutboxClaimOutcome.Expired d) = d"
| "claim_delivery (OutboxClaimOutcome.SessionUnavailable d) = d"
| "claim_delivery (OutboxClaimOutcome.ClockUnhealthy d) = d"

lemma claim_rereads:
  "okT (claim_outbox_on J claim) (\<lambda>v. rereads J (cwo_message_id claim) (claim_delivery v)) s"
  unfolding claim_outbox_on_def
proof (rule okT_bind, rule okT_I, goal_cases)
  case (1 m s')
  then have id: "cwo_message_id claim = wo_message_id m" by (simp add: required_read_only(1))
  note ends = reread_bind [OF cancel_rereads [of J m], folded id] reread_bind [OF reread_ok]
  show ?case
    by ((rule ends okT_throw okT_if okT_option okT_return) | rule okT_any | simp)+
qed

lemma finish_rereads:
  "okT (finish_transport_write_on J completion result) (rereads J (ctw_message_id completion)) s"
  unfolding finish_transport_write_on_def
proof (rule okT_bind, rule okT_I, rule okT_bind, rule okT_I, goal_cases)
  case (1 m s' a s'')
  then have s: "s' = s" "s'' = s" using required_read_only by blast+
  then have now: "rereads J (ctw_message_id completion) \<lparr>sod_outbox = m, sod_attempt = a\<rparr> s"
    using 1 by (simp add: rereads_def required_outbound_delivery_def bindT_apply)
  have answered: "okT (finish_answered_write J completion m a) (rereads J (ctw_message_id completion)) s"
    unfolding finish_answered_write_def Let_def by (intro okT_if okT_throw okT_any reread_ok)
  show ?case unfolding s Let_def
    by (rule okT_bind, rule okT_lift) (intro okT_if okT_throw okT_return now answered okT_any okT_prod reread_ok)
qed

section \<open>Names of attempts\<close>

text \<open>What a transaction keeps, whatever it returns.\<close>

named_theorems keeps

definition keepsT :: "('s \<Rightarrow> bool) \<Rightarrow> ('s, 'e, 'a) transaction \<Rightarrow> bool" where
  "keepsT P m \<longleftrightarrow> (\<forall>s v s'. P s \<longrightarrow> m s = Inr (v, s') \<longrightarrow> P s')"

lemma keepsT_D: "keepsT P m \<Longrightarrow> P s \<Longrightarrow> m s = Inr (v, s') \<Longrightarrow> P s'"
  by (auto simp: keepsT_def)

lemma keeps_basic [keeps]:
  "keepsT P (returnT v)" "keepsT P (throwT e)" "keepsT P (liftT r)" "keepsT P (readT f)" "keepsT P (fetchT select decode)"
  by (auto simp: keepsT_def liftT_eq_Inr fetchT_eq_Inr)

lemma keeps_bind [keeps]: "keepsT P m \<Longrightarrow> (\<And>v. keepsT P (f v)) \<Longrightarrow> keepsT P (bindT m f)"
  unfolding keepsT_def bindT_eq_Inr by blast

lemma keeps_required [keeps]: "keepsT P m \<Longrightarrow> keepsT P (requiredT e m)"
  by (auto simp: keepsT_def requiredT_eq_Inr)

lemma keeps_cases [keeps]:
  "keepsT P m \<Longrightarrow> keepsT P m' \<Longrightarrow> keepsT P (if b then m else m')"
  "keepsT P m \<Longrightarrow> (\<And>x. keepsT P (f x)) \<Longrightarrow> keepsT P (case v of None \<Rightarrow> m | Some x \<Rightarrow> f x)"
  "keepsT P m \<Longrightarrow> (\<And>x xs. keepsT P (g x xs)) \<Longrightarrow> keepsT P (case l of [] \<Rightarrow> m | x # xs \<Rightarrow> g x xs)"
  "(\<And>x y. keepsT P (h x y)) \<Longrightarrow> keepsT P (case p of (x, y) \<Rightarrow> h x y)"
  by (auto split: option.split list.split prod.split)

lemma keeps_loops [keeps]:
  "(\<And>x. keepsT P (f x)) \<Longrightarrow> keepsT P (for_eachT f xs)"
  "(\<And>x. keepsT P (g x)) \<Longrightarrow> keepsT P (mapT g xs)"
  "(\<And>x acc. keepsT P (h x acc)) \<Longrightarrow> keepsT P (foldT h acc xs)"
  by (induction xs arbitrary: acc) (auto intro!: keeps)

text \<open>An attempt that is bound to a message has the name of the message.\<close>

definition named :: "(MessageId \<Rightarrow> string) \<Rightarrow> delivery_db \<Rightarrow> bool" where
  "named name db \<longleftrightarrow> (\<forall>a \<in> set (db_attempts db). \<forall>i. da_message_id a = Some i \<longrightarrow> da_attempt_id a = name i)"

lemma named_frame [simp]:
  "named name (db\<lparr>db_sessions := S\<rparr>) = named name db" "named name (db\<lparr>db_outbox := M\<rparr>) = named name db"
  by (simp_all add: named_def)

lemma keeps_rows [keeps]:
  "keepsT (named name) (insert_session_row J r)" "keepsT (named name) (insert_outbox_row J m)"
  "keepsT (named name) (update_session_row J p f)" "keepsT (named name) (update_outbox_row J q g)"
  by (auto simp: keepsT_def insert_session_row_def insert_outbox_row_def update_session_row_def update_outbox_row_def
      split: if_splits)

lemma keeps_insert_attempt:
  "(\<And>i. da_message_id a = Some i \<Longrightarrow> da_attempt_id a = name i) \<Longrightarrow> keepsT (named name) (insert_attempt_row J a)"
  by (auto simp: keepsT_def named_def insert_attempt_row_def split: if_splits)

lemma keeps_update_attempt [keeps]: "keepsT (named name) (update_attempt_state J a status t ack e)"
proof -
  have "keepsT (named name) (update_attempt_row J p (\<lambda>r. r\<lparr>da_status := status, da_revision := n, da_updated_at := t,
      da_acked_at := ack, da_error := e\<rparr>))" for p n
    by (auto simp: keepsT_def named_def update_attempt_row_def update_where_def split: if_splits)
  then show ?thesis unfolding update_attempt_state_def by (intro keeps)
qed

lemma keeps_reads [keeps]:
  "keepsT (named name) (required_session J i)" "keepsT (named name) (fetch_session_by_id J i)"
  "keepsT (named name) (fetch_wire_outbox_by_id J k)" "keepsT (named name) (required_outbox J k)"
  "keepsT (named name) (validate_outbox_parent_payload J m)" "keepsT (named name) (validate_stored_attempt J a)"
  "keepsT (named name) (read_attempt J a)" "keepsT (named name) (fetch_attempt_where J p)"
  "keepsT (named name) (fetch_delivery_attempt_by_id J k)" "keepsT (named name) (fetch_delivery_attempt_by_message J k)"
  "keepsT (named name) (required_attempt_by_message J k)" "keepsT (named name) (required_outbound_delivery J k)"
  "keepsT (named name) (parse_and_validate_attempt_rows J rows)"
proof -
  show sess: "keepsT (named name) (fetch_session_by_id J i)" unfolding fetch_session_by_id_def by (intro keeps)
  then show "keepsT (named name) (required_session J i)" unfolding required_session_def by (intro keeps)
  show outb: "keepsT (named name) (fetch_wire_outbox_by_id J k)" for k unfolding fetch_wire_outbox_by_id_def by (intro keeps)
  then show req: "keepsT (named name) (required_outbox J k)" unfolding required_outbox_def by (intro keeps)
  show parent: "keepsT (named name) (validate_outbox_parent_payload J m)" for m
    unfolding validate_outbox_parent_payload_def parent_payload_def Let_def by (intro keeps)
  show valid: "keepsT (named name) (validate_stored_attempt J a)" for a
    unfolding validate_stored_attempt_def Let_def by (intro keeps parent outb)
  then show read: "keepsT (named name) (read_attempt J a)" for a unfolding read_attempt_def by (intro keeps)
  then show fetch: "keepsT (named name) (fetch_attempt_where J p)" for p unfolding fetch_attempt_where_def by (intro keeps)
  show "keepsT (named name) (fetch_delivery_attempt_by_id J k)" unfolding fetch_delivery_attempt_by_id_def by (rule fetch)
  show msg: "keepsT (named name) (fetch_delivery_attempt_by_message J k)" unfolding fetch_delivery_attempt_by_message_def by (rule fetch)
  then show att: "keepsT (named name) (required_attempt_by_message J k)" unfolding required_attempt_by_message_def by (intro keeps)
  show "keepsT (named name) (required_outbound_delivery J k)" unfolding required_outbound_delivery_def by (intro keeps req att)
  show "keepsT (named name) (parse_and_validate_attempt_rows J rows)"
    unfolding parse_and_validate_attempt_rows_def by (intro keeps read)
qed

lemma keeps_outbox [keeps]: "keepsT (named name) (update_outbox_state J m status t sent acked e)"
  unfolding update_outbox_state_def by (intro keeps)

lemma keeps_session [keeps]:
  "keepsT (named name) (update_active_session J i n n' cond change)"
  "keepsT (named name) (transition_session_status_on J r status t)"
  "keepsT (named name) (advance_sequence J r t)" "keepsT (named name) (insert_session_on J s)"
  unfolding transition_session_status_on_def advance_sequence_def insert_session_on_def update_active_session_def
  by (intro keeps)+

lemma keeps_settle [keeps]:
  "keepsT (named name) (settle_rejected_pending_attempts_on J i t)"
  "keepsT (named name) (cancel_session_pending_deliveries_on J i t e)"
  "keepsT (named name) (unconfirm_session_attempts_on J i t e)"
  unfolding settle_rejected_pending_attempts_on_def settle_rejected_attempt_def cancel_session_pending_deliveries_on_def
    cancel_pending_delivery_def unconfirm_session_attempts_on_def unconfirm_attempt_def
  by (intro keeps)+

lemma keeps_record_attempt:
  "(\<And>i. nda_message_id n = Some i \<Longrightarrow> nda_attempt_id n = name i) \<Longrightarrow> keepsT (named name) (record_delivery_attempt_on J n)"
  unfolding record_delivery_attempt_on_def fetch_attempt_conflicts_def
  by (intro keeps keeps_insert_attempt) (simp add: stored_attempt_def)

lemma keeps_enqueue:
  assumes "nrd_attempt_id d = name (nrd_message_id d)"
  shows "keepsT (named name) (enqueue_reserved_delivery_on J d)"
  unfolding enqueue_reserved_delivery_on_def enqueue_wire_outbox_on_def fetch_wire_outbox_conflicts_def Let_def
  by (intro keeps keeps_record_attempt) (use assms in \<open>simp add: reserved_attempt_def\<close>)

lemma keeps_reserve [keeps]: "keepsT (named name) (reserve_outbound_sequence_on J request)"
proof -
  have "keepsT (named name) (validate_subject_route r request)" for r
    unfolding validate_subject_route_def
    by (cases "ros_subject request"; simp only: DeliverySubject.case; intro keeps)
  then show ?thesis unfolding reserve_outbound_sequence_on_def by (intro keeps)
qed

lemma keeps_writes [keeps]:
  "keepsT (named name) (claim_outbox_on J claim)"
  "keepsT (named name) (finish_transport_write_on J completion result)"
  "keepsT (named name) (record_transport_ack_on J ack)"
  "keepsT (named name) (record_command_received_attempt_on J received)"
  "keepsT (named name) (timeout_delivery_attempt_on J timeout)"
  "keepsT (named name) (fence_interrupted_writes_on J t e)"
proof -
  show "keepsT (named name) (claim_outbox_on J claim)"
    unfolding claim_outbox_on_def cancel_claimed_delivery_def by (intro keeps)
  show "keepsT (named name) (finish_transport_write_on J completion result)"
    unfolding finish_transport_write_on_def finish_answered_write_def Let_def by (intro keeps)
  have "keepsT (named name) (reject_transport_ack J ack m)" "keepsT (named name) (accept_transport_ack J ack m)" for m
    unfolding reject_transport_ack_def accept_transport_ack_def Let_def by (intro keeps)+
  then show "keepsT (named name) (record_transport_ack_on J ack)"
    unfolding record_transport_ack_on_def by (intro keeps) (cases "tau_status ack"; simp)
  show "keepsT (named name) (record_command_received_attempt_on J received)"
    unfolding record_command_received_attempt_on_def by (intro keeps)
  show "keepsT (named name) (timeout_delivery_attempt_on J timeout)"
    unfolding timeout_delivery_attempt_on_def by (intro keeps)
  show "keepsT (named name) (fence_interrupted_writes_on J t e)"
    unfolding fence_interrupted_writes_on_def fence_session_def fence_outbox_def by (intro keeps)
qed

lemma keeps_lifecycle [keeps]:
  "keepsT (named name) (replace_active_session_on J s)" "keepsT (named name) (update_session_heartbeat_on J h)"
  "keepsT (named name) (invalidate_session_clock_on J c)" "keepsT (named name) (close_session_on J u status)"
  "keepsT (named name) (close_exact_session_on J x status)" "keepsT (named name) (reserve_control_outbound_sequence_on J r)"
  unfolding replace_active_session_on_def replace_existing_session_def update_session_heartbeat_on_def
    invalidate_session_clock_on_def close_session_on_def close_exact_session_on_def settle_and_close_def
    reserve_control_outbound_sequence_on_def
  by (intro keeps)+

section \<open>Operations of the gateway\<close>

text \<open>
  The operations that run beside the outbound adapter. A delivery is enqueued for its reservation, under the attempt id of its
  message, and an attempt recorded on its own has no message; neither is assumed to carry JSON that reads back. The
  capabilities of a session are an array of strings.
\<close>

definition gateway_op :: "(MessageId \<Rightarrow> string) \<Rightarrow> store_json \<Rightarrow> delivery_op \<Rightarrow> bool" where
  "gateway_op name J op \<longleftrightarrow> (case op of
     ReplaceSession session \<Rightarrow> canonical J (ns_capabilities session)
   | ReserveAndEnqueue request prepare \<Rightarrow> (\<forall>res. nrd_reservation (prepare res) = res
       \<and> nrd_attempt_id (prepare res) = name (nrd_message_id (prepare res)))
   | RecordAttempt attempt \<Rightarrow> nda_message_id attempt = None
   | _ \<Rightarrow> True)"

lemma gateway_op_names: "gateway_op name J op \<Longrightarrow> keepsT (named name) (run_op J op)"
proof (cases op)
  case (ReserveAndEnqueue request prepare)
  assume op: "gateway_op name J op"
  have "keepsT (named name) (enqueue_reserved_delivery_on J (prepare res))" for res
    by (rule keeps_enqueue) (use op ReserveAndEnqueue in \<open>simp add: gateway_op_def\<close>)
  then have "keepsT (named name) (case v of SequenceReservation.Reserved r \<Rightarrow>
      bindT (enqueue_reserved_delivery_on J (prepare r)) (\<lambda>_. returnT v) | _ \<Rightarrow> returnT v)" for v
    by (cases v) (auto intro!: keeps)
  then show ?thesis unfolding run_op_def ignoring_def reserve_and_enqueue_def using ReserveAndEnqueue by (auto intro!: keeps)
next
  case (RecordAttempt attempt)
  assume "gateway_op name J op"
  then have "nda_message_id attempt = None" using RecordAttempt by (simp add: gateway_op_def)
  then show ?thesis using RecordAttempt keeps_record_attempt [of attempt name J]
    by (auto simp: run_op_def ignoring_def intro!: keeps)
qed (auto simp: run_op_def ignoring_def intro!: keeps)

lemma gateway_op_commits:
  assumes inv: "delivery_inv J db" and par: "parents_ok J db" and op: "gateway_op name J op"
    and run: "run_op J op db = Inr ((), db')"
  shows "delivery_inv J db' \<and> evolves db db'"
proof (cases "op_ok J op")
  case True
  then show ?thesis using wpT_ok [OF run_op_wp [OF inv par] run] by blast
next
  case False
  then consider (rec) a where "op = RecordAttempt a" "nda_message_id a = None"
    | (enq) request prepare where "op = ReserveAndEnqueue request prepare" "\<And>res. nrd_reservation (prepare res) = res"
    using op by (cases op) (auto simp: op_ok_def gateway_op_def)
  then show ?thesis
  proof cases
    case rec
    then obtain v where v: "record_delivery_attempt_on J a db = Inr (v, db')"
      using run by (auto simp: run_op_def ignoring_def bindT_eq_Inr)
    have "wpT (record_delivery_attempt_on J a) (\<lambda>_ s. delivery_inv J s \<and> evolves db s) db"
      by (rule record_unbound_wp [OF inv rec(2) recorded_canonical [OF inv v]]) simp_all
    then show ?thesis using v by (rule wpT_ok)
  next
    case enq
    have "wpT (reserve_outbound_sequence_on J request) (\<lambda>v s. delivery_inv J s \<and> evolves db s) db"
      by (rule reserve_outbound_wp [OF inv]) (auto simp: inv)
    moreover obtain v s u where v: "reserve_outbound_sequence_on J request db = Inr (v, s)"
      and rest: "(case v of SequenceReservation.Reserved r \<Rightarrow>
        bindT (enqueue_reserved_delivery_on J (prepare r)) (\<lambda>_. returnT v) | _ \<Rightarrow> returnT v) s = Inr (u, db')"
      using run [unfolded run_op_def enq(1) delivery_op.case ignoring_def reserve_and_enqueue_def]
      by (elim bindT_InrE) simp
    ultimately have s: "delivery_inv J s" "evolves db s" using wpT_ok by fast+
    show ?thesis
    proof (cases "\<exists>r. v = SequenceReservation.Reserved r")
      case True
      then obtain r w where w: "enqueue_reserved_delivery_on J (prepare r) s = Inr (w, db')"
        using rest by (auto simp: bindT_eq_Inr)
      have "parents_ok J s" using par by (simp add: parents_evolve [OF s(2)])
      then have "wpT (enqueue_reserved_delivery_on J (prepare r)) (\<lambda>_ s'. delivery_inv J s' \<and> evolves s s') s"
        by (rule enqueue_reserved_wp [OF s(1) _ enqueued_prepared [OF s(1) w]]) simp
      then have "delivery_inv J db' \<and> evolves s db'" using w by (rule wpT_ok)
      then show ?thesis using s(2) evolves_trans by blast
    qed (use rest s in \<open>cases v; auto\<close>)
  qed
qed

end
