(* ===== verification/Gateway_Validation.thy ===== *)
theory Gateway_Validation
  imports Wire
begin

text \<open>
  What crosses the delivery port (\<open>crates/execution/src/delivery.rs\<close>), the validation of a request
  before anything is stored (\<open>crates/gateway/src/validation.rs\<close>) and of the transport's configuration
  (\<open>crates/gateway/src/config.rs\<close>). A \<open>Duration\<close> is its nanoseconds.
\<close>

section \<open>Requests and outcomes\<close>

record 'a DeliveryRequest =
  dr_account_id :: AccountId
  dr_client_id :: "ClientId option"
  dr_terminal_id :: "TerminalId option"
  dr_command_id :: "CommandId option"
  dr_message :: "'a WireMessage"
  dr_expires_at :: "i64 option"

record DeliveryReceipt =
  dre_attempt_id :: string
  dre_message_id :: MessageId
  dre_session_id :: SessionId
  dre_sequence :: u64
  dre_sent_at :: i64
  dre_confirmation_deadline_at :: i64

datatype DeliveryRejectionReason = NoActiveSession | AmbiguousRoute usize | ClockUnhealthy | Expired
  | IdentityMismatch string | Backpressure usize | InflightLimit u64 | TransportRejected string

record DeliveryRejection =
  drj_attempt_id :: string
  drj_message_id :: MessageId
  drj_session_id :: "SessionId option"
  drj_rejected_at :: i64
  drj_reason :: DeliveryRejectionReason

record DeliveryFailure =
  dfa_attempt_id :: string
  dfa_message_id :: MessageId
  dfa_session_id :: "SessionId option"
  dfa_failed_at :: i64
  dfa_error :: string

record DeliveryUncertainty =
  dun_attempt_id :: string
  dun_message_id :: MessageId
  dun_session_id :: "SessionId option"
  dun_sequence :: "u64 option"
  dun_write_started_at :: i64
  dun_observed_at :: i64
  dun_error :: string

datatype DeliveryOutcome = Sent DeliveryReceipt | Rejected DeliveryRejection | DefinitelyNotWritten DeliveryFailure
  | Unconfirmed DeliveryUncertainty

datatype DeliveryInfrastructureError = DeliveryInfrastructureError string

section \<open>Validation\<close>

definition identity_mismatch :: "string \<Rightarrow> (DeliveryRejectionReason, 'a) result" where
  "identity_mismatch field = Inl (IdentityMismatch field)"

definition validate_draft_envelope ::
  "'a WireMessage \<Rightarrow> ExecutionClientMessageType \<Rightarrow> ClientId option \<Rightarrow> (DeliveryRejectionReason, unit) result" where
  "validate_draft_envelope message expected_type request_client_id =
     (if trim_is_empty (wm_message_id message) then identity_mismatch ''message_id''
      else if wm_message_type message \<noteq> expected_type then identity_mismatch ''message_type''
      else if wm_session_id message \<noteq> None then identity_mismatch ''session_id''
      else if wm_sequence message \<noteq> None then identity_mismatch ''sequence''
      else if wm_sent_at message \<noteq> None then identity_mismatch ''sent_at''
      else if wm_client_id message \<noteq> request_client_id then identity_mismatch ''envelope.client_id''
      else bindR (check_each (\<lambda>(field, id).
          if (case id of None \<Rightarrow> False | Some v \<Rightarrow> trim_is_empty v) then identity_mismatch field else Inr ())
          [(''correlation_id'', wm_correlation_id message), (''causation_id'', wm_causation_id message)]) (\<lambda>_.
        case bindR (SchemaVersion_from_str (wm_schema_version message))
            (\<lambda>version. compatibility_with version SUPPORTED_SCHEMA_VERSION) of
          Inl _ \<Rightarrow> identity_mismatch ''schema_version''
        | Inr _ \<Rightarrow> Inr ()))"

definition validate_command_request ::
  "ExecutionCommand DeliveryRequest \<Rightarrow> i64 \<Rightarrow> (DeliveryRejectionReason, unit) result" where
  "validate_command_request request server_now =
     bindR (validate_draft_envelope (dr_message request) ExecutionClientMessageType.ExecutionCommand (dr_client_id request)) (\<lambda>_.
     let command = wm_payload (dr_message request) in
     if dr_account_id request \<noteq> ec_account_id command then identity_mismatch ''account_id''
     else if dr_client_id request \<noteq> ec_client_id command then identity_mismatch ''client_id''
     else if dr_terminal_id request \<noteq> ec_terminal_id command then identity_mismatch ''terminal_id''
     else if dr_command_id request \<noteq> Some (ec_command_id command) then identity_mismatch ''command_id''
     else if dr_expires_at request \<noteq> Some (ec_expires_at command) then identity_mismatch ''expires_at''
     else if server_now < 0 \<or> ec_expires_at command \<le> server_now then Inl Expired
     else Inr ())"

definition validate_reconciliation_request ::
  "ReconciliationRequest DeliveryRequest \<Rightarrow> (DeliveryRejectionReason, unit) result" where
  "validate_reconciliation_request request =
     bindR (validate_draft_envelope (dr_message request) ExecutionClientMessageType.ReconciliationRequest (dr_client_id request)) (\<lambda>_.
     let reconciliation = wm_payload (dr_message request) in
     if dr_account_id request \<noteq> rreq_account_id reconciliation then identity_mismatch ''account_id''
     else if dr_client_id request \<noteq> rreq_client_id reconciliation then identity_mismatch ''client_id''
     else if dr_terminal_id request \<noteq> rreq_terminal_id reconciliation then identity_mismatch ''terminal_id''
     else if dr_command_id request \<noteq> None then identity_mismatch ''command_id''
     else if dr_expires_at request \<noteq> None then identity_mismatch ''expires_at''
     else Inr ())"

text \<open>The fields a validation can name.\<close>

definition identity_fields :: "string list" where
  "identity_fields = [''message_id'', ''message_type'', ''session_id'', ''sequence'', ''sent_at'', ''envelope.client_id'',
     ''correlation_id'', ''causation_id'', ''schema_version'', ''account_id'', ''client_id'', ''terminal_id'', ''command_id'',
     ''expires_at'']"

lemma draft_envelope_rejects:
  "validate_draft_envelope m t c = Inl reason \<Longrightarrow> \<exists>field \<in> set identity_fields. reason = IdentityMismatch field"
  by (auto simp: validate_draft_envelope_def identity_mismatch_def identity_fields_def bindR_eq_Inl split: if_splits sum.splits option.splits)

lemma command_request_rejects:
  "validate_command_request r now = Inl reason \<Longrightarrow>
   reason = Expired \<or> (\<exists>field \<in> set identity_fields. reason = IdentityMismatch field)"
  by (auto simp: validate_command_request_def bindR_eq_Inl Let_def identity_mismatch_def dest: draft_envelope_rejects
      split: if_splits) (auto simp: identity_fields_def)

lemma reconciliation_request_rejects:
  "validate_reconciliation_request r = Inl reason \<Longrightarrow> \<exists>field \<in> set identity_fields. reason = IdentityMismatch field"
  by (auto simp: validate_reconciliation_request_def bindR_eq_Inl Let_def identity_mismatch_def dest: draft_envelope_rejects
      split: if_splits) (auto simp: identity_fields_def)

section \<open>Transport configuration\<close>

record ExecutionTransportConfig =
  etc_handshake_timeout :: nat
  etc_write_timeout :: nat
  etc_inbound_admission_timeout :: nat
  etc_event_write_timeout :: nat
  etc_heartbeat_interval_ms :: u64
  etc_heartbeat_timeout_ms :: u64
  etc_time_sync_interval_ms :: u64
  etc_max_time_sync_rtt_ms :: u64
  etc_max_clock_offset_ms :: u64
  etc_max_inflight_commands :: u64
  etc_max_frame_bytes :: usize
  etc_max_message_bytes :: usize
  etc_outbound_queue_capacity :: usize
  etc_tcp_read_chunk_bytes :: usize
  etc_max_connections :: usize
  etc_max_pending_handshakes :: usize

datatype TransportConfigError = Invalid string

definition ExecutionTransportConfig_validate :: "ExecutionTransportConfig \<Rightarrow> (TransportConfigError, unit) result" where
  "ExecutionTransportConfig_validate c =
     bindR (check_each (\<lambda>(field, v). if v = 0 \<or> nat i64_max < v then Inl (Invalid field) else Inr ())
       [(''heartbeat_interval_ms'', etc_heartbeat_interval_ms c), (''heartbeat_timeout_ms'', etc_heartbeat_timeout_ms c),
        (''time_sync_interval_ms'', etc_time_sync_interval_ms c), (''max_time_sync_rtt_ms'', etc_max_time_sync_rtt_ms c),
        (''max_clock_offset_ms'', etc_max_clock_offset_ms c), (''max_inflight_commands'', etc_max_inflight_commands c)]) (\<lambda>_.
     if etc_handshake_timeout c = 0 then Inl (Invalid ''handshake_timeout'')
     else if etc_write_timeout c = 0 then Inl (Invalid ''write_timeout'')
     else if etc_inbound_admission_timeout c = 0 then Inl (Invalid ''inbound_admission_timeout'')
     else if etc_handshake_timeout c \<le> etc_inbound_admission_timeout c
       then Inl (Invalid ''inbound_admission_timeout must be shorter than handshake_timeout'')
     else if etc_event_write_timeout c = 0 then Inl (Invalid ''event_write_timeout'')
     else if etc_heartbeat_timeout_ms c \<le> etc_heartbeat_interval_ms c
       then Inl (Invalid ''heartbeat_timeout_ms must exceed heartbeat_interval_ms'')
     else if etc_heartbeat_interval_ms c < etc_time_sync_interval_ms c
       then Inl (Invalid ''time_sync_interval_ms must not exceed heartbeat_interval_ms'')
     else if etc_max_frame_bytes c = 0 \<or> u32_max < etc_max_frame_bytes c then Inl (Invalid ''max_frame_bytes'')
     else if etc_max_message_bytes c = 0 \<or> etc_max_frame_bytes c < etc_max_message_bytes c
       then Inl (Invalid ''max_message_bytes must be in 1..=max_frame_bytes'')
     else if etc_outbound_queue_capacity c < 2
       then Inl (Invalid ''outbound_queue_capacity must reserve bootstrap and live capacity'')
     else if etc_tcp_read_chunk_bytes c < 4 \<or> min u64_max (etc_max_frame_bytes c + 4) < etc_tcp_read_chunk_bytes c
       then Inl (Invalid ''tcp_read_chunk_bytes'')
     else if etc_max_connections c = 0 then Inl (Invalid ''max_connections'')
     else if etc_max_pending_handshakes c = 0 \<or> etc_max_connections c < etc_max_pending_handshakes c
       then Inl (Invalid ''max_pending_handshakes must be in 1..=max_connections'')
     else Inr ())"

definition ExecutionTransportConfig_default :: ExecutionTransportConfig where
  "ExecutionTransportConfig_default = \<lparr>etc_handshake_timeout = 5 * 10 ^ 9, etc_write_timeout = 5 * 10 ^ 9,
     etc_inbound_admission_timeout = 2 * 10 ^ 9, etc_event_write_timeout = 10 ^ 9, etc_heartbeat_interval_ms = 5000,
     etc_heartbeat_timeout_ms = 15000, etc_time_sync_interval_ms = 5000, etc_max_time_sync_rtt_ms = 1000,
     etc_max_clock_offset_ms = 250, etc_max_inflight_commands = 32, etc_max_frame_bytes = 262144,
     etc_max_message_bytes = 262144, etc_outbound_queue_capacity = 128, etc_tcp_read_chunk_bytes = 16384,
     etc_max_connections = 1024, etc_max_pending_handshakes = 128\<rparr>"

lemma default_config_valid: "ExecutionTransportConfig_validate ExecutionTransportConfig_default = Inr ()"
  by (simp add: ExecutionTransportConfig_validate_def ExecutionTransportConfig_default_def i64_max_def u32_max_def u64_max_def)

text \<open>A valid configuration leaves room for the whole of a message in a frame, a frame's length in its
  prefix, and a missed heartbeat before a session times out.\<close>

lemma valid_config:
  assumes "ExecutionTransportConfig_validate c = Inr ()"
  shows "0 < etc_max_message_bytes c" "etc_max_message_bytes c \<le> etc_max_frame_bytes c" "etc_max_frame_bytes c \<le> u32_max"
    "etc_time_sync_interval_ms c \<le> etc_heartbeat_interval_ms c" "etc_heartbeat_interval_ms c < etc_heartbeat_timeout_ms c"
    "2 \<le> etc_outbound_queue_capacity c" "0 < etc_max_inflight_commands c" "etc_max_inflight_commands c \<le> nat i64_max"
    "etc_inbound_admission_timeout c < etc_handshake_timeout c"
  using assms by (auto simp: ExecutionTransportConfig_validate_def bindR_eq_Inr split: if_splits)


end
