(* ===== verification/Gateway_Auth.thy ===== *)
theory Gateway_Auth
  imports Wire
begin

text \<open>
  Client authentication (\<open>crates/gateway/src/auth.rs\<close>): the credentials of one client and account
  with an ACTIVE and an optional NEXT secret, the comparison that always looks at every byte position
  of the bounded credential space, and the authenticator. A secret's bytes are words of eight bits and
  the accumulated difference is a \<open>usize\<close> word, as in the code. The session payloads of
  \<open>crates/protocol/src/payload.rs\<close> are here as well.

  \<open>authentication_exact\<close> says that the authenticator accepts exactly the configured secrets, and with
  which epoch.
\<close>

unbundle bit_operations_syntax

section \<open>Session payloads\<close>

datatype ExecutionClientPlatform = Mt5 | Binance | Okx | Ibkr | Paper | Backtest | Exchange

record ResumeCursor =
  rsc_previous_session_id :: "SessionId option"
  rsc_last_gateway_message_id :: "MessageId option"
  rsc_last_gateway_sequence :: "u64 option"
  rsc_last_client_message_id :: "MessageId option"
  rsc_last_client_sequence :: "u64 option"
  rsc_pending_command_ids :: "CommandId list option"

record HelloPayload =
  hp_client_id :: ClientId
  hp_platform :: ExecutionClientPlatform
  hp_terminal_id :: "TerminalId option"
  hp_account_id :: AccountId
  hp_token :: string
  hp_capabilities :: "string list"
  hp_resume :: "ResumeCursor option"

section \<open>Requests and credentials\<close>

record ClientAuthenticationRequest =
  car_client_id :: ClientId
  car_account_id :: AccountId
  car_terminal_id :: "TerminalId option"
  car_platform :: ExecutionClientPlatform
  car_token :: string
  car_remote_addr :: "string option"

definition from_hello :: "HelloPayload \<Rightarrow> string option \<Rightarrow> ClientAuthenticationRequest" where
  "from_hello hello remote_addr =
     \<lparr>car_client_id = hp_client_id hello, car_account_id = hp_account_id hello,
      car_terminal_id = hp_terminal_id hello, car_platform = hp_platform hello,
      car_token = hp_token hello, car_remote_addr = remote_addr\<rparr>"

datatype ClientSecretEpoch = Active | Next

record AuthenticatedClient =
  ac_client_id :: ClientId
  ac_account_id :: AccountId
  ac_terminal_id :: "TerminalId option"
  ac_platform :: ExecutionClientPlatform
  ac_remote_addr :: "string option"
  ac_secret_epoch :: ClientSecretEpoch

datatype ClientAuthenticationError = AuthenticationRejected

record ClientCredential =
  cc_client_id :: ClientId
  cc_account_id :: AccountId
  cc_active_secret :: string
  cc_next_secret :: "string option"

datatype ClientAuthenticatorConfigError = EmptyIdentity string | EmptySecret ClientSecretEpoch
  | SecretTooLong ClientSecretEpoch | IdenticalActiveAndNext | DuplicateCredential

definition MAX_CLIENT_AUTH_TOKEN_BYTES :: nat where "MAX_CLIENT_AUTH_TOKEN_BYTES = 4096"

section \<open>Comparison\<close>

definition as_bytes :: "string \<Rightarrow> 8 word list" where
  "as_bytes s = map of_char s"

text \<open>\<open>slice.get(index).copied().unwrap_or_default()\<close>.\<close>

definition byte_at :: "8 word list \<Rightarrow> nat \<Rightarrow> 8 word" where
  "byte_at bytes index = (if index < length bytes then bytes ! index else 0)"

definition fixed_work_eq :: "8 word list \<Rightarrow> 8 word list \<Rightarrow> bool" where
  "fixed_work_eq left right =
     (foldl (\<lambda>difference index. difference OR ucast (byte_at left index XOR byte_at right index))
        ((of_nat (length left) :: 64 word) XOR of_nat (length right))
        [0 ..< MAX_CLIENT_AUTH_TOKEN_BYTES] = 0)"

section \<open>The authenticator\<close>

definition validate_secret :: "8 word list \<Rightarrow> ClientSecretEpoch \<Rightarrow> (ClientAuthenticatorConfigError, unit) result" where
  "validate_secret secret epoch =
     (if secret = [] then Inl (EmptySecret epoch)
      else if MAX_CLIENT_AUTH_TOKEN_BYTES < length secret then Inl (SecretTooLong epoch)
      else Inr ())"

definition validate_credential :: "ClientCredential \<Rightarrow> (ClientAuthenticatorConfigError, unit) result" where
  "validate_credential credential =
     (if trim_is_empty (cc_client_id credential) then Inl (EmptyIdentity ''client_id'')
      else if trim_is_empty (cc_account_id credential) then Inl (EmptyIdentity ''account_id'')
      else bindR (validate_secret (as_bytes (cc_active_secret credential)) Active) (\<lambda>_.
        case cc_next_secret credential of
          None \<Rightarrow> Inr ()
        | Some next \<Rightarrow>
            bindR (validate_secret (as_bytes next) Next) (\<lambda>_.
            if fixed_work_eq (as_bytes (cc_active_secret credential)) (as_bytes next)
              then Inl IdenticalActiveAndNext
            else Inr ())))"

record ClientSecrets =
  sec_active :: "8 word list"
  sec_next :: "8 word list option"

type_synonym ConfiguredClientAuthenticator = "ClientId \<times> AccountId \<rightharpoonup> ClientSecrets"

primrec configure_credentials ::
  "ClientCredential list \<Rightarrow> ConfiguredClientAuthenticator \<Rightarrow>
   (ClientAuthenticatorConfigError, ConfiguredClientAuthenticator) result" where
  "configure_credentials [] configured = Inr configured"
| "configure_credentials (credential # credentials) configured =
     bindR (validate_credential credential) (\<lambda>_.
       let key = (cc_client_id credential, cc_account_id credential);
           secrets = \<lparr>sec_active = as_bytes (cc_active_secret credential),
             sec_next = map_option as_bytes (cc_next_secret credential)\<rparr>
       in if configured key \<noteq> None then Inl DuplicateCredential
          else configure_credentials credentials (configured(key \<mapsto> secrets)))"

definition ConfiguredClientAuthenticator_new ::
  "ClientCredential list \<Rightarrow> (ClientAuthenticatorConfigError, ConfiguredClientAuthenticator) result" where
  "ConfiguredClientAuthenticator_new credentials = configure_credentials credentials Map.empty"

definition authenticate ::
  "ConfiguredClientAuthenticator \<Rightarrow> ClientAuthenticationRequest \<Rightarrow>
   (ClientAuthenticationError, AuthenticatedClient) result" where
  "authenticate credentials request =
     (if trim_is_empty (car_client_id request) \<or> trim_is_empty (car_account_id request)
         \<or> car_token request = [] \<or> MAX_CLIENT_AUTH_TOKEN_BYTES < length (car_token request)
       then Inl AuthenticationRejected
      else let secrets = credentials (car_client_id request, car_account_id request);
          active = (case secrets of None \<Rightarrow> [] | Some secrets \<Rightarrow> sec_active secrets);
          next = (case Option.bind secrets sec_next of None \<Rightarrow> [] | Some bytes \<Rightarrow> bytes);
          active_matches = fixed_work_eq (as_bytes (car_token request)) active;
          next_matches = fixed_work_eq (as_bytes (car_token request)) next;
          identified = (\<lambda>epoch. \<lparr>ac_client_id = car_client_id request, ac_account_id = car_account_id request,
            ac_terminal_id = car_terminal_id request, ac_platform = car_platform request,
            ac_remote_addr = car_remote_addr request, ac_secret_epoch = epoch\<rparr>)
        in if secrets \<noteq> None \<and> active_matches then Inr (identified Active)
           else if secrets \<noteq> None \<and> Option.bind secrets sec_next \<noteq> None \<and> next_matches then Inr (identified Next)
           else Inl AuthenticationRejected)"

section \<open>The comparison is equality\<close>

lemma foldl_or_eq_0:
  "foldl (\<lambda>d i. d OR f i) (d :: 'a::len word) xs = 0 \<longleftrightarrow> d = 0 \<and> (\<forall>i \<in> set xs. f i = 0)"
  by (induction xs arbitrary: d) (auto simp: or_eq_0_iff)

lemma word_xor_eq_0: "(x :: 'a::len word) XOR y = 0 \<longleftrightarrow> x = y"
  by (auto simp: bit_eq_iff bit_xor_iff)

lemma ucast_byte_eq_0: "(ucast (b :: 8 word) :: 64 word) = 0 \<longleftrightarrow> b = 0"
proof -
  have "unat b < 2 ^ 64" by (rule less_trans [OF unsigned_less]) simp
  then have "unat (ucast b :: 64 word) = unat b" by (simp add: unsigned_ucast_eq take_bit_nat_eq_self)
  then show ?thesis by (metis unat_eq_0)
qed

lemma byte_at_eq:
  assumes "length left = length right" "length left \<le> n" "\<forall>i < n. byte_at left i = byte_at right i"
  shows "left = right"
  using assms by (intro nth_equalityI) (auto simp: byte_at_def split: if_splits)

lemma fixed_work_eq_iff:
  assumes "length left \<le> MAX_CLIENT_AUTH_TOKEN_BYTES" "length right \<le> MAX_CLIENT_AUTH_TOKEN_BYTES"
  shows "fixed_work_eq left right \<longleftrightarrow> left = right"
proof -
  have "(of_nat (length left) :: 64 word) = of_nat (length right) \<longleftrightarrow> length left = length right"
    using assms by (simp add: MAX_CLIENT_AUTH_TOKEN_BYTES_def word_of_nat_eq_iff take_bit_nat_eq_self)
  then have "fixed_work_eq left right \<longleftrightarrow> length left = length right
      \<and> (\<forall>i < MAX_CLIENT_AUTH_TOKEN_BYTES. byte_at left i = byte_at right i)"
    by (auto simp: fixed_work_eq_def foldl_or_eq_0 word_xor_eq_0 ucast_byte_eq_0)
  with assms byte_at_eq show ?thesis by blast
qed

lemma length_as_bytes [simp]: "length (as_bytes s) = length s"
  by (simp add: as_bytes_def)

lemma as_bytes_eq [simp]: "as_bytes s = as_bytes t \<longleftrightarrow> s = t"
proof -
  have "unat (of_char c :: 8 word) = of_char c" for c
  proof -
    have "unat (of_nat (of_char c) :: 8 word) = of_char c" by (simp add: unat_of_nat)
    then show ?thesis by (simp only: of_nat_of_char)
  qed
  then have "inj (of_char :: char \<Rightarrow> 8 word)" by (metis injI of_char_eq_iff)
  then show ?thesis by (simp add: as_bytes_def inj_map_eq_map)
qed

section \<open>What the authenticator accepts\<close>

lemma validate_credential_ok:
  assumes "validate_credential c = Inr ()"
  shows "\<not> trim_is_empty (cc_client_id c)" "\<not> trim_is_empty (cc_account_id c)"
    "cc_active_secret c \<noteq> []" "length (cc_active_secret c) \<le> MAX_CLIENT_AUTH_TOKEN_BYTES"
    "cc_next_secret c = Some next \<Longrightarrow>
       next \<noteq> [] \<and> length next \<le> MAX_CLIENT_AUTH_TOKEN_BYTES \<and> next \<noteq> cc_active_secret c"
  using assms fixed_work_eq_iff [of "as_bytes (cc_active_secret c)" "as_bytes next"]
  by (auto simp: validate_credential_def validate_secret_def as_bytes_def result_simps split: if_splits)

definition secrets_of :: "ClientCredential \<Rightarrow> ClientSecrets" where
  "secrets_of c = \<lparr>sec_active = as_bytes (cc_active_secret c), sec_next = map_option as_bytes (cc_next_secret c)\<rparr>"

text \<open>The configured map holds the credentials, each validated, one per client and account.\<close>

lemma configure_credentials_lookup:
  assumes "configure_credentials credentials configured = Inr A"
  shows "A key = Some secrets \<longleftrightarrow> configured key = Some secrets \<or>
      (\<exists>c \<in> set credentials. (cc_client_id c, cc_account_id c) = key \<and> secrets_of c = secrets)"
    and "\<forall>c \<in> set credentials. validate_credential c = Inr ()"
  using assms
proof (induction credentials arbitrary: configured)
  case (Cons c credentials)
  let ?key = "(cc_client_id c, cc_account_id c)"
  {
    case 1
    then have rest: "configure_credentials credentials (configured(?key \<mapsto> secrets_of c)) = Inr A" "configured ?key = None"
      by (auto simp: secrets_of_def Let_def result_simps split: if_splits)
    from Cons.IH(1) [OF rest(1)] rest(2) show ?case by (cases "key = ?key") auto
  next
    case 2
    then have "configure_credentials credentials (configured(?key \<mapsto> secrets_of c)) = Inr A" "validate_credential c = Inr ()"
      by (auto simp: secrets_of_def Let_def result_simps split: if_splits)
    with Cons.IH(2) show ?case by auto
  }
qed auto

lemma authenticator_lookup:
  assumes "ConfiguredClientAuthenticator_new credentials = Inr A"
  shows "A key = Some secrets \<longleftrightarrow>
      (\<exists>c \<in> set credentials. (cc_client_id c, cc_account_id c) = key \<and> secrets_of c = secrets)"
    and "c \<in> set credentials \<Longrightarrow> validate_credential c = Inr ()"
  using configure_credentials_lookup [OF assms [unfolded ConfiguredClientAuthenticator_new_def]] by auto

text \<open>The credential that a secret belongs to, with its epoch.\<close>

definition secret_epoch_of :: "ClientCredential \<Rightarrow> string \<Rightarrow> ClientSecretEpoch option" where
  "secret_epoch_of c token =
     (if token = cc_active_secret c then Some Active else if cc_next_secret c = Some token then Some Next else None)"

definition identified_as :: "ClientAuthenticationRequest \<Rightarrow> ClientSecretEpoch \<Rightarrow> AuthenticatedClient" where
  "identified_as request epoch =
     \<lparr>ac_client_id = car_client_id request, ac_account_id = car_account_id request,
      ac_terminal_id = car_terminal_id request, ac_platform = car_platform request,
      ac_remote_addr = car_remote_addr request, ac_secret_epoch = epoch\<rparr>"

lemma authenticate_unknown:
  "A (car_client_id request, car_account_id request) = None \<Longrightarrow> authenticate A request = Inl AuthenticationRejected"
  by (simp add: authenticate_def Let_def)

lemma authenticate_known:
  assumes valid: "validate_credential c = Inr ()"
    and key: "car_client_id request = cc_client_id c" "car_account_id request = cc_account_id c"
    and known: "A (cc_client_id c, cc_account_id c) = Some (secrets_of c)"
  shows "authenticate A request = (case secret_epoch_of c (car_token request) of
      None \<Rightarrow> Inl AuthenticationRejected | Some epoch \<Rightarrow> Inr (identified_as request epoch))"
proof (cases "car_token request = [] \<or> MAX_CLIENT_AUTH_TOKEN_BYTES < length (car_token request)")
  case True
  then have "secret_epoch_of c (car_token request) = None"
    using validate_credential_ok(3,4) [OF valid] validate_credential_ok(5) [OF valid, of "car_token request"]
    by (auto simp: secret_epoch_of_def)
  with True show ?thesis by (simp add: authenticate_def)
next
  case False
  then have compare: "fixed_work_eq (as_bytes (car_token request)) (as_bytes s) \<longleftrightarrow> car_token request = s"
    if "length s \<le> MAX_CLIENT_AUTH_TOKEN_BYTES" for s
    using that fixed_work_eq_iff [of "as_bytes (car_token request)" "as_bytes s"] by simp
  show ?thesis
    using False valid key known compare [OF validate_credential_ok(4) [OF valid]]
      validate_credential_ok(1,2) [OF valid] validate_credential_ok(5) [OF valid] compare
    by (cases "cc_next_secret c")
      (simp_all add: authenticate_def secrets_of_def secret_epoch_of_def identified_as_def Let_def)
qed

text \<open>C36: authentication is exact. With an authenticator built from a list of credentials, a request is
  accepted exactly when its token is the ACTIVE or the NEXT secret configured for its client and
  account, the epoch it reports is that of the secret, and the identity it returns is the one of the
  request; every other request gets the one error there is.\<close>

theorem authentication_exact:
  assumes "ConfiguredClientAuthenticator_new credentials = Inr A"
  shows "authenticate A request = Inr client \<longleftrightarrow>
      (\<exists>c epoch. c \<in> set credentials \<and> cc_client_id c = car_client_id request \<and> cc_account_id c = car_account_id request
        \<and> secret_epoch_of c (car_token request) = Some epoch \<and> client = identified_as request epoch)"
proof (cases "A (car_client_id request, car_account_id request)")
  case None
  with authenticator_lookup(1) [OF assms, of "(car_client_id request, car_account_id request)"] show ?thesis
    by (auto simp: authenticate_unknown)
next
  case (Some secrets)
  with authenticator_lookup(1) [OF assms] obtain c where c: "c \<in> set credentials" "secrets = secrets_of c"
    and key: "car_client_id request = cc_client_id c" "car_account_id request = cc_account_id c"
    by (metis prod.inject)
  have "secrets_of d = secrets_of c" if "d \<in> set credentials" "cc_client_id d = cc_client_id c" "cc_account_id d = cc_account_id c" for d
  proof -
    from that have "A (cc_client_id c, cc_account_id c) = Some (secrets_of d)"
      unfolding authenticator_lookup(1) [OF assms] by auto
    with Some c(2) key show ?thesis by simp
  qed
  then have same: "secret_epoch_of d token = secret_epoch_of c token"
    if "d \<in> set credentials" "cc_client_id d = cc_client_id c" "cc_account_id d = cc_account_id c" for d token
    using that by (fastforce simp: secret_epoch_of_def secrets_of_def map_option_case split: option.splits)
  have known: "authenticate A request = (case secret_epoch_of c (car_token request) of
      None \<Rightarrow> Inl AuthenticationRejected | Some epoch \<Rightarrow> Inr (identified_as request epoch))"
    by (rule authenticate_known [OF authenticator_lookup(2) [OF assms c(1)] key]) (use Some c(2) key in simp)
  show ?thesis
  proof
    assume "authenticate A request = Inr client"
    then obtain epoch where "secret_epoch_of c (car_token request) = Some epoch" "client = identified_as request epoch"
      unfolding known by (auto split: option.splits)
    with c(1) key show "\<exists>c epoch. c \<in> set credentials \<and> cc_client_id c = car_client_id request
        \<and> cc_account_id c = car_account_id request \<and> secret_epoch_of c (car_token request) = Some epoch
        \<and> client = identified_as request epoch" by metis
  next
    assume "\<exists>d epoch. d \<in> set credentials \<and> cc_client_id d = car_client_id request
        \<and> cc_account_id d = car_account_id request \<and> secret_epoch_of d (car_token request) = Some epoch
        \<and> client = identified_as request epoch"
    then obtain d epoch where d: "d \<in> set credentials" "cc_client_id d = cc_client_id c" "cc_account_id d = cc_account_id c"
      and epoch: "secret_epoch_of d (car_token request) = Some epoch" "client = identified_as request epoch"
      using key by metis
    with same [OF d] show "authenticate A request = Inr client" by (simp add: known)
  qed
qed

definition sample_credential :: ClientCredential where
  "sample_credential = \<lparr>cc_client_id = ''c'', cc_account_id = ''a'', cc_active_secret = ''old'', cc_next_secret = Some ''new''\<rparr>"

definition sample_auth_request :: ClientAuthenticationRequest where
  "sample_auth_request = \<lparr>car_client_id = ''c'', car_account_id = ''a'', car_terminal_id = None, car_platform = Mt5,
     car_token = ''new'', car_remote_addr = None\<rparr>"

lemma sample_authenticator:
  "ConfiguredClientAuthenticator_new [sample_credential] = Inr [(''c'', ''a'') \<mapsto> secrets_of sample_credential]"
proof -
  have "fixed_work_eq (as_bytes ''old'') (as_bytes ''new'') = (as_bytes ''old'' = as_bytes ''new'')"
    by (intro fixed_work_eq_iff) (simp_all add: MAX_CLIENT_AUTH_TOKEN_BYTES_def)
  then show ?thesis
    by (simp add: ConfiguredClientAuthenticator_new_def validate_credential_def sample_credential_def secrets_of_def
      validate_secret_def MAX_CLIENT_AUTH_TOKEN_BYTES_def trim_is_empty_def ws1_def)
      (simp add: as_bytes_def)
qed

theorem authentication_exact_witness:
  "authenticate [(''c'', ''a'') \<mapsto> secrets_of sample_credential] sample_auth_request =
     Inr (identified_as sample_auth_request Next)"
  unfolding authentication_exact [OF sample_authenticator]
  by (intro exI [of _ sample_credential] exI [of _ Next])
    (simp add: sample_credential_def sample_auth_request_def secret_epoch_of_def)

end
