(* ===== verification/Outbound_Adapter.thy ===== *)
theory Outbound_Adapter
  imports Delivery_Commits Gateway_Validation Gateway_Auth Live_Registry "HOL-Library.Multiset"
begin

text \<open>
  The gateway's outbound adapter (\<open>crates/gateway/src/outbound.rs\<close>): a request is prepared in one transaction
  of the store, claimed in a second, handed to the live transport, and completed in a third; a request
  that was seen before is answered from what is stored. The configuration, \<open>serde_json\<close> and the texts of
  errors are the record \<open>outbound_env\<close>; the clock's readings are arguments.
\<close>

section \<open>Environment\<close>

record 'a outbound_env =
  oe_json :: store_json
  oe_max_time_sync_age_ms :: u64
  oe_confirmation_timeout_ms :: u64
  oe_message_value :: "'a WireMessage \<Rightarrow> (string, json_tree) result"
  oe_request_value :: "'a DeliveryRequest \<Rightarrow> (string, json_tree) result"
  oe_from_str :: "string \<Rightarrow> (string, 'a WireMessage) result"
  oe_same_payload :: "'a \<Rightarrow> 'a \<Rightarrow> bool"
  oe_store_error :: "StoreError \<Rightarrow> string"
  oe_envelope_error :: "EnvelopeValidationError \<Rightarrow> string"

definition infrastructure :: "string \<Rightarrow> DeliveryInfrastructureError" where
  "infrastructure error = DeliveryInfrastructureError error"

record GatewayOutboundConfig =
  goc_confirmation_timeout_ms :: u64

definition GatewayOutboundConfig_validate :: "GatewayOutboundConfig \<Rightarrow> (DeliveryInfrastructureError, GatewayOutboundConfig) result" where
  "GatewayOutboundConfig_validate config =
     (if goc_confirmation_timeout_ms config = 0
        then Inl (infrastructure ''gateway timeout configuration must be greater than zero'')
      else if i64_max < int (goc_confirmation_timeout_ms config)
        then Inl (infrastructure ''gateway timeout configuration exceeds the server-time domain'')
      else Inr config)"

text \<open>A transaction of the store, with its errors as the adapter reports them.\<close>

definition storeT :: "'a outbound_env \<Rightarrow> ('s, 'v) tx \<Rightarrow> ('s, DeliveryInfrastructureError, 'v) transaction" where
  "storeT E m = (\<lambda>db. map_err (\<lambda>e. infrastructure (oe_store_error E e)) (m db))"

definition from_serializable :: "'a outbound_env \<Rightarrow> (string, json_tree) result \<Rightarrow> (DeliveryInfrastructureError, CanonicalJson) result" where
  "from_serializable E v = map_err infrastructure (bindR v (json_from_value (oe_json E)))"

definition i64_try_from :: "u64 \<Rightarrow> (DeliveryInfrastructureError, i64) result" where
  "i64_try_from n = (if int n \<le> i64_max then Inr (int n)
     else Inl (infrastructure ''out of range integral type conversion attempted''))"

definition saturating_sub :: "i64 \<Rightarrow> i64 \<Rightarrow> i64" where
  "saturating_sub a b = max i64_min (min i64_max (a - b))"

text \<open>\<open>str::parse\<close> for \<open>u64\<close> and \<open>usize\<close>.\<close>

primrec parse_digits_u64 :: "nat \<Rightarrow> string \<Rightarrow> nat option" where
  "parse_digits_u64 acc [] = Some acc"
| "parse_digits_u64 acc (c # cs) = (case char_digit c of
     None \<Rightarrow> None
   | Some d \<Rightarrow> if acc * 10 + d \<le> u64_max then parse_digits_u64 (acc * 10 + d) cs else None)"

definition parse_u64 :: "string \<Rightarrow> u64 option" where
  "parse_u64 s = (let digits = (case s of c # cs \<Rightarrow> if c = CHR ''+'' then cs else s | [] \<Rightarrow> [])
     in if digits = [] then None else parse_digits_u64 0 digits)"

section \<open>Rejections\<close>

definition attempt_id :: "MessageId \<Rightarrow> string" where
  "attempt_id message_id = ''attempt:'' @ message_id"

fun rejection_attempt_status :: "DeliveryRejectionReason \<Rightarrow> CommandDeliveryAttemptStatus" where
  "rejection_attempt_status (DeliveryRejectionReason.Backpressure _) = CommandDeliveryAttemptStatus.Backpressure"
| "rejection_attempt_status (DeliveryRejectionReason.InflightLimit _) = CommandDeliveryAttemptStatus.Backpressure"
| "rejection_attempt_status DeliveryRejectionReason.Expired = CommandDeliveryAttemptStatus.Cancelled"
| "rejection_attempt_status (DeliveryRejectionReason.IdentityMismatch _) = CommandDeliveryAttemptStatus.Failed"
| "rejection_attempt_status (DeliveryRejectionReason.TransportRejected _) = CommandDeliveryAttemptStatus.Failed"
| "rejection_attempt_status DeliveryRejectionReason.NoActiveSession = CommandDeliveryAttemptStatus.NoActiveSession"
| "rejection_attempt_status (DeliveryRejectionReason.AmbiguousRoute _) = CommandDeliveryAttemptStatus.NoActiveSession"
| "rejection_attempt_status DeliveryRejectionReason.ClockUnhealthy = CommandDeliveryAttemptStatus.NoActiveSession"

fun rejection_label :: "DeliveryRejectionReason \<Rightarrow> string" where
  "rejection_label DeliveryRejectionReason.NoActiveSession = ''NO_ACTIVE_SESSION''"
| "rejection_label (DeliveryRejectionReason.AmbiguousRoute candidate_count) = ''AMBIGUOUS_ROUTE:'' @ show_decimal candidate_count"
| "rejection_label DeliveryRejectionReason.ClockUnhealthy = ''TIME_SYNC_UNHEALTHY''"
| "rejection_label DeliveryRejectionReason.Expired = ''COMMAND_EXPIRED''"
| "rejection_label (DeliveryRejectionReason.IdentityMismatch field) = ''SESSION_IDENTITY_MISMATCH:'' @ field"
| "rejection_label (DeliveryRejectionReason.Backpressure queue_depth) = ''COMMAND_DISPATCH_BACKPRESSURE:'' @ show_decimal queue_depth"
| "rejection_label (DeliveryRejectionReason.InflightLimit limit) = ''COMMAND_INFLIGHT_LIMIT_REACHED:'' @ show_decimal limit"
| "rejection_label (DeliveryRejectionReason.TransportRejected reason) = TRANSPORT_ACK_REJECTED_PREFIX @ reason"

definition identity_field :: "string \<Rightarrow> string option" where
  "identity_field field = (if field \<in> set identity_fields then Some field else None)"

definition rejection_reason_from_attempt ::
  "StoredDeliveryAttempt \<Rightarrow> (DeliveryInfrastructureError, DeliveryRejectionReason) result" where
  "rejection_reason_from_attempt attempt =
     (let label = (case da_error attempt of None \<Rightarrow> [] | Some e \<Rightarrow> e) in
      case da_status attempt of
        CommandDeliveryAttemptStatus.NoActiveSession \<Rightarrow>
          if label = ''NO_ACTIVE_SESSION'' \<or> label = DELIVERY_ERROR_SESSION_UNAVAILABLE
            then Inr DeliveryRejectionReason.NoActiveSession
          else if label = ''TIME_SYNC_UNHEALTHY'' \<or> label = DELIVERY_ERROR_CLOCK_UNHEALTHY
            then Inr DeliveryRejectionReason.ClockUnhealthy
          else (case Option.bind (strip_prefix ''AMBIGUOUS_ROUTE:'' label) parse_u64 of
            Some candidate_count \<Rightarrow> Inr (DeliveryRejectionReason.AmbiguousRoute candidate_count)
          | None \<Rightarrow> Inl (infrastructure ''unknown durable route rejection reason''))
      | CommandDeliveryAttemptStatus.Failed \<Rightarrow>
          (case Option.bind (strip_prefix ''SESSION_IDENTITY_MISMATCH:'' label) identity_field of
            Some field \<Rightarrow> Inr (DeliveryRejectionReason.IdentityMismatch field)
          | None \<Rightarrow> Inl (infrastructure ''unknown durable identity rejection reason''))
      | CommandDeliveryAttemptStatus.Backpressure \<Rightarrow>
          (case Option.bind (strip_prefix ''COMMAND_INFLIGHT_LIMIT_REACHED:'' label) parse_u64 of
            Some limit \<Rightarrow> Inr (DeliveryRejectionReason.InflightLimit limit)
          | None \<Rightarrow> Inl (infrastructure ''unknown durable inflight rejection reason''))
      | CommandDeliveryAttemptStatus.Cancelled \<Rightarrow>
          if label = DELIVERY_ERROR_COMMAND_EXPIRED then Inr DeliveryRejectionReason.Expired
          else Inl (infrastructure ''durable attempt is not an unbound delivery rejection'')
      | _ \<Rightarrow> Inl (infrastructure ''durable attempt is not an unbound delivery rejection''))"

definition rejected_request_payload :: "'a outbound_env \<Rightarrow> 'a DeliveryRequest \<Rightarrow> (DeliveryInfrastructureError, CanonicalJson) result" where
  "rejected_request_payload E request = from_serializable E (oe_request_value E request)"

definition is_identity_mismatch :: "(DeliveryRejectionReason, unit) result \<Rightarrow> bool" where
  "is_identity_mismatch validation \<longleftrightarrow> (case validation of Inl (DeliveryRejectionReason.IdentityMismatch _) \<Rightarrow> True | _ \<Rightarrow> False)"

definition rejection_of :: "StoredDeliveryAttempt \<Rightarrow> MessageId \<Rightarrow> DeliveryRejectionReason \<Rightarrow> DeliveryOutcome" where
  "rejection_of attempt message_id reason = DeliveryOutcome.Rejected \<lparr>drj_attempt_id = da_attempt_id attempt,
     drj_message_id = message_id, drj_session_id = da_session_id attempt, drj_rejected_at = da_attempted_at attempt,
     drj_reason = reason\<rparr>"

definition replay_rejection ::
  "StoredDeliveryAttempt \<Rightarrow> DeliverySubject \<Rightarrow> MessageId \<Rightarrow> CanonicalJson \<Rightarrow> (DeliveryRejectionReason, unit) result \<Rightarrow>
   (DeliveryInfrastructureError, DeliveryOutcome) result" where
  "replay_rejection existing subject message_id request_payload validation =
     (if da_subject existing \<noteq> subject \<or> da_attempt_id existing \<noteq> attempt_id message_id
        \<or> da_message_id existing \<noteq> None \<or> da_request_payload existing \<noteq> Some request_payload
        then Inl (infrastructure ''message_id replay conflicts with its durable rejection subject or payload'')
      else bindR (rejection_reason_from_attempt existing) (\<lambda>reason.
        if is_identity_mismatch validation \<and> validation \<noteq> Inl reason
          then Inl (infrastructure ''replayed rejected request contains drifting identity'')
        else Inr (rejection_of existing message_id reason)))"

text \<open>\<open>record_rejection\<close> up to the commit of its transaction.\<close>

definition record_rejection ::
  "'a outbound_env \<Rightarrow> DeliverySubject \<Rightarrow> MessageId \<Rightarrow> SessionId option \<Rightarrow> CanonicalJson \<Rightarrow> i64 \<Rightarrow> DeliveryRejectionReason \<Rightarrow>
   (delivery_db, DeliveryInfrastructureError, DeliveryOutcome) transaction" where
  "record_rejection E subject message_id session_id request_payload rejected_at reason =
     bindT (storeT E (record_delivery_attempt_on (oe_json E) \<lparr>nda_attempt_id = attempt_id message_id, nda_subject = subject,
       nda_session_id = session_id, nda_message_id = None, nda_request_payload = Some request_payload,
       nda_status = rejection_attempt_status reason, nda_attempted_at = rejected_at, nda_acked_at = None,
       nda_error = Some (rejection_label reason), nda_updated_at = rejected_at\<rparr>)) (\<lambda>written.
     let stored = into_record written in
     returnT (DeliveryOutcome.Rejected \<lparr>drj_attempt_id = da_attempt_id stored, drj_message_id = message_id,
       drj_session_id = session_id, drj_rejected_at = da_attempted_at stored, drj_reason = reason\<rparr>))"

section \<open>Stored deliveries\<close>

definition is_stale_outbound :: "StoreError \<Rightarrow> bool" where
  "is_stale_outbound e \<longleftrightarrow> (case e of StaleWrite entity _ \<Rightarrow> entity = ''outbound_delivery'' | _ \<Rightarrow> False)"

definition next_projection_time :: "i64 \<Rightarrow> i64 \<Rightarrow> i64" where
  "next_projection_time now previous = max now previous"

definition transport_rejection_reason :: "StoredOutboundDelivery \<Rightarrow> string option" where
  "transport_rejection_reason existing =
     Option.bind (wo_last_error (sod_outbox existing)) (\<lambda>e.
     Option.bind (strip_prefix TRANSPORT_ACK_REJECTED_PREFIX e) (\<lambda>reason.
     if trim_is_empty reason then None else Some reason))"

definition rsplit_once_space :: "string \<Rightarrow> string option" where
  "rsplit_once_space s = (if CHR '' '' \<in> set s then Some (rev (takeWhile (\<lambda>c. c \<noteq> CHR '' '') (rev s))) else None)"

definition parse_queue_depth :: "string \<Rightarrow> usize option" where
  "parse_queue_depth error = Option.bind (rsplit_once_space error) parse_u64"

definition delivery_error :: "StoredOutboundDelivery \<Rightarrow> string \<Rightarrow> string" where
  "delivery_error existing fallback = (case da_error (sod_attempt existing) of
     Some e \<Rightarrow> e
   | None \<Rightarrow> (case wo_last_error (sod_outbox existing) of Some e \<Rightarrow> e | None \<Rightarrow> fallback))"

definition sent_outcome :: "StoredOutboundDelivery \<Rightarrow> u64 \<Rightarrow> (DeliveryInfrastructureError, DeliveryOutcome) result" where
  "sent_outcome existing confirmation_timeout_ms = (let outbox = sod_outbox existing in
     case wo_session_id outbox of None \<Rightarrow> Inl (infrastructure ''sent replay has no session_id'')
   | Some session_id \<Rightarrow>
     (case wo_sequence outbox of None \<Rightarrow> Inl (infrastructure ''sent replay has no sequence'')
      | Some sequence \<Rightarrow>
        let sent_at = (case wo_sent_at outbox of Some t \<Rightarrow> t | None \<Rightarrow> wo_updated_at outbox) in
        bindR (i64_try_from confirmation_timeout_ms) (\<lambda>confirmation_timeout.
        case checked_add_i64 sent_at confirmation_timeout of
          None \<Rightarrow> Inl (infrastructure ''delivery confirmation deadline overflow'')
        | Some confirmation_deadline_at \<Rightarrow> Inr (DeliveryOutcome.Sent \<lparr>dre_attempt_id = da_attempt_id (sod_attempt existing),
            dre_message_id = wo_message_id outbox, dre_session_id = session_id, dre_sequence = sequence,
            dre_sent_at = sent_at, dre_confirmation_deadline_at = confirmation_deadline_at\<rparr>))))"

definition unconfirmed_outcome :: "StoredOutboundDelivery \<Rightarrow> i64 \<Rightarrow> DeliveryOutcome" where
  "unconfirmed_outcome existing observed_at = DeliveryOutcome.Unconfirmed
     \<lparr>dun_attempt_id = da_attempt_id (sod_attempt existing), dun_message_id = wo_message_id (sod_outbox existing),
      dun_session_id = wo_session_id (sod_outbox existing), dun_sequence = wo_sequence (sod_outbox existing),
      dun_write_started_at = wo_created_at (sod_outbox existing), dun_observed_at = observed_at,
      dun_error = delivery_error existing ''WRITE_STARTED_RECOVERY_REQUIRED''\<rparr>"

definition rejected_as :: "StoredOutboundDelivery \<Rightarrow> i64 \<Rightarrow> DeliveryRejectionReason \<Rightarrow> DeliveryOutcome" where
  "rejected_as existing rejected_at reason = DeliveryOutcome.Rejected
     \<lparr>drj_attempt_id = da_attempt_id (sod_attempt existing), drj_message_id = wo_message_id (sod_outbox existing),
      drj_session_id = wo_session_id (sod_outbox existing), drj_rejected_at = rejected_at, drj_reason = reason\<rparr>"

definition failed_as :: "StoredOutboundDelivery \<Rightarrow> string \<Rightarrow> DeliveryOutcome" where
  "failed_as existing error = DeliveryOutcome.DefinitelyNotWritten
     \<lparr>dfa_attempt_id = da_attempt_id (sod_attempt existing), dfa_message_id = wo_message_id (sod_outbox existing),
      dfa_session_id = wo_session_id (sod_outbox existing), dfa_failed_at = da_updated_at (sod_attempt existing),
      dfa_error = error\<rparr>"

definition cancelled_outcome :: "StoredOutboundDelivery \<Rightarrow> DeliveryOutcome" where
  "cancelled_outcome existing = (let error = delivery_error existing ''DELIVERY_CANCELLED_BEFORE_WRITE'' in
     if error = DELIVERY_ERROR_COMMAND_EXPIRED
       then rejected_as existing (da_updated_at (sod_attempt existing)) DeliveryRejectionReason.Expired
     else failed_as existing error)"

definition unavailable_outcome :: "StoredOutboundDelivery \<Rightarrow> DeliveryOutcome" where
  "unavailable_outcome existing = rejected_as existing (da_updated_at (sod_attempt existing))
     (if da_error (sod_attempt existing) = Some DELIVERY_ERROR_CLOCK_UNHEALTHY
        \<or> wo_last_error (sod_outbox existing) = Some DELIVERY_ERROR_CLOCK_UNHEALTHY
      then DeliveryRejectionReason.ClockUnhealthy else DeliveryRejectionReason.NoActiveSession)"

text \<open>The arms of the \<open>match\<close>, in their order.\<close>

definition durable_delivery_outcome ::
  "StoredOutboundDelivery \<Rightarrow> i64 \<Rightarrow> u64 \<Rightarrow> (DeliveryInfrastructureError, DeliveryOutcome) result" where
  "durable_delivery_outcome existing observed_at confirmation_timeout_ms =
     (let w = wo_status (sod_outbox existing); s = da_status (sod_attempt existing) in
      if w \<in> {WireOutboxStatus.WriteStarted, WireOutboxStatus.Sent, WireOutboxStatus.Acked, WireOutboxStatus.Failed}
        \<and> s = CommandDeliveryAttemptStatus.Acked
        then sent_outcome existing confirmation_timeout_ms
      else if w = WireOutboxStatus.Failed \<and> s \<in> {CommandDeliveryAttemptStatus.Pending, CommandDeliveryAttemptStatus.Sent,
          CommandDeliveryAttemptStatus.Failed, CommandDeliveryAttemptStatus.Unconfirmed}
        \<and> transport_rejection_reason existing \<noteq> None
        then Inr (rejected_as existing (max (wo_updated_at (sod_outbox existing)) (da_updated_at (sod_attempt existing)))
          (DeliveryRejectionReason.TransportRejected (the (transport_rejection_reason existing))))
      else if w = WireOutboxStatus.WriteStarted \<and> s = CommandDeliveryAttemptStatus.Pending
        \<or> w \<in> {WireOutboxStatus.WriteStarted, WireOutboxStatus.Sent, WireOutboxStatus.Acked, WireOutboxStatus.Failed}
          \<and> s = CommandDeliveryAttemptStatus.Unconfirmed
        then Inr (unconfirmed_outcome existing observed_at)
      else if w = WireOutboxStatus.Sent \<and> s = CommandDeliveryAttemptStatus.Sent
        \<or> w = WireOutboxStatus.Acked \<and> s \<in> {CommandDeliveryAttemptStatus.Pending, CommandDeliveryAttemptStatus.Sent,
            CommandDeliveryAttemptStatus.Backpressure, CommandDeliveryAttemptStatus.Failed}
        then sent_outcome existing confirmation_timeout_ms
      else if w = WireOutboxStatus.Failed \<and> s = CommandDeliveryAttemptStatus.Backpressure
        then Inr (rejected_as existing (da_updated_at (sod_attempt existing))
          (DeliveryRejectionReason.Backpressure (case Option.bind (da_error (sod_attempt existing)) parse_queue_depth of
             Some queue_depth \<Rightarrow> queue_depth | None \<Rightarrow> 0)))
      else if w = WireOutboxStatus.Failed \<and> s = CommandDeliveryAttemptStatus.Failed
        then Inr (failed_as existing (delivery_error existing ''TRANSPORT_WRITE_FAILED''))
      else if w = WireOutboxStatus.Cancelled \<and> s = CommandDeliveryAttemptStatus.Cancelled
        then Inr (cancelled_outcome existing)
      else if w = WireOutboxStatus.Cancelled \<and> s = CommandDeliveryAttemptStatus.NoActiveSession
        then Inr (unavailable_outcome existing)
      else Inl (infrastructure (''inconsistent replay state outbox='' @ enum_as_str WireOutboxStatus_table w
        @ '' attempt='' @ enum_as_str CommandDeliveryAttemptStatus_table s)))"

section \<open>Preparation\<close>

definition bind_wire_message ::
  "'a WireMessage \<Rightarrow> OutboundReservation \<Rightarrow> i64 \<Rightarrow> (DeliveryInfrastructureError, 'a WireMessage) result" where
  "bind_wire_message message reservation sent_at =
     (if trim_is_empty (or_account_id reservation) \<or> trim_is_empty (or_client_id reservation) \<or> or_sequence reservation < 2
        then Inl (infrastructure ''invalid outbound reservation identity'')
      else Inr (message\<lparr>wm_client_id := Some (or_client_id reservation), wm_session_id := Some (or_session_id reservation),
        wm_sequence := Some (or_sequence reservation), wm_sent_at := Some sent_at\<rparr>))"

definition validate_existing_delivery ::
  "'a outbound_env \<Rightarrow> 'a DeliveryRequest \<Rightarrow> DeliverySubject \<Rightarrow> StoredOutboundDelivery \<Rightarrow>
   (DeliveryInfrastructureError, unit) result" where
  "validate_existing_delivery E request subject existing =
     bindR (map_err (\<lambda>e. infrastructure (''stored replay envelope is invalid: '' @ e))
       (oe_from_str E (cj_text (wo_payload (sod_outbox existing))))) (\<lambda>stored.
     let outbox = sod_outbox existing; message = dr_message request;
       subject_matches = (da_subject (sod_attempt existing) = subject \<and> wo_command_id outbox = subject_command_id subject
         \<and> wo_request_id outbox = subject_request_id subject);
       envelope_matches = (wm_message_id stored = wm_message_id message \<and> wm_message_type stored = wm_message_type message
         \<and> wm_schema_version stored = wm_schema_version message \<and> wm_correlation_id stored = wm_correlation_id message
         \<and> wm_causation_id stored = wm_causation_id message \<and> oe_same_payload E (wm_payload stored) (wm_payload message)
         \<and> (case dr_client_id request of None \<Rightarrow> True | Some client_id \<Rightarrow> wm_client_id stored = Some client_id))
     in if \<not> subject_matches \<or> \<not> envelope_matches \<or> da_attempt_id (sod_attempt existing) \<noteq> attempt_id (wm_message_id message)
       then Inl (infrastructure ''message_id replay conflicts with its durable subject or payload'')
     else Inr ())"

text \<open>How the transaction of \<open>prepare_and_write\<close> ends: with an outcome, with a delivery that was stored
  before (\<open>resume_existing\<close>), or with one that is stored now (\<open>write_prepared\<close>).\<close>

datatype preparation = Answered DeliveryOutcome | Existing StoredOutboundDelivery | Prepared StoredOutboundDelivery

definition reservation_rejection :: "SequenceReservation \<Rightarrow> DeliveryRejectionReason" where
  "reservation_rejection reservation = (case reservation of
     SequenceReservation.ClockUnhealthy \<Rightarrow> DeliveryRejectionReason.ClockUnhealthy
   | SequenceReservation.Expired \<Rightarrow> DeliveryRejectionReason.Expired
   | SequenceReservation.IdentityMismatch field \<Rightarrow> DeliveryRejectionReason.IdentityMismatch field
   | SequenceReservation.InflightLimit _ _ limit \<Rightarrow> DeliveryRejectionReason.InflightLimit limit
   | _ \<Rightarrow> DeliveryRejectionReason.NoActiveSession)"

definition enqueue_prepared ::
  "'a outbound_env \<Rightarrow> 'a DeliveryRequest \<Rightarrow> OutboundReservation \<Rightarrow> i64 \<Rightarrow>
   (delivery_db, DeliveryInfrastructureError, StoredOutboundDelivery) transaction" where
  "enqueue_prepared E request reservation now =
     bindT (liftT (bind_wire_message (dr_message request) reservation now)) (\<lambda>message.
     bindT (liftT (map_err (\<lambda>e. infrastructure (oe_envelope_error E e)) (WireMessage_validate message SUPPORTED_SCHEMA_VERSION))) (\<lambda>_.
     bindT (liftT (from_serializable E (oe_message_value E message))) (\<lambda>envelope.
     storeT E (enqueue_reserved_delivery_on (oe_json E) \<lparr>nrd_reservation = reservation,
       nrd_attempt_id = attempt_id (wm_message_id (dr_message request)), nrd_message_id = wm_message_id (dr_message request),
       nrd_message_type = message_type_as_str (wm_message_type message), nrd_envelope = envelope, nrd_created_at = now\<rparr>))))"

definition reserve_and_prepare ::
  "'a outbound_env \<Rightarrow> 'a DeliveryRequest \<Rightarrow> DeliverySubject \<Rightarrow> i64 \<Rightarrow> i64 \<Rightarrow> CanonicalJson \<Rightarrow> StoredSessionRecord \<Rightarrow>
   (delivery_db, DeliveryInfrastructureError, preparation) transaction" where
  "reserve_and_prepare E request subject fresh_after now request_payload session =
     bindT (storeT E (reserve_outbound_sequence_on (oe_json E) \<lparr>ros_session_id = ss_session_id session,
       ros_expected_revision = ss_revision session, ros_subject = subject, ros_fresh_after = fresh_after,
       ros_reserved_at = now\<rparr>)) (\<lambda>reservation. case reservation of
         SequenceReservation.Reserved r \<Rightarrow> bindT (enqueue_prepared E request r now) (\<lambda>prepared. returnT (Prepared prepared))
       | _ \<Rightarrow> bindT (record_rejection E subject (wm_message_id (dr_message request)) (Some (ss_session_id session))
           request_payload now (reservation_rejection reservation)) (\<lambda>outcome. returnT (Answered outcome)))"

definition route_and_prepare ::
  "'a outbound_env \<Rightarrow> 'a DeliveryRequest \<Rightarrow> DeliverySubject \<Rightarrow> bool \<Rightarrow> i64 \<Rightarrow> i64 \<Rightarrow> CanonicalJson \<Rightarrow>
   (delivery_db, DeliveryInfrastructureError, preparation) transaction" where
  "route_and_prepare E request subject require_synced_clock fresh_after now request_payload =
     (let reject = (\<lambda>reason. bindT (record_rejection E subject (wm_message_id (dr_message request)) None request_payload now reason)
        (\<lambda>outcome. returnT (Answered outcome))) in
      bindT (storeT E (resolve_session_route_on (oe_json E) \<lparr>srq_account_id = dr_account_id request,
        srq_client_id = dr_client_id request, srq_terminal_id = dr_terminal_id request, srq_fresh_after = fresh_after,
        srq_require_synced_clock = require_synced_clock\<rparr>)) (\<lambda>resolution. case resolution of
          SessionRouteResolution.Ready session \<Rightarrow>
            reserve_and_prepare E request subject fresh_after now request_payload session
        | SessionRouteResolution.NoActiveSession \<Rightarrow> reject DeliveryRejectionReason.NoActiveSession
        | SessionRouteResolution.Stale _ \<Rightarrow> reject DeliveryRejectionReason.NoActiveSession
        | SessionRouteResolution.ClockUnhealthy _ \<Rightarrow> reject DeliveryRejectionReason.ClockUnhealthy
        | SessionRouteResolution.Ambiguous candidate_count \<Rightarrow> reject (DeliveryRejectionReason.AmbiguousRoute candidate_count)))"

definition prepare_delivery ::
  "'a outbound_env \<Rightarrow> 'a DeliveryRequest \<Rightarrow> DeliverySubject \<Rightarrow> bool \<Rightarrow> i64 \<Rightarrow> (DeliveryRejectionReason, unit) result \<Rightarrow>
   (delivery_db, DeliveryInfrastructureError, preparation) transaction" where
  "prepare_delivery E request subject require_synced_clock now validation =
     (let message_id = wm_message_id (dr_message request) in
      bindT (liftT (rejected_request_payload E request)) (\<lambda>request_payload.
      bindT (liftT (i64_try_from (oe_max_time_sync_age_ms E))) (\<lambda>heartbeat_timeout.
      let fresh_after = saturating_sub now heartbeat_timeout in
      bindT (storeT E (fetch_outbound_delivery (oe_json E) message_id)) (\<lambda>delivery. case delivery of
        Some existing \<Rightarrow>
          bindT (liftT (validate_existing_delivery E request subject existing)) (\<lambda>_.
          if is_identity_mismatch validation
            then throwT (infrastructure ''replayed delivery request contains pre-bound or drifting identity'')
          else returnT (Existing existing))
      | None \<Rightarrow>
      bindT (storeT E (fetch_delivery_attempt_by_id (oe_json E) (attempt_id message_id))) (\<lambda>attempt. case attempt of
        Some existing \<Rightarrow>
          bindT (liftT (replay_rejection existing subject message_id request_payload validation))
            (\<lambda>outcome. returnT (Answered outcome))
      | None \<Rightarrow> (case validation of
        Inl reason \<Rightarrow>
          bindT (record_rejection E subject message_id None request_payload now reason) (\<lambda>outcome. returnT (Answered outcome))
      | Inr _ \<Rightarrow> route_and_prepare E request subject require_synced_clock fresh_after now request_payload))))))"

section \<open>The write\<close>

text \<open>The steps of \<open>write_prepared\<close>: the claim, the frame, the live transport, the completion.\<close>

definition claim_request :: "'a outbound_env \<Rightarrow> i64 \<Rightarrow> StoredOutboundDelivery \<Rightarrow> (DeliveryInfrastructureError, ClaimWireOutbox) result" where
  "claim_request E now prepared =
     (let claim_at = next_projection_time now (max (wo_updated_at (sod_outbox prepared)) (da_updated_at (sod_attempt prepared))) in
      bindR (i64_try_from (oe_max_time_sync_age_ms E)) (\<lambda>heartbeat_timeout. Inr
        \<lparr>cwo_message_id = wo_message_id (sod_outbox prepared), cwo_expected_outbox_revision = wo_revision (sod_outbox prepared),
         cwo_expected_attempt_revision = da_revision (sod_attempt prepared),
         cwo_fresh_after = saturating_sub claim_at heartbeat_timeout,
         cwo_require_synced_clock = is_command_subject (da_subject (sod_attempt prepared)), cwo_claimed_at = claim_at\<rparr>))"

definition reload_existing ::
  "'a outbound_env \<Rightarrow> MessageId \<Rightarrow> i64 \<Rightarrow> (delivery_db, DeliveryInfrastructureError, DeliveryOutcome) transaction" where
  "reload_existing E message_id observed_at =
     bindT (storeT E (fetch_outbound_delivery (oe_json E) message_id)) (\<lambda>found. case found of
       None \<Rightarrow> throwT (infrastructure ''raced outbound delivery disappeared'')
     | Some existing \<Rightarrow> liftT (durable_delivery_outcome existing observed_at (oe_confirmation_timeout_ms E)))"

definition outbound_frame :: "StoredOutboundDelivery \<Rightarrow> (DeliveryInfrastructureError, OutboundFrame) result" where
  "outbound_frame claimed = (case wo_session_id (sod_outbox claimed) of
     None \<Rightarrow> Inl (infrastructure ''prepared delivery has no session_id'')
   | Some session_id \<Rightarrow> (case wo_sequence (sod_outbox claimed) of
       None \<Rightarrow> Inl (infrastructure ''prepared delivery has no sequence'')
     | Some sequence \<Rightarrow> Inr \<lparr>of_session_id = session_id, of_message_id = wo_message_id (sod_outbox claimed),
         of_sequence = sequence, of_wire_bytes = as_bytes (cj_text (wo_payload (sod_outbox claimed)))\<rparr>))"

text \<open>The live handle, if there is one, with what \<open>acquire_write\<close> and the sink answer.\<close>

type_synonym live_write = "(LiveSessionHandle \<times> bool \<times> (OutboundFrame \<Rightarrow> SinkWriteOutcome)) option"

definition write_frame :: "live_write \<Rightarrow> OutboundFrame \<Rightarrow> SinkWriteOutcome" where
  "write_frame live frame = (case live of
     Some (handle, admitted, sink_write) \<Rightarrow> handle_write handle frame admitted sink_write
   | None \<Rightarrow> SinkWriteOutcome.DefinitelyNotWritten ''active session has no live transport sink'')"

definition reaches_sink :: "live_write \<Rightarrow> OutboundFrame \<Rightarrow> bool" where
  "reaches_sink live frame \<longleftrightarrow> (case live of
     Some (handle, admitted, _) \<Rightarrow> of_session_id frame = lsh_session_id handle \<and> admitted | None \<Rightarrow> False)"

definition complete_write ::
  "'a outbound_env \<Rightarrow> i64 \<Rightarrow> StoredOutboundDelivery \<Rightarrow> SinkWriteOutcome \<Rightarrow> (delivery_db, StoredOutboundDelivery) tx" where
  "complete_write E now claimed outcome =
     (let completed_at = next_projection_time now (max (wo_updated_at (sod_outbox claimed)) (da_updated_at (sod_attempt claimed)));
        complete = (\<lambda>error. \<lparr>ctw_message_id = wo_message_id (sod_outbox claimed),
          ctw_expected_outbox_revision = wo_revision (sod_outbox claimed),
          ctw_expected_attempt_revision = da_revision (sod_attempt claimed), ctw_completed_at = completed_at, ctw_error = error\<rparr>)
      in case outcome of
        SinkWriteOutcome.Written \<Rightarrow> finish_transport_write_on (oe_json E) (complete None) TransportWriteResult.Sent
      | SinkWriteOutcome.Backpressure queue_depth \<Rightarrow> finish_transport_write_on (oe_json E)
          (complete (Some (''transport write backpressure at queue depth '' @ show_decimal queue_depth))) TransportWriteResult.Backpressure
      | SinkWriteOutcome.DefinitelyNotWritten error \<Rightarrow>
          finish_transport_write_on (oe_json E) (complete (Some error)) TransportWriteResult.Failed
      | SinkWriteOutcome.Unconfirmed error \<Rightarrow>
          finish_transport_write_on (oe_json E) (complete (Some error)) TransportWriteResult.Unconfirmed)"

text \<open>\<open>outcome_after_completion\<close>, and the answer to a claim that was not granted: \<open>None\<close> is the reload.\<close>

definition outcome_after_completion ::
  "'a outbound_env \<Rightarrow> (StoreError, StoredOutboundDelivery) result \<Rightarrow> i64 \<Rightarrow>
   (DeliveryInfrastructureError, DeliveryOutcome) result option" where
  "outcome_after_completion E completion observed_at = (case completion of
     Inr completed \<Rightarrow> Some (durable_delivery_outcome completed observed_at (oe_confirmation_timeout_ms E))
   | Inl e \<Rightarrow> if is_stale_outbound e then None else Some (Inl (infrastructure (oe_store_error E e))))"

definition resumes :: "StoredOutboundDelivery \<Rightarrow> bool" where
  "resumes existing \<longleftrightarrow> wo_status (sod_outbox existing) = WireOutboxStatus.Pending
     \<and> da_status (sod_attempt existing) = CommandDeliveryAttemptStatus.Pending"


text \<open>The reserved sequence number that the live transport, if it is still there, is told to skip.\<close>

definition skip_reserved_sequence :: "StoredOutboundDelivery \<Rightarrow> (SessionId \<times> u64) list" where
  "skip_reserved_sequence delivery = (case (wo_session_id (sod_outbox delivery), wo_sequence (sod_outbox delivery)) of
     (Some session_id, Some sequence) \<Rightarrow> [(session_id, sequence)]
   | _ \<Rightarrow> [])"


section \<open>One request\<close>

text \<open>
  The whole way of one request. \<open>delivery_turn\<close> has what the world contributes: the readings of the server's clock, which may
  fail; the live transport; and what other tasks commit to the store between the transactions of this one. The result is the
  answer, the store, and what was asked of the transport: the frames that reached a sink and the sequence numbers to skip.
\<close>

record delivery_turn =
  dt_now :: "(DeliveryInfrastructureError, i64) result"
  dt_claim_now :: "(DeliveryInfrastructureError, i64) result"
  dt_finish_now :: "(DeliveryInfrastructureError, i64) result"
  dt_live :: live_write
  dt_before_claim :: "delivery_db \<Rightarrow> delivery_db"
  dt_before_finish :: "delivery_db \<Rightarrow> delivery_db"
  dt_before_reload :: "delivery_db \<Rightarrow> delivery_db"

datatype transport_call = WriteCall OutboundFrame | SkipCall "SessionId \<times> u64"

type_synonym delivered = "(DeliveryInfrastructureError, DeliveryOutcome) result \<times> delivery_db \<times> transport_call list"

definition reload_answer :: "'a outbound_env \<Rightarrow> delivery_turn \<Rightarrow> MessageId \<Rightarrow> i64 \<Rightarrow> delivery_db \<Rightarrow> transport_call list \<Rightarrow> delivered" where
  "reload_answer E turn message_id observed_at db calls = (let db' = dt_before_reload turn db in
     ((case reload_existing E message_id observed_at db' of Inl e \<Rightarrow> Inl e | Inr (outcome, _) \<Rightarrow> Inr outcome), db', calls))"

text \<open>\<open>write_prepared\<close> after a granted claim.\<close>

definition write_claimed :: "'a outbound_env \<Rightarrow> delivery_turn \<Rightarrow> StoredOutboundDelivery \<Rightarrow> delivery_db \<Rightarrow> delivered" where
  "write_claimed E turn claimed db = (case outbound_frame claimed of
     Inl e \<Rightarrow> (Inl e, db, [])
   | Inr frame \<Rightarrow>
     let calls = (if reaches_sink (dt_live turn) frame then [WriteCall frame] else []);
       outcome = write_frame (dt_live turn) frame; db' = dt_before_finish turn db in
     (case dt_finish_now turn of
        Inl e \<Rightarrow> (Inl e, db', calls)
      | Inr now \<Rightarrow>
        let completed_at = next_projection_time now (max (wo_updated_at (sod_outbox claimed)) (da_updated_at (sod_attempt claimed))) in
        (case run_write (complete_write E now claimed outcome) db' of (completion, db'') \<Rightarrow>
          (case outcome_after_completion E completion completed_at of
             Some answer \<Rightarrow> (answer, db'', calls)
           | None \<Rightarrow> reload_answer E turn (wo_message_id (sod_outbox claimed)) completed_at db'' calls))))"

definition write_prepared :: "'a outbound_env \<Rightarrow> delivery_turn \<Rightarrow> StoredOutboundDelivery \<Rightarrow> delivery_db \<Rightarrow> delivered" where
  "write_prepared E turn prepared db = (case bindR (dt_claim_now turn) (\<lambda>now. claim_request E now prepared) of
     Inl e \<Rightarrow> (Inl e, db, [])
   | Inr claim \<Rightarrow>
     (case run_write (claim_outbox_on (oe_json E) claim) (dt_before_claim turn db) of (result, db') \<Rightarrow>
       let refused = (\<lambda>d. (durable_delivery_outcome d (cwo_claimed_at claim) (oe_confirmation_timeout_ms E), db',
         map SkipCall (skip_reserved_sequence d))) in
       (case result of
          Inr (OutboxClaimOutcome.Claimed claimed) \<Rightarrow> write_claimed E turn claimed db'
        | Inr (OutboxClaimOutcome.Expired d) \<Rightarrow> refused d
        | Inr (OutboxClaimOutcome.SessionUnavailable d) \<Rightarrow> refused d
        | Inr (OutboxClaimOutcome.ClockUnhealthy d) \<Rightarrow> refused d
        | Inl e \<Rightarrow>
            if is_stale_outbound e then reload_answer E turn (wo_message_id (sod_outbox prepared)) (cwo_claimed_at claim) db' []
            else (Inl (infrastructure (oe_store_error E e)), db', []))))"

definition resume_existing :: "'a outbound_env \<Rightarrow> delivery_turn \<Rightarrow> StoredOutboundDelivery \<Rightarrow> i64 \<Rightarrow> delivery_db \<Rightarrow> delivered" where
  "resume_existing E turn existing observed_at db =
     (if resumes existing then write_prepared E turn existing db
      else (durable_delivery_outcome existing observed_at (oe_confirmation_timeout_ms E), db, []))"

definition prepare_and_write ::
  "'a outbound_env \<Rightarrow> delivery_turn \<Rightarrow> 'a DeliveryRequest \<Rightarrow> DeliverySubject \<Rightarrow> bool \<Rightarrow> i64 \<Rightarrow>
   (DeliveryRejectionReason, unit) result \<Rightarrow> delivery_db \<Rightarrow> delivered" where
  "prepare_and_write E turn request subject require_synced_clock now validation db =
     (case prepare_delivery E request subject require_synced_clock now validation db of
        Inl e \<Rightarrow> (Inl e, db, [])
      | Inr (Answered outcome, db') \<Rightarrow> (Inr outcome, db', [])
      | Inr (Existing existing, db') \<Rightarrow> resume_existing E turn existing now db'
      | Inr (Prepared prepared, db') \<Rightarrow> write_prepared E turn prepared db')"

definition command_subject :: "ExecutionCommand DeliveryRequest \<Rightarrow> DeliverySubject" where
  "command_subject request = DeliverySubject.ExecutionCommand (ec_command_id (wm_payload (dr_message request)))"

definition deliver_command ::
  "ExecutionCommand outbound_env \<Rightarrow> delivery_turn \<Rightarrow> ExecutionCommand DeliveryRequest \<Rightarrow> delivery_db \<Rightarrow> delivered" where
  "deliver_command E turn request db = (case dt_now turn of
     Inl e \<Rightarrow> (Inl e, db, [])
   | Inr now \<Rightarrow> prepare_and_write E turn request (command_subject request) True now (validate_command_request request now) db)"

definition deliver_reconciliation ::
  "ReconciliationRequest outbound_env \<Rightarrow> delivery_turn \<Rightarrow> ReconciliationRequest DeliveryRequest \<Rightarrow> delivery_db \<Rightarrow> delivered" where
  "deliver_reconciliation E turn request db = (case dt_now turn of
     Inl e \<Rightarrow> (Inl e, db, [])
   | Inr now \<Rightarrow> prepare_and_write E turn request
       (DeliverySubject.ReconciliationRequest (rreq_request_id (wm_payload (dr_message request)))) False now
       (validate_reconciliation_request request) db)"


section \<open>Deliveries side by side\<close>

text \<open>
  Requests are served concurrently, and their transactions interleave with each other and with every
  other operation of the store. A phase is where a delivery stands between two of its steps. The state has
  the database, the phases, the frames that reached a sink, the sequence numbers
  the live transport was told to skip, and the answers, the latest last.
\<close>

datatype write_phase = ToClaim StoredOutboundDelivery | ToReload MessageId i64 | ToWrite StoredOutboundDelivery
  | ToFinish StoredOutboundDelivery SinkWriteOutcome

record adapter_state =
  ad_db :: delivery_db
  ad_phases :: "write_phase multiset"
  ad_frames :: "OutboundFrame list"
  ad_skips :: "(SessionId \<times> u64) list"
  ad_answers :: "(DeliveryInfrastructureError, DeliveryOutcome) result list"

definition answer_with :: "(DeliveryInfrastructureError, DeliveryOutcome) result \<Rightarrow> adapter_state \<Rightarrow> adapter_state" where
  "answer_with answer s = s\<lparr>ad_answers := ad_answers s @ [answer]\<rparr>"

definition enter :: "write_phase \<Rightarrow> adapter_state \<Rightarrow> adapter_state" where
  "enter phase s = s\<lparr>ad_phases := add_mset phase (ad_phases s)\<rparr>"

definition after_preparation :: "'a outbound_env \<Rightarrow> i64 \<Rightarrow> preparation \<Rightarrow> adapter_state \<Rightarrow> adapter_state" where
  "after_preparation E now p s = (case p of
     Answered outcome \<Rightarrow> answer_with (Inr outcome) s
   | Existing existing \<Rightarrow> if resumes existing then enter (ToClaim existing) s
       else answer_with (durable_delivery_outcome existing now (oe_confirmation_timeout_ms E)) s
   | Prepared prepared \<Rightarrow> enter (ToClaim prepared) s)"

definition after_claim ::
  "'a outbound_env \<Rightarrow> ClaimWireOutbox \<Rightarrow> (StoreError, OutboxClaimOutcome) result \<Rightarrow> adapter_state \<Rightarrow> adapter_state" where
  "after_claim E claim result s =
     (let rejected = (\<lambda>d. answer_with (durable_delivery_outcome d (cwo_claimed_at claim) (oe_confirmation_timeout_ms E))
        (s\<lparr>ad_skips := ad_skips s @ skip_reserved_sequence d\<rparr>)) in
      case result of
        Inr (OutboxClaimOutcome.Claimed claimed) \<Rightarrow> enter (ToWrite claimed) s
      | Inr (OutboxClaimOutcome.Expired d) \<Rightarrow> rejected d
      | Inr (OutboxClaimOutcome.SessionUnavailable d) \<Rightarrow> rejected d
      | Inr (OutboxClaimOutcome.ClockUnhealthy d) \<Rightarrow> rejected d
      | Inl e \<Rightarrow> if is_stale_outbound e then enter (ToReload (cwo_message_id claim) (cwo_claimed_at claim)) s
          else answer_with (Inl (infrastructure (oe_store_error E e))) s)"

definition after_completion ::
  "'a outbound_env \<Rightarrow> MessageId \<Rightarrow> i64 \<Rightarrow> (StoreError, StoredOutboundDelivery) result \<Rightarrow> adapter_state \<Rightarrow> adapter_state" where
  "after_completion E message_id completed_at completion s = (case outcome_after_completion E completion completed_at of
     Some answer \<Rightarrow> answer_with answer s
   | None \<Rightarrow> enter (ToReload message_id completed_at) s)"

text \<open>A step of the gateway: the transaction of a new request; a claim, a reload, a write or a completion of
  a delivery under way; another operation of the store; the end of a delivery without an answer, when
  its task is cancelled, the clock fails or the process stops.\<close>

inductive adapter_step :: "'a outbound_env \<Rightarrow> adapter_state \<Rightarrow> adapter_state \<Rightarrow> bool" for E where
  prepare_step: "prepare_delivery E request subject require_synced_clock now validation (ad_db s) = Inr (p, db) \<Longrightarrow>
    adapter_step E s (after_preparation E now p (s\<lparr>ad_db := db\<rparr>))"
| claim_step: "ad_phases s = add_mset (ToClaim d) rest \<Longrightarrow> claim_request E now d = Inr claim \<Longrightarrow>
    run_write (claim_outbox_on (oe_json E) claim) (ad_db s) = (result, db) \<Longrightarrow>
    adapter_step E s (after_claim E claim result (s\<lparr>ad_phases := rest, ad_db := db\<rparr>))"
| reload_step: "ad_phases s = add_mset (ToReload message_id observed_at) rest \<Longrightarrow>
    reload_existing E message_id observed_at (ad_db s) = Inr (outcome, db) \<Longrightarrow>
    adapter_step E s (answer_with (Inr outcome) (s\<lparr>ad_phases := rest\<rparr>))"
| write_step: "ad_phases s = add_mset (ToWrite d) rest \<Longrightarrow> outbound_frame d = Inr frame \<Longrightarrow>
    adapter_step E s (enter (ToFinish d (write_frame live frame)) (s\<lparr>ad_phases := rest,
      ad_frames := (if reaches_sink live frame then ad_frames s @ [frame] else ad_frames s)\<rparr>))"
| finish_step: "ad_phases s = add_mset (ToFinish d outcome) rest \<Longrightarrow>
    run_write (complete_write E now d outcome) (ad_db s) = (completion, db) \<Longrightarrow>
    adapter_step E s (after_completion E (wo_message_id (sod_outbox d)) (next_projection_time now
      (max (wo_updated_at (sod_outbox d)) (da_updated_at (sod_attempt d)))) completion (s\<lparr>ad_phases := rest, ad_db := db\<rparr>))"
| store_step: "gateway_op attempt_id (oe_json E) op \<Longrightarrow> run_write (run_op (oe_json E) op) (ad_db s) = (answer, db) \<Longrightarrow>
    adapter_step E s (s\<lparr>ad_db := db\<rparr>)"
| end_step: "ad_phases s = add_mset phase rest \<Longrightarrow> adapter_step E s (s\<lparr>ad_phases := rest\<rparr>)"

inductive_cases adapter_stepE: "adapter_step E s s'"

abbreviation adapter_run :: "'a outbound_env \<Rightarrow> adapter_state \<Rightarrow> adapter_state \<Rightarrow> bool" where
  "adapter_run E \<equiv> (adapter_step E)\<^sup>*\<^sup>*"

text \<open>What becomes of the store: the transactions of requests and the other operations.\<close>

inductive gateway_step :: "'a outbound_env \<Rightarrow> delivery_db \<Rightarrow> delivery_db \<Rightarrow> bool" for E where
  request_step: "prepare_delivery E request subject require_synced_clock now validation db = Inr (p, db') \<Longrightarrow> gateway_step E db db'"
| operation_step: "gateway_op attempt_id (oe_json E) op \<Longrightarrow> run_write (run_op (oe_json E) op) db = (answer, db') \<Longrightarrow> gateway_step E db db'"

abbreviation gateway_run :: "'a outbound_env \<Rightarrow> delivery_db \<Rightarrow> delivery_db \<Rightarrow> bool" where
  "gateway_run E \<equiv> (gateway_step E)\<^sup>*\<^sup>*"

end
