(* ===== verification/Delivery_Properties.thy ===== *)
theory Delivery_Properties
  imports Delivery_Writes Execution_State
begin

text \<open>
  The properties of durable delivery: what every run of store operations keeps, the order of sequences, the
  single write of a delivery, the settling of closed and replaced sessions, and the fence after a restart.
\<close>

section \<open>A store\<close>

text \<open>A store with an active session and one pending delivery of a command; its JSON has one text.\<close>

definition store_text :: CanonicalJson where
  "store_text = \<lparr>cj_text = ''{}'', cj_sha256_hex = replicate 64 CHR ''0''\<rparr>"

definition store_wire :: "json_tree WireMessage" where
  "store_wire = \<lparr>wm_message_id = ''m1'', wm_message_type = ExecutionClientMessageType.ExecutionCommand,
     wm_schema_version = SchemaVersion_to_string SUPPORTED_SCHEMA_VERSION, wm_client_id = Some ''c1'', wm_session_id = Some ''s1'', wm_correlation_id = None,
     wm_causation_id = None, wm_sent_at = Some 20, wm_sequence = Some 2, wm_payload = VNull\<rparr>"

definition store_codec :: store_json where
  "store_codec = \<lparr>jc_from_str = (\<lambda>_. Inr VNull), jc_to_string = (\<lambda>_. Inr ''{}''), jc_sha256 = (\<lambda>_. replicate 64 CHR ''0''),
     sj_probe = (\<lambda>_. Some ''execution.command''),
     sj_from_slice = (\<lambda>_. Some store_wire), sj_command = (\<lambda>_. Inr sample_command), sj_request = (\<lambda>_. Inl []),
     sj_wire_error = (\<lambda>_. []), sj_json_valid = (\<lambda>_. True)\<rparr>"

definition store_session :: StoredSessionRecord where
  "store_session = \<lparr>ss_session_id = ''s1'', ss_client_id = ''c1'', ss_account_id = ''acc-1'', ss_terminal_id = None,
     ss_platform = ''MT5'', ss_status = SessionStatus.Active, ss_capabilities = store_text, ss_remote_addr = None,
     ss_connected_at = 10, ss_last_heartbeat_at = Some 20, ss_last_time_sync_at = Some 20,
     ss_clock_sync_status = Some ClockSyncStatus.Synced, ss_disconnected_at = None, ss_revision = 2, ss_updated_at = 20,
     ss_last_outbound_sequence = 2, ss_max_inflight_commands = 4\<rparr>"

definition store_outbox :: StoredWireOutbox where
  "store_outbox = \<lparr>wo_message_id = ''m1'', wo_session_id = Some ''s1'', wo_message_type = ''execution.command'',
     wo_sequence = Some 2, wo_command_id = Some ''cmd-1'', wo_request_id = None, wo_payload = store_text,
     wo_status = WireOutboxStatus.Pending, wo_revision = 0, wo_created_at = 20, wo_updated_at = 20, wo_sent_at = None,
     wo_acked_at = None, wo_last_error = None\<rparr>"

definition store_attempt :: StoredDeliveryAttempt where
  "store_attempt = \<lparr>da_attempt_id = ''attempt:m1'', da_subject = DeliverySubject.ExecutionCommand ''cmd-1'',
     da_session_id = Some ''s1'', da_message_id = Some ''m1'', da_request_payload = None,
     da_status = CommandDeliveryAttemptStatus.Pending, da_attempted_at = 20, da_acked_at = None, da_error = None,
     da_revision = 0, da_updated_at = 20\<rparr>"

definition store_command :: command_row where
  "store_command = \<lparr>cmd_command_id = ''cmd-1'', cmd_account_id = ''acc-1'', cmd_client_id = None, cmd_terminal_id = None,
     cmd_expires_at = 100, cmd_payload = store_text\<rparr>"

definition store_with :: "StoredSessionRecord \<Rightarrow> StoredWireOutbox \<Rightarrow> StoredDeliveryAttempt \<Rightarrow> delivery_db" where
  "store_with r m a = \<lparr>db_sessions = [r], db_outbox = [m], db_attempts = [a], db_commands = [store_command], db_runs = []\<rparr>"

definition store_db :: delivery_db where
  "store_db = store_with store_session store_outbox store_attempt"

definition store_claim :: ClaimWireOutbox where
  "store_claim = \<lparr>cwo_message_id = ''m1'', cwo_expected_outbox_revision = 0, cwo_expected_attempt_revision = 0,
     cwo_fresh_after = 0, cwo_require_synced_clock = True, cwo_claimed_at = 30\<rparr>"

lemma store_decode: "decode_envelope store_codec p = Inr store_wire"
proof -
  have "\<not> trim_is_empty ''m1''" "\<not> trim_is_empty ''s1''" "\<not> trim_is_empty ''c1''" by code_simp+
  moreover have "SchemaVersion_from_str (SchemaVersion_to_string SUPPORTED_SCHEMA_VERSION) = Inr SUPPORTED_SCHEMA_VERSION"
    by (rule parse_print_version) (simp_all add: SUPPORTED_SCHEMA_VERSION_def u16_max_def)
  ultimately have "WireMessage_validate store_wire SUPPORTED_SCHEMA_VERSION = Inr Exact"
    by (simp add: store_wire_def WireMessage_validate_def validate_optional_identifier_def requires_session_and_sequence_def
      requires_sent_at_def compatibility_with_def SUPPORTED_SCHEMA_VERSION_def)
  moreover have "message_type_from_str ''execution.command'' = Inr ExecutionClientMessageType.ExecutionCommand" by code_simp
  ultimately show ?thesis by (simp add: decode_envelope_def decode_wire_message_def store_codec_def)
qed

lemma store_from_value [simp]: "json_from_value store_codec v = Inr store_text"
  by (simp add: json_from_value_def store_codec_def store_text_def)

lemma store_canonical [simp]: "canonical store_codec store_text" "from_stored store_codec e k (cj_text store_text) (cj_sha256_hex store_text) = Inr store_text"
proof -
  have "jc_from_str store_codec (cj_text store_text) = Inr VNull" by (simp add: store_codec_def)
  then show "canonical store_codec store_text" by (simp add: canonical_def json_parse_def)
  then show "from_stored store_codec e k (cj_text store_text) (cj_sha256_hex store_text) = Inr store_text" by simp
qed

lemma store_parents: "parents_ok store_codec (store_with r m a)"
  by (simp add: parents_ok_def store_with_def store_command_def)

lemma store_with_inv:
  assumes r: "session_ok store_codec r" "ss_session_id r = ''s1''" "2 \<le> ss_last_outbound_sequence r"
    and m: "outbox_fixed store_outbox m" "20 \<le> wo_updated_at m"
    and a: "attempt_fixed store_attempt a" "attempt_ok store_codec a" "pair_ok m a"
  shows "delivery_inv store_codec (store_with r m a)"
proof -
  have mf: "wo_message_id m = ''m1''" "wo_session_id m = Some ''s1''" "wo_message_type m = ''execution.command''"
    "wo_sequence m = Some 2" "wo_command_id m = Some ''cmd-1''" "wo_request_id m = None" "wo_payload m = store_text" "wo_created_at m = 20"
    using m(1) by (simp_all add: outbox_fixed_def store_outbox_def)
  have af: "da_message_id a = Some ''m1''" "da_session_id a = Some ''s1''" "da_subject a = DeliverySubject.ExecutionCommand ''cmd-1''"
    using a(1) by (simp_all add: attempt_fixed_def store_attempt_def)
  have ok: "outbox_ok store_codec m" using m(2)
    by (simp add: outbox_ok_def mf validate_stored_wire_outbox_def Let_def store_decode)
      (simp add: store_wire_def store_codec_def sample_command_def)
  have par: "parent_ok store_codec (store_with r m a) m"
    unfolding parent_ok_iff by (simp add: mf store_decode store_with_def store_command_def)
  show ?thesis
    using r a ok par
    by (simp add: inv_defs store_with_def ses.unique_def outb.unique_def att.unique_def sequenced_def mf af attempt_bound_to_def)
qed

lemma store_increment: "n < 1000 \<Longrightarrow> checked_increment f n = Inr (n + 1)" "n < 1001 \<Longrightarrow> u64_to_i64 f n = Inr (int n)"
  by (simp_all add: checked_increment_def checked_add_u64_def u64_max_def u64_to_i64_def i64_max_def)

lemma store_update_outbox:
  assumes "wo_revision m < 1000" "outbox_cas m (outbox_state m w t sa aa e)" "outbox_row_check store_codec (outbox_state m w t sa aa e)"
  shows "update_outbox_state store_codec m w t sa aa e (store_with r m a) = Inr ((), store_with r (outbox_state m w t sa aa e) a)"
  using assms by (simp add: update_outbox_state_def bindT_apply store_increment update_outbox_row_def store_with_def
    update_where_def outbox_state_def)

lemma store_update_attempt:
  assumes "da_revision a < 1000" "attempt_cas a (attempt_state a s t aa e)" "attempt_row_check store_codec (attempt_state a s t aa e)"
  shows "update_attempt_state store_codec a s t aa e (store_with r m a) = Inr ((), store_with r m (attempt_state a s t aa e))"
  using assms by (simp add: update_attempt_state_def bindT_apply store_increment update_attempt_row_def store_with_def
    update_where_def attempt_state_def)

lemma store_reads:
  assumes "delivery_inv store_codec (store_with r m a)" "wo_message_id m = ''m1''" "da_message_id a = Some ''m1''" "ss_session_id r = ''s1''"
  shows "required_outbox store_codec ''m1'' (store_with r m a) = Inr (m, store_with r m a)"
    and "required_attempt_by_message store_codec ''m1'' (store_with r m a) = Inr (a, store_with r m a)"
    and "required_session store_codec ''s1'' (store_with r m a) = Inr (r, store_with r m a)"
    and "fetch_session_by_id store_codec ''s1'' (store_with r m a) = Inr (Some r, store_with r m a)"
    and "required_outbound_delivery store_codec ''m1'' (store_with r m a) = Inr (\<lparr>sod_outbox = m, sod_attempt = a\<rparr>, store_with r m a)"
proof -
  note rows = fetch_eqs [OF assms(1)]
  show o: "required_outbox store_codec ''m1'' (store_with r m a) = Inr (m, store_with r m a)"
    using assms(2) by (simp add: required_outbox_def requiredT_eq_Inr rows) (simp add: store_with_def)
  show at: "required_attempt_by_message store_codec ''m1'' (store_with r m a) = Inr (a, store_with r m a)"
    using assms(3) by (simp add: required_attempt_by_message_def requiredT_eq_Inr fetch_delivery_attempt_by_message_def rows)
      (simp add: store_with_def)
  show s: "fetch_session_by_id store_codec ''s1'' (store_with r m a) = Inr (Some r, store_with r m a)"
    using assms(4) by (simp add: rows) (simp add: store_with_def)
  then show "required_session store_codec ''s1'' (store_with r m a) = Inr (r, store_with r m a)"
    by (simp add: required_session_def requiredT_eq_Inr)
  show "required_outbound_delivery store_codec ''m1'' (store_with r m a) = Inr (\<lparr>sod_outbox = m, sod_attempt = a\<rparr>, store_with r m a)"
    by (simp add: required_outbound_delivery_def bindT_apply o at)
qed

text \<open>The delivery after its claim.\<close>

definition claimed_outbox :: StoredWireOutbox where
  "claimed_outbox = outbox_state store_outbox WireOutboxStatus.WriteStarted 30 None None None"

definition claimed_attempt :: StoredDeliveryAttempt where
  "claimed_attempt = attempt_state store_attempt CommandDeliveryAttemptStatus.Pending 30 None None"

lemma store_session_ok: "session_ok store_codec store_session"
  by (simp add: session_ok_def store_session_def)

lemma store_attempt_ok: "attempt_ok store_codec store_attempt" "attempt_ok store_codec claimed_attempt"
  by (simp_all add: attempt_ok_def claimed_attempt_def attempt_state_def store_attempt_def)

lemmas store_row_defs = store_session_def store_outbox_def store_attempt_def claimed_outbox_def claimed_attempt_def outbox_state_def
  attempt_state_def outbox_fixed_def attempt_fixed_def pair_ok_def

lemma store_inv: "delivery_inv store_codec store_db"
  unfolding store_db_def by (rule store_with_inv) (simp_all add: store_session_ok store_attempt_ok, simp_all add: store_row_defs)

lemma claimed_inv: "delivery_inv store_codec (store_with store_session claimed_outbox claimed_attempt)"
  by (rule store_with_inv) (simp_all add: store_session_ok store_attempt_ok, simp_all add: store_row_defs)

lemma store_hash: "sql_hash_text (cj_sha256_hex store_text)"
  by (simp add: sql_hash_text_def store_text_def list_all_iff)

lemma store_row_checks:
  "outbox_row_check store_codec claimed_outbox" "attempt_row_check store_codec claimed_attempt"
  "outbox_cas store_outbox claimed_outbox" "attempt_cas store_attempt claimed_attempt"
proof -
  have "''execution.command'' \<in> set (map fst message_type_arms)" by code_simp
  then show "outbox_row_check store_codec claimed_outbox"
    using store_hash by (simp add: outbox_row_check_def claimed_outbox_def outbox_state_def store_outbox_def outbox_time_def sql_max_def
      store_codec_def)
qed (simp_all add: claimed_outbox_def outbox_state_def store_outbox_def outbox_time_def sql_max_def claimed_attempt_def attempt_state_def
  store_attempt_def attempt_time_def attempt_row_check_def attempt_cas_def outbox_cas_def is_command_subject_def)

lemma store_claimed: "claim_outbox_on store_codec store_claim store_db
  = Inr (OutboxClaimOutcome.Claimed \<lparr>sod_outbox = claimed_outbox, sod_attempt = claimed_attempt\<rparr>,
      store_with store_session claimed_outbox claimed_attempt)"
proof -
  have ids: "wo_message_id store_outbox = ''m1''" "da_message_id store_attempt = Some ''m1''" "ss_session_id store_session = ''s1''"
    "wo_session_id store_outbox = Some ''s1''" "wo_message_id claimed_outbox = ''m1''" "da_message_id claimed_attempt = Some ''m1''"
    by (simp_all add: store_outbox_def store_attempt_def store_session_def claimed_outbox_def claimed_attempt_def outbox_state_def attempt_state_def)
  note reads = store_reads [OF store_inv [unfolded store_db_def] ids(1-3)] store_reads [OF claimed_inv ids(5,6,3)]
  have u1: "update_outbox_state store_codec store_outbox WireOutboxStatus.WriteStarted 30 None None None
      (store_with store_session store_outbox store_attempt) = Inr ((), store_with store_session claimed_outbox store_attempt)"
    unfolding claimed_outbox_def
    by (rule store_update_outbox) (use store_row_checks in \<open>simp_all add: claimed_outbox_def\<close>, simp add: store_outbox_def)
  have u2: "update_attempt_state store_codec store_attempt CommandDeliveryAttemptStatus.Pending 30 None None
      (store_with store_session claimed_outbox store_attempt) = Inr ((), store_with store_session claimed_outbox claimed_attempt)"
    unfolding claimed_attempt_def
    by (rule store_update_attempt) (use store_row_checks in \<open>simp_all add: claimed_attempt_def\<close>, simp add: store_attempt_def)
  have st: "wo_status store_outbox = WireOutboxStatus.Pending" "da_status store_attempt = CommandDeliveryAttemptStatus.Pending"
    "wo_revision store_outbox = 0" "da_revision store_attempt = 0" "ss_status store_session = SessionStatus.Active"
    "last_seen store_session = 20" "ss_clock_sync_status store_session = Some ClockSyncStatus.Synced"
    "subject_command_id (da_subject store_attempt) = Some ''cmd-1''"
    "require_monotonic_transition_time store_outbox store_attempt 30 = Inr ()"
    by (simp_all add: store_outbox_def store_attempt_def store_session_def last_seen_def require_monotonic_transition_time_def)
  have cmd: "requiredT e (readT (\<lambda>db. find (\<lambda>c. cmd_command_id c = ''cmd-1'') (db_commands db)))
      (store_with store_session store_outbox store_attempt)
    = Inr (store_command, store_with store_session store_outbox store_attempt)" for e
    by (simp add: requiredT_eq_Inr) (simp add: store_with_def store_command_def)
  have "cmd_expires_at store_command = 100" by (simp add: store_command_def)
  then show ?thesis
    by (simp add: claim_outbox_on_def store_claim_def store_db_def bindT_apply reads ids st u1 u2 cmd)
qed

section \<open>Closing the session of the store\<close>

text \<open>The rows after the session is closed with its delivery still in the outbox.\<close>

definition cancelled_outbox :: StoredWireOutbox where
  "cancelled_outbox = outbox_state store_outbox WireOutboxStatus.Cancelled 40 None None (Some ''SESSION_REPLACED'')"

definition cancelled_attempt :: StoredDeliveryAttempt where
  "cancelled_attempt = attempt_state store_attempt CommandDeliveryAttemptStatus.Cancelled 40 None (Some ''SESSION_REPLACED'')"

definition closed_session :: StoredSessionRecord where
  "closed_session = store_session\<lparr>ss_status := SessionStatus.Stale, ss_disconnected_at := Some 40, ss_updated_at := 40,
     ss_revision := 3\<rparr>"

definition store_close :: SessionStatusUpdate where
  "store_close = \<lparr>ssu_session_id = ''s1'', ssu_expected_revision = 2, ssu_changed_at = 40, ssu_delivery_error = ''SESSION_REPLACED''\<rparr>"

lemma store_joined: "joined_messages ''s1'' cond (store_with r m a) =
  (if da_message_id a = Some (wo_message_id m) \<and> wo_session_id m = Some ''s1'' \<and> cond m a then [wo_message_id m] else [])"
  by (simp add: joined_messages_def store_with_def)

lemma cancelled_ok: "attempt_ok store_codec cancelled_attempt" "session_ok store_codec closed_session"
  by (simp_all add: attempt_ok_def session_ok_def cancelled_attempt_def attempt_state_def store_attempt_def closed_session_def store_session_def)

lemmas closed_row_defs = cancelled_outbox_def cancelled_attempt_def closed_session_def

lemma cancelled_inv:
  "delivery_inv store_codec (store_with store_session cancelled_outbox cancelled_attempt)"
  by (rule store_with_inv) (simp_all add: store_session_ok cancelled_ok, simp_all add: store_row_defs closed_row_defs)

lemma closed_inv: "delivery_inv store_codec (store_with closed_session cancelled_outbox cancelled_attempt)"
  by (rule store_with_inv) (simp_all add: cancelled_ok, simp_all add: store_row_defs closed_row_defs)

lemma cancelled_checks:
  "outbox_row_check store_codec cancelled_outbox" "attempt_row_check store_codec cancelled_attempt"
  "outbox_cas store_outbox cancelled_outbox" "attempt_cas store_attempt cancelled_attempt"
  "session_cas store_session closed_session" "session_row_check store_codec closed_session"
proof -
  have "''execution.command'' \<in> set (map fst message_type_arms)" by code_simp
  then show "outbox_row_check store_codec cancelled_outbox"
    using store_hash by (simp add: outbox_row_check_def cancelled_outbox_def outbox_state_def store_outbox_def outbox_time_def sql_max_def
      store_codec_def)
qed (simp_all add: closed_row_defs store_row_defs outbox_time_def sql_max_def attempt_time_def attempt_row_check_def attempt_cas_def
  outbox_cas_def is_command_subject_def session_cas_def session_time_def session_row_check_def session_platforms_def store_codec_def
  bound_attempt_statuses_def)

lemma store_settled: "settle_rejected_pending_attempts_on store_codec ''s1'' t store_db = Inr (0, store_db)"
  by (simp add: settle_rejected_pending_attempts_on_def store_db_def store_joined) (simp add: store_outbox_def)

lemma store_certain: "unconfirm_session_attempts_on store_codec ''s1'' t e store_db = Inr ([], store_db)"
  by (simp add: unconfirm_session_attempts_on_def store_db_def store_with_def in_doubt_def store_outbox_def store_attempt_def
    parse_and_validate_attempt_rows_def)

lemma store_cancelled: "cancel_session_pending_deliveries_on store_codec ''s1'' 40 ''SESSION_REPLACED'' store_db
  = Inr (1, store_with store_session cancelled_outbox cancelled_attempt)"
proof -
  have ids: "wo_message_id store_outbox = ''m1''" "da_message_id store_attempt = Some ''m1''" "ss_session_id store_session = ''s1''"
    "wo_session_id store_outbox = Some ''s1''" "wo_status store_outbox = WireOutboxStatus.Pending"
    "da_status store_attempt = CommandDeliveryAttemptStatus.Pending"
    by (simp_all add: store_outbox_def store_attempt_def store_session_def)
  note reads = store_reads [OF store_inv [unfolded store_db_def] ids(1-3)]
  have "require_monotonic_transition_time store_outbox store_attempt 40 = Inr ()"
    by (simp add: require_monotonic_transition_time_def store_outbox_def store_attempt_def)
  moreover have "update_outbox_state store_codec store_outbox WireOutboxStatus.Cancelled 40 None None (Some ''SESSION_REPLACED'')
      (store_with store_session store_outbox store_attempt) = Inr ((), store_with store_session cancelled_outbox store_attempt)"
    unfolding cancelled_outbox_def
    by (rule store_update_outbox) (use cancelled_checks in \<open>simp_all add: cancelled_outbox_def\<close>, simp add: store_outbox_def)
  moreover have "update_attempt_state store_codec store_attempt CommandDeliveryAttemptStatus.Cancelled 40 None (Some ''SESSION_REPLACED'')
      (store_with store_session cancelled_outbox store_attempt) = Inr ((), store_with store_session cancelled_outbox cancelled_attempt)"
    unfolding cancelled_attempt_def
    by (rule store_update_attempt) (use cancelled_checks in \<open>simp_all add: cancelled_attempt_def\<close>, simp add: store_attempt_def)
  ultimately show ?thesis
    by (simp add: cancel_session_pending_deliveries_on_def store_db_def store_joined ids cancel_pending_delivery_def bindT_apply reads)
qed

lemma store_transition: "transition_session_status_on store_codec store_session SessionStatus.Stale 40 (store_with store_session m a)
  = Inr ((), store_with closed_session m a)"
proof -
  have "ss_revision store_session = 2" "ss_status store_session = SessionStatus.Active"
    "store_session\<lparr>ss_status := SessionStatus.Stale, ss_disconnected_at := Some 40, ss_updated_at := 40, ss_revision := 3\<rparr> = closed_session"
    by (simp_all add: store_session_def closed_session_def)
  then show ?thesis using cancelled_checks(5,6)
    by (simp add: transition_session_status_on_def update_active_session_def bindT_apply store_increment update_session_row_def
      store_with_def update_where_def)
qed

lemma store_closed: "close_session_on store_codec store_close SessionStatus.Stale store_db
  = Inr (\<lparr>sdo_session = closed_session, sdo_unconfirmed_attempts = []\<rparr>, store_with closed_session cancelled_outbox cancelled_attempt)"
proof -
  have ids: "wo_message_id store_outbox = ''m1''" "da_message_id store_attempt = Some ''m1''" "ss_session_id store_session = ''s1''"
    "wo_message_id cancelled_outbox = ''m1''" "da_message_id cancelled_attempt = Some ''m1''" "ss_session_id closed_session = ''s1''"
    "ss_updated_at store_session = 20" "require_active_session_revision store_session 2 = Inr ()"
    by (simp_all add: store_row_defs closed_row_defs require_active_session_revision_def)
  have closed: "\<not> trim_is_empty ''SESSION_REPLACED''" by code_simp
  note reads = store_reads [OF store_inv [unfolded store_db_def] ids(1-3), folded store_db_def] store_reads [OF closed_inv ids(4-6)]
  show ?thesis
    by (simp add: close_session_on_def store_close_def bindT_apply reads ids require_non_empty_def closed settle_and_close_def
      store_settled store_certain store_cancelled store_transition)
qed

section \<open>Replacing the session, reserving and fencing\<close>

definition store_new_session :: NewSessionRecord where
  "store_new_session = \<lparr>ns_session_id = ''s2'', ns_client_id = ''c1'', ns_account_id = ''acc-1'', ns_terminal_id = None,
     ns_platform = ''MT5'', ns_status = SessionStatus.Active, ns_capabilities = store_text, ns_remote_addr = None,
     ns_connected_at = 40, ns_last_heartbeat_at = None, ns_last_time_sync_at = None, ns_clock_sync_status = None,
     ns_disconnected_at = None, ns_max_inflight_commands = 4, ns_updated_at = 40\<rparr>"

definition replaced_db :: delivery_db where
  "replaced_db = (store_with closed_session cancelled_outbox cancelled_attempt)
     \<lparr>db_sessions := [closed_session, stored_session store_new_session]\<rparr>"

lemma store_replaced: "replace_active_session_on store_codec store_new_session store_db
  = Inr (\<lparr>srp_session = stored_session store_new_session, srp_replaced_session = Some closed_session, srp_unconfirmed_attempts = []\<rparr>,
      replaced_db)"
proof -
  let ?db = "store_with store_session cancelled_outbox cancelled_attempt"
  have new: "validate_new_active_session store_new_session = Inr ()" "ns_session_id store_new_session = ''s2''"
    "ns_client_id store_new_session = ''c1''" "ns_account_id store_new_session = ''acc-1''" "ns_terminal_id store_new_session = None"
    "ns_updated_at store_new_session = 40" "ns_max_inflight_commands store_new_session = 4"
    by (simp_all add: validate_new_active_session_def store_new_session_def)
  have old: "ss_session_id store_session = ''s1''" "ss_client_id store_session = ''c1''" "ss_account_id store_session = ''acc-1''"
    "ss_terminal_id store_session = None" "ss_status store_session = SessionStatus.Active" "ss_updated_at store_session = 20"
    "wo_message_id cancelled_outbox = ''m1''" "da_message_id cancelled_attempt = Some ''m1''" "ss_session_id closed_session = ''s1''"
    "ss_status closed_session = SessionStatus.Stale" "db_sessions store_db = [store_session]"
    by (simp_all add: store_row_defs closed_row_defs store_db_def store_with_def)
  note read = store_reads(4) [OF closed_inv old(7-9)]
  have certain: "unconfirm_session_attempts_on store_codec ''s1'' 40 e ?db = Inr ([], ?db)" for e
    by (simp add: unconfirm_session_attempts_on_def store_with_def in_doubt_def store_row_defs closed_row_defs parse_and_validate_attempt_rows_def)
  have "session_row_check store_codec (stored_session store_new_session)"
    by (simp add: session_row_check_def store_codec_def stored_session_def store_new_session_def session_platforms_def session_time_def sql_max_def)
  moreover have "\<not> session_conflict (stored_session store_new_session) closed_session"
    by (simp add: session_conflict_def old stored_session_def store_new_session_def)
  ultimately have "insert_session_on store_codec store_new_session (store_with closed_session cancelled_outbox cancelled_attempt)
    = Inr (WriteOutcome.Inserted (stored_session store_new_session), replaced_db)"
    by (simp add: insert_session_on_def new store_increment bindT_apply insert_session_row_def replaced_db_def store_with_def)
      (simp add: session_time_def sql_max_def store_new_session_def)
  then show ?thesis
    by (simp add: replace_active_session_on_def bindT_apply new old store_session_ok replace_existing_session_def store_settled store_cancelled
      certain store_transition requiredT_def read)
qed

text \<open>The two operations that give out a sequence of a session.\<close>

definition gives_sequence :: "store_json \<Rightarrow> delivery_db \<Rightarrow> SessionId \<Rightarrow> u64 \<Rightarrow> delivery_db \<Rightarrow> bool" where
  "gives_sequence J db sid n db' \<longleftrightarrow>
     (\<exists>request c. reserve_control_outbound_sequence_on J request db = Inr (ControlSequenceReservation.Reserved c, db')
        \<and> cor_session_id c = sid \<and> cor_sequence c = n)
     \<or> (\<exists>request prepare res. op_ok J (ReserveAndEnqueue request prepare)
        \<and> reserve_and_enqueue J request prepare db = Inr (SequenceReservation.Reserved res, db')
        \<and> or_session_id res = sid \<and> or_sequence res = n)"

text \<open>The session after the reservation of a control sequence.\<close>

definition reserved_session :: "u64 \<Rightarrow> StoredSessionRecord" where
  "reserved_session n = store_session\<lparr>ss_last_outbound_sequence := n + 2, ss_updated_at := 20 + int n, ss_revision := n + 2\<rparr>"

lemma reserved_inv: "delivery_inv store_codec (store_with (reserved_session n) store_outbox store_attempt)"
proof (rule store_with_inv)
  show "session_ok store_codec (reserved_session n)" by (simp add: session_ok_def reserved_session_def store_session_def)
qed (simp_all add: store_attempt_ok, simp_all add: store_row_defs reserved_session_def)

lemma store_reserved:
  assumes "n < 900"
  shows "gives_sequence store_codec (store_with (reserved_session n) store_outbox store_attempt) ''s1'' (n + 3)
    (store_with (reserved_session (n + 1)) store_outbox store_attempt)"
proof -
  let ?q = "\<lparr>rco_session_id = ''s1'', rco_reserved_at = 21 + int n\<rparr>"
  have ids: "wo_message_id store_outbox = ''m1''" "da_message_id store_attempt = Some ''m1''" "ss_session_id (reserved_session n) = ''s1''"
    "ss_status (reserved_session n) = SessionStatus.Active" "ss_updated_at (reserved_session n) = 20 + int n"
    "ss_last_outbound_sequence (reserved_session n) = n + 2" "ss_revision (reserved_session n) = n + 2"
    "(reserved_session n)\<lparr>ss_last_outbound_sequence := n + 3, ss_updated_at := 21 + int n, ss_revision := n + 3\<rparr> = reserved_session (n + 1)"
    by (simp_all add: reserved_session_def store_session_def store_outbox_def store_attempt_def)
  note read = store_reads(4) [OF reserved_inv ids(1-3)]
  have "session_cas (reserved_session n) (reserved_session (n + 1))" "session_row_check store_codec (reserved_session (n + 1))"
    by (simp_all add: session_cas_def session_row_check_def reserved_session_def store_session_def session_time_def sql_max_def
      session_platforms_def store_codec_def)
  then have "advance_sequence store_codec (reserved_session n) (21 + int n) (store_with (reserved_session n) store_outbox store_attempt)
    = Inr ((n + 3, n + 3), store_with (reserved_session (n + 1)) store_outbox store_attempt)"
    using assms ids(8) by (simp add: advance_sequence_def bindT_apply ids(3-7) store_increment update_active_session_def update_session_row_def
      store_with_def update_where_def numeral_3_eq_3)
  then show ?thesis
    unfolding gives_sequence_def
    by (intro disjI1 exI [of _ ?q]) (simp add: reserve_control_outbound_sequence_on_def bindT_apply read ids)
qed

text \<open>The delivery whose write was begun before the restart, fenced.\<close>

definition fenced_outbox :: StoredWireOutbox where
  "fenced_outbox = outbox_state claimed_outbox WireOutboxStatus.WriteStarted 50 None None (Some ''RESTART'')"

definition fenced_attempt :: StoredDeliveryAttempt where
  "fenced_attempt = attempt_state claimed_attempt CommandDeliveryAttemptStatus.Unconfirmed 50 None (Some ''RESTART'')"

lemmas fenced_row_defs = fenced_outbox_def fenced_attempt_def store_row_defs closed_session_def

lemma interrupted_inv: "delivery_inv store_codec (store_with closed_session claimed_outbox claimed_attempt)"
    "delivery_inv store_codec (store_with closed_session fenced_outbox claimed_attempt)"
proof -
  show "delivery_inv store_codec (store_with closed_session claimed_outbox claimed_attempt)"
    by (rule store_with_inv) (simp_all add: cancelled_ok store_attempt_ok, simp_all add: fenced_row_defs)
  show "delivery_inv store_codec (store_with closed_session fenced_outbox claimed_attempt)"
    by (rule store_with_inv) (simp_all add: cancelled_ok store_attempt_ok, simp_all add: fenced_row_defs)
qed

lemma store_fenced: "\<exists>report. fence_interrupted_writes_on store_codec 50 ''RESTART'' (store_with closed_session claimed_outbox claimed_attempt)
  = Inr (report, store_with closed_session fenced_outbox fenced_attempt)"
proof -
  have error: "\<not> trim_is_empty ''RESTART''" by code_simp
  have ids: "wo_message_id claimed_outbox = ''m1''" "da_message_id claimed_attempt = Some ''m1''" "ss_session_id closed_session = ''s1''"
    "wo_message_id fenced_outbox = ''m1''" "wo_status claimed_outbox = WireOutboxStatus.WriteStarted" "wo_updated_at claimed_outbox = 30"
    "wo_sent_at claimed_outbox = None" "wo_acked_at claimed_outbox = None" "da_status claimed_attempt = CommandDeliveryAttemptStatus.Pending"
    "ss_status closed_session = SessionStatus.Stale"
    by (simp_all add: fenced_row_defs)
  have read: "fetch_delivery_attempt_by_message store_codec ''m1'' (store_with closed_session fenced_outbox claimed_attempt)
    = Inr (Some claimed_attempt, store_with closed_session fenced_outbox claimed_attempt)"
    by (simp add: fetch_delivery_attempt_by_message_def fetch_attempt_eq [OF interrupted_inv(2)]) (simp add: store_with_def ids)
  have "''execution.command'' \<in> set (map fst message_type_arms)" by code_simp
  then have check: "outbox_row_check store_codec fenced_outbox" using store_hash
    by (simp add: outbox_row_check_def fenced_row_defs outbox_time_def sql_max_def store_codec_def)
  have checks: "outbox_cas claimed_outbox fenced_outbox" "attempt_cas claimed_attempt fenced_attempt"
    "attempt_row_check store_codec fenced_attempt"
    by (simp_all add: fenced_row_defs outbox_time_def sql_max_def attempt_time_def attempt_row_check_def attempt_cas_def outbox_cas_def
      is_command_subject_def bound_attempt_statuses_def sql_not_blank_def sql_trim_def)
  have u1: "update_outbox_state store_codec claimed_outbox WireOutboxStatus.WriteStarted 50 None None (Some ''RESTART'')
      (store_with closed_session claimed_outbox claimed_attempt) = Inr ((), store_with closed_session fenced_outbox claimed_attempt)"
    unfolding fenced_outbox_def
    by (rule store_update_outbox) (use check checks in \<open>simp_all add: fenced_outbox_def\<close>, simp add: store_row_defs)
  have u2: "update_attempt_state store_codec claimed_attempt CommandDeliveryAttemptStatus.Unconfirmed 50 None (Some ''RESTART'')
      (store_with closed_session fenced_outbox claimed_attempt) = Inr ((), store_with closed_session fenced_outbox fenced_attempt)"
    unfolding fenced_attempt_def
    by (rule store_update_attempt) (use checks in \<open>simp_all add: fenced_attempt_def\<close>, simp add: store_row_defs)
  have lists: "db_sessions (store_with closed_session m a) = [closed_session]" "db_outbox (store_with closed_session m a) = [m]" for m a
    by (simp_all add: store_with_def)
  show ?thesis
    by (simp add: fence_interrupted_writes_on_def bindT_apply require_non_empty_def error lists ids fence_outbox_def
      store_reads [OF interrupted_inv(1) ids(1-3)] u1 u2 read add_counter_def checked_add_u64_def u64_max_def)
qed

section \<open>Every run\<close>

text \<open>C15: The tables stay readable. From a store that satisfies the invariant, every run of operations, in any order and
  committed or rolled back, leads to a store that satisfies it: rows decode, keys are unique, an identity has at most one active
  session, outbox sequences are unique and passed by their session, and outbox rows and attempts are bound to each other in matching
  states. And in that store no operation reports corrupt data.\<close>

theorem store_stays_readable:
  assumes "delivery_inv J db" "parents_ok J db" "delivery_run J db db'"
  shows "delivery_inv J db' \<and> (\<forall>op e. op_ok J op \<longrightarrow> run_op J op db' = Inl e \<longrightarrow> \<not> is_corrupt e)"
proof -
  have db': "delivery_inv J db'" "parents_ok J db'" using delivery_run_inv [OF assms(3,1,2)] by auto
  have "\<not> is_corrupt e" if "op_ok J op" "run_op J op db' = Inl e" for op e
    by (rule wpT_error [OF run_op_wp [OF db' that(1)] that(2)])
  then show ?thesis using db'(1) by blast
qed

theorem store_stays_readable_witness:
  "delivery_inv store_codec (store_with store_session claimed_outbox claimed_attempt)
    \<and> (case run_op store_codec (ClaimOutbox store_claim) (store_with store_session claimed_outbox claimed_attempt) of
         Inl e \<Rightarrow> \<not> is_corrupt e | Inr _ \<Rightarrow> True)"
proof -
  have "run_write (run_op store_codec (ClaimOutbox store_claim)) store_db = (Inr (), store_with store_session claimed_outbox claimed_attempt)"
    by (simp add: run_write_def run_op_def ignoring_def bindT_apply store_claimed)
  then have run: "delivery_run store_codec store_db (store_with store_session claimed_outbox claimed_attempt)"
    by (rule run_step [OF run_start, rotated]) (simp add: op_ok_def)
  have "op_ok store_codec (ClaimOutbox store_claim)" by (simp add: op_ok_def)
  with store_stays_readable [OF store_inv _ run] store_parents show ?thesis unfolding store_db_def by (simp split: sum.split)
qed

lemma grown_row:
  assumes "evolves db db'"
  shows "\<And>r. r \<in> set (db_sessions db) \<Longrightarrow> \<exists>r' \<in> set (db_sessions db'). session_grows r r'"
    and "\<And>m. m \<in> set (db_outbox db) \<Longrightarrow> \<exists>m' \<in> set (db_outbox db'). outbox_grows m m'"
    and "\<And>a. a \<in> set (db_attempts db) \<Longrightarrow> \<exists>a' \<in> set (db_attempts db'). attempt_grows a a'"
  using assms by (auto simp: evolves_def ses.table_grows_def outb.table_grows_def att.table_grows_def)

text \<open>C10: Nothing is forgotten and what is settled stays settled. Along every run each outbox row keeps its message, session,
  sequence and payload; a row that is acknowledged or cancelled, an attempt that is acknowledged, cancelled or had no session,
  and a session that is no longer active stay exactly as they are.\<close>

theorem settled_rows_are_final:
  assumes "delivery_inv J db" "parents_ok J db" "delivery_run J db db'"
  shows "(\<forall>m \<in> set (db_outbox db). \<exists>m' \<in> set (db_outbox db'). outbox_fixed m m')
    \<and> (\<forall>m \<in> set (db_outbox db). wo_status m \<in> {WireOutboxStatus.Acked, WireOutboxStatus.Cancelled} \<longrightarrow> m \<in> set (db_outbox db'))
    \<and> (\<forall>a \<in> set (db_attempts db). da_status a \<in> {CommandDeliveryAttemptStatus.Acked, CommandDeliveryAttemptStatus.Cancelled,
        CommandDeliveryAttemptStatus.NoActiveSession} \<longrightarrow> a \<in> set (db_attempts db'))
    \<and> (\<forall>r \<in> set (db_sessions db). ss_status r \<noteq> SessionStatus.Active \<longrightarrow> r \<in> set (db_sessions db'))"
proof -
  have "evolves db db'" using delivery_run_inv [OF assms(3,1,2)] by blast
  note rows = grown_row [OF this]
  show ?thesis
  proof (intro conjI ballI impI)
    show "\<exists>m' \<in> set (db_outbox db'). outbox_fixed m m'" if "m \<in> set (db_outbox db)" for m
      using rows(2) [OF that] grows_fixed(1) by blast
    show "m \<in> set (db_outbox db')" if "m \<in> set (db_outbox db)" "wo_status m \<in> {WireOutboxStatus.Acked, WireOutboxStatus.Cancelled}" for m
      using rows(2) [OF that(1)] that(2) by (auto simp: outbox_grows_def)
    show "a \<in> set (db_attempts db')" if "a \<in> set (db_attempts db)" "da_status a \<in> {CommandDeliveryAttemptStatus.Acked,
        CommandDeliveryAttemptStatus.Cancelled, CommandDeliveryAttemptStatus.NoActiveSession}" for a
      using rows(3) [OF that(1)] that(2) by (auto simp: attempt_grows_def)
    show "r \<in> set (db_sessions db')" if "r \<in> set (db_sessions db)" "ss_status r \<noteq> SessionStatus.Active" for r
      using rows(1) [OF that(1)] that(2) by (auto simp: session_grows_def)
  qed
qed

theorem settled_rows_are_final_witness:
  "\<exists>db. delivery_run store_codec (store_with closed_session cancelled_outbox cancelled_attempt) db
    \<and> cancelled_outbox \<in> set (db_outbox db) \<and> closed_session \<in> set (db_sessions db)"
proof -
  let ?db = "store_with closed_session cancelled_outbox cancelled_attempt"
  have row: "cancelled_outbox \<in> set (db_outbox ?db)" "wo_status cancelled_outbox = WireOutboxStatus.Cancelled"
    "closed_session \<in> set (db_sessions ?db)" "ss_status closed_session = SessionStatus.Stale"
    by (simp_all add: store_with_def cancelled_outbox_def closed_session_def)
  obtain answer db where "run_write (run_op store_codec (ClaimOutbox store_claim)) ?db = (answer, db)" by fastforce
  then have "delivery_run store_codec ?db db" by (rule run_step [OF run_start, rotated]) (simp add: op_ok_def)
  with settled_rows_are_final [OF closed_inv store_parents this] row show ?thesis by auto
qed

section \<open>Sequences\<close>

lemma gives_sequence_taken:
  assumes inv: "delivery_inv J db" and par: "parents_ok J db" and g: "gives_sequence J db sid n db'"
  shows "delivery_inv J db' \<and> evolves db db' \<and> sequence_taken db db' sid n"
  using g unfolding gives_sequence_def
proof (elim disjE exE conjE)
  fix request c assume c: "reserve_control_outbound_sequence_on J request db = Inr (ControlSequenceReservation.Reserved c, db')"
    "cor_session_id c = sid" "cor_sequence c = n"
  have "wpT (reserve_control_outbound_sequence_on J request) (\<lambda>v s. delivery_inv J s \<and> evolves db s \<and>
      (\<forall>c. v = ControlSequenceReservation.Reserved c \<longrightarrow> sequence_taken db s (cor_session_id c) (cor_sequence c))) db"
    by (rule reserve_control_wp [OF inv]) simp
  from wpT_ok [OF this c(1)] show ?thesis using c(2,3) by auto
next
  fix request prepare res assume p: "op_ok J (ReserveAndEnqueue request prepare)"
    and r: "reserve_and_enqueue J request prepare db = Inr (SequenceReservation.Reserved res, db')"
      "or_session_id res = sid" "or_sequence res = n"
  have "wpT (reserve_and_enqueue J request prepare) (\<lambda>v s. delivery_inv J s \<and> evolves db s \<and>
      (\<forall>res. v = SequenceReservation.Reserved res \<longrightarrow> sequence_taken db s (or_session_id res) (or_sequence res))) db"
    by (rule reserve_and_enqueue_wp [OF inv par]) (use p in \<open>auto simp: op_ok_def\<close>)
  from wpT_ok [OF this r(1)] show ?thesis using r(2,3) by auto
qed

text \<open>C12: Sequences of a session are never used twice. A sequence given to a session is larger than that of every message already in
  its outbox, and whatever operations run in between, the next one given to the same session is larger still.\<close>

theorem sequences_increase:
  assumes "delivery_inv J db" "parents_ok J db" "gives_sequence J db sid n db1"
    and "delivery_run J db1 db2" "gives_sequence J db2 sid k db3"
  shows "n < k \<and> (\<forall>m \<in> set (db_outbox db). \<forall>i. wo_session_id m = Some sid \<and> wo_sequence m = Some i \<longrightarrow> i < n)"
proof -
  have 1: "delivery_inv J db1" "evolves db db1" "sequence_taken db db1 sid n" using gives_sequence_taken [OF assms(1-3)] by auto
  have par1: "parents_ok J db1" using assms(2) by (simp add: parents_evolve [OF 1(2)])
  have 2: "delivery_inv J db2" "evolves db1 db2" "parents_ok J db2" using delivery_run_inv [OF assms(4) 1(1) par1] by auto
  have 3: "sequence_taken db2 db3 sid k" using gives_sequence_taken [OF 2(1,3) assms(5)] by auto
  obtain r1 where r1: "r1 \<in> set (db_sessions db1)" "ss_session_id r1 = sid" "ss_last_outbound_sequence r1 = n"
    using 1(3) by (auto simp: sequence_taken_def)
  obtain r2 where r2: "r2 \<in> set (db_sessions db2)" "ss_session_id r2 = sid" "k = ss_last_outbound_sequence r2 + 1"
    using 3 by (auto simp: sequence_taken_def)
  obtain q where q: "q \<in> set (db_sessions db2)" "session_grows r1 q" using grown_row(1) [OF 2(2) r1(1)] by blast
  have "q = r2" using ses.unique_inj [OF inv_unique(1) [OF 2(1)] q(1) r2(1)] ses.grows_key [OF q(2)] r1(2) r2(2) by simp
  then have "n \<le> ss_last_outbound_sequence r2" using q(2) r1(3) by (auto simp: session_grows_def)
  then show ?thesis using r2(3) sequence_unused [OF assms(1) 1(3)] by auto
qed

theorem sequences_increase_witness:
  "gives_sequence store_codec (store_with (reserved_session 0) store_outbox store_attempt) ''s1'' 3
     (store_with (reserved_session 1) store_outbox store_attempt)
   \<and> gives_sequence store_codec (store_with (reserved_session 1) store_outbox store_attempt) ''s1'' 4
     (store_with (reserved_session 2) store_outbox store_attempt) \<and> (3 :: nat) < 4"
proof -
  let ?db = "\<lambda>n. store_with (reserved_session n) store_outbox store_attempt"
  have g: "gives_sequence store_codec (?db 0) ''s1'' 3 (?db 1)" "gives_sequence store_codec (?db 1) ''s1'' 4 (?db 2)"
    using store_reserved [of 0] store_reserved [of 1] by (simp_all add: numeral_2_eq_2)
  from sequences_increase [OF reserved_inv store_parents g(1) run_start g(2)] show ?thesis using g by blast
qed

section \<open>One write per delivery\<close>

text \<open>C11: A write begins only when it may. A claim that is granted finds the delivery pending, its session active and seen after the
  freshness bound, and for an execution command the session's clock synchronised and the command not expired; every other answer has
  cancelled the delivery.\<close>

theorem claim_is_guarded:
  assumes "delivery_inv J db" "claim_outbox_on J claim db = Inr (v, db')"
  shows "claim_answer claim db v db'"
  by (rule wpT_ok [OF claim_wp [OF assms(1)] assms(2)])

theorem claim_is_guarded_witness:
  "claim_answer store_claim store_db (OutboxClaimOutcome.Claimed \<lparr>sod_outbox = claimed_outbox, sod_attempt = claimed_attempt\<rparr>)
    (store_with store_session claimed_outbox claimed_attempt)"
  by (rule claim_is_guarded [OF store_inv store_claimed])

lemma claimed_row:
  assumes inv: "delivery_inv J db" and c: "claim_outbox_on J claim db = Inr (OutboxClaimOutcome.Claimed d, db')"
  shows "\<exists>m \<in> set (db_outbox db'). wo_message_id m = cwo_message_id claim \<and> wo_status m \<noteq> WireOutboxStatus.Pending"
proof -
  have "claim_answer claim db (OutboxClaimOutcome.Claimed d) db'" by (rule wpT_ok [OF claim_wp [OF inv] c])
  then show ?thesis by (auto simp: claim_answer_def write_begun_def)
qed

lemma stale_claim:
  assumes inv: "delivery_inv J db" and m: "m \<in> set (db_outbox db)" "wo_message_id m = cwo_message_id claim"
    "wo_status m \<noteq> WireOutboxStatus.Pending"
  shows "claim_outbox_on J claim db = Inl (stale_outbound (cwo_message_id claim))"
proof -
  obtain a where a: "a \<in> set (db_attempts db)" "da_message_id a = Some (cwo_message_id claim)"
    using inv_attempted [OF inv m(1)] m(2) by auto
  obtain r where r: "r \<in> set (db_sessions db)" "wo_session_id m = Some (ss_session_id r)"
    using inv_sequenced [OF inv m(1)] by (auto simp: sequenced_def)
  have "required_outbox J (cwo_message_id claim) db = Inr (m, db)"
    using find_outbox [OF inv m(1)] m(2) by (simp add: required_outbox_def requiredT_eq_Inr fetch_outbox_eq [OF inv])
  moreover have "required_attempt_by_message J (cwo_message_id claim) db = Inr (a, db)"
    using find_attempt [OF inv a]
    by (simp add: required_attempt_by_message_def requiredT_eq_Inr fetch_delivery_attempt_by_message_def fetch_attempt_eq [OF inv])
  moreover have "required_session J (ss_session_id r) db = Inr (r, db)"
    using r(1) inv_unique(1) [OF inv] by (simp add: required_session_def requiredT_eq_Inr fetch_session_eq [OF inv] ses.find_row)
  ultimately show ?thesis using m(3) r(2) by (simp add: claim_outbox_on_def bindT_apply)
qed

text \<open>A delivery is written at most once. After a claim was granted, no later claim of the same message succeeds, whatever revisions
  it names and whatever operations ran in between, a restart's fence included: it is refused as stale.\<close>

theorem delivery_claimed_once:
  assumes "delivery_inv J db" "parents_ok J db" "claim_outbox_on J claim db = Inr (OutboxClaimOutcome.Claimed d, db1)"
    and "delivery_run J db1 db2" "cwo_message_id claim' = cwo_message_id claim"
  shows "claim_outbox_on J claim' db2 = Inl (stale_outbound (cwo_message_id claim))"
proof -
  have "delivery_inv J db1 \<and> evolves db db1"
    by (rule wpT_ok [OF claim_wp [OF assms(1)] assms(3)]) blast
  then have 1: "delivery_inv J db1" "evolves db db1" by auto
  have par: "parents_ok J db1" using assms(2) by (simp add: parents_evolve [OF 1(2)])
  have 2: "delivery_inv J db2" "evolves db1 db2" using delivery_run_inv [OF assms(4) 1(1) par] by auto
  obtain m where m: "m \<in> set (db_outbox db1)" "wo_message_id m = cwo_message_id claim" "wo_status m \<noteq> WireOutboxStatus.Pending"
    using claimed_row [OF assms(1,3)] by blast
  obtain m' where m': "m' \<in> set (db_outbox db2)" "outbox_grows m m'" using grown_row(2) [OF 2(2) m(1)] by blast
  then have "wo_message_id m' = cwo_message_id claim'" "wo_status m' \<noteq> WireOutboxStatus.Pending"
    using m assms(5) by (cases "wo_status m"; auto simp: outbox_grows_def outbox_fixed_def)+
  then show ?thesis using stale_claim [OF 2(1) m'(1)] assms(5) by simp
qed

theorem delivery_claimed_once_witness:
  "claim_outbox_on store_codec (store_claim\<lparr>cwo_expected_outbox_revision := 1, cwo_expected_attempt_revision := 1\<rparr>)
    (store_with store_session claimed_outbox claimed_attempt) = Inl (stale_outbound ''m1'')"
proof -
  have "parents_ok store_codec store_db" by (simp add: store_db_def store_parents)
  from delivery_claimed_once [OF store_inv this store_claimed run_start] show ?thesis by (simp add: store_claim_def)
qed

section \<open>Sessions\<close>

text \<open>C14: Closing a session settles it. When a session is marked stale or disconnected, it has that status, and none of its deliveries
  is left open: no attempt is pending, and an attempt counts as sent only when the client refused the message.\<close>

theorem closing_settles:
  assumes "delivery_inv J db" "status = SessionStatus.Stale \<or> status = SessionStatus.Disconnected"
    and "close_session_on J update status db = Inr (v, db')"
  shows "session_settled (ssu_session_id update) db' \<and> sdo_session v \<in> set (db_sessions db')
    \<and> ss_session_id (sdo_session v) = ssu_session_id update \<and> ss_status (sdo_session v) = status"
  by (rule wpT_ok [OF close_session_wp [OF assms(1,2)] assms(3)]) blast

theorem closing_settles_witness: "session_settled ''s1'' (store_with closed_session cancelled_outbox cancelled_attempt)"
  using closing_settles [OF store_inv _ store_closed] by (simp add: store_close_def)

text \<open>Registering a session replaces the one before. Afterwards the new session is the only active session of its identity, and the
  replaced one, if any, is stale and settled.\<close>

theorem replacement_takes_over:
  assumes "delivery_inv J db" "canonical J (ns_capabilities session)" "replace_active_session_on J session db = Inr (v, db')"
  shows "replaced_by session v db' \<and> (\<forall>r \<in> set (db_sessions db'). \<forall>q \<in> set (db_sessions db').
    ss_status r = SessionStatus.Active \<and> ss_status q = SessionStatus.Active \<and> active_identity q = active_identity r \<longrightarrow> q = r)"
proof -
  have "delivery_inv J db' \<and> replaced_by session v db'"
    by (rule wpT_ok [OF replace_session_wp [OF assms(1,2)] assms(3)]) blast
  then show ?thesis using inv_active by blast
qed

theorem replacement_takes_over_witness: "\<exists>r \<in> set (db_sessions replaced_db). ss_session_id r = ''s2'' \<and> ss_status r = SessionStatus.Active"
proof -
  have "canonical store_codec (ns_capabilities store_new_session)" by (simp add: store_new_session_def)
  from replacement_takes_over [OF store_inv this store_replaced] show ?thesis
    by (auto simp: replaced_by_def store_new_session_def)
qed

text \<open>C13: The fence after a restart. When it commits, no session is active and no delivery still waits for a write that began before the
  restart.\<close>

theorem restart_is_fenced:
  assumes "delivery_inv J db" "fence_interrupted_writes_on J fenced_at error db = Inr (report, db')"
  shows "fenced db'"
  by (rule wpT_ok [OF fence_wp [OF assms(1)] assms(2)]) blast

theorem restart_is_fenced_witness: "fenced (store_with closed_session fenced_outbox fenced_attempt)"
  using store_fenced restart_is_fenced [OF interrupted_inv(1)] by blast

end
