(* ===== verification/Outbound_Store.thy ===== *)
theory Outbound_Store
  imports Outbound_Adapter Delivery_Properties
begin

text \<open>
  The store under the outbound adapter. What the transaction of a request leaves; the states of the store
  that deliveries and the other operations of the gateway reach (\<open>gateway_ok\<close>); how a rejection is recorded, how it is
  read back, and that it stays in the store. Nothing is assumed of \<open>serde_json\<close>: a transaction commits only rows that it
  has read back (\<open>Delivery_Commits\<close>).
\<close>

section \<open>Transactions of the adapter\<close>

lemma okT_store [ok]: "wpT m Q s \<Longrightarrow> okT (storeT E m) Q s"
  by (auto simp: okT_def wpT_def storeT_def map_err_eq_Inr)

lemma okT_store_ok: "okT m Q s \<Longrightarrow> okT (storeT E m) Q s"
  by (auto simp: okT_def storeT_def map_err_eq_Inr)

section \<open>The store under the adapter\<close>

lemma resolve_wp:
  assumes inv: "delivery_inv J db"
    and Q: "\<And>v. (\<And>n. v = SessionRouteResolution.Ambiguous n \<Longrightarrow> n \<le> length (db_sessions db)) \<Longrightarrow> Q v db"
  shows "wpT (resolve_session_route_on J q) Q db"
proof -
  let ?rows = "filter (\<lambda>r. ss_account_id r = srq_account_id q \<and> (srq_client_id q = None \<or> srq_client_id q = Some (ss_client_id r))
       \<and> (srq_terminal_id q = None \<or> srq_terminal_id q = ss_terminal_id r) \<and> ss_status r = SessionStatus.Active)
       (sort_key (\<lambda>r. (- ss_connected_at r, ss_session_id r)) (db_sessions db))"
  have rows: "mapT (\<lambda>r. liftT (session_from_row J r)) ?rows db = Inr (?rows, db)"
    by (rule decode_rows) (use inv_session [OF inv] in auto)
  have few: "length ?rows \<le> length (db_sessions db)" by (rule order_trans [OF length_filter_le]) simp
  define rows where "rows = ?rows"
  note f = few [folded rows_def]
  have body: "wpT (if rows = [] then returnT SessionRouteResolution.NoActiveSession
     else if 1 < length rows then returnT (SessionRouteResolution.Ambiguous (length rows))
     else let fresh = filter (\<lambda>s. srq_fresh_after q \<le> last_seen s) rows in
       if fresh = [] then returnT (SessionRouteResolution.Stale (length rows))
       else case filter (\<lambda>s. \<not> srq_require_synced_clock q
           \<or> ss_clock_sync_status s = Some ClockSyncStatus.Synced) fresh of
         [session] \<Rightarrow> returnT (SessionRouteResolution.Ready session)
       | [] \<Rightarrow> returnT (SessionRouteResolution.ClockUnhealthy 1)
       | ready \<Rightarrow> returnT (SessionRouteResolution.Ambiguous (length ready))) Q db"
  proof (cases "rows = [] \<or> 1 < length rows")
    case True then show ?thesis using f by (auto intro!: wpT_return Q)
  next
    case False
    then obtain x where "rows = [x]" by (cases rows) auto
    then show ?thesis by (auto simp: Let_def intro!: wpT_return Q)
  qed
  show ?thesis
    unfolding resolve_session_route_on_def
    by (rule wpT_bindI, rule wpT_read, rule wpT_bindI, rule wpT_eq, rule rows) (use body in \<open>simp only: rows_def\<close>)
qed

lemma fetch_outbound_wp:
  assumes inv: "delivery_inv J db"
    and Q: "(\<And>m. m \<in> set (db_outbox db) \<Longrightarrow> wo_message_id m \<noteq> i) \<Longrightarrow> Q None db"
      "\<And>m a. m \<in> set (db_outbox db) \<Longrightarrow> wo_message_id m = i \<Longrightarrow> a \<in> set (db_attempts db) \<Longrightarrow> da_message_id a = Some i \<Longrightarrow>
        Q (Some \<lparr>sod_outbox = m, sod_attempt = a\<rparr>) db"
  shows "wpT (fetch_outbound_delivery J i) Q db"
  unfolding fetch_outbound_delivery_def
proof (intro wpT_bindI fetch_outbox_wp [OF inv])
  assume "find (\<lambda>r. wo_message_id r = i) (db_outbox db) = None"
  then show "wpT (case None of None \<Rightarrow> returnT None | Some outbox \<Rightarrow> bindT (validate_outbox_parent_payload J outbox) (\<lambda>_.
      bindT (requiredT (corrupt ''outbound_delivery'' i ''delivery outbox has no matching attempt'')
        (fetch_delivery_attempt_by_message J i)) (\<lambda>attempt. returnT (Some \<lparr>sod_outbox = outbox, sod_attempt = attempt\<rparr>)))) Q db"
    by (auto simp: find_None_iff intro!: wpT_return Q(1))
next
  fix m assume m: "m \<in> set (db_outbox db)" "wo_message_id m = i"
  obtain a where a: "a \<in> set (db_attempts db)" "da_message_id a = Some i" using inv_attempted [OF inv m(1)] m(2) by auto
  have "validate_outbox_parent_payload J m db = Inr ((), db)" using inv_parent [OF inv m(1)] by (simp add: parent_ok_def)
  moreover have "wpT (bindT (requiredT (corrupt ''outbound_delivery'' i ''delivery outbox has no matching attempt'')
      (fetch_delivery_attempt_by_message J i)) (\<lambda>attempt. returnT (Some \<lparr>sod_outbox = m, sod_attempt = attempt\<rparr>))) Q db"
    by (intro wpT_bindI wpT_required fetch_attempt_by_message_wp [OF inv])
      (use a Q(2) [OF m] in \<open>auto simp: find_None_iff intro!: wpT_return\<close>)
  ultimately show "wpT (case Some m of None \<Rightarrow> returnT None | Some outbox \<Rightarrow> bindT (validate_outbox_parent_payload J outbox) (\<lambda>_.
      bindT (requiredT (corrupt ''outbound_delivery'' i ''delivery outbox has no matching attempt'')
        (fetch_delivery_attempt_by_message J i)) (\<lambda>attempt. returnT (Some \<lparr>sod_outbox = outbox, sod_attempt = attempt\<rparr>)))) Q db"
    by (simp add: wpT_bind_eq wpT_eq)
qed

text \<open>A rejection is the row that is written for it.\<close>

definition rejection_row :: "DeliverySubject \<Rightarrow> MessageId \<Rightarrow> SessionId option \<Rightarrow> CanonicalJson \<Rightarrow> i64 \<Rightarrow> DeliveryRejectionReason \<Rightarrow>
  StoredDeliveryAttempt \<Rightarrow> bool" where
  "rejection_row subject i sid p t reason a \<longleftrightarrow> da_attempt_id a = attempt_id i \<and> da_subject a = subject \<and> da_session_id a = sid
     \<and> da_message_id a = None \<and> da_request_payload a = Some p \<and> da_status a = rejection_attempt_status reason
     \<and> da_attempted_at a = t \<and> da_error a = Some (rejection_label reason)"

lemma record_rejection_ok:
  assumes inv: "delivery_inv (oe_json E) db"
    and Q: "\<And>a db'. delivery_inv (oe_json E) db' \<Longrightarrow> evolves db db' \<Longrightarrow> a \<in> set (db_attempts db') \<Longrightarrow>
      db_outbox db' = db_outbox db \<Longrightarrow> rejection_row subject i sid p t reason a \<Longrightarrow> Q (rejection_of a i reason) db'"
  shows "okT (record_rejection E subject i sid p t reason) Q db"
  unfolding record_rejection_def Let_def
proof (rule okT_bind, rule okT_store_ok, rule okT_I)
  let ?n = "\<lparr>nda_attempt_id = attempt_id i, nda_subject = subject, nda_session_id = sid, nda_message_id = None,
    nda_request_payload = Some p, nda_status = rejection_attempt_status reason, nda_attempted_at = t, nda_acked_at = None,
    nda_error = Some (rejection_label reason), nda_updated_at = t\<rparr>"
  let ?k = "\<lambda>v. returnT (DeliveryOutcome.Rejected \<lparr>drj_attempt_id = da_attempt_id (into_record v), drj_message_id = i,
    drj_session_id = sid, drj_rejected_at = da_attempted_at (into_record v), drj_reason = reason\<rparr>)"
  fix v db' assume run: "record_delivery_attempt_on (oe_json E) ?n db = Inr (v, db')"
  have can: "canonical (oe_json E) p" by (rule recorded_canonical [OF inv run]) simp
  have ended: "okT (?k v) Q db'" if "delivery_inv (oe_json E) db'" "evolves db db'" "into_record v \<in> set (db_attempts db')"
    "db_outbox db' = db_outbox db" "rejection_row subject i sid p t reason (into_record v)" for v db'
    using Q [OF that] that(5) by (auto intro!: ok simp: rejection_of_def rejection_row_def)
  have "wpT (record_delivery_attempt_on (oe_json E) ?n) (\<lambda>v. okT (?k v) Q) db"
  proof (rule record_attempt_cases, goal_cases)
    case (1 b) then show ?case by (rule read_attempt_eq [OF inv])
  next
    case (2 e)
    then show ?case by (intro ended inv) (auto simp: same_attempt_def rejection_row_def)
  next
    case (3 a db')
    have "attempt_ok (oe_json E) a" unfolding 3(4) by (rule new_attempt_ok [OF 3(1)]) (use can in simp)
    then have new: "delivery_inv (oe_json E) db'" "evolves db db'"
      using inv_add_attempt [OF inv, of a] 3 by simp_all
    have "rejection_row subject i sid p t reason a"
      by (simp add: 3(4) rejection_row_def timed_attempt_def stored_attempt_def)
    then have "okT (?k (WriteOutcome.Inserted a)) Q db'" using new 3(5) by (intro ended) simp_all
    then show ?case using new(1) by blast
  qed
  then show "okT (?k v) Q db'" using run by (rule wpT_ok)
qed

lemma enqueue_prepared_ok:
  assumes inv: "delivery_inv (oe_json E) db" and par: "parents_ok (oe_json E) db"
    and Q: "\<And>v db'. delivery_inv (oe_json E) db' \<Longrightarrow> evolves db db' \<Longrightarrow> Q v db'"
  shows "okT (enqueue_prepared E request r now) Q db"
proof -
  have "okT (enqueue_reserved_delivery_on (oe_json E) d) Q db" for d
  proof (rule okT_I)
    fix v db' assume run: "enqueue_reserved_delivery_on (oe_json E) d db = Inr (v, db')"
    show "Q v db'"
      by (rule wpT_ok [OF enqueue_reserved_wp [OF inv par enqueued_prepared [OF inv run]] run]) (rule Q)
  qed
  then show ?thesis unfolding enqueue_prepared_def by (intro okT_bind okT_lift okT_store_ok)
qed


section \<open>Rejections that can be replayed\<close>

definition machine_sized :: "delivery_db \<Rightarrow> bool" where
  "machine_sized db \<longleftrightarrow> length (db_sessions db) \<le> u64_max \<and> (\<forall>r \<in> set (db_sessions db). ss_max_inflight_commands r \<le> u64_max)"

fun recordable :: "DeliveryRejectionReason \<Rightarrow> bool" where
  "recordable (DeliveryRejectionReason.AmbiguousRoute n) \<longleftrightarrow> n \<le> u64_max"
| "recordable (DeliveryRejectionReason.IdentityMismatch field) \<longleftrightarrow> field \<in> set identity_fields"
| "recordable (DeliveryRejectionReason.InflightLimit n) \<longleftrightarrow> n \<le> u64_max"
| "recordable (DeliveryRejectionReason.Backpressure _) \<longleftrightarrow> False"
| "recordable (DeliveryRejectionReason.TransportRejected _) \<longleftrightarrow> False"
| "recordable _ \<longleftrightarrow> True"

lemma parse_digits_u64_append:
  "parse_digits_u64 acc (xs @ ys) = Option.bind (parse_digits_u64 acc xs) (\<lambda>a. parse_digits_u64 a ys)"
  by (induction xs arbitrary: acc) (auto split: option.split)

lemma parse_show_u64: "n \<le> u64_max \<Longrightarrow> parse_digits_u64 0 (show_decimal n) = Some n"
proof (induction n rule: show_decimal.induct)
  case (1 n)
  show ?case
  proof (cases "n < 10")
    case False
    moreover have "n div 10 \<le> u64_max" using 1(2) by (meson div_le_dividend le_trans)
    ultimately show ?thesis
      using 1 by (simp add: show_decimal.simps [of n] parse_digits_u64_append digit_round_trip)
  qed (use 1 in \<open>simp add: show_decimal.simps digit_round_trip\<close>)
qed

lemma parse_u64_show: "n \<le> u64_max \<Longrightarrow> parse_u64 (show_decimal n) = Some n"
  using show_decimal_plain(2) [of n] show_decimal_not_Nil [of n] parse_show_u64 [of n]
  by (cases "show_decimal n") (auto simp: parse_u64_def)

text \<open>The status and the label of a rejection determine it.\<close>

lemma label_round_trip:
  assumes "recordable reason" "da_status a = rejection_attempt_status reason" "da_error a = Some (rejection_label reason)"
  shows "rejection_reason_from_attempt a = Inr reason"
proof -
  have plain: "''NO_ACTIVE_SESSION'' \<noteq> ''AMBIGUOUS_ROUTE:'' @ x" "DELIVERY_ERROR_SESSION_UNAVAILABLE \<noteq> ''AMBIGUOUS_ROUTE:'' @ x"
    "''TIME_SYNC_UNHEALTHY'' \<noteq> ''AMBIGUOUS_ROUTE:'' @ x" "DELIVERY_ERROR_CLOCK_UNHEALTHY \<noteq> ''AMBIGUOUS_ROUTE:'' @ x" for x
    by (simp_all add: DELIVERY_ERROR_SESSION_UNAVAILABLE_def DELIVERY_ERROR_CLOCK_UNHEALTHY_def)
  show ?thesis
  proof (cases reason)
    case (AmbiguousRoute n)
    then show ?thesis using assms plain [of "show_decimal n", symmetric]
      by (simp add: rejection_reason_from_attempt_def strip_prefix_append [of "''AMBIGUOUS_ROUTE:''", simplified] parse_u64_show)
  next
    case (IdentityMismatch field)
    then show ?thesis using assms
      by (simp add: rejection_reason_from_attempt_def identity_field_def
          strip_prefix_append [of "''SESSION_IDENTITY_MISMATCH:''", simplified])
  next
    case (InflightLimit n)
    then show ?thesis using assms
      by (simp add: rejection_reason_from_attempt_def parse_u64_show
          strip_prefix_append [of "''COMMAND_INFLIGHT_LIMIT_REACHED:''", simplified])
  qed (use assms in \<open>simp_all add: rejection_reason_from_attempt_def DELIVERY_ERROR_COMMAND_EXPIRED_def
      DELIVERY_ERROR_SESSION_UNAVAILABLE_def DELIVERY_ERROR_CLOCK_UNHEALTHY_def\<close>)
qed

lemma wpT_with: "wpT m (\<lambda>v s'. m s = Inr (v, s') \<longrightarrow> Q v s') s \<Longrightarrow> wpT m Q s"
  by (auto simp: wpT_def split: sum.splits)

lemma route_refusals: "validate_subject_route r request db = Inr (Some v, db') \<Longrightarrow> recordable (reservation_rejection v)"
  by (auto simp: validate_subject_route_def route_mismatch_def reservation_rejection_def identity_fields_def bindT_eq_Inr
      split: if_splits option.splits DeliverySubject.splits)

lemma reserve_refusals:
  assumes "delivery_inv J db" "machine_sized db" "reserve_outbound_sequence_on J request db = Inr (v, db')"
    "\<forall>res. v \<noteq> SequenceReservation.Reserved res"
  shows "recordable (reservation_rejection v)"
proof -
  have "ss_max_inflight_commands r \<le> u64_max" if "required_session J i db = Inr (r, s)" for r i s
    using wpT_ok [OF required_session_wp [of J db i "\<lambda>r _. r \<in> set (db_sessions db)"] that] assms(1,2)
    by (simp add: machine_sized_def)
  then show ?thesis using assms(3,4) unfolding reserve_outbound_sequence_on_def
    by (auto simp: bindT_eq_Inr reservation_rejection_def split: if_splits option.splits dest: route_refusals [unfolded reservation_rejection_def])
qed


text \<open>The answer to a request is recorded: the same request is answered the same way.\<close>

definition replays ::
  "DeliverySubject \<Rightarrow> MessageId \<Rightarrow> CanonicalJson \<Rightarrow> (DeliveryRejectionReason, unit) result \<Rightarrow> DeliveryOutcome \<Rightarrow> delivery_db \<Rightarrow> bool" where
  "replays subject i p validation outcome db \<longleftrightarrow> (\<forall>m \<in> set (db_outbox db). wo_message_id m \<noteq> i)
     \<and> (\<exists>a \<in> set (db_attempts db). \<exists>reason. da_attempt_id a = attempt_id i \<and> da_subject a = subject \<and> da_message_id a = None
        \<and> da_request_payload a = Some p \<and> rejection_reason_from_attempt a = Inr reason \<and> outcome = rejection_of a i reason
        \<and> (is_identity_mismatch validation \<longrightarrow> validation = Inl reason))"

lemma rejection_replays_row:
  assumes "rejection_row subject i sid p t reason a" "a \<in> set (db_attempts db)" "recordable reason"
    "\<And>m. m \<in> set (db_outbox db) \<Longrightarrow> wo_message_id m \<noteq> i" "is_identity_mismatch validation \<Longrightarrow> validation = Inl reason"
  shows "replays subject i p validation (rejection_of a i reason) db"
  using assms label_round_trip [of reason a] unfolding replays_def rejection_row_def by blast

text \<open>What the transaction of a request leaves: the invariant, and an answer that can be replayed, when the
  validation names fields the store knows.\<close>

definition prepared_post ::
  "'a outbound_env \<Rightarrow> DeliverySubject \<Rightarrow> MessageId \<Rightarrow> CanonicalJson \<Rightarrow> (DeliveryRejectionReason, unit) result \<Rightarrow> delivery_db \<Rightarrow>
   preparation \<Rightarrow> delivery_db \<Rightarrow> bool" where
  "prepared_post E subject i p validation db v db' \<longleftrightarrow> delivery_inv (oe_json E) db' \<and> evolves db db'
     \<and> (\<forall>outcome. v = Answered outcome \<longrightarrow> machine_sized db \<longrightarrow> (\<forall>r. validation = Inl r \<longrightarrow> recordable r) \<longrightarrow>
          replays subject i p validation outcome db')"

lemma reject_post:
  assumes inv: "delivery_inv (oe_json E) db"
    and new: "\<And>m. m \<in> set (db_outbox db) \<Longrightarrow> wo_message_id m \<noteq> i"
    and r: "machine_sized db \<Longrightarrow> (\<forall>r. validation = Inl r \<longrightarrow> recordable r) \<Longrightarrow> recordable reason"
      "is_identity_mismatch validation \<Longrightarrow> validation = Inl reason"
  shows "okT (bindT (record_rejection E subject i sid p t reason) (\<lambda>outcome. returnT (Answered outcome)))
    (prepared_post E subject i p validation db) db"
proof (intro okT_bind record_rejection_ok [OF inv] okT_return)
  fix a db' assume a: "delivery_inv (oe_json E) db'" "evolves db db'" "a \<in> set (db_attempts db')" "db_outbox db' = db_outbox db"
    "rejection_row subject i sid p t reason a"
  have "replays subject i p validation (rejection_of a i reason) db'" if "recordable reason"
    by (rule rejection_replays_row [OF a(5,3) that]) (use new a(4) r(2) in auto)
  then show "prepared_post E subject i p validation db (Answered (rejection_of a i reason)) db'"
    using a(1,2) r(1) by (auto simp: prepared_post_def)
qed

lemma reserve_and_prepare_post:
  assumes inv: "delivery_inv (oe_json E) db" and par: "parents_ok (oe_json E) db"
    and v: "validation = Inr ()"
    and new: "\<And>m. m \<in> set (db_outbox db) \<Longrightarrow> wo_message_id m \<noteq> wm_message_id (dr_message request)"
  shows "okT (reserve_and_prepare E request subject fresh now p session)
    (prepared_post E subject (wm_message_id (dr_message request)) p validation db) db"
  unfolding reserve_and_prepare_def
proof (intro okT_bind okT_store, rule wpT_with, rule reserve_outbound_wp [OF inv], goal_cases)
  case (1 v')
  let ?m = "reserve_outbound_sequence_on (oe_json E) \<lparr>ros_session_id = ss_session_id session,
       ros_expected_revision = ss_revision session, ros_subject = subject, ros_fresh_after = fresh, ros_reserved_at = now\<rparr>"
  have "okT (bindT (record_rejection E subject (wm_message_id (dr_message request)) (Some (ss_session_id session)) p now
      (reservation_rejection v')) (\<lambda>outcome. returnT (Answered outcome)))
    (prepared_post E subject (wm_message_id (dr_message request)) p validation db) db" if "?m db = Inr (v', db)"
    by (rule reject_post [OF inv new]) (use reserve_refusals [OF inv _ that 1] v in \<open>auto simp: is_identity_mismatch_def\<close>)
  then show ?case using 1 by (cases v') simp_all
next
  case (2 res r r' db')
  have "parents_ok (oe_json E) db'" using parents_evolve [OF 2(2)] par by blast
  then have "okT (bindT (enqueue_prepared E request res now) (\<lambda>prepared. returnT (Prepared prepared)))
    (prepared_post E subject (wm_message_id (dr_message request)) p validation db) db'"
    using evolves_trans [OF 2(2)]
    by (intro okT_bind enqueue_prepared_ok [OF 2(1)] okT_return) (auto simp: prepared_post_def)
  then show ?case by simp
qed


lemma route_and_prepare_post:
  assumes inv: "delivery_inv (oe_json E) db" and par: "parents_ok (oe_json E) db"
    and v: "validation = Inr ()"
    and new: "\<And>m. m \<in> set (db_outbox db) \<Longrightarrow> wo_message_id m \<noteq> wm_message_id (dr_message request)"
  shows "okT (route_and_prepare E request subject sync fresh now p)
    (prepared_post E subject (wm_message_id (dr_message request)) p validation db) db"
  unfolding route_and_prepare_def Let_def
proof (intro okT_bind okT_store resolve_wp [OF inv])
  fix r assume n: "n \<le> length (db_sessions db)" if "r = SessionRouteResolution.Ambiguous n" for n
  have reject: "okT (bindT (record_rejection E subject (wm_message_id (dr_message request)) None p now reason)
      (\<lambda>outcome. returnT (Answered outcome))) (prepared_post E subject (wm_message_id (dr_message request)) p validation db) db"
    if "machine_sized db \<Longrightarrow> recordable reason" for reason
    by (rule reject_post [OF inv new]) (use that v in \<open>auto simp: is_identity_mismatch_def\<close>)
  show "okT (case r of
      SessionRouteResolution.Ready session \<Rightarrow> reserve_and_prepare E request subject fresh now p session
    | SessionRouteResolution.NoActiveSession \<Rightarrow> bindT (record_rejection E subject (wm_message_id (dr_message request)) None p now
        DeliveryRejectionReason.NoActiveSession) (\<lambda>outcome. returnT (Answered outcome))
    | SessionRouteResolution.Stale _ \<Rightarrow> bindT (record_rejection E subject (wm_message_id (dr_message request)) None p now
        DeliveryRejectionReason.NoActiveSession) (\<lambda>outcome. returnT (Answered outcome))
    | SessionRouteResolution.ClockUnhealthy _ \<Rightarrow> bindT (record_rejection E subject (wm_message_id (dr_message request)) None p now
        DeliveryRejectionReason.ClockUnhealthy) (\<lambda>outcome. returnT (Answered outcome))
    | SessionRouteResolution.Ambiguous candidate_count \<Rightarrow> bindT (record_rejection E subject (wm_message_id (dr_message request)) None p now
        (DeliveryRejectionReason.AmbiguousRoute candidate_count)) (\<lambda>outcome. returnT (Answered outcome)))
    (prepared_post E subject (wm_message_id (dr_message request)) p validation db) db"
    using n by (cases r) (auto intro!: reject reserve_and_prepare_post [OF inv par v new] simp: machine_sized_def)
qed

lemma prepare_post:
  assumes inv: "delivery_inv (oe_json E) db" and par: "parents_ok (oe_json E) db"
  shows "okT (prepare_delivery E request subject sync now validation)
    (\<lambda>v db'. \<exists>p. rejected_request_payload E request = Inr p
      \<and> prepared_post E subject (wm_message_id (dr_message request)) p validation db v db') db"
  unfolding prepare_delivery_def Let_def
proof (intro okT_bind okT_lift okT_store fetch_outbound_wp [OF inv] okT_option okT_if okT_throw okT_return exI conjI)
  fix p t assume p: "rejected_request_payload E request = Inr p"
  let ?post = "\<lambda>v db'. \<exists>p. rejected_request_payload E request = Inr p
    \<and> prepared_post E subject (wm_message_id (dr_message request)) p validation db v db'"
  assume new: "wo_message_id m \<noteq> wm_message_id (dr_message request)" if "m \<in> set (db_outbox db)" for m
  note mono = okT_mono [of _ "prepared_post E subject (wm_message_id (dr_message request)) p validation db" _ ?post]
  have replayed: "prepared_post E subject (wm_message_id (dr_message request)) p validation db (Answered outcome) db"
    if a: "a \<in> set (db_attempts db)" "da_attempt_id a = attempt_id (wm_message_id (dr_message request))"
      and o: "replay_rejection a subject (wm_message_id (dr_message request)) p validation = Inr outcome" for a outcome
    using a new o inv unfolding prepared_post_def replays_def replay_rejection_def
    by (auto simp: bindR_eq_Inr split: if_splits)
  show "wpT (fetch_delivery_attempt_by_id (oe_json E) (attempt_id (wm_message_id (dr_message request))))
    (\<lambda>attempt. okT (case attempt of
        None \<Rightarrow> case validation of
          Inl reason \<Rightarrow> bindT (record_rejection E subject (wm_message_id (dr_message request)) None p now reason)
            (\<lambda>outcome. returnT (Answered outcome))
        | Inr x \<Rightarrow> route_and_prepare E request subject sync (saturating_sub now t) now p
      | Some existing \<Rightarrow> bindT (liftT (replay_rejection existing subject (wm_message_id (dr_message request)) p validation))
          (\<lambda>outcome. returnT (Answered outcome))) ?post) db"
    unfolding fetch_delivery_attempt_by_id_def
  proof (rule fetch_attempt_where_wp [OF inv], goal_cases)
    case 1
    have "okT (bindT (record_rejection E subject (wm_message_id (dr_message request)) None p now reason)
        (\<lambda>outcome. returnT (Answered outcome))) ?post db" if "validation = Inl reason" for reason
      by (rule mono [OF reject_post [OF inv new]]) (use that p in \<open>auto simp: is_identity_mismatch_def\<close>)
    moreover have "okT (route_and_prepare E request subject sync (saturating_sub now t) now p) ?post db" if "validation = Inr ()"
      by (rule mono [OF route_and_prepare_post [OF inv par that new]]) (use p in auto)
    ultimately show ?case by (cases validation) simp_all
  next
    case (2 a)
    then show ?case using p replayed by (auto intro!: ok)
  qed
qed (use inv in \<open>auto simp: prepared_post_def\<close>)


lemma attempt_by_id: "delivery_inv J db \<Longrightarrow> a \<in> set (db_attempts db) \<Longrightarrow> b \<in> set (db_attempts db) \<Longrightarrow>
  da_attempt_id a = da_attempt_id b \<Longrightarrow> a = b"
  by (rule inj_onD [OF inv_unique(3) [unfolded att.unique_def distinct_map, THEN conjunct2]])

lemma unbound_final:
  assumes "evolves db db'" "delivery_inv J db'" "a \<in> set (db_attempts db)" "da_message_id a = None"
    "rejection_reason_from_attempt a = Inr reason"
  shows "a \<in> set (db_attempts db')"
proof -
  obtain b where b: "b \<in> set (db_attempts db')" "attempt_grows a b" using grown_row(3) [OF assms(1,3)] by blast
  have "da_status a \<in> {CommandDeliveryAttemptStatus.NoActiveSession, CommandDeliveryAttemptStatus.Failed,
      CommandDeliveryAttemptStatus.Backpressure, CommandDeliveryAttemptStatus.Cancelled}"
    using assms(5) by (cases "da_status a") (auto simp: rejection_reason_from_attempt_def)
  moreover have "da_message_id b = None" using b(2) assms(4) by (auto simp: attempt_grows_def attempt_fixed_def)
  then have "da_status b \<notin> set bound_attempt_statuses" using inv_attempt [OF assms(2) b(1)] by (auto simp: attempt_ok_def)
  ultimately have "b = a" using b(2) by (auto simp: attempt_grows_def bound_attempt_statuses_def)
  then show ?thesis using b(1) by simp
qed

lemma command_identity_timeless:
  "validate_command_request r now = Inl (DeliveryRejectionReason.IdentityMismatch f) \<Longrightarrow>
   validate_command_request r now' = Inl (DeliveryRejectionReason.IdentityMismatch f)"
  by (auto simp: validate_command_request_def bindR_eq_Inl Let_def identity_mismatch_def split: if_splits)

lemma replay_answers:
  assumes inv: "delivery_inv (oe_json E) db" and rep: "replays subject (wm_message_id (dr_message request)) p validation outcome db"
    and p: "rejected_request_payload E request = Inr p" and t: "i64_try_from (oe_max_time_sync_age_ms E) = Inr t"
    and same: "is_identity_mismatch validation' \<Longrightarrow> validation' = validation"
  shows "prepare_delivery E request subject sync now' validation' db = Inr (Answered outcome, db)"
proof -
  let ?i = "wm_message_id (dr_message request)"
  obtain a reason where a: "a \<in> set (db_attempts db)" "da_attempt_id a = attempt_id ?i" "da_subject a = subject"
      "da_message_id a = None" "da_request_payload a = Some p" "rejection_reason_from_attempt a = Inr reason"
      "outcome = rejection_of a ?i reason" "is_identity_mismatch validation \<longrightarrow> validation = Inl reason"
    and none: "\<forall>m \<in> set (db_outbox db). wo_message_id m \<noteq> ?i" using rep by (auto simp: replays_def)
  have "find (\<lambda>r. wo_message_id r = ?i) (db_outbox db) = None" using none by (auto simp: find_None_iff)
  then have out: "fetch_outbound_delivery (oe_json E) ?i db = Inr (None, db)"
    by (simp add: fetch_outbound_delivery_def bindT_apply fetch_outbox_eq [OF inv])
  have "find (\<lambda>r. da_attempt_id r = attempt_id ?i) (db_attempts db) = Some a"
    using a(1,2) attempt_by_id [OF inv] by (cases "find (\<lambda>r. da_attempt_id r = attempt_id ?i) (db_attempts db)")
      (auto simp: find_None_iff dest!: find_in_set)
  then have att: "fetch_delivery_attempt_by_id (oe_json E) (attempt_id ?i) db = Inr (Some a, db)"
    by (simp add: fetch_delivery_attempt_by_id_def fetch_attempt_eq [OF inv])
  have "replay_rejection a subject ?i p validation' = Inr outcome"
    using a same by (auto simp: replay_rejection_def)
  then show ?thesis
    by (simp add: prepare_delivery_def Let_def p t bindT_apply storeT_def out att)
qed



section \<open>The store of a running gateway\<close>

text \<open>What every state of the gateway's store satisfies: the invariant of the tables, readable commands and runs, and bound
  attempts that are named after their message.\<close>

definition gateway_ok :: "'a outbound_env \<Rightarrow> delivery_db \<Rightarrow> bool" where
  "gateway_ok E db \<longleftrightarrow> delivery_inv (oe_json E) db \<and> parents_ok (oe_json E) db \<and> named attempt_id db"

lemma keeps_store: "keepsT P m \<Longrightarrow> keepsT P (storeT E m)"
  by (auto simp: keepsT_def storeT_def map_err_eq_Inr)

lemma prepare_keeps_names: "keepsT (named attempt_id) (prepare_delivery E request subject sync now validation)"
proof -
  note keeps = keeps keeps_store
  have reject: "keepsT (named attempt_id) (record_rejection E subject i sid p t reason)" for i sid p t reason
    unfolding record_rejection_def Let_def by (intro keeps keeps_record_attempt) simp
  have enqueue: "keepsT (named attempt_id) (enqueue_prepared E request r now)" for r
    unfolding enqueue_prepared_def by (intro keeps keeps_enqueue) simp
  have "keepsT (named attempt_id) (case v of
      SequenceReservation.Reserved r \<Rightarrow> bindT (enqueue_prepared E request r now) (\<lambda>prepared. returnT (Prepared prepared))
    | _ \<Rightarrow> bindT (record_rejection E subject i sid p now (reservation_rejection v)) (\<lambda>outcome. returnT (Answered outcome)))" for v i sid p
    by (cases v) (auto intro!: keeps reject enqueue)
  then have reserve: "keepsT (named attempt_id) (reserve_and_prepare E request subject fresh now p session)" for fresh p session
    unfolding reserve_and_prepare_def by (intro keeps)
  have resolve: "keepsT (named attempt_id) (resolve_session_route_on (oe_json E) q)" for q
    unfolding resolve_session_route_on_def Let_def by (intro keeps)
  have "keepsT (named attempt_id) (route_and_prepare E request subject sync fresh now p)" for fresh p
    unfolding route_and_prepare_def Let_def
  proof (intro keeps resolve)
    show "keepsT (named attempt_id) (case r of
        SessionRouteResolution.Ready session \<Rightarrow> reserve_and_prepare E request subject fresh now p session
      | SessionRouteResolution.NoActiveSession \<Rightarrow> bindT (record_rejection E subject (wm_message_id (dr_message request)) None p now
          DeliveryRejectionReason.NoActiveSession) (\<lambda>outcome. returnT (Answered outcome))
      | SessionRouteResolution.Stale _ \<Rightarrow> bindT (record_rejection E subject (wm_message_id (dr_message request)) None p now
          DeliveryRejectionReason.NoActiveSession) (\<lambda>outcome. returnT (Answered outcome))
      | SessionRouteResolution.ClockUnhealthy _ \<Rightarrow> bindT (record_rejection E subject (wm_message_id (dr_message request)) None p now
          DeliveryRejectionReason.ClockUnhealthy) (\<lambda>outcome. returnT (Answered outcome))
      | SessionRouteResolution.Ambiguous n \<Rightarrow> bindT (record_rejection E subject (wm_message_id (dr_message request)) None p now
          (DeliveryRejectionReason.AmbiguousRoute n)) (\<lambda>outcome. returnT (Answered outcome)))" for r
      by (cases r) (auto intro!: keeps reject reserve)
  qed
  moreover have "keepsT (named attempt_id) (fetch_outbound_delivery (oe_json E) i)" for i
    unfolding fetch_outbound_delivery_def by (intro keeps)
  moreover have "keepsT (named attempt_id) (case validation of
      Inl reason \<Rightarrow> bindT (record_rejection E subject i None p now reason) (\<lambda>outcome. returnT (Answered outcome))
    | Inr _ \<Rightarrow> route_and_prepare E request subject sync fresh now p)" for i p fresh
    using calculation(1) by (cases validation) (auto intro!: keeps reject)
  ultimately show ?thesis unfolding prepare_delivery_def Let_def by (intro keeps)
qed

lemma gateway_step_ok:
  assumes "gateway_step E db db'" "gateway_ok E db"
  shows "gateway_ok E db' \<and> evolves db db'"
proof -
  have ok: "delivery_inv (oe_json E) db" "parents_ok (oe_json E) db" "named attempt_id db"
    using assms(2) by (simp_all add: gateway_ok_def)
  from assms(1) have "delivery_inv (oe_json E) db' \<and> evolves db db' \<and> named attempt_id db'"
  proof cases
    case (request_step request subject sync now validation p)
    then have "delivery_inv (oe_json E) db' \<and> evolves db db'"
      using prepare_post [OF ok(1,2)] unfolding okT_def prepared_post_def by blast
    then show ?thesis using keepsT_D [OF prepare_keeps_names ok(3) request_step] by simp
  next
    case (operation_step op answer)
    then show ?thesis
      using gateway_op_commits [OF ok(1,2) operation_step(1)] keepsT_D [OF gateway_op_names [OF operation_step(1)] ok(3)] ok
      by (cases "run_op (oe_json E) op db") (auto simp: run_write_def)
  qed
  then show ?thesis using ok(2) parents_evolve by (auto simp: gateway_ok_def)
qed

lemma gateway_run_ok: "gateway_run E db db' \<Longrightarrow> gateway_ok E db \<Longrightarrow> gateway_ok E db' \<and> evolves db db'"
proof (induction rule: rtranclp_induct)
  case (step b c)
  then show ?case using gateway_step_ok [OF step(2)] evolves_trans by blast
qed simp

lemma ignoring_run: "run_write m db = (result, db') \<Longrightarrow> \<exists>answer. run_write (ignoring m) db = (answer, db')"
  by (cases "m db") (auto simp: run_write_def ignoring_def bindT_apply split: prod.splits)

lemma claim_gateway_step: "run_write (claim_outbox_on (oe_json E) c) db = (result, db') \<Longrightarrow> gateway_step E db db'"
  using operation_step [of E "ClaimOutbox c" db] by (auto simp: gateway_op_def run_op_def dest: ignoring_run)

lemma finish_gateway_step: "run_write (finish_transport_write_on (oe_json E) c r) db = (result, db') \<Longrightarrow> gateway_step E db db'"
  using operation_step [of E "FinishWrite c r" db] by (auto simp: gateway_op_def run_op_def dest: ignoring_run)

lemma complete_gateway_step: "run_write (complete_write E now d outcome) db = (result, db') \<Longrightarrow> gateway_step E db db'"
  by (cases outcome) (auto simp: complete_write_def Let_def intro: finish_gateway_step)

text \<open>The interleaving of deliveries is a run of the store.\<close>

lemma adapter_step_store: "adapter_step E s s' \<Longrightarrow> gateway_run E (ad_db s) (ad_db s')"
proof -
  have one: "gateway_step E a b \<Longrightarrow> gateway_run E a b" for a b by blast
  assume "adapter_step E s s'"
  then show ?thesis
  proof cases
    case (prepare_step request subject sync now validation p db)
    then have "ad_db s' = db" by (auto simp: after_preparation_def enter_def answer_with_def split: preparation.splits)
    then show ?thesis using one request_step prepare_step(2) by metis
  next
    case (claim_step d rest now claim result db)
    then have "ad_db s' = db"
      by (auto simp: after_claim_def enter_def answer_with_def Let_def split: sum.splits OutboxClaimOutcome.splits)
    then show ?thesis using one claim_gateway_step claim_step(4) by metis
  next
    case (finish_step d outcome rest now completion db)
    then have "ad_db s' = db" by (auto simp: after_completion_def enter_def answer_with_def split: option.splits)
    then show ?thesis using one complete_gateway_step finish_step(3) by metis
  next
    case (store_step op answer db)
    then have "ad_db s' = db" by simp
    then show ?thesis using one operation_step store_step(2,3) by metis
  qed (simp_all add: answer_with_def enter_def)
qed

section \<open>Rejections that were stored\<close>

definition stored_pair :: "MessageId \<Rightarrow> StoredOutboundDelivery \<Rightarrow> delivery_db \<Rightarrow> bool" where
  "stored_pair i d db \<longleftrightarrow> sod_outbox d \<in> set (db_outbox db) \<and> wo_message_id (sod_outbox d) = i
     \<and> sod_attempt d \<in> set (db_attempts db) \<and> da_message_id (sod_attempt d) = Some i"

lemma rereads_pair: "delivery_inv J db \<Longrightarrow> rereads J i d db \<Longrightarrow> stored_pair i d db"
  unfolding rereads_def
  by (rule wpT_ok [OF required_outbound_wp [of J db i "\<lambda>d. stored_pair i d"]]) (simp_all add: stored_pair_def)

lemma fetch_pair: "delivery_inv J db \<Longrightarrow> fetch_outbound_delivery J i db = Inr (Some d, db') \<Longrightarrow> stored_pair i d db \<and> db' = db"
  using wpT_ok [OF fetch_outbound_wp [of J db i "\<lambda>v s. s = db \<and> (\<forall>d. v = Some d \<longrightarrow> stored_pair i d db)"]]
  by (fastforce simp: stored_pair_def)

lemma pair_fetched:
  assumes inv: "delivery_inv J db" and d: "stored_pair i d db"
  shows "fetch_outbound_delivery J i db = Inr (Some d, db)"
proof -
  have m: "find (\<lambda>r. wo_message_id r = i) (db_outbox db) = Some (sod_outbox d)"
    using d outb.find_row [OF inv_unique(2) [OF inv]] by (simp add: stored_pair_def)
  have a: "find (\<lambda>r. da_message_id r = Some i) (db_attempts db) = Some (sod_attempt d)"
    using d inv_message [OF inv] by (cases "find (\<lambda>r. da_message_id r = Some i) (db_attempts db)")
      (auto simp: stored_pair_def find_None_iff dest!: find_in_set)
  have "validate_outbox_parent_payload J (sod_outbox d) db = Inr ((), db)"
    using inv_parent [OF inv, of "sod_outbox d"] d by (simp add: parent_ok_def stored_pair_def)
  then show ?thesis
    by (simp add: fetch_outbound_delivery_def bindT_apply requiredT_def fetch_delivery_attempt_by_message_def fetch_eqs [OF inv] m a)
qed

text \<open>A rejection that the transport did not cause: the delivery was cancelled before its write.\<close>

definition by_transport :: "DeliveryRejectionReason \<Rightarrow> bool" where
  "by_transport reason \<longleftrightarrow> (case reason of DeliveryRejectionReason.Backpressure _ \<Rightarrow> True
     | DeliveryRejectionReason.TransportRejected _ \<Rightarrow> True | _ \<Rightarrow> False)"

definition cancelled_as :: "'a outbound_env \<Rightarrow> MessageId \<Rightarrow> DeliveryRejection \<Rightarrow> delivery_db \<Rightarrow> StoredOutboundDelivery \<Rightarrow> bool" where
  "cancelled_as E i j db d \<longleftrightarrow> stored_pair i d db \<and> wo_status (sod_outbox d) = WireOutboxStatus.Cancelled
     \<and> (\<forall>t. durable_delivery_outcome d t (oe_confirmation_timeout_ms E) = Inr (DeliveryOutcome.Rejected j))"

lemma sent_not_rejected: "sent_outcome d k \<noteq> Inr (DeliveryOutcome.Rejected j)"
  by (auto simp: sent_outcome_def Let_def bindR_eq_Inr split: option.splits)

lemma durable_rejected:
  assumes "durable_delivery_outcome d t k = Inr (DeliveryOutcome.Rejected j)" "\<not> by_transport (drj_reason j)"
  shows "wo_status (sod_outbox d) = WireOutboxStatus.Cancelled \<and> (\<forall>t. durable_delivery_outcome d t k = Inr (DeliveryOutcome.Rejected j))"
proof (cases "wo_status (sod_outbox d) = WireOutboxStatus.Cancelled")
  case True
  then have "durable_delivery_outcome d t' k = durable_delivery_outcome d t k" for t'
    by (simp add: durable_delivery_outcome_def Let_def)
  then show ?thesis using True assms(1) by simp
next
  case False
  have "(let w = wo_status (sod_outbox d); s = da_status (sod_attempt d) in
      w = WireOutboxStatus.Cancelled \<or> by_transport (drj_reason j))"
    using assms(1) unfolding durable_delivery_outcome_def Let_def
    by (simp only: split: if_splits)
      (auto simp: sent_not_rejected unconfirmed_outcome_def rejected_as_def failed_as_def by_transport_def)
  then show ?thesis using assms(2) False by simp
qed

lemma cancelledI:
  "stored_pair i d db \<Longrightarrow> durable_delivery_outcome d t (oe_confirmation_timeout_ms E) = Inr (DeliveryOutcome.Rejected j) \<Longrightarrow>
   \<not> by_transport (drj_reason j) \<Longrightarrow> cancelled_as E i j db d"
  using durable_rejected unfolding cancelled_as_def by blast

text \<open>What the other tasks do between the transactions of a request is a run of the gateway.\<close>

definition others_run :: "'a outbound_env \<Rightarrow> delivery_turn \<Rightarrow> bool" where
  "others_run E turn \<longleftrightarrow> (\<forall>db. gateway_run E db (dt_before_claim turn db) \<and> gateway_run E db (dt_before_finish turn db)
     \<and> gateway_run E db (dt_before_reload turn db))"

lemma others_ok:
  assumes "others_run E turn" "gateway_ok E db"
  shows "gateway_ok E (dt_before_claim turn db)" "gateway_ok E (dt_before_finish turn db)" "gateway_ok E (dt_before_reload turn db)"
  using assms gateway_run_ok unfolding others_run_def by blast+

lemma reload_rejected:
  assumes "others_run E turn" "gateway_ok E db" "reload_answer E turn i t db calls = (Inr (DeliveryOutcome.Rejected j), db', calls')"
    and "\<not> by_transport (drj_reason j)"
  shows "gateway_ok E db' \<and> (\<exists>d. cancelled_as E i j db' d)"
proof -
  have db': "db' = dt_before_reload turn db" using assms(3) by (simp add: reload_answer_def Let_def)
  have ok: "gateway_ok E db'" unfolding db' by (rule others_ok(3) [OF assms(1,2)])
  then have inv: "delivery_inv (oe_json E) db'" by (simp add: gateway_ok_def)
  obtain s where "reload_existing E i t db' = Inr (DeliveryOutcome.Rejected j, s)"
    using assms(3) by (auto simp: reload_answer_def Let_def split: sum.splits prod.splits)
  then obtain d s' where "fetch_outbound_delivery (oe_json E) i db' = Inr (Some d, s')"
    "durable_delivery_outcome d t (oe_confirmation_timeout_ms E) = Inr (DeliveryOutcome.Rejected j)"
    by (auto simp: reload_existing_def bindT_eq_Inr liftT_eq_Inr storeT_def map_err_eq_Inr split: option.splits)
  then show ?thesis using ok cancelledI [OF _ _ assms(4)] fetch_pair [OF inv] by blast
qed

lemma write_claimed_rejected:
  assumes "others_run E turn" "gateway_ok E db" "write_claimed E turn c db = (Inr (DeliveryOutcome.Rejected j), db', calls)"
    and "\<not> by_transport (drj_reason j)"
  shows "gateway_ok E db' \<and> (\<exists>d. cancelled_as E (wo_message_id (sod_outbox c)) j db' d)"
proof -
  obtain frame where frame: "outbound_frame c = Inr frame" using assms(3) by (auto simp: write_claimed_def split: sum.splits)
  obtain now where now: "dt_finish_now turn = Inr now"
    using assms(3) frame by (auto simp: write_claimed_def Let_def split: sum.splits)
  define db1 where "db1 = dt_before_finish turn db"
  define t where "t = next_projection_time now (max (wo_updated_at (sod_outbox c)) (da_updated_at (sod_attempt c)))"
  obtain completion db2 where fin: "run_write (complete_write E now c (write_frame (dt_live turn) frame)) db1 = (completion, db2)"
    by fastforce
  have ok: "gateway_ok E db2"
    using gateway_step_ok [OF complete_gateway_step [OF fin]] others_ok(2) [OF assms(1,2)] by (simp add: db1_def)
  then have inv: "delivery_inv (oe_json E) db2" by (simp add: gateway_ok_def)
  have answer: "(case outcome_after_completion E completion t of
       Some answer \<Rightarrow> (answer, db2, if reaches_sink (dt_live turn) frame then [WriteCall frame] else [])
     | None \<Rightarrow> reload_answer E turn (wo_message_id (sod_outbox c)) t db2 (if reaches_sink (dt_live turn) frame then [WriteCall frame] else []))
     = (Inr (DeliveryOutcome.Rejected j), db', calls)"
    using assms(3) frame now fin unfolding t_def db1_def by (simp add: write_claimed_def Let_def split del: if_split)
  show ?thesis
  proof (cases "outcome_after_completion E completion t")
    case None
    then show ?thesis using reload_rejected [OF assms(1) ok _ assms(4)] answer by simp
  next
    case (Some a)
    then have db': "db' = db2" and "a = Inr (DeliveryOutcome.Rejected j)" using answer by simp_all
    then obtain d where d: "completion = Inr d"
      "durable_delivery_outcome d t (oe_confirmation_timeout_ms E) = Inr (DeliveryOutcome.Rejected j)"
      using Some by (auto simp: outcome_after_completion_def split: sum.splits if_splits)
    have "complete_write E now c (write_frame (dt_live turn) frame) db1 = Inr (d, db2)"
      using fin d(1) by (simp add: run_write_ok)
    then have "rereads (oe_json E) (wo_message_id (sod_outbox c)) d db2"
      using finish_rereads unfolding okT_def complete_write_def Let_def
      by (fastforce split: SinkWriteOutcome.splits)
    then show ?thesis using cancelledI [OF rereads_pair [OF inv] d(2) assms(4)] ok db' by blast
  qed
qed

lemma write_prepared_rejected:
  assumes "others_run E turn" "gateway_ok E db" "write_prepared E turn d db = (Inr (DeliveryOutcome.Rejected j), db', calls)"
    and "\<not> by_transport (drj_reason j)"
  shows "gateway_ok E db' \<and> (\<exists>c. cancelled_as E (wo_message_id (sod_outbox d)) j db' c)"
proof -
  let ?i = "wo_message_id (sod_outbox d)"
  obtain now claim where claim: "dt_claim_now turn = Inr now" "claim_request E now d = Inr claim"
    using assms(3) by (auto simp: write_prepared_def bindR_eq_Inr split: sum.splits)
  then have i: "cwo_message_id claim = ?i" by (auto simp: claim_request_def Let_def bindR_eq_Inr)
  define db1 where "db1 = dt_before_claim turn db"
  obtain result db2 where run: "run_write (claim_outbox_on (oe_json E) claim) db1 = (result, db2)" by fastforce
  have ok: "gateway_ok E db2"
    using gateway_step_ok [OF claim_gateway_step [OF run]] others_ok(1) [OF assms(1,2)] by (simp add: db1_def)
  then have inv: "delivery_inv (oe_json E) db2" by (simp add: gateway_ok_def)
  have reread: "stored_pair ?i (claim_delivery v) db2" if "result = Inr v" for v
    using claim_rereads [of "oe_json E" claim db1] run that rereads_pair [OF inv, of ?i]
    by (simp add: okT_def run_write_ok i)
  let ?refused = "\<lambda>c. (durable_delivery_outcome c (cwo_claimed_at claim) (oe_confirmation_timeout_ms E), db2,
    map SkipCall (skip_reserved_sequence c))"
  have answer: "(case result of Inr (OutboxClaimOutcome.Claimed c) \<Rightarrow> write_claimed E turn c db2
     | Inr (OutboxClaimOutcome.Expired c) \<Rightarrow> ?refused c | Inr (OutboxClaimOutcome.SessionUnavailable c) \<Rightarrow> ?refused c
     | Inr (OutboxClaimOutcome.ClockUnhealthy c) \<Rightarrow> ?refused c
     | Inl e \<Rightarrow> if is_stale_outbound e then reload_answer E turn ?i (cwo_claimed_at claim) db2 []
         else (Inl (infrastructure (oe_store_error E e)), db2, [])) = (Inr (DeliveryOutcome.Rejected j), db', calls)"
    using assms(3) claim run unfolding db1_def by (simp add: write_prepared_def Let_def)
  have refused: "gateway_ok E db' \<and> (\<exists>c. cancelled_as E ?i j db' c)"
    if "result = Inr v" "?refused (claim_delivery v) = (Inr (DeliveryOutcome.Rejected j), db', calls)" for v
    using cancelledI [OF reread [OF that(1)] _ assms(4), of "cwo_claimed_at claim" E] that(2) ok by auto
  show ?thesis
  proof (cases result)
    case (Inl e)
    then show ?thesis using answer reload_rejected [OF assms(1) ok _ assms(4)] by (simp split: if_splits)
  next
    case (Inr v)
    show ?thesis
    proof (cases v)
      case (Claimed c)
      then have "wo_message_id (sod_outbox c) = ?i" using reread [OF Inr] by (simp add: stored_pair_def)
      moreover have "write_claimed E turn c db2 = (Inr (DeliveryOutcome.Rejected j), db', calls)" using answer Inr Claimed by simp
      ultimately show ?thesis using write_claimed_rejected [OF assms(1) ok _ assms(4), of c] by simp
    qed (use answer Inr refused [OF Inr] in simp_all)
  qed
qed

text \<open>A cancelled delivery stays as it is.\<close>

lemma cancelled_final:
  assumes "gateway_ok E db" "evolves db db'" "cancelled_as E i j db d"
  shows "cancelled_as E i j db' d"
proof -
  have inv: "delivery_inv (oe_json E) db" using assms(1) by (simp add: gateway_ok_def)
  have d: "sod_outbox d \<in> set (db_outbox db)" "sod_attempt d \<in> set (db_attempts db)" "wo_message_id (sod_outbox d) = i"
    "da_message_id (sod_attempt d) = Some i" "wo_status (sod_outbox d) = WireOutboxStatus.Cancelled"
    using assms(3) by (auto simp: cancelled_as_def stored_pair_def)
  have m: "sod_outbox d \<in> set (db_outbox db')"
    using grown_row(2) [OF assms(2) d(1)] d(5) by (auto simp: outbox_grows_def)
  have "pair_ok (sod_outbox d) (sod_attempt d)" using bound_pair(2) [OF inv d(2,1)] d(3,4) by simp
  then have "da_status (sod_attempt d) \<in> {CommandDeliveryAttemptStatus.NoActiveSession, CommandDeliveryAttemptStatus.Cancelled}"
    using d(5) by (simp add: pair_ok_def)
  then have "sod_attempt d \<in> set (db_attempts db')"
    using grown_row(3) [OF assms(2) d(2)] by (auto simp: attempt_grows_def)
  then show ?thesis using m assms(3) by (simp add: cancelled_as_def stored_pair_def)
qed

text \<open>No delivery is stored for a message whose request was refused before.\<close>

lemma refused_not_stored:
  assumes "gateway_ok E db" "a \<in> set (db_attempts db)" "da_attempt_id a = attempt_id i" "da_message_id a = None"
    and "m \<in> set (db_outbox db)"
  shows "wo_message_id m \<noteq> i"
proof
  assume i: "wo_message_id m = i"
  have inv: "delivery_inv (oe_json E) db" and names: "named attempt_id db" using assms(1) by (simp_all add: gateway_ok_def)
  obtain b where b: "b \<in> set (db_attempts db)" "da_message_id b = Some i" using inv_attempted [OF inv assms(5)] i by auto
  then have "da_attempt_id b = da_attempt_id a" using names assms(3) by (simp add: named_def)
  then show False using attempt_by_id [OF inv b(1) assms(2)] b(2) assms(4) by simp
qed

lemma replays_final:
  assumes "gateway_ok E db" "gateway_run E db db'" "replays subject i p validation outcome db"
  shows "replays subject i p validation outcome db'"
proof -
  have ok: "gateway_ok E db'" "evolves db db'" using gateway_run_ok [OF assms(2,1)] by simp_all
  then have inv: "delivery_inv (oe_json E) db'" by (simp add: gateway_ok_def)
  obtain a reason where a: "a \<in> set (db_attempts db)" "da_attempt_id a = attempt_id i" "da_subject a = subject"
    "da_message_id a = None" "da_request_payload a = Some p" "rejection_reason_from_attempt a = Inr reason"
    "outcome = rejection_of a i reason" "is_identity_mismatch validation \<longrightarrow> validation = Inl reason"
    using assms(3) by (auto simp: replays_def)
  have "a \<in> set (db_attempts db')" by (rule unbound_final [OF ok(2) inv a(1,4,6)])
  then show ?thesis using a(2-) refused_not_stored [OF ok(1) _ a(2,4)] unfolding replays_def by blast
qed

section \<open>Answers of a request\<close>

text \<open>How a request goes on after its transaction: with the delivery that is stored under its message id.\<close>

lemma enqueued_id: "okT (enqueue_reserved_delivery_on J d) (\<lambda>v _. wo_message_id (sod_outbox v) = nrd_message_id d) s"
proof -
  have out: "okT (enqueue_wire_outbox_on J n) (\<lambda>v _. wo_message_id (into_record v) = nwo_message_id n) s" for n s
    unfolding enqueue_wire_outbox_on_def
    by (intro okT_any okT_if okT_return) (auto intro!: okT_any ok simp: same_wire_outbox_fact_def split: list.split)
  show ?thesis unfolding enqueue_reserved_delivery_on_def Let_def
    by (rule okT_any, rule okT_any, intro okT_if okT_throw, rule okT_any, rule okT_bind, rule okT_mono [OF out],
        rule okT_any, intro okT_if okT_throw okT_return) (simp add: reserved_outbox_def)
qed

definition goes_on :: "MessageId \<Rightarrow> (DeliveryRejectionReason, unit) result \<Rightarrow> delivery_db \<Rightarrow> preparation \<Rightarrow> delivery_db \<Rightarrow> bool" where
  "goes_on i validation db p db' \<longleftrightarrow> (case p of
     Answered _ \<Rightarrow> True
   | Existing d \<Rightarrow> db' = db \<and> stored_pair i d db \<and> \<not> is_identity_mismatch validation
   | Prepared d \<Rightarrow> wo_message_id (sod_outbox d) = i \<and> \<not> is_identity_mismatch validation)"

lemma answered_goes_on: "okT (bindT m (\<lambda>outcome. returnT (Answered outcome))) (goes_on i validation db) s"
  by (intro okT_any okT_return) (simp add: goes_on_def)

lemma route_goes_on:
  assumes "validation = Inr ()"
  shows "okT (route_and_prepare E request subject sync fresh now p) (goes_on (wm_message_id (dr_message request)) validation db) s"
proof -
  have enqueue: "okT (bindT (enqueue_prepared E request r now) (\<lambda>prepared. returnT (Prepared prepared)))
      (goes_on (wm_message_id (dr_message request)) validation db) s" for r s
    unfolding enqueue_prepared_def
    by (rule okT_bind, intro okT_any okT_store_ok, rule okT_mono [OF enqueued_id])
      (simp add: assms goes_on_def is_identity_mismatch_def okT_return)
  have "okT (reserve_and_prepare E request subject fresh now p session)
      (goes_on (wm_message_id (dr_message request)) validation db) s" for session s
    unfolding reserve_and_prepare_def
  proof (rule okT_any)
    show "okT (case v of SequenceReservation.Reserved r \<Rightarrow> bindT (enqueue_prepared E request r now) (\<lambda>prepared. returnT (Prepared prepared))
      | _ \<Rightarrow> bindT (record_rejection E subject (wm_message_id (dr_message request)) (Some (ss_session_id session)) p now
          (reservation_rejection v)) (\<lambda>outcome. returnT (Answered outcome)))
      (goes_on (wm_message_id (dr_message request)) validation db) s'" for v s'
      by (cases v) (simp_all add: answered_goes_on enqueue)
  qed
  note reserve = this
  show ?thesis unfolding route_and_prepare_def Let_def
  proof (rule okT_any)
    fix r s' show "okT (case r of
        SessionRouteResolution.Ready session \<Rightarrow> reserve_and_prepare E request subject fresh now p session
      | SessionRouteResolution.NoActiveSession \<Rightarrow> bindT (record_rejection E subject (wm_message_id (dr_message request)) None p now
          DeliveryRejectionReason.NoActiveSession) (\<lambda>outcome. returnT (Answered outcome))
      | SessionRouteResolution.Stale _ \<Rightarrow> bindT (record_rejection E subject (wm_message_id (dr_message request)) None p now
          DeliveryRejectionReason.NoActiveSession) (\<lambda>outcome. returnT (Answered outcome))
      | SessionRouteResolution.ClockUnhealthy _ \<Rightarrow> bindT (record_rejection E subject (wm_message_id (dr_message request)) None p now
          DeliveryRejectionReason.ClockUnhealthy) (\<lambda>outcome. returnT (Answered outcome))
      | SessionRouteResolution.Ambiguous n \<Rightarrow> bindT (record_rejection E subject (wm_message_id (dr_message request)) None p now
          (DeliveryRejectionReason.AmbiguousRoute n)) (\<lambda>outcome. returnT (Answered outcome)))
      (goes_on (wm_message_id (dr_message request)) validation db) s'"
      by (cases r) (simp_all add: answered_goes_on reserve)
  qed
qed

lemma prepare_goes_on:
  assumes inv: "delivery_inv (oe_json E) db"
  shows "okT (prepare_delivery E request subject sync now validation) (goes_on (wm_message_id (dr_message request)) validation db) db"
  unfolding prepare_delivery_def Let_def
proof (intro okT_bind okT_lift okT_store fetch_outbound_wp [OF inv] okT_option okT_if okT_throw okT_return, goal_cases)
  case (1 p t)
  show ?case unfolding fetch_delivery_attempt_by_id_def
  proof (rule fetch_attempt_where_wp [OF inv], goal_cases)
    case 1
    then show ?case by (cases validation) (simp_all add: answered_goes_on route_goes_on)
  qed (simp add: answered_goes_on)
qed (auto simp: goes_on_def stored_pair_def)

lemma cancelled_replayed:
  assumes ok: "gateway_ok E db" and c: "cancelled_as E (wm_message_id (dr_message request)) j db d"
    and same: "validate_existing_delivery E request subject d = Inr ()" "\<not> is_identity_mismatch validation"
    and p: "rejected_request_payload E request = Inr p" and t: "i64_try_from (oe_max_time_sync_age_ms E) = Inr t"
  shows "prepare_and_write E turn request subject sync now validation db = (Inr (DeliveryOutcome.Rejected j), db, [])"
proof -
  have inv: "delivery_inv (oe_json E) db" using ok by (simp add: gateway_ok_def)
  have out: "fetch_outbound_delivery (oe_json E) (wm_message_id (dr_message request)) db = Inr (Some d, db)"
    using c by (intro pair_fetched [OF inv]) (simp add: cancelled_as_def)
  have "prepare_delivery E request subject sync now validation db = Inr (Existing d, db)"
    by (simp add: prepare_delivery_def Let_def p t bindT_apply storeT_def out same)
  moreover have "\<not> resumes d" using c by (simp add: cancelled_as_def resumes_def)
  ultimately show ?thesis using c by (simp add: prepare_and_write_def resume_existing_def cancelled_as_def)
qed

text \<open>If a delivery of the request is stored, its text decodes to the request's message.\<close>

definition stored_as_requested :: "ExecutionCommand outbound_env \<Rightarrow> ExecutionCommand DeliveryRequest \<Rightarrow> delivery_db \<Rightarrow> bool" where
  "stored_as_requested E request db \<longleftrightarrow> (\<forall>d. stored_pair (wm_message_id (dr_message request)) d db \<longrightarrow>
     validate_existing_delivery E request (command_subject request) d = Inr ())"

text \<open>A rejection is in the store: as an attempt without a message, or as a cancelled delivery.\<close>

lemma rejection_stored:
  assumes ok: "gateway_ok E db" "machine_sized db" and others: "others_run E turn"
    and run: "prepare_and_write E turn request subject sync now validation db = (Inr (DeliveryOutcome.Rejected j), db1, calls)"
    and j: "\<not> by_transport (drj_reason j)" and v: "\<And>r. validation = Inl r \<Longrightarrow> recordable r"
  shows "gateway_ok E db1 \<and> (\<exists>p t. rejected_request_payload E request = Inr p \<and> i64_try_from (oe_max_time_sync_age_ms E) = Inr t
    \<and> (replays subject (wm_message_id (dr_message request)) p validation (DeliveryOutcome.Rejected j) db1
       \<or> \<not> is_identity_mismatch validation \<and> (\<exists>d. cancelled_as E (wm_message_id (dr_message request)) j db1 d)))"
proof -
  let ?i = "wm_message_id (dr_message request)"
  have inv: "delivery_inv (oe_json E) db" "parents_ok (oe_json E) db" using ok(1) by (simp_all add: gateway_ok_def)
  obtain q db' where prep: "prepare_delivery E request subject sync now validation db = Inr (q, db')"
    using run by (cases "prepare_delivery E request subject sync now validation db") (auto simp: prepare_and_write_def)
  then obtain t where t: "i64_try_from (oe_max_time_sync_age_ms E) = Inr t"
    by (auto simp: prepare_delivery_def Let_def bindT_eq_Inr liftT_eq_Inr)
  obtain p where p: "rejected_request_payload E request = Inr p" "prepared_post E subject ?i p validation db q db'"
    using prepare_post [OF inv] prep unfolding okT_def by blast
  have ok': "gateway_ok E db'" using gateway_step_ok [OF request_step [OF prep] ok(1)] by simp
  have onward: "goes_on ?i validation db q db'" using prepare_goes_on [OF inv(1)] prep unfolding okT_def by blast
  have "gateway_ok E db1 \<and> (replays subject ?i p validation (DeliveryOutcome.Rejected j) db1
    \<or> \<not> is_identity_mismatch validation \<and> (\<exists>d. cancelled_as E ?i j db1 d))"
  proof (cases q)
    case (Answered outcome)
    then have "outcome = DeliveryOutcome.Rejected j" "db1 = db'" using run prep by (simp_all add: prepare_and_write_def)
    then show ?thesis using p(2) ok' ok(2) v Answered by (simp add: prepared_post_def)
  next
    case (Prepared d)
    then have "write_prepared E turn d db' = (Inr (DeliveryOutcome.Rejected j), db1, calls)"
      using run prep by (simp add: prepare_and_write_def)
    then show ?thesis using write_prepared_rejected [OF others ok' _ j] onward Prepared by (force simp: goes_on_def)
  next
    case (Existing d)
    then have d: "stored_pair ?i d db'" "wo_message_id (sod_outbox d) = ?i" "\<not> is_identity_mismatch validation"
      using onward by (auto simp: goes_on_def stored_pair_def)
    have res: "resume_existing E turn d now db' = (Inr (DeliveryOutcome.Rejected j), db1, calls)"
      using run prep Existing by (simp add: prepare_and_write_def)
    show ?thesis
    proof (cases "resumes d")
      case True
      then show ?thesis using write_prepared_rejected [OF others ok' _ j] res d by (force simp: resume_existing_def)
    next
      case False
      then show ?thesis using cancelledI [OF d(1) _ j] res ok' d(3) by (auto simp: resume_existing_def)
    qed
  qed
  then show ?thesis using p(1) t by blast
qed

end
