(* ===== verification/Outbound_Delivery.thy ===== *)
theory Outbound_Delivery
  imports Outbound_Store
begin

text \<open>
  What the outbound adapter guarantees: a rejection is replayed as it was given, every stored delivery has an outcome,
  and under every interleaving a message reaches the transport at most once, as it is stored.
\<close>

section \<open>Answers\<close>

text \<open>C9: A command request that was rejected is answered the same way for ever. When \<open>deliver_command\<close> answers with a rejection, at whatever
  point of its way (on validation, routing or reservation, which is recorded as an attempt without a message; or at its claim, or
  on finding such a delivery stored), other than one the transport caused (\<open>Backpressure\<close>, \<open>TransportRejected\<close>: the client may still
  acknowledge such a delivery, and then its answer changes), then after any run of
  the gateway, of deliveries and every other operation of the store, and at any later time, the same request gets the same answer, with the
  attempt id, time, session and reason of the first one, and nothing is stored or asked of the transport again. The hypotheses: the
  store is one the gateway reaches (\<open>gateway_ok\<close>) with less than 2^64 sessions; other tasks act as the gateway does between the
  transactions; and if a delivery of this message is stored in the end, \<open>validate_existing_delivery\<close> accepts the request for it, that is,
  its text decodes to the request's message. Nothing is assumed of \<open>serde_json\<close> otherwise.\<close>

theorem rejected_request_is_replayed:
  assumes "gateway_ok E db" "machine_sized db" "others_run E turn"
    and "deliver_command E turn request db = (Inr (DeliveryOutcome.Rejected j), db1, calls)" "\<not> by_transport (drj_reason j)"
    and "stored_as_requested E request db1" "gateway_run E db1 db2" "dt_now turn' = Inr now'"
  shows "deliver_command E turn' request db2 = (Inr (DeliveryOutcome.Rejected j), db2, [])"
proof -
  let ?i = "wm_message_id (dr_message request)" and ?s = "command_subject request"
  let ?v = "validate_command_request request" and ?answer = "(Inr (DeliveryOutcome.Rejected j), db2, [])"
  obtain now where now: "prepare_and_write E turn request ?s True now (?v now) db = (Inr (DeliveryOutcome.Rejected j), db1, calls)"
    using assms(4) by (auto simp: deliver_command_def split: sum.splits)
  have recordable: "\<And>r. ?v now = Inl r \<Longrightarrow> recordable r" by (auto dest!: command_request_rejects)
  obtain p t where ok: "gateway_ok E db1" and p: "rejected_request_payload E request = Inr p" and t: "i64_try_from (oe_max_time_sync_age_ms E) = Inr t"
    and stored: "replays ?s ?i p (?v now) (DeliveryOutcome.Rejected j) db1
      \<or> \<not> is_identity_mismatch (?v now) \<and> (\<exists>d. cancelled_as E ?i j db1 d)"
    using rejection_stored [OF assms(1-3) now assms(5) recordable] by blast
  have later: "gateway_ok E db2" "evolves db1 db2" using gateway_run_ok [OF assms(7) ok] by simp_all
  have same: "?v now' = ?v now" if "is_identity_mismatch (?v now')"
    using that command_identity_timeless [of request now' _ now]
    by (auto simp: is_identity_mismatch_def split: sum.splits DeliveryRejectionReason.splits)
  have "prepare_and_write E turn' request ?s True now' (?v now') db2 = ?answer" using stored
  proof (elim disjE conjE exE)
    assume "replays ?s ?i p (?v now) (DeliveryOutcome.Rejected j) db1"
    from replays_final [OF ok assms(7) this]
    have "prepare_delivery E request ?s True now' (?v now') db2 = Inr (Answered (DeliveryOutcome.Rejected j), db2)"
      using later(1) by (intro replay_answers [OF _ _ p t same]) (simp_all add: gateway_ok_def)
    then show ?thesis by (simp add: prepare_and_write_def)
  next
    fix d assume fit: "\<not> is_identity_mismatch (?v now)" and d: "cancelled_as E ?i j db1 d"
    have "validate_existing_delivery E request ?s d = Inr ()"
      using assms(6) d by (auto simp: stored_as_requested_def cancelled_as_def)
    moreover have "\<not> is_identity_mismatch (?v now')" using same fit by auto
    ultimately show ?thesis by (rule cancelled_replayed [OF later(1) cancelled_final [OF ok later(2) d] _ _ p t])
  qed
  then show ?thesis using assms(8) by (simp add: deliver_command_def)
qed

text \<open>What an outcome says about the rows it was read from.\<close>

definition outcome_describes :: "StoredWireOutbox \<Rightarrow> StoredDeliveryAttempt \<Rightarrow> DeliveryOutcome \<Rightarrow> bool" where
  "outcome_describes m a outcome \<longleftrightarrow> (case outcome of
     DeliveryOutcome.Sent r \<Rightarrow> dre_message_id r = wo_message_id m \<and> wo_session_id m = Some (dre_session_id r)
       \<and> wo_sequence m = Some (dre_sequence r) \<and> dre_sent_at r \<le> dre_confirmation_deadline_at r
       \<and> (da_status a = CommandDeliveryAttemptStatus.Acked
          \<or> wo_status m \<in> {WireOutboxStatus.Sent, WireOutboxStatus.Acked} \<and> da_status a \<noteq> CommandDeliveryAttemptStatus.Unconfirmed)
   | DeliveryOutcome.Unconfirmed u \<Rightarrow> dun_message_id u = wo_message_id m
       \<and> (da_status a = CommandDeliveryAttemptStatus.Unconfirmed \<or> wo_status m = WireOutboxStatus.WriteStarted)
   | DeliveryOutcome.Rejected j \<Rightarrow> drj_message_id j = wo_message_id m
       \<and> wo_status m \<in> {WireOutboxStatus.Failed, WireOutboxStatus.Cancelled} \<and> da_status a \<noteq> CommandDeliveryAttemptStatus.Acked
   | DeliveryOutcome.DefinitelyNotWritten f \<Rightarrow> dfa_message_id f = wo_message_id m
       \<and> (wo_status m = WireOutboxStatus.Failed \<and> da_status a = CommandDeliveryAttemptStatus.Failed
          \<or> wo_status m = WireOutboxStatus.Cancelled \<and> da_status a = CommandDeliveryAttemptStatus.Cancelled))"

lemma rejected_has_reason: "rejected_reason (wo_last_error m) \<Longrightarrow> transport_rejection_reason \<lparr>sod_outbox = m, sod_attempt = a\<rparr> \<noteq> None"
  by (cases "wo_last_error m")
    (auto simp: rejected_reason_def transport_rejection_reason_def strip_prefix_def starts_with_def)

lemma sent_describes:
  assumes "wo_session_id m \<noteq> None" "wo_sequence m \<noteq> None" "int timeout \<le> i64_max"
    and "checked_add_i64 (case wo_sent_at m of Some t \<Rightarrow> t | None \<Rightarrow> wo_updated_at m) (int timeout) \<noteq> None"
    and "da_status a = CommandDeliveryAttemptStatus.Acked
      \<or> wo_status m \<in> {WireOutboxStatus.Sent, WireOutboxStatus.Acked} \<and> da_status a \<noteq> CommandDeliveryAttemptStatus.Unconfirmed"
  shows "\<exists>outcome. sent_outcome \<lparr>sod_outbox = m, sod_attempt = a\<rparr> timeout = Inr outcome \<and> outcome_describes m a outcome"
  using assms by (auto simp: sent_outcome_def Let_def i64_try_from_def outcome_describes_def checked_add_i64_def split: if_splits)

text \<open>C8: Every stored delivery has an outcome, and it is the right one. In every state the store reaches, once the write of a
  delivery has begun or was given up, \<open>durable_delivery_outcome\<close> never finds an inconsistent state: it says that the
  message was sent only when the client acknowledged it or the transport took it, that it is unconfirmed when the write's end is not known,
  and that it was rejected or certainly not written only when the transport refused it or it was cancelled before.
  The confirmation timeout is one the configuration admits (within \<open>i64\<close>), and the confirmation deadline does not overflow \<open>i64\<close>,
  which the code reports as an error of its own.\<close>

theorem stored_delivery_has_outcome:
  assumes "delivery_inv J db0" "parents_ok J db0" "delivery_run J db0 db"
    and "m \<in> set (db_outbox db)" "a \<in> set (db_attempts db)" "da_message_id a = Some (wo_message_id m)"
    and "wo_status m \<noteq> WireOutboxStatus.Pending" "int timeout \<le> i64_max"
    and "checked_add_i64 (case wo_sent_at m of Some t \<Rightarrow> t | None \<Rightarrow> wo_updated_at m) (int timeout) \<noteq> None"
  shows "\<exists>outcome. durable_delivery_outcome \<lparr>sod_outbox = m, sod_attempt = a\<rparr> observed_at timeout = Inr outcome
    \<and> outcome_describes m a outcome"
proof -
  have inv: "delivery_inv J db" using delivery_run_inv [OF assms(3,1,2)] by blast
  have pair: "pair_states (wo_status m) (wo_last_error m) (da_status a)"
    using bound_pair(2) [OF inv assms(5,4,6)] by (simp add: pair_ok_def)
  have "wo_session_id m \<noteq> None" "wo_sequence m \<noteq> None" using inv_sequenced [OF inv assms(4)] by (auto simp: sequenced_def)
  note sent = sent_describes [OF this assms(8,9), of a] and reason = rejected_has_reason [of m a]
  have rest: "outcome_describes m a (unconfirmed_outcome \<lparr>sod_outbox = m, sod_attempt = a\<rparr> t)"
    if "da_status a = CommandDeliveryAttemptStatus.Unconfirmed \<or> wo_status m = WireOutboxStatus.WriteStarted" for t
    using that by (simp add: outcome_describes_def unconfirmed_outcome_def)
  have refused: "outcome_describes m a (rejected_as \<lparr>sod_outbox = m, sod_attempt = a\<rparr> t r)"
    if "wo_status m \<in> {WireOutboxStatus.Failed, WireOutboxStatus.Cancelled}" "da_status a \<noteq> CommandDeliveryAttemptStatus.Acked" for t r
    using that by (simp add: outcome_describes_def rejected_as_def)
  have failed: "outcome_describes m a (failed_as \<lparr>sod_outbox = m, sod_attempt = a\<rparr> e)"
    if "wo_status m = WireOutboxStatus.Failed \<and> da_status a = CommandDeliveryAttemptStatus.Failed
      \<or> wo_status m = WireOutboxStatus.Cancelled \<and> da_status a = CommandDeliveryAttemptStatus.Cancelled" for e
    using that by (simp add: outcome_describes_def failed_as_def)
  show ?thesis
  proof (cases "wo_status m")
    case Cancelled
    then show ?thesis using pair refused failed
      by (auto simp: durable_delivery_outcome_def cancelled_outcome_def unavailable_outcome_def Let_def)
  next
    case Failed
    then show ?thesis using pair refused failed reason sent rest
      by (cases "da_status a") (auto simp: durable_delivery_outcome_def Let_def)
  qed (use assms(7) pair sent rest in \<open>cases "da_status a"; auto simp: durable_delivery_outcome_def Let_def\<close>)+
qed


section \<open>At most one write\<close>

definition frame_of :: "StoredWireOutbox \<Rightarrow> OutboundFrame \<Rightarrow> bool" where
  "frame_of m f \<longleftrightarrow> of_message_id f = wo_message_id m \<and> wo_session_id m = Some (of_session_id f)
     \<and> wo_sequence m = Some (of_sequence f) \<and> of_wire_bytes f = as_bytes (cj_text (wo_payload m))"

text \<open>A row whose write has begun.\<close>

definition begun :: "StoredWireOutbox \<Rightarrow> bool" where
  "begun m \<longleftrightarrow> wo_status m \<noteq> WireOutboxStatus.Pending \<and> wo_status m \<noteq> WireOutboxStatus.Cancelled"

primrec claimed_ids :: "write_phase \<Rightarrow> MessageId multiset" where
  "claimed_ids (ToClaim d) = {#}"
| "claimed_ids (ToReload i t) = {#}"
| "claimed_ids (ToWrite d) = {#wo_message_id (sod_outbox d)#}"
| "claimed_ids (ToFinish d out) = {#}"

text \<open>The messages that reached a sink or are about to.\<close>

definition written_ids :: "adapter_state \<Rightarrow> MessageId multiset" where
  "written_ids s = mset (map of_message_id (ad_frames s)) + \<Sum>\<^sub># (image_mset claimed_ids (ad_phases s))"

definition adapter_inv :: "'a outbound_env \<Rightarrow> adapter_state \<Rightarrow> bool" where
  "adapter_inv E s \<longleftrightarrow> delivery_inv (oe_json E) (ad_db s) \<and> parents_ok (oe_json E) (ad_db s) \<and> (\<forall>i. count (written_ids s) i \<le> 1)
     \<and> (\<forall>f \<in> set (ad_frames s). \<exists>m \<in> set (db_outbox (ad_db s)). frame_of m f \<and> begun m)
     \<and> (\<forall>d. ToWrite d \<in># ad_phases s \<longrightarrow> (\<exists>m \<in> set (db_outbox (ad_db s)). outbox_fixed (sod_outbox d) m \<and> begun m))
     \<and> (\<forall>k \<in> set (ad_skips s). \<exists>m \<in> set (db_outbox (ad_db s)). wo_session_id m = Some (fst k) \<and> wo_sequence m = Some (snd k)
          \<and> wo_status m = WireOutboxStatus.Cancelled)"

lemma begun_grows: "outbox_grows m m' \<Longrightarrow> begun m \<Longrightarrow> begun m'"
  by (cases "wo_status m") (auto simp: outbox_grows_def begun_def)

lemma cancelled_grows: "outbox_grows m m' \<Longrightarrow> wo_status m = WireOutboxStatus.Cancelled \<Longrightarrow> m' = m"
  by (auto simp: outbox_grows_def)

lemma frame_of_fixed: "frame_of m f \<Longrightarrow> outbox_fixed m m' \<Longrightarrow> frame_of m' f"
  by (simp add: frame_of_def outbox_fixed_def)

lemma outbox_fixed_trans: "outbox_fixed a b \<Longrightarrow> outbox_fixed b c \<Longrightarrow> outbox_fixed a c"
  by (simp add: outbox_fixed_def)

text \<open>A change of the database alone keeps what was said of frames, claims and skips.\<close>

lemma adapter_inv_evolves:
  assumes "adapter_inv E s" "evolves (ad_db s) db" "delivery_inv (oe_json E) db"
  shows "adapter_inv E (s\<lparr>ad_db := db\<rparr>)"
proof -
  note rows = grown_row(2) [OF assms(2)]
  have grown: "\<exists>m' \<in> set (db_outbox db). outbox_fixed m m' \<and> begun m'" if "m \<in> set (db_outbox (ad_db s))" "begun m" for m
    using rows [OF that(1)] begun_grows [OF _ that(2)] grows_fixed by blast
  have "\<exists>m \<in> set (db_outbox db). frame_of m f \<and> begun m" if "m \<in> set (db_outbox (ad_db s))" "frame_of m f" "begun m" for m f
    using grown [OF that(1,3)] frame_of_fixed [OF that(2)] by blast
  moreover have "\<exists>m \<in> set (db_outbox db). outbox_fixed w m \<and> begun m" if "m \<in> set (db_outbox (ad_db s))" "outbox_fixed w m" "begun m" for m w
    using grown [OF that(1,3)] outbox_fixed_trans [OF that(2)] by blast
  moreover have "m \<in> set (db_outbox db)" if "m \<in> set (db_outbox (ad_db s))" "wo_status m = WireOutboxStatus.Cancelled" for m
    using rows [OF that(1)] cancelled_grows that(2) by auto
  moreover have "written_ids (s\<lparr>ad_db := db\<rparr>) = written_ids s" by (simp add: written_ids_def)
  ultimately show ?thesis
    using assms(1,3) parents_evolve [OF assms(2)] unfolding adapter_inv_def by (simp; meson)
qed

lemma adapter_inv_frame [simp]:
  "adapter_inv E (answer_with r s) = adapter_inv E s"
  by (simp add: adapter_inv_def answer_with_def written_ids_def)

lemma adapter_inv_enter: "claimed_ids phase = {#} \<Longrightarrow> adapter_inv E s \<Longrightarrow> adapter_inv E (enter phase s)"
  by (cases phase) (auto simp: adapter_inv_def enter_def written_ids_def)

lemma adapter_inv_leave:
  assumes "adapter_inv E s" "ad_phases s = add_mset phase rest"
  shows "adapter_inv E (s\<lparr>ad_phases := rest\<rparr>)"
proof -
  have "written_ids s = written_ids (s\<lparr>ad_phases := rest\<rparr>) + claimed_ids phase"
    using assms(2) by (simp add: written_ids_def)
  then have "count (written_ids (s\<lparr>ad_phases := rest\<rparr>)) i \<le> count (written_ids s) i" for i by simp
  then show ?thesis using assms by (fastforce simp: adapter_inv_def intro: le_trans)
qed

lemma adapter_inv_skip:
  assumes "adapter_inv E s" "sod_outbox d \<in> set (db_outbox (ad_db s))" "wo_status (sod_outbox d) = WireOutboxStatus.Cancelled"
  shows "adapter_inv E (s\<lparr>ad_skips := ad_skips s @ skip_reserved_sequence d\<rparr>)"
  using assms by (auto simp: adapter_inv_def skip_reserved_sequence_def written_ids_def split: option.splits)


lemma in_claimed: "i \<in># claimed_ids phase \<longleftrightarrow> (\<exists>d. phase = ToWrite d \<and> wo_message_id (sod_outbox d) = i)"
  by (cases phase) auto

lemma written_begun:
  assumes "adapter_inv E s" "i \<in># written_ids s"
  shows "\<exists>m \<in> set (db_outbox (ad_db s)). wo_message_id m = i \<and> begun m"
proof -
  consider f where "f \<in> set (ad_frames s)" "of_message_id f = i"
    | d where "ToWrite d \<in># ad_phases s" "wo_message_id (sod_outbox d) = i"
    using assms(2) by (auto simp: written_ids_def in_claimed)
  then show ?thesis using assms(1) by cases (fastforce simp: adapter_inv_def frame_of_def outbox_fixed_def)+
qed

text \<open>A claim is granted only for a pending row, which no frame and no other claim is for.\<close>

lemma adapter_inv_claimed:
  assumes inv: "adapter_inv E s" and claim: "claim_outbox_on (oe_json E) c (ad_db s) = Inr (OutboxClaimOutcome.Claimed d, db)"
  shows "adapter_inv E (enter (ToWrite d) (s\<lparr>ad_db := db\<rparr>))"
proof -
  have J: "delivery_inv (oe_json E) (ad_db s)" using inv by (simp add: adapter_inv_def)
  have post: "delivery_inv (oe_json E) db" "evolves (ad_db s) db" "claim_answer c (ad_db s) (OutboxClaimOutcome.Claimed d) db"
    using wpT_ok [OF claim_wp [OF J] claim, of "\<lambda>v db'. delivery_inv (oe_json E) db' \<and> evolves (ad_db s) db' \<and> claim_answer c (ad_db s) v db'"]
    by auto
  then have w: "sod_outbox d \<in> set (db_outbox db)" "begun (sod_outbox d)"
    and pending: "\<exists>m \<in> set (db_outbox (ad_db s)). wo_message_id m = wo_message_id (sod_outbox d) \<and> \<not> begun m"
    by (auto simp: claim_answer_def write_begun_def begun_def)
  have new: "wo_message_id (sod_outbox d) \<notin># written_ids s"
    using written_begun [OF inv] pending outbox_by_id [OF J] by metis
  have s': "adapter_inv E (s\<lparr>ad_db := db\<rparr>)" by (rule adapter_inv_evolves [OF inv post(2,1)])
  have ids: "written_ids (enter (ToWrite d) (s\<lparr>ad_db := db\<rparr>)) = add_mset (wo_message_id (sod_outbox d)) (written_ids s)"
    by (simp add: written_ids_def enter_def)
  have "count (written_ids (enter (ToWrite d) (s\<lparr>ad_db := db\<rparr>))) i \<le> 1" for i
    using new inv unfolding ids by (auto simp: adapter_inv_def not_in_iff)
  moreover have "\<exists>m \<in> set (db_outbox db). outbox_fixed (sod_outbox d) m \<and> begun m"
    using w by (metis outbox_fixed_refl)
  ultimately show ?thesis using s' by (simp add: adapter_inv_def enter_def)
qed

lemma adapter_inv_written:
  assumes inv: "adapter_inv E s" and d: "ad_phases s = add_mset (ToWrite d) rest" "outbound_frame d = Inr frame"
  shows "adapter_inv E (s\<lparr>ad_phases := rest, ad_frames := ad_frames s @ [frame]\<rparr>)"
proof -
  obtain m where m: "m \<in> set (db_outbox (ad_db s))" "outbox_fixed (sod_outbox d) m" "begun m"
    using inv d(1) by (auto simp: adapter_inv_def)
  have frame: "frame_of (sod_outbox d) frame" using d(2) by (auto simp: outbound_frame_def frame_of_def split: option.splits)
  have "written_ids (s\<lparr>ad_phases := rest, ad_frames := ad_frames s @ [frame]\<rparr>) = written_ids s"
    using d(1) frame by (simp add: written_ids_def frame_of_def)
  moreover have "\<exists>m \<in> set (db_outbox (ad_db s)). frame_of m frame \<and> begun m" using m frame_of_fixed [OF frame] by blast
  ultimately show ?thesis using inv d(1) by (simp add: adapter_inv_def)
qed

lemma run_write_wp:
  assumes "wpT m (\<lambda>_ db'. delivery_inv J db' \<and> evolves db db') db" "delivery_inv J db" "run_write m db = (result, db')"
  shows "delivery_inv J db' \<and> evolves db db'"
  using assms by (cases "m db") (auto simp: wpT_def run_write_def)

lemma after_claim_inv:
  assumes inv: "adapter_inv E s" and run: "run_write (claim_outbox_on (oe_json E) c) (ad_db s) = (result, db)"
  shows "adapter_inv E (after_claim E c result (s\<lparr>ad_db := db\<rparr>))"
proof (cases "claim_outbox_on (oe_json E) c (ad_db s)")
  case (Inl e)
  then have "result = Inl e" "db = ad_db s" using run by (auto simp: run_write_def)
  then show ?thesis using inv by (auto simp: after_claim_def intro: adapter_inv_enter)
next
  case (Inr v)
  then have r: "result = Inr (fst v)" "claim_outbox_on (oe_json E) c (ad_db s) = Inr (fst v, db)"
    using run by (auto simp: run_write_def split: prod.splits)
  have J: "delivery_inv (oe_json E) (ad_db s)" using inv by (simp add: adapter_inv_def)
  have post: "delivery_inv (oe_json E) db" "evolves (ad_db s) db" "claim_answer c (ad_db s) (fst v) db"
    using wpT_ok [OF claim_wp [OF J] r(2), of "\<lambda>v db'. delivery_inv (oe_json E) db' \<and> evolves (ad_db s) db' \<and> claim_answer c (ad_db s) v db'"]
    by auto
  have s': "adapter_inv E (s\<lparr>ad_db := db\<rparr>)" by (rule adapter_inv_evolves [OF inv post(2,1)])
  have skip: "adapter_inv E (s\<lparr>ad_db := db, ad_skips := ad_skips s @ skip_reserved_sequence d\<rparr>)"
    if "sod_outbox d \<in> set (db_outbox db)" "wo_status (sod_outbox d) = WireOutboxStatus.Cancelled" for d
    using adapter_inv_skip [OF s', of d] that by simp
  show ?thesis
  proof (cases "fst v")
    case (Claimed d)
    then show ?thesis using adapter_inv_claimed [OF inv, of c d db] r by (simp add: after_claim_def)
  qed (use r post(3) skip in \<open>auto simp: after_claim_def Let_def claim_answer_def\<close>)
qed


lemma complete_write_wp:
  assumes "delivery_inv (oe_json E) db"
  shows "wpT (complete_write E now d outcome) (\<lambda>_ db'. delivery_inv (oe_json E) db' \<and> evolves db db') db"
  unfolding complete_write_def Let_def by (cases outcome) (simp_all add: finish_write_wp [OF assms])

lemma adapter_step_inv:
  assumes step: "adapter_step E s s'" and inv: "adapter_inv E s"
  shows "adapter_inv E s'"
proof -
  have J: "delivery_inv (oe_json E) (ad_db s)" "parents_ok (oe_json E) (ad_db s)" using inv by (simp_all add: adapter_inv_def)
  from step show ?thesis
  proof cases
    case (prepare_step request subject sync now validation p db)
    have "delivery_inv (oe_json E) db" "evolves (ad_db s) db"
      using prepare_post [OF J] prepare_step(2) unfolding okT_def prepared_post_def by blast+
    then have "adapter_inv E (s\<lparr>ad_db := db\<rparr>)" by (intro adapter_inv_evolves [OF inv])
    then show ?thesis unfolding prepare_step(1)
      by (auto simp: after_preparation_def intro: adapter_inv_enter split: preparation.splits)
  next
    case (claim_step d rest now claim result db)
    show ?thesis unfolding claim_step(1)
      using after_claim_inv [OF adapter_inv_leave [OF inv claim_step(2)], of claim result db] claim_step(4) by simp
  next
    case (write_step d rest frame live)
    have "adapter_inv E (s\<lparr>ad_phases := rest, ad_frames := (if reaches_sink live frame then ad_frames s @ [frame] else ad_frames s)\<rparr>)"
      using adapter_inv_written [OF inv write_step(2,3)] adapter_inv_leave [OF inv write_step(2)] by simp
    then show ?thesis unfolding write_step(1) by (intro adapter_inv_enter) simp_all
  next
    case (finish_step d outcome rest now completion db)
    have "delivery_inv (oe_json E) db" "evolves (ad_db s) db"
      using run_write_wp [OF complete_write_wp [OF J(1)] J(1) finish_step(3)] by simp_all
    then have "adapter_inv E (s\<lparr>ad_phases := rest, ad_db := db\<rparr>)"
      using adapter_inv_evolves [OF adapter_inv_leave [OF inv finish_step(2)]] by simp
    then show ?thesis unfolding finish_step(1)
      by (auto simp: after_completion_def intro!: adapter_inv_enter split: option.splits)
  next
    case (store_step op answer db)
    then have "delivery_inv (oe_json E) db \<and> evolves (ad_db s) db"
      using gateway_op_commits [OF J store_step(2)] J(1) by (cases "run_op (oe_json E) op (ad_db s)") (auto simp: run_write_def)
    then show ?thesis using adapter_inv_evolves [OF inv] store_step(1) by simp
  qed (use adapter_inv_leave [OF inv] in simp_all)
qed

lemma distinct_if_count: "(\<And>i. count (mset xs) i \<le> 1) \<Longrightarrow> distinct xs"
proof (induction xs)
  case (Cons x xs)
  have "count (mset xs) x = 0" using Cons.prems [of x] by simp
  moreover have "count (mset xs) i \<le> 1" for i by (rule le_trans [OF _ Cons.prems [of i]]) simp
  ultimately show ?case using Cons.IH by simp
qed simp

lemma adapter_run_inv: "adapter_run E s s' \<Longrightarrow> adapter_inv E s \<Longrightarrow> adapter_inv E s'"
  by (induction rule: rtranclp_induct) (auto intro: adapter_step_inv)

text \<open>C7: A message is written at most once. However requests, claims, writes, completions, crashes and the other operations of
  the store interleave, starting from a consistent store, no two frames that reach a transport are of one message or of one sequence number of
  a session; every frame carries the message, session, sequence number and text of a stored row whose write has begun; and a sequence
  number that the transport was told to skip is never written. A consistent store is one that satisfies the invariant of its tables and
  whose commands and runs are readable; the other operations are those of the gateway (\<open>gateway_op\<close>: deliveries are enqueued under the attempt id of
  their message, lone attempts have no message, and the capabilities of a session read back). Nothing else is assumed of
  \<open>serde_json\<close>: a row is read back before its transaction commits, and one that does not read back is never stored.\<close>

theorem message_written_once:
  assumes "delivery_inv (oe_json E) db" "parents_ok (oe_json E) db"
    and "adapter_run E \<lparr>ad_db = db, ad_phases = {#}, ad_frames = [], ad_skips = [], ad_answers = []\<rparr> s"
  shows "distinct (map of_message_id (ad_frames s)) \<and> distinct (map (\<lambda>f. (of_session_id f, of_sequence f)) (ad_frames s))
    \<and> (\<forall>f \<in> set (ad_frames s). (\<exists>m \<in> set (db_outbox (ad_db s)). frame_of m f \<and> begun m)
         \<and> (of_session_id f, of_sequence f) \<notin> set (ad_skips s))"
proof -
  have "adapter_inv E \<lparr>ad_db = db, ad_phases = {#}, ad_frames = [], ad_skips = [], ad_answers = []\<rparr>"
    using assms(1,2) by (simp add: adapter_inv_def written_ids_def)
  then have inv: "adapter_inv E s" by (rule adapter_run_inv [OF assms(3)])
  then have J: "delivery_inv (oe_json E) (ad_db s)" by (simp add: adapter_inv_def)
  have rows: "\<exists>m \<in> set (db_outbox (ad_db s)). frame_of m f \<and> begun m" if "f \<in> set (ad_frames s)" for f
    using inv that by (simp add: adapter_inv_def)
  have "count (mset (map of_message_id (ad_frames s))) i \<le> 1" for i
    using inv by (auto simp: adapter_inv_def written_ids_def intro: le_trans [OF le_add1])
  then have ids: "distinct (map of_message_id (ad_frames s))" by (rule distinct_if_count)
  have same: "of_message_id f = of_message_id g" if fg: "f \<in> set (ad_frames s)" "g \<in> set (ad_frames s)"
    "of_session_id f = of_session_id g" "of_sequence f = of_sequence g" for f g
  proof -
    obtain m m' where m: "m \<in> set (db_outbox (ad_db s))" "frame_of m f" "m' \<in> set (db_outbox (ad_db s))" "frame_of m' g"
      using rows [OF fg(1)] rows [OF fg(2)] by blast
    then have "m = m'" using fg(3,4) by (intro inv_sequence [OF J]) (simp_all add: frame_of_def)
    then show ?thesis using m by (simp add: frame_of_def)
  qed
  have inj: "inj_on of_message_id (set (ad_frames s))" "distinct (ad_frames s)" using ids by (simp_all add: distinct_map)
  have "inj_on (\<lambda>f. (of_session_id f, of_sequence f)) (set (ad_frames s))"
    by (rule inj_onI, rule inj_onD [OF inj(1) same]) simp_all
  then have "distinct (map (\<lambda>f. (of_session_id f, of_sequence f)) (ad_frames s))" using inj(2) by (simp add: distinct_map)
  moreover have "(of_session_id f, of_sequence f) \<notin> set (ad_skips s)" if f: "f \<in> set (ad_frames s)" for f
  proof
    assume "(of_session_id f, of_sequence f) \<in> set (ad_skips s)"
    then obtain m where "m \<in> set (db_outbox (ad_db s))" "wo_session_id m = Some (of_session_id f)" "wo_sequence m = Some (of_sequence f)"
      "wo_status m = WireOutboxStatus.Cancelled" using inv by (force simp: adapter_inv_def)
    moreover obtain m' where "m' \<in> set (db_outbox (ad_db s))" "frame_of m' f" "begun m'" using rows [OF f] by blast
    ultimately show False using inv_sequence [OF J, of m m'] by (auto simp: frame_of_def begun_def)
  qed
  ultimately show ?thesis using ids rows by blast
qed


section \<open>A delivery\<close>

text \<open>The store of \<open>Delivery_Properties\<close> behind the adapter; its JSON has one text.\<close>

definition outbound_message :: "MessageId \<Rightarrow> ExecutionCommand WireMessage" where
  "outbound_message i = \<lparr>wm_message_id = i, wm_message_type = ExecutionClientMessageType.ExecutionCommand,
     wm_schema_version = SchemaVersion_to_string SUPPORTED_SCHEMA_VERSION, wm_client_id = Some ''ea-1'', wm_session_id = None,
     wm_correlation_id = None, wm_causation_id = None, wm_sent_at = None, wm_sequence = None, wm_payload = sample_command\<rparr>"

definition outbound_request :: "MessageId \<Rightarrow> ExecutionCommand DeliveryRequest" where
  "outbound_request i = \<lparr>dr_account_id = ''acct-1'', dr_client_id = Some ''ea-1'', dr_terminal_id = Some ''mt5-1'',
     dr_command_id = Some ''cmd-1'', dr_message = outbound_message i, dr_expires_at = Some 1000\<rparr>"

definition store_env :: "ExecutionCommand outbound_env" where
  "store_env = \<lparr>oe_json = store_codec, oe_max_time_sync_age_ms = 30, oe_confirmation_timeout_ms = 500,
     oe_message_value = (\<lambda>_. Inr VNull), oe_request_value = (\<lambda>_. Inr VNull),
     oe_from_str = (\<lambda>_. Inr (outbound_message ''m1'')), oe_same_payload = (=),
     oe_store_error = (\<lambda>_. []), oe_envelope_error = (\<lambda>_. [])\<rparr>"

lemma store_env_simps [simp]: "oe_json store_env = store_codec" "oe_max_time_sync_age_ms store_env = 30"
  "rejected_request_payload store_env r = Inr store_text" "i64_try_from 30 = Inr 30" "saturating_sub 30 30 = 0"
  by (simp_all add: store_env_def rejected_request_payload_def from_serializable_def i64_try_from_def i64_max_def i64_min_def saturating_sub_def)

definition expired_attempt :: StoredDeliveryAttempt where
  "expired_attempt = \<lparr>da_attempt_id = ''attempt:m2'', da_subject = DeliverySubject.ExecutionCommand ''cmd-1'', da_session_id = None,
     da_message_id = None, da_request_payload = Some store_text, da_status = CommandDeliveryAttemptStatus.Cancelled,
     da_attempted_at = 2000, da_acked_at = None, da_error = Some ''COMMAND_EXPIRED'', da_revision = 0, da_updated_at = 2000\<rparr>"

definition expired_db :: delivery_db where
  "expired_db = store_db\<lparr>db_attempts := db_attempts store_db @ [expired_attempt]\<rparr>"

lemma expired_inv: "delivery_inv store_codec expired_db"
  unfolding expired_db_def
  by (rule inv_add_attempt(1) [OF store_inv])
    (simp_all add: expired_attempt_def attempt_ok_def store_db_def store_with_def store_attempt_def attempt_conflict_def bound_attempt_statuses_def)

lemma expired_recorded:
  "record_rejection store_env (DeliverySubject.ExecutionCommand ''cmd-1'') ''m2'' None store_text 2000 DeliveryRejectionReason.Expired store_db
   = Inr (rejection_of expired_attempt ''m2'' DeliveryRejectionReason.Expired, expired_db)"
proof -
  let ?n = "\<lparr>nda_attempt_id = attempt_id ''m2'', nda_subject = DeliverySubject.ExecutionCommand ''cmd-1'', nda_session_id = None,
    nda_message_id = None, nda_request_payload = Some store_text, nda_status = CommandDeliveryAttemptStatus.Cancelled,
    nda_attempted_at = 2000, nda_acked_at = None, nda_error = Some ''COMMAND_EXPIRED'', nda_updated_at = 2000\<rparr>"
  have row: "stored_attempt ?n = expired_attempt" by (simp add: stored_attempt_def expired_attempt_def attempt_id_def)
  have "\<not> trim_is_empty ''attempt:m2''" by code_simp
  then have valid: "validate_new_attempt ?n = Inr ()"
    by (simp add: validate_new_attempt_def require_non_empty_def attempt_id_def bound_attempt_statuses_def)
  have "attempt_row_check store_codec expired_attempt"
    using store_hash by (simp add: attempt_row_check_def expired_attempt_def attempt_time_def sql_max_def bound_attempt_statuses_def store_codec_def)
  then have ins: "insert_attempt_row store_codec expired_attempt store_db = Inr (True, expired_db)"
    by (simp add: insert_attempt_row_def)
      (simp add: expired_db_def store_db_def store_with_def store_attempt_def expired_attempt_def attempt_conflict_def attempt_time_def
        sql_max_def attempt_references_def store_command_def)
  have "find (\<lambda>r. da_attempt_id r = ''attempt:m2'') (db_attempts expired_db) = Some expired_attempt"
    by (simp add: expired_db_def store_db_def store_with_def store_attempt_def expired_attempt_def)
  then have "fetch_delivery_attempt_by_id store_codec (attempt_id ''m2'') expired_db = Inr (Some expired_attempt, expired_db)"
    by (simp add: fetch_delivery_attempt_by_id_def fetch_attempt_eq [OF expired_inv] attempt_id_def)
  then have "record_delivery_attempt_on store_codec ?n store_db = Inr (WriteOutcome.Inserted expired_attempt, expired_db)"
    using valid ins row by (simp add: record_delivery_attempt_on_def bindT_apply requiredT_def)
  then show ?thesis
    by (simp add: record_rejection_def storeT_def bindT_apply Let_def rejection_of_def) (simp add: expired_attempt_def)
qed

lemma request_expired: "validate_command_request (outbound_request ''m2'') 2000 = Inl DeliveryRejectionReason.Expired"
proof -
  have "\<not> trim_is_empty ''m2''" by code_simp
  moreover have "SchemaVersion_from_str (SchemaVersion_to_string SUPPORTED_SCHEMA_VERSION) = Inr SUPPORTED_SCHEMA_VERSION"
    by (rule parse_print_version) (simp_all add: SUPPORTED_SCHEMA_VERSION_def u16_max_def)
  ultimately show ?thesis
    by (simp add: validate_command_request_def validate_draft_envelope_def outbound_request_def outbound_message_def sample_command_def
        compatibility_with_def SUPPORTED_SCHEMA_VERSION_def)
qed

definition quiet_turn :: "i64 \<Rightarrow> delivery_turn" where
  "quiet_turn now = \<lparr>dt_now = Inr now, dt_claim_now = Inr now, dt_finish_now = Inr now, dt_live = None,
     dt_before_claim = (\<lambda>db. db), dt_before_finish = (\<lambda>db. db), dt_before_reload = (\<lambda>db. db)\<rparr>"

definition expired_rejection :: DeliveryRejection where
  "expired_rejection = \<lparr>drj_attempt_id = ''attempt:m2'', drj_message_id = ''m2'', drj_session_id = None, drj_rejected_at = 2000,
     drj_reason = DeliveryRejectionReason.Expired\<rparr>"

lemma request_rejected:
  "deliver_command store_env (quiet_turn 2000) (outbound_request ''m2'') store_db
   = (Inr (DeliveryOutcome.Rejected expired_rejection), expired_db, [])"
proof -
  have "find (\<lambda>r. wo_message_id r = ''m2'') (db_outbox store_db) = None"
    by (simp add: store_db_def store_with_def store_outbox_def)
  then have out: "fetch_outbound_delivery store_codec ''m2'' store_db = Inr (None, store_db)"
    by (simp add: fetch_outbound_delivery_def bindT_apply fetch_outbox_eq [OF store_inv])
  have "find (\<lambda>r. da_attempt_id r = ''attempt:m2'') (db_attempts store_db) = None"
    by (simp add: store_db_def store_with_def store_attempt_def)
  then have att: "fetch_delivery_attempt_by_id store_codec (attempt_id ''m2'') store_db = Inr (None, store_db)"
    by (simp add: fetch_delivery_attempt_by_id_def fetch_attempt_eq [OF store_inv] attempt_id_def)
  have ids: "wm_message_id (dr_message (outbound_request ''m2'')) = ''m2''"
      "command_subject (outbound_request ''m2'') = DeliverySubject.ExecutionCommand ''cmd-1''"
    by (simp_all add: outbound_request_def outbound_message_def sample_command_def command_subject_def)
  have "prepare_delivery store_env (outbound_request ''m2'') (DeliverySubject.ExecutionCommand ''cmd-1'') True 2000
      (validate_command_request (outbound_request ''m2'') 2000) store_db
    = Inr (Answered (rejection_of expired_attempt ''m2'' DeliveryRejectionReason.Expired), expired_db)"
    by (simp add: prepare_delivery_def Let_def bindT_apply storeT_def ids out att request_expired expired_recorded)
  then show ?thesis
    by (simp add: deliver_command_def prepare_and_write_def quiet_turn_def ids rejection_of_def expired_rejection_def)
      (simp add: expired_attempt_def)
qed

theorem rejected_request_is_replayed_witness:
  "deliver_command store_env (quiet_turn 3000) (outbound_request ''m2'') expired_db
   = (Inr (DeliveryOutcome.Rejected expired_rejection), expired_db, [])"
proof (rule rejected_request_is_replayed [OF _ _ _ request_rejected])
  have "named attempt_id store_db"
    by (simp add: named_def store_db_def store_with_def store_attempt_def attempt_id_def)
  then show "gateway_ok store_env store_db"
    using store_inv store_parents by (simp add: gateway_ok_def store_db_def)
  show "machine_sized store_db" by (simp add: machine_sized_def store_db_def store_with_def store_session_def u64_max_def)
  show "others_run store_env (quiet_turn 2000)" by (simp add: others_run_def quiet_turn_def)
  show "\<not> by_transport (drj_reason expired_rejection)" by (simp add: by_transport_def expired_rejection_def)
  show "stored_as_requested store_env (outbound_request ''m2'') expired_db"
    by (auto simp: stored_as_requested_def stored_pair_def expired_db_def store_db_def store_with_def store_outbox_def outbound_request_def
        outbound_message_def)
  show "gateway_run store_env expired_db expired_db" by simp
  show "dt_now (quiet_turn 3000) = Inr 3000" by (simp add: quiet_turn_def)
qed

theorem stored_delivery_has_outcome_witness:
  "\<exists>outcome. durable_delivery_outcome \<lparr>sod_outbox = claimed_outbox, sod_attempt = claimed_attempt\<rparr> 50 500 = Inr outcome
    \<and> outcome_describes claimed_outbox claimed_attempt outcome"
  by (rule stored_delivery_has_outcome [OF claimed_inv store_parents run_start])
    (simp_all add: store_with_def claimed_outbox_def claimed_attempt_def outbox_state_def attempt_state_def store_outbox_def
      store_attempt_def i64_max_def i64_min_def checked_add_i64_def)


definition adapter_start :: adapter_state where
  "adapter_start = \<lparr>ad_db = store_db, ad_phases = {#}, ad_frames = [], ad_skips = [], ad_answers = []\<rparr>"

definition store_frame :: OutboundFrame where
  "store_frame = \<lparr>of_session_id = ''s1'', of_message_id = ''m1'', of_sequence = 2, of_wire_bytes = as_bytes ''{}''\<rparr>"

text \<open>The pending delivery of the store is resumed, claimed and written.\<close>

lemma store_written:
  "adapter_run store_env adapter_start \<lparr>ad_db = store_with store_session claimed_outbox claimed_attempt,
     ad_phases = {#ToFinish \<lparr>sod_outbox = claimed_outbox, sod_attempt = claimed_attempt\<rparr> SinkWriteOutcome.Written#},
     ad_frames = [store_frame], ad_skips = [], ad_answers = []\<rparr>"
proof -
  let ?d = "\<lparr>sod_outbox = store_outbox, sod_attempt = store_attempt\<rparr>" and ?c = "\<lparr>sod_outbox = claimed_outbox, sod_attempt = claimed_attempt\<rparr>"
  let ?db = "store_with store_session claimed_outbox claimed_attempt"
  have m: "store_outbox \<in> set (db_outbox store_db)" "find (\<lambda>r. wo_message_id r = ''m1'') (db_outbox store_db) = Some store_outbox"
    "find (\<lambda>r. da_message_id r = Some ''m1'') (db_attempts store_db) = Some store_attempt"
    by (simp_all add: store_db_def store_with_def store_outbox_def store_attempt_def)
  have "validate_outbox_parent_payload store_codec store_outbox store_db = Inr ((), store_db)"
    using inv_parent [OF store_inv m(1)] by (simp add: parent_ok_def)
  then have out: "fetch_outbound_delivery store_codec ''m1'' store_db = Inr (Some ?d, store_db)"
    by (simp add: fetch_outbound_delivery_def bindT_apply requiredT_def fetch_delivery_attempt_by_message_def
        fetch_eqs [OF store_inv] m)
  have "validate_existing_delivery store_env (outbound_request ''m1'') (DeliverySubject.ExecutionCommand ''cmd-1'') ?d = Inr ()"
    by (simp add: validate_existing_delivery_def store_env_def outbound_request_def outbound_message_def store_outbox_def
        store_attempt_def attempt_id_def)
  then have prepared: "prepare_delivery store_env (outbound_request ''m1'') (DeliverySubject.ExecutionCommand ''cmd-1'') True 30 (Inr ())
      (ad_db adapter_start) = Inr (Existing ?d, store_db)"
    using out by (simp add: prepare_delivery_def Let_def bindT_apply storeT_def is_identity_mismatch_def adapter_start_def)
      (simp add: outbound_request_def outbound_message_def)
  let ?s1 = "adapter_start\<lparr>ad_phases := {#ToClaim ?d#}\<rparr>"
  have s1: "adapter_step store_env adapter_start ?s1"
    using adapter_step.prepare_step [OF prepared]
    by (simp add: after_preparation_def resumes_def enter_def adapter_start_def store_outbox_def store_attempt_def)
  have "claim_request store_env 30 ?d = Inr store_claim"
    by (simp add: claim_request_def next_projection_time_def store_claim_def store_outbox_def store_attempt_def is_command_subject_def)
  then have s2: "adapter_step store_env ?s1 (adapter_start\<lparr>ad_db := ?db, ad_phases := {#ToWrite ?c#}\<rparr>)"
    using adapter_step.claim_step [of ?s1 ?d "{#}" store_env 30 store_claim "Inr (OutboxClaimOutcome.Claimed ?c)" ?db] store_claimed
    by (simp add: run_write_def after_claim_def enter_def adapter_start_def)
  have frame: "outbound_frame ?c = Inr store_frame"
    by (simp add: outbound_frame_def claimed_outbox_def outbox_state_def store_outbox_def store_frame_def store_text_def)
  let ?live = "Some (LiveSessionHandle_new ''s1'' 0, True, \<lambda>_. SinkWriteOutcome.Written)"
  have s3: "adapter_step store_env (adapter_start\<lparr>ad_db := ?db, ad_phases := {#ToWrite ?c#}\<rparr>)
    \<lparr>ad_db = ?db, ad_phases = {#ToFinish ?c SinkWriteOutcome.Written#}, ad_frames = [store_frame], ad_skips = [], ad_answers = []\<rparr>"
    using adapter_step.write_step [of "adapter_start\<lparr>ad_db := ?db, ad_phases := {#ToWrite ?c#}\<rparr>" ?c "{#}" store_frame store_env ?live] frame
    by (simp add: enter_def adapter_start_def write_frame_def handle_write_def reaches_sink_def store_frame_def LiveSessionHandle_new_def)
  show ?thesis using s1 s2 s3 by (meson rtranclp.rtrancl_into_rtrancl rtranclp.rtrancl_refl)
qed

theorem message_written_once_witness:
  "\<exists>m \<in> set (db_outbox (store_with store_session claimed_outbox claimed_attempt)). frame_of m store_frame \<and> begun m"
proof -
  have "delivery_inv (oe_json store_env) store_db" "parents_ok (oe_json store_env) store_db"
    using store_inv store_parents by (simp_all add: store_db_def)
  from message_written_once [OF this store_written [unfolded adapter_start_def]] show ?thesis by simp
qed


end
