(* ===== verification/Spec2Isabelle.thy ===== *)
theory Spec2Isabelle
  imports Builder_Properties Execution_State Circuit_Breaker_Properties Projector Framing Wire Reconciliation_Properties
    Outbound_Writer Outbound_Delivery
begin

text \<open>
  Sinan is a trading server. Strategies send trade intents; the risk engine approves or rejects them
  under policies and a circuit breaker; an approved intent becomes an execution plan with signed
  commands; the gateway delivers the commands to execution clients over framed connections; each
  command has a lifecycle driven by receipts, execution events and time; plans are projected from the
  lifecycles of their commands; and what stays uncertain is reconciled with the clients, or by hand.
  This development models the parts that decide: data, validation, state machines and computations, in
  the order and with the names of the code under \<open>src/crates\<close>.

  \<^bold>\<open>Conventions.\<close> A struct is a record whose fields carry a prefix, an enum a datatype,
  \<open>Result\<close> the sum \<open>result\<close> with the error on the left and \<open>bindR\<close> for \<open>?\<close>. \<open>i64\<close> is \<open>int\<close>, unsigned
  integers are \<open>nat\<close>, with the range written out where the code can leave it; an \<open>f64\<close> is its bit
  pattern (\<open>Prelude\<close>), with IEEE-754 arithmetic in \<open>Float64\<close>; a \<open>String\<close> is its UTF-8 bytes. Where code
  can panic, the model returns an option and \<open>None\<close> is the panic, and a theorem says whether it occurs. A
  \<open>BTreeMap\<close> is its sorted entry list behind the locale \<open>ordered_map\<close> (\<open>Ordered_Map\<close>); a \<open>HashMap\<close> is
  a map, and an iteration over one takes the order as an argument. Code outside the repository is a
  parameter: \<open>decimal_arith\<close> for \<open>rust_decimal\<close> and \<open>request_hashing\<close> for \<open>serde_json\<close>, \<open>sha2\<close> and \<open>hex\<close>
  (\<open>Risk_Model\<close>), \<open>signing_crypto\<close> for HMAC-SHA-256 and hex (\<open>Signing\<close>), \<open>json_codec\<close> for the JSON of the store, the JSON decoders of \<open>Framing\<close>,
  \<open>Wire\<close> and \<open>Circuit_Breaker_Restore\<close>. What is assumed of them is a named predicate (\<open>hex_laws\<close>,
  \<open>positive_subtraction_total\<close>), and a witness instantiates it. Loops are structural recursions, or
  \<open>partial_function (option)\<close> with a proof that they return; no definition uses fuel.

  \<^bold>\<open>Types and protocol.\<close> \<open>Enums\<close> has the string enums of \<open>types/enums.rs\<close>, each an
  interpretation of the locale \<open>string_enum\<close>; \<open>Dto\<close> the structs of \<open>types/dto.rs\<close>, \<open>types/ids.rs\<close> and of
  \<open>protocol/payload.rs\<close>. \<open>Execution_Plan\<close> is the validation of plans; \<open>Execution_Plan_Correct\<close> shows that
  its dependency check decides acyclicity for every iteration order. \<open>Risk_Result\<close> is
  \<open>RiskResult::validate\<close>, its \<open>expect\<close>s as panics and a proof that they do not occur. \<open>Wire\<close> has schema versions, message types and the envelope (\<open>version.rs\<close>,
  \<open>message.rs\<close>), \<open>Framing\<close> the length-prefixed frames (\<open>framing.rs\<close>): round trip, independence of chunk
  boundaries, bounded buffer. \<open>Signing\<close> is \<open>signing.rs\<close>; \<open>Signing_Correct\<close> shows that the canonical
  string binds every field and that verification accepts exactly the signature.

  \<^bold>\<open>Risk.\<close> \<open>Risk_Model\<close>, \<open>Risk_Evaluator\<close>, \<open>Risk_Checks\<close>, \<open>Risk_Sizing\<close> and \<open>Risk_Approval\<close> are
  \<open>risk/model.rs\<close> and \<open>risk/evaluator.rs\<close>; \<open>Risk_Correct\<close> and \<open>Risk_Properties\<close> show that approved sizes
  respect every limit, that an approval needs a closed breaker and expires with its evidence, and that
  the evaluator never panics. \<open>Circuit_Breaker\<close> and \<open>Circuit_Breaker_Restore\<close> are
  \<open>risk/circuit_breaker.rs\<close>; \<open>Circuit_Breaker_Safety\<close> and \<open>Circuit_Breaker_Properties\<close> show that it fails
  closed, refines a three-state machine with a recovery epoch (locale \<open>recovery_machine\<close>), closes only
  after recovery, and survives a restart.

  \<^bold>\<open>Execution.\<close> \<open>Execution_State\<close> is the command lifecycle (\<open>execution/state.rs\<close>): a
  bounded, versioned state machine in which replays are duplicates and terminal states final, but for a
  late receipt. \<open>delivery_failed_unreachable\<close> records that the code has no way into \<open>DELIVERY_FAILED\<close>, a
  status that the architecture document reaches from \<open>DISPATCHED\<close>.
  \<open>Projector\<close> is \<open>execution/projector.rs\<close>: projection is idempotent and fills outrank the lifecycle.
  \<open>Builder\<close> is \<open>execution/builder.rs\<close>; \<open>Builder_Correct\<close> and \<open>Builder_Properties\<close> tie a built bundle to the
  approval, the signature, the lifecycle's initial states and the projector.

  \<^bold>\<open>Reconciliation.\<close> \<open>Reconciliation\<close> is the crate \<open>reconciliation\<close>;
  \<open>Reconciliation_Correct\<close> and \<open>Reconciliation_Properties\<close> show which commands an evaluation leaves
  pending, that it does not depend on the order of its inputs, and that what is pending can be
  escalated.

  \<^bold>\<open>Gateway.\<close> \<open>Gateway_Auth\<close> is \<open>gateway/auth.rs\<close>: authentication accepts exactly the
  configured secrets. \<open>Live_Sessions\<close> is the atomic word of a session handle (\<open>gateway/registry.rs\<close>) under
  every interleaving of writers and fences, \<open>Live_Registry\<close> the registry's maps: at most one open handle
  per route. \<open>Outbound_Writer\<close> is the ordered writer of a connection (\<open>gateway/writer.rs\<close>): frames leave in
  sequence, and every request is answered exactly once. A round of its \<open>select!\<close> is one step, which
  \<open>receive_state_close\<close> justifies.

  \<^bold>\<open>Store.\<close> \<open>Store_Tx\<close> has the errors and write transactions of the store
  (\<open>store/error.rs\<close>, \<open>store/connection.rs\<close>): a transaction is a function of the database that fails, and is
  rolled back, or returns the changed database; \<open>wpT\<close> is its weakest precondition, and the locale
  \<open>versioned_rows\<close> what compare-and-set updates keep of a table. \<open>Canonical_Json\<close> is \<open>store/json.rs\<close>: sorting the keys is
  a normal form of documents up to the order of keys. Whether a text reads back is not assumed: \<open>serde_json\<close> does not promise it
  for every number and depth. \<open>Delivery_Tables\<close> has the three tables of
  outbound delivery, their decoding (\<open>store/repository.rs\<close>) and the effect of inserts and updates under the
  checks, indexes and triggers of the migrations; \<open>Delivery_Store\<close> the reads, \<open>Delivery_Ops\<close> every write operation of
  \<open>store/gateway_delivery.rs\<close>. \<open>Delivery_Rows\<close> says how a row may change, \<open>Delivery_Invariant\<close> is the invariant that
  ties an outbox row to its attempt, session and parent; \<open>Delivery_Settle\<close>, \<open>Delivery_Sessions\<close>,
  \<open>Delivery_Flow\<close> and \<open>Delivery_Writes\<close> are the contracts of the operations, and every sequence of
  transactions keeps the invariant (\<open>delivery_run\<close>). \<open>Delivery_Properties\<close> shows that everything stored stays readable,
  that settled rows are final, that sequence numbers only grow, that a delivery is claimed at most once and only
  when its session, clock and expiry allow it, and what closing, replacing and a restart settle.
  \<open>Delivery_Commits\<close>
  shows that what a transaction commits was read back within it, so that a payload that does not read back is never stored, and
  has the operations that run beside the adapter (\<open>gateway_op\<close>).
  \<open>serde_json\<close>, SHA-256 and SQLite's \<open>json_valid\<close> are the parameter \<open>store_json\<close>.

  \<^bold>\<open>Outbound delivery.\<close> \<open>Gateway_Validation\<close> has the delivery port (\<open>execution/delivery.rs\<close>), the
  validation of requests and of the configuration (\<open>gateway/validation.rs\<close>, \<open>gateway/config.rs\<close>).
  \<open>Outbound_Adapter\<close> is \<open>gateway/outbound.rs\<close> on the store: the transaction that prepares a delivery, its claim, write and completion, and
  the answers read from what is stored. \<open>deliver_command\<close> and \<open>deliver_reconciliation\<close> are one request from its first clock reading to
  its answer, with what other tasks commit in between as an argument; \<open>adapter_step\<close> interleaves deliveries with each other, with every operation of the store and
  with crashes. \<open>Outbound_Store\<close> shows what the store of a running gateway keeps (\<open>gateway_ok\<close>) and where a rejection is stored.
  \<open>Outbound_Delivery\<close> shows that a message reaches a transport at most once and as it is stored, that every stored delivery has an
  outcome, and that a rejection the transport did not cause is replayed as it was given. The configuration, \<open>serde_json\<close> and the texts of errors are the
  parameter \<open>outbound_env\<close>.

  \<^bold>\<open>Not modelled.\<close> The other tables of the store (facts, plans, commands, events,
  reconciliation runs, the inbound journal), the sessions and inbound path of the gateway, its transports on tokio and axum, the HTTP control plane and the
  processes of \<open>core\<close>: sockets, task scheduling, and SQL that records what the parts above
  decide. The derived \<open>serde\<close> implementations are described by the tables and parameters above.
\<close>

end
